(* ===== verification/Prelude.thy ===== *)
theory Prelude
  imports Main "HOL-Library.Word"
begin

unbundle bit_operations_syntax

text \<open>
  Shared vocabulary of the development: the names of the machine integer types of
  \<^verbatim>\<open>utils/types.h\<close>, the two views of a 16-bit register pair (the union
  \<^verbatim>\<open>CpuI8080::RegPair\<close>), single-bit views of packed bytes, the collections of rewrite
  rules, and two interfaces used by several components: \<open>stepping\<close> (a state machine with an
  invariant) and \<open>byte_store\<close> (a memory with read-over-write laws).
\<close>

section \<open>Integer types and rule collections\<close>

type_synonym u8 = "8 word"
type_synonym u16 = "16 word"
type_synonym u32 = "32 word"
type_synonym u64 = "64 word"
type_synonym addr = u16
type_synonym global_addr = u32

named_theorems cpu_simps \<open>unfolding of the processor's helpers\<close>
named_theorems pair_simps \<open>views of register pairs\<close>
named_theorems frame_simps \<open>which fields an operation leaves alone\<close>

section \<open>Register pairs\<close>

definition lo :: "u16 \<Rightarrow> u8" where
  "lo w = ucast w"

definition hi :: "u16 \<Rightarrow> u8" where
  "hi w = ucast (drop_bit 8 w)"

definition with_lo :: "u16 \<Rightarrow> u8 \<Rightarrow> u16" where
  "with_lo w b = push_bit 8 (drop_bit 8 w) OR ucast b"

definition with_hi :: "u16 \<Rightarrow> u8 \<Rightarrow> u16" where
  "with_hi w b = push_bit 8 (ucast b) OR take_bit 8 w"

definition pair :: "u8 \<Rightarrow> u8 \<Rightarrow> u16" where
  "pair h l = push_bit 8 (ucast h) OR ucast l"

lemmas pair_defs = lo_def hi_def with_lo_def with_hi_def pair_def

lemma lo_with_lo [simp, pair_simps]: "lo (with_lo w b) = b"
  by (rule bit_word_eqI) (auto simp: pair_defs bit_simps dest: bit_imp_le_length)

lemma hi_with_lo [simp, pair_simps]: "hi (with_lo w b) = hi w"
  by (rule bit_word_eqI) (auto simp: pair_defs bit_simps dest: bit_imp_le_length)

lemma hi_with_hi [simp, pair_simps]: "hi (with_hi w b) = b"
  by (rule bit_word_eqI) (auto simp: pair_defs bit_simps dest: bit_imp_le_length)

lemma lo_with_hi [simp, pair_simps]: "lo (with_hi w b) = lo w"
  by (rule bit_word_eqI) (auto simp: pair_defs bit_simps dest: bit_imp_le_length)

lemma lo_pair [simp, pair_simps]: "lo (pair h l) = l"
  by (rule bit_word_eqI) (auto simp: pair_defs bit_simps dest: bit_imp_le_length)

lemma hi_pair [simp, pair_simps]: "hi (pair h l) = h"
  by (rule bit_word_eqI) (auto simp: pair_defs bit_simps dest: bit_imp_le_length)

lemma pair_hi_lo [simp, pair_simps]: "pair (hi w) (lo w) = w"
  by (rule bit_word_eqI) (auto simp: pair_defs bit_simps dest: bit_imp_le_length)

lemma pair_eqI: "hi v = hi w \<Longrightarrow> lo v = lo w \<Longrightarrow> v = w"
  by (metis pair_hi_lo)

lemma with_lo_pair [simp, pair_simps]: "with_lo (pair h l) b = pair h b"
  by (rule pair_eqI) simp_all

lemma with_hi_pair [simp, pair_simps]: "with_hi (pair h l) b = pair b l"
  by (rule pair_eqI) simp_all

lemma with_hi_with_lo [simp, pair_simps]: "with_hi (with_lo w l) h = pair h l"
  by (rule pair_eqI) simp_all

lemma with_lo_with_hi [simp, pair_simps]: "with_lo (with_hi w h) l = pair h l"
  by (rule pair_eqI) simp_all

lemma with_lo_with_lo [simp, pair_simps]: "with_lo (with_lo w a) b = with_lo w b"
  by (rule pair_eqI) simp_all

lemma with_hi_with_hi [simp, pair_simps]: "with_hi (with_hi w a) b = with_hi w b"
  by (rule pair_eqI) simp_all

lemma pair_add: "pair h l = push_bit 8 (ucast h) + ucast l"
  unfolding pair_def
  by (rule disjunctive_add [symmetric]) (auto simp: bit_simps dest: bit_imp_le_length)

lemma unat_pair: "unat (pair h l) = 256 * unat h + unat l"
proof -
  have "unat h < 256" "unat l < 256"
    using unsigned_less [of h] unsigned_less [of l] by simp_all
  then show ?thesis
    by (simp add: pair_add unat_word_ariths unsigned_ucast_eq take_bit_eq_mod
        push_bit_eq_mult)
qed

section \<open>Bits of a packed byte\<close>

definition put_bit :: "nat \<Rightarrow> bool \<Rightarrow> 'a::len word \<Rightarrow> 'a word" where
  "put_bit n b w = (if b then set_bit n w else unset_bit n w)"

lemma bit_put_bit:
  "bit (put_bit n b (w :: 'a::len word)) k =
    (if k = n then b \<and> n < LENGTH('a) else bit w k)"
  by (auto simp: put_bit_def bit_simps dest: bit_imp_le_length)

lemma bit_put_bit_u8 [simp]:
  "n < 8 \<Longrightarrow> bit (put_bit n b (w :: u8)) n = b"
  "k \<noteq> n \<Longrightarrow> bit (put_bit n b (w :: u8)) k = bit w k"
  by (simp_all add: bit_put_bit)

section \<open>Masks on C++ int values\<close>

lemma int_and_exp: "(z :: int) AND 2 ^ n = (if bit z n then 2 ^ n else 0)"
proof (cases "bit z n")
  case True
  then have "bit (z AND 2 ^ n) k = bit (2 ^ n :: int) k" for k
    unfolding bit_and_iff bit_exp_iff by blast
  then have "z AND 2 ^ n = 2 ^ n" by (rule bit_eqI)
  with True show ?thesis by simp
qed (simp add: and_exp_eq_0_iff_not_bit)

lemma int_and_masks:
  "(z :: int) AND 1 = z mod 2" "(z :: int) AND 3 = z mod 4" "(z :: int) AND 7 = z mod 8"
  "(z :: int) AND 0xF = z mod 16" "(z :: int) AND 0xFF = z mod 256"
  "(z :: int) AND 0xFFFF = z mod 65536"
  using take_bit_eq_mask [of 2 z] take_bit_eq_mask [of 3 z] take_bit_eq_mask [of 4 z]
    take_bit_eq_mask [of 8 z] take_bit_eq_mask [of 16 z]
  by (simp_all add: mask_eq_exp_minus_1 take_bit_eq_mod and_one_eq)

lemma int_and_bits:
  "(z :: int) AND 2 = (if bit z 1 then 2 else 0)" "(z :: int) AND 4 = (if bit z 2 then 4 else 0)"
  "(z :: int) AND 8 = (if bit z 3 then 8 else 0)" "(z :: int) AND 16 = (if bit z 4 then 16 else 0)"
  using int_and_exp [of z 1] int_and_exp [of z 2] int_and_exp [of z 3] int_and_exp [of z 4]
  by simp_all

section \<open>Shared interfaces\<close>

text \<open>
  A state machine that keeps an invariant: \<open>step i s\<close> is the state after input \<open>i\<close>.
  Components prove the one-step law; the run lemma is proved once here.
\<close>

locale stepping =
  fixes step :: "'i \<Rightarrow> 's \<Rightarrow> 's"
    and inv :: "'s \<Rightarrow> bool"
  assumes step_inv: "inv s \<Longrightarrow> inv (step i s)"
begin

lemma run_inv: "inv s \<Longrightarrow> inv (fold step is s)"
  by (induction "is" arbitrary: s) (simp_all add: step_inv)

end

text \<open>
  A store of values under keys: \<open>ok s k\<close> says that key \<open>k\<close> may be accessed in state
  \<open>s\<close>. Every memory of the program (the RAM, the CPU's view of it, a disk image) promises
  these laws; the lemmas on blocks, on overwriting and on undo logs follow from them alone.
\<close>

definition write_block :: "('k \<Rightarrow> 'v \<Rightarrow> 's \<Rightarrow> 's) \<Rightarrow> ('k \<times> 'v) list \<Rightarrow> 's \<Rightarrow> 's" where
  "write_block write kvs s = fold (\<lambda>(k, v). write k v) kvs s"

lemma write_block_simps [simp]:
  "write_block write [] s = s"
  "write_block write ((k, v) # kvs) s = write_block write kvs (write k v s)"
  by (simp_all add: write_block_def)

lemma write_block_append:
  "write_block write (xs @ ys) s = write_block write ys (write_block write xs s)"
  by (simp add: write_block_def)

definition redo_writes :: "('k \<times> 'v \<times> 'v) list \<Rightarrow> ('k \<times> 'v) list" where
  "redo_writes log = map (\<lambda>(k, b, a). (k, a)) log"

definition undo_writes :: "('k \<times> 'v \<times> 'v) list \<Rightarrow> ('k \<times> 'v) list" where
  "undo_writes log = rev (map (\<lambda>(k, b, a). (k, b)) log)"

lemma log_writes_simps [simp]:
  "redo_writes [] = []"
  "redo_writes ((k, b, a) # log) = (k, a) # redo_writes log"
  "undo_writes [] = []"
  "undo_writes ((k, b, a) # log) = undo_writes log @ [(k, b)]"
  by (simp_all add: redo_writes_def undo_writes_def)

fun undo_log_ok :: "('s \<Rightarrow> 'k \<Rightarrow> 'v) \<Rightarrow> ('k \<Rightarrow> 'v \<Rightarrow> 's \<Rightarrow> 's) \<Rightarrow> 's \<Rightarrow> ('k \<times> 'v \<times> 'v) list \<Rightarrow> bool"
where
  "undo_log_ok rd wr s [] = True"
| "undo_log_ok rd wr s ((k, b, a) # log) = (b = rd s k \<and> undo_log_ok rd wr (wr k a s) log)"

locale byte_store =
  fixes rd :: "'s \<Rightarrow> 'k \<Rightarrow> 'v"
    and wr :: "'k \<Rightarrow> 'v \<Rightarrow> 's \<Rightarrow> 's"
    and ok :: "'s \<Rightarrow> 'k \<Rightarrow> bool"
  assumes read_same: "ok s k \<Longrightarrow> rd (wr k v s) k = v"
    and read_other: "ok s k \<Longrightarrow> ok s k' \<Longrightarrow> k \<noteq> k' \<Longrightarrow> rd (wr k v s) k' = rd s k'"
    and ok_write: "ok (wr k v s) k' = ok s k'"
begin

lemma ok_write_block: "ok (write_block wr kvs s) k = ok s k"
proof (induction kvs arbitrary: s)
  case (Cons p kvs)
  then show ?case by (cases p) (simp add: ok_write)
qed simp

lemma read_write_block_other:
  "\<forall>k' \<in> set (map fst kvs). ok s k' \<Longrightarrow> ok s k \<Longrightarrow> k \<notin> set (map fst kvs) \<Longrightarrow>
    rd (write_block wr kvs s) k = rd s k"
proof (induction kvs arbitrary: s)
  case (Cons p kvs)
  then show ?case by (cases p) (auto simp: ok_write read_other)
qed simp

lemma read_write_block:
  "\<forall>k' \<in> set (map fst kvs). ok s k' \<Longrightarrow> distinct (map fst kvs) \<Longrightarrow> (k, v) \<in> set kvs \<Longrightarrow>
    rd (write_block wr kvs s) k = v"
proof (induction kvs arbitrary: s)
  case Nil
  then show ?case by simp
next
  case (Cons p kvs)
  obtain k0 v0 where p: "p = (k0, v0)" by (cases p)
  show ?case
  proof (cases "(k, v) \<in> set kvs")
    case True
    with Cons p show ?thesis by (simp add: ok_write)
  next
    case False
    with Cons.prems p have "k = k0" "v = v0" by auto
    with Cons.prems p show ?thesis
      by (simp add: ok_write read_same read_write_block_other image_iff)
  qed
qed

text \<open>
  An undo log: each entry is a key, the value before the write and the value written. Writing
  the old values back in reverse order restores every readable value.
\<close>

lemma undo_redo:
  "undo_log_ok rd wr s log \<Longrightarrow> \<forall>(k, b, a) \<in> set log. ok s k \<Longrightarrow> ok s k \<Longrightarrow>
    rd (write_block wr (undo_writes log) (write_block wr (redo_writes log) s)) k = rd s k"
proof (induction log arbitrary: s k)
  case Nil
  then show ?case by simp
next
  case (Cons e log)
  obtain k' b a where e: "e = (k', b, a)" by (cases e)
  let ?t = "write_block wr (undo_writes log) (write_block wr (redo_writes log) (wr k' a s))"
  have ok: "ok ?t q = ok s q" for q by (simp add: ok_write ok_write_block)
  have "rd ?t q = rd (wr k' a s) q" if "ok s q" for q
    using Cons.prems that by (intro Cons.IH) (auto simp: e ok_write)
  then show ?case
    using Cons.prems ok
    by (cases "k = k'") (auto simp: e write_block_append read_same read_other)
qed

end

text \<open>
  A bounded queue: \<open>content\<close> is the abstract list, \<open>ok\<close> the representation invariant and
  \<open>room\<close> says that one more element fits. The clients enqueue and dequeue one element at a
  time; \<open>deq_n\<close> is the loop that takes up to \<open>n\<close>.
\<close>

fun deq_n :: "('s \<Rightarrow> 'a option \<times> 's) \<Rightarrow> nat \<Rightarrow> 's \<Rightarrow> 'a list \<times> 's" where
  "deq_n deq 0 s = ([], s)"
| "deq_n deq (Suc n) s =
    (case deq s of
       (None, s') \<Rightarrow> ([], s')
     | (Some x, s') \<Rightarrow> (let (xs, s'') = deq_n deq n s' in (x # xs, s'')))"

fun all_fit :: "('a \<Rightarrow> 's \<Rightarrow> 's) \<Rightarrow> ('s \<Rightarrow> bool) \<Rightarrow> 'a list \<Rightarrow> 's \<Rightarrow> bool" where
  "all_fit enq room [] s = True"
| "all_fit enq room (x # xs) s = (room s \<and> all_fit enq room xs (enq x s))"

locale bounded_fifo =
  fixes enq :: "'a \<Rightarrow> 's \<Rightarrow> 's"
    and deq :: "'s \<Rightarrow> 'a option \<times> 's"
    and content :: "'s \<Rightarrow> 'a list"
    and ok :: "'s \<Rightarrow> bool"
    and room :: "'s \<Rightarrow> bool"
  assumes enq_content: "ok s \<Longrightarrow> room s \<Longrightarrow> content (enq x s) = content s @ [x]"
    and enq_ok: "ok s \<Longrightarrow> room s \<Longrightarrow> ok (enq x s)"
    and deq_empty: "ok s \<Longrightarrow> content s = [] \<Longrightarrow> deq s = (None, s)"
    and deq_first: "ok s \<Longrightarrow> content s = x # xs \<Longrightarrow> fst (deq s) = Some x \<and> content (snd (deq s)) = xs"
    and deq_ok: "ok s \<Longrightarrow> ok (snd (deq s))"
begin

lemma enq_many:
  "ok s \<Longrightarrow> all_fit enq room xs s \<Longrightarrow>
    content (fold enq xs s) = content s @ xs \<and> ok (fold enq xs s)"
  by (induction xs arbitrary: s) (simp_all add: enq_content enq_ok)

lemma deq_many:
  "ok s \<Longrightarrow> fst (deq_n deq n s) = take n (content s) \<and>
    content (snd (deq_n deq n s)) = drop n (content s) \<and> ok (snd (deq_n deq n s))"
proof (induction n arbitrary: s)
  case (Suc n)
  show ?case
  proof (cases "content s")
    case Nil
    with Suc.prems show ?thesis by (simp add: deq_empty)
  next
    case (Cons x xs)
    obtain s' where d: "deq s = (Some x, s')" "content s' = xs" "ok s'"
      using deq_first [OF Suc.prems Cons] deq_ok [OF Suc.prems] by (cases "deq s") auto
    with Suc.IH [of s'] show ?thesis by (simp add: Cons case_prod_beta)
  qed
qed simp

lemma fifo_order:
  "ok s \<Longrightarrow> content s = [] \<Longrightarrow> all_fit enq room xs s \<Longrightarrow>
    fst (deq_n deq n (fold enq xs s)) = take n xs"
  using enq_many [of s xs] deq_many [of "fold enq xs s" n] by simp

end

end
