(* ===== verification/Memory.thy ===== *)
theory Memory
  imports Prelude
begin

unbundle bit_operations_syntax

text \<open>
  The memory of \<^verbatim>\<open>core/memory.h\<close>, \<^verbatim>\<open>core/memory_consts.h\<close> and \<^verbatim>\<open>memory.cpp\<close>: 64 KB of
  main RAM, eight RAM disks of four 64 KB pages each, and a boot ROM that hides the low RAM for
  reads while it is enabled. A global address indexes the whole array; \<open>GetGlobalAddr\<close>
  translates a CPU address through the RAM-disk mapping byte. The lemmas show that the
  translation stays inside the array and is injective, what the CPU reads after it writes, and
  how the active mapping follows from the eight mapping registers.
\<close>

section \<open>Constants and state\<close>

datatype addr_space = RAM | STACK
datatype mem_type = MT_ROM | MT_RAM

definition MEM_64K :: nat where "MEM_64K = 64 * 1024"
definition RAM_DISK_PAGE_LEN :: nat where "RAM_DISK_PAGE_LEN = MEM_64K"
definition RAMDISK_PAGES_MAX :: nat where "RAMDISK_PAGES_MAX = 4"
definition MEMORY_RAMDISK_LEN :: nat where "MEMORY_RAMDISK_LEN = RAMDISK_PAGES_MAX * MEM_64K"
definition RAM_DISK_MAX :: nat where "RAM_DISK_MAX = 8"
definition MEMORY_MAIN_LEN :: nat where "MEMORY_MAIN_LEN = MEM_64K"
definition MEMORY_GLOBAL_LEN :: nat where
  "MEMORY_GLOBAL_LEN = MEMORY_MAIN_LEN + MEMORY_RAMDISK_LEN * RAM_DISK_MAX"
definition MAPPING_RAM_MODE_MASK :: u8 where "MAPPING_RAM_MODE_MASK = 0b11100000"
definition MAPPING_MODE_MASK :: u8 where "MAPPING_MODE_MASK = 0b11110000"

lemmas mem_consts = MEM_64K_def RAM_DISK_PAGE_LEN_def RAMDISK_PAGES_MAX_def MEMORY_RAMDISK_LEN_def
  RAM_DISK_MAX_def MEMORY_MAIN_LEN_def MEMORY_GLOBAL_LEN_def

text \<open>The union \<^verbatim>\<open>Mapping\<close>: one byte \<open>E8ASssMM\<close> and its bit-fields.\<close>

type_synonym mapping = u8

definition pageRam :: "mapping \<Rightarrow> u8" where "pageRam m = take_bit 2 m"
definition pageStack :: "mapping \<Rightarrow> u8" where "pageStack m = take_bit 2 (drop_bit 2 m)"
definition modeStack :: "mapping \<Rightarrow> bool" where "modeStack m = bit m 4"
definition modeRamA :: "mapping \<Rightarrow> bool" where "modeRamA m = bit m 5"
definition modeRam8 :: "mapping \<Rightarrow> bool" where "modeRam8 m = bit m 6"
definition modeRamE :: "mapping \<Rightarrow> bool" where "modeRamE m = bit m 7"

text \<open>\<^verbatim>\<open>Memory::Debug\<close>: what the last instruction fetched, read and wrote.\<close>

record mem_debug =
  instrGlobalAddr :: global_addr
  instr_array :: "u8 list"
  readGlobalAddr :: "global_addr list"
  dbg_read :: "u8 list"
  readLen :: u8
  writeGlobalAddr :: "global_addr list"
  dbg_write :: "u8 list"
  writeLen :: u8
  beforeWrite :: "u8 list"
  instrLen :: u8

text \<open>\<^verbatim>\<open>Memory::Update\<close>: the active mapping.\<close>

record mem_update =
  upd_mapping :: mapping
  ramdiskIdx :: "3 word"
  memType :: mem_type

record memory =
  m_ram :: "global_addr \<Rightarrow> u8"
  m_rom :: "u8 list"
  m_mappings :: "mapping list"
  mem_upd :: mem_update
  mem_dbg :: mem_debug
  m_mappingsEnabled :: int
  m_ramDiskClearAfterRestart :: bool

section \<open>Address translation\<close>

definition disk_offset :: "u8 \<Rightarrow> 3 word \<Rightarrow> global_addr" where
  "disk_offset page idx = (ucast page + 1 + ucast idx * 4) * of_nat RAM_DISK_PAGE_LEN"

definition in_ram_window :: "mapping \<Rightarrow> addr \<Rightarrow> bool" where
  "in_ram_window mp a \<longleftrightarrow>
    modeRamA mp \<and> 0xA000 \<le> a \<and> a < 0xE000 \<or>
    modeRam8 mp \<and> 0x8000 \<le> a \<and> a < 0xA000 \<or>
    modeRamE mp \<and> 0xE000 \<le> a"

definition map_addr :: "mapping \<Rightarrow> 3 word \<Rightarrow> addr \<Rightarrow> addr_space \<Rightarrow> global_addr" where
  "map_addr mp idx a sp =
    (if mp AND MAPPING_MODE_MASK = 0 then ucast a
     else if modeStack mp \<and> sp = STACK then ucast a + disk_offset (pageStack mp) idx
     else if in_ram_window mp a then ucast a + disk_offset (pageRam mp) idx
     else ucast a)"

definition GetGlobalAddr :: "memory \<Rightarrow> addr \<Rightarrow> addr_space \<Rightarrow> global_addr" where
  "GetGlobalAddr m a sp = map_addr (upd_mapping (mem_upd m)) (ramdiskIdx (mem_upd m)) a sp"

section \<open>Reads and writes\<close>

text \<open>
  The read that \<^verbatim>\<open>GetByte\<close>, \<^verbatim>\<open>CpuReadInstr\<close> and \<^verbatim>\<open>CpuRead\<close> share: the ROM while it is
  enabled and the global address is inside it, the RAM otherwise.
\<close>

definition fetch_global :: "memory \<Rightarrow> global_addr \<Rightarrow> u8" where
  "fetch_global m g =
    (if memType (mem_upd m) = MT_ROM \<and> unat g < length (m_rom m)
     then m_rom m ! unat g else m_ram m g)"

definition GetByte :: "memory \<Rightarrow> addr \<Rightarrow> addr_space \<Rightarrow> u8" where
  "GetByte m a sp = fetch_global m (GetGlobalAddr m a sp)"

definition GetByteGlobal :: "memory \<Rightarrow> global_addr \<Rightarrow> u8" where
  "GetByteGlobal m g = m_ram m g"

definition SetByteGlobal :: "global_addr \<Rightarrow> u8 \<Rightarrow> memory \<Rightarrow> memory" where
  "SetByteGlobal g v m = m\<lparr>m_ram := (m_ram m)(g := v)\<rparr>"

definition CpuReadInstr :: "addr \<Rightarrow> addr_space \<Rightarrow> nat \<Rightarrow> memory \<Rightarrow> u8 \<times> memory" where
  "CpuReadInstr a sp n m =
    (let g = GetGlobalAddr m a sp;
         val = fetch_global m g;
         d = mem_dbg m
     in (val, m\<lparr>mem_dbg := d\<lparr>instrGlobalAddr := (if n = 0 then g else instrGlobalAddr d),
                             instr_array := (instr_array d)[n := val]\<rparr>\<rparr>))"

definition CpuInvokesRst7 :: "memory \<Rightarrow> memory" where
  "CpuInvokesRst7 m =
    m\<lparr>mem_dbg := (mem_dbg m)\<lparr>instr_array := (instr_array (mem_dbg m))[0 := 0xFF]\<rparr>\<rparr>"

definition CpuRead :: "addr \<Rightarrow> addr_space \<Rightarrow> nat \<Rightarrow> memory \<Rightarrow> u8 \<times> memory" where
  "CpuRead a sp n m =
    (let g = GetGlobalAddr m a sp;
         val = fetch_global m g;
         d = mem_dbg m
     in (val, m\<lparr>mem_dbg := d\<lparr>readGlobalAddr := (readGlobalAddr d)[n := g],
                             dbg_read := (dbg_read d)[n := val],
                             readLen := of_nat (n + 1)\<rparr>\<rparr>))"

definition CpuWrite :: "addr \<Rightarrow> u8 \<Rightarrow> addr_space \<Rightarrow> nat \<Rightarrow> memory \<Rightarrow> memory" where
  "CpuWrite a v sp n m =
    (let g = GetGlobalAddr m a sp;
         d = mem_dbg m
     in m\<lparr>mem_dbg := d\<lparr>beforeWrite := (beforeWrite d)[n := m_ram m g],
                       writeGlobalAddr := (writeGlobalAddr d)[n := g],
                       writeLen := of_nat (n + 1),
                       dbg_write := (dbg_write d)[n := v]\<rparr>,
          m_ram := (m_ram m)(g := v)\<rparr>)"

definition DebugInit :: "memory \<Rightarrow> memory" where
  "DebugInit m = m\<lparr>mem_dbg := (mem_dbg m)\<lparr>instrLen := 0, readLen := 0, writeLen := 0\<rparr>\<rparr>"

definition GetScreenBytes :: "memory \<Rightarrow> addr \<Rightarrow> u32" where
  "GetScreenBytes m off =
    push_bit 24 (ucast (m_ram m (ucast off + 0x8000))) OR
    push_bit 16 (ucast (m_ram m (ucast off + 0xA000))) OR
    push_bit 8 (ucast (m_ram m (ucast off + 0xC000))) OR
    ucast (m_ram m (ucast off + 0xE000))"

definition SetRam :: "addr \<Rightarrow> u8 list \<Rightarrow> memory \<Rightarrow> memory" where
  "SetRam a data m =
    m\<lparr>m_ram := (\<lambda>g. if unat a \<le> unat g \<and> unat g < unat a + length data
                    then data ! (unat g - unat a) else m_ram m g)\<rparr>"

section \<open>Mapping registers and life cycle\<close>

definition SetMemType :: "mem_type \<Rightarrow> memory \<Rightarrow> memory" where
  "SetMemType t m = m\<lparr>mem_upd := (mem_upd m)\<lparr>memType := t\<rparr>\<rparr>"

definition InitRamDiskMapping :: "memory \<Rightarrow> memory" where
  "InitRamDiskMapping m =
    m\<lparr>m_mappings := replicate RAM_DISK_MAX 0,
      mem_upd := (mem_upd m)\<lparr>upd_mapping := 0, ramdiskIdx := 0\<rparr>,
      m_mappingsEnabled := 0\<rparr>"

definition Memory_Init :: "memory \<Rightarrow> memory" where
  "Memory_Init m =
    (let ram = (if m_ramDiskClearAfterRestart m then (\<lambda>_. 0)
                else (\<lambda>g. if unat g < MEMORY_MAIN_LEN then 0 else m_ram m g))
     in InitRamDiskMapping (SetMemType MT_ROM (m\<lparr>m_ram := ram\<rparr>)))"

definition Memory_Restart :: "memory \<Rightarrow> memory" where
  "Memory_Restart m = InitRamDiskMapping (SetMemType MT_RAM m)"

text \<open>
  The loop of \<^verbatim>\<open>SetRamDiskMode\<close> over the registers from index \<open>i\<close>: it counts the
  enabled ones, keeps the first, and breaks at the second.
\<close>

fun scan_mappings :: "nat \<Rightarrow> mapping list \<Rightarrow> int \<Rightarrow> mapping \<Rightarrow> 3 word \<Rightarrow> int \<times> mapping \<times> 3 word" where
  "scan_mappings i [] en mp idx = (en, mp, idx)"
| "scan_mappings i (r # rs) en mp idx =
    (if r AND MAPPING_MODE_MASK \<noteq> 0
     then if en + 1 > 1 then (en + 1, mp, idx)
          else scan_mappings (Suc i) rs (en + 1) r (of_nat i)
     else scan_mappings (Suc i) rs en mp idx)"

definition SetRamDiskMode :: "nat \<Rightarrow> u8 \<Rightarrow> memory \<Rightarrow> memory" where
  "SetRamDiskMode disk dat m =
    (let regs = (m_mappings m)[disk := dat];
         (en, mp, idx) = scan_mappings 0 regs 0 0 (ramdiskIdx (mem_upd m))
     in m\<lparr>m_mappings := regs,
          mem_upd := (mem_upd m)\<lparr>upd_mapping := mp, ramdiskIdx := idx\<rparr>,
          m_mappingsEnabled := en\<rparr>)"

definition IsException :: "memory \<Rightarrow> bool \<times> memory" where
  "IsException m = (m_mappingsEnabled m > 1, m\<lparr>m_mappingsEnabled := 0\<rparr>)"

definition IsRomEnabled :: "memory \<Rightarrow> bool" where
  "IsRomEnabled m \<longleftrightarrow> memType (mem_upd m) = MT_ROM"

section \<open>Address translation stays in the array and keeps addresses apart\<close>

lemma page_less_4: "unat (pageRam mp) < 4" "unat (pageStack mp) < 4"
  using take_bit_nat_less_exp [of 2 "unat mp"] take_bit_nat_less_exp [of 2 "unat (drop_bit 2 mp)"]
  by (simp_all add: pageRam_def pageStack_def unsigned_take_bit_eq)

lemma unat_disk_offset:
  assumes "unat page < 4"
  shows "unat (disk_offset page idx) = (unat page + 1 + unat idx * 4) * 65536"
proof -
  have i: "unat idx < 8" using unsigned_less [of idx] by simp
  have u: "unat (ucast page :: u32) = unat page" "unat (ucast idx :: u32) = unat idx"
    using assms i by (simp_all add: unsigned_ucast_eq take_bit_eq_mod)
  have "unat (ucast page + 1 + ucast idx * 4 :: u32) = unat page + 1 + unat idx * 4"
    using assms i by (simp add: unat_word_ariths u)
  moreover have "(unat page + 1 + unat idx * 4) * 65536 < 2 ^ 32"
    using assms i by simp
  ultimately show ?thesis
    unfolding disk_offset_def
    by (subst unat_mult_lem [THEN iffD1]) (simp_all add: mem_consts)
qed

lemma unat_addr_less: "unat (a :: addr) < 65536"
  using unsigned_less [of a] by simp

lemma unat_ucast_addr [simp]: "unat (ucast (a :: addr) :: u32) = unat a"
  using unat_addr_less [of a] by (simp add: unsigned_ucast_eq take_bit_eq_mod)

lemma unat_map_addr:
  "\<exists>k \<le> 32. unat (map_addr mp idx a sp) = unat a + k * 65536"
proof -
  have i: "unat idx < 8" using unsigned_less [of idx] by simp
  have off: "\<exists>k \<le> 32. unat (ucast a + disk_offset p idx) = unat a + k * 65536"
    if p: "unat p < 4" for p
  proof (intro exI conjI)
    show "unat p + 1 + unat idx * 4 \<le> 32" using p i by simp
    have "unat a + (unat p + 1 + unat idx * 4) * 65536 < 2 ^ 32"
      using p i unat_addr_less [of a] by simp
    then show "unat (ucast a + disk_offset p idx) =
        unat a + (unat p + 1 + unat idx * 4) * 65536"
      by (simp add: unat_word_ariths unat_disk_offset [OF p])
  qed
  have id: "\<exists>k \<le> 32. unat (ucast a :: u32) = unat a + k * 65536"
    by (intro exI [of _ 0]) simp
  show ?thesis
    unfolding map_addr_def using off [OF page_less_4(1)] off [OF page_less_4(2)] id by simp
qed

lemma map_addr_mod: "unat (map_addr mp idx a sp) mod 65536 = unat a"
  using unat_map_addr [of mp idx a sp] unat_addr_less [of a] by auto

lemma map_addr_inj [simp]: "map_addr mp idx a sp = map_addr mp idx b sp' \<Longrightarrow> a = b"
  by (metis map_addr_mod word_unat_eq_iff)

lemma GetGlobalAddr_inj [simp]: "GetGlobalAddr m a sp = GetGlobalAddr m b sp \<longleftrightarrow> a = b"
  unfolding GetGlobalAddr_def by (auto dest: map_addr_inj)

lemma GetGlobalAddr_bound: "unat (GetGlobalAddr m a sp) < MEMORY_GLOBAL_LEN"
  using unat_map_addr [of "upd_mapping (mem_upd m)" "ramdiskIdx (mem_upd m)" a sp]
    unat_addr_less [of a]
  by (auto simp: GetGlobalAddr_def mem_consts)

section \<open>What the operations leave alone\<close>

lemma CpuReadInstr_frame [simp, frame_simps]:
  "m_ram (snd (CpuReadInstr a sp n m)) = m_ram m"
  "m_rom (snd (CpuReadInstr a sp n m)) = m_rom m"
  "m_mappings (snd (CpuReadInstr a sp n m)) = m_mappings m"
  "mem_upd (snd (CpuReadInstr a sp n m)) = mem_upd m"
  "m_mappingsEnabled (snd (CpuReadInstr a sp n m)) = m_mappingsEnabled m"
  "fst (CpuReadInstr a sp n m) = GetByte m a sp"
  by (simp_all add: CpuReadInstr_def Let_def GetByte_def)

lemma CpuRead_frame [simp, frame_simps]:
  "m_ram (snd (CpuRead a sp n m)) = m_ram m"
  "m_rom (snd (CpuRead a sp n m)) = m_rom m"
  "m_mappings (snd (CpuRead a sp n m)) = m_mappings m"
  "mem_upd (snd (CpuRead a sp n m)) = mem_upd m"
  "m_mappingsEnabled (snd (CpuRead a sp n m)) = m_mappingsEnabled m"
  "fst (CpuRead a sp n m) = GetByte m a sp"
  by (simp_all add: CpuRead_def Let_def GetByte_def)

lemma CpuWrite_frame [simp, frame_simps]:
  "m_ram (CpuWrite a v sp n m) = (m_ram m)(GetGlobalAddr m a sp := v)"
  "m_rom (CpuWrite a v sp n m) = m_rom m"
  "m_mappings (CpuWrite a v sp n m) = m_mappings m"
  "mem_upd (CpuWrite a v sp n m) = mem_upd m"
  "m_mappingsEnabled (CpuWrite a v sp n m) = m_mappingsEnabled m"
  by (simp_all add: CpuWrite_def Let_def)

lemma CpuInvokesRst7_frame [simp, frame_simps]:
  "m_ram (CpuInvokesRst7 m) = m_ram m"
  "m_rom (CpuInvokesRst7 m) = m_rom m"
  "m_mappings (CpuInvokesRst7 m) = m_mappings m"
  "mem_upd (CpuInvokesRst7 m) = mem_upd m"
  by (simp_all add: CpuInvokesRst7_def)

lemma fetch_global_cong:
  "mem_upd m = mem_upd m' \<Longrightarrow> m_rom m = m_rom m' \<Longrightarrow> m_ram m = m_ram m' \<Longrightarrow>
    fetch_global m g = fetch_global m' g"
  by (simp add: fetch_global_def)

lemma GetGlobalAddr_cong: "mem_upd m = mem_upd m' \<Longrightarrow> GetGlobalAddr m = GetGlobalAddr m'"
  by (simp add: GetGlobalAddr_def fun_eq_iff)

lemma GetByte_cong:
  "mem_upd m = mem_upd m' \<Longrightarrow> m_rom m = m_rom m' \<Longrightarrow> m_ram m = m_ram m' \<Longrightarrow>
    GetByte m = GetByte m'"
  by (simp add: GetByte_def GetGlobalAddr_def fetch_global_def fun_eq_iff)

lemma GetByte_after_read [simp, frame_simps]:
  "GetByte (snd (CpuReadInstr a sp n m)) = GetByte m"
  "GetByte (snd (CpuRead a sp n m)) = GetByte m"
  "GetByte (CpuInvokesRst7 m) = GetByte m"
  by (rule GetByte_cong; simp)+

lemma GetGlobalAddr_after [simp, frame_simps]:
  "GetGlobalAddr (snd (CpuReadInstr a sp n m)) = GetGlobalAddr m"
  "GetGlobalAddr (snd (CpuRead a sp n m)) = GetGlobalAddr m"
  "GetGlobalAddr (CpuWrite a v sp n m) = GetGlobalAddr m"
  "GetGlobalAddr (CpuInvokesRst7 m) = GetGlobalAddr m"
  by (rule GetGlobalAddr_cong; simp)+

section \<open>The CPU's view of memory is a byte store\<close>

definition writable :: "addr_space \<Rightarrow> memory \<Rightarrow> addr \<Rightarrow> bool" where
  "writable sp m a \<longleftrightarrow>
    \<not> (memType (mem_upd m) = MT_ROM \<and> unat (GetGlobalAddr m a sp) < length (m_rom m))"

definition cpu_get :: "addr_space \<Rightarrow> memory \<Rightarrow> addr \<Rightarrow> u8" where
  "cpu_get sp m a = GetByte m a sp"

definition cpu_put :: "addr_space \<Rightarrow> addr \<Rightarrow> u8 \<Rightarrow> memory \<Rightarrow> memory" where
  "cpu_put sp a v m = CpuWrite a v sp 0 m"

lemma GetByte_CpuWrite:
  "GetByte (CpuWrite a v sp n m) b sp' =
    (if GetGlobalAddr m b sp' = GetGlobalAddr m a sp \<and> writable sp m a then v
     else GetByte m b sp')"
  by (auto simp: GetByte_def fetch_global_def writable_def)

interpretation ram_store: byte_store "cpu_get sp" "cpu_put sp" "writable sp"
proof unfold_locales
  fix m :: memory and a b :: addr and v
  show "writable sp m a \<Longrightarrow> cpu_get sp (cpu_put sp a v m) a = v"
    by (simp add: cpu_get_def cpu_put_def GetByte_CpuWrite)
  show "writable sp m a \<Longrightarrow> writable sp m b \<Longrightarrow> a \<noteq> b \<Longrightarrow>
      cpu_get sp (cpu_put sp a v m) b = cpu_get sp m b"
    by (simp add: cpu_get_def cpu_put_def GetByte_CpuWrite)
  show "writable sp (cpu_put sp a v m) b = writable sp m b"
    by (simp add: writable_def cpu_put_def)
qed

text \<open>The RAM array itself, by global address.\<close>

interpretation global_store: byte_store GetByteGlobal SetByteGlobal "\<lambda>_ _. True"
  by unfold_locales (simp_all add: GetByteGlobal_def SetByteGlobal_def)

section \<open>Mapping registers\<close>

definition map_enabled :: "mapping \<Rightarrow> bool" where
  "map_enabled r \<longleftrightarrow> r AND MAPPING_MODE_MASK \<noteq> 0"

lemma scan_second:
  "scan_mappings i rs 1 mp idx =
    (if \<exists>r \<in> set rs. map_enabled r then 2 else 1, mp, idx)"
  by (induction rs arbitrary: i) (auto simp: map_enabled_def)

lemma scan_none:
  "\<forall>r \<in> set rs. \<not> map_enabled r \<Longrightarrow> scan_mappings i rs 0 mp idx = (0, mp, idx)"
  by (induction rs arbitrary: i) (auto simp: map_enabled_def)

lemma scan_first:
  "\<forall>r \<in> set pre. \<not> map_enabled r \<Longrightarrow> map_enabled r \<Longrightarrow>
    scan_mappings i (pre @ r # post) 0 mp idx =
      (if \<exists>r \<in> set post. map_enabled r then 2 else 1, r, of_nat (i + length pre))"
  by (induction pre arbitrary: i) (auto simp: map_enabled_def scan_second)

lemma first_enabled_split:
  "\<exists>r \<in> set rs. map_enabled r \<Longrightarrow>
    \<exists>pre r post. rs = pre @ r # post \<and> (\<forall>q \<in> set pre. \<not> map_enabled q) \<and> map_enabled r"
  by (metis split_list_first_propE)

section \<open>Properties\<close>

definition sample_memory :: memory where
  "sample_memory = \<lparr>m_ram = (\<lambda>_. 0), m_rom = [], m_mappings = [0, 0, 0, 0, 0, 0, 0, 0],
    mem_upd = \<lparr>upd_mapping = 0x25, ramdiskIdx = 3, memType = MT_RAM\<rparr>,
    mem_dbg = \<lparr>instrGlobalAddr = 0, instr_array = [0, 0, 0], readGlobalAddr = [0, 0],
      dbg_read = [0, 0], readLen = 0, writeGlobalAddr = [0, 0], dbg_write = [0, 0], writeLen = 0,
      beforeWrite = [0, 0], instrLen = 0\<rparr>,
    m_mappingsEnabled = 0, m_ramDiskClearAfterRestart = True\<rparr>"

text \<open>C18: Whatever the mapping byte and the RAM disk selected, a CPU address is translated to an
  index inside the memory array, with the same low 16 bits, and two different CPU addresses of
  the same kind of access never share a byte.\<close>

theorem GetGlobalAddr_bounded_injective:
  "unat (GetGlobalAddr m a sp) < MEMORY_GLOBAL_LEN \<and>
    unat (GetGlobalAddr m a sp) mod 65536 = unat a \<and>
    (GetGlobalAddr m a sp = GetGlobalAddr m b sp) = (a = b)"
  using GetGlobalAddr_bound [of m a sp] by (simp add: GetGlobalAddr_def map_addr_mod) (metis map_addr_inj)

text \<open>Writing a mapping register makes the first enabled register the active mapping, with its
  index as the RAM disk; with none enabled no mapping is active; and the next exception check
  reports a mapping conflict exactly when two or more registers are enabled, then clears it.\<close>

theorem SetRamDiskMode_first_enabled:
  assumes "(m_mappings m)[disk := dat] = pre @ r # post" "\<forall>q \<in> set pre. \<not> map_enabled q"
    "map_enabled r"
  shows "upd_mapping (mem_upd (SetRamDiskMode disk dat m)) = r \<and>
    ramdiskIdx (mem_upd (SetRamDiskMode disk dat m)) = of_nat (length pre) \<and>
    fst (IsException (SetRamDiskMode disk dat m)) = (\<exists>q \<in> set post. map_enabled q) \<and>
    \<not> fst (IsException (snd (IsException (SetRamDiskMode disk dat m))))"
  using assms(2,3)
  by (simp add: SetRamDiskMode_def assms(1) scan_first IsException_def)

theorem SetRamDiskMode_first_enabled_witness:
  "upd_mapping (mem_upd (SetRamDiskMode 2 0x20 sample_memory)) = 0x20 \<and>
    ramdiskIdx (mem_upd (SetRamDiskMode 2 0x20 sample_memory)) = 2"
proof -
  have l: "(m_mappings sample_memory)[2 := 0x20] = [0, 0] @ 0x20 # [0, 0, 0, 0, 0]"
    by (simp add: sample_memory_def numeral_2_eq_2)
  show ?thesis
    using SetRamDiskMode_first_enabled [OF l] by (simp add: map_enabled_def MAPPING_MODE_MASK_def)
qed

text \<open>A byte the CPU writes is the byte it then reads at that address and at no other, unless
  the boot ROM is enabled and covers the address: then the write goes to the RAM underneath and
  the CPU keeps reading the ROM.\<close>

theorem CpuWrite_then_read:
  "GetByte (CpuWrite a v sp n m) b sp =
    (if b = a \<and> writable sp m a then v else GetByte m b sp) \<and>
    GetByteGlobal (CpuWrite a v sp n m) (GetGlobalAddr m a sp) = v"
  by (auto simp: GetByte_CpuWrite GetByteGlobal_def)

end
