(* ===== verification/Cpu_State.thy ===== *)
theory Cpu_State
  imports Memory
begin

unbundle bit_operations_syntax

text \<open>
  The processor state of \<^verbatim>\<open>core/cpu_i8080.h\<close> (KR580VM80A, an Intel 8080) and the
  arithmetic helpers of \<^verbatim>\<open>cpu_i8080.cpp\<close>: flags, parity, carries, rotations, addition,
  subtraction, comparison and decimal adjustment. Register pairs are 16-bit words read through
  their two halves, as the union \<^verbatim>\<open>RegPair\<close>; the flag byte is kept packed, as the union
  \<^verbatim>\<open>AF\<close>, with one view per flag bit.
\<close>

section \<open>State\<close>

record cpu_state =
  r_cc :: u64
  r_pc :: u16
  r_sp :: u16
  r_a :: u8
  r_f :: u8
  r_bc :: u16
  r_de :: u16
  r_hl :: u16
  r_ir :: u8
  r_tmp :: u8
  r_act :: u8
  r_wz :: u16
  r_mc :: "4 word"
  i_inte :: bool
  i_iff :: bool
  i_hlta :: bool
  i_eiPending :: bool

definition OPCODE_RST0 :: u8 where "OPCODE_RST0 = 0xC7"
definition OPCODE_RST7 :: u8 where "OPCODE_RST7 = 0xFF"
definition OPCODE_HLT :: u8 where "OPCODE_HLT = 0x76"
definition OPCODE_PCHL :: u8 where "OPCODE_PCHL = 0xE9"
definition MACHINE_CC :: u64 where "MACHINE_CC = 4"
definition PSW_INIT :: u16 where "PSW_INIT = 0b00000010"
definition PSW_NUL_FLAGS :: u16 where "PSW_NUL_FLAGS = NOT 0b00101000"

text \<open>The flag bits of the union \<^verbatim>\<open>AF\<close>.\<close>

datatype flag = FC | FP | FAC | FZ | FS

fun flag_bit :: "flag \<Rightarrow> nat" where
  "flag_bit FC = 0"
| "flag_bit FP = 2"
| "flag_bit FAC = 4"
| "flag_bit FZ = 6"
| "flag_bit FS = 7"

definition get_flag :: "flag \<Rightarrow> cpu_state \<Rightarrow> bool" where
  "get_flag fl c = bit (r_f c) (flag_bit fl)"

definition set_flag :: "flag \<Rightarrow> bool \<Rightarrow> cpu_state \<Rightarrow> cpu_state" where
  "set_flag fl b c = c\<lparr>r_f := put_bit (flag_bit fl) b (r_f c)\<rparr>"

text \<open>The registers the handlers take by reference.\<close>

datatype reg8 = A | F | B | C | D | E | H | L | SPH | SPL
datatype reg16 = BC | DE | HL | SP

fun get8 :: "reg8 \<Rightarrow> cpu_state \<Rightarrow> u8" where
  "get8 A c = r_a c"
| "get8 F c = r_f c"
| "get8 B c = hi (r_bc c)"
| "get8 C c = lo (r_bc c)"
| "get8 D c = hi (r_de c)"
| "get8 E c = lo (r_de c)"
| "get8 H c = hi (r_hl c)"
| "get8 L c = lo (r_hl c)"
| "get8 SPH c = hi (r_sp c)"
| "get8 SPL c = lo (r_sp c)"

fun set8 :: "reg8 \<Rightarrow> u8 \<Rightarrow> cpu_state \<Rightarrow> cpu_state" where
  "set8 A v c = c\<lparr>r_a := v\<rparr>"
| "set8 F v c = c\<lparr>r_f := v\<rparr>"
| "set8 B v c = c\<lparr>r_bc := with_hi (r_bc c) v\<rparr>"
| "set8 C v c = c\<lparr>r_bc := with_lo (r_bc c) v\<rparr>"
| "set8 D v c = c\<lparr>r_de := with_hi (r_de c) v\<rparr>"
| "set8 E v c = c\<lparr>r_de := with_lo (r_de c) v\<rparr>"
| "set8 H v c = c\<lparr>r_hl := with_hi (r_hl c) v\<rparr>"
| "set8 L v c = c\<lparr>r_hl := with_lo (r_hl c) v\<rparr>"
| "set8 SPH v c = c\<lparr>r_sp := with_hi (r_sp c) v\<rparr>"
| "set8 SPL v c = c\<lparr>r_sp := with_lo (r_sp c) v\<rparr>"

fun get16 :: "reg16 \<Rightarrow> cpu_state \<Rightarrow> u16" where
  "get16 BC c = r_bc c"
| "get16 DE c = r_de c"
| "get16 HL c = r_hl c"
| "get16 SP c = r_sp c"

fun set16 :: "reg16 \<Rightarrow> u16 \<Rightarrow> cpu_state \<Rightarrow> cpu_state" where
  "set16 BC v c = c\<lparr>r_bc := v\<rparr>"
| "set16 DE v c = c\<lparr>r_de := v\<rparr>"
| "set16 HL v c = c\<lparr>r_hl := v\<rparr>"
| "set16 SP v c = c\<lparr>r_sp := v\<rparr>"

definition set_w :: "u8 \<Rightarrow> cpu_state \<Rightarrow> cpu_state" where
  "set_w v c = c\<lparr>r_wz := with_hi (r_wz c) v\<rparr>"

definition set_z :: "u8 \<Rightarrow> cpu_state \<Rightarrow> cpu_state" where
  "set_z v c = c\<lparr>r_wz := with_lo (r_wz c) v\<rparr>"

definition GetPSW :: "cpu_state \<Rightarrow> u16" where
  "GetPSW c = pair (r_a c) (r_f c)"

text \<open>The byte view of the union \<^verbatim>\<open>Int\<close>.\<close>

definition ints_data :: "cpu_state \<Rightarrow> u8" where
  "ints_data c = put_bit 7 (i_eiPending c) (put_bit 6 (i_hlta c) (put_bit 5 (i_iff c)
    (put_bit 4 (i_inte c) (ucast (r_mc c)))))"

definition Cpu_Reset :: "cpu_state \<Rightarrow> cpu_state" where
  "Cpu_Reset c =
    c\<lparr>r_cc := 0, r_pc := 0, r_sp := 0, r_wz := 0, r_mc := 0, i_inte := False, i_iff := False,
      i_hlta := False, i_eiPending := False, r_ir := 0, r_act := 0, r_tmp := 0,
      r_a := hi PSW_INIT, r_f := lo PSW_INIT, r_bc := 0, r_de := 0, r_hl := 0\<rparr>"

definition Cpu_Init :: "cpu_state \<Rightarrow> cpu_state" where
  "Cpu_Init c =
    Cpu_Reset (c\<lparr>r_a := hi PSW_INIT, r_f := lo PSW_INIT, r_bc := 0, r_de := 0, r_hl := 0\<rparr>)"

section \<open>Flag helpers\<close>

definition parityTable :: "bool list" where
  "parityTable =
   [True, False, False, True, False, True, True, False, False, True, True, False, True, False, False, True,
    False, True, True, False, True, False, False, True, True, False, False, True, False, True, True, False,
    False, True, True, False, True, False, False, True, True, False, False, True, False, True, True, False,
    True, False, False, True, False, True, True, False, False, True, True, False, True, False, False, True,
    False, True, True, False, True, False, False, True, True, False, False, True, False, True, True, False,
    True, False, False, True, False, True, True, False, False, True, True, False, True, False, False, True,
    True, False, False, True, False, True, True, False, False, True, True, False, True, False, False, True,
    False, True, True, False, True, False, False, True, True, False, False, True, False, True, True, False,
    False, True, True, False, True, False, False, True, True, False, False, True, False, True, True, False,
    True, False, False, True, False, True, True, False, False, True, True, False, True, False, False, True,
    True, False, False, True, False, True, True, False, False, True, True, False, True, False, False, True,
    False, True, True, False, True, False, False, True, True, False, False, True, False, True, True, False,
    True, False, False, True, False, True, True, False, False, True, True, False, True, False, False, True,
    False, True, True, False, True, False, False, True, True, False, False, True, False, True, True, False,
    False, True, True, False, True, False, False, True, True, False, False, True, False, True, True, False,
    True, False, False, True, False, True, True, False, False, True, True, False, True, False, False, True]"

definition GetParity :: "u8 \<Rightarrow> bool" where
  "GetParity v = parityTable ! unat v"

text \<open>The carry is computed on C++ \<^verbatim>\<open>int\<close> values, which do not overflow here.\<close>

definition GetCarry :: "nat \<Rightarrow> u8 \<Rightarrow> u8 \<Rightarrow> bool \<Rightarrow> bool" where
  "GetCarry bit_no a b cy =
    (let result = uint a + uint b + (if cy then 1 else 0);
         carry = result XOR uint a XOR uint b
     in carry AND push_bit bit_no 1 \<noteq> 0)"

definition SetZSP :: "u8 \<Rightarrow> cpu_state \<Rightarrow> cpu_state" where
  "SetZSP v c =
    set_flag FP (GetParity v) (set_flag FS (v AND 0b10000000 \<noteq> 0) (set_flag FZ (v = 0) c))"

section \<open>Rotations\<close>

definition do_RLC :: "cpu_state \<Rightarrow> cpu_state" where
  "do_RLC c =
    (let c1 = set_flag FC (r_a c AND 0x80 \<noteq> 0) c;
         c2 = c1\<lparr>r_a := push_bit 1 (r_a c1)\<rparr>
     in c2\<lparr>r_a := r_a c2 + (if get_flag FC c2 then 1 else 0)\<rparr>)"

definition do_RRC :: "cpu_state \<Rightarrow> cpu_state" where
  "do_RRC c =
    (let c1 = set_flag FC (r_a c AND 1 = 1) c;
         c2 = c1\<lparr>r_a := drop_bit 1 (r_a c1)\<rparr>
     in c2\<lparr>r_a := r_a c2 OR (if get_flag FC c2 then push_bit 7 1 else 0)\<rparr>)"

definition do_RAL :: "cpu_state \<Rightarrow> cpu_state" where
  "do_RAL c =
    (let cy = get_flag FC c;
         c1 = set_flag FC (r_a c AND 0x80 \<noteq> 0) c;
         c2 = c1\<lparr>r_a := push_bit 1 (r_a c1)\<rparr>
     in c2\<lparr>r_a := r_a c2 OR (if cy then 1 else 0)\<rparr>)"

definition do_RAR :: "cpu_state \<Rightarrow> cpu_state" where
  "do_RAR c =
    (let cy = get_flag FC c;
         c1 = set_flag FC (r_a c AND 1 = 1) c;
         c2 = c1\<lparr>r_a := drop_bit 1 (r_a c1)\<rparr>
     in c2\<lparr>r_a := r_a c2 OR (if cy then push_bit 7 1 else 0)\<rparr>)"

section \<open>Arithmetic and logic\<close>

definition alu_ADD :: "u8 \<Rightarrow> u8 \<Rightarrow> bool \<Rightarrow> cpu_state \<Rightarrow> cpu_state" where
  "alu_ADD a b cy c =
    (let c1 = c\<lparr>r_a := a + b + (if cy then 1 else 0)\<rparr>;
         c2 = set_flag FC (GetCarry 8 a b cy) c1;
         c3 = set_flag FAC (GetCarry 4 a b cy) c2
     in SetZSP (r_a c3) c3)"

definition alu_SUB :: "u8 \<Rightarrow> u8 \<Rightarrow> bool \<Rightarrow> cpu_state \<Rightarrow> cpu_state" where
  "alu_SUB a b cy c =
    (let c1 = alu_ADD a (NOT b) (\<not> cy) c in set_flag FC (\<not> get_flag FC c1) c1)"

text \<open>
  The tail that \<^verbatim>\<open>CMP\<close>, \<^verbatim>\<open>CMPMem\<close> and \<^verbatim>\<open>CPI\<close> share, once ACT and TMP are loaded;
  \<open>res\<close> is a C++ \<^verbatim>\<open>int\<close> and may be negative.
\<close>

definition alu_CMP :: "cpu_state \<Rightarrow> cpu_state" where
  "alu_CMP c =
    (let act = uint (r_act c); tmp = uint (r_tmp c); res = act - tmp;
         c1 = set_flag FC (res AND 0x100 \<noteq> 0) c;
         c2 = set_flag FAC (NOT (act XOR (res AND 0xFF) XOR tmp) AND 0x10 = 0x10) c1
     in SetZSP (word_of_int (res AND 0xFF)) c2)"

text \<open>The tails of the AND, XOR and OR handlers.\<close>

definition alu_AND :: "cpu_state \<Rightarrow> cpu_state" where
  "alu_AND c =
    (let c1 = c\<lparr>r_a := r_act c AND r_tmp c\<rparr>;
         c2 = set_flag FC False c1;
         c3 = set_flag FAC ((r_act c OR r_tmp c) AND 0x08 \<noteq> 0) c2
     in SetZSP (r_a c3) c3)"

definition alu_XOR :: "cpu_state \<Rightarrow> cpu_state" where
  "alu_XOR c =
    (let c1 = c\<lparr>r_a := r_act c XOR r_tmp c\<rparr>;
         c2 = set_flag FAC False (set_flag FC False c1)
     in SetZSP (r_a c2) c2)"

definition alu_OR :: "cpu_state \<Rightarrow> cpu_state" where
  "alu_OR c =
    (let c1 = c\<lparr>r_a := r_act c OR r_tmp c\<rparr>;
         c2 = set_flag FAC False (set_flag FC False c1)
     in SetZSP (r_a c2) c2)"

text \<open>The increment and decrement of TMP that INR, INR M, DCR and DCR M share.\<close>

definition inc_tmp :: "cpu_state \<Rightarrow> cpu_state" where
  "inc_tmp c =
    (let c1 = c\<lparr>r_tmp := r_tmp c + 1\<rparr>;
         c2 = set_flag FAC (r_tmp c1 AND 0xF = 0) c1
     in SetZSP (r_tmp c2) c2)"

definition dec_tmp :: "cpu_state \<Rightarrow> cpu_state" where
  "dec_tmp c =
    (let c1 = c\<lparr>r_tmp := r_tmp c - 1\<rparr>;
         c2 = set_flag FAC (\<not> (r_tmp c1 AND 0xF = 0xF)) c1
     in SetZSP (r_tmp c2) c2)"

definition daa_correction :: "cpu_state \<Rightarrow> u8 \<times> bool" where
  "daa_correction c =
    (let lsb = r_a c AND 0x0F; msb = drop_bit 4 (r_a c);
         k = (if get_flag FAC c \<or> lsb > 9 then 0x06 else 0)
     in if get_flag FC c \<or> msb > 9 \<or> (msb \<ge> 9 \<and> lsb > 9) then (k + 0x60, True)
        else (k, get_flag FC c))"

definition do_DAA :: "cpu_state \<Rightarrow> cpu_state" where
  "do_DAA c =
    (let (correction, cy) = daa_correction c
     in set_flag FC cy (alu_ADD (r_a c) correction False c))"

end
