(* ===== verification/Cpu_Alu.thy ===== *)
theory Cpu_Alu
  imports Cpu_State
begin

unbundle bit_operations_syntax

text \<open>
  What the arithmetic helpers of \<^verbatim>\<open>cpu_i8080.cpp\<close> compute, stated on numbers: carries as
  overflow of a sum, the half carry as overflow of the low nibble, parity as the number of one
  bits, comparison as subtraction, decimal adjustment as the documented correction. The flag byte
  is described by \<open>psw\<close>, the five flags with the three constant bits of this processor.
\<close>

section \<open>The packed flag byte\<close>

definition psw :: "bool \<Rightarrow> bool \<Rightarrow> bool \<Rightarrow> bool \<Rightarrow> bool \<Rightarrow> u8" where
  "psw s z ac p cy = put_bit 7 s (put_bit 6 z (put_bit 4 ac (put_bit 2 p (put_bit 0 cy 2))))"

definition f_ok :: "u8 \<Rightarrow> bool" where
  "f_ok f \<longleftrightarrow> bit f 1 \<and> \<not> bit f 3 \<and> \<not> bit f 5"

lemma bit_psw:
  "bit (psw s z ac p cy) k =
    (k = 7 \<and> s \<or> k = 6 \<and> z \<or> k = 4 \<and> ac \<or> k = 2 \<and> p \<or> k = 0 \<and> cy \<or> k = 1)"
proof -
  have "bit (2 :: u8) k = (k = 1)"
    using bit_exp_iff [where ?'a = "8 word", of 1 k] by auto
  then show ?thesis by (auto simp: psw_def bit_put_bit)
qed

lemma f_ok_psw [simp]: "f_ok (psw s z ac p cy)"
  by (simp add: f_ok_def bit_psw)

lemma u8_eqI:
  assumes "bit v 0 = bit w 0" "bit v 1 = bit w 1" "bit v 2 = bit w 2" "bit v 3 = bit w 3"
    "bit v 4 = bit w 4" "bit v 5 = bit w 5" "bit v 6 = bit w 6" "bit v 7 = bit w 7"
  shows "v = (w :: u8)"
proof (rule bit_word_eqI)
  fix n :: nat
  assume "n < LENGTH(8)"
  then have "n = 0 \<or> n = 1 \<or> n = 2 \<or> n = 3 \<or> n = 4 \<or> n = 5 \<or> n = 6 \<or> n = 7" by simp arith
  with assms show "bit v n = bit w n" by (elim disjE) simp_all
qed

lemma f_ok_eq_psw:
  "f_ok f \<Longrightarrow> f = psw (bit f 7) (bit f 6) (bit f 4) (bit f 2) (bit f 0)"
  by (rule u8_eqI) (simp_all add: f_ok_def bit_psw)

lemma psw_put_bit [simp]:
  "put_bit 0 b (psw s z ac p cy) = psw s z ac p b"
  "put_bit 2 b (psw s z ac p cy) = psw s z ac b cy"
  "put_bit 4 b (psw s z ac p cy) = psw s z b p cy"
  "put_bit 6 b (psw s z ac p cy) = psw s b ac p cy"
  "put_bit 7 b (psw s z ac p cy) = psw b z ac p cy"
  by (rule u8_eqI; simp add: bit_put_bit bit_psw)+

section \<open>Parity\<close>

definition ones :: "u8 \<Rightarrow> nat" where
  "ones v = length (filter (bit v) [0..<8])"

text \<open>The table is the doubling construction \<open>t @ map Not t\<close>, eight times.\<close>

fun parity_list :: "nat \<Rightarrow> bool list" where
  "parity_list 0 = [True]"
| "parity_list (Suc k) = parity_list k @ map Not (parity_list k)"

lemma length_parity_list [simp]: "length (parity_list k) = 2 ^ k"
  by (induction k) simp_all

lemma bit_add_power:
  assumes "j < k" shows "bit (m + 2 ^ k :: nat) j = bit m j"
proof -
  have "take_bit k (m + 2 ^ k) = take_bit k m" by (simp add: take_bit_eq_mod)
  with assms show ?thesis by (metis bit_take_bit_iff)
qed

lemma parity_list_nth:
  "n < 2 ^ k \<Longrightarrow> parity_list k ! n = even (length (filter (bit n) [0..<k]))"
proof (induction k arbitrary: n)
  case (Suc k)
  show ?case
  proof (cases "n < 2 ^ k")
    case True
    then have "\<not> bit n k" by (simp add: bit_nat_def)
    with True Suc.IH show ?thesis by (simp add: nth_append)
  next
    case False
    then obtain m where n: "n = m + 2 ^ k" by (metis le_add_diff_inverse2 not_less)
    with Suc.prems have m: "m < 2 ^ k" by simp
    then have "bit n k" by (simp add: n bit_nat_def div_add_self2)
    moreover have "filter (bit n) [0..<k] = filter (bit m) [0..<k]"
      by (rule filter_cong) (simp_all add: n bit_add_power)
    ultimately show ?thesis using m Suc.IH by (simp add: n nth_append)
  qed
qed simp

lemma parityTable_eq: "parityTable = parity_list 8"
  by (simp add: parityTable_def eval_nat_numeral)

lemma GetParity_ones: "GetParity v = even (ones v)"
proof -
  have "bit (unat v) = bit v" by (simp add: fun_eq_iff bit_unsigned_iff)
  then show ?thesis
    using parity_list_nth [of "unat v" 8] unsigned_less [of v]
    by (simp add: GetParity_def parityTable_eq ones_def)
qed

section \<open>Carries\<close>

definition b2i :: "bool \<Rightarrow> int" where "b2i b = (if b then 1 else 0)"
definition b2n :: "bool \<Rightarrow> nat" where "b2n b = (if b then 1 else 0)"

lemma div_carry:
  assumes "0 \<le> r" "r < 2 * m" "0 < m"
  shows "r div m = (if m \<le> r then 1 else (0::int))"
proof (cases "m \<le> r")
  case True
  then have "(r - m + m) div m = 1"
    using assms by (subst div_add_self2) (simp_all add: div_pos_pos_trivial)
  with True show ?thesis by simp
qed (use assms in \<open>simp add: div_pos_pos_trivial\<close>)

lemma bit_add_carry:
  fixes x y :: int
  shows "bit (x + y + b2i c) n =
    ((bit x n = bit y n) = (2 ^ n \<le> x mod 2 ^ n + y mod 2 ^ n + b2i c))"
proof -
  let ?r = "x mod 2 ^ n + y mod 2 ^ n + b2i c"
  have "x + y + b2i c = (x div 2 ^ n + y div 2 ^ n) * 2 ^ n + ?r"
    by (simp add: algebra_simps)
  then have "(x + y + b2i c) div 2 ^ n = x div 2 ^ n + y div 2 ^ n + ?r div 2 ^ n"
    by (metis div_mult_self3 power_not_zero zero_neq_numeral)
  moreover have "?r div 2 ^ n = (if 2 ^ n \<le> ?r then 1 else 0)"
  proof (rule div_carry)
    have "x mod 2 ^ n < 2 ^ n" "y mod 2 ^ n < 2 ^ n" "0 \<le> b2i c" "b2i c \<le> 1"
      by (simp_all add: b2i_def)
    then show "?r < 2 * 2 ^ n" by linarith
  qed (simp_all add: b2i_def)
  ultimately show ?thesis by (auto simp: bit_iff_odd)
qed

lemma and_power_eq: "(z :: int) AND push_bit n 1 \<noteq> 0 \<longleftrightarrow> bit z n"
  by (simp add: push_bit_eq_mult and_exp_eq_0_iff_not_bit)

lemma GetCarry_bit:
  "GetCarry n a b cy = (2 ^ n \<le> uint a mod 2 ^ n + uint b mod 2 ^ n + b2i cy)"
proof -
  have "GetCarry n a b cy = bit ((uint a + uint b + b2i cy) XOR uint a XOR uint b) n"
    by (simp only: GetCarry_def Let_def and_power_eq b2i_def)
  then show ?thesis
    unfolding bit_xor_iff bit_add_carry by blast
qed

lemma u8_less: "unat (a :: u8) < 256"
  using unsigned_less [of a] by simp

lemma uint_int_unat: "uint (a :: u8) = int (unat a)"
  by simp

lemma b2i_b2n: "b2i c = int (b2n c)"
  by (simp add: b2i_def b2n_def)

lemma GetCarry_nat: "GetCarry n a b cy = (2 ^ n \<le> unat a mod 2 ^ n + unat b mod 2 ^ n + b2n cy)"
proof -
  have "GetCarry n a b cy = (int (2 ^ n) \<le> int (unat a mod 2 ^ n + unat b mod 2 ^ n + b2n cy))"
    unfolding GetCarry_bit uint_int_unat b2i_b2n by (simp only: of_nat_add zmod_int of_nat_power of_nat_numeral)
  then show ?thesis by (simp only: of_nat_le_iff)
qed

lemma GetCarry_8: "GetCarry 8 a b cy = (256 \<le> unat a + unat b + b2n cy)"
  using u8_less [of a] u8_less [of b] by (simp add: GetCarry_nat)

lemma GetCarry_4: "GetCarry 4 a b cy = (16 \<le> unat a mod 16 + unat b mod 16 + b2n cy)"
  by (simp add: GetCarry_nat)

lemma unat_not_u8: "unat (NOT b :: u8) = 255 - unat b"
proof -
  have "NOT b = 255 - b" by (simp add: not_eq_complement)
  moreover have "b \<le> 255" using u8_less [of b] by (simp add: word_le_nat_alt)
  ultimately show ?thesis by (simp add: unat_sub)
qed
section \<open>Addition, subtraction, comparison\<close>

lemma bit_7_and: "(v :: u8) AND 0b10000000 \<noteq> 0 \<longleftrightarrow> bit v 7"
  using and_exp_eq_0_iff_not_bit [of v 7] by simp

definition zsp :: "bool \<Rightarrow> bool \<Rightarrow> u8 \<Rightarrow> u8" where
  "zsp ac cy v = psw (bit v 7) (v = 0) ac (even (ones v)) cy"

lemma flag_carry: "r_f c = psw s z ac p cy \<Longrightarrow> get_flag FC c = cy"
  by (simp add: get_flag_def bit_psw)

lemma SetZSP_psw:
  "r_f c = psw s z ac p cy \<Longrightarrow> SetZSP v c = c\<lparr>r_f := zsp ac cy v\<rparr>"
  unfolding SetZSP_def bit_7_and by (simp add: set_flag_def zsp_def GetParity_ones)

lemma f_ok_cases:
  assumes "f_ok f" obtains s z ac p cy where "f = psw s z ac p cy"
  using f_ok_eq_psw [OF assms] by blast

lemma alu_ADD_psw:
  assumes "f_ok (r_f c)"
  shows "alu_ADD a b cy c = c\<lparr>r_a := a + b + of_bool cy,
    r_f := zsp (16 \<le> unat a mod 16 + unat b mod 16 + b2n cy)
      (256 \<le> unat a + unat b + b2n cy) (a + b + of_bool cy)\<rparr>"
proof -
  obtain s z ac p q where "r_f c = psw s z ac p q" using assms by (rule f_ok_cases)
  then show ?thesis
    by (simp add: alu_ADD_def Let_def set_flag_def SetZSP_psw [where s = s and z = z and p = p]
        GetCarry_8 GetCarry_4 of_bool_def)
qed

lemma get_set_flag [simp]: "get_flag FC (set_flag FC b c) = b"
  by (simp add: get_flag_def set_flag_def)

lemma not_mod_16:
  assumes "b < 256" shows "(255 - b) mod 16 = 15 - b mod (16 :: nat)"
proof -
  have q: "b div 16 < 16" using assms by (simp add: div_less_iff_less_mult)
  have "b = b mod 16 + 16 * (b div 16)" by simp
  moreover have r: "b mod 16 < 16" by simp
  ultimately have "255 - b = (15 - b mod 16) + 16 * (15 - b div 16)" using q by linarith
  moreover have "(15 - b mod 16 + 16 * (15 - b div 16)) mod 16 = (15 - b mod 16) mod 16"
    by (rule mod_mult_self2)
  ultimately show ?thesis by simp
qed

lemma borrow_low:
  "(16 \<le> unat a mod 16 + unat (NOT b) mod 16 + b2n (\<not> cy)) =
    (unat (b :: u8) mod 16 + b2n cy \<le> unat (a :: u8) mod 16)"
  using u8_less [of b]
  by (cases cy) (simp_all add: unat_not_u8 not_mod_16 b2n_def, arith+)

lemma borrow_high:
  "(256 \<le> unat a + unat (NOT b) + b2n (\<not> cy)) = (\<not> unat (a :: u8) < unat (b :: u8) + b2n cy)"
  using u8_less [of b] by (cases cy) (simp_all add: unat_not_u8 b2n_def, arith+)

lemma alu_SUB_psw:
  assumes "f_ok (r_f c)"
  shows "alu_SUB a b cy c = c\<lparr>r_a := a - b - of_bool cy,
    r_f := zsp (unat b mod 16 + b2n cy \<le> unat a mod 16)
      (unat a < unat b + b2n cy) (a - b - of_bool cy)\<rparr>"
proof -
  have r: "a + NOT b + of_bool (\<not> cy) = a - b - of_bool cy"
    by (simp add: not_eq_complement)
  show ?thesis
    unfolding alu_SUB_def Let_def alu_ADD_psw [OF assms] r borrow_low borrow_high
    by (simp add: set_flag_def get_flag_def zsp_def bit_psw)
qed

text \<open>
  Comparison works on C++ \<^verbatim>\<open>int\<close> values: bit 8 of the difference is the borrow, and the
  half carry is read off an exclusive or.
\<close>

lemma bit_8_diff: "bit (int m - int n) 8 = (m < n)" if "m < 256" "n < 256"
proof (cases "m < n")
  case True
  then have "(int m - int n) div 256 = -1"
    using that by (intro int_div_pos_eq [where r = "int m - int n + 256"]) simp_all
  with True show ?thesis by (simp add: bit_iff_odd)
next
  case False
  then have "(int m - int n) div 256 = 0" using that by simp
  with False show ?thesis by (simp add: bit_iff_odd)
qed

lemma and_exp_eq_exp: "(z :: int) AND 2 ^ n = 2 ^ n \<longleftrightarrow> bit z n"
proof
  assume *: "z AND 2 ^ n = 2 ^ n"
  have "bit (2 ^ n :: int) n" by (simp add: bit_exp_iff)
  then have "bit (z AND 2 ^ n) n" by (simp only: *)
  then show "bit z n" by (simp only: bit_and_iff)
next
  assume "bit z n"
  then have "bit (z AND 2 ^ n) k = bit (2 ^ n :: int) k" for k
    unfolding bit_and_iff bit_exp_iff by blast
  then show "z AND 2 ^ n = 2 ^ n" by (rule bit_eqI)
qed

lemma int_and_consts:
  "(z :: int) AND 0x10 = 0x10 \<longleftrightarrow> bit z 4"
  "(z :: int) AND 0x100 \<noteq> 0 \<longleftrightarrow> bit z 8"
  "(z :: int) AND 0xFF = z mod 256"
  using and_exp_eq_exp [of z 4] and_power_eq [of z 8] take_bit_eq_mask [of 8 z]
  by (simp_all add: push_bit_eq_mult take_bit_eq_mod mask_eq_exp_minus_1)

lemma bit_mod_256: "bit ((z :: int) mod 256) 4 = bit z 4"
  using bit_take_bit_iff [of 8 z 4] by (simp add: take_bit_eq_mod)

lemma cmp_half_carry:
  fixes a b :: u8
  shows "bit (NOT (uint a XOR ((uint a - uint b) mod 256) XOR uint b)) 4 =
    (unat b mod 16 \<le> unat a mod 16)"
proof -
  have n: "uint a + uint (NOT b) + b2i True = uint a - uint b + 256"
    using u8_less [of b] unat_not_u8 [of b] by (simp add: uint_int_unat b2i_def del: of_nat_unat)
  have "bit (uint a - uint b) 4 = bit (uint a - uint b + 256) 4"
    by (metis bit_mod_256 mod_add_self2)
  also have "\<dots> = ((bit a 4 = (\<not> bit b 4)) = (16 \<le> uint a mod 16 + uint (NOT b) mod 16 + 1))"
    unfolding n [symmetric] bit_add_carry
    by (simp add: bit_unsigned_iff bit_not_iff b2i_def)
  also have "(16 \<le> uint a mod 16 + uint (NOT b) mod 16 + 1) = (unat b mod 16 \<le> unat a mod 16)"
    using borrow_low [of a b False] GetCarry_bit [of 4 a "NOT b" True]
    by (simp add: GetCarry_nat b2n_def b2i_def)
  finally show ?thesis
    by (simp add: bit_not_iff bit_xor_iff bit_mod_256 bit_unsigned_iff) blast
qed

text \<open>The flags of a subtraction: what CMP leaves in F.\<close>

definition sub_flags :: "u8 \<Rightarrow> u8 \<Rightarrow> bool \<Rightarrow> u8" where
  "sub_flags a b cy = zsp (unat b mod 16 + b2n cy \<le> unat a mod 16)
    (unat a < unat b + b2n cy) (a - b - of_bool cy)"

lemma alu_CMP_psw:
  assumes "f_ok (r_f c)"
  shows "alu_CMP c = c\<lparr>r_f := sub_flags (r_act c) (r_tmp c) False\<rparr>"
proof -
  have w: "word_of_int ((uint a - uint b) mod 256) = a - b" for a b :: u8
  proof -
    have "(word_of_int ((uint a - uint b) mod 256) :: u8) = word_of_int (uint a - uint b)"
      by (simp only: word_of_int_eq_iff take_bit_eq_mod len_bit0 len_num1) simp
    then show ?thesis by simp
  qed
  have b8: "bit (uint a - uint b) 8 = (unat a < unat b)" for a b :: u8
    using bit_8_diff [OF u8_less [of a] u8_less [of b]] by simp
  obtain s z ac p q where "r_f c = psw s z ac p q" using assms by (rule f_ok_cases)
  then show ?thesis
    unfolding alu_CMP_def Let_def int_and_consts cmp_half_carry w b8
    by (simp add: set_flag_def SetZSP_psw [where s = s and z = z and p = p] sub_flags_def
        b2n_def)
qed

section \<open>Logic, increments, decimal adjustment\<close>

lemma and_8: "(v :: u8) AND 0x08 \<noteq> 0 \<longleftrightarrow> bit v 3"
  using and_exp_eq_0_iff_not_bit [of v 3] by simp

lemma alu_logic_psw:
  assumes "f_ok (r_f c)"
  shows "alu_AND c = c\<lparr>r_a := r_act c AND r_tmp c,
      r_f := zsp (bit (r_act c OR r_tmp c) 3) False (r_act c AND r_tmp c)\<rparr>"
    and "alu_XOR c = c\<lparr>r_a := r_act c XOR r_tmp c, r_f := zsp False False (r_act c XOR r_tmp c)\<rparr>"
    and "alu_OR c = c\<lparr>r_a := r_act c OR r_tmp c, r_f := zsp False False (r_act c OR r_tmp c)\<rparr>"
proof -
  obtain s z ac p q where "r_f c = psw s z ac p q" using assms by (rule f_ok_cases)
  then show
    "alu_AND c = c\<lparr>r_a := r_act c AND r_tmp c,
      r_f := zsp (bit (r_act c OR r_tmp c) 3) False (r_act c AND r_tmp c)\<rparr>"
    "alu_XOR c = c\<lparr>r_a := r_act c XOR r_tmp c, r_f := zsp False False (r_act c XOR r_tmp c)\<rparr>"
    "alu_OR c = c\<lparr>r_a := r_act c OR r_tmp c, r_f := zsp False False (r_act c OR r_tmp c)\<rparr>"
    unfolding alu_AND_def alu_XOR_def alu_OR_def and_8
    by (simp_all add: Let_def set_flag_def SetZSP_psw [where s = s and z = z and p = p])
qed

lemma inc_dec_psw:
  assumes "f_ok (r_f c)"
  shows "inc_tmp c = c\<lparr>r_tmp := r_tmp c + 1,
      r_f := zsp ((r_tmp c + 1) AND 0xF = 0) (bit (r_f c) 0) (r_tmp c + 1)\<rparr>"
    and "dec_tmp c = c\<lparr>r_tmp := r_tmp c - 1,
      r_f := zsp (\<not> (r_tmp c - 1) AND 0xF = 0xF) (bit (r_f c) 0) (r_tmp c - 1)\<rparr>"
proof -
  obtain s z ac p q where "r_f c = psw s z ac p q" using assms by (rule f_ok_cases)
  then show "inc_tmp c = c\<lparr>r_tmp := r_tmp c + 1,
      r_f := zsp ((r_tmp c + 1) AND 0xF = 0) (bit (r_f c) 0) (r_tmp c + 1)\<rparr>"
    "dec_tmp c = c\<lparr>r_tmp := r_tmp c - 1,
      r_f := zsp (\<not> (r_tmp c - 1) AND 0xF = 0xF) (bit (r_f c) 0) (r_tmp c - 1)\<rparr>"
    unfolding inc_tmp_def dec_tmp_def Let_def
    by (simp_all add: set_flag_def SetZSP_psw [where s = s and z = z and p = p] bit_psw)
qed

text \<open>The documented decimal adjustment: 6 to the low digit, then 0x60 to the high one.\<close>

definition daa_low :: "cpu_state \<Rightarrow> bool" where
  "daa_low c \<longleftrightarrow> get_flag FAC c \<or> 9 < unat (r_a c) mod 16"

definition daa_high :: "cpu_state \<Rightarrow> bool" where
  "daa_high c \<longleftrightarrow> get_flag FC c \<or> 0x99 < unat (r_a c)"

lemma nibbles:
  "unat ((a :: u8) AND 0x0F) = unat a mod 16" "unat (drop_bit 4 (a :: u8)) = unat a div 16"
proof -
  have "a AND 0x0F = take_bit 4 a" by (simp only: take_bit_eq_mask) (simp add: mask_eq_exp_minus_1)
  then show "unat (a AND 0x0F) = unat a mod 16"
    by (simp only: unsigned_take_bit_eq) (simp only: take_bit_eq_mod power_numeral pow.simps sqr.simps)
  show "unat (drop_bit 4 a) = unat a div 16"
    by (simp only: unat_drop_bit_eq) (simp add: drop_bit_eq_div)
qed

lemma daa_correction_spec:
  "daa_correction c =
    ((if daa_low c then 6 else 0) + (if daa_high c then 0x60 else 0), daa_high c)"
proof -
  have d: "unat (r_a c) = 16 * (unat (r_a c) div 16) + unat (r_a c) mod 16" by simp
  have "(9 < unat (r_a c) div 16 \<or> 9 \<le> unat (r_a c) div 16 \<and> 9 < unat (r_a c) mod 16) =
      (0x99 < unat (r_a c))"
    using d by arith
  then show ?thesis
    by (simp add: daa_correction_def Let_def word_less_nat_alt word_le_nat_alt nibbles daa_low_def
        daa_high_def)
qed

lemma do_DAA_psw:
  assumes "f_ok (r_f c)"
  shows "do_DAA c =
    (let k = (if daa_low c then 6 else 0) + (if daa_high c then 0x60 else 0)
     in c\<lparr>r_a := r_a c + k,
          r_f := zsp (daa_low c \<and> 9 < unat (r_a c) mod 16) (daa_high c) (r_a c + k)\<rparr>)"
proof -
  have "(16 \<le> unat (r_a c) mod 16 + unat ((if daa_low c then 6 else 0) +
      (if daa_high c then 0x60 else 0) :: u8) mod 16) = (daa_low c \<and> 9 < unat (r_a c) mod 16)"
    by auto
  then show ?thesis
    unfolding do_DAA_def daa_correction_spec Let_def prod.case alu_ADD_psw [OF assms]
    by (simp add: set_flag_def zsp_def b2n_def)
qed

section \<open>Rotations\<close>

lemma and_consts_u8:
  "(v :: u8) AND 0x80 \<noteq> 0 \<longleftrightarrow> bit v 7" "(v :: u8) AND 1 = 1 \<longleftrightarrow> bit v 0"
  using and_exp_eq_0_iff_not_bit [of v 7] by (simp_all add: and_one_eq mod_2_eq_odd bit_0)

text \<open>A byte shifted by one place, with \<open>b\<close> coming in.\<close>

definition shl_in :: "u8 \<Rightarrow> bool \<Rightarrow> u8" where "shl_in a b = push_bit 1 a OR (if b then 1 else 0)"
definition shr_in :: "u8 \<Rightarrow> bool \<Rightarrow> u8" where
  "shr_in a b = drop_bit 1 a OR (if b then push_bit 7 1 else 0)"

lemma bit_shl_in: "bit (shl_in a b) k = (k = 0 \<and> b \<or> 0 < k \<and> k < 8 \<and> bit a (k - 1))"
  unfolding shl_in_def bit_or_iff bit_push_bit_iff
  by (cases b) (auto simp: bit_1_iff)

lemma bit_shr_in: "bit (shr_in a b) k = (k = 7 \<and> b \<or> bit a (Suc k))"
proof -
  have "bit (push_bit 7 (1 :: u8)) k = (k = 7)"
    unfolding bit_push_bit_iff by (auto simp: bit_1_iff)
  then show ?thesis
    unfolding shr_in_def bit_or_iff bit_drop_bit_eq by (cases b) (auto simp: comp_def)
qed

lemma shl_in_add: "push_bit 1 (a :: u8) + (if b then 1 else 0) = shl_in a b"
proof -
  have "\<not> bit (push_bit 1 a) 0" by (simp only: bit_push_bit_iff) simp
  then show ?thesis
    unfolding shl_in_def by (intro disjunctive_add) (metis bit_1_iff bit_0_eq bot_apply bot_bool_def)
qed

lemma shift_back [simp]: "shr_in (shl_in a b) (bit a 7) = a" "shl_in (shr_in a b) (bit a 0) = a"
proof -
  show "shr_in (shl_in a b) (bit a 7) = a"
  proof (rule bit_word_eqI)
    fix k :: nat
    assume "k < LENGTH(8)"
    then have "k = 7 \<or> Suc k < 8" by auto
    then show "bit (shr_in (shl_in a b) (bit a 7)) k = bit a k"
      by (auto simp only: bit_shr_in bit_shl_in diff_Suc_1)
  qed
  show "shl_in (shr_in a b) (bit a 0) = a"
  proof (rule bit_word_eqI)
    fix k :: nat
    assume "k < LENGTH(8)"
    then show "bit (shl_in (shr_in a b) (bit a 0)) k = bit a k"
      by (cases k) (auto simp: bit_shr_in bit_shl_in)
  qed
qed

lemma rotate_eqs:
  "do_RLC c = c\<lparr>r_a := shl_in (r_a c) (bit (r_a c) 7), r_f := put_bit 0 (bit (r_a c) 7) (r_f c)\<rparr>"
  "do_RRC c = c\<lparr>r_a := shr_in (r_a c) (bit (r_a c) 0), r_f := put_bit 0 (bit (r_a c) 0) (r_f c)\<rparr>"
  "do_RAL c = c\<lparr>r_a := shl_in (r_a c) (bit (r_f c) 0), r_f := put_bit 0 (bit (r_a c) 7) (r_f c)\<rparr>"
  "do_RAR c = c\<lparr>r_a := shr_in (r_a c) (bit (r_f c) 0), r_f := put_bit 0 (bit (r_a c) 0) (r_f c)\<rparr>"
  using shl_in_add [of "r_a c" "bit (r_a c) 7"]
  by (simp_all add: do_RLC_def do_RRC_def do_RAL_def do_RAR_def and_consts_u8 Let_def set_flag_def
      get_flag_def bit_put_bit shl_in_def [symmetric] shr_in_def [symmetric] split del: if_split
      cong: if_cong)
    (simp_all add: shl_in_def shr_in_def)

lemma put_bit_same [simp]: "put_bit n (bit w n) w = (w :: u8)"
  by (rule bit_word_eqI) (auto simp: bit_put_bit)

lemma put_bit_put_bit [simp]: "put_bit n b (put_bit n b' w) = put_bit n b (w :: 'a::len word)"
  by (rule bit_word_eqI) (simp add: bit_put_bit)

end
