(* ===== verification/Cpu_Exec.thy ===== *)
theory Cpu_Exec
  imports Cpu_State
begin

unbundle bit_operations_syntax

text \<open>
  The instruction handlers of \<^verbatim>\<open>cpu_i8080.cpp\<close>. Every handler of the code is called once per
  machine cycle and switches on the cycle index MC; here it is a function of the machine, one
  branch per case of the switch. The \<^verbatim>\<open>std::function\<close> objects \<^verbatim>\<open>Input\<close> and
  \<^verbatim>\<open>Output\<close> are the fields of \<open>port_bus\<close>, over any type of device state.
\<close>

record 'io machine =
  cpu :: cpu_state
  mem :: memory
  io :: 'io
  exit_code :: "int option"

record 'io port_bus =
  bus_input :: "u8 \<Rightarrow> 'io \<Rightarrow> u8 \<times> 'io"
  bus_output :: "u8 \<Rightarrow> u8 \<Rightarrow> 'io \<Rightarrow> 'io"

definition upd :: "(cpu_state \<Rightarrow> cpu_state) \<Rightarrow> 'io machine \<Rightarrow> 'io machine" where
  "upd g m = m\<lparr>cpu := g (cpu m)\<rparr>"

abbreviation MC :: "'io machine \<Rightarrow> 4 word" where
  "MC m \<equiv> r_mc (cpu m)"

section \<open>Memory helpers\<close>

definition ReadInstrMovePC :: "nat \<Rightarrow> 'io machine \<Rightarrow> u8 \<times> 'io machine" where
  "ReadInstrMovePC n m =
    (let (opcode, mem') = CpuReadInstr (r_pc (cpu m)) RAM n (mem m)
     in (opcode, m\<lparr>mem := mem', cpu := (cpu m)\<lparr>r_pc := r_pc (cpu m) + 1\<rparr>\<rparr>))"

definition ReadByte :: "addr \<Rightarrow> addr_space \<Rightarrow> nat \<Rightarrow> 'io machine \<Rightarrow> u8 \<times> 'io machine" where
  "ReadByte a sp n m = (let (v, mem') = CpuRead a sp n (mem m) in (v, m\<lparr>mem := mem'\<rparr>))"

definition WriteByte :: "addr \<Rightarrow> u8 \<Rightarrow> addr_space \<Rightarrow> nat \<Rightarrow> 'io machine \<Rightarrow> 'io machine" where
  "WriteByte a v sp n m = m\<lparr>mem := CpuWrite a v sp n (mem m)\<rparr>"

text \<open>\<open>load_op n g\<close> fetches operand byte \<open>n\<close> and hands it to \<open>g\<close>; \<open>load_mem\<close> reads data.\<close>

definition load_op :: "nat \<Rightarrow> (u8 \<Rightarrow> cpu_state \<Rightarrow> cpu_state) \<Rightarrow> 'io machine \<Rightarrow> 'io machine" where
  "load_op n g m = (let (v, m') = ReadInstrMovePC n m in upd (g v) m')"

definition load_mem ::
  "addr \<Rightarrow> addr_space \<Rightarrow> nat \<Rightarrow> (u8 \<Rightarrow> cpu_state \<Rightarrow> cpu_state) \<Rightarrow> 'io machine \<Rightarrow> 'io machine" where
  "load_mem a sp n g m = (let (v, m') = ReadByte a sp n m in upd (g v) m')"

section \<open>Moves and loads\<close>

definition MOVRegReg :: "reg8 \<Rightarrow> reg8 \<Rightarrow> 'io machine \<Rightarrow> 'io machine" where
  "MOVRegReg dst src m =
    (if MC m = 0 then upd (\<lambda>c. c\<lparr>r_tmp := get8 src c\<rparr>) m
     else if MC m = 1 then upd (\<lambda>c. set8 dst (r_tmp c) c) m
     else m)"

definition LoadRegPtr :: "reg8 \<Rightarrow> reg16 \<Rightarrow> 'io machine \<Rightarrow> 'io machine" where
  "LoadRegPtr dst ptr m =
    (if MC m = 0 then m
     else if MC m = 1 then load_mem (get16 ptr (cpu m)) RAM 0 (set8 dst) m
     else m)"

definition MOVMemReg :: "reg8 \<Rightarrow> 'io machine \<Rightarrow> 'io machine" where
  "MOVMemReg src m =
    (if MC m = 0 then upd (\<lambda>c. c\<lparr>r_tmp := get8 src c\<rparr>) m
     else if MC m = 1 then WriteByte (r_hl (cpu m)) (r_tmp (cpu m)) RAM 0 m
     else m)"

definition MVIRegData :: "reg8 \<Rightarrow> 'io machine \<Rightarrow> 'io machine" where
  "MVIRegData dst m =
    (if MC m = 0 then m else if MC m = 1 then load_op 1 (set8 dst) m else m)"

definition MVIMemData :: "'io machine \<Rightarrow> 'io machine" where
  "MVIMemData m =
    (if MC m = 0 then m
     else if MC m = 1 then load_op 1 (\<lambda>v c. c\<lparr>r_tmp := v\<rparr>) m
     else if MC m = 2 then WriteByte (r_hl (cpu m)) (r_tmp (cpu m)) RAM 0 m
     else m)"

definition do_LDA :: "'io machine \<Rightarrow> 'io machine" where
  "do_LDA m =
    (if MC m = 0 then m
     else if MC m = 1 then load_op 1 set_z m
     else if MC m = 2 then load_op 2 set_w m
     else if MC m = 3 then load_mem (r_wz (cpu m)) RAM 0 (set8 A) m
     else m)"

definition do_STA :: "'io machine \<Rightarrow> 'io machine" where
  "do_STA m =
    (if MC m = 0 then m
     else if MC m = 1 then load_op 1 set_z m
     else if MC m = 2 then load_op 2 set_w m
     else if MC m = 3 then WriteByte (r_wz (cpu m)) (r_a (cpu m)) RAM 0 m
     else m)"

definition do_STAX :: "reg16 \<Rightarrow> 'io machine \<Rightarrow> 'io machine" where
  "do_STAX ptr m =
    (if MC m = 0 then m
     else if MC m = 1 then WriteByte (get16 ptr (cpu m)) (r_a (cpu m)) RAM 0 m
     else m)"

definition do_LXI :: "reg8 \<Rightarrow> reg8 \<Rightarrow> 'io machine \<Rightarrow> 'io machine" where
  "do_LXI rh rl m =
    (if MC m = 0 then m
     else if MC m = 1 then load_op 1 (set8 rl) m
     else if MC m = 2 then load_op 2 (set8 rh) m
     else m)"

definition do_LHLD :: "'io machine \<Rightarrow> 'io machine" where
  "do_LHLD m =
    (if MC m = 0 then m
     else if MC m = 1 then load_op 1 set_z m
     else if MC m = 2 then load_op 2 set_w m
     else if MC m = 3 then
       upd (\<lambda>c. c\<lparr>r_wz := r_wz c + 1\<rparr>) (load_mem (r_wz (cpu m)) RAM 0 (set8 L) m)
     else if MC m = 4 then load_mem (r_wz (cpu m)) RAM 1 (set8 H) m
     else m)"

definition do_SHLD :: "'io machine \<Rightarrow> 'io machine" where
  "do_SHLD m =
    (if MC m = 0 then m
     else if MC m = 1 then load_op 1 set_z m
     else if MC m = 2 then load_op 2 set_w m
     else if MC m = 3 then
       upd (\<lambda>c. c\<lparr>r_wz := r_wz c + 1\<rparr>) (WriteByte (r_wz (cpu m)) (get8 L (cpu m)) RAM 0 m)
     else if MC m = 4 then WriteByte (r_wz (cpu m)) (get8 H (cpu m)) RAM 1 m
     else m)"

definition do_SPHL :: "'io machine \<Rightarrow> 'io machine" where
  "do_SPHL m =
    (if MC m = 0 then m else if MC m = 1 then upd (\<lambda>c. c\<lparr>r_sp := r_hl c\<rparr>) m else m)"

definition do_XCHG :: "'io machine \<Rightarrow> 'io machine" where
  "do_XCHG m =
    upd (\<lambda>c.
      let c1 = c\<lparr>r_tmp := get8 D c\<rparr>;
          c2 = set8 D (get8 H c1) c1;
          c3 = set8 H (r_tmp c2) c2;
          c4 = c3\<lparr>r_tmp := get8 E c3\<rparr>;
          c5 = set8 E (get8 L c4) c4
      in set8 L (r_tmp c5) c5) m"

section \<open>Stack\<close>

definition do_XTHL :: "'io machine \<Rightarrow> 'io machine" where
  "do_XTHL m =
    (if MC m = 0 then m
     else if MC m = 1 then load_mem (r_sp (cpu m)) STACK 0 set_z m
     else if MC m = 2 then load_mem (r_sp (cpu m) + 1) STACK 1 set_w m
     else if MC m = 3 then WriteByte (r_sp (cpu m)) (get8 L (cpu m)) STACK 1 m
     else if MC m = 4 then WriteByte (r_sp (cpu m) + 1) (get8 H (cpu m)) STACK 0 m
     else if MC m = 5 then upd (\<lambda>c. c\<lparr>r_hl := r_wz c\<rparr>) m
     else m)"

definition dec_sp :: "cpu_state \<Rightarrow> cpu_state" where
  "dec_sp c = c\<lparr>r_sp := r_sp c - 1\<rparr>"

definition inc_sp :: "cpu_state \<Rightarrow> cpu_state" where
  "inc_sp c = c\<lparr>r_sp := r_sp c + 1\<rparr>"

definition do_PUSH :: "reg8 \<Rightarrow> reg8 \<Rightarrow> 'io machine \<Rightarrow> 'io machine" where
  "do_PUSH hb lb m =
    (if MC m = 0 then upd dec_sp m
     else if MC m = 1 then WriteByte (r_sp (cpu m)) (get8 hb (cpu m)) STACK 0 m
     else if MC m = 2 then upd dec_sp m
     else if MC m = 3 then WriteByte (r_sp (cpu m)) (get8 lb (cpu m)) STACK 1 m
     else m)"

definition do_POP :: "reg8 \<Rightarrow> reg8 \<Rightarrow> 'io machine \<Rightarrow> 'io machine" where
  "do_POP rh rl m =
    (if MC m = 0 then m
     else if MC m = 1 then upd inc_sp (load_mem (r_sp (cpu m)) STACK 0 (set8 rl) m)
     else if MC m = 2 then upd inc_sp (load_mem (r_sp (cpu m)) STACK 1 (set8 rh) m)
     else m)"

text \<open>The case \<^verbatim>\<open>0xF1\<close>: POP into A and F, then force the unused flag bits, every cycle.\<close>

definition do_POP_PSW :: "'io machine \<Rightarrow> 'io machine" where
  "do_POP_PSW m =
    upd (\<lambda>c. c\<lparr>r_f := (r_f c AND ucast PSW_NUL_FLAGS) OR ucast PSW_INIT\<rparr>) (do_POP A F m)"

section \<open>Arithmetic\<close>

definition carry_in :: "bool \<Rightarrow> cpu_state \<Rightarrow> bool" where
  "carry_in use_fc c = (use_fc \<and> get_flag FC c)"

definition save_act :: "cpu_state \<Rightarrow> cpu_state" where
  "save_act c = c\<lparr>r_act := r_a c\<rparr>"

definition set_tmp :: "u8 \<Rightarrow> cpu_state \<Rightarrow> cpu_state" where
  "set_tmp v c = c\<lparr>r_tmp := v\<rparr>"

definition do_ADD :: "reg8 \<Rightarrow> bool \<Rightarrow> 'io machine \<Rightarrow> 'io machine" where
  "do_ADD r use_fc m = upd (\<lambda>c. alu_ADD (get8 A c) (get8 r c) (carry_in use_fc c) c) m"

text \<open>
  The shape of \<^verbatim>\<open>ADDMem\<close>, \<^verbatim>\<open>SUBMem\<close>, \<^verbatim>\<open>AMAMem\<close>, \<^verbatim>\<open>XRAMem\<close>, \<^verbatim>\<open>ORAMem\<close> and
  \<^verbatim>\<open>CMPMem\<close> (operand from (HL)), and of their immediate forms: save A in the first
  cycle, load TMP and compute in the second.
\<close>

definition alu_mem :: "(cpu_state \<Rightarrow> cpu_state) \<Rightarrow> 'io machine \<Rightarrow> 'io machine" where
  "alu_mem g m =
    (if MC m = 0 then upd save_act m
     else if MC m = 1 then load_mem (r_hl (cpu m)) RAM 0 (\<lambda>v c. g (set_tmp v c)) m
     else m)"

definition alu_imm :: "(cpu_state \<Rightarrow> cpu_state) \<Rightarrow> 'io machine \<Rightarrow> 'io machine" where
  "alu_imm g m =
    (if MC m = 0 then upd save_act m
     else if MC m = 1 then load_op 1 (\<lambda>v c. g (set_tmp v c)) m
     else m)"

definition ADDMem :: "bool \<Rightarrow> 'io machine \<Rightarrow> 'io machine" where
  "ADDMem use_fc = alu_mem (\<lambda>c. alu_ADD (r_act c) (r_tmp c) (carry_in use_fc c) c)"

definition do_ADI :: "bool \<Rightarrow> 'io machine \<Rightarrow> 'io machine" where
  "do_ADI use_fc = alu_imm (\<lambda>c. alu_ADD (r_act c) (r_tmp c) (carry_in use_fc c) c)"

definition do_SUB :: "reg8 \<Rightarrow> bool \<Rightarrow> 'io machine \<Rightarrow> 'io machine" where
  "do_SUB r use_fc m = upd (\<lambda>c. alu_SUB (get8 A c) (get8 r c) (carry_in use_fc c) c) m"

definition SUBMem :: "bool \<Rightarrow> 'io machine \<Rightarrow> 'io machine" where
  "SUBMem use_fc = alu_mem (\<lambda>c. alu_SUB (r_act c) (r_tmp c) (carry_in use_fc c) c)"

definition do_SBI :: "bool \<Rightarrow> 'io machine \<Rightarrow> 'io machine" where
  "do_SBI use_fc = alu_imm (\<lambda>c. alu_SUB (r_act c) (r_tmp c) (carry_in use_fc c) c)"

definition dad_lo :: "reg16 \<Rightarrow> cpu_state \<Rightarrow> cpu_state" where
  "dad_lo rp c =
    (let c1 = c\<lparr>r_act := lo (get16 rp c), r_tmp := get8 L c\<rparr>;
         res = uint (r_act c1) + uint (r_tmp c1);
         c2 = set_flag FC (res AND 0x100 \<noteq> 0) c1
     in set8 L (word_of_int res) c2)"

definition dad_hi :: "reg16 \<Rightarrow> cpu_state \<Rightarrow> cpu_state" where
  "dad_hi rp c =
    (let c1 = c\<lparr>r_act := hi (get16 rp c), r_tmp := get8 H c\<rparr>;
         res = uint (r_act c1) + uint (r_tmp c1) + (if get_flag FC c1 then 1 else 0);
         c2 = set_flag FC (res AND 0x100 \<noteq> 0) c1
     in set8 H (word_of_int res) c2)"

definition do_DAD :: "reg16 \<Rightarrow> 'io machine \<Rightarrow> 'io machine" where
  "do_DAD rp m =
    (if MC m = 0 then m
     else if MC m = 1 then upd (dad_lo rp) m
     else if MC m = 2 then upd (dad_hi rp) m
     else m)"

definition do_INR :: "reg8 \<Rightarrow> 'io machine \<Rightarrow> 'io machine" where
  "do_INR r m =
    (if MC m = 0 then upd (\<lambda>c. inc_tmp (set_tmp (get8 r c) c)) m
     else if MC m = 1 then upd (\<lambda>c. set8 r (r_tmp c) c) m
     else m)"

definition INRMem :: "'io machine \<Rightarrow> 'io machine" where
  "INRMem m =
    (if MC m = 0 then m
     else if MC m = 1 then load_mem (r_hl (cpu m)) RAM 0 (\<lambda>v c. inc_tmp (set_tmp v c)) m
     else if MC m = 2 then WriteByte (r_hl (cpu m)) (r_tmp (cpu m)) RAM 0 m
     else m)"

definition do_DCR :: "reg8 \<Rightarrow> 'io machine \<Rightarrow> 'io machine" where
  "do_DCR r m =
    (if MC m = 0 then upd (\<lambda>c. dec_tmp (set_tmp (get8 r c) c)) m
     else if MC m = 1 then upd (\<lambda>c. set8 r (r_tmp c) c) m
     else m)"

definition DCRMem :: "'io machine \<Rightarrow> 'io machine" where
  "DCRMem m =
    (if MC m = 0 then m
     else if MC m = 1 then load_mem (r_hl (cpu m)) RAM 0 (\<lambda>v c. dec_tmp (set_tmp v c)) m
     else if MC m = 2 then WriteByte (r_hl (cpu m)) (r_tmp (cpu m)) RAM 0 m
     else m)"

definition do_INX :: "reg16 \<Rightarrow> 'io machine \<Rightarrow> 'io machine" where
  "do_INX rp m =
    (if MC m = 0 then upd (\<lambda>c. c\<lparr>r_wz := get16 rp c + 1\<rparr>) m
     else if MC m = 1 then upd (\<lambda>c. set16 rp (r_wz c) c) m
     else m)"

definition do_DCX :: "reg16 \<Rightarrow> 'io machine \<Rightarrow> 'io machine" where
  "do_DCX rp m =
    (if MC m = 0 then upd (\<lambda>c. c\<lparr>r_wz := get16 rp c - 1\<rparr>) m
     else if MC m = 1 then upd (\<lambda>c. set16 rp (r_wz c) c) m
     else m)"

section \<open>Logic\<close>

definition load_alu :: "reg8 \<Rightarrow> cpu_state \<Rightarrow> cpu_state" where
  "load_alu r c = set_tmp (get8 r c) (save_act c)"

definition do_ANA :: "reg8 \<Rightarrow> 'io machine \<Rightarrow> 'io machine" where
  "do_ANA r m = upd (\<lambda>c. alu_AND (load_alu r c)) m"

definition AMAMem :: "'io machine \<Rightarrow> 'io machine" where "AMAMem = alu_mem alu_AND"
definition do_ANI :: "'io machine \<Rightarrow> 'io machine" where "do_ANI = alu_imm alu_AND"

definition do_XRA :: "reg8 \<Rightarrow> 'io machine \<Rightarrow> 'io machine" where
  "do_XRA r m = upd (\<lambda>c. alu_XOR (load_alu r c)) m"

definition XRAMem :: "'io machine \<Rightarrow> 'io machine" where "XRAMem = alu_mem alu_XOR"
definition do_XRI :: "'io machine \<Rightarrow> 'io machine" where "do_XRI = alu_imm alu_XOR"

definition do_ORA :: "reg8 \<Rightarrow> 'io machine \<Rightarrow> 'io machine" where
  "do_ORA r m = upd (\<lambda>c. alu_OR (load_alu r c)) m"

definition ORAMem :: "'io machine \<Rightarrow> 'io machine" where "ORAMem = alu_mem alu_OR"
definition do_ORI :: "'io machine \<Rightarrow> 'io machine" where "do_ORI = alu_imm alu_OR"

definition do_CMP :: "reg8 \<Rightarrow> 'io machine \<Rightarrow> 'io machine" where
  "do_CMP r m = upd (\<lambda>c. alu_CMP (load_alu r c)) m"

definition CMPMem :: "'io machine \<Rightarrow> 'io machine" where "CMPMem = alu_mem alu_CMP"
definition do_CPI :: "'io machine \<Rightarrow> 'io machine" where "do_CPI = alu_imm alu_CMP"

section \<open>Branches\<close>

datatype cond = Always | When flag bool

fun holds :: "cond \<Rightarrow> cpu_state \<Rightarrow> bool" where
  "holds Always c = True"
| "holds (When fl b) c = (get_flag fl c = b)"

definition jump_wz :: "cpu_state \<Rightarrow> cpu_state" where
  "jump_wz c = c\<lparr>r_pc := r_wz c\<rparr>"

definition do_JMP :: "cond \<Rightarrow> 'io machine \<Rightarrow> 'io machine" where
  "do_JMP cd m =
    (if MC m = 0 then m
     else if MC m = 1 then load_op 1 set_z m
     else if MC m = 2 then
       (let m' = load_op 2 set_w m in if holds cd (cpu m) then upd jump_wz m' else m')
     else m)"

definition do_PCHL :: "'io machine \<Rightarrow> 'io machine" where
  "do_PCHL m =
    (if MC m = 0 then m else if MC m = 1 then upd (\<lambda>c. c\<lparr>r_pc := r_hl c\<rparr>) m else m)"

definition do_CALL :: "cond \<Rightarrow> 'io machine \<Rightarrow> 'io machine" where
  "do_CALL cd m =
    (if MC m = 0 then
       upd (\<lambda>c. c\<lparr>r_sp := r_sp c - (if holds cd c then 1 else 0)\<rparr>) m
     else if MC m = 1 then load_op 1 set_z m
     else if MC m = 2 then load_op 2 set_w m
     else if MC m = 3 then
       (if holds cd (cpu m)
        then upd dec_sp (WriteByte (r_sp (cpu m)) (hi (r_pc (cpu m))) STACK 0 m)
        else upd (\<lambda>c. c\<lparr>r_mc := 5\<rparr>) m)
     else if MC m = 4 then WriteByte (r_sp (cpu m)) (lo (r_pc (cpu m))) STACK 1 m
     else if MC m = 5 then upd jump_wz m
     else m)"

definition do_RST :: "u8 \<Rightarrow> 'io machine \<Rightarrow> 'io machine" where
  "do_RST arg m =
    (if MC m = 0 then upd dec_sp m
     else if MC m = 1 then upd dec_sp (WriteByte (r_sp (cpu m)) (hi (r_pc (cpu m))) STACK 0 m)
     else if MC m = 2 then
       (let m' = upd (\<lambda>c. set_z (push_bit 3 arg) (set_w 0 c)) m
        in WriteByte (r_sp (cpu m')) (lo (r_pc (cpu m'))) STACK 1 m')
     else if MC m = 3 then upd jump_wz m
     else m)"

definition do_RET :: "'io machine \<Rightarrow> 'io machine" where
  "do_RET m =
    (if MC m = 0 then m
     else if MC m = 1 then upd inc_sp (load_mem (r_sp (cpu m)) STACK 0 set_z m)
     else if MC m = 2 then
       upd (\<lambda>c. jump_wz (inc_sp c)) (load_mem (r_sp (cpu m)) STACK 1 set_w m)
     else m)"

definition RETCond :: "cond \<Rightarrow> 'io machine \<Rightarrow> 'io machine" where
  "RETCond cd m =
    (if MC m = 0 then m
     else if MC m = 1 then (if \<not> holds cd (cpu m) then upd (\<lambda>c. c\<lparr>r_mc := 3\<rparr>) m else m)
     else if MC m = 2 then upd inc_sp (load_mem (r_sp (cpu m)) STACK 0 set_z m)
     else if MC m = 3 then
       upd (\<lambda>c. jump_wz (inc_sp c)) (load_mem (r_sp (cpu m)) STACK 1 set_w m)
     else m)"

section \<open>Ports, interrupts, halt\<close>

definition do_IN :: "'io port_bus \<Rightarrow> 'io machine \<Rightarrow> 'io machine" where
  "do_IN bus m =
    (if MC m = 0 then m
     else if MC m = 1 then load_op 1 set_z (upd (set_w 0) m)
     else if MC m = 2 then
       (let (v, io') = bus_input bus (lo (r_wz (cpu m))) (io m)
        in m\<lparr>io := io', cpu := (cpu m)\<lparr>r_a := v\<rparr>\<rparr>)
     else m)"

definition do_OUT :: "'io port_bus \<Rightarrow> 'io machine \<Rightarrow> 'io machine" where
  "do_OUT bus m =
    (if MC m = 0 then m
     else if MC m = 1 then
       (let m' = load_op 1 set_z (upd (set_w 0) m)
        in m'\<lparr>io := bus_output bus (lo (r_wz (cpu m'))) (r_a (cpu m')) (io m')\<rparr>)
     else m)"

definition do_HLT :: "'io machine \<Rightarrow> 'io machine" where
  "do_HLT m =
    (if MC m = 0 then upd (\<lambda>c. c\<lparr>r_pc := r_pc c - 1\<rparr>) m
     else if MC m = 1 then
       (let m' = load_op 0 (\<lambda>_ c. c) m
        in if \<not> i_iff (cpu m')
           then upd (\<lambda>c. c\<lparr>i_hlta := True, r_mc := r_mc c - 1, r_pc := r_pc c - 1\<rparr>) m'
           else m')
     else m)"

end
