(* ===== verification/Cpu_Decode.thy ===== *)
theory Cpu_Decode
  imports Cpu_Exec
begin

unbundle bit_operations_syntax

text \<open>
  The dispatch of \<^verbatim>\<open>CpuI8080::Decode\<close> and one machine cycle. The switch of the code is an
  association list from opcodes to handler calls, in the order of its cases; a handler call is a
  value of \<open>instr\<close>, run by \<open>exec_instr\<close>. The three opcode tables (machine cycles, lengths, types)
  are copied from the code. The lemmas show that the switch covers every opcode and that the
  cycle table agrees with the handlers.
\<close>

section \<open>Opcode tables\<close>

definition M_CYCLES :: "nat list" where
  "M_CYCLES =
   [1, 3, 2, 2, 2, 2, 2, 1, 1, 3, 2, 2, 2, 2, 2, 1,
    1, 3, 2, 2, 2, 2, 2, 1, 1, 3, 2, 2, 2, 2, 2, 1,
    1, 3, 5, 2, 2, 2, 2, 1, 1, 3, 5, 2, 2, 2, 2, 1,
    1, 3, 4, 2, 3, 3, 3, 1, 1, 3, 4, 2, 2, 2, 2, 1,
    2, 2, 2, 2, 2, 2, 2, 2, 2, 2, 2, 2, 2, 2, 2, 2,
    2, 2, 2, 2, 2, 2, 2, 2, 2, 2, 2, 2, 2, 2, 2, 2,
    2, 2, 2, 2, 2, 2, 2, 2, 2, 2, 2, 2, 2, 2, 2, 2,
    2, 2, 2, 2, 2, 1, 2, 2, 2, 2, 2, 2, 2, 2, 2, 2,
    1, 1, 1, 1, 1, 1, 2, 1, 1, 1, 1, 1, 1, 1, 2, 1,
    1, 1, 1, 1, 1, 1, 2, 1, 1, 1, 1, 1, 1, 1, 2, 1,
    1, 1, 1, 1, 1, 1, 2, 1, 1, 1, 1, 1, 1, 1, 2, 1,
    1, 1, 1, 1, 1, 1, 2, 1, 1, 1, 1, 1, 1, 1, 2, 1,
    4, 3, 3, 3, 6, 4, 2, 4, 4, 3, 3, 3, 6, 6, 2, 4,
    4, 3, 3, 3, 6, 4, 2, 4, 4, 3, 3, 3, 6, 6, 2, 4,
    4, 3, 3, 6, 6, 4, 2, 4, 4, 2, 3, 1, 6, 6, 2, 4,
    4, 3, 3, 1, 6, 4, 2, 4, 4, 2, 3, 1, 6, 6, 2, 4]"

definition INSTR_LENS :: "nat list" where
  "INSTR_LENS =
   [1, 3, 1, 1, 1, 1, 2, 1, 1, 1, 1, 1, 1, 1, 2, 1,
    1, 3, 1, 1, 1, 1, 2, 1, 1, 1, 1, 1, 1, 1, 2, 1,
    1, 3, 3, 1, 1, 1, 2, 1, 1, 1, 3, 1, 1, 1, 2, 1,
    1, 3, 3, 1, 1, 1, 2, 1, 1, 1, 3, 1, 1, 1, 2, 1,
    1, 1, 1, 1, 1, 1, 1, 1, 1, 1, 1, 1, 1, 1, 1, 1,
    1, 1, 1, 1, 1, 1, 1, 1, 1, 1, 1, 1, 1, 1, 1, 1,
    1, 1, 1, 1, 1, 1, 1, 1, 1, 1, 1, 1, 1, 1, 1, 1,
    1, 1, 1, 1, 1, 1, 1, 1, 1, 1, 1, 1, 1, 1, 1, 1,
    1, 1, 1, 1, 1, 1, 1, 1, 1, 1, 1, 1, 1, 1, 1, 1,
    1, 1, 1, 1, 1, 1, 1, 1, 1, 1, 1, 1, 1, 1, 1, 1,
    1, 1, 1, 1, 1, 1, 1, 1, 1, 1, 1, 1, 1, 1, 1, 1,
    1, 1, 1, 1, 1, 1, 1, 1, 1, 1, 1, 1, 1, 1, 1, 1,
    1, 1, 3, 3, 3, 1, 2, 1, 1, 1, 3, 1, 3, 3, 2, 1,
    1, 1, 3, 2, 3, 1, 2, 1, 1, 1, 3, 2, 3, 1, 2, 1,
    1, 1, 3, 1, 3, 1, 2, 1, 1, 1, 3, 1, 3, 1, 2, 1,
    1, 1, 3, 1, 3, 1, 2, 1, 1, 1, 3, 1, 3, 1, 2, 1]"

definition INSTR_TYPES :: "nat list" where
  "INSTR_TYPES =
   [8, 8, 8, 8, 8, 8, 8, 8, 8, 8, 8, 8, 8, 8, 8, 8,
    8, 8, 8, 8, 8, 8, 8, 8, 8, 8, 8, 8, 8, 8, 8, 8,
    8, 8, 8, 8, 8, 8, 8, 8, 8, 8, 8, 8, 8, 8, 8, 8,
    8, 8, 8, 8, 8, 8, 8, 8, 8, 8, 8, 8, 8, 8, 8, 8,
    8, 8, 8, 8, 8, 8, 8, 8, 8, 8, 8, 8, 8, 8, 8, 8,
    8, 8, 8, 8, 8, 8, 8, 8, 8, 8, 8, 8, 8, 8, 8, 8,
    8, 8, 8, 8, 8, 8, 8, 8, 8, 8, 8, 8, 8, 8, 8, 8,
    8, 8, 8, 8, 8, 8, 8, 8, 8, 8, 8, 8, 8, 8, 8, 8,
    8, 8, 8, 8, 8, 8, 8, 8, 8, 8, 8, 8, 8, 8, 8, 8,
    8, 8, 8, 8, 8, 8, 8, 8, 8, 8, 8, 8, 8, 8, 8, 8,
    8, 8, 8, 8, 8, 8, 8, 8, 8, 8, 8, 8, 8, 8, 8, 8,
    8, 8, 8, 8, 8, 8, 8, 8, 8, 8, 8, 8, 8, 8, 8, 8,
    4, 8, 2, 3, 0, 8, 8, 7, 4, 5, 2, 8, 0, 1, 8, 7,
    4, 8, 2, 8, 0, 8, 8, 7, 4, 8, 2, 8, 0, 8, 8, 7,
    4, 8, 2, 8, 0, 8, 8, 7, 4, 6, 2, 8, 0, 8, 8, 7,
    4, 8, 2, 8, 0, 8, 8, 7, 4, 8, 2, 8, 0, 8, 8, 7]"

definition GetInstrCC :: "u8 \<Rightarrow> nat" where
  "GetInstrCC opcode = M_CYCLES ! unat opcode * 4"

definition GetInstrLen :: "u8 \<Rightarrow> nat" where
  "GetInstrLen opcode = INSTR_LENS ! unat opcode"

definition GetInstrType :: "u8 \<Rightarrow> nat" where
  "GetInstrType opcode = INSTR_TYPES ! unat opcode"

section \<open>Handler calls\<close>

datatype (plugins only: code) move_instr =
    I_MOVRegReg reg8 reg8 | I_LoadRegPtr reg8 reg16 | I_MOVMemReg reg8 | I_MVIRegData reg8
    | I_MVIMemData | I_LDA | I_STA | I_STAX reg16 | I_LXI reg8 reg8 | I_LHLD | I_SHLD | I_SPHL
    | I_XCHG | I_XTHL | I_PUSH reg8 reg8 | I_POP reg8 reg8 | I_POP_PSW

datatype (plugins only: code) arith_instr =
    I_ADD reg8 bool | I_ADDMem bool | I_ADI bool | I_SUB reg8 bool | I_SUBMem bool | I_SBI bool
    | I_DAD reg16 | I_INR reg8 | I_INRMem | I_DCR reg8 | I_DCRMem | I_INX reg16 | I_DCX reg16
    | I_DAA | I_CMA | I_STC | I_CMC | I_RLC | I_RRC | I_RAL | I_RAR

datatype (plugins only: code) logic_instr =
    I_ANA reg8 | I_AMAMem | I_ANI | I_XRA reg8 | I_XRAMem | I_XRI | I_ORA reg8 | I_ORAMem
    | I_ORI | I_CMP reg8 | I_CMPMem | I_CPI

datatype (plugins only: code) ctrl_instr =
    I_JMP cond | I_PCHL | I_CALL cond | I_RET | I_RETCond cond | I_RST u8 | I_IN | I_OUT | I_DI
    | I_EI | I_HLT | I_NOP

datatype instr = Move move_instr | Arith arith_instr | Logic logic_instr | Ctrl ctrl_instr

definition mov_cases :: "(u8 \<times> move_instr) list" where
  "mov_cases =
    [(0x7F, I_MOVRegReg A A), (0x78, I_MOVRegReg A B), (0x79, I_MOVRegReg A C),
     (0x7A, I_MOVRegReg A D), (0x7B, I_MOVRegReg A E), (0x7C, I_MOVRegReg A H),
     (0x7D, I_MOVRegReg A L), (0x47, I_MOVRegReg B A), (0x40, I_MOVRegReg B B),
     (0x41, I_MOVRegReg B C), (0x42, I_MOVRegReg B D), (0x43, I_MOVRegReg B E),
     (0x44, I_MOVRegReg B H), (0x45, I_MOVRegReg B L), (0x4F, I_MOVRegReg C A),
     (0x48, I_MOVRegReg C B), (0x49, I_MOVRegReg C C), (0x4A, I_MOVRegReg C D),
     (0x4B, I_MOVRegReg C E), (0x4C, I_MOVRegReg C H), (0x4D, I_MOVRegReg C L),
     (0x57, I_MOVRegReg D A), (0x50, I_MOVRegReg D B), (0x51, I_MOVRegReg D C),
     (0x52, I_MOVRegReg D D), (0x53, I_MOVRegReg D E), (0x54, I_MOVRegReg D H),
     (0x55, I_MOVRegReg D L), (0x5F, I_MOVRegReg E A), (0x58, I_MOVRegReg E B),
     (0x59, I_MOVRegReg E C), (0x5A, I_MOVRegReg E D), (0x5B, I_MOVRegReg E E),
     (0x5C, I_MOVRegReg E H), (0x5D, I_MOVRegReg E L), (0x67, I_MOVRegReg H A),
     (0x60, I_MOVRegReg H B), (0x61, I_MOVRegReg H C), (0x62, I_MOVRegReg H D),
     (0x63, I_MOVRegReg H E), (0x64, I_MOVRegReg H H), (0x65, I_MOVRegReg H L),
     (0x6F, I_MOVRegReg L A), (0x68, I_MOVRegReg L B), (0x69, I_MOVRegReg L C),
     (0x6A, I_MOVRegReg L D), (0x6B, I_MOVRegReg L E), (0x6C, I_MOVRegReg L H),
     (0x6D, I_MOVRegReg L L), (0x7E, I_LoadRegPtr A HL), (0x46, I_LoadRegPtr B HL),
     (0x4E, I_LoadRegPtr C HL), (0x56, I_LoadRegPtr D HL), (0x5E, I_LoadRegPtr E HL),
     (0x66, I_LoadRegPtr H HL), (0x6E, I_LoadRegPtr L HL), (0x77, I_MOVMemReg A),
     (0x70, I_MOVMemReg B), (0x71, I_MOVMemReg C), (0x72, I_MOVMemReg D),
     (0x73, I_MOVMemReg E), (0x74, I_MOVMemReg H), (0x75, I_MOVMemReg L)]"

definition load_cases :: "(u8 \<times> move_instr) list" where
  "load_cases =
    [(0x3E, I_MVIRegData A), (0x06, I_MVIRegData B), (0x0E, I_MVIRegData C),
     (0x16, I_MVIRegData D), (0x1E, I_MVIRegData E), (0x26, I_MVIRegData H),
     (0x2E, I_MVIRegData L), (0x36, I_MVIMemData), (0x0A, I_LoadRegPtr A BC),
     (0x1A, I_LoadRegPtr A DE), (0x3A, I_LDA), (0x02, I_STAX BC), (0x12, I_STAX DE),
     (0x32, I_STA), (0x01, I_LXI B C), (0x11, I_LXI D E), (0x21, I_LXI H L),
     (0x31, I_LXI SPH SPL), (0x2A, I_LHLD), (0x22, I_SHLD), (0xF9, I_SPHL), (0xEB, I_XCHG),
     (0xE3, I_XTHL)]"

definition stack_cases :: "(u8 \<times> move_instr) list" where
  "stack_cases =
    [(0xC5, I_PUSH B C), (0xD5, I_PUSH D E), (0xE5, I_PUSH H L), (0xF5, I_PUSH A F),
     (0xC1, I_POP B C), (0xD1, I_POP D E), (0xE1, I_POP H L), (0xF1, I_POP_PSW)]"

definition add_cases :: "(u8 \<times> arith_instr) list" where
  "add_cases =
    [(0x87, I_ADD A False), (0x80, I_ADD B False), (0x81, I_ADD C False),
     (0x82, I_ADD D False), (0x83, I_ADD E False), (0x84, I_ADD H False),
     (0x85, I_ADD L False), (0x86, I_ADDMem False), (0xC6, I_ADI False),
     (0x8F, I_ADD A True), (0x88, I_ADD B True), (0x89, I_ADD C True), (0x8A, I_ADD D True),
     (0x8B, I_ADD E True), (0x8C, I_ADD H True), (0x8D, I_ADD L True), (0x8E, I_ADDMem True),
     (0xCE, I_ADI True), (0x97, I_SUB A False), (0x90, I_SUB B False), (0x91, I_SUB C False),
     (0x92, I_SUB D False), (0x93, I_SUB E False), (0x94, I_SUB H False),
     (0x95, I_SUB L False), (0x96, I_SUBMem False), (0xD6, I_SBI False),
     (0x9F, I_SUB A True), (0x98, I_SUB B True), (0x99, I_SUB C True), (0x9A, I_SUB D True),
     (0x9B, I_SUB E True), (0x9C, I_SUB H True), (0x9D, I_SUB L True), (0x9E, I_SUBMem True),
     (0xDE, I_SBI True)]"

definition inc_cases :: "(u8 \<times> arith_instr) list" where
  "inc_cases =
    [(0x09, I_DAD BC), (0x19, I_DAD DE), (0x29, I_DAD HL), (0x39, I_DAD SP), (0x3C, I_INR A),
     (0x04, I_INR B), (0x0C, I_INR C), (0x14, I_INR D), (0x1C, I_INR E), (0x24, I_INR H),
     (0x2C, I_INR L), (0x34, I_INRMem), (0x3D, I_DCR A), (0x05, I_DCR B), (0x0D, I_DCR C),
     (0x15, I_DCR D), (0x1D, I_DCR E), (0x25, I_DCR H), (0x2D, I_DCR L), (0x35, I_DCRMem),
     (0x03, I_INX BC), (0x13, I_INX DE), (0x23, I_INX HL), (0x33, I_INX SP),
     (0x0B, I_DCX BC), (0x1B, I_DCX DE), (0x2B, I_DCX HL), (0x3B, I_DCX SP)]"

definition rot_cases :: "(u8 \<times> arith_instr) list" where
  "rot_cases =
    [(0x27, I_DAA), (0x2F, I_CMA), (0x37, I_STC), (0x3F, I_CMC), (0x07, I_RLC),
     (0x0F, I_RRC), (0x17, I_RAL), (0x1F, I_RAR)]"

definition logic_cases :: "(u8 \<times> logic_instr) list" where
  "logic_cases =
    [(0xA7, I_ANA A), (0xA0, I_ANA B), (0xA1, I_ANA C), (0xA2, I_ANA D), (0xA3, I_ANA E),
     (0xA4, I_ANA H), (0xA5, I_ANA L), (0xA6, I_AMAMem), (0xE6, I_ANI), (0xAF, I_XRA A),
     (0xA8, I_XRA B), (0xA9, I_XRA C), (0xAA, I_XRA D), (0xAB, I_XRA E), (0xAC, I_XRA H),
     (0xAD, I_XRA L), (0xAE, I_XRAMem), (0xEE, I_XRI), (0xB7, I_ORA A), (0xB0, I_ORA B),
     (0xB1, I_ORA C), (0xB2, I_ORA D), (0xB3, I_ORA E), (0xB4, I_ORA H), (0xB5, I_ORA L),
     (0xB6, I_ORAMem), (0xF6, I_ORI), (0xBF, I_CMP A), (0xB8, I_CMP B), (0xB9, I_CMP C),
     (0xBA, I_CMP D), (0xBB, I_CMP E), (0xBC, I_CMP H), (0xBD, I_CMP L), (0xBE, I_CMPMem),
     (0xFE, I_CPI)]"

definition branch_cases :: "(u8 \<times> ctrl_instr) list" where
  "branch_cases =
    [(0xC3, I_JMP Always), (0xCB, I_JMP Always), (0xC2, I_JMP (When FZ False)),
     (0xCA, I_JMP (When FZ True)), (0xD2, I_JMP (When FC False)),
     (0xDA, I_JMP (When FC True)), (0xE2, I_JMP (When FP False)),
     (0xEA, I_JMP (When FP True)), (0xF2, I_JMP (When FS False)),
     (0xFA, I_JMP (When FS True)), (0xE9, I_PCHL), (0xCD, I_CALL Always),
     (0xDD, I_CALL Always), (0xED, I_CALL Always), (0xFD, I_CALL Always),
     (0xC4, I_CALL (When FZ False)), (0xCC, I_CALL (When FZ True)),
     (0xD4, I_CALL (When FC False)), (0xDC, I_CALL (When FC True)),
     (0xE4, I_CALL (When FP False)), (0xEC, I_CALL (When FP True)),
     (0xF4, I_CALL (When FS False)), (0xFC, I_CALL (When FS True)), (0xC9, I_RET),
     (0xD9, I_RET), (0xC0, I_RETCond (When FZ False)), (0xC8, I_RETCond (When FZ True)),
     (0xD0, I_RETCond (When FC False)), (0xD8, I_RETCond (When FC True)),
     (0xE0, I_RETCond (When FP False)), (0xE8, I_RETCond (When FP True)),
     (0xF0, I_RETCond (When FS False)), (0xF8, I_RETCond (When FS True)), (0xC7, I_RST 0),
     (0xCF, I_RST 1), (0xD7, I_RST 2), (0xDF, I_RST 3), (0xE7, I_RST 4), (0xEF, I_RST 5),
     (0xF7, I_RST 6), (0xFF, I_RST 7)]"

definition misc_cases :: "(u8 \<times> ctrl_instr) list" where
  "misc_cases =
    [(0xDB, I_IN), (0xD3, I_OUT), (0xF3, I_DI), (0xFB, I_EI), (0x76, I_HLT), (0x00, I_NOP),
     (0x08, I_NOP), (0x10, I_NOP), (0x18, I_NOP), (0x20, I_NOP), (0x28, I_NOP),
     (0x30, I_NOP), (0x38, I_NOP)]"

definition decode_cases :: "(u8 \<times> instr) list" where
  "decode_cases =
    map (apsnd Move) (mov_cases @ load_cases @ stack_cases) @
    map (apsnd Arith) (add_cases @ inc_cases @ rot_cases) @
    map (apsnd Logic) logic_cases @
    map (apsnd Ctrl) (branch_cases @ misc_cases)"

lemmas case_lists = mov_cases_def load_cases_def stack_cases_def add_cases_def inc_cases_def
  rot_cases_def logic_cases_def branch_cases_def misc_cases_def

definition lookup_case :: "u8 \<Rightarrow> instr option" where
  "lookup_case ir = map_of decode_cases ir"

primrec exec_move :: "move_instr \<Rightarrow> 'io machine \<Rightarrow> 'io machine" where
  "exec_move (I_MOVRegReg d s) m = MOVRegReg d s m"
| "exec_move (I_LoadRegPtr d p) m = LoadRegPtr d p m"
| "exec_move (I_MOVMemReg s) m = MOVMemReg s m"
| "exec_move (I_MVIRegData d) m = MVIRegData d m"
| "exec_move I_MVIMemData m = MVIMemData m"
| "exec_move I_LDA m = do_LDA m"
| "exec_move I_STA m = do_STA m"
| "exec_move (I_STAX p) m = do_STAX p m"
| "exec_move (I_LXI h l) m = do_LXI h l m"
| "exec_move I_LHLD m = do_LHLD m"
| "exec_move I_SHLD m = do_SHLD m"
| "exec_move I_SPHL m = do_SPHL m"
| "exec_move I_XCHG m = do_XCHG m"
| "exec_move I_XTHL m = do_XTHL m"
| "exec_move (I_PUSH h l) m = do_PUSH h l m"
| "exec_move (I_POP h l) m = do_POP h l m"
| "exec_move I_POP_PSW m = do_POP_PSW m"

primrec exec_arith :: "arith_instr \<Rightarrow> 'io machine \<Rightarrow> 'io machine" where
  "exec_arith (I_ADD r fc) m = do_ADD r fc m"
| "exec_arith (I_ADDMem fc) m = ADDMem fc m"
| "exec_arith (I_ADI fc) m = do_ADI fc m"
| "exec_arith (I_SUB r fc) m = do_SUB r fc m"
| "exec_arith (I_SUBMem fc) m = SUBMem fc m"
| "exec_arith (I_SBI fc) m = do_SBI fc m"
| "exec_arith (I_DAD p) m = do_DAD p m"
| "exec_arith (I_INR r) m = do_INR r m"
| "exec_arith I_INRMem m = INRMem m"
| "exec_arith (I_DCR r) m = do_DCR r m"
| "exec_arith I_DCRMem m = DCRMem m"
| "exec_arith (I_INX p) m = do_INX p m"
| "exec_arith (I_DCX p) m = do_DCX p m"
| "exec_arith I_DAA m = upd do_DAA m"
| "exec_arith I_CMA m = upd (\<lambda>c. c\<lparr>r_a := NOT (r_a c)\<rparr>) m"
| "exec_arith I_STC m = upd (set_flag FC True) m"
| "exec_arith I_CMC m = upd (\<lambda>c. set_flag FC (\<not> get_flag FC c) c) m"
| "exec_arith I_RLC m = upd do_RLC m"
| "exec_arith I_RRC m = upd do_RRC m"
| "exec_arith I_RAL m = upd do_RAL m"
| "exec_arith I_RAR m = upd do_RAR m"

primrec exec_logic :: "logic_instr \<Rightarrow> 'io machine \<Rightarrow> 'io machine" where
  "exec_logic (I_ANA r) m = do_ANA r m"
| "exec_logic I_AMAMem m = AMAMem m"
| "exec_logic I_ANI m = do_ANI m"
| "exec_logic (I_XRA r) m = do_XRA r m"
| "exec_logic I_XRAMem m = XRAMem m"
| "exec_logic I_XRI m = do_XRI m"
| "exec_logic (I_ORA r) m = do_ORA r m"
| "exec_logic I_ORAMem m = ORAMem m"
| "exec_logic I_ORI m = do_ORI m"
| "exec_logic (I_CMP r) m = do_CMP r m"
| "exec_logic I_CMPMem m = CMPMem m"
| "exec_logic I_CPI m = do_CPI m"

primrec exec_ctrl :: "'io port_bus \<Rightarrow> ctrl_instr \<Rightarrow> 'io machine \<Rightarrow> 'io machine" where
  "exec_ctrl bus (I_JMP cd) m = do_JMP cd m"
| "exec_ctrl bus I_PCHL m = do_PCHL m"
| "exec_ctrl bus (I_CALL cd) m = do_CALL cd m"
| "exec_ctrl bus I_RET m = do_RET m"
| "exec_ctrl bus (I_RETCond cd) m = RETCond cd m"
| "exec_ctrl bus (I_RST n) m = do_RST n m"
| "exec_ctrl bus I_IN m = do_IN bus m"
| "exec_ctrl bus I_OUT m = do_OUT bus m"
| "exec_ctrl bus I_DI m = upd (\<lambda>c. c\<lparr>i_inte := False\<rparr>) m"
| "exec_ctrl bus I_EI m = upd (\<lambda>c. c\<lparr>i_inte := True, i_eiPending := True\<rparr>) m"
| "exec_ctrl bus I_HLT m = do_HLT m"
| "exec_ctrl bus I_NOP m = m"

primrec exec_instr :: "'io port_bus \<Rightarrow> instr \<Rightarrow> 'io machine \<Rightarrow> 'io machine" where
  "exec_instr bus (Move i) m = exec_move i m"
| "exec_instr bus (Arith i) m = exec_arith i m"
| "exec_instr bus (Logic i) m = exec_logic i m"
| "exec_instr bus (Ctrl i) m = exec_ctrl bus i m"

section \<open>One machine cycle\<close>

definition UNRECOGNIZED_CPU_INSTR :: int where "UNRECOGNIZED_CPU_INSTR = 6"

definition next_mc :: "cpu_state \<Rightarrow> cpu_state" where
  "next_mc c = c\<lparr>r_mc := of_nat (unat (r_mc c + 1) mod M_CYCLES ! unat (r_ir c))\<rparr>"

definition Decode :: "'io port_bus \<Rightarrow> 'io machine \<Rightarrow> 'io machine" where
  "Decode bus m =
    (case lookup_case (r_ir (cpu m)) of
       Some i \<Rightarrow> upd next_mc (exec_instr bus i m)
     | None \<Rightarrow> m\<lparr>exit_code := Some UNRECOGNIZED_CPU_INSTR\<rparr>)"

definition accept_interrupt :: "'io machine \<Rightarrow> 'io machine" where
  "accept_interrupt m =
    m\<lparr>cpu := (cpu m)\<lparr>i_inte := False, i_iff := False, i_hlta := False, r_ir := OPCODE_RST7\<rparr>,
      mem := CpuInvokesRst7 (mem m)\<rparr>"

definition fetch_opcode :: "'io machine \<Rightarrow> 'io machine" where
  "fetch_opcode m =
    load_op 0 (\<lambda>v c. c\<lparr>r_ir := v\<rparr>) (upd (\<lambda>c. c\<lparr>i_eiPending := False\<rparr>) m)"

definition latch_irq :: "bool \<Rightarrow> cpu_state \<Rightarrow> cpu_state" where
  "latch_irq irq c = c\<lparr>i_iff := i_iff c \<or> (irq \<and> i_inte c)\<rparr>"

definition begin_cycle :: "bool \<Rightarrow> 'io machine \<Rightarrow> 'io machine" where
  "begin_cycle irq m =
    (let m1 = upd (latch_irq irq) m
     in if MC m1 = 0
        then if i_iff (cpu m1) \<and> \<not> i_eiPending (cpu m1) then accept_interrupt m1
             else fetch_opcode m1
        else m1)"

definition ExecuteMachineCycle :: "'io port_bus \<Rightarrow> bool \<Rightarrow> 'io machine \<Rightarrow> 'io machine" where
  "ExecuteMachineCycle bus irq m =
    upd (\<lambda>c. c\<lparr>r_cc := r_cc c + MACHINE_CC\<rparr>) (Decode bus (begin_cycle irq m))"

definition IsInstructionExecuted :: "cpu_state \<Rightarrow> bool" where
  "IsInstructionExecuted c \<longleftrightarrow> r_mc c = 0 \<or> i_hlta c"

end
