(* ===== verification/Cpu_Isa.thy ===== *)
theory Cpu_Isa
  imports Cpu_Alu Cpu_Decode
begin

unbundle bit_operations_syntax

text \<open>
  An instruction-level reference for the processor, written from the documented 8080 instruction
  set and not from the code: the architectural state \<open>arch\<close> has a register file, a program
  counter and a memory, opcodes are decoded by their bit fields, and each instruction acts in one
  step. \<open>Cpu_Refine\<close> shows that the cycle-by-cycle code implements it.
\<close>

section \<open>Architectural state\<close>

record 'io arch =
  rf :: "reg8 \<Rightarrow> u8"
  apc :: u16
  ram :: "global_addr \<Rightarrow> u8"
  rom :: "u8 list"
  mapg :: mem_update
  dev :: 'io
  inte :: bool
  halted :: bool

definition regs :: "cpu_state \<Rightarrow> reg8 \<Rightarrow> u8" where
  "regs c r = get8 r c"

definition arch_of :: "'io machine \<Rightarrow> 'io arch" where
  "arch_of m = \<lparr>rf = regs (cpu m), apc = r_pc (cpu m), ram = m_ram (mem m), rom = m_rom (mem m),
    mapg = mem_upd (mem m), dev = io m, inte = i_inte (cpu m), halted = i_hlta (cpu m)\<rparr>"

definition global_of :: "addr_space \<Rightarrow> u16 \<Rightarrow> 'io arch \<Rightarrow> global_addr" where
  "global_of sp a x = map_addr (upd_mapping (mapg x)) (ramdiskIdx (mapg x)) a sp"

definition ld :: "addr_space \<Rightarrow> u16 \<Rightarrow> 'io arch \<Rightarrow> u8" where
  "ld sp a x = (let g = global_of sp a x in
     if memType (mapg x) = MT_ROM \<and> unat g < length (rom x) then rom x ! unat g else ram x g)"

definition st :: "addr_space \<Rightarrow> u16 \<Rightarrow> u8 \<Rightarrow> 'io arch \<Rightarrow> 'io arch" where
  "st sp a v x = x\<lparr>ram := (ram x)(global_of sp a x := v)\<rparr>"

fun hi_of :: "reg16 \<Rightarrow> reg8" where
  "hi_of BC = B" | "hi_of DE = D" | "hi_of HL = H" | "hi_of SP = SPH"

fun lo_of :: "reg16 \<Rightarrow> reg8" where
  "lo_of BC = C" | "lo_of DE = E" | "lo_of HL = L" | "lo_of SP = SPL"

definition rp :: "reg16 \<Rightarrow> 'io arch \<Rightarrow> u16" where
  "rp p x = pair (rf x (hi_of p)) (rf x (lo_of p))"

definition put :: "reg8 \<Rightarrow> u8 \<Rightarrow> 'io arch \<Rightarrow> 'io arch" where
  "put r v x = x\<lparr>rf := (rf x)(r := v)\<rparr>"

definition put16 :: "reg16 \<Rightarrow> u16 \<Rightarrow> 'io arch \<Rightarrow> 'io arch" where
  "put16 p v x = put (hi_of p) (hi v) (put (lo_of p) (lo v) x)"

definition jump :: "u16 \<Rightarrow> 'io arch \<Rightarrow> 'io arch" where
  "jump a x = x\<lparr>apc := a\<rparr>"

definition imm8 :: "'io arch \<Rightarrow> u8" where "imm8 x = ld RAM (apc x) x"
definition imm16 :: "'io arch \<Rightarrow> u16" where "imm16 x = pair (ld RAM (apc x + 1) x) (ld RAM (apc x) x)"
definition skip :: "u16 \<Rightarrow> 'io arch \<Rightarrow> 'io arch" where "skip n x = x\<lparr>apc := apc x + n\<rparr>"

definition push :: "u8 \<Rightarrow> u8 \<Rightarrow> 'io arch \<Rightarrow> 'io arch" where
  "push h l x = put16 SP (rp SP x - 2) (st STACK (rp SP x - 2) l (st STACK (rp SP x - 1) h x))"

definition top16 :: "'io arch \<Rightarrow> u16" where
  "top16 x = pair (ld STACK (rp SP x + 1) x) (ld STACK (rp SP x) x)"

definition drop2 :: "'io arch \<Rightarrow> 'io arch" where
  "drop2 x = put16 SP (2 + rp SP x) x"

section \<open>Instructions and their encoding\<close>

datatype alu_op = Add | Adc | Sub | Sbb | Ana | Xra | Ora | Cmp

datatype (plugins only: code) isa_op =
    OMov reg8 reg8 | OLoad reg8 reg16 | OStore reg16 reg8 | OMvi reg8 | OMviM | OLda | OSta
  | OLxi reg8 reg8 | OLhld | OShld | OSphl | OXchg | OXthl | OPush reg8 reg8 | OPop reg8 reg8
  | OPopPsw | OAlu alu_op reg8 | OAluM alu_op | OAluI alu_op | ODad reg16 | OInr reg8 | OInrM
  | ODcr reg8 | ODcrM | OInx reg16 | ODcx reg16 | ODaa | OCma | OStc | OCmc | ORlc | ORrc | ORal
  | ORar | OJmp cond | OPchl | OCall cond | ORet cond | ORst u8 | OIn | OOut | OEi | ODi | OHlt
  | ONop

definition reg_of :: "nat \<Rightarrow> reg8" where "reg_of n = [B, C, D, E, H, L, F, A] ! n"
definition pair_of :: "nat \<Rightarrow> reg16" where "pair_of n = [BC, DE, HL, SP] ! n"
definition alu_of :: "nat \<Rightarrow> alu_op" where "alu_of n = [Add, Adc, Sub, Sbb, Ana, Xra, Ora, Cmp] ! n"
definition cond_of :: "nat \<Rightarrow> cond" where
  "cond_of n = When ([FZ, FC, FP, FS] ! (n div 2)) (n mod 2 = 1)"

definition decode_block0 :: "nat \<Rightarrow> nat \<Rightarrow> isa_op" where
  "decode_block0 y z =
    (let p = pair_of (y div 2) in
     if z = 0 then ONop
     else if z = 1 then (if even y then OLxi (hi_of p) (lo_of p) else ODad p)
     else if z = 2 then
       [OStore BC A, OLoad A BC, OStore DE A, OLoad A DE, OShld, OLhld, OSta, OLda] ! y
     else if z = 3 then (if even y then OInx p else ODcx p)
     else if z = 4 then (if y = 6 then OInrM else OInr (reg_of y))
     else if z = 5 then (if y = 6 then ODcrM else ODcr (reg_of y))
     else if z = 6 then (if y = 6 then OMviM else OMvi (reg_of y))
     else [ORlc, ORrc, ORal, ORar, ODaa, OCma, OStc, OCmc] ! y)"

definition decode_block3 :: "nat \<Rightarrow> nat \<Rightarrow> isa_op" where
  "decode_block3 y z =
    (let p = pair_of (y div 2) in
     if z = 0 then ORet (cond_of y)
     else if z = 1 then
       (if even y then (if y = 6 then OPopPsw else OPop (hi_of p) (lo_of p))
        else [ORet Always, ORet Always, OPchl, OSphl] ! (y div 2))
     else if z = 2 then OJmp (cond_of y)
     else if z = 3 then
       [OJmp Always, OJmp Always, OOut, OIn, OXthl, OXchg, ODi, OEi] ! y
     else if z = 4 then OCall (cond_of y)
     else if z = 5 then
       (if even y then (if y = 6 then OPush A F else OPush (hi_of p) (lo_of p))
        else OCall Always)
     else if z = 6 then OAluI (alu_of y)
     else ORst (of_nat y))"

definition isa_decode :: "nat \<Rightarrow> isa_op" where
  "isa_decode n =
    (let x = n div 64; y = n div 8 mod 8; z = n mod 8 in
     if x = 0 then decode_block0 y z
     else if x = 1 then
       (if y = 6 \<and> z = 6 then OHlt
        else if z = 6 then OLoad (reg_of y) HL
        else if y = 6 then OStore HL (reg_of z)
        else OMov (reg_of y) (reg_of z))
     else if x = 2 then (if z = 6 then OAluM (alu_of y) else OAlu (alu_of y) (reg_of z))
     else decode_block3 y z)"

section \<open>The effect of each instruction\<close>

definition carry :: "'io arch \<Rightarrow> bool" where "carry x = bit (rf x F) 0"

definition set_carry :: "bool \<Rightarrow> 'io arch \<Rightarrow> 'io arch" where
  "set_carry b x = put F (put_bit 0 b (rf x F)) x"

fun cond_on :: "cond \<Rightarrow> u8 \<Rightarrow> bool" where
  "cond_on Always f = True"
| "cond_on (When fl b) f = (bit f (flag_bit fl) = b)"

definition isa_holds :: "cond \<Rightarrow> 'io arch \<Rightarrow> bool" where
  "isa_holds cd x = cond_on cd (rf x F)"

definition add_flags :: "u8 \<Rightarrow> u8 \<Rightarrow> bool \<Rightarrow> u8" where
  "add_flags a b cy = zsp (16 \<le> unat a mod 16 + unat b mod 16 + b2n cy)
    (256 \<le> unat a + unat b + b2n cy) (a + b + of_bool cy)"

text \<open>Result and flags of an accumulator operation.\<close>

fun alu_fn :: "alu_op \<Rightarrow> u8 \<Rightarrow> u8 \<Rightarrow> bool \<Rightarrow> u8 \<times> u8" where
  "alu_fn Add a b cy = (a + b, add_flags a b False)"
| "alu_fn Adc a b cy = (a + b + of_bool cy, add_flags a b cy)"
| "alu_fn Sub a b cy = (a - b, sub_flags a b False)"
| "alu_fn Sbb a b cy = (a - b - of_bool cy, sub_flags a b cy)"
| "alu_fn Ana a b cy = (a AND b, zsp (bit (a OR b) 3) False (a AND b))"
| "alu_fn Xra a b cy = (a XOR b, zsp False False (a XOR b))"
| "alu_fn Ora a b cy = (a OR b, zsp False False (a OR b))"
| "alu_fn Cmp a b cy = (a, sub_flags a b False)"

definition accumulate :: "alu_op \<Rightarrow> u8 \<Rightarrow> 'io arch \<Rightarrow> 'io arch" where
  "accumulate op b x = (let (v, f) = alu_fn op (rf x A) b (carry x) in put F f (put A v x))"

definition inc_flags :: "bool \<Rightarrow> u8 \<Rightarrow> u8" where
  "inc_flags cy v = zsp (unat v mod 16 = 15) cy (v + 1)"

definition dec_flags :: "bool \<Rightarrow> u8 \<Rightarrow> u8" where
  "dec_flags cy v = zsp (unat v mod 16 \<noteq> 0) cy (v - 1)"

definition daa :: "'io arch \<Rightarrow> 'io arch" where
  "daa x =
    (let a = rf x A;
         low = (bit (rf x F) 4 \<or> 9 < unat a mod 16);
         high = (carry x \<or> 0x99 < unat a);
         v = a + ((if low then 6 else 0) + (if high then 0x60 else 0))
     in put F (zsp (low \<and> 9 < unat a mod 16) high v) (put A v x))"

definition add16 :: "u16 \<Rightarrow> 'io arch \<Rightarrow> 'io arch" where
  "add16 v x = set_carry (65536 \<le> unat v + unat (rp HL x)) (put16 HL (v + rp HL x) x)"

primrec isa_exec :: "'io port_bus \<Rightarrow> isa_op \<Rightarrow> 'io arch \<Rightarrow> 'io arch" where
  "isa_exec bus (OMov d s) x = put d (rf x s) x"
| "isa_exec bus (OLoad d p) x = put d (ld RAM (rp p x) x) x"
| "isa_exec bus (OStore p s) x = st RAM (rp p x) (rf x s) x"
| "isa_exec bus (OMvi d) x = put d (imm8 x) (skip 1 x)"
| "isa_exec bus OMviM x = st RAM (rp HL x) (imm8 x) (skip 1 x)"
| "isa_exec bus OLda x = put A (ld RAM (imm16 x) x) (skip 2 x)"
| "isa_exec bus OSta x = st RAM (imm16 x) (rf x A) (skip 2 x)"
| "isa_exec bus (OLxi h l) x = put h (hi (imm16 x)) (put l (lo (imm16 x)) (skip 2 x))"
| "isa_exec bus OLhld x =
    put H (ld RAM (imm16 x + 1) x) (put L (ld RAM (imm16 x) x) (skip 2 x))"
| "isa_exec bus OShld x =
    st RAM (imm16 x + 1) (rf x H) (st RAM (imm16 x) (rf x L) (skip 2 x))"
| "isa_exec bus OSphl x = put16 SP (rp HL x) x"
| "isa_exec bus OXchg x = put16 HL (rp DE x) (put16 DE (rp HL x) x)"
| "isa_exec bus OXthl x =
    put16 HL (top16 x) (st STACK (rp SP x + 1) (rf x H) (st STACK (rp SP x) (rf x L) x))"
| "isa_exec bus (OPush h l) x = push (rf x h) (rf x l) x"
| "isa_exec bus (OPop h l) x = put h (hi (top16 x)) (put l (lo (top16 x)) (drop2 x))"
| "isa_exec bus OPopPsw x =
    (let f = lo (top16 x)
     in put A (hi (top16 x))
          (put F (psw (bit f 7) (bit f 6) (bit f 4) (bit f 2) (bit f 0)) (drop2 x)))"
| "isa_exec bus (OAlu op r) x = accumulate op (rf x r) x"
| "isa_exec bus (OAluM op) x = accumulate op (ld RAM (rp HL x) x) x"
| "isa_exec bus (OAluI op) x = accumulate op (imm8 x) (skip 1 x)"
| "isa_exec bus (ODad p) x = add16 (rp p x) x"
| "isa_exec bus (OInr r) x = put r (rf x r + 1) (put F (inc_flags (carry x) (rf x r)) x)"
| "isa_exec bus OInrM x =
    (let v = ld RAM (rp HL x) x in st RAM (rp HL x) (v + 1) (put F (inc_flags (carry x) v) x))"
| "isa_exec bus (ODcr r) x = put r (rf x r - 1) (put F (dec_flags (carry x) (rf x r)) x)"
| "isa_exec bus ODcrM x =
    (let v = ld RAM (rp HL x) x in st RAM (rp HL x) (v - 1) (put F (dec_flags (carry x) v) x))"
| "isa_exec bus (OInx p) x = put16 p (rp p x + 1) x"
| "isa_exec bus (ODcx p) x = put16 p (rp p x - 1) x"
| "isa_exec bus ODaa x = daa x"
| "isa_exec bus OCma x = put A (NOT (rf x A)) x"
| "isa_exec bus OStc x = set_carry True x"
| "isa_exec bus OCmc x = set_carry (\<not> carry x) x"
| "isa_exec bus ORlc x = set_carry (bit (rf x A) 7) (put A (shl_in (rf x A) (bit (rf x A) 7)) x)"
| "isa_exec bus ORrc x = set_carry (bit (rf x A) 0) (put A (shr_in (rf x A) (bit (rf x A) 0)) x)"
| "isa_exec bus ORal x = set_carry (bit (rf x A) 7) (put A (shl_in (rf x A) (carry x)) x)"
| "isa_exec bus ORar x = set_carry (bit (rf x A) 0) (put A (shr_in (rf x A) (carry x)) x)"
| "isa_exec bus (OJmp cd) x = (if isa_holds cd x then jump (imm16 x) x else skip 2 x)"
| "isa_exec bus OPchl x = jump (rp HL x) x"
| "isa_exec bus (OCall cd) x =
    (if isa_holds cd x
     then jump (imm16 x) (push (hi (2 + apc x)) (lo (2 + apc x)) x) else skip 2 x)"
| "isa_exec bus (ORet cd) x = (if isa_holds cd x then jump (top16 x) (drop2 x) else x)"
| "isa_exec bus (ORst n) x = jump (pair 0 (push_bit 3 n)) (push (hi (apc x)) (lo (apc x)) x)"
| "isa_exec bus OIn x =
    (let (v, d) = bus_input bus (imm8 x) (dev x) in put A v (skip 1 (x\<lparr>dev := d\<rparr>)))"
| "isa_exec bus OOut x = skip 1 (x\<lparr>dev := bus_output bus (imm8 x) (rf x A) (dev x)\<rparr>)"
| "isa_exec bus OEi x = x\<lparr>inte := True\<rparr>"
| "isa_exec bus ODi x = x\<lparr>inte := False\<rparr>"
| "isa_exec bus OHlt x = (jump (apc x - 1) x)\<lparr>halted := True\<rparr>"
| "isa_exec bus ONop x = x"

definition isa_step :: "'io port_bus \<Rightarrow> 'io arch \<Rightarrow> 'io arch" where
  "isa_step bus x = isa_exec bus (isa_decode (unat (imm8 x))) (skip 1 x)"

section \<open>The instruction each handler call stands for, and its machine cycles\<close>

primrec op_of_move :: "move_instr \<Rightarrow> isa_op" where
  "op_of_move (I_MOVRegReg d s) = OMov d s"
| "op_of_move (I_LoadRegPtr d p) = OLoad d p"
| "op_of_move (I_MOVMemReg s) = OStore HL s"
| "op_of_move (I_MVIRegData d) = OMvi d"
| "op_of_move I_MVIMemData = OMviM"
| "op_of_move I_LDA = OLda"
| "op_of_move I_STA = OSta"
| "op_of_move (I_STAX p) = OStore p A"
| "op_of_move (I_LXI h l) = OLxi h l"
| "op_of_move I_LHLD = OLhld"
| "op_of_move I_SHLD = OShld"
| "op_of_move I_SPHL = OSphl"
| "op_of_move I_XCHG = OXchg"
| "op_of_move I_XTHL = OXthl"
| "op_of_move (I_PUSH h l) = OPush h l"
| "op_of_move (I_POP h l) = OPop h l"
| "op_of_move I_POP_PSW = OPopPsw"

primrec op_of_arith :: "arith_instr \<Rightarrow> isa_op" where
  "op_of_arith (I_ADD r fc) = OAlu (if fc then Adc else Add) r"
| "op_of_arith (I_ADDMem fc) = OAluM (if fc then Adc else Add)"
| "op_of_arith (I_ADI fc) = OAluI (if fc then Adc else Add)"
| "op_of_arith (I_SUB r fc) = OAlu (if fc then Sbb else Sub) r"
| "op_of_arith (I_SUBMem fc) = OAluM (if fc then Sbb else Sub)"
| "op_of_arith (I_SBI fc) = OAluI (if fc then Sbb else Sub)"
| "op_of_arith (I_DAD p) = ODad p"
| "op_of_arith (I_INR r) = OInr r"
| "op_of_arith I_INRMem = OInrM"
| "op_of_arith (I_DCR r) = ODcr r"
| "op_of_arith I_DCRMem = ODcrM"
| "op_of_arith (I_INX p) = OInx p"
| "op_of_arith (I_DCX p) = ODcx p"
| "op_of_arith I_DAA = ODaa"
| "op_of_arith I_CMA = OCma"
| "op_of_arith I_STC = OStc"
| "op_of_arith I_CMC = OCmc"
| "op_of_arith I_RLC = ORlc"
| "op_of_arith I_RRC = ORrc"
| "op_of_arith I_RAL = ORal"
| "op_of_arith I_RAR = ORar"

primrec op_of_logic :: "logic_instr \<Rightarrow> isa_op" where
  "op_of_logic (I_ANA r) = OAlu Ana r"
| "op_of_logic I_AMAMem = OAluM Ana"
| "op_of_logic I_ANI = OAluI Ana"
| "op_of_logic (I_XRA r) = OAlu Xra r"
| "op_of_logic I_XRAMem = OAluM Xra"
| "op_of_logic I_XRI = OAluI Xra"
| "op_of_logic (I_ORA r) = OAlu Ora r"
| "op_of_logic I_ORAMem = OAluM Ora"
| "op_of_logic I_ORI = OAluI Ora"
| "op_of_logic (I_CMP r) = OAlu Cmp r"
| "op_of_logic I_CMPMem = OAluM Cmp"
| "op_of_logic I_CPI = OAluI Cmp"

primrec op_of_ctrl :: "ctrl_instr \<Rightarrow> isa_op" where
  "op_of_ctrl (I_JMP cd) = OJmp cd"
| "op_of_ctrl I_PCHL = OPchl"
| "op_of_ctrl (I_CALL cd) = OCall cd"
| "op_of_ctrl I_RET = ORet Always"
| "op_of_ctrl (I_RETCond cd) = ORet cd"
| "op_of_ctrl (I_RST n) = ORst n"
| "op_of_ctrl I_IN = OIn"
| "op_of_ctrl I_OUT = OOut"
| "op_of_ctrl I_DI = ODi"
| "op_of_ctrl I_EI = OEi"
| "op_of_ctrl I_HLT = OHlt"
| "op_of_ctrl I_NOP = ONop"

primrec op_of :: "instr \<Rightarrow> isa_op" where
  "op_of (Move i) = op_of_move i"
| "op_of (Arith i) = op_of_arith i"
| "op_of (Logic i) = op_of_logic i"
| "op_of (Ctrl i) = op_of_ctrl i"

text \<open>Machine cycles of an instruction, a conditional call or return counted when taken.\<close>

primrec isa_cycles :: "isa_op \<Rightarrow> nat" where
  "isa_cycles (OMov d s) = 2" | "isa_cycles (OLoad d p) = 2" | "isa_cycles (OStore p s) = 2"
| "isa_cycles (OMvi d) = 2" | "isa_cycles OMviM = 3" | "isa_cycles OLda = 4" | "isa_cycles OSta = 4"
| "isa_cycles (OLxi h l) = 3" | "isa_cycles OLhld = 5" | "isa_cycles OShld = 5"
| "isa_cycles OSphl = 2" | "isa_cycles OXchg = 1" | "isa_cycles OXthl = 6"
| "isa_cycles (OPush h l) = 4" | "isa_cycles (OPop h l) = 3" | "isa_cycles OPopPsw = 3"
| "isa_cycles (OAlu op r) = 1" | "isa_cycles (OAluM op) = 2" | "isa_cycles (OAluI op) = 2"
| "isa_cycles (ODad p) = 3" | "isa_cycles (OInr r) = 2" | "isa_cycles OInrM = 3"
| "isa_cycles (ODcr r) = 2" | "isa_cycles ODcrM = 3" | "isa_cycles (OInx p) = 2"
| "isa_cycles (ODcx p) = 2" | "isa_cycles ODaa = 1" | "isa_cycles OCma = 1"
| "isa_cycles OStc = 1" | "isa_cycles OCmc = 1" | "isa_cycles ORlc = 1" | "isa_cycles ORrc = 1"
| "isa_cycles ORal = 1" | "isa_cycles ORar = 1" | "isa_cycles (OJmp cd) = 3"
| "isa_cycles OPchl = 2" | "isa_cycles (OCall cd) = 6"
| "isa_cycles (ORet cd) = (if cd = Always then 3 else 4)" | "isa_cycles (ORst n) = 4"
| "isa_cycles OIn = 3" | "isa_cycles OOut = 3" | "isa_cycles OEi = 1" | "isa_cycles ODi = 1"
| "isa_cycles OHlt = 2" | "isa_cycles ONop = 1"

section \<open>The switch is the documented encoding\<close>

lemma decode_table:
  "list_all (\<lambda>(op, i). op_of i = isa_decode (unat op)) decode_cases"
  by code_simp

text \<open>The cycle table agrees with the instructions, the entry of MOV M,L (0x75) excepted.\<close>

lemma cycles_table:
  "list_all (\<lambda>(op, i). unat op = 0x75 \<or> M_CYCLES ! unat op = isa_cycles (op_of i)) decode_cases"
  by code_simp

text \<open>Bytes of an instruction, the opcode included.\<close>

fun isa_length :: "isa_op \<Rightarrow> nat" where
  "isa_length (OMvi d) = 2" | "isa_length OMviM = 2" | "isa_length (OAluI op) = 2"
| "isa_length OIn = 2" | "isa_length OOut = 2" | "isa_length OLda = 3" | "isa_length OSta = 3"
| "isa_length (OLxi h l) = 3" | "isa_length OLhld = 3" | "isa_length OShld = 3"
| "isa_length (OJmp cd) = 3" | "isa_length (OCall cd) = 3"
| "isa_length op = 1"

definition undocumented_long :: "nat set" where
  "undocumented_long = {0xCB, 0xDD, 0xED, 0xFD}"

lemma lengths_table:
  "list_all (\<lambda>(op, i). (INSTR_LENS ! unat op = isa_length (op_of i)) =
    (unat op \<notin> undocumented_long)) decode_cases"
  by code_simp

section \<open>Every opcode has a case\<close>

text \<open>A list of integers covers \<open>[l, l + 2 ^ k)\<close>: checked by halving.\<close>

fun covers :: "nat \<Rightarrow> int \<Rightarrow> int list \<Rightarrow> bool" where
  "covers 0 l ks = (l \<in> set ks)"
| "covers (Suc k) l ks =
    (covers k l (filter (\<lambda>n. n < l + 2 ^ k) ks) \<and>
     covers k (l + 2 ^ k) (filter (\<lambda>n. l + 2 ^ k \<le> n) ks))"

lemma covers_mem: "covers k l ks \<Longrightarrow> l \<le> n \<Longrightarrow> n < l + 2 ^ k \<Longrightarrow> n \<in> set ks"
proof (induction k arbitrary: l ks)
  case (Suc k)
  show ?case
  proof (cases "n < l + 2 ^ k")
    case True
    with Suc.IH [of l "filter (\<lambda>n. n < l + 2 ^ k) ks"] Suc.prems show ?thesis by simp
  next
    case False
    with Suc.IH [of "l + 2 ^ k" "filter (\<lambda>n. l + 2 ^ k \<le> n) ks"] Suc.prems show ?thesis by simp
  qed
qed simp

lemma decode_cases_cover: "covers 8 0 (map (uint \<circ> fst) decode_cases)"
  by code_simp

lemma lookup_case_total: obtains i where "lookup_case op = Some i" "(op, i) \<in> set decode_cases"
proof -
  have "uint op < 2 ^ LENGTH(8)" by (rule unsigned_less)
  then have "uint op \<in> set (map (uint \<circ> fst) decode_cases)"
    using covers_mem [OF decode_cases_cover, of "uint op"] by simp
  then have "op \<in> fst ` set decode_cases"
    by (auto simp: word_uint_eq_iff [symmetric] intro: rev_image_eqI)
  then obtain i where "lookup_case op = Some i"
    by (metis lookup_case_def map_of_eq_None_iff not_None_eq)
  then show ?thesis using that by (simp add: lookup_case_def map_of_SomeD)
qed

lemma lookup_case_facts:
  assumes "(op, i) \<in> set decode_cases"
  shows "op_of i = isa_decode (unat op)"
    and "unat op \<noteq> 0x75 \<Longrightarrow> M_CYCLES ! unat op = isa_cycles (op_of i)"
    and "(INSTR_LENS ! unat op = isa_length (op_of i)) = (unat op \<notin> undocumented_long)"
  using assms decode_table cycles_table lengths_table by (auto simp: list_all_iff)

end
