(* ===== verification/Cpu_Refine.thy ===== *)
theory Cpu_Refine
  imports Cpu_Isa
begin

unbundle bit_operations_syntax

text \<open>
  The machine cycles of \<^verbatim>\<open>cpu_i8080.cpp\<close> implement the instruction set of \<open>Cpu_Isa\<close>:
  each handler, run until the instruction is over, has the effect of its instruction, and so has
  the loop that fetches an opcode and runs its cycles.
\<close>

section \<open>Running one instruction\<close>

text \<open>
  The loop of \<^verbatim>\<open>Hardware::ExecuteInstruction\<close> on the processor alone, with a bound on the
  number of machine cycles; \<open>None\<close> is a bound that was too small.
\<close>

fun run_instr :: "'io port_bus \<Rightarrow> nat \<Rightarrow> 'io machine \<Rightarrow> 'io machine option" where
  "run_instr bus 0 m = None"
| "run_instr bus (Suc k) m =
    (let m' = ExecuteMachineCycle bus False m
     in if IsInstructionExecuted (cpu m') then Some m' else run_instr bus k m')"

text \<open>The same cycles once the opcode is decoded to handler \<open>i\<close> with \<open>n\<close> machine cycles.\<close>

definition tick :: "nat \<Rightarrow> cpu_state \<Rightarrow> cpu_state" where
  "tick n c = c\<lparr>r_mc := of_nat (unat (r_mc c + 1) mod n), r_cc := r_cc c + 4\<rparr>"

definition cyc :: "'io port_bus \<Rightarrow> instr \<Rightarrow> nat \<Rightarrow> 'io machine \<Rightarrow> 'io machine" where
  "cyc bus i n m = upd (tick n) (exec_instr bus i m)"

fun micro :: "'io port_bus \<Rightarrow> instr \<Rightarrow> nat \<Rightarrow> nat \<Rightarrow> 'io machine \<Rightarrow> 'io machine option" where
  "micro bus i n 0 m = None"
| "micro bus i n (Suc k) m =
    (let m' = cyc bus i n m
     in if IsInstructionExecuted (cpu m') then Some m' else micro bus i n k m')"

section \<open>Views of updated states\<close>

lemma upd_sel [simp]:
  "cpu (upd g m) = g (cpu m)" "mem (upd g m) = mem m" "io (upd g m) = io m"
  "exit_code (upd g m) = exit_code m"
  by (simp_all add: upd_def)

lemma load_op_sel [simp]:
  "cpu (load_op n g m) = g (GetByte (mem m) (r_pc (cpu m)) RAM) ((cpu m)\<lparr>r_pc := r_pc (cpu m) + 1\<rparr>)"
  "mem (load_op n g m) = snd (CpuReadInstr (r_pc (cpu m)) RAM n (mem m))"
  "io (load_op n g m) = io m" "exit_code (load_op n g m) = exit_code m"
  by (simp_all add: load_op_def ReadInstrMovePC_def case_prod_beta Let_def)

lemma load_mem_sel [simp]:
  "cpu (load_mem a sp n g m) = g (GetByte (mem m) a sp) (cpu m)"
  "mem (load_mem a sp n g m) = snd (CpuRead a sp n (mem m))"
  "io (load_mem a sp n g m) = io m" "exit_code (load_mem a sp n g m) = exit_code m"
  by (simp_all add: load_mem_def ReadByte_def case_prod_beta Let_def)

lemma WriteByte_sel [simp]:
  "cpu (WriteByte a v sp n m) = cpu m" "mem (WriteByte a v sp n m) = CpuWrite a v sp n (mem m)"
  "io (WriteByte a v sp n m) = io m" "exit_code (WriteByte a v sp n m) = exit_code m"
  by (simp_all add: WriteByte_def)

lemma set8_sel [simp]:
  "r_cc (set8 r v c) = r_cc c" "r_pc (set8 r v c) = r_pc c" "r_ir (set8 r v c) = r_ir c"
  "r_tmp (set8 r v c) = r_tmp c" "r_act (set8 r v c) = r_act c" "r_wz (set8 r v c) = r_wz c"
  "r_mc (set8 r v c) = r_mc c" "i_inte (set8 r v c) = i_inte c" "i_iff (set8 r v c) = i_iff c"
  "i_hlta (set8 r v c) = i_hlta c" "i_eiPending (set8 r v c) = i_eiPending c"
  by (cases r; simp)+

lemma set16_sel [simp]:
  "r_cc (set16 p v c) = r_cc c" "r_pc (set16 p v c) = r_pc c" "r_ir (set16 p v c) = r_ir c"
  "r_tmp (set16 p v c) = r_tmp c" "r_act (set16 p v c) = r_act c" "r_wz (set16 p v c) = r_wz c"
  "r_mc (set16 p v c) = r_mc c" "i_inte (set16 p v c) = i_inte c" "i_iff (set16 p v c) = i_iff c"
  "i_hlta (set16 p v c) = i_hlta c" "i_eiPending (set16 p v c) = i_eiPending c"
  by (cases p; simp)+

lemma regs_updates [simp]:
  "regs (c\<lparr>r_cc := u\<rparr>) = regs c" "regs (c\<lparr>r_pc := w\<rparr>) = regs c" "regs (c\<lparr>r_ir := v\<rparr>) = regs c"
  "regs (c\<lparr>r_tmp := v\<rparr>) = regs c" "regs (c\<lparr>r_act := v\<rparr>) = regs c" "regs (c\<lparr>r_wz := w\<rparr>) = regs c"
  "regs (c\<lparr>r_mc := k\<rparr>) = regs c" "regs (c\<lparr>i_inte := b\<rparr>) = regs c" "regs (c\<lparr>i_iff := b\<rparr>) = regs c"
  "regs (c\<lparr>i_hlta := b\<rparr>) = regs c" "regs (c\<lparr>i_eiPending := b\<rparr>) = regs c"
  "regs (c\<lparr>r_a := v\<rparr>) = (regs c)(A := v)" "regs (c\<lparr>r_f := v\<rparr>) = (regs c)(F := v)"
  "regs (c\<lparr>r_sp := w\<rparr>) = (regs c)(SPH := hi w, SPL := lo w)"
  "regs (c\<lparr>r_hl := w\<rparr>) = (regs c)(H := hi w, L := lo w)"
  "regs (c\<lparr>r_bc := w\<rparr>) = (regs c)(B := hi w, C := lo w)"
  "regs (c\<lparr>r_de := w\<rparr>) = (regs c)(D := hi w, E := lo w)"
  by (rule ext; rename_tac r; case_tac r; simp add: regs_def)+

lemma regs_set8 [simp]: "regs (set8 r v c) = (regs c)(r := v)"
  by (rule ext, rename_tac q, case_tac r; case_tac q) (simp_all add: regs_def)

lemma regs_set16 [simp]: "regs (set16 p v c) = (regs c)(hi_of p := hi v, lo_of p := lo v)"
  by (cases p) simp_all

lemma to_regs:
  "get8 r c = regs c r" "r_a c = regs c A" "r_f c = regs c F"
  "r_bc c = pair (regs c B) (regs c C)" "r_de c = pair (regs c D) (regs c E)"
  "r_hl c = pair (regs c H) (regs c L)" "r_sp c = pair (regs c SPH) (regs c SPL)"
  "get16 p c = pair (regs c (hi_of p)) (regs c (lo_of p))"
  by (simp_all add: regs_def) (cases p; simp)

lemma set_wz_sel [simp]:
  "regs (set_w v c) = regs c" "regs (set_z v c) = regs c"
  "r_pc (set_w v c) = r_pc c" "r_pc (set_z v c) = r_pc c"
  "r_mc (set_w v c) = r_mc c" "r_mc (set_z v c) = r_mc c"
  "r_cc (set_w v c) = r_cc c" "r_cc (set_z v c) = r_cc c"
  "r_ir (set_w v c) = r_ir c" "r_ir (set_z v c) = r_ir c"
  "r_tmp (set_w v c) = r_tmp c" "r_tmp (set_z v c) = r_tmp c"
  "i_inte (set_w v c) = i_inte c" "i_inte (set_z v c) = i_inte c"
  "i_iff (set_w v c) = i_iff c" "i_iff (set_z v c) = i_iff c"
  "i_hlta (set_w v c) = i_hlta c" "i_hlta (set_z v c) = i_hlta c"
  "r_wz (set_w v c) = with_hi (r_wz c) v" "r_wz (set_z v c) = with_lo (r_wz c) v"
  by (simp_all add: set_w_def set_z_def)

lemma tick_sel [simp]:
  "regs (tick n c) = regs c" "r_pc (tick n c) = r_pc c" "r_wz (tick n c) = r_wz c"
  "r_tmp (tick n c) = r_tmp c" "r_act (tick n c) = r_act c" "r_ir (tick n c) = r_ir c"
  "i_inte (tick n c) = i_inte c" "i_iff (tick n c) = i_iff c" "i_hlta (tick n c) = i_hlta c"
  "r_cc (tick n c) = r_cc c + 4"
  "r_mc (tick n c) = of_nat (unat (r_mc c + 1) mod n)"
  by (simp_all add: tick_def)

declare set8.simps [simp del] set16.simps [simp del] get8.simps [simp del] get16.simps [simp del]

section \<open>Handlers implement their instructions\<close>

definition start :: "'io machine \<Rightarrow> bool" where
  "start m \<longleftrightarrow> MC m = 0 \<and> \<not> i_iff (cpu m) \<and> \<not> i_hlta (cpu m) \<and> f_ok (r_f (cpu m))"

definition refines :: "'io port_bus \<Rightarrow> instr \<Rightarrow> 'io machine \<Rightarrow> bool" where
  "refines bus i m \<longleftrightarrow> map_option arch_of (micro bus i (isa_cycles (op_of i)) 6 m) =
    Some (isa_exec bus (op_of i) (arch_of m))"

lemma micro_numeral:
  "micro bus i n (numeral k) m =
    (let m' = cyc bus i n m
     in if IsInstructionExecuted (cpu m') then Some m' else micro bus i n (pred_numeral k) m')"
  by (simp add: numeral_eq_Suc)

lemma arch_sel [simp]:
  "rf (arch_of m) = regs (cpu m)" "apc (arch_of m) = r_pc (cpu m)"
  "ram (arch_of m) = m_ram (mem m)" "rom (arch_of m) = m_rom (mem m)"
  "mapg (arch_of m) = mem_upd (mem m)" "dev (arch_of m) = io m"
  "inte (arch_of m) = i_inte (cpu m)" "halted (arch_of m) = i_hlta (cpu m)"
  by (simp_all add: arch_of_def)

lemma ld_arch [simp]: "ld sp a (arch_of m) = GetByte (mem m) a sp"
  by (simp add: ld_def global_of_def GetByte_def fetch_global_def GetGlobalAddr_def Let_def)

lemma global_of_arch [simp]: "global_of sp a (arch_of m) = GetGlobalAddr (mem m) a sp"
  by (simp add: global_of_def GetGlobalAddr_def)

lemma arch_eqI:
  "rf x = rf y \<Longrightarrow> apc x = apc y \<Longrightarrow> ram x = ram y \<Longrightarrow> rom x = rom y \<Longrightarrow> mapg x = mapg y \<Longrightarrow>
    dev x = dev y \<Longrightarrow> inte x = inte y \<Longrightarrow> halted x = halted y \<Longrightarrow> x = (y :: 'io arch)"
  by (cases x, cases y) simp

lemma put_sel [simp]:
  "rf (put r v x) = (rf x)(r := v)" "apc (put r v x) = apc x" "ram (put r v x) = ram x"
  "rom (put r v x) = rom x" "mapg (put r v x) = mapg x" "dev (put r v x) = dev x"
  "inte (put r v x) = inte x" "halted (put r v x) = halted x"
  by (simp_all add: put_def)

lemma st_sel [simp]:
  "rf (st sp a v x) = rf x" "apc (st sp a v x) = apc x"
  "ram (st sp a v x) = (ram x)(global_of sp a x := v)"
  "rom (st sp a v x) = rom x" "mapg (st sp a v x) = mapg x" "dev (st sp a v x) = dev x"
  "inte (st sp a v x) = inte x" "halted (st sp a v x) = halted x"
  by (simp_all add: st_def)

lemma skip_sel [simp]:
  "rf (skip n x) = rf x" "apc (skip n x) = apc x + n" "ram (skip n x) = ram x"
  "rom (skip n x) = rom x" "mapg (skip n x) = mapg x" "dev (skip n x) = dev x"
  "inte (skip n x) = inte x" "halted (skip n x) = halted x"
  "ld sp a (skip n x) = ld sp a x" "global_of sp a (skip n x) = global_of sp a x"
  by (simp_all add: skip_def ld_def global_of_def Let_def)

lemma jump_sel [simp]:
  "rf (jump a x) = rf x" "apc (jump a x) = a" "ram (jump a x) = ram x" "rom (jump a x) = rom x"
  "mapg (jump a x) = mapg x" "dev (jump a x) = dev x" "inte (jump a x) = inte x"
  "halted (jump a x) = halted x"
  by (simp_all add: jump_def)

lemma global_of_put [simp]:
  "global_of sp a (put r v x) = global_of sp a x" "global_of sp a (st sp' b v x) = global_of sp a x"
  by (simp_all add: global_of_def)

lemmas run_simps = start_def refines_def micro_numeral cyc_def Let_def IsInstructionExecuted_def
  to_regs

lemmas isa_simps = rp_def put16_def imm8_def imm16_def push_def top16_def drop2_def

lemmas move_defs = MOVRegReg_def LoadRegPtr_def MOVMemReg_def MVIRegData_def MVIMemData_def
  do_LDA_def do_STA_def do_STAX_def do_LXI_def do_LHLD_def do_SHLD_def do_SPHL_def do_XCHG_def
  do_XTHL_def dec_sp_def inc_sp_def do_PUSH_def do_POP_def do_POP_PSW_def

text \<open>
  The handler calls of the switch: PUSH and POP never name half of SP, no instruction writes F
  as a byte register except POP PSW.
\<close>

fun instr_wf :: "instr \<Rightarrow> bool" where
  "instr_wf (Move (I_MOVRegReg d s)) = (d \<noteq> F)"
| "instr_wf (Move (I_LoadRegPtr d p)) = (d \<noteq> F)"
| "instr_wf (Move (I_MVIRegData d)) = (d \<noteq> F)"
| "instr_wf (Move (I_LXI h l)) = (h \<noteq> F \<and> l \<noteq> F)"
| "instr_wf (Move (I_PUSH h l)) = (h \<notin> {SPH, SPL} \<and> l \<notin> {SPH, SPL})"
| "instr_wf (Move (I_POP h l)) = 
    (F \<noteq> h \<and> SPH \<noteq> h \<and> SPL \<noteq> h \<and> F \<noteq> l \<and> SPH \<noteq> l \<and> SPL \<noteq> l)"
| "instr_wf (Arith (I_INR r)) = (r \<noteq> F)"
| "instr_wf (Arith (I_DCR r)) = (r \<noteq> F)"
| "instr_wf (Ctrl (I_RETCond cd)) = (cd \<noteq> Always)"
| "instr_wf _ = True"

lemma and_psw_consts:
  "(f AND ucast PSW_NUL_FLAGS) OR ucast PSW_INIT = psw (bit f 7) (bit f 6) (bit f 4) (bit f 2) (bit f 0)"
  by (rule u8_eqI) (simp_all add: bit_psw bit_simps PSW_NUL_FLAGS_def PSW_INIT_def)

lemma refines_move:
  assumes "start m" "instr_wf (Move i)"
  shows "refines bus (Move i) m"
  using assms
  by (cases i) (simp_all add: run_simps isa_simps move_defs and_psw_consts,
      (rule arch_eqI; simp add: pair_simps and_psw_consts bit_psw fun_eq_iff dec_sp_def inc_sp_def
        to_regs)+)

lemma mod_16_step:
  "((n :: nat) + 1) mod 16 = 0 \<longleftrightarrow> n mod 16 = 15" "(n + 255) mod 16 = 15 \<longleftrightarrow> n mod 16 = 0"
  by presburger+

lemma unat_inc_dec:
  "unat ((v :: u8) + 1) mod 16 = (unat v + 1) mod 16"
  "unat ((v :: u8) - 1) mod 16 = (unat v + 255) mod 16"
proof -
  show "unat (v + 1) mod 16 = (unat v + 1) mod 16"
    by (simp add: unat_word_ariths mod_mod_cancel)
  have "v - 1 = v + 255" by simp
  then have "unat (v - 1) = (unat v + 255) mod 256" by (simp only: unat_word_ariths) simp
  then show "unat (v - 1) mod 16 = (unat v + 255) mod 16" by (simp add: mod_mod_cancel)
qed

lemma nibble_inc_dec:
  "((v :: u8) + 1) AND 0xF = 0 \<longleftrightarrow> unat v mod 16 = 15"
  "((v :: u8) - 1) AND 0xF = 0xF \<longleftrightarrow> unat v mod 16 = 0"
proof -
  have z: "w AND 0xF = 0 \<longleftrightarrow> unat w mod 16 = 0" "w AND 0xF = 0xF \<longleftrightarrow> unat w mod 16 = 15" for w :: u8
    using nibbles(1) [of w] by (simp_all add: word_unat_eq_iff)
  show "(v + 1) AND 0xF = 0 \<longleftrightarrow> unat v mod 16 = 15" "(v - 1) AND 0xF = 0xF \<longleftrightarrow> unat v mod 16 = 0"
    unfolding z unat_inc_dec mod_16_step by (rule refl)+
qed

text \<open>The accumulator helpers on the register file.\<close>

lemma alu_regs:
  assumes "f_ok (regs c F)"
  shows "alu_ADD a b cy c = c\<lparr>r_a := a + b + of_bool cy, r_f := add_flags a b cy\<rparr>"
    and "alu_SUB a b cy c = c\<lparr>r_a := a - b - of_bool cy, r_f := sub_flags a b cy\<rparr>"
    and "alu_CMP c = c\<lparr>r_f := sub_flags (r_act c) (r_tmp c) False\<rparr>"
    and "alu_AND c = c\<lparr>r_a := r_act c AND r_tmp c,
      r_f := zsp (bit (r_act c OR r_tmp c) 3) False (r_act c AND r_tmp c)\<rparr>"
    and "alu_XOR c = c\<lparr>r_a := r_act c XOR r_tmp c, r_f := zsp False False (r_act c XOR r_tmp c)\<rparr>"
    and "alu_OR c = c\<lparr>r_a := r_act c OR r_tmp c, r_f := zsp False False (r_act c OR r_tmp c)\<rparr>"
    and "inc_tmp c = c\<lparr>r_tmp := r_tmp c + 1, r_f := inc_flags (bit (regs c F) 0) (r_tmp c)\<rparr>"
    and "dec_tmp c = c\<lparr>r_tmp := r_tmp c - 1, r_f := dec_flags (bit (regs c F) 0) (r_tmp c)\<rparr>"
proof -
  have F: "regs c F = r_f c" by (simp add: regs_def get8.simps)
  with assms have ok: "f_ok (r_f c)" by simp
  show "alu_ADD a b cy c = c\<lparr>r_a := a + b + of_bool cy, r_f := add_flags a b cy\<rparr>"
    "alu_SUB a b cy c = c\<lparr>r_a := a - b - of_bool cy, r_f := sub_flags a b cy\<rparr>"
    "alu_CMP c = c\<lparr>r_f := sub_flags (r_act c) (r_tmp c) False\<rparr>"
    "alu_AND c = c\<lparr>r_a := r_act c AND r_tmp c,
      r_f := zsp (bit (r_act c OR r_tmp c) 3) False (r_act c AND r_tmp c)\<rparr>"
    "alu_XOR c = c\<lparr>r_a := r_act c XOR r_tmp c, r_f := zsp False False (r_act c XOR r_tmp c)\<rparr>"
    "alu_OR c = c\<lparr>r_a := r_act c OR r_tmp c, r_f := zsp False False (r_act c OR r_tmp c)\<rparr>"
    by (simp_all only: alu_ADD_psw [OF ok] alu_SUB_psw [OF ok] alu_CMP_psw [OF ok]
        alu_logic_psw [OF ok] add_flags_def sub_flags_def)
  show "inc_tmp c = c\<lparr>r_tmp := r_tmp c + 1, r_f := inc_flags (bit (regs c F) 0) (r_tmp c)\<rparr>"
    "dec_tmp c = c\<lparr>r_tmp := r_tmp c - 1, r_f := dec_flags (bit (regs c F) 0) (r_tmp c)\<rparr>"
    by (simp_all only: inc_dec_psw [OF ok] inc_flags_def dec_flags_def nibble_inc_dec F)
qed

lemmas arith_defs = do_ADD_def ADDMem_def do_ADI_def do_SUB_def SUBMem_def do_SBI_def do_DAD_def
  do_INR_def INRMem_def do_DCR_def DCRMem_def do_INX_def do_DCX_def alu_mem_def alu_imm_def
  carry_in_def save_act_def set_tmp_def



lemmas arith_run = run_simps isa_simps arith_defs alu_regs accumulate_def carry_def get_flag_def
  set_flag_def add16_def set_carry_def

lemma refines_add_sub:
  assumes "start m"
  shows "refines bus (Arith (I_ADD r fc)) m" "refines bus (Arith (I_ADDMem fc)) m"
    "refines bus (Arith (I_ADI fc)) m" "refines bus (Arith (I_SUB r fc)) m"
    "refines bus (Arith (I_SUBMem fc)) m" "refines bus (Arith (I_SBI fc)) m"
  using assms by (cases fc; simp add: arith_run)+

lemma hi_of_neq_lo_of [simp]: "hi_of p \<noteq> lo_of q" "lo_of q \<noteq> hi_of p"
  "hi_of p \<noteq> A" "hi_of p \<noteq> F" "lo_of p \<noteq> A" "lo_of p \<noteq> F"
  "F \<noteq> hi_of p" "F \<noteq> lo_of p"
  "hi_of p \<noteq> L" "hi_of p \<noteq> C" "hi_of p \<noteq> E" "hi_of p \<noteq> SPL"
  by (cases p; cases q; simp)+

lemma refines_inc:
  assumes "start m"
  shows "r \<noteq> F \<Longrightarrow> refines bus (Arith (I_INR r)) m" "refines bus (Arith I_INRMem) m"
    "r \<noteq> F \<Longrightarrow> refines bus (Arith (I_DCR r)) m" "refines bus (Arith I_DCRMem) m"
  using assms by (simp add: arith_run; (rule arch_eqI; simp add: fun_eq_iff to_regs alu_regs)?; fail)+

lemma refines_inx:
  "start m \<Longrightarrow> refines bus (Arith (I_INX p)) m" "start m \<Longrightarrow> refines bus (Arith (I_DCX p)) m"
  by (cases p, simp_all add: arith_run, (rule arch_eqI; simp add: fun_eq_iff)+)+

lemma refines_rot:
  assumes "start m"
  shows "refines bus (Arith I_CMA) m" "refines bus (Arith I_STC) m" "refines bus (Arith I_CMC) m"
    "refines bus (Arith I_RLC) m" "refines bus (Arith I_RRC) m"
    "refines bus (Arith I_RAL) m" "refines bus (Arith I_RAR) m"
  using assms by (simp add: arith_run rotate_eqs; (rule arch_eqI; simp add: fun_eq_iff to_regs alu_regs)?)+

lemma pair_sum:
  fixes h1 l1 h2 l2 :: u8
  defines "c \<equiv> 256 \<le> unat l1 + unat l2"
  shows "pair (h1 + h2 + of_bool c) (l1 + l2) = pair h1 l1 + pair h2 l2"
    and "(256 \<le> unat h1 + unat h2 + b2n c) = (65536 \<le> unat (pair h1 l1) + unat (pair h2 l2))"
proof -
  note b = u8_less [of h1] u8_less [of l1] u8_less [of h2] u8_less [of l2]
  show "(256 \<le> unat h1 + unat h2 + b2n c) = (65536 \<le> unat (pair h1 l1) + unat (pair h2 l2))"
    using b by (auto simp: unat_pair c_def b2n_def)
  let ?a = "256 * unat h1 + unat l1 + (256 * unat h2 + unat l2)"
  have a: "?a = (unat l1 + unat l2) + 256 * (unat h1 + unat h2)" by simp
  have l: "?a mod 256 = unat (l1 + l2)"
    unfolding a mod_mult_self2 by (simp add: unat_word_ariths)
  have "?a div 256 = unat h1 + unat h2 + (unat l1 + unat l2) div 256"
    unfolding a by simp
  also have "(unat l1 + unat l2) div 256 = b2n c"
    using b by (auto simp: b2n_def c_def)
  finally have h: "?a div 256 mod 256 = unat (h1 + h2 + of_bool c)"
    by (simp add: unat_word_ariths b2n_def mod_simps)
  have "unat (pair h1 l1 + pair h2 l2) = ?a mod (256 * 256)"
    by (simp add: unat_word_ariths unat_pair)
  also have "\<dots> = unat (pair (h1 + h2 + of_bool c) (l1 + l2))"
    unfolding mod_mult2_eq l h unat_pair by simp
  finally show "pair (h1 + h2 + of_bool c) (l1 + l2) = pair h1 l1 + pair h2 l2"
    by (simp only: word_unat_eq_iff)
qed

lemma sum_bit_8: "bit (uint (a :: u8) + uint (b :: u8) + b2i c) 8 = (256 \<le> unat a + unat b + b2n c)"
proof -
  have "(int (unat a) + int (unat b) + int (b2n c)) div 256 = int ((unat a + unat b + b2n c) div 256)"
    by (simp add: zdiv_int)
  moreover have "(unat a + unat b + b2n c) div 256 = (if 256 \<le> unat a + unat b + b2n c then 1 else 0)"
    using u8_less [of a] u8_less [of b] by (auto simp: b2n_def)
  ultimately show ?thesis by (simp add: bit_iff_odd b2i_b2n)
qed

lemma dad_lo_regs:
  "regs (dad_lo p c) = (regs c)(F := put_bit 0 (256 \<le> unat (regs c (lo_of p)) + unat (regs c L)) (regs c F),
    L := regs c (lo_of p) + regs c L)"
  "r_pc (dad_lo p c) = r_pc c" "r_mc (dad_lo p c) = r_mc c" "i_inte (dad_lo p c) = i_inte c"
  "i_hlta (dad_lo p c) = i_hlta c" "i_iff (dad_lo p c) = i_iff c" "r_ir (dad_lo p c) = r_ir c"
proof -
  have w: "word_of_int (uint a + uint b) = a + b" for a b :: u8 by simp
  have "bit (uint a + uint b) 8 = (256 \<le> unat a + unat b)" for a b :: u8
    using sum_bit_8 [of a b False] by (simp add: b2i_def b2n_def)
  then show "regs (dad_lo p c) = (regs c)(F := put_bit 0 (256 \<le> unat (regs c (lo_of p)) + unat (regs c L)) (regs c F),
    L := regs c (lo_of p) + regs c L)"
    by (simp add: dad_lo_def Let_def int_and_consts w set_flag_def to_regs)
qed (simp_all add: dad_lo_def Let_def set_flag_def)

lemma dad_hi_regs:
  "regs (dad_hi p c) = (regs c)(F := put_bit 0 (256 \<le> unat (regs c (hi_of p)) + unat (regs c H) +
      b2n (bit (regs c F) 0)) (regs c F),
    H := regs c (hi_of p) + regs c H + of_bool (bit (regs c F) 0))"
  "r_pc (dad_hi p c) = r_pc c" "r_mc (dad_hi p c) = r_mc c" "i_inte (dad_hi p c) = i_inte c"
  "i_hlta (dad_hi p c) = i_hlta c" "i_iff (dad_hi p c) = i_iff c" "r_ir (dad_hi p c) = r_ir c"
proof -
  let ?f = "bit (regs c F) 0"
  have w: "word_of_int (uint a + uint b + b2i f) = a + b + of_bool f" for a b :: u8 and f
    by (simp add: b2i_def)
  show "regs (dad_hi p c) = (regs c)(F := put_bit 0 (256 \<le> unat (regs c (hi_of p)) + unat (regs c H) +
      b2n (bit (regs c F) 0)) (regs c F),
    H := regs c (hi_of p) + regs c H + of_bool (bit (regs c F) 0))"
    using sum_bit_8 [of "regs c (hi_of p)" "regs c H" ?f] w [of "regs c (hi_of p)" "regs c H" ?f]
    by (simp add: dad_hi_def Let_def int_and_consts set_flag_def get_flag_def to_regs b2i_def
        split del: if_split cong: if_cong)
qed (simp_all add: dad_hi_def Let_def set_flag_def get_flag_def)

lemma refines_dad:
  assumes "start m"
  shows "refines bus (Arith (I_DAD p)) m"
proof -
  let ?r = "regs (cpu m)"
  note s = pair_sum [of "?r (hi_of p)" "?r H" "?r (lo_of p)" "?r L", symmetric]
  show ?thesis
    using assms
    apply (simp add: arith_run dad_lo_regs dad_hi_regs)
    apply (rule arch_eqI; simp add: dad_lo_regs dad_hi_regs s fun_eq_iff)
    done
qed

lemma do_DAA_regs:
  assumes "f_ok (regs c F)"
  shows "do_DAA c =
    (let a = regs c A;
         low = (bit (regs c F) 4 \<or> 9 < unat a mod 16);
         high = (bit (regs c F) 0 \<or> 0x99 < unat a);
         v = a + ((if low then 6 else 0) + (if high then 0x60 else 0))
     in c\<lparr>r_a := v, r_f := zsp (low \<and> 9 < unat a mod 16) high v\<rparr>)"
proof -
  have F: "regs c F = r_f c" "regs c A = r_a c" by (simp_all add: regs_def get8.simps)
  with assms have ok: "f_ok (r_f c)" by simp
  show ?thesis
    unfolding do_DAA_psw [OF ok] daa_low_def daa_high_def get_flag_def F
    by (simp only: Let_def flag_bit.simps)
qed

lemma refines_daa: "start m \<Longrightarrow> refines bus (Arith I_DAA) m"
  by (simp add: run_simps do_DAA_regs daa_def carry_def split del: if_split;
      rule arch_eqI; simp add: do_DAA_regs Let_def split del: if_split)

lemmas logic_defs = do_ANA_def AMAMem_def do_ANI_def do_XRA_def XRAMem_def do_XRI_def do_ORA_def
  ORAMem_def do_ORI_def do_CMP_def CMPMem_def do_CPI_def load_alu_def

lemma refines_logic: "start m \<Longrightarrow> refines bus (Logic i) m"
  by (cases i) (simp_all add: arith_run logic_defs)

lemmas ctrl_defs = do_JMP_def do_PCHL_def do_CALL_def do_RET_def RETCond_def do_RST_def do_IN_def
  do_OUT_def do_HLT_def jump_wz_def dec_sp_def inc_sp_def

lemma holds_regs: "holds cd c = cond_on cd (regs c F)"
  by (cases cd) (simp_all add: get_flag_def to_regs)

lemmas ctrl_run = run_simps ctrl_defs isa_simps holds_regs isa_holds_def

lemma do_OUT_sel:
  "cpu (do_OUT bus m) = (if MC m = 1 then
    set_z (GetByte (mem m) (r_pc (cpu m)) RAM) ((set_w 0 (cpu m))\<lparr>r_pc := r_pc (cpu m) + 1\<rparr>) else cpu m)"
  "mem (do_OUT bus m) = (if MC m = 1 then snd (CpuReadInstr (r_pc (cpu m)) RAM 1 (mem m)) else mem m)"
  "io (do_OUT bus m) = (if MC m = 1 then
    bus_output bus (GetByte (mem m) (r_pc (cpu m)) RAM) (regs (cpu m) A) (io m) else io m)"
  by (simp_all add: do_OUT_def Let_def to_regs)

lemma refines_out: "start m \<Longrightarrow> refines bus (Ctrl I_OUT) m"
  by (simp add: run_simps isa_simps do_OUT_sel; rule arch_eqI; simp add: do_OUT_sel)

lemma refines_simple:
  "start m \<Longrightarrow> refines bus (Ctrl I_PCHL) m" "start m \<Longrightarrow> refines bus (Ctrl I_RET) m"
  "start m \<Longrightarrow> refines bus (Ctrl I_NOP) m" "start m \<Longrightarrow> refines bus (Ctrl I_EI) m"
  "start m \<Longrightarrow> refines bus (Ctrl I_DI) m" "start m \<Longrightarrow> refines bus (Ctrl I_HLT) m"
  "start m \<Longrightarrow> refines bus (Ctrl (I_RST n)) m"
  by (simp add: ctrl_run; (rule arch_eqI; simp add: ctrl_defs to_regs fun_eq_iff)?)+

lemma refines_in: "start m \<Longrightarrow> refines bus (Ctrl I_IN) m"
  by (simp add: ctrl_run case_prod_beta;
      rule arch_eqI; simp add: ctrl_defs to_regs fun_eq_iff case_prod_beta)

lemma refines_cond:
  "start m \<Longrightarrow> cond_on cd (regs (cpu m) F) \<Longrightarrow> refines bus (Ctrl (I_JMP cd)) m"
  "start m \<Longrightarrow> cond_on cd (regs (cpu m) F) \<Longrightarrow> refines bus (Ctrl (I_CALL cd)) m"
  "start m \<Longrightarrow> cond_on cd (regs (cpu m) F) \<Longrightarrow> cd \<noteq> Always \<Longrightarrow> refines bus (Ctrl (I_RETCond cd)) m"
  "start m \<Longrightarrow> \<not> cond_on cd (regs (cpu m) F) \<Longrightarrow> refines bus (Ctrl (I_JMP cd)) m"
  "start m \<Longrightarrow> \<not> cond_on cd (regs (cpu m) F) \<Longrightarrow> refines bus (Ctrl (I_CALL cd)) m"
  "start m \<Longrightarrow> \<not> cond_on cd (regs (cpu m) F) \<Longrightarrow> cd \<noteq> Always \<Longrightarrow> refines bus (Ctrl (I_RETCond cd)) m"
  by (simp add: ctrl_run; (rule arch_eqI; simp add: ctrl_defs to_regs fun_eq_iff)?)+

lemma refines_ctrl:
  assumes "start m" "instr_wf (Ctrl i)"
  shows "refines bus (Ctrl i) m"
proof (cases i)
  case (I_JMP cd)
  then show ?thesis using assms refines_cond(1,4) by blast
next
  case (I_CALL cd)
  then show ?thesis using assms refines_cond(2,5) by blast
next
  case (I_RETCond cd)
  then show ?thesis using assms refines_cond(3,6) [of m cd] by auto
qed (use assms in \<open>simp_all add: refines_simple refines_in refines_out\<close>)

lemma refines_arith:
  assumes "start m" "instr_wf (Arith i)"
  shows "refines bus (Arith i) m"
  using assms
  by (cases i) (simp_all add: refines_add_sub refines_inc refines_inx refines_rot refines_dad
      refines_daa)

lemma refines_instr:
  assumes "start m" "instr_wf i"
  shows "refines bus i m"
  using assms refines_move refines_arith refines_logic refines_ctrl by (cases i) blast+

section \<open>From the opcode fetch to the end of the instruction\<close>

lemma decode_wf: "list_all (\<lambda>(op, i). instr_wf i) decode_cases"
  by code_simp

lemma alu_keep [simp]:
  "r_ir (alu_ADD a b cy c) = r_ir c" "i_iff (alu_ADD a b cy c) = i_iff c"
  "r_ir (alu_SUB a b cy c) = r_ir c" "i_iff (alu_SUB a b cy c) = i_iff c"
  "r_ir (alu_CMP c) = r_ir c" "i_iff (alu_CMP c) = i_iff c"
  "r_ir (alu_AND c) = r_ir c" "i_iff (alu_AND c) = i_iff c"
  "r_ir (alu_XOR c) = r_ir c" "i_iff (alu_XOR c) = i_iff c"
  "r_ir (alu_OR c) = r_ir c" "i_iff (alu_OR c) = i_iff c"
  "r_ir (inc_tmp c) = r_ir c" "i_iff (inc_tmp c) = i_iff c"
  "r_ir (dec_tmp c) = r_ir c" "i_iff (dec_tmp c) = i_iff c"
  "r_ir (do_DAA c) = r_ir c" "i_iff (do_DAA c) = i_iff c"
  by (simp_all add: alu_ADD_def alu_SUB_def alu_CMP_def alu_AND_def alu_XOR_def alu_OR_def
      inc_tmp_def dec_tmp_def do_DAA_def SetZSP_def set_flag_def Let_def case_prod_beta)

lemma exec_move_keeps:
  "r_ir (cpu (exec_move i m)) = r_ir (cpu m)" "i_iff (cpu (exec_move i m)) = i_iff (cpu m)"
  by (cases i; simp add: move_defs Let_def)+

lemma exec_arith_keeps:
  "r_ir (cpu (exec_arith i m)) = r_ir (cpu m)" "i_iff (cpu (exec_arith i m)) = i_iff (cpu m)"
  by (cases i; simp add: arith_defs Let_def rotate_eqs dad_lo_regs dad_hi_regs set_flag_def)+

lemma exec_logic_keeps:
  "r_ir (cpu (exec_logic i m)) = r_ir (cpu m)" "i_iff (cpu (exec_logic i m)) = i_iff (cpu m)"
  by (cases i; simp add: logic_defs alu_mem_def alu_imm_def save_act_def set_tmp_def)+

lemma exec_ctrl_keeps:
  "r_ir (cpu (exec_ctrl bus i m)) = r_ir (cpu m)" "i_iff (cpu (exec_ctrl bus i m)) = i_iff (cpu m)"
  by (cases i; simp add: do_JMP_def do_PCHL_def do_CALL_def do_RET_def RETCond_def do_RST_def
      do_IN_def do_OUT_sel do_HLT_def jump_wz_def dec_sp_def inc_sp_def Let_def case_prod_beta)+

lemma exec_instr_keeps [simp]:
  "r_ir (cpu (exec_instr bus i m)) = r_ir (cpu m)" "i_iff (cpu (exec_instr bus i m)) = i_iff (cpu m)"
  by (cases i; simp add: exec_move_keeps exec_arith_keeps exec_logic_keeps exec_ctrl_keeps)+

lemma cyc_keeps [simp]:
  "r_ir (cpu (cyc bus i n m)) = r_ir (cpu m)" "i_iff (cpu (cyc bus i n m)) = i_iff (cpu m)"
  by (simp_all add: cyc_def)

lemma machine_eqI:
  "cpu m = cpu m' \<Longrightarrow> mem m = mem m' \<Longrightarrow> io m = io m' \<Longrightarrow> exit_code m = exit_code m' \<Longrightarrow>
    m = (m' :: 'io machine)"
  by (cases m, cases m') simp

lemma upd_upd [simp]: "upd f (upd g m) = upd (\<lambda>c. f (g c)) m"
  by (simp add: upd_def)

lemma latch_irq_False [simp]: "upd (latch_irq False) m = m"
  by (simp add: upd_def latch_irq_def)

lemma cycle_is_cyc:
  assumes "lookup_case (r_ir (cpu (begin_cycle irq m))) = Some i"
  shows "ExecuteMachineCycle bus irq m =
    cyc bus i (M_CYCLES ! unat (r_ir (cpu (begin_cycle irq m)))) (begin_cycle irq m)"
  using assms
  by (simp add: ExecuteMachineCycle_def Decode_def cyc_def MACHINE_CC_def)
    (simp add: upd_def next_mc_def tick_def)

lemma run_instr_micro:
  assumes "lookup_case (r_ir (cpu m)) = Some i" "MC m \<noteq> 0"
  shows "run_instr bus k m = micro bus i (M_CYCLES ! unat (r_ir (cpu m))) k m"
  using assms
proof (induction k arbitrary: m)
  case (Suc k)
  have b: "begin_cycle False m = m" using Suc.prems by (simp add: begin_cycle_def Let_def)
  have c: "ExecuteMachineCycle bus False m = cyc bus i (M_CYCLES ! unat (r_ir (cpu m))) m"
    using cycle_is_cyc [of False m i bus] Suc.prems by (simp add: b)
  show ?case
    using Suc.prems Suc.IH [of "cyc bus i (M_CYCLES ! unat (r_ir (cpu m))) m"]
    by (simp add: c Let_def IsInstructionExecuted_def)
qed simp

lemma fetch_opcode_sel [simp]:
  "cpu (fetch_opcode m) = (cpu m)\<lparr>i_eiPending := False, r_pc := r_pc (cpu m) + 1,
    r_ir := GetByte (mem m) (r_pc (cpu m)) RAM\<rparr>"
  by (simp add: fetch_opcode_def)

lemma arch_of_fetch: "arch_of (fetch_opcode m) = skip 1 (arch_of m)"
  by (rule arch_eqI) (simp_all add: fetch_opcode_def)

lemma run_instr_start:
  assumes "start m" "lookup_case (imm8 (arch_of m)) = Some i"
  shows "run_instr bus (Suc k) m =
    micro bus i (M_CYCLES ! unat (imm8 (arch_of m))) (Suc k) (fetch_opcode m)"
proof -
  have b: "begin_cycle False m = fetch_opcode m"
    using assms by (simp add: begin_cycle_def Let_def start_def)
  have ir: "r_ir (cpu (fetch_opcode m)) = imm8 (arch_of m)" by (simp add: imm8_def)
  let ?m = "cyc bus i (M_CYCLES ! unat (imm8 (arch_of m))) (fetch_opcode m)"
  have c: "ExecuteMachineCycle bus False m = ?m"
    using cycle_is_cyc [of False m i bus] assms(2) by (simp only: b ir)
  have "run_instr bus k ?m = micro bus i (M_CYCLES ! unat (imm8 (arch_of m))) k ?m"
    if "MC ?m \<noteq> 0"
    using run_instr_micro [of ?m i bus k] that assms(2) ir by simp
  then show ?thesis by (simp add: c Let_def IsInstructionExecuted_def)
qed

lemma run_instr_refines:
  assumes "start m" "unat (imm8 (arch_of m)) \<noteq> 0x75"
  shows "map_option arch_of (run_instr bus 6 m) = Some (isa_step bus (arch_of m))"
proof -
  obtain i where i: "lookup_case (imm8 (arch_of m)) = Some i" "(imm8 (arch_of m), i) \<in> set decode_cases"
    by (rule lookup_case_total)
  have wf: "instr_wf i" using i(2) decode_wf by (auto simp: list_all_iff)
  have s: "start (fetch_opcode m)" using assms(1) by (simp add: start_def)
  have n: "M_CYCLES ! unat (imm8 (arch_of m)) = isa_cycles (op_of i)"
    using lookup_case_facts(2) [OF i(2) assms(2)] .
  have "run_instr bus 6 m = micro bus i (isa_cycles (op_of i)) 6 (fetch_opcode m)"
    using run_instr_start [OF assms(1) i(1), of bus 5] n by simp
  then show ?thesis
    using refines_instr [OF s wf, of bus] lookup_case_facts(1) [OF i(2)]
    by (simp add: refines_def arch_of_fetch isa_step_def)
qed

lemma run_instr_executed:
  "run_instr bus k m = Some m' \<Longrightarrow> MC m' = 0 \<or> i_hlta (cpu m')"
  by (induction k arbitrary: m) (auto simp: Let_def IsInstructionExecuted_def split: if_splits)

end
