(* ===== verification/Cpu_Props.thy ===== *)
theory Cpu_Props
  imports Cpu_Refine
begin

unbundle bit_operations_syntax

text \<open>
  The properties of the processor: each instruction, and each run of instructions, does what the
  reference instruction set says; timing; the invariant of the flag byte under any sequence of
  machine cycles and interrupt requests; interrupts; and where the tables of the code are wrong.
\<close>

section \<open>A concrete machine\<close>

definition blank_cpu :: cpu_state where
  "blank_cpu = \<lparr>r_cc = 0, r_pc = 0, r_sp = 0, r_a = 0, r_f = 2, r_bc = 0, r_de = 0, r_hl = 0,
    r_ir = 0, r_tmp = 0, r_act = 0, r_wz = 0, r_mc = 0, i_inte = False, i_iff = False,
    i_hlta = False, i_eiPending = False\<rparr>"

definition blank_mem :: memory where
  "blank_mem = \<lparr>m_ram = (\<lambda>_. 0), m_rom = [], m_mappings = replicate 8 0,
    mem_upd = \<lparr>upd_mapping = 0, ramdiskIdx = 0, memType = MT_RAM\<rparr>,
    mem_dbg = \<lparr>instrGlobalAddr = 0, instr_array = [0, 0, 0], readGlobalAddr = [0, 0],
      dbg_read = [0, 0], readLen = 0, writeGlobalAddr = [0, 0], dbg_write = [0, 0], writeLen = 0,
      beforeWrite = [0, 0], instrLen = 0\<rparr>,
    m_mappingsEnabled = 0, m_ramDiskClearAfterRestart = True\<rparr>"

definition program :: "u8 list \<Rightarrow> unit machine" where
  "program bs = \<lparr>cpu = blank_cpu, mem = SetRam 0 bs blank_mem, io = (), exit_code = None\<rparr>"

definition no_bus :: "unit port_bus" where
  "no_bus = \<lparr>bus_input = (\<lambda>_ _. (0xFF, ())), bus_output = (\<lambda>_ _ _. ())\<rparr>"

lemma start_program [simp]: "start (program bs)"
  by (simp add: start_def program_def blank_cpu_def f_ok_def bit_numeral_rec)

lemma program_sel [simp]:
  "r_cc (cpu (program bs)) = 0" "r_pc (cpu (program bs)) = 0"
  "memType (mem_upd (mem (program bs))) = MT_RAM" "\<not> i_hlta (cpu (program bs))"
  by (simp_all add: program_def blank_cpu_def blank_mem_def SetRam_def)

lemma imm8_program [simp]:
  "imm8 (arch_of (program (b # bs))) = b"
  by (simp add: imm8_def program_def blank_cpu_def GetByte_def GetGlobalAddr_def map_addr_def
      fetch_global_def SetRam_def blank_mem_def)

section \<open>Timing\<close>

text \<open>Machine cycles an instruction takes in a given state.\<close>

definition isa_time :: "isa_op \<Rightarrow> 'io arch \<Rightarrow> nat" where
  "isa_time op x =
    (case op of
       OCall cd \<Rightarrow> if isa_holds cd x then 6 else 4
     | ORet cd \<Rightarrow> if cd = Always then 3 else if isa_holds cd x then 4 else 2
     | _ \<Rightarrow> isa_cycles op)"

definition timed :: "'io port_bus \<Rightarrow> instr \<Rightarrow> 'io machine \<Rightarrow> bool" where
  "timed bus i m \<longleftrightarrow> map_option (\<lambda>m'. r_cc (cpu m')) (micro bus i (isa_cycles (op_of i)) 6 m) =
    Some (r_cc (cpu m) + 4 * of_nat (isa_time (op_of i) (arch_of m)))"

lemma alu_mc_cc [simp]:
  "r_mc (alu_ADD a b cy c) = r_mc c" "r_cc (alu_ADD a b cy c) = r_cc c" "i_hlta (alu_ADD a b cy c) = i_hlta c"
  "r_mc (alu_SUB a b cy c) = r_mc c" "r_cc (alu_SUB a b cy c) = r_cc c" "i_hlta (alu_SUB a b cy c) = i_hlta c"
  "r_mc (alu_CMP c) = r_mc c" "r_cc (alu_CMP c) = r_cc c" "i_hlta (alu_CMP c) = i_hlta c"
  "r_mc (alu_AND c) = r_mc c" "r_cc (alu_AND c) = r_cc c" "i_hlta (alu_AND c) = i_hlta c"
  "r_mc (alu_XOR c) = r_mc c" "r_cc (alu_XOR c) = r_cc c" "i_hlta (alu_XOR c) = i_hlta c"
  "r_mc (alu_OR c) = r_mc c" "r_cc (alu_OR c) = r_cc c" "i_hlta (alu_OR c) = i_hlta c"
  "r_mc (inc_tmp c) = r_mc c" "r_cc (inc_tmp c) = r_cc c" "i_hlta (inc_tmp c) = i_hlta c"
  "r_mc (dec_tmp c) = r_mc c" "r_cc (dec_tmp c) = r_cc c" "i_hlta (dec_tmp c) = i_hlta c"
  "r_mc (do_DAA c) = r_mc c" "r_cc (do_DAA c) = r_cc c" "i_hlta (do_DAA c) = i_hlta c"
  "r_cc (dad_lo p c) = r_cc c" "r_cc (dad_hi p c) = r_cc c"
  by (simp_all add: alu_ADD_def alu_SUB_def alu_CMP_def alu_AND_def alu_XOR_def alu_OR_def
      inc_tmp_def dec_tmp_def do_DAA_def dad_lo_def dad_hi_def SetZSP_def set_flag_def get_flag_def
      Let_def case_prod_beta)

lemmas time_simps = run_simps timed_def isa_time_def

lemma timed_move: "start m \<Longrightarrow> timed bus (Move i) m"
  by (cases i) (simp_all add: time_simps move_defs)

lemma timed_arith: "start m \<Longrightarrow> timed bus (Arith i) m"
  by (cases i) (simp_all add: time_simps arith_defs rotate_eqs dad_lo_regs dad_hi_regs set_flag_def)

lemma timed_logic: "start m \<Longrightarrow> timed bus (Logic i) m"
  by (cases i) (simp_all add: time_simps logic_defs alu_mem_def alu_imm_def save_act_def set_tmp_def)

lemma timed_cond:
  "start m \<Longrightarrow> cond_on cd (regs (cpu m) F) \<Longrightarrow> timed bus (Ctrl (I_CALL cd)) m"
  "start m \<Longrightarrow> cond_on cd (regs (cpu m) F) \<Longrightarrow> cd \<noteq> Always \<Longrightarrow> timed bus (Ctrl (I_RETCond cd)) m"
  "start m \<Longrightarrow> cond_on cd (regs (cpu m) F) \<Longrightarrow> timed bus (Ctrl (I_JMP cd)) m"
  "start m \<Longrightarrow> \<not> cond_on cd (regs (cpu m) F) \<Longrightarrow> timed bus (Ctrl (I_CALL cd)) m"
  "start m \<Longrightarrow> \<not> cond_on cd (regs (cpu m) F) \<Longrightarrow> cd \<noteq> Always \<Longrightarrow> timed bus (Ctrl (I_RETCond cd)) m"
  "start m \<Longrightarrow> \<not> cond_on cd (regs (cpu m) F) \<Longrightarrow> timed bus (Ctrl (I_JMP cd)) m"
  by (simp add: ctrl_run timed_def isa_time_def)+

lemma timed_simple:
  "start m \<Longrightarrow> timed bus (Ctrl I_PCHL) m" "start m \<Longrightarrow> timed bus (Ctrl I_RET) m"
  "start m \<Longrightarrow> timed bus (Ctrl I_NOP) m" "start m \<Longrightarrow> timed bus (Ctrl I_EI) m"
  "start m \<Longrightarrow> timed bus (Ctrl I_DI) m" "start m \<Longrightarrow> timed bus (Ctrl I_HLT) m"
  "start m \<Longrightarrow> timed bus (Ctrl (I_RST n)) m"
  "start m \<Longrightarrow> timed bus (Ctrl I_IN) m"
  by (simp add: ctrl_run timed_def isa_time_def case_prod_beta)+

lemma timed_out: "start m \<Longrightarrow> timed bus (Ctrl I_OUT) m"
  by (simp add: time_simps do_OUT_sel)

lemma timed_ctrl:
  assumes "start m" "instr_wf (Ctrl i)"
  shows "timed bus (Ctrl i) m"
proof (cases i)
  case (I_JMP cd)
  then show ?thesis using assms timed_cond(3,6) by blast
next
  case (I_CALL cd)
  then show ?thesis using assms timed_cond(1,4) by blast
next
  case (I_RETCond cd)
  then show ?thesis using assms timed_cond(2,5) [of m cd] by auto
qed (use assms in \<open>simp_all add: timed_simple timed_out\<close>)

lemma timed_instr:
  assumes "start m" "instr_wf i" shows "timed bus i m"
  using assms timed_move timed_arith timed_logic timed_ctrl by (cases i) blast+

section \<open>Runs of instructions\<close>

lemma f_ok_put_bit_0 [simp]: "f_ok (put_bit 0 b f) = f_ok f"
  by (simp add: f_ok_def bit_put_bit)

lemma f_ok_flags [simp]:
  "f_ok (zsp ac cy v)" "f_ok (add_flags a b cy)" "f_ok (sub_flags a b cy)"
  "f_ok (inc_flags cy v)" "f_ok (dec_flags cy v)" "f_ok (snd (alu_fn op a b cy))"
  by (cases op; simp add: zsp_def add_flags_def sub_flags_def inc_flags_def dec_flags_def)+

lemma isa_move_keeps_f_ok:
  "instr_wf (Move i) \<Longrightarrow> f_ok (rf x F) \<Longrightarrow> f_ok (rf (isa_exec bus (op_of (Move i)) x) F)"
  by (cases i) (auto simp: put16_def push_def drop2_def Let_def)

lemma isa_keeps_f_ok:
  "instr_wf i \<Longrightarrow> f_ok (rf x F) \<Longrightarrow> f_ok (rf (isa_exec bus (op_of i) x) F)"
proof (cases i)
  case (Arith j)
  then show "instr_wf i \<Longrightarrow> f_ok (rf x F) \<Longrightarrow> ?thesis"
    by (cases j) (simp_all add: accumulate_def case_prod_beta set_carry_def add16_def put16_def
        daa_def Let_def)
next
  case (Logic j)
  then show "instr_wf i \<Longrightarrow> f_ok (rf x F) \<Longrightarrow> ?thesis"
    by (cases j) (simp_all add: accumulate_def case_prod_beta)
next
  case (Ctrl j)
  then show "instr_wf i \<Longrightarrow> f_ok (rf x F) \<Longrightarrow> ?thesis"
    by (cases j) (simp_all add: push_def put16_def drop2_def case_prod_beta)
qed (simp add: isa_move_keeps_f_ok del: op_of.simps)

lemma isa_step_keeps_f_ok: "f_ok (rf x F) \<Longrightarrow> f_ok (rf (isa_step bus x) F)"
proof -
  assume f: "f_ok (rf x F)"
  obtain i where i: "(imm8 x, i) \<in> set decode_cases" by (rule lookup_case_total)
  have wf: "instr_wf i" using i decode_wf by (auto simp: list_all_iff)
  show ?thesis
    unfolding isa_step_def lookup_case_facts(1) [OF i, symmetric]
    by (rule isa_keeps_f_ok [OF wf]) (simp add: f)
qed

lemma ExecuteMachineCycle_keeps_iff:
  "\<not> i_iff (cpu m) \<Longrightarrow> \<not> i_iff (cpu (ExecuteMachineCycle bus False m))"
  by (auto simp: ExecuteMachineCycle_def Decode_def next_mc_def begin_cycle_def Let_def
      split: option.split)

lemma run_instr_keeps_iff:
  "run_instr bus k m = Some m' \<Longrightarrow> \<not> i_iff (cpu m) \<Longrightarrow> \<not> i_iff (cpu m')"
  by (induction k arbitrary: m) (auto simp: Let_def ExecuteMachineCycle_keeps_iff split: if_splits)

lemma run_instr_next_start:
  assumes "start m" "unat (imm8 (arch_of m)) \<noteq> 0x75"
  obtains m' where "run_instr bus 6 m = Some m'" "arch_of m' = isa_step bus (arch_of m)"
    "\<not> halted (arch_of m') \<Longrightarrow> start m'"
proof -
  obtain m' where m': "run_instr bus 6 m = Some m'" "arch_of m' = isa_step bus (arch_of m)"
    using run_instr_refines [OF assms, of bus] by auto
  have "f_ok (rf (arch_of m) F)" using assms(1) by (simp add: start_def to_regs)
  then have "f_ok (rf (arch_of m') F)" unfolding m'(2) by (rule isa_step_keeps_f_ok)
  then have "start m'" if "\<not> halted (arch_of m')"
    using run_instr_executed [OF m'(1)] run_instr_keeps_iff [OF m'(1)] assms(1) that
    by (simp add: start_def to_regs)
  with m' that show ?thesis by blast
qed

fun run_many :: "'io port_bus \<Rightarrow> nat \<Rightarrow> 'io machine \<Rightarrow> 'io machine option" where
  "run_many bus 0 m = Some m"
| "run_many bus (Suc n) m =
    (case run_instr bus 6 m of None \<Rightarrow> None | Some m' \<Rightarrow> run_many bus n m')"

text \<open>A processor stopped by HLT: it repeats the second cycle of HLT, its program counter on the
  opcode.\<close>

definition halted_at :: "'io machine \<Rightarrow> bool" where
  "halted_at m \<longleftrightarrow> MC m = 1 \<and> r_ir (cpu m) = OPCODE_HLT \<and> \<not> i_iff (cpu m) \<and> i_hlta (cpu m)"

lemma lookup_hlt: "lookup_case 0x76 = Some (Ctrl I_HLT)" "M_CYCLES ! 118 = 2"
  by code_simp+

lemma HLT_cycle:
  assumes "halted_at m"
  shows "ExecuteMachineCycle bus irq m = cyc bus (Ctrl I_HLT) 2 (upd (latch_irq irq) m)"
proof -
  have "begin_cycle irq m = upd (latch_irq irq) m"
    using assms by (simp add: begin_cycle_def Let_def halted_at_def latch_irq_def)
  then show ?thesis
    using cycle_is_cyc [of irq m "Ctrl I_HLT" bus] assms
    by (simp add: halted_at_def OPCODE_HLT_def lookup_hlt latch_irq_def)
qed

lemma HLT_waits:
  assumes "halted_at m"
  shows "halted_at (ExecuteMachineCycle bus False m)"
    "arch_of (ExecuteMachineCycle bus False m) = arch_of m"
    "i_eiPending (cpu (ExecuteMachineCycle bus False m)) = i_eiPending (cpu m)"
  using assms
  by (auto simp: HLT_cycle halted_at_def cyc_def do_HLT_def Let_def tick_def intro!: arch_eqI)

lemma run_hlt:
  assumes "start m" "imm8 (arch_of m) = 0x76"
  shows "\<exists>m'. run_instr bus 6 m = Some m' \<and> halted_at m'"
proof -
  have "run_instr bus 6 m = micro bus (Ctrl I_HLT) 2 6 (fetch_opcode m)"
    using run_instr_start [OF assms(1), of "Ctrl I_HLT" bus 5] assms(2) by (simp add: lookup_hlt)
  moreover have "r_ir (cpu (fetch_opcode m)) = 0x76" using assms(2) by (simp add: imm8_def)
  moreover have "start (fetch_opcode m)" using assms(1) by (simp add: start_def)
  ultimately show ?thesis
    by (simp add: run_simps do_HLT_def halted_at_def OPCODE_HLT_def start_def)
qed

lemma decode_mov_m_l: "isa_decode 117 = OStore HL L"
  by code_simp

lemma run_mov_m_l:
  assumes "start m" "imm8 (arch_of m) = 0x75"
  obtains m' where "run_instr bus 6 m = Some m'" "arch_of m' = skip 1 (arch_of m)" "start m'"
proof -
  let ?m = "cyc bus (Move (I_MOVMemReg L)) 1 (fetch_opcode m)"
  have i: "lookup_case 0x75 = Some (Move (I_MOVMemReg L))" by code_simp
  have s: "start (fetch_opcode m)" using assms(1) by (simp add: start_def)
  have n: "M_CYCLES ! 117 = 1" by code_simp
  have "run_instr bus 6 m = micro bus (Move (I_MOVMemReg L)) 1 6 (fetch_opcode m)"
    using run_instr_start [OF assms(1), of "Move (I_MOVMemReg L)" bus 5] i n assms(2) by simp
  also have "\<dots> = Some ?m"
    using s by (simp add: run_simps MOVMemReg_def)
  finally have r: "run_instr bus 6 m = Some ?m" .
  have "arch_of ?m = arch_of (fetch_opcode m)"
    using s by (intro arch_eqI) (simp_all add: cyc_def MOVMemReg_def start_def)
  moreover have "start ?m" using s by (simp add: cyc_def MOVMemReg_def start_def to_regs)
  ultimately show ?thesis using r by (intro that) (simp_all add: arch_of_fetch)
qed

lemma decode_hlt: "isa_decode (unat (op :: u8)) = OHlt \<longleftrightarrow> op = 0x76"
proof -
  have "list_all (\<lambda>n. isa_decode n = OHlt \<longleftrightarrow> n = 0x76) [0..<256]" by code_simp
  moreover have "unat op \<in> set [0..<256]" using unsigned_less [of op] by simp
  ultimately have "isa_decode (unat op) = OHlt \<longleftrightarrow> unat op = 0x76" by (auto simp: list_all_iff)
  then show ?thesis by (simp add: word_unat_eq_iff)
qed

lemma isa_exec_halted: "i \<noteq> OHlt \<Longrightarrow> halted (isa_exec bus i x) = halted x"
  by (cases i)
    (simp_all add: isa_simps case_prod_beta Let_def accumulate_def add16_def daa_def set_carry_def
      split: alu_op.split)

text \<open>
  What one run of the instruction loop does to the architectural state: the step of the
  instruction set, MOV M,L apart, which the code leaves without its store. On a stopped processor
  the step of the instruction set is that of the HLT under the program counter, which changes
  nothing.
\<close>

definition code_step :: "'io port_bus \<Rightarrow> 'io arch \<Rightarrow> 'io arch" where
  "code_step bus x = (if unat (imm8 x) = 0x75 then skip 1 x else isa_step bus x)"

definition boundary :: "'io machine \<Rightarrow> bool" where
  "boundary m \<longleftrightarrow> start m \<or> halted_at m \<and> imm8 (arch_of m) = 0x76"

lemma code_step_halted:
  assumes "halted x" "imm8 x = 0x76"
  shows "code_step bus x = x"
proof -
  have "isa_decode 118 = OHlt" by code_simp
  then show ?thesis
    using assms by (intro arch_eqI) (simp_all add: code_step_def isa_step_def)
qed

lemma run_boundary:
  assumes "boundary m"
  obtains m' where "run_instr bus 6 m = Some m'" "arch_of m' = code_step bus (arch_of m)"
    "boundary m'"
proof -
  consider (stop) "halted_at m" "imm8 (arch_of m) = 0x76" | (mov) "start m" "imm8 (arch_of m) = 0x75"
    | (hlt) "start m" "imm8 (arch_of m) = 0x76"
    | (other) "start m" "imm8 (arch_of m) \<noteq> 0x75" "imm8 (arch_of m) \<noteq> 0x76"
    using assms by (auto simp: boundary_def)
  then show ?thesis
  proof cases
    case stop
    then have "run_instr bus (Suc 5) m = Some (ExecuteMachineCycle bus False m)"
      using HLT_waits(1) [OF stop(1), of bus] unfolding run_instr.simps(2) Let_def
      by (simp add: IsInstructionExecuted_def halted_at_def)
    then have "run_instr bus 6 m = Some (ExecuteMachineCycle bus False m)" by simp
    moreover have "halted (arch_of m)" using stop(1) by (simp add: halted_at_def)
    ultimately show ?thesis
      using HLT_waits(1,2) [OF stop(1), of bus] stop(2)
      by (intro that [of "ExecuteMachineCycle bus False m"]) (simp_all add: boundary_def code_step_halted)
  next
    case mov
    then show ?thesis
      by (elim run_mov_m_l [of m bus]) (auto simp: boundary_def code_step_def intro!: that)
  next
    case hlt
    then obtain m' where m': "run_instr bus 6 m = Some m'" "arch_of m' = isa_step bus (arch_of m)"
      using run_instr_next_start [of m bus] by auto
    have "isa_decode 118 = OHlt" by code_simp
    then have "isa_step bus (arch_of m) = (jump (apc (arch_of m)) (skip 1 (arch_of m)))\<lparr>halted := True\<rparr>"
      using hlt(2) by (simp add: isa_step_def)
    then have "imm8 (isa_step bus (arch_of m)) = imm8 (arch_of m)"
      by (simp add: imm8_def ld_def global_of_def fetch_global_def Let_def)
    with m' run_hlt [OF hlt, of bus] hlt(2) show ?thesis
      by (intro that [of m']) (auto simp: boundary_def code_step_def)
  next
    case other
    then obtain m' where m': "run_instr bus 6 m = Some m'" "arch_of m' = isa_step bus (arch_of m)"
        "\<not> halted (arch_of m') \<Longrightarrow> start m'"
      using run_instr_next_start [of m bus] by (auto simp: word_unat_eq_iff)
    have "\<not> halted (isa_step bus (arch_of m))"
      using other decode_hlt [of "imm8 (arch_of m)"]
      by (simp add: isa_step_def isa_exec_halted start_def)
    with m' other show ?thesis
      by (intro that [of m']) (auto simp: boundary_def code_step_def word_unat_eq_iff)
  qed
qed

section \<open>Properties\<close>

text \<open>C15: Every opcode has a case in the switch of Decode, and the handler called there is the
  one of the instruction that the bit fields of the opcode encode in the 8080 instruction set;
  so Decode never takes its error branch.\<close>

theorem decode_is_8080_encoding:
  "\<exists>i. lookup_case op = Some i \<and> op_of i = isa_decode (unat op)"
  using lookup_case_total [of op] lookup_case_facts(1) by metis

text \<open>C1: Run from an instruction boundary, the machine cycles of any instruction but MOV M,L
  end within six cycles, and registers, flags, memory, devices, program counter and interrupt
  enable are then exactly those of the instruction-level reference.\<close>

theorem instruction_refines_isa:
  assumes "start m" "unat (imm8 (arch_of m)) \<noteq> 0x75"
  shows "\<exists>m'. run_instr bus 6 m = Some m' \<and> arch_of m' = isa_step bus (arch_of m)"
  using run_instr_next_start [OF assms] by metis

theorem instruction_refines_isa_witness:
  "\<exists>m'. run_instr no_bus 6 (program [0x3E, 0x2A]) = Some m' \<and>
    arch_of m' = isa_step no_bus (arch_of (program [0x3E, 0x2A]))"
  by (rule instruction_refines_isa) simp_all

text \<open>C2: From an instruction boundary, with no interrupt requested, any number of instructions
  run one after the other by the cycle-accurate code, of any program, has the effect of as many
  steps of the reference instruction set, where a MOV M,L (opcode 0x75) is stepped over without its
  store, as the code does, and a processor stopped by HLT stays as it is.\<close>

theorem run_refines_isa:
  assumes "start m"
  shows "map_option arch_of (run_many bus n m) = Some ((code_step bus ^^ n) (arch_of m))"
proof -
  have "map_option arch_of (run_many bus n k) = Some ((code_step bus ^^ n) (arch_of k))"
    if "boundary k" for k
    using that
  proof (induction n arbitrary: k)
    case (Suc n)
    obtain m' where "run_instr bus 6 k = Some m'" "arch_of m' = code_step bus (arch_of k)"
      "boundary m'" by (rule run_boundary [OF Suc.prems])
    then show ?case using Suc.IH [of m'] by (simp add: funpow_swap1)
  qed simp
  then show ?thesis using assms by (simp add: boundary_def)
qed

theorem run_refines_isa_witness:
  "map_option arch_of (run_many no_bus 1000 (program [0x75, 0x3E, 0x2A, 0x76])) =
    Some ((code_step no_bus ^^ 1000) (arch_of (program [0x75, 0x3E, 0x2A, 0x76])))"
  by (rule run_refines_isa) simp

text \<open>An instruction takes four clock cycles per machine cycle of the 8080 instruction
  table, a conditional call or return that is not taken being cut short.\<close>

theorem instruction_time:
  assumes "start m" "unat (imm8 (arch_of m)) \<noteq> 0x75"
  shows "map_option (\<lambda>m'. r_cc (cpu m')) (run_instr bus 6 m) =
    Some (r_cc (cpu m) + 4 * of_nat (isa_time (isa_decode (unat (imm8 (arch_of m)))) (skip 1 (arch_of m))))"
proof -
  obtain i where i: "lookup_case (imm8 (arch_of m)) = Some i" "(imm8 (arch_of m), i) \<in> set decode_cases"
    by (rule lookup_case_total)
  have wf: "instr_wf i" using i(2) decode_wf by (auto simp: list_all_iff)
  have s: "start (fetch_opcode m)" using assms(1) by (simp add: start_def)
  have "run_instr bus 6 m = micro bus i (isa_cycles (op_of i)) 6 (fetch_opcode m)"
    using run_instr_start [OF assms(1) i(1), of bus 5] lookup_case_facts(2) [OF i(2) assms(2)] by simp
  then show ?thesis
    using timed_instr [OF s wf, of bus] lookup_case_facts(1) [OF i(2)]
    by (simp add: timed_def arch_of_fetch)
qed

theorem instruction_time_witness:
  "map_option (\<lambda>m'. r_cc (cpu m')) (run_instr no_bus 6 (program [0xCD, 0x34, 0x12])) = Some 24"
proof -
  have "isa_decode 0xCD = OCall Always" by code_simp
  then show ?thesis
    using instruction_time [of "program [0xCD, 0x34, 0x12]" no_bus]
    by (simp add: isa_time_def isa_holds_def del: map_option_eq_Some)
qed

text \<open>MOV M,L (opcode 0x75) has one machine cycle in the table where its handler needs two:
  the instruction ends before the store and leaves the memory as it was, where the instruction
  set stores L at the address in HL.\<close>

theorem mov_m_l_never_stores:
  assumes "start m" "imm8 (arch_of m) = 0x75"
  shows "map_option arch_of (run_instr bus 6 m) = Some (skip 1 (arch_of m)) \<and>
    isa_step bus (arch_of m) = st RAM (rp HL (arch_of m)) (rf (arch_of m) L) (skip 1 (arch_of m))"
  using run_mov_m_l [OF assms] assms(2)
  by (auto simp: isa_step_def decode_mov_m_l rp_def skip_def st_def global_of_def)

theorem mov_m_l_never_stores_witness:
  "map_option arch_of (run_instr no_bus 6 (program [0x75])) = Some (skip 1 (arch_of (program [0x75])))"
  using mov_m_l_never_stores [of "program [0x75]" no_bus] by simp

text \<open>The length table of the code agrees with the bytes an instruction takes, except for the
  undocumented opcodes 0xCB, 0xDD, 0xED and 0xFD: the table says one byte, the processor runs
  them as three-byte jumps and calls.\<close>

theorem length_table_exceptions:
  "(GetInstrLen op = isa_length (isa_decode (unat op))) = (unat op \<notin> undocumented_long)"
proof -
  obtain i where i: "(op, i) \<in> set decode_cases" by (rule lookup_case_total)
  show ?thesis
    using lookup_case_facts(1,3) [OF i] by (simp add: GetInstrLen_def)
qed

section \<open>Machine cycles keep the flag byte and the cycle counter in shape\<close>

definition cpu_inv :: "'io machine \<Rightarrow> bool" where
  "cpu_inv m \<longleftrightarrow> f_ok (r_f (cpu m)) \<and> exit_code m = None \<and>
    unat (MC m) < M_CYCLES ! unat (r_ir (cpu m))"

lemma alu_f_ok:
  assumes "f_ok (r_f c)"
  shows "f_ok (r_f (alu_ADD a b cy c))" "f_ok (r_f (alu_SUB a b cy c))" "f_ok (r_f (alu_CMP c))"
    "f_ok (r_f (alu_AND c))" "f_ok (r_f (alu_XOR c))" "f_ok (r_f (alu_OR c))"
    "f_ok (r_f (inc_tmp c))" "f_ok (r_f (dec_tmp c))" "f_ok (r_f (do_DAA c))"
  using assms
  by (simp_all add: alu_ADD_psw alu_SUB_psw alu_CMP_psw alu_logic_psw inc_dec_psw do_DAA_psw Let_def
      zsp_def sub_flags_def)

lemma set8_f: "r_f (set8 r v c) = (if r = F then v else r_f c)"
  by (cases r) (simp_all add: set8.simps)

lemma set16_f [simp]: "r_f (set16 p v c) = r_f c"
  by (cases p) (simp_all add: set16.simps)

lemma set_wz_f [simp]: "r_f (set_w v c) = r_f c" "r_f (set_z v c) = r_f c"
  by (simp_all add: set_w_def set_z_def)

lemma f_ok_set_carry: "f_ok (r_f (set_flag FC b c)) = f_ok (r_f c)"
  by (simp add: set_flag_def)

lemma f_ok_forced: "f_ok ((f AND ucast PSW_NUL_FLAGS) OR ucast PSW_INIT)"
  by (simp add: and_psw_consts)

lemma dad_f_ok: "f_ok (r_f (dad_lo p c)) = f_ok (r_f c)" "f_ok (r_f (dad_hi p c)) = f_ok (r_f c)"
  unfolding to_regs(3) dad_lo_regs(1) dad_hi_regs(1) by simp_all

lemma exec_move_inv:
  "instr_wf (Move i) \<Longrightarrow> f_ok (r_f (cpu m)) \<Longrightarrow> f_ok (r_f (cpu (exec_move i m)))"
  "exit_code (exec_move i m) = exit_code m"
  by (cases i; auto simp: move_defs Let_def set8_f f_ok_forced)+

lemma exec_arith_inv:
  "instr_wf (Arith i) \<Longrightarrow> f_ok (r_f (cpu m)) \<Longrightarrow> f_ok (r_f (cpu (exec_arith i m)))"
  "exit_code (exec_arith i m) = exit_code m"
  by (cases i; simp add: arith_defs alu_f_ok set8_f f_ok_set_carry dad_f_ok rotate_eqs)+

lemma exec_logic_inv:
  "f_ok (r_f (cpu m)) \<Longrightarrow> f_ok (r_f (cpu (exec_logic i m)))"
  "exit_code (exec_logic i m) = exit_code m"
  by (cases i; simp add: logic_defs alu_mem_def alu_imm_def save_act_def set_tmp_def alu_f_ok)+

lemma exec_ctrl_inv:
  "f_ok (r_f (cpu m)) \<Longrightarrow> f_ok (r_f (cpu (exec_ctrl bus i m)))"
  "exit_code (exec_ctrl bus i m) = exit_code m"
  by (cases i; simp add: do_JMP_def do_PCHL_def do_CALL_def do_RET_def RETCond_def do_RST_def
      do_IN_def do_OUT_def do_HLT_def jump_wz_def dec_sp_def inc_sp_def Let_def case_prod_beta)+

lemma exec_instr_inv:
  "instr_wf i \<Longrightarrow> f_ok (r_f (cpu m)) \<Longrightarrow> f_ok (r_f (cpu (exec_instr bus i m)))"
  "exit_code (exec_instr bus i m) = exit_code m"
  by (cases i; simp add: exec_move_inv exec_arith_inv exec_logic_inv exec_ctrl_inv)+

lemma opcode_cycles_pos: "list_all (\<lambda>n. 0 < n \<and> n \<le> 6) M_CYCLES" "length M_CYCLES = 256"
  by (simp_all add: M_CYCLES_def)

lemma M_CYCLES_bounds: "0 < M_CYCLES ! unat (op :: u8)" "M_CYCLES ! unat (op :: u8) \<le> 6"
  using opcode_cycles_pos u8_less [of op] by (simp_all add: list_all_length)

lemma unat_mod_mc: "0 < n \<Longrightarrow> n \<le> 6 \<Longrightarrow> unat (of_nat (k mod n) :: 4 word) = k mod n"
proof -
  assume "0 < n" "n \<le> 6"
  then have "k mod n < 16" using mod_less_divisor [of n k] by linarith
  then show ?thesis by (simp add: unsigned_of_nat take_bit_nat_eq_self)
qed

lemma begin_cycle_inv:
  assumes "f_ok (r_f (cpu m))" "exit_code m = None"
  shows "f_ok (r_f (cpu (begin_cycle irq m)))" "exit_code (begin_cycle irq m) = None"
  using assms
  by (simp_all add: begin_cycle_def Let_def latch_irq_def accept_interrupt_def fetch_opcode_def)

lemma ExecuteMachineCycle_inv:
  assumes "cpu_inv m" shows "cpu_inv (ExecuteMachineCycle bus irq m)"
proof -
  let ?b = "begin_cycle irq m"
  have b: "f_ok (r_f (cpu ?b))" "exit_code ?b = None"
    using assms begin_cycle_inv [of m irq] by (simp_all add: cpu_inv_def)
  obtain i where i: "lookup_case (r_ir (cpu ?b)) = Some i" "(r_ir (cpu ?b), i) \<in> set decode_cases"
    by (rule lookup_case_total)
  have wf: "instr_wf i" using i(2) decode_wf by (auto simp: list_all_iff)
  show ?thesis
    using b exec_instr_inv(1) [OF wf b(1), of bus]
    by (simp add: cpu_inv_def ExecuteMachineCycle_def Decode_def i(1) exec_instr_inv(2) next_mc_def
        unat_mod_mc M_CYCLES_bounds)
qed

interpretation cpu_steps: stepping "ExecuteMachineCycle bus" cpu_inv
  by unfold_locales (rule ExecuteMachineCycle_inv)

text \<open>C16: Whatever machine cycles and interrupt requests come, the flag byte keeps its constant
  bits (bit 1 set, bits 3 and 5 clear), the cycle counter stays below the cycle count of the
  current opcode, and the emulator never exits on an unknown opcode.\<close>

theorem cpu_invariant:
  assumes "cpu_inv m"
  shows "cpu_inv (fold (ExecuteMachineCycle bus) irqs m)"
  using assms by (rule cpu_steps.run_inv)

theorem cpu_invariant_witness:
  "cpu_inv (fold (ExecuteMachineCycle no_bus) [False, True, False] (program [0xF1, 0xC9]))"
  by (rule cpu_invariant)
    (simp add: cpu_inv_def program_def blank_cpu_def f_ok_def bit_numeral_rec M_CYCLES_def)

section \<open>Interrupts\<close>

lemma lookup_rst7: "lookup_case 0xFF = Some (Ctrl (I_RST 7))" "M_CYCLES ! 255 = 4"
  by code_simp+

text \<open>With interrupts disabled and none latched, a request changes nothing.\<close>

lemma cycle_irq_off:
  assumes "\<not> i_inte (cpu m)"
  shows "ExecuteMachineCycle bus irq m = ExecuteMachineCycle bus False m"
proof -
  have "upd (latch_irq irq) m = m" using assms by (simp add: upd_def latch_irq_def)
  then show ?thesis by (simp add: ExecuteMachineCycle_def begin_cycle_def)
qed

lemma accept_sel:
  "cpu (accept_interrupt m) = (cpu m)\<lparr>i_inte := False, i_iff := False, i_hlta := False, r_ir := 0xFF\<rparr>"
  "arch_of (accept_interrupt m) = (arch_of m)\<lparr>inte := False, halted := False\<rparr>"
  by (simp_all add: accept_interrupt_def OPCODE_RST7_def arch_of_def)

lemma cycle_mid:
  assumes "MC m \<noteq> 0" "\<not> i_inte (cpu m)" "lookup_case (r_ir (cpu m)) = Some i"
  shows "ExecuteMachineCycle bus irq m = cyc bus i (M_CYCLES ! unat (r_ir (cpu m))) m"
proof -
  have "begin_cycle False m = m" using assms by (simp add: begin_cycle_def Let_def)
  then show ?thesis
    using cycle_irq_off [OF assms(2), of bus irq] cycle_is_cyc [of False m i bus] assms(3) by simp
qed

lemma cycle_accept:
  assumes "MC m = 0" "i_iff (cpu m) \<or> irq \<and> i_inte (cpu m)" "\<not> i_eiPending (cpu m)"
  shows "ExecuteMachineCycle bus irq m =
    cyc bus (Ctrl (I_RST 7)) 4 (accept_interrupt (upd (latch_irq irq) m))"
proof -
  have b: "begin_cycle irq m = accept_interrupt (upd (latch_irq irq) m)"
    using assms by (auto simp: begin_cycle_def Let_def latch_irq_def)
  show ?thesis
    using cycle_is_cyc [of irq m "Ctrl (I_RST 7)" bus]
    by (simp only: b) (simp add: accept_sel lookup_rst7)
qed

lemma rst7_four_cycles:
  fixes bus :: "'io port_bus" and m :: "'io machine"
  assumes "start m" "\<not> i_inte (cpu m)" "r_ir (cpu m) = 0xFF"
  defines "c \<equiv> cyc bus (Ctrl (I_RST 7)) 4"
  shows "fold (ExecuteMachineCycle bus) [ra, rb, rc] (c m) = c (c (c (c m)))"
    and "arch_of (c (c (c (c m)))) = isa_exec bus (ORst 7) (arch_of m)"
    and "MC (c (c (c (c m)))) = 0" "\<not> i_iff (cpu (c (c (c (c m)))))"
proof -
  note cd = c_def cyc_def do_RST_def jump_wz_def dec_sp_def Let_def
  have mc: "MC (c m) = 1" "MC (c (c m)) = 2" "MC (c (c (c m))) = 3" "MC (c (c (c (c m)))) = 0"
    and inte: "\<not> i_inte (cpu (c m))" "\<not> i_inte (cpu (c (c m)))" "\<not> i_inte (cpu (c (c (c m))))"
    using assms(1,2) by (simp_all add: cd start_def)
  have ir: "r_ir (cpu (c m')) = r_ir (cpu m')" for m' by (simp add: c_def)
  have step: "ExecuteMachineCycle bus irq m' = c m'"
    if "MC m' \<noteq> 0" "\<not> i_inte (cpu m')" "r_ir (cpu m') = 0xFF" for m' irq
    using cycle_mid [OF that(1,2), of "Ctrl (I_RST 7)" bus irq] that(3)
    by (simp add: lookup_rst7 c_def)
  show "fold (ExecuteMachineCycle bus) [ra, rb, rc] (c m) = c (c (c (c m)))"
    using mc inte assms(3) by (simp add: step ir)
  show "MC (c (c (c (c m)))) = 0" by (rule mc(4))
  show "\<not> i_iff (cpu (c (c (c (c m)))))" using assms(1) by (simp add: c_def start_def)
  have "micro bus (Ctrl (I_RST 7)) 4 6 m = Some (c (c (c (c m))))"
    using mc assms(1) by (simp add: micro_numeral Let_def IsInstructionExecuted_def cd start_def)
  then show "arch_of (c (c (c (c m)))) = isa_exec bus (ORst 7) (arch_of m)"
    using refines_simple(7) [OF assms(1), of bus 7] by (simp add: refines_def)
qed

lemma serve_interrupt:
  assumes "MC m = 0" "f_ok (r_f (cpu m))" "i_iff (cpu m) \<or> irq \<and> i_inte (cpu m)"
    "\<not> i_eiPending (cpu m)"
  shows "\<exists>m'. fold (ExecuteMachineCycle bus) [irq, ra, rb, rc] m = m' \<and>
    arch_of m' = (jump 0x38 (push (hi (r_pc (cpu m))) (lo (r_pc (cpu m))) (arch_of m)))
      \<lparr>inte := False, halted := False\<rparr> \<and> MC m' = 0 \<and> \<not> i_iff (cpu m')"
proof -
  let ?a = "accept_interrupt (upd (latch_irq irq) m)"
  have s: "start ?a" "\<not> i_inte (cpu ?a)" "r_ir (cpu ?a) = 0xFF"
    using assms(1,2) by (simp_all add: start_def accept_sel latch_irq_def)
  have a: "arch_of ?a = (arch_of m)\<lparr>inte := False, halted := False\<rparr>"
    by (rule arch_eqI) (simp_all add: accept_sel latch_irq_def)
  have p: "pair 0 56 = 56" by (simp add: pair_def)
  have e: "isa_exec bus (ORst 7) ((arch_of m)\<lparr>inte := False, halted := False\<rparr>) =
      (jump 0x38 (push (hi (r_pc (cpu m))) (lo (r_pc (cpu m))) (arch_of m)))
        \<lparr>inte := False, halted := False\<rparr>"
    by (rule arch_eqI) (simp_all add: isa_simps global_of_def p)
  show ?thesis
    using cycle_accept [OF assms(1,3,4), of bus] rst7_four_cycles(1) [OF s, of bus ra rb rc]
      rst7_four_cycles(2,3,4) [OF s, of bus]
    by (simp add: a e del: isa_exec.simps)
qed

text \<open>C17: At an instruction boundary a pending or requested interrupt (with interrupts enabled and
  no EI just executed) is served in four machine cycles whatever the request line does meanwhile:
  the program counter is pushed, execution continues at 0x38, interrupts are off, HLT is left.\<close>

theorem interrupt_service:
  assumes "MC m = 0" "f_ok (r_f (cpu m))" "i_iff (cpu m) \<or> irq \<and> i_inte (cpu m)"
    "\<not> i_eiPending (cpu m)"
  shows "\<exists>m'. fold (ExecuteMachineCycle bus) [irq, ra, rb, rc] m = m' \<and>
    arch_of m' = (jump 0x38 (push (hi (r_pc (cpu m))) (lo (r_pc (cpu m))) (arch_of m)))
      \<lparr>inte := False, halted := False\<rparr> \<and> MC m' = 0 \<and> \<not> i_iff (cpu m')"
  using assms by (rule serve_interrupt)

theorem interrupt_service_witness:
  "\<exists>m'. fold (ExecuteMachineCycle no_bus) [True, False, True, False]
      (upd (\<lambda>c. c\<lparr>i_inte := True, r_pc := 0x100, r_sp := 0x8000\<rparr>) (program [])) = m' \<and>
    r_pc (cpu m') = 0x38 \<and> \<not> i_inte (cpu m') \<and> GetByteGlobal (mem m') 0x7FFF = 1"
proof -
  let ?m = "upd (\<lambda>c. c\<lparr>i_inte := True, r_pc := 0x100, r_sp := 0x8000\<rparr>) (program [])"
  obtain m' where m': "fold (ExecuteMachineCycle no_bus) [True, False, True, False] ?m = m'"
    "arch_of m' = (jump 0x38 (push (hi 0x100) (lo 0x100) (arch_of ?m)))
      \<lparr>inte := False, halted := False\<rparr>"
    using interrupt_service [of ?m True no_bus False True False]
    by (auto simp: program_def blank_cpu_def f_ok_def bit_numeral_rec)
  have "apc (arch_of m') = 0x38" "\<not> inte (arch_of m')" "ram (arch_of m') 0x7FFF = 1"
    unfolding m'(2)
    by (simp_all add: isa_simps regs_def get8.simps GetGlobalAddr_def map_addr_def program_def
        blank_cpu_def blank_mem_def SetRam_def pair_defs)
  then show ?thesis using m'(1) by (simp add: GetByteGlobal_def)
qed

text \<open>The instruction after EI starts even while an interrupt is requested.\<close>

lemma ei_delays_one_instruction:
  "MC m = 0 \<Longrightarrow> i_eiPending (cpu m) \<Longrightarrow>
    begin_cycle irq m = fetch_opcode (upd (latch_irq irq) m)"
  by (simp add: begin_cycle_def Let_def latch_irq_def)

lemma HLT_waits_many:
  assumes "halted_at m"
  shows "halted_at ((ExecuteMachineCycle bus False ^^ n) m) \<and>
    arch_of ((ExecuteMachineCycle bus False ^^ n) m) = arch_of m \<and>
    i_eiPending (cpu ((ExecuteMachineCycle bus False ^^ n) m)) = i_eiPending (cpu m)"
  using assms by (induction n) (simp_all add: HLT_waits)

lemma HLT_wakes:
  assumes "halted_at m" "i_inte (cpu m)"
  shows "MC (ExecuteMachineCycle bus True m) = 0" "i_iff (cpu (ExecuteMachineCycle bus True m))"
    "arch_of (ExecuteMachineCycle bus True m) = skip 1 (arch_of m)"
    "i_eiPending (cpu (ExecuteMachineCycle bus True m)) = i_eiPending (cpu m)"
  using assms
  by (auto simp: HLT_cycle halted_at_def cyc_def do_HLT_def Let_def tick_def latch_irq_def
      intro!: arch_eqI)

text \<open>A processor stopped by HLT stays as it is for any number of machine cycles without a
  request; the first request with interrupts enabled leads in five cycles to the handler at 0x38,
  with the address of the instruction after HLT on the stack.\<close>

theorem hlt_waits_for_interrupt:
  assumes "halted_at m" "i_inte (cpu m)" "\<not> i_eiPending (cpu m)" "f_ok (r_f (cpu m))"
  shows "\<exists>m'. fold (ExecuteMachineCycle bus) [True, ra, rb, rc, rd]
      ((ExecuteMachineCycle bus False ^^ n) m) = m' \<and>
    arch_of ((ExecuteMachineCycle bus False ^^ n) m) = arch_of m \<and>
    arch_of m' = (jump 0x38 (push (hi (r_pc (cpu m) + 1)) (lo (r_pc (cpu m) + 1)) (arch_of m)))
      \<lparr>inte := False, halted := False\<rparr>"
proof -
  let ?h = "(ExecuteMachineCycle bus False ^^ n) m"
  let ?w = "ExecuteMachineCycle bus True ?h"
  have h: "halted_at ?h" "arch_of ?h = arch_of m" "\<not> i_eiPending (cpu ?h)"
    using HLT_waits_many [OF assms(1), of n bus] assms(3) by auto
  have "i_inte (cpu ?h)" using arg_cong [OF h(2), of inte] assms(2) by simp
  note w = HLT_wakes [OF h(1) this, of bus]
  have f: "r_f (cpu ?w) = r_f (cpu m)" and pc: "r_pc (cpu ?w) = r_pc (cpu m) + 1"
    using arg_cong [OF w(3), of "\<lambda>x. rf x F"] arg_cong [OF w(3), of apc] h(2)
    by (simp_all add: to_regs)
  obtain m' where m': "fold (ExecuteMachineCycle bus) [ra, rb, rc, rd] ?w = m'"
    "arch_of m' = (jump 0x38 (push (hi (r_pc (cpu ?w))) (lo (r_pc (cpu ?w))) (arch_of ?w)))
      \<lparr>inte := False, halted := False\<rparr>"
    using serve_interrupt [OF w(1), of ra bus rb rc rd] w(2,4) h(3) assms(4) f by auto
  have "(jump 0x38 (push u v (skip 1 (arch_of m)))) = jump 0x38 (push u v (arch_of m))" for u v
    by (rule arch_eqI) (simp_all add: isa_simps)
  with m' h(2) show ?thesis by (simp add: w(3) pc)
qed

theorem hlt_waits_for_interrupt_witness:
  "\<exists>m'. fold (ExecuteMachineCycle no_bus) [True, False, False, False, False]
      ((ExecuteMachineCycle no_bus False ^^ 1000)
        (upd (\<lambda>c. c\<lparr>i_inte := True, i_hlta := True, r_ir := 0x76, r_mc := 1, r_pc := 5\<rparr>) (program []))) = m'
    \<and> r_pc (cpu m') = 0x38 \<and> \<not> i_hlta (cpu m')"
proof -
  let ?m = "upd (\<lambda>c. c\<lparr>i_inte := True, i_hlta := True, r_ir := 0x76, r_mc := 1, r_pc := 5\<rparr>) (program [])"
  obtain m' where m': "fold (ExecuteMachineCycle no_bus) [True, False, False, False, False]
      ((ExecuteMachineCycle no_bus False ^^ 1000) ?m) = m'"
    "arch_of m' = (jump 0x38 (push (hi (r_pc (cpu ?m) + 1)) (lo (r_pc (cpu ?m) + 1)) (arch_of ?m)))
      \<lparr>inte := False, halted := False\<rparr>"
    using hlt_waits_for_interrupt [of ?m no_bus False False False False 1000]
    by (auto simp: halted_at_def OPCODE_HLT_def program_def blank_cpu_def f_ok_def bit_numeral_rec)
  have "apc (arch_of m') = 0x38" "\<not> halted (arch_of m')" unfolding m'(2) by simp_all
  then show ?thesis using m'(1) by simp
qed

section \<open>The stack\<close>

text \<open>The reference memory is a byte store wherever the boot ROM does not hide it.\<close>

definition arch_writable :: "addr_space \<Rightarrow> 'io arch \<Rightarrow> u16 \<Rightarrow> bool" where
  "arch_writable sp x a \<longleftrightarrow>
    \<not> (memType (mapg x) = MT_ROM \<and> unat (global_of sp a x) < length (rom x))"

interpretation arch_store: byte_store "\<lambda>x a. ld sp a x" "st sp" "arch_writable sp"
proof unfold_locales
  fix x :: "'b arch" and a b :: u16 and v
  show "arch_writable sp x a \<Longrightarrow> ld sp a (st sp a v x) = v"
    by (auto simp: ld_def arch_writable_def Let_def)
  show "arch_writable sp x a \<Longrightarrow> arch_writable sp x b \<Longrightarrow> a \<noteq> b \<Longrightarrow>
      ld sp b (st sp a v x) = ld sp b x"
    by (auto simp: ld_def arch_writable_def Let_def global_of_def dest: map_addr_inj)
  show "arch_writable sp (st sp a v x) b = arch_writable sp x b"
    by (simp add: arch_writable_def)
qed

lemma push_top:
  assumes "arch_writable STACK x (rp SP x - 1)" "arch_writable STACK x (rp SP x - 2)"
  shows "rp SP (push h l x) = rp SP x - 2" "top16 (push h l x) = pair h l"
proof -
  show sp: "rp SP (push h l x) = rp SP x - 2" by (simp add: isa_simps)
  let ?s = "st STACK (rp SP x - 1) h x"
  have ld: "ld STACK a (push h l x) = ld STACK a (st STACK (rp SP x - 2) l ?s)" for a
    by (simp add: push_def put16_def ld_def put_def global_of_def Let_def)
  have w: "arch_writable STACK ?s a = arch_writable STACK x a" for a by (rule arch_store.ok_write)
  have "ld STACK (rp SP x - 2 + 1) (push h l x) = ld STACK (rp SP x - 1) ?s"
    unfolding ld using assms w
    by (simp add: arch_store.read_other)
  also have "\<dots> = h" using assms(1) by (rule arch_store.read_same)
  finally have hi: "ld STACK (rp SP x - 2 + 1) (push h l x) = h" .
  have "ld STACK (rp SP x - 2) (push h l x) = l"
    unfolding ld by (rule arch_store.read_same) (simp add: w assms)
  with hi show "top16 (push h l x) = pair h l" by (simp add: top16_def sp)
qed

text \<open>A subroutine returns: CALL followed by RET continues after the CALL with the stack
  pointer and all other registers as they were, wherever the two stack bytes are not hidden by
  the boot ROM; and PUSH followed by POP of the same pair restores the register file.\<close>

theorem call_ret_and_push_pop:
  assumes "arch_writable STACK x (rp SP x - 1)" "arch_writable STACK x (rp SP x - 2)"
    "h \<noteq> l" "instr_wf (Move (I_POP h l))"
  shows "apc (isa_exec bus (ORet Always) (isa_exec bus (OCall Always) x)) = apc x + 2 \<and>
    rf (isa_exec bus (ORet Always) (isa_exec bus (OCall Always) x)) = rf x \<and>
    rf (isa_exec bus (OPop h l) (isa_exec bus (OPush h l) x)) = rf x"
proof -
  note sp = push_top [OF assms(1,2)]
  have j: "top16 (jump a y) = top16 y" "rp p (jump a y) = rp p y" for a p and y :: "'a arch"
    by (simp_all add: isa_simps ld_def global_of_def Let_def)
  have push_rf: "rf (push u v x) = (rf x)(SPL := lo (rp SP x - 2), SPH := hi (rp SP x - 2))" for u v
    by (simp add: push_def put16_def)
  have sp2: "2 + (rp SP x - 2) = rp SP x" by simp
  have sph: "hi (rp SP x) = rf x SPH" "lo (rp SP x) = rf x SPL" by (simp_all add: rp_def)
  show ?thesis
    using assms(3,4)
    by (auto simp: isa_holds_def drop2_def put16_def sp j push_rf sp2 sph fun_eq_iff
        add.commute)
qed

theorem call_ret_and_push_pop_witness:
  "apc (isa_exec no_bus (ORet Always) (isa_exec no_bus (OCall Always) (arch_of (program [])))) = 2"
  using call_ret_and_push_pop [of "arch_of (program [])" B C no_bus]
  by (simp add: arch_writable_def)

end
