(* ===== verification/Keyboard.thy ===== *)
theory Keyboard
  imports Prelude
begin

unbundle bit_operations_syntax

text \<open>
  The keyboard of \<^verbatim>\<open>core/keyboard.h\<close> and \<^verbatim>\<open>keyboard.cpp\<close>: an 8 by 8 matrix of key
  contacts, the three modifier lines, and the mapping of host key codes to matrix positions. The
  lemmas show that what a read of the matrix returns is determined by the last event of each
  matrix position.
\<close>

section \<open>State\<close>

datatype operation = OP_NONE | OP_RESET | OP_RESTART

record keyboard =
  encodingMatrix :: "u8 list"
  keySS :: bool
  keyUS :: bool
  keyRus :: bool

definition KEY_UP :: int where "KEY_UP = 0"
definition KEY_DOWN :: int where "KEY_DOWN = 1"

definition KEY_F6 :: int where "KEY_F6 = 0x75"
definition KEY_F11 :: int where "KEY_F11 = 0x7A"
definition KEY_F12 :: int where "KEY_F12 = 0x7B"
definition KEY_LSHIFT :: int where "KEY_LSHIFT = 0xA0"
definition KEY_RSHIFT :: int where "KEY_RSHIFT = 0xA1"
definition KEY_LCTRL :: int where "KEY_LCTRL = 0xA2"
definition KEY_LGUI :: int where "KEY_LGUI = 0x5B"
definition KEY_LALT :: int where "KEY_LALT = 0xA4"

lemmas key_consts = KEY_UP_def KEY_DOWN_def KEY_F6_def KEY_F11_def KEY_F12_def KEY_LSHIFT_def
  KEY_RSHIFT_def KEY_LCTRL_def KEY_LGUI_def KEY_LALT_def

text \<open>Row and column codes: row in the high byte, a column mask in the low byte.\<close>

definition keymap :: "(int \<times> nat) list" where
  "keymap =
    [(0x20, 0x780), (0xc0, 0x701), (0xdd, 0x720), (0xdc, 0x710), (0xdb, 0x708), (90, 0x704),
     (89, 0x702), (88, 0x701), (87, 0x680), (86, 0x640), (85, 0x620), (84, 0x610), (83, 0x608),
     (82, 0x604), (81, 0x602), (80, 0x601), (79, 0x580), (78, 0x540), (77, 0x520), (76, 0x510),
     (75, 0x508), (74, 0x504), (73, 0x502), (72, 0x501), (71, 0x480), (70, 0x440), (69, 0x420),
     (68, 0x410), (67, 0x408), (66, 0x404), (65, 0x402), (0xbd, 0x401), (0xbf, 0x380),
     (0xbe, 0x340), (0xbb, 0x320), (0xbc, 0x310), (0xba, 0x308), (0xde, 0x304), (57, 0x302),
     (56, 0x301), (55, 0x280), (54, 0x240), (53, 0x220), (52, 0x210), (51, 0x208), (50, 0x204),
     (49, 0x202), (48, 0x201), (0x74, 0x180), (0x73, 0x140), (0x72, 0x120), (0x71, 0x110),
     (0x70, 0x108), (0x1b, 0x104), (0x77, 0x102), (0x76, 0x101), (0x28, 0x080), (0x27, 0x040),
     (0x26, 0x020), (0x25, 0x010), (0x8, 0x008), (0xd, 0x004), (0xa5, 0x002), (0x9, 0x001)]"

definition Keyboard_new :: keyboard where
  "Keyboard_new = \<lparr>encodingMatrix = replicate 8 0, keySS = False, keyUS = False, keyRus = False\<rparr>"

section \<open>Operations\<close>

definition matrix_key :: "nat \<Rightarrow> int \<Rightarrow> keyboard \<Rightarrow> keyboard" where
  "matrix_key rowColumn action kb =
    (let row = rowColumn div 256; column = (of_nat (rowColumn mod 256) :: u8); mx = encodingMatrix kb
     in kb\<lparr>encodingMatrix :=
          mx[row := (if action = KEY_UP then mx ! row AND NOT column else mx ! row OR column)]\<rparr>)"

definition KeyHandling :: "int \<Rightarrow> int \<Rightarrow> keyboard \<Rightarrow> operation \<times> keyboard" where
  "KeyHandling key action kb =
    (if key = KEY_F11 then (if action = KEY_UP then (OP_RESET, kb) else (OP_NONE, kb))
     else if key = KEY_F12 then (if action = KEY_UP then (OP_RESTART, kb) else (OP_NONE, kb))
     else if key = KEY_LSHIFT \<or> key = KEY_RSHIFT then (OP_NONE, kb\<lparr>keySS := (action = KEY_DOWN)\<rparr>)
     else if key = KEY_LCTRL then (OP_NONE, kb\<lparr>keyUS := (action = KEY_DOWN)\<rparr>)
     else if key = KEY_LGUI \<or> key = KEY_LALT \<or> key = KEY_F6
       then (OP_NONE, kb\<lparr>keyRus := (action = KEY_DOWN)\<rparr>)
     else case map_of keymap key of
       Some rc \<Rightarrow> (OP_NONE, matrix_key rc action kb)
     | None \<Rightarrow> (OP_NONE, kb))"

definition Keyboard_Read :: "int \<Rightarrow> keyboard \<Rightarrow> u8" where
  "Keyboard_Read rows kb =
    NOT (fold (\<lambda>row result. result OR
      (if rows AND push_bit row 1 = 0 then encodingMatrix kb ! row else 0)) [0..<8] 0)"

section \<open>The matrix follows the last event of each position\<close>

lemma keymap_codes:
  "list_all (\<lambda>(k, rc). rc < 2048 \<and> list_ex (\<lambda>c. rc mod 256 = 2 ^ c) [0, 1, 2, 3, 4, 5, 6, 7]) keymap"
  by (simp add: keymap_def)

lemma keymap_plain:
  "list_all (\<lambda>(k, rc). k \<notin> {KEY_F11, KEY_F12, KEY_LSHIFT, KEY_RSHIFT, KEY_LCTRL, KEY_LGUI, KEY_LALT,
    KEY_F6}) keymap"
  by (simp add: keymap_def key_consts)

text \<open>What a sequence of events leaves at position \<open>(row, col)\<close>: the last one that concerns it.\<close>

definition concerns :: "nat \<Rightarrow> nat \<Rightarrow> int \<times> int \<Rightarrow> bool" where
  "concerns row col ev = (map_of keymap (fst ev) = Some (256 * row + 2 ^ col))"

fun is_down :: "nat \<Rightarrow> nat \<Rightarrow> (int \<times> int) list \<Rightarrow> bool" where
  "is_down row col [] = False"
| "is_down row col (ev # later_first) =
    (if concerns row col ev then snd ev \<noteq> KEY_UP else is_down row col later_first)"

definition press :: "int \<times> int \<Rightarrow> keyboard \<Rightarrow> keyboard" where
  "press ev kb = snd (KeyHandling (fst ev) (snd ev) kb)"

definition contact :: "keyboard \<Rightarrow> nat \<Rightarrow> nat \<Rightarrow> bool" where
  "contact kb row col = bit (encodingMatrix kb ! row) col"

lemma keymap_code:
  assumes "map_of keymap k = Some rc"
  obtains row col where "rc = 256 * row + 2 ^ col" "row < 8" "col < 8"
proof -
  from assms have "rc < 2048" "\<exists>c \<in> {0, 1, 2, 3, 4, 5, 6, 7 :: nat}. rc mod 256 = 2 ^ c"
    using keymap_codes by (auto simp: list_all_iff dest!: map_of_SomeD)
  then obtain c where c: "c \<in> {0, 1, 2, 3, 4, 5, 6, 7 :: nat}" "rc mod 256 = 2 ^ c" by blast
  then have "c < 8" by auto
  have "rc = 256 * (rc div 256) + 2 ^ c" "rc div 256 < 8"
    using c \<open>rc < 2048\<close> by (simp_all flip: c(2))
  with \<open>c < 8\<close> that show ?thesis by blast
qed

lemma KeyHandling_mapped:
  "map_of keymap k = Some rc \<Longrightarrow> KeyHandling k action kb = (OP_NONE, matrix_key rc action kb)"
  using keymap_plain by (auto simp: KeyHandling_def list_all_iff dest!: map_of_SomeD)

lemma KeyHandling_unmapped:
  "map_of keymap k = None \<Longrightarrow> encodingMatrix (snd (KeyHandling k action kb)) = encodingMatrix kb"
  by (simp add: KeyHandling_def)

lemma power_code: "c < 8 \<Longrightarrow> (256 * row + 2 ^ c) div 256 = row \<and> (256 * row + 2 ^ c) mod 256 = (2 ^ c :: nat)"
proof -
  assume "c < 8"
  then have "(2 :: nat) ^ c < 2 ^ 8" by (rule power_strict_increasing) simp
  then show ?thesis by simp
qed

lemma bit_of_nat_power: "c < 8 \<Longrightarrow> bit (of_nat (2 ^ c) :: u8) k = (k = c)"
  by (auto simp: bit_exp_iff)

lemma contact_matrix_key:
  assumes "length (encodingMatrix kb) = 8" "r < 8" "c < 8" "col < 8"
  shows "contact (matrix_key (256 * r + 2 ^ c) action kb) row col =
    (if row = r \<and> col = c then action \<noteq> KEY_UP else contact kb row col)"
  using assms power_code [OF assms(3), of r] bit_of_nat_power [OF assms(3), of col]
  by (cases "row = r") (auto simp: matrix_key_def contact_def Let_def bit_and_iff bit_or_iff bit_not_iff
      simp del: of_nat_power)

lemma press_contact:
  assumes "length (encodingMatrix kb) = 8" "row < 8" "col < 8"
  shows "contact (press ev kb) row col =
    (if concerns row col ev then snd ev \<noteq> KEY_UP else contact kb row col)"
proof (cases "map_of keymap (fst ev)")
  case None
  then show ?thesis by (simp add: press_def concerns_def contact_def KeyHandling_unmapped)
next
  case (Some rc)
  then obtain r c where rc: "rc = 256 * r + 2 ^ c" "r < 8" "c < 8" by (rule keymap_code)
  have "(rc = 256 * row + 2 ^ col) = (row = r \<and> col = c)"
    using power_code [OF rc(3)] power_code [OF assms(3)] rc(1)
    by (metis one_less_numeral_iff power_inject_exp semiring_norm(76))
  then show ?thesis
    using contact_matrix_key [OF assms(1) rc(2,3) assms(3), of "snd ev" row]
    by (simp add: press_def Some KeyHandling_mapped concerns_def rc(1))
qed

lemma press_length [simp]: "length (encodingMatrix (press ev kb)) = length (encodingMatrix kb)"
  by (simp add: press_def KeyHandling_def matrix_key_def Let_def split: option.split)

lemma run_keys:
  assumes "row < 8" "col < 8"
  shows "length (encodingMatrix (foldr press evs Keyboard_new)) = 8 \<and>
    contact (foldr press evs Keyboard_new) row col = is_down row col evs"
proof (induction evs)
  case Nil
  then show ?case using assms by (simp add: Keyboard_new_def contact_def)
next
  case (Cons ev evs)
  then show ?case using press_contact [of "foldr press evs Keyboard_new" row col ev] assms by simp
qed

lemma fold_or_bit:
  "bit (fold (\<lambda>r result. result OR g r) rs (z :: u8)) c = (bit z c \<or> (\<exists>r \<in> set rs. bit (g r) c))"
  by (induction rs arbitrary: z) (auto simp: bit_or_iff)

section \<open>Properties\<close>

text \<open>C19: After any sequence of key events (listed last first), reading the keyboard with a row
  select byte returns 0 in a column exactly when some selected row (its bit clear) has a contact
  in that column whose last event was not a release.\<close>

theorem Keyboard_Read_last_events:
  assumes "col < 8"
  shows "bit (Keyboard_Read rows (foldr press evs Keyboard_new)) col =
    (\<not> (\<exists>row < 8. \<not> bit rows row \<and> is_down row col evs))"
proof -
  let ?kb = "foldr press evs Keyboard_new"
  have "bit (Keyboard_Read rows ?kb) col =
      (\<not> (\<exists>row \<in> {0..<8}. bit (if \<not> bit rows row then encodingMatrix ?kb ! row else 0) col))"
    using assms by (simp add: Keyboard_Read_def bit_not_iff fold_or_bit and_exp_eq_0_iff_not_bit)
  then show ?thesis
    using run_keys [OF _ assms, of _ evs] by (auto simp: contact_def split: if_splits)
qed

theorem Keyboard_Read_last_events_witness:
  "\<not> bit (Keyboard_Read 0xFB (foldr press [(KEY_F12, KEY_UP), (48, KEY_DOWN)] Keyboard_new)) 0"
  using Keyboard_Read_last_events [of 0 "0xFB" "[(KEY_F12, KEY_UP), (48, KEY_DOWN)]"]
  by (simp add: concerns_def keymap_def key_consts)

end
