(* ===== verification/Timer_I8253.thy ===== *)
theory Timer_I8253
  imports Prelude
begin

unbundle bit_operations_syntax

text \<open>
  The programmable interval timer of \<^verbatim>\<open>core/timer_i8253.h\<close> and \<^verbatim>\<open>timer_i8253.cpp\<close>:
  three counters with a load register, a count, a latch and four implemented modes. The lemmas
  show when an output changes (terminal count, square wave), that latched reads return the
  count at the moment of the latch, and that the BCD conversions are inverse to each other.
\<close>

section \<open>State\<close>

record counter_unit =
  latchValue :: int
  writeState :: int
  latchMode :: int
  c_out :: int
  c_value :: int
  modeInt :: int
  writeLsb :: u8
  writeMsb :: u8
  loadValue :: u16
  c_delay :: int
  flagArmed :: bool
  flagLoad :: bool
  flagEnabled :: bool
  flagBcd :: bool

definition WRITE_DELAY :: int where "WRITE_DELAY = 2"
definition LATCH_DELAY :: int where "LATCH_DELAY = 1"

definition Counter_Reset :: "counter_unit \<Rightarrow> counter_unit" where
  "Counter_Reset c =
    c\<lparr>latchValue := -1, writeState := 0, c_value := 0, modeInt := 0, loadValue := 0,
      flagArmed := False, flagLoad := False, flagEnabled := False, flagBcd := False, c_delay := 0,
      writeLsb := 0, writeMsb := 0, c_out := 0, latchMode := 0\<rparr>"

section \<open>Counting\<close>

definition full_scale :: "counter_unit \<Rightarrow> int" where
  "full_scale c = (if flagBcd c then 10000 else 65536)"

text \<open>The cases of the switch in \<^verbatim>\<open>CounterUnit::Clock\<close>; each returns the result and the state.\<close>

definition clock_mode0 :: "int \<Rightarrow> counter_unit \<Rightarrow> int \<times> counter_unit" where
  "clock_mode0 cycles c0 =
    (let c = (if flagLoad c0
              then c0\<lparr>c_value := uint (loadValue c0), flagEnabled := True, flagArmed := True, c_out := 0\<rparr>
              else c0);
         result = (if flagLoad c0 then 0 else c_out c0)
     in if flagEnabled c then
          (let previous = c_value c;
               c1 = c\<lparr>c_value := c_value c - cycles\<rparr>
           in if c_value c1 \<le> 0 then
                (let (result', c2) =
                   (if flagArmed c1
                    then (- c_value c1 + 1,
                          (if previous \<noteq> 0 then c1\<lparr>c_out := 1\<rparr> else c1)\<lparr>flagArmed := False\<rparr>)
                    else (result, c1))
                 in (result', c2\<lparr>c_value := c_value c2 + full_scale c2\<rparr>))
              else (result, c1))
        else (result, c))"

definition clock_mode1 :: "int \<Rightarrow> counter_unit \<Rightarrow> counter_unit" where
  "clock_mode1 cycles c0 =
    (let c = (if \<not> flagEnabled c0 \<and> flagLoad c0 then c0\<lparr>flagEnabled := True\<rparr> else c0)
     in if flagEnabled c then
          (let c1 = c\<lparr>c_value := c_value c - cycles\<rparr>
           in if c_value c1 \<le> 0 then
                (let reload = (if loadValue c1 = 0 then full_scale c1 else uint (loadValue c1) + 1)
                 in c1\<lparr>c_value := c_value c1 + reload\<rparr>)
              else c1)
        else c)"

definition clock_mode2 :: "int \<Rightarrow> counter_unit \<Rightarrow> counter_unit" where
  "clock_mode2 cycles c0 =
    (let c = (if \<not> flagEnabled c0 \<and> flagLoad c0
              then c0\<lparr>c_value := uint (loadValue c0), flagEnabled := True\<rparr> else c0)
     in if flagEnabled c then
          (let c1 = c\<lparr>c_value := c_value c - cycles\<rparr>
           in if c_value c1 \<le> 0 then
                (let reload = (if loadValue c1 = 0 then full_scale c1 else uint (loadValue c1))
                 in c1\<lparr>c_value := c_value c1 + reload\<rparr>)
              else c1)
        else c)"

definition clock_mode3 :: "counter_unit \<Rightarrow> counter_unit" where
  "clock_mode3 c0 =
    (let c = (if \<not> flagEnabled c0 \<and> flagLoad c0
              then c0\<lparr>c_value := uint (loadValue c0), flagEnabled := True\<rparr> else c0)
     in if flagEnabled c then
          (let step = (if c_value c = uint (loadValue c) \<and> c_value c AND 1 = 1
                       then (if c_out c = 0 then 3 else 1) else 2);
               c1 = c\<lparr>c_value := c_value c - step\<rparr>
           in if c_value c1 \<le> 0 then
                (let reload = (if loadValue c1 = 0 then full_scale c1 else uint (loadValue c1))
                 in c1\<lparr>c_out := c_out c1 XOR 1, c_value := c_value c1 + reload\<rparr>)
              else c1)
        else c)"

definition Counter_Clock :: "int \<Rightarrow> counter_unit \<Rightarrow> int \<times> counter_unit" where
  "Counter_Clock cycles0 c0 =
    (let (cycles, c) = (if c_delay c0 \<noteq> 0 then (0, c0\<lparr>c_delay := c_delay c0 - 1\<rparr>) else (cycles0, c0))
     in if cycles = 0 then (c_out c, c)
        else if \<not> flagEnabled c \<and> \<not> flagLoad c then (c_out c, c)
        else
          (let (result, c1) =
             (if modeInt c = 0 then clock_mode0 cycles c
              else if modeInt c = 1 then (c_out c, clock_mode1 cycles c)
              else if modeInt c = 2 then (c_out c, clock_mode2 cycles c)
              else if modeInt c = 3 then (let c' = clock_mode3 c in (c_out c', c'))
              else (c_out c, c))
           in (result, c1\<lparr>flagLoad := False\<rparr>)))"

section \<open>Programming and reading\<close>

definition SetMode :: "int \<Rightarrow> int \<Rightarrow> bool \<Rightarrow> counter_unit \<Rightarrow> counter_unit" where
  "SetMode mode latch bcd c0 =
    (let c1 = (snd (Counter_Clock LATCH_DELAY c0))\<lparr>c_delay := LATCH_DELAY, flagBcd := bcd\<rparr>;
         c2 = c1\<lparr>modeInt := (if mode AND 0x03 = 2 then 2 else if mode AND 0x03 = 3 then 3 else mode)\<rparr>;
         c3 = (if modeInt c2 = 0 then c2\<lparr>c_out := 0, flagArmed := True, flagEnabled := False\<rparr>
               else if modeInt c2 = 1 then c2\<lparr>c_out := 1, flagArmed := True, flagEnabled := False\<rparr>
               else c2\<lparr>c_out := 1, flagEnabled := False\<rparr>)
     in c3\<lparr>flagLoad := False, latchMode := latch, writeState := 0\<rparr>)"

definition Latch :: "counter_unit \<Rightarrow> counter_unit" where
  "Latch c0 =
    (let c = (snd (Counter_Clock LATCH_DELAY c0))\<lparr>c_delay := LATCH_DELAY\<rparr>
     in c\<lparr>latchValue := c_value c\<rparr>)"

fun to_bcd_digits :: "nat \<Rightarrow> nat \<Rightarrow> nat \<Rightarrow> nat \<Rightarrow> nat" where
  "to_bcd_digits 0 i x result = result"
| "to_bcd_digits (Suc k) i x result =
    to_bcd_digits k (i + 1) (x div 10) (result OR push_bit (i * 4) (x mod 10))"

definition ToBcd :: "u16 \<Rightarrow> u16" where
  "ToBcd x = of_nat (to_bcd_digits 4 0 (unat x) 0)"

fun from_bcd_digits :: "nat \<Rightarrow> u16 \<Rightarrow> nat \<Rightarrow> nat" where
  "from_bcd_digits 0 x result = result"
| "from_bcd_digits (Suc k) x result =
    (let digit = unat (drop_bit 12 (x AND 0xF000)); d = (if digit > 9 then 9 else digit)
     in from_bcd_digits k (push_bit 4 x) (result * 10 + d))"

definition FromBcd :: "u16 \<Rightarrow> u16" where
  "FromBcd x = of_nat (from_bcd_digits 4 x 0)"

text \<open>The register part of \<^verbatim>\<open>CounterUnit::Write\<close>, by latch mode.\<close>

definition write_load :: "u8 \<Rightarrow> counter_unit \<Rightarrow> counter_unit" where
  "write_load w c =
    (if latchMode c = 3 then
       (if writeState c = 0 then c\<lparr>writeLsb := w, writeState := 1\<rparr>
        else if writeState c = 1 then
          c\<lparr>writeMsb := w, writeState := 0, loadValue := pair w (writeLsb c), flagLoad := True\<rparr>
        else c)
     else if latchMode c = 1 then c\<lparr>loadValue := ucast w, flagLoad := True\<rparr>
     else if latchMode c = 2 then
       c\<lparr>c_value := uint w * 256, loadValue := pair w 0, flagLoad := True\<rparr>
     else c)"

definition Counter_Write :: "u8 \<Rightarrow> counter_unit \<Rightarrow> counter_unit" where
  "Counter_Write w c0 =
    (let c = write_load w c0
     in if flagLoad c then
          (let c1 = (if flagBcd c then c\<lparr>loadValue := FromBcd (loadValue c)\<rparr> else c)
           in if modeInt c1 = 0 then c1\<lparr>c_delay := 3\<rparr>
              else if modeInt c1 = 1 \<or> modeInt c1 = 2 \<or> modeInt c1 = 3
                then (if \<not> flagEnabled c1 then c1\<lparr>c_delay := 3\<rparr> else c1)
              else c1\<lparr>c_delay := 4\<rparr>)
        else c)"

definition read_value :: "counter_unit \<Rightarrow> int" where
  "read_value c =
    (let value = (if latchValue c \<noteq> -1 then latchValue c else c_value c)
     in if flagBcd c then uint (ToBcd (word_of_int value)) else value)"

definition Counter_Read :: "counter_unit \<Rightarrow> int \<times> counter_unit" where
  "Counter_Read c =
    (if latchMode c = 1 then (read_value c AND 0xFF, c\<lparr>latchValue := -1\<rparr>)
     else if latchMode c = 2 then (drop_bit 8 (read_value c) AND 0xFF, c\<lparr>latchValue := -1\<rparr>)
     else if latchMode c = 3 then
       (if writeState c = 0 then (read_value c AND 0xFF, c\<lparr>writeState := 1\<rparr>)
        else if writeState c = 1
          then (drop_bit 8 (read_value c) AND 0xFF, c\<lparr>latchValue := -1, writeState := 0\<rparr>)
        else (read_value c, c))
     else (0, c))"

section \<open>The three counters\<close>

record timer =
  counters :: "counter_unit list"
  controlWord :: u8

definition Timer_Reset :: "timer \<Rightarrow> timer" where
  "Timer_Reset t = t\<lparr>counters := map Counter_Reset (counters t)\<rparr>"

definition on_counter :: "nat \<Rightarrow> (counter_unit \<Rightarrow> counter_unit) \<Rightarrow> timer \<Rightarrow> timer" where
  "on_counter i g t = t\<lparr>counters := (counters t)[i := g (counters t ! i)]\<rparr>"

definition write_cw :: "u8 \<Rightarrow> timer \<Rightarrow> timer" where
  "write_cw w t =
    (let counterSet = unat (drop_bit 6 w);
         modeSet = uint (drop_bit 1 w AND 3);
         latchSet = uint (drop_bit 4 w AND 3);
         bcdSet = bit w 0
     in if counterSet \<ge> 3 then t
        else if latchSet = 0 then on_counter counterSet Latch t
        else on_counter counterSet (SetMode modeSet latchSet bcdSet) t)"

definition Timer_Write :: "int \<Rightarrow> u8 \<Rightarrow> timer \<Rightarrow> timer" where
  "Timer_Write addr w t =
    (if addr AND 3 = 3 then write_cw w t else on_counter (nat (addr AND 3)) (Counter_Write w) t)"

definition Timer_Read :: "int \<Rightarrow> timer \<Rightarrow> int \<times> timer" where
  "Timer_Read addr t =
    (if addr AND 3 = 3 then (uint (controlWord t), t)
     else (let i = nat (addr AND 3); (v, c) = Counter_Read (counters t ! i)
           in (v, t\<lparr>counters := (counters t)[i := c]\<rparr>)))"

text \<open>\<^verbatim>\<open>TimerI8253::Clock\<close>: the sum of the three outputs; the code divides it by \<^verbatim>\<open>3.0f\<close>.\<close>

definition Timer_Clock :: "int \<Rightarrow> timer \<Rightarrow> int \<times> timer" where
  "Timer_Clock cycles t =
    (let (ch0, c0) = Counter_Clock cycles (counters t ! 0);
         (ch1, c1) = Counter_Clock cycles (counters t ! 1);
         (ch2, c2) = Counter_Clock cycles (counters t ! 2)
     in (ch0 + ch1 + ch2, t\<lparr>counters := [c0, c1, c2]\<rparr>))"

section \<open>What a clock leaves alone\<close>

definition tick :: "counter_unit \<Rightarrow> counter_unit" where
  "tick c = snd (Counter_Clock 1 c)"

lemmas clock_defs = clock_mode0_def clock_mode1_def clock_mode2_def clock_mode3_def

lemma Counter_Clock_frame [simp, frame_simps]:
  "latchValue (snd (Counter_Clock n c)) = latchValue c"
  "latchMode (snd (Counter_Clock n c)) = latchMode c"
  "writeState (snd (Counter_Clock n c)) = writeState c"
  "flagBcd (snd (Counter_Clock n c)) = flagBcd c"
  "loadValue (snd (Counter_Clock n c)) = loadValue c"
  "modeInt (snd (Counter_Clock n c)) = modeInt c"
  by (simp_all add: Counter_Clock_def clock_defs Let_def case_prod_beta)

lemma tick_frame [simp]:
  "latchValue ((tick ^^ k) c) = latchValue c" "latchMode ((tick ^^ k) c) = latchMode c"
  "writeState ((tick ^^ k) c) = writeState c" "flagBcd ((tick ^^ k) c) = flagBcd c"
  by (induction k) (simp_all add: tick_def)

section \<open>Interrupt on terminal count\<close>

definition counting :: "int \<Rightarrow> counter_unit \<Rightarrow> bool" where
  "counting v c \<longleftrightarrow> modeInt c = 0 \<and> flagEnabled c \<and> \<not> flagLoad c \<and> c_delay c = 0 \<and>
    flagArmed c \<and> c_out c = 0 \<and> c_value c = v"

definition expired :: "int \<Rightarrow> counter_unit \<Rightarrow> bool" where
  "expired o' c \<longleftrightarrow> modeInt c = 0 \<and> flagEnabled c \<and> \<not> flagLoad c \<and> c_delay c = 0 \<and>
    \<not> flagArmed c \<and> c_out c = o'"

definition loaded :: "int \<Rightarrow> nat \<Rightarrow> counter_unit \<Rightarrow> bool" where
  "loaded d n c \<longleftrightarrow> modeInt c = 0 \<and> flagLoad c \<and> c_delay c = d \<and> c_out c = 0 \<and>
    loadValue c = of_nat n \<and> n < 65536"

lemma tick_counting: "counting v c \<Longrightarrow> 1 < v \<Longrightarrow> counting (v - 1) (tick c)"
  "counting 1 c \<Longrightarrow> expired 1 (tick c)"
  by (simp_all add: counting_def expired_def tick_def Counter_Clock_def clock_mode0_def)

lemma tick_expired: "expired b c \<Longrightarrow> expired b (tick c)"
  by (simp add: expired_def tick_def Counter_Clock_def clock_mode0_def Let_def)

lemma tick_delay: "loaded d n c \<Longrightarrow> 0 < d \<Longrightarrow> loaded (d - 1) n (tick c)"
  by (simp add: loaded_def tick_def Counter_Clock_def)

lemma uint_of_nat_16: "n < 65536 \<Longrightarrow> uint (of_nat n :: u16) = int n"
  by (simp add: unsigned_of_nat take_bit_nat_eq_self)

lemma tick_loaded:
  "loaded 0 n c \<Longrightarrow> 1 < n \<Longrightarrow> counting (int n - 1) (tick c)"
  "loaded 0 1 c \<Longrightarrow> expired 1 (tick c)"
  "loaded 0 0 c \<Longrightarrow> expired 0 (tick c)"
  by (simp_all add: loaded_def counting_def expired_def tick_def Counter_Clock_def clock_mode0_def
      uint_of_nat_16)

lemma expired_run: "expired b c \<Longrightarrow> expired b ((tick ^^ k) c)"
  by (induction k) (simp_all add: tick_expired)

lemma counting_run:
  "counting (int v) c \<Longrightarrow> 0 < v \<Longrightarrow> c_out ((tick ^^ k) c) = (if v \<le> k then 1 else 0)"
proof (induction k arbitrary: v c)
  case 0
  then show ?case by (simp add: counting_def)
next
  case (Suc k)
  show ?case
  proof (cases "v = 1")
    case True
    then have "expired 1 (tick c)" using Suc.prems tick_counting(2) by simp
    then have "expired 1 ((tick ^^ k) (tick c))" by (rule expired_run)
    with True show ?thesis by (simp add: funpow_swap1 expired_def)
  next
    case False
    then have "counting (int (v - 1)) (tick c)"
      using Suc.prems tick_counting(1) [of "int v" c] by (simp add: of_nat_diff)
    from Suc.IH [OF this] False Suc.prems(2) show ?thesis by (auto simp: funpow_swap1)
  qed
qed

lemma loaded_run:
  assumes "loaded 0 n c"
  shows "c_out ((tick ^^ k) c) = (if 0 < n \<and> n \<le> k then 1 else 0)"
proof (cases k)
  case 0
  then show ?thesis using assms by (auto simp: loaded_def)
next
  case (Suc j)
  consider "n = 0" | "n = 1" | "1 < n" by linarith
  then show ?thesis
  proof cases
    case 3
    have "counting (int (n - 1)) (tick c)"
      using tick_loaded(1) [OF assms 3] 3 by (simp add: of_nat_diff)
    from counting_run [OF this] 3 show ?thesis by (auto simp: Suc funpow_swap1)
  qed (use assms tick_loaded(2,3) expired_run in \<open>auto simp: Suc funpow_swap1 expired_def\<close>)
qed

lemma loaded_delayed_run:
  "loaded (int d) n c \<Longrightarrow> c_out ((tick ^^ k) c) = (if 0 < n \<and> d + n \<le> k then 1 else 0)"
proof (induction d arbitrary: c k)
  case 0
  then show ?case using loaded_run by simp
next
  case (Suc d)
  show ?case
  proof (cases k)
    case 0
    then show ?thesis using Suc.prems by (simp add: loaded_def)
  next
    case (Suc j)
    have "loaded (int d) n (tick c)" using tick_delay [OF Suc.prems] by simp
    from Suc.IH [OF this] show ?thesis by (simp add: Suc funpow_swap1)
  qed
qed

definition program_mode0 :: "u8 \<Rightarrow> u8 \<Rightarrow> counter_unit \<Rightarrow> counter_unit" where
  "program_mode0 l h c = Counter_Write h (Counter_Write l (SetMode 0 3 False c))"

lemma program_mode0_loaded: "loaded 3 (unat (pair h l)) (program_mode0 l h c)"
proof -
  have "unat (pair h l) < 65536" using unsigned_less [of "pair h l"] by simp
  then show ?thesis
    by (simp add: loaded_def program_mode0_def Counter_Write_def write_load_def SetMode_def Let_def)
qed

section \<open>Square wave\<close>

definition square :: "int \<Rightarrow> int \<Rightarrow> int \<Rightarrow> counter_unit \<Rightarrow> bool" where
  "square n o' v c \<longleftrightarrow> modeInt c = 3 \<and> flagEnabled c \<and> \<not> flagLoad c \<and> c_delay c = 0 \<and>
    uint (loadValue c) = n \<and> c_out c = o' \<and> c_value c = v"

definition skew :: "int \<Rightarrow> int \<Rightarrow> int" where
  "skew n o' = (if odd n then (if o' = 0 then -1 else 1) else 0)"

lemma load_nonzero: "0 < uint (w :: u16) \<Longrightarrow> w \<noteq> 0"
  by auto

lemma int_and_1: "(z :: int) AND 1 = 1 \<longleftrightarrow> odd z"
  by (simp add: and_one_eq mod_2_eq_odd)

lemma flip_out: "b \<in> {0, 1} \<Longrightarrow> b XOR 1 = 1 - (b :: int)"
  by auto

lemma odd_le_3: "odd (n :: int) \<Longrightarrow> 2 \<le> n \<Longrightarrow> n \<le> 3 \<Longrightarrow> n = 3"
  by presburger

lemma square_first:
  assumes "square n b n c" "2 \<le> n" "b \<in> {0, 1}"
  shows "n + skew n b = 2 \<Longrightarrow> square n (1 - b) n (tick c)"
    and "n + skew n b \<noteq> 2 \<Longrightarrow> square n b (n + skew n b - 2) (tick c)"
  using assms load_nonzero [of "loadValue c"] odd_le_3 [of "uint (loadValue c)"]
  by (auto simp: square_def tick_def Counter_Clock_def clock_mode3_def Let_def int_and_1 skew_def
      flip_out split: if_splits)

lemma square_next:
  assumes "square n b v c" "v < n" "0 < v" "b \<in> {0, 1}"
  shows "v = 2 \<Longrightarrow> square n (1 - b) n (tick c)"
    and "2 < v \<Longrightarrow> square n b (v - 2) (tick c)"
  using assms load_nonzero [of "loadValue c"]
  by (auto simp: square_def tick_def Counter_Clock_def clock_mode3_def Let_def flip_out)

text \<open>Half a period: from the reload with output \<open>b\<close> to the next reload.\<close>

definition half :: "nat \<Rightarrow> int \<Rightarrow> nat" where
  "half n b = (if b = 0 then n div 2 else (n + 1) div 2)"

lemma half_skew: "b \<in> {0, 1} \<Longrightarrow> int n + skew (int n) b = 2 * int (half n b)"
  by (auto simp: half_def skew_def zdiv_int elim!: oddE evenE)

lemma square_half:
  assumes "square (int n) b (int n) c" "2 \<le> n" "b \<in> {0, 1}" "j < half n b"
  shows "square (int n) b (if j = 0 then int n else 2 * int (half n b) - 2 * int j) ((tick ^^ j) c)"
  using assms(4)
proof (induction j)
  case 0
  then show ?case using assms(1) by simp
next
  case (Suc j)
  note sq = half_skew [OF assms(3), of n]
  have h: "square (int n) b (if j = 0 then int n else 2 * int (half n b) - 2 * int j) ((tick ^^ j) c)"
    using Suc by simp
  show ?case
  proof (cases j)
    case 0
    then show ?thesis
      using square_first(2) [OF assms(1) _ assms(3)] assms(2) Suc.prems sq by simp
  next
    case (Suc i)
    have lt: "2 * int (half n b) - 2 * int j < int n"
      using Suc by (auto simp: half_def zdiv_int)
    then show ?thesis
      using square_next(2) [OF h [unfolded Suc, simplified]] Suc \<open>Suc j < half n b\<close> assms(3)
      by (simp add: algebra_simps)
  qed
qed

lemma square_flip:
  assumes "square (int n) b (int n) c" "2 \<le> n" "b \<in> {0, 1}"
  shows "square (int n) (1 - b) (int n) ((tick ^^ half n b) c)"
proof (cases "half n b = 1")
  case True
  then have "int n + skew (int n) b = 2" using half_skew [OF assms(3), of n] by simp
  then show ?thesis using square_first(1) [OF assms(1) _ assms(3)] assms(2) True by simp
next
  case False
  then obtain j where j: "half n b = Suc (Suc j)"
    using assms(2) by (cases "half n b"; cases "half n b - 1") (auto simp: half_def split: if_splits)
  have "square (int n) b 2 ((tick ^^ Suc j) c)"
    using square_half [OF assms, of "Suc j"] j by simp
  moreover have "2 < int n" using j by (auto simp: half_def split: if_splits)
  ultimately show ?thesis
    using square_next(1) [of "int n" b 2 "(tick ^^ Suc j) c"] assms(3) j by simp
qed

lemma square_period:
  assumes "square (int n) 1 (int n) c" "2 \<le> n"
  shows "square (int n) 1 (int n) ((tick ^^ (n * m)) c)"
proof (induction m)
  case (Suc m)
  have "square (int n) (1 - 1) (int n) ((tick ^^ half n 1) ((tick ^^ (n * m)) c))"
    using square_flip [OF Suc assms(2)] by simp
  from square_flip [OF this assms(2)]
  have "square (int n) 1 (int n) ((tick ^^ (half n 0 + half n 1)) ((tick ^^ (n * m)) c))"
    by (simp add: funpow_add)
  moreover have "half n 0 + half n 1 = n" by (simp add: half_def)
  ultimately show ?case by (simp add: funpow_add)
qed (use assms in simp)

lemma square_out:
  assumes "square (int n) 1 (int n) c" "2 \<le> n"
  shows "c_out ((tick ^^ k) c) = (if k mod n < (n + 1) div 2 then 1 else 0)"
proof -
  let ?c = "(tick ^^ (n * (k div n))) c"
  have k: "(tick ^^ k) c = (tick ^^ (k mod n)) ?c"
    by (metis comp_apply funpow_add mod_mult_div_eq)
  have s: "square (int n) 1 (int n) ?c" by (rule square_period [OF assms])
  have h: "half n 1 = (n + 1) div 2" "half n 0 = n div 2" by (simp_all add: half_def)
  show ?thesis
  proof (cases "k mod n < half n 1")
    case True
    then show ?thesis using square_half [OF s assms(2) _ True] by (simp add: k h square_def)
  next
    case False
    let ?j = "k mod n - half n 1"
    have "square (int n) 0 (int n) ((tick ^^ half n 1) ?c)"
      using square_flip [OF s assms(2)] by simp
    moreover have "?j < half n 0"
    proof -
      have "half n 1 + half n 0 = n" by (simp add: h)
      with False assms(2) mod_less_divisor [of n k] show ?thesis by linarith
    qed
    ultimately have "square (int n) 0 (if ?j = 0 then int n else 2 * int (half n 0) - 2 * int ?j)
        ((tick ^^ ?j) ((tick ^^ half n 1) ?c))"
      using square_half [of n 0 "(tick ^^ half n 1) ?c" ?j] assms(2) by simp
    moreover have "(tick ^^ ?j) ((tick ^^ half n 1) ?c) = (tick ^^ (k mod n)) ?c"
      using False by (simp flip: funpow_add comp_apply [of "tick ^^ ?j"])
    ultimately show ?thesis using False by (simp add: k h square_def)
  qed
qed

section \<open>Decimal conversion\<close>

lemma or_shifted: "l < 2 ^ k \<Longrightarrow> l OR push_bit k d = l + 2 ^ k * (d :: nat)"
proof -
  assume l: "l < 2 ^ k"
  then have "\<not> bit l i" if "k \<le> i" for i
    using that by (metis bit_take_bit_iff not_le take_bit_nat_eq_self)
  then have "l OR push_bit k d = l + push_bit k d"
    by (intro disjunctive_add [symmetric]) (auto simp: bit_push_bit_iff)
  then show ?thesis by (simp add: push_bit_eq_mult mult.commute)
qed

lemma to_bcd_value:
  fixes d0 d1 d2 d3 :: nat
  assumes "d0 < 10" "d1 < 10" "d2 < 10" "d3 < 10"
  shows "to_bcd_digits 4 0 (10 * (10 * (10 * d3 + d2) + d1) + d0) 0 =
    d0 + 16 * d1 + 256 * d2 + 4096 * d3"
proof -
  have dm: "(10 * q + d) div 10 = q" "(10 * q + d) mod 10 = d" if "d < 10" for q d :: nat
    using that by simp_all
  have four: "4 = Suc (Suc (Suc (Suc 0)))" by simp
  have "to_bcd_digits (Suc (Suc (Suc (Suc 0)))) 0 (10 * (10 * (10 * d3 + d2) + d1) + d0) 0 =
      ((d0 OR push_bit 4 d1) OR push_bit 8 d2) OR push_bit 12 d3"
    using dm(2) [of d3 0] assms by (simp only: to_bcd_digits.simps dm) simp
  also have "\<dots> = d0 + 16 * d1 + 256 * d2 + 4096 * d3"
    using assms by (simp add: or_shifted)
  finally show ?thesis by (simp only: four)
qed

lemma digit_16: "unat (drop_bit 12 (w AND 0xF000 :: u16)) = unat w div 4096"
proof -
  have "drop_bit 12 (w AND 0xF000) = drop_bit 12 w"
  proof (rule bit_word_eqI)
    fix i :: nat
    assume "i < LENGTH(16)"
    consider "i = 0" | "i = 1" | "i = 2" | "i = 3" | "4 \<le> i" by linarith
    then show "bit (drop_bit 12 (w AND 0xF000)) i = bit (drop_bit 12 w) i"
      by cases (auto simp: bit_drop_bit_eq bit_and_iff dest: bit_imp_le_length)
  qed
  then show ?thesis by (simp only: unat_drop_bit_eq) (simp add: drop_bit_eq_div)
qed

lemma from_bcd_step:
  "from_bcd_digits (Suc k) w r =
    from_bcd_digits k (of_nat (16 * unat w)) (r * 10 + min 9 (unat w div 4096))"
proof -
  have "push_bit 4 w = of_nat (16 * unat w)" by (simp add: push_bit_eq_mult mult.commute)
  then show ?thesis
    by (simp only: from_bcd_digits.simps digit_16 Let_def min_def) auto
qed

lemma unat_of_nat_16: "unat (of_nat n :: u16) = n mod 65536"
  by (simp add: unsigned_of_nat take_bit_eq_mod)

lemma from_bcd_value:
  fixes d0 d1 d2 d3 :: nat
  assumes "d0 < 10" "d1 < 10" "d2 < 10" "d3 < 10"
  shows "from_bcd_digits 4 (of_nat (d0 + 16 * d1 + 256 * d2 + 4096 * d3)) 0 =
    10 * (10 * (10 * d3 + d2) + d1) + d0"
proof -
  have wrap: "y mod 65536 = x" if "y = x + 65536 * q" "x < 65536" for x y q :: nat
    using that by simp
  have top: "y div 4096 = q" if "y = x + 4096 * q" "x < 4096" for x y q :: nat using that by simp
  have m: "(d0 + 16 * d1 + 256 * d2 + 4096 * d3) mod 65536 = d0 + 16 * d1 + 256 * d2 + 4096 * d3"
    using assms by (intro mod_less) linarith
  have m1: "16 * (d0 + 16 * d1 + 256 * d2 + 4096 * d3) mod 65536 = 16 * d0 + 256 * d1 + 4096 * d2"
    by (rule wrap [where q = d3]) (use assms in simp_all)
  have m2: "16 * (16 * d0 + 256 * d1 + 4096 * d2) mod 65536 = 256 * d0 + 4096 * d1"
    by (rule wrap [where q = d2]) (use assms in simp_all)
  have m3: "16 * (256 * d0 + 4096 * d1) mod 65536 = 4096 * d0"
    by (rule wrap [where q = d1]) (use assms in simp_all)
  have t: "(d0 + 16 * d1 + 256 * d2 + 4096 * d3) div 4096 = d3"
    by (rule top [where x = "d0 + 16 * d1 + 256 * d2"]) (use assms in simp_all)
  have t1: "(16 * d0 + 256 * d1 + 4096 * d2) div 4096 = d2"
    by (rule top [where x = "16 * d0 + 256 * d1"]) (use assms in simp_all)
  have t2: "(256 * d0 + 4096 * d1) div 4096 = d1"
    by (rule top [where x = "256 * d0"]) (use assms in simp_all)
  have t3: "4096 * d0 div 4096 = d0" by simp
  have four: "4 = Suc (Suc (Suc (Suc 0)))" by simp
  have d: "min 9 d0 = d0" "min 9 d1 = d1" "min 9 d2 = d2" "min 9 d3 = d3" using assms by simp_all
  show ?thesis
    unfolding four from_bcd_step unat_of_nat_16 m m1 m2 m3 t t1 t2 t3 d from_bcd_digits.simps(1)
    by simp
qed

lemma bcd_roundtrip:
  assumes "unat x < 10000" shows "FromBcd (ToBcd x) = x"
proof -
  let ?n = "unat x"
  let ?d0 = "?n mod 10" and ?d1 = "?n div 10 mod 10" and ?d2 = "?n div 10 div 10 mod 10"
    and ?d3 = "?n div 10 div 10 div 10"
  have n: "?n = 10 * (10 * (10 * ?d3 + ?d2) + ?d1) + ?d0"
    by (simp only: mult_div_mod_eq)
  have d: "?d0 < 10" "?d1 < 10" "?d2 < 10" "?d3 < 10"
    using assms by (simp_all add: div_less_iff_less_mult)
  have "ToBcd x = of_nat (?d0 + 16 * ?d1 + 256 * ?d2 + 4096 * ?d3)"
    unfolding ToBcd_def to_bcd_value [OF d, folded n] ..
  then have "FromBcd (ToBcd x) = of_nat ?n"
    by (simp only: FromBcd_def from_bcd_value [OF d, folded n])
  then show ?thesis by simp
qed

section \<open>Latched reads\<close>

lemma int_and_255: "(z :: int) AND 0xFF = z mod 256"
  using take_bit_eq_mask [of 8 z] by (simp add: mask_eq_exp_minus_1 take_bit_eq_mod)

lemma int_bytes: "z mod 256 + 256 * ((z div 256) mod 256) = z mod (65536 :: int)"
  using mod_mult2_eq' [of z 256 256] by simp

section \<open>Properties\<close>

text \<open>A counter set to mode 0 and loaded with N by two writes keeps its output low and raises
  it after exactly N + 3 clocks (three of them the write delay), for good; loaded with 0 it never
  raises it at all, where the 8253 counts a full 65536.\<close>

theorem terminal_count:
  "c_out ((tick ^^ k) (program_mode0 l h c)) =
    (if 0 < unat (pair h l) \<and> 3 + unat (pair h l) \<le> k then 1 else 0)"
  using loaded_delayed_run [of 3] program_mode0_loaded [of h l c] by simp

text \<open>In square wave mode, from a reload with the output high, the output has period N for every
  load value N of at least 2, and is high for the first (N + 1) div 2 clocks of each period.\<close>

theorem square_wave:
  assumes "square (int n) 1 (int n) c" "2 \<le> n"
  shows "c_out ((tick ^^ k) c) = (if k mod n < (n + 1) div 2 then 1 else 0)"
  using assms by (rule square_out)

definition sample_counter :: counter_unit where
  "sample_counter = \<lparr>latchValue = -1, writeState = 0, latchMode = 3, c_out = 1, c_value = 7,
    modeInt = 3, writeLsb = 7, writeMsb = 0, loadValue = 7, c_delay = 0, flagArmed = False,
    flagLoad = False, flagEnabled = True, flagBcd = False\<rparr>"

theorem square_wave_witness:
  "c_out ((tick ^^ 1000) sample_counter) = 0 \<and> c_out ((tick ^^ 1002) sample_counter) = 1"
  using square_wave [of 7 sample_counter 1000] square_wave [of 7 sample_counter 1002]
  by (simp add: square_def sample_counter_def)

text \<open>After a latch command the two bytes read (low, then high) are those of the count at the
  moment of the latch, however many clocks pass before the reads.\<close>

theorem latched_read:
  assumes "latchMode c = 3" "writeState c = 0" "\<not> flagBcd c" "c_value (Latch c) \<noteq> -1"
  shows "(let (l, c1) = Counter_Read ((tick ^^ k) (Latch c)); (h, c2) = Counter_Read ((tick ^^ j) c1)
    in l + 256 * h) = c_value (Latch c) mod 65536"
proof -
  have r: "read_value c' = c_value (Latch c)"
    if "latchValue c' = latchValue (Latch c)" "\<not> flagBcd c'" for c'
    using that assms(4) by (simp add: read_value_def Latch_def Let_def)
  have L: "latchMode (Latch c) = 3" "writeState (Latch c) = 0" "\<not> flagBcd (Latch c)"
    using assms by (simp_all add: Latch_def Let_def)
  show ?thesis
    by (simp add: Counter_Read_def L r Let_def int_and_255 drop_bit_eq_div int_bytes)
qed

theorem latched_read_witness:
  "(let (l, c1) = Counter_Read ((tick ^^ 500) (Latch sample_counter));
      (h, c2) = Counter_Read ((tick ^^ 2) c1) in l + 256 * h) = 6"
proof -
  have "c_value (Latch sample_counter) = 6"
    by (simp add: Latch_def Counter_Clock_def clock_mode3_def sample_counter_def Let_def LATCH_DELAY_def)
  then show ?thesis
    using latched_read [of sample_counter 500 2] by (simp add: sample_counter_def)
qed

text \<open>Converting a value below 10000 to binary-coded decimal and back gives the value.\<close>

theorem FromBcd_ToBcd:
  assumes "unat x < 10000" shows "FromBcd (ToBcd x) = x"
  using assms by (rule bcd_roundtrip)

theorem FromBcd_ToBcd_witness: "FromBcd (ToBcd 9037) = 9037"
  by (rule FromBcd_ToBcd) simp

end
