(* ===== verification/Sound_AY8910.thy ===== *)
theory Sound_AY8910
  imports Prelude
begin

unbundle bit_operations_syntax

text \<open>
  The sound generator of \<^verbatim>\<open>core/sound_ay8910.h\<close>: three tone channels, a noise shift
  register, an envelope generator, and the wrapper that clocks the chip at 7/96 of the caller's
  clock. Amplitudes are kept in units of 1/10000; the code holds the same decimals as
  \<^verbatim>\<open>float\<close> and divides the channel sum by three. The lemmas show that every table index stays
  in range, when a tone toggles, the level sequence of every envelope shape, and the clock ratio.
\<close>

section \<open>State\<close>

record ay8910 =
  ayr :: "int list"
  envc :: int
  envv :: int
  envx :: int
  ay13 :: int
  tons :: int
  noic :: int
  noiv :: int
  noir :: int
  ayreg :: int

definition AY_Init :: ay8910 where
  "AY_Init = \<lparr>ayr = replicate 19 0, envc = 0, envv = 0, envx = 0, ay13 = 0, tons = 0, noic = 0,
    noiv = 0, noir = 1, ayreg = 0\<rparr>"

definition amp :: "int list" where
  "amp = [0, 137, 205, 291, 423, 618, 847, 1369, 1691, 2647, 3527, 4499, 5704, 6873, 8482, 10000]"

definition rmask :: "int list" where
  "rmask = [0xff, 0x0f, 0xff, 0x0f, 0xff, 0x0f, 0x1f, 0xff, 0x1f, 0x1f, 0x1f, 0xff, 0xff, 0x0f,
    0xff, 0xff]"

section \<open>Generators\<close>

definition tone_period :: "nat \<Rightarrow> ay8910 \<Rightarrow> int" where
  "tone_period ch a = ayr a ! (2 * ch) OR push_bit 8 (ayr a ! (2 * ch + 1))"

definition tone_step :: "nat \<Rightarrow> ay8910 \<Rightarrow> ay8910" where
  "tone_step ch a =
    (let cnt = ayr a ! (ch + 16) + 1
     in if cnt \<ge> tone_period ch a
        then a\<lparr>ayr := (ayr a)[ch + 16 := 0], tons := tons a XOR push_bit ch 1\<rparr>
        else a\<lparr>ayr := (ayr a)[ch + 16 := cnt]\<rparr>)"

definition amp_index :: "nat \<Rightarrow> ay8910 \<Rightarrow> int" where
  "amp_index ch a =
    (if ayr a ! (8 + ch) AND 0x10 \<noteq> 0 then envv a else ayr a ! (8 + ch) AND 0x0f)"

definition mix :: "nat \<Rightarrow> ay8910 \<Rightarrow> int" where
  "mix ch a =
    (let mixer = ayr a ! 7
     in (drop_bit ch mixer OR drop_bit ch (tons a)) AND (drop_bit (ch + 3) mixer OR noiv a) AND 1)"

definition CStep :: "nat \<Rightarrow> ay8910 \<Rightarrow> int \<times> ay8910" where
  "CStep ch a = (let a1 = tone_step ch a in (mix ch a1 * amp ! nat (amp_index ch a1), a1))"

definition EStep :: "ay8910 \<Rightarrow> int \<times> ay8910" where
  "EStep a =
    (if drop_bit 4 (envx a) \<noteq> 0 \<and> ay13 a AND 1 \<noteq> 0
     then (15 * ((drop_bit 1 (ay13 a) XOR ay13 a) AND 2) div 2, a)
     else
       (let a1 = (if drop_bit 4 (envx a) \<noteq> 0
                  then a\<lparr>envx := 0, ay13 := ay13 a XOR (push_bit 1 (ay13 a) AND 4)\<rparr> else a)
        in (if ay13 a1 AND 4 \<noteq> 0 then envx a1 else 15 - envx a1, a1\<lparr>envx := envx a1 + 1\<rparr>)))"

definition noise_step :: "ay8910 \<Rightarrow> ay8910" where
  "noise_step a =
    (let a1 = a\<lparr>noic := noic a + 1\<rparr>
     in if noic a1 \<ge> push_bit 1 (ayr a1 ! 6)
        then (let v = noir a1 AND 1
              in a1\<lparr>noic := 0, noiv := v, noir := drop_bit 1 (noir a1 XOR (v * 0x24000))\<rparr>)
        else a1)"

definition env_step :: "ay8910 \<Rightarrow> ay8910" where
  "env_step a =
    (let a1 = a\<lparr>envc := envc a + 1\<rparr>
     in if envc a1 \<ge> push_bit 1 (ayr a1 ! 11) OR push_bit 9 (ayr a1 ! 12)
        then (let (v, a2) = EStep (a1\<lparr>envc := 0\<rparr>) in a2\<lparr>envv := v\<rparr>)
        else a1)"

definition AY_Clock :: "ay8910 \<Rightarrow> int \<times> ay8910" where
  "AY_Clock a =
    (let a0 = noise_step (env_step a);
         (s0, a1) = CStep 0 a0; (s1, a2) = CStep 1 a1; (s2, a3) = CStep 2 a2
     in (s0 + s1 + s2, a3))"

definition AY_Mute :: "ay8910 \<Rightarrow> ay8910" where
  "AY_Mute a =
    (let a1 = a\<lparr>envc := envc a + 1\<rparr>;
         a2 = (if envc a1 \<ge> push_bit 1 (ayr a1 ! 11) OR push_bit 9 (ayr a1 ! 12)
               then (let b = a1\<lparr>envc := 0\<rparr>
                     in if drop_bit 4 (envx b) \<noteq> 0 \<and> NOT (ay13 b) AND 1 \<noteq> 0
                        then b\<lparr>envx := 0, ay13 := ay13 b XOR (push_bit 1 (ay13 b) AND 4)\<rparr> else b)
               else a1)
     in tone_step 2 (tone_step 1 (tone_step 0 (noise_step a2))))"

section \<open>Register access\<close>

definition AY_Write :: "int \<Rightarrow> int \<Rightarrow> ay8910 \<Rightarrow> ay8910" where
  "AY_Write addr val a =
    (if addr = 1 then a\<lparr>ayreg := val AND 0x0f\<rparr>
     else
       (let r = nat (ayreg a); a1 = a\<lparr>ayr := (ayr a)[r := val AND rmask ! r]\<rparr>
        in if ayreg a = 13
           then a1\<lparr>envx := 0, ay13 := (if val AND 0xc = 0 then 9 else if val AND 0xc = 4 then 15 else val)\<rparr>
           else a1))"

definition AY_Read :: "int \<Rightarrow> ay8910 \<Rightarrow> int" where
  "AY_Read addr a = (if addr = 1 then ayreg a else ayr a ! nat (ayreg a))"

section \<open>The wrapper\<close>

record ay_wrapper =
  chip :: ay8910
  last_sample :: "int \<times> int"
  ayAccu :: int

text \<open>
  The loop of \<^verbatim>\<open>AYWrapper::Clock\<close>: sum of the samples and their number. The code stores the
  quotient; \<open>last_sample\<close> is that quotient as a pair.
\<close>

function wrapper_loop :: "int \<Rightarrow> ay8910 \<Rightarrow> int \<Rightarrow> int \<Rightarrow> int \<times> int \<times> int \<times> ay8910" where
  "wrapper_loop accu a aysamp avg =
    (if accu \<ge> 96 then (let (s, a') = AY_Clock a in wrapper_loop (accu - 96) a' (aysamp + s) (avg + 1))
     else (accu, aysamp, avg, a))"
  by pat_completeness auto
termination by (relation "measure (\<lambda>(accu, _). nat accu)") auto

declare wrapper_loop.simps [simp del]

definition Wrapper_Clock :: "int \<Rightarrow> ay_wrapper \<Rightarrow> (int \<times> int) \<times> ay_wrapper" where
  "Wrapper_Clock cycles w =
    (let (accu, s, n, a) = wrapper_loop (ayAccu w + 7 * cycles) (chip w) 0 0;
         l = (if n > 0 then (s, n) else last_sample w)
     in (l, w\<lparr>chip := a, ayAccu := accu, last_sample := l\<rparr>))"

section \<open>The invariant\<close>

definition ay_inv :: "ay8910 \<Rightarrow> bool" where
  "ay_inv a \<longleftrightarrow> length (ayr a) = 19 \<and> 0 \<le> envv a \<and> envv a < 16 \<and> 0 \<le> envx a \<and> envx a \<le> 16 \<and>
    0 \<le> ayreg a \<and> ayreg a < 16 \<and> 0 < noir a \<and> noir a < 2 ^ 17 \<and> 0 \<le> tons a \<and> tons a < 8"

lemma tone_step_frame [simp]:
  "envv (tone_step ch a) = envv a" "envx (tone_step ch a) = envx a" "ay13 (tone_step ch a) = ay13 a"
  "ayreg (tone_step ch a) = ayreg a" "noir (tone_step ch a) = noir a"
  "length (ayr (tone_step ch a)) = length (ayr a)"
  by (simp_all add: tone_step_def Let_def)

lemma tons_xor:
  assumes "0 \<le> t" "t < 8" "ch < 3"
  shows "0 \<le> (t XOR push_bit ch 1 :: int) \<and> t XOR push_bit ch 1 < 8"
proof -
  have "take_bit 3 t = t" using assms by (simp add: take_bit_int_eq_self_iff)
  moreover have "take_bit 3 (push_bit ch 1 :: int) = push_bit ch 1"
    using assms(3) by (auto simp: less_Suc_eq numeral_eq_Suc)
  ultimately have "take_bit 3 (t XOR push_bit ch 1) = t XOR push_bit ch 1"
    by (simp only: take_bit_xor)
  then show ?thesis by (simp only: take_bit_int_eq_self_iff) simp
qed

lemma tone_step_inv: "ay_inv a \<Longrightarrow> ch < 3 \<Longrightarrow> ay_inv (tone_step ch a)"
  using tons_xor [of "tons a" ch] by (simp add: ay_inv_def) (simp add: tone_step_def Let_def)

text \<open>The 17-bit noise register never reaches zero.\<close>

lemma noise_feedback:
  assumes "0 < n" "n < 2 ^ 17"
  shows "0 < (drop_bit 1 (n XOR ((n AND 1) * 0x24000)) :: int) \<and>
    drop_bit 1 (n XOR ((n AND 1) * 0x24000)) < 2 ^ 17"
proof (cases "even n")
  case True
  then have "n AND 1 = 0" by (simp add: and_one_eq mod_2_eq_odd)
  then show ?thesis using assms True by (auto simp: drop_bit_eq_div elim!: evenE)
next
  case False
  then have "n AND 1 = 1" by (simp add: and_one_eq mod_2_eq_odd)
  moreover define z where "z = n XOR 0x24000"
  have "take_bit 18 n = n" using assms by (simp add: take_bit_int_eq_self_iff)
  then have "take_bit 18 z = z" by (simp add: z_def take_bit_xor)
  then have z: "0 \<le> z" "z < 2 ^ 18" by (simp_all only: take_bit_int_eq_self_iff)
  have "take_bit 17 n = n" using assms by (simp add: take_bit_int_eq_self_iff)
  then have "\<not> bit n 17" by (metis bit_take_bit_iff less_irrefl)
  then have "bit z 17" by (simp add: z_def bit_xor_iff)
  then have "odd (z div 2 ^ 17)" by (simp only: bit_iff_odd not_False_eq_True)
  then have "2 ^ 17 \<le> z" using z(1) by (metis div_pos_pos_trivial linorder_not_le even_zero)
  with z have "0 < z div 2 \<and> z div 2 < 2 ^ 17" by (simp add: pos_imp_zdiv_pos_iff)
  ultimately show ?thesis by (simp add: z_def drop_bit_eq_div)
qed

lemma noise_step_inv: "ay_inv a \<Longrightarrow> ay_inv (noise_step a)"
  using noise_feedback [of "noir a"] by (simp add: ay_inv_def noise_step_def Let_def)

lemma envx_16: "0 \<le> x \<Longrightarrow> x \<le> 16 \<Longrightarrow> (drop_bit 4 x \<noteq> (0 :: int)) = (x = 16)"
  by (auto simp: drop_bit_eq_div)

lemma EStep_inv:
  assumes "ay_inv a"
  shows "0 \<le> fst (EStep a) \<and> fst (EStep a) < 16 \<and> ay_inv (snd (EStep a))"
  using assms envx_16 [of "envx a"]
  by (auto simp: ay_inv_def EStep_def Let_def int_and_bits)

lemma env_step_inv: "ay_inv a \<Longrightarrow> ay_inv (env_step a)"
  using EStep_inv [of "a\<lparr>envc := 0\<rparr>"]
  by (auto simp: env_step_def Let_def case_prod_beta ay_inv_def)

lemma CStep_inv: "ay_inv a \<Longrightarrow> ch < 3 \<Longrightarrow> ay_inv (snd (CStep ch a))"
  by (simp add: CStep_def Let_def tone_step_inv)

lemma AY_Clock_inv: "ay_inv a \<Longrightarrow> ay_inv (snd (AY_Clock a))"
  by (simp add: AY_Clock_def Let_def case_prod_beta CStep_inv noise_step_inv env_step_inv)

lemma AY_Write_inv: "ay_inv a \<Longrightarrow> ay_inv (AY_Write addr val a)"
  by (auto simp: AY_Write_def ay_inv_def Let_def int_and_masks)

lemma AY_Init_inv: "ay_inv AY_Init"
  by (simp add: ay_inv_def AY_Init_def)

lemma amp_index_bound: "ay_inv a \<Longrightarrow> 0 \<le> amp_index ch a \<and> nat (amp_index ch a) < length amp"
  by (auto simp: amp_index_def ay_inv_def amp_def int_and_masks) linarith?

text \<open>The operations a client has: clock the chip, write a register.\<close>

datatype ay_event = AYClock | AYWrite int int

fun ay_event_step :: "ay_event \<Rightarrow> ay8910 \<Rightarrow> ay8910" where
  "ay_event_step AYClock a = snd (AY_Clock a)"
| "ay_event_step (AYWrite addr val) a = AY_Write addr val a"

interpretation ay_steps: stepping ay_event_step ay_inv
proof unfold_locales
  fix a i
  show "ay_inv a \<Longrightarrow> ay_inv (ay_event_step i a)"
    by (cases i) (simp_all add: AY_Clock_inv AY_Write_inv)
qed

section \<open>Envelope shapes\<close>

text \<open>The level of shape \<open>s\<close> (bits CONT, ATT, ALT, HOLD) at step \<open>k\<close>, as documented.\<close>

definition env_level :: "int \<Rightarrow> nat \<Rightarrow> int" where
  "env_level s k =
    (let n = k div 16; p = int (k mod 16) in
     if 1 \<le> n \<and> bit s 0 then (if bit s 2 \<noteq> bit s 1 then 15 else 0)
     else if bit s 2 \<noteq> (bit s 1 \<and> odd n) then p else 15 - p)"

definition env_state :: "int \<Rightarrow> nat \<Rightarrow> ay8910 \<Rightarrow> bool" where
  "env_state s k a \<longleftrightarrow> bit (ay13 a) 0 = bit s 0 \<and> bit (ay13 a) 1 = bit s 1 \<and>
    (if k = 0 then envx a = 0 \<and> bit (ay13 a) 2 = bit s 2
     else if bit s 0 \<and> 16 \<le> k then envx a = 16 \<and> bit (ay13 a) 2 = bit s 2
     else envx a = int ((k - 1) mod 16) + 1 \<and>
       bit (ay13 a) 2 = (bit s 2 \<noteq> (bit s 1 \<and> odd ((k - 1) div 16))))"

lemma bit2_double: "bit (z * 2 :: int) 2 = bit z 1"
  using bit_double_iff [of z 2] by (simp add: mult.commute)

lemma bit2_flip: "bit (z XOR (z * 2 AND 4) :: int) 2 = (bit z 2 \<noteq> bit z 1)"
  "bit (z XOR (z * 2 AND 4) :: int) 1 = bit z 1"
  "bit (z XOR (z * 2 AND 4) :: int) 0 = bit z 0"
  by (simp_all add: bit_xor_iff int_and_bits bit2_double)

lemma hold_level: "15 * ((drop_bit 1 z XOR z) AND 2) div 2 = (if bit z 2 \<noteq> bit z 1 then 15 else (0 :: int))"
  by (simp add: int_and_bits bit_simps bit2_double numeral_2_eq_2)

lemma EStep_level:
  assumes "0 \<le> envx a" "envx a \<le> 15"
  shows "EStep a = (if bit (ay13 a) 2 then envx a else 15 - envx a, a\<lparr>envx := envx a + 1\<rparr>)"
  using assms by (simp add: EStep_def Let_def drop_bit_eq_div int_and_bits)

lemma EStep_hold:
  assumes "envx a = 16" "bit (ay13 a) 0"
  shows "EStep a = (if bit (ay13 a) 2 \<noteq> bit (ay13 a) 1 then 15 else 0, a)"
  using assms hold_level [of "ay13 a"]
  by (simp add: EStep_def drop_bit_eq_div and_one_eq bit_0 mod_2_eq_odd)

lemma EStep_wrap:
  assumes "envx a = 16" "\<not> bit (ay13 a) 0"
  shows "EStep a = EStep (a\<lparr>envx := 0, ay13 := ay13 a XOR (ay13 a * 2 AND 4)\<rparr>)"
  using assms by (simp add: EStep_def drop_bit_eq_div and_one_eq bit_0 mod_2_eq_odd Let_def)

lemma env_state_step:
  assumes "env_state s k a"
  shows "fst (EStep a) = env_level s k \<and> env_state s (Suc k) (snd (EStep a))"
proof (cases k)
  case 0
  then show ?thesis using assms by (simp add: env_state_def env_level_def EStep_level Let_def)
next
  case (Suc j)
  have bits: "bit (ay13 a) 0 = bit s 0" "bit (ay13 a) 1 = bit s 1"
    using assms by (simp_all add: env_state_def)
  show ?thesis
  proof (cases "bit s 0 \<and> 16 \<le> k")
    case True
    then have "envx a = 16" "bit (ay13 a) 2 = bit s 2" using assms Suc by (simp_all add: env_state_def)
    with True bits show ?thesis
      by (simp add: EStep_hold env_level_def env_state_def Let_def div_greater_zero_iff Suc_le_eq)
  next
    case False
    then have x: "envx a = int (j mod 16) + 1"
      and b2: "bit (ay13 a) 2 = (bit s 2 \<noteq> (bit s 1 \<and> odd (j div 16)))"
      using assms Suc by (simp_all add: env_state_def)
    show ?thesis
    proof (cases "j mod 16 = 15")
      case True
      then have "15 \<le> j" by (metis mod_less_eq_dividend)
      with False Suc have "\<not> bit s 0" by simp
      moreover have "k mod 16 = 0" "k div 16 = Suc (j div 16)"
        using True Suc by (simp_all add: mod_Suc div_Suc)
      ultimately show ?thesis
        using x b2 bits True
        by (cases "bit s (Suc 0)"; cases "even (j div 16)")
          (simp_all add: EStep_wrap EStep_level env_state_def env_level_def bit2_flip [simplified] Let_def)
    next
      case no_wrap: False
      have k: "k mod 16 = Suc (j mod 16)" "k div 16 = j div 16"
        using no_wrap Suc by (simp_all add: mod_Suc div_Suc)
      have "j mod 16 < 16" by simp
      with no_wrap have lt: "j mod 16 < 15" by linarith
      have h: "\<not> (1 \<le> k div 16 \<and> bit s 0)" using False by (auto simp: Suc_le_eq div_greater_zero_iff)
      have l: "env_level s k = (if bit s 2 \<noteq> (bit s 1 \<and> odd (k div 16)) then int (k mod 16)
          else 15 - int (k mod 16))"
        by (simp only: env_level_def Let_def h if_False)
      have "EStep a = (if bit (ay13 a) 2 then envx a else 15 - envx a, a\<lparr>envx := envx a + 1\<rparr>)"
        using x lt by (simp add: EStep_level)
      then have lev: "fst (EStep a) = env_level s k"
        by (simp only: l b2 x k fst_conv of_nat_Suc add.commute [of 1])
      have st: "snd (EStep a) = a\<lparr>envx := int (k mod 16) + 1\<rparr>"
        using x lt k(1) by (simp add: EStep_level)
      have "env_state s (Suc k) (snd (EStep a))"
      proof (cases "bit s 0 \<and> 16 \<le> Suc k")
        case True
        with False Suc have "j = 14" by simp
        with True Suc show ?thesis using b2 bits by (simp add: st env_state_def)
      next
        case not_held: False
        then have "\<not> (bit s 0 \<and> 15 \<le> k)" by simp
        then show ?thesis using b2 bits by (cases "bit s 0") (simp_all add: st env_state_def k(2))
      qed
      with lev show ?thesis by blast
    qed
  qed
qed

text \<open>A run of envelope steps: the levels produced and the final state.\<close>

fun env_run :: "nat \<Rightarrow> ay8910 \<Rightarrow> int list" where
  "env_run 0 a = []"
| "env_run (Suc n) a = fst (EStep a) # env_run n (snd (EStep a))"

lemma env_run_levels: "env_state s k a \<Longrightarrow> env_run n a = map (env_level s) [k..<k + n]"
proof (induction n arbitrary: k a)
  case (Suc n)
  then show ?case
    using env_state_step [OF Suc.prems] Suc.IH [of "Suc k" "snd (EStep a)"]
    by (simp add: upt_conv_Cons del: upt_Suc)
qed simp

definition env_shape :: "int \<Rightarrow> int" where
  "env_shape val = (if bit val 3 then val else if bit val 2 then 15 else 9)"

lemma and_0xc: "((z :: int) AND 0xc = 0) = (\<not> bit z 3 \<and> \<not> bit z 2)"
  "((z :: int) AND 0xc = 4) = (\<not> bit z 3 \<and> bit z 2)"
proof -
  have "(12 :: int) = 8 OR 4" by simp
  then have "z AND 12 = (z AND 8) OR (z AND 4)" by (simp only: bit.conj_disj_distrib)
  then show "(z AND 0xc = 0) = (\<not> bit z 3 \<and> \<not> bit z 2)" "(z AND 0xc = 4) = (\<not> bit z 3 \<and> bit z 2)"
    by (simp_all add: int_and_bits)
qed

lemma AY_Write_shape: "ayreg a = 13 \<Longrightarrow> env_state (env_shape val) 0 (AY_Write 0 val a)"
  by (simp add: AY_Write_def Let_def env_state_def env_shape_def and_0xc)

section \<open>Clock ratio\<close>

text \<open>The chip after \<open>n\<close> clocks.\<close>

definition ay_clocks :: "nat \<Rightarrow> ay8910 \<Rightarrow> ay8910" where
  "ay_clocks n a = ((\<lambda>a. snd (AY_Clock a)) ^^ n) a"

lemma wrapper_loop_clocks:
  "0 \<le> accu \<Longrightarrow> wrapper_loop accu a s n = (accu', s', n', a') \<Longrightarrow>
    accu' = accu mod 96 \<and> n' = n + accu div 96 \<and> a' = ay_clocks (nat (accu div 96)) a"
proof (induction accu a s n rule: wrapper_loop.induct)
  case (1 accu a s n)
  show ?case
  proof (cases "96 \<le> accu")
    case True
    have d: "accu div 96 = (accu - 96) div 96 + 1" "accu mod 96 = (accu - 96) mod 96"
      using div_add_self2 [of 96 "accu - 96"] mod_add_self2 [of "accu - 96" 96] by simp_all
    have "0 \<le> (accu - 96) div 96" using True by simp
    then have k: "nat (accu div 96) = Suc (nat ((accu - 96) div 96))" using d(1) by linarith
    obtain v b where v: "AY_Clock a = (v, b)" by (cases "AY_Clock a")
    have "wrapper_loop (accu - 96) b (s + v) (n + 1) = (accu', s', n', a')"
      using "1.prems"(2) True v by (subst (asm) wrapper_loop.simps) simp
    then have "accu' = (accu - 96) mod 96 \<and> n' = n + 1 + (accu - 96) div 96 \<and>
        a' = ay_clocks (nat ((accu - 96) div 96)) b"
      using "1.IH" [OF True v [symmetric]] True by simp
    moreover have "ay_clocks (Suc m) a = ay_clocks m b" for m
      using v by (simp add: ay_clocks_def funpow_Suc_right del: funpow.simps)
    moreover have "n + accu div 96 = n + 1 + (accu - 96) div 96" using d(1) by simp
    ultimately show ?thesis by (simp only: k d(2))
  next
    case False
    with "1.prems" show ?thesis by (subst (asm) wrapper_loop.simps) (simp add: ay_clocks_def)
  qed
qed

lemma div_of_remainder:
  assumes "m \<noteq> (0 :: int)"
  shows "(t mod m + b) div m + t div m = (t + b) div m"
proof -
  have "t + b = (t mod m + b) + t div m * m"
    by (metis add.assoc add.commute mod_div_mult_eq)
  then show ?thesis using assms div_mult_self1 [of m "t mod m + b" "t div m"] by simp
qed

lemma ay_clocks_add: "ay_clocks m (ay_clocks n a) = ay_clocks (m + n) a"
  by (simp add: ay_clocks_def funpow_add)

lemma Wrapper_Clock_state:
  assumes "0 \<le> ayAccu w" "0 \<le> c"
  shows "chip (snd (Wrapper_Clock c w)) = ay_clocks (nat ((ayAccu w + 7 * c) div 96)) (chip w)"
    "ayAccu (snd (Wrapper_Clock c w)) = (ayAccu w + 7 * c) mod 96"
proof -
  obtain accu' s' n' a' where l:
    "wrapper_loop (ayAccu w + 7 * c) (chip w) 0 0 = (accu', s', n', a')"
    by (metis prod_cases4)
  show "chip (snd (Wrapper_Clock c w)) = ay_clocks (nat ((ayAccu w + 7 * c) div 96)) (chip w)"
    "ayAccu (snd (Wrapper_Clock c w)) = (ayAccu w + 7 * c) mod 96"
    using wrapper_loop_clocks [OF _ l] assms l by (simp_all add: Wrapper_Clock_def Let_def)
qed

section \<open>Tone\<close>

text \<open>The tone output of a channel after \<open>n\<close> clocks of its counter.\<close>

definition tone_bit :: "nat \<Rightarrow> ay8910 \<Rightarrow> bool" where
  "tone_bit ch a = bit (tons a) ch"

lemma tone_period_step [simp]:
  "ch < 3 \<Longrightarrow> tone_period ch (tone_step ch a) = tone_period ch a"
  by (simp add: tone_period_def tone_step_def Let_def)

lemma tone_below:
  "ch < 3 \<Longrightarrow> length (ayr a) = 19 \<Longrightarrow> ayr a ! (ch + 16) = c \<Longrightarrow> c + int n < tone_period ch a \<Longrightarrow>
    ayr ((tone_step ch ^^ n) a) ! (ch + 16) = c + int n \<and> tons ((tone_step ch ^^ n) a) = tons a \<and>
    tone_period ch ((tone_step ch ^^ n) a) = tone_period ch a \<and>
    length (ayr ((tone_step ch ^^ n) a)) = 19"
proof (induction n)
  case (Suc n)
  then have "c + int n < tone_period ch a" by simp
  with Suc have IH: "ayr ((tone_step ch ^^ n) a) ! (ch + 16) = c + int n"
    "tons ((tone_step ch ^^ n) a) = tons a" "length (ayr ((tone_step ch ^^ n) a)) = 19"
    "tone_period ch ((tone_step ch ^^ n) a) = tone_period ch a"
    by simp_all
  then show ?case
    using Suc.prems tone_period_step [of ch "(tone_step ch ^^ n) a"]
    by (simp add: tone_step_def [where a = "(tone_step ch ^^ n) a"] Let_def)
qed simp

lemma tone_half_period:
  assumes "ch < 3" "length (ayr a) = 19" "ayr a ! (ch + 16) = 0" "0 < tone_period ch a"
  shows "tone_bit ch ((tone_step ch ^^ nat (tone_period ch a)) a) = (\<not> tone_bit ch a) \<and>
    ayr ((tone_step ch ^^ nat (tone_period ch a)) a) ! (ch + 16) = 0"
proof -
  obtain n where n: "nat (tone_period ch a) = Suc n" using assms(4) by (cases "nat (tone_period ch a)") auto
  then have p: "tone_period ch a = int n + 1" by linarith
  let ?b = "(tone_step ch ^^ n) a"
  have b: "ayr ?b ! (ch + 16) = int n" "tons ?b = tons a" "tone_period ch ?b = int n + 1"
    "length (ayr ?b) = 19"
    using tone_below [OF assms(1,2,3), of n] p by simp_all
  then have "tone_step ch ?b = ?b\<lparr>ayr := (ayr ?b)[ch + 16 := 0], tons := tons a XOR push_bit ch 1\<rparr>"
    by (simp add: tone_step_def Let_def)
  then show ?thesis
    using assms(1) b by (simp only: n funpow.simps o_def) (simp add: tone_bit_def bit_simps)
qed

section \<open>Properties\<close>

text \<open>C20: From power-up, no sequence of register writes and clocks takes the chip outside its
  invariant: register file of 19 entries, register index below 16, envelope level below 16, a
  noise register that is never zero, so every index into the amplitude table is in range.\<close>

theorem ay_safe:
  "ay_inv (fold ay_event_step evs AY_Init) \<and>
    0 \<le> amp_index ch (fold ay_event_step evs AY_Init) \<and>
    nat (amp_index ch (fold ay_event_step evs AY_Init)) < length amp"
  using ay_steps.run_inv [OF AY_Init_inv, of evs] amp_index_bound by blast

text \<open>Writing the envelope register restarts the envelope, and the levels it then produces are
  those of the written shape: a ramp of 16 levels, then held, repeated or alternated as its bits
  say; a value without CONT behaves as shape 9 or 15.\<close>

theorem envelope_levels:
  "ayreg a = 13 \<Longrightarrow> env_run n (AY_Write 0 val a) = map (env_level (env_shape val)) [0..<n]"
  using env_run_levels [OF AY_Write_shape, of a n val] by simp

theorem envelope_levels_witness:
  "env_run 18 (AY_Write 0 4 (AY_Write 1 13 AY_Init)) =
    [0, 1, 2, 3, 4, 5, 6, 7, 8, 9, 10, 11, 12, 13, 14, 15, 0, 0]"
  using envelope_levels [of "AY_Write 1 13 AY_Init" 18 4]
  by (simp add: AY_Write_def AY_Init_def env_shape_def env_level_def upt_rec Let_def)

text \<open>Clocking the wrapper with any sequence of cycle counts clocks the chip
  \<open>7 * total div 96\<close> times: no clock is lost between calls.\<close>

theorem wrapper_clock_ratio:
  assumes "0 \<le> ayAccu w" "ayAccu w < 96" "\<forall>c \<in> set cs. 0 \<le> c"
  shows "chip (fold (\<lambda>c w. snd (Wrapper_Clock c w)) cs w) =
      ay_clocks (nat ((ayAccu w + 7 * sum_list cs) div 96)) (chip w) \<and>
    ayAccu (fold (\<lambda>c w. snd (Wrapper_Clock c w)) cs w) = (ayAccu w + 7 * sum_list cs) mod 96"
  using assms
proof (induction cs arbitrary: w)
  case Nil
  then show ?case by (simp add: ay_clocks_def)
next
  case (Cons c cs)
  let ?w = "snd (Wrapper_Clock c w)" and ?t = "ayAccu w + 7 * c"
  have w: "chip ?w = ay_clocks (nat (?t div 96)) (chip w)" "ayAccu ?w = ?t mod 96"
    using Wrapper_Clock_state [of w c] Cons.prems by simp_all
  have nn: "0 \<le> sum_list cs" "0 \<le> ?t" using Cons.prems by (simp_all add: sum_list_nonneg)
  have q: "(?t mod 96 + 7 * sum_list cs) div 96 + ?t div 96 = (?t + 7 * sum_list cs) div 96"
    by (rule div_of_remainder) simp
  have "nat ((?t mod 96 + 7 * sum_list cs) div 96) + nat (?t div 96) =
      nat ((?t mod 96 + 7 * sum_list cs) div 96 + ?t div 96)"
    using nn by (intro nat_add_distrib [symmetric] pos_imp_zdiv_nonneg_iff [THEN iffD2]) simp_all
  then have "nat ((?t mod 96 + 7 * sum_list cs) div 96) + nat (?t div 96) =
      nat ((ayAccu w + 7 * (c + sum_list cs)) div 96)"
    by (simp only: q distrib_left add.assoc)
  moreover have "(?t mod 96 + 7 * sum_list cs) mod 96 = (ayAccu w + 7 * (c + sum_list cs)) mod 96"
    by (simp only: mod_add_left_eq distrib_left add.assoc)
  moreover have "0 \<le> ayAccu ?w" "ayAccu ?w < 96" "\<forall>c \<in> set cs. 0 \<le> c"
    using Cons.prems(3) by (simp_all add: w(2))
  note IH = Cons.IH [OF this]
  ultimately show ?case
    by (simp only: fold_simps IH w ay_clocks_add sum_list.Cons refl simp_thms)
qed

theorem wrapper_clock_ratio_witness:
  "ayAccu (fold (\<lambda>c w. snd (Wrapper_Clock c w)) [2, 2] \<lparr>chip = AY_Init, last_sample = (0, 1), ayAccu = 90\<rparr>)
    = 22"
proof -
  let ?w = "\<lparr>chip = AY_Init, last_sample = (0, 1), ayAccu = 90\<rparr>"
  have "ayAccu (fold (\<lambda>c w. snd (Wrapper_Clock c w)) [2, 2] ?w) = (ayAccu ?w + 7 * sum_list [2, 2]) mod 96"
    by (rule wrapper_clock_ratio [THEN conjunct2]) simp_all
  also have "\<dots> = 22" by simp
  finally show ?thesis .
qed

end
