(* ===== verification/TQueue.thy ===== *)
theory TQueue
  imports Prelude
begin

text \<open>
  The bounded queue between threads of \<^verbatim>\<open>utils/tqueue.h\<close>. The mutex makes every
  operation atomic, so the model is sequential; what other threads push while \<open>pop\<close> waits is an
  argument: one list of items per wake-up. The lemmas show the order of delivery, what is dropped
  when the queue is full, and when \<open>pop\<close> returns.
\<close>

section \<open>State and operations\<close>

record 'a tqueue =
  m_queue :: "'a list"
  m_maxLegth :: nat

datatype 'a pop_result = Popped 'a | NoItem | Waiting

definition TQueue_new :: "nat \<Rightarrow> 'a tqueue" where
  "TQueue_new maxLength = \<lparr>m_queue = [], m_maxLegth = maxLength\<rparr>"

definition TQueue_push :: "'a \<Rightarrow> 'a tqueue \<Rightarrow> 'a tqueue" where
  "TQueue_push item q =
    (let q1 = (if length (m_queue q) > m_maxLegth q then q\<lparr>m_queue := tl (m_queue q)\<rparr> else q)
     in q1\<lparr>m_queue := m_queue q1 @ [item]\<rparr>)"

definition TQueue_emplace :: "'a \<Rightarrow> 'a tqueue \<Rightarrow> 'a tqueue" where
  "TQueue_emplace item q =
    (let q1 = (if length (m_queue q) > m_maxLegth q then q\<lparr>m_queue := tl (m_queue q)\<rparr> else q)
     in q1\<lparr>m_queue := m_queue q1 @ [item]\<rparr>)"

definition TQueue_clear :: "'a tqueue \<Rightarrow> 'a tqueue" where
  "TQueue_clear q = q\<lparr>m_queue := []\<rparr>"

definition TQueue_empty :: "'a tqueue \<Rightarrow> bool" where
  "TQueue_empty q \<longleftrightarrow> m_queue q = []"

definition take_front :: "'a tqueue \<Rightarrow> 'a pop_result \<times> 'a tqueue" where
  "take_front q =
    (case m_queue q of
       [] \<Rightarrow> (NoItem, q)
     | x # xs \<Rightarrow> (Popped x, q\<lparr>m_queue := xs\<rparr>))"

text \<open>
  The loop of an unlimited wait: each wake-up finds the queue with what was pushed meanwhile. A
  list of wake-ups that ends before an item came leaves the caller waiting.
\<close>

fun wait_item :: "'a list list \<Rightarrow> 'a tqueue \<Rightarrow> 'a pop_result \<times> 'a tqueue" where
  "wait_item wakes q =
    (if \<not> TQueue_empty q then take_front q
     else case wakes of
       [] \<Rightarrow> (Waiting, q)
     | pushed # rest \<Rightarrow> wait_item rest (fold TQueue_push pushed q))"

declare wait_item.simps [simp del]

definition TQueue_pop :: "int \<Rightarrow> 'a list list \<Rightarrow> 'a tqueue \<Rightarrow> 'a pop_result \<times> 'a tqueue" where
  "TQueue_pop waitTime wakes q =
    (if waitTime = 0 then (if TQueue_empty q then (NoItem, q) else take_front q)
     else if waitTime < 0 then wait_item wakes q
     else if TQueue_empty q then
       (let q1 = (case wakes of [] \<Rightarrow> q | pushed # rest \<Rightarrow> fold TQueue_push pushed q)
        in if TQueue_empty q1 then (NoItem, q1) else take_front q1)
     else take_front q)"

section \<open>Order of delivery\<close>

lemma TQueue_push_queue:
  "m_queue (TQueue_push x q) =
    (if length (m_queue q) > m_maxLegth q then tl (m_queue q) else m_queue q) @ [x]"
  by (simp add: TQueue_push_def Let_def)

lemma TQueue_push_sel [simp]:
  "m_maxLegth (TQueue_push x q) = m_maxLegth q"
  "m_queue (TQueue_push x q) \<noteq> []"
  by (simp_all add: TQueue_push_def Let_def)

lemma fold_push_max [simp]: "m_maxLegth (fold TQueue_push xs q) = m_maxLegth q"
  by (induction xs arbitrary: q) simp_all

lemma fold_push_nonempty: "xs \<noteq> [] \<Longrightarrow> m_queue (fold TQueue_push xs q) \<noteq> []"
  by (induction xs rule: rev_induct) simp_all

definition try_pop :: "'a tqueue \<Rightarrow> 'a option \<times> 'a tqueue" where
  "try_pop q = (case TQueue_pop 0 [] q of (Popped x, q') \<Rightarrow> (Some x, q') | (_, q') \<Rightarrow> (None, q'))"

interpretation tq: bounded_fifo TQueue_push try_pop m_queue "\<lambda>_. True"
  "\<lambda>q. length (m_queue q) \<le> m_maxLegth q"
  by unfold_locales
    (auto simp: TQueue_push_queue try_pop_def TQueue_pop_def take_front_def TQueue_empty_def
      split: list.split)

lemma fold_push_last:
  assumes "length (m_queue q) \<le> Suc (m_maxLegth q)"
  shows "m_queue (fold TQueue_push xs q) =
    drop (length (m_queue q) + length xs - Suc (m_maxLegth q)) (m_queue q @ xs)"
  using assms
proof (induction xs rule: rev_induct)
  case (snoc x xs)
  let ?r = "fold TQueue_push xs q" and ?l = "m_queue q @ xs"
  let ?k = "length ?l - Suc (m_maxLegth q)"
  have r: "m_queue ?r = drop ?k ?l" using snoc by simp
  show ?case
  proof (cases "length ?l \<le> m_maxLegth q")
    case True
    then show ?thesis using r by (simp add: TQueue_push_queue)
  next
    case False
    then have "length (m_queue ?r) = Suc (m_maxLegth q)" using r by simp
    then have "m_queue (TQueue_push x ?r) = drop (Suc ?k) ?l @ [x]"
      by (simp only: TQueue_push_queue fold_push_max lessI if_True r drop_Suc tl_drop)
    moreover have "Suc ?k = length (m_queue q) + length (xs @ [x]) - Suc (m_maxLegth q)"
      using False by simp
    moreover have "Suc ?k \<le> length ?l" using False by simp
    ultimately show ?thesis by (simp only: fold_append fold_simps o_apply append_assoc [symmetric]) simp
  qed
qed simp

section \<open>Waiting\<close>

lemma wait_now: "m_queue q \<noteq> [] \<Longrightarrow> wait_item ws q = take_front q"
  by (subst wait_item.simps) (simp add: TQueue_empty_def)

lemma wait_next: "m_queue q = [] \<Longrightarrow> wait_item (w # ws) q = wait_item ws (fold TQueue_push w q)"
  by (subst wait_item.simps) (simp add: TQueue_empty_def)

lemma wait_item_first:
  "\<forall>w \<in> set ws. w = [] \<Longrightarrow> m_queue q = [] \<Longrightarrow> xs \<noteq> [] \<Longrightarrow> length xs \<le> Suc (m_maxLegth q) \<Longrightarrow>
    wait_item (ws @ xs # rest) q = (Popped (hd xs), q\<lparr>m_queue := tl xs\<rparr>)"
proof (induction ws)
  case Nil
  let ?r = "fold TQueue_push xs q"
  have r: "m_queue ?r = xs" "m_maxLegth ?r = m_maxLegth q" using fold_push_last [of q xs] Nil by simp_all
  then have "?r\<lparr>m_queue := tl xs\<rparr> = q\<lparr>m_queue := tl xs\<rparr>" by (intro tqueue.equality) simp_all
  with Nil r show ?case by (cases xs) (simp_all add: wait_next wait_now take_front_def)
qed (simp add: wait_next)

section \<open>Properties\<close>

text \<open>Items come out in the order they were pushed: pushing up to \<open>maxLength + 1\<close> items to an
  empty queue and popping \<open>n\<close> times without waiting returns the first \<open>n\<close> of them; pushing more
  drops the oldest, so the queue holds the last \<open>maxLength + 1\<close> items.\<close>

theorem tqueue_fifo:
  "m_queue (fold TQueue_push xs (TQueue_new n)) = drop (length xs - Suc n) xs \<and>
    fst (deq_n try_pop k (fold TQueue_push xs (TQueue_new n))) = take k (drop (length xs - Suc n) xs)"
  using fold_push_last [of "TQueue_new n" xs] tq.deq_many [where n = k and s = "fold TQueue_push xs (TQueue_new n)"]
  by (simp add: TQueue_new_def)

text \<open>An unlimited wait on an empty queue returns at the first wake-up that brings an item, with
  that item, however many empty wake-ups came before.\<close>

theorem tqueue_wait:
  assumes "m_queue q = []" "\<forall>w \<in> set ws. w = []" "xs \<noteq> []" "length xs \<le> Suc (m_maxLegth q)"
    "waitTime < 0"
  shows "TQueue_pop waitTime (ws @ xs # rest) q = (Popped (hd xs), q\<lparr>m_queue := tl xs\<rparr>)"
  using wait_item_first [OF assms(2,1,3,4)] assms(5) by (simp add: TQueue_pop_def)

theorem tqueue_wait_witness:
  "TQueue_pop (- 1) ([[], []] @ [7, 8] # []) (TQueue_new 10) = (Popped (7 :: int), \<lparr>m_queue = [8], m_maxLegth = 10\<rparr>)"
  using tqueue_wait [of "TQueue_new 10" "[[], []]" "[7, 8]" "- 1" "[]"] by (simp add: TQueue_new_def)

end
