(* ===== verification/Audio.thy ===== *)
theory Audio
  imports Timer_I8253 Sound_AY8910
begin

text \<open>
  The mixer of \<^verbatim>\<open>core/audio.h\<close> and \<^verbatim>\<open>audio.cpp\<close>: every tick of the 1.5 MHz timer it
  adds the timer, the AY and the beeper, accumulates the sum, and now and then stores a sample in
  a ring buffer another thread reads. The samples are of any type \<open>'f\<close>; their arithmetic is the
  record \<open>float_ops\<close>. The lemmas show which ticks give a sample and what it is, and that the ring
  delivers the samples in order while the reader keeps up.
\<close>

section \<open>State\<close>

record 'f float_ops =
  f_add :: "'f \<Rightarrow> 'f \<Rightarrow> 'f"
  f_mul :: "'f \<Rightarrow> 'f \<Rightarrow> 'f"
  f_div :: "'f \<Rightarrow> 'f \<Rightarrow> 'f"
  f_of_int :: "int \<Rightarrow> 'f"
  f_ay :: "int \<times> int \<Rightarrow> 'f"

text \<open>
  The static locals \<open>sampleCounter\<close> and \<open>accumulator\<close> of \<^verbatim>\<open>Downsample\<close> are fields: there is
  one mixer in the program. \<open>f_ay\<close> is the \<^verbatim>\<open>float\<close> of the AY sum and clock count.
\<close>

record 'f audio =
  m_muteMul :: 'f
  m_buffer :: "'f list"
  m_readBuffIdx :: u64
  m_writeBuffIdx :: u64
  m_inited :: bool
  m_downsampleRate :: int
  sampleCounter :: int
  accumulator :: 'f

definition BUFFER_SIZE :: nat where "BUFFER_SIZE = 4000"
definition INPUT_RATE :: int where "INPUT_RATE = 1500000"
definition OUTPUT_RATE :: int where "OUTPUT_RATE = 50000"
definition DOWNSAMPLE_RATE :: int where "DOWNSAMPLE_RATE = INPUT_RATE div OUTPUT_RATE"

definition Audio_Init :: "'f float_ops \<Rightarrow> 'f audio \<Rightarrow> 'f audio" where
  "Audio_Init fo a = a\<lparr>m_buffer := replicate BUFFER_SIZE (f_of_int fo 0), m_inited := True\<rparr>"

definition Audio_Mute :: "'f float_ops \<Rightarrow> bool \<Rightarrow> 'f audio \<Rightarrow> 'f audio" where
  "Audio_Mute fo mute a = a\<lparr>m_muteMul := f_of_int fo (if mute then 0 else 1)\<rparr>"

definition Audio_Reset ::
  "'f float_ops \<Rightarrow> timer \<times> ay_wrapper \<times> 'f audio \<Rightarrow> timer \<times> ay_wrapper \<times> 'f audio" where
  "Audio_Reset fo s =
    (let (t, w, a) = s
     in (Timer_Reset t, w\<lparr>chip := AY_Init\<rparr>,
         a\<lparr>m_buffer := replicate BUFFER_SIZE (f_of_int fo 0), m_readBuffIdx := 0, m_writeBuffIdx := 0,
           m_muteMul := f_of_int fo 1\<rparr>))"

section \<open>Mixing and downsampling\<close>

definition Downsample :: "'f float_ops \<Rightarrow> 'f \<Rightarrow> 'f audio \<Rightarrow> (bool \<times> 'f) \<times> 'f audio" where
  "Downsample fo sample a =
    (let acc = f_add fo (accumulator a) sample; n = sampleCounter a + 1
     in if n > m_downsampleRate a
        then ((True, f_div fo acc (f_of_int fo (m_downsampleRate a))),
              a\<lparr>sampleCounter := 0, accumulator := f_of_int fo 0\<rparr>)
        else ((False, sample), a\<lparr>sampleCounter := n, accumulator := acc\<rparr>))"

definition store_sample :: "'f \<Rightarrow> 'f audio \<Rightarrow> 'f audio" where
  "store_sample x a =
    a\<lparr>m_buffer := (m_buffer a)[unat (m_writeBuffIdx a) mod BUFFER_SIZE := x],
      m_writeBuffIdx := m_writeBuffIdx a + 1\<rparr>"

definition feed :: "'f float_ops \<Rightarrow> 'f \<Rightarrow> 'f audio \<Rightarrow> 'f audio" where
  "feed fo sample a =
    (let ((ready, x), a1) = Downsample fo sample a in if ready then store_sample x a1 else a1)"

definition audio_tick ::
  "'f float_ops \<Rightarrow> 'f \<Rightarrow> timer \<times> ay_wrapper \<times> 'f audio \<Rightarrow> timer \<times> ay_wrapper \<times> 'f audio" where
  "audio_tick fo beeper s =
    (let (t, w, a) = s;
         (ch, t') = Timer_Clock 1 t;
         (ay, w') = Wrapper_Clock 2 w;
         sum = f_add fo (f_add fo (f_div fo (f_of_int fo ch) (f_of_int fo 3)) (f_ay fo ay)) beeper
     in (t', w', feed fo (f_mul fo sum (m_muteMul a)) a))"

definition Audio_Clock ::
  "'f float_ops \<Rightarrow> int \<Rightarrow> 'f \<Rightarrow> timer \<times> ay_wrapper \<times> 'f audio \<Rightarrow> timer \<times> ay_wrapper \<times> 'f audio" where
  "Audio_Clock fo cycles beeper s =
    (if m_inited (snd (snd s)) then (audio_tick fo beeper ^^ nat cycles) s else s)"

section \<open>The reader\<close>

definition GetAvailableSamples :: "'f audio \<Rightarrow> int" where
  "GetAvailableSamples a = sint (ucast (m_writeBuffIdx a - m_readBuffIdx a) :: 32 word)"

definition read_one :: "'f audio \<Rightarrow> 'f \<times> 'f audio" where
  "read_one a =
    (m_buffer a ! (unat (m_readBuffIdx a) mod BUFFER_SIZE),
     a\<lparr>m_readBuffIdx := m_readBuffIdx a + 1\<rparr>)"

fun read_many :: "nat \<Rightarrow> 'f audio \<Rightarrow> 'f list \<times> 'f audio" where
  "read_many 0 a = ([], a)"
| "read_many (Suc n) a =
    (let (x, a1) = read_one a; (xs, a2) = read_many n a1 in (x # xs, a2))"

definition ReadSamples :: "int \<Rightarrow> 'f audio \<Rightarrow> 'f list \<times> 'f audio" where
  "ReadSamples maxSamples a = read_many (nat (min (GetAvailableSamples a) maxSamples)) a"

section \<open>The ring as a queue\<close>

definition unread :: "'f audio \<Rightarrow> 'f list" where
  "unread a =
    map (\<lambda>i. m_buffer a ! (i mod BUFFER_SIZE)) [unat (m_readBuffIdx a)..<unat (m_writeBuffIdx a)]"

definition ring_ok :: "'f audio \<Rightarrow> bool" where
  "ring_ok a \<longleftrightarrow> length (m_buffer a) = BUFFER_SIZE \<and> m_readBuffIdx a \<le> m_writeBuffIdx a \<and>
    unat (m_writeBuffIdx a) - unat (m_readBuffIdx a) \<le> BUFFER_SIZE"

definition ring_room :: "'f audio \<Rightarrow> bool" where
  "ring_room a \<longleftrightarrow> length (unread a) < BUFFER_SIZE \<and> m_writeBuffIdx a \<noteq> - 1"

definition take_one :: "'f audio \<Rightarrow> 'f option \<times> 'f audio" where
  "take_one a =
    (if m_readBuffIdx a = m_writeBuffIdx a then (None, a)
     else (Some (fst (read_one a)), snd (read_one a)))"

lemma unat_plus_one: "w \<noteq> - 1 \<Longrightarrow> unat (w + 1) = Suc (unat w)"
  by (metis add.commute unatSuc add.right_neutral add_eq_0_iff)

lemma mod_apart:
  assumes "i < j" "j < i + n"
  shows "i mod n \<noteq> j mod (n :: nat)"
proof
  assume "i mod n = j mod n"
  then have "n dvd j - i" using assms(1) by (metis mod_eq_dvd_iff_nat less_imp_le)
  then show False using assms by (auto dest: dvd_imp_le)
qed

lemma unread_store:
  assumes "ring_ok a" "ring_room a"
  shows "unread (store_sample x a) = unread a @ [x]" "ring_ok (store_sample x a)"
proof -
  let ?r = "unat (m_readBuffIdx a)" and ?w = "unat (m_writeBuffIdx a)"
  have le: "?r \<le> ?w" "?w - ?r < BUFFER_SIZE" "length (m_buffer a) = BUFFER_SIZE"
    using assms by (simp_all add: ring_ok_def ring_room_def unread_def word_le_nat_alt)
  have w: "unat (m_writeBuffIdx a + 1) = Suc ?w"
    using assms(2) by (simp add: ring_room_def unat_plus_one)
  have "m_buffer a ! (i mod BUFFER_SIZE) = (m_buffer a)[?w mod BUFFER_SIZE := x] ! (i mod BUFFER_SIZE)"
    if "?r \<le> i" "i < ?w" for i
  proof -
    have "?w < i + BUFFER_SIZE" using that le by linarith
    with that(2) have "i mod BUFFER_SIZE \<noteq> ?w mod BUFFER_SIZE" by (rule mod_apart)
    then show ?thesis by simp
  qed
  moreover have "?w mod BUFFER_SIZE < length (m_buffer a)" using le by (simp add: BUFFER_SIZE_def)
  ultimately show "unread (store_sample x a) = unread a @ [x]"
    using le by (simp add: unread_def store_sample_def w)
  show "ring_ok (store_sample x a)"
    using le by (simp add: ring_ok_def store_sample_def w word_le_nat_alt)
qed

lemma unread_take:
  assumes "ring_ok a" "m_readBuffIdx a \<noteq> m_writeBuffIdx a"
  shows "unread a = fst (read_one a) # unread (snd (read_one a))" "ring_ok (snd (read_one a))"
proof -
  let ?r = "unat (m_readBuffIdx a)" and ?w = "unat (m_writeBuffIdx a)"
  have le: "?r < ?w" "?w - ?r \<le> BUFFER_SIZE" "length (m_buffer a) = BUFFER_SIZE"
    using assms by (auto simp: ring_ok_def word_le_nat_alt word_unat_eq_iff)
  have "m_readBuffIdx a \<noteq> - 1"
  proof
    assume "m_readBuffIdx a = - 1"
    then have "m_writeBuffIdx a \<le> m_readBuffIdx a" by simp
    then show False using le by (simp add: word_le_nat_alt)
  qed
  then have r: "unat (m_readBuffIdx a + 1) = Suc ?r" by (rule unat_plus_one)
  show "unread a = fst (read_one a) # unread (snd (read_one a))"
    using le by (simp add: unread_def read_one_def r upt_conv_Cons)
  show "ring_ok (snd (read_one a))"
    using le by (simp add: ring_ok_def read_one_def r word_le_nat_alt)
qed

lemma unread_empty: "ring_ok a \<Longrightarrow> unread a = [] \<longleftrightarrow> m_readBuffIdx a = m_writeBuffIdx a"
  by (auto simp: unread_def ring_ok_def word_le_nat_alt word_unat_eq_iff)

interpretation ring: bounded_fifo store_sample take_one unread ring_ok ring_room
proof unfold_locales
  fix a :: "'f audio" and x xs
  show "unread a = x # xs \<Longrightarrow> ring_ok a \<Longrightarrow> fst (take_one a) = Some x \<and> unread (snd (take_one a)) = xs"
    using unread_empty [of a] unread_take [of a] by (auto simp: take_one_def)
  show "ring_ok a \<Longrightarrow> unread a = [] \<Longrightarrow> take_one a = (None, a)"
    by (simp add: take_one_def unread_empty)
  show "ring_ok a \<Longrightarrow> ring_ok (snd (take_one a))"
    by (simp add: take_one_def unread_take)
qed (simp_all add: unread_store)

lemma ring_fits:
  "ring_ok a \<Longrightarrow> length (unread a) + length xs \<le> BUFFER_SIZE \<Longrightarrow>
    unat (m_writeBuffIdx a) + length xs < 2 ^ 64 \<Longrightarrow> all_fit store_sample ring_room xs a"
proof (induction xs arbitrary: a)
  case (Cons x xs)
  have "m_writeBuffIdx a \<noteq> - 1"
  proof
    assume "m_writeBuffIdx a = - 1"
    then have "unat (m_writeBuffIdx a) = 2 ^ 64 - 1"
      by (simp add: unsigned_minus_1_eq_mask mask_eq_exp_minus_1)
    then show False using Cons.prems(3) by simp
  qed
  moreover from this have "ring_room a" using Cons.prems(2) by (simp add: ring_room_def)
  moreover from calculation have "unat (m_writeBuffIdx (store_sample x a)) = Suc (unat (m_writeBuffIdx a))"
    by (simp add: store_sample_def unat_plus_one)
  ultimately show ?case
    using Cons.prems by (simp add: Cons.IH unread_store)
qed simp

lemma read_many_deq:
  "ring_ok a \<Longrightarrow> n \<le> length (unread a) \<Longrightarrow> deq_n take_one n a = read_many n a"
proof (induction n arbitrary: a)
  case (Suc n)
  then have ne: "m_readBuffIdx a \<noteq> m_writeBuffIdx a" using unread_empty [of a] by auto
  show ?case
    using Suc unread_take [OF Suc.prems(1) ne] ne
    by (simp add: take_one_def case_prod_beta Let_def)
qed simp

lemma available: "ring_ok a \<Longrightarrow> GetAvailableSamples a = int (length (unread a))"
proof -
  assume ok: "ring_ok a"
  let ?d = "m_writeBuffIdx a - m_readBuffIdx a"
  have d: "unat ?d = length (unread a)" "unat ?d \<le> 4000"
    using ok by (simp_all add: unat_sub ring_ok_def unread_def BUFFER_SIZE_def)
  then have "unat (ucast ?d :: 32 word) = unat ?d" by (simp add: unsigned_ucast_eq take_bit_eq_mod)
  then have u: "uint (ucast ?d :: 32 word) = int (length (unread a))" using d by (metis uint_nat)
  moreover have "sint (ucast ?d :: 32 word) = uint (ucast ?d :: 32 word)"
    using u d by (simp add: sint_uint signed_take_bit_int_eq_self)
  ultimately show ?thesis by (simp add: GetAvailableSamples_def)
qed

lemma ReadSamples_unread:
  assumes "ring_ok a"
  shows "fst (ReadSamples n a) = take (nat n) (unread a)"
    "unread (snd (ReadSamples n a)) = drop (nat n) (unread a)" "ring_ok (snd (ReadSamples n a))"
proof -
  let ?k = "nat (min (int (length (unread a))) n)"
  have "take ?k (unread a) = take (nat n) (unread a)" "drop ?k (unread a) = drop (nat n) (unread a)"
    by (cases "int (length (unread a)) \<le> n"; simp add: min_def nat_le_iff)+
  then show "fst (ReadSamples n a) = take (nat n) (unread a)"
    "unread (snd (ReadSamples n a)) = drop (nat n) (unread a)" "ring_ok (snd (ReadSamples n a))"
    using ring.deq_many [OF assms, of ?k] read_many_deq [OF assms, of ?k]
    by (simp_all add: ReadSamples_def available [OF assms])
qed

section \<open>Which ticks give a sample\<close>

function blocks :: "nat \<Rightarrow> 'a list \<Rightarrow> 'a list list" where
  "blocks n xs = (if n = 0 \<or> length xs < n then [] else take n xs # blocks n (drop n xs))"
  by pat_completeness auto
termination by (relation "measure (\<lambda>(n, xs). length xs)") auto

declare blocks.simps [simp del]

lemma length_blocks: "0 < n \<Longrightarrow> length (blocks n xs) = length xs div n"
proof (induction n xs rule: blocks.induct)
  case (1 n xs)
  then show ?case by (subst blocks.simps) (auto simp: le_div_geq)
qed

definition block_sample :: "'f float_ops \<Rightarrow> int \<Rightarrow> 'f list \<Rightarrow> 'f" where
  "block_sample fo rate ys = f_div fo (foldl (f_add fo) (f_of_int fo 0) ys) (f_of_int fo rate)"

lemma feed_few:
  "sampleCounter a + int (length ys) \<le> m_downsampleRate a \<Longrightarrow>
    fold (feed fo) ys a = a\<lparr>sampleCounter := sampleCounter a + int (length ys),
      accumulator := foldl (f_add fo) (accumulator a) ys\<rparr>"
proof (induction ys arbitrary: a)
  case (Cons y ys)
  have "feed fo y a = a\<lparr>sampleCounter := sampleCounter a + 1, accumulator := f_add fo (accumulator a) y\<rparr>"
    using Cons.prems by (simp add: feed_def Downsample_def Let_def)
  with Cons show ?case by (simp add: add.assoc)
qed simp

definition idle :: "'f float_ops \<Rightarrow> 'f audio \<Rightarrow> bool" where
  "idle fo a \<longleftrightarrow> sampleCounter a = 0 \<and> accumulator a = f_of_int fo 0 \<and> 0 \<le> m_downsampleRate a"

lemma feed_block:
  assumes "idle fo a" "int (length ys) = m_downsampleRate a + 1"
  shows "fold (feed fo) ys a = store_sample (block_sample fo (m_downsampleRate a) ys) a"
proof -
  obtain zs z where ys: "ys = zs @ [z]" using assms by (cases ys rule: rev_cases) (auto simp: idle_def)
  have "fold (feed fo) zs a = a\<lparr>sampleCounter := int (length zs),
      accumulator := foldl (f_add fo) (f_of_int fo 0) zs\<rparr>"
    using feed_few [of a zs fo] assms by (simp add: ys idle_def)
  then show ?thesis
    using assms by (simp add: ys feed_def Downsample_def block_sample_def store_sample_def idle_def)
qed

lemma feed_blocks:
  "idle fo a \<Longrightarrow> n = nat (m_downsampleRate a + 1) \<Longrightarrow>
    unread (fold (feed fo) xs a) =
      unread (fold store_sample (map (block_sample fo (m_downsampleRate a)) (blocks n xs)) a) \<and>
    (ring_ok (fold store_sample (map (block_sample fo (m_downsampleRate a)) (blocks n xs)) a) \<longrightarrow>
      ring_ok (fold (feed fo) xs a))"
proof (induction n xs arbitrary: a rule: blocks.induct)
  case (1 n xs)
  have n: "0 < n" using "1.prems" by (simp add: idle_def)
  show ?case
  proof (cases "length xs < n")
    case True
    then have "fold (feed fo) xs a = a\<lparr>sampleCounter := int (length xs),
        accumulator := foldl (f_add fo) (f_of_int fo 0) xs\<rparr>"
      using feed_few [of a xs fo] "1.prems" by (simp add: idle_def)
    then show ?thesis using True by (simp add: blocks.simps [of n xs] unread_def ring_ok_def)
  next
    case False
    let ?b = "store_sample (block_sample fo (m_downsampleRate a) (take n xs)) a"
    have "fold (feed fo) (take n xs) a = ?b"
      using False "1.prems" by (intro feed_block) (simp_all add: idle_def)
    then have split: "fold (feed fo) xs a = fold (feed fo) (drop n xs) ?b"
      by (metis append_take_drop_id fold_append o_apply)
    have "idle fo ?b" "m_downsampleRate ?b = m_downsampleRate a"
      using "1.prems" by (simp_all add: idle_def store_sample_def)
    moreover have "blocks n xs = take n xs # blocks n (drop n xs)"
      using False n by (simp add: blocks.simps [of n xs])
    ultimately show ?thesis
      using "1.IH" [of ?b] False n "1.prems"(2) by (simp only: split list.map fold_simps) simp
  qed
qed

section \<open>Properties\<close>

text \<open>The mixer stores one sample for every 31 ticks, the sum of their 31 values divided by 30
  (the comparison in \<^verbatim>\<open>Downsample\<close> lets one more tick in than the divisor counts), and the
  reader gets those samples in order and in full as long as at most 4000 are unread.\<close>

theorem audio_stream:
  assumes "ring_ok a" "unread a = []" "idle fo a" "m_downsampleRate a = DOWNSAMPLE_RATE"
    "length xs div 31 \<le> BUFFER_SIZE" "unat (m_writeBuffIdx a) + length xs div 31 < 2 ^ 64"
  shows "fst (ReadSamples n (fold (feed fo) xs a)) = take (nat n) (map (block_sample fo 30) (blocks 31 xs))"
proof -
  let ?ys = "map (block_sample fo 30) (blocks 31 xs)"
  have r: "m_downsampleRate a = 30"
    using assms(4) by (simp add: DOWNSAMPLE_RATE_def INPUT_RATE_def OUTPUT_RATE_def)
  have "all_fit store_sample ring_room ?ys a"
    using assms by (intro ring_fits) (simp_all add: length_blocks)
  from ring.enq_many [OF assms(1) this] feed_blocks [OF assms(3), of 31 xs]
  have "unread (fold (feed fo) xs a) = ?ys" "ring_ok (fold (feed fo) xs a)"
    by (simp_all add: r assms(2))
  then show ?thesis by (simp add: ReadSamples_unread(1))
qed

definition int_ops :: "int float_ops" where
  "int_ops = \<lparr>f_add = (+), f_mul = (*), f_div = (div), f_of_int = id, f_ay = fst\<rparr>"

definition fresh_audio :: "int audio" where
  "fresh_audio = \<lparr>m_muteMul = 1, m_buffer = replicate BUFFER_SIZE 0, m_readBuffIdx = 0, m_writeBuffIdx = 0,
    m_inited = True, m_downsampleRate = 30, sampleCounter = 0, accumulator = 0\<rparr>"

theorem audio_stream_witness:
  "fst (ReadSamples 10 (fold (feed int_ops) (replicate 70 60) fresh_audio)) = [62, 62]"
proof -
  have "fst (ReadSamples 10 (fold (feed int_ops) (replicate 70 60) fresh_audio)) =
      take (nat 10) (map (block_sample int_ops 30) (blocks 31 (replicate 70 60)))"
    by (rule audio_stream)
      (simp_all add: fresh_audio_def ring_ok_def unread_def idle_def int_ops_def BUFFER_SIZE_def
        DOWNSAMPLE_RATE_def INPUT_RATE_def OUTPUT_RATE_def)
  also have "blocks 31 (replicate 70 (60 :: int)) = [replicate 31 60, replicate 31 60]"
    by (simp add: blocks.simps)
  also have "take (nat 10) (map (block_sample int_ops 30) [replicate 31 60, replicate 31 60]) = [62, 62]"
    by (simp add: block_sample_def int_ops_def numeral_eq_Suc)
  finally show ?thesis .
qed

end
