(* ===== verification/Fdc_WD1793.thy ===== *)
theory Fdc_WD1793
  imports Prelude
begin

unbundle bit_operations_syntax

text \<open>
  The floppy disk controller of \<^verbatim>\<open>core/fdc_wd1793.h\<close> and \<^verbatim>\<open>fdc_wd1793.cpp\<close>: four disk
  images, the five registers, the commands and the byte-by-byte data transfer. The pointers of the
  code are values of \<open>ptr\<close>; an access outside the array a pointer belongs to, which the
  code does not check, is the error \<open>BadAccess\<close>. The lemmas show that a sector written is the
  sector read back, that a transfer inside the disk cannot fail, and that an abandoned transfer
  ends.
\<close>

section \<open>Constants and state\<close>

definition FDD_SIDES :: int where "FDD_SIDES = 2"
definition FDD_TRACKS_PER_SIDE :: int where "FDD_TRACKS_PER_SIDE = 82"
definition FDD_SECTORS_PER_TRACK :: int where "FDD_SECTORS_PER_TRACK = 5"
definition FDD_SECTOR_LEN :: int where "FDD_SECTOR_LEN = 1024"
definition FDD_SIZE :: int where
  "FDD_SIZE = FDD_SIDES * FDD_TRACKS_PER_SIDE * FDD_SECTORS_PER_TRACK * FDD_SECTOR_LEN"
definition DRIVES_MAX :: nat where "DRIVES_MAX = 4"

lemmas fdd_consts = FDD_SIDES_def FDD_TRACKS_PER_SIDE_def FDD_SECTORS_PER_TRACK_def
  FDD_SECTOR_LEN_def FDD_SIZE_def DRIVES_MAX_def

definition WD1793_IRQ :: u8 where "WD1793_IRQ = 0x80"
definition WD1793_DRQ :: u8 where "WD1793_DRQ = 0x40"
definition F_BUSY :: u8 where "F_BUSY = 0x01"
definition F_READONLY :: u8 where "F_READONLY = 0x40"
definition F_NOTREADY :: u8 where "F_NOTREADY = 0x80"
definition F_INDEX :: u8 where "F_INDEX = 0x02"
definition F_TRACK0 :: u8 where "F_TRACK0 = 0x04"
definition F_HEADLOAD :: u8 where "F_HEADLOAD = 0x20"
definition F_DRQ :: u8 where "F_DRQ = 0x02"
definition F_LOSTDATA :: u8 where "F_LOSTDATA = 0x04"
definition F_ERRCODE :: u8 where "F_ERRCODE = 0x18"
definition F_NOTFOUND :: u8 where "F_NOTFOUND = 0x10"
definition C_SIDECOMP :: u8 where "C_SIDECOMP = 0x02"
definition C_LOADHEAD :: u8 where "C_LOADHEAD = 0x08"
definition C_SIDE :: u8 where "C_SIDE = 0x08"
definition C_IRQ :: u8 where "C_IRQ = 0x08"
definition C_SETTRACK :: u8 where "C_SETTRACK = 0x10"
definition S_DRIVE :: u8 where "S_DRIVE = 0x03"
definition S_RESET :: u8 where "S_RESET = 0x04"
definition S_HALT :: u8 where "S_HALT = 0x08"

lemmas fdc_consts = WD1793_IRQ_def WD1793_DRQ_def F_BUSY_def F_READONLY_def F_NOTREADY_def
  F_INDEX_def F_TRACK0_def F_HEADLOAD_def F_DRQ_def F_LOSTDATA_def F_ERRCODE_def F_NOTFOUND_def
  C_SIDECOMP_def C_LOADHEAD_def C_SIDE_def C_IRQ_def C_SETTRACK_def S_DRIVE_def S_RESET_def
  S_HALT_def

record fdisk =
  fd_data :: "int \<Rightarrow> u8"
  fd_header :: "u8 list"
  fd_updated :: bool
  fd_path :: string
  fd_mounted :: bool
  fd_reads :: u64
  fd_writes :: u64

text \<open>
  A pointer of the controller: null, into the image or the header of a drive, or computed from the
  null pointer of a drive without a disk.
\<close>

datatype ptr = Null | DataPtr nat int | HeaderPtr nat int | WildPtr

datatype fdc_error = BadAccess

record fdc =
  m_disks :: "fdisk list"
  m_regs :: "u8 list"
  m_drive :: u8
  m_side :: u8
  m_track :: u8
  m_lastS :: u8
  m_irq :: u8
  m_wait :: u8
  m_cmd :: u8
  m_rwLen :: int
  m_ptr :: ptr
  m_disk :: "nat option"

definition FDisk_new :: fdisk where
  "FDisk_new = \<lparr>fd_data = (\<lambda>_. 0), fd_header = [0, 0, 0, 3, 0, 0], fd_updated = False, fd_path = [],
    fd_mounted = False, fd_reads = 0, fd_writes = 0\<rparr>"

definition FDisk_Mount :: "u8 list \<Rightarrow> string \<Rightarrow> fdisk \<Rightarrow> fdc_error + fdisk" where
  "FDisk_Mount bytes path d =
    (if int (length bytes) > FDD_SIZE then Inl BadAccess
     else Inr (d\<lparr>fd_path := path,
       fd_data := (\<lambda>i. if 0 \<le> i \<and> i < int (length bytes) then bytes ! nat i else fd_data d i),
       fd_mounted := True, fd_updated := False, fd_reads := 0, fd_writes := 0\<rparr>))"

definition FDisk_Dismount :: "fdisk \<Rightarrow> fdisk" where
  "FDisk_Dismount d = d\<lparr>fd_mounted := False, fd_path := []\<rparr>"

section \<open>Registers, pointers, disks\<close>

definition reg :: "nat \<Rightarrow> fdc \<Rightarrow> u8" where
  "reg i s = m_regs s ! i"

definition set_reg :: "nat \<Rightarrow> u8 \<Rightarrow> fdc \<Rightarrow> fdc" where
  "set_reg i v s = s\<lparr>m_regs := (m_regs s)[i := v]\<rparr>"

definition on_disk :: "nat \<Rightarrow> (fdisk \<Rightarrow> fdisk) \<Rightarrow> fdc \<Rightarrow> fdc" where
  "on_disk d g s = s\<lparr>m_disks := (m_disks s)[d := g (m_disks s ! d)]\<rparr>"

text \<open>\<^verbatim>\<open>m_disk->...\<close>: a fault when no disk is selected.\<close>

definition on_selected :: "(fdisk \<Rightarrow> fdisk) \<Rightarrow> fdc \<Rightarrow> fdc_error + fdc" where
  "on_selected g s = (case m_disk s of None \<Rightarrow> Inl BadAccess | Some d \<Rightarrow> Inr (on_disk d g s))"

fun next_ptr :: "ptr \<Rightarrow> ptr" where
  "next_ptr (DataPtr d i) = DataPtr d (i + 1)"
| "next_ptr (HeaderPtr d i) = HeaderPtr d (i + 1)"
| "next_ptr p = p"

fun load_ptr :: "ptr \<Rightarrow> fdc \<Rightarrow> fdc_error + u8" where
  "load_ptr (DataPtr d i) s =
    (if 0 \<le> i \<and> i < FDD_SIZE then Inr (fd_data (m_disks s ! d) i) else Inl BadAccess)"
| "load_ptr (HeaderPtr d i) s =
    (if 0 \<le> i \<and> i < 6 then Inr (fd_header (m_disks s ! d) ! nat i) else Inl BadAccess)"
| "load_ptr _ s = Inl BadAccess"

fun store_ptr :: "ptr \<Rightarrow> u8 \<Rightarrow> fdc \<Rightarrow> fdc_error + fdc" where
  "store_ptr (DataPtr d i) v s =
    (if 0 \<le> i \<and> i < FDD_SIZE
     then Inr (on_disk d (\<lambda>k. k\<lparr>fd_data := (fd_data k)(i := v)\<rparr>) s) else Inl BadAccess)"
| "store_ptr (HeaderPtr d i) v s =
    (if 0 \<le> i \<and> i < 6
     then Inr (on_disk d (\<lambda>k. k\<lparr>fd_header := (fd_header k)[nat i := v]\<rparr>) s) else Inl BadAccess)"
| "store_ptr _ v s = Inl BadAccess"

text \<open>\<^verbatim>\<open>memset\<close> of \<open>n\<close> bytes of an image.\<close>

fun fill_ptr :: "ptr \<Rightarrow> u8 \<Rightarrow> int \<Rightarrow> fdc \<Rightarrow> fdc_error + fdc" where
  "fill_ptr (DataPtr d i) v n s =
    (if 0 \<le> i \<and> i + n \<le> FDD_SIZE
     then Inr (on_disk d (\<lambda>k. k\<lparr>fd_data := (\<lambda>j. if i \<le> j \<and> j < i + n then v else fd_data k j)\<rparr>) s)
     else Inl BadAccess)"
| "fill_ptr _ v n s = Inl BadAccess"

definition sector_offset :: "int \<Rightarrow> int \<Rightarrow> int \<Rightarrow> int" where
  "sector_offset sideID trackID sectorID =
    (let sectors = FDD_SECTORS_PER_TRACK * (trackID * FDD_SIDES + sideID);
         sectorAdjusted = max 0 (sectorID - 1)
     in (sectors + sectorAdjusted) * FDD_SECTOR_LEN)"

definition Seek :: "int \<Rightarrow> int \<Rightarrow> int \<Rightarrow> fdc \<Rightarrow> ptr \<times> fdc" where
  "Seek sideID trackID sectorID s =
    (case m_disk s of
       None \<Rightarrow> (Null, s)
     | Some d \<Rightarrow>
        (if fd_mounted (m_disks s ! d) then DataPtr d (sector_offset sideID trackID sectorID) else WildPtr,
         on_disk d (\<lambda>k. k\<lparr>fd_header := (fd_header k)[0 := of_int trackID, 1 := of_int sideID,
           2 := of_int sectorID]\<rparr>) s))"

definition Fdc_Reset :: "fdc \<Rightarrow> fdc" where
  "Fdc_Reset s =
    s\<lparr>m_regs := [0, 0, 0, 0, S_RESET OR S_HALT], m_side := 0, m_track := 0, m_lastS := 0, m_irq := 0,
      m_rwLen := 0, m_wait := 0, m_cmd := 0xD0\<rparr>"

definition Fdc_new :: fdc where
  "Fdc_new = Fdc_Reset \<lparr>m_disks = replicate DRIVES_MAX FDisk_new, m_regs = [], m_drive = 0, m_side = 0,
    m_track = 0, m_lastS = 0, m_irq = 0, m_wait = 0, m_cmd = 0, m_rwLen = 0, m_ptr = Null, m_disk = None\<rparr>"

section \<open>Reading a register\<close>

definition read_status :: "fdc \<Rightarrow> u8 \<times> fdc" where
  "read_status s =
    (let st = (if m_disk s = None then reg 0 s OR F_NOTREADY else reg 0 s)
     in (st,
         if m_cmd s < 0x80 \<or> m_cmd s = 0xD0
         then set_reg 0 ((reg 0 s XOR F_INDEX) AND
           (F_INDEX OR F_BUSY OR F_NOTREADY OR F_READONLY OR F_TRACK0)) s
         else set_reg 0 (reg 0 s AND (F_BUSY OR F_NOTREADY OR F_READONLY OR F_DRQ)) s))"

text \<open>What a read and a write of the data register share: count the byte, end or continue.\<close>

definition advance :: "fdc \<Rightarrow> fdc" where
  "advance s =
    (let s1 = s\<lparr>m_rwLen := m_rwLen s - 1\<rparr>
     in if m_rwLen s1 \<noteq> 0
        then (let s2 = s1\<lparr>m_wait := 255\<rparr>
              in if m_rwLen s2 AND (FDD_SECTOR_LEN - 1) = 0 then set_reg 2 (reg 2 s2 + 1) s2 else s2)
        else (set_reg 0 (reg 0 s1 AND NOT (F_DRQ OR F_BUSY)) s1)\<lparr>m_irq := WD1793_IRQ\<rparr>)"

definition read_data :: "fdc \<Rightarrow> fdc_error + (u8 \<times> fdc)" where
  "read_data s =
    (if m_rwLen s = 0 then Inr (reg 3 s, s)
     else case load_ptr (m_ptr s) s of
       Inl e \<Rightarrow> Inl e
     | Inr v \<Rightarrow>
        (case on_selected (\<lambda>k. k\<lparr>fd_reads := fd_reads k + 1\<rparr>)
            (set_reg 3 v s\<lparr>m_ptr := next_ptr (m_ptr s)\<rparr>) of
           Inl e \<Rightarrow> Inl e
         | Inr s1 \<Rightarrow> (let s2 = advance s1 in Inr (reg 3 s2, s2))))"

definition read_ready :: "fdc \<Rightarrow> u8 \<times> fdc" where
  "read_ready s =
    (let s1 =
       (if m_wait s \<noteq> 0
        then (let s0 = s\<lparr>m_wait := m_wait s - 1\<rparr>
              in if m_wait s0 = 0
                 then set_reg 0 ((reg 0 s0 AND NOT (F_DRQ OR F_BUSY)) OR F_LOSTDATA)
                   (s0\<lparr>m_rwLen := 0, m_irq := WD1793_IRQ\<rparr>)
                 else s0)
        else s)
     in (m_irq s1, s1))"

definition Fdc_Read :: "int \<Rightarrow> fdc \<Rightarrow> fdc_error + (u8 \<times> fdc)" where
  "Fdc_Read port s =
    (if port = 0 then Inr (read_status s)
     else if port = 1 \<or> port = 2 then Inr (reg (nat port) s, s)
     else if port = 3 then read_data s
     else if port = 4 then Inr (read_ready s)
     else Inr (0xFF, s))"

section \<open>Commands\<close>

definition cmd_force :: "u8 \<Rightarrow> fdc \<Rightarrow> fdc" where
  "cmd_force v s =
    (let s1 = s\<lparr>m_rwLen := 0, m_cmd := 0xD0\<rparr>;
         s2 = (if reg 0 s1 AND F_BUSY \<noteq> 0 then set_reg 0 (reg 0 s1 AND NOT F_BUSY) s1
               else set_reg 0 ((if m_track s1 \<noteq> 0 then 0 else F_TRACK0) OR F_INDEX) s1)
     in if v AND C_IRQ \<noteq> 0 then s2\<lparr>m_irq := WD1793_IRQ\<rparr> else s2)"

definition cmd_restore :: "u8 \<Rightarrow> fdc \<Rightarrow> fdc" where
  "cmd_restore v s =
    (set_reg 1 0 (set_reg 0 (F_INDEX OR F_TRACK0 OR (if v AND C_LOADHEAD \<noteq> 0 then F_HEADLOAD else 0))
      (s\<lparr>m_track := 0\<rparr>)))\<lparr>m_irq := WD1793_IRQ\<rparr>"

definition cmd_seek :: "u8 \<Rightarrow> fdc \<Rightarrow> fdc" where
  "cmd_seek v s =
    (let s1 = s\<lparr>m_rwLen := 0, m_track := reg 3 s\<rparr>
     in (set_reg 1 (m_track s1) (set_reg 0 (F_INDEX OR (if m_track s1 \<noteq> 0 then 0 else F_TRACK0) OR
          (if v AND C_LOADHEAD \<noteq> 0 then F_HEADLOAD else 0)) s1))\<lparr>m_irq := WD1793_IRQ\<rparr>)"

definition cmd_step :: "u8 \<Rightarrow> fdc \<Rightarrow> fdc" where
  "cmd_step v0 s =
    (let (v, s1) = (if v0 AND 0x40 \<noteq> 0 then (v0, s\<lparr>m_lastS := v0 AND 0x20\<rparr>)
                    else ((v0 AND NOT 0x20) OR m_lastS s, s));
         s2 = (if v AND 0x20 \<noteq> 0
               then (if m_track s1 \<noteq> 0 then s1\<lparr>m_track := m_track s1 - 1\<rparr> else s1)
               else s1\<lparr>m_track := m_track s1 + 1\<rparr>);
         s3 = (if v AND C_SETTRACK \<noteq> 0 then set_reg 1 (m_track s2) s2 else s2)
     in (set_reg 0 (F_INDEX OR (if m_track s3 \<noteq> 0 then 0 else F_TRACK0)) s3)\<lparr>m_irq := WD1793_IRQ\<rparr>)"

definition command_side :: "u8 \<Rightarrow> fdc \<Rightarrow> int" where
  "command_side v s =
    (if v AND C_SIDECOMP \<noteq> 0 then (if v AND C_SIDE \<noteq> 0 then 1 else 0) else uint (m_side s))"

definition not_found :: "fdc \<Rightarrow> fdc" where
  "not_found s = (set_reg 0 ((reg 0 s AND NOT F_ERRCODE) OR F_NOTFOUND) s)\<lparr>m_irq := WD1793_IRQ\<rparr>"

definition start_transfer :: "u8 \<Rightarrow> fdc \<Rightarrow> fdc" where
  "start_transfer v s =
    (set_reg 0 (reg 0 s OR (F_BUSY OR F_DRQ)) s)
      \<lparr>m_rwLen := FDD_SECTOR_LEN *
        (if v AND 0x10 \<noteq> 0 then FDD_SECTORS_PER_TRACK - uint (reg 2 s) + 1 else 1),
       m_irq := WD1793_DRQ, m_wait := 255\<rparr>"

definition seek_registers :: "u8 \<Rightarrow> fdc \<Rightarrow> fdc" where
  "seek_registers v s =
    (let (p, s1) = Seek (command_side v s) (uint (reg 1 s)) (uint (reg 2 s)) s in s1\<lparr>m_ptr := p\<rparr>)"

definition cmd_read_sectors :: "u8 \<Rightarrow> fdc \<Rightarrow> fdc" where
  "cmd_read_sectors v s =
    (let s1 = seek_registers v s in if m_ptr s1 = Null then not_found s1 else start_transfer v s1)"

definition cmd_write_sectors :: "u8 \<Rightarrow> fdc \<Rightarrow> fdc_error + fdc" where
  "cmd_write_sectors v s =
    (let s1 = seek_registers v s
     in if m_ptr s1 = Null then Inr (not_found s1)
        else on_selected (\<lambda>k. k\<lparr>fd_updated := True\<rparr>) (start_transfer v s1))"

text \<open>The search of READ-ADDRESS: the first sector number that \<open>Seek\<close> accepts.\<close>

fun first_sector :: "int list \<Rightarrow> fdc \<Rightarrow> fdc" where
  "first_sector [] s = s"
| "first_sector (j # js) s =
    (let (p, s1) = Seek (uint (m_side s)) (uint (m_track s)) j s; s2 = s1\<lparr>m_ptr := p\<rparr>
     in if p \<noteq> Null then s2 else first_sector js s2)"

definition cmd_read_address :: "fdc \<Rightarrow> fdc" where
  "cmd_read_address s =
    (let s1 = (if m_disk s = None then s\<lparr>m_ptr := Null\<rparr> else first_sector (map int [0..<256]) s)
     in if m_ptr s1 = Null
        then (set_reg 0 (reg 0 s1 OR F_NOTFOUND) s1)\<lparr>m_irq := WD1793_IRQ\<rparr>
        else (set_reg 0 (reg 0 s1 OR (F_BUSY OR F_DRQ)) s1)
          \<lparr>m_ptr := HeaderPtr (the (m_disk s1)) 0, m_rwLen := 6, m_irq := WD1793_DRQ, m_wait := 255\<rparr>)"

definition format_side :: "int \<Rightarrow> fdc \<Rightarrow> fdc_error + fdc" where
  "format_side side s =
    (let (p, s1) = Seek side (uint (reg 1 s)) 1 s; s2 = s1\<lparr>m_ptr := p\<rparr>
     in if p = Null then Inr s2
        else case fill_ptr p 0xE5 (FDD_SECTOR_LEN * FDD_SECTORS_PER_TRACK) s2 of
          Inl e \<Rightarrow> Inl e
        | Inr s3 \<Rightarrow> on_selected (\<lambda>k. k\<lparr>fd_updated := True\<rparr>) s3)"

definition cmd_write_track :: "fdc \<Rightarrow> fdc_error + fdc" where
  "cmd_write_track s =
    (case format_side 0 s of
       Inl e \<Rightarrow> Inl e
     | Inr s1 \<Rightarrow> if FDD_SIDES > 1 then format_side 1 s1 else Inr s1)"

definition dispatch_command :: "u8 \<Rightarrow> fdc \<Rightarrow> fdc_error + fdc" where
  "dispatch_command v s =
    (let c = v AND 0xF0 in
     if c = 0x00 then Inr (cmd_restore v s)
     else if c = 0x10 then Inr (cmd_seek v s)
     else if c \<in> {0x20, 0x30, 0x40, 0x50, 0x60, 0x70} then Inr (cmd_step v s)
     else if c = 0x80 \<or> c = 0x90 then Inr (cmd_read_sectors v s)
     else if c = 0xA0 \<or> c = 0xB0 then cmd_write_sectors v s
     else if c = 0xC0 then Inr (cmd_read_address s)
     else if c = 0xE0 then Inr s
     else if c = 0xF0 then cmd_write_track s
     else Inr s)"

definition write_command :: "u8 \<Rightarrow> fdc \<Rightarrow> fdc_error + fdc" where
  "write_command v s0 =
    (let s = s0\<lparr>m_irq := 0\<rparr>
     in if v AND 0xF0 = 0xD0 then Inr (cmd_force v s)
        else if reg 0 s AND F_BUSY \<noteq> 0 then Inr s
        else dispatch_command v ((set_reg 0 0 s)\<lparr>m_cmd := v\<rparr>))"

section \<open>Writing a register\<close>

definition write_data :: "u8 \<Rightarrow> fdc \<Rightarrow> fdc_error + fdc" where
  "write_data v s =
    (if m_rwLen s = 0 then Inr (set_reg 3 v s)
     else case store_ptr (m_ptr s) v s of
       Inl e \<Rightarrow> Inl e
     | Inr s1 \<Rightarrow>
        (case on_selected (\<lambda>k. k\<lparr>fd_updated := True, fd_writes := fd_writes k + 1\<rparr>)
            (s1\<lparr>m_ptr := next_ptr (m_ptr s)\<rparr>) of
           Inl e \<Rightarrow> Inl e
         | Inr s2 \<Rightarrow> Inr (set_reg 3 v (advance s2))))"

definition write_system :: "u8 \<Rightarrow> fdc \<Rightarrow> fdc" where
  "write_system v s =
    (let d = v AND S_DRIVE
     in set_reg 4 v (s\<lparr>m_drive := d,
          m_disk := (if fd_mounted (m_disks s ! unat d) then Some (unat d) else None),
          m_side := drop_bit 2 (NOT v) AND 1\<rparr>))"

definition write_port :: "int \<Rightarrow> u8 \<Rightarrow> fdc \<Rightarrow> fdc_error + fdc" where
  "write_port port v s =
    (if port = 0 then write_command v s
     else if port = 1 \<or> port = 2 then
       Inr (if reg 0 s AND F_BUSY = 0 then set_reg (nat port) v s else s)
     else if port = 3 then write_data v s
     else if port = 4 then Inr (write_system v s)
     else Inr s)"

definition Fdc_Write :: "int \<Rightarrow> u8 \<Rightarrow> fdc \<Rightarrow> fdc_error + (u8 \<times> fdc)" where
  "Fdc_Write port v s =
    (case write_port port v s of Inl e \<Rightarrow> Inl e | Inr s1 \<Rightarrow> Inr (m_irq s1, s1))"

section \<open>Disks\<close>

text \<open>
  The drive index is a C++ \<^verbatim>\<open>int\<close>: \<^verbatim>\<open>%\<close> keeps its sign, and the other operations use it
  as it is.
\<close>

definition Fdc_Mount :: "int \<Rightarrow> u8 list \<Rightarrow> string \<Rightarrow> fdc \<Rightarrow> fdc_error + fdc" where
  "Fdc_Mount driveIdx bytes path s =
    (if driveIdx < 0 \<and> driveIdx mod int DRIVES_MAX \<noteq> 0 then Inl BadAccess
     else (let d = nat (driveIdx mod int DRIVES_MAX)
           in case FDisk_Mount bytes path (m_disks s ! d) of
             Inl e \<Rightarrow> Inl e
           | Inr k \<Rightarrow>
              (let s1 = s\<lparr>m_disks := (m_disks s)[d := k]\<rparr>
               in Inr (if driveIdx = uint (m_drive s) then Fdc_Reset s1 else s1))))"

definition on_drive :: "int \<Rightarrow> (nat \<Rightarrow> 'a) \<Rightarrow> fdc_error + 'a" where
  "on_drive driveIdx g =
    (if 0 \<le> driveIdx \<and> driveIdx < int DRIVES_MAX then Inr (g (nat driveIdx)) else Inl BadAccess)"

definition Fdc_Dismount :: "int \<Rightarrow> fdc \<Rightarrow> fdc_error + fdc" where
  "Fdc_Dismount driveIdx s =
    on_drive driveIdx (\<lambda>d.
      let s1 = on_disk d FDisk_Dismount s
      in if driveIdx = uint (m_drive s) then s1\<lparr>m_disk := None, m_ptr := Null, m_rwLen := 0\<rparr> else s1)"

definition GetFddInfo :: "int \<Rightarrow> fdc \<Rightarrow> fdc_error + (string \<times> bool \<times> u64 \<times> u64 \<times> bool)" where
  "GetFddInfo driveIdx s =
    on_drive driveIdx (\<lambda>d. let k = m_disks s ! d
      in (fd_path k, fd_updated k, fd_reads k, fd_writes k, fd_mounted k))"

definition GetFddImage :: "int \<Rightarrow> fdc \<Rightarrow> fdc_error + u8 list" where
  "GetFddImage driveIdx s =
    (case on_drive driveIdx (\<lambda>d. m_disks s ! d) of
       Inl e \<Rightarrow> Inl e
     | Inr k \<Rightarrow> if fd_mounted k then Inr (map (\<lambda>i. fd_data k (int i)) [0..<nat FDD_SIZE]) else Inl BadAccess)"

definition ResetUpdate :: "int \<Rightarrow> fdc \<Rightarrow> fdc_error + fdc" where
  "ResetUpdate driveIdx s = on_drive driveIdx (\<lambda>d. on_disk d (\<lambda>k. k\<lparr>fd_updated := False\<rparr>) s)"

section \<open>The disk images as a store\<close>

definition image_get :: "fdc \<Rightarrow> nat \<times> int \<Rightarrow> u8" where
  "image_get s k = fd_data (m_disks s ! fst k) (snd k)"

definition image_put :: "nat \<times> int \<Rightarrow> u8 \<Rightarrow> fdc \<Rightarrow> fdc" where
  "image_put k v s = on_disk (fst k) (\<lambda>d. d\<lparr>fd_data := (fd_data d)(snd k := v)\<rparr>) s"

definition image_ok :: "fdc \<Rightarrow> nat \<times> int \<Rightarrow> bool" where
  "image_ok s k \<longleftrightarrow> fst k < length (m_disks s)"

interpretation image_store: byte_store image_get image_put image_ok
  by unfold_locales
    (auto simp: image_get_def image_put_def image_ok_def on_disk_def nth_list_update)

fun sector_block :: "nat \<Rightarrow> int \<Rightarrow> u8 list \<Rightarrow> ((nat \<times> int) \<times> u8) list" where
  "sector_block d i [] = []"
| "sector_block d i (b # bs) = ((d, i), b) # sector_block d (i + 1) bs"

lemma sector_block_keys: "fst ` set (sector_block d i bs) = {d} \<times> {i..<i + int (length bs)}"
  by (induction d i bs rule: sector_block.induct) auto

lemma sector_block_distinct: "distinct (map fst (sector_block d i bs))"
proof (induction d i bs rule: sector_block.induct)
  case (2 d i b bs)
  then show ?case using sector_block_keys [of d "i + 1" bs] by simp
qed simp

lemma sector_block_nth: "j < length bs \<Longrightarrow> ((d, i + int j), bs ! j) \<in> set (sector_block d i bs)"
proof (induction d i bs arbitrary: j rule: sector_block.induct)
  case (2 d i b bs)
  then show ?case by (cases j) (auto simp: add.assoc)
qed simp

section \<open>Transfers\<close>

fun write_bytes :: "u8 list \<Rightarrow> fdc \<Rightarrow> fdc_error + fdc" where
  "write_bytes [] s = Inr s"
| "write_bytes (b # bs) s =
    (case Fdc_Write 3 b s of Inl e \<Rightarrow> Inl e | Inr (v, s1) \<Rightarrow> write_bytes bs s1)"

fun read_bytes :: "nat \<Rightarrow> fdc \<Rightarrow> fdc_error + (u8 list \<times> fdc)" where
  "read_bytes 0 s = Inr ([], s)"
| "read_bytes (Suc n) s =
    (case Fdc_Read 3 s of
       Inl e \<Rightarrow> Inl e
     | Inr (v, s1) \<Rightarrow>
        (case read_bytes n s1 of Inl e \<Rightarrow> Inl e | Inr (vs, s2) \<Rightarrow> Inr (v # vs, s2)))"

text \<open>A transfer of \<open>n\<close> bytes at offset \<open>i\<close> of drive \<open>d\<close> is under way.\<close>

definition transferring :: "nat \<Rightarrow> int \<Rightarrow> nat \<Rightarrow> fdc \<Rightarrow> bool" where
  "transferring d i n s \<longleftrightarrow> m_ptr s = DataPtr d i \<and> m_disk s = Some d \<and> m_rwLen s = int n \<and> 0 \<le> i \<and>
    i + int n \<le> FDD_SIZE \<and> n \<le> 1024 \<and> d < length (m_disks s) \<and> length (m_regs s) = 5"

lemma reg_set_reg [simp]:
  "length (m_regs s) = 5 \<Longrightarrow> i < 5 \<Longrightarrow> reg j (set_reg i v s) = (if i = j then v else reg j s)"
  by (simp add: reg_def set_reg_def)

lemma set_reg_sel [simp]:
  "m_disks (set_reg i v s) = m_disks s" "m_ptr (set_reg i v s) = m_ptr s"
  "m_disk (set_reg i v s) = m_disk s" "m_rwLen (set_reg i v s) = m_rwLen s"
  "m_irq (set_reg i v s) = m_irq s" "m_track (set_reg i v s) = m_track s"
  "m_side (set_reg i v s) = m_side s" "m_drive (set_reg i v s) = m_drive s"
  "m_wait (set_reg i v s) = m_wait s" "m_cmd (set_reg i v s) = m_cmd s"
  "m_lastS (set_reg i v s) = m_lastS s" "length (m_regs (set_reg i v s)) = length (m_regs s)"
  by (simp_all add: set_reg_def)

lemma on_disk_sel [simp]:
  "m_regs (on_disk d g s) = m_regs s" "m_ptr (on_disk d g s) = m_ptr s"
  "m_disk (on_disk d g s) = m_disk s" "m_rwLen (on_disk d g s) = m_rwLen s"
  "m_irq (on_disk d g s) = m_irq s" "m_track (on_disk d g s) = m_track s"
  "m_side (on_disk d g s) = m_side s" "m_drive (on_disk d g s) = m_drive s"
  "m_wait (on_disk d g s) = m_wait s" "m_cmd (on_disk d g s) = m_cmd s"
  "m_lastS (on_disk d g s) = m_lastS s" "length (m_disks (on_disk d g s)) = length (m_disks s)"
  by (simp_all add: on_disk_def)

lemma mask_1023: "(z :: int) AND 1023 = z mod 1024"
  using take_bit_eq_mask [of 10 z] by (simp add: mask_eq_exp_minus_1 take_bit_eq_mod)

lemma advance_more:
  assumes "m_rwLen s = int (Suc n)" "0 < n" "n < 1024"
  shows "advance s = s\<lparr>m_rwLen := int n, m_wait := 255\<rparr>"
  using assms by (simp add: advance_def Let_def FDD_SECTOR_LEN_def mask_1023)

lemma advance_last:
  assumes "m_rwLen s = 1"
  shows "advance s = (set_reg 0 (reg 0 s AND NOT (F_DRQ OR F_BUSY)) s)\<lparr>m_rwLen := 0, m_irq := WD1793_IRQ\<rparr>"
  using assms by (simp add: advance_def Let_def set_reg_def reg_def)

text \<open>The image contents, and what a transfer leaves alone.\<close>

definition images :: "fdc \<Rightarrow> (int \<Rightarrow> u8) list" where
  "images s = map fd_data (m_disks s)"

definition mounts :: "fdc \<Rightarrow> bool list" where
  "mounts s = map fd_mounted (m_disks s)"

definition frame :: "fdc \<Rightarrow> fdc \<Rightarrow> bool" where
  "frame s s' \<longleftrightarrow> m_disk s' = m_disk s \<and> m_drive s' = m_drive s \<and> m_side s' = m_side s \<and>
    m_track s' = m_track s \<and> reg 1 s' = reg 1 s \<and> reg 2 s' = reg 2 s \<and> mounts s' = mounts s \<and>
    length (m_disks s') = length (m_disks s) \<and> length (m_regs s') = length (m_regs s)"

definition ended :: "fdc \<Rightarrow> fdc \<Rightarrow> bool" where
  "ended s s' \<longleftrightarrow> frame s s' \<and> m_rwLen s' = 0 \<and> m_irq s' = WD1793_IRQ \<and>
    reg 0 s' = reg 0 s AND NOT (F_DRQ OR F_BUSY)"

lemma frame_trans: "frame s t \<Longrightarrow> frame t u \<Longrightarrow> frame s u"
  by (simp add: frame_def)

lemma image_get_images: "fst k < length (m_disks s) \<Longrightarrow> image_get s k = (images s ! fst k) (snd k)"
  by (simp add: image_get_def images_def)

lemma images_on_disk:
  "images (on_disk d g s) = (if d < length (m_disks s) then (images s)[d := fd_data (g (m_disks s ! d))] else images s)"
  by (simp add: images_def on_disk_def map_update list_update_beyond)

lemma images_put: "images (image_put k v s) =
    (if fst k < length (images s) then (images s)[fst k := (images s ! fst k)(snd k := v)] else images s)"
  by (simp add: image_put_def images_on_disk) (simp add: images_def)

lemma images_block:
  "images s = images t \<Longrightarrow> images (write_block image_put kvs s) = images (write_block image_put kvs t)"
proof (induction kvs arbitrary: s t)
  case (Cons kv kvs)
  then show ?case by (cases kv) (simp add: images_put)
qed simp

lemma mounts_on_disk:
  "(\<And>k. fd_mounted (g k) = fd_mounted k) \<Longrightarrow> mounts (on_disk d g s) = mounts s"
  by (simp add: mounts_def on_disk_def map_update)
    (metis length_map list_update_beyond list_update_id nth_map not_less)

lemma images_set_reg [simp]: "images (set_reg i v s) = images s" "mounts (set_reg i v s) = mounts s"
  by (simp_all add: images_def mounts_def)

lemma images_upd [simp]:
  "images (s\<lparr>m_rwLen := x\<rparr>) = images s" "images (s\<lparr>m_wait := w\<rparr>) = images s"
  "images (s\<lparr>m_irq := w\<rparr>) = images s" "images (s\<lparr>m_ptr := q\<rparr>) = images s"
  "images (s\<lparr>m_cmd := w\<rparr>) = images s"
  "mounts (s\<lparr>m_rwLen := x\<rparr>) = mounts s" "mounts (s\<lparr>m_wait := w\<rparr>) = mounts s"
  "mounts (s\<lparr>m_irq := w\<rparr>) = mounts s" "mounts (s\<lparr>m_ptr := q\<rparr>) = mounts s"
  "mounts (s\<lparr>m_cmd := w\<rparr>) = mounts s"
  "reg i (s\<lparr>m_rwLen := x\<rparr>) = reg i s" "reg i (s\<lparr>m_wait := w\<rparr>) = reg i s"
  "reg i (s\<lparr>m_irq := w\<rparr>) = reg i s" "reg i (s\<lparr>m_ptr := q\<rparr>) = reg i s"
  "reg i (s\<lparr>m_cmd := w\<rparr>) = reg i s" "reg i (on_disk d g s) = reg i s"
  by (simp_all add: images_def mounts_def reg_def)

lemma images_on_disk_id:
  "(\<And>k. fd_data (g k) = fd_data k) \<Longrightarrow> images (on_disk d g s) = images s"
  by (cases "d < length (m_disks s)")
    (auto simp: images_def on_disk_def nth_list_update list_update_beyond intro!: nth_equalityI)

text \<open>One byte of a transfer: the state after the store, before the count.\<close>

definition stored :: "nat \<Rightarrow> int \<Rightarrow> u8 \<Rightarrow> fdc \<Rightarrow> fdc" where
  "stored d i b s =
    on_disk d (\<lambda>k. k\<lparr>fd_updated := True, fd_writes := fd_writes k + 1\<rparr>)
      ((image_put (d, i) b s)\<lparr>m_ptr := DataPtr d (i + 1)\<rparr>)"

lemma Fdc_Write_data:
  "transferring d i (Suc n) s \<Longrightarrow>
    Fdc_Write 3 b s = Inr (m_irq (advance (stored d i b s)), set_reg 3 b (advance (stored d i b s)))"
  by (simp add: Fdc_Write_def write_port_def write_data_def transferring_def stored_def
      on_selected_def image_put_def)

lemma stored_sel [simp]:
  "m_rwLen (stored d i b s) = m_rwLen s" "m_ptr (stored d i b s) = DataPtr d (i + 1)"
  "m_disk (stored d i b s) = m_disk s" "m_regs (stored d i b s) = m_regs s"
  "reg j (stored d i b s) = reg j s" "m_irq (stored d i b s) = m_irq s"
  "m_drive (stored d i b s) = m_drive s" "m_side (stored d i b s) = m_side s"
  "m_track (stored d i b s) = m_track s" "length (m_disks (stored d i b s)) = length (m_disks s)"
  by (simp_all add: stored_def image_put_def reg_def)

lemma stored_images [simp]:
  "d < length (m_disks s) \<Longrightarrow> images (stored d i b s) = images (image_put (d, i) b s)"
  "mounts (stored d i b s) = mounts s"
proof -
  let ?t = "(image_put (d, i) b s)\<lparr>m_ptr := DataPtr d (i + 1)\<rparr>"
  assume "d < length (m_disks s)"
  then have "d < length (m_disks ?t)" by (simp add: image_put_def)
  then have "images (stored d i b s) = (images ?t)[d := images ?t ! d]"
    unfolding stored_def images_on_disk by (simp add: images_def)
  then show "images (stored d i b s) = images (image_put (d, i) b s)" by simp
next
  show "mounts (stored d i b s) = mounts s"
    by (simp add: stored_def image_put_def mounts_on_disk)
qed

lemma write_more:
  assumes "transferring d i (Suc n) s" "0 < n"
  obtains s' where "Fdc_Write 3 b s = Inr (m_irq s, s')" "transferring d (i + 1) n s'" "frame s s'"
    "images s' = images (image_put (d, i) b s)" "reg 0 s' = reg 0 s"
proof
  let ?s' = "set_reg 3 b ((stored d i b s)\<lparr>m_rwLen := int n, m_wait := 255\<rparr>)"
  have n: "n < 1024" and len: "length (m_regs s) = 5" "d < length (m_disks s)"
    using assms by (simp_all add: transferring_def)
  have "advance (stored d i b s) = (stored d i b s)\<lparr>m_rwLen := int n, m_wait := 255\<rparr>"
    using assms n by (intro advance_more) (simp_all add: transferring_def)
  then show "Fdc_Write 3 b s = Inr (m_irq s, ?s')" by (simp add: Fdc_Write_data [OF assms(1)])
  show "transferring d (i + 1) n ?s'" using assms by (simp add: transferring_def)
  show "images ?s' = images (image_put (d, i) b s)" using len by simp
  show "frame s ?s'" "reg 0 ?s' = reg 0 s" using len by (simp_all add: frame_def)
qed

lemma write_last:
  assumes "transferring d i 1 s"
  obtains s' where "Fdc_Write 3 b s = Inr (WD1793_IRQ, s')" "ended s s'"
    "images s' = images (image_put (d, i) b s)"
proof
  let ?t = "stored d i b s"
  let ?s' = "set_reg 3 b ((set_reg 0 (reg 0 ?t AND NOT (F_DRQ OR F_BUSY)) ?t)
    \<lparr>m_rwLen := 0, m_irq := WD1793_IRQ\<rparr>)"
  have len: "length (m_regs s) = 5" "d < length (m_disks s)" and rw: "m_rwLen ?t = 1"
    using assms by (simp_all add: transferring_def)
  then show "Fdc_Write 3 b s = Inr (WD1793_IRQ, ?s')"
    using Fdc_Write_data [of d i 0 s b] assms by (simp add: advance_last [OF rw])
  show "images ?s' = images (image_put (d, i) b s)" using len by simp
  show "ended s ?s'" using len by (simp add: ended_def frame_def)
qed

lemma write_bytes_spec:
  "transferring d i (length bs) s \<Longrightarrow> bs \<noteq> [] \<Longrightarrow>
    \<exists>s'. write_bytes bs s = Inr s' \<and> ended s s' \<and>
      images s' = images (write_block image_put (sector_block d i bs) s)"
proof (induction bs arbitrary: i s)
  case (Cons b bs)
  show ?case
  proof (cases "bs = []")
    case True
    with Cons.prems have "transferring d i 1 s" by simp
    then obtain s' where "Fdc_Write 3 b s = Inr (WD1793_IRQ, s')" "ended s s'"
      "images s' = images (image_put (d, i) b s)" by (rule write_last)
    with True show ?thesis by simp
  next
    case False
    then have "transferring d i (Suc (length bs)) s" "0 < length bs" using Cons.prems by simp_all
    then obtain s1 where s1: "Fdc_Write 3 b s = Inr (m_irq s, s1)" "transferring d (i + 1) (length bs) s1"
      "frame s s1" "images s1 = images (image_put (d, i) b s)" "reg 0 s1 = reg 0 s"
      by (rule write_more)
    obtain s' where "write_bytes bs s1 = Inr s'" "ended s1 s'"
      "images s' = images (write_block image_put (sector_block d (i + 1) bs) s1)"
      using Cons.IH [OF s1(2) False] by blast
    then show ?thesis
      using s1 images_block [OF s1(4)] frame_trans [OF s1(3), of s'] by (auto simp: ended_def)
  qed
qed simp

text \<open>Reading: the data register after each byte is the byte of the image.\<close>

definition fetched :: "u8 \<Rightarrow> nat \<Rightarrow> int \<Rightarrow> fdc \<Rightarrow> fdc" where
  "fetched v d i s =
    on_disk d (\<lambda>k. k\<lparr>fd_reads := fd_reads k + 1\<rparr>) (set_reg 3 v s\<lparr>m_ptr := DataPtr d (i + 1)\<rparr>)"

lemma Fdc_Read_data:
  "transferring d i (Suc n) s \<Longrightarrow>
    Fdc_Read 3 s = (let s' = advance (fetched (image_get s (d, i)) d i s) in Inr (reg 3 s', s'))"
  by (simp add: Fdc_Read_def read_data_def transferring_def fetched_def on_selected_def image_get_def Let_def)

lemma fetched_sel [simp]:
  "m_rwLen (fetched v d i s) = m_rwLen s" "m_ptr (fetched v d i s) = DataPtr d (i + 1)"
  "m_disk (fetched v d i s) = m_disk s" "length (m_regs (fetched v d i s)) = length (m_regs s)"
  "m_irq (fetched v d i s) = m_irq s"
  "m_drive (fetched v d i s) = m_drive s" "m_side (fetched v d i s) = m_side s"
  "m_track (fetched v d i s) = m_track s" "length (m_disks (fetched v d i s)) = length (m_disks s)"
  "length (m_regs s) = 5 \<Longrightarrow> reg j (fetched v d i s) = (if j = 3 then v else reg j s)"
  "mounts (fetched v d i s) = mounts s"
  by (simp_all add: fetched_def mounts_on_disk)

lemma fetched_images [simp]: "images (fetched v d i s) = images s"
  by (simp add: fetched_def images_on_disk_id)

lemma read_more:
  assumes "transferring d i (Suc n) s" "0 < n"
  obtains s' where "Fdc_Read 3 s = Inr (image_get s (d, i), s')" "transferring d (i + 1) n s'"
    "frame s s'" "images s' = images s" "reg 0 s' = reg 0 s"
proof
  let ?t = "fetched (image_get s (d, i)) d i s"
  let ?s' = "?t\<lparr>m_rwLen := int n, m_wait := 255\<rparr>"
  have n: "n < 1024" and len: "length (m_regs s) = 5" "d < length (m_disks s)"
    using assms by (simp_all add: transferring_def)
  have "advance ?t = ?s'" using assms n by (intro advance_more) (simp_all add: transferring_def)
  then show "Fdc_Read 3 s = Inr (image_get s (d, i), ?s')"
    using len by (simp add: Fdc_Read_data [OF assms(1)] Let_def)
  show "transferring d (i + 1) n ?s'" using assms by (simp add: transferring_def)
  show "frame s ?s'" "images ?s' = images s" "reg 0 ?s' = reg 0 s" using len by (simp_all add: frame_def)
qed

lemma read_last:
  assumes "transferring d i 1 s"
  obtains s' where "Fdc_Read 3 s = Inr (image_get s (d, i), s')" "ended s s'" "images s' = images s"
proof
  let ?t = "fetched (image_get s (d, i)) d i s"
  let ?s' = "(set_reg 0 (reg 0 ?t AND NOT (F_DRQ OR F_BUSY)) ?t)\<lparr>m_rwLen := 0, m_irq := WD1793_IRQ\<rparr>"
  have len: "length (m_regs s) = 5" "d < length (m_disks s)" and rw: "m_rwLen ?t = 1"
    using assms by (simp_all add: transferring_def)
  then show "Fdc_Read 3 s = Inr (image_get s (d, i), ?s')"
    using Fdc_Read_data [of d i 0 s] assms by (simp add: advance_last [OF rw] Let_def)
  show "images ?s' = images s" using len by simp
  show "ended s ?s'" using len by (simp add: ended_def frame_def)
qed

lemma read_bytes_spec:
  "transferring d i n s \<Longrightarrow> 0 < n \<Longrightarrow>
    \<exists>s'. read_bytes n s = Inr (map (\<lambda>j. image_get s (d, i + int j)) [0..<n], s') \<and> ended s s' \<and>
      images s' = images s"
proof (induction n arbitrary: i s)
  case (Suc n)
  have d: "d < length (m_disks s)" using Suc.prems by (simp add: transferring_def)
  show ?case
  proof (cases "n = 0")
    case True
    with Suc.prems have "transferring d i 1 s" by simp
    then obtain s' where "Fdc_Read 3 s = Inr (image_get s (d, i), s')" "ended s s'" "images s' = images s"
      by (rule read_last)
    with True show ?thesis by simp
  next
    case False
    then obtain s1 where s1: "Fdc_Read 3 s = Inr (image_get s (d, i), s1)" "transferring d (i + 1) n s1"
      "frame s s1" "images s1 = images s" "reg 0 s1 = reg 0 s"
      using Suc.prems by (auto elim: read_more)
    have get: "image_get s1 k = image_get s k" if "fst k = d" for k
      using s1(3,4) d that by (simp add: image_get_images frame_def)
    obtain s' where "read_bytes n s1 = Inr (map (\<lambda>j. image_get s1 (d, i + 1 + int j)) [0..<n], s')"
      "ended s1 s'" "images s' = images s1"
      using Suc.IH [OF s1(2)] False by blast
    moreover have "map (\<lambda>j. image_get s (d, i + int j)) [0..<Suc n] =
        image_get s (d, i) # map (\<lambda>j. image_get s (d, i + 1 + int j)) [0..<n]"
      by (simp add: upt_conv_Cons map_Suc_upt [symmetric] add.assoc o_def del: upt_Suc)
    ultimately show ?thesis
      using s1 frame_trans [OF s1(3), of s'] by (auto simp: ended_def get simp del: upt_Suc)
  qed
qed simp

text \<open>A command starts a transfer at the addressed sector.\<close>

definition ready_for :: "nat \<Rightarrow> fdc \<Rightarrow> bool" where
  "ready_for d s \<longleftrightarrow> m_disk s = Some d \<and> d < length (m_disks s) \<and> mounts s ! d \<and>
    length (m_regs s) = 5 \<and> uint (m_side s) \<le> 1 \<and> uint (reg 1 s) < FDD_TRACKS_PER_SIDE \<and>
    1 \<le> uint (reg 2 s) \<and> uint (reg 2 s) \<le> FDD_SECTORS_PER_TRACK"

definition sector_at :: "fdc \<Rightarrow> int" where
  "sector_at s = sector_offset (uint (m_side s)) (uint (reg 1 s)) (uint (reg 2 s))"

lemma sector_bounds:
  "ready_for d s \<Longrightarrow> 0 \<le> sector_at s \<and> sector_at s + 1024 \<le> FDD_SIZE"
proof -
  assume r: "ready_for d s"
  define side track sector where "side = uint (m_side s)" and "track = uint (reg 1 s)"
    and "sector = uint (reg 2 s)"
  have "0 \<le> side" "side \<le> 1" "0 \<le> track" "track < 82" "1 \<le> sector" "sector \<le> 5"
    using r by (simp_all add: ready_for_def fdd_consts side_def track_def sector_def)
  moreover have "sector_at s = (5 * (track * 2 + side) + (sector - 1)) * 1024"
    using calculation
    by (simp add: sector_at_def sector_offset_def fdd_consts side_def track_def sector_def Let_def)
  ultimately show ?thesis by (simp add: fdd_consts)
qed

lemma uint_less_2: "uint (w :: u8) \<le> 1 \<Longrightarrow> of_int (uint w) = w"
  by simp

lemma start_command:
  assumes "ready_for d s" "reg 0 s AND F_BUSY = 0" "v = 0x80 \<or> v = 0xA0"
  obtains s' where "Fdc_Write 0 v s = Inr (WD1793_DRQ, s')" "transferring d (sector_at s) 1024 s'"
    "images s' = images s" "frame s s'" "reg 0 s' = F_BUSY OR F_DRQ"
proof -
  let ?s = "(set_reg 0 0 (s\<lparr>m_irq := 0\<rparr>))\<lparr>m_cmd := v\<rparr>"
  have r: "length (m_regs s) = 5" "m_disk s = Some d" "d < length (m_disks s)" "fd_mounted (m_disks s ! d)"
    using assms(1) by (auto simp: ready_for_def mounts_def)
  let ?h = "on_disk d (\<lambda>k. k\<lparr>fd_header := (fd_header k)[0 := of_int (uint (reg 1 s)),
    1 := of_int (uint (m_side s)), 2 := of_int (uint (reg 2 s))]\<rparr>) ?s"
  let ?p = "?h\<lparr>m_ptr := DataPtr d (sector_at s)\<rparr>"
  have seek: "seek_registers v ?s = ?p"
    using r assms(3) by (auto simp: seek_registers_def Seek_def command_side_def sector_at_def C_SIDECOMP_def)
  let ?t = "start_transfer v ?p"
  have t: "transferring d (sector_at s) 1024 ?t" "images ?t = images s" "frame s ?t"
    "reg 0 ?t = F_BUSY OR F_DRQ" "m_irq ?t = WD1793_DRQ"
    using r assms(3) sector_bounds [OF assms(1)]
    by (auto simp: start_transfer_def transferring_def FDD_SECTOR_LEN_def frame_def images_on_disk_id
        mounts_on_disk)
  have w: "Fdc_Write 0 v s = (case dispatch_command v ?s of Inl e \<Rightarrow> Inl e | Inr s1 \<Rightarrow> Inr (m_irq s1, s1))"
    using assms(2,3) by (auto simp: Fdc_Write_def write_port_def write_command_def Let_def)
  let ?u = "on_disk d (\<lambda>k. k\<lparr>fd_updated := True\<rparr>) ?t"
  have u: "transferring d (sector_at s) 1024 ?u" "images ?u = images s" "frame s ?u"
    "reg 0 ?u = F_BUSY OR F_DRQ" "m_irq ?u = WD1793_DRQ"
    using t by (simp_all add: transferring_def frame_def images_on_disk_id mounts_on_disk)
  show ?thesis
  proof (cases "v = 0x80")
    case True
    then have "dispatch_command v ?s = Inr ?t"
      using seek by (simp add: dispatch_command_def cmd_read_sectors_def Let_def)
    then have "Fdc_Write 0 v s = Inr (m_irq ?t, ?t)" by (simp only: w sum.case)
    with t show ?thesis by (intro that [of ?t]) simp_all
  next
    case False
    then have "dispatch_command v ?s = Inr ?u"
      using seek assms(3) t(1)
      by (simp add: dispatch_command_def cmd_write_sectors_def on_selected_def transferring_def Let_def)
    then have "Fdc_Write 0 v s = Inr (m_irq ?u, ?u)" by (simp only: w sum.case)
    with u show ?thesis by (intro that [of ?u]) simp_all
  qed
qed

section \<open>The watchdog\<close>

lemma watchdog_step:
  assumes "length (m_regs s) = 5" "m_wait s \<noteq> 0"
  shows "m_wait (snd (read_ready s)) = m_wait s - 1"
    "length (m_regs (snd (read_ready s))) = 5"
    "m_wait s = 1 \<Longrightarrow> m_rwLen (snd (read_ready s)) = 0 \<and> m_irq (snd (read_ready s)) = WD1793_IRQ \<and>
      reg 0 (snd (read_ready s)) = (reg 0 s AND NOT (F_DRQ OR F_BUSY)) OR F_LOSTDATA"
    "m_wait s \<noteq> 1 \<Longrightarrow> snd (read_ready s) = s\<lparr>m_wait := m_wait s - 1\<rparr>"
  using assms by (simp_all add: read_ready_def Let_def)

lemma watchdog_run:
  "length (m_regs s) = 5 \<Longrightarrow> unat (m_wait s) = Suc n \<Longrightarrow>
    (let s' = ((snd \<circ> read_ready) ^^ Suc n) s
     in m_rwLen s' = 0 \<and> m_irq s' = WD1793_IRQ \<and>
        reg 0 s' = (reg 0 s AND NOT (F_DRQ OR F_BUSY)) OR F_LOSTDATA)"
proof (induction n arbitrary: s)
  case 0
  then have "m_wait s = 1" by (simp add: word_unat_eq_iff)
  with 0 watchdog_step [of s] show ?case by (simp add: Let_def)
next
  case (Suc n)
  then have w: "m_wait s \<noteq> 0" "m_wait s \<noteq> 1" by auto
  then have "unat (m_wait s - 1) = Suc n" using Suc.prems by (simp add: unat_minus_one)
  moreover have "snd (read_ready s) = s\<lparr>m_wait := m_wait s - 1\<rparr>"
    using watchdog_step(4) [OF Suc.prems(1)] w by blast
  ultimately show ?case
    using Suc.IH [of "snd (read_ready s)"] Suc.prems by (simp add: funpow_Suc_right del: funpow.simps)
qed

section \<open>The state reached by any use of the controller\<close>

definition fdc_inv :: "fdc \<Rightarrow> bool" where
  "fdc_inv s \<longleftrightarrow> length (m_disks s) = 4 \<and> length (m_regs s) = 5 \<and> uint (m_side s) \<le> 1 \<and>
    unat (m_drive s) < 4 \<and>
    (case m_disk s of None \<Rightarrow> True | Some d \<Rightarrow> d = unat (m_drive s) \<and> mounts s ! d)"

definition keeps :: "fdc \<Rightarrow> fdc \<Rightarrow> bool" where
  "keeps s s' \<longleftrightarrow> length (m_disks s') = length (m_disks s) \<and> length (m_regs s') = length (m_regs s) \<and>
    m_side s' = m_side s \<and> m_drive s' = m_drive s \<and> m_disk s' = m_disk s \<and> mounts s' = mounts s"

lemma keeps_inv: "keeps s s' \<Longrightarrow> fdc_inv s \<Longrightarrow> fdc_inv s'"
  by (auto simp: keeps_def fdc_inv_def split: option.splits)

lemma keeps_refl [simp]: "keeps s s"
  by (simp add: keeps_def)

lemma keeps_trans: "keeps s t \<Longrightarrow> keeps t u \<Longrightarrow> keeps s u"
  by (simp add: keeps_def)

lemma keeps_set_reg [simp]: "keeps s (set_reg i v t) = keeps s t"
  by (simp add: keeps_def)

lemma keeps_upd [simp]:
  "keeps s (t\<lparr>m_rwLen := x\<rparr>) = keeps s t" "keeps s (t\<lparr>m_wait := w\<rparr>) = keeps s t"
  "keeps s (t\<lparr>m_irq := w\<rparr>) = keeps s t" "keeps s (t\<lparr>m_ptr := q\<rparr>) = keeps s t"
  "keeps s (t\<lparr>m_cmd := w\<rparr>) = keeps s t" "keeps s (t\<lparr>m_track := w\<rparr>) = keeps s t"
  "keeps s (t\<lparr>m_lastS := w\<rparr>) = keeps s t"
  by (simp_all add: keeps_def mounts_def)

lemma keeps_on_disk:
  "(\<And>k. fd_mounted (g k) = fd_mounted k) \<Longrightarrow> keeps s (on_disk d g t) = keeps s t"
  by (simp add: keeps_def mounts_on_disk)

lemma keeps_on_selected:
  "(\<And>k. fd_mounted (g k) = fd_mounted k) \<Longrightarrow> on_selected g t = Inr s' \<Longrightarrow> keeps s t \<Longrightarrow> keeps s s'"
  by (auto simp: on_selected_def keeps_on_disk split: option.splits)

lemma keeps_advance [simp]: "keeps s (advance t) = keeps s t"
  by (simp add: advance_def Let_def)

lemma keeps_Seek: "keeps s t \<Longrightarrow> keeps s (snd (Seek a b c t))"
  by (simp add: Seek_def keeps_on_disk split: option.split)

lemma keeps_read:
  "Fdc_Read port s = Inr (v, s') \<Longrightarrow> keeps s s'"
proof -
  have "keeps s (snd (read_status s))" "keeps s (snd (read_ready s))"
    by (simp_all add: read_status_def read_ready_def Let_def)
  moreover have "read_data s = Inr (v, s') \<Longrightarrow> keeps s s'"
    by (auto simp: read_data_def Let_def split: if_splits sum.splits dest!: keeps_on_selected [rotated])
  ultimately show "Fdc_Read port s = Inr (v, s') \<Longrightarrow> keeps s s'"
    by (auto simp: Fdc_Read_def split: if_splits)
qed

lemma keeps_first_sector: "keeps s t \<Longrightarrow> keeps s (first_sector js t)"
proof (induction js arbitrary: t)
  case (Cons j js)
  then show ?case using keeps_Seek [OF Cons.prems, of "uint (m_side t)" "uint (m_track t)" j]
    by (simp add: case_prod_beta Let_def)
qed simp

lemma keeps_store: "store_ptr p v t = Inr s' \<Longrightarrow> keeps s t \<Longrightarrow> keeps s s'"
  by (cases p) (auto simp: keeps_on_disk split: if_splits)

lemma keeps_fill: "fill_ptr p v n t = Inr s' \<Longrightarrow> keeps s t \<Longrightarrow> keeps s s'"
  by (cases p) (auto simp: keeps_on_disk split: if_splits)

lemma keeps_format: "format_side side t = Inr s' \<Longrightarrow> keeps s t \<Longrightarrow> keeps s s'"
  using keeps_Seek [of s t side "uint (reg 1 t)" 1]
  by (auto simp: format_side_def case_prod_beta Let_def split: if_splits sum.splits
      elim!: keeps_on_selected [rotated] keeps_fill)

lemma keeps_dispatch: "dispatch_command v t = Inr s' \<Longrightarrow> keeps s t \<Longrightarrow> keeps s s'"
proof -
  assume k: "keeps s t"
  have seek: "keeps s (seek_registers v t)"
    using keeps_Seek [OF k] by (simp add: seek_registers_def case_prod_beta Let_def)
  have "keeps s (cmd_restore v t)" "keeps s (cmd_seek v t)" "keeps s (cmd_step v t)"
    using k by (simp_all add: cmd_restore_def cmd_seek_def cmd_step_def Let_def case_prod_beta)
  moreover have "keeps s (cmd_read_sectors v t)"
    using seek by (simp add: cmd_read_sectors_def not_found_def start_transfer_def Let_def)
  moreover have "cmd_write_sectors v t = Inr s' \<Longrightarrow> keeps s s'"
    using seek by (auto simp: cmd_write_sectors_def not_found_def start_transfer_def Let_def
        split: if_splits elim!: keeps_on_selected [rotated])
  moreover have "keeps s (cmd_read_address t)"
    using k keeps_first_sector [OF k] by (simp add: cmd_read_address_def Let_def)
  moreover have "cmd_write_track t = Inr s' \<Longrightarrow> keeps s s'"
    using k by (auto simp: cmd_write_track_def split: sum.splits if_splits elim!: keeps_format)
  ultimately show "dispatch_command v t = Inr s' \<Longrightarrow> keeps s s'"
    using k by (auto simp: dispatch_command_def Let_def split: if_splits)
qed

lemma keeps_write:
  assumes "Fdc_Write port v s = Inr (r, s')" "port \<noteq> 4"
  shows "keeps s s'"
proof -
  have "write_command v s = Inr s' \<Longrightarrow> keeps s s'"
    by (auto simp: write_command_def cmd_force_def Let_def split: if_splits elim!: keeps_dispatch)
  moreover have "write_data v s = Inr s' \<Longrightarrow> keeps s s'"
    by (auto simp: write_data_def split: if_splits sum.splits
        dest!: keeps_store [where s = s] elim!: keeps_on_selected [rotated])
  ultimately show ?thesis
    using assms by (auto simp: Fdc_Write_def write_port_def split: if_splits sum.splits)
qed

lemma write_system_inv: "fdc_inv s \<Longrightarrow> fdc_inv (write_system v s)"
proof -
  have "v AND S_DRIVE \<le> S_DRIVE" by (rule word_and_le1)
  then have "unat (v AND S_DRIVE) < 4" by (simp add: word_le_nat_alt S_DRIVE_def)
  moreover have "uint (drop_bit 2 (NOT v) AND 1) \<le> 1"
    by (simp add: uint_and int_and_masks)
  ultimately show "fdc_inv s \<Longrightarrow> fdc_inv (write_system v s)"
    by (auto simp: fdc_inv_def write_system_def Let_def mounts_def)
qed

inductive fdc_reach :: "fdc \<Rightarrow> bool" where
  reach_new: "fdc_reach Fdc_new"
| reach_read: "fdc_reach s \<Longrightarrow> Fdc_Read port s = Inr (v, s') \<Longrightarrow> fdc_reach s'"
| reach_write: "fdc_reach s \<Longrightarrow> Fdc_Write port v s = Inr (r, s') \<Longrightarrow> fdc_reach s'"
| reach_mount: "fdc_reach s \<Longrightarrow> Fdc_Mount i bytes path s = Inr s' \<Longrightarrow> fdc_reach s'"
| reach_dismount: "fdc_reach s \<Longrightarrow> Fdc_Dismount i s = Inr s' \<Longrightarrow> fdc_reach s'"
| reach_reset_update: "fdc_reach s \<Longrightarrow> ResetUpdate i s = Inr s' \<Longrightarrow> fdc_reach s'"

lemma fdc_new_inv: "fdc_inv Fdc_new"
  by (simp add: fdc_inv_def Fdc_new_def Fdc_Reset_def DRIVES_MAX_def)

lemma mounts_disks [simp]:
  "mounts (s\<lparr>m_disks := (m_disks s)[d := k]\<rparr>) = (mounts s)[d := fd_mounted k]"
  "mounts (on_disk d g s) = (mounts s)[d := fd_mounted (g (m_disks s ! d))]"
  "length (mounts s) = length (m_disks s)"
  by (simp_all add: mounts_def map_update on_disk_def)

lemma mounts_other [simp]:
  "mounts (s\<lparr>m_disk := x\<rparr>) = mounts s" "mounts (Fdc_Reset s) = mounts s"
  by (simp_all add: mounts_def Fdc_Reset_def)

lemma Fdc_Reset_sel [simp]:
  "m_disks (Fdc_Reset s) = m_disks s" "m_disk (Fdc_Reset s) = m_disk s"
  "m_drive (Fdc_Reset s) = m_drive s" "m_side (Fdc_Reset s) = 0" "length (m_regs (Fdc_Reset s)) = 5"
  by (simp_all add: Fdc_Reset_def)

lemma nth_update_True: "j < length xs \<Longrightarrow> xs ! j \<Longrightarrow> xs[i := True] ! j"
  by (cases "i = j") simp_all

lemma mount_inv: "Fdc_Mount i bytes path s = Inr s' \<Longrightarrow> fdc_inv s \<Longrightarrow> fdc_inv s'"
  by (auto simp: Fdc_Mount_def FDisk_Mount_def fdc_inv_def Let_def
      split: if_splits sum.splits option.splits intro!: nth_update_True)

lemma dismount_inv: "Fdc_Dismount i s = Inr s' \<Longrightarrow> fdc_inv s \<Longrightarrow> fdc_inv s'"
proof -
  have "nat i \<noteq> unat (m_drive s)" if "i \<noteq> uint (m_drive s)" "0 \<le> i"
    using that by (metis int_nat_eq uint_nat)
  then show "Fdc_Dismount i s = Inr s' \<Longrightarrow> fdc_inv s \<Longrightarrow> fdc_inv s'"
    by (auto simp: Fdc_Dismount_def on_drive_def FDisk_Dismount_def fdc_inv_def
        Let_def nth_list_update split: if_splits option.splits)
qed

lemma reset_update_inv: "ResetUpdate i s = Inr s' \<Longrightarrow> fdc_inv s \<Longrightarrow> fdc_inv s'"
  by (auto simp: ResetUpdate_def on_drive_def keeps_on_disk split: if_splits intro: keeps_inv [rotated])

lemma fdc_reach_inv: "fdc_reach s \<Longrightarrow> fdc_inv s"
proof (induction rule: fdc_reach.induct)
  case (reach_write s port v r s')
  show ?case
  proof (cases "port = 4")
    case True
    with reach_write show ?thesis by (auto simp: Fdc_Write_def write_port_def write_system_inv)
  next
    case False
    with reach_write show ?thesis using keeps_write keeps_inv by blast
  qed
qed (auto simp: fdc_new_inv intro: mount_inv dismount_inv reset_update_inv keeps_inv [OF keeps_read])

section \<open>Sector operations\<close>

definition write_sector :: "u8 list \<Rightarrow> fdc \<Rightarrow> fdc_error + fdc" where
  "write_sector bs s =
    (case Fdc_Write 0 0xA0 s of Inl e \<Rightarrow> Inl e | Inr (v, s1) \<Rightarrow> write_bytes bs s1)"

definition read_sector :: "fdc \<Rightarrow> fdc_error + (u8 list \<times> fdc)" where
  "read_sector s =
    (case Fdc_Write 0 0x80 s of Inl e \<Rightarrow> Inl e | Inr (v, s1) \<Rightarrow> read_bytes 1024 s1)"

lemma ready_for_frame: "frame s s' \<Longrightarrow> ready_for d s \<Longrightarrow> ready_for d s'"
  by (simp add: ready_for_def frame_def)

lemma sector_at_frame: "frame s s' \<Longrightarrow> sector_at s' = sector_at s"
  by (simp add: sector_at_def frame_def)

lemma busy_cleared: "(b AND NOT (F_DRQ OR F_BUSY)) AND F_BUSY = 0"
  by (rule bit_word_eqI) (auto simp: bit_simps F_DRQ_def F_BUSY_def)

lemma write_sector_spec:
  assumes "ready_for d s" "reg 0 s AND F_BUSY = 0" "length bs = 1024"
  obtains s1 where "write_sector bs s = Inr s1" "frame s s1" "m_irq s1 = WD1793_IRQ"
    "reg 0 s1 AND F_BUSY = 0"
    "images s1 = images (write_block image_put (sector_block d (sector_at s) bs) s)"
proof -
  obtain s0 where s0: "Fdc_Write 0 0xA0 s = Inr (WD1793_DRQ, s0)" "transferring d (sector_at s) 1024 s0"
    "images s0 = images s" "frame s s0"
    using start_command [OF assms(1,2)] by metis
  moreover have "bs \<noteq> []" using assms(3) by auto
  ultimately obtain s1 where "write_bytes bs s0 = Inr s1" "ended s0 s1"
    "images s1 = images (write_block image_put (sector_block d (sector_at s) bs) s0)"
    using write_bytes_spec [of d "sector_at s" bs s0] assms(3) by auto
  then show ?thesis
    using s0 images_block [OF s0(3)] frame_trans [OF s0(4)]
    by (intro that [of s1]) (auto simp: write_sector_def ended_def busy_cleared [simplified])
qed

lemma read_sector_spec:
  assumes "ready_for d s" "reg 0 s AND F_BUSY = 0"
  obtains s1 where
    "read_sector s = Inr (map (\<lambda>j. image_get s (d, sector_at s + int j)) [0..<1024], s1)"
    "m_irq s1 = WD1793_IRQ" "images s1 = images s"
proof -
  obtain s0 where s0: "Fdc_Write 0 0x80 s = Inr (WD1793_DRQ, s0)" "transferring d (sector_at s) 1024 s0"
    "images s0 = images s" "frame s s0"
    using start_command [OF assms] by metis
  moreover have "image_get s0 (d, j) = image_get s (d, j)" for j
    using s0 assms(1) by (simp add: image_get_images frame_def ready_for_def)
  ultimately show ?thesis
    using read_bytes_spec [OF s0(2)] that by (auto simp: read_sector_def ended_def)
qed

section \<open>Properties\<close>

definition sample_fdc :: "u8 \<Rightarrow> u8 \<Rightarrow> fdc" where
  "sample_fdc track sector =
    Fdc_new\<lparr>m_disks := replicate 4 (FDisk_new\<lparr>fd_mounted := True\<rparr>), m_disk := Some 0,
      m_regs := [0, track, sector, 0, 0]\<rparr>"

lemma sample_ready:
  "uint track < 82 \<Longrightarrow> 1 \<le> uint sector \<Longrightarrow> uint sector \<le> 5 \<Longrightarrow> ready_for 0 (sample_fdc track sector)"
  "reg 0 (sample_fdc track sector) = 0" "reg 1 (sample_fdc track sector) = track"
  "reg 2 (sample_fdc track sector) = sector"
  "m_disk (sample_fdc track sector) = Some 0" "length (m_disks (sample_fdc track sector)) = 4"
  "fd_mounted (m_disks (sample_fdc track sector) ! 0)"
  "length (m_regs (sample_fdc track sector)) = 5"
  by (simp_all add: ready_for_def sample_fdc_def Fdc_new_def Fdc_Reset_def mounts_def reg_def fdd_consts)

text \<open>C21: A sector written with WRITE-SECTORS and 1024 data bytes is what READ-SECTORS and 1024 reads
  of the data register return, both end with an interrupt request and without an access outside
  the image, and no other byte of any disk changes.\<close>

theorem sector_roundtrip:
  assumes "ready_for d s" "reg 0 s AND F_BUSY = 0" "length bs = 1024"
  shows "\<exists>s1 s2. write_sector bs s = Inr s1 \<and> m_irq s1 = WD1793_IRQ \<and>
    read_sector s1 = Inr (bs, s2) \<and> m_irq s2 = WD1793_IRQ \<and>
    (\<forall>e i. e < length (m_disks s) \<longrightarrow> e \<noteq> d \<or> i < sector_at s \<or> sector_at s + 1024 \<le> i \<longrightarrow>
      image_get s2 (e, i) = image_get s (e, i))"
proof -
  let ?kvs = "sector_block d (sector_at s) bs"
  let ?w = "write_block image_put ?kvs s"
  obtain s1 where s1: "write_sector bs s = Inr s1" "frame s s1" "m_irq s1 = WD1793_IRQ"
    "reg 0 s1 AND F_BUSY = 0" "images s1 = images ?w"
    using write_sector_spec [OF assms] by blast
  obtain s2 where s2: "read_sector s1 = Inr (map (\<lambda>j. image_get s1 (d, sector_at s + int j)) [0..<1024], s2)"
    "m_irq s2 = WD1793_IRQ" "images s2 = images s1"
    using read_sector_spec [OF ready_for_frame [OF s1(2) assms(1)] s1(4)] sector_at_frame [OF s1(2)] by metis
  have "length (images t) = length (m_disks t)" for t by (simp add: images_def)
  then have len: "length (m_disks s1) = length (m_disks s)" "length (m_disks s2) = length (m_disks s)"
    "length (m_disks ?w) = length (m_disks s)" "d < length (m_disks s)"
    using s1(2,5) s2(3) assms(1) by (simp_all add: frame_def ready_for_def) metis+
  have get: "image_get s1 (e, i) = image_get ?w (e, i)" "image_get s2 (e, i) = image_get ?w (e, i)"
    if "e < length (m_disks s)" for e i
    using s1(5) s2(3) len that by (simp_all add: image_get_images)
  have ok: "\<forall>k \<in> set (map fst ?kvs). image_ok s k"
    using sector_block_keys [of d "sector_at s" bs] len(4) by (auto simp: image_ok_def)
  have "image_get s1 (d, sector_at s + int j) = bs ! j" if "j < 1024" for j
    using image_store.read_write_block [OF ok sector_block_distinct sector_block_nth] that assms(3) len(4)
    by (simp add: get)
  then have "map (\<lambda>j. image_get s1 (d, sector_at s + int j)) [0..<1024] = bs"
    using assms(3) by (simp add: list_eq_iff_nth_eq)
  moreover have "image_get s2 (e, i) = image_get s (e, i)"
    if "e < length (m_disks s)" "e \<noteq> d \<or> i < sector_at s \<or> sector_at s + 1024 \<le> i" for e i
    using image_store.read_write_block_other [OF ok, of "(e, i)"] sector_block_keys [of d "sector_at s" bs]
      that assms(3) by (auto simp: get image_ok_def)
  ultimately show ?thesis using s1 s2 by auto
qed

theorem sector_roundtrip_witness:
  "\<exists>s1 s2. write_sector (replicate 1024 7) (sample_fdc 81 5) = Inr s1 \<and>
    read_sector s1 = Inr (replicate 1024 7, s2)"
proof -
  have "ready_for 0 (sample_fdc 81 5)" by (rule sample_ready) simp_all
  then show ?thesis
    using sector_roundtrip [of 0 "sample_fdc 81 5" "replicate 1024 7"] by (auto simp: sample_ready)
qed

text \<open>A transfer the CPU abandons ends by itself: after as many reads of the READY port as the
  watchdog counter holds, no data is pending, BUSY and DRQ are clear, LOST DATA is set and an
  interrupt is requested.\<close>

theorem fdc_watchdog:
  assumes "length (m_regs s) = 5" "m_wait s \<noteq> 0"
  shows "let s' = ((snd \<circ> read_ready) ^^ unat (m_wait s)) s
    in m_rwLen s' = 0 \<and> m_irq s' = WD1793_IRQ \<and>
      reg 0 s' = (reg 0 s AND NOT (F_DRQ OR F_BUSY)) OR F_LOSTDATA"
proof -
  have "unat (m_wait s) \<noteq> 0" using assms(2) by (simp add: unat_eq_zero)
  then obtain n where "unat (m_wait s) = Suc n" by (cases "unat (m_wait s)") auto
  then show ?thesis using watchdog_run [OF assms(1)] by metis
qed

theorem fdc_watchdog_witness:
  "m_rwLen (((snd \<circ> read_ready) ^^ 255) ((sample_fdc 0 1)\<lparr>m_rwLen := 1024, m_wait := 255\<rparr>)) = 0"
  using fdc_watchdog [of "(sample_fdc 0 1)\<lparr>m_rwLen := 1024, m_wait := 255\<rparr>"]
  by (simp add: sample_ready Let_def del: funpow.simps)

text \<open>C22: In every state the controller can reach through its ports, mounts and dismounts, there are
  four disks and five registers, the side is 0 or 1, and a selected disk is the mounted disk of
  the selected drive.\<close>

theorem fdc_invariant: "fdc_reach s \<Longrightarrow> fdc_inv s"
  by (rule fdc_reach_inv)

theorem fdc_invariant_witness:
  "\<exists>s. Fdc_Write 4 0x31 Fdc_new = Inr (0, s) \<and> fdc_inv s \<and> m_drive s = 1"
proof -
  obtain r s where w: "Fdc_Write 4 0x31 Fdc_new = Inr (r, s)" "r = 0" "m_drive s = 1"
    by (simp add: Fdc_Write_def write_port_def write_system_def Fdc_new_def Fdc_Reset_def S_DRIVE_def
        set_reg_def Let_def)
  then show ?thesis using fdc_invariant [OF fdc_reach.reach_write [OF fdc_reach.reach_new w(1)]] by blast
qed

text \<open>The track register is not checked against the disk: READ-SECTORS on track 82 or above
  reports a transfer, and the first read of the data register is outside the image.\<close>

theorem fdc_read_past_end:
  assumes "m_disk s = Some d" "d < length (m_disks s)" "fd_mounted (m_disks s ! d)" "length (m_regs s) = 5"
    "reg 0 s AND F_BUSY = 0" "82 \<le> uint (reg 1 s)"
  shows "\<exists>s'. Fdc_Write 0 0x80 s = Inr (WD1793_DRQ, s') \<and> Fdc_Read 3 s' = Inl BadAccess"
proof -
  let ?s = "(set_reg 0 0 (s\<lparr>m_irq := 0\<rparr>))\<lparr>m_cmd := 0x80\<rparr>"
  let ?t = "seek_registers 0x80 ?s"
  let ?off = "sector_offset (uint (m_side s)) (uint (reg 1 s)) (uint (reg 2 s))"
  have t: "m_ptr ?t = DataPtr d ?off"
    using assms(1-4) by (simp add: seek_registers_def Seek_def command_side_def C_SIDECOMP_def Let_def)
  define side track adjusted where "side = uint (m_side s)" and "track = uint (reg 1 s)"
    and "adjusted = max 0 (uint (reg 2 s) - 1)"
  have "0 \<le> side" "82 \<le> track" "0 \<le> adjusted"
    using assms(6) by (simp_all add: side_def track_def adjusted_def)
  then have "FDD_SIZE \<le> (5 * (track * 2 + side) + adjusted) * 1024" by (simp add: fdd_consts)
  then have "FDD_SIZE \<le> ?off"
    by (simp add: sector_offset_def fdd_consts Let_def side_def track_def adjusted_def)
  then have "Fdc_Read 3 (start_transfer 0x80 ?t) = Inl BadAccess"
    using t by (simp add: Fdc_Read_def read_data_def start_transfer_def FDD_SECTOR_LEN_def)
  moreover have "Fdc_Write 0 0x80 s = Inr (WD1793_DRQ, start_transfer 0x80 ?t)"
    using assms(5) t by (simp add: Fdc_Write_def write_port_def write_command_def dispatch_command_def
        cmd_read_sectors_def Let_def start_transfer_def)
  ultimately show ?thesis by blast
qed

theorem fdc_read_past_end_witness:
  "\<exists>s'. Fdc_Write 0 0x80 (sample_fdc 82 1) = Inr (WD1793_DRQ, s') \<and> Fdc_Read 3 s' = Inl BadAccess"
  by (rule fdc_read_past_end [of _ 0]) (simp_all add: sample_ready del: One_nat_def)

text \<open>Selecting a drive without a disk in the middle of a transfer leaves the transfer pending
  while the disk pointer is null, so the next read of the data register uses the null pointer.\<close>

theorem fdc_deselect_faults:
  assumes "m_rwLen s \<noteq> 0" "\<not> fd_mounted (m_disks s ! unat (v AND S_DRIVE))"
  shows "\<exists>r s'. Fdc_Write 4 v s = Inr (r, s') \<and> Fdc_Read 3 s' = Inl BadAccess"
proof -
  have "load_ptr q t = Inl e \<Longrightarrow> e = BadAccess" for q t e by (cases e) simp
  then show ?thesis
    using assms
    by (auto simp: Fdc_Write_def write_port_def write_system_def Fdc_Read_def read_data_def on_selected_def
        Let_def set_reg_def split: sum.split)
qed

theorem fdc_deselect_faults_witness:
  "\<exists>r s'. Fdc_Write 4 1 (Fdc_new\<lparr>m_rwLen := 1024\<rparr>) = Inr (r, s') \<and> Fdc_Read 3 s' = Inl BadAccess"
  by (rule fdc_deselect_faults)
    (simp_all add: Fdc_new_def Fdc_Reset_def DRIVES_MAX_def S_DRIVE_def FDisk_new_def)

end
