(* ===== verification/IO_Ports.thy ===== *)
theory IO_Ports
  imports Memory Keyboard Timer_I8253 Sound_AY8910 Fdc_WD1793
begin

unbundle bit_operations_syntax

text \<open>
  The port space of \<^verbatim>\<open>core/io.h\<close> and \<^verbatim>\<open>io.cpp\<close>: the two parallel interfaces, the
  dispatch of IN and OUT to the keyboard, timer, sound chip, disk controller and memory mapping,
  and the delayed commit of OUT, palette and display mode in 12 MHz pixels. The lemmas show when
  each of the three becomes visible and what the ports read back.
\<close>

section \<open>State\<close>

text \<open>The three timers are signed bytes in the code; \<open>int8\<close> is the conversion to one.\<close>

definition int8 :: "int \<Rightarrow> int" where
  "int8 z = signed_take_bit 7 z"

record io_state =
  palette :: "u8 list"
  p_CW :: u8
  p_A :: u8
  p_B :: u8
  p_C :: u8
  p_CW2 :: u8
  p_A2 :: u8
  p_B2 :: u8
  p_C2 :: u8
  ruslatHistory :: u32
  outport :: u8
  outbyte :: u8
  outCommitTimer :: int
  paletteCommitTimer :: int
  displayModeTimer :: int
  joy0 :: u8
  joy1 :: u8
  hwColor :: u8
  reqDisplayMode :: bool
  brdColorIdx :: "4 word"
  displayMode :: bool
  ruslat :: bool

text \<open>
  \<^verbatim>\<open>IO\<close> and the devices it refers to. \<open>io_fault\<close> records that a device made an access the
  code does not check. \<open>debug_out\<close> lists what an OUT to the test port 0xED prints: the call of the
  debug callback, which is set when \<open>debug_hooked\<close>, and the line of the log.
\<close>

datatype test_print = Debug_callback u8 u8 | Debug_log u8

record io =
  io_st :: io_state
  m_portsInData :: "u8 list"
  m_portsOutData :: "u8 list"
  m_outCommitTime :: int
  m_paletteCommitTime :: int
  m_displayModeTime :: int
  io_keyboard :: keyboard
  io_timer :: timer
  io_ay :: ay_wrapper
  io_fdc :: fdc
  io_fault :: bool
  debug_hooked :: bool
  debug_out :: "test_print list"

definition OUT_COMMIT_TIME :: int where "OUT_COMMIT_TIME = 1"
definition PALETTE_COMMIT_TIME :: int where "PALETTE_COMMIT_TIME = 5"
definition DISPLAY_MODE_COMMIT_TIME :: int where "DISPLAY_MODE_COMMIT_TIME = 2 * 4"
definition PALETTE_LEN :: nat where "PALETTE_LEN = 16"
definition MODE_256 :: bool where "MODE_256 = False"

definition upd_io :: "(io_state \<Rightarrow> io_state) \<Rightarrow> io \<Rightarrow> io" where
  "upd_io g x = x\<lparr>io_st := g (io_st x)\<rparr>"

definition IO_Init :: "io \<Rightarrow> io" where
  "IO_Init = upd_io (\<lambda>s. s\<lparr>p_CW := 0x08, p_CW2 := 0, p_A := 0xFF, p_B := 0xFF, p_C := 0xFF, p_A2 := 0xFF,
    p_B2 := 0xFF, p_C2 := 0xFF, joy0 := 0xFF, joy1 := 0xFF, outport := 0, outbyte := 0, hwColor := 0,
    brdColorIdx := 0, palette := replicate PALETTE_LEN 0, ruslat := False, displayMode := MODE_256,
    outCommitTimer := 0, paletteCommitTimer := 0, displayModeTimer := 0, ruslatHistory := 0\<rparr>)"

section \<open>IN\<close>

definition read_port_c :: "io \<Rightarrow> u8" where
  "read_port_c x =
    (let s = io_st x; kb = io_keyboard x;
         portCLow = (if p_CW s AND 0x01 \<noteq> 0 then 0x0b else p_C s AND 0x0f);
         portCHigh = (if p_CW s AND 0x08 \<noteq> 0
           then (if keySS kb then 0 else 0x20) OR (if keyUS kb then 0 else 0x40) OR (if keyRus kb then 0 else 0x80)
           else p_C s AND 0xf0)
     in portCLow OR portCHigh)"

definition fdc_in :: "int \<Rightarrow> io \<Rightarrow> u8 \<times> io" where
  "fdc_in port x =
    (case Fdc_Read port (io_fdc x) of
       Inl e \<Rightarrow> (0xFF, x\<lparr>io_fault := True\<rparr>)
     | Inr (v, f) \<Rightarrow> (v, x\<lparr>io_fdc := f\<rparr>))"

definition timer_in :: "u8 \<Rightarrow> io \<Rightarrow> u8 \<times> io" where
  "timer_in port x =
    (let (v, t) = Timer_Read (NOT (uint (port AND 3))) (io_timer x) in (word_of_int v, x\<lparr>io_timer := t\<rparr>))"

definition PortInHandling :: "u8 \<Rightarrow> io \<Rightarrow> u8 \<times> io" where
  "PortInHandling port x =
    (let s = io_st x in
     if port = 0x00 then (0xFF, x)
     else if port = 0x01 then (read_port_c x, x)
     else if port = 0x02 then
       ((if p_CW s AND 0x02 \<noteq> 0 then Keyboard_Read (uint (p_A s)) (io_keyboard x) else p_B s), x)
     else if port = 0x03 then ((if p_CW s AND 0x10 = 0 then p_A s else 0xFF), x)
     else if port = 0x04 then (p_CW2 s, x)
     else if port = 0x05 then (p_C2 s, x)
     else if port = 0x06 then (p_B2 s, x)
     else if port = 0x07 then (p_A2 s, x)
     else if port \<in> {0x08, 0x09, 0x0a, 0x0b} then timer_in port x
     else if port = 0x0e then (joy0 s, x)
     else if port = 0x0f then (joy1 s, x)
     else if port = 0x14 \<or> port = 0x15 then (word_of_int (AY_Read (uint (port AND 1)) (chip (io_ay x))), x)
     else if port = 0x18 then fdc_in 3 x
     else if port = 0x19 then fdc_in 2 x
     else if port = 0x1a then fdc_in 1 x
     else if port = 0x1b then fdc_in 0 x
     else if port = 0x1c then fdc_in 4 x
     else (0xFF, x))"

definition PortIn :: "u8 \<Rightarrow> io \<Rightarrow> u8 \<times> io" where
  "PortIn port x =
    (let (out, x1) = PortInHandling port x
     in (out, x1\<lparr>m_portsInData := (m_portsInData x1)[unat port := out]\<rparr>))"

section \<open>OUT: the effect at commit time\<close>

definition out_c :: "u8 \<Rightarrow> io \<Rightarrow> io" where
  "out_c v = upd_io (\<lambda>s.
    let rl = bit (p_C s) 3
    in s\<lparr>ruslat := rl, ruslatHistory := push_bit 1 (ruslatHistory s) + (if rl then 1 else 0), p_C := v\<rparr>)"

definition out_b :: "u8 \<Rightarrow> io \<Rightarrow> io" where
  "out_b v = upd_io (\<lambda>s. s\<lparr>p_B := v, brdColorIdx := ucast (v AND 0x0f), reqDisplayMode := (v AND 0x10 \<noteq> 0)\<rparr>)"

definition out_a :: "u8 \<Rightarrow> io \<Rightarrow> io" where
  "out_a v = upd_io (\<lambda>s. s\<lparr>p_A := v\<rparr>)"

definition out_control :: "u8 \<Rightarrow> io \<Rightarrow> io" where
  "out_control v x =
    (let x1 = upd_io (\<lambda>s. s\<lparr>ruslat := bit (p_C s) 3\<rparr>) x
     in if v AND 0x80 = 0
        then (let n = unat (drop_bit 1 v AND 7)
              in upd_io (\<lambda>s. s\<lparr>p_C := (if v AND 1 = 1 then p_C s OR push_bit n 1
                                       else p_C s AND NOT (push_bit n 1))\<rparr>) x1)
        else out_a 0 (out_b 0 (out_c 0 (upd_io (\<lambda>s. s\<lparr>p_CW := v\<rparr>) x1))))"

definition fdc_out :: "int \<Rightarrow> u8 \<Rightarrow> io \<Rightarrow> io" where
  "fdc_out port v x =
    (case Fdc_Write port v (io_fdc x) of
       Inl e \<Rightarrow> x\<lparr>io_fault := True\<rparr>
     | Inr (r, f) \<Rightarrow> x\<lparr>io_fdc := f\<rparr>)"

definition ramdisk_port :: "u8 \<Rightarrow> nat option" where
  "ramdisk_port port =
    map_of [(0x10, 0), (0x11, 1), (0x20, 2), (0x21, 3), (0x40, 4), (0x41, 5), (0x80, 6), (0x81, 7)] port"

definition PortOutHandling :: "u8 \<Rightarrow> u8 \<Rightarrow> io \<times> memory \<Rightarrow> io \<times> memory" where
  "PortOutHandling port v xm =
    (let (x, m) = xm in
     case ramdisk_port port of
       Some d \<Rightarrow> (x, SetRamDiskMode d v m)
     | None \<Rightarrow>
        ((if port = 0x00 then out_control v x
          else if port = 0x01 then out_c v x
          else if port = 0x02 then out_b v x
          else if port = 0x03 then out_a v x
          else if port = 0x04 then upd_io (\<lambda>s. s\<lparr>p_CW2 := v\<rparr>) x
          else if port = 0x05 then upd_io (\<lambda>s. s\<lparr>p_C2 := v\<rparr>) x
          else if port = 0x06 then upd_io (\<lambda>s. s\<lparr>p_B2 := v\<rparr>) x
          else if port = 0x07 then upd_io (\<lambda>s. s\<lparr>p_A2 := v\<rparr>) x
          else if port \<in> {0x08, 0x09, 0x0a, 0x0b}
            then x\<lparr>io_timer := Timer_Write (NOT (uint port) AND 3) v (io_timer x)\<rparr>
          else if port \<in> {0x0C, 0x0D, 0x0E, 0x0F} then upd_io (\<lambda>s. s\<lparr>hwColor := v\<rparr>) x
          else if port = 0x14 \<or> port = 0x15
            then x\<lparr>io_ay := (io_ay x)\<lparr>chip := AY_Write (uint (port AND 1)) (uint v) (chip (io_ay x))\<rparr>\<rparr>
          else if port = 0x18 then fdc_out 3 v x
          else if port = 0x19 then fdc_out 2 v x
          else if port = 0x1a then fdc_out 1 v x
          else if port = 0x1b then fdc_out 0 v x
          else if port = 0x1c then fdc_out 4 v x
          else if port = 0xED
            then x\<lparr>debug_out := debug_out x @ (if debug_hooked x then [Debug_callback port v] else []) @ [Debug_log v]\<rparr>
          else x), m))"

section \<open>OUT: the delay\<close>

definition PortOut :: "u8 \<Rightarrow> u8 \<Rightarrow> io \<Rightarrow> io" where
  "PortOut port v x =
    (let x1 = upd_io (\<lambda>s. s\<lparr>outport := port, outbyte := v, outCommitTimer := int8 (m_outCommitTime x)\<rparr>)
         (x\<lparr>m_portsOutData := (m_portsOutData x)[unat port := v]\<rparr>)
     in if port \<in> {0x0C, 0x0D, 0x0E, 0x0F}
        then upd_io (\<lambda>s. s\<lparr>paletteCommitTimer := int8 (m_paletteCommitTime x)\<rparr>) x1
        else if port = 0x02
        then upd_io (\<lambda>s. s\<lparr>displayModeTimer := int8 (m_displayModeTime x)\<rparr>) x1
        else x1)"

definition PortOutCommit :: "io \<times> memory \<Rightarrow> io \<times> memory" where
  "PortOutCommit xm = PortOutHandling (outport (io_st (fst xm))) (outbyte (io_st (fst xm))) xm"

definition SetColor :: "u8 \<Rightarrow> io \<Rightarrow> io" where
  "SetColor idx = upd_io (\<lambda>s. s\<lparr>palette := (palette s)[unat idx := hwColor s]\<rparr>)"

definition commit_out :: "io \<times> memory \<Rightarrow> io \<times> memory" where
  "commit_out xm =
    (let (x, m) = xm
     in if 0 < outCommitTimer (io_st x)
        then (let x1 = upd_io (\<lambda>s. s\<lparr>outCommitTimer := outCommitTimer s - 1\<rparr>) x
              in if outCommitTimer (io_st x1) = 0 then PortOutCommit (x1, m) else (x1, m))
        else xm)"

definition commit_palette :: "u8 \<Rightarrow> io \<Rightarrow> io" where
  "commit_palette colorIdx x =
    (if 0 < paletteCommitTimer (io_st x)
     then (let x1 = upd_io (\<lambda>s. s\<lparr>paletteCommitTimer := paletteCommitTimer s - 1\<rparr>) x
           in if paletteCommitTimer (io_st x1) = 0 then SetColor colorIdx x1 else x1)
     else x)"

definition commit_mode :: "io \<Rightarrow> io" where
  "commit_mode x =
    (if 0 < displayModeTimer (io_st x)
     then (let x1 = upd_io (\<lambda>s. s\<lparr>displayModeTimer := displayModeTimer s - 1\<rparr>) x
           in if displayModeTimer (io_st x1) = 0
              then upd_io (\<lambda>s. s\<lparr>displayMode := reqDisplayMode s\<rparr>) x1 else x1)
     else x)"

definition TryToCommit :: "u8 \<Rightarrow> io \<times> memory \<Rightarrow> io \<times> memory" where
  "TryToCommit colorIdx xm =
    (let (x, m) = commit_out xm in (commit_mode (commit_palette colorIdx x), m))"

section \<open>Views\<close>

definition GetColor :: "io \<Rightarrow> u8 \<Rightarrow> u8" where "GetColor x i = palette (io_st x) ! unat i"
definition GetBorderColorIdx :: "io \<Rightarrow> u8" where "GetBorderColorIdx x = ucast (brdColorIdx (io_st x))"
definition GetBorderColor :: "io \<Rightarrow> u8" where "GetBorderColor x = palette (io_st x) ! unat (brdColorIdx (io_st x))"
definition GetScroll :: "io \<Rightarrow> u8" where "GetScroll x = p_A (io_st x)"
definition GetDisplayMode :: "io \<Rightarrow> bool" where "GetDisplayMode x = displayMode (io_st x)"
definition GetBeeper :: "io \<Rightarrow> u8" where "GetBeeper x = p_C (io_st x) AND 1"
definition SetPaletteEntry :: "u8 \<Rightarrow> u8 \<Rightarrow> io \<Rightarrow> io" where
  "SetPaletteEntry idx c = upd_io (\<lambda>s. s\<lparr>palette := (palette s)[unat idx := c]\<rparr>)"
definition SetPaletteCommitTime :: "int \<Rightarrow> io \<Rightarrow> io" where
  "SetPaletteCommitTime t x = x\<lparr>m_paletteCommitTime := t\<rparr>"

section \<open>Commit times\<close>

lemma upd_io_sel [simp]:
  "io_st (upd_io g x) = g (io_st x)" "io_fdc (upd_io g x) = io_fdc x"
  "io_keyboard (upd_io g x) = io_keyboard x" "m_portsInData (upd_io g x) = m_portsInData x"
  "m_outCommitTime (upd_io g x) = m_outCommitTime x" "m_paletteCommitTime (upd_io g x) = m_paletteCommitTime x"
  "m_displayModeTime (upd_io g x) = m_displayModeTime x"
  by (simp_all add: upd_io_def)

lemma commit_mode_sel [simp]:
  "palette (io_st (commit_mode x)) = palette (io_st x)"
  "paletteCommitTimer (io_st (commit_mode x)) = paletteCommitTimer (io_st x)"
  "outport (io_st (commit_mode x)) = outport (io_st x)"
  "outbyte (io_st (commit_mode x)) = outbyte (io_st x)"
  "outCommitTimer (io_st (commit_mode x)) = outCommitTimer (io_st x)"
  "hwColor (io_st (commit_mode x)) = hwColor (io_st x)"
  "reqDisplayMode (io_st (commit_mode x)) = reqDisplayMode (io_st x)"
  by (simp_all add: commit_mode_def Let_def)

lemma commit_palette_sel [simp]:
  "outport (io_st (commit_palette c x)) = outport (io_st x)"
  "outbyte (io_st (commit_palette c x)) = outbyte (io_st x)"
  "outCommitTimer (io_st (commit_palette c x)) = outCommitTimer (io_st x)"
  "hwColor (io_st (commit_palette c x)) = hwColor (io_st x)"
  "displayModeTimer (io_st (commit_palette c x)) = displayModeTimer (io_st x)"
  "displayMode (io_st (commit_palette c x)) = displayMode (io_st x)"
  "reqDisplayMode (io_st (commit_palette c x)) = reqDisplayMode (io_st x)"
  by (simp_all add: commit_palette_def SetColor_def Let_def)

lemma PortOutHandling_colour:
  "port \<in> {0x0C, 0x0D, 0x0E, 0x0F} \<Longrightarrow>
    PortOutHandling port v (x, m) = (upd_io (\<lambda>s. s\<lparr>hwColor := v\<rparr>) x, m)"
  by (elim insertE) (simp_all add: PortOutHandling_def ramdisk_port_def)

lemma PortOutHandling_b: "PortOutHandling 2 v (x, m) = (out_b v x, m)"
  by (simp add: PortOutHandling_def ramdisk_port_def)

text \<open>The state \<open>n\<close> pixels after an OUT of a colour, and of port 2.\<close>

definition colour_sent :: "nat \<Rightarrow> u8 \<Rightarrow> u8 \<Rightarrow> io_state \<Rightarrow> bool" where
  "colour_sent n port v s \<longleftrightarrow>
    paletteCommitTimer s = max 0 (5 - int n) \<and> outport s = port \<and> outbyte s = v \<and>
    (if n = 0 then outCommitTimer s = 1 else outCommitTimer s = 0 \<and> hwColor s = v)"

definition mode_sent :: "nat \<Rightarrow> u8 \<Rightarrow> io_state \<Rightarrow> bool" where
  "mode_sent n v s \<longleftrightarrow>
    displayModeTimer s = max 0 (8 - int n) \<and> outport s = 2 \<and> outbyte s = v \<and>
    (if n = 0 then outCommitTimer s = 1 else outCommitTimer s = 0 \<and> reqDisplayMode s = (v AND 0x10 \<noteq> 0))"

lemma commit_out_colour:
  assumes "colour_sent n port v (io_st x)" "port \<in> {0x0C, 0x0D, 0x0E, 0x0F}"
  obtains x' where "commit_out (x, m) = (x', m)" "io_st x' = (io_st x)\<lparr>outCommitTimer := 0, hwColor := v\<rparr>"
proof (cases "n = 0")
  case True
  with assms show ?thesis
    by (intro that [of "upd_io (\<lambda>s. s\<lparr>outCommitTimer := 0, hwColor := v\<rparr>) x"])
      (simp_all add: commit_out_def PortOutCommit_def PortOutHandling_colour colour_sent_def upd_io_def)
next
  case False
  with assms(1) show ?thesis by (intro that [of x]) (simp_all add: commit_out_def colour_sent_def)
qed

lemma commit_out_mode:
  assumes "mode_sent n v (io_st x)"
  obtains x' where "commit_out (x, m) = (x', m)" "reqDisplayMode (io_st x') = (v AND 0x10 \<noteq> 0)"
    "outCommitTimer (io_st x') = 0" "outport (io_st x') = 2" "outbyte (io_st x') = v"
    "displayModeTimer (io_st x') = displayModeTimer (io_st x)" "displayMode (io_st x') = displayMode (io_st x)"
proof (cases "n = 0")
  case True
  with assms show ?thesis
    by (intro that [of "out_b v (upd_io (\<lambda>s. s\<lparr>outCommitTimer := outCommitTimer s - 1\<rparr>) x)"])
      (simp_all add: commit_out_def PortOutCommit_def PortOutHandling_b mode_sent_def out_b_def)
next
  case False
  with assms show ?thesis by (intro that [of x]) (simp_all add: commit_out_def mode_sent_def)
qed

lemma colour_step:
  assumes "colour_sent n port v (io_st (fst xm))" "port \<in> {0x0C, 0x0D, 0x0E, 0x0F}"
  shows "colour_sent (Suc n) port v (io_st (fst (TryToCommit c xm)))"
    "palette (io_st (fst (TryToCommit c xm))) =
      (if n = 4 then (palette (io_st (fst xm)))[unat c := v] else palette (io_st (fst xm)))"
proof -
  obtain x m where xm: "xm = (x, m)" by (cases xm)
  obtain x' where x': "commit_out (x, m) = (x', m)" "io_st x' = (io_st x)\<lparr>outCommitTimer := 0, hwColor := v\<rparr>"
    using commit_out_colour assms xm by (metis fst_conv)
  have t: "paletteCommitTimer (io_st x) = max 0 (5 - int n)" "outport (io_st x) = port"
    "outbyte (io_st x) = v"
    using assms(1) by (simp_all add: xm colour_sent_def)
  have "paletteCommitTimer (io_st (commit_palette c x')) = max 0 (5 - int (Suc n)) \<and>
    palette (io_st (commit_palette c x')) = (if n = 4 then (palette (io_st x))[unat c := v] else palette (io_st x))"
    using t by (auto simp: commit_palette_def SetColor_def x'(2) max_def)
  then show "colour_sent (Suc n) port v (io_st (fst (TryToCommit c xm)))"
    "palette (io_st (fst (TryToCommit c xm))) =
      (if n = 4 then (palette (io_st (fst xm)))[unat c := v] else palette (io_st (fst xm)))"
    using t by (simp_all add: xm TryToCommit_def x' colour_sent_def)
qed

lemma mode_step:
  assumes "mode_sent n v (io_st (fst xm))"
  shows "mode_sent (Suc n) v (io_st (fst (TryToCommit c xm)))"
    "displayMode (io_st (fst (TryToCommit c xm))) =
      (if n = 7 then v AND 0x10 \<noteq> 0 else displayMode (io_st (fst xm)))"
proof -
  obtain x m where xm: "xm = (x, m)" by (cases xm)
  have "mode_sent n v (io_st x)" using assms by (simp add: xm)
  then obtain x1 where x1: "commit_out (x, m) = (x1, m)" "reqDisplayMode (io_st x1) = (v AND 0x10 \<noteq> 0)"
    "outCommitTimer (io_st x1) = 0" "outport (io_st x1) = 2" "outbyte (io_st x1) = v"
    "displayModeTimer (io_st x1) = displayModeTimer (io_st x)" "displayMode (io_st x1) = displayMode (io_st x)"
    by (rule commit_out_mode)
  let ?p = "commit_palette c x1"
  have t: "displayModeTimer (io_st ?p) = max 0 (8 - int n)"
    using assms x1 by (simp add: xm mode_sent_def)
  have "displayModeTimer (io_st (commit_mode ?p)) = max 0 (8 - int (Suc n)) \<and>
    displayMode (io_st (commit_mode ?p)) = (if n = 7 then v AND 0x10 \<noteq> 0 else displayMode (io_st x))"
    using t x1(2,7) by (cases "n < 8"; cases "n = 7") (simp_all add: commit_mode_def max_def Let_def)
  then show "mode_sent (Suc n) v (io_st (fst (TryToCommit c xm)))"
    "displayMode (io_st (fst (TryToCommit c xm))) =
      (if n = 7 then v AND 0x10 \<noteq> 0 else displayMode (io_st (fst xm)))"
    using x1 by (simp_all add: xm TryToCommit_def mode_sent_def)
qed

lemma colour_run:
  "colour_sent 0 port v (io_st (fst xm)) \<Longrightarrow> port \<in> {0x0C, 0x0D, 0x0E, 0x0F} \<Longrightarrow>
    colour_sent (length cs) port v (io_st (fst (fold TryToCommit cs xm))) \<and>
    palette (io_st (fst (fold TryToCommit cs xm))) =
      (if length cs < 5 then palette (io_st (fst xm)) else (palette (io_st (fst xm)))[unat (cs ! 4) := v])"
proof (induction cs rule: rev_induct)
  case (snoc c cs)
  then show ?case
    using colour_step [of "length cs" port v "fold TryToCommit cs xm" c] by (simp add: nth_append)
qed simp

lemma mode_run:
  "mode_sent 0 v (io_st (fst xm)) \<Longrightarrow>
    mode_sent (length cs) v (io_st (fst (fold TryToCommit cs xm))) \<and>
    displayMode (io_st (fst (fold TryToCommit cs xm))) =
      (if length cs < 8 then displayMode (io_st (fst xm)) else v AND 0x10 \<noteq> 0)"
proof (induction cs rule: rev_induct)
  case (snoc c cs)
  then show ?case using mode_step [of "length cs" v "fold TryToCommit cs xm" c] by simp
qed simp

text \<open>The OUT itself takes effect with the first pixel, and once.\<close>

lemma out_ports_timer:
  "outCommitTimer (io_st (out_a v x)) = outCommitTimer (io_st x)" "outCommitTimer (io_st (out_b v x)) = outCommitTimer (io_st x)"
  "outCommitTimer (io_st (out_c v x)) = outCommitTimer (io_st x)" "outCommitTimer (io_st (out_control v x)) = outCommitTimer (io_st x)"
  "io_st (fdc_out p v x) = io_st x"
  by (simp_all add: out_a_def out_b_def out_c_def out_control_def fdc_out_def Let_def split: sum.split)

lemma io_part_timer:
  "outCommitTimer (io_st (upd_io (\<lambda>s. s\<lparr>p_CW2 := v\<rparr>) x)) = outCommitTimer (io_st x)"
  "outCommitTimer (io_st (upd_io (\<lambda>s. s\<lparr>p_A2 := v\<rparr>) x)) = outCommitTimer (io_st x)"
  "outCommitTimer (io_st (upd_io (\<lambda>s. s\<lparr>p_B2 := v\<rparr>) x)) = outCommitTimer (io_st x)"
  "outCommitTimer (io_st (upd_io (\<lambda>s. s\<lparr>p_C2 := v\<rparr>) x)) = outCommitTimer (io_st x)"
  "outCommitTimer (io_st (upd_io (\<lambda>s. s\<lparr>hwColor := v\<rparr>) x)) = outCommitTimer (io_st x)"
  "io_st (x\<lparr>io_timer := t\<rparr>) = io_st x" "io_st (x\<lparr>io_ay := w\<rparr>) = io_st x" "io_st (x\<lparr>debug_out := ps\<rparr>) = io_st x"
  by simp_all

lemma PortOutHandling_timer:
  "outCommitTimer (io_st (fst (PortOutHandling port v (x, m)))) = outCommitTimer (io_st x)"
  by (cases "ramdisk_port port")
    (simp_all only: PortOutHandling_def Let_def prod.case option.case fst_conv if_distrib [of io_st] if_distrib [of outCommitTimer]
      out_ports_timer io_part_timer if_cancel)

lemma PortOutHandling_mapping: "snd (PortOutHandling port v (x, m)) = snd (PortOutHandling port v (y, m))"
  by (cases "ramdisk_port port") (simp_all only: PortOutHandling_def Let_def prod.case option.case snd_conv)

definition sent :: "u8 \<Rightarrow> u8 \<Rightarrow> io \<Rightarrow> io" where
  "sent port v x = upd_io (\<lambda>s. s\<lparr>outCommitTimer := 0\<rparr>) (PortOut port v x)"

lemma first_pixel:
  assumes "m_outCommitTime x = OUT_COMMIT_TIME"
  shows "TryToCommit c (PortOut port v x, m) =
    (let (y, n) = PortOutHandling port v (sent port v x, m) in (commit_mode (commit_palette c y), n))"
proof -
  have t: "outCommitTimer (io_st (PortOut port v x)) = 1" "outport (io_st (PortOut port v x)) = port"
    "outbyte (io_st (PortOut port v x)) = v"
    using assms by (simp_all add: PortOut_def Let_def OUT_COMMIT_TIME_def int8_def)
  have "upd_io (\<lambda>s. s\<lparr>outCommitTimer := outCommitTimer s - 1\<rparr>) (PortOut port v x) = sent port v x"
    using t(1) by (simp add: sent_def upd_io_def)
  then show ?thesis
    by (simp add: TryToCommit_def commit_out_def PortOutCommit_def t Let_def) (simp add: sent_def t)
qed

lemma later_pixels: "outCommitTimer (io_st (fst xm)) = 0 \<Longrightarrow> snd (fold TryToCommit cs xm) = snd xm"
proof (induction cs arbitrary: xm)
  case (Cons c cs)
  obtain x m where xm: "xm = (x, m)" by (cases xm)
  with Cons.prems have "TryToCommit c xm = (commit_mode (commit_palette c x), m)"
    by (simp add: TryToCommit_def commit_out_def)
  with Cons xm show ?case by simp
qed simp

lemma mapping_run:
  assumes "m_outCommitTime x = OUT_COMMIT_TIME"
  shows "snd (fold TryToCommit cs (PortOut port v x, m)) = (if cs = [] then m else snd (PortOutHandling port v (x, m)))"
proof (cases cs)
  case (Cons c rest)
  obtain y n where y: "PortOutHandling port v (sent port v x, m) = (y, n)" by fastforce
  have "outCommitTimer (io_st y) = 0"
    using PortOutHandling_timer [of port v "sent port v x" m] by (simp add: y) (simp add: sent_def)
  then show ?thesis
    using PortOutHandling_mapping [of port v "sent port v x" m x] later_pixels
    by (simp add: Cons first_pixel [OF assms] y)
qed simp

section \<open>The parallel interface\<close>

definition set_ppi :: "u8 \<Rightarrow> u8 \<Rightarrow> u8 \<Rightarrow> u8 \<Rightarrow> io \<times> memory \<Rightarrow> io \<times> memory" where
  "set_ppi cw a b c xm =
    PortOutHandling 1 c (PortOutHandling 2 b (PortOutHandling 3 a (PortOutHandling 0 cw xm)))"

definition bit_command :: "nat \<Rightarrow> bool \<Rightarrow> u8" where
  "bit_command n b = push_bit 1 (of_nat n) OR (if b then 1 else 0)"

lemma PortOutHandling_ppi:
  "PortOutHandling 0 v (x, m) = (out_control v x, m)"
  "PortOutHandling 1 v (x, m) = (out_c v x, m)"
  "PortOutHandling 2 v (x, m) = (out_b v x, m)"
  "PortOutHandling 3 v (x, m) = (out_a v x, m)"
  by (simp_all add: PortOutHandling_def ramdisk_port_def)

lemma ppi_state:
  assumes "cw AND 0x80 \<noteq> 0"
  shows "p_A (io_st (fst (set_ppi cw a b c xm))) = a" "p_B (io_st (fst (set_ppi cw a b c xm))) = b"
    "p_C (io_st (fst (set_ppi cw a b c xm))) = c" "p_CW (io_st (fst (set_ppi cw a b c xm))) = cw"
    "io_keyboard (fst (set_ppi cw a b c xm)) = io_keyboard (fst xm)"
proof -
  obtain x m where "xm = (x, m)" by (cases xm)
  then show "p_A (io_st (fst (set_ppi cw a b c xm))) = a" "p_B (io_st (fst (set_ppi cw a b c xm))) = b"
    "p_C (io_st (fst (set_ppi cw a b c xm))) = c" "p_CW (io_st (fst (set_ppi cw a b c xm))) = cw"
    "io_keyboard (fst (set_ppi cw a b c xm)) = io_keyboard (fst xm)"
    using assms by (simp_all add: set_ppi_def PortOutHandling_ppi out_control_def out_a_def out_b_def
        out_c_def Let_def)
qed

lemma PortIn_ppi:
  "fst (PortIn 3 x) = (if p_CW (io_st x) AND 0x10 = 0 then p_A (io_st x) else 0xFF)"
  "fst (PortIn 2 x) = (if p_CW (io_st x) AND 0x02 = 0 then p_B (io_st x)
    else Keyboard_Read (uint (p_A (io_st x))) (io_keyboard x))"
  "fst (PortIn 1 x) = read_port_c x"
  by (simp_all add: PortIn_def PortInHandling_def)

lemma read_port_c_output: "p_CW (io_st x) AND 0x09 = 0 \<Longrightarrow> read_port_c x = p_C (io_st x)"
proof -
  assume cw: "p_CW (io_st x) AND 0x09 = 0"
  have "w AND 0x01 = (w AND 0x09) AND 0x01" "w AND 0x08 = (w AND 0x09) AND 0x08" for w :: u8
    by (simp_all add: and.assoc)
  then have "p_CW (io_st x) AND 0x01 = 0" "p_CW (io_st x) AND 0x08 = 0"
    using cw by (metis bit.conj_zero_left)+
  moreover have "w AND 0x0F OR w AND 0xF0 = w" for w :: u8
  proof -
    have "w AND 0x0F OR w AND 0xF0 = w AND (0x0F OR 0xF0)" by (simp only: bit.conj_disj_distrib)
    also have "(0x0F OR 0xF0 :: u8) = - 1" by simp
    finally show ?thesis by simp
  qed
  ultimately show ?thesis by (simp add: read_port_c_def Let_def)
qed

lemma bit_command_bits:
  assumes "n < 8"
  shows "bit_command n on AND 0x80 = 0" "unat (drop_bit 1 (bit_command n on) AND 7) = n"
    "(bit_command n on AND 1 = 1) = on"
proof -
  have "n \<in> {0, 1, 2, 3, 4, 5, 6, 7}" using assms by auto
  then show "bit_command n on AND 0x80 = 0" "unat (drop_bit 1 (bit_command n on) AND 7) = n"
    "(bit_command n on AND 1 = 1) = on"
    by (elim insertE; cases on; simp add: bit_command_def)+
qed

section \<open>Properties\<close>

text \<open>C23: With the default times an OUT takes effect with the first pixel after it: the port's handler
  runs then, before the palette and the mode are looked at, and a RAM-disk mapping changes then and not
  again. A colour sent to ports 0x0C to 0x0F enters the palette with the fifth pixel, at the colour
  index the beam shows then, and a display mode sent to port 2 is switched with the eighth; before and
  after those pixels the palette and the mode stay as they are, when no other OUT is on its way.\<close>

theorem out_commit_times:
  assumes "m_outCommitTime x = OUT_COMMIT_TIME" "m_paletteCommitTime x = PALETTE_COMMIT_TIME"
    "m_displayModeTime x = DISPLAY_MODE_COMMIT_TIME" "port \<in> {0x0C, 0x0D, 0x0E, 0x0F}"
  shows "palette (io_st (fst (fold TryToCommit cs (PortOut port v x, m)))) =
      (if length cs < 5 then palette (io_st x) else (palette (io_st x))[unat (cs ! 4) := v]) \<and>
    displayMode (io_st (fst (fold TryToCommit cs (PortOut 0x02 v x, m)))) =
      (if length cs < 8 then displayMode (io_st x) else v AND 0x10 \<noteq> 0) \<and>
    TryToCommit c (PortOut any v x, m) =
      (let (y, n) = PortOutHandling any v (sent any v x, m) in (commit_mode (commit_palette c y), n)) \<and>
    snd (fold TryToCommit cs (PortOut any v x, m)) = (if cs = [] then m else snd (PortOutHandling any v (x, m)))"
proof -
  have "colour_sent 0 port v (io_st (PortOut port v x))" "palette (io_st (PortOut port v x)) = palette (io_st x)"
    using assms by (auto simp: colour_sent_def PortOut_def Let_def OUT_COMMIT_TIME_def PALETTE_COMMIT_TIME_def int8_def)
  moreover have "mode_sent 0 v (io_st (PortOut 0x02 v x))"
    "displayMode (io_st (PortOut 0x02 v x)) = displayMode (io_st x)"
    using assms by (simp_all add: mode_sent_def PortOut_def Let_def OUT_COMMIT_TIME_def
        DISPLAY_MODE_COMMIT_TIME_def int8_def)
  ultimately show ?thesis
    using colour_run [of port v "(PortOut port v x, m)" cs] mode_run [of v "(PortOut 0x02 v x, m)" cs] assms(4)
      first_pixel [OF assms(1), of c any v m] mapping_run [OF assms(1), of cs any v m]
    by (simp only: fst_conv)
qed

text \<open>The first parallel interface reads back what was sent to it: with a control word that makes a
  port an output, IN returns the last OUT; port B as input is the keyboard read with port A as
  row select. A bit command changes the named bit of port C and no other.\<close>

theorem ppi_readback:
  assumes "cw AND 0x80 \<noteq> 0" "n < 8"
  shows "fst (PortIn 3 (fst (set_ppi cw a b c xm))) = (if cw AND 0x10 = 0 then a else 0xFF) \<and>
    fst (PortIn 2 (fst (set_ppi cw a b c xm))) =
      (if cw AND 0x02 = 0 then b else Keyboard_Read (uint a) (io_keyboard (fst xm))) \<and>
    (cw AND 0x09 = 0 \<longrightarrow> fst (PortIn 1 (fst (set_ppi cw a b c xm))) = c) \<and>
    (\<forall>k < 8. bit (p_C (io_st (fst (PortOutHandling 0 (bit_command n on) xm)))) k =
      (if k = n then on else bit (p_C (io_st (fst xm))) k))"
proof -
  obtain x m where xm: "xm = (x, m)" by (cases xm)
  have "bit (p_C (io_st (fst (PortOutHandling 0 (bit_command n on) xm)))) k =
      (if k = n then on else bit (p_C (io_st x)) k)" if "k < 8" for k
    using assms(2) that
    by (simp add: xm PortOutHandling_ppi out_control_def bit_command_bits [simplified] Let_def bit_simps)
  then show ?thesis
    using ppi_state [OF assms(1), of a b c xm] read_port_c_output [of "fst (set_ppi cw a b c xm)"]
    by (simp add: PortIn_ppi xm)
qed

definition sample_io :: io where
  "sample_io = IO_Init \<lparr>io_st = \<lparr>palette = [], p_CW = 0, p_A = 0, p_B = 0, p_C = 0, p_CW2 = 0, p_A2 = 0,
      p_B2 = 0, p_C2 = 0, ruslatHistory = 0, outport = 0, outbyte = 0, outCommitTimer = 0,
      paletteCommitTimer = 0, displayModeTimer = 0, joy0 = 0, joy1 = 0, hwColor = 0,
      reqDisplayMode = False, brdColorIdx = 0, displayMode = False, ruslat = False\<rparr>,
    m_portsInData = replicate 256 0, m_portsOutData = replicate 256 0, m_outCommitTime = OUT_COMMIT_TIME,
    m_paletteCommitTime = PALETTE_COMMIT_TIME, m_displayModeTime = DISPLAY_MODE_COMMIT_TIME,
    io_keyboard = Keyboard_new, io_timer = \<lparr>counters = [], controlWord = 0\<rparr>,
    io_ay = \<lparr>chip = AY_Init, last_sample = (0, 1), ayAccu = 0\<rparr>, io_fdc = Fdc_new,
    io_fault = False, debug_hooked = False, debug_out = []\<rparr>"

theorem ppi_readback_witness:
  "fst (PortIn 3 (fst (set_ppi 0x80 0x12 0x34 0x56 (sample_io, sample_memory)))) = 0x12 \<and>
    fst (PortIn 1 (fst (set_ppi 0x80 0x12 0x34 0x56 (sample_io, sample_memory)))) = 0x56"
  using ppi_readback [of "0x80" 0 "0x12" "0x34" "0x56" "(sample_io, sample_memory)" True] by simp

theorem out_commit_times_witness:
  "palette (io_st (fst (fold TryToCommit [1, 2, 3, 4, 5, 6] (PortOut 0x0C 0x77 sample_io, sample_memory)))) =
    (replicate 16 0)[5 := 0x77]"
proof -
  have s: "m_outCommitTime sample_io = OUT_COMMIT_TIME" "m_paletteCommitTime sample_io = PALETTE_COMMIT_TIME"
    "m_displayModeTime sample_io = DISPLAY_MODE_COMMIT_TIME" "palette (io_st sample_io) = replicate 16 0"
    by (simp_all add: sample_io_def IO_Init_def PALETTE_LEN_def)
  have "palette (io_st (fst (fold TryToCommit [1, 2, 3, 4, 5, 6] (PortOut 0x0C 0x77 sample_io, sample_memory)))) =
      (if length [1, 2, 3, 4, 5, 6 :: u8] < 5 then palette (io_st sample_io)
       else (palette (io_st sample_io))[unat ([1, 2, 3, 4, 5, 6 :: u8] ! 4) := 0x77])"
    by (rule out_commit_times [OF s(1-3), THEN conjunct1]) simp
  also have "\<dots> = (replicate 16 0)[5 := 0x77]" by (simp add: s(4))
  finally show ?thesis .
qed

end
