(* ===== verification/Display.thy ===== *)
theory Display
  imports IO_Ports "HOL-Library.Signed_Division"
begin

text \<open>
  The rasteriser of \<^verbatim>\<open>display.cpp\<close>: 16 pixels per call in a frame of 312 lines of 768
  pixels, the border and the active area in both screen modes with and without pending port
  commits, scrolling, the interrupt request, the frame counter, and the copy of a frame for the
  outside. The lemmas show the timing of a frame, that the fast paths draw what the careful paths
  draw, the colour of every active pixel, and what \<^verbatim>\<open>GetFrame\<close> delivers.
\<close>

section \<open>Constants and state\<close>

definition FRAME_W :: int where "FRAME_W = 768"
definition FRAME_H :: int where "FRAME_H = 312"
definition FRAME_LEN :: int where "FRAME_LEN = FRAME_W * FRAME_H"
definition SCAN_VSYNC :: int where "SCAN_VSYNC = 24"
definition SCAN_VBLANK_TOP :: int where "SCAN_VBLANK_TOP = 16"
definition SCAN_ACTIVE_AREA_TOP :: int where "SCAN_ACTIVE_AREA_TOP = SCAN_VSYNC + SCAN_VBLANK_TOP"
definition ACTIVE_AREA_W :: int where "ACTIVE_AREA_W = 512"
definition ACTIVE_AREA_H :: int where "ACTIVE_AREA_H = 256"
definition BORDER_LEFT :: int where "BORDER_LEFT = 128"
definition BORDER_TOP :: int where "BORDER_TOP = SCAN_ACTIVE_AREA_TOP"
definition BORDER_VISIBLE :: int where "BORDER_VISIBLE = 16"
definition RASTERIZED_PXLS_MAX :: int where "RASTERIZED_PXLS_MAX = 16"
definition IRQ_COMMIT_PXL :: int where "IRQ_COMMIT_PXL = 112"
definition SCROLL_COMMIT_PXL :: int where "SCROLL_COMMIT_PXL = BORDER_LEFT + 3"
definition SCROLL_DEFAULT :: u8 where "SCROLL_DEFAULT = 0xff"

lemmas raster_consts =
  FRAME_LEN_def FRAME_W_def FRAME_H_def SCAN_ACTIVE_AREA_TOP_def SCAN_VSYNC_def SCAN_VBLANK_TOP_def
  ACTIVE_AREA_W_def ACTIVE_AREA_H_def RASTERIZED_PXLS_MAX_def

datatype color_format = ABGR | ARGB
datatype frame_mode = FULL | BORDERED | BORDERLESS
datatype buffer_type = FRAME_BUFFER | BACK_BUFFER | GPU_BUFFER

text \<open>
  A frame buffer is a function from pixel indices; \<open>d_fault\<close> records a store outside the array,
  which the code does not check.
\<close>

record display =
  frameNum :: u64
  d_irq :: bool
  framebufferIdx :: int
  scrollIdx :: u8
  m_frameBuffer :: "int \<Rightarrow> u32"
  m_backBuffer :: "int \<Rightarrow> u32"
  m_gpuBuffer :: "int \<Rightarrow> u32"
  m_colorFormat :: color_format
  m_frameMode :: frame_mode
  m_borderLeft :: int
  m_irqCommitPxl :: int
  m_fullPalette :: "u32 list"
  d_fault :: bool

type_synonym screen = "display \<times> io \<times> memory"

definition VectorColorToArgb :: "u8 \<Rightarrow> u32" where
  "VectorColorToArgb v =
    (let r = ucast (v AND 0x07); g = drop_bit 3 (ucast (v AND 0x38)); b = drop_bit 6 (ucast (v AND 0xc0))
     in 0xff000000 OR push_bit 5 r OR push_bit 13 g OR push_bit 22 b)"

definition Display_Reset :: "display \<Rightarrow> display" where
  "Display_Reset d =
    d\<lparr>frameNum := 0, d_irq := False, framebufferIdx := 0, scrollIdx := SCROLL_DEFAULT,
      m_frameBuffer := (\<lambda>_. 0xff000000)\<rparr>"

definition Display_new :: "(int \<Rightarrow> u32) \<Rightarrow> display" where
  "Display_new uninitialised =
    Display_Reset \<lparr>frameNum = 0, d_irq = False, framebufferIdx = 0, scrollIdx = SCROLL_DEFAULT,
      m_frameBuffer = uninitialised, m_backBuffer = uninitialised, m_gpuBuffer = uninitialised,
      m_colorFormat = ARGB, m_frameMode = BORDERED, m_borderLeft = BORDER_LEFT,
      m_irqCommitPxl = IRQ_COMMIT_PXL,
      m_fullPalette = map (\<lambda>i. VectorColorToArgb (word_of_nat i)) [0..<256], d_fault = False\<rparr>"

definition GetRasterLine :: "display \<Rightarrow> int" where
  "GetRasterLine d = framebufferIdx d sdiv FRAME_W"

definition GetRasterPixel :: "display \<Rightarrow> int" where
  "GetRasterPixel d = framebufferIdx d smod FRAME_W"

definition ACTIVE_AREA_RIGHT :: "display \<Rightarrow> int" where
  "ACTIVE_AREA_RIGHT d = m_borderLeft d + ACTIVE_AREA_W"

definition full_color :: "display \<Rightarrow> u8 \<Rightarrow> u32" where
  "full_color d c = m_fullPalette d ! unat c"

text \<open>\<^verbatim>\<open>m_frameBuffer[m_state.update.framebufferIdx++] = color\<close>\<close>

definition put_pixel :: "u32 \<Rightarrow> display \<Rightarrow> display" where
  "put_pixel c d =
    (let i = framebufferIdx d
     in d\<lparr>m_frameBuffer := (m_frameBuffer d)(i := c), framebufferIdx := i + 1,
          d_fault := d_fault d \<or> \<not> (0 \<le> i \<and> i < FRAME_LEN)\<rparr>)"

section \<open>The border\<close>

definition border_pixel :: "screen \<Rightarrow> screen" where
  "border_pixel s =
    (let (d, x0, m0) = s;
         (x, m) = TryToCommit (GetBorderColorIdx x0) (x0, m0);
         d1 = put_pixel (full_color d (GetBorderColor x)) d;
         isNewFrame = framebufferIdx d1 sdiv FRAME_LEN;
         d2 = d1\<lparr>framebufferIdx := framebufferIdx d1 smod FRAME_LEN\<rparr>;
         d3 = d2\<lparr>d_irq := d_irq d2 \<or> framebufferIdx d2 = m_irqCommitPxl d2\<rparr>
     in (if isNewFrame \<noteq> 0 then d3\<lparr>frameNum := frameNum d3 + 1, m_backBuffer := m_frameBuffer d3\<rparr> else d3,
         x, m))"

definition FillBorderPortHandling :: "nat \<Rightarrow> screen \<Rightarrow> screen" where
  "FillBorderPortHandling n s = (border_pixel ^^ n) s"

definition FillBorder :: "nat \<Rightarrow> screen \<Rightarrow> screen" where
  "FillBorder n s =
    (let (d, x, m) = s; borderColor = full_color d (GetBorderColor x)
     in ((put_pixel borderColor ^^ n) d, x, m))"

section \<open>The active area\<close>

definition line_bytes :: "int \<Rightarrow> int \<Rightarrow> display \<Rightarrow> memory \<Rightarrow> u32" where
  "line_bytes rasterLine rasterPixel d m =
    (let addrHigh = (rasterPixel - m_borderLeft d) sdiv RASTERIZED_PXLS_MAX;
         addrLow = ACTIVE_AREA_H - 1 - (rasterLine - SCAN_ACTIVE_AREA_TOP)
     in GetScreenBytes m (word_of_int (push_bit 8 addrHigh OR addrLow)))"

definition BytesToColorIdx256 :: "u32 \<Rightarrow> int \<Rightarrow> u32" where
  "BytesToColorIdx256 bytes bitIdx =
    drop_bit (nat (bitIdx - 0 + 0)) bytes AND 1 OR
    drop_bit (nat (bitIdx - 1 + 8)) bytes AND 2 OR
    drop_bit (nat (bitIdx - 2 + 16)) bytes AND 4 OR
    drop_bit (nat (bitIdx - 3 + 24)) bytes AND 8"

definition BytesToColorIdx512 :: "u32 \<Rightarrow> int \<Rightarrow> u32" where
  "BytesToColorIdx512 bytes pxlIdx =
    (let even = bit pxlIdx 0; bitIdx = drop_bit 1 pxlIdx
     in if even
        then drop_bit (nat (bitIdx - 0 + 0)) bytes AND 1 OR drop_bit (nat (bitIdx - 1 + 8)) bytes AND 2
        else (drop_bit (nat (bitIdx - 0 + 16)) bytes AND 1 OR
              drop_bit (nat (bitIdx - 1 + 24)) bytes AND 2) * 4)"

definition scrolled_line :: "display \<Rightarrow> int" where
  "scrolled_line d =
    (GetRasterLine d - SCAN_ACTIVE_AREA_TOP + (255 - uint (scrollIdx d)) + ACTIVE_AREA_H) smod ACTIVE_AREA_H
      + SCAN_ACTIVE_AREA_TOP"

text \<open>
  One pixel of each of the four loops. The loop state is the bit index, the four screen bytes, and
  the screen; \<open>i\<close> is the loop counter.
\<close>

type_synonym pixel_state = "int \<times> u32 \<times> screen"

definition pixel256 :: "int \<Rightarrow> nat \<Rightarrow> pixel_state \<Rightarrow> pixel_state" where
  "pixel256 line i st =
    (let (bitIdx, bytes, d, x, m) = st;
         colorIdx = BytesToColorIdx256 bytes bitIdx;
         d1 = put_pixel (full_color d (GetColor x (ucast colorIdx))) d;
         bitIdx1 = bitIdx - int (i mod 2)
     in if bitIdx1 < 0 then (7, line_bytes line (GetRasterPixel d1) d1 m, d1, x, m)
        else (bitIdx1, bytes, d1, x, m))"

definition commit_scroll :: "int \<Rightarrow> screen \<Rightarrow> screen" where
  "commit_scroll rasterLine s =
    (let (d, x, m) = s
     in (if rasterLine = SCAN_ACTIVE_AREA_TOP \<and> GetRasterPixel d = SCROLL_COMMIT_PXL
         then d\<lparr>scrollIdx := GetScroll x\<rparr> else d, x, m))"

definition pixel256_ports :: "int \<Rightarrow> int \<Rightarrow> nat \<Rightarrow> pixel_state \<Rightarrow> pixel_state" where
  "pixel256_ports rasterLine line i st =
    (let (bitIdx, bytes, s) = st;
         rasterPixel = GetRasterPixel (fst s);
         (d, x0, m0) = commit_scroll rasterLine s;
         colorIdx = BytesToColorIdx256 bytes bitIdx;
         (x, m) = TryToCommit (ucast colorIdx) (x0, m0);
         d1 = put_pixel (full_color d (GetColor x (ucast colorIdx))) d;
         bitIdx1 = bitIdx - int (i mod 2)
     in if bitIdx1 < 0 then (7, line_bytes line rasterPixel d1 m, d1, x, m)
        else (bitIdx1, bytes, d1, x, m))"

definition pixel512 :: "int \<Rightarrow> nat \<Rightarrow> pixel_state \<Rightarrow> pixel_state" where
  "pixel512 line i st =
    (let (pxlIdx, bytes, d, x, m) = st;
         colorIdx = BytesToColorIdx512 bytes pxlIdx;
         d1 = put_pixel (full_color d (GetColor x (ucast colorIdx))) d;
         pxlIdx1 = pxlIdx - 1
     in if pxlIdx1 < 0 then (15, line_bytes line (GetRasterPixel d1) d1 m, d1, x, m)
        else (pxlIdx1, bytes, d1, x, m))"

definition pixel512_ports :: "int \<Rightarrow> int \<Rightarrow> nat \<Rightarrow> pixel_state \<Rightarrow> pixel_state" where
  "pixel512_ports rasterLine line i st =
    (let (pxlIdx, bytes, s) = st;
         rasterPixel = GetRasterPixel (fst s);
         (d, x0, m0) = commit_scroll rasterLine s;
         colorIdx = BytesToColorIdx512 bytes pxlIdx;
         (x, m) = TryToCommit (ucast colorIdx) (x0, m0);
         d1 = put_pixel (full_color d (GetColor x (ucast colorIdx))) d;
         pxlIdx1 = pxlIdx - 1
     in if pxlIdx1 < 0 then (15, line_bytes line rasterPixel d1 m, d1, x, m)
        else (pxlIdx1, bytes, d1, x, m))"

definition first_bit :: "display \<Rightarrow> int" where
  "first_bit d = 7 - drop_bit 1 ((framebufferIdx d - m_borderLeft d) smod RASTERIZED_PXLS_MAX)"

definition first_pxl :: "display \<Rightarrow> int" where
  "first_pxl d = 15 - (framebufferIdx d - m_borderLeft d) smod RASTERIZED_PXLS_MAX"

definition first_bytes :: "display \<Rightarrow> memory \<Rightarrow> u32" where
  "first_bytes d m = line_bytes (scrolled_line d) (GetRasterPixel d) d m"

definition FillActiveArea256 :: "nat \<Rightarrow> screen \<Rightarrow> screen" where
  "FillActiveArea256 n s =
    (let (d, x, m) = s
     in snd (snd (fold (pixel256 (scrolled_line d)) [0..<n] (first_bit d, first_bytes d m, s))))"

definition FillActiveArea256PortHandling :: "nat \<Rightarrow> screen \<Rightarrow> screen" where
  "FillActiveArea256PortHandling n s =
    (let (d, x, m) = s
     in snd (snd (fold (pixel256_ports (GetRasterLine d) (scrolled_line d)) [0..<n]
          (first_bit d, first_bytes d m, s))))"

definition FillActiveArea512 :: "nat \<Rightarrow> screen \<Rightarrow> screen" where
  "FillActiveArea512 n s =
    (let (d, x, m) = s
     in snd (snd (fold (pixel512 (scrolled_line d)) [0..<n] (first_pxl d, first_bytes d m, s))))"

definition FillActiveArea512PortHandling :: "nat \<Rightarrow> screen \<Rightarrow> screen" where
  "FillActiveArea512PortHandling n s =
    (let (d, x, m) = s
     in snd (snd (fold (pixel512_ports (GetRasterLine d) (scrolled_line d)) [0..<n]
          (first_pxl d, first_bytes d m, s))))"

section \<open>One call\<close>

definition RasterizeActiveArea :: "int \<Rightarrow> screen \<Rightarrow> screen" where
  "RasterizeActiveArea n s =
    (let (d, x, m) = s;
         commitTime = 0 < outCommitTimer (io_st x) \<or> 0 < paletteCommitTimer (io_st x);
         scrollTime = GetRasterLine d = SCAN_ACTIVE_AREA_TOP \<and>
           GetRasterPixel d < m_borderLeft d + RASTERIZED_PXLS_MAX
     in if commitTime \<or> scrollTime
        then (if GetDisplayMode x = MODE_256 then FillActiveArea256PortHandling (nat n) s
              else FillActiveArea512PortHandling (nat n) s)
        else (if GetDisplayMode x = MODE_256 then FillActiveArea256 (nat n) s
              else FillActiveArea512 (nat n) s))"

definition RasterizeBorder :: "int \<Rightarrow> screen \<Rightarrow> screen" where
  "RasterizeBorder n s =
    (let (d, x, m) = s; rasterLine = GetRasterLine d;
         commitTime = 0 \<le> outCommitTimer (io_st x) \<or> 0 \<le> paletteCommitTimer (io_st x)
     in if commitTime \<or> rasterLine = 0 \<or> rasterLine = 311
        then FillBorderPortHandling (nat n) s else FillBorder (nat n) s)"

definition active_scan :: "display \<Rightarrow> bool" where
  "active_scan d \<longleftrightarrow>
    SCAN_ACTIVE_AREA_TOP \<le> GetRasterLine d \<and> GetRasterLine d < SCAN_ACTIVE_AREA_TOP + ACTIVE_AREA_H"

definition active_area :: "display \<Rightarrow> bool" where
  "active_area d \<longleftrightarrow>
    active_scan d \<and> m_borderLeft d \<le> GetRasterPixel d \<and> GetRasterPixel d < ACTIVE_AREA_RIGHT d"

definition border_pxls :: "display \<Rightarrow> int" where
  "border_pxls d =
    (if \<not> active_scan d \<or> ACTIVE_AREA_RIGHT d \<le> GetRasterPixel d then RASTERIZED_PXLS_MAX
     else min (m_borderLeft d - GetRasterPixel d) RASTERIZED_PXLS_MAX)"

definition active_pxls :: "display \<Rightarrow> int" where
  "active_pxls d = min (ACTIVE_AREA_RIGHT d - GetRasterPixel d) RASTERIZED_PXLS_MAX"

definition Rasterize :: "screen \<Rightarrow> screen" where
  "Rasterize s0 =
    (let s = (case s0 of (d0, x, m) \<Rightarrow> (d0\<lparr>d_irq := False\<rparr>, x, m)); d = fst s
     in if active_area d
        then (let n = active_pxls d; s1 = RasterizeActiveArea n s
              in if n < RASTERIZED_PXLS_MAX then RasterizeBorder (RASTERIZED_PXLS_MAX - n) s1 else s1)
        else (let n = border_pxls d; s1 = RasterizeBorder n s
              in if n < RASTERIZED_PXLS_MAX then RasterizeActiveArea (RASTERIZED_PXLS_MAX - n) s1 else s1))"

section \<open>Redrawing the frame buffer\<close>

definition fast_active :: "int \<Rightarrow> screen \<Rightarrow> screen" where
  "fast_active n s =
    (if GetDisplayMode (fst (snd s)) = MODE_256 then FillActiveArea256 (nat n) s
     else FillActiveArea512 (nat n) s)"

definition update_block :: "screen \<Rightarrow> screen" where
  "update_block s =
    (let d = fst s
     in if active_area d
        then (let n = active_pxls d; s1 = fast_active n s
              in if n < RASTERIZED_PXLS_MAX then FillBorder (nat (RASTERIZED_PXLS_MAX - n)) s1 else s1)
        else (let n = border_pxls d; s1 = FillBorder (nat n) s
              in if n < RASTERIZED_PXLS_MAX then fast_active (RASTERIZED_PXLS_MAX - n) s1 else s1))"

definition FrameBuffUpdate :: "screen \<Rightarrow> screen" where
  "FrameBuffUpdate s =
    (let (d, x, m) = s;
         (d1, x1, m1) = (update_block ^^ nat (FRAME_LEN div 16)) (d\<lparr>framebufferIdx := 0\<rparr>, x, m)
     in (d1\<lparr>framebufferIdx := framebufferIdx d\<rparr>, x1, m1))"

definition BuffUpdate :: "buffer_type \<Rightarrow> screen \<Rightarrow> screen" where
  "BuffUpdate ty s =
    (case s of (d, x, m) \<Rightarrow>
      (case ty of
         FRAME_BUFFER \<Rightarrow> FrameBuffUpdate s
       | BACK_BUFFER \<Rightarrow> (d\<lparr>m_backBuffer := m_frameBuffer d\<rparr>, x, m)
       | GPU_BUFFER \<Rightarrow> (d\<lparr>m_gpuBuffer := m_frameBuffer d\<rparr>, x, m)))"

section \<open>Delivering a frame\<close>

record region =
  r_width :: int
  r_height :: int
  r_offsetX :: int
  r_offsetY :: int

definition GetByteLen :: "region \<Rightarrow> int" where
  "GetByteLen r = r_width r * r_height r * 4"

fun frame_mode_regions :: "frame_mode \<Rightarrow> region" where
  "frame_mode_regions FULL = \<lparr>r_width = FRAME_W, r_height = FRAME_H, r_offsetX = 0, r_offsetY = 0\<rparr>"
| "frame_mode_regions BORDERED =
    \<lparr>r_width = ACTIVE_AREA_W + BORDER_VISIBLE * 2, r_height = ACTIVE_AREA_H + BORDER_VISIBLE * 2,
     r_offsetX = BORDER_LEFT - BORDER_VISIBLE, r_offsetY = BORDER_TOP - BORDER_VISIBLE\<rparr>"
| "frame_mode_regions BORDERLESS =
    \<lparr>r_width = ACTIVE_AREA_W, r_height = ACTIVE_AREA_H, r_offsetX = BORDER_LEFT, r_offsetY = BORDER_TOP\<rparr>"

definition FRAME_BORDERED_LEN :: int where
  "FRAME_BORDERED_LEN = (ACTIVE_AREA_W + BORDER_VISIBLE * 4) * (ACTIVE_AREA_H + BORDER_VISIBLE * 2)"

text \<open>\<^verbatim>\<open>memcpy\<close> of \<open>n\<close> pixels between two buffers.\<close>

definition copy_pixels :: "int \<Rightarrow> int \<Rightarrow> int \<Rightarrow> (int \<Rightarrow> u32) \<Rightarrow> (int \<Rightarrow> u32) \<Rightarrow> int \<Rightarrow> u32" where
  "copy_pixels dst src n source target =
    (\<lambda>i. if dst \<le> i \<and> i < dst + n then source (src + (i - dst)) else target i)"

definition crop_row ::
  "(int \<Rightarrow> u32) \<Rightarrow> region \<Rightarrow> (int \<Rightarrow> u32) \<times> int \<times> int \<Rightarrow> (int \<Rightarrow> u32) \<times> int \<times> int" where
  "crop_row source r st =
    (let (target, dstOffset, srcOffset) = st
     in (copy_pixels dstOffset srcOffset (r_width r) source target, dstOffset + r_width r, srcOffset + FRAME_W))"

definition CropFrame :: "(int \<Rightarrow> u32) \<Rightarrow> (int \<Rightarrow> u32) \<Rightarrow> region \<Rightarrow> (int \<Rightarrow> u32) \<times> int" where
  "CropFrame source target r =
    (let (t, dstOffset, _) = (crop_row source r ^^ nat (r_height r))
          (target, 0, r_offsetY r * FRAME_W + r_offsetX r)
     in (t, dstOffset * 4))"

definition swap_red_blue :: "u32 \<Rightarrow> u32" where
  "swap_red_blue color =
    color AND 0xff00ff00 OR drop_bit 16 (color AND 0x00ff0000) OR push_bit 16 (color AND 0x000000ff)"

definition GetFrame :: "bool \<Rightarrow> display \<Rightarrow> ((int \<Rightarrow> u32) \<times> region) \<times> display" where
  "GetFrame vsync d =
    (let source = (if vsync then m_backBuffer d else m_frameBuffer d);
         r = frame_mode_regions (m_frameMode d);
         gpu = (if m_frameMode d = FULL then source else fst (CropFrame source (m_gpuBuffer d) r));
         len = r_width r * r_height r;
         out = (if m_colorFormat d = ARGB
                then (\<lambda>i. if 0 \<le> i \<and> i < len then swap_red_blue (gpu i) else gpu i) else gpu)
     in ((out, r), d\<lparr>m_gpuBuffer := out\<rparr>))"

section \<open>Frame timing\<close>

text \<open>
  The counters a pixel advances: the position, the frame number and, where it is requested at its
  default pixel, the interrupt.
\<close>

definition irq_default :: "display \<Rightarrow> bool" where
  "irq_default d \<longleftrightarrow> m_irqCommitPxl d = IRQ_COMMIT_PXL"

definition counters :: "display \<Rightarrow> int \<times> u64 \<times> bool" where
  "counters d = (framebufferIdx d, frameNum d, d_irq d \<and> irq_default d)"

definition pixel_tick :: "bool \<Rightarrow> int \<times> u64 \<times> bool \<Rightarrow> int \<times> u64 \<times> bool" where
  "pixel_tick e = (\<lambda>(i, f, q).
    ((i + 1) mod FRAME_LEN, f + (if i + 1 = FRAME_LEN then 1 else 0),
     q \<or> e \<and> (i + 1) mod FRAME_LEN = IRQ_COMMIT_PXL))"

text \<open>What every drawing operation keeps: the settings, and no store outside the frame buffer.\<close>

definition settings :: "display \<Rightarrow> int \<times> int \<times> u32 list \<times> bool" where
  "settings d = (m_borderLeft d, m_irqCommitPxl d, m_fullPalette d, d_fault d)"

definition steady :: "display \<Rightarrow> bool" where
  "steady d \<longleftrightarrow> 0 \<le> framebufferIdx d \<and> framebufferIdx d < FRAME_LEN"

lemma settings_irq: "settings d = settings d' \<Longrightarrow> irq_default d = irq_default d'"
  by (simp add: settings_def irq_default_def)

lemma sdiv_nonneg: "0 \<le> (a :: int) \<Longrightarrow> 0 < b \<Longrightarrow> a sdiv b = a div b"
  by (cases "a = 0") (simp_all add: signed_divide_int_def)

lemma smod_nonneg: "0 \<le> (a :: int) \<Longrightarrow> 0 < b \<Longrightarrow> a smod b = a mod b"
  by (cases "a = 0") (simp_all add: signed_modulo_int_def)

lemma put_pixel_sel [simp]:
  "framebufferIdx (put_pixel c d) = framebufferIdx d + 1" "frameNum (put_pixel c d) = frameNum d"
  "d_irq (put_pixel c d) = d_irq d" "m_borderLeft (put_pixel c d) = m_borderLeft d"
  "m_irqCommitPxl (put_pixel c d) = m_irqCommitPxl d" "m_fullPalette (put_pixel c d) = m_fullPalette d"
  "scrollIdx (put_pixel c d) = scrollIdx d" "full_color (put_pixel c d) = full_color d"
  "m_frameBuffer (put_pixel c d) = (m_frameBuffer d)(framebufferIdx d := c)"
  by (simp_all add: put_pixel_def Let_def full_color_def fun_eq_iff)

lemma put_pixel_fault:
  "0 \<le> framebufferIdx d \<Longrightarrow> framebufferIdx d < FRAME_LEN \<Longrightarrow> d_fault (put_pixel c d) = d_fault d"
  by (simp add: put_pixel_def Let_def)

lemma border_pixel_tick:
  assumes "steady (fst s)"
  shows "counters (fst (border_pixel s)) = pixel_tick (irq_default (fst s)) (counters (fst s))"
    "settings (fst (border_pixel s)) = settings (fst s)" "steady (fst (border_pixel s))"
proof -
  obtain d x m where s: "s = (d, x, m)" by (cases s)
  obtain x' m' where tc: "TryToCommit (GetBorderColorIdx x) (x, m) = (x', m')" by fastforce
  have idx: "0 \<le> framebufferIdx d" "framebufferIdx d < FRAME_LEN"
    using assms by (simp_all add: s steady_def)
  have m: "(framebufferIdx d + 1) smod FRAME_LEN = (framebufferIdx d + 1) mod FRAME_LEN"
    "((framebufferIdx d + 1) sdiv FRAME_LEN \<noteq> 0) = (framebufferIdx d + 1 = FRAME_LEN)"
    using idx by (auto simp: sdiv_nonneg smod_nonneg raster_consts)
  show "counters (fst (border_pixel s)) = pixel_tick (irq_default (fst s)) (counters (fst s))"
    using m by (auto simp: s border_pixel_def tc Let_def counters_def pixel_tick_def irq_default_def smod_nonneg
        raster_consts)
  show "settings (fst (border_pixel s)) = settings (fst s)"
    using put_pixel_fault [OF idx] by (simp add: s border_pixel_def tc Let_def settings_def)
  show "steady (fst (border_pixel s))"
    using m(1) by (simp add: s border_pixel_def tc Let_def steady_def raster_consts)
qed

lemma border_ticks:
  assumes "steady (fst s)"
  shows "counters (fst ((border_pixel ^^ n) s)) = (pixel_tick (irq_default (fst s)) ^^ n) (counters (fst s)) \<and>
    settings (fst ((border_pixel ^^ n) s)) = settings (fst s) \<and> steady (fst ((border_pixel ^^ n) s))"
proof (induction n)
  case (Suc n)
  then have "irq_default (fst ((border_pixel ^^ n) s)) = irq_default (fst s)" by (intro settings_irq) simp
  then show ?case using Suc by (simp add: border_pixel_tick)
qed (simp add: assms)

text \<open>\<open>k\<close> pixels of the active area: the position moves on, the other counters stay.\<close>

definition moves :: "nat \<Rightarrow> display \<Rightarrow> display \<Rightarrow> bool" where
  "moves k d d' \<longleftrightarrow>
    framebufferIdx d' = framebufferIdx d + int k \<and> frameNum d' = frameNum d \<and> d_irq d' = d_irq d \<and>
    m_borderLeft d' = m_borderLeft d \<and> m_irqCommitPxl d' = m_irqCommitPxl d \<and> m_fullPalette d' = m_fullPalette d \<and>
    (0 \<le> framebufferIdx d \<and> framebufferIdx d + int k \<le> FRAME_LEN \<longrightarrow> d_fault d' = d_fault d)"

lemma moves_refl: "moves 0 d d"
  by (simp add: moves_def)

lemma moves_step: "moves k d d1 \<Longrightarrow> moves (Suc 0) d1 d2 \<Longrightarrow> moves (Suc k) d d2"
  by (auto simp: moves_def)

lemma moves_put_pixel: "moves (Suc 0) d (put_pixel c d)"
  by (auto simp: moves_def put_pixel_def Let_def)

lemma moves_scroll:
  "moves (Suc 0) (fst (commit_scroll rl s)) d' \<Longrightarrow> moves (Suc 0) (fst s) d'"
  by (cases s) (simp add: commit_scroll_def moves_def split: if_splits)

definition screen_of :: "pixel_state \<Rightarrow> display" where
  "screen_of st = fst (snd (snd st))"

lemma pixel_moves:
  "moves (Suc 0) (screen_of st) (screen_of (pixel256 line i st))"
  "moves (Suc 0) (screen_of st) (screen_of (pixel512 line i st))"
  "moves (Suc 0) (screen_of st) (screen_of (pixel256_ports rl line i st))"
  "moves (Suc 0) (screen_of st) (screen_of (pixel512_ports rl line i st))"
  unfolding screen_of_def pixel256_def pixel512_def pixel256_ports_def pixel512_ports_def Let_def
  by (simp_all add: case_prod_beta moves_put_pixel moves_scroll [OF moves_put_pixel])

lemma fold_moves:
  assumes "\<And>i st. moves (Suc 0) (screen_of st) (screen_of (g i st))"
  shows "moves n (fst s) (fst (snd (snd (fold g [0..<n] (b, y, s)))))"
proof -
  have "moves n (screen_of st) (screen_of (fold g [0..<n] st))" for st
    by (induction n) (auto simp: moves_refl intro: moves_step assms)
  from this [of "(b, y, s)"] show ?thesis by (simp add: screen_of_def)
qed

lemma fill_moves:
  "moves n (fst s) (fst (FillActiveArea256 n s))" "moves n (fst s) (fst (FillActiveArea512 n s))"
  "moves n (fst s) (fst (FillActiveArea256PortHandling n s))"
  "moves n (fst s) (fst (FillActiveArea512PortHandling n s))"
  unfolding FillActiveArea256_def FillActiveArea512_def FillActiveArea256PortHandling_def
    FillActiveArea512PortHandling_def Let_def case_prod_beta
  by (rule fold_moves, rule pixel_moves)+

lemma active_moves: "moves (nat n) (fst s) (fst (RasterizeActiveArea n s))"
  unfolding RasterizeActiveArea_def Let_def case_prod_beta
  by (simp add: fill_moves)

lemma put_pixels_moves: "moves n d ((put_pixel c ^^ n) d)"
  by (induction n) (auto simp: moves_refl intro: moves_step moves_put_pixel)

text \<open>Away from the ends of the frame and from the pixel of the interrupt, moving is ticking.\<close>

lemma moves_ticks:
  assumes "moves k d d'" "IRQ_COMMIT_PXL \<le> framebufferIdx d" "framebufferIdx d + int k < FRAME_LEN" "steady d"
  shows "counters d' = (pixel_tick (irq_default d) ^^ k) (counters d) \<and> settings d' = settings d \<and> steady d'"
proof -
  have "(pixel_tick (irq_default d) ^^ j) (counters d) =
      (framebufferIdx d + int j, frameNum d, d_irq d \<and> irq_default d)" if "j \<le> k" for j
    using that assms(2,3)
    by (induction j) (simp_all add: counters_def pixel_tick_def IRQ_COMMIT_PXL_def raster_consts)
  from this [of k] show ?thesis
    using assms by (simp add: moves_def counters_def settings_def steady_def irq_default_def raster_consts IRQ_COMMIT_PXL_def)
qed

lemma line_bounds:
  assumes "steady d"
  shows "GetRasterLine d = framebufferIdx d div 768" "GetRasterPixel d = framebufferIdx d mod 768"
  using assms by (simp_all add: steady_def GetRasterLine_def GetRasterPixel_def FRAME_W_def sdiv_nonneg smod_nonneg)

text \<open>\<open>ticks n s t\<close>: from \<open>s\<close> to \<open>t\<close> the counters advance by \<open>n\<close> pixels.\<close>

definition ticks :: "nat \<Rightarrow> screen \<Rightarrow> screen \<Rightarrow> bool" where
  "ticks n s t \<longleftrightarrow> counters (fst t) = (pixel_tick (irq_default (fst s)) ^^ n) (counters (fst s)) \<and>
    settings (fst t) = settings (fst s) \<and> steady (fst t)"

lemma ticks_trans: "ticks a s t \<Longrightarrow> ticks b t u \<Longrightarrow> ticks (b + a) s u"
  using settings_irq [of "fst t" "fst s"] by (simp add: ticks_def funpow_add)

lemma RasterizeBorder_ticks:
  assumes "steady (fst s)" "0 \<le> n" "n \<le> 16"
  shows "ticks (nat n) s (RasterizeBorder n s)"
proof -
  obtain d x m where s: "s = (d, x, m)" by (cases s)
  have port: "ticks (nat n) s (FillBorderPortHandling (nat n) s)"
    using border_ticks [OF assms(1)] by (simp add: ticks_def FillBorderPortHandling_def)
  have fast: "ticks (nat n) s (FillBorder (nat n) s)" if "GetRasterLine d \<noteq> 0" "GetRasterLine d \<noteq> 311"
  proof -
    have st: "steady d" using assms(1) by (simp add: s)
    then have "0 \<le> framebufferIdx d" "framebufferIdx d < 768 * 312"
      by (simp_all add: steady_def raster_consts)
    then have "IRQ_COMMIT_PXL \<le> framebufferIdx d" "framebufferIdx d + int (nat n) < FRAME_LEN"
      using that assms(2,3) by (simp_all add: line_bounds(1) [OF st] raster_consts IRQ_COMMIT_PXL_def)
    from moves_ticks [OF put_pixels_moves this st] show ?thesis
      by (simp add: ticks_def FillBorder_def s Let_def)
  qed
  show ?thesis using port fast by (auto simp: RasterizeBorder_def s Let_def)
qed

lemma RasterizeActiveArea_ticks:
  assumes "steady (fst s)" "0 \<le> n" "n \<le> 16" "768 \<le> framebufferIdx (fst s)" "framebufferIdx (fst s) < 768 * 300"
  shows "ticks (nat n) s (RasterizeActiveArea n s)"
  using moves_ticks [OF active_moves _ _ assms(1), of n] assms(2-5)
  by (simp add: ticks_def raster_consts IRQ_COMMIT_PXL_def)

lemma active_scan_idx:
  assumes "steady d" "active_scan d"
  shows "768 * 40 \<le> framebufferIdx d" "framebufferIdx d < 768 * 296"
  using assms zdiv_mono1 [of "framebufferIdx d" "768 * 40 - 1" 768] zdiv_mono1 [of "768 * 296" "framebufferIdx d" 768]
  by (simp_all add: active_scan_def line_bounds raster_consts not_less [symmetric]) linarith+

lemma Rasterize_ticks:
  assumes "steady (fst s)"
  shows "ticks 16 ((fst s)\<lparr>d_irq := False\<rparr>, snd s) (Rasterize s)"
proof -
  define s1 where "s1 = ((fst s)\<lparr>d_irq := False\<rparr>, snd s)"
  have st: "steady (fst s1)" using assms by (simp add: s1_def steady_def)
  have eq: "Rasterize s =
    (let d = fst s1
     in if active_area d
        then (let n = active_pxls d; s2 = RasterizeActiveArea n s1
              in if n < RASTERIZED_PXLS_MAX then RasterizeBorder (RASTERIZED_PXLS_MAX - n) s2 else s2)
        else (let n = border_pxls d; s2 = RasterizeBorder n s1
              in if n < RASTERIZED_PXLS_MAX then RasterizeActiveArea (RASTERIZED_PXLS_MAX - n) s2 else s2))"
    unfolding Rasterize_def s1_def Let_def case_prod_beta by simp
  show ?thesis
  proof (cases "active_area (fst s1)")
    case True
    define n where "n = active_pxls (fst s1)"
    have n: "0 \<le> n" "n \<le> 16"
      using True by (simp_all add: n_def active_pxls_def active_area_def raster_consts)
    have idx: "768 * 40 \<le> framebufferIdx (fst s1)" "framebufferIdx (fst s1) < 768 * 296"
      using active_scan_idx [OF st] True by (simp_all add: active_area_def)
    have a: "ticks (nat n) s1 (RasterizeActiveArea n s1)"
      using RasterizeActiveArea_ticks [OF st n] idx by simp
    then have "ticks (nat (16 - n)) (RasterizeActiveArea n s1) (RasterizeBorder (16 - n) (RasterizeActiveArea n s1))"
      using n by (intro RasterizeBorder_ticks) (simp_all add: ticks_def)
    from ticks_trans [OF a this] n have "ticks 16 s1 (RasterizeBorder (16 - n) (RasterizeActiveArea n s1))"
      by (simp add: nat_diff_distrib)
    moreover have "ticks 16 s1 (RasterizeActiveArea n s1)" if "\<not> n < 16"
      using a n that by simp
    ultimately show ?thesis
      using True by (simp add: eq Let_def n_def raster_consts flip: s1_def)
  next
    case False
    define n where "n = border_pxls (fst s1)"
    have n: "0 \<le> n" "n \<le> 16"
      using False by (auto simp: n_def border_pxls_def active_area_def raster_consts)
    have a: "ticks (nat n) s1 (RasterizeBorder n s1)"
      by (rule RasterizeBorder_ticks [OF st n])
    have "ticks 16 s1 (RasterizeActiveArea (16 - n) (RasterizeBorder n s1))" if "n < 16"
    proof -
      have "active_scan (fst s1)"
        using that by (simp add: n_def border_pxls_def raster_consts split: if_splits)
      then have idx: "768 * 40 \<le> framebufferIdx (fst s1)" "framebufferIdx (fst s1) < 768 * 296"
        using active_scan_idx [OF st] by simp_all
      have "(pixel_tick (irq_default (fst s1)) ^^ nat n) (counters (fst s1)) =
          (framebufferIdx (fst s1) + n, frameNum (fst s1), d_irq (fst s1) \<and> irq_default (fst s1))"
        using moves_ticks [OF put_pixels_moves _ _ st, of "nat n"] put_pixels_moves [of "nat n" "fst s1"] idx n
        by (simp add: counters_def moves_def irq_default_def raster_consts IRQ_COMMIT_PXL_def)
      then have "framebufferIdx (fst (RasterizeBorder n s1)) = framebufferIdx (fst s1) + n"
        using a by (simp add: ticks_def counters_def)
      then have "ticks (nat (16 - n)) (RasterizeBorder n s1) (RasterizeActiveArea (16 - n) (RasterizeBorder n s1))"
        using a n idx by (intro RasterizeActiveArea_ticks) (simp_all add: ticks_def)
      from ticks_trans [OF a this] n show ?thesis by (simp add: nat_diff_distrib)
    qed
    moreover have "ticks 16 s1 (RasterizeBorder n s1)" if "\<not> n < 16"
      using a n that by simp
    ultimately show ?thesis
      using False by (simp add: eq Let_def n_def raster_consts flip: s1_def)
  qed
qed

lemma sixteen_ticks:
  assumes "0 \<le> i" "i < FRAME_LEN" "16 dvd i"
  shows "(pixel_tick e ^^ 16) (i, f, False) =
    ((i + 16) mod FRAME_LEN, f + (if i + 16 = FRAME_LEN then 1 else 0),
     e \<and> (i + 16) mod FRAME_LEN = IRQ_COMMIT_PXL)"
proof -
  obtain j where j: "i = 16 * j" using assms(3) by (rule dvdE)
  have le: "i + 16 \<le> FRAME_LEN" using assms(2) by (simp add: j raster_consts)
  have "(pixel_tick e ^^ k) (i, f, False) = (i + int k, f, False)" if "k \<le> 15" for k
    using that
  proof (induction k)
    case (Suc k)
    have "16 * j + (1 + int k) \<noteq> 112" using Suc.prems by presburger
    then show ?case
      using Suc le assms(1) by (simp add: pixel_tick_def IRQ_COMMIT_PXL_def j algebra_simps)
  qed simp
  from this [of 15] have t: "(pixel_tick e ^^ 15) (i, f, False) = (i + 15, f, False)" by simp
  have "(pixel_tick e ^^ Suc 15) (i, f, False) = pixel_tick e (i + 15, f, False)"
    by (simp only: funpow.simps(2) o_apply t)
  then show ?thesis by (simp add: pixel_tick_def algebra_simps)
qed

lemma Rasterize_timing:
  assumes "steady (fst s)" "16 dvd framebufferIdx (fst s)"
  defines "i \<equiv> framebufferIdx (fst s) + 16"
  shows "framebufferIdx (fst (Rasterize s)) = i mod FRAME_LEN"
    "frameNum (fst (Rasterize s)) = frameNum (fst s) + (if i = FRAME_LEN then 1 else 0)"
    "irq_default (fst s) \<Longrightarrow> d_irq (fst (Rasterize s)) = (i mod FRAME_LEN = IRQ_COMMIT_PXL)"
    "settings (fst (Rasterize s)) = settings (fst s)" "steady (fst (Rasterize s))"
  using Rasterize_ticks [OF assms(1)] sixteen_ticks [of "framebufferIdx (fst s)" _ "frameNum (fst s)"] assms(1,2)
  by (auto simp: ticks_def counters_def settings_def steady_def i_def irq_default_def)

text \<open>Calls of the rasteriser, each after whatever the other devices did to the ports and the memory.\<close>

definition raster_run :: "(io \<times> memory \<Rightarrow> io \<times> memory) list \<Rightarrow> screen \<Rightarrow> screen" where
  "raster_run fs s = fold (\<lambda>f s. Rasterize (fst s, f (snd s))) fs s"

lemma next_frame:
  fixes p :: int
  assumes "16 dvd p"
  shows "(p + 16) div FRAME_LEN = p div FRAME_LEN + (if p mod FRAME_LEN + 16 = FRAME_LEN then 1 else 0)"
    "(p mod FRAME_LEN + 16) mod FRAME_LEN = (p + 16) mod FRAME_LEN" "16 dvd p mod FRAME_LEN"
proof -
  have L: "FRAME_LEN = 239616" by (simp add: raster_consts)
  define q r where "q = p div FRAME_LEN" and "r = p mod FRAME_LEN"
  have p: "p = q * FRAME_LEN + r" "0 \<le> r" "r < FRAME_LEN" by (simp_all add: q_def r_def L)
  have "16 dvd r" using assms by (simp add: r_def L dvd_mod)
  then obtain j where j: "r = 16 * j" by (rule dvdE)
  have "(p + 16) div FRAME_LEN = q + (r + 16) div FRAME_LEN"
    using div_mult_self3 [of FRAME_LEN q "r + 16"] by (simp add: p(1) L add.assoc)
  moreover have "(r + 16) div FRAME_LEN = (if r + 16 = FRAME_LEN then 1 else 0)"
    using p(2,3) by (auto simp: L j)
  ultimately show "(p + 16) div FRAME_LEN = p div FRAME_LEN + (if p mod FRAME_LEN + 16 = FRAME_LEN then 1 else 0)"
    by (simp add: q_def r_def)
  show "(p mod FRAME_LEN + 16) mod FRAME_LEN = (p + 16) mod FRAME_LEN" by (simp add: mod_add_left_eq)
  show "16 dvd p mod FRAME_LEN" using assms by (simp add: L dvd_mod)
qed

lemma raster_run_timing:
  assumes "steady (fst s)" "16 dvd framebufferIdx (fst s)"
  defines "p \<equiv> \<lambda>n. framebufferIdx (fst s) + 16 * int n"
  shows "framebufferIdx (fst (raster_run fs s)) = p (length fs) mod FRAME_LEN \<and>
    frameNum (fst (raster_run fs s)) = frameNum (fst s) + of_int (p (length fs) div FRAME_LEN) \<and>
    (fs \<noteq> [] \<and> irq_default (fst s) \<longrightarrow> d_irq (fst (raster_run fs s)) = (p (length fs) mod FRAME_LEN = IRQ_COMMIT_PXL)) \<and>
    settings (fst (raster_run fs s)) = settings (fst s) \<and> steady (fst (raster_run fs s))"
proof (induction fs rule: rev_induct)
  case Nil
  then show ?case using assms by (simp add: raster_run_def steady_def)
next
  case (snoc f fs)
  define t where "t = (fst (raster_run fs s), f (snd (raster_run fs s)))"
  have run: "raster_run (fs @ [f]) s = Rasterize t" by (simp add: raster_run_def t_def)
  have dvd: "16 dvd p (length fs)" using assms(2) by (simp add: p_def)
  have t: "steady (fst t)" "16 dvd framebufferIdx (fst t)" "framebufferIdx (fst t) = p (length fs) mod FRAME_LEN"
    using snoc.IH next_frame(3) [OF dvd] by (simp_all add: t_def)
  have pS: "p (length (fs @ [f])) = p (length fs) + 16" by (simp add: p_def)
  show ?case
    unfolding run pS
    using Rasterize_timing [OF t(1,2)] snoc.IH next_frame [OF dvd] settings_irq [of "fst t" "fst s"]
    by (simp add: t(3)) (simp add: t_def)
qed

section \<open>What is drawn\<close>

definition draw :: "(nat \<Rightarrow> u32) \<Rightarrow> nat \<Rightarrow> display \<Rightarrow> display" where
  "draw col n d = fold (\<lambda>i. put_pixel (col i)) [0..<n] d"

lemma draw_simps [simp]: "draw col 0 d = d" "draw col (Suc n) d = put_pixel (col n) (draw col n d)"
  by (simp_all add: draw_def)

lemma draw_sel [simp]:
  "framebufferIdx (draw col n d) = framebufferIdx d + int n" "m_borderLeft (draw col n d) = m_borderLeft d"
  "full_color (draw col n d) = full_color d" "m_irqCommitPxl (draw col n d) = m_irqCommitPxl d"
  "d_irq (draw col n d) = d_irq d"
  by (induction n) simp_all

lemma draw_frame:
  "m_frameBuffer (draw col n d) p =
    (if framebufferIdx d \<le> p \<and> p < framebufferIdx d + int n then col (nat (p - framebufferIdx d))
     else m_frameBuffer d p)"
  by (induction n) auto

text \<open>No commit of an OUT is pending.\<close>

definition quiet :: "io \<Rightarrow> bool" where
  "quiet x \<longleftrightarrow> outCommitTimer (io_st x) \<le> 0 \<and> paletteCommitTimer (io_st x) \<le> 0 \<and> displayModeTimer (io_st x) \<le> 0"

lemma quiet_commit: "quiet x \<Longrightarrow> TryToCommit c (x, m) = (x, m)"
  by (simp add: quiet_def TryToCommit_def commit_out_def commit_palette_def commit_mode_def)

definition aligned :: "display \<Rightarrow> bool" where
  "aligned d \<longleftrightarrow> (framebufferIdx d - m_borderLeft d) smod RASTERIZED_PXLS_MAX = 0"

lemma aligned_first: "aligned d \<Longrightarrow> first_bit d = 7" "aligned d \<Longrightarrow> first_pxl d = 15"
  by (simp_all add: aligned_def first_bit_def first_pxl_def)

definition colour256 :: "u32 \<Rightarrow> display \<Rightarrow> io \<Rightarrow> nat \<Rightarrow> u32" where
  "colour256 bytes d x i = full_color d (GetColor x (ucast (BytesToColorIdx256 bytes (7 - int (i div 2)))))"

definition colour512 :: "u32 \<Rightarrow> display \<Rightarrow> io \<Rightarrow> nat \<Rightarrow> u32" where
  "colour512 bytes d x i = full_color d (GetColor x (ucast (BytesToColorIdx512 bytes (15 - int i))))"

text \<open>
  A loop draws the colours \<open>col\<close>: its bit index is \<open>idx k\<close> before pixel \<open>k\<close>, and the screen bytes
  are those of the first pixel up to the sixteenth.
\<close>

lemma loop_draws:
  fixes step :: "nat \<Rightarrow> pixel_state \<Rightarrow> pixel_state"
  assumes "n \<le> 16"
    and "\<And>k. k < 16 \<Longrightarrow>
      \<exists>b y. step k (idx k, bytes, draw col k d, x, m) = (b, y, draw col (Suc k) d, x, m) \<and>
        (k < 15 \<longrightarrow> b = idx (Suc k) \<and> y = bytes)"
  shows "snd (snd (fold step [0..<n] (idx 0, bytes, d, x, m))) = (draw col n d, x, m)"
proof -
  have "\<exists>b y. fold step [0..<k] (idx 0, bytes, d, x, m) = (b, y, draw col k d, x, m) \<and>
      (k < 16 \<longrightarrow> b = idx k \<and> y = bytes)" if "k \<le> 16" for k
    using that
  proof (induction k)
    case (Suc k)
    then have "fold step [0..<k] (idx 0, bytes, d, x, m) = (idx k, bytes, draw col k d, x, m)" by auto
    then show ?case using assms(2) [of k] Suc.prems by auto
  qed simp
  from this [OF assms(1)] show ?thesis by auto
qed

lemma bit_index_step:
  assumes "k < 16"
  shows "7 - int (k div 2) < int (k mod 2) \<Longrightarrow> \<not> k < 15"
    "7 - int (k div 2) - int (k mod 2) = 7 - int (Suc k div 2)"
  using assms by presburger+

lemma pixel256_draws:
  assumes "k < 16"
  shows "\<exists>b y. pixel256 line k (7 - int (k div 2), bytes, draw (colour256 bytes d x) k d, x, m) =
      (b, y, draw (colour256 bytes d x) (Suc k) d, x, m) \<and> (k < 15 \<longrightarrow> b = 7 - int (Suc k div 2) \<and> y = bytes)"
  using bit_index_step [OF assms] by (simp add: pixel256_def Let_def colour256_def del: of_nat_Suc)

lemma pixel512_draws:
  assumes "k < 16"
  shows "\<exists>b y. pixel512 line k (15 - int k, bytes, draw (colour512 bytes d x) k d, x, m) =
      (b, y, draw (colour512 bytes d x) (Suc k) d, x, m) \<and> (k < 15 \<longrightarrow> b = 15 - int (Suc k) \<and> y = bytes)"
  using assms by (simp add: pixel512_def Let_def colour512_def)

lemma commit_scroll_other:
  "rl \<noteq> SCAN_ACTIVE_AREA_TOP \<Longrightarrow> commit_scroll rl s = s"
  by (simp add: commit_scroll_def split: prod.splits)

lemma pixel256_ports_draws:
  assumes "k < 16" "quiet x" "rl \<noteq> SCAN_ACTIVE_AREA_TOP"
  shows "\<exists>b y. pixel256_ports rl line k (7 - int (k div 2), bytes, draw (colour256 bytes d x) k d, x, m) =
      (b, y, draw (colour256 bytes d x) (Suc k) d, x, m) \<and> (k < 15 \<longrightarrow> b = 7 - int (Suc k div 2) \<and> y = bytes)"
  using bit_index_step [OF assms(1)]
  by (simp add: pixel256_ports_def Let_def colour256_def commit_scroll_other [OF assms(3)] quiet_commit [OF assms(2)])

lemma pixel512_ports_draws:
  assumes "k < 16" "quiet x" "rl \<noteq> SCAN_ACTIVE_AREA_TOP"
  shows "\<exists>b y. pixel512_ports rl line k (15 - int k, bytes, draw (colour512 bytes d x) k d, x, m) =
      (b, y, draw (colour512 bytes d x) (Suc k) d, x, m) \<and> (k < 15 \<longrightarrow> b = 15 - int (Suc k) \<and> y = bytes)"
  using assms(1)
  by (simp add: pixel512_ports_def Let_def colour512_def commit_scroll_other [OF assms(3)] quiet_commit [OF assms(2)])

lemma FillActiveArea_draw:
  assumes "aligned d" "n \<le> 16"
  shows "FillActiveArea256 n (d, x, m) = (draw (colour256 (first_bytes d m) d x) n d, x, m)"
    "FillActiveArea512 n (d, x, m) = (draw (colour512 (first_bytes d m) d x) n d, x, m)"
  using loop_draws [of n "pixel256 (scrolled_line d)" "\<lambda>k. 7 - int (k div 2)" "first_bytes d m"
      "colour256 (first_bytes d m) d x" d x m, OF assms(2) pixel256_draws]
    loop_draws [of n "pixel512 (scrolled_line d)" "\<lambda>k. 15 - int k" "first_bytes d m"
      "colour512 (first_bytes d m) d x" d x m, OF assms(2) pixel512_draws]
  by (simp_all add: FillActiveArea256_def FillActiveArea512_def aligned_first [OF assms(1)])

lemma FillActiveAreaPortHandling_draw:
  assumes "aligned d" "n \<le> 16" "quiet x" "GetRasterLine d \<noteq> SCAN_ACTIVE_AREA_TOP"
  shows "FillActiveArea256PortHandling n (d, x, m) = (draw (colour256 (first_bytes d m) d x) n d, x, m)"
    "FillActiveArea512PortHandling n (d, x, m) = (draw (colour512 (first_bytes d m) d x) n d, x, m)"
  using loop_draws [of n "pixel256_ports (GetRasterLine d) (scrolled_line d)" "\<lambda>k. 7 - int (k div 2)"
      "first_bytes d m" "colour256 (first_bytes d m) d x" d x m, OF assms(2) pixel256_ports_draws [OF _ assms(3,4)]]
    loop_draws [of n "pixel512_ports (GetRasterLine d) (scrolled_line d)" "\<lambda>k. 15 - int k"
      "first_bytes d m" "colour512 (first_bytes d m) d x" d x m, OF assms(2) pixel512_ports_draws [OF _ assms(3,4)]]
  by (simp_all add: FillActiveArea256PortHandling_def FillActiveArea512PortHandling_def aligned_first [OF assms(1)])

lemma FillBorderPortHandling_draw:
  assumes "quiet x" "0 \<le> framebufferIdx d" "framebufferIdx d + int n < FRAME_LEN" "m_irqCommitPxl d \<le> framebufferIdx d"
  shows "FillBorderPortHandling n (d, x, m) = (draw (\<lambda>_. full_color d (GetBorderColor x)) n d, x, m)"
proof -
  have "(border_pixel ^^ k) (d, x, m) = (draw (\<lambda>_. full_color d (GetBorderColor x)) k d, x, m)" if "k \<le> n" for k
    using that
  proof (induction k)
    case (Suc k)
    let ?d = "put_pixel (full_color d (GetBorderColor x)) (draw (\<lambda>_. full_color d (GetBorderColor x)) k d)"
    have i: "framebufferIdx ?d = framebufferIdx d + int (Suc k)" "0 \<le> framebufferIdx ?d"
      "framebufferIdx ?d < FRAME_LEN" "framebufferIdx ?d \<noteq> m_irqCommitPxl ?d"
      using assms Suc.prems by simp_all
    then have "framebufferIdx ?d sdiv FRAME_LEN = 0" "framebufferIdx ?d smod FRAME_LEN = framebufferIdx ?d"
      by (simp_all add: sdiv_nonneg smod_nonneg raster_consts)
    then show ?case
      using Suc i by (simp add: border_pixel_def quiet_commit [OF assms(1)] Let_def)
  qed simp
  then show ?thesis by (simp add: FillBorderPortHandling_def)
qed

lemma FillBorder_draw: "FillBorder n (d, x, m) = (draw (\<lambda>_. full_color d (GetBorderColor x)) n d, x, m)"
proof -
  have "(put_pixel c ^^ k) d = draw (\<lambda>_. c) k d" for c k by (induction k) simp_all
  then show ?thesis by (simp add: FillBorder_def)
qed

section \<open>The colour index of a pixel\<close>

text \<open>
  The four planes of an active pixel: one byte of each screen buffer at the same offset, the
  lowest bit of the index from 0xE000. In the 512 mode a pixel takes two of them.
\<close>

definition plane_index :: "bool \<Rightarrow> memory \<Rightarrow> addr \<Rightarrow> nat \<Rightarrow> u8" where
  "plane_index mode512 m off i =
    (let b = 7 - i div 2;
         p = (\<lambda>base. bit (m_ram m (ucast off + base)) b)
     in if \<not> mode512 then horner_sum of_bool 2 [p 0xE000, p 0xC000, p 0xA000, p 0x8000]
        else if even i then horner_sum of_bool 2 [p 0xE000, p 0xC000]
        else horner_sum of_bool 2 [False, False, p 0xA000, p 0x8000])"

lemma bit_screen_bytes:
  "b < 8 \<Longrightarrow> bit (GetScreenBytes m off) b = bit (m_ram m (ucast off + 0xE000)) b"
  "b < 8 \<Longrightarrow> bit (GetScreenBytes m off) (b + 8) = bit (m_ram m (ucast off + 0xC000)) b"
  "b < 8 \<Longrightarrow> bit (GetScreenBytes m off) (b + 16) = bit (m_ram m (ucast off + 0xA000)) b"
  "b < 8 \<Longrightarrow> bit (GetScreenBytes m off) (b + 24) = bit (m_ram m (ucast off + 0x8000)) b"
  by (auto simp: GetScreenBytes_def bit_simps dest: bit_imp_le_length)

lemma bit_and_power:
  "bit (drop_bit k w AND 1) n = (n = 0 \<and> bit w k)"
  "bit (drop_bit k w AND 2) n = (n = 1 \<and> bit w (k + 1))"
  "bit (drop_bit k w AND 4) n = (n = 2 \<and> bit w (k + 2))"
  "bit (drop_bit k w AND 8) n = (n = 3 \<and> bit w (k + 3))"
  for w :: u32
  using bit_2_iff [where 'a = u32, of n] bit_exp_iff [where 'a = u32, of 2 n] bit_exp_iff [where 'a = u32, of 3 n]
  by (auto simp: bit_simps add.commute)

lemma shift_counts:
  "nat (int b - 0 + 0) = b" "nat (int b - 1 + 8) = b + 7" "nat (int b - 2 + 16) = b + 14"
  "nat (int b - 3 + 24) = b + 21" "nat (int b - 0 + 16) = b + 16" "nat (int b - 1 + 24) = b + 23"
  by simp_all

lemma bit_index256:
  "bit (BytesToColorIdx256 w (int b)) n =
    (n = 0 \<and> bit w b \<or> n = 1 \<and> bit w (b + 8) \<or> n = 2 \<and> bit w (b + 16) \<or> n = 3 \<and> bit w (b + 24))"
  by (simp only: BytesToColorIdx256_def shift_counts bit_or_iff bit_and_power) (auto simp: ac_simps)

lemma bit_index512:
  "bit (BytesToColorIdx512 w (2 * int b + 1)) n = (n = 0 \<and> bit w b \<or> n = 1 \<and> bit w (b + 8))"
  "n < 8 \<Longrightarrow> bit (BytesToColorIdx512 w (2 * int b)) n = (n = 2 \<and> bit w (b + 16) \<or> n = 3 \<and> bit w (b + 24))"
proof -
  have d: "drop_bit 1 (2 * int b + 1) = int b" "drop_bit 1 (2 * int b) = int b" by (simp_all add: drop_bit_eq_div)
  have e: "bit (2 * int b + 1) 0" "\<not> bit (2 * int b) 0" by (simp_all add: bit_0)
  show "bit (BytesToColorIdx512 w (2 * int b + 1)) n = (n = 0 \<and> bit w b \<or> n = 1 \<and> bit w (b + 8))"
    by (simp only: BytesToColorIdx512_def Let_def d e if_True shift_counts bit_or_iff bit_and_power)
      (auto simp: ac_simps)
  have four: "v * 4 = push_bit 2 v" for v :: u32 by (simp add: push_bit_eq_mult)
  show "bit (BytesToColorIdx512 w (2 * int b)) n = (n = 2 \<and> bit w (b + 16) \<or> n = 3 \<and> bit w (b + 24))" if "n < 8"
    using that
    by (simp only: BytesToColorIdx512_def Let_def d e if_False shift_counts four bit_push_bit_iff bit_or_iff
        bit_and_power) (auto simp: ac_simps)
qed

lemma bit_plane_index:
  assumes "n < 8"
  defines "p \<equiv> \<lambda>m off i base. bit (m_ram m (ucast off + base)) (7 - i div 2)"
  shows "bit (plane_index False m off i) n =
      (n = 0 \<and> p m off i 0xE000 \<or> n = 1 \<and> p m off i 0xC000 \<or> n = 2 \<and> p m off i 0xA000 \<or>
       n = 3 \<and> p m off i 0x8000)"
    "even i \<Longrightarrow> bit (plane_index True m off i) n = (n = 0 \<and> p m off i 0xE000 \<or> n = 1 \<and> p m off i 0xC000)"
    "odd i \<Longrightarrow> bit (plane_index True m off i) n = (n = 2 \<and> p m off i 0xA000 \<or> n = 3 \<and> p m off i 0x8000)"
  using assms(1)
  by (simp_all only: plane_index_def Let_def p_def bit_horner_sum_bit_iff if_True if_False not_True_eq_False
      not_False_eq_True) (auto simp: nth_Cons split: nat.splits)

lemma colour_index:
  assumes "i < 16"
  shows "ucast (BytesToColorIdx256 (GetScreenBytes m off) (7 - int (i div 2))) = plane_index False m off i"
    "ucast (BytesToColorIdx512 (GetScreenBytes m off) (15 - int i)) = plane_index True m off i"
proof -
  define b where "b = 7 - i div 2"
  have b: "7 - int (i div 2) = int b" "b < 8" using assms by (simp_all add: b_def)
  note bits = bit_screen_bytes [OF b(2), of m off]
  show "ucast (BytesToColorIdx256 (GetScreenBytes m off) (7 - int (i div 2))) = plane_index False m off i"
    unfolding b(1)
    by (rule bit_word_eqI) (simp add: bit_unsigned_iff bit_index256 bits bit_plane_index flip: b_def)
  show "ucast (BytesToColorIdx512 (GetScreenBytes m off) (15 - int i)) = plane_index True m off i"
  proof (cases "even i")
    case True
    then have e: "15 - int i = 2 * int b + 1" using b by presburger
    show ?thesis
      unfolding e by (intro bit_word_eqI) (simp add: bit_unsigned_iff bit_index512 bits bit_plane_index True flip: b_def)
  next
    case False
    then have e: "15 - int i = 2 * int b" using b by presburger
    show ?thesis
      unfolding e by (intro bit_word_eqI) (simp add: bit_unsigned_iff bit_index512 bits bit_plane_index False flip: b_def)
  qed
qed

lemma or_disjoint: "0 \<le> b \<Longrightarrow> b < 256 \<Longrightarrow> push_bit 8 a OR b = a * 256 + (b :: int)"
proof -
  assume "0 \<le> b" "b < 256"
  then have b: "take_bit 8 b = b" by (simp add: take_bit_int_eq_self_iff)
  have "push_bit 8 a AND take_bit 8 b = 0" by (rule bit_eqI) (auto simp: bit_simps)
  then have "push_bit 8 a OR b = push_bit 8 a + b" using plus_and_or [of "push_bit 8 a" b] b by simp
  then show ?thesis by (simp add: push_bit_eq_mult)
qed

text \<open>Where the four bytes of the next 16 pixels come from.\<close>

definition screen_offset :: "display \<Rightarrow> addr" where
  "screen_offset d =
    (let column = (GetRasterPixel d - m_borderLeft d) div 16;
         row = (GetRasterLine d - 40 + 255 - uint (scrollIdx d)) mod 256
     in word_of_int (256 * column + 255 - row))"

lemma first_bytes_offset:
  assumes "steady d" "active_area d"
  shows "first_bytes d m = GetScreenBytes m (screen_offset d)"
proof -
  define column where "column = (GetRasterPixel d - m_borderLeft d) div 16"
  define row where "row = (GetRasterLine d - 40 + 255 - uint (scrollIdx d)) mod 256"
  have pos: "0 \<le> GetRasterPixel d - m_borderLeft d" "40 \<le> GetRasterLine d"
    using assms(2) by (simp_all add: active_area_def active_scan_def raster_consts)
  have "uint (scrollIdx d) < 256" using uint_lt2p [of "scrollIdx d"] by simp
  then have "0 \<le> GetRasterLine d - 40 + (255 - uint (scrollIdx d)) + 256" using pos(2) by simp
  then have "(GetRasterLine d - 40 + (255 - uint (scrollIdx d)) + 256) smod 256 = row"
    by (simp only: smod_nonneg zero_less_numeral mod_add_self2 row_def add_diff_eq)
  then have "scrolled_line d = row + 40" by (simp add: scrolled_line_def raster_consts)
  then have "first_bytes d m = GetScreenBytes m (word_of_int (push_bit 8 column OR (255 - row)))"
    using pos(1) by (simp add: first_bytes_def line_bytes_def Let_def column_def raster_consts sdiv_nonneg)
  also have "push_bit 8 column OR (255 - row) = 256 * column + 255 - row"
    using pos_mod_bound [of 256 "GetRasterLine d - 40 + 255 - uint (scrollIdx d)"] pos_mod_sign [of 256 "GetRasterLine d - 40 + 255 - uint (scrollIdx d)"]
    by (subst or_disjoint) (simp_all add: row_def)
  finally show ?thesis by (simp add: screen_offset_def column_def row_def)
qed

lemma active_block:
  assumes "steady d" "active_area d" "aligned d"
  shows "active_pxls d = 16"
proof -
  have px: "m_borderLeft d \<le> GetRasterPixel d" "GetRasterPixel d < m_borderLeft d + 512"
    using assms(2) by (simp_all add: active_area_def ACTIVE_AREA_RIGHT_def raster_consts)
  have idx: "GetRasterPixel d = framebufferIdx d mod 768" "0 \<le> framebufferIdx d"
    using line_bounds [OF assms(1)] assms(1) by (simp_all add: steady_def)
  then have "GetRasterPixel d \<le> framebufferIdx d"
    by (simp add: zmod_le_nonneg_dividend)
  then have "(framebufferIdx d - m_borderLeft d) mod 16 = 0"
    using assms(3) px(1) by (simp add: aligned_def raster_consts smod_nonneg)
  then have "16 dvd framebufferIdx d - m_borderLeft d" by presburger
  moreover have "GetRasterPixel d - m_borderLeft d =
      (framebufferIdx d - m_borderLeft d) - 16 * (48 * (framebufferIdx d div 768))"
    unfolding idx(1) by (simp add: minus_div_mult_eq_mod [symmetric])
  ultimately have "16 dvd GetRasterPixel d - m_borderLeft d" by (metis dvd_diff dvd_triv_left)
  then obtain k where k: "GetRasterPixel d - m_borderLeft d = 16 * k" by (rule dvdE)
  then have "k \<le> 31" using px by linarith
  then have "GetRasterPixel d - m_borderLeft d \<le> 496" using k by simp
  then show ?thesis by (simp add: active_pxls_def ACTIVE_AREA_RIGHT_def raster_consts)
qed

definition plane_colour :: "display \<Rightarrow> io \<Rightarrow> memory \<Rightarrow> nat \<Rightarrow> u32" where
  "plane_colour d x m i = full_color d (GetColor x (plane_index (GetDisplayMode x) m (screen_offset d) i))"

lemma draw_cong: "(\<And>i. i < n \<Longrightarrow> f i = g i) \<Longrightarrow> draw f n d = draw g n d"
  by (induction n) simp_all

lemma Rasterize_active:
  assumes "steady d" "active_area d" "aligned d"
    and "outCommitTimer (io_st x) \<le> 0" "paletteCommitTimer (io_st x) \<le> 0"
    and "GetRasterLine d = SCAN_ACTIVE_AREA_TOP \<Longrightarrow> m_borderLeft d + 16 \<le> GetRasterPixel d"
  shows "Rasterize (d, x, m) = (draw (plane_colour d x m) 16 (d\<lparr>d_irq := False\<rparr>), x, m)"
proof -
  define d1 where "d1 = d\<lparr>d_irq := False\<rparr>"
  have d1: "steady d1" "active_area d1" "aligned d1" "GetRasterLine d1 = GetRasterLine d"
    "GetRasterPixel d1 = GetRasterPixel d" "m_borderLeft d1 = m_borderLeft d" "screen_offset d1 = screen_offset d"
    "full_color d1 = full_color d"
    using assms(1-3) by (simp_all add: d1_def steady_def active_area_def active_scan_def GetRasterLine_def
        GetRasterPixel_def ACTIVE_AREA_RIGHT_def aligned_def screen_offset_def full_color_def fun_eq_iff)
  have col: "i < 16 \<Longrightarrow> (if GetDisplayMode x then colour512 else colour256) (first_bytes d1 m) d1 x i = plane_colour d x m i" for i
    using colour_index [of i m "screen_offset d"]
    by (simp add: colour256_def colour512_def plane_colour_def first_bytes_offset [OF d1(1,2)] d1)
  have "Rasterize (d, x, m) = RasterizeActiveArea 16 (d1, x, m)"
    using active_block [OF d1(1-3)] d1(2) by (simp add: Rasterize_def raster_consts flip: d1_def)
  also have "\<dots> = (if GetDisplayMode x then FillActiveArea512 16 (d1, x, m) else FillActiveArea256 16 (d1, x, m))"
    using assms(4-6) by (auto simp: RasterizeActiveArea_def d1 MODE_256_def raster_consts)
  also have "\<dots> = (draw (plane_colour d x m) 16 d1, x, m)"
    using col FillActiveArea_draw [OF d1(3), of 16 x m] by (auto intro: draw_cong)
  finally show ?thesis by (simp add: d1_def)
qed


section \<open>A delivered frame\<close>

definition rows :: "(int \<Rightarrow> u32) \<Rightarrow> (int \<Rightarrow> u32) \<Rightarrow> int \<Rightarrow> int \<Rightarrow> int \<Rightarrow> int \<Rightarrow> u32" where
  "rows source target w off len =
    (\<lambda>i. if 0 \<le> i \<and> i < len then source (off + (i div w) * FRAME_W + i mod w) else target i)"

lemma rows_step:
  assumes "0 \<le> w" "0 \<le> n"
  shows "copy_pixels (n * w) (off + n * FRAME_W) w source (rows source target w off (n * w)) =
    rows source target w off (n * w + w)"
proof (rule ext)
  fix i
  have nw: "0 \<le> n * w" using assms by simp
  show "copy_pixels (n * w) (off + n * FRAME_W) w source (rows source target w off (n * w)) i =
      rows source target w off (n * w + w) i"
  proof (cases "n * w \<le> i \<and> i < n * w + w")
    case True
    define k where "k = i - n * w"
    have k: "0 \<le> k" "k < w" "i = k + n * w" using True by (simp_all add: k_def)
    then have "i div w = n" "i mod w = k" by (simp_all add: div_pos_pos_trivial mod_pos_pos_trivial)
    then show ?thesis using True nw by (simp add: copy_pixels_def rows_def k_def)
  next
    case False
    then show ?thesis using assms(1) by (auto simp: copy_pixels_def rows_def)
  qed
qed

lemma copy_rows:
  assumes "0 \<le> r_width r"
  shows "(crop_row source r ^^ n) (target, 0, off) =
    (rows source target (r_width r) off (int n * r_width r), int n * r_width r, off + int n * FRAME_W)"
proof (induction n)
  case 0
  show ?case by (auto simp: rows_def fun_eq_iff)
next
  case (Suc n)
  then show ?case
    using rows_step [OF assms, of "int n" off source target]
    by (simp add: crop_row_def algebra_simps)
qed

lemma red_green_blue:
  "swap_red_blue (VectorColorToArgb v) =
    0xff000000 OR push_bit 21 (ucast (v AND 7)) OR push_bit 13 (ucast (drop_bit 3 v AND 7)) OR
    push_bit 6 (ucast (drop_bit 6 v))"
proof (rule bit_word_eqI)
  fix n assume "n < LENGTH(32)"
  then have "n \<in> {0, 1, 2, 3, 4, 5, 6, 7, 8, 9, 10, 11, 12, 13, 14, 15, 16, 17, 18, 19, 20, 21, 22, 23, 24, 25,
      26, 27, 28, 29, 30, 31}" by (simp, presburger)
  moreover have "\<not> bit v k" if "8 \<le> k" for k using that by (auto dest: bit_imp_le_length)
  ultimately show "bit (swap_red_blue (VectorColorToArgb v)) n =
    bit (0xff000000 OR push_bit 21 (ucast (v AND 7)) OR push_bit 13 (ucast (drop_bit 3 v AND 7)) OR
      push_bit 6 (ucast (drop_bit 6 v)) :: u32) n"
    by (elim insertE; simp add: swap_red_blue_def VectorColorToArgb_def Let_def bit_simps)
qed

lemma GetFrame_pixel:
  assumes "0 \<le> x" "x < r_width r" "0 \<le> y" "y < r_height r" "r = frame_mode_regions (m_frameMode d)"
  shows "fst (fst (GetFrame vsync d)) (y * r_width r + x) =
    (if m_colorFormat d = ARGB then swap_red_blue else id)
      ((if vsync then m_backBuffer d else m_frameBuffer d) ((y + r_offsetY r) * FRAME_W + x + r_offsetX r))"
proof -
  let ?i = "y * r_width r + x"
  have h: "int (nat (r_height r)) = r_height r" using assms by simp
  have "y * r_width r + x < (y + 1) * r_width r" using assms by (simp add: distrib_right)
  also have "\<dots> \<le> r_height r * r_width r" using assms by (intro mult_right_mono) simp_all
  finally have i: "0 \<le> ?i" "?i < r_width r * r_height r" using assms by (simp_all add: mult.commute)
  have dm: "?i div r_width r = y" "?i mod r_width r = x"
    using assms by (simp_all add: div_pos_pos_trivial mod_pos_pos_trivial)
  show ?thesis
  proof (cases "m_frameMode d = FULL")
    case True
    then show ?thesis using i assms by (auto simp: GetFrame_def Let_def)
  next
    case False
    have "fst (CropFrame src tgt r) ?i = src ((y + r_offsetY r) * FRAME_W + x + r_offsetX r)" for src tgt
      using i dm h assms by (simp add: CropFrame_def copy_rows rows_def mult.commute algebra_simps)
    then show ?thesis using i False assms by (simp add: GetFrame_def Let_def)
  qed
qed

lemma region_inside:
  assumes "0 \<le> x" "x < r_width r" "0 \<le> y" "y < r_height r" "r = frame_mode_regions (m_frameMode d)"
  shows "0 \<le> (y + r_offsetY r) * FRAME_W + x + r_offsetX r" "(y + r_offsetY r) * FRAME_W + x + r_offsetX r < FRAME_LEN"
  using assms
  by (cases "m_frameMode d"; simp add: raster_consts BORDER_LEFT_def BORDER_TOP_def BORDER_VISIBLE_def)+

section \<open>Properties\<close>

text \<open>C29: Frame timing. Whatever the other devices do between the calls, every call of the rasteriser
  advances the beam by 16 pixels of the 768 x 312 frame and stores inside the frame buffer; the
  frame counter counts the frames completed; the interrupt is requested by exactly one of the
  14976 calls of a frame, the one that ends at pixel 112.\<close>

theorem frame_timing:
  assumes "0 \<le> framebufferIdx (fst s)" "framebufferIdx (fst s) < FRAME_LEN" "16 dvd framebufferIdx (fst s)"
    "m_irqCommitPxl (fst s) = IRQ_COMMIT_PXL" "fs \<noteq> []"
  defines "p \<equiv> framebufferIdx (fst s) + 16 * int (length fs)" and "t \<equiv> raster_run fs s"
  shows "framebufferIdx (fst t) = p mod FRAME_LEN \<and>
    frameNum (fst t) = frameNum (fst s) + of_int (p div FRAME_LEN) \<and>
    d_irq (fst t) = (p mod FRAME_LEN = 112) \<and> d_fault (fst t) = d_fault (fst s)"
  using raster_run_timing [of s fs] assms by (simp_all add: steady_def settings_def irq_default_def IRQ_COMMIT_PXL_def)


text \<open>A screen on which the properties are evaluated: line 41, first active pixels, the default settings.\<close>

definition sample_display :: "int \<Rightarrow> display" where
  "sample_display i = (Display_new (\<lambda>_. 0))\<lparr>framebufferIdx := i\<rparr>"

lemma sample_display_sel [simp]:
  "framebufferIdx (sample_display i) = i" "m_irqCommitPxl (sample_display i) = 112"
  "m_borderLeft (sample_display i) = 128" "m_frameMode (sample_display i) = BORDERED"
  "m_colorFormat (sample_display i) = ARGB" "frameNum (sample_display i) = 0"
  "scrollIdx (sample_display i) = 255"
  by (simp_all add: sample_display_def Display_new_def Display_Reset_def IRQ_COMMIT_PXL_def BORDER_LEFT_def
      SCROLL_DEFAULT_def)

theorem frame_timing_witness:
  "d_irq (fst (raster_run [id, id] (sample_display 80, sample_io, sample_memory)))"
  using frame_timing [of "(sample_display 80, sample_io, sample_memory)" "[id, id]"]
  by (simp add: raster_consts IRQ_COMMIT_PXL_def)

text \<open>The colours of the active area. With no colour or OUT commit pending, a call of the rasteriser
  in the active area draws 16 pixels, each in the palette colour of the index whose bits lie in
  the four screen buffers at the pixel's column and scrolled row (all four bits in the 256 mode,
  two alternating ones in the 512 mode); no other pixel, port or memory cell changes.\<close>

theorem active_pixels:
  assumes "0 \<le> framebufferIdx d" "framebufferIdx d < FRAME_LEN" "active_area d" "aligned d"
    and "outCommitTimer (io_st x) \<le> 0" "paletteCommitTimer (io_st x) \<le> 0"
    and "GetRasterLine d = SCAN_ACTIVE_AREA_TOP \<Longrightarrow> m_borderLeft d + 16 \<le> GetRasterPixel d"
  shows "m_frameBuffer (fst (Rasterize (d, x, m))) p =
      (if framebufferIdx d \<le> p \<and> p < framebufferIdx d + 16
       then full_color d (GetColor x (plane_index (GetDisplayMode x) m (screen_offset d)
         (nat (p - framebufferIdx d))))
       else m_frameBuffer d p) \<and>
    snd (Rasterize (d, x, m)) = (x, m)"
  using Rasterize_active [of d x m] assms by (simp_all add: steady_def draw_frame plane_colour_def)

theorem active_pixels_witness:
  "snd (Rasterize (sample_display (41 * 768 + 128), sample_io, sample_memory)) = (sample_io, sample_memory)"
proof (rule active_pixels [THEN conjunct2])
  let ?d = "sample_display (41 * 768 + 128)"
  have "GetRasterLine ?d = 41" "GetRasterPixel ?d = 128"
    by (simp_all add: GetRasterLine_def GetRasterPixel_def FRAME_W_def sdiv_nonneg smod_nonneg)
  then show "active_area ?d" "aligned ?d" "GetRasterLine ?d = SCAN_ACTIVE_AREA_TOP \<Longrightarrow> m_borderLeft ?d + 16 \<le> GetRasterPixel ?d"
    by (simp_all add: active_area_def active_scan_def ACTIVE_AREA_RIGHT_def aligned_def raster_consts smod_nonneg)
  show "outCommitTimer (io_st sample_io) \<le> 0" "paletteCommitTimer (io_st sample_io) \<le> 0"
    by (simp_all add: sample_io_def IO_Init_def)
qed (simp_all add: raster_consts)

text \<open>C30: The loops without port handling are an optimisation and nothing else: when no commit is
  pending they draw what the loops with port handling draw, in both display modes (from a byte
  boundary, for at most 16 pixels, below the line that latches the scroll) and in the border
  (away from the end of the frame and the pixel of the interrupt).\<close>

theorem fast_paths_agree:
  assumes "quiet x"
  shows "(aligned d \<and> n \<le> 16 \<and> GetRasterLine d \<noteq> SCAN_ACTIVE_AREA_TOP \<longrightarrow>
      FillActiveArea256PortHandling n (d, x, m) = FillActiveArea256 n (d, x, m) \<and>
      FillActiveArea512PortHandling n (d, x, m) = FillActiveArea512 n (d, x, m)) \<and>
    (0 \<le> framebufferIdx d \<and> framebufferIdx d + int n < FRAME_LEN \<and> m_irqCommitPxl d \<le> framebufferIdx d \<longrightarrow>
      FillBorderPortHandling n (d, x, m) = FillBorder n (d, x, m))"
  using assms
  by (simp_all add: FillActiveArea_draw FillActiveAreaPortHandling_draw FillBorderPortHandling_draw FillBorder_draw)

theorem fast_paths_agree_witness:
  "FillActiveArea512PortHandling 16 (sample_display (41 * 768 + 128), sample_io, sample_memory) =
    FillActiveArea512 16 (sample_display (41 * 768 + 128), sample_io, sample_memory)"
  by (rule fast_paths_agree [THEN conjunct1, THEN mp, THEN conjunct2])
    (simp_all add: quiet_def sample_io_def IO_Init_def aligned_def GetRasterLine_def raster_consts sdiv_nonneg smod_nonneg)

text \<open>What a client gets. Pixel \<open>(x, y)\<close> of the frame delivered in any mode is the pixel at the same
  place of the chosen buffer, which lies inside that buffer, with red and blue exchanged when the
  output format is ARGB; an 8-bit Vector colour \<open>BBGGGRRR\<close> then has its three parts in the high
  bits of the output's red, green and blue bytes.\<close>

theorem get_frame_pixel:
  assumes "0 \<le> x" "x < r_width r" "0 \<le> y" "y < r_height r" "r = frame_mode_regions (m_frameMode d)"
  defines "i \<equiv> (y + r_offsetY r) * FRAME_W + x + r_offsetX r"
  shows "fst (fst (GetFrame vsync d)) (y * r_width r + x) =
      (if m_colorFormat d = ARGB then swap_red_blue else id) ((if vsync then m_backBuffer d else m_frameBuffer d) i) \<and>
    0 \<le> i \<and> i < FRAME_LEN \<and>
    swap_red_blue (VectorColorToArgb v) =
      0xff000000 OR push_bit 21 (ucast (v AND 7)) OR push_bit 13 (ucast (drop_bit 3 v AND 7)) OR
      push_bit 6 (ucast (drop_bit 6 v))"
  using GetFrame_pixel [OF assms(1-5)] region_inside [OF assms(1-5)] red_green_blue
  by (simp_all add: i_def)

theorem get_frame_pixel_witness:
  "fst (fst (GetFrame False (sample_display 0))) (3 * 544 + 2) = 0xff000000"
  using get_frame_pixel [of 2 "frame_mode_regions BORDERED" 3 "sample_display 0" False]
  by (simp add: raster_consts BORDER_VISIBLE_def BORDER_LEFT_def BORDER_TOP_def sample_display_def Display_new_def
      Display_Reset_def swap_red_blue_def)

end
