(* ===== verification/Hardware.thy ===== *)
theory Hardware
  imports Cpu_Decode Display Audio TQueue
begin

text \<open>
  The machine of \<^verbatim>\<open>core/hardware.cpp\<close>: the processor, the memory, the ports, the
  rasteriser and the sound wired together, one machine cycle at a time; instructions, frames and
  headless runs; stopping, resetting and restarting; and the requests other threads send. Wall
  clock pacing and the JSON text of a request are not modelled: a request carries typed
  arguments, and what \<^verbatim>\<open>m_reqs.pop\<close> returns next is an input, the list \<open>inbox\<close>.
\<close>

section \<open>State\<close>

datatype status = S_RUN | S_STOP | S_EXIT

text \<open>
  The JSON values of requests and replies. An integer is \<open>JNum\<close>, as the library keeps it when it
  is not negative or when C++ gave it a signed type; a non-negative one that the wire format marked
  as signed is \<open>JSigned\<close>. A floating-point number is kept by the integer its conversions cut it
  to, if there is one.
\<close>

datatype jval =
    JNull
  | JNum int
  | JSigned int
  | JFloat "int option"
  | JBool bool
  | JStr string
  | JBytes "u8 list"
  | JList "jval list"
  | JObj "(string \<times> jval) list"

definition jset :: "(string \<times> jval) list \<Rightarrow> string \<times> jval \<Rightarrow> (string \<times> jval) list" where
  "jset obj kv =
    (if fst kv \<in> set (map fst obj) then map (\<lambda>(k, v). if k = fst kv then kv else (k, v)) obj else obj @ [kv])"

text \<open>
  The requests, grouped by what their handlers do: read, set, control the run, execute. A
  \<^verbatim>\<open>Notice\<close> goes from the hardware to the debugger, \<open>DEBUG_REQ\<close> stands for the requests the
  debugger handles.
\<close>

datatype query =
    IS_RUNNING | GET_CC | GET_STOP_RECORD | GET_REGS | GET_REG_PC | GET_RUSLAT_HISTORY
  | GET_IO_PALETTE | GET_IO_PORTS | GET_IO_PALETTE_COMMIT_TIME
  | GET_DISPLAY_BORDER_LEFT | GET_DISPLAY_IRQ_COMMIT_PXL | GET_IO_DISPLAY_MODE
  | GET_BYTE_GLOBAL global_addr | GET_MEM u64 u64 | GET_BYTE_RAM addr | GET_THREE_BYTES_RAM addr
  | GET_WORD_STACK addr | GET_STACK_SAMPLE addr
  | GET_DISPLAY_DATA | GET_MEMORY_MAPPING | GET_MEMORY_MAPPINGS | GET_GLOBAL_ADDR_RAM addr
  | GET_FDC_INFO | GET_STEP_OVER_ADDR | GET_IO_PORTS_IN_DATA | GET_IO_PORTS_OUT_DATA
  | GET_HW_MAIN_STATS | GET_HARDWARE_STATS u64 | IS_MEMROM_ENABLED | GET_SCROLL_VERT

datatype setting =
    RUN | EXIT | SET_IO_PALETTE_COMMIT_TIME int | SET_DISPLAY_BORDER_LEFT int
  | SET_DISPLAY_IRQ_COMMIT_PXL int | SET_FRAME_MODE frame_mode | SET_COLOR_FORMAT color_format
  | GET_MEM_STRING_GLOBAL global_addr addr | GET_FDD_INFO int | GET_FDD_IMAGE int
  | SET_MEM addr "u8 list" | SET_BYTE_GLOBAL global_addr u8 | SET_CPU_SPEED int
  | LOAD_FDD int "u8 list" string | RESET_UPDATE_FDD int | DEBUG_ATTACH bool

datatype control =
    INTERNAL_BEGIN_SESSION | STOP | RESET | RESTART | SET_IO_PALETTE_ENTRY u8 u8 | DISMOUNT_FDD int
  | KEY_HANDLING int int | LOAD_ROM "u8 list" addr bool | MOUNT_FDD "u8 list" int string bool

datatype notice =
    INTERNAL_REAPPLY_MEMORY_EDITS | INTERNAL_CANCEL_CODE_PERF_SAMPLES
  | INTERNAL_INVALIDATE_TRACE_LOG_FILTER | INTERNAL_MARK_SCRIPT_OVERLAYS_UPDATED
  | INTERNAL_RESET_TRACE_HISTORY

datatype request =
    Query query | Setting setting | Control control | Notice notice
  | EXECUTE_INSTR | EXECUTE_FRAME | EXECUTE_FRAME_NO_BREAKS | RUN_HEADLESS bool u64 u64
  | DEBUG_REQ int jval

text \<open>A \<^verbatim>\<open>RequestResult\<close>: data, a thrown exception with its text, or not handled.\<close>

datatype reply = Data jval | Raised string | Unhandled

text \<open>
  \<open>hw_mem_string\<close> is the static buffer of \<^verbatim>\<open>GetMemString\<close>; \<open>nextSessionId\<close> the counter of its
  file; \<open>hw_debugger\<close> the state behind the attached functions \<^verbatim>\<open>Debug\<close> and
  \<^verbatim>\<open>DebugReqHandling\<close>, \<^term>\<open>None\<close> before they are attached; \<open>outbox\<close> the replies put
  into \<^verbatim>\<open>m_reqRes\<close>; \<open>actual_speed\<close> the percentage the pacing measures.
\<close>

record ('f, 'd) hardware =
  hw_machine :: "io machine"
  hw_display :: display
  hw_audio :: "'f audio"
  hw_status :: status
  hw_debugger :: "'d option"
  m_debugAttached :: bool
  nextSessionId :: u64
  m_sessionId :: u64
  m_cycleOffset :: u64
  m_frameOffset :: u64
  m_sessionStartCycles :: u64
  m_sessionStartFrames :: u64
  m_runStartCycles :: u64
  m_lastRunCycles :: u64
  m_stopSequence :: u64
  m_stopRecord :: "(string \<times> jval) list"
  m_execSpeed :: int
  actual_speed :: jval
  hw_mem_string :: "u8 list"
  inbox :: "request option list"
  outbox :: "reply list"

text \<open>
  The attached debugger: called after an instruction, and for the requests the hardware does not
  handle. What it calls on the hardware is part of its answer: \<^verbatim>\<open>Debug\<close> breaks exactly when it
  records a stop, with a reason and a trigger, and may still throw after that, when it saves the
  trace: its answer is the text of the exception, if any, and the stop it recorded, if any. A
  request is told whether the machine runs and may ask to stop for a script; there \<^term>\<open>Inl\<close> is an
  exception.
\<close>

type_synonym stop = "string \<times> (string \<times> jval) list"

record 'd debug_hooks =
  hook_debug :: "'d \<Rightarrow> io machine \<times> display \<Rightarrow> (string option \<times> stop option) \<times> 'd \<times> io machine \<times> display"
  hook_request :: "request \<Rightarrow> bool \<Rightarrow> 'd \<Rightarrow> io machine \<times> display \<Rightarrow>
    (string + jval) \<times> int option \<times> 'd \<times> io machine \<times> display"

definition io_bus :: "io port_bus" where
  "io_bus = \<lparr>bus_input = PortIn, bus_output = PortOut\<rparr>"

definition hw_cpu :: "('f, 'd) hardware \<Rightarrow> cpu_state" where
  "hw_cpu h = cpu (hw_machine h)"

definition hw_mem :: "('f, 'd) hardware \<Rightarrow> memory" where
  "hw_mem h = mem (hw_machine h)"

definition hw_io :: "('f, 'd) hardware \<Rightarrow> io" where
  "hw_io h = io (hw_machine h)"

definition upd_cpu :: "(cpu_state \<Rightarrow> cpu_state) \<Rightarrow> ('f, 'd) hardware \<Rightarrow> ('f, 'd) hardware" where
  "upd_cpu g h = h\<lparr>hw_machine := upd g (hw_machine h)\<rparr>"

definition upd_mem :: "(memory \<Rightarrow> memory) \<Rightarrow> ('f, 'd) hardware \<Rightarrow> ('f, 'd) hardware" where
  "upd_mem g h = h\<lparr>hw_machine := (hw_machine h)\<lparr>mem := g (hw_mem h)\<rparr>\<rparr>"

definition upd_hw_io :: "(io \<Rightarrow> io) \<Rightarrow> ('f, 'd) hardware \<Rightarrow> ('f, 'd) hardware" where
  "upd_hw_io g h = h\<lparr>hw_machine := (hw_machine h)\<lparr>io := g (hw_io h)\<rparr>\<rparr>"

definition upd_display :: "(display \<Rightarrow> display) \<Rightarrow> ('f, 'd) hardware \<Rightarrow> ('f, 'd) hardware" where
  "upd_display g h = h\<lparr>hw_display := g (hw_display h)\<rparr>"

lemmas hw_views = hw_cpu_def hw_mem_def hw_io_def upd_cpu_def upd_mem_def upd_hw_io_def upd_display_def

definition GetTotalCycles :: "('f, 'd) hardware \<Rightarrow> u64" where
  "GetTotalCycles h = m_cycleOffset h + r_cc (hw_cpu h)"

definition GetTotalFrames :: "('f, 'd) hardware \<Rightarrow> u64" where
  "GetTotalFrames h = m_frameOffset h + frameNum (hw_display h)"

section \<open>A machine cycle\<close>

definition hw_rasterize :: "('f, 'd) hardware \<Rightarrow> ('f, 'd) hardware" where
  "hw_rasterize h =
    (let (d, x, m) = Rasterize (hw_display h, hw_io h, hw_mem h)
     in h\<lparr>hw_machine := (hw_machine h)\<lparr>io := x, mem := m\<rparr>, hw_display := d\<rparr>)"

definition hw_execute :: "('f, 'd) hardware \<Rightarrow> ('f, 'd) hardware" where
  "hw_execute h = h\<lparr>hw_machine := ExecuteMachineCycle io_bus (d_irq (hw_display h)) (hw_machine h)\<rparr>"

definition hw_sound :: "'f float_ops \<Rightarrow> ('f, 'd) hardware \<Rightarrow> ('f, 'd) hardware" where
  "hw_sound fo h =
    (let x = hw_io h;
         (t, w, a) = Audio_Clock fo 2 (f_of_int fo (uint (GetBeeper x))) (io_timer x, io_ay x, hw_audio h)
     in upd_hw_io (\<lambda>x. x\<lparr>io_timer := t, io_ay := w\<rparr>) (h\<lparr>hw_audio := a\<rparr>))"

definition hw_cycle :: "'f float_ops \<Rightarrow> ('f, 'd) hardware \<Rightarrow> ('f, 'd) hardware" where
  "hw_cycle fo h = hw_sound fo (hw_execute (hw_rasterize h))"

text \<open>The loop \<^verbatim>\<open>do ... while (!m_cpu.IsInstructionExecuted())\<close>.\<close>

partial_function (option) instruction_cycles ::
  "'f float_ops \<Rightarrow> ('f, 'd) hardware \<Rightarrow> ('f, 'd) hardware option" where
  "instruction_cycles fo h =
    (let h1 = hw_cycle fo h
     in if IsInstructionExecuted (hw_cpu h1) then Some h1 else instruction_cycles fo h1)"

section \<open>Stopping and resetting\<close>

definition debug_request ::
  "'d debug_hooks \<Rightarrow> request \<Rightarrow> ('f, 'd) hardware \<Rightarrow> ((string + jval) \<times> int option) option \<times> ('f, 'd) hardware" where
  "debug_request hk r h =
    (case hw_debugger h of
       None \<Rightarrow> (None, h)
     | Some g \<Rightarrow>
        (let (res, script, g1, mc, d) = hook_request hk r (hw_status h = S_RUN) g (hw_machine h, hw_display h)
         in (Some (res, script), h\<lparr>hw_debugger := Some g1, hw_machine := mc, hw_display := d\<rparr>)))"

text \<open>
  A request to the debugger within a handler: an exception it throws ends the handler, which the
  type \<open>string + hardware\<close> shows.
\<close>

definition notify ::
  "'d debug_hooks \<Rightarrow> notice \<Rightarrow> ('f, 'd) hardware \<Rightarrow> (string \<times> ('f, 'd) hardware) + ('f, 'd) hardware" where
  "notify hk r h =
    (case debug_request hk (Notice r) h of
       (Some (Inl e, _), h1) \<Rightarrow> Inl (e, h1)
     | (_, h1) \<Rightarrow> Inr h1)"

definition and_then :: "'e + 'a \<Rightarrow> ('a \<Rightarrow> 'e + 'b) \<Rightarrow> 'e + 'b" where
  "and_then x g = (case x of Inl e \<Rightarrow> Inl e | Inr a \<Rightarrow> g a)"

definition RecordStop :: "string \<Rightarrow> (string \<times> jval) list \<Rightarrow> ('f, 'd) hardware \<Rightarrow> ('f, 'd) hardware" where
  "RecordStop reason trigger h =
    (let n = m_stopSequence h + 1; pc = r_pc (hw_cpu h)
     in h\<lparr>m_stopSequence := n,
          m_stopRecord := fold (\<lambda>kv obj. jset obj kv) trigger
            [(''sequence'', JNum (uint n)), (''reason'', JStr reason), (''pc'', JNum (uint pc)),
             (''globalInstructionAddress'', JNum (uint (GetGlobalAddr (hw_mem h) pc RAM)))]\<rparr>)"

definition Hw_Init :: "('f, 'd) hardware \<Rightarrow> ('f, 'd) hardware" where
  "Hw_Init h = upd_hw_io IO_Init (upd_display Display_Reset (upd_mem Memory_Init h))"

definition audio_reset :: "'f float_ops \<Rightarrow> ('f, 'd) hardware \<Rightarrow> ('f, 'd) hardware" where
  "audio_reset fo h =
    (let x = hw_io h; (t, w, a) = Audio_Reset fo (io_timer x, io_ay x, hw_audio h)
     in upd_hw_io (\<lambda>x. x\<lparr>io_timer := t, io_ay := w\<rparr>) (h\<lparr>hw_audio := a\<rparr>))"

definition add_offsets :: "('f, 'd) hardware \<Rightarrow> ('f, 'd) hardware" where
  "add_offsets h =
    h\<lparr>m_cycleOffset := m_cycleOffset h + r_cc (hw_cpu h),
      m_frameOffset := m_frameOffset h + frameNum (hw_display h)\<rparr>"

definition notify_reset ::
  "'d debug_hooks \<Rightarrow> ('f, 'd) hardware \<Rightarrow> (string \<times> ('f, 'd) hardware) + ('f, 'd) hardware" where
  "notify_reset hk h =
    and_then (notify hk INTERNAL_CANCEL_CODE_PERF_SAMPLES h) (notify hk INTERNAL_RESET_TRACE_HISTORY)"

definition Hw_Reset ::
  "'f float_ops \<Rightarrow> 'd debug_hooks \<Rightarrow> ('f, 'd) hardware \<Rightarrow> (string \<times> ('f, 'd) hardware) + ('f, 'd) hardware" where
  "Hw_Reset fo hk h =
    notify_reset hk (audio_reset fo (upd_display Display_Reset (upd_cpu Cpu_Reset (Hw_Init (add_offsets h)))))"

definition Hw_Restart ::
  "'f float_ops \<Rightarrow> 'd debug_hooks \<Rightarrow> ('f, 'd) hardware \<Rightarrow> (string \<times> ('f, 'd) hardware) + ('f, 'd) hardware" where
  "Hw_Restart fo hk h =
    notify_reset hk
      (upd_mem Memory_Restart (audio_reset fo (upd_display Display_Reset (upd_cpu Cpu_Reset (add_offsets h)))))"

definition Hw_Stop ::
  "'d debug_hooks \<Rightarrow> bool \<Rightarrow> ('f, 'd) hardware \<Rightarrow> (string \<times> ('f, 'd) hardware) + ('f, 'd) hardware" where
  "Hw_Stop hk record h =
    (let h1 = (if hw_status h = S_RUN then h\<lparr>m_lastRunCycles := GetTotalCycles h - m_runStartCycles h\<rparr> else h);
         h2 = h1\<lparr>hw_status := S_STOP\<rparr>
     in and_then (notify hk INTERNAL_INVALIDATE_TRACE_LOG_FILTER h2)
          (\<lambda>h3. Inr (if record then RecordStop ''pause'' [] h3 else h3)))"

definition Hw_Run :: "('f, 'd) hardware \<Rightarrow> ('f, 'd) hardware" where
  "Hw_Run h =
    (if hw_status h \<noteq> S_RUN then h\<lparr>m_runStartCycles := GetTotalCycles h\<rparr> else h)\<lparr>hw_status := S_RUN\<rparr>"

definition StopForScript ::
  "'d debug_hooks \<Rightarrow> int \<Rightarrow> ('f, 'd) hardware \<Rightarrow> (string \<times> ('f, 'd) hardware) + ('f, 'd) hardware" where
  "StopForScript hk scriptId h =
    and_then (Hw_Stop hk False h) (\<lambda>h1. Inr (RecordStop ''script''
      [(''scriptId'', JNum scriptId), (''description'', JStr ''Lua script requested a stop'')] h1))"

end
