(* ===== verification/Hw_Requests.thy ===== *)
theory Hw_Requests
  imports Hardware
begin

text \<open>
  The requests of \<^verbatim>\<open>Hardware::ReqHandling\<close>: what they read, what they set, and the mutual
  recursion of executing an instruction, polling the request queue after it, and the requests
  that execute instructions in turn. The recursion takes fuel; the loop of a headless run is a
  partial function.
\<close>

section \<open>Reading the machine\<close>

definition jbool :: "string \<Rightarrow> bool \<Rightarrow> string \<times> jval" where "jbool k b = (k, JBool b)"
definition jword :: "string \<Rightarrow> 'a::len word \<Rightarrow> string \<times> jval" where "jword k w = (k, JNum (uint w))"
definition jint :: "string \<Rightarrow> int \<Rightarrow> string \<times> jval" where "jint k i = (k, JNum i)"

definition GetRegs :: "('f, 'd) hardware \<Rightarrow> jval" where
  "GetRegs h =
    (let c = hw_cpu h
     in JObj [jword ''cc'' (r_cc c), jword ''pc'' (r_pc c), jword ''sp'' (r_sp c), jword ''af'' (GetPSW c),
       jword ''bc'' (r_bc c), jword ''de'' (r_de c), jword ''hl'' (r_hl c), jword ''ints'' (ints_data c),
       jword ''m'' (GetByte (hw_mem h) (r_hl c) RAM)])"

text \<open>\<^verbatim>\<open>std::array::at\<close>: an exception past the end.\<close>

definition Hw_GetByteGlobal :: "global_addr \<Rightarrow> ('f, 'd) hardware \<Rightarrow> string + jval" where
  "Hw_GetByteGlobal a h =
    (if unat a < MEMORY_GLOBAL_LEN then Inr (JObj [jword ''data'' (GetByteGlobal (hw_mem h) a)])
     else Inl ''out_of_range'')"

definition GetMem :: "u64 \<Rightarrow> u64 \<Rightarrow> ('f, 'd) hardware \<Rightarrow> string + jval" where
  "GetMem addr len h =
    (if len = 0 \<or> of_nat MEMORY_GLOBAL_LEN \<le> addr \<or> of_nat MEMORY_GLOBAL_LEN - addr < len
     then Inl ''GET_MEM range is outside global memory''
     else Inr (JObj [jword ''addr'' addr,
       (''data'', JBytes (map (\<lambda>i. m_ram (hw_mem h) (of_nat (unat addr + i))) [0..<unat len]))]))"

definition Hw_GetByte :: "addr \<Rightarrow> addr_space \<Rightarrow> ('f, 'd) hardware \<Rightarrow> jval" where
  "Hw_GetByte a sp h = JObj [jword ''data'' (GetByte (hw_mem h) a sp)]"

definition Get3Bytes :: "addr \<Rightarrow> addr_space \<Rightarrow> ('f, 'd) hardware \<Rightarrow> jval" where
  "Get3Bytes a sp h =
    (let b = (\<lambda>i. uint (GetByte (hw_mem h) (a + i) sp))
     in JObj [jint ''data'' (b 0 OR push_bit 8 (b 1) OR push_bit 16 (b 2))])"

definition Hw_GetWord :: "addr \<Rightarrow> addr_space \<Rightarrow> ('f, 'd) hardware \<Rightarrow> int" where
  "Hw_GetWord a sp h =
    (push_bit 8 (uint (GetByte (hw_mem h) (a + 1) sp)) OR uint (GetByte (hw_mem h) a sp))"

definition GetStackSample :: "addr \<Rightarrow> ('f, 'd) hardware \<Rightarrow> jval" where
  "GetStackSample a h =
    JObj (map (\<lambda>(k, offset). (k, JNum (Hw_GetWord (a + word_of_int offset) STACK h)))
      [(''-10'', -10), (''-8'', -8), (''-6'', -6), (''-4'', -4), (''-2'', -2), (''0'', 0), (''2'', 2),
       (''4'', 4), (''6'', 6), (''8'', 8), (''10'', 10)])"

subsection \<open>A hex dump\<close>

definition BYTES_IN_LINE :: nat where "BYTES_IN_LINE = 16"
definition HEX_LEN :: nat where "HEX_LEN = 3"
definition HEX_CHARS_IN_LINE :: nat where "HEX_CHARS_IN_LINE = BYTES_IN_LINE * HEX_LEN"
definition SPACE_LEN :: nat where "SPACE_LEN = 1"
definition LINES_MAX :: nat where "LINES_MAX = 16"
definition LINE_LEN_MAX :: nat where "LINE_LEN_MAX = HEX_CHARS_IN_LINE + 1 + BYTES_IN_LINE + 1"

lemmas dump_consts = BYTES_IN_LINE_def HEX_LEN_def HEX_CHARS_IN_LINE_def SPACE_LEN_def LINES_MAX_def
  LINE_LEN_MAX_def

definition hex_digit :: "u8 \<Rightarrow> u8" where
  "hex_digit d = (if d < 10 then 48 + d else 65 + d - 10)"

definition dump_byte :: "nat \<Rightarrow> u8 \<Rightarrow> nat \<Rightarrow> u8 list \<Rightarrow> u8 list" where
  "dump_byte line_len c addrOffset buf =
    (let x = addrOffset mod BYTES_IN_LINE; y = addrOffset div BYTES_IN_LINE;
         hex_idx = LINE_LEN_MAX * y + x * HEX_LEN;
         b1 = buf[hex_idx := hex_digit (drop_bit 4 c AND 0x0F), hex_idx + 1 := hex_digit (c AND 0x0F),
                  hex_idx + 2 := 32];
         b2 = (if x = 0 then b1[LINE_LEN_MAX * y + HEX_LEN * line_len := 32] else b1);
         b3 = b2[LINE_LEN_MAX * y + HEX_LEN * line_len + SPACE_LEN + x := (if 31 < c \<and> c < 127 then c else 46)]
     in if x = LINE_LEN_MAX - 1
        then b3[LINE_LEN_MAX * y + HEX_CHARS_IN_LINE + 1 + BYTES_IN_LINE := 10] else b3)"

definition last_char :: "nat \<Rightarrow> nat \<Rightarrow> nat" where
  "last_char line_len len =
    (if len = 0 then 0
     else LINE_LEN_MAX * ((len - 1) div BYTES_IN_LINE) + HEX_LEN * line_len + SPACE_LEN + (len - 1) mod BYTES_IN_LINE)"

definition GetMemString :: "global_addr \<Rightarrow> addr \<Rightarrow> ('f, 'd) hardware \<Rightarrow> jval \<times> ('f, 'd) hardware" where
  "GetMemString a len16 h =
    (let len = unat (if len16 > 255 then 255 else len16);
         line_len = (if len < BYTES_IN_LINE then len else BYTES_IN_LINE);
         buf = fold (\<lambda>i. dump_byte line_len (GetByteGlobal (hw_mem h) (a + of_nat i)) i) [0..<len] (hw_mem_string h);
         buf1 = buf[last_char line_len len + 1 := 0]
     in (JObj [(''data'', JBytes (takeWhile (\<lambda>c. c \<noteq> 0) buf1))], h\<lparr>hw_mem_string := buf1\<rparr>))"

subsection \<open>Where a step over stops\<close>

definition OPTYPE_JMP :: nat where "OPTYPE_JMP = 3"
definition OPTYPE_RET :: nat where "OPTYPE_RET = 5"
definition OPTYPE_PCH :: nat where "OPTYPE_PCH = 6"
definition OPTYPE_RST :: nat where "OPTYPE_RST = 7"

definition cond_jump_addr :: "u8 \<Rightarrow> cpu_state \<Rightarrow> u16 \<Rightarrow> u16 \<Rightarrow> u16" where
  "cond_jump_addr opcode c next_pc im_addr =
    (if opcode = 0xC2 then (if get_flag FZ c then next_pc else im_addr)
     else if opcode = 0xCA then (if get_flag FZ c then im_addr else next_pc)
     else if opcode = 0xD2 then (if get_flag FC c then next_pc else im_addr)
     else if opcode = 0xDA then (if get_flag FC c then im_addr else next_pc)
     else if opcode = 0xE2 then (if get_flag FP c then next_pc else im_addr)
     else if opcode = 0xEA then (if get_flag FP c then im_addr else next_pc)
     else if opcode = 0xF2 then (if get_flag FS c then next_pc else im_addr)
     else if opcode = 0xFA then (if get_flag FS c then im_addr else next_pc)
     else next_pc)"

definition GetStepOverAddr :: "('f, 'd) hardware \<Rightarrow> addr" where
  "GetStepOverAddr h =
    (let c = hw_cpu h; m = hw_mem h; pc = r_pc c; sp = r_sp c; opcode = GetByte m pc RAM;
         im_addr = pair (GetByte m (pc + 2) RAM) (GetByte m (pc + 1) RAM);
         next_pc = pc + of_nat (GetInstrLen opcode); ty = GetInstrType opcode
     in if ty = OPTYPE_JMP then im_addr
        else if ty = OPTYPE_RET then pair (GetByte m (sp + 1) STACK) (GetByte m sp STACK)
        else if ty = OPTYPE_PCH then r_hl c
        else if ty = OPTYPE_RST then ucast (opcode - OPCODE_RST0)
        else cond_jump_addr opcode c next_pc im_addr)"

subsection \<open>Statistics\<close>

definition MAX_SAFE_INTEGER :: u64 where "MAX_SAFE_INTEGER = 9007199254740991"

definition SafeCounter :: "string \<Rightarrow> u64 \<Rightarrow> string + (string \<times> jval)" where
  "SafeCounter k v =
    (if MAX_SAFE_INTEGER < v then Inl ''hardware statistics require a bigint schema'' else Inr (jword k v))"

definition frame_cycles :: "display \<Rightarrow> int" where
  "frame_cycles d = (GetRasterPixel d + GetRasterLine d * FRAME_W) sdiv 4"

definition main_stats :: "('f, 'd) hardware \<Rightarrow> jval" where
  "main_stats h =
    (let c = hw_cpu h; d = hw_display h; x = hw_io h
     in JObj ([jword ''cc'' (r_cc c), jint ''rasterLine'' (GetRasterLine d), jint ''rasterPixel'' (GetRasterPixel d),
       jint ''frameCc'' (frame_cycles d), jword ''frameNum'' (frameNum d), jbool ''displayMode'' (GetDisplayMode x),
       jword ''scrollVert'' (scrollIdx d), jbool ''rusLat'' (ruslatHistory (io_st x) AND 0b1000 \<noteq> 0),
       jbool ''inte'' (i_inte c), jbool ''iff'' (i_iff c), jbool ''hlta'' (i_hlta c), (''speedPercent'', actual_speed h)]
       @ map (\<lambda>(k, v). jword (''palette'' @ k) (VectorColorToArgb v))
           (zip [''0'', ''1'', ''2'', ''3'', ''4'', ''5'', ''6'', ''7'', ''8'', ''9'', ''10'', ''11'', ''12'', ''13'',
             ''14'', ''15''] (palette (io_st x)))))"

definition drive_stats :: "fdc \<Rightarrow> nat \<Rightarrow> jval" where
  "drive_stats f i =
    (let k = m_disks f ! i
     in JObj [jbool ''mounted'' (fd_mounted k), (''path'', JStr (fd_path k)), jbool ''updated'' (fd_updated k)])"

definition hardware_stats :: "u64 \<Rightarrow> ('f, 'd) hardware \<Rightarrow> string + jval" where
  "hardware_stats uptimeMs h =
    (let c = hw_cpu h; d = hw_display h; x = hw_io h; u = mem_upd (hw_mem h); f = io_fdc x
     in and_then (SafeCounter ''sessionId'' (m_sessionId h)) (\<lambda>session.
        and_then (SafeCounter ''uptimeMs'' uptimeMs) (\<lambda>uptime.
        and_then (SafeCounter ''cpuCycles'' (GetTotalCycles h - m_sessionStartCycles h)) (\<lambda>cycles.
        and_then (SafeCounter ''lastRunCycles'' (m_lastRunCycles h)) (\<lambda>lastRun.
        and_then (SafeCounter ''frameNumber'' (GetTotalFrames h - m_sessionStartFrames h)) (\<lambda>frames.
          Inr (JObj [session, uptime, cycles, lastRun, jint ''rasterPixel'' (GetRasterPixel d),
            jint ''rasterLine'' (GetRasterLine d), jint ''frameCycles'' (frame_cycles d), frames,
            jbool ''displayMode'' (GetDisplayMode x), jword ''scrollVertical'' (scrollIdx d),
            jbool ''rusLat'' (ruslatHistory (io_st x) AND 0b1000 \<noteq> 0), jbool ''inte'' (i_inte c),
            jbool ''iff'' (i_iff c), jbool ''hlta'' (i_hlta c),
            (''palette'', JList (map (\<lambda>v. JNum (uint v)) (palette (io_st x)))),
            (''ramDisk'', JObj [jword ''index'' (ramdiskIdx u), jword ''mapping'' (upd_mapping u)]),
            (''fdc'', JObj [jword ''selectedDrive'' (m_drive f),
              (''drives'', JList (map (drive_stats f) [0..<DRIVES_MAX]))])])))))))"

section \<open>Requests that only read\<close>

definition GetFdcInfo :: "fdc \<Rightarrow> jval" where
  "GetFdcInfo f =
    JObj [jword ''drive'' (m_drive f), jword ''side'' (m_side f), jword ''track'' (m_track f),
      jword ''lastS'' (m_lastS f), jword ''wait'' (m_irq f), jword ''cmd'' (m_cmd f), jint ''rwLen'' (m_rwLen f),
      (''position'', (case m_ptr f of
          DataPtr d i \<Rightarrow> if d = unat (m_drive f) \<and> fd_mounted (m_disks f ! d) then JNum (uint (word_of_int i :: u64)) else JNull
        | Null \<Rightarrow> if fd_mounted (m_disks f ! unat (m_drive f)) then JNull else JNum 0
        | _ \<Rightarrow> JNull))]"

definition palette_words :: "u8 list \<Rightarrow> (string \<times> jval) list" where
  "palette_words p =
    [jint ''low'' (horner_sum uint 256 (take 8 p)), jint ''hi'' (horner_sum uint 256 (drop 8 p))]"

definition ports_word :: "io_state \<Rightarrow> int" where
  "ports_word s = horner_sum uint 256 [p_CW s, p_A s, p_B s, p_C s, p_CW2 s, p_A2 s, p_B2 s, p_C2 s]"

text \<open>The requests whose handler changes nothing; some throw.\<close>

definition read_request :: "query \<Rightarrow> ('f, 'd) hardware \<Rightarrow> string + jval" where
  "read_request r h =
    (let c = hw_cpu h; m = hw_mem h; x = hw_io h; d = hw_display h; obj = (\<lambda>kvs. Inr (JObj kvs))
     in case r of
       IS_RUNNING \<Rightarrow> obj [jbool ''isRunning'' (hw_status h = S_RUN)]
     | GET_CC \<Rightarrow> obj [jword ''cc'' (r_cc c)]
     | GET_STOP_RECORD \<Rightarrow> obj (m_stopRecord h)
     | GET_REGS \<Rightarrow> Inr (GetRegs h)
     | GET_REG_PC \<Rightarrow> obj [jword ''pc'' (r_pc c)]
     | GET_RUSLAT_HISTORY \<Rightarrow> obj [jword ''data'' (ruslatHistory (io_st x))]
     | GET_IO_PALETTE \<Rightarrow> obj (palette_words (palette (io_st x)))
     | GET_IO_PORTS \<Rightarrow> obj [jint ''data'' (ports_word (io_st x))]
     | GET_IO_PALETTE_COMMIT_TIME \<Rightarrow> obj [jint ''paletteCommitTime'' (m_paletteCommitTime x)]
     | GET_DISPLAY_BORDER_LEFT \<Rightarrow> obj [jint ''borderLeft'' (m_borderLeft d)]
     | GET_DISPLAY_IRQ_COMMIT_PXL \<Rightarrow> obj [jint ''irqCommitPxl'' (m_irqCommitPxl d)]
     | GET_IO_DISPLAY_MODE \<Rightarrow> obj [jbool ''data'' (GetDisplayMode x)]
     | GET_BYTE_GLOBAL a \<Rightarrow> Hw_GetByteGlobal a h
     | GET_MEM a len \<Rightarrow> GetMem a len h
     | GET_BYTE_RAM a \<Rightarrow> Inr (Hw_GetByte a RAM h)
     | GET_THREE_BYTES_RAM a \<Rightarrow> Inr (Get3Bytes a RAM h)
     | GET_WORD_STACK a \<Rightarrow> obj [jint ''data'' (Hw_GetWord a STACK h)]
     | GET_STACK_SAMPLE a \<Rightarrow> Inr (GetStackSample a h)
     | GET_DISPLAY_DATA \<Rightarrow> obj [jint ''rasterLine'' (GetRasterLine d), jint ''rasterPixel'' (GetRasterPixel d),
         jword ''frameNum'' (frameNum d)]
     | GET_MEMORY_MAPPING \<Rightarrow> obj [jword ''mapping'' (upd_mapping (mem_upd m)), jword ''ramdiskIdx'' (ramdiskIdx (mem_upd m))]
     | GET_MEMORY_MAPPINGS \<Rightarrow> obj (jword ''ramdiskIdx'' (ramdiskIdx (mem_upd m)) #
         map (\<lambda>(k, v). jword (''mapping'' @ k) v)
           (zip [''0'', ''1'', ''2'', ''3'', ''4'', ''5'', ''6'', ''7''] (m_mappings m)))
     | GET_GLOBAL_ADDR_RAM a \<Rightarrow> obj [jword ''data'' (GetGlobalAddr m a RAM)]
     | GET_FDC_INFO \<Rightarrow> Inr (GetFdcInfo (io_fdc x))
     | GET_STEP_OVER_ADDR \<Rightarrow> obj [jword ''data'' (GetStepOverAddr h)]
     | GET_IO_PORTS_IN_DATA \<Rightarrow> obj [(''bytes'', JBytes (m_portsInData x))]
     | GET_IO_PORTS_OUT_DATA \<Rightarrow> obj [(''bytes'', JBytes (m_portsOutData x))]
     | GET_HW_MAIN_STATS \<Rightarrow> Inr (main_stats h)
     | GET_HARDWARE_STATS uptimeMs \<Rightarrow> hardware_stats uptimeMs h
     | IS_MEMROM_ENABLED \<Rightarrow> obj [jbool ''data'' (IsRomEnabled m)]
     | GET_SCROLL_VERT \<Rightarrow> obj [jword ''scrollVert'' (scrollIdx d)])"

section \<open>Requests that set\<close>

text \<open>An operation of the floppy controller; an index the code does not check is a fault.\<close>

definition on_fdc :: "fdc_error + 'a \<Rightarrow> ('a \<Rightarrow> io \<Rightarrow> io) \<Rightarrow> ('f, 'd) hardware \<Rightarrow> ('f, 'd) hardware" where
  "on_fdc res g h =
    (case res of
       Inl e \<Rightarrow> upd_hw_io (\<lambda>x. x\<lparr>io_fault := True\<rparr>) h
     | Inr a \<Rightarrow> upd_hw_io (g a) h)"

definition set_fdc :: "fdc_error + fdc \<Rightarrow> ('f, 'd) hardware \<Rightarrow> ('f, 'd) hardware" where
  "set_fdc res = on_fdc res (\<lambda>f x. x\<lparr>io_fdc := f\<rparr>)"

text \<open>\<^verbatim>\<open>std::clamp(speed, 0, int(sizeof(m_execDelays) - 1))\<close>: six delays of eight bytes.\<close>

definition EXEC_DELAYS :: "int list" where "EXEC_DELAYS = [1996800, 99840, 39936, 19968, 9984, 0]"
definition SIZEOF_EXEC_DELAYS :: int where "SIZEOF_EXEC_DELAYS = int (length EXEC_DELAYS) * 8"

definition set_cpu_speed :: "'f float_ops \<Rightarrow> int \<Rightarrow> ('f, 'd) hardware \<Rightarrow> ('f, 'd) hardware" where
  "set_cpu_speed fo speed h =
    (let s = min (max speed 0) (SIZEOF_EXEC_DELAYS - 1)
     in h\<lparr>m_execSpeed := s, hw_audio := Audio_Mute fo (s = 1) (hw_audio h)\<rparr>)"

definition fdd_info :: "int \<Rightarrow> ('f, 'd) hardware \<Rightarrow> jval \<times> ('f, 'd) hardware" where
  "fdd_info i h =
    (case GetFddInfo i (io_fdc (hw_io h)) of
       Inl e \<Rightarrow> (JNull, upd_hw_io (\<lambda>x. x\<lparr>io_fault := True\<rparr>) h)
     | Inr (path, updated, rd, wr, mounted) \<Rightarrow>
         (JObj [(''path'', JStr path), jbool ''updated'' updated, jword ''reads'' rd, jword ''writes'' wr,
           jbool ''mounted'' mounted], h))"

definition fdd_image :: "int \<Rightarrow> ('f, 'd) hardware \<Rightarrow> jval \<times> ('f, 'd) hardware" where
  "fdd_image i h =
    (case GetFddImage i (io_fdc (hw_io h)) of
       Inl e \<Rightarrow> (JNull, upd_hw_io (\<lambda>x. x\<lparr>io_fault := True\<rparr>) h)
     | Inr bytes \<Rightarrow> (JObj [(''data'', JBytes bytes)], h))"

text \<open>Settings and files: what cannot throw or execute instructions.\<close>

definition set_request :: "'f float_ops \<Rightarrow> setting \<Rightarrow> ('f, 'd) hardware \<Rightarrow> jval \<times> ('f, 'd) hardware" where
  "set_request fo r h =
    (case r of
       EXIT \<Rightarrow> (JNull, h\<lparr>hw_status := S_EXIT\<rparr>)
     | RUN \<Rightarrow> (JNull, Hw_Run h)
     | SET_IO_PALETTE_COMMIT_TIME t \<Rightarrow> (JNull, upd_hw_io (SetPaletteCommitTime t) h)
     | SET_DISPLAY_BORDER_LEFT b \<Rightarrow> (JNull, upd_display (\<lambda>d. d\<lparr>m_borderLeft := b\<rparr>) h)
     | SET_DISPLAY_IRQ_COMMIT_PXL p \<Rightarrow> (JNull, upd_display (\<lambda>d. d\<lparr>m_irqCommitPxl := p\<rparr>) h)
     | SET_FRAME_MODE fm \<Rightarrow> (JNull, upd_display (\<lambda>d. d\<lparr>m_frameMode := fm\<rparr>) h)
     | SET_COLOR_FORMAT cf \<Rightarrow> (JNull, upd_display (\<lambda>d. d\<lparr>m_colorFormat := cf\<rparr>) h)
     | GET_MEM_STRING_GLOBAL a len \<Rightarrow> GetMemString a len h
     | GET_FDD_INFO i \<Rightarrow> fdd_info i h
     | GET_FDD_IMAGE i \<Rightarrow> fdd_image i h
     | SET_MEM a bytes \<Rightarrow> (JNull, upd_mem (SetRam a bytes) h)
     | SET_BYTE_GLOBAL a v \<Rightarrow> (JNull, upd_mem (SetByteGlobal a v) h)
     | SET_CPU_SPEED s \<Rightarrow> (JNull, set_cpu_speed fo s h)
     | LOAD_FDD i bytes path \<Rightarrow> (JNull, set_fdc (Fdc_Mount i bytes path (io_fdc (hw_io h))) h)
     | RESET_UPDATE_FDD i \<Rightarrow> (JNull, set_fdc (ResetUpdate i (io_fdc (hw_io h))) h)
     | DEBUG_ATTACH b \<Rightarrow> (JNull, h\<lparr>m_debugAttached := b\<rparr>))"

section \<open>Requests that may throw\<close>

type_synonym ('f, 'd) outcome = "(string \<times> ('f, 'd) hardware) + (jval \<times> ('f, 'd) hardware)"

definition quietly :: "(string \<times> ('f, 'd) hardware) + ('f, 'd) hardware \<Rightarrow> ('f, 'd) outcome" where
  "quietly x = and_then x (\<lambda>h. Inr (JNull, h))"

definition begin_session :: "'d debug_hooks \<Rightarrow> ('f, 'd) hardware \<Rightarrow> ('f, 'd) outcome" where
  "begin_session hk h =
    quietly (notify hk INTERNAL_MARK_SCRIPT_OVERLAYS_UPDATED
      (h\<lparr>nextSessionId := nextSessionId h + 1, m_sessionId := nextSessionId h + 1,
        m_sessionStartCycles := GetTotalCycles h, m_sessionStartFrames := GetTotalFrames h,
        m_runStartCycles := GetTotalCycles h, m_lastRunCycles := 0\<rparr>))"

definition load_rom ::
  "'f float_ops \<Rightarrow> 'd debug_hooks \<Rightarrow> u8 list \<Rightarrow> addr \<Rightarrow> bool \<Rightarrow> ('f, 'd) hardware \<Rightarrow> ('f, 'd) outcome" where
  "load_rom fo hk bytes a autorun h =
    quietly
      (and_then (Hw_Stop hk True h) (\<lambda>h1.
       and_then (Hw_Restart fo hk (upd_mem (SetRam a bytes) h1)) (\<lambda>h2.
       and_then (notify hk INTERNAL_REAPPLY_MEMORY_EDITS h2) (\<lambda>h3.
         Inr (if autorun then Hw_Run h3 else h3)))))"

text \<open>\<^verbatim>\<open>data.resize(FDD_SIZE, 0)\<close>\<close>

definition fdd_bytes :: "u8 list \<Rightarrow> u8 list" where
  "fdd_bytes bytes = take (nat FDD_SIZE) bytes @ replicate (nat FDD_SIZE - length bytes) 0"

definition mount_fdd ::
  "'f float_ops \<Rightarrow> 'd debug_hooks \<Rightarrow> u8 list \<Rightarrow> int \<Rightarrow> string \<Rightarrow> bool \<Rightarrow> ('f, 'd) hardware \<Rightarrow> ('f, 'd) outcome" where
  "mount_fdd fo hk bytes i path autoBoot h =
    (let h1 = set_fdc (Fdc_Mount i (fdd_bytes bytes) path (io_fdc (hw_io h))) h
     in quietly (if autoBoot then and_then (Hw_Reset fo hk h1) (\<lambda>h2. Inr (Hw_Run h2)) else Inr h1))"

definition key_request ::
  "'f float_ops \<Rightarrow> 'd debug_hooks \<Rightarrow> int \<Rightarrow> int \<Rightarrow> ('f, 'd) hardware \<Rightarrow> ('f, 'd) outcome" where
  "key_request fo hk scancode action h =
    (let (operation, kb) = KeyHandling scancode action (io_keyboard (hw_io h));
         h1 = upd_hw_io (\<lambda>x. x\<lparr>io_keyboard := kb\<rparr>) h
     in quietly (case operation of
          OP_RESET \<Rightarrow> Hw_Reset fo hk h1
        | OP_RESTART \<Rightarrow> Hw_Restart fo hk h1
        | OP_NONE \<Rightarrow> Inr h1))"

text \<open>The palette and the drives change only while the machine is stopped.\<close>

definition stopped_only :: "string \<Rightarrow> ('f, 'd) hardware \<Rightarrow> ('f, 'd) outcome \<Rightarrow> ('f, 'd) outcome" where
  "stopped_only msg h out = (if hw_status h = S_RUN then Inl (msg, h) else out)"

definition control_request ::
  "'f float_ops \<Rightarrow> 'd debug_hooks \<Rightarrow> control \<Rightarrow> ('f, 'd) hardware \<Rightarrow> ('f, 'd) outcome" where
  "control_request fo hk r h =
    (case r of
       INTERNAL_BEGIN_SESSION \<Rightarrow> begin_session hk h
     | STOP \<Rightarrow> quietly (Hw_Stop hk True h)
     | RESET \<Rightarrow> quietly (Hw_Reset fo hk h)
     | RESTART \<Rightarrow> quietly (Hw_Restart fo hk h)
     | SET_IO_PALETTE_ENTRY i c \<Rightarrow>
         stopped_only ''palette mutation requires stopped hardware'' h
           (Inr (JObj [jword ''index'' i, jword ''hwColor'' c], upd_hw_io (SetPaletteEntry i c) h))
     | DISMOUNT_FDD i \<Rightarrow>
         stopped_only ''FDD mutation requires stopped hardware'' h
           (Inr (JObj [jint ''driveIdx'' i, jbool ''mounted'' False], set_fdc (Fdc_Dismount i (io_fdc (hw_io h))) h))
     | KEY_HANDLING s a \<Rightarrow> key_request fo hk s a h
     | LOAD_ROM bytes a autorun \<Rightarrow> load_rom fo hk bytes a autorun h
     | MOUNT_FDD bytes i path autoBoot \<Rightarrow> mount_fdd fo hk bytes i path autoBoot h)"

section \<open>Headless runs\<close>

definition headless_done ::
  "bool \<Rightarrow> u64 \<Rightarrow> u64 \<Rightarrow> u64 \<Rightarrow> u64 \<Rightarrow> ('f, 'd) hardware \<Rightarrow> bool" where
  "headless_done haltExit maxFrames maxCycles startCC startFrame h \<longleftrightarrow>
    haltExit \<and> i_hlta (hw_cpu h) \<or>
    0 < maxCycles \<and> maxCycles \<le> r_cc (hw_cpu h) - startCC \<or>
    0 < maxFrames \<and> maxFrames \<le> frameNum (hw_display h) - startFrame"

partial_function (option) headless_loop ::
  "'f float_ops \<Rightarrow> (('f, 'd) hardware \<Rightarrow> bool) \<Rightarrow> ('f, 'd) hardware \<Rightarrow> ('f, 'd) hardware option" where
  "headless_loop fo stop h =
    Option.bind (instruction_cycles fo (upd_mem DebugInit h))
      (\<lambda>h1. if stop h1 then Some h1 else headless_loop fo stop h1)"

definition RunHeadless ::
  "'f float_ops \<Rightarrow> bool \<Rightarrow> u64 \<Rightarrow> u64 \<Rightarrow> ('f, 'd) hardware \<Rightarrow> (jval \<times> ('f, 'd) hardware) option" where
  "RunHeadless fo haltExit maxFrames maxCycles h =
    (let startCC = r_cc (hw_cpu h); startFrame = frameNum (hw_display h)
     in Option.bind (headless_loop fo (headless_done haltExit maxFrames maxCycles startCC startFrame) h)
          (\<lambda>h1. let c = hw_cpu h1 in
            Some (JObj [jword ''cc'' (r_cc c - startCC), jword ''frames'' (frameNum (hw_display h1) - startFrame),
              jbool ''halted'' (i_hlta c), jword ''pc'' (r_pc c), jword ''sp'' (r_sp c), jword ''af'' (GetPSW c),
              jword ''bc'' (r_bc c), jword ''de'' (r_de c), jword ''hl'' (r_hl c)], h1)))"

section \<open>Executing instructions and handling requests\<close>

text \<open>The call of \<^verbatim>\<open>Debug\<close>; an empty \<^verbatim>\<open>std::function\<close> throws.\<close>

definition debug_break :: "'d debug_hooks \<Rightarrow> ('f, 'd) hardware \<Rightarrow> (string \<times> ('f, 'd) hardware) + (bool \<times> ('f, 'd) hardware)" where
  "debug_break hk h =
    (if m_debugAttached h
     then (case hw_debugger h of
             None \<Rightarrow> Inl (''bad_function_call'', h)
           | Some g \<Rightarrow>
              (let ((err, stop), g1, mc, d) = hook_debug hk g (hw_machine h, hw_display h);
                   h1 = h\<lparr>hw_debugger := Some g1, hw_machine := mc, hw_display := d\<rparr>;
                   h2 = (case stop of None \<Rightarrow> h1 | Some (reason, trigger) \<Rightarrow> RecordStop reason trigger h1)
               in case err of None \<Rightarrow> Inr (stop \<noteq> None, h2) | Some e \<Rightarrow> Inl (e, h2)))
     else Inr (False, h))"

definition exception_break :: "('f, 'd) hardware \<Rightarrow> bool \<times> ('f, 'd) hardware" where
  "exception_break h =
    (let (exc, m) = IsException (hw_mem h); h1 = upd_mem (\<lambda>_. m) h
     in if exc
        then (True, RecordStop ''exception''
                [(''exceptionCode'', JStr ''ram_disk_mapping_collision''),
                 (''description'', JStr ''More than one RAM Disk has mapping enabled'')]
                (upd_mem InitRamDiskMapping h1))
        else (False, h1))"

definition delegate :: "'d debug_hooks \<Rightarrow> request \<Rightarrow> ('f, 'd) hardware \<Rightarrow> reply \<times> ('f, 'd) hardware" where
  "delegate hk r h =
    (case debug_request hk r h of
       (None, h1) \<Rightarrow> (Unhandled, h1)
     | (Some (res, script), h1) \<Rightarrow>
        (case (case script of None \<Rightarrow> Inr h1 | Some i \<Rightarrow> StopForScript hk i h1) of
           Inl (e, h2) \<Rightarrow> (Raised e, h2)
         | Inr h2 \<Rightarrow> (case res of Inl e \<Rightarrow> (Raised e, h2) | Inr j \<Rightarrow> (Data j, h2))))"

definition reply_of :: "('f, 'd) outcome \<Rightarrow> reply \<times> ('f, 'd) hardware" where
  "reply_of out = (case out of Inl (e, h) \<Rightarrow> (Raised e, h) | Inr (j, h) \<Rightarrow> (Data j, h))"

definition query_reply :: "query \<Rightarrow> ('f, 'd) hardware \<Rightarrow> reply \<times> ('f, 'd) hardware" where
  "query_reply q h = (case read_request q h of Inl e \<Rightarrow> (Raised e, h) | Inr j \<Rightarrow> (Data j, h))"

definition setting_reply :: "'f float_ops \<Rightarrow> setting \<Rightarrow> ('f, 'd) hardware \<Rightarrow> reply \<times> ('f, 'd) hardware" where
  "setting_reply fo s h = (let (j, h1) = set_request fo s h in (Data j, h1))"

fun execute_instruction ::
    "nat \<Rightarrow> 'f float_ops \<Rightarrow> 'd debug_hooks \<Rightarrow> ('f, 'd) hardware \<Rightarrow>
      ((string \<times> ('f, 'd) hardware) + (bool \<times> ('f, 'd) hardware)) option"
  and execute_frame ::
    "nat \<Rightarrow> 'f float_ops \<Rightarrow> 'd debug_hooks \<Rightarrow> u64 \<Rightarrow> ('f, 'd) hardware \<Rightarrow>
      ((string \<times> ('f, 'd) hardware) + ('f, 'd) hardware) option"
  and req_handling ::
    "nat \<Rightarrow> 'f float_ops \<Rightarrow> 'd debug_hooks \<Rightarrow> ('f, 'd) hardware \<Rightarrow> (bool \<times> ('f, 'd) hardware) option"
  and handle_request ::
    "nat \<Rightarrow> 'f float_ops \<Rightarrow> 'd debug_hooks \<Rightarrow> request \<Rightarrow> ('f, 'd) hardware \<Rightarrow> (reply \<times> ('f, 'd) hardware) option"
where
  "execute_instruction 0 fo hk h = None"
| "execute_instruction (Suc n) fo hk h =
    Option.bind (instruction_cycles fo (upd_mem DebugInit h)) (\<lambda>h1.
      case debug_break hk h1 of
        Inl e \<Rightarrow> Some (Inl e)
      | Inr (brk, h2) \<Rightarrow>
         if brk then Some (Inr (True, h2))
         else (case exception_break h2 of (exc, h3) \<Rightarrow>
           if exc then Some (Inr (True, h3))
           else Option.bind (req_handling n fo hk h3) (\<lambda>(handled, h4). Some (Inr (False, h4)))))"
| "execute_frame 0 fo hk fn h = None"
| "execute_frame (Suc n) fo hk fn h =
    Option.bind (execute_instruction n fo hk h) (\<lambda>out.
      case out of
        Inl e \<Rightarrow> Some (Inl e)
      | Inr (brk, h1) \<Rightarrow>
         if frameNum (hw_display h1) = fn then execute_frame n fo hk fn h1 else Some (Inr h1))"
| "req_handling 0 fo hk h = None"
| "req_handling (Suc n) fo hk h =
    (case inbox h of
       [] \<Rightarrow> Some (False, h)
     | None # rest \<Rightarrow> Some (False, h\<lparr>inbox := rest\<rparr>)
     | Some r # rest \<Rightarrow>
         Option.bind (handle_request n fo hk r (h\<lparr>inbox := rest\<rparr>))
           (\<lambda>(rep, h1). Some (True, h1\<lparr>outbox := outbox h1 @ [rep]\<rparr>)))"
| "handle_request 0 fo hk r h = None"
| "handle_request (Suc n) fo hk r h =
    (case r of
       Query q \<Rightarrow> Some (query_reply q h)
     | Setting s \<Rightarrow> Some (setting_reply fo s h)
     | Control c \<Rightarrow> Some (reply_of (control_request fo hk c h))
     | EXECUTE_INSTR \<Rightarrow>
         Option.bind (execute_instruction n fo hk h) (\<lambda>out. case out of
             Inl (e, h1) \<Rightarrow> Some (Raised e, h1)
           | Inr (brk, h1) \<Rightarrow> Some (Data JNull, if brk then h1 else RecordStop ''step'' [] h1))
     | RUN_HEADLESS haltExit maxFrames maxCycles \<Rightarrow>
         Option.bind (RunHeadless fo haltExit maxFrames maxCycles h) (\<lambda>(j, h1). Some (Data j, h1))
     | Notice k \<Rightarrow> Some (delegate hk r h)
     | DEBUG_REQ k j \<Rightarrow> Some (delegate hk r h)
     | _ \<Rightarrow>
         Option.bind (execute_frame n fo hk (frameNum (hw_display h)) h) (\<lambda>out. case out of
             Inl (e, h1) \<Rightarrow> Some (Raised e, h1)
           | Inr h1 \<Rightarrow> Some (Data JNull, RecordStop ''frameStep'' [] h1)))"

section \<open>The execution thread\<close>

text \<open>
  One step of \<^verbatim>\<open>Hardware::Execution\<close> as the loops order them, whatever the clock says:
  an instruction while running, which may break; a poll of the request queue while waiting for
  the end of the frame's time, while stopped, and in the grace period after EXIT. Other threads
  put requests into the queue.
\<close>

inductive thread_step :: "'f float_ops \<Rightarrow> 'd debug_hooks \<Rightarrow> ('f, 'd) hardware \<Rightarrow> ('f, 'd) hardware \<Rightarrow> bool"
  for fo hk where
  instruction:
    "hw_status h = S_RUN \<Longrightarrow> execute_instruction n fo hk h = Some (Inr (False, h1)) \<Longrightarrow> thread_step fo hk h h1"
| break:
    "hw_status h = S_RUN \<Longrightarrow> execute_instruction n fo hk h = Some (Inr (True, h1)) \<Longrightarrow>
      Hw_Stop hk False h1 = Inr h2 \<Longrightarrow> thread_step fo hk h h2"
| poll: "req_handling n fo hk h = Some (b, h1) \<Longrightarrow> thread_step fo hk h h1"
| arrive: "thread_step fo hk h (h\<lparr>inbox := inbox h @ rs\<rparr>)"

inductive_cases thread_stepE: "thread_step fo hk h h'"

inductive hw_reach :: "'f float_ops \<Rightarrow> 'd debug_hooks \<Rightarrow> ('f, 'd) hardware \<Rightarrow> ('f, 'd) hardware \<Rightarrow> bool"
  for fo hk h0 where
  init: "hw_reach fo hk h0 h0"
| step: "hw_reach fo hk h0 h \<Longrightarrow> thread_step fo hk h h1 \<Longrightarrow> hw_reach fo hk h0 h1"

end
