(* ===== verification/Hw_Sample.thy ===== *)
theory Hw_Sample
  imports Cpu_Props Hw_Requests
begin

text \<open>
  A concrete machine, with a program at address 0, the beam at a given pixel and no debugger: the
  properties of the hardware are evaluated on it.
\<close>

definition sample_hardware :: "u8 list \<Rightarrow> int \<Rightarrow> (int, unit) hardware" where
  "sample_hardware bs i =
    \<lparr>hw_machine = \<lparr>cpu = blank_cpu, mem = SetRam 0 bs blank_mem, io = sample_io, exit_code = None\<rparr>,
     hw_display = sample_display i, hw_audio = fresh_audio, hw_status = S_STOP, hw_debugger = None,
     m_debugAttached = False, nextSessionId = 0, m_sessionId = 0, m_cycleOffset = 0, m_frameOffset = 0,
     m_sessionStartCycles = 0, m_sessionStartFrames = 0, m_runStartCycles = 0, m_lastRunCycles = 0,
     m_stopSequence = 0, m_stopRecord = [], m_execSpeed = 2, actual_speed = JNull,
     hw_mem_string = replicate 1057 0, inbox = [], outbox = []\<rparr>"

definition no_hooks :: "unit debug_hooks" where
  "no_hooks = \<lparr>hook_debug = (\<lambda>d (m, s). ((None, None), d, m, s)), hook_request = (\<lambda>_ _ d (m, s). (Inr JNull, None, d, m, s))\<rparr>"

lemma sample_hardware_sel [simp]:
  "hw_cpu (sample_hardware bs i) = blank_cpu" "hw_mem (sample_hardware bs i) = SetRam 0 bs blank_mem"
  "hw_io (sample_hardware bs i) = sample_io" "hw_display (sample_hardware bs i) = sample_display i"
  "hw_debugger (sample_hardware bs i) = None" "inbox (sample_hardware bs i) = []"
  "\<not> m_debugAttached (sample_hardware bs i)" "hw_mem_string (sample_hardware bs i) = replicate 1057 0"
  "m_cycleOffset (sample_hardware bs i) = 0" "m_frameOffset (sample_hardware bs i) = 0"
  "exit_code (hw_machine (sample_hardware bs i)) = None" "hw_status (sample_hardware bs i) = S_STOP"
  by (simp_all add: sample_hardware_def hw_views)

lemma sample_cpu_inv [simp]: "cpu_inv (hw_machine (sample_hardware bs i))"
  using M_CYCLES_bounds(1) [of 0]
  by (simp add: sample_hardware_def cpu_inv_def blank_cpu_def f_ok_def bit_numeral_rec)

end
