(* ===== verification/Step_Over.thy ===== *)
theory Step_Over
  imports Hw_Sample
begin

text \<open>
  Where a step over sets its breakpoint (\<^verbatim>\<open>Hardware::GetStepOverAddr\<close>) against what the
  instruction set does: for an instruction that is not a call the address is the one the machine
  goes to, for a call the address the call returns to. A conditional return is the exception.
\<close>

section \<open>The type table and the instruction set\<close>

text \<open>A conditional jump, its flag and the value of the flag at which it is taken.\<close>

definition cond_jumps :: "(u8 \<times> flag \<times> bool) list" where
  "cond_jumps =
    [(0xC2, FZ, False), (0xCA, FZ, True), (0xD2, FC, False), (0xDA, FC, True),
     (0xE2, FP, False), (0xEA, FP, True), (0xF2, FS, False), (0xFA, FS, True)]"

text \<open>What the type table has to say of an opcode that is documented.\<close>

fun type_fits :: "u8 \<Rightarrow> isa_op \<Rightarrow> bool" where
  "type_fits op (OJmp Always) = (GetInstrType op = OPTYPE_JMP)"
| "type_fits op (OJmp (When fl b)) = ((op, fl, b) \<in> set cond_jumps \<and> GetInstrType op = 2)"
| "type_fits op (ORet Always) = (GetInstrType op = OPTYPE_RET)"
| "type_fits op OPchl = (GetInstrType op = OPTYPE_PCH)"
| "type_fits op (ORst n) = (GetInstrType op = OPTYPE_RST \<and> ucast (op - OPCODE_RST0) = pair 0 (push_bit 3 n))"
| "type_fits op i = (GetInstrType op \<notin> {OPTYPE_JMP, OPTYPE_RET, OPTYPE_PCH, OPTYPE_RST} \<and> op \<notin> fst ` set cond_jumps)"

definition undocumented_flow :: "nat set" where
  "undocumented_flow = {0xCB, 0xD9, 0xDD, 0xED, 0xFD}"

lemma types_table:
  "list_all (\<lambda>(op, i). unat op \<in> undocumented_flow \<or> type_fits op (op_of i)) decode_cases"
  by code_simp

lemma type_fits:
  assumes "unat op \<notin> undocumented_flow"
  shows "type_fits op (isa_decode (unat op))" "GetInstrLen op = isa_length (isa_decode (unat op))"
proof -
  obtain i where i: "(op, i) \<in> set decode_cases" by (rule lookup_case_total)
  have "unat op \<notin> undocumented_long" using assms by (auto simp: undocumented_flow_def undocumented_long_def)
  then show "type_fits op (isa_decode (unat op))" "GetInstrLen op = isa_length (isa_decode (unat op))"
    using types_table lookup_case_facts [OF i] i assms by (auto simp: list_all_iff GetInstrLen_def)
qed

section \<open>The address of a step over\<close>

lemma optype_distinct [simp]:
  "OPTYPE_JMP = 3" "OPTYPE_RET = 5" "OPTYPE_PCH = 6" "OPTYPE_RST = 7"
  by (simp_all add: OPTYPE_JMP_def OPTYPE_RET_def OPTYPE_PCH_def OPTYPE_RST_def)

lemma cond_jump_other: "op \<notin> fst ` set cond_jumps \<Longrightarrow> cond_jump_addr op c a b = a"
  by (simp add: cond_jump_addr_def cond_jumps_def)

lemma cond_jump_taken:
  "(op, fl, b) \<in> set cond_jumps \<Longrightarrow> cond_jump_addr op c n t = (if get_flag fl c = b then t else n)"
  by (auto simp: cond_jump_addr_def cond_jumps_def)

definition step_arch :: "('f, 'd) hardware \<Rightarrow> io arch" where
  "step_arch h = arch_of (hw_machine h)"

definition step_opcode :: "('f, 'd) hardware \<Rightarrow> u8" where
  "step_opcode h = imm8 (step_arch h)"

lemma skipped_sel [simp]:
  "ld sp a (skip n x) = ld sp a x" "rp p (skip n x) = rp p x" "top16 (skip n x) = top16 x"
  "isa_holds cd (skip n x) = isa_holds cd x" "apc (skip n x) = apc x + n"
  by (simp_all add: skip_def rp_def top16_def ld_def global_of_def isa_holds_def cong: if_cong)

lemma step_views:
  "step_opcode h = GetByte (hw_mem h) (r_pc (hw_cpu h)) RAM"
  "imm16 (skip 1 (step_arch h)) = pair (GetByte (hw_mem h) (r_pc (hw_cpu h) + 2) RAM) (GetByte (hw_mem h) (r_pc (hw_cpu h) + 1) RAM)"
  "apc (step_arch h) = r_pc (hw_cpu h)"
  "top16 (step_arch h) = pair (GetByte (hw_mem h) (r_sp (hw_cpu h) + 1) STACK) (GetByte (hw_mem h) (r_sp (hw_cpu h)) STACK)"
  "rp HL (step_arch h) = r_hl (hw_cpu h)"
  by (simp_all add: step_opcode_def step_arch_def imm8_def imm16_def hw_views top16_def rp_def to_regs
      add.commute [of 2] flip: add.assoc)

text \<open>Where the instruction set goes from the opcode at \<open>x\<close>, the opcode already skipped.\<close>

lemma put_apc [simp]: "apc (put r v x) = apc x" "apc (put16 p w x) = apc x" "apc (st sp a v x) = apc x"
  "apc (accumulate op b x) = apc x" "apc (add16 w x) = apc x" "apc (daa x) = apc x" "apc (push h l x) = apc x"
  "apc (drop2 x) = apc x" "apc (set_carry cy x) = apc x"
  by (simp_all add: put_def put16_def st_def accumulate_def add16_def daa_def push_def drop2_def set_carry_def
      Let_def case_prod_beta)

definition transfers :: "isa_op \<Rightarrow> bool" where
  "transfers op = (case op of OJmp c \<Rightarrow> True | OPchl \<Rightarrow> True | OCall c \<Rightarrow> True | ORet c \<Rightarrow> True | ORst n \<Rightarrow> True
    | OHlt \<Rightarrow> True | _ \<Rightarrow> False)"

lemma apc_sequential:
  "\<not> transfers op \<Longrightarrow> apc (isa_exec bus op x) = apc x + of_nat (isa_length op - 1)"
  by (cases op) (simp_all add: transfers_def skip_def Let_def case_prod_beta)

lemma apc_transfer:
  "apc (isa_exec bus (OJmp cd) x) = (if isa_holds cd x then imm16 x else apc x + 2)"
  "apc (isa_exec bus OPchl x) = rp HL x" "apc (isa_exec bus (ORst n) x) = pair 0 (push_bit 3 n)"
  "apc (isa_exec bus (ORet cd) x) = (if isa_holds cd x then top16 x else apc x)"
  by (simp_all add: jump_def skip_def)

text \<open>The next instruction in memory.\<close>

definition next_addr :: "('f, 'd) hardware \<Rightarrow> u16" where
  "next_addr h = apc (step_arch h) + of_nat (isa_length (isa_decode (unat (step_opcode h))))"

lemma step_default:
  assumes "GetInstrType (step_opcode h) \<notin> {OPTYPE_JMP, OPTYPE_RET, OPTYPE_PCH, OPTYPE_RST}"
    and "step_opcode h \<notin> fst ` set cond_jumps" "unat (step_opcode h) \<notin> undocumented_flow"
  shows "GetStepOverAddr h = next_addr h"
  using assms type_fits(2) [OF assms(3)]
  by (simp add: GetStepOverAddr_def Let_def cond_jump_other next_addr_def step_views(3) flip: step_views(1))

definition steps_into :: "isa_op \<Rightarrow> bool" where
  "steps_into op = (case op of OCall c \<Rightarrow> False | ORet c \<Rightarrow> c = Always | OHlt \<Rightarrow> False | _ \<Rightarrow> True)"

lemma step_into_addr:
  assumes "unat (step_opcode h) \<notin> undocumented_flow" "steps_into (isa_decode (unat (step_opcode h)))"
  shows "GetStepOverAddr h = apc (isa_step bus (step_arch h))"
proof -
  let ?op = "step_opcode h" and ?x = "step_arch h"
  let ?i = "isa_decode (unat ?op)"
  have st: "isa_step bus ?x = isa_exec bus ?i (skip 1 ?x)" by (simp add: isa_step_def step_opcode_def)
  note f = type_fits [OF assms(1)]
  have addr: "GetStepOverAddr h = (let ty = GetInstrType ?op in
      if ty = OPTYPE_JMP then imm16 (skip 1 ?x) else if ty = OPTYPE_RET then top16 ?x
      else if ty = OPTYPE_PCH then rp HL ?x else if ty = OPTYPE_RST then ucast (?op - OPCODE_RST0)
      else cond_jump_addr ?op (hw_cpu h) (next_addr h) (imm16 (skip 1 ?x)))"
    by (simp add: GetStepOverAddr_def Let_def step_views next_addr_def f(2) flip: step_views(1))
  show ?thesis
  proof (cases "transfers ?i")
    case False
    then have "apc (isa_exec bus ?i (skip 1 ?x)) = next_addr h"
      using apc_sequential [of ?i bus "skip 1 ?x"]
      by (cases ?i) (simp_all add: next_addr_def transfers_def add.assoc)
    then show ?thesis
      using False f(1) step_default [OF _ _ assms(1)] by (cases ?i) (simp_all add: st transfers_def)
  next
    case True
    then consider c where "?i = OJmp c" | "?i = OPchl" | "?i = ORet Always" | n where "?i = ORst n"
      using assms(2) by (cases ?i) (auto simp: transfers_def steps_into_def)
    then show ?thesis
    proof cases
      case (1 c)
      have holds: "isa_holds (When fl b) ?x = (get_flag fl (hw_cpu h) = b)" for fl b
        by (simp add: isa_holds_def step_arch_def get_flag_def hw_cpu_def to_regs)
      show ?thesis
      proof (cases c)
        case (When fl b)
        then have t: "(?op, fl, b) \<in> set cond_jumps" "GetInstrType ?op = 2" using f(1) 1 by simp_all
        show ?thesis
          unfolding st 1 When apc_transfer skipped_sel holds
          using cond_jump_taken [OF t(1)] t(2) by (simp add: addr next_addr_def 1 add.assoc)
      qed (use f(1) 1 in \<open>simp add: addr st apc_transfer isa_holds_def\<close>)
    qed (use f(1) in \<open>simp_all add: addr st apc_transfer isa_holds_def\<close>)
  qed
qed

text \<open>C28: Stepping over an instruction that is not a call, a conditional return or HLT sets the
  breakpoint exactly where the instruction set goes next, jumps, returns, restarts and PCHL
  included; stepping over a call sets it at the address that a taken call pushes, the one it
  returns to. The five undocumented opcodes of jumps, calls and returns are left out.\<close>

theorem step_over_address:
  assumes "unat (step_opcode h) \<notin> undocumented_flow"
  defines "op \<equiv> isa_decode (unat (step_opcode h))"
  shows "(steps_into op \<longrightarrow> GetStepOverAddr h = apc (isa_step bus (step_arch h))) \<and>
    (op = OCall c \<and> isa_holds c (step_arch h) \<longrightarrow> isa_step bus (step_arch h) =
      jump (imm16 (skip 1 (step_arch h)))
        (push (hi (GetStepOverAddr h)) (lo (GetStepOverAddr h)) (skip 1 (step_arch h))))"
proof (intro conjI impI; (elim conjE)?)
  show "steps_into op \<Longrightarrow> GetStepOverAddr h = apc (isa_step bus (step_arch h))"
    using step_into_addr [OF assms(1)] by (simp add: op_def)
  assume c: "op = OCall c" "isa_holds c (step_arch h)"
  then have "GetStepOverAddr h = 2 + apc (skip 1 (step_arch h))"
    using step_default [OF _ _ assms(1)] type_fits(1) [OF assms(1)] by (simp add: op_def next_addr_def)
  then show "isa_step bus (step_arch h) = jump (imm16 (skip 1 (step_arch h)))
      (push (hi (GetStepOverAddr h)) (lo (GetStepOverAddr h)) (skip 1 (step_arch h)))"
    using c by (simp add: isa_step_def flip: op_def step_opcode_def)
qed

lemma sample_opcode:
  "step_opcode (sample_hardware (b # bs) i) = b" "apc (step_arch (sample_hardware (b # bs) i)) = 0"
  "imm16 (skip 1 (step_arch (sample_hardware [b, x, y] i))) = pair y x"
  by (simp_all add: step_views blank_cpu_def blank_mem_def SetRam_def GetByte_def fetch_global_def GetGlobalAddr_def
      map_addr_def Let_def)

theorem step_over_address_witness:
  "GetStepOverAddr (sample_hardware [0xC3, 0x34, 0x12] 0) =
    apc (isa_step io_bus (step_arch (sample_hardware [0xC3, 0x34, 0x12] 0)))"
  using step_over_address [of "sample_hardware [0xC3, 0x34, 0x12] 0" io_bus]
  by (simp add: sample_opcode undocumented_flow_def steps_into_def isa_decode_def decode_block3_def)

text \<open>Stepping over a conditional return that is taken sets the breakpoint at the next instruction
  in memory, which the machine does not reach: it goes to the address on the stack. A step over
  runs past such a return instead of stopping after it.\<close>

theorem step_over_conditional_return:
  assumes "isa_decode (unat (step_opcode h)) = ORet (When fl b)" "isa_holds (When fl b) (step_arch h)"
  shows "GetStepOverAddr h = r_pc (hw_cpu h) + 1 \<and> apc (isa_step bus (step_arch h)) =
    pair (GetByte (hw_mem h) (r_sp (hw_cpu h) + 1) STACK) (GetByte (hw_mem h) (r_sp (hw_cpu h)) STACK)"
proof
  have "unat (step_opcode h) \<notin> undocumented_flow"
  proof
    assume "unat (step_opcode h) \<in> undocumented_flow"
    then have "isa_decode (unat (step_opcode h)) \<in> isa_decode ` undocumented_flow" by (rule imageI)
    moreover have "isa_decode ` undocumented_flow = {OJmp Always, ORet Always, OCall Always}"
      by (simp add: undocumented_flow_def isa_decode_def decode_block3_def insert_commute)
    ultimately show False using assms(1) by simp
  qed
  then show "GetStepOverAddr h = r_pc (hw_cpu h) + 1"
    using step_default [of h] type_fits(1) [of "step_opcode h"] assms(1) by (simp add: next_addr_def step_views(3))
  show "apc (isa_step bus (step_arch h)) =
      pair (GetByte (hw_mem h) (r_sp (hw_cpu h) + 1) STACK) (GetByte (hw_mem h) (r_sp (hw_cpu h)) STACK)"
    using assms by (simp add: isa_step_def apc_transfer step_views(4) flip: step_opcode_def)
qed

theorem step_over_conditional_return_witness:
  "GetStepOverAddr (sample_hardware [0xC0] 0) = 1 \<and>
    apc (isa_step io_bus (step_arch (sample_hardware [0xC0] 0))) = 0xC0"
proof -
  have "isa_decode (unat (step_opcode (sample_hardware [0xC0] 0))) = ORet (When FZ False)"
    by (simp add: sample_opcode isa_decode_def decode_block3_def cond_of_def)
  moreover have "isa_holds (When FZ False) (step_arch (sample_hardware [0xC0] 0))"
    by (simp add: isa_holds_def step_arch_def sample_hardware_def regs_def blank_cpu_def bit_numeral_rec)
  ultimately show ?thesis
    using step_over_conditional_return [of "sample_hardware [0xC0] 0" FZ False io_bus]
    by (simp add: blank_cpu_def blank_mem_def SetRam_def GetByte_def fetch_global_def GetGlobalAddr_def map_addr_def
        Let_def pair_def)
qed

end
