(* ===== verification/Str_Utils.thy ===== *)
theory Str_Utils
  imports Prelude "HOL-Library.Char_ord" "HOL-Library.List_Lexorder" "HOL-Library.Sublist"
begin

text \<open>
  The text helpers of \<^verbatim>\<open>utils/str_utils.cpp\<close> and \<^verbatim>\<open>str_utils.h\<close>: hexadecimal text through
  the preset tables, its parsing, splitting, UTF-8, and the part of the standard library they
  use (\<^verbatim>\<open>printf\<close> of hexadecimal numbers, \<^verbatim>\<open>stoull\<close> and \<^verbatim>\<open>strtoull\<close> in base 16, \<^verbatim>\<open>getline\<close>).
\<close>

section \<open>Hexadecimal numbers\<close>

fun hex_digits :: "nat \<Rightarrow> nat list" where
  "hex_digits n = (if n < 16 then [n] else hex_digits (n div 16) @ [n mod 16])"

declare hex_digits.simps [simp del]

definition digit_char :: "bool \<Rightarrow> nat \<Rightarrow> char" where
  "digit_char upper d = char_of (if d < 10 then 48 + d else if upper then 55 + d else 87 + d)"

definition pad_left :: "nat \<Rightarrow> char \<Rightarrow> string \<Rightarrow> string" where
  "pad_left w c s = replicate (w - length s) c @ s"

text \<open>\<^verbatim>\<open>%0wX\<close> and \<^verbatim>\<open>{:0wX}\<close>, or with small letters.\<close>

definition hex_text :: "bool \<Rightarrow> nat \<Rightarrow> nat \<Rightarrow> string" where
  "hex_text upper w n = pad_left w (CHR ''0'') (map (digit_char upper) (hex_digits n))"

definition digit_value :: "char \<Rightarrow> nat option" where
  "digit_value c =
    (let n = of_char c :: nat
     in if 48 \<le> n \<and> n \<le> 57 then Some (n - 48)
        else if 65 \<le> n \<and> n \<le> 70 then Some (n - 55)
        else if 97 \<le> n \<and> n \<le> 102 then Some (n - 87) else None)"

definition digits_value :: "string \<Rightarrow> nat" where
  "digits_value s = foldl (\<lambda>n c. 16 * n + the (digit_value c)) 0 s"

lemma digit_value_char [simp]: "d < 16 \<Longrightarrow> digit_value (digit_char up d) = Some d"
  by (auto simp: digit_char_def digit_value_def Let_def)

lemma digit_value_zero [simp]: "digit_value (CHR ''0'') = Some 0"
  by (simp add: digit_value_def of_char_def)

lemma hex_digits_bound: "d \<in> set (hex_digits n) \<Longrightarrow> d < 16"
  by (induction n rule: hex_digits.induct) (subst (asm) (2) hex_digits.simps, auto split: if_splits)

lemma hex_digits_nonempty [simp]: "hex_digits n \<noteq> []"
  by (subst hex_digits.simps) simp

lemma hex_digits_length: "0 < w \<Longrightarrow> n < 16 ^ w \<Longrightarrow> length (hex_digits n) \<le> w"
proof (induction w arbitrary: n rule: nat_induct_non_zero)
  case 1
  then show ?case by (subst hex_digits.simps) simp
next
  case (Suc w)
  then have "n div 16 < 16 ^ w" by (simp add: less_mult_imp_div_less mult.commute)
  with Suc show ?case by (subst hex_digits.simps) simp
qed

lemma hex_text_length: "0 < w \<Longrightarrow> n < 16 ^ w \<Longrightarrow> length (hex_text up w n) = w"
  by (simp add: hex_text_def pad_left_def hex_digits_length)

lemma hex_text_digits: "c \<in> set (hex_text up w n) \<Longrightarrow> digit_value c \<noteq> None"
  by (auto simp: hex_text_def pad_left_def dest: hex_digits_bound)

lemma digits_value_hex [simp]: "digits_value (hex_text up w n) = n"
proof -
  have z: "foldl (\<lambda>n c. 16 * n + the (digit_value c)) 0 (replicate k (CHR ''0'')) = 0" for k
    by (induction k) simp_all
  have "foldl (\<lambda>n c. 16 * n + the (digit_value c)) 0 (map (digit_char up) (hex_digits n)) = n"
    by (induction n rule: hex_digits.induct) (subst hex_digits.simps, simp)
  with z show ?thesis by (simp add: digits_value_def hex_text_def pad_left_def)
qed

text \<open>
  \<^verbatim>\<open>strtoull\<close> in base 16: white space, a sign, an optional prefix, the longest run of digits;
  \<^term>\<open>None\<close> is no conversion, otherwise the sign, the number and the unread rest.
\<close>

definition is_space :: "char \<Rightarrow> bool" where
  "is_space c \<longleftrightarrow> (let n = of_char c :: nat in n = 32 \<or> 9 \<le> n \<and> n \<le> 13)"

definition skip_0x :: "string \<Rightarrow> string" where
  "skip_0x s =
    (if take 2 s \<in> {''0x'', ''0X''} \<and> drop 2 s \<noteq> [] \<and> digit_value (hd (drop 2 s)) \<noteq> None then drop 2 s else s)"

definition read_sign :: "string \<Rightarrow> bool \<times> string" where
  "read_sign s =
    (if s \<noteq> [] \<and> hd s = CHR ''-'' then (True, tl s)
     else if s \<noteq> [] \<and> hd s = CHR ''+'' then (False, tl s) else (False, s))"

definition read_hex :: "string \<Rightarrow> (bool \<times> nat \<times> string) option" where
  "read_hex s =
    (let (neg, s1) = read_sign (dropWhile is_space s); s2 = skip_0x s1;
         ds = takeWhile (\<lambda>c. digit_value c \<noteq> None) s2
     in if ds = [] then None else Some (neg, digits_value ds, drop (length ds) s2))"

datatype num_error = Invalid_argument | Out_of_range

definition int32 :: "int \<Rightarrow> int" where
  "int32 z = sint (word_of_int z :: 32 word)"

lemma int32_small [simp]: "0 \<le> z \<Longrightarrow> z < 2 ^ 31 \<Longrightarrow> int32 z = z"
  by (simp add: int32_def signed_of_int signed_take_bit_int_eq_self)

definition StrHexToInt :: "string \<Rightarrow> num_error + int" where
  "StrHexToInt s =
    (case read_hex s of
       None \<Rightarrow> Inl Invalid_argument
     | Some (neg, n, _) \<Rightarrow>
        if n < 2 ^ 64 then Inr (int32 (if neg then - int n else int n)) else Inl Out_of_range)"

text \<open>The argument is \<^term>\<open>None\<close> for a null pointer; too large a number is \<^verbatim>\<open>ULLONG_MAX\<close>.\<close>

definition StrCHexToInt :: "string option \<Rightarrow> int" where
  "StrCHexToInt p =
    (case p of
       None \<Rightarrow> -1
     | Some s \<Rightarrow>
        (case read_hex s of
           None \<Rightarrow> (if s = [] then 0 else -1)
         | Some (neg, n, rest) \<Rightarrow>
            if rest \<noteq> [] then -1
            else int32 (if n < 2 ^ 64 then if neg then - int n else int n else 2 ^ 64 - 1)))"

lemma read_hex_text:
  "read_hex (hex_text up w n) = Some (False, n, [])"
  "read_hex (CHR ''0'' # CHR ''x'' # hex_text up w n) = Some (False, n, [])"
proof -
  let ?s = "hex_text up w n"
  obtain c s where s: "?s = c # s" by (cases ?s) (simp_all add: hex_text_def pad_left_def)
  have d: "digit_value x \<noteq> None" if "x \<in> set ?s" for x using that by (rule hex_text_digits)
  then have c: "digit_value c \<noteq> None" using s by simp
  then have nc: "\<not> is_space c" "c \<noteq> CHR ''-''" "c \<noteq> CHR ''+''"
    by (auto simp: digit_value_def is_space_def Let_def split: if_splits)
  have tw: "takeWhile (\<lambda>x. digit_value x \<noteq> None) ?s = ?s" using d by (simp add: takeWhile_eq_all_conv)
  have "skip_0x ?s = ?s"
  proof (cases s)
    case (Cons x xs)
    then have "x \<noteq> CHR ''x''" "x \<noteq> CHR ''X''" using d [of x] s by (auto simp: digit_value_def Let_def)
    then show ?thesis by (simp add: s Cons skip_0x_def)
  qed (simp add: s skip_0x_def)
  moreover have "dropWhile is_space ?s = ?s" "read_sign ?s = (False, ?s)" "?s \<noteq> []"
    using nc by (simp_all add: s read_sign_def)
  ultimately show "read_hex ?s = Some (False, n, [])" by (simp add: read_hex_def tw del: not_None_eq)
  have "skip_0x (CHR ''0'' # CHR ''x'' # ?s) = ?s" using c by (simp add: skip_0x_def s)
  then show "read_hex (CHR ''0'' # CHR ''x'' # ?s) = Some (False, n, [])"
    using \<open>?s \<noteq> []\<close> by (simp add: read_hex_def read_sign_def Let_def is_space_def tw del: not_None_eq)
qed

section \<open>The tables of address texts\<close>

definition c_str :: "string \<Rightarrow> string" where
  "c_str s = takeWhile (\<lambda>c. c \<noteq> CHR 0x00) s"

definition I16_ADDRS_LEN :: nat where "I16_ADDRS_LEN = 7"
definition I8_ADDRS_LEN :: nat where "I8_ADDRS_LEN = 5"

definition addrsS :: string where
  "addrsS = concat (map (\<lambda>a. ''0x'' @ hex_text True 4 a @ [CHR 0x00]) [0..<0x10000])"

definition smallAddrsS :: string where
  "smallAddrsS = concat (map (\<lambda>a. ''0x'' @ hex_text True 2 a @ [CHR 0x00]) [0..<0x100])"

definition Uint16ToStrC0x :: "u16 \<Rightarrow> string" where
  "Uint16ToStrC0x a = c_str (drop (unat a * I16_ADDRS_LEN) addrsS)"

definition Uint8ToStrC0x :: "u8 \<Rightarrow> string" where
  "Uint8ToStrC0x a = c_str (drop (unat a * I8_ADDRS_LEN) smallAddrsS)"

definition Uint16ToStrC :: "u16 \<Rightarrow> string" where
  "Uint16ToStrC a = c_str (drop (unat a * I16_ADDRS_LEN + 2) addrsS)"

definition Uint8ToStrC :: "u8 \<Rightarrow> string" where
  "Uint8ToStrC a = c_str (drop (unat a * I8_ADDRS_LEN + 2) smallAddrsS)"

lemma drop_chunks:
  assumes "\<And>x. x \<in> set xs \<Longrightarrow> length (f x) = k" "i < length xs"
  shows "drop (i * k) (concat (map f xs)) = f (xs ! i) @ concat (map f (drop (Suc i) xs))"
  using assms
proof (induction xs arbitrary: i)
  case (Cons x xs)
  show ?case
  proof (cases i)
    case (Suc j)
    then have "drop (i * k) (concat (map f (x # xs))) = drop (j * k) (concat (map f xs))"
      using Cons.prems(1) [of x] by (simp add: add.commute)
    with Cons Suc show ?thesis by simp
  qed simp
qed simp

lemma c_str_chunk: "\<forall>c \<in> set s. digit_value c \<noteq> None \<Longrightarrow> c_str (s @ CHR 0x00 # rest) = s"
  by (induction s) (auto simp: c_str_def digit_value_def)

lemma c_str_0x: "c_str (CHR ''0'' # CHR ''x'' # s) = ''0x'' @ c_str s"
  by (simp add: c_str_def)

lemma table_entry:
  fixes w n :: nat
  assumes "i < n" "n \<le> 16 ^ w" "0 < w"
  defines "t \<equiv> concat (map (\<lambda>a. ''0x'' @ hex_text True w a @ [CHR 0x00]) [0..<n])"
  shows "c_str (drop (i * (w + 3)) t) = ''0x'' @ hex_text True w i" "c_str (drop (i * (w + 3) + 2) t) = hex_text True w i"
proof -
  have "drop (i * (w + 3)) t = ''0x'' @ hex_text True w i @ CHR 0x00 #
      concat (map (\<lambda>a. ''0x'' @ hex_text True w a @ [CHR 0x00]) (drop (Suc i) [0..<n]))"
    unfolding t_def using assms by (subst drop_chunks [where k = "w + 3"]) (simp_all add: hex_text_length)
  note d = this
  then show "c_str (drop (i * (w + 3)) t) = ''0x'' @ hex_text True w i"
    by (simp add: c_str_0x c_str_chunk hex_text_digits)
  have "drop (i * (w + 3) + 2) t = drop 2 (drop (i * (w + 3)) t)" by simp
  then show "c_str (drop (i * (w + 3) + 2) t) = hex_text True w i"
    by (simp add: d c_str_chunk hex_text_digits)
qed

lemma address_texts:
  "Uint16ToStrC0x a = ''0x'' @ hex_text True 4 (unat a)" "Uint16ToStrC a = hex_text True 4 (unat a)"
  "Uint8ToStrC0x b = ''0x'' @ hex_text True 2 (unat b)" "Uint8ToStrC b = hex_text True 2 (unat b)"
  using table_entry [of "unat a" "0x10000" 4] table_entry [of "unat b" "0x100" 2] unsigned_less [of a] unsigned_less [of b]
  by (simp_all add: Uint16ToStrC0x_def Uint16ToStrC_def Uint8ToStrC0x_def Uint8ToStrC_def I16_ADDRS_LEN_def I8_ADDRS_LEN_def
      addrsS_def smallAddrsS_def)

section \<open>Splitting\<close>

lemma dropWhile_less: "s \<noteq> [] \<Longrightarrow> length (dropWhile P s) - Suc 0 < length s"
  using length_dropWhile_le [of P s] by (cases s) (auto simp: le_imp_less_Suc simp del: dropWhile.simps)

text \<open>\<^verbatim>\<open>getline\<close> until it fails: a delimiter at the very end starts no further item.\<close>

function Split :: "string \<Rightarrow> char \<Rightarrow> string list" where
  "Split s d =
    (if s = [] then []
     else (let item = takeWhile (\<lambda>c. c \<noteq> d) s; rest = dropWhile (\<lambda>c. c \<noteq> d) s
           in item # (if rest = [] then [] else Split (tl rest) d)))"
  by auto
termination
  by (relation "measure (\<lambda>(s, d). length s)") (auto simp: dropWhile_less)

declare Split.simps [simp del]

fun join :: "char \<Rightarrow> string list \<Rightarrow> string" where
  "join d [] = []"
| "join d [x] = x"
| "join d (x # y # xs) = x @ d # join d (y # xs)"

lemma Split_item: "d \<notin> set x \<Longrightarrow> Split (x @ d # s) d = x # Split s d"
  by (subst Split.simps) (auto simp: Let_def takeWhile_append dropWhile_append)

lemma Split_last: "d \<notin> set x \<Longrightarrow> x \<noteq> [] \<Longrightarrow> Split x d = [x]"
  by (subst Split.simps) (auto simp: Let_def takeWhile_eq_all_conv dropWhile_eq_Nil_conv)

lemma Split_join:
  "\<forall>x \<in> set xs. d \<notin> set x \<Longrightarrow> xs = [] \<or> last xs \<noteq> [] \<Longrightarrow> Split (join d xs) d = xs"
proof (induction d xs rule: join.induct)
  case (1 d)
  show ?case by (simp add: Split.simps)
next
  case (2 d x)
  then show ?case by (simp add: Split_last)
next
  case (3 d x y xs)
  then show ?case by (simp add: Split_item)
qed

section \<open>UTF-8\<close>

text \<open>A wide string is the list of its units as unsigned numbers.\<close>

definition utf8_unit :: "nat \<Rightarrow> string" where
  "utf8_unit cp =
    (if cp < 0x80 then [char_of cp]
     else if cp < 0x800 then [char_of (0xC0 OR drop_bit 6 cp), char_of (0x80 OR cp AND 0x3F)]
     else if cp < 0x10000
     then [char_of (0xE0 OR drop_bit 12 cp), char_of (0x80 OR drop_bit 6 cp AND 0x3F), char_of (0x80 OR cp AND 0x3F)]
     else [char_of (0xF0 OR drop_bit 18 cp), char_of (0x80 OR drop_bit 12 cp AND 0x3F),
           char_of (0x80 OR drop_bit 6 cp AND 0x3F), char_of (0x80 OR cp AND 0x3F)])"

definition StrWToStr :: "nat list \<Rightarrow> string" where
  "StrWToStr ws = concat (map utf8_unit ws)"

text \<open>The definition of UTF-8, as a decoder of byte values.\<close>

fun utf8_decode :: "nat list \<Rightarrow> nat list option" where
  "utf8_decode [] = Some []"
| "utf8_decode (b # bs) =
    (if b < 0x80 then map_option ((#) b) (utf8_decode bs)
     else if b < 0xE0
     then (case bs of c # r \<Rightarrow> map_option ((#) ((b - 0xC0) * 64 + (c - 0x80))) (utf8_decode r) | _ \<Rightarrow> None)
     else if b < 0xF0
     then (case bs of
             c # d # r \<Rightarrow> map_option ((#) ((b - 0xE0) * 4096 + (c - 0x80) * 64 + (d - 0x80))) (utf8_decode r)
           | _ \<Rightarrow> None)
     else (case bs of
             c # d # e # r \<Rightarrow>
               map_option ((#) ((b - 0xF0) * 262144 + (c - 0x80) * 4096 + (d - 0x80) * 64 + (e - 0x80))) (utf8_decode r)
           | _ \<Rightarrow> None))"

lemma or_low:
  fixes x a :: nat assumes "x < 2 ^ k" shows "a * 2 ^ k OR x = a * 2 ^ k + x"
proof -
  have "bit (a * 2 ^ k) n \<Longrightarrow> \<not> bit x n" for n
    using assms bit_take_bit_iff [of k x n] by (auto simp: bit_push_bit_iff simp flip: push_bit_eq_mult) (simp add: take_bit_nat_eq_self)
  then have "a * 2 ^ k AND x = 0" by (intro bit_eqI) (auto simp: bit_and_iff)
  moreover have "(a * 2 ^ k AND x) + (a * 2 ^ k OR x) = a * 2 ^ k + x"
    by (metis of_nat_add of_nat_and_eq of_nat_eq_iff of_nat_or_eq plus_and_or)
  ultimately show ?thesis by simp
qed

lemma tag_bits:
  "(x :: nat) < 64 \<Longrightarrow> 0x80 OR x = 0x80 + x" "(x :: nat) < 32 \<Longrightarrow> 0xC0 OR x = 0xC0 + x"
  "(x :: nat) < 16 \<Longrightarrow> 0xE0 OR x = 0xE0 + x" "(x :: nat) < 8 \<Longrightarrow> 0xF0 OR x = 0xF0 + x"
  using or_low [of x 6 2] or_low [of x 5 6] or_low [of x 4 14] or_low [of x 3 30] by simp_all

lemma low6: "(x :: nat) AND 63 = x mod 64"
  using take_bit_eq_mask [of 6 x] by (simp add: mask_eq_exp_minus_1 take_bit_eq_mod)

lemma utf8_bytes:
  "cp < 0x110000 \<Longrightarrow> map of_char (utf8_unit cp) =
    (if cp < 0x80 then [cp]
     else if cp < 0x800 then [0xC0 + cp div 64, 0x80 + cp mod 64]
     else if cp < 0x10000 then [0xE0 + cp div 4096, 0x80 + cp div 64 mod 64, 0x80 + cp mod 64]
     else [0xF0 + cp div 262144, 0x80 + cp div 4096 mod 64, 0x80 + cp div 64 mod 64, 0x80 + cp mod 64])"
  by (auto simp: utf8_unit_def tag_bits low6 drop_bit_eq_div less_mult_imp_div_less)

lemma base64_digits:
  fixes cp :: nat
  shows "cp div 4096 * 4096 + cp div 64 mod 64 * 64 + cp mod 64 = cp"
    "cp div 262144 * 262144 + cp div 4096 mod 64 * 4096 + cp div 64 mod 64 * 64 + cp mod 64 = cp"
proof -
  have d: "cp div 4096 = cp div 64 div 64" "cp div 262144 = cp div 64 div 64 div 64" for cp :: nat
    by (simp_all add: div_mult2_eq [symmetric])
  have "cp div 64 * 64 + cp mod 64 = cp" "cp div 64 div 64 * 64 + cp div 64 mod 64 = cp div 64"
    "cp div 64 div 64 div 64 * 64 + cp div 64 div 64 mod 64 = cp div 64 div 64"
    by (rule div_mult_mod_eq)+
  then show "cp div 4096 * 4096 + cp div 64 mod 64 * 64 + cp mod 64 = cp"
    "cp div 262144 * 262144 + cp div 4096 mod 64 * 4096 + cp div 64 mod 64 * 64 + cp mod 64 = cp"
    unfolding d by linarith+
qed

lemma utf8_decode_unit:
  assumes "cp < 0x110000"
  shows "utf8_decode (map of_char (utf8_unit cp) @ bs) = map_option ((#) cp) (utf8_decode bs)"
proof -
  consider "cp < 0x80" | "0x80 \<le> cp" "cp < 0x800" | "0x800 \<le> cp" "cp < 0x10000" | "0x10000 \<le> cp" by linarith
  then show ?thesis
  proof cases
    case 2
    then have "cp div 64 < 32" by (simp add: less_mult_imp_div_less)
    with 2 assms show ?thesis by (simp add: utf8_bytes)
  next
    case 3
    then have "cp div 4096 < 16" by (simp add: less_mult_imp_div_less)
    with 3 assms show ?thesis by (simp add: utf8_bytes base64_digits)
  next
    case 4
    with assms show ?thesis by (simp add: utf8_bytes base64_digits)
  qed (simp add: utf8_bytes)
qed

lemma utf8_roundtrip:
  "\<forall>cp \<in> set ws. cp < 0x110000 \<Longrightarrow> utf8_decode (map of_char (StrWToStr ws)) = Some ws"
proof (induction ws)
  case (Cons cp ws)
  then show ?case using utf8_decode_unit [of cp "map of_char (StrWToStr ws)"] by (simp add: StrWToStr_def)
qed (simp add: StrWToStr_def)

text \<open>
  Where \<^verbatim>\<open>wchar_t\<close> has 16 bits a character above \<open>0xFFFF\<close> arrives as two surrogates, which are
  encoded one by one, three bytes each, and not as the four bytes of the character.
\<close>

lemma surrogate_pair: "StrWToStr [0xD83D, 0xDE00] \<noteq> StrWToStr [0x1F600]"
  by (simp add: StrWToStr_def utf8_unit_def)

section \<open>Other helpers\<close>

definition BoolToStrC :: "bool \<Rightarrow> int \<Rightarrow> string" where
  "BoolToStrC v mode =
    (if mode = 0 then if v then ''True'' else ''False''
     else if mode = 1 then if v then ''1'' else ''0''
     else if mode = 2 then if v then ''On'' else ''Off''
     else ''NOT_SUPPORTED'')"

text \<open>\<^verbatim>\<open>std::toupper\<close> of the C locale.\<close>

definition to_upper :: "char \<Rightarrow> char" where
  "to_upper c = (let n = of_char c :: nat in if 97 \<le> n \<and> n \<le> 122 then char_of (n - 32) else c)"

definition StrToUpper :: "string \<Rightarrow> string" where
  "StrToUpper s = map to_upper s"

definition TrimSpacesRight :: "string \<Rightarrow> string" where
  "TrimSpacesRight s = rev (dropWhile is_space (rev s))"

text \<open>The sum wraps as \<^verbatim>\<open>int\<close> does on two's complement; characters are not checked.\<close>

definition fast_atoi :: "string \<Rightarrow> int" where
  "fast_atoi s = foldl (\<lambda>val c. int32 (val * 10 + (of_char c - 48))) 0 s"

text \<open>\<^verbatim>\<open>find(sub, pos)\<close>: the first occurrence at or after a position.\<close>

fun find_at :: "string \<Rightarrow> nat \<Rightarrow> string \<Rightarrow> nat option" where
  "find_at sub n [] = (if sub = [] then Some n else None)"
| "find_at sub n (c # s) = (if take (length sub) (c # s) = sub then Some n else find_at sub (Suc n) s)"

definition find_from :: "string \<Rightarrow> string \<Rightarrow> nat \<Rightarrow> nat option" where
  "find_from s sub pos = (if length s < pos then None else find_at sub pos (drop pos s))"

partial_function (option) count_from :: "string \<Rightarrow> string \<Rightarrow> int \<Rightarrow> nat \<Rightarrow> int option" where
  "count_from s sub count pos =
    (case find_from s sub pos of
       None \<Rightarrow> Some count
     | Some p \<Rightarrow> count_from s sub (count + 1) (p + length s))"

definition GetSubstringCount :: "string \<Rightarrow> string \<Rightarrow> int option" where
  "GetSubstringCount s sub = count_from s sub 0 0"

lemma take_prefix: "take (length xs) ys = xs \<longleftrightarrow> prefix xs ys"
  by (metis append_eq_conv_conj prefix_def)

lemma find_at_sublist: "find_at sub n s = None \<longleftrightarrow> \<not> sublist sub s"
  by (induction sub n s rule: find_at.induct) (simp_all add: sublist_Cons_right take_prefix)

text \<open>
  The position moves past the whole text, not past the occurrence: a non-empty pattern is counted
  once at most, however often it occurs.
\<close>

lemma substring_counted_once:
  assumes "sub \<noteq> []"
  shows "GetSubstringCount s sub = Some (if sublist sub s then 1 else 0)"
proof (cases "find_from s sub 0")
  case None
  moreover from this have "\<not> sublist sub s" using find_at_sublist [of sub 0 s] by (simp add: find_from_def)
  ultimately show ?thesis by (simp add: GetSubstringCount_def count_from.simps [of s sub 0])
next
  case (Some p)
  then have "sublist sub s" using find_at_sublist [of sub 0 s] by (simp add: find_from_def)
  moreover have "find_from s sub (p + length s) = None" using assms by (cases p) (simp_all add: find_from_def)
  ultimately show ?thesis by (simp add: GetSubstringCount_def count_from.simps [of s sub 0] count_from.simps [of s sub 1] Some)
qed

lemma fast_atoi_number:
  assumes "\<forall>c \<in> set s. 48 \<le> (of_char c :: nat) \<and> (of_char c :: nat) \<le> 57" "length s \<le> 9"
  shows "fast_atoi s = foldl (\<lambda>val c. val * 10 + (of_char c - 48)) 0 s"
proof -
  have "foldl (\<lambda>val c. int32 (val * 10 + (of_char c - 48))) 0 s = foldl (\<lambda>val c. val * 10 + (of_char c - 48)) 0 s \<and>
      0 \<le> foldl (\<lambda>val c. val * 10 + (of_char c - 48 :: int)) 0 s \<and>
      foldl (\<lambda>val c. val * 10 + (of_char c - 48 :: int)) 0 s < 10 ^ length s"
    using assms
  proof (induction s rule: rev_induct)
    case (snoc c s)
    let ?v = "foldl (\<lambda>val c. val * 10 + (of_char c - 48 :: int)) 0 s"
    have IH: "foldl (\<lambda>val c. int32 (val * 10 + (of_char c - 48))) 0 s = ?v" "0 \<le> ?v" "?v < 10 ^ length s"
      using snoc by simp_all
    have "(of_char c :: int) = int (of_char c :: nat)" by (rule of_nat_of_char [symmetric])
    then have c: "48 \<le> (of_char c :: int)" "(of_char c :: int) \<le> 57" using snoc.prems(1) by auto
    have "(10 :: int) ^ length s \<le> 10 ^ 8" using snoc.prems(2) by (intro power_increasing) auto
    then have "?v * 10 + (of_char c - 48) < 2 ^ 31" using IH(3) c by simp
    then show ?case using int32_small [of "?v * 10 + (of_char c - 48)"] IH c by simp
  qed simp
  then show ?thesis by (simp add: fast_atoi_def)
qed

section \<open>Properties\<close>

text \<open>Addresses survive the texts of the program: the entry of a preset table is the number in
  upper-case hexadecimal with leading zeros, and both parsers give the number back.\<close>

theorem address_text_roundtrip:
  "StrHexToInt (Uint16ToStrC0x a) = Inr (uint a) \<and> StrHexToInt (Uint8ToStrC0x b) = Inr (uint b) \<and>
    StrCHexToInt (Some (Uint16ToStrC a)) = uint a \<and> StrCHexToInt (Some (Uint8ToStrC b)) = uint b \<and>
    Uint16ToStrC0x a = ''0x'' @ hex_text True 4 (unat a) \<and> Uint8ToStrC b = hex_text True 2 (unat b)"
proof -
  have "uint a < 2 ^ LENGTH(16)" "uint b < 2 ^ LENGTH(8)" by (rule unsigned_less)+
  then have "int32 (uint a) = uint a" "int32 (uint b) = uint b" by simp_all
  moreover have "unat a < 2 ^ LENGTH(16)" "unat b < 2 ^ LENGTH(8)" by (rule unsigned_less)+
  ultimately show ?thesis
    by (simp add: address_texts StrHexToInt_def StrCHexToInt_def read_hex_text)
qed

end
