(* ===== verification/Disasm_Cmds.thy ===== *)
theory Disasm_Cmds
  imports Str_Utils
begin

text \<open>
  The commands of the disassembler (\<^verbatim>\<open>core/disasm.h\<close>): the texts of the tokens, their types, and
  what the immediate operand is. A token that has no text is a null pointer in the array.
\<close>

datatype (plugins only: code) imm_type = IT_NONE | IT_B0 | IT_B1 | IT_W1

datatype (plugins only: code) token_type =
    TT_NONE | TT_CMD | TT_REG | TT_IMM | TT_BIMM | TT_COMMA | TT_COMMA_SPACE | TT_SPACE | TT_LPAREN
  | TT_RPAREN | TT_LABEL | TT_CONST | TT_COMMENT

definition CMD_TOKENS_MAX :: nat where "CMD_TOKENS_MAX = 7"
definition CMD_BYTES_MAX :: int where "CMD_BYTES_MAX = 3"

datatype (plugins only: code) cmd = Cmd (tokens: "string list") (token_types: "token_type list") (imm_type: imm_type)

text \<open>A command as text: each token by its type, the immediate operand in place of its token.\<close>

definition token_text :: "string \<Rightarrow> cmd \<Rightarrow> nat \<Rightarrow> string" where
  "token_text imm c i = (if token_types c ! i = TT_IMM then imm else tokens c ! i)"

definition cmd_text :: "string \<Rightarrow> cmd \<Rightarrow> string" where
  "cmd_text imm c = concat (map (token_text imm c) [0..<length (token_types c)])"

text \<open>Every token that is printed by its text has one.\<close>

definition tokens_ok :: "cmd \<Rightarrow> bool" where
  "tokens_ok c \<longleftrightarrow> length (tokens c) \<le> CMD_TOKENS_MAX \<and>
    (\<forall>i \<in> set [0..<length (token_types c)]. token_types c ! i = TT_IMM \<or> i < length (tokens c))"

end
