(* ===== verification/Disasm_I8080.thy ===== *)
theory Disasm_I8080
  imports Disasm_Cmds
begin

text \<open>
  The commands of \<^verbatim>\<open>core/disasm_i8080_cmds.h\<close>, in the Intel notation: one definition for each constant of the
  file, in its order, and the array indexed by the opcode.
\<close>

section \<open>The commands\<close>

definition CMD_NOP :: cmd where
  "CMD_NOP = Cmd [''nop''] [TT_CMD] IT_NONE"

definition CMD_LXI_B_NN :: cmd where
  "CMD_LXI_B_NN =
    Cmd [''lxi'', '' '', ''b'', '', '', ''NN'']
      [TT_CMD, TT_SPACE, TT_REG, TT_COMMA_SPACE, TT_IMM] IT_W1"

definition CMD_STAX_B :: cmd where
  "CMD_STAX_B = Cmd [''stax'', '' '', ''b''] [TT_CMD, TT_SPACE, TT_REG] IT_NONE"

definition CMD_INX_B :: cmd where
  "CMD_INX_B = Cmd [''inx'', '' '', ''b''] [TT_CMD, TT_SPACE, TT_REG] IT_NONE"

definition CMD_INR_B :: cmd where
  "CMD_INR_B = Cmd [''inr'', '' '', ''b''] [TT_CMD, TT_SPACE, TT_REG] IT_NONE"

definition CMD_DCR_B :: cmd where
  "CMD_DCR_B = Cmd [''dcr'', '' '', ''b''] [TT_CMD, TT_SPACE, TT_REG] IT_NONE"

definition CMD_MVI_B_N :: cmd where
  "CMD_MVI_B_N = Cmd [''mvi'', '' '', ''b'', '', '', ''N''] [TT_CMD, TT_SPACE, TT_REG, TT_COMMA_SPACE, TT_IMM] IT_B1"

definition CMD_RLC :: cmd where
  "CMD_RLC = Cmd [''rlc''] [TT_CMD] IT_NONE"

definition CMD_DAD_B :: cmd where
  "CMD_DAD_B = Cmd [''dad'', '' '', ''b''] [TT_CMD, TT_SPACE, TT_REG] IT_NONE"

definition CMD_LDAX_B :: cmd where
  "CMD_LDAX_B = Cmd [''ldax'', '' '', ''b''] [TT_CMD, TT_SPACE, TT_REG] IT_NONE"

definition CMD_DCX_B :: cmd where
  "CMD_DCX_B = Cmd [''dcx'', '' '', ''b''] [TT_CMD, TT_SPACE, TT_REG] IT_NONE"

definition CMD_INR_C :: cmd where
  "CMD_INR_C = Cmd [''inr'', '' '', ''c''] [TT_CMD, TT_SPACE, TT_REG] IT_NONE"

definition CMD_DCR_C :: cmd where
  "CMD_DCR_C = Cmd [''dcr'', '' '', ''c''] [TT_CMD, TT_SPACE, TT_REG] IT_NONE"

definition CMD_MVI_C_N :: cmd where
  "CMD_MVI_C_N = Cmd [''mvi'', '' '', ''c'', '', '', ''N''] [TT_CMD, TT_SPACE, TT_REG, TT_COMMA_SPACE, TT_IMM] IT_B1"

definition CMD_RRC :: cmd where
  "CMD_RRC = Cmd [''rrc''] [TT_CMD] IT_NONE"

definition CMD_LXI_D :: cmd where
  "CMD_LXI_D = Cmd [''lxi'', '' '', ''d'', '', '', ''NN''] [TT_CMD, TT_SPACE, TT_REG, TT_COMMA_SPACE, TT_IMM] IT_W1"

definition CMD_STAX_D :: cmd where
  "CMD_STAX_D = Cmd [''stax'', '' '', ''d''] [TT_CMD, TT_SPACE, TT_REG] IT_NONE"

definition CMD_INX_D :: cmd where
  "CMD_INX_D = Cmd [''inx'', '' '', ''d''] [TT_CMD, TT_SPACE, TT_REG] IT_NONE"

definition CMD_INR_D :: cmd where
  "CMD_INR_D = Cmd [''inr'', '' '', ''d''] [TT_CMD, TT_SPACE, TT_REG] IT_NONE"

definition CMD_DCR_D :: cmd where
  "CMD_DCR_D = Cmd [''dcr'', '' '', ''d''] [TT_CMD, TT_SPACE, TT_REG] IT_NONE"

definition CMD_MVI_D_N :: cmd where
  "CMD_MVI_D_N = Cmd [''mvi'', '' '', ''d'', '', '', ''N''] [TT_CMD, TT_SPACE, TT_REG, TT_COMMA_SPACE, TT_IMM] IT_B1"

definition CMD_RAL :: cmd where
  "CMD_RAL = Cmd [''ral''] [TT_CMD] IT_NONE"

definition CMD_DAD_D :: cmd where
  "CMD_DAD_D = Cmd [''dad'', '' '', ''d''] [TT_CMD, TT_SPACE, TT_REG] IT_NONE"

definition CMD_LDAX_D :: cmd where
  "CMD_LDAX_D = Cmd [''ldax'', '' '', ''d''] [TT_CMD, TT_SPACE, TT_REG] IT_NONE"

definition CMD_DCX_D :: cmd where
  "CMD_DCX_D = Cmd [''dcx'', '' '', ''d''] [TT_CMD, TT_SPACE, TT_REG] IT_NONE"

definition CMD_INR_E :: cmd where
  "CMD_INR_E = Cmd [''inr'', '' '', ''e''] [TT_CMD, TT_SPACE, TT_REG] IT_NONE"

definition CMD_DCR_E :: cmd where
  "CMD_DCR_E = Cmd [''dcr'', '' '', ''e''] [TT_CMD, TT_SPACE, TT_REG] IT_NONE"

definition CMD_MVI_E_N :: cmd where
  "CMD_MVI_E_N = Cmd [''mvi'', '' '', ''e'', '', '', ''N''] [TT_CMD, TT_SPACE, TT_REG, TT_COMMA_SPACE, TT_IMM] IT_B1"

definition CMD_RAR :: cmd where
  "CMD_RAR = Cmd [''rar''] [TT_CMD] IT_NONE"

definition CMD_LXI_H :: cmd where
  "CMD_LXI_H = Cmd [''lxi'', '' '', ''h'', '', '', ''NN''] [TT_CMD, TT_SPACE, TT_REG, TT_COMMA_SPACE, TT_IMM] IT_W1"

definition CMD_SHLD_NN :: cmd where
  "CMD_SHLD_NN = Cmd [''shld'', '' '', ''NN''] [TT_CMD, TT_SPACE, TT_IMM] IT_W1"

definition CMD_INX_H :: cmd where
  "CMD_INX_H = Cmd [''inx'', '' '', ''h''] [TT_CMD, TT_SPACE, TT_REG] IT_NONE"

definition CMD_INR_H :: cmd where
  "CMD_INR_H = Cmd [''inr'', '' '', ''h''] [TT_CMD, TT_SPACE, TT_REG] IT_NONE"

definition CMD_DCR_H :: cmd where
  "CMD_DCR_H = Cmd [''dcr'', '' '', ''h''] [TT_CMD, TT_SPACE, TT_REG] IT_NONE"

definition CMD_MVI_H_N :: cmd where
  "CMD_MVI_H_N = Cmd [''mvi'', '' '', ''h'', '', '', ''N''] [TT_CMD, TT_SPACE, TT_REG, TT_COMMA_SPACE, TT_IMM] IT_B1"

definition CMD_DAA :: cmd where
  "CMD_DAA = Cmd [''daa''] [TT_CMD] IT_NONE"

definition CMD_DAD_H :: cmd where
  "CMD_DAD_H = Cmd [''dad'', '' '', ''h''] [TT_CMD, TT_SPACE, TT_REG] IT_NONE"

definition CMD_LHLD_NN :: cmd where
  "CMD_LHLD_NN = Cmd [''lhld'', '' '', ''NN''] [TT_CMD, TT_SPACE, TT_IMM] IT_W1"

definition CMD_DCX_H :: cmd where
  "CMD_DCX_H = Cmd [''dcx'', '' '', ''h''] [TT_CMD, TT_SPACE, TT_REG] IT_NONE"

definition CMD_INR_L :: cmd where
  "CMD_INR_L = Cmd [''inr'', '' '', ''l''] [TT_CMD, TT_SPACE, TT_REG] IT_NONE"

definition CMD_DCR_L :: cmd where
  "CMD_DCR_L = Cmd [''dcr'', '' '', ''l''] [TT_CMD, TT_SPACE, TT_REG] IT_NONE"

definition CMD_MVI_L_N :: cmd where
  "CMD_MVI_L_N = Cmd [''mvi'', '' '', ''l'', '', '', ''N''] [TT_CMD, TT_SPACE, TT_REG, TT_COMMA_SPACE, TT_IMM] IT_B1"

definition CMD_CMA :: cmd where
  "CMD_CMA = Cmd [''cma''] [TT_CMD] IT_NONE"

definition CMD_LXI_SP :: cmd where
  "CMD_LXI_SP = Cmd [''lxi'', '' '', ''sp'', '', '', ''NN''] [TT_CMD, TT_SPACE, TT_REG, TT_COMMA_SPACE, TT_IMM] IT_W1"

definition CMD_STA_NN :: cmd where
  "CMD_STA_NN = Cmd [''sta'', '' '', ''NN''] [TT_CMD, TT_SPACE, TT_IMM] IT_W1"

definition CMD_INX_SP :: cmd where
  "CMD_INX_SP = Cmd [''inx'', '' '', ''sp''] [TT_CMD, TT_SPACE, TT_REG] IT_NONE"

definition CMD_INR_M :: cmd where
  "CMD_INR_M = Cmd [''inr'', '' '', ''m''] [TT_CMD, TT_SPACE, TT_REG] IT_NONE"

definition CMD_DCR_M :: cmd where
  "CMD_DCR_M = Cmd [''dcr'', '' '', ''m''] [TT_CMD, TT_SPACE, TT_REG] IT_NONE"

definition CMD_MVI_M_N :: cmd where
  "CMD_MVI_M_N = Cmd [''mvi'', '' '', ''m'', '', '', ''N''] [TT_CMD, TT_SPACE, TT_REG, TT_COMMA_SPACE, TT_IMM] IT_B1"

definition CMD_STC :: cmd where
  "CMD_STC = Cmd [''stc''] [TT_CMD] IT_NONE"

definition CMD_DAD_SP :: cmd where
  "CMD_DAD_SP = Cmd [''dad'', '' '', ''sp''] [TT_CMD, TT_SPACE, TT_REG] IT_NONE"

definition CMD_LDA_NN :: cmd where
  "CMD_LDA_NN = Cmd [''lda'', '' '', ''NN''] [TT_CMD, TT_SPACE, TT_IMM] IT_W1"

definition CMD_DCX_SP :: cmd where
  "CMD_DCX_SP = Cmd [''dcx'', '' '', ''sp''] [TT_CMD, TT_SPACE, TT_REG] IT_NONE"

definition CMD_INR_A :: cmd where
  "CMD_INR_A = Cmd [''inr'', '' '', ''a''] [TT_CMD, TT_SPACE, TT_REG] IT_NONE"

definition CMD_DCR_A :: cmd where
  "CMD_DCR_A = Cmd [''dcr'', '' '', ''a''] [TT_CMD, TT_SPACE, TT_REG] IT_NONE"

definition CMD_MVI_A_N :: cmd where
  "CMD_MVI_A_N = Cmd [''mvi'', '' '', ''a'', '', '', ''N''] [TT_CMD, TT_SPACE, TT_REG, TT_COMMA_SPACE, TT_IMM] IT_B1"

definition CMD_CMC :: cmd where
  "CMD_CMC = Cmd [''cmc''] [TT_CMD] IT_NONE"

definition CMD_MOV_B_B :: cmd where
  "CMD_MOV_B_B =
    Cmd [''mov'', '' '', ''b'', '', '', ''b'']
      [TT_CMD, TT_SPACE, TT_REG, TT_COMMA_SPACE, TT_REG] IT_NONE"

definition CMD_MOV_B_C :: cmd where
  "CMD_MOV_B_C =
    Cmd [''mov'', '' '', ''b'', '', '', ''c'']
      [TT_CMD, TT_SPACE, TT_REG, TT_COMMA_SPACE, TT_REG] IT_NONE"

definition CMD_MOV_B_D :: cmd where
  "CMD_MOV_B_D =
    Cmd [''mov'', '' '', ''b'', '', '', ''d'']
      [TT_CMD, TT_SPACE, TT_REG, TT_COMMA_SPACE, TT_REG] IT_NONE"

definition CMD_MOV_B_E :: cmd where
  "CMD_MOV_B_E =
    Cmd [''mov'', '' '', ''b'', '', '', ''e'']
      [TT_CMD, TT_SPACE, TT_REG, TT_COMMA_SPACE, TT_REG] IT_NONE"

definition CMD_MOV_B_H :: cmd where
  "CMD_MOV_B_H =
    Cmd [''mov'', '' '', ''b'', '', '', ''h'']
      [TT_CMD, TT_SPACE, TT_REG, TT_COMMA_SPACE, TT_REG] IT_NONE"

definition CMD_MOV_B_L :: cmd where
  "CMD_MOV_B_L =
    Cmd [''mov'', '' '', ''b'', '', '', ''l'']
      [TT_CMD, TT_SPACE, TT_REG, TT_COMMA_SPACE, TT_REG] IT_NONE"

definition CMD_MOV_B_M :: cmd where
  "CMD_MOV_B_M =
    Cmd [''mov'', '' '', ''b'', '', '', ''m'']
      [TT_CMD, TT_SPACE, TT_REG, TT_COMMA_SPACE, TT_REG] IT_NONE"

definition CMD_MOV_B_A :: cmd where
  "CMD_MOV_B_A =
    Cmd [''mov'', '' '', ''b'', '', '', ''a'']
      [TT_CMD, TT_SPACE, TT_REG, TT_COMMA_SPACE, TT_REG] IT_NONE"

definition CMD_MOV_C_B :: cmd where
  "CMD_MOV_C_B =
    Cmd [''mov'', '' '', ''c'', '', '', ''b'']
      [TT_CMD, TT_SPACE, TT_REG, TT_COMMA_SPACE, TT_REG] IT_NONE"

definition CMD_MOV_C_C :: cmd where
  "CMD_MOV_C_C =
    Cmd [''mov'', '' '', ''c'', '', '', ''c'']
      [TT_CMD, TT_SPACE, TT_REG, TT_COMMA_SPACE, TT_REG] IT_NONE"

definition CMD_MOV_C_D :: cmd where
  "CMD_MOV_C_D =
    Cmd [''mov'', '' '', ''c'', '', '', ''d'']
      [TT_CMD, TT_SPACE, TT_REG, TT_COMMA_SPACE, TT_REG] IT_NONE"

definition CMD_MOV_C_E :: cmd where
  "CMD_MOV_C_E =
    Cmd [''mov'', '' '', ''c'', '', '', ''e'']
      [TT_CMD, TT_SPACE, TT_REG, TT_COMMA_SPACE, TT_REG] IT_NONE"

definition CMD_MOV_C_H :: cmd where
  "CMD_MOV_C_H =
    Cmd [''mov'', '' '', ''c'', '', '', ''h'']
      [TT_CMD, TT_SPACE, TT_REG, TT_COMMA_SPACE, TT_REG] IT_NONE"

definition CMD_MOV_C_L :: cmd where
  "CMD_MOV_C_L =
    Cmd [''mov'', '' '', ''c'', '', '', ''l'']
      [TT_CMD, TT_SPACE, TT_REG, TT_COMMA_SPACE, TT_REG] IT_NONE"

definition CMD_MOV_C_M :: cmd where
  "CMD_MOV_C_M =
    Cmd [''mov'', '' '', ''c'', '', '', ''m'']
      [TT_CMD, TT_SPACE, TT_REG, TT_COMMA_SPACE, TT_REG] IT_NONE"

definition CMD_MOV_C_A :: cmd where
  "CMD_MOV_C_A =
    Cmd [''mov'', '' '', ''c'', '', '', ''a'']
      [TT_CMD, TT_SPACE, TT_REG, TT_COMMA_SPACE, TT_REG] IT_NONE"

definition CMD_MOV_D_B :: cmd where
  "CMD_MOV_D_B =
    Cmd [''mov'', '' '', ''d'', '', '', ''b'']
      [TT_CMD, TT_SPACE, TT_REG, TT_COMMA_SPACE, TT_REG] IT_NONE"

definition CMD_MOV_D_C :: cmd where
  "CMD_MOV_D_C =
    Cmd [''mov'', '' '', ''d'', '', '', ''c'']
      [TT_CMD, TT_SPACE, TT_REG, TT_COMMA_SPACE, TT_REG] IT_NONE"

definition CMD_MOV_D_D :: cmd where
  "CMD_MOV_D_D =
    Cmd [''mov'', '' '', ''d'', '', '', ''d'']
      [TT_CMD, TT_SPACE, TT_REG, TT_COMMA_SPACE, TT_REG] IT_NONE"

definition CMD_MOV_D_E :: cmd where
  "CMD_MOV_D_E =
    Cmd [''mov'', '' '', ''d'', '', '', ''e'']
      [TT_CMD, TT_SPACE, TT_REG, TT_COMMA_SPACE, TT_REG] IT_NONE"

definition CMD_MOV_D_H :: cmd where
  "CMD_MOV_D_H =
    Cmd [''mov'', '' '', ''d'', '', '', ''h'']
      [TT_CMD, TT_SPACE, TT_REG, TT_COMMA_SPACE, TT_REG] IT_NONE"

definition CMD_MOV_D_L :: cmd where
  "CMD_MOV_D_L =
    Cmd [''mov'', '' '', ''d'', '', '', ''l'']
      [TT_CMD, TT_SPACE, TT_REG, TT_COMMA_SPACE, TT_REG] IT_NONE"

definition CMD_MOV_D_M :: cmd where
  "CMD_MOV_D_M =
    Cmd [''mov'', '' '', ''d'', '', '', ''m'']
      [TT_CMD, TT_SPACE, TT_REG, TT_COMMA_SPACE, TT_REG] IT_NONE"

definition CMD_MOV_D_A :: cmd where
  "CMD_MOV_D_A =
    Cmd [''mov'', '' '', ''d'', '', '', ''a'']
      [TT_CMD, TT_SPACE, TT_REG, TT_COMMA_SPACE, TT_REG] IT_NONE"

definition CMD_MOV_E_B :: cmd where
  "CMD_MOV_E_B =
    Cmd [''mov'', '' '', ''e'', '', '', ''b'']
      [TT_CMD, TT_SPACE, TT_REG, TT_COMMA_SPACE, TT_REG] IT_NONE"

definition CMD_MOV_E_C :: cmd where
  "CMD_MOV_E_C =
    Cmd [''mov'', '' '', ''e'', '', '', ''c'']
      [TT_CMD, TT_SPACE, TT_REG, TT_COMMA_SPACE, TT_REG] IT_NONE"

definition CMD_MOV_E_D :: cmd where
  "CMD_MOV_E_D =
    Cmd [''mov'', '' '', ''e'', '', '', ''d'']
      [TT_CMD, TT_SPACE, TT_REG, TT_COMMA_SPACE, TT_REG] IT_NONE"

definition CMD_MOV_E_E :: cmd where
  "CMD_MOV_E_E =
    Cmd [''mov'', '' '', ''e'', '', '', ''e'']
      [TT_CMD, TT_SPACE, TT_REG, TT_COMMA_SPACE, TT_REG] IT_NONE"

definition CMD_MOV_E_H :: cmd where
  "CMD_MOV_E_H =
    Cmd [''mov'', '' '', ''e'', '', '', ''h'']
      [TT_CMD, TT_SPACE, TT_REG, TT_COMMA_SPACE, TT_REG] IT_NONE"

definition CMD_MOV_E_L :: cmd where
  "CMD_MOV_E_L =
    Cmd [''mov'', '' '', ''e'', '', '', ''l'']
      [TT_CMD, TT_SPACE, TT_REG, TT_COMMA_SPACE, TT_REG] IT_NONE"

definition CMD_MOV_E_M :: cmd where
  "CMD_MOV_E_M =
    Cmd [''mov'', '' '', ''e'', '', '', ''m'']
      [TT_CMD, TT_SPACE, TT_REG, TT_COMMA_SPACE, TT_REG] IT_NONE"

definition CMD_MOV_E_A :: cmd where
  "CMD_MOV_E_A =
    Cmd [''mov'', '' '', ''e'', '', '', ''a'']
      [TT_CMD, TT_SPACE, TT_REG, TT_COMMA_SPACE, TT_REG] IT_NONE"

definition CMD_MOV_H_B :: cmd where
  "CMD_MOV_H_B =
    Cmd [''mov'', '' '', ''h'', '', '', ''b'']
      [TT_CMD, TT_SPACE, TT_REG, TT_COMMA_SPACE, TT_REG] IT_NONE"

definition CMD_MOV_H_C :: cmd where
  "CMD_MOV_H_C =
    Cmd [''mov'', '' '', ''h'', '', '', ''c'']
      [TT_CMD, TT_SPACE, TT_REG, TT_COMMA_SPACE, TT_REG] IT_NONE"

definition CMD_MOV_H_D :: cmd where
  "CMD_MOV_H_D =
    Cmd [''mov'', '' '', ''h'', '', '', ''d'']
      [TT_CMD, TT_SPACE, TT_REG, TT_COMMA_SPACE, TT_REG] IT_NONE"

definition CMD_MOV_H_E :: cmd where
  "CMD_MOV_H_E =
    Cmd [''mov'', '' '', ''h'', '', '', ''e'']
      [TT_CMD, TT_SPACE, TT_REG, TT_COMMA_SPACE, TT_REG] IT_NONE"

definition CMD_MOV_H_H :: cmd where
  "CMD_MOV_H_H =
    Cmd [''mov'', '' '', ''h'', '', '', ''h'']
      [TT_CMD, TT_SPACE, TT_REG, TT_COMMA_SPACE, TT_REG] IT_NONE"

definition CMD_MOV_H_L :: cmd where
  "CMD_MOV_H_L =
    Cmd [''mov'', '' '', ''h'', '', '', ''l'']
      [TT_CMD, TT_SPACE, TT_REG, TT_COMMA_SPACE, TT_REG] IT_NONE"

definition CMD_MOV_H_M :: cmd where
  "CMD_MOV_H_M =
    Cmd [''mov'', '' '', ''h'', '', '', ''m'']
      [TT_CMD, TT_SPACE, TT_REG, TT_COMMA_SPACE, TT_REG] IT_NONE"

definition CMD_MOV_H_A :: cmd where
  "CMD_MOV_H_A =
    Cmd [''mov'', '' '', ''h'', '', '', ''a'']
      [TT_CMD, TT_SPACE, TT_REG, TT_COMMA_SPACE, TT_REG] IT_NONE"

definition CMD_MOV_L_B :: cmd where
  "CMD_MOV_L_B =
    Cmd [''mov'', '' '', ''l'', '', '', ''b'']
      [TT_CMD, TT_SPACE, TT_REG, TT_COMMA_SPACE, TT_REG] IT_NONE"

definition CMD_MOV_L_C :: cmd where
  "CMD_MOV_L_C =
    Cmd [''mov'', '' '', ''l'', '', '', ''c'']
      [TT_CMD, TT_SPACE, TT_REG, TT_COMMA_SPACE, TT_REG] IT_NONE"

definition CMD_MOV_L_D :: cmd where
  "CMD_MOV_L_D =
    Cmd [''mov'', '' '', ''l'', '', '', ''d'']
      [TT_CMD, TT_SPACE, TT_REG, TT_COMMA_SPACE, TT_REG] IT_NONE"

definition CMD_MOV_L_E :: cmd where
  "CMD_MOV_L_E =
    Cmd [''mov'', '' '', ''l'', '', '', ''e'']
      [TT_CMD, TT_SPACE, TT_REG, TT_COMMA_SPACE, TT_REG] IT_NONE"

definition CMD_MOV_L_H :: cmd where
  "CMD_MOV_L_H =
    Cmd [''mov'', '' '', ''l'', '', '', ''h'']
      [TT_CMD, TT_SPACE, TT_REG, TT_COMMA_SPACE, TT_REG] IT_NONE"

definition CMD_MOV_L_L :: cmd where
  "CMD_MOV_L_L =
    Cmd [''mov'', '' '', ''l'', '', '', ''l'']
      [TT_CMD, TT_SPACE, TT_REG, TT_COMMA_SPACE, TT_REG] IT_NONE"

definition CMD_MOV_L_M :: cmd where
  "CMD_MOV_L_M =
    Cmd [''mov'', '' '', ''l'', '', '', ''m'']
      [TT_CMD, TT_SPACE, TT_REG, TT_COMMA_SPACE, TT_REG] IT_NONE"

definition CMD_MOV_L_A :: cmd where
  "CMD_MOV_L_A =
    Cmd [''mov'', '' '', ''l'', '', '', ''a'']
      [TT_CMD, TT_SPACE, TT_REG, TT_COMMA_SPACE, TT_REG] IT_NONE"

definition CMD_MOV_M_B :: cmd where
  "CMD_MOV_M_B =
    Cmd [''mov'', '' '', ''m'', '', '', ''b'']
      [TT_CMD, TT_SPACE, TT_REG, TT_COMMA_SPACE, TT_REG] IT_NONE"

definition CMD_MOV_M_C :: cmd where
  "CMD_MOV_M_C =
    Cmd [''mov'', '' '', ''m'', '', '', ''c'']
      [TT_CMD, TT_SPACE, TT_REG, TT_COMMA_SPACE, TT_REG] IT_NONE"

definition CMD_MOV_M_D :: cmd where
  "CMD_MOV_M_D =
    Cmd [''mov'', '' '', ''m'', '', '', ''d'']
      [TT_CMD, TT_SPACE, TT_REG, TT_COMMA_SPACE, TT_REG] IT_NONE"

definition CMD_MOV_M_E :: cmd where
  "CMD_MOV_M_E =
    Cmd [''mov'', '' '', ''m'', '', '', ''e'']
      [TT_CMD, TT_SPACE, TT_REG, TT_COMMA_SPACE, TT_REG] IT_NONE"

definition CMD_MOV_M_H :: cmd where
  "CMD_MOV_M_H =
    Cmd [''mov'', '' '', ''m'', '', '', ''h'']
      [TT_CMD, TT_SPACE, TT_REG, TT_COMMA_SPACE, TT_REG] IT_NONE"

definition CMD_MOV_M_L :: cmd where
  "CMD_MOV_M_L =
    Cmd [''mov'', '' '', ''m'', '', '', ''l'']
      [TT_CMD, TT_SPACE, TT_REG, TT_COMMA_SPACE, TT_REG] IT_NONE"

definition CMD_HLT :: cmd where
  "CMD_HLT = Cmd [''hlt''] [TT_CMD] IT_NONE"

definition CMD_MOV_M_A :: cmd where
  "CMD_MOV_M_A =
    Cmd [''mov'', '' '', ''m'', '', '', ''a'']
      [TT_CMD, TT_SPACE, TT_REG, TT_COMMA_SPACE, TT_REG] IT_NONE"

definition CMD_MOV_A_B :: cmd where
  "CMD_MOV_A_B =
    Cmd [''mov'', '' '', ''a'', '', '', ''b'']
      [TT_CMD, TT_SPACE, TT_REG, TT_COMMA_SPACE, TT_REG] IT_NONE"

definition CMD_MOV_A_C :: cmd where
  "CMD_MOV_A_C =
    Cmd [''mov'', '' '', ''a'', '', '', ''c'']
      [TT_CMD, TT_SPACE, TT_REG, TT_COMMA_SPACE, TT_REG] IT_NONE"

definition CMD_MOV_A_D :: cmd where
  "CMD_MOV_A_D =
    Cmd [''mov'', '' '', ''a'', '', '', ''d'']
      [TT_CMD, TT_SPACE, TT_REG, TT_COMMA_SPACE, TT_REG] IT_NONE"

definition CMD_MOV_A_E :: cmd where
  "CMD_MOV_A_E =
    Cmd [''mov'', '' '', ''a'', '', '', ''e'']
      [TT_CMD, TT_SPACE, TT_REG, TT_COMMA_SPACE, TT_REG] IT_NONE"

definition CMD_MOV_A_H :: cmd where
  "CMD_MOV_A_H =
    Cmd [''mov'', '' '', ''a'', '', '', ''h'']
      [TT_CMD, TT_SPACE, TT_REG, TT_COMMA_SPACE, TT_REG] IT_NONE"

definition CMD_MOV_A_L :: cmd where
  "CMD_MOV_A_L =
    Cmd [''mov'', '' '', ''a'', '', '', ''l'']
      [TT_CMD, TT_SPACE, TT_REG, TT_COMMA_SPACE, TT_REG] IT_NONE"

definition CMD_MOV_A_M :: cmd where
  "CMD_MOV_A_M =
    Cmd [''mov'', '' '', ''a'', '', '', ''m'']
      [TT_CMD, TT_SPACE, TT_REG, TT_COMMA_SPACE, TT_REG] IT_NONE"

definition CMD_MOV_A_A :: cmd where
  "CMD_MOV_A_A =
    Cmd [''mov'', '' '', ''a'', '', '', ''a'']
      [TT_CMD, TT_SPACE, TT_REG, TT_COMMA_SPACE, TT_REG] IT_NONE"

definition CMD_ADD_B :: cmd where
  "CMD_ADD_B = Cmd [''add'', '' '', ''b''] [TT_CMD, TT_SPACE, TT_REG] IT_NONE"

definition CMD_ADD_C :: cmd where
  "CMD_ADD_C = Cmd [''add'', '' '', ''c''] [TT_CMD, TT_SPACE, TT_REG] IT_NONE"

definition CMD_ADD_D :: cmd where
  "CMD_ADD_D = Cmd [''add'', '' '', ''d''] [TT_CMD, TT_SPACE, TT_REG] IT_NONE"

definition CMD_ADD_E :: cmd where
  "CMD_ADD_E = Cmd [''add'', '' '', ''e''] [TT_CMD, TT_SPACE, TT_REG] IT_NONE"

definition CMD_ADD_H :: cmd where
  "CMD_ADD_H = Cmd [''add'', '' '', ''h''] [TT_CMD, TT_SPACE, TT_REG] IT_NONE"

definition CMD_ADD_L :: cmd where
  "CMD_ADD_L = Cmd [''add'', '' '', ''l''] [TT_CMD, TT_SPACE, TT_REG] IT_NONE"

definition CMD_ADD_M :: cmd where
  "CMD_ADD_M = Cmd [''add'', '' '', ''m''] [TT_CMD, TT_SPACE, TT_REG] IT_NONE"

definition CMD_ADD_A :: cmd where
  "CMD_ADD_A = Cmd [''add'', '' '', ''a''] [TT_CMD, TT_SPACE, TT_REG] IT_NONE"

definition CMD_ADC_B :: cmd where
  "CMD_ADC_B = Cmd [''adc'', '' '', ''b''] [TT_CMD, TT_SPACE, TT_REG] IT_NONE"

definition CMD_ADC_C :: cmd where
  "CMD_ADC_C = Cmd [''adc'', '' '', ''c''] [TT_CMD, TT_SPACE, TT_REG] IT_NONE"

definition CMD_ADC_D :: cmd where
  "CMD_ADC_D = Cmd [''adc'', '' '', ''d''] [TT_CMD, TT_SPACE, TT_REG] IT_NONE"

definition CMD_ADC_E :: cmd where
  "CMD_ADC_E = Cmd [''adc'', '' '', ''e''] [TT_CMD, TT_SPACE, TT_REG] IT_NONE"

definition CMD_ADC_H :: cmd where
  "CMD_ADC_H = Cmd [''adc'', '' '', ''h''] [TT_CMD, TT_SPACE, TT_REG] IT_NONE"

definition CMD_ADC_L :: cmd where
  "CMD_ADC_L = Cmd [''adc'', '' '', ''l''] [TT_CMD, TT_SPACE, TT_REG] IT_NONE"

definition CMD_ADC_M :: cmd where
  "CMD_ADC_M = Cmd [''adc'', '' '', ''m''] [TT_CMD, TT_SPACE, TT_REG] IT_NONE"

definition CMD_ADC_A :: cmd where
  "CMD_ADC_A = Cmd [''adc'', '' '', ''a''] [TT_CMD, TT_SPACE, TT_REG] IT_NONE"

definition CMD_SUB_B :: cmd where
  "CMD_SUB_B = Cmd [''sub'', '' '', ''b''] [TT_CMD, TT_SPACE, TT_REG] IT_NONE"

definition CMD_SUB_C :: cmd where
  "CMD_SUB_C = Cmd [''sub'', '' '', ''c''] [TT_CMD, TT_SPACE, TT_REG] IT_NONE"

definition CMD_SUB_D :: cmd where
  "CMD_SUB_D = Cmd [''sub'', '' '', ''d''] [TT_CMD, TT_SPACE, TT_REG] IT_NONE"

definition CMD_SUB_E :: cmd where
  "CMD_SUB_E = Cmd [''sub'', '' '', ''e''] [TT_CMD, TT_SPACE, TT_REG] IT_NONE"

definition CMD_SUB_H :: cmd where
  "CMD_SUB_H = Cmd [''sub'', '' '', ''h''] [TT_CMD, TT_SPACE, TT_REG] IT_NONE"

definition CMD_SUB_L :: cmd where
  "CMD_SUB_L = Cmd [''sub'', '' '', ''l''] [TT_CMD, TT_SPACE, TT_REG] IT_NONE"

definition CMD_SUB_M :: cmd where
  "CMD_SUB_M = Cmd [''sub'', '' '', ''m''] [TT_CMD, TT_SPACE, TT_REG] IT_NONE"

definition CMD_SUB_A :: cmd where
  "CMD_SUB_A = Cmd [''sub'', '' '', ''a''] [TT_CMD, TT_SPACE, TT_REG] IT_NONE"

definition CMD_SBB_B :: cmd where
  "CMD_SBB_B = Cmd [''sbb'', '' '', ''b''] [TT_CMD, TT_SPACE, TT_REG] IT_NONE"

definition CMD_SBB_C :: cmd where
  "CMD_SBB_C = Cmd [''sbb'', '' '', ''c''] [TT_CMD, TT_SPACE, TT_REG] IT_NONE"

definition CMD_SBB_D :: cmd where
  "CMD_SBB_D = Cmd [''sbb'', '' '', ''d''] [TT_CMD, TT_SPACE, TT_REG] IT_NONE"

definition CMD_SBB_E :: cmd where
  "CMD_SBB_E = Cmd [''sbb'', '' '', ''e''] [TT_CMD, TT_SPACE, TT_REG] IT_NONE"

definition CMD_SBB_H :: cmd where
  "CMD_SBB_H = Cmd [''sbb'', '' '', ''h''] [TT_CMD, TT_SPACE, TT_REG] IT_NONE"

definition CMD_SBB_L :: cmd where
  "CMD_SBB_L = Cmd [''sbb'', '' '', ''l''] [TT_CMD, TT_SPACE, TT_REG] IT_NONE"

definition CMD_SBB_M :: cmd where
  "CMD_SBB_M = Cmd [''sbb'', '' '', ''m''] [TT_CMD, TT_SPACE, TT_REG] IT_NONE"

definition CMD_SBB_A :: cmd where
  "CMD_SBB_A = Cmd [''sbb'', '' '', ''a''] [TT_CMD, TT_SPACE, TT_REG] IT_NONE"

definition CMD_ANA_B :: cmd where
  "CMD_ANA_B = Cmd [''ana'', '' '', ''b''] [TT_CMD, TT_SPACE, TT_REG] IT_NONE"

definition CMD_ANA_C :: cmd where
  "CMD_ANA_C = Cmd [''ana'', '' '', ''c''] [TT_CMD, TT_SPACE, TT_REG] IT_NONE"

definition CMD_ANA_D :: cmd where
  "CMD_ANA_D = Cmd [''ana'', '' '', ''d''] [TT_CMD, TT_SPACE, TT_REG] IT_NONE"

definition CMD_ANA_E :: cmd where
  "CMD_ANA_E = Cmd [''ana'', '' '', ''e''] [TT_CMD, TT_SPACE, TT_REG] IT_NONE"

definition CMD_ANA_H :: cmd where
  "CMD_ANA_H = Cmd [''ana'', '' '', ''h''] [TT_CMD, TT_SPACE, TT_REG] IT_NONE"

definition CMD_ANA_L :: cmd where
  "CMD_ANA_L = Cmd [''ana'', '' '', ''l''] [TT_CMD, TT_SPACE, TT_REG] IT_NONE"

definition CMD_ANA_M :: cmd where
  "CMD_ANA_M = Cmd [''ana'', '' '', ''m''] [TT_CMD, TT_SPACE, TT_REG] IT_NONE"

definition CMD_ANA_A :: cmd where
  "CMD_ANA_A = Cmd [''ana'', '' '', ''a''] [TT_CMD, TT_SPACE, TT_REG] IT_NONE"

definition CMD_XRA_B :: cmd where
  "CMD_XRA_B = Cmd [''xra'', '' '', ''b''] [TT_CMD, TT_SPACE, TT_REG] IT_NONE"

definition CMD_XRA_C :: cmd where
  "CMD_XRA_C = Cmd [''xra'', '' '', ''c''] [TT_CMD, TT_SPACE, TT_REG] IT_NONE"

definition CMD_XRA_D :: cmd where
  "CMD_XRA_D = Cmd [''xra'', '' '', ''d''] [TT_CMD, TT_SPACE, TT_REG] IT_NONE"

definition CMD_XRA_E :: cmd where
  "CMD_XRA_E = Cmd [''xra'', '' '', ''e''] [TT_CMD, TT_SPACE, TT_REG] IT_NONE"

definition CMD_XRA_H :: cmd where
  "CMD_XRA_H = Cmd [''xra'', '' '', ''h''] [TT_CMD, TT_SPACE, TT_REG] IT_NONE"

definition CMD_XRA_L :: cmd where
  "CMD_XRA_L = Cmd [''xra'', '' '', ''l''] [TT_CMD, TT_SPACE, TT_REG] IT_NONE"

definition CMD_XRA_M :: cmd where
  "CMD_XRA_M = Cmd [''xra'', '' '', ''m''] [TT_CMD, TT_SPACE, TT_REG] IT_NONE"

definition CMD_XRA_A :: cmd where
  "CMD_XRA_A = Cmd [''xra'', '' '', ''a''] [TT_CMD, TT_SPACE, TT_REG] IT_NONE"

definition CMD_ORA_B :: cmd where
  "CMD_ORA_B = Cmd [''ora'', '' '', ''b''] [TT_CMD, TT_SPACE, TT_REG] IT_NONE"

definition CMD_ORA_C :: cmd where
  "CMD_ORA_C = Cmd [''ora'', '' '', ''c''] [TT_CMD, TT_SPACE, TT_REG] IT_NONE"

definition CMD_ORA_D :: cmd where
  "CMD_ORA_D = Cmd [''ora'', '' '', ''d''] [TT_CMD, TT_SPACE, TT_REG] IT_NONE"

definition CMD_ORA_E :: cmd where
  "CMD_ORA_E = Cmd [''ora'', '' '', ''e''] [TT_CMD, TT_SPACE, TT_REG] IT_NONE"

definition CMD_ORA_H :: cmd where
  "CMD_ORA_H = Cmd [''ora'', '' '', ''h''] [TT_CMD, TT_SPACE, TT_REG] IT_NONE"

definition CMD_ORA_L :: cmd where
  "CMD_ORA_L = Cmd [''ora'', '' '', ''l''] [TT_CMD, TT_SPACE, TT_REG] IT_NONE"

definition CMD_ORA_M :: cmd where
  "CMD_ORA_M = Cmd [''ora'', '' '', ''m''] [TT_CMD, TT_SPACE, TT_REG] IT_NONE"

definition CMD_ORA_A :: cmd where
  "CMD_ORA_A = Cmd [''ora'', '' '', ''a''] [TT_CMD, TT_SPACE, TT_REG] IT_NONE"

definition CMD_CMP_B :: cmd where
  "CMD_CMP_B = Cmd [''cmp'', '' '', ''b''] [TT_CMD, TT_SPACE, TT_REG] IT_NONE"

definition CMD_CMP_C :: cmd where
  "CMD_CMP_C = Cmd [''cmp'', '' '', ''c''] [TT_CMD, TT_SPACE, TT_REG] IT_NONE"

definition CMD_CMP_D :: cmd where
  "CMD_CMP_D = Cmd [''cmp'', '' '', ''d''] [TT_CMD, TT_SPACE, TT_REG] IT_NONE"

definition CMD_CMP_E :: cmd where
  "CMD_CMP_E = Cmd [''cmp'', '' '', ''e''] [TT_CMD, TT_SPACE, TT_REG] IT_NONE"

definition CMD_CMP_H :: cmd where
  "CMD_CMP_H = Cmd [''cmp'', '' '', ''h''] [TT_CMD, TT_SPACE, TT_REG] IT_NONE"

definition CMD_CMP_L :: cmd where
  "CMD_CMP_L = Cmd [''cmp'', '' '', ''l''] [TT_CMD, TT_SPACE, TT_REG] IT_NONE"

definition CMD_CMP_M :: cmd where
  "CMD_CMP_M = Cmd [''cmp'', '' '', ''m''] [TT_CMD, TT_SPACE, TT_REG] IT_NONE"

definition CMD_CMP_A :: cmd where
  "CMD_CMP_A = Cmd [''cmp'', '' '', ''a''] [TT_CMD, TT_SPACE, TT_REG] IT_NONE"

definition CMD_RNZ :: cmd where
  "CMD_RNZ = Cmd [''rnz''] [TT_CMD] IT_NONE"

definition CMD_POP_B :: cmd where
  "CMD_POP_B = Cmd [''pop'', '' '', ''b''] [TT_CMD, TT_SPACE, TT_REG] IT_NONE"

definition CMD_JNZ_NN :: cmd where
  "CMD_JNZ_NN = Cmd [''jnz'', '' '', ''NN''] [TT_CMD, TT_SPACE, TT_IMM] IT_W1"

definition CMD_JMP_NN :: cmd where
  "CMD_JMP_NN = Cmd [''jmp'', '' '', ''NN''] [TT_CMD, TT_SPACE, TT_IMM] IT_W1"

definition CMD_CNZ_NN :: cmd where
  "CMD_CNZ_NN = Cmd [''cnz'', '' '', ''NN''] [TT_CMD, TT_SPACE, TT_IMM] IT_W1"

definition CMD_PUSH_B :: cmd where
  "CMD_PUSH_B = Cmd [''push'', '' '', ''b''] [TT_CMD, TT_SPACE, TT_REG] IT_NONE"

definition CMD_ADI_N :: cmd where
  "CMD_ADI_N = Cmd [''adi'', '' '', ''N''] [TT_CMD, TT_SPACE, TT_IMM] IT_B1"

definition CMD_RST_0 :: cmd where
  "CMD_RST_0 = Cmd [''rst'', '' '', ''0''] [TT_CMD, TT_SPACE, TT_BIMM] IT_NONE"

definition CMD_RZ :: cmd where
  "CMD_RZ = Cmd [''rz''] [TT_CMD] IT_NONE"

definition CMD_RET :: cmd where
  "CMD_RET = Cmd [''ret''] [TT_CMD] IT_NONE"

definition CMD_JZ_NN :: cmd where
  "CMD_JZ_NN = Cmd [''jz'', '' '', ''NN''] [TT_CMD, TT_SPACE, TT_IMM] IT_W1"

definition CMD_CZ_NN :: cmd where
  "CMD_CZ_NN = Cmd [''cz'', '' '', ''NN''] [TT_CMD, TT_SPACE, TT_IMM] IT_W1"

definition CMD_CALL_NN :: cmd where
  "CMD_CALL_NN = Cmd [''call'', '' '', ''NN''] [TT_CMD, TT_SPACE, TT_IMM] IT_W1"

definition CMD_ACI_N :: cmd where
  "CMD_ACI_N = Cmd [''aci'', '' '', ''N''] [TT_CMD, TT_SPACE, TT_IMM] IT_B1"

definition CMD_RST_1 :: cmd where
  "CMD_RST_1 = Cmd [''rst'', '' '', ''1''] [TT_CMD, TT_SPACE, TT_BIMM] IT_NONE"

definition CMD_RNC :: cmd where
  "CMD_RNC = Cmd [''rnc''] [TT_CMD] IT_NONE"

definition CMD_POP_D :: cmd where
  "CMD_POP_D = Cmd [''pop'', '' '', ''d''] [TT_CMD, TT_SPACE, TT_REG] IT_NONE"

definition CMD_JNC_NN :: cmd where
  "CMD_JNC_NN = Cmd [''jnc'', '' '', ''NN''] [TT_CMD, TT_SPACE, TT_IMM] IT_W1"

definition CMD_OUT_N :: cmd where
  "CMD_OUT_N = Cmd [''out'', '' '', ''N''] [TT_CMD, TT_SPACE, TT_IMM] IT_B1"

definition CMD_CNC_NN :: cmd where
  "CMD_CNC_NN = Cmd [''cnc'', '' '', ''NN''] [TT_CMD, TT_SPACE, TT_IMM] IT_W1"

definition CMD_PUSH_D :: cmd where
  "CMD_PUSH_D = Cmd [''push'', '' '', ''d''] [TT_CMD, TT_SPACE, TT_REG] IT_NONE"

definition CMD_SUI_N :: cmd where
  "CMD_SUI_N = Cmd [''sui'', '' '', ''N''] [TT_CMD, TT_SPACE, TT_IMM] IT_B1"

definition CMD_RST_2 :: cmd where
  "CMD_RST_2 = Cmd [''rst'', '' '', ''2''] [TT_CMD, TT_SPACE, TT_BIMM] IT_NONE"

definition CMD_RC :: cmd where
  "CMD_RC = Cmd [''rc''] [TT_CMD] IT_NONE"

definition CMD_JC_NN :: cmd where
  "CMD_JC_NN = Cmd [''jc'', '' '', ''NN''] [TT_CMD, TT_SPACE, TT_IMM] IT_W1"

definition CMD_IN_N :: cmd where
  "CMD_IN_N = Cmd [''in'', '' '', ''NN''] [TT_CMD, TT_SPACE, TT_IMM] IT_B1"

definition CMD_CC_NN :: cmd where
  "CMD_CC_NN = Cmd [''cc'', '' '', ''NN''] [TT_CMD, TT_SPACE, TT_IMM] IT_W1"

definition CMD_SBI_N :: cmd where
  "CMD_SBI_N = Cmd [''sbi'', '' '', ''N''] [TT_CMD, TT_SPACE, TT_IMM] IT_B1"

definition CMD_RST_3 :: cmd where
  "CMD_RST_3 = Cmd [''rst'', '' '', ''3''] [TT_CMD, TT_SPACE, TT_BIMM] IT_NONE"

definition CMD_RPO :: cmd where
  "CMD_RPO = Cmd [''rpo''] [TT_CMD] IT_NONE"

definition CMD_POP_H :: cmd where
  "CMD_POP_H = Cmd [''pop'', '' '', ''h''] [TT_CMD, TT_SPACE, TT_REG] IT_NONE"

definition CMD_JPO_NN :: cmd where
  "CMD_JPO_NN = Cmd [''jpo'', '' '', ''NN''] [TT_CMD, TT_SPACE, TT_IMM] IT_W1"

definition CMD_XTHL :: cmd where
  "CMD_XTHL = Cmd [''xthl''] [TT_CMD] IT_NONE"

definition CMD_CPO_NN :: cmd where
  "CMD_CPO_NN = Cmd [''cpo'', '' '', ''NN''] [TT_CMD, TT_SPACE, TT_IMM] IT_W1"

definition CMD_PUSH_H :: cmd where
  "CMD_PUSH_H = Cmd [''push'', '' '', ''h''] [TT_CMD, TT_SPACE, TT_REG] IT_NONE"

definition CMD_ANI_N :: cmd where
  "CMD_ANI_N = Cmd [''ani'', '' '', ''N''] [TT_CMD, TT_SPACE, TT_IMM] IT_B1"

definition CMD_RST_4 :: cmd where
  "CMD_RST_4 = Cmd [''rst'', '' '', ''4''] [TT_CMD, TT_SPACE, TT_BIMM] IT_NONE"

definition CMD_RPE :: cmd where
  "CMD_RPE = Cmd [''rpe''] [TT_CMD] IT_NONE"

definition CMD_PCHL :: cmd where
  "CMD_PCHL = Cmd [''pchl''] [TT_CMD] IT_NONE"

definition CMD_JPE_NN :: cmd where
  "CMD_JPE_NN = Cmd [''jpe'', '' '', ''NN''] [TT_CMD, TT_SPACE, TT_IMM] IT_W1"

definition CMD_XCHG :: cmd where
  "CMD_XCHG = Cmd [''xchg''] [TT_CMD] IT_NONE"

definition CMD_CPE_NN :: cmd where
  "CMD_CPE_NN = Cmd [''cpe'', '' '', ''NN''] [TT_CMD, TT_SPACE, TT_IMM] IT_W1"

definition CMD_XRI_N :: cmd where
  "CMD_XRI_N = Cmd [''xri'', '' '', ''N''] [TT_CMD, TT_SPACE, TT_IMM] IT_B1"

definition CMD_RST_5 :: cmd where
  "CMD_RST_5 = Cmd [''rst'', '' '', ''5''] [TT_CMD, TT_SPACE, TT_BIMM] IT_NONE"

definition CMD_RP :: cmd where
  "CMD_RP = Cmd [''rp''] [TT_CMD] IT_NONE"

definition CMD_POP_PSW :: cmd where
  "CMD_POP_PSW = Cmd [''pop'', '' '', ''psw''] [TT_CMD, TT_SPACE, TT_REG] IT_NONE"

definition CMD_JP_NN :: cmd where
  "CMD_JP_NN = Cmd [''jp'', '' '', ''NN''] [TT_CMD, TT_SPACE, TT_IMM] IT_W1"

definition CMD_DI :: cmd where
  "CMD_DI = Cmd [''di''] [TT_CMD] IT_NONE"

definition CMD_CP_NN :: cmd where
  "CMD_CP_NN = Cmd [''cp'', '' '', ''NN''] [TT_CMD, TT_SPACE, TT_IMM] IT_W1"

definition CMD_PUSH_PSW :: cmd where
  "CMD_PUSH_PSW = Cmd [''push'', '' '', ''psw''] [TT_CMD, TT_SPACE, TT_REG] IT_NONE"

definition CMD_ORI_N :: cmd where
  "CMD_ORI_N = Cmd [''ori'', '' '', ''N''] [TT_CMD, TT_SPACE, TT_IMM] IT_B1"

definition CMD_RST_6 :: cmd where
  "CMD_RST_6 = Cmd [''rst'', '' '', ''6''] [TT_CMD, TT_SPACE, TT_BIMM] IT_NONE"

definition CMD_RM :: cmd where
  "CMD_RM = Cmd [''rm''] [TT_CMD] IT_NONE"

definition CMD_SPHL :: cmd where
  "CMD_SPHL = Cmd [''sphl''] [TT_CMD] IT_NONE"

definition CMD_JM_NN :: cmd where
  "CMD_JM_NN = Cmd [''jm'', '' '', ''NN''] [TT_CMD, TT_SPACE, TT_IMM] IT_W1"

definition CMD_EI :: cmd where
  "CMD_EI = Cmd [''ei''] [TT_CMD] IT_NONE"

definition CMD_CM_NN :: cmd where
  "CMD_CM_NN = Cmd [''cm'', '' '', ''NN''] [TT_CMD, TT_SPACE, TT_IMM] IT_W1"

definition CMD_CPI_N :: cmd where
  "CMD_CPI_N = Cmd [''cpi'', '' '', ''NN''] [TT_CMD, TT_SPACE, TT_IMM] IT_B1"

definition CMD_RST_7 :: cmd where
  "CMD_RST_7 = Cmd [''rst'', '' '', ''7''] [TT_CMD, TT_SPACE, TT_BIMM] IT_NONE"

definition CMD_DB_N :: cmd where
  "CMD_DB_N = Cmd [''db'', '' '', ''N''] [TT_CMD, TT_SPACE, TT_IMM] IT_B0"

section \<open>The array\<close>

text \<open>The array, its two halves of 128 opcodes first.\<close>

definition cmds_i8080_low :: "cmd list" where
  "cmds_i8080_low =
    [CMD_NOP, CMD_LXI_B_NN, CMD_STAX_B, CMD_INX_B, CMD_INR_B, CMD_DCR_B, CMD_MVI_B_N, CMD_RLC, CMD_DB_N, CMD_DAD_B,
     CMD_LDAX_B, CMD_DCX_B, CMD_INR_C, CMD_DCR_C, CMD_MVI_C_N, CMD_RRC, CMD_DB_N, CMD_LXI_D, CMD_STAX_D, CMD_INX_D,
     CMD_INR_D, CMD_DCR_D, CMD_MVI_D_N, CMD_RAL, CMD_DB_N, CMD_DAD_D, CMD_LDAX_D, CMD_DCX_D, CMD_INR_E, CMD_DCR_E,
     CMD_MVI_E_N, CMD_RAR, CMD_DB_N, CMD_LXI_H, CMD_SHLD_NN, CMD_INX_H, CMD_INR_H, CMD_DCR_H, CMD_MVI_H_N, CMD_DAA,
     CMD_DB_N, CMD_DAD_H, CMD_LHLD_NN, CMD_DCX_H, CMD_INR_L, CMD_DCR_L, CMD_MVI_L_N, CMD_CMA, CMD_DB_N, CMD_LXI_SP,
     CMD_STA_NN, CMD_INX_SP, CMD_INR_M, CMD_DCR_M, CMD_MVI_M_N, CMD_STC, CMD_DB_N, CMD_DAD_SP, CMD_LDA_NN,
     CMD_DCX_SP, CMD_INR_A, CMD_DCR_A, CMD_MVI_A_N, CMD_CMC, CMD_MOV_B_B, CMD_MOV_B_C, CMD_MOV_B_D, CMD_MOV_B_E,
     CMD_MOV_B_H, CMD_MOV_B_L, CMD_MOV_B_M, CMD_MOV_B_A, CMD_MOV_C_B, CMD_MOV_C_C, CMD_MOV_C_D, CMD_MOV_C_E,
     CMD_MOV_C_H, CMD_MOV_C_L, CMD_MOV_C_M, CMD_MOV_C_A, CMD_MOV_D_B, CMD_MOV_D_C, CMD_MOV_D_D, CMD_MOV_D_E,
     CMD_MOV_D_H, CMD_MOV_D_L, CMD_MOV_D_M, CMD_MOV_D_A, CMD_MOV_E_B, CMD_MOV_E_C, CMD_MOV_E_D, CMD_MOV_E_E,
     CMD_MOV_E_H, CMD_MOV_E_L, CMD_MOV_E_M, CMD_MOV_E_A, CMD_MOV_H_B, CMD_MOV_H_C, CMD_MOV_H_D, CMD_MOV_H_E,
     CMD_MOV_H_H, CMD_MOV_H_L, CMD_MOV_H_M, CMD_MOV_H_A, CMD_MOV_L_B, CMD_MOV_L_C, CMD_MOV_L_D, CMD_MOV_L_E,
     CMD_MOV_L_H, CMD_MOV_L_L, CMD_MOV_L_M, CMD_MOV_L_A, CMD_MOV_M_B, CMD_MOV_M_C, CMD_MOV_M_D, CMD_MOV_M_E,
     CMD_MOV_M_H, CMD_MOV_M_L, CMD_HLT, CMD_MOV_M_A, CMD_MOV_A_B, CMD_MOV_A_C, CMD_MOV_A_D, CMD_MOV_A_E,
     CMD_MOV_A_H, CMD_MOV_A_L, CMD_MOV_A_M, CMD_MOV_A_A]"

definition cmds_i8080_high :: "cmd list" where
  "cmds_i8080_high =
    [CMD_ADD_B, CMD_ADD_C, CMD_ADD_D, CMD_ADD_E, CMD_ADD_H, CMD_ADD_L, CMD_ADD_M, CMD_ADD_A, CMD_ADC_B, CMD_ADC_C,
     CMD_ADC_D, CMD_ADC_E, CMD_ADC_H, CMD_ADC_L, CMD_ADC_M, CMD_ADC_A, CMD_SUB_B, CMD_SUB_C, CMD_SUB_D, CMD_SUB_E,
     CMD_SUB_H, CMD_SUB_L, CMD_SUB_M, CMD_SUB_A, CMD_SBB_B, CMD_SBB_C, CMD_SBB_D, CMD_SBB_E, CMD_SBB_H, CMD_SBB_L,
     CMD_SBB_M, CMD_SBB_A, CMD_ANA_B, CMD_ANA_C, CMD_ANA_D, CMD_ANA_E, CMD_ANA_H, CMD_ANA_L, CMD_ANA_M, CMD_ANA_A,
     CMD_XRA_B, CMD_XRA_C, CMD_XRA_D, CMD_XRA_E, CMD_XRA_H, CMD_XRA_L, CMD_XRA_M, CMD_XRA_A, CMD_ORA_B, CMD_ORA_C,
     CMD_ORA_D, CMD_ORA_E, CMD_ORA_H, CMD_ORA_L, CMD_ORA_M, CMD_ORA_A, CMD_CMP_B, CMD_CMP_C, CMD_CMP_D, CMD_CMP_E,
     CMD_CMP_H, CMD_CMP_L, CMD_CMP_M, CMD_CMP_A, CMD_RNZ, CMD_POP_B, CMD_JNZ_NN, CMD_JMP_NN, CMD_CNZ_NN,
     CMD_PUSH_B, CMD_ADI_N, CMD_RST_0, CMD_RZ, CMD_RET, CMD_JZ_NN, CMD_DB_N, CMD_CZ_NN, CMD_CALL_NN, CMD_ACI_N,
     CMD_RST_1, CMD_RNC, CMD_POP_D, CMD_JNC_NN, CMD_OUT_N, CMD_CNC_NN, CMD_PUSH_D, CMD_SUI_N, CMD_RST_2, CMD_RC,
     CMD_DB_N, CMD_JC_NN, CMD_IN_N, CMD_CC_NN, CMD_DB_N, CMD_SBI_N, CMD_RST_3, CMD_RPO, CMD_POP_H, CMD_JPO_NN,
     CMD_XTHL, CMD_CPO_NN, CMD_PUSH_H, CMD_ANI_N, CMD_RST_4, CMD_RPE, CMD_PCHL, CMD_JPE_NN, CMD_XCHG, CMD_CPE_NN,
     CMD_DB_N, CMD_XRI_N, CMD_RST_5, CMD_RP, CMD_POP_PSW, CMD_JP_NN, CMD_DI, CMD_CP_NN, CMD_PUSH_PSW, CMD_ORI_N,
     CMD_RST_6, CMD_RM, CMD_SPHL, CMD_JM_NN, CMD_EI, CMD_CM_NN, CMD_DB_N, CMD_CPI_N, CMD_RST_7]"

definition cmds_i8080 :: "cmd list" where
  "cmds_i8080 = cmds_i8080_low @ cmds_i8080_high"

lemmas i8080_cmd_defs =
  CMD_NOP_def CMD_LXI_B_NN_def CMD_STAX_B_def CMD_INX_B_def CMD_INR_B_def CMD_DCR_B_def CMD_MVI_B_N_def CMD_RLC_def
  CMD_DAD_B_def CMD_LDAX_B_def CMD_DCX_B_def CMD_INR_C_def CMD_DCR_C_def CMD_MVI_C_N_def CMD_RRC_def CMD_LXI_D_def
  CMD_STAX_D_def CMD_INX_D_def CMD_INR_D_def CMD_DCR_D_def CMD_MVI_D_N_def CMD_RAL_def CMD_DAD_D_def CMD_LDAX_D_def
  CMD_DCX_D_def CMD_INR_E_def CMD_DCR_E_def CMD_MVI_E_N_def CMD_RAR_def CMD_LXI_H_def CMD_SHLD_NN_def CMD_INX_H_def
  CMD_INR_H_def CMD_DCR_H_def CMD_MVI_H_N_def CMD_DAA_def CMD_DAD_H_def CMD_LHLD_NN_def CMD_DCX_H_def CMD_INR_L_def
  CMD_DCR_L_def CMD_MVI_L_N_def CMD_CMA_def CMD_LXI_SP_def CMD_STA_NN_def CMD_INX_SP_def CMD_INR_M_def
  CMD_DCR_M_def CMD_MVI_M_N_def CMD_STC_def CMD_DAD_SP_def CMD_LDA_NN_def CMD_DCX_SP_def CMD_INR_A_def
  CMD_DCR_A_def CMD_MVI_A_N_def CMD_CMC_def CMD_MOV_B_B_def CMD_MOV_B_C_def CMD_MOV_B_D_def CMD_MOV_B_E_def
  CMD_MOV_B_H_def CMD_MOV_B_L_def CMD_MOV_B_M_def CMD_MOV_B_A_def CMD_MOV_C_B_def CMD_MOV_C_C_def CMD_MOV_C_D_def
  CMD_MOV_C_E_def CMD_MOV_C_H_def CMD_MOV_C_L_def CMD_MOV_C_M_def CMD_MOV_C_A_def CMD_MOV_D_B_def CMD_MOV_D_C_def
  CMD_MOV_D_D_def CMD_MOV_D_E_def CMD_MOV_D_H_def CMD_MOV_D_L_def CMD_MOV_D_M_def CMD_MOV_D_A_def CMD_MOV_E_B_def
  CMD_MOV_E_C_def CMD_MOV_E_D_def CMD_MOV_E_E_def CMD_MOV_E_H_def CMD_MOV_E_L_def CMD_MOV_E_M_def CMD_MOV_E_A_def
  CMD_MOV_H_B_def CMD_MOV_H_C_def CMD_MOV_H_D_def CMD_MOV_H_E_def CMD_MOV_H_H_def CMD_MOV_H_L_def CMD_MOV_H_M_def
  CMD_MOV_H_A_def CMD_MOV_L_B_def CMD_MOV_L_C_def CMD_MOV_L_D_def CMD_MOV_L_E_def CMD_MOV_L_H_def CMD_MOV_L_L_def
  CMD_MOV_L_M_def CMD_MOV_L_A_def CMD_MOV_M_B_def CMD_MOV_M_C_def CMD_MOV_M_D_def CMD_MOV_M_E_def CMD_MOV_M_H_def
  CMD_MOV_M_L_def CMD_HLT_def CMD_MOV_M_A_def CMD_MOV_A_B_def CMD_MOV_A_C_def CMD_MOV_A_D_def CMD_MOV_A_E_def
  CMD_MOV_A_H_def CMD_MOV_A_L_def CMD_MOV_A_M_def CMD_MOV_A_A_def CMD_ADD_B_def CMD_ADD_C_def CMD_ADD_D_def
  CMD_ADD_E_def CMD_ADD_H_def CMD_ADD_L_def CMD_ADD_M_def CMD_ADD_A_def CMD_ADC_B_def CMD_ADC_C_def CMD_ADC_D_def
  CMD_ADC_E_def CMD_ADC_H_def CMD_ADC_L_def CMD_ADC_M_def CMD_ADC_A_def CMD_SUB_B_def CMD_SUB_C_def CMD_SUB_D_def
  CMD_SUB_E_def CMD_SUB_H_def CMD_SUB_L_def CMD_SUB_M_def CMD_SUB_A_def CMD_SBB_B_def CMD_SBB_C_def CMD_SBB_D_def
  CMD_SBB_E_def CMD_SBB_H_def CMD_SBB_L_def CMD_SBB_M_def CMD_SBB_A_def CMD_ANA_B_def CMD_ANA_C_def CMD_ANA_D_def
  CMD_ANA_E_def CMD_ANA_H_def CMD_ANA_L_def CMD_ANA_M_def CMD_ANA_A_def CMD_XRA_B_def CMD_XRA_C_def CMD_XRA_D_def
  CMD_XRA_E_def CMD_XRA_H_def CMD_XRA_L_def CMD_XRA_M_def CMD_XRA_A_def CMD_ORA_B_def CMD_ORA_C_def CMD_ORA_D_def
  CMD_ORA_E_def CMD_ORA_H_def CMD_ORA_L_def CMD_ORA_M_def CMD_ORA_A_def CMD_CMP_B_def CMD_CMP_C_def CMD_CMP_D_def
  CMD_CMP_E_def CMD_CMP_H_def CMD_CMP_L_def CMD_CMP_M_def CMD_CMP_A_def CMD_RNZ_def CMD_POP_B_def CMD_JNZ_NN_def
  CMD_JMP_NN_def CMD_CNZ_NN_def CMD_PUSH_B_def CMD_ADI_N_def CMD_RST_0_def CMD_RZ_def CMD_RET_def CMD_JZ_NN_def
  CMD_CZ_NN_def CMD_CALL_NN_def CMD_ACI_N_def CMD_RST_1_def CMD_RNC_def CMD_POP_D_def CMD_JNC_NN_def CMD_OUT_N_def
  CMD_CNC_NN_def CMD_PUSH_D_def CMD_SUI_N_def CMD_RST_2_def CMD_RC_def CMD_JC_NN_def CMD_IN_N_def CMD_CC_NN_def
  CMD_SBI_N_def CMD_RST_3_def CMD_RPO_def CMD_POP_H_def CMD_JPO_NN_def CMD_XTHL_def CMD_CPO_NN_def CMD_PUSH_H_def
  CMD_ANI_N_def CMD_RST_4_def CMD_RPE_def CMD_PCHL_def CMD_JPE_NN_def CMD_XCHG_def CMD_CPE_NN_def CMD_XRI_N_def
  CMD_RST_5_def CMD_RP_def CMD_POP_PSW_def CMD_JP_NN_def CMD_DI_def CMD_CP_NN_def CMD_PUSH_PSW_def CMD_ORI_N_def
  CMD_RST_6_def CMD_RM_def CMD_SPHL_def CMD_JM_NN_def CMD_EI_def CMD_CM_NN_def CMD_CPI_N_def CMD_RST_7_def
  CMD_DB_N_def

end
