(* ===== verification/Disasm_Z80.thy ===== *)
theory Disasm_Z80
  imports Disasm_Cmds
begin

text \<open>
  The commands of \<^verbatim>\<open>core/disasm_z80_cmds.h\<close>, in the Zilog notation: one definition for each constant of the
  file, in its order, and the array indexed by the opcode.
\<close>

section \<open>The commands\<close>

definition Z80_CMD_NOP :: cmd where
  "Z80_CMD_NOP = Cmd [''nop''] [TT_CMD] IT_NONE"

definition Z80_CMD_LXI_B_NN :: cmd where
  "Z80_CMD_LXI_B_NN = Cmd [''ld'', '' '', ''bc'', '', ''] [TT_CMD, TT_SPACE, TT_REG, TT_COMMA_SPACE, TT_IMM] IT_W1"

definition Z80_CMD_STAX_B :: cmd where
  "Z80_CMD_STAX_B =
    Cmd [''ld'', '' '', ''('', ''bc'', '')'', '', '', ''a'']
      [TT_CMD, TT_SPACE, TT_LPAREN, TT_REG, TT_RPAREN, TT_COMMA_SPACE, TT_REG] IT_NONE"

definition Z80_CMD_INX_B :: cmd where
  "Z80_CMD_INX_B = Cmd [''inc'', '' '', ''bc''] [TT_CMD, TT_SPACE, TT_REG] IT_NONE"

definition Z80_CMD_INR_B :: cmd where
  "Z80_CMD_INR_B = Cmd [''inc'', '' '', ''b''] [TT_CMD, TT_SPACE, TT_REG] IT_NONE"

definition Z80_CMD_DCR_B :: cmd where
  "Z80_CMD_DCR_B = Cmd [''dec'', '' '', ''b''] [TT_CMD, TT_SPACE, TT_REG] IT_NONE"

definition Z80_CMD_MVI_B_N :: cmd where
  "Z80_CMD_MVI_B_N = Cmd [''ld'', '' '', ''b'', '', ''] [TT_CMD, TT_SPACE, TT_REG, TT_COMMA_SPACE, TT_IMM] IT_B1"

definition Z80_CMD_RLC :: cmd where
  "Z80_CMD_RLC = Cmd [''rlca''] [TT_CMD] IT_NONE"

definition Z80_CMD_DAD_B :: cmd where
  "Z80_CMD_DAD_B =
    Cmd [''add'', '' '', ''hl'', '', '', ''bc'']
      [TT_CMD, TT_SPACE, TT_REG, TT_COMMA_SPACE, TT_REG] IT_NONE"

definition Z80_CMD_LDAX_B :: cmd where
  "Z80_CMD_LDAX_B =
    Cmd [''ld'', '' '', ''a'', '', '', ''('', ''bc'', '')'']
      [TT_CMD, TT_SPACE, TT_REG, TT_COMMA_SPACE, TT_LPAREN, TT_REG, TT_RPAREN] IT_NONE"

definition Z80_CMD_DCX_B :: cmd where
  "Z80_CMD_DCX_B = Cmd [''dec'', '' '', ''bc''] [TT_CMD, TT_SPACE, TT_REG] IT_NONE"

definition Z80_CMD_INR_C :: cmd where
  "Z80_CMD_INR_C = Cmd [''inc'', '' '', ''c''] [TT_CMD, TT_SPACE, TT_REG] IT_NONE"

definition Z80_CMD_DCR_C :: cmd where
  "Z80_CMD_DCR_C = Cmd [''dec'', '' '', ''c''] [TT_CMD, TT_SPACE, TT_REG] IT_NONE"

definition Z80_CMD_MVI_C_N :: cmd where
  "Z80_CMD_MVI_C_N = Cmd [''ld'', '' '', ''c'', '', ''] [TT_CMD, TT_SPACE, TT_REG, TT_COMMA_SPACE, TT_IMM] IT_B1"

definition Z80_CMD_RRC :: cmd where
  "Z80_CMD_RRC = Cmd [''rrca''] [TT_CMD] IT_NONE"

definition Z80_CMD_LXI_D :: cmd where
  "Z80_CMD_LXI_D = Cmd [''ld'', '' '', ''de'', '', ''] [TT_CMD, TT_SPACE, TT_REG, TT_COMMA_SPACE, TT_IMM] IT_W1"

definition Z80_CMD_STAX_D :: cmd where
  "Z80_CMD_STAX_D =
    Cmd [''ld'', '' '', ''('', ''de'', '')'', '', '', ''a'']
      [TT_CMD, TT_SPACE, TT_LPAREN, TT_REG, TT_RPAREN, TT_COMMA_SPACE, TT_REG] IT_NONE"

definition Z80_CMD_INX_D :: cmd where
  "Z80_CMD_INX_D = Cmd [''inc'', '' '', ''de''] [TT_CMD, TT_SPACE, TT_REG] IT_NONE"

definition Z80_CMD_INR_D :: cmd where
  "Z80_CMD_INR_D = Cmd [''inc'', '' '', ''d''] [TT_CMD, TT_SPACE, TT_REG] IT_NONE"

definition Z80_CMD_DCR_D :: cmd where
  "Z80_CMD_DCR_D = Cmd [''dec'', '' '', ''d''] [TT_CMD, TT_SPACE, TT_REG] IT_NONE"

definition Z80_CMD_MVI_D_N :: cmd where
  "Z80_CMD_MVI_D_N = Cmd [''ld'', '' '', ''d'', '', ''] [TT_CMD, TT_SPACE, TT_REG, TT_COMMA_SPACE, TT_IMM] IT_B1"

definition Z80_CMD_RAL :: cmd where
  "Z80_CMD_RAL = Cmd [''rla''] [TT_CMD] IT_NONE"

definition Z80_CMD_DAD_D :: cmd where
  "Z80_CMD_DAD_D =
    Cmd [''add'', '' '', ''hl'', '', '', ''de'']
      [TT_CMD, TT_SPACE, TT_REG, TT_COMMA_SPACE, TT_REG] IT_NONE"

definition Z80_CMD_LDAX_D :: cmd where
  "Z80_CMD_LDAX_D =
    Cmd [''ld'', '' '', ''a'', '', '', ''('', ''de'', '')'']
      [TT_CMD, TT_SPACE, TT_REG, TT_COMMA_SPACE, TT_LPAREN, TT_REG, TT_RPAREN] IT_NONE"

definition Z80_CMD_DCX_D :: cmd where
  "Z80_CMD_DCX_D = Cmd [''dec'', '' '', ''de''] [TT_CMD, TT_SPACE, TT_REG] IT_NONE"

definition Z80_CMD_INR_E :: cmd where
  "Z80_CMD_INR_E = Cmd [''inc'', '' '', ''e''] [TT_CMD, TT_SPACE, TT_REG] IT_NONE"

definition Z80_CMD_DCR_E :: cmd where
  "Z80_CMD_DCR_E = Cmd [''dec'', '' '', ''e''] [TT_CMD, TT_SPACE, TT_REG] IT_NONE"

definition Z80_CMD_MVI_E_N :: cmd where
  "Z80_CMD_MVI_E_N = Cmd [''ld'', '' '', ''e'', '', ''] [TT_CMD, TT_SPACE, TT_REG, TT_COMMA_SPACE, TT_IMM] IT_B1"

definition Z80_CMD_RAR :: cmd where
  "Z80_CMD_RAR = Cmd [''rra''] [TT_CMD] IT_NONE"

definition Z80_CMD_LXI_H :: cmd where
  "Z80_CMD_LXI_H = Cmd [''ld'', '' '', ''hl'', '', ''] [TT_CMD, TT_SPACE, TT_REG, TT_COMMA_SPACE, TT_IMM] IT_W1"

definition Z80_CMD_SHLD_NN :: cmd where
  "Z80_CMD_SHLD_NN =
    Cmd [''ld'', '' '', ''('', ''NN'', '')'', '', '', ''hl'']
      [TT_CMD, TT_SPACE, TT_LPAREN, TT_IMM, TT_RPAREN, TT_COMMA_SPACE, TT_REG] IT_W1"

definition Z80_CMD_INX_H :: cmd where
  "Z80_CMD_INX_H = Cmd [''inc'', '' '', ''hl''] [TT_CMD, TT_SPACE, TT_REG] IT_NONE"

definition Z80_CMD_INR_H :: cmd where
  "Z80_CMD_INR_H = Cmd [''inc'', '' '', ''h''] [TT_CMD, TT_SPACE, TT_REG] IT_NONE"

definition Z80_CMD_DCR_H :: cmd where
  "Z80_CMD_DCR_H = Cmd [''dec'', '' '', ''h''] [TT_CMD, TT_SPACE, TT_REG] IT_NONE"

definition Z80_CMD_MVI_H_N :: cmd where
  "Z80_CMD_MVI_H_N = Cmd [''ld'', '' '', ''h'', '', ''] [TT_CMD, TT_SPACE, TT_REG, TT_COMMA_SPACE, TT_IMM] IT_B1"

definition Z80_CMD_DAA :: cmd where
  "Z80_CMD_DAA = Cmd [''daa''] [TT_CMD] IT_NONE"

definition Z80_CMD_DAD_H :: cmd where
  "Z80_CMD_DAD_H =
    Cmd [''add'', '' '', ''hl'', '', '', ''hl'']
      [TT_CMD, TT_SPACE, TT_REG, TT_COMMA_SPACE, TT_REG] IT_NONE"

definition Z80_CMD_LHLD_NN :: cmd where
  "Z80_CMD_LHLD_NN =
    Cmd [''ld'', '' '', ''hl'', '', '', ''('', ''NN'', '')'']
      [TT_CMD, TT_SPACE, TT_REG, TT_COMMA_SPACE, TT_LPAREN, TT_IMM, TT_RPAREN] IT_W1"

definition Z80_CMD_DCX_H :: cmd where
  "Z80_CMD_DCX_H = Cmd [''dec'', '' '', ''hl''] [TT_CMD, TT_SPACE, TT_REG] IT_NONE"

definition Z80_CMD_INR_L :: cmd where
  "Z80_CMD_INR_L = Cmd [''inc'', '' '', ''l''] [TT_CMD, TT_SPACE, TT_REG] IT_NONE"

definition Z80_CMD_DCR_L :: cmd where
  "Z80_CMD_DCR_L = Cmd [''dec'', '' '', ''l''] [TT_CMD, TT_SPACE, TT_REG] IT_NONE"

definition Z80_CMD_MVI_L_N :: cmd where
  "Z80_CMD_MVI_L_N =
    Cmd [''ld'', '' '', ''l'', '', '', ''N'']
      [TT_CMD, TT_SPACE, TT_REG, TT_COMMA_SPACE, TT_IMM] IT_B1"

definition Z80_CMD_CMA :: cmd where
  "Z80_CMD_CMA = Cmd [''cpl''] [TT_CMD] IT_NONE"

definition Z80_CMD_LXI_SP :: cmd where
  "Z80_CMD_LXI_SP =
    Cmd [''ld'', '' '', ''sp'', '', '', ''NN'']
      [TT_CMD, TT_SPACE, TT_REG, TT_COMMA_SPACE, TT_IMM] IT_W1"

definition Z80_CMD_STA_NN :: cmd where
  "Z80_CMD_STA_NN =
    Cmd [''ld'', '' '', ''('', ''NN'', '')'', '', '', ''a'']
      [TT_CMD, TT_SPACE, TT_LPAREN, TT_IMM, TT_RPAREN, TT_COMMA_SPACE, TT_REG] IT_W1"

definition Z80_CMD_INX_SP :: cmd where
  "Z80_CMD_INX_SP = Cmd [''inc'', '' '', ''sp''] [TT_CMD, TT_SPACE, TT_REG] IT_NONE"

definition Z80_CMD_INR_M :: cmd where
  "Z80_CMD_INR_M =
    Cmd [''inc'', '' '', ''('', ''hl'', '')'']
      [TT_CMD, TT_SPACE, TT_LPAREN, TT_REG, TT_RPAREN] IT_NONE"

definition Z80_CMD_DCR_M :: cmd where
  "Z80_CMD_DCR_M =
    Cmd [''dec'', '' '', ''('', ''hl'', '')'']
      [TT_CMD, TT_SPACE, TT_LPAREN, TT_REG, TT_RPAREN] IT_NONE"

definition Z80_CMD_MVI_M_N :: cmd where
  "Z80_CMD_MVI_M_N =
    Cmd [''ld'', '' '', ''('', ''hl'', '')'', '', '']
      [TT_CMD, TT_SPACE, TT_LPAREN, TT_REG, TT_RPAREN, TT_COMMA_SPACE, TT_IMM] IT_B1"

definition Z80_CMD_STC :: cmd where
  "Z80_CMD_STC = Cmd [''scf''] [TT_CMD] IT_NONE"

definition Z80_CMD_DAD_SP :: cmd where
  "Z80_CMD_DAD_SP =
    Cmd [''add'', '' '', ''hl'', '', '', ''sp'']
      [TT_CMD, TT_SPACE, TT_REG, TT_COMMA_SPACE, TT_REG] IT_NONE"

definition Z80_CMD_LDA_NN :: cmd where
  "Z80_CMD_LDA_NN =
    Cmd [''ld'', '' '', ''a'', '', '', ''('', ''NN'', '')'']
      [TT_CMD, TT_SPACE, TT_REG, TT_COMMA_SPACE, TT_LPAREN, TT_IMM, TT_RPAREN] IT_W1"

definition Z80_CMD_DCX_SP :: cmd where
  "Z80_CMD_DCX_SP = Cmd [''dec'', '' '', ''sp''] [TT_CMD, TT_SPACE, TT_REG] IT_NONE"

definition Z80_CMD_INR_A :: cmd where
  "Z80_CMD_INR_A = Cmd [''inc'', '' '', ''a''] [TT_CMD, TT_SPACE, TT_REG] IT_NONE"

definition Z80_CMD_DCR_A :: cmd where
  "Z80_CMD_DCR_A = Cmd [''dec'', '' '', ''a''] [TT_CMD, TT_SPACE, TT_REG] IT_NONE"

definition Z80_CMD_MVI_A_N :: cmd where
  "Z80_CMD_MVI_A_N = Cmd [''ld'', '' '', ''a'', '', ''] [TT_CMD, TT_SPACE, TT_REG, TT_COMMA_SPACE, TT_IMM] IT_B1"

definition Z80_CMD_CMC :: cmd where
  "Z80_CMD_CMC = Cmd [''ccf''] [TT_CMD] IT_NONE"

definition Z80_CMD_MOV_B_B :: cmd where
  "Z80_CMD_MOV_B_B =
    Cmd [''ld'', '' '', ''b'', '', '', ''b'']
      [TT_CMD, TT_SPACE, TT_REG, TT_COMMA_SPACE, TT_REG] IT_NONE"

definition Z80_CMD_MOV_B_C :: cmd where
  "Z80_CMD_MOV_B_C =
    Cmd [''ld'', '' '', ''b'', '', '', ''c'']
      [TT_CMD, TT_SPACE, TT_REG, TT_COMMA_SPACE, TT_REG] IT_NONE"

definition Z80_CMD_MOV_B_D :: cmd where
  "Z80_CMD_MOV_B_D =
    Cmd [''ld'', '' '', ''b'', '', '', ''d'']
      [TT_CMD, TT_SPACE, TT_REG, TT_COMMA_SPACE, TT_REG] IT_NONE"

definition Z80_CMD_MOV_B_E :: cmd where
  "Z80_CMD_MOV_B_E =
    Cmd [''ld'', '' '', ''b'', '', '', ''e'']
      [TT_CMD, TT_SPACE, TT_REG, TT_COMMA_SPACE, TT_REG] IT_NONE"

definition Z80_CMD_MOV_B_H :: cmd where
  "Z80_CMD_MOV_B_H =
    Cmd [''ld'', '' '', ''b'', '', '', ''h'']
      [TT_CMD, TT_SPACE, TT_REG, TT_COMMA_SPACE, TT_REG] IT_NONE"

definition Z80_CMD_MOV_B_L :: cmd where
  "Z80_CMD_MOV_B_L =
    Cmd [''ld'', '' '', ''b'', '', '', ''l'']
      [TT_CMD, TT_SPACE, TT_REG, TT_COMMA_SPACE, TT_REG] IT_NONE"

definition Z80_CMD_MOV_B_M :: cmd where
  "Z80_CMD_MOV_B_M =
    Cmd [''ld'', '' '', ''b'', '', '', ''('', ''hl'', '')'']
      [TT_CMD, TT_SPACE, TT_REG, TT_COMMA_SPACE, TT_LPAREN, TT_REG, TT_RPAREN] IT_NONE"

definition Z80_CMD_MOV_B_A :: cmd where
  "Z80_CMD_MOV_B_A =
    Cmd [''ld'', '' '', ''b'', '', '', ''a'']
      [TT_CMD, TT_SPACE, TT_REG, TT_COMMA_SPACE, TT_REG] IT_NONE"

definition Z80_CMD_MOV_C_B :: cmd where
  "Z80_CMD_MOV_C_B =
    Cmd [''ld'', '' '', ''c'', '', '', ''b'']
      [TT_CMD, TT_SPACE, TT_REG, TT_COMMA_SPACE, TT_REG] IT_NONE"

definition Z80_CMD_MOV_C_C :: cmd where
  "Z80_CMD_MOV_C_C =
    Cmd [''ld'', '' '', ''c'', '', '', ''c'']
      [TT_CMD, TT_SPACE, TT_REG, TT_COMMA_SPACE, TT_REG] IT_NONE"

definition Z80_CMD_MOV_C_D :: cmd where
  "Z80_CMD_MOV_C_D =
    Cmd [''ld'', '' '', ''c'', '', '', ''d'']
      [TT_CMD, TT_SPACE, TT_REG, TT_COMMA_SPACE, TT_REG] IT_NONE"

definition Z80_CMD_MOV_C_E :: cmd where
  "Z80_CMD_MOV_C_E =
    Cmd [''ld'', '' '', ''c'', '', '', ''e'']
      [TT_CMD, TT_SPACE, TT_REG, TT_COMMA_SPACE, TT_REG] IT_NONE"

definition Z80_CMD_MOV_C_H :: cmd where
  "Z80_CMD_MOV_C_H =
    Cmd [''ld'', '' '', ''c'', '', '', ''h'']
      [TT_CMD, TT_SPACE, TT_REG, TT_COMMA_SPACE, TT_REG] IT_NONE"

definition Z80_CMD_MOV_C_L :: cmd where
  "Z80_CMD_MOV_C_L =
    Cmd [''ld'', '' '', ''c'', '', '', ''l'']
      [TT_CMD, TT_SPACE, TT_REG, TT_COMMA_SPACE, TT_REG] IT_NONE"

definition Z80_CMD_MOV_C_M :: cmd where
  "Z80_CMD_MOV_C_M =
    Cmd [''ld'', '' '', ''c'', '', '', ''('', ''hl'', '')'']
      [TT_CMD, TT_SPACE, TT_REG, TT_COMMA_SPACE, TT_LPAREN, TT_REG, TT_RPAREN] IT_NONE"

definition Z80_CMD_MOV_C_A :: cmd where
  "Z80_CMD_MOV_C_A =
    Cmd [''ld'', '' '', ''c'', '', '', ''a'']
      [TT_CMD, TT_SPACE, TT_REG, TT_COMMA_SPACE, TT_REG] IT_NONE"

definition Z80_CMD_MOV_D_B :: cmd where
  "Z80_CMD_MOV_D_B =
    Cmd [''ld'', '' '', ''d'', '', '', ''b'']
      [TT_CMD, TT_SPACE, TT_REG, TT_COMMA_SPACE, TT_REG] IT_NONE"

definition Z80_CMD_MOV_D_C :: cmd where
  "Z80_CMD_MOV_D_C =
    Cmd [''ld'', '' '', ''d'', '', '', ''c'']
      [TT_CMD, TT_SPACE, TT_REG, TT_COMMA_SPACE, TT_REG] IT_NONE"

definition Z80_CMD_MOV_D_D :: cmd where
  "Z80_CMD_MOV_D_D =
    Cmd [''ld'', '' '', ''d'', '', '', ''d'']
      [TT_CMD, TT_SPACE, TT_REG, TT_COMMA_SPACE, TT_REG] IT_NONE"

definition Z80_CMD_MOV_D_E :: cmd where
  "Z80_CMD_MOV_D_E =
    Cmd [''ld'', '' '', ''d'', '', '', ''e'']
      [TT_CMD, TT_SPACE, TT_REG, TT_COMMA_SPACE, TT_REG] IT_NONE"

definition Z80_CMD_MOV_D_H :: cmd where
  "Z80_CMD_MOV_D_H =
    Cmd [''ld'', '' '', ''d'', '', '', ''h'']
      [TT_CMD, TT_SPACE, TT_REG, TT_COMMA_SPACE, TT_REG] IT_NONE"

definition Z80_CMD_MOV_D_L :: cmd where
  "Z80_CMD_MOV_D_L =
    Cmd [''ld'', '' '', ''d'', '', '', ''l'']
      [TT_CMD, TT_SPACE, TT_REG, TT_COMMA_SPACE, TT_REG] IT_NONE"

definition Z80_CMD_MOV_D_M :: cmd where
  "Z80_CMD_MOV_D_M =
    Cmd [''ld'', '' '', ''d'', '', '', ''('', ''hl'', '')'']
      [TT_CMD, TT_SPACE, TT_REG, TT_COMMA_SPACE, TT_LPAREN, TT_REG, TT_RPAREN] IT_NONE"

definition Z80_CMD_MOV_D_A :: cmd where
  "Z80_CMD_MOV_D_A =
    Cmd [''ld'', '' '', ''d'', '', '', ''a'']
      [TT_CMD, TT_SPACE, TT_REG, TT_COMMA_SPACE, TT_REG] IT_NONE"

definition Z80_CMD_MOV_E_B :: cmd where
  "Z80_CMD_MOV_E_B =
    Cmd [''ld'', '' '', ''e'', '', '', ''b'']
      [TT_CMD, TT_SPACE, TT_REG, TT_COMMA_SPACE, TT_REG] IT_NONE"

definition Z80_CMD_MOV_E_C :: cmd where
  "Z80_CMD_MOV_E_C =
    Cmd [''ld'', '' '', ''e'', '', '', ''c'']
      [TT_CMD, TT_SPACE, TT_REG, TT_COMMA_SPACE, TT_REG] IT_NONE"

definition Z80_CMD_MOV_E_D :: cmd where
  "Z80_CMD_MOV_E_D =
    Cmd [''ld'', '' '', ''e'', '', '', ''d'']
      [TT_CMD, TT_SPACE, TT_REG, TT_COMMA_SPACE, TT_REG] IT_NONE"

definition Z80_CMD_MOV_E_E :: cmd where
  "Z80_CMD_MOV_E_E =
    Cmd [''ld'', '' '', ''e'', '', '', ''e'']
      [TT_CMD, TT_SPACE, TT_REG, TT_COMMA_SPACE, TT_REG] IT_NONE"

definition Z80_CMD_MOV_E_H :: cmd where
  "Z80_CMD_MOV_E_H =
    Cmd [''ld'', '' '', ''e'', '', '', ''h'']
      [TT_CMD, TT_SPACE, TT_REG, TT_COMMA_SPACE, TT_REG] IT_NONE"

definition Z80_CMD_MOV_E_L :: cmd where
  "Z80_CMD_MOV_E_L =
    Cmd [''ld'', '' '', ''e'', '', '', ''l'']
      [TT_CMD, TT_SPACE, TT_REG, TT_COMMA_SPACE, TT_REG] IT_NONE"

definition Z80_CMD_MOV_E_M :: cmd where
  "Z80_CMD_MOV_E_M =
    Cmd [''ld'', '' '', ''e'', '', '', ''('', ''hl'', '')'']
      [TT_CMD, TT_SPACE, TT_REG, TT_COMMA_SPACE, TT_LPAREN, TT_REG, TT_RPAREN] IT_NONE"

definition Z80_CMD_MOV_E_A :: cmd where
  "Z80_CMD_MOV_E_A =
    Cmd [''ld'', '' '', ''e'', '', '', ''a'']
      [TT_CMD, TT_SPACE, TT_REG, TT_COMMA_SPACE, TT_REG] IT_NONE"

definition Z80_CMD_MOV_H_B :: cmd where
  "Z80_CMD_MOV_H_B =
    Cmd [''ld'', '' '', ''h'', '', '', ''b'']
      [TT_CMD, TT_SPACE, TT_REG, TT_COMMA_SPACE, TT_REG] IT_NONE"

definition Z80_CMD_MOV_H_C :: cmd where
  "Z80_CMD_MOV_H_C =
    Cmd [''ld'', '' '', ''h'', '', '', ''c'']
      [TT_CMD, TT_SPACE, TT_REG, TT_COMMA_SPACE, TT_REG] IT_NONE"

definition Z80_CMD_MOV_H_D :: cmd where
  "Z80_CMD_MOV_H_D =
    Cmd [''ld'', '' '', ''h'', '', '', ''d'']
      [TT_CMD, TT_SPACE, TT_REG, TT_COMMA_SPACE, TT_REG] IT_NONE"

definition Z80_CMD_MOV_H_E :: cmd where
  "Z80_CMD_MOV_H_E =
    Cmd [''ld'', '' '', ''h'', '', '', ''e'']
      [TT_CMD, TT_SPACE, TT_REG, TT_COMMA_SPACE, TT_REG] IT_NONE"

definition Z80_CMD_MOV_H_H :: cmd where
  "Z80_CMD_MOV_H_H =
    Cmd [''ld'', '' '', ''h'', '', '', ''h'']
      [TT_CMD, TT_SPACE, TT_REG, TT_COMMA_SPACE, TT_REG] IT_NONE"

definition Z80_CMD_MOV_H_L :: cmd where
  "Z80_CMD_MOV_H_L =
    Cmd [''ld'', '' '', ''h'', '', '', ''l'']
      [TT_CMD, TT_SPACE, TT_REG, TT_COMMA_SPACE, TT_REG] IT_NONE"

definition Z80_CMD_MOV_H_M :: cmd where
  "Z80_CMD_MOV_H_M =
    Cmd [''ld'', '' '', ''h'', '', '', ''('', ''hl'', '')'']
      [TT_CMD, TT_SPACE, TT_REG, TT_COMMA_SPACE, TT_LPAREN, TT_REG, TT_RPAREN] IT_NONE"

definition Z80_CMD_MOV_H_A :: cmd where
  "Z80_CMD_MOV_H_A =
    Cmd [''ld'', '' '', ''h'', '', '', ''a'']
      [TT_CMD, TT_SPACE, TT_REG, TT_COMMA_SPACE, TT_REG] IT_NONE"

definition Z80_CMD_MOV_L_B :: cmd where
  "Z80_CMD_MOV_L_B =
    Cmd [''ld'', '' '', ''l'', '', '', ''b'']
      [TT_CMD, TT_SPACE, TT_REG, TT_COMMA_SPACE, TT_REG] IT_NONE"

definition Z80_CMD_MOV_L_C :: cmd where
  "Z80_CMD_MOV_L_C =
    Cmd [''ld'', '' '', ''l'', '', '', ''c'']
      [TT_CMD, TT_SPACE, TT_REG, TT_COMMA_SPACE, TT_REG] IT_NONE"

definition Z80_CMD_MOV_L_D :: cmd where
  "Z80_CMD_MOV_L_D =
    Cmd [''ld'', '' '', ''l'', '', '', ''d'']
      [TT_CMD, TT_SPACE, TT_REG, TT_COMMA_SPACE, TT_REG] IT_NONE"

definition Z80_CMD_MOV_L_E :: cmd where
  "Z80_CMD_MOV_L_E =
    Cmd [''ld'', '' '', ''l'', '', '', ''e'']
      [TT_CMD, TT_SPACE, TT_REG, TT_COMMA_SPACE, TT_REG] IT_NONE"

definition Z80_CMD_MOV_L_H :: cmd where
  "Z80_CMD_MOV_L_H =
    Cmd [''ld'', '' '', ''l'', '', '', ''h'']
      [TT_CMD, TT_SPACE, TT_REG, TT_COMMA_SPACE, TT_REG] IT_NONE"

definition Z80_CMD_MOV_L_L :: cmd where
  "Z80_CMD_MOV_L_L =
    Cmd [''ld'', '' '', ''l'', '', '', ''l'']
      [TT_CMD, TT_SPACE, TT_REG, TT_COMMA_SPACE, TT_REG] IT_NONE"

definition Z80_CMD_MOV_L_M :: cmd where
  "Z80_CMD_MOV_L_M =
    Cmd [''ld'', '' '', ''l'', '', '', ''('', ''hl'', '')'']
      [TT_CMD, TT_SPACE, TT_REG, TT_COMMA_SPACE, TT_LPAREN, TT_REG, TT_RPAREN] IT_NONE"

definition Z80_CMD_MOV_L_A :: cmd where
  "Z80_CMD_MOV_L_A =
    Cmd [''ld'', '' '', ''l'', '', '', ''a'']
      [TT_CMD, TT_SPACE, TT_REG, TT_COMMA_SPACE, TT_REG] IT_NONE"

definition Z80_CMD_MOV_M_B :: cmd where
  "Z80_CMD_MOV_M_B =
    Cmd [''ld'', '' '', ''('', ''hl'', '')'', '' '', ''b'']
      [TT_CMD, TT_SPACE, TT_LPAREN, TT_REG, TT_RPAREN, TT_SPACE, TT_REG] IT_NONE"

definition Z80_CMD_MOV_M_C :: cmd where
  "Z80_CMD_MOV_M_C =
    Cmd [''ld'', '' '', ''('', ''hl'', '')'', '' '', ''c'']
      [TT_CMD, TT_SPACE, TT_LPAREN, TT_REG, TT_RPAREN, TT_SPACE, TT_REG] IT_NONE"

definition Z80_CMD_MOV_M_D :: cmd where
  "Z80_CMD_MOV_M_D =
    Cmd [''ld'', '' '', ''('', ''hl'', '')'', '' '', ''d'']
      [TT_CMD, TT_SPACE, TT_LPAREN, TT_REG, TT_RPAREN, TT_SPACE, TT_REG] IT_NONE"

definition Z80_CMD_MOV_M_E :: cmd where
  "Z80_CMD_MOV_M_E =
    Cmd [''ld'', '' '', ''('', ''hl'', '')'', '' '', ''e'']
      [TT_CMD, TT_SPACE, TT_LPAREN, TT_REG, TT_RPAREN, TT_SPACE, TT_REG] IT_NONE"

definition Z80_CMD_MOV_M_H :: cmd where
  "Z80_CMD_MOV_M_H =
    Cmd [''ld'', '' '', ''('', ''hl'', '')'', '' '', ''h'']
      [TT_CMD, TT_SPACE, TT_LPAREN, TT_REG, TT_RPAREN, TT_SPACE, TT_REG] IT_NONE"

definition Z80_CMD_MOV_M_L :: cmd where
  "Z80_CMD_MOV_M_L =
    Cmd [''ld'', '' '', ''('', ''hl'', '')'', '' '', ''l'']
      [TT_CMD, TT_SPACE, TT_LPAREN, TT_REG, TT_RPAREN, TT_SPACE, TT_REG] IT_NONE"

definition Z80_CMD_HLT :: cmd where
  "Z80_CMD_HLT = Cmd [''hlt''] [TT_CMD] IT_NONE"

definition Z80_CMD_MOV_M_A :: cmd where
  "Z80_CMD_MOV_M_A =
    Cmd [''ld'', '' '', ''('', ''hl'', '')'', '' '', ''a'']
      [TT_CMD, TT_SPACE, TT_LPAREN, TT_REG, TT_RPAREN, TT_SPACE, TT_REG] IT_NONE"

definition Z80_CMD_MOV_A_B :: cmd where
  "Z80_CMD_MOV_A_B =
    Cmd [''ld'', '' '', ''a'', '', '', ''b'']
      [TT_CMD, TT_SPACE, TT_REG, TT_COMMA_SPACE, TT_REG] IT_NONE"

definition Z80_CMD_MOV_A_C :: cmd where
  "Z80_CMD_MOV_A_C =
    Cmd [''ld'', '' '', ''a'', '', '', ''c'']
      [TT_CMD, TT_SPACE, TT_REG, TT_COMMA_SPACE, TT_REG] IT_NONE"

definition Z80_CMD_MOV_A_D :: cmd where
  "Z80_CMD_MOV_A_D =
    Cmd [''ld'', '' '', ''a'', '', '', ''d'']
      [TT_CMD, TT_SPACE, TT_REG, TT_COMMA_SPACE, TT_REG] IT_NONE"

definition Z80_CMD_MOV_A_E :: cmd where
  "Z80_CMD_MOV_A_E =
    Cmd [''ld'', '' '', ''a'', '', '', ''e'']
      [TT_CMD, TT_SPACE, TT_REG, TT_COMMA_SPACE, TT_REG] IT_NONE"

definition Z80_CMD_MOV_A_H :: cmd where
  "Z80_CMD_MOV_A_H =
    Cmd [''ld'', '' '', ''a'', '', '', ''h'']
      [TT_CMD, TT_SPACE, TT_REG, TT_COMMA_SPACE, TT_REG] IT_NONE"

definition Z80_CMD_MOV_A_L :: cmd where
  "Z80_CMD_MOV_A_L =
    Cmd [''ld'', '' '', ''a'', '', '', ''l'']
      [TT_CMD, TT_SPACE, TT_REG, TT_COMMA_SPACE, TT_REG] IT_NONE"

definition Z80_CMD_MOV_A_M :: cmd where
  "Z80_CMD_MOV_A_M =
    Cmd [''ld'', '' '', ''a'', '', '', ''m'']
      [TT_CMD, TT_SPACE, TT_REG, TT_COMMA_SPACE, TT_REG] IT_NONE"

definition Z80_CMD_MOV_A_A :: cmd where
  "Z80_CMD_MOV_A_A =
    Cmd [''ld'', '' '', ''a'', '', '', ''a'']
      [TT_CMD, TT_SPACE, TT_REG, TT_COMMA_SPACE, TT_REG] IT_NONE"

definition Z80_CMD_ADD_B :: cmd where
  "Z80_CMD_ADD_B =
    Cmd [''add'', '' '', ''a'', '', '', ''b'']
      [TT_CMD, TT_SPACE, TT_REG, TT_COMMA_SPACE, TT_REG] IT_NONE"

definition Z80_CMD_ADD_C :: cmd where
  "Z80_CMD_ADD_C =
    Cmd [''add'', '' '', ''a'', '', '', ''c'']
      [TT_CMD, TT_SPACE, TT_REG, TT_COMMA_SPACE, TT_REG] IT_NONE"

definition Z80_CMD_ADD_D :: cmd where
  "Z80_CMD_ADD_D =
    Cmd [''add'', '' '', ''a'', '', '', ''d'']
      [TT_CMD, TT_SPACE, TT_REG, TT_COMMA_SPACE, TT_REG] IT_NONE"

definition Z80_CMD_ADD_E :: cmd where
  "Z80_CMD_ADD_E =
    Cmd [''add'', '' '', ''a'', '', '', ''e'']
      [TT_CMD, TT_SPACE, TT_REG, TT_COMMA_SPACE, TT_REG] IT_NONE"

definition Z80_CMD_ADD_H :: cmd where
  "Z80_CMD_ADD_H =
    Cmd [''add'', '' '', ''a'', '', '', ''h'']
      [TT_CMD, TT_SPACE, TT_REG, TT_COMMA_SPACE, TT_REG] IT_NONE"

definition Z80_CMD_ADD_L :: cmd where
  "Z80_CMD_ADD_L =
    Cmd [''add'', '' '', ''a'', '', '', ''l'']
      [TT_CMD, TT_SPACE, TT_REG, TT_COMMA_SPACE, TT_REG] IT_NONE"

definition Z80_CMD_ADD_M :: cmd where
  "Z80_CMD_ADD_M =
    Cmd [''add'', '' '', ''a'', '', '', ''('', ''hl'', '')'']
      [TT_CMD, TT_SPACE, TT_REG, TT_COMMA_SPACE, TT_LPAREN, TT_REG, TT_RPAREN] IT_NONE"

definition Z80_CMD_ADD_A :: cmd where
  "Z80_CMD_ADD_A =
    Cmd [''add'', '' '', ''a'', '', '', ''a'']
      [TT_CMD, TT_SPACE, TT_REG, TT_COMMA_SPACE, TT_REG] IT_NONE"

definition Z80_CMD_ADC_B :: cmd where
  "Z80_CMD_ADC_B =
    Cmd [''adc'', '' '', ''a'', '', '', ''b'']
      [TT_CMD, TT_SPACE, TT_REG, TT_COMMA_SPACE, TT_REG] IT_NONE"

definition Z80_CMD_ADC_C :: cmd where
  "Z80_CMD_ADC_C =
    Cmd [''adc'', '' '', ''a'', '', '', ''c'']
      [TT_CMD, TT_SPACE, TT_REG, TT_COMMA_SPACE, TT_REG] IT_NONE"

definition Z80_CMD_ADC_D :: cmd where
  "Z80_CMD_ADC_D =
    Cmd [''adc'', '' '', ''a'', '', '', ''d'']
      [TT_CMD, TT_SPACE, TT_REG, TT_COMMA_SPACE, TT_REG] IT_NONE"

definition Z80_CMD_ADC_E :: cmd where
  "Z80_CMD_ADC_E =
    Cmd [''adc'', '' '', ''a'', '', '', ''e'']
      [TT_CMD, TT_SPACE, TT_REG, TT_COMMA_SPACE, TT_REG] IT_NONE"

definition Z80_CMD_ADC_H :: cmd where
  "Z80_CMD_ADC_H =
    Cmd [''adc'', '' '', ''a'', '', '', ''h'']
      [TT_CMD, TT_SPACE, TT_REG, TT_COMMA_SPACE, TT_REG] IT_NONE"

definition Z80_CMD_ADC_L :: cmd where
  "Z80_CMD_ADC_L =
    Cmd [''adc'', '' '', ''a'', '', '', ''l'']
      [TT_CMD, TT_SPACE, TT_REG, TT_COMMA_SPACE, TT_REG] IT_NONE"

definition Z80_CMD_ADC_M :: cmd where
  "Z80_CMD_ADC_M =
    Cmd [''adc'', '' '', ''a'', '', '', ''('', ''hl'', '')'']
      [TT_CMD, TT_SPACE, TT_REG, TT_COMMA_SPACE, TT_LPAREN, TT_REG, TT_RPAREN] IT_NONE"

definition Z80_CMD_ADC_A :: cmd where
  "Z80_CMD_ADC_A =
    Cmd [''adc'', '' '', ''a'', '', '', ''a'']
      [TT_CMD, TT_SPACE, TT_REG, TT_COMMA_SPACE, TT_REG] IT_NONE"

definition Z80_CMD_SUB_B :: cmd where
  "Z80_CMD_SUB_B = Cmd [''sub'', '' '', ''b''] [TT_CMD, TT_SPACE, TT_REG] IT_NONE"

definition Z80_CMD_SUB_C :: cmd where
  "Z80_CMD_SUB_C = Cmd [''sub'', '' '', ''c''] [TT_CMD, TT_SPACE, TT_REG] IT_NONE"

definition Z80_CMD_SUB_D :: cmd where
  "Z80_CMD_SUB_D = Cmd [''sub'', '' '', ''d''] [TT_CMD, TT_SPACE, TT_REG] IT_NONE"

definition Z80_CMD_SUB_E :: cmd where
  "Z80_CMD_SUB_E = Cmd [''sub'', '' '', ''e''] [TT_CMD, TT_SPACE, TT_REG] IT_NONE"

definition Z80_CMD_SUB_H :: cmd where
  "Z80_CMD_SUB_H = Cmd [''sub'', '' '', ''h''] [TT_CMD, TT_SPACE, TT_REG] IT_NONE"

definition Z80_CMD_SUB_L :: cmd where
  "Z80_CMD_SUB_L = Cmd [''sub'', '' '', ''l''] [TT_CMD, TT_SPACE, TT_REG] IT_NONE"

definition Z80_CMD_SUB_M :: cmd where
  "Z80_CMD_SUB_M =
    Cmd [''sub'', '' '', ''('', ''hl'', '')'']
      [TT_CMD, TT_SPACE, TT_LPAREN, TT_REG, TT_RPAREN] IT_NONE"

definition Z80_CMD_SUB_A :: cmd where
  "Z80_CMD_SUB_A = Cmd [''sub'', '' '', ''a''] [TT_CMD, TT_SPACE, TT_REG] IT_NONE"

definition Z80_CMD_SBB_B :: cmd where
  "Z80_CMD_SBB_B = Cmd [''sbc'', '' '', ''b''] [TT_CMD, TT_SPACE, TT_REG] IT_NONE"

definition Z80_CMD_SBB_C :: cmd where
  "Z80_CMD_SBB_C = Cmd [''sbc'', '' '', ''c''] [TT_CMD, TT_SPACE, TT_REG] IT_NONE"

definition Z80_CMD_SBB_D :: cmd where
  "Z80_CMD_SBB_D = Cmd [''sbc'', '' '', ''d''] [TT_CMD, TT_SPACE, TT_REG] IT_NONE"

definition Z80_CMD_SBB_E :: cmd where
  "Z80_CMD_SBB_E = Cmd [''sbc'', '' '', ''e''] [TT_CMD, TT_SPACE, TT_REG] IT_NONE"

definition Z80_CMD_SBB_H :: cmd where
  "Z80_CMD_SBB_H = Cmd [''sbc'', '' '', ''h''] [TT_CMD, TT_SPACE, TT_REG] IT_NONE"

definition Z80_CMD_SBB_L :: cmd where
  "Z80_CMD_SBB_L = Cmd [''sbc'', '' '', ''l''] [TT_CMD, TT_SPACE, TT_REG] IT_NONE"

definition Z80_CMD_SBB_M :: cmd where
  "Z80_CMD_SBB_M =
    Cmd [''sbc'', '' '', ''('', ''hl'', '')'']
      [TT_CMD, TT_SPACE, TT_LPAREN, TT_REG, TT_RPAREN] IT_NONE"

definition Z80_CMD_SBB_A :: cmd where
  "Z80_CMD_SBB_A = Cmd [''sbc'', '' '', ''a''] [TT_CMD, TT_SPACE, TT_REG] IT_NONE"

definition Z80_CMD_ANA_B :: cmd where
  "Z80_CMD_ANA_B = Cmd [''and'', '' '', ''b''] [TT_CMD, TT_SPACE, TT_REG] IT_NONE"

definition Z80_CMD_ANA_C :: cmd where
  "Z80_CMD_ANA_C = Cmd [''and'', '' '', ''c''] [TT_CMD, TT_SPACE, TT_REG] IT_NONE"

definition Z80_CMD_ANA_D :: cmd where
  "Z80_CMD_ANA_D = Cmd [''and'', '' '', ''d''] [TT_CMD, TT_SPACE, TT_REG] IT_NONE"

definition Z80_CMD_ANA_E :: cmd where
  "Z80_CMD_ANA_E = Cmd [''and'', '' '', ''e''] [TT_CMD, TT_SPACE, TT_REG] IT_NONE"

definition Z80_CMD_ANA_H :: cmd where
  "Z80_CMD_ANA_H = Cmd [''and'', '' '', ''h''] [TT_CMD, TT_SPACE, TT_REG] IT_NONE"

definition Z80_CMD_ANA_L :: cmd where
  "Z80_CMD_ANA_L = Cmd [''and'', '' '', ''l''] [TT_CMD, TT_SPACE, TT_REG] IT_NONE"

definition Z80_CMD_ANA_M :: cmd where
  "Z80_CMD_ANA_M =
    Cmd [''and'', '' '', ''('', ''hl'', '')'']
      [TT_CMD, TT_SPACE, TT_LPAREN, TT_REG, TT_RPAREN] IT_NONE"

definition Z80_CMD_ANA_A :: cmd where
  "Z80_CMD_ANA_A = Cmd [''and'', '' '', ''a''] [TT_CMD, TT_SPACE, TT_REG] IT_NONE"

definition Z80_CMD_XRA_B :: cmd where
  "Z80_CMD_XRA_B = Cmd [''xor'', '' '', ''b''] [TT_CMD, TT_SPACE, TT_REG] IT_NONE"

definition Z80_CMD_XRA_C :: cmd where
  "Z80_CMD_XRA_C = Cmd [''xor'', '' '', ''c''] [TT_CMD, TT_SPACE, TT_REG] IT_NONE"

definition Z80_CMD_XRA_D :: cmd where
  "Z80_CMD_XRA_D = Cmd [''xor'', '' '', ''d''] [TT_CMD, TT_SPACE, TT_REG] IT_NONE"

definition Z80_CMD_XRA_E :: cmd where
  "Z80_CMD_XRA_E = Cmd [''xor'', '' '', ''e''] [TT_CMD, TT_SPACE, TT_REG] IT_NONE"

definition Z80_CMD_XRA_H :: cmd where
  "Z80_CMD_XRA_H = Cmd [''xor'', '' '', ''h''] [TT_CMD, TT_SPACE, TT_REG] IT_NONE"

definition Z80_CMD_XRA_L :: cmd where
  "Z80_CMD_XRA_L = Cmd [''xor'', '' '', ''l''] [TT_CMD, TT_SPACE, TT_REG] IT_NONE"

definition Z80_CMD_XRA_M :: cmd where
  "Z80_CMD_XRA_M =
    Cmd [''xor'', '' '', ''('', ''hl'', '')'']
      [TT_CMD, TT_SPACE, TT_LPAREN, TT_REG, TT_RPAREN] IT_NONE"

definition Z80_CMD_XRA_A :: cmd where
  "Z80_CMD_XRA_A = Cmd [''xor'', '' '', ''a''] [TT_CMD, TT_SPACE, TT_REG] IT_NONE"

definition Z80_CMD_ORA_B :: cmd where
  "Z80_CMD_ORA_B = Cmd [''or'', '' '', ''b''] [TT_CMD, TT_SPACE, TT_REG] IT_NONE"

definition Z80_CMD_ORA_C :: cmd where
  "Z80_CMD_ORA_C = Cmd [''or'', '' '', ''c''] [TT_CMD, TT_SPACE, TT_REG] IT_NONE"

definition Z80_CMD_ORA_D :: cmd where
  "Z80_CMD_ORA_D = Cmd [''or'', '' '', ''d''] [TT_CMD, TT_SPACE, TT_REG] IT_NONE"

definition Z80_CMD_ORA_E :: cmd where
  "Z80_CMD_ORA_E = Cmd [''or'', '' '', ''e''] [TT_CMD, TT_SPACE, TT_REG] IT_NONE"

definition Z80_CMD_ORA_H :: cmd where
  "Z80_CMD_ORA_H = Cmd [''or'', '' '', ''h''] [TT_CMD, TT_SPACE, TT_REG] IT_NONE"

definition Z80_CMD_ORA_L :: cmd where
  "Z80_CMD_ORA_L = Cmd [''or'', '' '', ''l''] [TT_CMD, TT_SPACE, TT_REG] IT_NONE"

definition Z80_CMD_ORA_M :: cmd where
  "Z80_CMD_ORA_M = Cmd [''or'', '' '', ''('', ''hl'', '')''] [TT_CMD, TT_SPACE, TT_LPAREN, TT_REG, TT_RPAREN] IT_NONE"

definition Z80_CMD_ORA_A :: cmd where
  "Z80_CMD_ORA_A = Cmd [''or'', '' '', ''a''] [TT_CMD, TT_SPACE, TT_REG] IT_NONE"

definition Z80_CMD_CMP_B :: cmd where
  "Z80_CMD_CMP_B = Cmd [''cp'', '' '', ''b''] [TT_CMD, TT_SPACE, TT_REG] IT_NONE"

definition Z80_CMD_CMP_C :: cmd where
  "Z80_CMD_CMP_C = Cmd [''cp'', '' '', ''c''] [TT_CMD, TT_SPACE, TT_REG] IT_NONE"

definition Z80_CMD_CMP_D :: cmd where
  "Z80_CMD_CMP_D = Cmd [''cp'', '' '', ''d''] [TT_CMD, TT_SPACE, TT_REG] IT_NONE"

definition Z80_CMD_CMP_E :: cmd where
  "Z80_CMD_CMP_E = Cmd [''cp'', '' '', ''e''] [TT_CMD, TT_SPACE, TT_REG] IT_NONE"

definition Z80_CMD_CMP_H :: cmd where
  "Z80_CMD_CMP_H = Cmd [''cp'', '' '', ''h''] [TT_CMD, TT_SPACE, TT_REG] IT_NONE"

definition Z80_CMD_CMP_L :: cmd where
  "Z80_CMD_CMP_L = Cmd [''cp'', '' '', ''l''] [TT_CMD, TT_SPACE, TT_REG] IT_NONE"

definition Z80_CMD_CMP_M :: cmd where
  "Z80_CMD_CMP_M = Cmd [''cp'', '' '', ''('', ''hl'', '')''] [TT_CMD, TT_SPACE, TT_LPAREN, TT_REG, TT_RPAREN] IT_NONE"

definition Z80_CMD_CMP_A :: cmd where
  "Z80_CMD_CMP_A = Cmd [''cp'', '' '', ''a''] [TT_CMD, TT_SPACE, TT_REG] IT_NONE"

definition Z80_CMD_RNZ :: cmd where
  "Z80_CMD_RNZ = Cmd [''ret'', '' '', ''nz''] [TT_CMD, TT_SPACE, TT_REG] IT_NONE"

definition Z80_CMD_POP_B :: cmd where
  "Z80_CMD_POP_B = Cmd [''pop'', '' '', ''bc''] [TT_CMD, TT_SPACE, TT_REG] IT_NONE"

definition Z80_CMD_JNZ_NN :: cmd where
  "Z80_CMD_JNZ_NN = Cmd [''jp'', '' '', ''nz'', '', '', ''NN''] [TT_CMD, TT_SPACE, TT_REG, TT_COMMA, TT_IMM] IT_W1"

definition Z80_CMD_JMP_NN :: cmd where
  "Z80_CMD_JMP_NN = Cmd [''jp'', '' '', ''NN''] [TT_CMD, TT_SPACE, TT_IMM] IT_W1"

definition Z80_CMD_CNZ_NN :: cmd where
  "Z80_CMD_CNZ_NN =
    Cmd [''call'', '' '', ''nz'', '', '', ''NN'']
      [TT_CMD, TT_SPACE, TT_REG, TT_COMMA_SPACE, TT_IMM] IT_W1"

definition Z80_CMD_PUSH_B :: cmd where
  "Z80_CMD_PUSH_B = Cmd [''push'', '' '', ''bc''] [TT_CMD, TT_SPACE, TT_REG] IT_NONE"

definition Z80_CMD_ADI_N :: cmd where
  "Z80_CMD_ADI_N = Cmd [''add'', '' '', ''a'', '', '', ''N''] [TT_CMD, TT_SPACE, TT_REG, TT_COMMA, TT_IMM] IT_B1"

definition Z80_CMD_RST_0 :: cmd where
  "Z80_CMD_RST_0 = Cmd [''rst'', '' '', ''0''] [TT_CMD, TT_SPACE, TT_BIMM] IT_NONE"

definition Z80_CMD_RZ :: cmd where
  "Z80_CMD_RZ = Cmd [''ret'', '' '', ''z''] [TT_CMD, TT_SPACE, TT_REG] IT_NONE"

definition Z80_CMD_RET :: cmd where
  "Z80_CMD_RET = Cmd [''ret''] [TT_CMD] IT_NONE"

definition Z80_CMD_JZ_NN :: cmd where
  "Z80_CMD_JZ_NN = Cmd [''jp'', '' '', ''z'', '' '', ''NN''] [TT_CMD, TT_SPACE, TT_REG, TT_COMMA_SPACE, TT_IMM] IT_W1"

definition Z80_CMD_CZ_NN :: cmd where
  "Z80_CMD_CZ_NN = Cmd [''call'', '' '', ''z'', '', '', ''NN''] [TT_CMD, TT_SPACE, TT_REG, TT_COMMA, TT_IMM] IT_W1"

definition Z80_CMD_CALL_NN :: cmd where
  "Z80_CMD_CALL_NN = Cmd [''call'', '' '', ''NN''] [TT_CMD, TT_SPACE, TT_IMM] IT_W1"

definition Z80_CMD_ACI_N :: cmd where
  "Z80_CMD_ACI_N =
    Cmd [''adc'', '' '', ''a'', '', '', ''N'']
      [TT_CMD, TT_SPACE, TT_REG, TT_COMMA_SPACE, TT_IMM] IT_B1"

definition Z80_CMD_RST_1 :: cmd where
  "Z80_CMD_RST_1 = Cmd [''rst'', '' '', ''8''] [TT_CMD, TT_SPACE, TT_BIMM] IT_NONE"

definition Z80_CMD_RNC :: cmd where
  "Z80_CMD_RNC = Cmd [''ret'', '' '', ''nc''] [TT_CMD, TT_SPACE, TT_REG] IT_NONE"

definition Z80_CMD_POP_D :: cmd where
  "Z80_CMD_POP_D = Cmd [''pop'', '' '', ''de''] [TT_CMD, TT_SPACE, TT_REG] IT_NONE"

definition Z80_CMD_JNC_NN :: cmd where
  "Z80_CMD_JNC_NN =
    Cmd [''jp'', '' '', ''nc'', '', '', ''NN'']
      [TT_CMD, TT_SPACE, TT_REG, TT_COMMA_SPACE, TT_IMM] IT_W1"

definition Z80_CMD_OUT_N :: cmd where
  "Z80_CMD_OUT_N =
    Cmd [''out'', '' '', ''('', ''N'', '')'', '', '', ''a'']
      [TT_CMD, TT_SPACE, TT_LPAREN, TT_IMM, TT_RPAREN, TT_COMMA_SPACE, TT_REG] IT_B1"

definition Z80_CMD_CNC_NN :: cmd where
  "Z80_CMD_CNC_NN =
    Cmd [''call'', '' '', ''nc'', '', '', ''NN'']
      [TT_CMD, TT_SPACE, TT_REG, TT_COMMA_SPACE, TT_IMM] IT_W1"

definition Z80_CMD_PUSH_D :: cmd where
  "Z80_CMD_PUSH_D = Cmd [''push'', '' '', ''de''] [TT_CMD, TT_SPACE, TT_REG] IT_NONE"

definition Z80_CMD_SUI_N :: cmd where
  "Z80_CMD_SUI_N = Cmd [''sub'', '' '', ''N''] [TT_CMD, TT_SPACE, TT_IMM] IT_B1"

definition Z80_CMD_RST_2 :: cmd where
  "Z80_CMD_RST_2 = Cmd [''rst'', '' '', ''10h''] [TT_CMD, TT_SPACE, TT_BIMM] IT_NONE"

definition Z80_CMD_RC :: cmd where
  "Z80_CMD_RC = Cmd [''ret'', '' '', ''c''] [TT_CMD, TT_SPACE, TT_REG] IT_NONE"

definition Z80_CMD_JC_NN :: cmd where
  "Z80_CMD_JC_NN =
    Cmd [''jp'', '' '', ''c'', '', '', ''NN'']
      [TT_CMD, TT_SPACE, TT_REG, TT_COMMA_SPACE, TT_IMM] IT_W1"

definition Z80_CMD_IN_N :: cmd where
  "Z80_CMD_IN_N =
    Cmd [''in'', '' '', ''a'', '', '', ''('', ''N'', '')'']
      [TT_CMD, TT_SPACE, TT_REG, TT_COMMA_SPACE, TT_LPAREN, TT_IMM, TT_RPAREN] IT_B1"

definition Z80_CMD_CC_NN :: cmd where
  "Z80_CMD_CC_NN =
    Cmd [''call'', '' '', ''c'', '', '', ''NN'']
      [TT_CMD, TT_SPACE, TT_REG, TT_COMMA_SPACE, TT_IMM] IT_W1"

definition Z80_CMD_SBI_N :: cmd where
  "Z80_CMD_SBI_N = Cmd [''sbc'', '' '', ''N''] [TT_CMD, TT_SPACE, TT_IMM] IT_B1"

definition Z80_CMD_RST_3 :: cmd where
  "Z80_CMD_RST_3 = Cmd [''rst'', '' '', ''20h''] [TT_CMD, TT_SPACE, TT_BIMM] IT_NONE"

definition Z80_CMD_RPO :: cmd where
  "Z80_CMD_RPO = Cmd [''ret'', '' '', ''po''] [TT_CMD, TT_SPACE, TT_REG] IT_NONE"

definition Z80_CMD_POP_H :: cmd where
  "Z80_CMD_POP_H = Cmd [''pop'', '' '', ''hl''] [TT_CMD, TT_SPACE, TT_REG] IT_NONE"

definition Z80_CMD_JPO_NN :: cmd where
  "Z80_CMD_JPO_NN =
    Cmd [''jp'', '' '', ''po'', '', '', ''NN'']
      [TT_CMD, TT_SPACE, TT_REG, TT_COMMA_SPACE, TT_IMM] IT_W1"

definition Z80_CMD_XTHL :: cmd where
  "Z80_CMD_XTHL =
    Cmd [''ex'', '' '', ''('', ''sp'', '')'', '', '', ''hl'']
      [TT_CMD, TT_SPACE, TT_LPAREN, TT_REG, TT_RPAREN, TT_COMMA_SPACE, TT_REG] IT_NONE"

definition Z80_CMD_CPO_NN :: cmd where
  "Z80_CMD_CPO_NN =
    Cmd [''call'', '' '', ''po'', '', '', ''NN'']
      [TT_CMD, TT_SPACE, TT_REG, TT_COMMA_SPACE, TT_IMM] IT_W1"

definition Z80_CMD_PUSH_H :: cmd where
  "Z80_CMD_PUSH_H = Cmd [''push'', '' '', ''hl''] [TT_CMD, TT_SPACE, TT_REG] IT_NONE"

definition Z80_CMD_ANI_N :: cmd where
  "Z80_CMD_ANI_N = Cmd [''and'', '' '', ''N''] [TT_CMD, TT_SPACE, TT_IMM] IT_B1"

definition Z80_CMD_RST_4 :: cmd where
  "Z80_CMD_RST_4 = Cmd [''rst'', '' '', ''20h''] [TT_CMD, TT_SPACE, TT_BIMM] IT_NONE"

definition Z80_CMD_RPE :: cmd where
  "Z80_CMD_RPE = Cmd [''ret'', '' '', ''pe''] [TT_CMD, TT_SPACE, TT_REG] IT_NONE"

definition Z80_CMD_PCHL :: cmd where
  "Z80_CMD_PCHL = Cmd [''jp'', '' '', ''('', ''hl'', '')''] [TT_CMD, TT_SPACE, TT_LPAREN, TT_REG, TT_RPAREN] IT_NONE"

definition Z80_CMD_JPE_NN :: cmd where
  "Z80_CMD_JPE_NN =
    Cmd [''jp'', '' '', ''pe'', '', '', ''NN'']
      [TT_CMD, TT_SPACE, TT_REG, TT_COMMA_SPACE, TT_IMM] IT_W1"

definition Z80_CMD_XCHG :: cmd where
  "Z80_CMD_XCHG =
    Cmd [''ex'', '' '', ''de'', '', '', ''hl'']
      [TT_CMD, TT_SPACE, TT_REG, TT_COMMA_SPACE, TT_REG] IT_NONE"

definition Z80_CMD_CPE_NN :: cmd where
  "Z80_CMD_CPE_NN =
    Cmd [''call'', '' '', ''pe'', '', '', ''NN'']
      [TT_CMD, TT_SPACE, TT_REG, TT_COMMA_SPACE, TT_IMM] IT_W1"

definition Z80_CMD_XRI_N :: cmd where
  "Z80_CMD_XRI_N = Cmd [''xor'', '' '', ''N''] [TT_CMD, TT_SPACE, TT_IMM] IT_B1"

definition Z80_CMD_RST_5 :: cmd where
  "Z80_CMD_RST_5 = Cmd [''rst'', '' '', ''28h''] [TT_CMD, TT_SPACE, TT_BIMM] IT_NONE"

definition Z80_CMD_RP :: cmd where
  "Z80_CMD_RP = Cmd [''ret'', '' '', ''p''] [TT_CMD, TT_SPACE, TT_REG] IT_NONE"

definition Z80_CMD_POP_PSW :: cmd where
  "Z80_CMD_POP_PSW = Cmd [''pop'', '' '', ''psw''] [TT_CMD, TT_SPACE, TT_REG] IT_NONE"

definition Z80_CMD_JP_NN :: cmd where
  "Z80_CMD_JP_NN =
    Cmd [''jp'', '' '', ''p'', '', '', ''NN'']
      [TT_CMD, TT_SPACE, TT_REG, TT_COMMA_SPACE, TT_IMM] IT_W1"

definition Z80_CMD_DI :: cmd where
  "Z80_CMD_DI = Cmd [''di''] [TT_CMD] IT_NONE"

definition Z80_CMD_CP_NN :: cmd where
  "Z80_CMD_CP_NN =
    Cmd [''call'', '' '', ''p'', '', '', ''NN'']
      [TT_CMD, TT_SPACE, TT_REG, TT_COMMA_SPACE, TT_IMM] IT_W1"

definition Z80_CMD_PUSH_PSW :: cmd where
  "Z80_CMD_PUSH_PSW = Cmd [''push'', '' '', ''psw''] [TT_CMD, TT_SPACE, TT_REG] IT_NONE"

definition Z80_CMD_ORI_N :: cmd where
  "Z80_CMD_ORI_N = Cmd [''ora'', '' '', ''N''] [TT_CMD, TT_SPACE, TT_IMM] IT_B1"

definition Z80_CMD_RST_6 :: cmd where
  "Z80_CMD_RST_6 = Cmd [''rst'', '' '', ''30h''] [TT_CMD, TT_SPACE, TT_BIMM] IT_NONE"

definition Z80_CMD_RM :: cmd where
  "Z80_CMD_RM = Cmd [''ret'', '' '', ''m''] [TT_CMD, TT_SPACE, TT_REG] IT_NONE"

definition Z80_CMD_SPHL :: cmd where
  "Z80_CMD_SPHL =
    Cmd [''ld'', '' '', ''sp'', '', '', ''hl'']
      [TT_CMD, TT_SPACE, TT_REG, TT_COMMA_SPACE, TT_REG] IT_NONE"

definition Z80_CMD_JM_NN :: cmd where
  "Z80_CMD_JM_NN =
    Cmd [''jp'', '' '', ''m'', '', '', ''NN'']
      [TT_CMD, TT_SPACE, TT_REG, TT_COMMA_SPACE, TT_IMM] IT_W1"

definition Z80_CMD_EI :: cmd where
  "Z80_CMD_EI = Cmd [''ei''] [TT_CMD] IT_NONE"

definition Z80_CMD_CM_NN :: cmd where
  "Z80_CMD_CM_NN =
    Cmd [''call'', '' '', ''m'', '', '', ''NN'']
      [TT_CMD, TT_SPACE, TT_REG, TT_COMMA_SPACE, TT_IMM] IT_W1"

definition Z80_CMD_CPI_N :: cmd where
  "Z80_CMD_CPI_N = Cmd [''cp'', '' '', ''N''] [TT_CMD, TT_SPACE, TT_IMM] IT_B1"

definition Z80_CMD_RST_7 :: cmd where
  "Z80_CMD_RST_7 = Cmd [''rst'', '' '', ''38h''] [TT_CMD, TT_SPACE, TT_BIMM] IT_NONE"

definition Z80_CMD_DB_N :: cmd where
  "Z80_CMD_DB_N = Cmd [''db'', '' ''] [TT_CMD, TT_SPACE, TT_IMM] IT_B0"

section \<open>The array\<close>

text \<open>The array, its two halves of 128 opcodes first.\<close>

definition cmds_z80_low :: "cmd list" where
  "cmds_z80_low =
    [Z80_CMD_NOP, Z80_CMD_LXI_B_NN, Z80_CMD_STAX_B, Z80_CMD_INX_B, Z80_CMD_INR_B, Z80_CMD_DCR_B, Z80_CMD_MVI_B_N,
     Z80_CMD_RLC, Z80_CMD_DB_N, Z80_CMD_DAD_B, Z80_CMD_LDAX_B, Z80_CMD_DCX_B, Z80_CMD_INR_C, Z80_CMD_DCR_C,
     Z80_CMD_MVI_C_N, Z80_CMD_RRC, Z80_CMD_DB_N, Z80_CMD_LXI_D, Z80_CMD_STAX_D, Z80_CMD_INX_D, Z80_CMD_INR_D,
     Z80_CMD_DCR_D, Z80_CMD_MVI_D_N, Z80_CMD_RAL, Z80_CMD_DB_N, Z80_CMD_DAD_D, Z80_CMD_LDAX_D, Z80_CMD_DCX_D,
     Z80_CMD_INR_E, Z80_CMD_DCR_E, Z80_CMD_MVI_E_N, Z80_CMD_RAR, Z80_CMD_DB_N, Z80_CMD_LXI_H, Z80_CMD_SHLD_NN,
     Z80_CMD_INX_H, Z80_CMD_INR_H, Z80_CMD_DCR_H, Z80_CMD_MVI_H_N, Z80_CMD_DAA, Z80_CMD_DB_N, Z80_CMD_DAD_H,
     Z80_CMD_LHLD_NN, Z80_CMD_DCX_H, Z80_CMD_INR_L, Z80_CMD_DCR_L, Z80_CMD_MVI_L_N, Z80_CMD_CMA, Z80_CMD_DB_N,
     Z80_CMD_LXI_SP, Z80_CMD_STA_NN, Z80_CMD_INX_SP, Z80_CMD_INR_M, Z80_CMD_DCR_M, Z80_CMD_MVI_M_N, Z80_CMD_STC,
     Z80_CMD_DB_N, Z80_CMD_DAD_SP, Z80_CMD_LDA_NN, Z80_CMD_DCX_SP, Z80_CMD_INR_A, Z80_CMD_DCR_A, Z80_CMD_MVI_A_N,
     Z80_CMD_CMC, Z80_CMD_MOV_B_B, Z80_CMD_MOV_B_C, Z80_CMD_MOV_B_D, Z80_CMD_MOV_B_E, Z80_CMD_MOV_B_H,
     Z80_CMD_MOV_B_L, Z80_CMD_MOV_B_M, Z80_CMD_MOV_B_A, Z80_CMD_MOV_C_B, Z80_CMD_MOV_C_C, Z80_CMD_MOV_C_D,
     Z80_CMD_MOV_C_E, Z80_CMD_MOV_C_H, Z80_CMD_MOV_C_L, Z80_CMD_MOV_C_M, Z80_CMD_MOV_C_A, Z80_CMD_MOV_D_B,
     Z80_CMD_MOV_D_C, Z80_CMD_MOV_D_D, Z80_CMD_MOV_D_E, Z80_CMD_MOV_D_H, Z80_CMD_MOV_D_L, Z80_CMD_MOV_D_M,
     Z80_CMD_MOV_D_A, Z80_CMD_MOV_E_B, Z80_CMD_MOV_E_C, Z80_CMD_MOV_E_D, Z80_CMD_MOV_E_E, Z80_CMD_MOV_E_H,
     Z80_CMD_MOV_E_L, Z80_CMD_MOV_E_M, Z80_CMD_MOV_E_A, Z80_CMD_MOV_H_B, Z80_CMD_MOV_H_C, Z80_CMD_MOV_H_D,
     Z80_CMD_MOV_H_E, Z80_CMD_MOV_H_H, Z80_CMD_MOV_H_L, Z80_CMD_MOV_H_M, Z80_CMD_MOV_H_A, Z80_CMD_MOV_L_B,
     Z80_CMD_MOV_L_C, Z80_CMD_MOV_L_D, Z80_CMD_MOV_L_E, Z80_CMD_MOV_L_H, Z80_CMD_MOV_L_L, Z80_CMD_MOV_L_M,
     Z80_CMD_MOV_L_A, Z80_CMD_MOV_M_B, Z80_CMD_MOV_M_C, Z80_CMD_MOV_M_D, Z80_CMD_MOV_M_E, Z80_CMD_MOV_M_H,
     Z80_CMD_MOV_M_L, Z80_CMD_HLT, Z80_CMD_MOV_M_A, Z80_CMD_MOV_A_B, Z80_CMD_MOV_A_C, Z80_CMD_MOV_A_D,
     Z80_CMD_MOV_A_E, Z80_CMD_MOV_A_H, Z80_CMD_MOV_A_L, Z80_CMD_MOV_A_M, Z80_CMD_MOV_A_A]"

definition cmds_z80_high :: "cmd list" where
  "cmds_z80_high =
    [Z80_CMD_ADD_B, Z80_CMD_ADD_C, Z80_CMD_ADD_D, Z80_CMD_ADD_E, Z80_CMD_ADD_H, Z80_CMD_ADD_L, Z80_CMD_ADD_M,
     Z80_CMD_ADD_A, Z80_CMD_ADC_B, Z80_CMD_ADC_C, Z80_CMD_ADC_D, Z80_CMD_ADC_E, Z80_CMD_ADC_H, Z80_CMD_ADC_L,
     Z80_CMD_ADC_M, Z80_CMD_ADC_A, Z80_CMD_SUB_B, Z80_CMD_SUB_C, Z80_CMD_SUB_D, Z80_CMD_SUB_E, Z80_CMD_SUB_H,
     Z80_CMD_SUB_L, Z80_CMD_SUB_M, Z80_CMD_SUB_A, Z80_CMD_SBB_B, Z80_CMD_SBB_C, Z80_CMD_SBB_D, Z80_CMD_SBB_E,
     Z80_CMD_SBB_H, Z80_CMD_SBB_L, Z80_CMD_SBB_M, Z80_CMD_SBB_A, Z80_CMD_ANA_B, Z80_CMD_ANA_C, Z80_CMD_ANA_D,
     Z80_CMD_ANA_E, Z80_CMD_ANA_H, Z80_CMD_ANA_L, Z80_CMD_ANA_M, Z80_CMD_ANA_A, Z80_CMD_XRA_B, Z80_CMD_XRA_C,
     Z80_CMD_XRA_D, Z80_CMD_XRA_E, Z80_CMD_XRA_H, Z80_CMD_XRA_L, Z80_CMD_XRA_M, Z80_CMD_XRA_A, Z80_CMD_ORA_B,
     Z80_CMD_ORA_C, Z80_CMD_ORA_D, Z80_CMD_ORA_E, Z80_CMD_ORA_H, Z80_CMD_ORA_L, Z80_CMD_ORA_M, Z80_CMD_ORA_A,
     Z80_CMD_CMP_B, Z80_CMD_CMP_C, Z80_CMD_CMP_D, Z80_CMD_CMP_E, Z80_CMD_CMP_H, Z80_CMD_CMP_L, Z80_CMD_CMP_M,
     Z80_CMD_CMP_A, Z80_CMD_RNZ, Z80_CMD_POP_B, Z80_CMD_JNZ_NN, Z80_CMD_JMP_NN, Z80_CMD_CNZ_NN, Z80_CMD_PUSH_B,
     Z80_CMD_ADI_N, Z80_CMD_RST_0, Z80_CMD_RZ, Z80_CMD_RET, Z80_CMD_JZ_NN, Z80_CMD_DB_N, Z80_CMD_CZ_NN,
     Z80_CMD_CALL_NN, Z80_CMD_ACI_N, Z80_CMD_RST_1, Z80_CMD_RNC, Z80_CMD_POP_D, Z80_CMD_JNC_NN, Z80_CMD_OUT_N,
     Z80_CMD_CNC_NN, Z80_CMD_PUSH_D, Z80_CMD_SUI_N, Z80_CMD_RST_2, Z80_CMD_RC, Z80_CMD_DB_N, Z80_CMD_JC_NN,
     Z80_CMD_IN_N, Z80_CMD_CC_NN, Z80_CMD_DB_N, Z80_CMD_SBI_N, Z80_CMD_RST_3, Z80_CMD_RPO, Z80_CMD_POP_H,
     Z80_CMD_JPO_NN, Z80_CMD_XTHL, Z80_CMD_CPO_NN, Z80_CMD_PUSH_H, Z80_CMD_ANI_N, Z80_CMD_RST_4, Z80_CMD_RPE,
     Z80_CMD_PCHL, Z80_CMD_JPE_NN, Z80_CMD_XCHG, Z80_CMD_CPE_NN, Z80_CMD_DB_N, Z80_CMD_XRI_N, Z80_CMD_RST_5,
     Z80_CMD_RP, Z80_CMD_POP_PSW, Z80_CMD_JP_NN, Z80_CMD_DI, Z80_CMD_CP_NN, Z80_CMD_PUSH_PSW, Z80_CMD_ORI_N,
     Z80_CMD_RST_6, Z80_CMD_RM, Z80_CMD_SPHL, Z80_CMD_JM_NN, Z80_CMD_EI, Z80_CMD_CM_NN, Z80_CMD_DB_N,
     Z80_CMD_CPI_N, Z80_CMD_RST_7]"

definition cmds_z80 :: "cmd list" where
  "cmds_z80 = cmds_z80_low @ cmds_z80_high"

lemmas z80_cmd_defs =
  Z80_CMD_NOP_def Z80_CMD_LXI_B_NN_def Z80_CMD_STAX_B_def Z80_CMD_INX_B_def Z80_CMD_INR_B_def Z80_CMD_DCR_B_def
  Z80_CMD_MVI_B_N_def Z80_CMD_RLC_def Z80_CMD_DAD_B_def Z80_CMD_LDAX_B_def Z80_CMD_DCX_B_def Z80_CMD_INR_C_def
  Z80_CMD_DCR_C_def Z80_CMD_MVI_C_N_def Z80_CMD_RRC_def Z80_CMD_LXI_D_def Z80_CMD_STAX_D_def Z80_CMD_INX_D_def
  Z80_CMD_INR_D_def Z80_CMD_DCR_D_def Z80_CMD_MVI_D_N_def Z80_CMD_RAL_def Z80_CMD_DAD_D_def Z80_CMD_LDAX_D_def
  Z80_CMD_DCX_D_def Z80_CMD_INR_E_def Z80_CMD_DCR_E_def Z80_CMD_MVI_E_N_def Z80_CMD_RAR_def Z80_CMD_LXI_H_def
  Z80_CMD_SHLD_NN_def Z80_CMD_INX_H_def Z80_CMD_INR_H_def Z80_CMD_DCR_H_def Z80_CMD_MVI_H_N_def Z80_CMD_DAA_def
  Z80_CMD_DAD_H_def Z80_CMD_LHLD_NN_def Z80_CMD_DCX_H_def Z80_CMD_INR_L_def Z80_CMD_DCR_L_def Z80_CMD_MVI_L_N_def
  Z80_CMD_CMA_def Z80_CMD_LXI_SP_def Z80_CMD_STA_NN_def Z80_CMD_INX_SP_def Z80_CMD_INR_M_def Z80_CMD_DCR_M_def
  Z80_CMD_MVI_M_N_def Z80_CMD_STC_def Z80_CMD_DAD_SP_def Z80_CMD_LDA_NN_def Z80_CMD_DCX_SP_def Z80_CMD_INR_A_def
  Z80_CMD_DCR_A_def Z80_CMD_MVI_A_N_def Z80_CMD_CMC_def Z80_CMD_MOV_B_B_def Z80_CMD_MOV_B_C_def Z80_CMD_MOV_B_D_def
  Z80_CMD_MOV_B_E_def Z80_CMD_MOV_B_H_def Z80_CMD_MOV_B_L_def Z80_CMD_MOV_B_M_def Z80_CMD_MOV_B_A_def
  Z80_CMD_MOV_C_B_def Z80_CMD_MOV_C_C_def Z80_CMD_MOV_C_D_def Z80_CMD_MOV_C_E_def Z80_CMD_MOV_C_H_def
  Z80_CMD_MOV_C_L_def Z80_CMD_MOV_C_M_def Z80_CMD_MOV_C_A_def Z80_CMD_MOV_D_B_def Z80_CMD_MOV_D_C_def
  Z80_CMD_MOV_D_D_def Z80_CMD_MOV_D_E_def Z80_CMD_MOV_D_H_def Z80_CMD_MOV_D_L_def Z80_CMD_MOV_D_M_def
  Z80_CMD_MOV_D_A_def Z80_CMD_MOV_E_B_def Z80_CMD_MOV_E_C_def Z80_CMD_MOV_E_D_def Z80_CMD_MOV_E_E_def
  Z80_CMD_MOV_E_H_def Z80_CMD_MOV_E_L_def Z80_CMD_MOV_E_M_def Z80_CMD_MOV_E_A_def Z80_CMD_MOV_H_B_def
  Z80_CMD_MOV_H_C_def Z80_CMD_MOV_H_D_def Z80_CMD_MOV_H_E_def Z80_CMD_MOV_H_H_def Z80_CMD_MOV_H_L_def
  Z80_CMD_MOV_H_M_def Z80_CMD_MOV_H_A_def Z80_CMD_MOV_L_B_def Z80_CMD_MOV_L_C_def Z80_CMD_MOV_L_D_def
  Z80_CMD_MOV_L_E_def Z80_CMD_MOV_L_H_def Z80_CMD_MOV_L_L_def Z80_CMD_MOV_L_M_def Z80_CMD_MOV_L_A_def
  Z80_CMD_MOV_M_B_def Z80_CMD_MOV_M_C_def Z80_CMD_MOV_M_D_def Z80_CMD_MOV_M_E_def Z80_CMD_MOV_M_H_def
  Z80_CMD_MOV_M_L_def Z80_CMD_HLT_def Z80_CMD_MOV_M_A_def Z80_CMD_MOV_A_B_def Z80_CMD_MOV_A_C_def
  Z80_CMD_MOV_A_D_def Z80_CMD_MOV_A_E_def Z80_CMD_MOV_A_H_def Z80_CMD_MOV_A_L_def Z80_CMD_MOV_A_M_def
  Z80_CMD_MOV_A_A_def Z80_CMD_ADD_B_def Z80_CMD_ADD_C_def Z80_CMD_ADD_D_def Z80_CMD_ADD_E_def Z80_CMD_ADD_H_def
  Z80_CMD_ADD_L_def Z80_CMD_ADD_M_def Z80_CMD_ADD_A_def Z80_CMD_ADC_B_def Z80_CMD_ADC_C_def Z80_CMD_ADC_D_def
  Z80_CMD_ADC_E_def Z80_CMD_ADC_H_def Z80_CMD_ADC_L_def Z80_CMD_ADC_M_def Z80_CMD_ADC_A_def Z80_CMD_SUB_B_def
  Z80_CMD_SUB_C_def Z80_CMD_SUB_D_def Z80_CMD_SUB_E_def Z80_CMD_SUB_H_def Z80_CMD_SUB_L_def Z80_CMD_SUB_M_def
  Z80_CMD_SUB_A_def Z80_CMD_SBB_B_def Z80_CMD_SBB_C_def Z80_CMD_SBB_D_def Z80_CMD_SBB_E_def Z80_CMD_SBB_H_def
  Z80_CMD_SBB_L_def Z80_CMD_SBB_M_def Z80_CMD_SBB_A_def Z80_CMD_ANA_B_def Z80_CMD_ANA_C_def Z80_CMD_ANA_D_def
  Z80_CMD_ANA_E_def Z80_CMD_ANA_H_def Z80_CMD_ANA_L_def Z80_CMD_ANA_M_def Z80_CMD_ANA_A_def Z80_CMD_XRA_B_def
  Z80_CMD_XRA_C_def Z80_CMD_XRA_D_def Z80_CMD_XRA_E_def Z80_CMD_XRA_H_def Z80_CMD_XRA_L_def Z80_CMD_XRA_M_def
  Z80_CMD_XRA_A_def Z80_CMD_ORA_B_def Z80_CMD_ORA_C_def Z80_CMD_ORA_D_def Z80_CMD_ORA_E_def Z80_CMD_ORA_H_def
  Z80_CMD_ORA_L_def Z80_CMD_ORA_M_def Z80_CMD_ORA_A_def Z80_CMD_CMP_B_def Z80_CMD_CMP_C_def Z80_CMD_CMP_D_def
  Z80_CMD_CMP_E_def Z80_CMD_CMP_H_def Z80_CMD_CMP_L_def Z80_CMD_CMP_M_def Z80_CMD_CMP_A_def Z80_CMD_RNZ_def
  Z80_CMD_POP_B_def Z80_CMD_JNZ_NN_def Z80_CMD_JMP_NN_def Z80_CMD_CNZ_NN_def Z80_CMD_PUSH_B_def Z80_CMD_ADI_N_def
  Z80_CMD_RST_0_def Z80_CMD_RZ_def Z80_CMD_RET_def Z80_CMD_JZ_NN_def Z80_CMD_CZ_NN_def Z80_CMD_CALL_NN_def
  Z80_CMD_ACI_N_def Z80_CMD_RST_1_def Z80_CMD_RNC_def Z80_CMD_POP_D_def Z80_CMD_JNC_NN_def Z80_CMD_OUT_N_def
  Z80_CMD_CNC_NN_def Z80_CMD_PUSH_D_def Z80_CMD_SUI_N_def Z80_CMD_RST_2_def Z80_CMD_RC_def Z80_CMD_JC_NN_def
  Z80_CMD_IN_N_def Z80_CMD_CC_NN_def Z80_CMD_SBI_N_def Z80_CMD_RST_3_def Z80_CMD_RPO_def Z80_CMD_POP_H_def
  Z80_CMD_JPO_NN_def Z80_CMD_XTHL_def Z80_CMD_CPO_NN_def Z80_CMD_PUSH_H_def Z80_CMD_ANI_N_def Z80_CMD_RST_4_def
  Z80_CMD_RPE_def Z80_CMD_PCHL_def Z80_CMD_JPE_NN_def Z80_CMD_XCHG_def Z80_CMD_CPE_NN_def Z80_CMD_XRI_N_def
  Z80_CMD_RST_5_def Z80_CMD_RP_def Z80_CMD_POP_PSW_def Z80_CMD_JP_NN_def Z80_CMD_DI_def Z80_CMD_CP_NN_def
  Z80_CMD_PUSH_PSW_def Z80_CMD_ORI_N_def Z80_CMD_RST_6_def Z80_CMD_RM_def Z80_CMD_SPHL_def Z80_CMD_JM_NN_def
  Z80_CMD_EI_def Z80_CMD_CM_NN_def Z80_CMD_CPI_N_def Z80_CMD_RST_7_def Z80_CMD_DB_N_def

end
