(* ===== verification/Disasm_Text.thy ===== *)
theory Disasm_Text
  imports Disasm_I8080 Disasm_Z80 Cpu_Isa
begin

text \<open>
  What the tables of the disassembler should say: the reference instruction set printed in the
  Intel and in the Zilog notation. The tables are compared with it opcode by opcode; the opcodes
  that no document names are shown as data, although the processor executes them as aliases.
\<close>

section \<open>The Intel notation\<close>

fun intel_reg :: "reg8 \<Rightarrow> string" where
  "intel_reg A = ''a''" | "intel_reg F = ''f''" | "intel_reg B = ''b''" | "intel_reg C = ''c''"
| "intel_reg D = ''d''" | "intel_reg E = ''e''" | "intel_reg H = ''h''" | "intel_reg L = ''l''"
| "intel_reg SPH = ''sp''" | "intel_reg _ = []"

fun intel_alu :: "alu_op \<Rightarrow> string" where
  "intel_alu Add = ''add''" | "intel_alu Adc = ''adc''" | "intel_alu Sub = ''sub''" | "intel_alu Sbb = ''sbb''"
| "intel_alu Ana = ''ana''" | "intel_alu Xra = ''xra''" | "intel_alu Ora = ''ora''" | "intel_alu Cmp = ''cmp''"

fun intel_alui :: "alu_op \<Rightarrow> string" where
  "intel_alui Add = ''adi''" | "intel_alui Adc = ''aci''" | "intel_alui Sub = ''sui''" | "intel_alui Sbb = ''sbi''"
| "intel_alui Ana = ''ani''" | "intel_alui Xra = ''xri''" | "intel_alui Ora = ''ori''" | "intel_alui Cmp = ''cpi''"

fun intel_cond :: "cond \<Rightarrow> string" where
  "intel_cond (When FZ b) = (if b then ''z'' else ''nz'')"
| "intel_cond (When FC b) = (if b then ''c'' else ''nc'')"
| "intel_cond (When FP b) = (if b then ''pe'' else ''po'')"
| "intel_cond (When FS b) = (if b then ''m'' else ''p'')"
| "intel_cond _ = []"

fun intel_text :: "string \<Rightarrow> isa_op \<Rightarrow> string" where
  "intel_text imm (OMov r s) = ''mov '' @ intel_reg r @ '', '' @ intel_reg s"
| "intel_text imm (OLoad r p) = (if p = HL then ''mov '' @ intel_reg r @ '', m'' else ''ldax '' @ intel_reg (hi_of p))"
| "intel_text imm (OStore p r) = (if p = HL then ''mov m, '' @ intel_reg r else ''stax '' @ intel_reg (hi_of p))"
| "intel_text imm (OMvi r) = ''mvi '' @ intel_reg r @ '', '' @ imm"
| "intel_text imm OMviM = ''mvi m, '' @ imm"
| "intel_text imm OLda = ''lda '' @ imm"
| "intel_text imm OSta = ''sta '' @ imm"
| "intel_text imm (OLxi h l) = ''lxi '' @ intel_reg h @ '', '' @ imm"
| "intel_text imm OLhld = ''lhld '' @ imm"
| "intel_text imm OShld = ''shld '' @ imm"
| "intel_text imm OSphl = ''sphl''"
| "intel_text imm OXchg = ''xchg''"
| "intel_text imm OXthl = ''xthl''"
| "intel_text imm (OPush h l) = ''push '' @ (if h = A then ''psw'' else intel_reg h)"
| "intel_text imm (OPop h l) = ''pop '' @ intel_reg h"
| "intel_text imm OPopPsw = ''pop psw''"
| "intel_text imm (OAlu x r) = intel_alu x @ '' '' @ intel_reg r"
| "intel_text imm (OAluM x) = intel_alu x @ '' m''"
| "intel_text imm (OAluI x) = intel_alui x @ '' '' @ imm"
| "intel_text imm (ODad p) = ''dad '' @ intel_reg (hi_of p)"
| "intel_text imm (OInr r) = ''inr '' @ intel_reg r"
| "intel_text imm OInrM = ''inr m''"
| "intel_text imm (ODcr r) = ''dcr '' @ intel_reg r"
| "intel_text imm ODcrM = ''dcr m''"
| "intel_text imm (OInx p) = ''inx '' @ intel_reg (hi_of p)"
| "intel_text imm (ODcx p) = ''dcx '' @ intel_reg (hi_of p)"
| "intel_text imm ODaa = ''daa''"
| "intel_text imm OCma = ''cma''"
| "intel_text imm OStc = ''stc''"
| "intel_text imm OCmc = ''cmc''"
| "intel_text imm ORlc = ''rlc''"
| "intel_text imm ORrc = ''rrc''"
| "intel_text imm ORal = ''ral''"
| "intel_text imm ORar = ''rar''"
| "intel_text imm (OJmp c) = (if c = Always then ''jmp '' else ''j'' @ intel_cond c @ '' '') @ imm"
| "intel_text imm OPchl = ''pchl''"
| "intel_text imm (OCall c) = (if c = Always then ''call '' else ''c'' @ intel_cond c @ '' '') @ imm"
| "intel_text imm (ORet c) = (if c = Always then ''ret'' else ''r'' @ intel_cond c)"
| "intel_text imm (ORst n) = ''rst '' @ [digit_char True (unat n)]"
| "intel_text imm OIn = ''in '' @ imm"
| "intel_text imm OOut = ''out '' @ imm"
| "intel_text imm OEi = ''ei''"
| "intel_text imm ODi = ''di''"
| "intel_text imm OHlt = ''hlt''"
| "intel_text imm ONop = ''nop''"

section \<open>The Zilog notation\<close>

fun zilog_pair :: "reg8 \<Rightarrow> string" where
  "zilog_pair B = ''bc''" | "zilog_pair D = ''de''" | "zilog_pair H = ''hl''" | "zilog_pair SPH = ''sp''"
| "zilog_pair A = ''af''" | "zilog_pair _ = []"

fun zilog_alu :: "alu_op \<Rightarrow> string" where
  "zilog_alu Add = ''add a, ''" | "zilog_alu Adc = ''adc a, ''" | "zilog_alu Sub = ''sub ''" | "zilog_alu Sbb = ''sbc a, ''"
| "zilog_alu Ana = ''and ''" | "zilog_alu Xra = ''xor ''" | "zilog_alu Ora = ''or ''" | "zilog_alu Cmp = ''cp ''"

fun zilog_text :: "string \<Rightarrow> isa_op \<Rightarrow> string" where
  "zilog_text imm (OMov r s) = ''ld '' @ intel_reg r @ '', '' @ intel_reg s"
| "zilog_text imm (OLoad r p) = ''ld '' @ intel_reg r @ '', ('' @ zilog_pair (hi_of p) @ '')''"
| "zilog_text imm (OStore p r) = ''ld ('' @ zilog_pair (hi_of p) @ ''), '' @ intel_reg r"
| "zilog_text imm (OMvi r) = ''ld '' @ intel_reg r @ '', '' @ imm"
| "zilog_text imm OMviM = ''ld (hl), '' @ imm"
| "zilog_text imm OLda = ''ld a, ('' @ imm @ '')''"
| "zilog_text imm OSta = ''ld ('' @ imm @ ''), a''"
| "zilog_text imm (OLxi h l) = ''ld '' @ zilog_pair h @ '', '' @ imm"
| "zilog_text imm OLhld = ''ld hl, ('' @ imm @ '')''"
| "zilog_text imm OShld = ''ld ('' @ imm @ ''), hl''"
| "zilog_text imm OSphl = ''ld sp, hl''"
| "zilog_text imm OXchg = ''ex de, hl''"
| "zilog_text imm OXthl = ''ex (sp), hl''"
| "zilog_text imm (OPush h l) = ''push '' @ zilog_pair h"
| "zilog_text imm (OPop h l) = ''pop '' @ zilog_pair h"
| "zilog_text imm OPopPsw = ''pop af''"
| "zilog_text imm (OAlu x r) = zilog_alu x @ intel_reg r"
| "zilog_text imm (OAluM x) = zilog_alu x @ ''(hl)''"
| "zilog_text imm (OAluI x) = zilog_alu x @ imm"
| "zilog_text imm (ODad p) = ''add hl, '' @ zilog_pair (hi_of p)"
| "zilog_text imm (OInr r) = ''inc '' @ intel_reg r"
| "zilog_text imm OInrM = ''inc (hl)''"
| "zilog_text imm (ODcr r) = ''dec '' @ intel_reg r"
| "zilog_text imm ODcrM = ''dec (hl)''"
| "zilog_text imm (OInx p) = ''inc '' @ zilog_pair (hi_of p)"
| "zilog_text imm (ODcx p) = ''dec '' @ zilog_pair (hi_of p)"
| "zilog_text imm ODaa = ''daa''"
| "zilog_text imm OCma = ''cpl''"
| "zilog_text imm OStc = ''scf''"
| "zilog_text imm OCmc = ''ccf''"
| "zilog_text imm ORlc = ''rlca''"
| "zilog_text imm ORrc = ''rrca''"
| "zilog_text imm ORal = ''rla''"
| "zilog_text imm ORar = ''rra''"
| "zilog_text imm (OJmp c) = ''jp '' @ (if c = Always then [] else intel_cond c @ '', '') @ imm"
| "zilog_text imm OPchl = ''jp (hl)''"
| "zilog_text imm (OCall c) = ''call '' @ (if c = Always then [] else intel_cond c @ '', '') @ imm"
| "zilog_text imm (ORet c) = ''ret'' @ (if c = Always then [] else '' '' @ intel_cond c)"
| "zilog_text imm (ORst n) =
    ''rst '' @ (if n < 2 then hex_text True 1 (8 * unat n) else hex_text True 1 (8 * unat n) @ ''h'')"
| "zilog_text imm OIn = ''in a, ('' @ imm @ '')''"
| "zilog_text imm OOut = ''out ('' @ imm @ ''), a''"
| "zilog_text imm OEi = ''ei''"
| "zilog_text imm ODi = ''di''"
| "zilog_text imm OHlt = ''halt''"
| "zilog_text imm ONop = ''nop''"

section \<open>Comparing the tables\<close>

definition db_opcodes :: "nat list" where
  "db_opcodes = [0x08, 0x10, 0x18, 0x20, 0x28, 0x30, 0x38, 0xCB, 0xD9, 0xDD, 0xED, 0xFD]"

definition expected :: "(string \<Rightarrow> isa_op \<Rightarrow> string) \<Rightarrow> string \<Rightarrow> nat \<Rightarrow> string" where
  "expected text imm op = (if op \<in> set db_opcodes then ''db '' @ imm else text imm (isa_decode op))"

text \<open>The operand by the length of the instruction; the byte of a data line is the opcode itself.\<close>

definition expected_imm :: "nat \<Rightarrow> imm_type" where
  "expected_imm op =
    (if op \<in> set db_opcodes then IT_B0
     else let n = isa_length (isa_decode op) in if n = 1 then IT_NONE else if n = 2 then IT_B1 else IT_W1)"

definition row_ok :: "nat \<Rightarrow> cmd \<Rightarrow> bool" where
  "row_ok op c \<longleftrightarrow> imm_type c = expected_imm op \<and> tokens_ok c"

lemma digit_chars:
  "char_of (48 :: nat) = CHR ''0''" "char_of (49 :: nat) = CHR ''1''" "char_of (50 :: nat) = CHR ''2''"
  "char_of (51 :: nat) = CHR ''3''" "char_of (52 :: nat) = CHR ''4''" "char_of (53 :: nat) = CHR ''5''"
  "char_of (54 :: nat) = CHR ''6''" "char_of (55 :: nat) = CHR ''7''" "char_of (56 :: nat) = CHR ''8''"
  by code_simp+

lemmas decode_simps = isa_decode_def decode_block0_def decode_block3_def reg_of_def pair_of_def alu_of_def cond_of_def
lemmas text_simps = expected_def db_opcodes_def cmd_text_def token_text_def upt_rec digit_char_def hex_text_def
  pad_left_def hex_digits.simps digit_chars
lemmas row_simps = row_ok_def expected_imm_def db_opcodes_def tokens_ok_def CMD_TOKENS_MAX_def upt_rec

lemma intel_rows:
  "list_all2 (\<lambda>op c. cmd_text imm c = expected intel_text imm op) [0..<128] cmds_i8080_low"
  "list_all2 (\<lambda>op c. cmd_text imm c = expected intel_text imm op) [128..<256] cmds_i8080_high"
  "list_all2 row_ok [0..<128] cmds_i8080_low" "list_all2 row_ok [128..<256] cmds_i8080_high"
  by (simp_all add: cmds_i8080_low_def cmds_i8080_high_def i8080_cmd_defs text_simps row_simps decode_simps)

text \<open>The opcodes whose Zilog text is not the one of the notation.\<close>

definition z80_misprints :: "nat list" where
  "z80_misprints =
    [0x70, 0x71, 0x72, 0x73, 0x74, 0x75, 0x76, 0x77, 0x7E, 0x98, 0x99, 0x9A, 0x9B, 0x9C, 0x9D, 0x9E, 0x9F,
     0xCA, 0xDE, 0xDF, 0xF1, 0xF5, 0xF6]"

lemma zilog_rows:
  "list_all2 (\<lambda>op c. (cmd_text imm c = expected zilog_text imm op) = (op \<notin> set z80_misprints)) [0..<128] cmds_z80_low"
  "list_all2 (\<lambda>op c. (cmd_text imm c = expected zilog_text imm op) = (op \<notin> set z80_misprints)) [128..<256] cmds_z80_high"
  "list_all2 row_ok [0..<128] cmds_z80_low" "list_all2 row_ok [128..<256] cmds_z80_high"
  by (simp_all add: cmds_z80_low_def cmds_z80_high_def z80_cmd_defs text_simps row_simps decode_simps z80_misprints_def)

lemma rows_all:
  assumes "list_all2 P [0..<128] xs" "list_all2 P [128..<256] ys" "n < 256"
  shows "P n ((xs @ ys) ! n)"
proof -
  have "list_all2 P ([0..<128] @ [128..<256]) (xs @ ys)" using assms(1,2) by (rule list_all2_appendI)
  moreover have "[0..<128] @ [128..<256] = [0..<256 :: nat]" using upt_add_eq_append [of 0 128 128] by simp
  ultimately have "list_all2 P [0..<256] (xs @ ys)" by simp
  then show ?thesis using assms(3) list_all2_nthD [of P "[0..<256]" "xs @ ys" n] by simp
qed

section \<open>Properties\<close>

text \<open>C33: the Intel table prints every documented opcode as the mnemonic of the instruction the
  processor executes, with the operand in its place, and gives the operand the size the processor
  fetches; the undocumented opcodes are shown as data bytes.\<close>

theorem intel_table:
  "cmd_text imm (cmds_i8080 ! unat (op :: u8)) = expected intel_text imm (unat op) \<and>
    row_ok (unat op) (cmds_i8080 ! unat op)"
proof -
  have n: "unat op < 256" using unsigned_less [where 'a = nat, of op] by simp
  show ?thesis unfolding cmds_i8080_def
    using rows_all [OF intel_rows(1,2) n] rows_all [OF intel_rows(3,4) n] by blast
qed

text \<open>C34: the Zilog table does the same with the exception of 23 opcodes: a missing comma
  (\<open>ld (hl) b\<close>, \<open>jp z NN\<close>), Intel names (\<open>hlt\<close>, \<open>m\<close>, \<open>psw\<close>, \<open>ora\<close>), \<open>sbc\<close> without the
  accumulator, and RST 18h printed as \<open>rst 20h\<close>, the text of another instruction.\<close>

theorem zilog_table:
  "(cmd_text imm (cmds_z80 ! unat (op :: u8)) = expected zilog_text imm (unat op)) = (unat op \<notin> set z80_misprints) \<and>
    row_ok (unat op) (cmds_z80 ! unat op) \<and>
    cmd_text imm (cmds_z80 ! 0xDF) = zilog_text imm (isa_decode 0xE7)"
proof -
  have n: "unat op < 256" using unsigned_less [where 'a = nat, of op] by simp
  have "cmd_text imm (cmds_z80 ! 0xDF) = zilog_text imm (isa_decode 0xE7)"
    by (simp add: cmds_z80_def cmds_z80_low_def cmds_z80_high_def nth_append z80_cmd_defs text_simps decode_simps)
  with rows_all [OF zilog_rows(1,2) n] rows_all [OF zilog_rows(3,4) n] show ?thesis
    unfolding cmds_z80_def by blast
qed

end
