(* ===== verification/Tables.thy ===== *)
theory Tables
  imports Prelude
begin

text \<open>
  What the debugger's tables share: the conditions of \<^verbatim>\<open>utils/types.h\<close> and
  \<^verbatim>\<open>utils/consts.h\<close>, and the contract of their update counters, which clients poll to
  learn that a table has changed.
\<close>

section \<open>Conditions\<close>

datatype condition =
  C_ANY | C_EQU | C_LESS | C_GREATER | C_LESS_EQU | C_GREATER_EQU | C_NOT_EQU | C_INVALID | C_COUNT

definition conditions :: "condition list" where
  "conditions = [C_ANY, C_EQU, C_LESS, C_GREATER, C_LESS_EQU, C_GREATER_EQU, C_NOT_EQU, C_INVALID, C_COUNT]"

definition ConditionNames :: "string list" where
  "ConditionNames = [''ANY'', ''EQU'', ''LESS'', ''GREATER'', ''LESS_EQU'', ''GREATER_EQU'', ''NOT_EQU'']"

definition ConditionsS :: "string list" where
  "ConditionsS = [''=ANY'', ''='', ''<'', ''>'', ''<='', ''>='', ''!='']"

text \<open>
  \<^verbatim>\<open>static_cast<Condition>(index)\<close> and back, and a loop over an array of names that returns
  the index of the first match.
\<close>

definition cond_index :: "condition \<Rightarrow> nat" where
  "cond_index c = length (takeWhile (\<lambda>d. d \<noteq> c) conditions)"

fun name_index :: "string list \<Rightarrow> string \<Rightarrow> nat option" where
  "name_index [] s = None"
| "name_index (n # ns) s = (if n = s then Some 0 else map_option Suc (name_index ns s))"

definition ParseConditionName :: "string \<Rightarrow> condition" where
  "ParseConditionName s = (case name_index ConditionNames s of Some i \<Rightarrow> conditions ! i | None \<Rightarrow> C_INVALID)"

definition GetCondition :: "string \<Rightarrow> condition" where
  "GetCondition s = (case name_index ConditionsS s of Some i \<Rightarrow> conditions ! i | None \<Rightarrow> conditions ! 0)"

text \<open>Reading a name array at a condition; \<^term>\<open>None\<close> is a read past its end.\<close>

definition cond_name :: "string list \<Rightarrow> condition \<Rightarrow> string option" where
  "cond_name names c = (if cond_index c < length names then Some (names ! cond_index c) else None)"

fun cond_holds :: "condition \<Rightarrow> 'a::linorder \<Rightarrow> 'a \<Rightarrow> bool" where
  "cond_holds C_ANY a b = True"
| "cond_holds C_EQU a b = (a = b)"
| "cond_holds C_LESS a b = (a < b)"
| "cond_holds C_GREATER a b = (a > b)"
| "cond_holds C_LESS_EQU a b = (a \<le> b)"
| "cond_holds C_GREATER_EQU a b = (a \<ge> b)"
| "cond_holds C_NOT_EQU a b = (a \<noteq> b)"
| "cond_holds _ a b = False"

lemma condition_names_roundtrip:
  "c \<notin> {C_INVALID, C_COUNT} \<Longrightarrow> map_option ParseConditionName (cond_name ConditionNames c) = Some c"
  "c \<notin> {C_INVALID, C_COUNT} \<Longrightarrow> map_option GetCondition (cond_name ConditionsS c) = Some c"
  by (cases c; simp add: cond_name_def cond_index_def ParseConditionName_def GetCondition_def conditions_def
      ConditionNames_def ConditionsS_def)+

lemma parsed_condition: "ParseConditionName s \<noteq> C_COUNT"
proof (cases "name_index ConditionNames s")
  case (Some i)
  have "name_index ns s = Some j \<Longrightarrow> j < length ns" for ns j
    by (induction ns arbitrary: j) (auto split: if_splits)
  from this [OF Some] have "i < 7" by (simp add: ConditionNames_def)
  then have "i \<in> {0, 1, 2, 3, 4, 5, 6}" by auto
  then show ?thesis by (elim insertE) (simp_all add: ParseConditionName_def Some conditions_def)
qed (simp add: ParseConditionName_def)

section \<open>Update counters\<close>

lemma u32_succ_neq [simp]: "(a :: u32) + 1 \<noteq> a"
  by simp

text \<open>
  Each operation either leaves the counter alone, and then the content too, or adds one to it. A
  client that sees the same number twice, with fewer operations in between than the counter has
  values, has the current content.
\<close>

locale change_counter =
  fixes content :: "'s \<Rightarrow> 'a"
    and updates :: "'s \<Rightarrow> 'c::len word"
    and op :: "'e \<Rightarrow> 's \<Rightarrow> 's"
  assumes counted: "updates (op e s) = updates s \<or> updates (op e s) = updates s + 1"
    and quiet: "updates (op e s) = updates s \<Longrightarrow> content (op e s) = content s"
begin

lemma counted_run:
  "\<exists>n. n \<le> length es \<and> updates (fold op es s) = updates s + of_nat n \<and>
    (n = 0 \<longrightarrow> content (fold op es s) = content s)"
proof (induction es arbitrary: s)
  case (Cons e es)
  obtain n where n: "n \<le> length es" "updates (fold op es (op e s)) = updates (op e s) + of_nat n"
    "n = 0 \<longrightarrow> content (fold op es (op e s)) = content (op e s)"
    using Cons.IH [of "op e s"] by blast
  show ?case
  proof (cases "updates (op e s) = updates s")
    case True
    then show ?thesis using n quiet by (intro exI [of _ n]) simp
  next
    case False
    then have "updates (op e s) = updates s + 1" using counted by blast
    then show ?thesis using n by (intro exI [of _ "Suc n"]) (simp add: ac_simps)
  qed
qed simp

lemma unchanged:
  assumes "length es < 2 ^ LENGTH('c)" "updates (fold op es s) = updates s"
  shows "content (fold op es s) = content s"
proof -
  obtain n where n: "n \<le> length es" "updates (fold op es s) = updates s + of_nat n"
    "n = 0 \<longrightarrow> content (fold op es s) = content s"
    using counted_run by blast
  have "(of_nat n :: 'c word) = 0" using n(2) assms(2) by simp
  then have "unat (of_nat n :: 'c word) = 0" by simp
  then have "n mod 2 ^ LENGTH('c) = 0" by (simp only: unat_of_nat)
  then have "n = 0" using n(1) assms(1) by simp
  then show ?thesis using n(3) by simp
qed

end

end
