(* ===== verification/Breakpoints.thy ===== *)
theory Breakpoints
  imports Cpu_State Memory Tables
begin

text \<open>
  Breakpoints (\<^verbatim>\<open>core/breakpoint.cpp\<close>, \<^verbatim>\<open>core/breakpoints.cpp\<close>): one per address, with
  memory pages, a condition on a register and a hit counter. The JSON and text forms are modelled
  by typed fields; the printing of a breakpoint to the log is not.
\<close>

section \<open>One breakpoint\<close>

datatype bp_status = BP_DISABLED | BP_ACTIVE | BP_DELETED | BP_COUNT

datatype bp_operand =
  OP_A | OP_F | OP_B | OP_C | OP_D | OP_E | OP_H | OP_L | OP_PSW | OP_BC | OP_DE | OP_HL | OP_CC | OP_SP | OP_COUNT

definition operands :: "bp_operand list" where
  "operands = [OP_A, OP_F, OP_B, OP_C, OP_D, OP_E, OP_H, OP_L, OP_PSW, OP_BC, OP_DE, OP_HL, OP_CC, OP_SP]"

definition bpOperandsS :: "string list" where
  "bpOperandsS = [''A'', ''F'', ''B'', ''C'', ''D'', ''E'', ''H'', ''L'', ''PSW'', ''BC'', ''DE'', ''HL'', ''CC'', ''SP'']"

definition GetOperand :: "string \<Rightarrow> bp_operand" where
  "GetOperand s =
    (if s = ''Flags'' then OP_F
     else case name_index bpOperandsS s of Some i \<Rightarrow> operands ! i | None \<Rightarrow> OP_COUNT)"

definition Bp_GetStatus :: "string \<Rightarrow> bp_status" where
  "Bp_GetStatus s = (if s = ''ACTIVE'' then BP_ACTIVE else if s = ''DISABLED'' then BP_DISABLED else BP_COUNT)"

fun GetStatusS :: "bp_status \<Rightarrow> string" where
  "GetStatusS BP_ACTIVE = ''ACTIVE''"
| "GetStatusS BP_DISABLED = ''DISABLED''"
| "GetStatusS BP_DELETED = ''DELETED''"
| "GetStatusS BP_COUNT = ''INVALID''"

record breakpoint =
  memPages :: u64
  bp_value :: u64
  bp_counter :: u64
  bp_addr :: addr
  operand :: bp_operand
  bp_cond :: condition
  bp_status :: bp_status
  autoDel :: bool
  bp_comment :: string

definition MAPPING_PAGES_ALL :: u64 where "MAPPING_PAGES_ALL = push_bit 33 1 - 1"

text \<open>The page the processor sees: bit 0 the main memory, bits 1 to 32 the pages of the RAM disks.\<close>

definition page_bit :: "mem_update \<Rightarrow> nat" where
  "page_bit u =
    (if upd_mapping u AND MAPPING_RAM_MODE_MASK \<noteq> 0
     then unat (pageRam (upd_mapping u)) + 1 + 4 * unat (ramdiskIdx u) else 0)"

definition page_mask :: "mem_update \<Rightarrow> u64" where
  "page_mask u = push_bit (page_bit u) 1"

fun operand_value :: "bp_operand \<Rightarrow> cpu_state \<Rightarrow> u64" where
  "operand_value OP_A c = ucast (r_a c)"
| "operand_value OP_F c = ucast (r_f c)"
| "operand_value OP_B c = ucast (hi (r_bc c))"
| "operand_value OP_C c = ucast (lo (r_bc c))"
| "operand_value OP_D c = ucast (hi (r_de c))"
| "operand_value OP_E c = ucast (lo (r_de c))"
| "operand_value OP_H c = ucast (hi (r_hl c))"
| "operand_value OP_L c = ucast (lo (r_hl c))"
| "operand_value OP_PSW c = ucast (pair (r_a c) (r_f c))"
| "operand_value OP_BC c = ucast (r_bc c)"
| "operand_value OP_DE c = ucast (r_de c)"
| "operand_value OP_HL c = ucast (r_hl c)"
| "operand_value OP_CC c = r_cc c"
| "operand_value OP_SP c = ucast (r_sp c)"
| "operand_value OP_COUNT c = 0"

definition CheckStatus :: "cpu_state \<Rightarrow> mem_update \<Rightarrow> breakpoint \<Rightarrow> bool" where
  "CheckStatus c u bp =
    (let active = (bp_status bp = BP_ACTIVE \<and> page_mask u AND memPages bp \<noteq> 0)
     in if \<not> active then False
        else if bp_cond bp = C_ANY then True
        else cond_holds (bp_cond bp) (operand_value (operand bp) c) (bp_value bp))"

section \<open>The table\<close>

record breakpoints =
  m_bps :: "addr \<rightharpoonup> breakpoint"
  bp_updates :: u32

definition Bp_new :: breakpoints where
  "Bp_new = \<lparr>m_bps = Map.empty, bp_updates = 0\<rparr>"

definition Bp_Clear :: "breakpoints \<Rightarrow> breakpoints" where
  "Bp_Clear t = (if m_bps t = Map.empty then t else t\<lparr>m_bps := Map.empty, bp_updates := bp_updates t + 1\<rparr>)"

definition Bp_SetStatus :: "addr \<Rightarrow> bp_status \<Rightarrow> breakpoints \<Rightarrow> breakpoints" where
  "Bp_SetStatus a s t =
    (case m_bps t a of
       None \<Rightarrow> t
     | Some bp \<Rightarrow>
        if bp_status bp = s then t
        else t\<lparr>m_bps := (m_bps t)(a \<mapsto> bp\<lparr>bp_status := s\<rparr>), bp_updates := bp_updates t + 1\<rparr>)"

definition Bp_Add :: "breakpoint \<Rightarrow> breakpoints \<Rightarrow> breakpoints" where
  "Bp_Add bp t = t\<lparr>bp_updates := bp_updates t + 1, m_bps := (m_bps t)(bp_addr bp \<mapsto> bp)\<rparr>"

definition Bp_Del :: "addr \<Rightarrow> breakpoints \<Rightarrow> breakpoints" where
  "Bp_Del a t =
    (case m_bps t a of
       None \<Rightarrow> t
     | Some bp \<Rightarrow> t\<lparr>m_bps := (m_bps t)(a := None), bp_updates := bp_updates t + 1\<rparr>)"

definition Bps_GetStatus :: "addr \<Rightarrow> breakpoints \<Rightarrow> bp_status" where
  "Bps_GetStatus a t = (case m_bps t a of None \<Rightarrow> BP_DELETED | Some bp \<Rightarrow> bp_status bp)"

definition Bp_Check :: "cpu_state \<Rightarrow> mem_update \<Rightarrow> breakpoints \<Rightarrow> bool \<times> breakpoints" where
  "Bp_Check c u t =
    (case m_bps t (r_pc c) of
       None \<Rightarrow> (False, t)
     | Some bp \<Rightarrow>
        if \<not> CheckStatus c u bp then (False, t)
        else
         (let counterChanged = 0 < bp_counter bp;
              bp1 = (if counterChanged then bp\<lparr>bp_counter := bp_counter bp - 1\<rparr> else bp);
              t1 = t\<lparr>m_bps := (m_bps t)(r_pc c \<mapsto> bp1)\<rparr>;
              shouldBreak = (bp_counter bp1 = 0)
          in (shouldBreak,
              if shouldBreak \<and> autoDel bp1
              then t1\<lparr>m_bps := (m_bps t1)(r_pc c := None), bp_updates := bp_updates t1 + 1\<rparr>
              else if counterChanged then t1\<lparr>bp_updates := bp_updates t1 + 1\<rparr> else t1)))"

text \<open>The requests of the table and the check after an instruction, as one kind of event.\<close>

datatype bp_event =
    EvAdd breakpoint | EvDel addr | EvStatus addr bp_status | EvClear | EvCheck cpu_state mem_update

fun bp_step :: "bp_event \<Rightarrow> breakpoints \<Rightarrow> breakpoints" where
  "bp_step (EvAdd bp) t = Bp_Add bp t"
| "bp_step (EvDel a) t = Bp_Del a t"
| "bp_step (EvStatus a s) t = Bp_SetStatus a s t"
| "bp_step EvClear t = Bp_Clear t"
| "bp_step (EvCheck c u) t = snd (Bp_Check c u t)"

interpretation bp_counter: change_counter m_bps bp_updates bp_step
proof
  fix e t
  show "bp_updates (bp_step e t) = bp_updates t \<or> bp_updates (bp_step e t) = bp_updates t + 1"
    by (cases e) (auto simp: Bp_Add_def Bp_Del_def Bp_SetStatus_def Bp_Clear_def Bp_Check_def Let_def split: option.splits)
  assume "bp_updates (bp_step e t) = bp_updates t"
  then show "m_bps (bp_step e t) = m_bps t"
    by (cases e) (auto simp: Bp_Add_def Bp_Del_def Bp_SetStatus_def Bp_Clear_def Bp_Check_def Let_def
        split: option.splits if_splits)
qed

definition bp_ok :: "breakpoints \<Rightarrow> bool" where
  "bp_ok t \<longleftrightarrow> (\<forall>a bp. m_bps t a = Some bp \<longrightarrow> bp_addr bp = a)"

lemma bp_step_ok: "bp_ok t \<Longrightarrow> bp_ok (bp_step e t)"
  by (cases e) (auto simp: bp_ok_def Bp_Add_def Bp_Del_def Bp_SetStatus_def Bp_Clear_def Bp_Check_def Let_def
      split: option.splits if_splits)

section \<open>Hits\<close>

lemma CheckStatus_counter [simp]: "CheckStatus c u (bp\<lparr>bp_counter := n\<rparr>) = CheckStatus c u bp"
  by (simp add: CheckStatus_def Let_def)

text \<open>The answers of a sequence of checks.\<close>

fun bp_answers :: "(cpu_state \<times> mem_update) list \<Rightarrow> breakpoints \<Rightarrow> bool list" where
  "bp_answers [] t = []"
| "bp_answers ((c, u) # cs) t = (let (b, t1) = Bp_Check c u t in b # bp_answers cs t1)"

lemma bp_answers_Cons [simp]:
  "bp_answers (cu # cs) t =
    fst (Bp_Check (fst cu) (snd cu) t) # bp_answers cs (snd (Bp_Check (fst cu) (snd cu) t))"
  by (cases cu) (simp add: case_prod_beta)

declare bp_answers.simps(2) [simp del]

lemma bp_answers_length [simp]: "length (bp_answers cs t) = length cs"
  by (induction cs arbitrary: t) auto

definition bp_matches :: "breakpoint \<Rightarrow> cpu_state \<times> mem_update \<Rightarrow> bool" where
  "bp_matches bp cu \<longleftrightarrow> r_pc (fst cu) = bp_addr bp \<and> CheckStatus (fst cu) (snd cu) bp"

definition bp_hits :: "breakpoint \<Rightarrow> (cpu_state \<times> mem_update) list \<Rightarrow> nat \<Rightarrow> nat" where
  "bp_hits bp cs k = length (filter (bp_matches bp) (take (Suc k) cs))"

lemma bp_hits_simps [simp]:
  "bp_hits bp (cu # cs) 0 = (if bp_matches bp cu then 1 else 0)"
  "bp_hits bp (cu # cs) (Suc k) = (if bp_matches bp cu then 1 else 0) + bp_hits bp cs k"
  by (simp_all add: bp_hits_def)

lemma bp_matches_counter [simp]:
  "bp_matches (bp\<lparr>bp_counter := n\<rparr>) = bp_matches bp" "bp_hits (bp\<lparr>bp_counter := n\<rparr>) = bp_hits bp"
  by (simp_all add: bp_matches_def bp_hits_def fun_eq_iff cong: filter_cong)

lemma Bp_Check_miss:
  assumes "m_bps t a = Some bp" "bp_addr bp = a" "\<not> bp_matches bp (c, u)"
  shows "m_bps (snd (Bp_Check c u t)) a = Some bp" "r_pc c = a \<Longrightarrow> \<not> fst (Bp_Check c u t)"
  using assms by (auto simp: Bp_Check_def bp_matches_def Let_def split: option.splits)

lemma Bp_Check_match:
  assumes "m_bps t a = Some bp" "bp_addr bp = a" "bp_matches bp (c, u)"
  defines "n \<equiv> (if 0 < bp_counter bp then bp_counter bp - 1 else 0)"
  shows "fst (Bp_Check c u t) = (n = 0)"
    and "m_bps (snd (Bp_Check c u t)) a = (if n = 0 \<and> autoDel bp then None else Some (bp\<lparr>bp_counter := n\<rparr>))"
  using assms by (auto simp: Bp_Check_def bp_matches_def Let_def word_gt_0)

lemma bp_answers_gone:
  "m_bps t a = None \<Longrightarrow> k < length cs \<Longrightarrow> r_pc (fst (cs ! k)) = a \<Longrightarrow> \<not> bp_answers cs t ! k"
proof (induction cs arbitrary: t k)
  case (Cons cu cs)
  obtain c u where cu: "cu = (c, u)" by (cases cu)
  have "m_bps (snd (Bp_Check c u t)) a = None"
    using Cons.prems(1) by (auto simp: Bp_Check_def Let_def split: option.splits)
  then show ?case
    using Cons by (cases k) (auto simp: cu case_prod_beta Bp_Check_def)
qed simp

lemma unat_counter: "unat (if 0 < (n :: u64) then n - 1 else 0) = unat n - 1"
  by (simp add: unat_minus_one word_gt_0 unat_eq_zero)

lemma bp_answers_spec:
  "m_bps t a = Some bp \<Longrightarrow> bp_addr bp = a \<Longrightarrow> k < length cs \<Longrightarrow> r_pc (fst (cs ! k)) = a \<Longrightarrow>
    bp_answers cs t ! k \<longleftrightarrow> bp_matches bp (cs ! k) \<and>
      (if autoDel bp then bp_hits bp cs k = max 1 (unat (bp_counter bp))
       else max 1 (unat (bp_counter bp)) \<le> bp_hits bp cs k)"
proof (induction cs arbitrary: t k bp)
  case (Cons cu cs)
  obtain c u where cu: "cu = (c, u)" by (cases cu)
  let ?t = "snd (Bp_Check c u t)" and ?n = "if 0 < bp_counter bp then bp_counter bp - 1 else 0"
  note u = unat_counter [of "bp_counter bp"]
  show ?case
  proof (cases "bp_matches bp (c, u)")
    case False
    note miss = Bp_Check_miss [OF Cons.prems(1,2) False]
    show ?thesis
      using Cons.IH [OF miss(1) Cons.prems(2)] Cons.prems(3,4) miss(2) False
      by (cases k) (simp_all add: cu)
  next
    case True
    note m = Bp_Check_match [OF Cons.prems(1,2) True]
    have zero: "?n = 0 \<longleftrightarrow> unat (bp_counter bp) \<le> 1" using u by (simp add: unat_eq_zero flip: unat_eq_0)
    show ?thesis
    proof (cases k)
      case 0
      then show ?thesis using m(1) True zero by (auto simp: cu)
    next
      case (Suc j)
      then have j: "j < length cs" "r_pc (fst (cs ! j)) = a" using Cons.prems(3,4) by simp_all
      have pos: "bp_matches bp (cs ! j) \<Longrightarrow> 0 < bp_hits bp cs j"
        using j(1) by (auto simp: bp_hits_def take_Suc_conv_app_nth)
      show ?thesis
      proof (cases "?n = 0 \<and> autoDel bp")
        case del: True
        then show ?thesis
          using bp_answers_gone [of ?t a j cs] m(2) j pos zero True by (auto simp: cu Suc)
      next
        case keep: False
        then have "m_bps ?t a = Some (bp\<lparr>bp_counter := ?n\<rparr>)" using m(2) by (simp only: if_False)
        from Cons.IH [OF this _ j] have IH: "bp_answers cs ?t ! j = (bp_matches bp (cs ! j) \<and>
            (if autoDel bp then bp_hits bp cs j = max 1 (unat (bp_counter bp) - 1)
             else max 1 (unat (bp_counter bp) - 1) \<le> bp_hits bp cs j))"
          using Cons.prems(2) by (simp add: u)
        show ?thesis
          using IH True keep zero pos by (auto simp: cu Suc)
      qed
    qed
  qed
qed simp

section \<open>Properties\<close>

text \<open>C31: When a breakpoint stops the machine. Over any sequence of instructions, with other breakpoints
  present, an instruction ending at the breakpoint's address stops the machine exactly when the
  breakpoint matches there and it is at least the match its counter asks for (the first one for a
  counter of 0 or 1); with automatic deletion it is that match and no later one.\<close>

theorem breakpoint_stops:
  assumes "m_bps t a = Some bp" "bp_addr bp = a" "k < length cs" "r_pc (fst (cs ! k)) = a"
  shows "bp_answers cs t ! k \<longleftrightarrow> bp_matches bp (cs ! k) \<and>
    (if autoDel bp then bp_hits bp cs k = max 1 (unat (bp_counter bp))
     else max 1 (unat (bp_counter bp)) \<le> bp_hits bp cs k)"
  using assms by (rule bp_answers_spec)

definition sample_bp :: "bool \<Rightarrow> breakpoint" where
  "sample_bp auto = \<lparr>memPages = MAPPING_PAGES_ALL, bp_value = 0, bp_counter = 2, bp_addr = 0x100, operand = OP_A,
    bp_cond = C_ANY, bp_status = BP_ACTIVE, autoDel = auto, bp_comment = ''''\<rparr>"

definition cpu_at :: "addr \<Rightarrow> cpu_state" where
  "cpu_at a = \<lparr>r_cc = 0, r_pc = a, r_sp = 0, r_a = 0, r_f = 2, r_bc = 0, r_de = 0, r_hl = 0,
    r_ir = 0, r_tmp = 0, r_act = 0, r_wz = 0, r_mc = 0, i_inte = False, i_iff = False,
    i_hlta = False, i_eiPending = False\<rparr>"

definition plain_mapping :: mem_update where
  "plain_mapping = \<lparr>upd_mapping = 0, ramdiskIdx = 0, memType = MT_RAM\<rparr>"

theorem breakpoint_stops_witness:
  "\<not> bp_answers [(cpu_at 0x100, plain_mapping), (cpu_at 5, plain_mapping), (cpu_at 0x100, plain_mapping)]
      (Bp_Add (sample_bp True) Bp_new) ! 0 \<and>
    bp_answers [(cpu_at 0x100, plain_mapping), (cpu_at 5, plain_mapping), (cpu_at 0x100, plain_mapping)]
      (Bp_Add (sample_bp True) Bp_new) ! 2"
proof -
  let ?t = "Bp_Add (sample_bp True) Bp_new"
    and ?cs = "[(cpu_at 0x100, plain_mapping), (cpu_at 5, plain_mapping), (cpu_at 0x100, plain_mapping)]"
  have t: "m_bps ?t 0x100 = Some (sample_bp True)" "bp_addr (sample_bp True) = 0x100"
    by (simp_all add: Bp_Add_def Bp_new_def sample_bp_def)
  have pc: "r_pc (fst (?cs ! 0)) = 0x100" "r_pc (fst (?cs ! 2)) = 0x100" by (simp_all add: cpu_at_def)
  have m: "bp_matches (sample_bp True) (cpu_at 0x100, plain_mapping)" "\<not> bp_matches (sample_bp True) (cpu_at 5, plain_mapping)"
    by (simp_all add: bp_matches_def CheckStatus_def sample_bp_def cpu_at_def page_mask_def page_bit_def plain_mapping_def
        MAPPING_PAGES_ALL_def push_bit_eq_mult)
  have "unat (bp_counter (sample_bp True)) = 2" "autoDel (sample_bp True)" by (simp_all add: sample_bp_def)
  then show ?thesis
    using breakpoint_stops [OF t, of 0 ?cs] breakpoint_stops [OF t, of "Suc (Suc 0)" ?cs] pc m by simp
qed

text \<open>What the update counter promises a client that polls it: after fewer than \<open>2^32\<close> requests and
  checks, whatever they were, the same number means the same breakpoints.\<close>

theorem breakpoints_polling:
  assumes "length es < 2 ^ 32" "bp_updates (fold bp_step es t) = bp_updates t"
  shows "m_bps (fold bp_step es t) = m_bps t"
  using bp_counter.unchanged [of es t] assms by simp

theorem breakpoints_polling_witness:
  "m_bps (fold bp_step [EvDel 5, EvStatus 7 BP_ACTIVE, EvClear] Bp_new) = m_bps Bp_new"
  by (rule breakpoints_polling) (simp_all add: Bp_Del_def Bp_SetStatus_def Bp_Clear_def Bp_new_def)

text \<open>
  The page of a breakpoint is compared with the mapped page even when the program counter is not in
  a mapped window: an instruction fetched from the main memory does not match a breakpoint of the
  main memory while any window of a RAM disk is open.
\<close>

lemma breakpoint_ignores_window:
  assumes "upd_mapping (mem_upd m) AND MAPPING_RAM_MODE_MASK \<noteq> 0" "GetGlobalAddr m (r_pc c) RAM = ucast (r_pc c)"
    "memPages bp = 1"
  shows "\<not> CheckStatus c (mem_upd m) bp"
proof -
  have "\<not> bit (1 :: u64) (page_bit (mem_upd m))" using assms(1) by (simp add: page_bit_def bit_1_iff)
  then have "page_mask (mem_upd m) AND 1 = 0"
    by (intro bit_word_eqI) (auto simp: page_mask_def bit_simps)
  then show ?thesis using assms(3) by (simp add: CheckStatus_def Let_def)
qed

lemma breakpoint_ignores_window_sample:
  "\<not> CheckStatus (cpu_at 0x100) (mem_upd (sample_memory\<lparr>mem_upd := \<lparr>upd_mapping = 0x20, ramdiskIdx = 0, memType = MT_RAM\<rparr>\<rparr>))
    ((sample_bp False)\<lparr>memPages := 1\<rparr>)"
  by (rule breakpoint_ignores_window)
    (simp_all add: cpu_at_def GetGlobalAddr_def map_addr_def MAPPING_RAM_MODE_MASK_def MAPPING_MODE_MASK_def
      modeStack_def in_ram_window_def modeRamA_def modeRam8_def modeRamE_def bit_numeral_rec)

end
