(* ===== verification/Watchpoints.thy ===== *)
theory Watchpoints
  imports Prelude Tables "HOL-Library.AList"
begin

text \<open>
  Watchpoints (\<^verbatim>\<open>core/watchpoint.cpp\<close>, \<^verbatim>\<open>core/watchpoints.cpp\<close>): a range of global
  addresses, an access and a condition on the byte, or on the two bytes of a word. The hash table
  is an association list in its order of iteration; text, JSON and printing are typed fields.
\<close>

section \<open>One watchpoint\<close>

datatype wp_type = WP_LEN | WP_WORD | WP_TYPE_COUNT
datatype wp_access = ACC_R | ACC_W | ACC_RW | ACC_COUNT

definition wpAccessS :: "string list" where "wpAccessS = [''R'', ''W'', ''RW'']"
definition wpTypesS :: "string list" where "wpTypesS = [''LEN'', ''WORD'']"

definition GetAccess :: "string \<Rightarrow> wp_access" where
  "GetAccess s = (case name_index wpAccessS s of Some i \<Rightarrow> [ACC_R, ACC_W, ACC_RW] ! i | None \<Rightarrow> ACC_COUNT)"

definition Wp_GetType :: "string \<Rightarrow> wp_type" where
  "Wp_GetType s = (case name_index wpTypesS s of Some i \<Rightarrow> [WP_LEN, WP_WORD] ! i | None \<Rightarrow> WP_TYPE_COUNT)"

record watchpoint =
  wp_globalAddr :: global_addr
  wp_id :: int
  wp_len :: global_addr
  wp_value :: u16
  wp_access :: wp_access
  wp_cond :: condition
  wp_type :: wp_type
  wp_active :: bool
  breakL :: bool
  breakH :: bool
  wp_comment :: string

definition in_range :: "watchpoint \<Rightarrow> global_addr \<Rightarrow> bool" where
  "in_range w a \<longleftrightarrow> \<not> (a < wp_globalAddr w \<or> wp_globalAddr w + wp_len w \<le> a)"

definition Wp_Check :: "wp_access \<Rightarrow> global_addr \<Rightarrow> u8 \<Rightarrow> watchpoint \<Rightarrow> bool \<times> watchpoint" where
  "Wp_Check acc a v w =
    (if \<not> wp_active w then (False, w)
     else if wp_access w \<noteq> ACC_RW \<and> wp_access w \<noteq> acc then (False, w)
     else if \<not> in_range w a then (False, w)
     else
      (let low = (wp_type w = WP_LEN \<or> a = wp_globalAddr w);
           value_byte = (if low then lo (wp_value w) else hi (wp_value w));
           brk = cond_holds (wp_cond w) v value_byte
       in if wp_cond w \<in> {C_INVALID, C_COUNT} then (False, w)
          else
           (let w1 = (if low then w\<lparr>breakL := brk\<rparr> else w\<lparr>breakH := brk\<rparr>)
            in (breakL w1 \<and> (wp_type w = WP_LEN \<or> breakH w1), w1))))"

definition Wp_Reset :: "watchpoint \<Rightarrow> watchpoint" where
  "Wp_Reset w = w\<lparr>breakL := False, breakH := False\<rparr>"

section \<open>The table\<close>

record wp_hit =
  hit_ids :: "int list"
  hit_access :: wp_access
  hit_addr :: global_addr
  hit_value :: u8
  hit_oldValue :: "u8 option"

record watchpoints =
  m_wps :: "(int \<times> watchpoint) list"
  wp_updates :: u32
  m_wpBreak :: bool
  m_hit :: "wp_hit option"
  m_nextId :: int

definition Wp_new :: watchpoints where
  "Wp_new = \<lparr>m_wps = [], wp_updates = 0, m_wpBreak = False, m_hit = None, m_nextId = 0\<rparr>"

definition Wp_Clear :: "watchpoints \<Rightarrow> watchpoints" where
  "Wp_Clear t = (if m_wps t = [] then t else t\<lparr>m_wps := [], wp_updates := wp_updates t + 1\<rparr>)"

definition Wp_Add :: "watchpoint \<Rightarrow> watchpoints \<Rightarrow> watchpoints" where
  "Wp_Add w t =
    t\<lparr>wp_updates := wp_updates t + 1, m_nextId := max (m_nextId t) (wp_id w + 1),
      m_wps := AList.update (wp_id w) w (m_wps t)\<rparr>"

text \<open>The loop that skips the identifiers in use; it ends because the table is finite.\<close>

function next_free :: "int list \<Rightarrow> int \<Rightarrow> int" where
  "next_free ids n = (if n \<in> set ids then next_free ids (n + 1) else n)"
  by auto

termination
proof (relation "measure (\<lambda>(ids, n). card {i \<in> set ids. n \<le> i})")
  fix ids and n :: int
  assume n: "n \<in> set ids"
  have "n \<in> {i \<in> set ids. n \<le> i}" "n \<notin> {i \<in> set ids. n + 1 \<le> i}" using n by simp_all
  moreover have "{i \<in> set ids. n + 1 \<le> i} \<subseteq> {i \<in> set ids. n \<le> i}" by auto
  ultimately have "{i \<in> set ids. n + 1 \<le> i} \<subset> {i \<in> set ids. n \<le> i}" by (metis psubsetI)
  then show "((ids, n + 1), (ids, n)) \<in> measure (\<lambda>(ids, n). card {i \<in> set ids. n \<le> i})"
    by (simp add: psubset_card_mono)
qed simp

declare next_free.simps [simp del]

definition Wp_AddNew :: "watchpoint \<Rightarrow> watchpoints \<Rightarrow> int \<times> watchpoints" where
  "Wp_AddNew w t =
    (let i = next_free (map fst (m_wps t)) (m_nextId t)
     in (i, Wp_Add (w\<lparr>wp_id := i\<rparr>) (t\<lparr>m_nextId := i + 1\<rparr>)))"

definition Wp_Edit :: "watchpoint \<Rightarrow> watchpoints \<Rightarrow> bool \<times> watchpoints" where
  "Wp_Edit w t =
    (case map_of (m_wps t) (wp_id w) of
       None \<Rightarrow> (False, t)
     | Some _ \<Rightarrow> (True, t\<lparr>m_wps := AList.update (wp_id w) w (m_wps t), wp_updates := wp_updates t + 1\<rparr>))"

text \<open>The variant for a stored table: the next identifier is not touched.\<close>

definition Wp_AddStored :: "watchpoint \<Rightarrow> watchpoints \<Rightarrow> watchpoints" where
  "Wp_AddStored w t = t\<lparr>wp_updates := wp_updates t + 1, m_wps := AList.update (wp_id w) w (m_wps t)\<rparr>"

definition Wp_Del :: "int \<Rightarrow> watchpoints \<Rightarrow> watchpoints" where
  "Wp_Del i t =
    (case map_of (m_wps t) i of
       None \<Rightarrow> t
     | Some _ \<Rightarrow> t\<lparr>m_wps := AList.delete i (m_wps t), wp_updates := wp_updates t + 1\<rparr>)"

definition Wps_Check :: "wp_access \<Rightarrow> global_addr \<Rightarrow> u8 \<Rightarrow> u8 option \<Rightarrow> watchpoints \<Rightarrow> watchpoints" where
  "Wps_Check acc a v old t =
    (let matched = map fst (filter (\<lambda>(i, w). fst (Wp_Check acc a v w)) (m_wps t));
         t1 = t\<lparr>m_wps := map (\<lambda>(i, w). (i, snd (Wp_Check acc a v w))) (m_wps t)\<rparr>
     in if matched = [] then t1
        else t1\<lparr>m_wpBreak := True,
                m_hit := (if m_hit t1 = None
                          then Some \<lparr>hit_ids = sort matched, hit_access = acc, hit_addr = a, hit_value = v, hit_oldValue = old\<rparr>
                          else m_hit t1)\<rparr>)"

definition CheckBreak :: "watchpoints \<Rightarrow> bool \<times> watchpoints" where
  "CheckBreak t =
    (if \<not> m_wpBreak t then (False, t)
     else (True, t\<lparr>m_wpBreak := False, m_hit := None, m_wps := map (\<lambda>(i, w). (i, Wp_Reset w)) (m_wps t)\<rparr>))"

section \<open>Identifiers\<close>

lemma next_free: "next_free ids n \<notin> set ids" "n \<le> next_free ids n"
proof (induction ids n rule: next_free.induct)
  case (1 ids n)
  { case 1 show ?case using "1.IH"(1) by (cases "n \<in> set ids") (simp_all add: next_free.simps [of ids n]) }
  { case 2 show ?case using "1.IH"(2) by (cases "n \<in> set ids") (simp_all add: next_free.simps [of ids n]) }
qed

definition wp_ok :: "watchpoints \<Rightarrow> bool" where
  "wp_ok t \<longleftrightarrow> distinct (map fst (m_wps t)) \<and> (\<forall>(i, w) \<in> set (m_wps t). wp_id w = i)"

datatype wp_event =
    WpAdd watchpoint | WpStored watchpoint | WpAddNew watchpoint | WpEdit watchpoint | WpDel int | WpClear
  | WpCheck wp_access global_addr u8 "u8 option" | WpCheckBreak

fun wp_step :: "wp_event \<Rightarrow> watchpoints \<Rightarrow> watchpoints" where
  "wp_step (WpAdd w) t = Wp_Add w t"
| "wp_step (WpStored w) t = Wp_AddStored w t"
| "wp_step (WpAddNew w) t = snd (Wp_AddNew w t)"
| "wp_step (WpEdit w) t = snd (Wp_Edit w t)"
| "wp_step (WpDel i) t = Wp_Del i t"
| "wp_step WpClear t = Wp_Clear t"
| "wp_step (WpCheck acc a v old) t = Wps_Check acc a v old t"
| "wp_step WpCheckBreak t = snd (CheckBreak t)"

lemma Wp_Check_id [simp]: "wp_id (snd (Wp_Check acc a v w)) = wp_id w" "wp_id (Wp_Reset w) = wp_id w"
  by (simp_all add: Wp_Check_def Wp_Reset_def Let_def)

lemma map_snd_keys [simp]: "map fst (map (\<lambda>(i, w). (i, f w)) ps) = map fst ps"
  by (induction ps) auto

lemma update_ids:
  "\<forall>(i, w) \<in> set ps. wp_id w = i \<Longrightarrow> \<forall>(i, w) \<in> set (AList.update (wp_id w0) w0 ps). wp_id w = i"
  by (induction ps) auto

lemma wp_ok_upd:
  "wp_ok t \<Longrightarrow> m_wps t' = AList.update (wp_id w) w (m_wps t) \<Longrightarrow> wp_ok t'"
  using update_ids [of "m_wps t" w] by (simp add: wp_ok_def distinct_update)

lemma wp_ok_map:
  "wp_ok t \<Longrightarrow> m_wps t' = map (\<lambda>(i, w). (i, f w)) (m_wps t) \<Longrightarrow> (\<And>w. wp_id (f w) = wp_id w) \<Longrightarrow> wp_ok t'"
  by (simp add: wp_ok_def case_prod_beta' comp_def)

lemma wp_step_ok: "wp_ok t \<Longrightarrow> wp_ok (wp_step e t)"
proof (induction e)
  case (WpAddNew w)
  then show ?case
    by (rule wp_ok_upd [of t _ "w\<lparr>wp_id := next_free (map fst (m_wps t)) (m_nextId t)\<rparr>"])
      (simp_all add: Wp_AddNew_def Let_def Wp_Add_def)
next
  case (WpEdit w)
  then show ?case by (auto simp: Wp_Edit_def split: option.splits elim!: wp_ok_upd [of t _ w])
next
  case (WpDel i)
  have "set (AList.delete i (m_wps t)) \<subseteq> set (m_wps t)" by (auto simp: AList.delete_eq)
  moreover have "distinct (map fst (AList.delete i (m_wps t)))"
    using WpDel by (intro AList.distinct_delete) (simp add: wp_ok_def)
  ultimately show ?case using WpDel by (auto simp: Wp_Del_def wp_ok_def split: option.splits)
next
  case (WpCheck acc a v old)
  then show ?case
    by (rule wp_ok_map [of t _ "\<lambda>w. snd (Wp_Check acc a v w)"]) (simp_all add: Wps_Check_def Let_def)
next
  case WpCheckBreak
  then show ?case by (cases "m_wpBreak t") (auto simp: CheckBreak_def elim!: wp_ok_map [of t _ Wp_Reset])
next
  case (WpAdd w)
  then show ?case by (rule wp_ok_upd [of t _ w]) (simp add: Wp_Add_def)
next
  case (WpStored w)
  then show ?case by (rule wp_ok_upd [of t _ w]) (simp add: Wp_AddStored_def)
qed (simp add: Wp_Clear_def wp_ok_def)

interpretation wp_states: stepping wp_step wp_ok
  by unfold_locales (rule wp_step_ok)

lemma Wp_AddNew_fresh:
  "Wp_AddNew w t = (i, t') \<Longrightarrow> map_of (m_wps t) i = None \<and> map_of (m_wps t') = (map_of (m_wps t))(i \<mapsto> w\<lparr>wp_id := i\<rparr>)"
  using next_free(1) [of "map fst (m_wps t)" "m_nextId t"]
  by (auto simp: Wp_AddNew_def Let_def Wp_Add_def update_conv' map_of_eq_None_iff)

text \<open>The content a client sees: without the match flags.\<close>

definition wp_content :: "watchpoints \<Rightarrow> (int \<times> watchpoint) list" where
  "wp_content t = map (\<lambda>(i, w). (i, Wp_Reset w)) (m_wps t)"

lemma Wp_Reset_Check [simp]: "Wp_Reset (snd (Wp_Check acc a v w)) = Wp_Reset w" "Wp_Reset (Wp_Reset w) = Wp_Reset w"
  by (simp_all add: Wp_Check_def Wp_Reset_def Let_def)

interpretation wp_counter: change_counter wp_content wp_updates wp_step
proof
  fix e t
  show "wp_updates (wp_step e t) = wp_updates t \<or> wp_updates (wp_step e t) = wp_updates t + 1"
    by (cases e) (auto simp: Wp_Add_def Wp_AddStored_def Wp_AddNew_def Wp_Edit_def Wp_Del_def Wp_Clear_def Wps_Check_def
        CheckBreak_def Let_def split: option.splits)
  assume "wp_updates (wp_step e t) = wp_updates t"
  then show "wp_content (wp_step e t) = wp_content t"
    by (cases e) (auto simp: Wp_Add_def Wp_AddStored_def Wp_AddNew_def Wp_Edit_def Wp_Del_def Wp_Clear_def Wps_Check_def
        CheckBreak_def wp_content_def Let_def split: option.splits if_splits)
qed

section \<open>Hits\<close>

type_synonym mem_access = "wp_access \<times> global_addr \<times> u8 \<times> u8 option"

fun wp_fires :: "mem_access \<Rightarrow> watchpoint \<Rightarrow> bool" where
  "wp_fires (acc, a, v, old) w \<longleftrightarrow>
    wp_active w \<and> (wp_access w = ACC_RW \<or> wp_access w = acc) \<and> in_range w a \<and> cond_holds (wp_cond w) v (lo (wp_value w))"

fun wp_access_step :: "mem_access \<Rightarrow> watchpoints \<Rightarrow> watchpoints" where
  "wp_access_step (acc, a, v, old) t = Wps_Check acc a v old t"

definition wp_matched :: "mem_access \<Rightarrow> watchpoints \<Rightarrow> int list" where
  "wp_matched x t = sort (map fst (filter (\<lambda>(i, w). wp_fires x w) (m_wps t)))"

fun hit_of :: "mem_access \<Rightarrow> watchpoints \<Rightarrow> wp_hit" where
  "hit_of (acc, a, v, old) t =
    \<lparr>hit_ids = wp_matched (acc, a, v, old) t, hit_access = acc, hit_addr = a, hit_value = v, hit_oldValue = old\<rparr>"

definition bytewise :: "watchpoints \<Rightarrow> bool" where
  "bytewise t \<longleftrightarrow> (\<forall>(i, w) \<in> set (m_wps t). wp_type w = WP_LEN)"

lemma Wp_Check_len: "wp_type w = WP_LEN \<Longrightarrow> fst (Wp_Check acc a v w) = wp_fires (acc, a, v, old) w"
  by (auto simp: Wp_Check_def Let_def)

lemma wp_fires_keep: "wp_fires x (snd (Wp_Check acc a v w)) = wp_fires x w" "wp_type (snd (Wp_Check acc a v w)) = wp_type w"
  by (cases x; simp add: Wp_Check_def Let_def in_range_def)+

lemma filter_fires:
  assumes "bytewise t"
  shows "filter (\<lambda>(i, w). fst (Wp_Check acc a v w)) (m_wps t) = filter (\<lambda>(i, w). wp_fires (acc, a, v, old) w) (m_wps t)"
proof (rule filter_cong [OF refl])
  fix p assume "p \<in> set (m_wps t)"
  then have "wp_type (snd p) = WP_LEN" using assms by (auto simp: bytewise_def)
  from Wp_Check_len [OF this, of acc a v old]
  show "(case p of (i, w) \<Rightarrow> fst (Wp_Check acc a v w)) = (case p of (i, w) \<Rightarrow> wp_fires (acc, a, v, old) w)"
    by (cases p) simp
qed

lemma map_fst_eq_Nil: "sort (map fst ps) = [] \<longleftrightarrow> ps = []"
  by (metis Nil_is_map_conv set_empty set_sort)

lemma access_step:
  assumes "bytewise t"
  shows "bytewise (wp_access_step x t)" "wp_matched y (wp_access_step x t) = wp_matched y t"
    "m_wpBreak (wp_access_step x t) \<longleftrightarrow> m_wpBreak t \<or> wp_matched x t \<noteq> []"
    "m_hit (wp_access_step x t) = (if m_hit t = None \<and> wp_matched x t \<noteq> [] then Some (hit_of x t) else m_hit t)"
proof -
  obtain acc a v old where x: "x = (acc, a, v, old)" by (metis prod_cases4)
  let ?ps = "filter (\<lambda>(i, w). wp_fires x w) (m_wps t)"
  have ws: "m_wps (wp_access_step x t) = map (\<lambda>(i, w). (i, snd (Wp_Check acc a v w))) (m_wps t)"
    by (simp add: x Wps_Check_def Let_def)
  show "bytewise (wp_access_step x t)"
    using assms by (auto simp: bytewise_def ws wp_fires_keep)
  have "map fst (filter (\<lambda>(i, w). wp_fires y w) (map (\<lambda>(i, w). (i, snd (Wp_Check acc a v w))) ps)) =
      map fst (filter (\<lambda>(i, w). wp_fires y w) ps)" for ps :: "(int \<times> watchpoint) list"
    by (induction ps) (auto simp: wp_fires_keep)
  then show "wp_matched y (wp_access_step x t) = wp_matched y t" by (simp add: wp_matched_def ws)
  show "m_wpBreak (wp_access_step x t) \<longleftrightarrow> m_wpBreak t \<or> wp_matched x t \<noteq> []"
    "m_hit (wp_access_step x t) = (if m_hit t = None \<and> wp_matched x t \<noteq> [] then Some (hit_of x t) else m_hit t)"
    using filter_fires [OF assms, of acc a v old]
    by (simp_all add: x Wps_Check_def Let_def wp_matched_def map_fst_eq_Nil del: wp_fires.simps)
qed

lemma access_run:
  "bytewise t \<Longrightarrow> m_wpBreak t \<longleftrightarrow> m_hit t \<noteq> None \<Longrightarrow>
    (m_wpBreak (fold wp_access_step xs t) \<longleftrightarrow> m_hit (fold wp_access_step xs t) \<noteq> None) \<and>
    m_hit (fold wp_access_step xs t) =
      (if m_hit t \<noteq> None then m_hit t else map_option (\<lambda>x. hit_of x t) (List.find (\<lambda>x. wp_matched x t \<noteq> []) xs))"
proof (induction xs arbitrary: t)
  case (Cons x xs)
  note s = access_step [OF Cons.prems(1), where x = x]
  have same: "hit_of y (wp_access_step x t) = hit_of y t" for y by (cases y) (simp add: s(2))
  have "m_wpBreak (wp_access_step x t) \<longleftrightarrow> m_hit (wp_access_step x t) \<noteq> None" using s(3,4) Cons.prems(2) by auto
  from Cons.IH [OF s(1) this] show ?case
    by (cases "m_hit t"; cases "wp_matched x t = []") (simp_all add: s(2,4) same)
qed simp

lemma wp_matched_nonempty: "wp_matched x t \<noteq> [] \<longleftrightarrow> (\<exists>(i, w) \<in> set (m_wps t). wp_fires x w)"
  by (auto simp: wp_matched_def map_fst_eq_Nil filter_empty_conv)

section \<open>Properties\<close>

text \<open>C32: over any sequence of memory accesses watched by byte watchpoints, the break is raised
  exactly when some access fires some active watchpoint, and the hit the client is told is the
  first such access, with the sorted identifiers of every watchpoint it fires.\<close>

theorem watchpoint_stops:
  assumes "bytewise t" "\<not> m_wpBreak t" "m_hit t = None"
  shows "fst (CheckBreak (fold wp_access_step xs t)) = (\<exists>x \<in> set xs. \<exists>(i, w) \<in> set (m_wps t). wp_fires x w) \<and>
    m_hit (fold wp_access_step xs t) =
      map_option (\<lambda>x. hit_of x t) (List.find (\<lambda>x. \<exists>(i, w) \<in> set (m_wps t). wp_fires x w) xs)"
proof -
  have f: "List.find (\<lambda>x. wp_matched x t \<noteq> []) xs = List.find (\<lambda>x. \<exists>(i, w) \<in> set (m_wps t). wp_fires x w) xs"
    by (simp add: wp_matched_nonempty)
  have "m_wpBreak t \<longleftrightarrow> m_hit t \<noteq> None" using assms by simp
  note r = access_run [OF assms(1) this, of xs, unfolded f]
  have n: "(List.find P xs \<noteq> None) = (\<exists>x \<in> set xs. P x)" for P
    using find_None_iff [of P xs] by auto
  have "fst (CheckBreak s) = m_wpBreak s" for s by (simp add: CheckBreak_def)
  with r assms(3) n show ?thesis by simp
qed

definition sample_wp :: "wp_type \<Rightarrow> condition \<Rightarrow> u16 \<Rightarrow> watchpoint" where
  "sample_wp ty c v =
    \<lparr>wp_globalAddr = 0x8000, wp_id = 4, wp_len = 2, wp_value = v, wp_access = ACC_W, wp_cond = c, wp_type = ty,
     wp_active = True, breakL = False, breakH = False, wp_comment = []\<rparr>"

theorem watchpoint_stops_witness:
  "m_hit (fold wp_access_step [(ACC_R, 0x8000, 7, None), (ACC_W, 0x8001, 7, Some 3), (ACC_W, 0x8002, 7, None)]
      (Wp_Add (sample_wp WP_LEN C_ANY 0) Wp_new)) =
    Some \<lparr>hit_ids = [4], hit_access = ACC_W, hit_addr = 0x8001, hit_value = 7, hit_oldValue = Some 3\<rparr>"
  by (subst watchpoint_stops [THEN conjunct2])
    (simp_all add: bytewise_def Wp_Add_def Wp_new_def sample_wp_def in_range_def wp_matched_def)

text \<open>A watchpoint of type WORD compares each half of its value with one byte of the access:
  it stops when both halves pass on their own, so for the orderings the answer can differ from
  the comparison of the whole words.\<close>

theorem word_watchpoint_bytewise:
  assumes "wp_active w" "wp_type w = WP_WORD" "wp_access w \<in> {ACC_RW, acc}" "wp_len w = 2"
    "wp_globalAddr w \<le> 0x1000000" "wp_cond w \<notin> {C_INVALID, C_COUNT}"
  shows "fst (Wp_Check acc (wp_globalAddr w + 1) h (snd (Wp_Check acc (wp_globalAddr w) l w))) \<longleftrightarrow>
    cond_holds (wp_cond w) l (lo (wp_value w)) \<and> cond_holds (wp_cond w) h (hi (wp_value w))"
proof -
  have r: "in_range w (wp_globalAddr w)" "in_range w (wp_globalAddr w + 1)" "wp_globalAddr w + 1 \<noteq> wp_globalAddr w"
    using assms(4,5) by (simp_all add: in_range_def word_less_nat_alt word_le_nat_alt unat_plus_if')
  show ?thesis using assms r by (auto simp: Wp_Check_def Let_def in_range_def)
qed

theorem word_watchpoint_bytewise_witness:
  "fst (Wp_Check ACC_W 0x8001 0x00 (snd (Wp_Check ACC_W 0x8000 0xFF (sample_wp WP_WORD C_LESS 0x0100)))) = False \<and>
    (0x00FF :: u16) < 0x0100"
  using word_watchpoint_bytewise [where w = "sample_wp WP_WORD C_LESS 0x0100" and acc = ACC_W and h = 0 and l = 255]
  by (simp add: sample_wp_def lo_def hi_def)

end
