(* ===== verification/Code_Perf.thy ===== *)
theory Code_Perf
  imports Complex_Main Tables
begin

text \<open>
  One code performance record (\<^verbatim>\<open>core/code_perf.h\<close>): the running mean of the clock cycles between
  two addresses. The arithmetic of \<^verbatim>\<open>double\<close> is a record of operations; the exact one is over the
  rational numbers.
\<close>

section \<open>The record\<close>

record 'r double_ops =
  d_of_int :: "int \<Rightarrow> 'r"
  d_add :: "'r \<Rightarrow> 'r \<Rightarrow> 'r"
  d_sub :: "'r \<Rightarrow> 'r \<Rightarrow> 'r"
  d_mul :: "'r \<Rightarrow> 'r \<Rightarrow> 'r"
  d_div :: "'r \<Rightarrow> 'r \<Rightarrow> 'r"

definition exact_ops :: "rat double_ops" where
  "exact_ops = \<lparr>d_of_int = of_int, d_add = (+), d_sub = (-), d_mul = (*), d_div = (/)\<rparr>"

definition MAX_TEST_COUNT :: int where "MAX_TEST_COUNT = 20000"
definition MAX_RECORDS :: nat where "MAX_RECORDS = 256"

record 'r code_perf =
  cp_name :: string
  addrStart :: addr
  addrEnd :: addr
  averageClockCycles :: 'r
  testCount :: int
  sampleStartClock :: "u64 option"
  cp_active :: bool

text \<open>A new record, from the name, the two addresses and the mark of a request.\<close>

definition CodePerf :: "'r double_ops \<Rightarrow> string \<Rightarrow> addr \<Rightarrow> addr \<Rightarrow> bool \<Rightarrow> 'r code_perf" where
  "CodePerf dop nm a b act =
    \<lparr>cp_name = nm, addrStart = a, addrEnd = b, averageClockCycles = d_of_int dop 0, testCount = 0,
     sampleStartClock = None, cp_active = act\<rparr>"

definition CancelSample :: "'r code_perf \<Rightarrow> 'r code_perf" where
  "CancelSample p = p\<lparr>sampleStartClock := None\<rparr>"

definition ResetStatistics :: "'r double_ops \<Rightarrow> 'r code_perf \<Rightarrow> 'r code_perf" where
  "ResetStatistics dop p = CancelSample (p\<lparr>averageClockCycles := d_of_int dop 0, testCount := 0\<rparr>)"

definition Cp_Edit :: "'r double_ops \<Rightarrow> 'r code_perf \<Rightarrow> 'r code_perf \<Rightarrow> 'r code_perf" where
  "Cp_Edit dop q p =
    (let endpointsChanged = (addrStart p \<noteq> addrStart q \<or> addrEnd p \<noteq> addrEnd q);
         p1 = p\<lparr>cp_name := cp_name q\<rparr>;
         p2 = (if endpointsChanged
               then ResetStatistics dop (p1\<lparr>addrStart := addrStart q, addrEnd := addrEnd q\<rparr>)
               else if cp_active p1 \<noteq> cp_active q then CancelSample p1 else p1)
     in p2\<lparr>cp_active := cp_active q\<rparr>)"

definition CheckPerf :: "'r double_ops \<Rightarrow> addr \<Rightarrow> u64 \<Rightarrow> 'r code_perf \<Rightarrow> 'r code_perf" where
  "CheckPerf dop a cc p =
    (if \<not> cp_active p \<or> testCount p \<ge> MAX_TEST_COUNT then p
     else if addrStart p = a then p\<lparr>sampleStartClock := Some cc\<rparr>
     else case sampleStartClock p of
       None \<Rightarrow> p
     | Some c0 \<Rightarrow>
        if addrEnd p \<noteq> a then p
        else if cc < c0 then CancelSample p
        else
         (let p1 = p\<lparr>testCount := testCount p + 1\<rparr>;
              duration = d_of_int dop (uint (cc - c0));
              weight = d_div dop (d_of_int dop 1) (d_of_int dop (testCount p1));
              av = averageClockCycles p1
          in CancelSample (p1\<lparr>averageClockCycles := d_add dop av (d_mul dop (d_sub dop duration av) weight)\<rparr>)))"

section \<open>The samples of a run\<close>

text \<open>
  A run is the list of program counters and clocks after each instruction. A sample goes from the
  last passage of the start to the next passage of the end; a clock that went back drops it.
\<close>

fun perf_samples :: "addr \<Rightarrow> addr \<Rightarrow> u64 option \<Rightarrow> (addr \<times> u64) list \<Rightarrow> u64 list" where
  "perf_samples s e start [] = []"
| "perf_samples s e start ((a, cc) # xs) =
    (if a = s then perf_samples s e (Some cc) xs
     else if a = e
     then (case start of
             None \<Rightarrow> perf_samples s e None xs
           | Some c0 \<Rightarrow> if cc < c0 then perf_samples s e None xs else (cc - c0) # perf_samples s e None xs)
     else perf_samples s e start xs)"

definition perf_run :: "'r double_ops \<Rightarrow> (addr \<times> u64) list \<Rightarrow> 'r code_perf \<Rightarrow> 'r code_perf" where
  "perf_run dop xs p = fold (\<lambda>(a, cc). CheckPerf dop a cc) xs p"

lemma perf_run_simps [simp]:
  "perf_run dop [] p = p" "perf_run dop ((a, cc) # xs) p = perf_run dop xs (CheckPerf dop a cc p)"
  by (simp_all add: perf_run_def)

lemma perf_run_full: "testCount p \<ge> MAX_TEST_COUNT \<Longrightarrow> perf_run dop xs p = p"
  by (induction xs) (auto simp: CheckPerf_def)

definition total :: "u64 list \<Rightarrow> rat" where
  "total ds = (\<Sum>d \<leftarrow> ds. of_int (uint d))"

lemma total_simps [simp]: "total [] = 0" "total (d # ds) = of_int (uint d) + total ds"
  by (simp_all add: total_def)

text \<open>The update is the exact mean: the new average times the new count adds the duration.\<close>

lemma mean_step:
  fixes av d :: rat assumes "0 \<le> n"
  shows "(av + (d - av) * (1 / of_int (n + 1))) * of_int (n + 1) = av * of_int n + d"
proof -
  have "of_int (n + 1) \<noteq> (0 :: rat)" using assms by (metis add_nonneg_eq_0_iff of_int_eq_0_iff zero_le_one zero_neq_one)
  then have "(d - av) * (1 / of_int (n + 1)) * of_int (n + 1) = d - av" by simp
  then show ?thesis by (simp add: algebra_simps)
qed

lemma perf_run_mean:
  assumes "cp_active p" "0 \<le> testCount p" "testCount p \<le> MAX_TEST_COUNT"
  defines "ds \<equiv> take (nat (MAX_TEST_COUNT - testCount p)) \<circ> perf_samples (addrStart p) (addrEnd p) (sampleStartClock p)"
  shows "testCount (perf_run exact_ops xs p) = testCount p + int (length (ds xs)) \<and>
    averageClockCycles (perf_run exact_ops xs p) * of_int (testCount p + int (length (ds xs))) =
      averageClockCycles p * of_int (testCount p) + total (ds xs)"
  using assms(1-3) unfolding ds_def comp_def
proof (induction xs arbitrary: p)
  case (Cons x xs)
  obtain a cc where x: "x = (a, cc)" by (cases x)
  let ?q = "CheckPerf exact_ops a cc p"
  consider "testCount p = MAX_TEST_COUNT"
    | c0 where "testCount p < MAX_TEST_COUNT" "a \<noteq> addrStart p" "a = addrEnd p" "sampleStartClock p = Some c0" "\<not> cc < c0"
    | "testCount p < MAX_TEST_COUNT" "a = addrStart p \<or> a \<noteq> addrEnd p \<or> sampleStartClock p = None \<or>
        (\<exists>c0. sampleStartClock p = Some c0 \<and> cc < c0)"
    using Cons.prems(3) by fastforce
  then show ?case
  proof cases
    case 1
    then show ?thesis by (simp add: perf_run_full)
  next
    case (2 c0)
    then have q: "?q = p\<lparr>testCount := testCount p + 1, averageClockCycles := averageClockCycles p +
        (of_int (uint (cc - c0)) - averageClockCycles p) * (1 / of_int (testCount p + 1)), sampleStartClock := None\<rparr>"
      using Cons.prems(1) by (simp add: CheckPerf_def exact_ops_def CancelSample_def Let_def)
    have n: "nat (MAX_TEST_COUNT - testCount p) = Suc (nat (MAX_TEST_COUNT - (testCount p + 1)))" using 2(1) by simp
    define q where "q = ?q"
    have sel: "cp_active q" "testCount q = testCount p + 1" "addrStart q = addrStart p" "addrEnd q = addrEnd p"
      "sampleStartClock q = None" "averageClockCycles q = averageClockCycles p +
        (of_int (uint (cc - c0)) - averageClockCycles p) * (1 / of_int (testCount p + 1))"
      using Cons.prems(1) unfolding q_def q by simp_all
    have "perf_samples (addrStart p) (addrEnd p) (sampleStartClock p) (x # xs) =
        (cc - c0) # perf_samples (addrStart q) (addrEnd q) (sampleStartClock q) xs"
      using 2 by (simp add: x sel)
    moreover have "perf_run exact_ops (x # xs) p = perf_run exact_ops xs q" by (simp add: x q_def)
    moreover have "averageClockCycles q * of_int (testCount q) =
        averageClockCycles p * of_int (testCount p) + of_int (uint (cc - c0))"
      using mean_step [OF Cons.prems(2)] unfolding sel .
    ultimately show ?thesis using Cons.IH [of q] Cons.prems(2) 2(1) by (simp only: n sel) (simp add: add.assoc)
  next
    case 3
    then have q: "?q = p\<lparr>sampleStartClock := sampleStartClock ?q\<rparr>"
      "perf_samples (addrStart p) (addrEnd p) (sampleStartClock p) (x # xs) =
        perf_samples (addrStart p) (addrEnd p) (sampleStartClock ?q) xs"
      using Cons.prems(1) by (auto simp: x CheckPerf_def CancelSample_def split: option.splits)
    have "cp_active ?q" "testCount ?q = testCount p" "averageClockCycles ?q = averageClockCycles p"
      "addrStart ?q = addrStart p" "addrEnd ?q = addrEnd p"
      using Cons.prems(1) by (subst q(1), simp)+
    with Cons.IH [of ?q] Cons.prems show ?thesis unfolding q(2) by (simp add: x)
  qed
qed simp

section \<open>Properties\<close>

text \<open>Over a run of the program an active record counts the passages from its start to its end
  address, at most 20000 of them, and with exact arithmetic its average is the arithmetic mean of
  their durations: average times count is their sum.\<close>

theorem code_perf_mean:
  fixes s e :: addr
  defines "ds \<equiv> \<lambda>xs. take 20000 (perf_samples s e None xs)"
  shows "testCount (perf_run exact_ops xs (CodePerf exact_ops nm s e True)) = int (length (ds xs)) \<and>
    averageClockCycles (perf_run exact_ops xs (CodePerf exact_ops nm s e True)) * of_nat (length (ds xs)) = total (ds xs)"
proof -
  let ?p = "CodePerf exact_ops nm s e True"
  have p: "cp_active ?p" "testCount ?p = 0" "addrStart ?p = s" "addrEnd ?p = e" "sampleStartClock ?p = None"
    by (simp_all add: CodePerf_def)
  have "testCount (perf_run exact_ops xs ?p) = int (length (ds xs))"
    "averageClockCycles (perf_run exact_ops xs ?p) * of_int (int (length (ds xs))) = total (ds xs)"
    using perf_run_mean [of ?p xs] unfolding ds_def comp_def p by (simp_all add: p MAX_TEST_COUNT_def)
  then show ?thesis by simp
qed

end
