(* ===== verification/Debug_Data.thy ===== *)
theory Debug_Data
  imports Breakpoints Watchpoints Code_Perf Str_Utils "HOL-Library.Multiset"
begin

text \<open>
  What the debugger knows of a program (\<^verbatim>\<open>core/debug_data.cpp\<close>, \<^verbatim>\<open>core/memory_edit.h\<close>): labels,
  constants, comments, memory edits, code performance records and the access counters of the
  memory. Hash tables are association lists in their order of iteration; the tables of labels and
  of constants have the same code twice and share its model. Every key of a label, constant or
  comment comes from a 16-bit address.
\<close>

section \<open>Labels and constants\<close>

record label_table =
  lt_items :: "(addr \<times> string list) list"
  lt_updates :: u32

definition Lt_new :: label_table where
  "Lt_new = \<lparr>lt_items = [], lt_updates = 0\<rparr>"

definition lt_put :: "addr \<Rightarrow> string list \<Rightarrow> label_table \<Rightarrow> label_table" where
  "lt_put a ls t = t\<lparr>lt_items := AList.update a ls (lt_items t)\<rparr>"

definition lt_erase :: "addr \<Rightarrow> label_table \<Rightarrow> label_table" where
  "lt_erase a t = t\<lparr>lt_items := AList.delete a (lt_items t)\<rparr>"

definition lt_bump :: "label_table \<Rightarrow> label_table" where
  "lt_bump t = t\<lparr>lt_updates := lt_updates t + 1\<rparr>"

definition Lt_Set :: "addr \<Rightarrow> string list \<Rightarrow> label_table \<Rightarrow> label_table" where
  "Lt_Set a ls t = lt_bump (if ls = [] then lt_erase a t else lt_put a ls t)"

definition Lt_Add :: "addr \<Rightarrow> string \<Rightarrow> label_table \<Rightarrow> label_table" where
  "Lt_Add a l t =
    lt_bump (case map_of (lt_items t) a of None \<Rightarrow> lt_put a [l] t | Some ls \<Rightarrow> lt_put a (ls @ [l]) t)"

definition Lt_Del :: "addr \<Rightarrow> string \<Rightarrow> label_table \<Rightarrow> label_table" where
  "Lt_Del a l t =
    (case map_of (lt_items t) a of
       None \<Rightarrow> t
     | Some ls \<Rightarrow>
        if l \<notin> set ls then t
        else lt_bump (let ls1 = remove1 l ls in if ls1 = [] then lt_erase a t else lt_put a ls1 t))"

definition Lt_DelAt :: "addr \<Rightarrow> label_table \<Rightarrow> label_table" where
  "Lt_DelAt a t = (case map_of (lt_items t) a of None \<Rightarrow> t | Some _ \<Rightarrow> lt_bump (lt_erase a t))"

definition Lt_DelAll :: "label_table \<Rightarrow> label_table" where
  "Lt_DelAll t = lt_bump (t\<lparr>lt_items := []\<rparr>)"

fun replace1 :: "'a \<Rightarrow> 'a \<Rightarrow> 'a list \<Rightarrow> 'a list" where
  "replace1 x y [] = []"
| "replace1 x y (z # zs) = (if z = x then y # zs else z # replace1 x y zs)"

definition Lt_Rename :: "addr \<Rightarrow> string \<Rightarrow> string \<Rightarrow> label_table \<Rightarrow> label_table" where
  "Lt_Rename a old new t =
    (case map_of (lt_items t) a of
       None \<Rightarrow> t
     | Some ls \<Rightarrow> if old \<notin> set ls then t else lt_bump (lt_put a (replace1 old new ls) t))"

text \<open>Local labels start with an at sign; \<^verbatim>\<open>GetLabels\<close> puts them last.\<close>

definition is_local :: "string \<Rightarrow> bool" where
  "is_local l \<longleftrightarrow> l \<noteq> [] \<and> hd l = CHR ''@''"

definition Lt_Get :: "addr \<Rightarrow> label_table \<Rightarrow> string list option" where
  "Lt_Get a t =
    (case map_of (lt_items t) a of
       None \<Rightarrow> None
     | Some ls \<Rightarrow> Some (fold (\<lambda>l acc. if is_local l then acc @ [l] else l # acc) ls []))"

definition Lt_Has :: "addr \<Rightarrow> label_table \<Rightarrow> bool" where
  "Lt_Has a t \<longleftrightarrow> map_of (lt_items t) a \<noteq> None"

fun label_addr :: "string \<Rightarrow> (addr \<times> string list) list \<Rightarrow> int" where
  "label_addr l [] = -1"
| "label_addr l ((a, ls) # ps) = (if l \<in> set ls then uint a else label_addr l ps)"

definition Lt_Addr :: "string \<Rightarrow> label_table \<Rightarrow> int" where
  "Lt_Addr l t = label_addr l (lt_items t)"

text \<open>
  A row of a filtered list: text, address, address as text. \<^verbatim>\<open>std::sort\<close> leaves the order of equal
  keys open; the model keeps the order of iteration.
\<close>

type_synonym row = "string \<times> global_addr \<times> string"

definition addr_row :: "string \<Rightarrow> addr \<Rightarrow> row" where
  "addr_row l a = (l, ucast a, ''0x'' @ hex_text False 6 (unat a))"

definition Lt_Filtered :: "string \<Rightarrow> label_table \<Rightarrow> row list" where
  "Lt_Filtered flt t =
    sort_key fst (concat (map (\<lambda>(a, ls). map (\<lambda>l. addr_row l a) (filter (sublist flt) ls)) (lt_items t)))"

datatype label_event =
    LtSet addr "string list" | LtAdd addr string | LtDel addr string | LtDelAt addr | LtDelAll
  | LtRename addr string string

fun lt_step :: "label_event \<Rightarrow> label_table \<Rightarrow> label_table" where
  "lt_step (LtSet a ls) t = Lt_Set a ls t"
| "lt_step (LtAdd a l) t = Lt_Add a l t"
| "lt_step (LtDel a l) t = Lt_Del a l t"
| "lt_step (LtDelAt a) t = Lt_DelAt a t"
| "lt_step LtDelAll t = Lt_DelAll t"
| "lt_step (LtRename a old new) t = Lt_Rename a old new t"

lemmas lt_defs = Lt_Set_def Lt_Add_def Lt_Del_def Lt_DelAt_def Lt_DelAll_def Lt_Rename_def lt_bump_def
  lt_put_def lt_erase_def Let_def

text \<open>Keys are distinct, and no key has an empty list.\<close>

definition lt_ok :: "label_table \<Rightarrow> bool" where
  "lt_ok t \<longleftrightarrow> distinct (map fst (lt_items t)) \<and> (\<forall>(a, ls) \<in> set (lt_items t). ls \<noteq> [])"

lemma set_update_subset: "set (AList.update k v ps) \<subseteq> insert (k, v) (set ps)"
  by (induction ps) auto

lemma set_delete_subset: "set (AList.delete k ps) \<subseteq> set ps"
  by (auto simp: AList.delete_eq)

lemma lt_put_ok: "lt_ok t \<Longrightarrow> ls \<noteq> [] \<Longrightarrow> lt_ok (lt_bump (lt_put a ls t))"
  using set_update_subset [of a ls "lt_items t"] by (auto simp: lt_ok_def lt_put_def lt_bump_def distinct_update)

lemma lt_erase_ok: "lt_ok t \<Longrightarrow> lt_ok (lt_bump (lt_erase a t))"
  using set_delete_subset [of a "lt_items t"]
  by (auto simp: lt_ok_def lt_erase_def lt_bump_def intro!: AList.distinct_delete)

lemma replace1_Nil [simp]: "replace1 x y zs = [] \<longleftrightarrow> zs = []"
  by (cases zs) auto

lemma lt_step_ok: "lt_ok t \<Longrightarrow> lt_ok (lt_step e t)"
proof (cases e)
  case LtDelAll
  then show ?thesis by (simp add: Lt_DelAll_def lt_bump_def lt_ok_def)
qed (auto simp: Lt_Set_def Lt_Add_def Lt_Del_def Lt_DelAt_def Lt_Rename_def Let_def
    intro: lt_put_ok lt_erase_ok split: option.splits)

interpretation lt_states: stepping lt_step lt_ok
  by unfold_locales (rule lt_step_ok)

interpretation lt_counter: change_counter lt_items lt_updates lt_step
proof
  fix e t
  show "lt_updates (lt_step e t) = lt_updates t \<or> lt_updates (lt_step e t) = lt_updates t + 1"
    by (cases e) (auto simp: lt_defs split: option.splits)
  assume "lt_updates (lt_step e t) = lt_updates t"
  then show "lt_items (lt_step e t) = lt_items t"
    by (cases e) (auto simp: lt_defs split: option.splits if_splits)
qed

lemma arranged:
  "fold (\<lambda>l acc. if is_local l then acc @ [l] else l # acc) ls acc =
    rev (filter (\<lambda>l. \<not> is_local l) ls) @ acc @ filter is_local ls"
  by (induction ls arbitrary: acc) auto

lemma Lt_Get_arranged:
  "Lt_Get a t = map_option (\<lambda>ls. rev (filter (\<lambda>l. \<not> is_local l) ls) @ filter is_local ls) (map_of (lt_items t) a)"
  by (simp add: Lt_Get_def arranged split: option.split)

lemma label_addr_cases:
  "label_addr l ps = -1 \<and> (\<forall>(a, ls) \<in> set ps. l \<notin> set ls) \<or>
    (\<exists>a ls. (a, ls) \<in> set ps \<and> l \<in> set ls \<and> label_addr l ps = uint a)"
  by (induction l ps rule: label_addr.induct) auto

section \<open>Memory edits\<close>

record memory_edit =
  me_comment :: string
  me_globalAddr :: global_addr
  enteredValue :: u8
  originalValue :: u8
  readonly :: bool
  me_active :: bool

definition AddrToStr :: "memory_edit \<Rightarrow> string" where
  "AddrToStr e =
    ''0x'' @ hex_text False 6 (unat (me_globalAddr e)) @ '': 0x'' @ hex_text False 2 (unat (enteredValue e)) @ '' '' @
    (if readonly e then ''read-only'' else []) @ '', '' @ (if me_active e then ''active'' else ''not active'')"

definition Me_Erase :: "memory_edit \<Rightarrow> memory_edit" where
  "Me_Erase e =
    e\<lparr>me_comment := [], me_globalAddr := 0, enteredValue := 0, originalValue := 0, readonly := True, me_active := True\<rparr>"

section \<open>The data of the debugger\<close>

text \<open>
  \<open>dd_scripts\<close> stands for the table of Lua scripts. \<open>MEMORY_GLOBAL_LEN\<close> counters per kind of
  access are functions of the global address.
\<close>

record ('r, 's) debug_data =
  dd_labels :: label_table
  dd_consts :: label_table
  dd_comments :: "(addr \<times> string) list"
  commentsUpdates :: u32
  m_memoryEdits :: "(global_addr \<times> memory_edit) list"
  editsUpdates :: u32
  m_codePerfs :: "(int \<times> 'r code_perf) list"
  codePerfsUpdates :: u32
  m_nextCodePerfId :: int
  m_codePerfIdsExhausted :: bool
  m_breakpoints :: breakpoints
  m_watchpoints :: watchpoints
  dd_scripts :: 's
  m_memRuns :: "global_addr \<Rightarrow> u64"
  m_memReads :: "global_addr \<Rightarrow> u64"
  m_memWrites :: "global_addr \<Rightarrow> u64"

definition Dd_new :: "'s \<Rightarrow> ('r, 's) debug_data" where
  "Dd_new s =
    \<lparr>dd_labels = Lt_new, dd_consts = Lt_new, dd_comments = [], commentsUpdates = 0, m_memoryEdits = [],
     editsUpdates = 0, m_codePerfs = [], codePerfsUpdates = 0, m_nextCodePerfId = 0,
     m_codePerfIdsExhausted = False, m_breakpoints = Bp_new, m_watchpoints = Wp_new, dd_scripts = s,
     m_memRuns = (\<lambda>_. 0), m_memReads = (\<lambda>_. 0), m_memWrites = (\<lambda>_. 0)\<rparr>"

definition Dd_Reset :: "('r, 's) debug_data \<Rightarrow> ('r, 's) debug_data" where
  "Dd_Reset d = d\<lparr>m_memRuns := (\<lambda>_. 0), m_memReads := (\<lambda>_. 0), m_memWrites := (\<lambda>_. 0)\<rparr>"

definition MemRunsUpdate :: "global_addr \<Rightarrow> ('r, 's) debug_data \<Rightarrow> ('r, 's) debug_data" where
  "MemRunsUpdate g d = d\<lparr>m_memRuns := (m_memRuns d)(g := m_memRuns d g + 1)\<rparr>"

definition MemReadsUpdate :: "global_addr \<Rightarrow> ('r, 's) debug_data \<Rightarrow> ('r, 's) debug_data" where
  "MemReadsUpdate g d = d\<lparr>m_memReads := (m_memReads d)(g := m_memReads d g + 1)\<rparr>"

definition MemWritesUpdate :: "global_addr \<Rightarrow> ('r, 's) debug_data \<Rightarrow> ('r, 's) debug_data" where
  "MemWritesUpdate g d = d\<lparr>m_memWrites := (m_memWrites d)(g := m_memWrites d g + 1)\<rparr>"

text \<open>The two copies of the label code.\<close>

definition GetLabels :: "('r, 's) debug_data \<Rightarrow> addr \<Rightarrow> string list option" where
  "GetLabels d a = Lt_Get a (dd_labels d)"

definition HasLabels :: "('r, 's) debug_data \<Rightarrow> addr \<Rightarrow> bool" where
  "HasLabels d a = Lt_Has a (dd_labels d)"

definition GetLabelAddr :: "('r, 's) debug_data \<Rightarrow> string \<Rightarrow> int" where
  "GetLabelAddr d l = Lt_Addr l (dd_labels d)"

definition GetFilteredLabels :: "('r, 's) debug_data \<Rightarrow> string \<Rightarrow> row list" where
  "GetFilteredLabels d flt = Lt_Filtered flt (dd_labels d)"

definition GetConsts :: "('r, 's) debug_data \<Rightarrow> addr \<Rightarrow> string list option" where
  "GetConsts d a = map_of (lt_items (dd_consts d)) a"

definition GetFilteredConsts :: "('r, 's) debug_data \<Rightarrow> string \<Rightarrow> row list" where
  "GetFilteredConsts d flt = Lt_Filtered flt (dd_consts d)"

definition on_labels :: "label_event \<Rightarrow> ('r, 's) debug_data \<Rightarrow> ('r, 's) debug_data" where
  "on_labels e d = d\<lparr>dd_labels := lt_step e (dd_labels d)\<rparr>"

definition on_consts :: "label_event \<Rightarrow> ('r, 's) debug_data \<Rightarrow> ('r, 's) debug_data" where
  "on_consts e d = d\<lparr>dd_consts := lt_step e (dd_consts d)\<rparr>"

section \<open>Comments\<close>

definition GetComment :: "('r, 's) debug_data \<Rightarrow> addr \<Rightarrow> string option" where
  "GetComment d a = map_of (dd_comments d) a"

definition GetFilteredComments :: "('r, 's) debug_data \<Rightarrow> string \<Rightarrow> row list" where
  "GetFilteredComments d flt =
    sort_key (\<lambda>r. fst (snd r))
      (map (\<lambda>(a, c). addr_row c a) (filter (\<lambda>(a, c). sublist flt c) (dd_comments d)))"

definition SetComment :: "addr \<Rightarrow> string \<Rightarrow> ('r, 's) debug_data \<Rightarrow> ('r, 's) debug_data" where
  "SetComment a c d = d\<lparr>dd_comments := AList.update a c (dd_comments d), commentsUpdates := commentsUpdates d + 1\<rparr>"

definition DelComment :: "addr \<Rightarrow> ('r, 's) debug_data \<Rightarrow> ('r, 's) debug_data" where
  "DelComment a d =
    (case map_of (dd_comments d) a of
       None \<Rightarrow> d
     | Some _ \<Rightarrow> d\<lparr>dd_comments := AList.delete a (dd_comments d), commentsUpdates := commentsUpdates d + 1\<rparr>)"

definition DelAllComments :: "('r, 's) debug_data \<Rightarrow> ('r, 's) debug_data" where
  "DelAllComments d = d\<lparr>dd_comments := [], commentsUpdates := commentsUpdates d + 1\<rparr>"

section \<open>The table of memory edits\<close>

definition GetMemoryEdit :: "('r, 's) debug_data \<Rightarrow> global_addr \<Rightarrow> memory_edit option" where
  "GetMemoryEdit d g = map_of (m_memoryEdits d) g"

definition SetMemoryEdit :: "memory_edit \<Rightarrow> ('r, 's) debug_data \<Rightarrow> ('r, 's) debug_data" where
  "SetMemoryEdit e d =
    d\<lparr>m_memoryEdits := AList.update (me_globalAddr e) e (m_memoryEdits d), editsUpdates := editsUpdates d + 1\<rparr>"

definition DelMemoryEdit :: "global_addr \<Rightarrow> ('r, 's) debug_data \<Rightarrow> ('r, 's) debug_data" where
  "DelMemoryEdit g d =
    (case map_of (m_memoryEdits d) g of
       None \<Rightarrow> d
     | Some _ \<Rightarrow> d\<lparr>m_memoryEdits := AList.delete g (m_memoryEdits d), editsUpdates := editsUpdates d + 1\<rparr>)"

definition DelAllMemoryEdits :: "('r, 's) debug_data \<Rightarrow> ('r, 's) debug_data" where
  "DelAllMemoryEdits d = d\<lparr>m_memoryEdits := [], editsUpdates := editsUpdates d + 1\<rparr>"

definition GetFilteredMemoryEdits :: "('r, 's) debug_data \<Rightarrow> string \<Rightarrow> row list" where
  "GetFilteredMemoryEdits d flt =
    map (\<lambda>(g, e). (me_comment e, g, AddrToStr e)) (filter (\<lambda>(g, e). sublist flt (me_comment e)) (m_memoryEdits d))"

section \<open>The table of code performance records\<close>

datatype code_perf_add_failure = CAPACITY | ID_EXHAUSTED
datatype dd_error = CodePerfAddError code_perf_add_failure | CodePerfNotFound int

definition ID_MAX :: int where "ID_MAX = 2 ^ 31 - 1"

definition GetCodePerf :: "('r, 's) debug_data \<Rightarrow> int \<Rightarrow> 'r code_perf option" where
  "GetCodePerf d i = map_of (m_codePerfs d) i"

definition AddCodePerf :: "'r code_perf \<Rightarrow> ('r, 's) debug_data \<Rightarrow> dd_error + int \<times> ('r, 's) debug_data" where
  "AddCodePerf p d =
    (if length (m_codePerfs d) \<ge> MAX_RECORDS then Inl (CodePerfAddError CAPACITY)
     else if m_codePerfIdsExhausted d then Inl (CodePerfAddError ID_EXHAUSTED)
     else
      (let i = m_nextCodePerfId d;
           d1 = (if i = ID_MAX then d\<lparr>m_codePerfIdsExhausted := True\<rparr> else d\<lparr>m_nextCodePerfId := i + 1\<rparr>);
           d2 = (if i \<in> set (map fst (m_codePerfs d1)) then d1 else d1\<lparr>m_codePerfs := AList.update i p (m_codePerfs d1)\<rparr>)
       in Inr (i, d2\<lparr>codePerfsUpdates := codePerfsUpdates d2 + 1\<rparr>)))"

definition EditCodePerf ::
  "'r double_ops \<Rightarrow> int \<Rightarrow> 'r code_perf \<Rightarrow> ('r, 's) debug_data \<Rightarrow> dd_error + 'r code_perf \<times> ('r, 's) debug_data" where
  "EditCodePerf dop i q d =
    (case map_of (m_codePerfs d) i of
       None \<Rightarrow> Inl (CodePerfNotFound i)
     | Some p \<Rightarrow>
        (let p1 = Cp_Edit dop q p
         in Inr (p1, d\<lparr>m_codePerfs := AList.update i p1 (m_codePerfs d), codePerfsUpdates := codePerfsUpdates d + 1\<rparr>)))"

definition DelCodePerf :: "int \<Rightarrow> ('r, 's) debug_data \<Rightarrow> ('r, 's) debug_data" where
  "DelCodePerf i d =
    (case map_of (m_codePerfs d) i of
       None \<Rightarrow> d
     | Some _ \<Rightarrow> d\<lparr>m_codePerfs := AList.delete i (m_codePerfs d), codePerfsUpdates := codePerfsUpdates d + 1\<rparr>)"

definition DelAllCodePerfs :: "('r, 's) debug_data \<Rightarrow> ('r, 's) debug_data" where
  "DelAllCodePerfs d =
    (if m_codePerfs d = [] then d else d\<lparr>m_codePerfs := [], codePerfsUpdates := codePerfsUpdates d + 1\<rparr>)"

definition CancelCodePerfSamples :: "('r, 's) debug_data \<Rightarrow> ('r, 's) debug_data" where
  "CancelCodePerfSamples d = d\<lparr>m_codePerfs := map (\<lambda>(i, p). (i, CancelSample p)) (m_codePerfs d)\<rparr>"

definition CheckCodePerfs :: "'r double_ops \<Rightarrow> addr \<Rightarrow> u64 \<Rightarrow> ('r, 's) debug_data \<Rightarrow> ('r, 's) debug_data" where
  "CheckCodePerfs dop a cc d = d\<lparr>m_codePerfs := map (\<lambda>(i, p). (i, CheckPerf dop a cc p)) (m_codePerfs d)\<rparr>"

section \<open>Runs of requests\<close>

text \<open>Every change of the data, by a request or by the check after an instruction. A request that
  throws leaves the data as it is.\<close>

datatype 'r dd_event =
    DdReset | DdLabels label_event | DdConsts label_event
  | DdComment addr string | DdDelComment addr | DdDelComments
  | DdEdit memory_edit | DdDelEdit global_addr | DdDelEdits
  | DdPerf "'r code_perf" | DdPerfEdit int "'r code_perf" | DdDelPerf int | DdDelPerfs | DdCancelPerfs
  | DdCheckPerfs addr u64 | DdRun global_addr | DdRead global_addr | DdWrite global_addr

fun dd_step :: "'r double_ops \<Rightarrow> 'r dd_event \<Rightarrow> ('r, 's) debug_data \<Rightarrow> ('r, 's) debug_data" where
  "dd_step dop DdReset d = Dd_Reset d"
| "dd_step dop (DdLabels e) d = on_labels e d"
| "dd_step dop (DdConsts e) d = on_consts e d"
| "dd_step dop (DdComment a c) d = SetComment a c d"
| "dd_step dop (DdDelComment a) d = DelComment a d"
| "dd_step dop DdDelComments d = DelAllComments d"
| "dd_step dop (DdEdit e) d = SetMemoryEdit e d"
| "dd_step dop (DdDelEdit g) d = DelMemoryEdit g d"
| "dd_step dop DdDelEdits d = DelAllMemoryEdits d"
| "dd_step dop (DdPerf p) d = (case AddCodePerf p d of Inl _ \<Rightarrow> d | Inr (_, d1) \<Rightarrow> d1)"
| "dd_step dop (DdPerfEdit i q) d = (case EditCodePerf dop i q d of Inl _ \<Rightarrow> d | Inr (_, d1) \<Rightarrow> d1)"
| "dd_step dop (DdDelPerf i) d = DelCodePerf i d"
| "dd_step dop DdDelPerfs d = DelAllCodePerfs d"
| "dd_step dop DdCancelPerfs d = CancelCodePerfSamples d"
| "dd_step dop (DdCheckPerfs a cc) d = CheckCodePerfs dop a cc d"
| "dd_step dop (DdRun g) d = MemRunsUpdate g d"
| "dd_step dop (DdRead g) d = MemReadsUpdate g d"
| "dd_step dop (DdWrite g) d = MemWritesUpdate g d"

lemmas dd_defs = Dd_Reset_def on_labels_def on_consts_def SetComment_def DelComment_def DelAllComments_def
  SetMemoryEdit_def DelMemoryEdit_def DelAllMemoryEdits_def AddCodePerf_def EditCodePerf_def DelCodePerf_def
  DelAllCodePerfs_def CancelCodePerfSamples_def CheckCodePerfs_def MemRunsUpdate_def MemReadsUpdate_def
  MemWritesUpdate_def Let_def

interpretation dd_labels_ok: stepping "dd_step dop" "\<lambda>d. lt_ok (dd_labels d) \<and> lt_ok (dd_consts d)"
proof (unfold_locales, goal_cases)
  case (1 d e)
  then show ?case by (cases e) (auto simp: dd_defs lt_step_ok split: option.splits sum.splits)
qed

interpretation comments_counter: change_counter dd_comments commentsUpdates "dd_step dop"
proof (unfold_locales, goal_cases)
  case (1 e d)
  show ?case by (cases e) (auto simp: dd_defs split: option.splits sum.splits)
next
  case (2 e d)
  then show ?case by (cases e) (auto simp: dd_defs split: option.splits sum.splits)
qed

interpretation edits_counter: change_counter m_memoryEdits editsUpdates "dd_step dop"
proof (unfold_locales, goal_cases)
  case (1 e d)
  show ?case by (cases e) (auto simp: dd_defs split: option.splits sum.splits)
next
  case (2 e d)
  then show ?case by (cases e) (auto simp: dd_defs split: option.splits sum.splits)
qed

text \<open>Statistics change without notice; what a client set does not.\<close>

definition perf_settings :: "('r, 's) debug_data \<Rightarrow> (int \<times> string \<times> addr \<times> addr \<times> bool) list" where
  "perf_settings d = map (\<lambda>(i, p). (i, cp_name p, addrStart p, addrEnd p, cp_active p)) (m_codePerfs d)"

lemma check_settings [simp]:
  "cp_name (CheckPerf dop a cc p) = cp_name p" "addrStart (CheckPerf dop a cc p) = addrStart p"
  "addrEnd (CheckPerf dop a cc p) = addrEnd p" "cp_active (CheckPerf dop a cc p) = cp_active p"
  by (simp_all add: CheckPerf_def CancelSample_def Let_def split: option.split)

interpretation perfs_counter: change_counter perf_settings codePerfsUpdates "dd_step dop"
proof (unfold_locales, goal_cases)
  case (1 e d)
  show ?case by (cases e) (auto simp: dd_defs split: option.splits sum.splits)
next
  case (2 e d)
  then show ?case
    by (cases e) (auto simp: dd_defs perf_settings_def CancelSample_def split: option.splits sum.splits if_splits)
qed

section \<open>Identifiers of the performance records\<close>

definition perf_ids_ok :: "('r, 's) debug_data \<Rightarrow> bool" where
  "perf_ids_ok d \<longleftrightarrow> distinct (map fst (m_codePerfs d)) \<and> length (m_codePerfs d) \<le> MAX_RECORDS \<and>
    0 \<le> m_nextCodePerfId d \<and> m_nextCodePerfId d \<le> ID_MAX \<and>
    (m_codePerfIdsExhausted d \<longrightarrow> m_nextCodePerfId d = ID_MAX) \<and>
    (\<forall>i \<in> set (map fst (m_codePerfs d)). i < m_nextCodePerfId d \<or> m_codePerfIdsExhausted d \<and> i = ID_MAX)"

lemma map_of_key: "map_of ps k = Some v \<Longrightarrow> k \<in> set (map fst ps)"
  by (metis map_of_eq_None_iff option.distinct(1) set_map)

lemma length_update: "length (AList.update k v ps) = (if k \<in> set (map fst ps) then length ps else Suc (length ps))"
  by (induction ps) auto

lemma length_delete: "length (AList.delete k ps) \<le> length ps"
  by (simp add: AList.delete_eq)

lemma update_known: "k \<in> set (map fst ps) \<Longrightarrow> map fst (AList.update k v ps) = map fst ps"
  by (simp add: update_keys)

lemma AddCodePerf_cases:
  assumes "perf_ids_ok d" "AddCodePerf p d = Inr (i, d1)"
  shows "i = m_nextCodePerfId d \<and> m_codePerfs d1 = m_codePerfs d @ [(i, p)] \<and> length (m_codePerfs d) < MAX_RECORDS \<and>
    \<not> m_codePerfIdsExhausted d \<and> m_nextCodePerfId d1 = min ID_MAX (i + 1) \<and> (m_codePerfIdsExhausted d1 \<longleftrightarrow> i = ID_MAX)"
proof -
  have new: "\<not> m_codePerfIdsExhausted d \<Longrightarrow> m_nextCodePerfId d \<notin> set (map fst (m_codePerfs d))"
    using assms(1) by (auto simp: perf_ids_ok_def)
  have "k \<notin> set (map fst ps) \<Longrightarrow> AList.update k v ps = ps @ [(k, v)]" for k v and ps :: "(int \<times> 'a code_perf) list"
    by (induction ps) auto
  with new show ?thesis
    using assms by (auto simp: AddCodePerf_def Let_def perf_ids_ok_def split: if_splits)
qed

lemma perf_ids_keys:
  "perf_ids_ok d \<Longrightarrow> map fst (m_codePerfs d1) = map fst (m_codePerfs d) \<Longrightarrow> m_nextCodePerfId d1 = m_nextCodePerfId d \<Longrightarrow>
    m_codePerfIdsExhausted d1 = m_codePerfIdsExhausted d \<Longrightarrow> perf_ids_ok d1"
  unfolding perf_ids_ok_def by (metis length_map)

lemma perf_ids_step: "perf_ids_ok d \<Longrightarrow> perf_ids_ok (dd_step dop e d)"
proof (induction e)
  case (DdPerf p)
  show ?case
  proof (cases "AddCodePerf p d")
    case (Inr r)
    obtain i d1 where r: "r = (i, d1)" by (cases r)
    note a = AddCodePerf_cases [OF DdPerf Inr [unfolded r]]
    have "i \<le> ID_MAX" "0 \<le> i" using a DdPerf by (auto simp: perf_ids_ok_def)
    moreover have old: "\<forall>j \<in> set (map fst (m_codePerfs d)). j < i" using a DdPerf unfolding perf_ids_ok_def by blast
    then have "i \<notin> set (map fst (m_codePerfs d))" by blast
    ultimately show ?thesis
      using a DdPerf old by (simp add: Inr r perf_ids_ok_def del: set_map) (fastforce simp: min_def)
  qed (simp add: DdPerf)
next
  case (DdPerfEdit i q)
  show ?case
  proof (cases "map_of (m_codePerfs d) i")
    case (Some p)
    have k: "map fst (m_codePerfs (dd_step dop (DdPerfEdit i q) d)) = map fst (m_codePerfs d)"
      by (simp add: EditCodePerf_def Some Let_def update_known [OF map_of_key [OF Some]])
    show ?thesis by (rule perf_ids_keys [OF DdPerfEdit k]) (simp_all add: EditCodePerf_def Some Let_def)
  qed (simp add: EditCodePerf_def DdPerfEdit)
next
  case (DdDelPerf i)
  have "set (map fst (AList.delete i (m_codePerfs d))) \<subseteq> set (map fst (m_codePerfs d))"
    by (auto simp: AList.delete_eq)
  with DdDelPerf show ?case
    using length_delete [of i "m_codePerfs d"]
    by (fastforce simp: perf_ids_ok_def DelCodePerf_def intro!: AList.distinct_delete split: option.splits)
qed (auto simp: perf_ids_ok_def dd_defs case_prod_beta comp_def split: option.splits)

fun given_ids :: "'r double_ops \<Rightarrow> 'r dd_event list \<Rightarrow> ('r, 's) debug_data \<Rightarrow> int list" where
  "given_ids dop [] d = []"
| "given_ids dop (DdPerf p # es) d =
    (case AddCodePerf p d of Inl _ \<Rightarrow> given_ids dop es d | Inr (i, d1) \<Rightarrow> i # given_ids dop es d1)"
| "given_ids dop (e # es) d = given_ids dop es (dd_step dop e d)"

lemma given_ids_simp [simp]:
  "given_ids dop (e # es) d =
    (case e of
       DdPerf p \<Rightarrow> (case AddCodePerf p d of Inl _ \<Rightarrow> [] | Inr (i, _) \<Rightarrow> [i]) @ given_ids dop es (dd_step dop e d)
     | _ \<Rightarrow> given_ids dop es (dd_step dop e d))"
  by (cases e) (auto split: sum.splits)

declare given_ids.simps(2-) [simp del]

lemma perf_next_other:
  "\<forall>p. e \<noteq> DdPerf p \<Longrightarrow> m_nextCodePerfId (dd_step dop e d) = m_nextCodePerfId d \<and>
    m_codePerfIdsExhausted (dd_step dop e d) = m_codePerfIdsExhausted d"
  by (cases e) (simp_all add: dd_defs split: option.split)

lemma given_ids_rising:
  "perf_ids_ok d \<Longrightarrow> sorted_wrt (<) (given_ids dop es d) \<and>
    (\<forall>i \<in> set (given_ids dop es d). m_nextCodePerfId d \<le> i \<and> i \<le> ID_MAX \<and> \<not> m_codePerfIdsExhausted d)"
proof (induction es arbitrary: d)
  case (Cons e es)
  note IH = Cons.IH [OF perf_ids_step [OF Cons.prems], of dop e]
  show ?case
  proof (cases "\<exists>p i d1. e = DdPerf p \<and> AddCodePerf p d = Inr (i, d1)")
    case True
    then obtain p i d1 where e: "e = DdPerf p" "AddCodePerf p d = Inr (i, d1)" by blast
    note a = AddCodePerf_cases [OF Cons.prems e(2)]
    have le: "i \<le> ID_MAX" using a Cons.prems by (simp add: perf_ids_ok_def)
    moreover have "i < j \<and> j \<le> ID_MAX" if "j \<in> set (given_ids dop es d1)" for j
      using IH a le that by (cases "i = ID_MAX") (force simp: e min_def split: if_splits)+
    then have "\<forall>j \<in> set (given_ids dop es d1). i < j \<and> j \<le> ID_MAX" by blast
    ultimately show ?thesis using IH a by (simp add: e) fastforce
  next
    case False
    then have "given_ids dop (e # es) d = given_ids dop es (dd_step dop e d)"
      by (cases e) (auto split: sum.splits)
    moreover have "m_nextCodePerfId (dd_step dop e d) = m_nextCodePerfId d"
      "m_codePerfIdsExhausted (dd_step dop e d) = m_codePerfIdsExhausted d"
      using False perf_next_other [of e dop d] by (cases e; auto split: sum.splits)+
    ultimately show ?thesis using IH by simp
  qed
qed simp

interpretation dd_perf_ids: stepping "dd_step dop" perf_ids_ok
  by unfold_locales (rule perf_ids_step)

lemma dropWhile_filter_self: "dropWhile (\<lambda>x. \<not> P x) (filter P xs) = filter P xs"
  by (induction xs) auto

lemma locals_last:
  fixes ls :: "string list"
  defines "ys \<equiv> rev (filter (\<lambda>l. \<not> is_local l) ls) @ filter is_local ls"
  shows "mset ys = mset ls" "ys = [] \<longleftrightarrow> ls = []" "dropWhile (\<lambda>l. \<not> is_local l) ys = filter is_local ys"
proof -
  show m: "mset ys = mset ls" unfolding ys_def by (induction ls) simp_all
  show "ys = [] \<longleftrightarrow> ls = []" using m by (metis mset_zero_iff)
  have "filter is_local ys = filter is_local ls" by (simp add: ys_def filter_empty_conv)
  moreover have "dropWhile (\<lambda>l. \<not> is_local l) ys = filter is_local ls"
    unfolding ys_def by (subst dropWhile_append2) (simp_all add: dropWhile_filter_self)
  ultimately show "dropWhile (\<lambda>l. \<not> is_local l) ys = filter is_local ys" by simp
qed

section \<open>Properties\<close>

text \<open>C36: whatever requests arrive, an address with labels has at least one (the disassembler reads
  the first without a check), they are the stored ones with the local labels last, and an address
  with constants has at least one.\<close>

theorem labels_never_empty:
  fixes dop :: "'r double_ops" and s :: 's
  defines "d \<equiv> \<lambda>es. fold (dd_step dop) es (Dd_new s :: ('r, 's) debug_data)"
  shows "pred_option (\<lambda>ls. ls \<noteq> [] \<and> mset ls = mset (the (map_of (lt_items (dd_labels (d es))) a)) \<and>
      dropWhile (\<lambda>l. \<not> is_local l) ls = filter is_local ls) (GetLabels (d es) a) \<and>
    pred_option (\<lambda>ls. ls \<noteq> []) (GetConsts (d es) a)"
proof -
  have "lt_ok (dd_labels (Dd_new s :: ('r, 's) debug_data)) \<and> lt_ok (dd_consts (Dd_new s :: ('r, 's) debug_data))"
    by (simp add: Dd_new_def Lt_new_def lt_ok_def)
  from dd_labels_ok.run_inv [OF this] have ok: "lt_ok (dd_labels (d es))" "lt_ok (dd_consts (d es))"
    unfolding d_def by blast+
  have ne: "map_of (lt_items t) a = Some ls \<Longrightarrow> lt_ok t \<Longrightarrow> ls \<noteq> []" for t ls
    by (auto simp: lt_ok_def dest: map_of_SomeD)
  show ?thesis
  proof
    show "pred_option (\<lambda>ls. ls \<noteq> [] \<and> mset ls = mset (the (map_of (lt_items (dd_labels (d es))) a)) \<and>
        dropWhile (\<lambda>l. \<not> is_local l) ls = filter is_local ls) (GetLabels (d es) a)"
    proof (cases "map_of (lt_items (dd_labels (d es))) a")
      case (Some ls)
      show ?thesis
        using ne [OF Some ok(1)] locals_last [of ls]
        unfolding GetLabels_def Lt_Get_arranged Some option.map option.pred_inject option.sel by blast
    qed (simp add: GetLabels_def Lt_Get_arranged)
    show "pred_option (\<lambda>ls. ls \<noteq> []) (GetConsts (d es) a)"
      using ne [OF _ ok(2)] by (cases "map_of (lt_items (dd_consts (d es))) a") (simp_all add: GetConsts_def)
  qed
qed

text \<open>A label name resolves to an address that has it, or to -1 when no address has it.\<close>

theorem label_resolution:
  "GetLabelAddr d l = -1 \<and> (\<forall>(a, ls) \<in> set (lt_items (dd_labels d)). l \<notin> set ls) \<or>
    (\<exists>a ls. (a, ls) \<in> set (lt_items (dd_labels d)) \<and> l \<in> set ls \<and> GetLabelAddr d l = uint a)"
  using label_addr_cases by (simp add: GetLabelAddr_def Lt_Addr_def)

text \<open>The identifiers the program gives to performance records rise from request to request, so
  none is given twice even after deletions, and the table never has more than 256 records; an add
  fails exactly when the table is full or the identifiers are used up.\<close>

theorem perf_ids_fresh:
  fixes dop :: "'r double_ops" and s :: 's
  defines "d \<equiv> \<lambda>es. fold (dd_step dop) es (Dd_new s :: ('r, 's) debug_data)"
  shows "sorted_wrt (<) (given_ids dop es (d [])) \<and> length (m_codePerfs (d es)) \<le> 256 \<and>
    (\<nexists>r. AddCodePerf p (d es) = Inr r) = (length (m_codePerfs (d es)) = 256 \<or> m_codePerfIdsExhausted (d es))"
proof -
  have n: "perf_ids_ok (d [])" by (simp add: d_def Dd_new_def perf_ids_ok_def ID_MAX_def)
  then have "perf_ids_ok (d es)" using dd_perf_ids.run_inv unfolding d_def by (metis fold_simps(1))
  then have "length (m_codePerfs (d es)) \<le> 256" by (simp add: perf_ids_ok_def MAX_RECORDS_def)
  moreover have "(\<nexists>r. AddCodePerf p (d es) = Inr r) \<longleftrightarrow> MAX_RECORDS \<le> length (m_codePerfs (d es)) \<or> m_codePerfIdsExhausted (d es)"
    by (auto simp: AddCodePerf_def Let_def)
  ultimately show ?thesis using given_ids_rising [OF n, of dop es] by (auto simp: MAX_RECORDS_def)
qed

end
