(* ===== verification/Disasm_Print.thy ===== *)
theory Disasm_Print
  imports Disasm_Text Display Hw_Requests Debug_Data
begin

text \<open>
  Printing one executed instruction (\<^verbatim>\<open>DisasmLine::PrintToBuffer\<close> of \<^verbatim>\<open>core/disasm.cpp\<close>) into a
  buffer of 127 characters, with the bounds of \<^verbatim>\<open>snprintf\<close> and of the padding written out. The
  language is the table the global pointer \<^verbatim>\<open>cmdsP\<close> holds.
\<close>

section \<open>The language\<close>

datatype disasm_lang = DISASM_LANG_I8080 | DISASM_LANG_Z80

fun SetDisasmLang :: "disasm_lang \<Rightarrow> cmd list" where
  "SetDisasmLang DISASM_LANG_I8080 = cmds_i8080"
| "SetDisasmLang DISASM_LANG_Z80 = cmds_z80"

section \<open>Decimal numbers\<close>

fun dec_digits :: "nat \<Rightarrow> nat list" where
  "dec_digits n = (if n < 10 then [n] else dec_digits (n div 10) @ [n mod 10])"

declare dec_digits.simps [simp del]

text \<open>\<^verbatim>\<open>%0wd\<close> of a number that is not negative.\<close>

definition dec_text :: "nat \<Rightarrow> nat \<Rightarrow> string" where
  "dec_text w n = pad_left w (CHR ''0'') (map (digit_char True) (dec_digits n))"

lemma dec_digits_bound: "d \<in> set (dec_digits n) \<Longrightarrow> d < 10"
  by (induction n rule: dec_digits.induct) (subst (asm) (2) dec_digits.simps, auto split: if_splits)

lemma dec_digits_length: "0 < w \<Longrightarrow> n < 10 ^ w \<Longrightarrow> length (dec_digits n) \<le> w"
proof (induction w arbitrary: n rule: nat_induct_non_zero)
  case 1
  then show ?case by (subst dec_digits.simps) simp
next
  case (Suc w)
  then have "n div 10 < 10 ^ w" by (simp add: less_mult_imp_div_less mult.commute)
  with Suc show ?case by (subst dec_digits.simps) simp
qed

lemma dec_text_length: "0 < w \<Longrightarrow> n < 10 ^ w \<Longrightarrow> length (dec_text w n) = w"
  by (simp add: dec_text_def pad_left_def dec_digits_length)

lemma dec_text_digits: "c \<in> set (dec_text w n) \<Longrightarrow> digit_value c \<noteq> None"
  by (auto simp: dec_text_def pad_left_def dest: dec_digits_bound)

section \<open>The buffer\<close>

definition LINE_BUFF_LEN :: nat where "LINE_BUFF_LEN = 127"
definition INSTR_LEN_MAX :: nat where "INSTR_LEN_MAX = 14"

text \<open>
  The characters and the index of the next one. \<^verbatim>\<open>snprintf\<close> into the rest of the buffer stores at
  most its size less one and a terminator, and counts the whole text; when the index is past the
  end the size wraps, which the model reports as \<^term>\<open>None\<close>, like a padding that does not fit.
\<close>

type_synonym buffer = "string \<times> nat"

definition print_at :: "string \<Rightarrow> buffer \<Rightarrow> buffer option" where
  "print_at t b =
    (let (buf, i) = b; room = LINE_BUFF_LEN - i; n = min (length t) (room - 1)
     in if LINE_BUFF_LEN < i then None
        else if room = 0 then Some (buf, i + length t)
        else Some (take i buf @ take n t @ [CHR 0x00] @ drop (i + n + 1) buf, i + length t))"

definition fill_spaces :: "nat \<Rightarrow> buffer \<Rightarrow> buffer option" where
  "fill_spaces k b =
    (let (buf, i) = b
     in if LINE_BUFF_LEN < i + k then None
        else Some (take i buf @ replicate k (CHR '' '') @ drop (i + k) buf, i + k))"

fun print_all :: "string list \<Rightarrow> buffer \<Rightarrow> buffer option" where
  "print_all [] b = Some b"
| "print_all (t # ts) b = (case print_at t b of None \<Rightarrow> None | Some b1 \<Rightarrow> print_all ts b1)"

section \<open>The line\<close>

definition bit_text :: "flag \<Rightarrow> cpu_state \<Rightarrow> string" where
  "bit_text fl c = (if get_flag fl c then ''1'' else ''0'')"

text \<open>The address and the bytes of the instruction; \<open>op dl dh\<close> come from the RAM, even when the
  ROM is enabled, at consecutive global addresses.\<close>

definition head_text :: "global_addr \<Rightarrow> u8 \<Rightarrow> u8 \<Rightarrow> u8 \<Rightarrow> string" where
  "head_text g op dl dh =
    hex_text True 6 (unat g) @ ''  '' @ Uint8ToStrC op @ '' '' @
    (if GetInstrLen op > 1 then Uint8ToStrC dl else ''  '') @ '' '' @
    (if GetInstrLen op > 2 then Uint8ToStrC dh else ''  '') @ ''  ''"

definition imm_text :: "u8 \<Rightarrow> u8 \<Rightarrow> u8 \<Rightarrow> string" where
  "imm_text op dl dh = (if GetInstrLen op = 1 then Uint8ToStrC dl else Uint16ToStrC (pair dh dl))"

definition instr_tokens :: "cmd list \<Rightarrow> u8 \<Rightarrow> u8 \<Rightarrow> u8 \<Rightarrow> string list" where
  "instr_tokens cmds op dl dh =
    (let c = cmds ! unat op in map (token_text (imm_text op dl dh) c) [0..<length (token_types c)])"

definition regs_text :: "cpu_state \<Rightarrow> string" where
  "regs_text c =
    ''A='' @ Uint8ToStrC (r_a c) @ '' BC='' @ Uint16ToStrC (r_bc c) @ '' DE='' @ Uint16ToStrC (r_de c) @
    '' HL='' @ Uint16ToStrC (r_hl c) @ '' SP='' @ Uint16ToStrC (r_sp c) @ '' S'' @ bit_text FS c @
    '' Z'' @ bit_text FZ c @ '' AC'' @ bit_text FAC c @ '' P'' @ bit_text FP c @ '' CY'' @ bit_text FC c @
    '' CC='' @ dec_text 12 (unat (r_cc c))"

definition screen_text :: "display \<Rightarrow> string" where
  "screen_text d =
    '' scr='' @ dec_text 3 (nat (framebufferIdx d mod FRAME_W)) @ ''/'' @ dec_text 3 (nat (framebufferIdx d div FRAME_W)) @
    '' scrl='' @ hex_text True 2 (unat (scrollIdx d))"

datatype print_error = Address_out_of_range | Buffer_overrun

definition finish_line :: "buffer \<Rightarrow> string" where
  "finish_line b =
    (let (buf, i) = b; j = min i (LINE_BUFF_LEN - 2) in buf[j := CHR 0x0A, j + 1 := CHR 0x00])"

definition PrintToBuffer ::
  "cmd list \<Rightarrow> bool \<Rightarrow> cpu_state \<Rightarrow> memory \<Rightarrow> display \<Rightarrow> print_error + string" where
  "PrintToBuffer cmds printDisasm c m d =
    (let g = GetGlobalAddr m (r_pc c) RAM
     in if unat g + 2 \<ge> MEMORY_GLOBAL_LEN then Inl Address_out_of_range
        else
         (let op = m_ram m g; dl = m_ram m (g + 1); dh = m_ram m (g + 2);
              b0 = (replicate LINE_BUFF_LEN (CHR 0x00), 0)
          in case print_at (head_text g op dl dh) b0 of None \<Rightarrow> Inl Buffer_overrun
           | Some b1 \<Rightarrow>
         (case (if printDisasm then print_all (instr_tokens cmds op dl dh) b1 else Some b1) of None \<Rightarrow> Inl Buffer_overrun
           | Some b2 \<Rightarrow>
         (case (if snd b2 = snd b1 then Some b2
                else if INSTR_LEN_MAX < snd b2 - snd b1 then None
                else fill_spaces (INSTR_LEN_MAX - (snd b2 - snd b1)) b2) of None \<Rightarrow> Inl Buffer_overrun
           | Some b3 \<Rightarrow>
         (case print_at (regs_text c) b3 of None \<Rightarrow> Inl Buffer_overrun
           | Some b4 \<Rightarrow>
         (case print_at (screen_text d) b4 of None \<Rightarrow> Inl Buffer_overrun
           | Some b5 \<Rightarrow> Inr (finish_line b5)))))))"

section \<open>What the buffer holds\<close>

definition shows_text :: "string \<Rightarrow> buffer \<Rightarrow> bool" where
  "shows_text t b \<longleftrightarrow> length (fst b) = LINE_BUFF_LEN \<and> snd b = length t \<and>
    take (LINE_BUFF_LEN - 1) t = take (min (length t) (LINE_BUFF_LEN - 1)) (fst b)"

lemma shows_text_empty: "shows_text [] (replicate LINE_BUFF_LEN c, 0)"
  by (simp add: shows_text_def)

lemma print_at_text:
  assumes "shows_text t b" "length t \<le> LINE_BUFF_LEN"
  shows "\<exists>b'. print_at s b = Some b' \<and> shows_text (t @ s) b'"
proof -
  obtain buf i where b: "b = (buf, i)" by (cases b)
  have i: "i = length t" "length buf = 127" "take 126 t = take (min i 126) buf"
    using assms(1) by (simp_all add: b shows_text_def LINE_BUFF_LEN_def)
  show ?thesis
  proof (cases "i = 127")
    case True
    then show ?thesis using i by (simp add: b print_at_def shows_text_def LINE_BUFF_LEN_def)
  next
    case False
    then have le: "length t \<le> 126" using assms(2) i(1) by (simp add: LINE_BUFF_LEN_def)
    define r where "r = drop (length t) buf"
    have "take (length t) buf = t" using le i by simp
    then have buf: "buf = t @ r" using append_take_drop_id [of "length t" buf] unfolding r_def by simp
    have r: "length r = 127 - length t" using i(2) by (simp add: r_def)
    define n where "n = min (length s) (126 - length t)"
    have "print_at s b = Some (t @ take n s @ [CHR 0x00] @ drop (n + 1) r, length (t @ s))"
      using le by (simp add: b i(1) buf print_at_def LINE_BUFF_LEN_def n_def Let_def)
    moreover have "length (t @ take n s @ [CHR 0x00] @ drop (n + 1) r) = 127"
      using le r by (simp add: n_def)
    moreover have "take 126 (t @ s) = take (min (length (t @ s)) 126) (t @ take n s @ [CHR 0x00] @ drop (n + 1) r)"
      using le by (cases "length s \<le> 126 - length t") (auto simp: n_def min_def)
    ultimately show ?thesis by (simp add: shows_text_def LINE_BUFF_LEN_def)
  qed
qed

lemma print_all_text:
  "shows_text t b \<Longrightarrow> length (t @ concat ts) \<le> LINE_BUFF_LEN \<Longrightarrow>
    \<exists>b'. print_all ts b = Some b' \<and> shows_text (t @ concat ts) b'"
proof (induction ts arbitrary: t b)
  case (Cons s ts)
  then obtain b1 where "print_at s b = Some b1" "shows_text (t @ s) b1" using print_at_text [of t b s] by auto
  with Cons.IH [of "t @ s" b1] Cons.prems(2) show ?case by simp
qed simp

lemma fill_spaces_text:
  assumes "shows_text t b" "length t + k < LINE_BUFF_LEN"
  shows "\<exists>b'. fill_spaces k b = Some b' \<and> shows_text (t @ replicate k (CHR '' '')) b'"
proof -
  obtain buf i where b: "b = (buf, i)" by (cases b)
  have i: "i = length t" "length buf = 127" "take (length t) buf = t"
    using assms by (simp_all add: b shows_text_def LINE_BUFF_LEN_def)
  then obtain r where buf: "buf = t @ r" by (metis append_take_drop_id)
  show ?thesis using assms(2) i
    by (simp add: b buf fill_spaces_def shows_text_def LINE_BUFF_LEN_def)
qed

lemma finish_line_text:
  assumes "shows_text t b" "CHR 0x00 \<notin> set t"
  shows "length (finish_line b) = LINE_BUFF_LEN \<and> c_str (finish_line b) = take (LINE_BUFF_LEN - 2) t @ [CHR 0x0A]"
proof -
  obtain buf i where b: "b = (buf, i)" by (cases b)
  define u where "u = take 125 t"
  have i: "i = length t" "length buf = 127" "take 126 t = take (min i 126) buf"
    using assms(1) by (simp_all add: b shows_text_def LINE_BUFF_LEN_def)
  have "take 125 (take 126 t) = take 125 (take (min i 126) buf)" by (simp only: i(3))
  then have "u = take (length u) buf" by (simp add: u_def i(1,2) min_def)
  then obtain r where buf: "buf = u @ r" by (metis append_take_drop_id)
  have "length u \<le> 125" "length u = min i 125" by (simp_all add: u_def i(1))
  then obtain x y r' where r: "r = x # y # r'" using i(2) by (cases r; cases "tl r") (auto simp: buf)
  have "finish_line b = buf[length u := CHR 0x0A, length u + 1 := CHR 0x00]"
    unfolding \<open>length u = min i 125\<close> by (simp add: b finish_line_def LINE_BUFF_LEN_def Let_def)
  then have "finish_line b = u @ CHR 0x0A # CHR 0x00 # r'" by (simp add: buf r list_update_append)
  moreover have "CHR 0x00 \<notin> set u" using assms(2) by (auto simp: u_def dest: in_set_takeD)
  moreover have "c_str (xs @ CHR 0x0A # CHR 0x00 # ys) = xs @ [CHR 0x0A]" if "CHR 0x00 \<notin> set xs" for xs ys
    using that by (induction xs) (auto simp: c_str_def)
  ultimately show ?thesis using i(2) by (simp add: buf r u_def LINE_BUFF_LEN_def)
qed

section \<open>Lengths\<close>

text \<open>The space the tokens of a command take when its operand has four characters.\<close>

definition cmd_width :: "cmd \<Rightarrow> nat" where
  "cmd_width c = sum_list (map (\<lambda>i. if token_types c ! i = TT_IMM then 4 else length (tokens c ! i)) [0..<length (token_types c)])"

definition fits :: "cmd \<Rightarrow> bool" where
  "fits c \<longleftrightarrow> cmd_width c \<le> INSTR_LEN_MAX \<and> 0 < cmd_width c \<and>
    (\<forall>i \<in> set [0..<length (token_types c)]. token_types c ! i = TT_IMM \<or> CHR 0x00 \<notin> set (tokens c ! i)) \<and>
    token_types c \<noteq> [] \<and> hd (token_types c) = TT_CMD \<and> tokens c \<noteq> [] \<and> hd (tokens c) \<noteq> []"

lemma tables_fit:
  "list_all fits cmds_i8080_low" "list_all fits cmds_i8080_high" "list_all fits cmds_z80_low" "list_all fits cmds_z80_high"
  by (simp_all add: cmds_i8080_low_def cmds_i8080_high_def i8080_cmd_defs cmds_z80_low_def cmds_z80_high_def z80_cmd_defs
      fits_def cmd_width_def INSTR_LEN_MAX_def upt_rec)

lemma table_row_fits:
  assumes "cmds \<in> {cmds_i8080, cmds_z80}" shows "fits (cmds ! unat (op :: u8))"
proof -
  have "unat op < 256" using unsigned_less [where 'a = nat, of op] by simp
  moreover have "length cmds_i8080 = 256" "length cmds_z80 = 256"
    by (simp_all add: cmds_i8080_def cmds_i8080_low_def cmds_i8080_high_def cmds_z80_def cmds_z80_low_def cmds_z80_high_def)
  moreover have "list_all fits cmds_i8080" "list_all fits cmds_z80"
    using tables_fit by (simp_all add: cmds_i8080_def cmds_z80_def)
  ultimately show ?thesis using assms by (auto simp: list_all_length)
qed

lemma texts_length:
  "length (Uint8ToStrC b) = 2" "length (Uint16ToStrC w) = 4" "length (bit_text fl c) = 1"
proof -
  have "unat b < 2 ^ LENGTH(8)" "unat w < 2 ^ LENGTH(16)" by (rule unsigned_less)+
  then show "length (Uint8ToStrC b) = 2" "length (Uint16ToStrC w) = 4" by (simp_all add: address_texts hex_text_length)
qed (simp add: bit_text_def)

lemma cmd_text_width:
  assumes "fits c" "length imm \<le> 4" "imm \<noteq> []"
  shows "length (cmd_text imm c) \<le> INSTR_LEN_MAX" "cmd_text imm c \<noteq> []"
proof -
  have "length (cmd_text imm c) = sum_list (map (\<lambda>i. length (token_text imm c i)) [0..<length (token_types c)])"
    by (simp add: cmd_text_def length_concat comp_def)
  also have "\<dots> \<le> cmd_width c"
    unfolding cmd_width_def using assms(2) by (intro sum_list_mono) (simp add: token_text_def)
  finally show "length (cmd_text imm c) \<le> INSTR_LEN_MAX" using assms(1) by (simp add: fits_def)
  have c: "token_types c \<noteq> []" "token_types c ! 0 = TT_CMD" "tokens c ! 0 \<noteq> []"
    using assms(1) by (cases "token_types c"; cases "tokens c"; simp add: fits_def)+
  then have "[0..<length (token_types c)] = 0 # [1..<length (token_types c)]" by (simp add: upt_conv_Cons)
  then show "cmd_text imm c \<noteq> []" using c(2,3) by (simp add: cmd_text_def token_text_def)
qed

lemma no_nul:
  "CHR 0x00 \<notin> set (Uint8ToStrC b)" "CHR 0x00 \<notin> set (Uint16ToStrC w)" "CHR 0x00 \<notin> set (hex_text up k n)"
  "CHR 0x00 \<notin> set (dec_text k n)" "CHR 0x00 \<notin> set (bit_text fl c)"
proof -
  have z: "digit_value (CHR 0x00) = None" by (simp add: digit_value_def)
  show h: "CHR 0x00 \<notin> set (hex_text up k n)" for up k n using hex_text_digits z by fastforce
  show "CHR 0x00 \<notin> set (dec_text k n)" using dec_text_digits z by fastforce
  show "CHR 0x00 \<notin> set (Uint8ToStrC b)" "CHR 0x00 \<notin> set (Uint16ToStrC w)" by (simp_all add: address_texts h)
qed (simp add: bit_text_def)

lemma cmd_text_no_nul: "fits c \<Longrightarrow> CHR 0x00 \<notin> set imm \<Longrightarrow> CHR 0x00 \<notin> set (cmd_text imm c)"
  by (auto simp: fits_def cmd_text_def token_text_def)

section \<open>Properties\<close>

text \<open>The line: address and bytes, the instruction padded to 14 columns, registers, beam.\<close>

definition pad_right :: "nat \<Rightarrow> string \<Rightarrow> string" where
  "pad_right k t = t @ replicate (k - length t) (CHR '' '')"

definition line_text :: "cmd list \<Rightarrow> bool \<Rightarrow> cpu_state \<Rightarrow> memory \<Rightarrow> display \<Rightarrow> string" where
  "line_text cmds printDisasm c m d =
    (let g = GetGlobalAddr m (r_pc c) RAM; op = m_ram m g; dl = m_ram m (g + 1); dh = m_ram m (g + 2)
     in head_text g op dl dh @
        (if printDisasm then pad_right INSTR_LEN_MAX (cmd_text (imm_text op dl dh) (cmds ! unat op)) else []) @
        regs_text c @ screen_text d)"

lemma print_in_array:
  assumes "unat (GetGlobalAddr m (r_pc c) RAM) + 2 < MEMORY_GLOBAL_LEN" "cmds \<in> {cmds_i8080, cmds_z80}"
  shows "\<exists>buf. PrintToBuffer cmds p c m d = Inr buf \<and> length buf = 127 \<and>
    c_str buf = take 125 (line_text cmds p c m d) @ [CHR 0x0A]"
proof -
  define g where "g = GetGlobalAddr m (r_pc c) RAM"
  define op dl dh where "op = m_ram m g" and "dl = m_ram m (g + 1)" and "dh = m_ram m (g + 2)"
  note defs = g_def [symmetric] op_def [symmetric] dl_def [symmetric] dh_def [symmetric]
  define head where "head = head_text g op dl dh"
  define t where "t = cmd_text (imm_text op dl dh) (cmds ! unat op)"
  let ?mid = "if p then pad_right INSTR_LEN_MAX t else []"
  have fit: "fits (cmds ! unat op)" using assms(2) by (rule table_row_fits)
  have imm: "length (imm_text op dl dh) \<le> 4" "imm_text op dl dh \<noteq> []" "CHR 0x00 \<notin> set (imm_text op dl dh)"
    using texts_length(1) [of dl] texts_length(2) [of "pair dh dl"] by (auto simp: imm_text_def no_nul)
  note t = cmd_text_width [OF fit imm(1,2), folded t_def] cmd_text_no_nul [OF fit imm(3), folded t_def]
  have "unat g < 16 ^ 6" using assms(1) by (simp add: g_def mem_consts)
  then have head: "length head = 18" "CHR 0x00 \<notin> set head"
    by (simp_all add: head_def head_text_def texts_length hex_text_length no_nul)
  have "unat (r_cc c) < 2 ^ LENGTH(64)" by (rule unsigned_less)
  then have "length (dec_digits (unat (r_cc c))) \<le> 20" by (intro dec_digits_length) simp_all
  then have cc: "length (dec_text 12 (unat (r_cc c))) \<le> 20" by (simp add: dec_text_def pad_left_def)
  have regs: "length (regs_text c) \<le> 77" "CHR 0x00 \<notin> set (regs_text c)"
    using cc by (simp_all add: regs_text_def texts_length no_nul)
  have screen: "CHR 0x00 \<notin> set (screen_text d)" by (simp add: screen_text_def no_nul)
  have mid: "length ?mid \<le> 14" "CHR 0x00 \<notin> set ?mid" using t by (auto simp: pad_right_def INSTR_LEN_MAX_def)
  obtain b1 where b1: "print_at head (replicate LINE_BUFF_LEN (CHR 0x00), 0) = Some b1" "shows_text head b1"
    using print_at_text [OF shows_text_empty [of "CHR 0x00"], of head] by auto
  have "\<exists>b2 b3. (if p then print_all (instr_tokens cmds op dl dh) b1 else Some b1) = Some b2 \<and>
      (if snd b2 = snd b1 then Some b2 else if INSTR_LEN_MAX < snd b2 - snd b1 then None
       else fill_spaces (INSTR_LEN_MAX - (snd b2 - snd b1)) b2) = Some b3 \<and> shows_text (head @ ?mid) b3"
  proof (cases p)
    case True
    have "concat (instr_tokens cmds op dl dh) = t" by (simp add: instr_tokens_def Let_def t_def cmd_text_def)
    then obtain b2 where b2: "print_all (instr_tokens cmds op dl dh) b1 = Some b2" "shows_text (head @ t) b2"
      using print_all_text [OF b1(2), of "instr_tokens cmds op dl dh"] head(1) t(1)
      by (auto simp: LINE_BUFF_LEN_def INSTR_LEN_MAX_def)
    have n: "snd b2 = 18 + length t" "snd b1 = 18" using b1(2) b2(2) head(1) by (simp_all add: shows_text_def)
    obtain b3 where "fill_spaces (INSTR_LEN_MAX - length t) b2 = Some b3"
      "shows_text ((head @ t) @ replicate (INSTR_LEN_MAX - length t) (CHR '' '')) b3"
      using fill_spaces_text [OF b2(2), of "INSTR_LEN_MAX - length t"] head(1) t(1)
      by (auto simp: LINE_BUFF_LEN_def INSTR_LEN_MAX_def)
    then show ?thesis using True b2(1) n t(1,2) by (cases b3) (simp add: pad_right_def)
  qed (use b1 in \<open>cases b1; simp\<close>)
  then obtain b2 b3 where b23: "(if p then print_all (instr_tokens cmds op dl dh) b1 else Some b1) = Some b2"
    "(if snd b2 = snd b1 then Some b2 else if INSTR_LEN_MAX < snd b2 - snd b1 then None
       else fill_spaces (INSTR_LEN_MAX - (snd b2 - snd b1)) b2) = Some b3" "shows_text (head @ ?mid) b3" by blast
  obtain b4 where b4: "print_at (regs_text c) b3 = Some b4" "shows_text ((head @ ?mid) @ regs_text c) b4"
    using print_at_text [OF b23(3), of "regs_text c"] head(1) mid(1) by (auto simp: LINE_BUFF_LEN_def)
  obtain b5 where b5: "print_at (screen_text d) b4 = Some b5"
    "shows_text (((head @ ?mid) @ regs_text c) @ screen_text d) b5"
    using print_at_text [OF b4(2), of "screen_text d"] head(1) mid(1) regs(1) by (auto simp: LINE_BUFF_LEN_def)
  have "line_text cmds p c m d = ((head @ ?mid) @ regs_text c) @ screen_text d"
    by (simp add: line_text_def Let_def defs head_def t_def)
  moreover have "PrintToBuffer cmds p c m d = Inr (finish_line b5)"
    using assms(1) b1(1) b23(1,2) b4(1) b5(1)
    by (simp add: PrintToBuffer_def Let_def defs head_def del: One_nat_def cong: if_cong)
  moreover have "CHR 0x00 \<notin> set (((head @ ?mid) @ regs_text c) @ screen_text d)"
    using head(2) mid(2) regs(2) screen by simp
  ultimately show ?thesis using finish_line_text [OF b5(2)] by (simp add: LINE_BUFF_LEN_def)
qed

text \<open>C35: printing an instruction never writes outside the line buffer, in either language and for
  any registers and memory: where the three bytes at the program counter lie in the memory array,
  the padding is never negative and the buffer then holds the line, cut at 125 characters, with a
  newline and a terminator. At the last two bytes of the array, and only there, the checked read of
  a byte past the end throws and no line is printed.\<close>

theorem print_stays_in_buffer:
  assumes "cmds \<in> {cmds_i8080, cmds_z80}"
  shows "if unat (GetGlobalAddr m (r_pc c) RAM) + 2 < MEMORY_GLOBAL_LEN
    then \<exists>buf. PrintToBuffer cmds p c m d = Inr buf \<and> length buf = 127 \<and>
      c_str buf = take 125 (line_text cmds p c m d) @ [CHR 0x0A]
    else PrintToBuffer cmds p c m d = Inl Address_out_of_range"
  using print_in_array [OF _ assms, of m c p d] by (simp add: PrintToBuffer_def)

theorem print_stays_in_buffer_witness:
  "\<exists>buf. PrintToBuffer cmds_z80 True (cpu_at 0x100) sample_memory (Display_new (\<lambda>_. 0)) = Inr buf \<and> length buf = 127 \<and>
    c_str buf = take 125 (line_text cmds_z80 True (cpu_at 0x100) sample_memory (Display_new (\<lambda>_. 0))) @ [CHR 0x0A]"
proof -
  have "unat (GetGlobalAddr sample_memory (r_pc (cpu_at 0x100)) RAM) + 2 < MEMORY_GLOBAL_LEN"
    by (simp add: cpu_at_def sample_memory_def GetGlobalAddr_def map_addr_def in_ram_window_def mem_consts)
  then show ?thesis
    using print_stays_in_buffer [of cmds_z80 sample_memory "cpu_at 0x100" True "Display_new (\<lambda>_. 0)"] by simp
qed

text \<open>
  A byte operand is printed as a word, with the byte after the instruction in front, and the
  operand of a data line is the byte after the opcode.
\<close>

lemma operand_misprinted:
  "concat (instr_tokens cmds_i8080 0x06 0x12 0x34) = ''mvi b, 3412''"
  "concat (instr_tokens cmds_i8080 0x08 0x55 0x00) = ''db 55''"
  by (simp_all add: instr_tokens_def cmds_i8080_def cmds_i8080_low_def nth_append i8080_cmd_defs token_text_def imm_text_def
      address_texts GetInstrLen_def INSTR_LENS_def hex_text_def hex_digits.simps digit_char_def pad_left_def upt_rec
      digit_chars pair_def)

end
