(* ===== verification/Disasm.thy ===== *)
theory Disasm
  imports Disasm_Print
begin

text \<open>
  The disassembly window (\<^verbatim>\<open>core/disasm.cpp\<close>): lines of comments, labels and code from an
  address on, the address some instructions before or after another, and the links from a branch
  to the line of its target. The requests to the hardware are reads of its memory.
\<close>

section \<open>Lines\<close>

datatype line_type = L_COMMENT | L_LABELS | L_CODE
datatype imm_sub_type = SUB_NONE | SUB_CONST | SUB_LABEL

definition MAX_LABELS_IN_LINE :: nat where "MAX_LABELS_IN_LINE = 10"
definition DISASM_LINES_MAX :: nat where "DISASM_LINES_MAX = 80"
definition MAX_ATTEMPTS :: nat where "MAX_ATTEMPTS = 41"

record disasm_line =
  line_type :: line_type
  line_addr :: addr
  line_cmd :: "cmd option"
  line_opcode :: u8
  line_imm :: addr
  stats :: string
  accessed :: bool
  breakpointStatus :: bp_status
  line_label :: string
  imm_str :: string
  imm_sub :: imm_sub_type
  line_comment :: string
  post_comment :: string

text \<open>The constructors; \<^verbatim>\<open>at(0)\<close> of an empty list throws.\<close>

datatype disasm_error = No_such_element

definition blank_line :: "addr \<Rightarrow> disasm_line" where
  "blank_line a =
    \<lparr>line_type = L_CODE, line_addr = a, line_cmd = None, line_opcode = 0, line_imm = 0, stats = [], accessed = False,
     breakpointStatus = BP_DISABLED, line_label = [], imm_str = [], imm_sub = SUB_NONE, line_comment = [],
     post_comment = []\<rparr>"

definition comment_line :: "addr \<Rightarrow> string \<Rightarrow> disasm_line" where
  "comment_line a s = (blank_line a)\<lparr>line_type := L_COMMENT, line_comment := s\<rparr>"

definition LabelsToComment :: "string list \<Rightarrow> nat \<Rightarrow> string" where
  "LabelsToComment ls start =
    (if length ls = start then []
     else concat (map (\<lambda>i. ls ! i @ (if Suc i \<noteq> length ls then '', '' else []))
                   [start..<min (length ls) MAX_LABELS_IN_LINE]) @
          (if MAX_LABELS_IN_LINE < length ls then '' ...'' else []))"

definition labels_line :: "addr \<Rightarrow> string list \<Rightarrow> disasm_error + disasm_line" where
  "labels_line a ls =
    (case ls of
       [] \<Rightarrow> Inl No_such_element
     | l # _ \<Rightarrow> Inr ((blank_line a)\<lparr>line_type := L_LABELS, line_label := l,
         post_comment := (if 1 < length ls then '' ; '' @ LabelsToComment ls 1 else [])\<rparr>))"

text \<open>The three bytes of an instruction: opcode, low and high byte of the operand.\<close>

type_synonym instr_bytes = "u8 \<times> u8 \<times> u8"

definition fetch3 :: "memory \<Rightarrow> addr \<Rightarrow> instr_bytes" where
  "fetch3 m a = (GetByte m a RAM, GetByte m (a + 1) RAM, GetByte m (a + 2) RAM)"

fun InstrToImm :: "instr_bytes \<Rightarrow> imm_type \<Rightarrow> addr" where
  "InstrToImm (op, dl, dh) IT_B0 = ucast op"
| "InstrToImm (op, dl, dh) IT_B1 = ucast dl"
| "InstrToImm (op, dl, dh) _ = pair dh dl"

definition first_of :: "string list \<Rightarrow> disasm_error + string" where
  "first_of ls = (case ls of [] \<Rightarrow> Inl No_such_element | l # _ \<Rightarrow> Inr l)"

definition InitInstr ::
  "cmd list \<Rightarrow> addr \<Rightarrow> instr_bytes \<Rightarrow> ('r, 's) debug_data \<Rightarrow> bool \<Rightarrow> disasm_line \<Rightarrow> disasm_error + disasm_line" where
  "InitInstr cmds a ib d init_post l =
    (let c = cmds ! unat (fst ib); im = InstrToImm ib (imm_type c);
         l1 = l\<lparr>line_type := L_CODE, line_addr := a, line_opcode := fst ib, line_cmd := Some c, line_imm := im\<rparr>
     in if imm_type c = IT_NONE then Inr l1
        else
         (let labels = GetLabels d im; consts = GetConsts d im
          in case (case consts of
                     Some cs \<Rightarrow> first_of cs
                   | None \<Rightarrow>
                      (case labels of
                         Some ls \<Rightarrow> first_of ls
                       | None \<Rightarrow>
                          Inr (if imm_type c \<in> {IT_B0, IT_B1} then Uint8ToStrC0x (ucast im) else Uint16ToStrC0x im))) of
               Inl e \<Rightarrow> Inl e
             | Inr s \<Rightarrow>
                Inr (l1\<lparr>imm_str := s,
                  imm_sub := (if consts \<noteq> None then SUB_CONST else if labels \<noteq> None then SUB_LABEL else SUB_NONE),
                  post_comment :=
                    (if init_post \<and> (labels \<noteq> None \<or> consts \<noteq> None)
                     then (case consts of Some cs \<Rightarrow> ''; '' @ LabelsToComment cs 1 | None \<Rightarrow> []) @
                          (case labels of Some ls \<Rightarrow> '' ('' @ LabelsToComment ls 1 @ '')'' | None \<Rightarrow> [])
                     else post_comment l1)\<rparr>)))"

definition code_line ::
  "cmd list \<Rightarrow> memory \<Rightarrow> ('r, 's) debug_data \<Rightarrow> addr \<Rightarrow> disasm_error + disasm_line" where
  "code_line cmds m d a =
    (case InitInstr cmds a (fetch3 m a) d True (blank_line a) of
       Inl e \<Rightarrow> Inl e
     | Inr l \<Rightarrow>
        (let g = GetGlobalAddr m a RAM; runs = m_memRuns d g; rds = m_memReads d g; wrs = m_memWrites d g
         in Inr (l\<lparr>accessed := (0 < runs \<or> 0 < rds \<or> 0 < wrs),
              stats := dec_text 1 (unat runs) @ '', '' @ dec_text 1 (unat rds) @ '', '' @ dec_text 1 (unat wrs),
              breakpointStatus := Bps_GetStatus (ucast g) (m_breakpoints d)\<rparr>)))"

section \<open>Walking over instructions\<close>

definition len_at :: "memory \<Rightarrow> int \<Rightarrow> int" where
  "len_at m a = int (GetInstrLen (GetByte m (word_of_int a) RAM))"

definition next_instr :: "memory \<Rightarrow> addr \<Rightarrow> addr" where
  "next_instr m a = a + of_nat (GetInstrLen (GetByte m a RAM))"

text \<open>The inner loop: at most \<open>n\<close> instructions from \<open>a\<close> while below the target; the address reached
  and the instructions left.\<close>

fun walk :: "memory \<Rightarrow> int \<Rightarrow> nat \<Rightarrow> int \<Rightarrow> int \<times> nat" where
  "walk m t 0 a = (a, 0)"
| "walk m t (Suc n) a = (if a < t then walk m t n (a + len_at m a) else (a, Suc n))"

text \<open>The attempts: the start addresses from which exactly \<open>n\<close> instructions lead to the target.\<close>

fun start_addrs :: "memory \<Rightarrow> int \<Rightarrow> nat \<Rightarrow> nat \<Rightarrow> int \<Rightarrow> int list" where
  "start_addrs m t n 0 s = []"
| "start_addrs m t n (Suc k) s =
    (if walk m t n s = (t, 0) then [s] else []) @
    (if t < s + 1 + int n then [] else start_addrs m t n k (s + 1))"

definition GetAddr :: "memory \<Rightarrow> ('r, 's) debug_data \<Rightarrow> addr \<Rightarrow> int \<Rightarrow> addr" where
  "GetAddr m d a off =
    (let n = nat \<bar>off\<bar>
     in if 0 < off then (next_instr m ^^ n) a
        else if off < 0
        then
         (let ss = map word_of_int (start_addrs m (uint a) n MAX_ATTEMPTS (int32 (uint a - int n * CMD_BYTES_MAX))) :: addr list
          in if ss = [] then a + word_of_int off
             else case List.find (\<lambda>s. 0 < m_memRuns d (ucast s)) ss of Some s \<Rightarrow> s | None \<Rightarrow> hd ss)
        else a)"

section \<open>Filling the window\<close>

text \<open>One iteration: the lines it adds in order. A line at the limit of 80 ends the loop.\<close>

function fill_lines ::
  "cmd list \<Rightarrow> memory \<Rightarrow> ('r, 's) debug_data \<Rightarrow> nat \<Rightarrow> addr \<Rightarrow> disasm_line list \<Rightarrow> disasm_error + disasm_line list" where
  "fill_lines cmds m d n a out =
    (if n \<le> length out then Inr out
     else
      (let out1 = (case GetComment d a of None \<Rightarrow> out | Some c \<Rightarrow> out @ [comment_line a c])
       in if GetComment d a \<noteq> None \<and> DISASM_LINES_MAX \<le> length out1 then Inr out1
          else case (case GetLabels d a of None \<Rightarrow> Inr out1
                     | Some ls \<Rightarrow> (case labels_line a ls of Inl e \<Rightarrow> Inl e | Inr l \<Rightarrow> Inr (out1 @ [l]))) of
            Inl e \<Rightarrow> Inl e
          | Inr out2 \<Rightarrow>
             if GetLabels d a \<noteq> None \<and> DISASM_LINES_MAX \<le> length out2 then Inr out2
             else case code_line cmds m d a of
               Inl e \<Rightarrow> Inl e
             | Inr l \<Rightarrow>
                if DISASM_LINES_MAX \<le> length (out2 @ [l]) then Inr (out2 @ [l])
                else fill_lines cmds m d n (a + of_nat (GetInstrLen (line_opcode l))) (out2 @ [l])))"
  by pat_completeness auto

termination
  by (relation "measure (\<lambda>(cmds, m, d, n, a, out). n - length out)")
    (auto split: option.splits sum.splits if_splits)

declare fill_lines.simps [simp del]

definition UpdateDisasm ::
  "cmd list \<Rightarrow> memory \<Rightarrow> ('r, 's) debug_data \<Rightarrow> addr \<Rightarrow> nat \<Rightarrow> int \<Rightarrow> disasm_error + disasm_line list" where
  "UpdateDisasm cmds m d a linesNum off =
    (let n = (if linesNum = 0 then DISASM_LINES_MAX else min linesNum DISASM_LINES_MAX)
     in fill_lines cmds m d n (GetAddr m d a off) [])"

section \<open>Links\<close>

text \<open>The link of a line: the line it goes to and its own number.\<close>

fun imm_links :: "addr \<Rightarrow> addr \<Rightarrow> (addr \<times> nat) list \<Rightarrow> nat \<Rightarrow> nat \<Rightarrow> disasm_line list \<Rightarrow> (nat \<times> nat \<times> nat) list" where
  "imm_links lo_a hi_a first i k [] = []"
| "imm_links lo_a hi_a first i k (l # ls) =
    (if line_type l \<noteq> L_CODE \<or> OPTYPE_JMP < GetInstrType (line_opcode l) then imm_links lo_a hi_a first (Suc i) k ls
     else if line_imm l < lo_a then imm_links lo_a hi_a first (Suc i) k ls
     else if hi_a < line_imm l then imm_links lo_a hi_a first (Suc i) k ls
     else case map_of first (line_imm l) of
            None \<Rightarrow> imm_links lo_a hi_a first (Suc i) k ls
          | Some j \<Rightarrow> (i, j, k) # imm_links lo_a hi_a first (Suc i) (Suc k) ls)"

definition GetImmLinks :: "disasm_line list \<Rightarrow> (nat \<times> nat \<times> nat) list option" where
  "GetImmLinks ls =
    (if ls = [] then None
     else Some (imm_links (line_addr (hd ls)) (line_addr (last ls)) (zip (map line_addr ls) [0..<length ls]) 0 0 ls))"

section \<open>The window\<close>

definition tables_ok :: "('r, 's) debug_data \<Rightarrow> bool" where
  "tables_ok d \<longleftrightarrow> lt_ok (dd_labels d) \<and> lt_ok (dd_consts d)"

lemma GetLabels_nonempty: "tables_ok d \<Longrightarrow> GetLabels d a = Some ls \<Longrightarrow> ls \<noteq> []"
  using locals_last(2) by (auto simp: tables_ok_def GetLabels_def Lt_Get_arranged lt_ok_def dest: map_of_SomeD)

lemma GetConsts_nonempty: "tables_ok d \<Longrightarrow> GetConsts d a = Some ls \<Longrightarrow> ls \<noteq> []"
  by (auto simp: tables_ok_def GetConsts_def lt_ok_def dest: map_of_SomeD)

lemma labels_line_ok:
  assumes "tables_ok d" "GetLabels d a = Some ls"
  shows "\<exists>l. labels_line a ls = Inr l \<and> line_type l = L_LABELS"
  using GetLabels_nonempty [OF assms] by (cases ls) (simp_all add: labels_line_def blank_line_def)

definition code_at :: "cmd list \<Rightarrow> memory \<Rightarrow> addr \<Rightarrow> disasm_line \<Rightarrow> bool" where
  "code_at cmds m a l \<longleftrightarrow> line_type l = L_CODE \<and> line_addr l = a \<and> line_opcode l = GetByte m a RAM \<and>
    line_cmd l = Some (cmds ! unat (GetByte m a RAM))"

lemma code_line_ok:
  assumes "tables_ok d" shows "\<exists>l. code_line cmds m d a = Inr l \<and> code_at cmds m a l"
proof -
  have ne: "first_of ls = Inr (hd ls)" if "ls \<noteq> []" for ls using that by (cases ls) (simp_all add: first_of_def)
  note n = GetLabels_nonempty [OF assms] GetConsts_nonempty [OF assms]
  show ?thesis
    by (auto simp: code_line_def InitInstr_def Let_def fetch3_def code_at_def ne n split: option.split)
qed

lemma fill_stop: "n \<le> length out \<Longrightarrow> fill_lines cmds m d n a out = Inr out"
  by (simp add: fill_lines.simps)

lemma fill_lines_ok:
  assumes "tables_ok d" "n \<le> DISASM_LINES_MAX" "length out < n"
  shows "\<exists>ls k. fill_lines cmds m d n a out = Inr (out @ ls) \<and> n \<le> length (out @ ls) \<and>
    length (out @ ls) \<le> min DISASM_LINES_MAX (n + 2) \<and>
    list_all2 (code_at cmds m) (map (\<lambda>i. (next_instr m ^^ i) a) [0..<k]) (filter (\<lambda>l. line_type l = L_CODE) ls)"
  using assms(3)
proof (induction "n - length out" arbitrary: a out rule: less_induct)
  case less
  obtain l where l: "code_line cmds m d a = Inr l" "code_at cmds m a l" using code_line_ok [OF assms(1)] by blast
  define cs where "cs = (case GetComment d a of None \<Rightarrow> [] | Some c \<Rightarrow> [comment_line a c])"
  obtain bs where bs: "length bs \<le> 1" "filter (\<lambda>l. line_type l = L_CODE) bs = []" "GetLabels d a = None \<longrightarrow> bs = []"
    "(case GetLabels d a of None \<Rightarrow> Inr out1 | Some ls \<Rightarrow>
        (case labels_line a ls of Inl e \<Rightarrow> Inl e | Inr l \<Rightarrow> Inr (out1 @ [l]))) = Inr (out1 @ bs)" for out1
  proof (cases "GetLabels d a")
    case None
    then show ?thesis using that [of "[]"] by simp
  next
    case (Some ls)
    then obtain l where "labels_line a ls = Inr l" "line_type l = L_LABELS" using labels_line_ok [OF assms(1)] by blast
    then show ?thesis using that [of "[l]"] Some by simp
  qed
  have cs: "length cs \<le> 1" "filter (\<lambda>l. line_type l = L_CODE) cs = []" "GetComment d a = None \<longrightarrow> cs = []"
    "(case GetComment d a of None \<Rightarrow> out | Some c \<Rightarrow> out @ [comment_line a c]) = out @ cs"
    by (simp_all add: cs_def comment_line_def split: option.split)
  have lt: "\<not> n \<le> length out" using less.prems by simp
  note step = fill_lines.simps [of cmds m d n a out, unfolded Let_def cs(4) bs(4) sum.case if_not_P [OF lt] l(1)]
  have cs79: "length (out @ cs) < DISASM_LINES_MAX" if "\<not> (GetComment d a \<noteq> None \<and> DISASM_LINES_MAX \<le> length (out @ cs))"
    using that cs(3) less.prems assms(2) by (cases "GetComment d a") auto
  consider "GetComment d a \<noteq> None" "DISASM_LINES_MAX \<le> length (out @ cs)"
    | "\<not> (GetComment d a \<noteq> None \<and> DISASM_LINES_MAX \<le> length (out @ cs))"
      "GetLabels d a \<noteq> None" "DISASM_LINES_MAX \<le> length ((out @ cs) @ bs)"
    | "\<not> (GetComment d a \<noteq> None \<and> DISASM_LINES_MAX \<le> length (out @ cs))"
      "\<not> (GetLabels d a \<noteq> None \<and> DISASM_LINES_MAX \<le> length ((out @ cs) @ bs))"
    by blast
  then show ?case
  proof cases
    case 1
    then have "fill_lines cmds m d n a out = Inr (out @ cs)" using step by simp
    then show ?thesis
      using 1 cs(1,2) less.prems assms(2) by (intro exI [of _ cs] exI [of _ 0]) simp
  next
    case 2
    then have "fill_lines cmds m d n a out = Inr (out @ cs @ bs)" using step by auto
    then show ?thesis
      using 2 cs(1,2) bs(1,2) cs79 [OF 2(1)] less.prems assms(2) by (intro exI [of _ "cs @ bs"] exI [of _ 0]) simp
  next
    case 3
    let ?out = "((out @ cs) @ bs) @ [l]" and ?a = "next_instr m a"
    have a: "a + of_nat (GetInstrLen (line_opcode l)) = ?a" using l(2) by (simp add: code_at_def next_instr_def)
    have f: "filter (\<lambda>l. line_type l = L_CODE) ((cs @ bs) @ [l] @ ls) = l # filter (\<lambda>l. line_type l = L_CODE) ls" for ls
      using cs(2) bs(2) l(2) by (simp add: code_at_def)
    have cb79: "length ((out @ cs) @ bs) < DISASM_LINES_MAX"
      using 3(2) cs79 [OF 3(1)] bs(3) by (cases "GetLabels d a") auto
    have run: "fill_lines cmds m d n a out = (if DISASM_LINES_MAX \<le> length ?out then Inr ?out else fill_lines cmds m d n ?a ?out)"
      using step 3 by (simp only: if_False a simp_thms)
    have len: "length out < length ?out" "length ?out \<le> n + 2" using cs(1) bs(1) less.prems by simp_all
    show ?thesis
    proof (cases "DISASM_LINES_MAX \<le> length ?out \<or> n \<le> length ?out")
      case True
      then have "fill_lines cmds m d n a out = Inr ?out" using run by (auto simp: fill_stop)
      moreover have "n \<le> length ?out" using True assms(2) by auto
      ultimately show ?thesis
        using len cb79 assms(2) l(2) f [of "[]"]
        by (intro exI [of _ "cs @ bs @ [l]"] exI [of _ 1]) (simp add: upt_rec)
    next
      case False
      then have "n - length ?out < n - length out" "length ?out < n" using len(1) less.prems by linarith+
      from less.hyps [OF this] obtain ls k where IH: "fill_lines cmds m d n ?a ?out = Inr (?out @ ls)" "n \<le> length (?out @ ls)"
        "length (?out @ ls) \<le> min DISASM_LINES_MAX (n + 2)"
        "list_all2 (code_at cmds m) (map (\<lambda>i. (next_instr m ^^ i) ?a) [0..<k]) (filter (\<lambda>l. line_type l = L_CODE) ls)"
        by blast
      have "map (\<lambda>i. (next_instr m ^^ i) a) [0..<Suc k] = a # map (\<lambda>i. (next_instr m ^^ i) ?a) [0..<k]"
        by (simp add: upt_conv_Cons map_Suc_upt [symmetric] funpow_swap1 del: upt_Suc)
      then show ?thesis
        using IH run False l(2) f [of ls]
        by (intro exI [of _ "(cs @ bs) @ [l] @ ls"] exI [of _ "Suc k"]) (simp del: upt_Suc)
    qed
  qed
qed

section \<open>Walking back\<close>

lemma next_instr_int: "next_instr m (word_of_int z) = word_of_int (z + len_at m z)"
  by (simp add: next_instr_def len_at_def)

lemma walk_reaches: "walk m t n s = (t, 0) \<Longrightarrow> (next_instr m ^^ n) (word_of_int s) = word_of_int t"
proof (induction n arbitrary: s)
  case (Suc n)
  then have "s < t" "walk m t n (s + len_at m s) = (t, 0)" by (auto split: if_splits)
  from Suc.IH [OF this(2)] show ?case unfolding funpow_Suc_right comp_def next_instr_int .
qed simp

lemma start_addrs_iff:
  "x \<in> set (start_addrs m t n k s) \<longleftrightarrow>
    s \<le> x \<and> x < s + int k \<and> (x = s \<or> x + int n \<le> t) \<and> walk m t n x = (t, 0)"
proof (induction k arbitrary: s)
  case (Suc k)
  show ?case
  proof (cases "t < s + 1 + int n")
    case True
    then have "s \<le> x \<and> x + int n \<le> t \<longrightarrow> x = s" by linarith
    with True show ?thesis by (cases "x = s") auto
  next
    case False
    then show ?thesis using Suc.IH [of "s + 1"] by (cases "x = s") auto
  qed
qed simp

lemma next_instr_back:
  assumes "ss \<noteq> []" "\<forall>s \<in> set ss. P s"
  shows "P (case List.find Q ss of Some s \<Rightarrow> s | None \<Rightarrow> hd ss)"
proof (cases "List.find Q ss")
  case (Some s)
  then have "s \<in> set ss" by (auto simp: find_Some_iff)
  with Some assms show ?thesis by simp
qed (use assms in simp)

section \<open>Links\<close>

definition branches :: "disasm_line \<Rightarrow> bool" where
  "branches l \<longleftrightarrow> line_type l = L_CODE \<and> GetInstrType (line_opcode l) \<le> OPTYPE_JMP"

definition wants :: "addr \<Rightarrow> addr \<Rightarrow> (addr \<times> nat) list \<Rightarrow> disasm_line \<Rightarrow> nat \<Rightarrow> bool" where
  "wants lo_a hi_a first l j \<longleftrightarrow> branches l \<and> lo_a \<le> line_imm l \<and> line_imm l \<le> hi_a \<and> map_of first (line_imm l) = Some j"

lemma imm_links_Cons:
  "imm_links lo_a hi_a first i k (l # ls) =
    (if \<exists>j. wants lo_a hi_a first l j
     then (i, the (map_of first (line_imm l)), k) # imm_links lo_a hi_a first (Suc i) (Suc k) ls
     else imm_links lo_a hi_a first (Suc i) k ls)"
  by (auto simp: wants_def branches_def split: option.split)

lemma imm_links_pairs:
  "(\<lambda>(i, j, k). (i, j)) ` set (imm_links lo_a hi_a first i k ls) =
    {(i + n, j) | n j. n < length ls \<and> wants lo_a hi_a first (ls ! n) j}"
proof (induction ls arbitrary: i k)
  case (Cons l ls)
  have "{(i + n, j) | n j. n < length (l # ls) \<and> wants lo_a hi_a first ((l # ls) ! n) j} =
      {(i, j) | j. wants lo_a hi_a first l j} \<union> {(Suc i + n, j) | n j. n < length ls \<and> wants lo_a hi_a first (ls ! n) j}"
    by (auto simp: less_Suc_eq_0_disj)
  moreover have "{(i, j) | j. wants lo_a hi_a first l j} =
      (if \<exists>j. wants lo_a hi_a first l j then {(i, the (map_of first (line_imm l)))} else {})"
    by (auto simp: wants_def)
  ultimately show ?case using Cons.IH [of "Suc i"] unfolding imm_links_Cons
    by (cases "\<exists>j. wants lo_a hi_a first l j") auto
qed simp

lemma imm_links_numbers: "map (\<lambda>(i, j, k). k) (imm_links lo_a hi_a first i k ls) = [k..<k + length (imm_links lo_a hi_a first i k ls)]"
proof (induction ls arbitrary: i k)
  case (Cons l ls)
  show ?case unfolding imm_links_Cons using Cons.IH by (simp add: upt_conv_Cons del: upt_Suc)
qed simp

lemma first_line:
  "map_of (zip xs [n..<n + length xs]) a = Some j \<longleftrightarrow> n \<le> j \<and> j < n + length xs \<and> xs ! (j - n) = a \<and> (\<forall>k < j - n. xs ! k \<noteq> a)"
proof (induction xs arbitrary: n)
  case (Cons x xs)
  have z: "zip (x # xs) [n..<n + length (x # xs)] = (x, n) # zip xs [Suc n..<Suc n + length xs]"
    by (simp add: upt_conv_Cons del: upt_Suc)
  show ?case
  proof (cases "j - n")
    case 0
    then show ?thesis unfolding z using Cons.IH [of "Suc n"] by (auto simp: nth_Cons')
  next
    case (Suc i)
    then have "j - Suc n = i" "n < j" by simp_all
    then show ?thesis unfolding z Suc using Cons.IH [of "Suc n"] by (auto simp: All_less_Suc2 nth_Cons' less_Suc_eq_0_disj)
  qed
qed simp

section \<open>Properties\<close>

text \<open>With the tables the program can reach, the window fills without an exception: at least the
  lines asked for, at most two more and at most 80, and its code lines are consecutive instructions
  of the memory, each with the command of its opcode.\<close>

theorem window_lines:
  assumes "tables_ok d"
  defines "n \<equiv> \<lambda>lines. if lines = 0 then 80 else min lines 80"
  shows "\<exists>ls k. UpdateDisasm cmds m d a lines off = Inr ls \<and> n lines \<le> length ls \<and> length ls \<le> min 80 (n lines + 2) \<and>
    list_all2 (code_at cmds m) (map (\<lambda>i. (next_instr m ^^ i) (GetAddr m d a off)) [0..<k])
      (filter (\<lambda>l. line_type l = L_CODE) ls)"
proof -
  have "n lines \<le> DISASM_LINES_MAX" "length [] < n lines" by (simp_all add: n_def DISASM_LINES_MAX_def)
  note f = fill_lines_ok [OF assms(1) this, of cmds m "GetAddr m d a off"]
  have "UpdateDisasm cmds m d a lines off = fill_lines cmds m d (n lines) (GetAddr m d a off) []"
    by (simp add: UpdateDisasm_def DISASM_LINES_MAX_def n_def)
  with f show ?thesis by (simp add: DISASM_LINES_MAX_def)
qed

text \<open>Going back \<open>n\<close> instructions finds an address from which \<open>n\<close> instructions lead exactly to
  the given one, or, when no address that the search tries does, the address \<open>n\<close> bytes before.\<close>

theorem step_back:
  assumes "0 < n" "n \<le> 20000"
  shows "(next_instr m ^^ n) (GetAddr m d a (- int n)) = a \<or>
    GetAddr m d a (- int n) = a - of_nat n \<and>
    (\<forall>s \<in> {uint a - 3 * int n ..< uint a - 3 * int n + 41}. s + int n \<le> uint a \<longrightarrow> walk m (uint a) n s \<noteq> (uint a, 0))"
proof -
  let ?s = "uint a - int n * 3"
  have "uint a < 2 ^ LENGTH(16)" by (rule unsigned_less)
  moreover have "0 \<le> uint a" by simp
  ultimately have "- (2 ^ 31) \<le> ?s" "?s < 2 ^ 31" using assms by (simp_all, linarith)
  moreover have "int32 z = z" if "- (2 ^ 31) \<le> z" "z < 2 ^ 31" for z
    using that by (simp add: int32_def signed_of_int signed_take_bit_int_eq_self)
  ultimately have s: "int32 ?s = ?s" by blast
  let ?ss = "start_addrs m (uint a) n MAX_ATTEMPTS ?s"
  have r: "GetAddr m d a (- int n) =
      (if ?ss = [] then a - of_nat n
       else case List.find (\<lambda>s. 0 < m_memRuns d (ucast s)) (map word_of_int ?ss) of Some s \<Rightarrow> s | None \<Rightarrow> hd (map word_of_int ?ss))"
    using assms(1) by (simp add: GetAddr_def Let_def CMD_BYTES_MAX_def s cong: option.case_cong)
  show ?thesis
  proof (cases "?ss = []")
    case True
    have "walk m (uint a) n x \<noteq> (uint a, 0)" if "?s \<le> x" "x < ?s + 41" "x + int n \<le> uint a" for x
      using start_addrs_iff [of x m "uint a" n MAX_ATTEMPTS ?s] True that by (auto simp: MAX_ATTEMPTS_def)
    then show ?thesis using r True by (simp add: mult.commute)
  next
    case False
    have "\<forall>x \<in> set (map word_of_int ?ss). (next_instr m ^^ n) x = a"
      using walk_reaches [of m "uint a" n] by (auto simp: start_addrs_iff)
    from next_instr_back [OF _ this] show ?thesis using False by (simp add: r)
  qed
qed

text \<open>The links go from each branch line whose target is between the first and the last address
  of the window to the first line of that target, and from no other line; they are numbered from 0.\<close>

theorem links_are_branches:
  assumes "GetImmLinks ls = Some links"
  shows "(\<lambda>(i, j, k). (i, j)) ` set links =
      {(i, j). i < length ls \<and> branches (ls ! i) \<and> line_addr (hd ls) \<le> line_imm (ls ! i) \<and>
        line_imm (ls ! i) \<le> line_addr (last ls) \<and> j < length ls \<and> line_addr (ls ! j) = line_imm (ls ! i) \<and>
        (\<forall>k < j. line_addr (ls ! k) \<noteq> line_imm (ls ! i))} \<and>
    map (\<lambda>(i, j, k). k) links = [0..<length links]"
proof -
  have l: "links = imm_links (line_addr (hd ls)) (line_addr (last ls)) (zip (map line_addr ls) [0..<length ls]) 0 0 ls"
    using assms by (simp add: GetImmLinks_def split: if_splits)
  have "map_of (zip (map line_addr ls) [0..<length ls]) a = Some j \<longleftrightarrow>
      j < length ls \<and> line_addr (ls ! j) = a \<and> (\<forall>k < j. line_addr (ls ! k) \<noteq> a)" for a j
    using first_line [of "map line_addr ls" 0 a j] by auto
  then show ?thesis using imm_links_numbers unfolding l by (auto simp: imm_links_pairs wants_def)
qed

lemma tables_ok_new: "tables_ok (Dd_new s)"
  by (simp add: tables_ok_def Dd_new_def Lt_new_def lt_ok_def)

theorem window_lines_witness:
  "\<exists>ls k. UpdateDisasm cmds_z80 sample_memory (Dd_new () :: (rat, unit) debug_data) 0x100 5 0 = Inr ls \<and> 5 \<le> length ls \<and>
    length ls \<le> 7 \<and> list_all2 (code_at cmds_z80 sample_memory) (map (\<lambda>i. (next_instr sample_memory ^^ i) 0x100) [0..<k])
      (filter (\<lambda>l. line_type l = L_CODE) ls)"
  using window_lines [OF tables_ok_new [of "()"], of cmds_z80 sample_memory "0x100" 5 0] by (simp add: GetAddr_def)

definition sample_jump :: "addr \<Rightarrow> addr \<Rightarrow> disasm_line" where
  "sample_jump a b = (blank_line a)\<lparr>line_opcode := 0xC3, line_imm := b\<rparr>"

theorem links_are_branches_witness:
  "(\<lambda>(i, j, k). (i, j)) ` set [(0, 1, 0), (1, 0, 1)] =
    {(i, j). i < 2 \<and> branches ([sample_jump 0x100 0x103, sample_jump 0x103 0x100] ! i) \<and>
      0x100 \<le> line_imm ([sample_jump 0x100 0x103, sample_jump 0x103 0x100] ! i) \<and>
      line_imm ([sample_jump 0x100 0x103, sample_jump 0x103 0x100] ! i) \<le> 0x103 \<and> j < 2 \<and>
      line_addr ([sample_jump 0x100 0x103, sample_jump 0x103 0x100] ! j) =
        line_imm ([sample_jump 0x100 0x103, sample_jump 0x103 0x100] ! i) \<and>
      (\<forall>k < j. line_addr ([sample_jump 0x100 0x103, sample_jump 0x103 0x100] ! k) \<noteq>
        line_imm ([sample_jump 0x100 0x103, sample_jump 0x103 0x100] ! i))}"
proof -
  have "GetImmLinks [sample_jump 0x100 0x103, sample_jump 0x103 0x100] = Some [(0, 1, 0), (1, 0, 1)]"
    by (simp add: GetImmLinks_def sample_jump_def blank_line_def GetInstrType_def INSTR_TYPES_def OPTYPE_JMP_def upt_rec)
  from links_are_branches [OF this, THEN conjunct1] show ?thesis
    by (simp add: sample_jump_def blank_line_def numeral_2_eq_2)
qed

theorem step_back_witness:
  "(next_instr sample_memory ^^ 3) (GetAddr sample_memory (Dd_new () :: (rat, unit) debug_data) 0x100 (- 3)) = 0x100 \<or>
    GetAddr sample_memory (Dd_new () :: (rat, unit) debug_data) 0x100 (- 3) = 0x100 - 3 \<and>
    (\<forall>s \<in> {247 ..< 288}. s + 3 \<le> 256 \<longrightarrow> walk sample_memory 256 3 s \<noteq> (256, 0))"
  using step_back [of 3 sample_memory "Dd_new () :: (rat, unit) debug_data" "0x100"] by simp

end
