(* ===== verification/Hw_Props.thy ===== *)
theory Hw_Props
  imports Hw_Sample
begin

text \<open>
  The machine as a whole: beam and processor advance in step, an instruction ends after one to
  six machine cycles, frame steps and headless runs return, a reset keeps the totals, and the
  execution thread keeps the machine in shape whatever is requested, if an attached debugger keeps
  the contract of the locale \<open>debug_contract\<close>. A machine without a debugger does; \<open>Debug_Shape\<close>
  shows it for the debugger of the program.
\<close>

section \<open>A machine cycle advances the cycle counter or ends the instruction\<close>

lemma exec_move_cc: "r_cc (cpu (exec_move i m)) = r_cc (cpu m)"
  by (cases i) (simp_all add: move_defs Let_def)

lemma exec_move_mc: "MC (exec_move i m) = MC m"
  by (cases i) (simp_all add: move_defs Let_def)

lemma dad_mc: "r_mc (dad_lo p c) = r_mc c" "r_mc (dad_hi p c) = r_mc c"
  by (simp_all add: dad_lo_def dad_hi_def set_flag_def Let_def case_prod_beta)

lemma exec_arith_clock:
  "r_cc (cpu (exec_arith i m)) = r_cc (cpu m)" "MC (exec_arith i m) = MC m"
  by (cases i; simp add: arith_defs rotate_eqs set_flag_def dad_mc)+

lemma exec_logic_clock:
  "r_cc (cpu (exec_logic i m)) = r_cc (cpu m)" "MC (exec_logic i m) = MC m"
  by (cases i; simp add: logic_defs alu_mem_def alu_imm_def save_act_def set_tmp_def)+

text \<open>The handlers that move the cycle counter: a call or return not taken skips, HLT repeats.\<close>

fun moves_mc :: "ctrl_instr \<Rightarrow> bool" where
  "moves_mc (I_CALL cd) = True"
| "moves_mc (I_RETCond cd) = True"
| "moves_mc I_HLT = True"
| "moves_mc _ = False"

lemmas ctrl_defs = do_JMP_def do_PCHL_def do_CALL_def do_RET_def RETCond_def do_RST_def do_IN_def do_OUT_def
  do_HLT_def jump_wz_def dec_sp_def inc_sp_def

lemma exec_ctrl_clock:
  "r_cc (cpu (exec_ctrl bus i m)) = r_cc (cpu m)"
  "\<not> moves_mc i \<Longrightarrow> MC (exec_ctrl bus i m) = MC m"
  by (cases i; simp add: ctrl_defs Let_def case_prod_beta)+

lemma exec_call_clock:
  "MC (do_CALL cd m) = MC m \<or> MC m = 3 \<and> MC (do_CALL cd m) = 5"
  "MC (RETCond cd m) = MC m \<or> MC m = 1 \<and> MC (RETCond cd m) = 3"
  "MC (do_HLT m) = MC m \<or> i_hlta (cpu (do_HLT m))"
  by (simp_all add: ctrl_defs Let_def)

lemma M_CYCLES_calls:
  "list_all (\<lambda>(op, i). case i of
      Ctrl (I_CALL cd) \<Rightarrow> M_CYCLES ! unat op = 6
    | Ctrl (I_RETCond cd) \<Rightarrow> M_CYCLES ! unat op = 4
    | _ \<Rightarrow> True) decode_cases"
  by code_simp

text \<open>What a handler leaves in the cycle counter, unless it halts.\<close>

lemma exec_instr_mc:
  assumes "(r_ir (cpu m), i) \<in> set decode_cases" "unat (MC m) < M_CYCLES ! unat (r_ir (cpu m))"
  shows "unat (MC m) \<le> unat (MC (exec_instr bus i m)) \<and>
      unat (MC (exec_instr bus i m)) < M_CYCLES ! unat (r_ir (cpu m)) \<or>
    i_hlta (cpu (exec_instr bus i m))"
proof -
  have calls: "i = Ctrl (I_CALL cd) \<Longrightarrow> M_CYCLES ! unat (r_ir (cpu m)) = 6"
    "i = Ctrl (I_RETCond cd) \<Longrightarrow> M_CYCLES ! unat (r_ir (cpu m)) = 4" for cd
    using M_CYCLES_calls assms(1) by (auto simp: list_all_iff split: instr.splits ctrl_instr.splits)
  have same: ?thesis if "MC (exec_instr bus i m) = MC m" using that assms(2) by simp
  show ?thesis
  proof (cases i)
    case (Ctrl j)
    show ?thesis
    proof (cases "moves_mc j")
      case True
      then show ?thesis
        using exec_call_clock [where m = m] same assms(2) calls Ctrl
        by (cases j) fastforce+
    next
      case False
      then have "MC (exec_instr bus i m) = MC m" using exec_ctrl_clock(2) Ctrl by simp
      then show ?thesis by (rule same)
    qed
  qed (use same in \<open>simp_all add: exec_move_mc exec_arith_clock exec_logic_clock\<close>)
qed

lemma exec_instr_cc: "r_cc (cpu (exec_instr bus i m)) = r_cc (cpu m)"
  by (cases i) (simp_all add: exec_move_cc exec_arith_clock exec_logic_clock exec_ctrl_clock)

lemma begin_cycle_clock:
  "MC (begin_cycle irq m) = MC m" "r_cc (cpu (begin_cycle irq m)) = r_cc (cpu m)"
  "MC m \<noteq> 0 \<Longrightarrow> r_ir (cpu (begin_cycle irq m)) = r_ir (cpu m)"
  by (simp_all add: begin_cycle_def Let_def latch_irq_def accept_interrupt_def fetch_opcode_def)

lemma cycle_clock:
  assumes "cpu_inv m"
  shows "r_cc (cpu (ExecuteMachineCycle bus irq m)) = r_cc (cpu m) + 4"
    "IsInstructionExecuted (cpu (ExecuteMachineCycle bus irq m)) \<or>
      unat (MC m) < unat (MC (ExecuteMachineCycle bus irq m))"
proof -
  let ?b = "begin_cycle irq m" and ?M = "M_CYCLES ! unat (r_ir (cpu (begin_cycle irq m)))"
  obtain i where i: "lookup_case (r_ir (cpu ?b)) = Some i" "(r_ir (cpu ?b), i) \<in> set decode_cases"
    by (rule lookup_case_total)
  let ?e = "exec_instr bus i ?b"
  have m': "ExecuteMachineCycle bus irq m = upd (\<lambda>c. c\<lparr>r_cc := r_cc c + MACHINE_CC\<rparr>) (upd next_mc ?e)"
    by (simp add: ExecuteMachineCycle_def Decode_def i(1))
  show "r_cc (cpu (ExecuteMachineCycle bus irq m)) = r_cc (cpu m) + 4"
    by (simp add: m' next_mc_def exec_instr_cc begin_cycle_clock MACHINE_CC_def)
  have ir: "r_ir (cpu ?e) = r_ir (cpu ?b)" by simp
  have "unat (MC ?b) < ?M"
    using assms M_CYCLES_bounds(1) begin_cycle_clock [where irq = irq and m = m] by (cases "MC m = 0") (simp_all add: cpu_inv_def)
  from exec_instr_mc [OF i(2) this, of bus]
  show "IsInstructionExecuted (cpu (ExecuteMachineCycle bus irq m)) \<or>
      unat (MC m) < unat (MC (ExecuteMachineCycle bus irq m))"
  proof
    assume e: "unat (MC ?b) \<le> unat (MC ?e) \<and> unat (MC ?e) < ?M"
    have M: "?M \<le> 6" by (rule M_CYCLES_bounds)
    have inc: "unat (MC ?e + 1) = unat (MC ?e) + 1"
      using e M by (simp add: unat_word_ariths)
    then have mc: "MC (ExecuteMachineCycle bus irq m) = of_nat ((unat (MC ?e) + 1) mod ?M)"
      by (simp add: m' next_mc_def ir)
    show ?thesis
    proof (cases "unat (MC ?e) + 1 = ?M")
      case True
      then show ?thesis using mc by (simp add: IsInstructionExecuted_def)
    next
      case False
      then have "(unat (MC ?e) + 1) mod ?M = unat (MC ?e) + 1" using e by simp
      then have "unat (MC (ExecuteMachineCycle bus irq m)) = unat (MC ?e) + 1"
        using mc inc by (simp add: add.commute)
      then show ?thesis using e begin_cycle_clock(1) [where irq = irq and m = m] by simp
    qed
  qed (simp add: m' next_mc_def IsInstructionExecuted_def)
qed

section \<open>Beam and processor in step\<close>

definition hw_inv :: "('f, 'd) hardware \<Rightarrow> bool" where
  "hw_inv h \<longleftrightarrow> cpu_inv (hw_machine h) \<and> steady (hw_display h) \<and> 16 dvd framebufferIdx (hw_display h)"

lemma cpu_inv_io_mem [simp]:
  "cpu_inv (m\<lparr>io := x\<rparr>) = cpu_inv m" "cpu_inv (m\<lparr>mem := y\<rparr>) = cpu_inv m"
  by (simp_all add: cpu_inv_def)

lemma upd_views [simp]:
  "hw_machine (upd_hw_io g h) = (hw_machine h)\<lparr>io := g (hw_io h)\<rparr>" "hw_display (upd_hw_io g h) = hw_display h"
  "hw_machine (upd_mem k h) = (hw_machine h)\<lparr>mem := k (hw_mem h)\<rparr>" "hw_display (upd_mem k h) = hw_display h"
  "hw_machine (upd_cpu f h) = upd f (hw_machine h)" "hw_display (upd_cpu f h) = hw_display h"
  "hw_machine (upd_display e h) = hw_machine h" "hw_display (upd_display e h) = e (hw_display h)"
  "hw_cpu (upd_hw_io g h) = hw_cpu h" "hw_cpu (upd_mem k h) = hw_cpu h" "hw_cpu (upd_display e h) = hw_cpu h"
  "hw_cpu (upd_cpu f h) = f (hw_cpu h)"
  by (simp_all add: hw_views)

lemma hw_inv_mem [simp]: "hw_inv (upd_mem g h) = hw_inv h"
  by (simp add: hw_inv_def)

text \<open>What a machine cycle leaves alone.\<close>

definition outside :: "('f, 'd) hardware \<Rightarrow> ('f, 'd) hardware" where
  "outside h = h\<lparr>hw_machine := undefined, hw_display := undefined, hw_audio := undefined\<rparr>"

lemma hw_sound_keeps:
  "hw_cpu (hw_sound fo h) = hw_cpu h" "hw_display (hw_sound fo h) = hw_display h"
  "exit_code (hw_machine (hw_sound fo h)) = exit_code (hw_machine h)" "outside (hw_sound fo h) = outside h"
  by (simp_all add: hw_sound_def hw_views outside_def Let_def case_prod_beta)

lemma hw_cycle_views:
  "hw_display (hw_cycle fo h) = fst (Rasterize (hw_display h, hw_io h, hw_mem h))"
  "outside (hw_cycle fo h) = outside h"
  by (simp_all add: hw_cycle_def hw_sound_keeps hw_execute_def hw_rasterize_def case_prod_beta Let_def)
    (simp add: outside_def)

lemma hw_cycle_cpu:
  assumes "cpu_inv (hw_machine h)"
  shows "cpu_inv (hw_machine (hw_cycle fo h))" "r_cc (hw_cpu (hw_cycle fo h)) = r_cc (hw_cpu h) + 4"
    "IsInstructionExecuted (hw_cpu (hw_cycle fo h)) \<or> unat (r_mc (hw_cpu h)) < unat (r_mc (hw_cpu (hw_cycle fo h)))"
proof -
  let ?r = "hw_rasterize h"
  have r: "cpu_inv (hw_machine ?r)" "cpu (hw_machine ?r) = hw_cpu h"
    using assms by (simp_all add: hw_rasterize_def case_prod_beta Let_def hw_cpu_def)
  have s: "hw_cpu (hw_cycle fo h) = cpu (ExecuteMachineCycle io_bus (d_irq (hw_display ?r)) (hw_machine ?r))"
    "exit_code (hw_machine (hw_cycle fo h)) = exit_code (ExecuteMachineCycle io_bus (d_irq (hw_display ?r)) (hw_machine ?r))"
    by (simp_all add: hw_cycle_def hw_sound_keeps hw_execute_def hw_cpu_def [of "hw_execute _"] hw_cpu_def [of "_\<lparr>hw_machine := _\<rparr>"])
  show "cpu_inv (hw_machine (hw_cycle fo h))"
    using ExecuteMachineCycle_inv [OF r(1), of io_bus "d_irq (hw_display ?r)"] s by (simp add: cpu_inv_def hw_cpu_def)
  show "r_cc (hw_cpu (hw_cycle fo h)) = r_cc (hw_cpu h) + 4"
    "IsInstructionExecuted (hw_cpu (hw_cycle fo h)) \<or> unat (r_mc (hw_cpu h)) < unat (r_mc (hw_cpu (hw_cycle fo h)))"
    using cycle_clock [OF r(1), of io_bus "d_irq (hw_display ?r)"] r(2) by (simp_all add: s)
qed

lemma hw_cycle_inv:
  assumes "hw_inv h" shows "hw_inv (hw_cycle fo h)"
proof -
  have d: "steady (fst (hw_display h, hw_io h, hw_mem h))" "16 dvd framebufferIdx (fst (hw_display h, hw_io h, hw_mem h))"
    using assms by (simp_all add: hw_inv_def)
  have "16 dvd framebufferIdx (hw_display h) + 16" using d(2) by simp
  then have "16 dvd (framebufferIdx (hw_display h) + 16) mod FRAME_LEN" by (rule next_frame(3))
  then show ?thesis
    using hw_cycle_cpu(1) [of h fo] assms Rasterize_timing [OF d]
    by (simp add: hw_inv_def hw_cycle_views)
qed

text \<open>The display after some cycles is a run of the rasteriser.\<close>

lemma hw_cycles_run:
  "\<exists>fs. length fs = n \<and> hw_display ((hw_cycle fo ^^ n) h) = fst (raster_run fs (hw_display h, xm))"
proof (induction n)
  case 0
  show ?case by (simp add: raster_run_def)
next
  case (Suc n)
  then obtain fs where fs: "length fs = n" "hw_display ((hw_cycle fo ^^ n) h) = fst (raster_run fs (hw_display h, xm))"
    by auto
  let ?g = "(hw_cycle fo ^^ n) h"
  have "hw_display ((hw_cycle fo ^^ Suc n) h) = fst (raster_run (fs @ [\<lambda>_. (hw_io ?g, hw_mem ?g)]) (hw_display h, xm))"
    by (simp add: hw_cycle_views raster_run_def fs(2))
  then show ?case using fs(1) by (intro exI [of _ "fs @ [\<lambda>_. (hw_io ?g, hw_mem ?g)]"]) simp
qed

lemma hw_cycles:
  fixes fo :: "'f float_ops" and h :: "('f, 'd) hardware"
  assumes "hw_inv h"
  defines "g \<equiv> \<lambda>n. (hw_cycle fo ^^ n) h" and "p \<equiv> \<lambda>n. framebufferIdx (hw_display h) + 16 * int n"
  shows "hw_inv (g n)" "r_cc (hw_cpu (g n)) = r_cc (hw_cpu h) + 4 * of_nat n"
    "framebufferIdx (hw_display (g n)) = p n mod FRAME_LEN"
    "frameNum (hw_display (g n)) = frameNum (hw_display h) + of_int (p n div FRAME_LEN)"
    "0 < n \<Longrightarrow> irq_default (hw_display h) \<Longrightarrow> d_irq (hw_display (g n)) = (p n mod FRAME_LEN = IRQ_COMMIT_PXL)"
    "settings (hw_display (g n)) = settings (hw_display h)" "outside (g n) = outside h"
proof -
  show inv: "hw_inv (g n)" for n by (induction n) (simp_all add: g_def assms(1) hw_cycle_inv)
  show "r_cc (hw_cpu (g n)) = r_cc (hw_cpu h) + 4 * of_nat n"
  proof (induction n)
    case (Suc n)
    then show ?case using hw_cycle_cpu(2) [of "g n" fo] inv [of n] by (simp add: g_def hw_inv_def)
  qed (simp add: g_def)
  show "outside (g n) = outside h" by (induction n) (simp_all add: g_def hw_cycle_views)
  obtain fs where fs: "length fs = n" "hw_display (g n) = fst (raster_run fs (hw_display h, hw_io h, hw_mem h))"
    unfolding g_def using hw_cycles_run by blast
  have "steady (fst (hw_display h, hw_io h, hw_mem h))" "16 dvd framebufferIdx (fst (hw_display h, hw_io h, hw_mem h))"
    using assms by (simp_all add: hw_inv_def)
  from raster_run_timing [OF this, of fs] fs
  show "framebufferIdx (hw_display (g n)) = p n mod FRAME_LEN"
    "frameNum (hw_display (g n)) = frameNum (hw_display h) + of_int (p n div FRAME_LEN)"
    "0 < n \<Longrightarrow> irq_default (hw_display h) \<Longrightarrow> d_irq (hw_display (g n)) = (p n mod FRAME_LEN = IRQ_COMMIT_PXL)"
    "settings (hw_display (g n)) = settings (hw_display h)"
    by (auto simp: p_def)
qed

section \<open>An instruction takes one to six cycles\<close>

lemma instruction_cycles_bounded:
  assumes "cpu_inv (hw_machine h)" "unat (r_mc (hw_cpu h)) + b \<ge> 6" "0 < b"
  shows "\<exists>k. 0 < k \<and> k \<le> b \<and> instruction_cycles fo h = Some ((hw_cycle fo ^^ k) h) \<and>
    IsInstructionExecuted (hw_cpu ((hw_cycle fo ^^ k) h))"
  using assms
proof (induction b arbitrary: h)
  case (Suc b)
  let ?h1 = "hw_cycle fo h"
  note c = hw_cycle_cpu [OF Suc.prems(1), of fo]
  show ?case
  proof (cases "IsInstructionExecuted (hw_cpu ?h1)")
    case True
    then show ?thesis by (intro exI [of _ 1]) (simp add: instruction_cycles.simps [of fo h])
  next
    case False
    have "unat (r_mc (hw_cpu ?h1)) < 6"
      using c(1) M_CYCLES_bounds(2) [of "r_ir (cpu (hw_machine ?h1))"] by (simp add: cpu_inv_def hw_cpu_def)
    then have b: "unat (r_mc (hw_cpu ?h1)) + b \<ge> 6" "0 < b" using False c(3) Suc.prems(2) by auto
    from Suc.IH [OF c(1) b] obtain k where "0 < k" "k \<le> b"
      "instruction_cycles fo ?h1 = Some ((hw_cycle fo ^^ k) ?h1)" "IsInstructionExecuted (hw_cpu ((hw_cycle fo ^^ k) ?h1))"
      by auto
    then show ?thesis
      using False by (intro exI [of _ "Suc k"]) (simp add: instruction_cycles.simps [of fo h] funpow_swap1)
  qed
qed simp

lemma instruction_ends:
  assumes "hw_inv h"
  obtains k where "0 < k" "k \<le> 6" "instruction_cycles fo h = Some ((hw_cycle fo ^^ k) h)"
    "IsInstructionExecuted (hw_cpu ((hw_cycle fo ^^ k) h))"
  using instruction_cycles_bounded [of h 6 fo] assms by (auto simp: hw_inv_def)

section \<open>Headless runs\<close>

definition elapsed :: "u64 \<Rightarrow> ('f, 'd) hardware \<Rightarrow> u64" where
  "elapsed startCC h = r_cc (hw_cpu h) - startCC"

lemma elapsed_cycles:
  assumes "unat (elapsed cc h) + 24 < 2 ^ 64" "k \<le> 6" "r_cc (hw_cpu g) = r_cc (hw_cpu h) + 4 * of_nat k"
  shows "unat (elapsed cc g) = unat (elapsed cc h) + 4 * k"
proof -
  have "elapsed cc g = elapsed cc h + of_nat (4 * k)" using assms(3) by (simp add: elapsed_def)
  then show ?thesis using assms(1,2) by (simp add: unat_word_ariths unsigned_of_nat take_bit_nat_def)
qed

lemma headless_loop_ends:
  assumes "hw_inv h" "unat (elapsed cc h) < unat maxCycles" "unat maxCycles + 24 < 2 ^ 64"
    and stop: "\<And>g. maxCycles \<le> elapsed cc g \<Longrightarrow> stop g"
  shows "\<exists>g. headless_loop fo stop h = Some g \<and> stop g \<and> hw_inv g \<and> unat (elapsed cc g) < unat maxCycles + 24"
  using assms(1,2)
proof (induction "unat maxCycles - unat (elapsed cc h)" arbitrary: h rule: less_induct)
  case less
  have "hw_inv (upd_mem DebugInit h)" using less.prems by simp
  then obtain k where k: "0 < k" "k \<le> 6"
    "instruction_cycles fo (upd_mem DebugInit h) = Some ((hw_cycle fo ^^ k) (upd_mem DebugInit h))"
    by (rule instruction_ends)
  let ?g = "(hw_cycle fo ^^ k) (upd_mem DebugInit h)"
  note c = hw_cycles(1,2) [OF \<open>hw_inv (upd_mem DebugInit h)\<close>, of k fo]
  have e: "unat (elapsed cc ?g) = unat (elapsed cc h) + 4 * k"
    using elapsed_cycles [of cc h k ?g] c(2) k(2) less.prems(2) assms(3) by simp
  show ?case
  proof (cases "stop ?g")
    case True
    then show ?thesis using c(1) e k less.prems by (simp add: headless_loop.simps [of fo stop h])
  next
    case False
    then have "unat (elapsed cc ?g) < unat maxCycles" using stop by (meson not_le word_less_nat_alt)
    moreover from this have "unat maxCycles - unat (elapsed cc ?g) < unat maxCycles - unat (elapsed cc h)"
      using e k(1) by simp
    ultimately show ?thesis
      using less.hyps [of ?g] c(1) False k(3) by (simp add: headless_loop.simps [of fo stop h])
  qed
qed

section \<open>Frame steps\<close>

declare execute_instruction.simps [simp del] execute_frame.simps [simp del] req_handling.simps [simp del]
  handle_request.simps [simp del]

lemma exception_break_keeps:
  "hw_display (snd (exception_break h)) = hw_display h" "hw_cpu (snd (exception_break h)) = hw_cpu h"
  "exit_code (hw_machine (snd (exception_break h))) = exit_code (hw_machine h)"
  "inbox (snd (exception_break h)) = inbox h" "m_debugAttached (snd (exception_break h)) = m_debugAttached h"
  "hw_debugger (snd (exception_break h)) = hw_debugger h"
  by (simp_all add: exception_break_def IsException_def RecordStop_def hw_views Let_def)

lemma hw_inv_cong:
  "hw_display g = hw_display h \<Longrightarrow> hw_cpu g = hw_cpu h \<Longrightarrow> exit_code (hw_machine g) = exit_code (hw_machine h) \<Longrightarrow>
    hw_inv g = hw_inv h"
  by (simp add: hw_inv_def cpu_inv_def hw_cpu_def)

lemma outsideD:
  assumes "outside g = outside h"
  shows "inbox g = inbox h" "m_debugAttached g = m_debugAttached h" "hw_debugger g = hw_debugger h"
  using arg_cong [OF assms, of inbox] arg_cong [OF assms, of m_debugAttached] arg_cong [OF assms, of hw_debugger]
  by (simp_all add: outside_def)

text \<open>An instruction with no debugger attached and no request waiting.\<close>

lemma quiet_instruction:
  assumes "hw_inv h" "inbox h = []" "\<not> m_debugAttached h"
  obtains k b h1 where "0 < k" "k \<le> 6" "\<And>n. execute_instruction (Suc (Suc n)) fo hk h = Some (Inr (b, h1))"
    "hw_inv h1" "inbox h1 = []" "\<not> m_debugAttached h1"
    "framebufferIdx (hw_display h1) = (framebufferIdx (hw_display h) + 16 * int k) mod FRAME_LEN"
    "frameNum (hw_display h1) = frameNum (hw_display h) + of_int ((framebufferIdx (hw_display h) + 16 * int k) div FRAME_LEN)"
proof -
  let ?h = "upd_mem DebugInit h"
  have inv: "hw_inv ?h" using assms(1) by simp
  then obtain k where k: "0 < k" "k \<le> 6" "instruction_cycles fo ?h = Some ((hw_cycle fo ^^ k) ?h)"
    by (rule instruction_ends)
  let ?g = "(hw_cycle fo ^^ k) ?h"
  note c = hw_cycles(1,3,4,7) [OF inv, of k fo]
  have out: "inbox ?g = []" "\<not> m_debugAttached ?g"
    using outsideD [OF c(4)] assms(2,3) by (simp_all add: upd_mem_def)
  obtain ex e where e: "exception_break ?g = (ex, e)" by fastforce
  note keeps = exception_break_keeps [of ?g, unfolded e snd_conv]
  have "execute_instruction (Suc (Suc n)) fo hk h = Some (Inr (ex, e))" for n
    using out by (simp add: execute_instruction.simps req_handling.simps k(3) debug_break_def e keeps)
  moreover have "hw_inv e" using c(1) hw_inv_cong [of e ?g] by (simp add: keeps)
  ultimately show ?thesis
    using k(1,2) out c(2,3) by (intro that [of k ex e]) (simp_all add: keeps)
qed

lemma execute_frame_ends:
  assumes "hw_inv h" "inbox h = []" "\<not> m_debugAttached h"
  shows "\<exists>n h1. execute_frame (Suc (Suc (Suc n))) fo hk (frameNum (hw_display h)) h = Some (Inr h1) \<and> hw_inv h1 \<and>
    frameNum (hw_display h1) = frameNum (hw_display h) + 1"
  using assms
proof (induction "nat (FRAME_LEN - framebufferIdx (hw_display h))" arbitrary: h rule: less_induct)
  case less
  let ?i = "framebufferIdx (hw_display h)"
  obtain k b h1 where k: "0 < k" "k \<le> 6" "\<And>n. execute_instruction (Suc (Suc n)) fo hk h = Some (Inr (b, h1))"
    "hw_inv h1" "inbox h1 = []" "\<not> m_debugAttached h1"
    "framebufferIdx (hw_display h1) = (?i + 16 * int k) mod FRAME_LEN"
    "frameNum (hw_display h1) = frameNum (hw_display h) + of_int ((?i + 16 * int k) div FRAME_LEN)"
    by (rule quiet_instruction [OF less.prems, where fo = fo and hk = hk]) (rule that; assumption)
  have i: "0 \<le> ?i" "?i < FRAME_LEN" and L: "FRAME_LEN = 239616"
    using less.prems(1) by (simp_all add: hw_inv_def steady_def raster_consts)
  show ?case
  proof (cases "?i + 16 * int k < FRAME_LEN")
    case True
    then have h1: "frameNum (hw_display h1) = frameNum (hw_display h)"
      "framebufferIdx (hw_display h1) = ?i + 16 * int k"
      using k(7,8) i by simp_all
    have "nat (FRAME_LEN - framebufferIdx (hw_display h1)) < nat (FRAME_LEN - ?i)"
      using h1(2) k(1) i True by simp
    from less.hyps [OF this k(4-6)] obtain n h2 where n:
      "execute_frame (Suc (Suc (Suc n))) fo hk (frameNum (hw_display h)) h1 = Some (Inr h2)" "hw_inv h2"
      "frameNum (hw_display h2) = frameNum (hw_display h) + 1"
      unfolding h1(1) by auto
    have "execute_frame (Suc (Suc (Suc (Suc n)))) fo hk (frameNum (hw_display h)) h = Some (Inr h2)"
      by (subst execute_frame.simps(2)) (simp only: k(3) bind.bind_lunit sum.case prod.case h1(1) refl if_True n(1))
    with n(2,3) show ?thesis by blast
  next
    case False
    have "(?i + 16 * int k) div FRAME_LEN = 1" using False i k(2) by (simp add: L div_pos_geq)
    then have "frameNum (hw_display h1) = frameNum (hw_display h) + 1" using k(8) by simp
    moreover from this have "execute_frame (Suc (Suc (Suc 0))) fo hk (frameNum (hw_display h)) h = Some (Inr h1)"
      by (subst execute_frame.simps(2)) (simp add: k(3))
    ultimately show ?thesis using k(4) by blast
  qed
qed

section \<open>The execution thread keeps the machine in shape\<close>

text \<open>
  The shape: the invariant of the processor, the beam inside the frame on a 16 pixel boundary, and
  no store outside the frame buffer so far. A debugger may be attached if it is \<open>good\<close>, and the
  requests that wait are \<open>allowed\<close>.
\<close>

definition machine_fit :: "io machine \<times> display \<Rightarrow> bool" where
  "machine_fit e \<longleftrightarrow> cpu_inv (fst e) \<and> steady (snd e) \<and> 16 dvd framebufferIdx (snd e) \<and> \<not> d_fault (snd e)"

definition hw_fit :: "('d \<Rightarrow> bool) \<Rightarrow> (request \<Rightarrow> bool) \<Rightarrow> ('f, 'd) hardware \<Rightarrow> bool" where
  "hw_fit good allowed h \<longleftrightarrow> machine_fit (hw_machine h, hw_display h) \<and>
    (\<forall>d. hw_debugger h = Some d \<longrightarrow> good d) \<and> (\<forall>r. Some r \<in> set (inbox h) \<longrightarrow> allowed r)"

text \<open>The same for a machine that runs alone, as in test mode: no debugger is attached to it.\<close>

definition hw_alone :: "('f, 'd) hardware \<Rightarrow> bool" where
  "hw_alone h \<longleftrightarrow> hw_inv h \<and> \<not> d_fault (hw_display h) \<and> hw_debugger h = None"

lemma hw_alone_fit: "hw_alone h = hw_fit (\<lambda>_. False) (\<lambda>_. True) h"
  by (auto simp: hw_alone_def hw_fit_def machine_fit_def hw_inv_def)

lemma hw_fit_inv: "hw_fit good allowed h \<Longrightarrow> hw_inv h"
  by (simp add: hw_fit_def machine_fit_def hw_inv_def)

lemma hw_fit_cong:
  "framebufferIdx (hw_display g) = framebufferIdx (hw_display h) \<Longrightarrow> d_fault (hw_display g) = d_fault (hw_display h) \<Longrightarrow>
    hw_cpu g = hw_cpu h \<Longrightarrow> exit_code (hw_machine g) = exit_code (hw_machine h) \<Longrightarrow> hw_debugger g = hw_debugger h \<Longrightarrow>
    inbox g = inbox h \<Longrightarrow> hw_fit good allowed g = hw_fit good allowed h"
  by (simp add: hw_fit_def machine_fit_def cpu_inv_def steady_def hw_cpu_def)

lemma RecordStop_keeps [simp]:
  "hw_machine (RecordStop r t h) = hw_machine h" "hw_display (RecordStop r t h) = hw_display h"
  "hw_debugger (RecordStop r t h) = hw_debugger h" "hw_cpu (RecordStop r t h) = hw_cpu h"
  "inbox (RecordStop r t h) = inbox h"
  by (simp_all add: RecordStop_def Let_def hw_cpu_def)

lemma upd_keeps [simp]:
  "hw_debugger (upd_hw_io g h) = hw_debugger h" "hw_debugger (upd_mem k h) = hw_debugger h"
  "hw_debugger (upd_cpu f h) = hw_debugger h" "hw_debugger (upd_display e h) = hw_debugger h"
  "inbox (upd_hw_io g h) = inbox h" "inbox (upd_mem k h) = inbox h"
  "inbox (upd_cpu f h) = inbox h" "inbox (upd_display e h) = inbox h"
  by (simp_all add: hw_views)

lemma hw_fit_upd [simp]:
  "hw_fit good allowed (upd_hw_io g h) = hw_fit good allowed h"
  "hw_fit good allowed (upd_mem k h) = hw_fit good allowed h"
  "hw_fit good allowed (RecordStop r t h) = hw_fit good allowed h"
  "hw_fit good allowed (h\<lparr>hw_status := s\<rparr>) = hw_fit good allowed h"
  "hw_fit good allowed (h\<lparr>m_lastRunCycles := c\<rparr>) = hw_fit good allowed h"
  "hw_fit good allowed (h\<lparr>outbox := y\<rparr>) = hw_fit good allowed h"
  by (rule hw_fit_cong; simp add: hw_cpu_def)+

lemmas hw_alone_upd [simp] = hw_fit_upd(1-3) [of "\<lambda>_. False" "\<lambda>_. True", folded hw_alone_fit]

lemma notify_none: "hw_debugger h = None \<Longrightarrow> notify hk r h = Inr h"
  by (simp add: notify_def debug_request_def)

lemma cpu_inv_reset: "exit_code m = None \<Longrightarrow> cpu_inv (upd Cpu_Reset m)"
  using M_CYCLES_bounds(1) [of 0]
  by (simp add: cpu_inv_def Cpu_Reset_def f_ok_def lo_def PSW_INIT_def bit_numeral_rec)

lemma audio_reset_fit: "hw_fit good allowed (audio_reset fo h) = hw_fit good allowed h"
proof -
  have "hw_fit good allowed (h\<lparr>hw_audio := a\<rparr>) = hw_fit good allowed h" for a by (simp add: hw_fit_def)
  then show ?thesis by (simp add: audio_reset_def Let_def case_prod_beta)
qed

lemma init_keeps:
  "exit_code (hw_machine (add_offsets h)) = exit_code (hw_machine h)" "hw_display (add_offsets h) = hw_display h"
  "hw_debugger (add_offsets h) = hw_debugger h" "inbox (add_offsets h) = inbox h"
  "exit_code (hw_machine (Hw_Init h)) = exit_code (hw_machine h)" "d_fault (hw_display (Hw_Init h)) = d_fault (hw_display h)"
  "hw_debugger (Hw_Init h) = hw_debugger h" "inbox (Hw_Init h) = inbox h"
  by (simp_all add: add_offsets_def Hw_Init_def Display_Reset_def)

lemma cleared_fit:
  assumes "exit_code (hw_machine h) = None" "\<not> d_fault (hw_display h)" "\<forall>d. hw_debugger h = Some d \<longrightarrow> good d"
    "\<forall>r. Some r \<in> set (inbox h) \<longrightarrow> allowed r"
  shows "hw_fit good allowed (upd_display Display_Reset (upd_cpu Cpu_Reset h))"
  using assms
  by (simp add: hw_fit_def machine_fit_def cpu_inv_reset Display_Reset_def steady_def raster_consts)

lemma hw_fit_reset:
  assumes "hw_fit good allowed h"
  shows "hw_fit good allowed (audio_reset fo (upd_display Display_Reset (upd_cpu Cpu_Reset (Hw_Init (add_offsets h)))))"
    "hw_fit good allowed (upd_mem Memory_Restart (audio_reset fo (upd_display Display_Reset (upd_cpu Cpu_Reset (add_offsets h)))))"
proof -
  have "exit_code (hw_machine h) = None" "\<not> d_fault (hw_display h)" "\<forall>d. hw_debugger h = Some d \<longrightarrow> good d"
    "\<forall>r. Some r \<in> set (inbox h) \<longrightarrow> allowed r"
    using assms by (simp_all add: hw_fit_def machine_fit_def cpu_inv_def)
  then show "hw_fit good allowed (audio_reset fo (upd_display Display_Reset (upd_cpu Cpu_Reset (Hw_Init (add_offsets h)))))"
    "hw_fit good allowed (upd_mem Memory_Restart (audio_reset fo (upd_display Display_Reset (upd_cpu Cpu_Reset (add_offsets h)))))"
    unfolding hw_fit_upd audio_reset_fit by (simp_all add: cleared_fit init_keeps)
qed

lemmas hw_alone_reset = hw_fit_reset [of "\<lambda>_. False" "\<lambda>_. True", folded hw_alone_fit]

lemma hw_alone_none: "hw_alone h \<Longrightarrow> hw_debugger h = None"
  by (simp add: hw_alone_def)

lemma audio_reset_views:
  "hw_cpu (audio_reset fo h) = hw_cpu h" "hw_mem (audio_reset fo h) = hw_mem h" "hw_display (audio_reset fo h) = hw_display h"
  "m_cycleOffset (audio_reset fo h) = m_cycleOffset h" "m_frameOffset (audio_reset fo h) = m_frameOffset h"
  "hw_debugger (audio_reset fo h) = hw_debugger h"
  by (simp_all add: audio_reset_def hw_views Let_def case_prod_beta)

lemma reset_states:
  assumes "hw_debugger h = None"
  shows "Hw_Reset fo hk h =
      Inr (audio_reset fo (upd_display Display_Reset (upd_cpu Cpu_Reset (Hw_Init (add_offsets h)))))"
    "Hw_Restart fo hk h =
      Inr (upd_mem Memory_Restart (audio_reset fo (upd_display Display_Reset (upd_cpu Cpu_Reset (add_offsets h)))))"
  using assms
  by (simp_all add: Hw_Reset_def Hw_Restart_def notify_reset_def notify_none and_then_def audio_reset_views init_keeps)

lemmas Hw_Reset_ok = reset_states [OF hw_alone_none]

lemma Hw_Run_fit [simp]: "hw_fit good allowed (Hw_Run h) = hw_fit good allowed h"
  by (simp add: Hw_Run_def hw_fit_def)

lemma set_fdc_fit [simp]: "hw_fit good allowed (set_fdc res h) = hw_fit good allowed h"
  by (simp add: set_fdc_def on_fdc_def split: sum.split)

lemma hw_fit_display:
  "(\<And>d. framebufferIdx (g d) = framebufferIdx d \<and> d_fault (g d) = d_fault d) \<Longrightarrow>
    hw_fit good allowed (upd_display g h) = hw_fit good allowed h"
  by (rule hw_fit_cong) simp_all

lemma setting_fit: "hw_fit good allowed (snd (set_request fo s h)) = hw_fit good allowed h"
proof (cases s)
  case (GET_FDD_INFO i)
  then show ?thesis by (simp add: set_request_def fdd_info_def split: sum.split)
next
  case (GET_FDD_IMAGE i)
  then show ?thesis by (simp add: set_request_def fdd_image_def split: sum.split)
qed (simp_all add: set_request_def hw_fit_display set_cpu_speed_def GetMemString_def Let_def,
    simp_all add: hw_fit_def)

lemma cycles_fit:
  assumes "hw_fit good allowed h" "instruction_cycles fo (upd_mem DebugInit h) = Some g"
  shows "hw_fit good allowed g"
proof -
  have h: "hw_fit good allowed (upd_mem DebugInit h)" using assms(1) by simp
  note inv = hw_fit_inv [OF h]
  obtain k where "instruction_cycles fo (upd_mem DebugInit h) = Some ((hw_cycle fo ^^ k) (upd_mem DebugInit h))"
    by (rule instruction_ends [OF inv])
  then have "g = (hw_cycle fo ^^ k) (upd_mem DebugInit h)" using assms(2) by simp
  then show ?thesis
    using hw_cycles(1,6) [OF inv, of k fo] outsideD(1,3) [OF hw_cycles(7) [OF inv, of k fo]] h
    by (simp add: hw_fit_def machine_fit_def hw_inv_def settings_def)
qed

lemma headless_fit: "headless_loop fo stop h = Some g \<Longrightarrow> hw_fit good allowed h \<longrightarrow> hw_fit good allowed g"
  by (rule headless_loop.raw_induct [where P = "\<lambda>fo stop h g. hw_fit good allowed h \<longrightarrow> hw_fit good allowed g"])
    (auto simp: bind_eq_Some_conv dest: cycles_fit split: if_splits)

lemma RunHeadless_fit: "RunHeadless fo x y z h = Some (j, g) \<Longrightarrow> hw_fit good allowed h \<Longrightarrow> hw_fit good allowed g"
  by (auto simp: RunHeadless_def Let_def bind_eq_Some_conv dest: headless_fit)

lemma exception_break_fit: "exception_break h = (b, g) \<Longrightarrow> hw_fit good allowed h \<Longrightarrow> hw_fit good allowed g"
  using exception_break_keeps [of h] hw_fit_cong [of g h] by simp

lemma query_reply_state: "snd (query_reply q h) = h"
  by (simp add: query_reply_def split: sum.split)

text \<open>A property of the hardware that comes out of a result, be it a value or an exception.\<close>

definition ends_in :: "(('f, 'd) hardware \<Rightarrow> bool) \<Rightarrow> (string \<times> ('f, 'd) hardware) + ('f, 'd) hardware \<Rightarrow> bool" where
  "ends_in P x \<longleftrightarrow> (case x of Inl (e, h) \<Rightarrow> P h | Inr h \<Rightarrow> P h)"

definition outcome_in :: "(('f, 'd) hardware \<Rightarrow> bool) \<Rightarrow> ('f, 'd) outcome \<Rightarrow> bool" where
  "outcome_in P x \<longleftrightarrow> (case x of Inl (e, h) \<Rightarrow> P h | Inr (j, h) \<Rightarrow> P h)"

lemma ends_in_simps [simp]:
  "ends_in P (Inl (e, h)) = P h" "ends_in P (Inr h) = P h"
  "outcome_in P (Inl (e, h)) = P h" "outcome_in P (Inr (j, h)) = P h"
  by (simp_all add: ends_in_def outcome_in_def)

lemma ends_in_then:
  "ends_in P x \<Longrightarrow> (\<And>h. P h \<Longrightarrow> ends_in P (k h)) \<Longrightarrow> ends_in P (and_then x k)"
  by (cases x) (auto simp: ends_in_def and_then_def)

lemma outcome_quietly: "ends_in P x \<Longrightarrow> outcome_in P (quietly x)"
  by (auto simp: ends_in_def outcome_in_def quietly_def and_then_def split: sum.splits)

lemma reply_of_in: "outcome_in P out \<Longrightarrow> P (snd (reply_of out))"
  by (auto simp: reply_of_def outcome_in_def split: sum.splits)

text \<open>
  What the execution thread relies on: the attached debugger, called after an instruction and for
  the allowed requests, keeps the machine in shape and itself good; it may always be notified.
\<close>

locale debug_contract =
  fixes hk :: "'d debug_hooks" and good :: "'d \<Rightarrow> bool" and allowed :: "request \<Rightarrow> bool"
  assumes debug_fit: "good d \<Longrightarrow> machine_fit e \<Longrightarrow> hook_debug hk d e = (out, d1, e1) \<Longrightarrow> good d1 \<and> machine_fit e1"
    and request_fit: "good d \<Longrightarrow> machine_fit e \<Longrightarrow> allowed r \<Longrightarrow>
      hook_request hk r run d e = (res, script, d1, e1) \<Longrightarrow> good d1 \<and> machine_fit e1"
    and notice_allowed: "allowed (Notice n)"
begin

abbreviation fit :: "('f, 'd) hardware \<Rightarrow> bool" where "fit \<equiv> hw_fit good allowed"

lemma debug_request_fit: "fit h \<Longrightarrow> allowed r \<Longrightarrow> fit (snd (debug_request hk r h))"
proof (cases "hw_debugger h")
  case (Some d)
  assume h: "fit h" "allowed r"
  then have d: "good d" "machine_fit (hw_machine h, hw_display h)" using Some by (simp_all add: hw_fit_def)
  obtain res script d1 mc disp where q:
      "hook_request hk r (hw_status h = S_RUN) d (hw_machine h, hw_display h) = (res, script, d1, mc, disp)"
    by (metis prod_cases5)
  show ?thesis using request_fit [OF d h(2) q] h(1) by (simp add: debug_request_def Some q hw_fit_def)
qed (simp add: debug_request_def)

lemma notify_fit: "fit h \<Longrightarrow> ends_in fit (notify hk n h)"
  using debug_request_fit [of h "Notice n"] notice_allowed
  by (auto simp: notify_def ends_in_def split: option.split sum.split prod.split)

lemma notify_reset_fit: "fit h \<Longrightarrow> ends_in fit (notify_reset hk h)"
  unfolding notify_reset_def by (intro ends_in_then notify_fit)

lemma Hw_Reset_fit: "fit h \<Longrightarrow> ends_in fit (Hw_Reset fo hk h)"
  unfolding Hw_Reset_def by (intro notify_reset_fit hw_fit_reset)

lemma Hw_Restart_fit: "fit h \<Longrightarrow> ends_in fit (Hw_Restart fo hk h)"
  unfolding Hw_Restart_def by (intro notify_reset_fit hw_fit_reset)

lemma Hw_Stop_fit: "fit h \<Longrightarrow> ends_in fit (Hw_Stop hk rec h)"
  unfolding Hw_Stop_def Let_def by (intro ends_in_then notify_fit) auto

lemma StopForScript_fit: "fit h \<Longrightarrow> ends_in fit (StopForScript hk i h)"
  unfolding StopForScript_def by (intro ends_in_then Hw_Stop_fit) auto

lemma begin_session_fit: "fit h \<Longrightarrow> outcome_in fit (begin_session hk h)"
  unfolding begin_session_def by (intro outcome_quietly notify_fit) (simp add: hw_fit_def)

lemma load_rom_fit: "fit h \<Longrightarrow> outcome_in fit (load_rom fo hk bs a auto h)"
  unfolding load_rom_def by (intro outcome_quietly ends_in_then Hw_Stop_fit Hw_Restart_fit notify_fit) auto

lemma mount_fdd_fit: "fit h \<Longrightarrow> outcome_in fit (mount_fdd fo hk bs i path auto h)"
  unfolding mount_fdd_def Let_def by (auto intro!: outcome_quietly ends_in_then Hw_Reset_fit)

lemma key_request_fit: "fit h \<Longrightarrow> outcome_in fit (key_request fo hk s a h)"
  unfolding key_request_def Let_def
  by (auto intro!: outcome_quietly Hw_Reset_fit Hw_Restart_fit split: prod.split operation.split)

lemma control_fit: "fit h \<Longrightarrow> outcome_in fit (control_request fo hk c h)"
  by (cases c)
    (simp_all add: control_request_def stopped_only_def outcome_quietly begin_session_fit Hw_Stop_fit Hw_Reset_fit
      Hw_Restart_fit load_rom_fit mount_fdd_fit key_request_fit)

lemma debug_break_fit:
  "fit h \<Longrightarrow> case debug_break hk h of Inl (e, g) \<Rightarrow> fit g | Inr (b, g) \<Rightarrow> fit g"
proof (cases "hw_debugger h")
  case (Some d)
  assume h: "fit h"
  then have d: "good d" "machine_fit (hw_machine h, hw_display h)" using Some by (simp_all add: hw_fit_def)
  obtain err stop d1 mc disp where q: "hook_debug hk d (hw_machine h, hw_display h) = ((err, stop), d1, mc, disp)"
    by (metis surj_pair)
  have "fit (h\<lparr>hw_debugger := Some d1, hw_machine := mc, hw_display := disp\<rparr>)"
    using debug_fit [OF d q] h by (simp add: hw_fit_def)
  then show ?thesis
    using h by (cases err; cases stop) (auto simp: debug_break_def Some q Let_def)
qed (simp add: debug_break_def)

lemma delegate_fit: "fit h \<Longrightarrow> allowed r \<Longrightarrow> fit (snd (delegate hk r h))"
proof -
  assume "fit h" "allowed r"
  obtain out h1 where q: "debug_request hk r h = (out, h1)" by fastforce
  then have h1: "fit h1" using debug_request_fit [OF \<open>fit h\<close> \<open>allowed r\<close>] by simp
  show ?thesis
  proof (cases out)
    case (Some p)
    obtain res script where p: "p = (res, script)" by fastforce
    have "ends_in fit (case script of None \<Rightarrow> Inr h1 | Some i \<Rightarrow> StopForScript hk i h1)"
      using h1 by (simp add: StopForScript_fit split: option.split)
    then show ?thesis
      by (cases "case script of None \<Rightarrow> Inr h1 | Some i \<Rightarrow> StopForScript hk i h1"; cases res)
        (auto simp: delegate_def q Some p ends_in_def)
  qed (simp add: delegate_def q h1)
qed

text \<open>Everything a call with fuel \<open>n\<close> can do.\<close>

definition calls_fit :: "nat \<Rightarrow> 'f float_ops \<Rightarrow> bool" where
  "calls_fit n fo \<longleftrightarrow>
    (\<forall>h :: ('f, 'd) hardware. fit h \<longrightarrow>
      (\<forall>e g. execute_instruction n fo hk h = Some (Inl (e, g)) \<longrightarrow> fit g) \<and>
      (\<forall>b g. execute_instruction n fo hk h = Some (Inr (b, g)) \<longrightarrow> fit g) \<and>
      (\<forall>fn e g. execute_frame n fo hk fn h = Some (Inl (e, g)) \<longrightarrow> fit g) \<and>
      (\<forall>fn g. execute_frame n fo hk fn h = Some (Inr g) \<longrightarrow> fit g) \<and>
      (\<forall>b g. req_handling n fo hk h = Some (b, g) \<longrightarrow> fit g) \<and>
      (\<forall>r rep g. allowed r \<longrightarrow> handle_request n fo hk r h = Some (rep, g) \<longrightarrow> fit g))"

lemma calls_fitD:
  assumes "calls_fit n fo" "fit h"
  shows "execute_instruction n fo hk h = Some (Inl (e, g)) \<Longrightarrow> fit g"
    "execute_instruction n fo hk h = Some (Inr (b, g)) \<Longrightarrow> fit g"
    "execute_frame n fo hk fn h = Some (Inl (e, g)) \<Longrightarrow> fit g"
    "execute_frame n fo hk fn h = Some (Inr g) \<Longrightarrow> fit g"
    "req_handling n fo hk h = Some (b, g) \<Longrightarrow> fit g"
    "allowed r \<Longrightarrow> handle_request n fo hk r h = Some (rep, g) \<Longrightarrow> fit g"
  using assms unfolding calls_fit_def by blast+

lemma execute_instruction_fit:
  assumes "calls_fit n fo" "fit h" "execute_instruction (Suc n) fo hk h = Some out"
  shows "case out of Inl (e, g) \<Rightarrow> fit g | Inr (b, g) \<Rightarrow> fit g"
proof -
  from assms(3) obtain h1 where c: "instruction_cycles fo (upd_mem DebugInit h) = Some h1"
    by (auto simp: execute_instruction.simps bind_eq_Some_conv)
  then have h1: "fit h1" using cycles_fit [OF assms(2)] by simp
  note brk = debug_break_fit [OF h1]
  show ?thesis
  proof (cases "debug_break hk h1")
    case (Inl p)
    then show ?thesis using assms(3) brk by (cases p) (simp add: execute_instruction.simps c)
  next
    case (Inr p)
    obtain b h2 where p: "p = (b, h2)" by fastforce
    obtain x h3 where e: "exception_break h2 = (x, h3)" by fastforce
    have h2: "fit h2" using brk Inr p by simp
    then have h3: "fit h3" using exception_break_fit [OF e] by simp
    show ?thesis
      using assms(3) h2 h3 calls_fitD(5) [OF assms(1) h3]
      by (auto simp: execute_instruction.simps c Inr p e bind_eq_Some_conv split: if_splits)
  qed
qed

lemma execute_frame_fit:
  assumes "calls_fit n fo" "fit h" "execute_frame (Suc n) fo hk fn h = Some out"
  shows "case out of Inl (e, g) \<Rightarrow> fit g | Inr g \<Rightarrow> fit g"
proof -
  from assms(3) obtain o1 where o1: "execute_instruction n fo hk h = Some o1"
    by (auto simp: execute_frame.simps bind_eq_Some_conv)
  show ?thesis
  proof (cases o1)
    case (Inl p)
    then show ?thesis using o1 assms calls_fitD(1) [OF assms(1,2)] by (cases p) (auto simp: execute_frame.simps)
  next
    case (Inr p)
    obtain b h1 where p: "p = (b, h1)" by fastforce
    then have h1: "fit h1" using o1 Inr calls_fitD(2) [OF assms(1,2)] by blast
    show ?thesis
      using assms(3) o1 Inr p h1 calls_fitD(3,4) [OF assms(1) h1]
      by (auto simp: execute_frame.simps split: if_splits sum.splits)
  qed
qed

lemma frame_request_fit:
  assumes "calls_fit n fo" "fit h"
    "Option.bind (execute_frame n fo hk fn h) (\<lambda>out. case out of
        Inl (e, h1) \<Rightarrow> Some (Raised e, h1)
      | Inr h1 \<Rightarrow> Some (Data JNull, RecordStop ''frameStep'' [] h1)) = Some (rep, g)"
  shows "fit g"
proof -
  obtain o1 where o1: "execute_frame n fo hk fn h = Some o1"
    using assms(3) by (auto simp: bind_eq_Some_conv)
  then show ?thesis
    using assms(3) calls_fitD(3,4) [OF assms(1,2)] by (cases o1) auto
qed

lemma instr_request_fit:
  assumes "calls_fit n fo" "fit h" "handle_request (Suc n) fo hk EXECUTE_INSTR h = Some (rep, g)"
  shows "fit g"
proof -
  obtain o1 where o1: "execute_instruction n fo hk h = Some o1"
    using assms(3) by (auto simp: handle_request.simps bind_eq_Some_conv)
  then show ?thesis
    using assms(3) calls_fitD(1,2) [OF assms(1,2)]
    by (cases o1) (auto simp: handle_request.simps split: if_splits)
qed

lemma handle_request_fit:
  assumes "calls_fit n fo" "fit h" "allowed r" "handle_request (Suc n) fo hk r h = Some (rep, g)"
  shows "fit g"
proof (cases r)
  case (Query q)
  then show ?thesis using assms query_reply_state [of q h] by (simp add: handle_request.simps)
next
  case (Setting s)
  then show ?thesis
    using assms setting_fit [of good allowed fo s h]
    by (auto simp: handle_request.simps setting_reply_def case_prod_beta Let_def)
next
  case (Control c)
  then show ?thesis using assms reply_of_in [OF control_fit [OF assms(2), of fo c]] by (simp add: handle_request.simps)
next
  case EXECUTE_INSTR
  then show ?thesis using instr_request_fit [OF assms(1,2)] assms(4) by simp
next
  case (RUN_HEADLESS x y z)
  then show ?thesis using assms(2,4) RunHeadless_fit by (auto simp: handle_request.simps bind_eq_Some_conv)
next
  case EXECUTE_FRAME
  then show ?thesis using frame_request_fit [OF assms(1,2)] assms(4) by (simp add: handle_request.simps)
next
  case EXECUTE_FRAME_NO_BREAKS
  then show ?thesis using frame_request_fit [OF assms(1,2)] assms(4) by (simp add: handle_request.simps)
qed (use assms delegate_fit [OF assms(2,3)] in \<open>simp_all add: handle_request.simps\<close>)

lemma req_handling_fit:
  assumes "calls_fit n fo" "fit h" "req_handling (Suc n) fo hk h = Some (b, g)"
  shows "fit g"
proof -
  have rest: "fit (h\<lparr>inbox := rest\<rparr>)" if "inbox h = x # rest" for x rest
    using assms(2) that by (simp add: hw_fit_def)
  have ok: "allowed r" if "inbox h = Some r # rest" for r rest
    using assms(2) that by (simp add: hw_fit_def)
  show ?thesis
    using assms(2,3) rest ok
    by (fastforce simp: req_handling.simps bind_eq_Some_conv split: list.splits option.splits
        dest: calls_fitD(6) [OF assms(1), rotated 2])
qed

lemma all_calls_fit: "calls_fit n fo"
proof (induction n)
  case 0
  show ?case
    by (simp add: calls_fit_def execute_instruction.simps execute_frame.simps req_handling.simps handle_request.simps)
next
  case (Suc n)
  show ?case
    unfolding calls_fit_def
    by (intro allI impI conjI; (drule (1) execute_instruction_fit [OF Suc] execute_frame_fit [OF Suc]
        req_handling_fit [OF Suc] | drule (2) handle_request_fit [OF Suc]); simp)
qed

lemma thread_step_fit:
  assumes "thread_step fo hk h g" "fit h" "\<forall>r. Some r \<in> set (inbox g) \<longrightarrow> allowed r"
  shows "fit g"
  using assms(1)
proof (cases rule: thread_step.cases)
  case (break n h1)
  then have "fit h1" using calls_fitD(2) [OF all_calls_fit assms(2)] by blast
  then show ?thesis using break Hw_Stop_fit [of h1 False] by (simp add: ends_in_def)
next
  case (arrive rs)
  then show ?thesis using assms(2,3) by (simp add: hw_fit_def)
qed (use calls_fitD(2,5) [OF all_calls_fit assms(2)] in auto)

end

text \<open>With no debugger attached every request is allowed.\<close>

interpretation alone: debug_contract hk "\<lambda>_. False" "\<lambda>_. True" for hk
  by unfold_locales simp_all

lemma thread_step_ok: "thread_step fo hk h g \<Longrightarrow> hw_alone h \<Longrightarrow> hw_alone g"
  unfolding hw_alone_fit by (rule alone.thread_step_fit) simp_all

text \<open>States of the execution thread while only allowed requests arrive.\<close>

inductive hw_reach_with :: "(request \<Rightarrow> bool) \<Rightarrow> 'f float_ops \<Rightarrow> 'd debug_hooks \<Rightarrow> ('f, 'd) hardware \<Rightarrow> ('f, 'd) hardware \<Rightarrow> bool"
  for allowed fo hk h0 where
  with_init: "hw_reach_with allowed fo hk h0 h0"
| with_step: "hw_reach_with allowed fo hk h0 h \<Longrightarrow> thread_step fo hk h h1 \<Longrightarrow>
    \<forall>r. Some r \<in> set (inbox h1) \<longrightarrow> allowed r \<Longrightarrow> hw_reach_with allowed fo hk h0 h1"

context debug_contract
begin

lemma reach_fit: "hw_reach_with allowed fo hk h0 h \<Longrightarrow> fit h0 \<Longrightarrow> fit h"
  by (induction rule: hw_reach_with.induct) (auto intro: thread_step_fit)

end

section \<open>What a reset leaves\<close>

lemma mem_views [simp]:
  "hw_mem (upd_cpu f h) = hw_mem h" "hw_mem (upd_display e h) = hw_mem h" "hw_mem (upd_hw_io g h) = hw_mem h"
  "hw_mem (upd_mem k h) = k (hw_mem h)" "hw_mem (add_offsets h) = hw_mem h" "hw_cpu (add_offsets h) = hw_cpu h"
  by (simp_all add: hw_views add_offsets_def)

lemma offset_views [simp]:
  "m_cycleOffset (upd_cpu f h) = m_cycleOffset h" "m_cycleOffset (upd_display e h) = m_cycleOffset h"
  "m_cycleOffset (upd_hw_io g h) = m_cycleOffset h" "m_cycleOffset (upd_mem k h) = m_cycleOffset h"
  "m_frameOffset (upd_cpu f h) = m_frameOffset h" "m_frameOffset (upd_display e h) = m_frameOffset h"
  "m_frameOffset (upd_hw_io g h) = m_frameOffset h" "m_frameOffset (upd_mem k h) = m_frameOffset h"
  "m_cycleOffset (add_offsets h) = m_cycleOffset h + r_cc (hw_cpu h)"
  "m_frameOffset (add_offsets h) = m_frameOffset h + frameNum (hw_display h)"
  by (simp_all add: hw_views add_offsets_def)

lemma restart_mem:
  "m_ram (Memory_Restart m) = m_ram m" "memType (mem_upd (Memory_Restart m)) = MT_RAM"
  "m_ram (Memory_Init m) a = (if unat a < MEMORY_MAIN_LEN \<or> m_ramDiskClearAfterRestart m then 0 else m_ram m a)"
  "memType (mem_upd (Memory_Init m)) = MT_ROM"
  by (simp_all add: Memory_Restart_def Memory_Init_def InitRamDiskMapping_def SetMemType_def Let_def)

lemmas reset_views = audio_reset_views Hw_Init_def Display_Reset_def Cpu_Reset_def GetTotalCycles_def GetTotalFrames_def
  restart_mem

section \<open>Properties\<close>

text \<open>C24: Beam and processor in step. From any state in shape, each machine cycle adds 4 to the cycle
  counter and 16 pixels to the beam, whatever the program does; after 14976 of them, 59904 clock
  cycles, the beam is back where it was and one frame is counted; the interrupt line is up in
  exactly the cycle in which the beam is at pixel 112, where the next instruction can see it.\<close>

theorem beam_and_processor:
  fixes fo :: "'f float_ops" and h :: "('f, 'd) hardware"
  assumes "hw_inv h" "m_irqCommitPxl (hw_display h) = IRQ_COMMIT_PXL" "0 < n"
  defines "g \<equiv> (hw_cycle fo ^^ n) h" and "p \<equiv> framebufferIdx (hw_display h) + 16 * int n"
  shows "r_cc (hw_cpu g) = r_cc (hw_cpu h) + 4 * of_nat n \<and>
    framebufferIdx (hw_display g) = p mod FRAME_LEN \<and>
    frameNum (hw_display g) = frameNum (hw_display h) + of_int (p div FRAME_LEN) \<and>
    d_irq (hw_display g) = (p mod FRAME_LEN = 112) \<and>
    (n = 14976 \<longrightarrow> framebufferIdx (hw_display g) = framebufferIdx (hw_display h) \<and>
      frameNum (hw_display g) = frameNum (hw_display h) + 1 \<and> r_cc (hw_cpu g) = r_cc (hw_cpu h) + 59904)"
proof (intro conjI)
  note c = hw_cycles(2-5) [OF assms(1), of n fo, folded g_def p_def]
  show "r_cc (hw_cpu g) = r_cc (hw_cpu h) + 4 * of_nat n" "framebufferIdx (hw_display g) = p mod FRAME_LEN"
    "frameNum (hw_display g) = frameNum (hw_display h) + of_int (p div FRAME_LEN)"
    "d_irq (hw_display g) = (p mod FRAME_LEN = 112)"
    using c assms(2,3) by (simp_all add: irq_default_def IRQ_COMMIT_PXL_def)
  have i: "0 \<le> framebufferIdx (hw_display h)" "framebufferIdx (hw_display h) < FRAME_LEN"
    using assms(1) by (simp_all add: hw_inv_def steady_def)
  have "p mod FRAME_LEN = framebufferIdx (hw_display h) \<and> p div FRAME_LEN = 1" if "n = 14976"
  proof -
    have p: "p = framebufferIdx (hw_display h) + 1 * FRAME_LEN" by (simp add: p_def that raster_consts)
    show ?thesis unfolding p using i by (simp add: raster_consts)
  qed
  then show "n = 14976 \<longrightarrow> framebufferIdx (hw_display g) = framebufferIdx (hw_display h) \<and>
      frameNum (hw_display g) = frameNum (hw_display h) + 1 \<and> r_cc (hw_cpu g) = r_cc (hw_cpu h) + 59904"
    using c(1-3) by simp
qed

lemma sample_hw_alone [simp]: "hw_inv (sample_hardware bs 0)" "hw_alone (sample_hardware bs 0)"
  by (simp_all add: hw_alone_def hw_inv_def steady_def raster_consts sample_display_def Display_new_def Display_Reset_def)

theorem beam_and_processor_witness:
  "frameNum (hw_display ((hw_cycle int_ops ^^ 14976) (sample_hardware [] 0))) = 1"
  using beam_and_processor [of "sample_hardware [] 0" 14976 int_ops]
  by (simp add: IRQ_COMMIT_PXL_def raster_consts)

text \<open>C25: Whatever is executed comes back. An instruction ends after one to six machine cycles; a
  frame step without a debugger and without waiting requests returns when the frame counter has
  moved by one; a headless run with a cycle limit returns within 24 cycles of the limit. Nothing
  is assumed of the program: a halted processor or a jump to itself is included.\<close>

theorem execution_returns:
  fixes fo :: "'f float_ops" and h :: "('f, 'd) hardware"
  assumes "hw_inv h"
  shows "(\<exists>k. 0 < k \<and> k \<le> 6 \<and> instruction_cycles fo h = Some ((hw_cycle fo ^^ k) h)) \<and>
    (inbox h = [] \<and> \<not> m_debugAttached h \<longrightarrow>
      (\<exists>n g. handle_request n fo hk EXECUTE_FRAME h = Some (Data JNull, g) \<and>
        frameNum (hw_display g) = frameNum (hw_display h) + 1)) \<and>
    (0 < maxCycles \<and> unat maxCycles + 24 < 2 ^ 64 \<longrightarrow>
      (\<exists>j g. RunHeadless fo haltExit maxFrames maxCycles h = Some (j, g) \<and>
        headless_done haltExit maxFrames maxCycles (r_cc (hw_cpu h)) (frameNum (hw_display h)) g \<and>
        unat (r_cc (hw_cpu g) - r_cc (hw_cpu h)) < unat maxCycles + 24))"
proof (intro conjI impI; (elim conjE)?)
  show "\<exists>k. 0 < k \<and> k \<le> 6 \<and> instruction_cycles fo h = Some ((hw_cycle fo ^^ k) h)"
    using instruction_ends [OF assms, of fo] by metis
next
  assume "inbox h = []" "\<not> m_debugAttached h"
  then obtain n g where n: "execute_frame (Suc (Suc (Suc n))) fo hk (frameNum (hw_display h)) h = Some (Inr g)"
      "frameNum (hw_display g) = frameNum (hw_display h) + 1"
    using execute_frame_ends [OF assms, of fo hk] by blast
  then have "handle_request (Suc (Suc (Suc (Suc n)))) fo hk EXECUTE_FRAME h =
      Some (Data JNull, RecordStop ''frameStep'' [] g)"
    by (simp add: handle_request.simps(2))
  then show "\<exists>n g. handle_request n fo hk EXECUTE_FRAME h = Some (Data JNull, g) \<and>
      frameNum (hw_display g) = frameNum (hw_display h) + 1"
    using n(2) by (metis RecordStop_keeps(2))
next
  let ?stop = "headless_done haltExit maxFrames maxCycles (r_cc (hw_cpu h)) (frameNum (hw_display h))"
  assume m: "0 < maxCycles" "unat maxCycles + 24 < 2 ^ 64"
  have e: "unat (elapsed (r_cc (hw_cpu h)) h) < unat maxCycles" using m(1) by (simp add: elapsed_def word_less_nat_alt)
  have stop: "\<And>g. maxCycles \<le> elapsed (r_cc (hw_cpu h)) g \<Longrightarrow> ?stop g" using m(1) by (simp add: headless_done_def elapsed_def)
  from headless_loop_ends [OF assms e m(2), of ?stop fo, OF stop] obtain g where
    "headless_loop fo ?stop h = Some g" "?stop g" "unat (elapsed (r_cc (hw_cpu h)) g) < unat maxCycles + 24" by auto
  then show "\<exists>j g. RunHeadless fo haltExit maxFrames maxCycles h = Some (j, g) \<and> ?stop g \<and>
      unat (r_cc (hw_cpu g) - r_cc (hw_cpu h)) < unat maxCycles + 24"
    by (simp add: RunHeadless_def Let_def elapsed_def)
qed

theorem execution_returns_witness:
  "(\<exists>n g. handle_request n int_ops no_hooks EXECUTE_FRAME (sample_hardware [0x76] 0) = Some (Data JNull, g) \<and>
      frameNum (hw_display g) = 1) \<and>
    (\<exists>j g. RunHeadless int_ops False 0 1000 (sample_hardware [0xC3, 0, 0] 0) = Some (j, g))"
  using execution_returns [of "sample_hardware [0x76] 0" int_ops no_hooks 1000 False 0]
    execution_returns [of "sample_hardware [0xC3, 0, 0] 0" int_ops no_hooks 1000 False 0] by auto

text \<open>C27: A reset and a restart keep the totals. With no debugger attached both leave the processor
  and the beam at their initial state while the totals of cycles and of frames, on which the
  statistics of a session rest, do not move. A restart keeps the memory and shows RAM, which is
  how a loaded program starts; a reset clears the main memory and shows the ROM.\<close>

theorem reset_keeps_totals:
  assumes "hw_debugger h = None" "Hw_Reset fo hk h = Inr g" "Hw_Restart fo hk h = Inr r"
  shows "(\<forall>x \<in> {g, r}. GetTotalCycles x = GetTotalCycles h \<and> GetTotalFrames x = GetTotalFrames h \<and>
      r_cc (hw_cpu x) = 0 \<and> r_pc (hw_cpu x) = 0 \<and> framebufferIdx (hw_display x) = 0 \<and> frameNum (hw_display x) = 0) \<and>
    m_ram (hw_mem r) = m_ram (hw_mem h) \<and> memType (mem_upd (hw_mem r)) = MT_RAM \<and>
    (unat a < MEMORY_MAIN_LEN \<longrightarrow> m_ram (hw_mem g) a = 0) \<and> memType (mem_upd (hw_mem g)) = MT_ROM"
  using reset_states [OF assms(1)] assms(2,3)
  by (auto simp: reset_views)

theorem reset_keeps_totals_witness:
  "m_ram (hw_mem (projr (Hw_Restart int_ops no_hooks (sample_hardware [1, 2, 3] 0)))) =
    m_ram (SetRam 0 [1, 2, 3] blank_mem)"
  using reset_keeps_totals [where h = "sample_hardware [1, 2, 3] 0" and fo = int_ops and hk = no_hooks, OF _ reset_states]
  by (simp add: reset_states)

section \<open>Three faults\<close>

text \<open>The speed is clamped to a number of bytes, not of delays: a speed above 5 is outside the table.\<close>

lemma cpu_speed_out_of_range:
  "5 < s \<Longrightarrow> int (length EXEC_DELAYS) \<le> m_execSpeed (set_cpu_speed fo s h)"
  by (simp add: set_cpu_speed_def EXEC_DELAYS_def SIZEOF_EXEC_DELAYS_def Let_def)

text \<open>
  The hex dump never gets its newlines, so the place of the first one keeps the zero of the static
  buffer and the text of any range ends after its first line of 16 bytes.
\<close>

lemma dump_byte_gap:
  assumes "line_len \<le> 16" shows "dump_byte line_len c i buf ! 65 = buf ! 65"
proof -
  define x where "x = i mod 16"
  have x: "x < 16" by (simp add: x_def)
  have "66 * (i div 16) + k \<noteq> 65" if "k < 65" for k using that by (cases "i div 16") auto
  from this [of "x * 3"] this [of "x * 3 + 1"] this [of "x * 3 + 2"] this [of "3 * line_len"] this [of "3 * line_len + 1 + x"]
  show ?thesis using x assms by (simp add: dump_byte_def dump_consts Let_def add.assoc flip: x_def)
qed

lemma fold_dump_gap: "line_len \<le> 16 \<Longrightarrow> fold (\<lambda>i. dump_byte line_len (g i) i) is buf ! 65 = buf ! 65"
  by (induction "is" arbitrary: buf) (simp_all add: dump_byte_gap)

lemma takeWhile_stop: "n < length xs \<Longrightarrow> \<not> P (xs ! n) \<Longrightarrow> length (takeWhile P xs) \<le> n"
  by (induction xs arbitrary: n) (auto split: nat.splits simp: nth_Cons)

lemma dump_one_line:
  assumes "hw_mem_string h ! 65 = 0" "65 < length (hw_mem_string h)" "GetMemString a n h = (JObj [(''data'', JBytes s)], g)"
  shows "length s \<le> 65" "hw_mem_string g ! 65 = 0"
proof -
  define len where "len = unat (if n > 255 then 255 else n)"
  define ll where "ll = (if len < 16 then len else 16)"
  let ?b = "fold (\<lambda>i. dump_byte ll (GetByteGlobal (hw_mem h) (a + of_nat i)) i) [0..<len] (hw_mem_string h)"
  let ?c = "?b[last_char ll len + 1 := 0]"
  have g: "s = takeWhile (\<lambda>c. c \<noteq> 0) ?c" "hw_mem_string g = ?c"
    using assms(3) by (auto simp: GetMemString_def Let_def BYTES_IN_LINE_def len_def ll_def)
  have b: "?b ! 65 = 0" using assms(1) by (simp add: fold_dump_gap ll_def)
  have "length ?b = length (hw_mem_string h)"
    by (rule fold_invariant [where P = "\<lambda>b. length b = length (hw_mem_string h)" and Q = "\<lambda>_. True"])
      (simp_all add: dump_byte_def Let_def)
  with b assms(2) have "?c ! 65 = 0" "65 < length ?c" by (cases "last_char ll len + 1 = 65"; simp)+
  then show "length s \<le> 65" "hw_mem_string g ! 65 = 0" using g takeWhile_stop [of 65 ?c "\<lambda>c. c \<noteq> 0"] by simp_all
qed

text \<open>GET_FDC_INFO reports the interrupt line under the name of the wait line.\<close>

lemma fdc_info_wait:
  "GetFdcInfo f = JObj kvs \<Longrightarrow> map_of kvs ''wait'' = Some (JNum (uint (m_irq f)))"
  by (auto simp: GetFdcInfo_def jword_def jint_def)

end
