(* ===== verification/Utf8.thy ===== *)
theory Utf8
  imports Prelude
begin

unbundle bit_operations_syntax

text \<open>
  The two validators of UTF-8 text: the one of the scripts (\<^verbatim>\<open>core/scripts.cpp\<close>), which looks at
  the mask of the first byte and rejects overlong forms afterwards, and the one of the requests
  (\<^verbatim>\<open>app/ipc_request.cpp\<close>), which looks at its range. Both decide the same language, the
  concatenations of the encodings of Unicode scalar values. The position in the text is the list
  of the bytes from it on.
\<close>

section \<open>The validators\<close>

fun continuation :: "nat \<Rightarrow> u8 list \<Rightarrow> u32 \<Rightarrow> u32 option" where
  "continuation 0 bs cp = Some cp"
| "continuation (Suc n) [] cp = None"
| "continuation (Suc n) (b # bs) cp =
    (if b AND 0xC0 \<noteq> 0x80 then None else continuation n bs (push_bit 6 cp OR ucast (b AND 0x3F)))"

definition Scripts_lead :: "u8 \<Rightarrow> (nat \<times> u32) option" where
  "Scripts_lead f =
    (if f \<le> 0x7F then Some (1, ucast f)
     else if f AND 0xE0 = 0xC0 then Some (2, ucast (f AND 0x1F))
     else if f AND 0xF0 = 0xE0 then Some (3, ucast (f AND 0x0F))
     else if f AND 0xF8 = 0xF0 then Some (4, ucast (f AND 0x07))
     else None)"

function Scripts_IsValidUtf8 :: "u8 list \<Rightarrow> bool" where
  "Scripts_IsValidUtf8 bs =
    (case bs of
       [] \<Rightarrow> True
     | f # rest \<Rightarrow>
       (case Scripts_lead f of
          None \<Rightarrow> False
        | Some (len, cp0) \<Rightarrow>
           if length bs < len then False
           else (case continuation (len - 1) rest cp0 of
                   None \<Rightarrow> False
                 | Some cp \<Rightarrow>
                    if len = 2 \<and> cp < 0x80 \<or> len = 3 \<and> cp < 0x800 \<or> len = 4 \<and> cp < 0x10000 \<or> 0x10FFFF < cp \<or>
                      0xD800 \<le> cp \<and> cp \<le> 0xDFFF
                    then False else Scripts_IsValidUtf8 (drop len bs))))"
  by pat_completeness auto
termination
  by (relation "measure length") (auto simp: Scripts_lead_def split: if_splits)

definition Ipc_lead :: "u8 \<Rightarrow> (nat \<times> u32) option" where
  "Ipc_lead f =
    (if 0xC2 \<le> f \<and> f \<le> 0xDF then Some (1, ucast (f AND 0x1F))
     else if 0xE0 \<le> f \<and> f \<le> 0xEF then Some (2, ucast (f AND 0x0F))
     else if 0xF0 \<le> f \<and> f \<le> 0xF4 then Some (3, ucast (f AND 0x07))
     else None)"

function Ipc_IsValidUtf8 :: "u8 list \<Rightarrow> bool" where
  "Ipc_IsValidUtf8 bs =
    (case bs of
       [] \<Rightarrow> True
     | f # rest \<Rightarrow>
       if f \<le> 0x7F then Ipc_IsValidUtf8 rest
       else
       (case Ipc_lead f of
          None \<Rightarrow> False
        | Some (n, cp0) \<Rightarrow>
           if length bs \<le> n then False
           else (case continuation n rest cp0 of
                   None \<Rightarrow> False
                 | Some cp \<Rightarrow>
                    if n = 2 \<and> cp < 0x800 \<or> n = 3 \<and> cp < 0x10000 \<or> 0xD800 \<le> cp \<and> cp \<le> 0xDFFF \<or> 0x10FFFF < cp
                    then False else Ipc_IsValidUtf8 (drop (n + 1) bs))))"
  by pat_completeness auto
termination
  by (relation "measure length") auto

declare Scripts_IsValidUtf8.simps [simp del] Ipc_IsValidUtf8.simps [simp del]

section \<open>The language\<close>

definition scalar :: "nat \<Rightarrow> bool" where
  "scalar c \<longleftrightarrow> c < 0xD800 \<or> 0xDFFF < c \<and> c \<le> 0x10FFFF"

definition utf8_encode :: "nat \<Rightarrow> u8 list" where
  "utf8_encode c =
    (if c < 0x80 then [of_nat c]
     else if c < 0x800 then [of_nat (0xC0 + c div 64), of_nat (0x80 + c mod 64)]
     else if c < 0x10000 then [of_nat (0xE0 + c div 4096), of_nat (0x80 + c div 64 mod 64), of_nat (0x80 + c mod 64)]
     else [of_nat (0xF0 + c div 262144), of_nat (0x80 + c div 4096 mod 64), of_nat (0x80 + c div 64 mod 64),
           of_nat (0x80 + c mod 64)])"

definition utf8_text :: "u8 list \<Rightarrow> bool" where
  "utf8_text bs \<longleftrightarrow> (\<exists>cs. (\<forall>c \<in> set cs. scalar c) \<and> bs = concat (map utf8_encode cs))"

section \<open>Bytes as numbers\<close>

lemma high_bits:
  fixes b :: u8
  shows "b AND 0xC0 = push_bit 6 (drop_bit 6 b)" "b AND 0xE0 = push_bit 5 (drop_bit 5 b)"
    "b AND 0xF0 = push_bit 4 (drop_bit 4 b)" "b AND 0xF8 = push_bit 3 (drop_bit 3 b)"
proof -
  have *: "n < 8 \<longleftrightarrow> n = 0 \<or> n = 1 \<or> n = 2 \<or> n = 3 \<or> n = 4 \<or> n = 5 \<or> n = 6 \<or> n = (7 :: nat)" for n by auto
  show "b AND 0xC0 = push_bit 6 (drop_bit 6 b)" "b AND 0xE0 = push_bit 5 (drop_bit 5 b)"
    "b AND 0xF0 = push_bit 4 (drop_bit 4 b)" "b AND 0xF8 = push_bit 3 (drop_bit 3 b)"
    by (rule bit_word_eqI, (auto simp: * bit_simps)[1])+
qed

lemma low_bits:
  fixes b :: u8
  shows "unat (b AND 0x3F) = unat b mod 64" "unat (b AND 0x1F) = unat b mod 32"
    "unat (b AND 0x0F) = unat b mod 16" "unat (b AND 0x07) = unat b mod 8"
proof -
  have *: "b AND 0x3F = take_bit 6 b" "b AND 0x1F = take_bit 5 b" "b AND 0x0F = take_bit 4 b" "b AND 0x07 = take_bit 3 b"
    by (simp_all add: take_bit_eq_mask mask_eq_exp_minus_1)
  show "unat (b AND 0x3F) = unat b mod 64" "unat (b AND 0x1F) = unat b mod 32"
    "unat (b AND 0x0F) = unat b mod 16" "unat (b AND 0x07) = unat b mod 8"
    unfolding * unsigned_take_bit_eq by (simp_all add: take_bit_eq_mod)
qed

lemma byte_less: "unat (b :: u8) < 256"
  using unsigned_less [where w = b and ?'a = nat] by simp

lemma top_is: "n \<le> 8 \<Longrightarrow> push_bit n (drop_bit n b) = (of_nat (k * 2 ^ n) :: u8) \<longleftrightarrow> unat b div 2 ^ n = k" if "k * 2 ^ n < 256"
proof -
  have "unat (push_bit n (drop_bit n b)) = unat b div 2 ^ n * 2 ^ n"
  proof -
    have "unat b div 2 ^ n * 2 ^ n < 256"
      using byte_less [of b] div_times_less_eq_dividend [of "unat b" "2 ^ n"] by linarith
    then show ?thesis
      by (simp only: unsigned_push_bit_eq unat_drop_bit_eq) (simp add: push_bit_eq_mult drop_bit_eq_div take_bit_eq_mod)
  qed
  moreover have "unat (of_nat (k * 2 ^ n) :: u8) = k * 2 ^ n"
    using that by (simp add: unat_of_nat del: of_nat_mult)
  ultimately show ?thesis by (metis mult_cancel2 power_not_zero unsigned_word_eqI zero_neq_numeral)
qed

lemma lead_masks:
  fixes b :: u8
  shows "b AND 0xC0 = 0x80 \<longleftrightarrow> unat b div 64 = 2" "b AND 0xE0 = 0xC0 \<longleftrightarrow> unat b div 32 = 6"
    "b AND 0xF0 = 0xE0 \<longleftrightarrow> unat b div 16 = 14" "b AND 0xF8 = 0xF0 \<longleftrightarrow> unat b div 8 = 30"
  using top_is [of 2 6 b] top_is [of 6 5 b] top_is [of 14 4 b] top_is [of 30 3 b] by (simp_all add: high_bits)

lemma join6:
  assumes "unat cp < 2 ^ 26"
  shows "push_bit 6 cp OR ucast (b AND 0x3F :: u8) = (of_nat (unat cp * 64 + unat b mod 64) :: u32)"
proof -
  have "push_bit 6 cp OR ucast (b AND 0x3F) = push_bit 6 cp + (ucast (b AND 0x3F) :: u32)"
  proof (rule sym, rule disjunctive_add)
    fix n
    have "b AND 0x3F = take_bit 6 b" by (simp add: take_bit_eq_mask mask_eq_exp_minus_1)
    then show "\<not> bit (push_bit 6 cp) n \<or> \<not> bit (ucast (b AND 0x3F) :: u32) n"
      by (auto simp: bit_simps)
  qed
  also have "\<dots> = of_nat (unat cp * 64 + unat b mod 64)"
    by (simp add: push_bit_eq_mult flip: low_bits(1))
  finally show ?thesis .
qed

definition shift_in :: "nat \<Rightarrow> u8 list \<Rightarrow> nat" where
  "shift_in x bs = foldl (\<lambda>a b. a * 64 + unat b mod 64) x bs"

lemma continuation_eq:
  assumes "(unat cp + 1) * 64 ^ n \<le> 2 ^ 32"
  shows "continuation n bs cp =
    (if n \<le> length bs \<and> (\<forall>b \<in> set (take n bs). unat b div 64 = 2)
     then Some (of_nat (shift_in (unat cp) (take n bs))) else None)"
  using assms
proof (induction n bs cp rule: continuation.induct)
  case (3 n b bs cp)
  have "(unat cp + 1) * 64 * 1 \<le> (unat cp + 1) * 64 * 64 ^ n" by (intro mult_le_mono2) simp
  then have "(unat cp + 1) * 64 \<le> 2 ^ 32" using 3(2) by (simp only: power_Suc mult.assoc mult_1_right le_trans)
  then have small: "unat cp < 2 ^ 26" by simp
  let ?x = "unat cp * 64 + unat b mod 64"
  have "?x + 1 \<le> (unat cp + 1) * 64"
    using mod_less_divisor [of 64 "unat b"] by (simp del: mod_less_divisor)
  then have "(?x + 1) * 64 ^ n \<le> (unat cp + 1) * 64 * 64 ^ n" by (rule mult_le_mono1)
  also have "\<dots> = (unat cp + 1) * 64 ^ Suc n" by (simp only: power_Suc mult.assoc)
  also have "\<dots> \<le> 2 ^ 32" by (rule 3(2))
  finally have fits: "(?x + 1) * 64 ^ n \<le> 2 ^ 32" .
  then have "?x < 2 ^ 32" using small by simp
  then have "unat (of_nat ?x :: u32) = ?x" by (simp add: unat_of_nat del: of_nat_add of_nat_mult)
  then show ?case
    using 3(1) fits by (simp add: join6 [OF small] lead_masks shift_in_def del: of_nat_add of_nat_mult)
qed (simp_all add: shift_in_def)

section \<open>One character\<close>

text \<open>The continuation bytes of a character: \<open>n\<close> bytes, the value they give after the lead.\<close>

definition follows :: "nat \<Rightarrow> nat \<Rightarrow> u8 list \<Rightarrow> nat \<Rightarrow> bool" where
  "follows n x bs c \<longleftrightarrow> n \<le> length bs \<and> (\<forall>b \<in> set (take n bs). unat b div 64 = 2) \<and> c = shift_in x (take n bs)"

lemma follows_0: "follows 0 x bs c \<longleftrightarrow> c = x"
  by (simp add: follows_def shift_in_def)

lemma follows_Suc:
  "follows (Suc n) x bs c \<longleftrightarrow> (\<exists>b r. bs = b # r \<and> unat b div 64 = 2 \<and> follows n (x * 64 + unat b mod 64) r c)"
  by (cases bs) (auto simp: follows_def shift_in_def)

lemma byte_of: "x < 256 \<Longrightarrow> unat (of_nat x :: u8) = x"
  by (simp add: unat_of_nat)

lemma of_byte: "unat b = x \<Longrightarrow> b = (of_nat x :: u8)"
  by (metis of_nat_unat ucast_id)

lemma tail_of: "unat b div 64 = 2 \<Longrightarrow> b = (of_nat (128 + unat b mod 64) :: u8)"
  using div_mult_mod_eq [of "unat b" 64] by (intro of_byte) simp

lemma tail_parts:
  "unat (of_nat (128 + c mod 64) :: u8) div 64 = 2" "unat (of_nat (128 + c mod 64) :: u8) mod 64 = c mod 64"
proof -
  have *: "y < n \<Longrightarrow> (k * n + y) div n = k \<and> (k * n + y) mod n = y" for y n k :: nat by simp
  have "unat (of_nat (128 + c mod 64) :: u8) = 128 + c mod 64"
    using mod_less_divisor [of 64 c] by (intro byte_of) linarith
  with * [of "c mod 64" 64 2] show "unat (of_nat (128 + c mod 64) :: u8) div 64 = 2"
    "unat (of_nat (128 + c mod 64) :: u8) mod 64 = c mod 64" by simp_all
qed

lemma digit:
  fixes y x :: nat
  assumes "y < 64"
  shows "(x * 64 + y) div 64 = x" "(x * 64 + y) mod 64 = y"
  using assms by simp_all

lemma digits: "c div 64 * 64 + c mod 64 = (c :: nat)"
  by (rule div_mult_mod_eq)

lemma lead_digit:
  fixes x :: nat
  shows "x < 32 \<Longrightarrow> (192 + x) div 32 = 6 \<and> (192 + x) mod 32 = x"
    "x < 16 \<Longrightarrow> (224 + x) div 16 = 14 \<and> (224 + x) mod 16 = x"
    "x < 8 \<Longrightarrow> (240 + x) div 8 = 30 \<and> (240 + x) mod 8 = x"
proof -
  have *: "y < n \<Longrightarrow> (k * n + y) div n = k \<and> (k * n + y) mod n = y" for y n k :: nat by simp
  show "x < 32 \<Longrightarrow> (192 + x) div 32 = 6 \<and> (192 + x) mod 32 = x" using * [of x 32 6] by simp
  show "x < 16 \<Longrightarrow> (224 + x) div 16 = 14 \<and> (224 + x) mod 16 = x" using * [of x 16 14] by simp
  show "x < 8 \<Longrightarrow> (240 + x) div 8 = 30 \<and> (240 + x) mod 8 = x" using * [of x 8 30] by simp
qed

lemma digits_2: "c = 4096 * (c div 64 div 64) + c div 64 mod 64 * 64 + (c mod 64 :: nat)"
proof -
  have "c = d * 64 + y \<Longrightarrow> d = e * 64 + z \<Longrightarrow> c = 4096 * e + z * 64 + y" for d y e z :: nat by simp
  from this [OF digits [symmetric] digits [symmetric]] show ?thesis .
qed

lemma digits_3:
  "c = 262144 * (c div 64 div 64 div 64) + 4096 * (c div 64 div 64 mod 64) + c div 64 mod 64 * 64 + (c mod 64 :: nat)"
proof -
  have "c = 4096 * d + x \<Longrightarrow> d = e * 64 + z \<Longrightarrow> c = 262144 * e + 4096 * z + x" for d x e z :: nat by simp
  from this [OF digits_2 [of c, unfolded add.assoc] digits [symmetric]] show ?thesis by (simp only: add.assoc)
qed

lemma encode_2:
  assumes "0x80 \<le> c" "c < 0x800"
  shows "f # bs = utf8_encode c @ r \<longleftrightarrow> unat f div 32 = 6 \<and> follows 1 (unat f mod 32) bs c \<and> r = drop 1 bs"
proof
  assume "f # bs = utf8_encode c @ r"
  then have f: "f = of_nat (0xC0 + c div 64)" and bs: "bs = of_nat (0x80 + c mod 64) # r"
    using assms by (auto simp: utf8_encode_def simp del: of_nat_add)
  have "unat f = 0xC0 + c div 64" unfolding f using assms(2) by (intro byte_of) auto
  moreover have "c div 64 < 32" using assms(2) by auto
  ultimately have "unat f div 32 = 6" "unat f mod 32 = c div 64" by (simp_all add: lead_digit)
  then show "unat f div 32 = 6 \<and> follows 1 (unat f mod 32) bs c \<and> r = drop 1 bs"
    by (simp add: One_nat_def follows_Suc follows_0 bs tail_parts digits del: of_nat_add)
next
  assume r: "unat f div 32 = 6 \<and> follows 1 (unat f mod 32) bs c \<and> r = drop 1 bs"
  then obtain b where b: "bs = b # r" "unat b div 64 = 2" "c = unat f mod 32 * 64 + unat b mod 64"
    by (auto simp: One_nat_def follows_Suc follows_0)
  have "unat f = 0xC0 + c div 64" using div_mult_mod_eq [of "unat f" 32] r by (simp add: b(3) digit)
  then have "f = of_nat (0xC0 + c div 64)" by (rule of_byte)
  moreover have "b = of_nat (0x80 + c mod 64)" using tail_of [OF b(2)] by (simp add: b(3) digit)
  ultimately show "f # bs = utf8_encode c @ r" using assms b(1) by (simp add: utf8_encode_def)
qed

lemma encode_3:
  assumes "0x800 \<le> c" "c < 0x10000"
  shows "f # bs = utf8_encode c @ r \<longleftrightarrow> unat f div 16 = 14 \<and> follows 2 (unat f mod 16) bs c \<and> r = drop 2 bs"
proof
  let ?d = "c div 64"
  have d: "c div 4096 = ?d div 64" by (simp add: div_mult2_eq [symmetric])
  assume "f # bs = utf8_encode c @ r"
  then have f: "f = of_nat (0xE0 + ?d div 64)" and bs: "bs = of_nat (0x80 + ?d mod 64) # of_nat (0x80 + c mod 64) # r"
    using assms by (auto simp: utf8_encode_def d simp del: of_nat_add)
  have "?d div 64 < 16" using assms(2) by (auto simp: div_mult2_eq [symmetric])
  moreover from this have "unat f = 0xE0 + ?d div 64" unfolding f by (intro byte_of) auto
  ultimately have "unat f div 16 = 14" "unat f mod 16 = ?d div 64" by (simp_all add: lead_digit)
  then show "unat f div 16 = 14 \<and> follows 2 (unat f mod 16) bs c \<and> r = drop 2 bs"
    using digits_2 [of c] by (simp add: numeral_2_eq_2 follows_Suc follows_0 bs tail_parts digits del: of_nat_add)
next
  assume r: "unat f div 16 = 14 \<and> follows 2 (unat f mod 16) bs c \<and> r = drop 2 bs"
  then obtain b1 b2 where b: "bs = b1 # b2 # r" "unat b1 div 64 = 2" "unat b2 div 64 = 2"
      "c = (unat f mod 16 * 64 + unat b1 mod 64) * 64 + unat b2 mod 64"
    by (auto simp: numeral_2_eq_2 follows_Suc follows_0)
  have d: "c div 64 = unat f mod 16 * 64 + unat b1 mod 64" unfolding b(4) by (rule digit) simp
  have m: "c mod 64 = unat b2 mod 64" "c div 64 mod 64 = unat b1 mod 64" "c div 64 div 64 = unat f mod 16"
    unfolding d by (unfold b(4), (rule digit, simp)+)
  have d2: "c div 4096 = unat f mod 16" unfolding m(3) [symmetric] by (simp add: div_mult2_eq [symmetric])
  have "unat f = 0xE0 + c div 4096" using div_mult_mod_eq [of "unat f" 16] r by (simp add: d2)
  then have "f = of_nat (0xE0 + c div 4096)" by (rule of_byte)
  moreover have "b1 = of_nat (0x80 + c div 64 mod 64)" using tail_of [OF b(2)] by (simp add: m)
  moreover have "b2 = of_nat (0x80 + c mod 64)" using tail_of [OF b(3)] by (simp add: m)
  ultimately show "f # bs = utf8_encode c @ r" using assms b(1) by (simp add: utf8_encode_def)
qed

lemma encode_4:
  assumes "0x10000 \<le> c" "c < 0x200000"
  shows "f # bs = utf8_encode c @ r \<longleftrightarrow> unat f div 8 = 30 \<and> follows 3 (unat f mod 8) bs c \<and> r = drop 3 bs"
proof
  let ?d = "c div 64" let ?e = "c div 64 div 64"
  have d: "c div 4096 = ?e" "c div 262144 = ?e div 64" by (simp_all add: div_mult2_eq [symmetric])
  assume "f # bs = utf8_encode c @ r"
  then have f: "f = of_nat (0xF0 + ?e div 64)"
    and bs: "bs = of_nat (0x80 + ?e mod 64) # of_nat (0x80 + ?d mod 64) # of_nat (0x80 + c mod 64) # r"
    using assms by (auto simp: utf8_encode_def d simp del: of_nat_add)
  have "?e div 64 < 8" using assms(2) by (auto simp: div_mult2_eq [symmetric])
  moreover from this have "unat f = 0xF0 + ?e div 64" unfolding f by (intro byte_of) auto
  ultimately have "unat f div 8 = 30" "unat f mod 8 = ?e div 64" by (simp_all add: lead_digit)
  then show "unat f div 8 = 30 \<and> follows 3 (unat f mod 8) bs c \<and> r = drop 3 bs"
    using digits_3 [of c] by (simp add: numeral_3_eq_3 follows_Suc follows_0 bs tail_parts digits del: of_nat_add)
next
  assume r: "unat f div 8 = 30 \<and> follows 3 (unat f mod 8) bs c \<and> r = drop 3 bs"
  then obtain b1 b2 b3 where b: "bs = b1 # b2 # b3 # r" "unat b1 div 64 = 2" "unat b2 div 64 = 2" "unat b3 div 64 = 2"
      "c = ((unat f mod 8 * 64 + unat b1 mod 64) * 64 + unat b2 mod 64) * 64 + unat b3 mod 64"
    by (auto simp: numeral_3_eq_3 follows_Suc follows_0)
  have d: "c div 64 = (unat f mod 8 * 64 + unat b1 mod 64) * 64 + unat b2 mod 64" unfolding b(5) by (rule digit) simp
  have e: "c div 64 div 64 = unat f mod 8 * 64 + unat b1 mod 64" unfolding d by (rule digit) simp
  have m: "c mod 64 = unat b3 mod 64" "c div 64 mod 64 = unat b2 mod 64" "c div 64 div 64 mod 64 = unat b1 mod 64"
      "c div 64 div 64 div 64 = unat f mod 8"
    unfolding e by (unfold d, (unfold b(5))?, (rule digit, simp)+)
  have d2: "c div 4096 = c div 64 div 64" "c div 262144 = unat f mod 8"
    unfolding m(4) [symmetric] by (simp_all add: div_mult2_eq [symmetric])
  have "unat f = 0xF0 + c div 262144" using div_mult_mod_eq [of "unat f" 8] r by (simp add: d2)
  then have "f = of_nat (0xF0 + c div 262144)" by (rule of_byte)
  moreover have "b1 = of_nat (0x80 + c div 4096 mod 64)" using tail_of [OF b(2)] by (simp add: d2 m)
  moreover have "b2 = of_nat (0x80 + c div 64 mod 64)" using tail_of [OF b(3)] by (simp add: m)
  moreover have "b3 = of_nat (0x80 + c mod 64)" using tail_of [OF b(4)] by (simp add: m)
  ultimately show "f # bs = utf8_encode c @ r" using assms b(1) by (simp add: utf8_encode_def)
qed

lemma encode_1: "c < 0x80 \<Longrightarrow> f # bs = utf8_encode c @ r \<longleftrightarrow> unat f = c \<and> r = bs"
  using of_byte [of f c] by (auto simp: utf8_encode_def byte_of)

lemma follows_bound: "follows n x bs c \<Longrightarrow> c < (x + 1) * 64 ^ n"
proof (induction n arbitrary: x bs)
  case (Suc n)
  then obtain b :: u8 and r where "follows n (x * 64 + unat b mod 64) r c" unfolding follows_Suc by blast
  from Suc.IH [OF this] have "c < (x * 64 + unat b mod 64 + 1) * 64 ^ n" .
  also have "\<dots> \<le> ((x + 1) * 64) * 64 ^ n"
    using mod_less_divisor [of 64 "unat b", simplified] by (intro mult_le_mono1) simp
  finally show ?case by (simp only: power_Suc mult.assoc)
qed (simp add: follows_0)

definition char_step :: "(u8 list \<Rightarrow> bool) \<Rightarrow> u8 \<Rightarrow> u8 list \<Rightarrow> bool" where
  "char_step P f bs \<longleftrightarrow>
    unat f < 0x80 \<and> P bs \<or>
    unat f div 32 = 6 \<and> (\<exists>c. follows 1 (unat f mod 32) bs c \<and> 0x80 \<le> c \<and> scalar c \<and> P (drop 1 bs)) \<or>
    unat f div 16 = 14 \<and> (\<exists>c. follows 2 (unat f mod 16) bs c \<and> 0x800 \<le> c \<and> scalar c \<and> P (drop 2 bs)) \<or>
    unat f div 8 = 30 \<and> (\<exists>c. follows 3 (unat f mod 8) bs c \<and> 0x10000 \<le> c \<and> scalar c \<and> P (drop 3 bs))"

lemma lead_bounds:
  "follows 1 (unat f mod 32) bs c \<Longrightarrow> c < 0x800" "follows 2 (unat f mod 16) bs c \<Longrightarrow> c < 0x10000"
  "follows 3 (unat f mod 8) bs c \<Longrightarrow> c < 0x200000" for f :: u8
proof -
  have *: "follows n (unat f mod k) bs c \<Longrightarrow> 0 < k \<Longrightarrow> c < k * 64 ^ n" for n k
  proof -
    assume "follows n (unat f mod k) bs c" "0 < k"
    then have "c < (unat f mod k + 1) * 64 ^ n" "unat f mod k + 1 \<le> k"
      using mod_less_divisor [of k "unat f"] by (auto dest: follows_bound simp: Suc_leI)
    then show "c < k * 64 ^ n" by (meson le_trans less_le_trans mult_le_mono1)
  qed
  show "follows 1 (unat f mod 32) bs c \<Longrightarrow> c < 0x800" "follows 2 (unat f mod 16) bs c \<Longrightarrow> c < 0x10000"
    "follows 3 (unat f mod 8) bs c \<Longrightarrow> c < 0x200000"
    using * [of 1 32] * [of 2 16] * [of 3 8] by auto
qed

lemma char_step_encode: "char_step P f bs \<longleftrightarrow> (\<exists>c r. scalar c \<and> f # bs = utf8_encode c @ r \<and> P r)"
proof
  assume "char_step P f bs"
  then consider "unat f < 0x80" "P bs"
    | c where "unat f div 32 = 6" "follows 1 (unat f mod 32) bs c" "0x80 \<le> c" "scalar c" "P (drop 1 bs)"
    | c where "unat f div 16 = 14" "follows 2 (unat f mod 16) bs c" "0x800 \<le> c" "scalar c" "P (drop 2 bs)"
    | c where "unat f div 8 = 30" "follows 3 (unat f mod 8) bs c" "0x10000 \<le> c" "scalar c" "P (drop 3 bs)"
    unfolding char_step_def by blast
  then show "\<exists>c r. scalar c \<and> f # bs = utf8_encode c @ r \<and> P r"
  proof cases
    case 1
    then have "scalar (unat f)" "f # bs = utf8_encode (unat f) @ bs"
      using encode_1 [of "unat f" f bs bs] by (simp_all add: scalar_def)
    with 1 show ?thesis by blast
  next
    case 2
    then show ?thesis using encode_2 [of c f bs "drop 1 bs"] lead_bounds(1) [OF 2(2)] by blast
  next
    case 3
    then show ?thesis using encode_3 [of c f bs "drop 2 bs"] lead_bounds(2) [OF 3(2)] by blast
  next
    case 4
    then show ?thesis using encode_4 [of c f bs "drop 3 bs"] lead_bounds(3) [OF 4(2)] by blast
  qed
next
  assume "\<exists>c r. scalar c \<and> f # bs = utf8_encode c @ r \<and> P r"
  then obtain c r where c: "scalar c" "f # bs = utf8_encode c @ r" "P r" by blast
  consider "c < 0x80" | "0x80 \<le> c" "c < 0x800" | "0x800 \<le> c" "c < 0x10000" | "0x10000 \<le> c" "c < 0x200000"
    using c(1) unfolding scalar_def by linarith
  then show "char_step P f bs"
  proof cases
    case 1
    then show ?thesis using c by (simp add: encode_1 char_step_def)
  next
    case 2
    then show ?thesis using c unfolding char_step_def by (simp only: encode_2 [OF 2]) blast
  next
    case 3
    then show ?thesis using c unfolding char_step_def by (simp only: encode_3 [OF 3]) blast
  next
    case 4
    then show ?thesis using c unfolding char_step_def by (simp only: encode_4 [OF 4]) blast
  qed
qed

lemma text_of_steps:
  assumes "P []" "\<And>f bs. P (f # bs) \<longleftrightarrow> char_step P f bs"
  shows "P bs \<longleftrightarrow> utf8_text bs"
proof (induction bs rule: length_induct)
  case (1 bs)
  show ?case
  proof (cases bs)
    case Nil
    then show ?thesis using assms(1) by (auto simp: utf8_text_def intro: exI [of _ "[]"])
  next
    case (Cons f bs')
    have short: "length r < length bs" if "bs = utf8_encode c @ r" for c r
      using that by (auto simp: utf8_encode_def)
    have "P bs \<longleftrightarrow> (\<exists>c r. scalar c \<and> bs = utf8_encode c @ r \<and> utf8_text r)"
      using 1 short unfolding Cons assms(2) char_step_encode by blast
    also have "\<dots> \<longleftrightarrow> utf8_text bs"
    proof
      assume "\<exists>c r. scalar c \<and> bs = utf8_encode c @ r \<and> utf8_text r"
      then obtain c cs where "scalar c" "\<forall>d \<in> set cs. scalar d" "bs = concat (map utf8_encode (c # cs))"
        by (auto simp: utf8_text_def)
      then show "utf8_text bs" unfolding utf8_text_def by (intro exI [of _ "c # cs"]) simp
    next
      assume "utf8_text bs"
      then obtain cs where "\<forall>d \<in> set cs. scalar d" "bs = concat (map utf8_encode cs)" by (auto simp: utf8_text_def)
      moreover from this Cons obtain c cs' where "cs = c # cs'" by (cases cs) auto
      ultimately show "\<exists>c r. scalar c \<and> bs = utf8_encode c @ r \<and> utf8_text r"
        by (auto simp: utf8_text_def)
    qed
    finally show ?thesis .
  qed
qed

section \<open>Both validators take these steps\<close>

lemma continuation_follows:
  assumes "(unat cp + 1) * 64 ^ n \<le> 2 ^ 32"
  shows "(case continuation n bs cp of None \<Rightarrow> False | Some w \<Rightarrow> Q w) \<longleftrightarrow> (\<exists>c. follows n (unat cp) bs c \<and> Q (of_nat c))"
  using assms by (auto simp: continuation_eq follows_def)

lemma of_nat_compare:
  fixes w :: u32
  assumes "c < 2 ^ 32"
  shows "of_nat c < w \<longleftrightarrow> c < unat w" "w < of_nat c \<longleftrightarrow> unat w < c" "of_nat c \<le> w \<longleftrightarrow> c \<le> unat w" "w \<le> of_nat c \<longleftrightarrow> unat w \<le> c"
  using assms by (simp_all add: word_less_nat_alt word_le_nat_alt unat_of_nat)

lemma lead_values:
  fixes f :: u8
  shows "unat (ucast (f AND 0x1F) :: u32) = unat f mod 32" "unat (ucast (f AND 0x0F) :: u32) = unat f mod 16"
    "unat (ucast (f AND 0x07) :: u32) = unat f mod 8"
  by (simp_all add: low_bits unsigned_ucast_eq take_bit_nat_eq_self)

lemma div_is: "0 < n \<Longrightarrow> (x :: nat) div n = k \<longleftrightarrow> k * n \<le> x \<and> x < Suc k * n"
  using div_times_less_eq_dividend [of x n] dividend_less_div_times [of n x] by (auto intro!: div_nat_eqI simp: mult.commute)

lemma lead_ranges:
  fixes f :: u8
  shows "unat f div 32 = 6 \<longleftrightarrow> 192 \<le> unat f \<and> unat f < 224" "unat f div 16 = 14 \<longleftrightarrow> 224 \<le> unat f \<and> unat f < 240"
    "unat f div 8 = 30 \<longleftrightarrow> 240 \<le> unat f \<and> unat f < 248"
  by (simp_all add: div_is)

lemma lead_kind:
  fixes f :: u8
  shows "f \<le> 0x7F \<longleftrightarrow> unat f < 0x80"
    "0xC2 \<le> f \<and> f \<le> 0xDF \<longleftrightarrow> 0xC2 \<le> unat f \<and> unat f < 224"
    "0xE0 \<le> f \<and> f \<le> 0xEF \<longleftrightarrow> 224 \<le> unat f \<and> unat f < 240"
    "0xF0 \<le> f \<and> f \<le> 0xF4 \<longleftrightarrow> 240 \<le> unat f \<and> unat f \<le> 0xF4"
  by (auto simp: word_le_nat_alt)

lemma char_case:
  assumes "unat x = k" "(k + 1) * 64 ^ n \<le> 2 ^ 32"
  shows "(\<not> length bs < n \<and> (case continuation n bs x of None \<Rightarrow> False | Some cp \<Rightarrow> \<not> bad cp \<and> R)) \<longleftrightarrow>
    (\<exists>c. follows n k bs c \<and> \<not> bad (of_nat c) \<and> R)"
  using continuation_follows [of x n "\<lambda>cp. \<not> bad cp \<and> R" bs] assms by (auto simp: follows_def)

lemma good_char:
  assumes "c < 0x200000"
  shows "\<not> ((of_nat c :: u32) < w \<or> 0x10FFFF < (of_nat c :: u32) \<or> 0xD800 \<le> (of_nat c :: u32) \<and> (of_nat c :: u32) \<le> 0xDFFF) \<longleftrightarrow>
    unat w \<le> c \<and> scalar c"
proof -
  have "c < 2 ^ 32" using assms by simp
  from of_nat_compare [OF this] show ?thesis by (simp add: scalar_def) linarith
qed

definition bad_char :: "u32 \<Rightarrow> u32 \<Rightarrow> bool" where
  "bad_char w cp \<longleftrightarrow> cp < w \<or> 0x10FFFF < cp \<or> 0xD800 \<le> cp \<and> cp \<le> 0xDFFF"

definition tail_ok :: "nat \<Rightarrow> u32 \<Rightarrow> u32 \<Rightarrow> (u8 list \<Rightarrow> bool) \<Rightarrow> u8 list \<Rightarrow> bool" where
  "tail_ok n x w P bs \<longleftrightarrow> \<not> length bs < n \<and>
    (case continuation n bs x of None \<Rightarrow> False | Some cp \<Rightarrow> \<not> bad_char w cp \<and> P (drop n bs))"

lemma tail_ok_eq:
  assumes "unat x = k" "(k + 1) * 64 ^ n \<le> 0x200000"
  shows "tail_ok n x w P bs \<longleftrightarrow> (\<exists>c. follows n k bs c \<and> unat w \<le> c \<and> scalar c \<and> P (drop n bs))"
proof -
  have "follows n k bs c \<Longrightarrow> \<not> bad_char w (of_nat c) \<longleftrightarrow> unat w \<le> c \<and> scalar c" for c
    using good_char [of c w] follows_bound [of n k bs c] assms(2) unfolding bad_char_def by linarith
  moreover have "(k + 1) * 64 ^ n \<le> 2 ^ 32" by (rule le_trans [OF assms(2)]) simp
  ultimately show ?thesis
    unfolding tail_ok_def by (subst char_case [where bad = "bad_char w", OF assms(1)]) auto
qed

lemma small_lead: "unat (f :: u8) mod 32 + 1 \<le> 32" "unat f mod 16 + 1 \<le> 16" "unat f mod 8 + 1 \<le> 8"
  by (simp_all add: Suc_leI)

lemma tails:
  fixes f :: u8
  shows "tail_ok 1 (ucast (f AND 0x1F)) 0x80 P bs \<longleftrightarrow>
      (\<exists>c. follows 1 (unat f mod 32) bs c \<and> 0x80 \<le> c \<and> scalar c \<and> P (drop 1 bs))"
    "tail_ok 2 (ucast (f AND 0x0F)) 0x800 P bs \<longleftrightarrow>
      (\<exists>c. follows 2 (unat f mod 16) bs c \<and> 0x800 \<le> c \<and> scalar c \<and> P (drop 2 bs))"
    "tail_ok 3 (ucast (f AND 0x07)) 0x10000 P bs \<longleftrightarrow>
      (\<exists>c. follows 3 (unat f mod 8) bs c \<and> 0x10000 \<le> c \<and> scalar c \<and> P (drop 3 bs))"
  by (subst tail_ok_eq [OF lead_values(1)], use small_lead(1) [of f] in simp, simp)
    (subst tail_ok_eq [OF lead_values(2)], use small_lead(2) [of f] in simp, simp,
     subst tail_ok_eq [OF lead_values(3)], use small_lead(3) [of f] in simp, simp)

text \<open>The kinds of a lead byte.\<close>

definition lead_class :: "u8 \<Rightarrow> nat" where
  "lead_class f =
    (if unat f < 0x80 then 0 else if unat f div 32 = 6 then 1 else if unat f div 16 = 14 then 2
     else if unat f div 8 = 30 then 3 else 4)"

lemma char_step_class:
  "char_step P f bs \<longleftrightarrow>
    (if lead_class f = 0 then P bs
     else if lead_class f = 1 then tail_ok 1 (ucast (f AND 0x1F)) 0x80 P bs
     else if lead_class f = 2 then tail_ok 2 (ucast (f AND 0x0F)) 0x800 P bs
     else if lead_class f = 3 then tail_ok 3 (ucast (f AND 0x07)) 0x10000 P bs else False)"
proof -
  have "unat f < 0x80 \<Longrightarrow> unat f div 32 \<noteq> 6 \<and> unat f div 16 \<noteq> 14 \<and> unat f div 8 \<noteq> 30"
    "unat f div 32 = 6 \<Longrightarrow> unat f div 16 \<noteq> 14 \<and> unat f div 8 \<noteq> 30" "unat f div 16 = 14 \<Longrightarrow> unat f div 8 \<noteq> 30"
    unfolding lead_ranges by linarith+
  then show ?thesis unfolding tails char_step_def lead_class_def by auto
qed

lemma tail_ok_case:
  "(if length (f # bs) < Suc n then False
    else (case continuation n bs x of None \<Rightarrow> False | Some cp \<Rightarrow> if bad_char w cp then False else P (drop (Suc n) (f # bs)))) =
    tail_ok n x w P bs"
  by (auto simp: tail_ok_def split: option.split)

lemma Scripts_lead_case:
  assumes "Scripts_lead f = Some (Suc n, x)"
    "\<And>cp. Suc n = 2 \<and> cp < 0x80 \<or> Suc n = 3 \<and> cp < 0x800 \<or> Suc n = 4 \<and> cp < 0x10000 \<or> 0x10FFFF < cp \<or>
      0xD800 \<le> cp \<and> cp \<le> 0xDFFF \<longleftrightarrow> bad_char w cp"
  shows "Scripts_IsValidUtf8 (f # bs) = tail_ok n x w Scripts_IsValidUtf8 bs"
  by (subst Scripts_IsValidUtf8.simps)
    (simp only: assms list.case option.case prod.case diff_Suc_1 tail_ok_case)

lemma Ipc_lead_case:
  assumes "\<not> f \<le> 0x7F" "Ipc_lead f = Some (n, x)"
    "\<And>cp. n = 2 \<and> cp < 0x800 \<or> n = 3 \<and> cp < 0x10000 \<or> 0xD800 \<le> cp \<and> cp \<le> 0xDFFF \<or> 0x10FFFF < cp \<longleftrightarrow> bad_char w cp"
  shows "Ipc_IsValidUtf8 (f # bs) = tail_ok n x w Ipc_IsValidUtf8 bs"
  using tail_ok_case [where f = f and bs = bs and n = n and x = x and w = w and P = Ipc_IsValidUtf8] assms
  by (subst Ipc_IsValidUtf8.simps) (simp only: list.case option.case prod.case if_False Suc_eq_plus1 less_Suc_eq_le [symmetric])

lemma lead_classes: "lead_class f \<in> {0, 1, 2, 3, 4}"
  by (simp add: lead_class_def)

lemma Scripts_step: "Scripts_IsValidUtf8 (f # bs) \<longleftrightarrow> char_step Scripts_IsValidUtf8 f bs"
proof -
  consider "lead_class f = 0" | "lead_class f = 1" | "lead_class f = 2" | "lead_class f = 3" | "lead_class f = 4"
    using lead_classes [of f] by auto
  then show ?thesis
  proof cases
    case 1
    then have "f \<le> 0x7F" "unat f < 0x80" by (auto simp: lead_class_def lead_kind split: if_splits)
    moreover have "unat (ucast f :: u32) = unat f"
      using byte_less [of f] by (simp add: unsigned_ucast_eq take_bit_nat_eq_self)
    ultimately show ?thesis
      using 1 unfolding char_step_class
      by (subst Scripts_IsValidUtf8.simps) (simp add: Scripts_lead_def word_less_nat_alt word_le_nat_alt)
  next
    case 2
    then have "Scripts_lead f = Some (Suc 1, ucast (f AND 0x1F))"
      by (simp add: lead_class_def Scripts_lead_def lead_kind lead_masks split: if_splits)
    then show ?thesis
      using 2 unfolding char_step_class by (subst Scripts_lead_case [where w = "0x80"]) (auto simp: bad_char_def)
  next
    case 3
    then have "Scripts_lead f = Some (Suc 2, ucast (f AND 0x0F))"
      by (simp add: lead_class_def Scripts_lead_def lead_kind lead_masks split: if_splits)
    then show ?thesis
      using 3 unfolding char_step_class by (subst Scripts_lead_case [where w = "0x800"]) (auto simp: bad_char_def)
  next
    case 4
    then have "Scripts_lead f = Some (Suc 3, ucast (f AND 0x07))"
      by (simp add: lead_class_def Scripts_lead_def lead_kind lead_masks split: if_splits)
    then show ?thesis
      using 4 unfolding char_step_class by (subst Scripts_lead_case [where w = "0x10000"]) (auto simp: bad_char_def)
  next
    case 5
    then have "Scripts_lead f = None"
      by (simp add: lead_class_def Scripts_lead_def lead_kind lead_masks split: if_splits)
    then show ?thesis using 5 unfolding char_step_class by (subst Scripts_IsValidUtf8.simps) simp
  qed
qed

text \<open>The two lead bytes that the requests' validator refuses early only start overlong forms.\<close>

lemma overlong_lead: "unat (f :: u8) mod 32 < 2 \<Longrightarrow> \<not> tail_ok 1 (ucast (f AND 0x1F)) 0x80 P bs"
proof
  assume "unat f mod 32 < 2" "tail_ok 1 (ucast (f AND 0x1F)) 0x80 P bs"
  then obtain c where "follows 1 (unat f mod 32) bs c" "0x80 \<le> c" unfolding tails by blast
  moreover from this have "c < (unat f mod 32 + 1) * 64" using follows_bound [of 1 "unat f mod 32" bs c] by simp
  moreover have "128 \<le> c \<Longrightarrow> c < (k + 1) * 64 \<Longrightarrow> \<not> k < 2" for k by presburger
  ultimately show False using \<open>unat f mod 32 < 2\<close> by blast
qed

lemma large_lead: "4 < unat (f :: u8) mod 8 \<Longrightarrow> \<not> tail_ok 3 (ucast (f AND 0x07)) 0x10000 P bs"
proof
  assume *: "4 < unat f mod 8" "tail_ok 3 (ucast (f AND 0x07)) 0x10000 P bs"
  then obtain c where c: "follows 3 (unat f mod 8) bs c" "scalar c" unfolding tails by blast
  then obtain b1 b2 b3 :: u8
    where "c = ((unat f mod 8 * 64 + unat b1 mod 64) * 64 + unat b2 mod 64) * 64 + unat b3 mod 64"
    by (auto simp: numeral_3_eq_3 follows_Suc follows_0)
  then have "unat f mod 8 * 262144 \<le> c" by simp
  then show False using c(2) *(1) unfolding scalar_def by linarith
qed

lemma follows_least: "follows 1 x bs c \<Longrightarrow> x * 64 \<le> c"
  by (auto simp: One_nat_def follows_Suc follows_0)

lemma short_lead:
  fixes f :: u8
  assumes "2 \<le> unat f mod 32"
  shows "tail_ok 1 (ucast (f AND 0x1F)) 0 P bs = tail_ok 1 (ucast (f AND 0x1F)) 0x80 P bs"
proof -
  have "128 \<le> c" if "follows 1 (unat f mod 32) bs c" for c
    using follows_least [OF that] assms by linarith
  then show ?thesis
    using tail_ok_eq [OF lead_values(1), of f 1 0 P bs] small_lead(1) [of f] unfolding tails by auto
qed

lemma Ipc_step: "Ipc_IsValidUtf8 (f # bs) \<longleftrightarrow> char_step Ipc_IsValidUtf8 f bs"
proof -
  have none: "Ipc_IsValidUtf8 (f # bs) = False" if "\<not> f \<le> 0x7F" "Ipc_lead f = None"
    using that by (subst Ipc_IsValidUtf8.simps) simp
  have rest: "unat f mod k = unat f - j * k" if "unat f div k = j" for j k
    using that by (simp add: modulo_nat_def)
  consider "lead_class f = 0" | "lead_class f = 1" | "lead_class f = 2" | "lead_class f = 3" | "lead_class f = 4"
    using lead_classes [of f] by auto
  then show ?thesis
  proof cases
    case 1
    then show ?thesis
      unfolding char_step_class
      by (subst Ipc_IsValidUtf8.simps) (auto simp: lead_class_def lead_kind split: if_splits)
  next
    case 2
    then have d: "unat f div 32 = 6" by (auto simp: lead_class_def split: if_splits)
    then have r: "192 \<le> unat f" "unat f < 224" unfolding lead_ranges by auto
    show ?thesis
    proof (cases "0xC2 \<le> unat f")
      case True
      then have "\<not> f \<le> 0x7F" "Ipc_lead f = Some (1, ucast (f AND 0x1F))" "2 \<le> unat f mod 32"
        using r rest [OF d] by (simp_all add: Ipc_lead_def word_le_nat_alt)
      then show ?thesis
        using 2 short_lead [of f] unfolding char_step_class
        by (subst Ipc_lead_case [where w = "0"]) (auto simp: bad_char_def)
    next
      case False
      then have "\<not> f \<le> 0x7F" "Ipc_lead f = None" "unat f mod 32 < 2"
        using r rest [OF d] by (auto simp: Ipc_lead_def word_le_nat_alt)
      then show ?thesis using 2 overlong_lead unfolding char_step_class by (simp add: none)
    qed
  next
    case 3
    then have "unat f div 16 = 14" by (auto simp: lead_class_def split: if_splits)
    then have "\<not> f \<le> 0x7F" "Ipc_lead f = Some (2, ucast (f AND 0x0F))"
      unfolding lead_ranges by (auto simp: Ipc_lead_def word_le_nat_alt)
    then show ?thesis
      using 3 unfolding char_step_class by (subst Ipc_lead_case [where w = "0x800"]) (auto simp: bad_char_def)
  next
    case 4
    then have d: "unat f div 8 = 30" by (auto simp: lead_class_def split: if_splits)
    then have r: "240 \<le> unat f" "unat f < 248" unfolding lead_ranges by auto
    show ?thesis
    proof (cases "unat f \<le> 0xF4")
      case True
      then have "\<not> f \<le> 0x7F" "Ipc_lead f = Some (3, ucast (f AND 0x07))"
        using r by (auto simp: Ipc_lead_def word_le_nat_alt)
      then show ?thesis
        using 4 unfolding char_step_class by (subst Ipc_lead_case [where w = "0x10000"]) (auto simp: bad_char_def)
    next
      case False
      then have "\<not> f \<le> 0x7F" "Ipc_lead f = None" "4 < unat f mod 8"
        using r rest [OF d] by (auto simp: Ipc_lead_def word_le_nat_alt)
      then show ?thesis using 4 large_lead unfolding char_step_class by (simp add: none)
    qed
  next
    case 5
    then have "\<not> unat f < 0x80" "unat f div 32 \<noteq> 6" "unat f div 16 \<noteq> 14" "unat f div 8 \<noteq> 30"
      by (auto simp: lead_class_def split: if_splits)
    then have "\<not> f \<le> 0x7F" "Ipc_lead f = None"
      unfolding lead_ranges by (auto simp: Ipc_lead_def word_le_nat_alt)
    then show ?thesis using 5 unfolding char_step_class by (simp add: none)
  qed
qed

text \<open>C11: The two validators of UTF-8 texts, written in different ways in two places, both return
  for every byte sequence and accept exactly the texts of RFC 3629: the concatenations of the
  encodings of Unicode scalar values, without overlong forms, surrogates or values above
  10FFFF.\<close>

theorem utf8_validators:
  "Scripts_IsValidUtf8 bs = utf8_text bs \<and> Ipc_IsValidUtf8 bs = utf8_text bs"
  using text_of_steps [of Scripts_IsValidUtf8 bs] text_of_steps [of Ipc_IsValidUtf8 bs] Scripts_step Ipc_step
  by (simp add: Scripts_IsValidUtf8.simps [of "[]"] Ipc_IsValidUtf8.simps [of "[]"])

end
