(* ===== verification/Wire_Bytes.thy ===== *)
theory Wire_Bytes
  imports Prelude
begin

unbundle bit_operations_syntax

text \<open>
  Integers as little-endian bytes, the form in which a recording and a raw frame hold them:
  \<open>le_bytes n x\<close> writes the low \<open>n\<close> bytes of \<open>x\<close>, \<open>le_value\<close> reads them back, and \<open>chunk\<close> is
  a checked read of a byte array, \<^term>\<open>None\<close> where the code would read past its end.
\<close>

fun le_bytes :: "nat \<Rightarrow> nat \<Rightarrow> u8 list" where
  "le_bytes 0 x = []"
| "le_bytes (Suc n) x = of_nat (x mod 256) # le_bytes n (x div 256)"

fun le_value :: "u8 list \<Rightarrow> nat" where
  "le_value [] = 0"
| "le_value (b # bs) = unat b + 256 * le_value bs"

definition chunk :: "nat \<Rightarrow> nat \<Rightarrow> u8 list \<Rightarrow> u8 list option" where
  "chunk off n bs = (if off + n \<le> length bs then Some (take n (drop off bs)) else None)"

lemma length_le_bytes [simp]: "length (le_bytes n x) = n"
  by (induction n arbitrary: x) simp_all

lemma le_value_bytes: "x < 256 ^ n \<Longrightarrow> le_value (le_bytes n x) = x"
proof (induction n arbitrary: x)
  case (Suc n)
  then have "x div 256 < 256 ^ n" by (simp add: less_mult_imp_div_less mult.commute)
  with Suc.IH show ?case by (simp add: unat_of_nat)
qed simp

lemma le_value_mod: "le_value (le_bytes n x) = x mod 256 ^ n"
proof (induction n arbitrary: x)
  case (Suc n)
  then show ?case by (simp add: unat_of_nat mod_mult2_eq)
qed simp

lemma le_value_append: "le_value (xs @ ys) = le_value xs + 256 ^ length xs * le_value ys"
  by (induction xs) (simp_all add: algebra_simps)

lemma le_value_less: "le_value bs < 256 ^ length bs"
proof (induction bs)
  case (Cons b bs)
  have "unat b < 256" using unsigned_less [where w = b and ?'a = nat] by simp
  with Cons show ?case by simp
qed simp

lemma le_bytes_inject: "x < 256 ^ n \<Longrightarrow> y < 256 ^ n \<Longrightarrow> le_bytes n x = le_bytes n y \<Longrightarrow> x = y"
  by (metis le_value_bytes)

text \<open>Reading past a prefix, and at the front.\<close>

lemma chunk_past: "length xs \<le> off \<Longrightarrow> chunk off n (xs @ ys) = chunk (off - length xs) n ys"
  by (auto simp: chunk_def)

lemma chunk_front: "length xs = n \<Longrightarrow> chunk 0 n (xs @ ys) = Some xs"
  by (simp add: chunk_def)

lemma chunk_at: "length xs = off \<Longrightarrow> length ys = n \<Longrightarrow> chunk off n (xs @ ys @ zs) = Some ys"
  by (simp add: chunk_def)

lemma chunk_length: "chunk off n bs = Some cs \<Longrightarrow> length cs = n"
  by (auto simp: chunk_def split: if_splits)

end
