(* ===== verification/Recorder.thy ===== *)
theory Recorder
  imports Cpu_Decode Display Wire_Bytes
begin

unbundle bit_operations_syntax

text \<open>
  The recorder of \<^verbatim>\<open>core/recorder.cpp\<close>: a circular buffer with the state of the machine at the
  start of each frame and the memory writes of the frame, which lets the debugger play the
  execution backwards and forwards, and the file that holds a recording. The lemmas show that
  playing back and forth gives the state each frame had, memory included, and what a saved
  recording gives when it is loaded.

  \<^verbatim>\<open>size_t\<close> is 64 bits. The pointers the operations receive are the machine and the display,
  \<open>rec_env\<close>. A global address comes from \<^verbatim>\<open>GetGlobalAddr\<close> and is inside the RAM array.
\<close>

section \<open>State\<close>

definition FRAMES_PER_SEC :: int where "FRAMES_PER_SEC = 50"
definition RECORD_FRAMES_MAX :: int where "RECORD_FRAMES_MAX = FRAMES_PER_SEC * 60"
definition REC_VERSION :: u32 where "REC_VERSION = 1"
definition VERSION_MASK :: u32 where "VERSION_MASK = 0xff"

text \<open>\<^verbatim>\<open>Display::Update\<close>, the part of the display that is recorded.\<close>

record display_update =
  du_frameNum :: u64
  du_irq :: bool
  du_framebufferIdx :: int
  du_scrollIdx :: u8

record hw_state =
  cpuState :: cpu_state
  memState :: mem_update
  memBeforeWrites :: "u8 list"
  memWrites :: "u8 list"
  globalAddrs :: "global_addr list"
  ioState :: io_state
  displayState :: display_update

record recorder =
  m_recordFrames :: int
  m_stateIdx :: u64
  m_stateRecorded :: u64
  m_stateCurrent :: u64
  m_lastRecord :: bool
  m_states :: "hw_state list"
  m_frameNum :: u64
  rec_ram :: "global_addr \<Rightarrow> u8"
  m_version :: u32

type_synonym rec_env = "io machine \<times> display"

definition display_update_of :: "display \<Rightarrow> display_update" where
  "display_update_of d =
    \<lparr>du_frameNum = frameNum d, du_irq = d_irq d, du_framebufferIdx = framebufferIdx d, du_scrollIdx = scrollIdx d\<rparr>"

definition put_display_update :: "display_update \<Rightarrow> display \<Rightarrow> display" where
  "put_display_update u d =
    d\<lparr>frameNum := du_frameNum u, d_irq := du_irq u, framebufferIdx := du_framebufferIdx u, scrollIdx := du_scrollIdx u\<rparr>"

definition on_screen :: "(screen \<Rightarrow> screen) \<Rightarrow> rec_env \<Rightarrow> rec_env" where
  "on_screen g e =
    (case e of (mc, d) \<Rightarrow> (case g (d, io mc, mem mc) of (d1, x, m) \<Rightarrow> (mc\<lparr>io := x, mem := m\<rparr>, d1)))"

definition put_hw_state :: "hw_state \<Rightarrow> rec_env \<Rightarrow> rec_env" where
  "put_hw_state s e =
    (case e of (mc, d) \<Rightarrow>
      (mc\<lparr>cpu := cpuState s, mem := (mem mc)\<lparr>mem_upd := memState s\<rparr>, io := (io mc)\<lparr>io_st := ioState s\<rparr>\<rparr>,
       put_display_update (displayState s) d))"

definition on_ram :: "(memory \<Rightarrow> memory) \<Rightarrow> rec_env \<Rightarrow> rec_env" where
  "on_ram g e = (case e of (mc, d) \<Rightarrow> (mc\<lparr>mem := g (mem mc)\<rparr>, d))"

definition cur_state :: "recorder \<Rightarrow> hw_state" where
  "cur_state r = m_states r ! unat (m_stateIdx r)"

definition upd_cur_state :: "(hw_state \<Rightarrow> hw_state) \<Rightarrow> recorder \<Rightarrow> recorder" where
  "upd_cur_state g r = r\<lparr>m_states := (m_states r)[unat (m_stateIdx r) := g (cur_state r)]\<rparr>"

text \<open>\<^verbatim>\<open>% m_recordFrames\<close>: the int becomes a \<^verbatim>\<open>size_t\<close>.\<close>

definition frame_mod :: "recorder \<Rightarrow> u64 \<Rightarrow> u64" where
  "frame_mod r i = i mod word_of_int (m_recordFrames r)"

section \<open>Recording\<close>

text \<open>The fields a default-constructed \<^verbatim>\<open>HwState\<close> leaves uninitialised are the argument \<open>s0\<close>.\<close>

definition Recorder_new :: "int \<Rightarrow> hw_state \<Rightarrow> recorder" where
  "Recorder_new recordFrames s0 =
    (let n = min recordFrames RECORD_FRAMES_MAX
     in \<lparr>m_recordFrames = n, m_stateIdx = 0, m_stateRecorded = 0, m_stateCurrent = 0, m_lastRecord = True,
         m_states = replicate (nat n) (s0\<lparr>memBeforeWrites := [], memWrites := [], globalAddrs := []\<rparr>),
         m_frameNum = 0, rec_ram = (\<lambda>_. 0), m_version = REC_VERSION\<rparr>)"

definition captured :: "rec_env \<Rightarrow> hw_state" where
  "captured e =
    (let (mc, d) = e
     in \<lparr>cpuState = cpu mc, memState = mem_upd (mem mc), memBeforeWrites = [], memWrites = [],
         globalAddrs = [], ioState = io_st (io mc), displayState = display_update_of d\<rparr>)"

definition StoreState :: "rec_env \<Rightarrow> recorder \<Rightarrow> recorder" where
  "StoreState e r =
    (let (mc, d) = e;
         idx = frame_mod r (m_stateIdx r + 1);
         cur = min (m_stateCurrent r + 1) (word_of_int (m_recordFrames r))
     in r\<lparr>m_stateIdx := idx, m_stateCurrent := cur, m_stateRecorded := cur,
          m_states := (m_states r)[unat idx := captured e], rec_ram := m_ram (mem mc)\<rparr>)"

definition Recorder_Reset :: "rec_env \<Rightarrow> recorder \<Rightarrow> recorder" where
  "Recorder_Reset e r =
    StoreState e (r\<lparr>m_stateIdx := 0, m_stateRecorded := 0, m_stateCurrent := 0, m_lastRecord := True,
      m_frameNum := frameNum (snd e)\<rparr>)"

definition CleanMemUpdates :: "recorder \<times> rec_env \<Rightarrow> recorder \<times> rec_env" where
  "CleanMemUpdates st =
    (let (r, e) = st
     in (upd_cur_state (\<lambda>s. s\<lparr>memBeforeWrites := [], memWrites := [], globalAddrs := []\<rparr>)
           (r\<lparr>m_lastRecord := True, m_stateRecorded := m_stateCurrent r\<rparr>),
         on_screen (BuffUpdate BACK_BUFFER) e))"

definition push_write :: "mem_debug \<Rightarrow> nat \<Rightarrow> hw_state \<Rightarrow> hw_state" where
  "push_write d i s =
    s\<lparr>memBeforeWrites := memBeforeWrites s @ [beforeWrite d ! i], memWrites := memWrites s @ [dbg_write d ! i],
      globalAddrs := globalAddrs s @ [writeGlobalAddr d ! i]\<rparr>"

definition StoreMemoryDiff :: "memory \<Rightarrow> recorder \<Rightarrow> recorder" where
  "StoreMemoryDiff m r = upd_cur_state (fold (push_write (mem_dbg m)) [0..<unat (writeLen (mem_dbg m))]) r"

definition Recorder_Update :: "recorder \<times> rec_env \<Rightarrow> recorder \<times> rec_env" where
  "Recorder_Update st =
    (let (r, e) = (if m_lastRecord (fst st) then st else CleanMemUpdates st);
         r1 = (if writeLen (mem_dbg (mem (fst e))) \<noteq> 0 then StoreMemoryDiff (mem (fst e)) r else r)
     in (if m_frameNum r1 \<noteq> frameNum (snd e)
         then (StoreState e r1)\<lparr>m_frameNum := frameNum (snd e)\<rparr> else r1, e))"

section \<open>Playing\<close>

definition redo_frame :: "hw_state \<Rightarrow> memory \<Rightarrow> memory" where
  "redo_frame s m =
    fold (\<lambda>i. SetByteGlobal (globalAddrs s ! i) (memWrites s ! i)) [0..<length (globalAddrs s)] m"

definition undo_frame :: "hw_state \<Rightarrow> memory \<Rightarrow> memory" where
  "undo_frame s m =
    fold (\<lambda>i. SetByteGlobal (globalAddrs s ! i) (memBeforeWrites s ! i)) (rev [0..<length (globalAddrs s)]) m"

fun forward_frames :: "nat \<Rightarrow> recorder \<times> rec_env \<Rightarrow> recorder \<times> rec_env" where
  "forward_frames 0 st = st"
| "forward_frames (Suc n) (r, e) =
    (if m_stateCurrent r = m_stateRecorded r then (r\<lparr>m_lastRecord := False\<rparr>, e)
     else (let e1 = on_ram (redo_frame (cur_state r)) e;
               r1 = r\<lparr>m_stateIdx := frame_mod r (m_stateIdx r + 1), m_stateCurrent := m_stateCurrent r + 1\<rparr>
           in forward_frames n (r1, put_hw_state (cur_state r1) e1)))"

definition PlayForward :: "int \<Rightarrow> recorder \<times> rec_env \<Rightarrow> recorder \<times> rec_env" where
  "PlayForward frames st =
    (let (r, e) = forward_frames (nat frames) st in (r, on_screen (BuffUpdate FRAME_BUFFER) e))"

fun reverse_frames :: "nat \<Rightarrow> recorder \<times> rec_env \<Rightarrow> recorder \<times> rec_env" where
  "reverse_frames 0 st = st"
| "reverse_frames (Suc n) (r, e) =
    (if m_stateCurrent r = 1 \<and> \<not> m_lastRecord r then (r, e)
     else (let r1 = (if m_lastRecord r then r\<lparr>m_lastRecord := False\<rparr>
                     else r\<lparr>m_stateIdx := frame_mod r (m_stateIdx r - 1), m_stateCurrent := m_stateCurrent r - 1\<rparr>)
           in reverse_frames n (r1, on_ram (undo_frame (cur_state r1)) (put_hw_state (cur_state r1) e))))"

definition PlayReverse :: "int \<Rightarrow> recorder \<times> rec_env \<Rightarrow> recorder \<times> rec_env" where
  "PlayReverse frames st =
    (let (r, e) = reverse_frames (nat frames) st in (r, on_screen (BuffUpdate FRAME_BUFFER) e))"

definition RestoreState :: "recorder \<times> rec_env \<Rightarrow> recorder \<times> rec_env" where
  "RestoreState st =
    (let (r, e) = st; e1 = put_hw_state (cur_state r) e in (r\<lparr>rec_ram := m_ram (mem (fst e1))\<rparr>, e1))"

definition GetStateRecorded :: "recorder \<Rightarrow> u64" where "GetStateRecorded r = m_stateRecorded r"
definition GetStateCurrent :: "recorder \<Rightarrow> u64" where "GetStateCurrent r = m_stateCurrent r"

section \<open>Redrawing changes nothing that is recorded\<close>

definition redraws :: "screen \<Rightarrow> screen \<Rightarrow> bool" where
  "redraws s t \<longleftrightarrow> snd t = snd s \<and> frameNum (fst t) = frameNum (fst s) \<and> d_irq (fst t) = d_irq (fst s) \<and>
    scrollIdx (fst t) = scrollIdx (fst s)"

lemma redraws_refl: "redraws s s"
  by (simp add: redraws_def)

lemma redraws_trans [trans]: "redraws s t \<Longrightarrow> redraws t u \<Longrightarrow> redraws s u"
  by (simp add: redraws_def)

lemma redraws_iterate: "(\<And>s. redraws s (g s)) \<Longrightarrow> redraws s ((g ^^ n) s)"
proof (induction n)
  case (Suc n)
  then show ?case using redraws_trans by (metis comp_apply funpow.simps(2))
qed (simp add: redraws_refl)

lemma redraws_fold:
  assumes "\<And>i st. redraws (snd (snd st)) (snd (snd (g i st)))"
  shows "redraws (snd (snd st)) (snd (snd (fold g is st)))"
proof (induction "is" arbitrary: st)
  case (Cons i "is")
  then show ?case using redraws_trans [OF assms] by (metis comp_apply fold_simps(2))
qed (simp add: redraws_refl)

lemma redraws_pixels:
  "redraws (snd (snd st)) (snd (snd (pixel256 line i st)))" "redraws (snd (snd st)) (snd (snd (pixel512 line i st)))"
  by (cases st; simp add: pixel256_def pixel512_def redraws_def Let_def split: prod.split)+

lemma put_pixels_redraws:
  "frameNum ((put_pixel c ^^ n) d) = frameNum d" "d_irq ((put_pixel c ^^ n) d) = d_irq d"
  "scrollIdx ((put_pixel c ^^ n) d) = scrollIdx d"
  by (induction n) simp_all

lemma redraws_border: "redraws s (FillBorder n s)"
  by (cases s) (simp add: FillBorder_def redraws_def put_pixels_redraws Let_def)

lemma redraws_active: "redraws s (fast_active n s)"
proof -
  obtain d x m where s: "s = (d, x, m)" by (cases s)
  show ?thesis
    using redraws_fold [of "pixel256 (scrolled_line d)" "(first_bit d, first_bytes d m, s)" "[0..<nat n]"]
      redraws_fold [of "pixel512 (scrolled_line d)" "(first_pxl d, first_bytes d m, s)" "[0..<nat n]"] redraws_pixels
    by (simp add: s fast_active_def FillActiveArea256_def FillActiveArea512_def)
qed

lemma redraws_block: "redraws s (update_block s)"
  unfolding update_block_def Let_def by (auto intro: redraws_trans redraws_active redraws_border)

lemma FrameBuffUpdate_redraws:
  "redraws s (FrameBuffUpdate s) \<and> framebufferIdx (fst (FrameBuffUpdate s)) = framebufferIdx (fst s)"
proof -
  obtain d x m where s: "s = (d, x, m)" by (cases s)
  have "redraws (d\<lparr>framebufferIdx := 0\<rparr>, x, m) ((update_block ^^ nat (FRAME_LEN div 16)) (d\<lparr>framebufferIdx := 0\<rparr>, x, m))"
    by (rule redraws_iterate) (rule redraws_block)
  then show ?thesis by (auto simp: FrameBuffUpdate_def s redraws_def split: prod.split)
qed

text \<open>
  What a recording is about: the processor, the mapping, the ports, the beam and the RAM.
\<close>

type_synonym snapshot = "cpu_state \<times> mem_update \<times> io_state \<times> display_update \<times> (global_addr \<Rightarrow> u8)"

definition snap_ram :: "snapshot \<Rightarrow> global_addr \<Rightarrow> u8" where
  "snap_ram v = snd (snd (snd (snd v)))"

definition snapshot_of :: "rec_env \<Rightarrow> snapshot" where
  "snapshot_of e = (case e of (mc, d) \<Rightarrow> (cpu mc, mem_upd (mem mc), io_st (io mc), display_update_of d, m_ram (mem mc)))"

lemma BuffUpdate_snapshot [simp]: "snapshot_of (on_screen (BuffUpdate b) e) = snapshot_of e"
proof -
  obtain mc d where e: "e = (mc, d)" by (cases e)
  show ?thesis
    using FrameBuffUpdate_redraws [of "(d, io mc, mem mc)"]
    by (cases b) (auto simp: e on_screen_def snapshot_of_def BuffUpdate_def redraws_def display_update_of_def
        split: prod.split)
qed

section \<open>Logs of memory writes\<close>

definition poke :: "global_addr \<Rightarrow> u8 \<Rightarrow> (global_addr \<Rightarrow> u8) \<Rightarrow> global_addr \<Rightarrow> u8" where
  [simp]: "poke g v ram = ram(g := v)"

definition peek :: "(global_addr \<Rightarrow> u8) \<Rightarrow> global_addr \<Rightarrow> u8" where
  [simp]: "peek ram g = ram g"

interpretation cells: byte_store peek poke "\<lambda>_ _. True"
  by unfold_locales simp_all

definition mem_log :: "memory \<Rightarrow> (global_addr \<times> u8 \<times> u8) list" where
  "mem_log m = map (\<lambda>i. (writeGlobalAddr (mem_dbg m) ! i, beforeWrite (mem_dbg m) ! i, dbg_write (mem_dbg m) ! i))
    [0..<unat (writeLen (mem_dbg m))]"

definition state_log :: "hw_state \<Rightarrow> (global_addr \<times> u8 \<times> u8) list" where
  "state_log s = map (\<lambda>i. (globalAddrs s ! i, memBeforeWrites s ! i, memWrites s ! i)) [0..<length (globalAddrs s)]"

lemma redo_frame_eq: "redo_frame s m = m\<lparr>m_ram := write_block poke (redo_writes (state_log s)) (m_ram m)\<rparr>"
proof -
  have "fold (\<lambda>i. SetByteGlobal (globalAddrs s ! i) (memWrites s ! i)) is m =
      m\<lparr>m_ram := write_block poke (map (\<lambda>i. (globalAddrs s ! i, memWrites s ! i)) is) (m_ram m)\<rparr>" for "is"
    by (induction "is" arbitrary: m) (simp_all add: SetByteGlobal_def)
  then show ?thesis by (simp add: redo_frame_def redo_writes_def state_log_def comp_def)
qed

lemma undo_frame_eq: "undo_frame s m = m\<lparr>m_ram := write_block poke (undo_writes (state_log s)) (m_ram m)\<rparr>"
proof -
  have "fold (\<lambda>i. SetByteGlobal (globalAddrs s ! i) (memBeforeWrites s ! i)) is m =
      m\<lparr>m_ram := write_block poke (map (\<lambda>i. (globalAddrs s ! i, memBeforeWrites s ! i)) is) (m_ram m)\<rparr>" for "is"
    by (induction "is" arbitrary: m) (simp_all add: SetByteGlobal_def)
  then show ?thesis by (simp add: undo_frame_def undo_writes_def state_log_def comp_def rev_map)
qed

definition logs_even :: "hw_state \<Rightarrow> bool" where
  "logs_even s \<longleftrightarrow> length (memBeforeWrites s) = length (globalAddrs s) \<and> length (memWrites s) = length (globalAddrs s)"

definition same_registers :: "hw_state \<Rightarrow> hw_state \<Rightarrow> bool" where
  "same_registers s t \<longleftrightarrow> cpuState s = cpuState t \<and> memState s = memState t \<and> ioState s = ioState t \<and>
    displayState s = displayState t"

lemma push_write:
  assumes "logs_even s"
  shows "logs_even (push_write d i s)" "same_registers s (push_write d i s)"
    "state_log (push_write d i s) = state_log s @ [(writeGlobalAddr d ! i, beforeWrite d ! i, dbg_write d ! i)]"
  using assms by (auto simp: push_write_def state_log_def logs_even_def same_registers_def nth_append intro!: map_cong)

lemma push_writes:
  "logs_even s \<Longrightarrow> logs_even (fold (push_write d) is s) \<and> same_registers s (fold (push_write d) is s) \<and>
    state_log (fold (push_write d) is s) =
    state_log s @ map (\<lambda>i. (writeGlobalAddr d ! i, beforeWrite d ! i, dbg_write d ! i)) is"
proof (induction "is" arbitrary: s)
  case (Cons i "is")
  then show ?case
    using push_write [OF Cons.prems, of d i] Cons.IH [of "push_write d i s"] by (simp add: same_registers_def)
qed (simp add: same_registers_def)

text \<open>
  The log of an instruction: the RAM after it is the RAM before it with the writes applied, and
  each logged old value is the one that was there. A processor's writes keep it so.
\<close>

definition logged :: "(global_addr \<Rightarrow> u8) \<Rightarrow> (global_addr \<times> u8 \<times> u8) list \<Rightarrow> (global_addr \<Rightarrow> u8) \<Rightarrow> bool" where
  "logged ram log ram' \<longleftrightarrow> undo_log_ok peek poke ram log \<and> ram' = write_block poke (redo_writes log) ram"

lemma undo_log_ok_append:
  "undo_log_ok peek poke ram (xs @ ys) \<longleftrightarrow>
    undo_log_ok peek poke ram xs \<and> undo_log_ok peek poke (write_block poke (redo_writes xs) ram) ys"
proof (induction xs arbitrary: ram)
  case (Cons x xs)
  then show ?case by (cases x) simp
qed simp

lemma logged_append: "logged ram xs ram1 \<Longrightarrow> logged ram1 ys ram2 \<Longrightarrow> logged ram (xs @ ys) ram2"
  by (auto simp: logged_def undo_log_ok_append redo_writes_def write_block_append)

lemma logged_undo: "logged ram log ram' \<Longrightarrow> write_block poke (undo_writes log) ram' = ram"
proof (rule ext)
  fix g
  assume "logged ram log ram'"
  then show "write_block poke (undo_writes log) ram' g = ram g"
    using cells.undo_redo [of ram log g] by (auto simp: logged_def)
qed

lemma CpuWrite_logged:
  assumes "logged ram (mem_log m) (m_ram m)" "n = unat (writeLen (mem_dbg m))" "n < 2"
    "length (beforeWrite (mem_dbg m)) = 2" "length (dbg_write (mem_dbg m)) = 2" "length (writeGlobalAddr (mem_dbg m)) = 2"
  shows "logged ram (mem_log (CpuWrite a v sp n m)) (m_ram (CpuWrite a v sp n m))"
proof -
  let ?g = "GetGlobalAddr m a sp"
  have len: "unat (1 + word_of_nat n :: u8) = Suc n" using assms(3) by (auto simp: less_2_cases_iff)
  have "mem_log (CpuWrite a v sp n m) = mem_log m @ [(?g, m_ram m ?g, v)]"
    using assms(2-) by (auto simp: mem_log_def CpuWrite_def Let_def len simp flip: assms(2))
  moreover have "logged (m_ram m) [(?g, m_ram m ?g, v)] (m_ram (CpuWrite a v sp n m))"
    by (simp add: logged_def)
  ultimately show ?thesis using logged_append [OF assms(1)] by metis
qed

section \<open>What a recording holds\<close>

text \<open>
  \<open>frame_ok v s ram\<close>: the state \<open>s\<close> belongs to a frame that began in \<open>v\<close> and ended with the RAM
  \<open>ram\<close>. \<open>states_back r j\<close> is the state \<open>j\<close> places before the current one; \<open>ram_after\<close> the RAM at the
  end of the frame \<open>j\<close> back, for a list of frame starts with the newest first.
\<close>

definition frame_ok :: "snapshot \<Rightarrow> hw_state \<Rightarrow> (global_addr \<Rightarrow> u8) \<Rightarrow> bool" where
  "frame_ok v s ram \<longleftrightarrow> logs_even s \<and> logged (snap_ram v) (state_log s) ram \<and>
    v = (cpuState s, memState s, ioState s, displayState s, snap_ram v)"

definition states_back :: "recorder \<Rightarrow> nat \<Rightarrow> hw_state" where
  "states_back r j = m_states r ! ((unat (m_stateIdx r) + nat (m_recordFrames r) - j) mod nat (m_recordFrames r))"

definition ram_after :: "(global_addr \<Rightarrow> u8) \<Rightarrow> snapshot list \<Rightarrow> nat \<Rightarrow> global_addr \<Rightarrow> u8" where
  "ram_after ram vs j = (if j = 0 then ram else snap_ram (vs ! (j - 1)))"

definition rec_shape :: "recorder \<Rightarrow> bool" where
  "rec_shape r \<longleftrightarrow> 0 < m_recordFrames r \<and> m_recordFrames r \<le> RECORD_FRAMES_MAX \<and>
    length (m_states r) = nat (m_recordFrames r)"

definition rec_inv :: "snapshot list \<Rightarrow> (global_addr \<Rightarrow> u8) \<Rightarrow> recorder \<Rightarrow> bool" where
  "rec_inv vs ram r \<longleftrightarrow> rec_shape r \<and> vs \<noteq> [] \<and> m_lastRecord r \<and>
    unat (m_stateIdx r) = length vs mod nat (m_recordFrames r) \<and>
    unat (m_stateCurrent r) = min (length vs) (nat (m_recordFrames r)) \<and> m_stateRecorded r = m_stateCurrent r \<and>
    (\<forall>j < unat (m_stateCurrent r). frame_ok (vs ! j) (states_back r j) (ram_after ram vs j))"

lemma frames_word:
  assumes "rec_shape r"
  shows "unat (word_of_int (m_recordFrames r) :: u64) = nat (m_recordFrames r)"
    "uint (word_of_int (m_recordFrames r) :: u64) = m_recordFrames r"
  using assms by (simp_all add: rec_shape_def RECORD_FRAMES_MAX_def FRAMES_PER_SEC_def unsigned_of_int take_bit_int_eq_self)

lemma frame_mod_nat:
  "rec_shape r \<Longrightarrow> unat (frame_mod r i) = unat i mod nat (m_recordFrames r)"
  by (simp add: frame_mod_def unat_mod_distrib frames_word)

lemma idx_less: "rec_shape r \<Longrightarrow> unat (frame_mod r i) < nat (m_recordFrames r)"
  by (simp add: frame_mod_nat) (simp add: rec_shape_def)

lemma back_0: "rec_inv vs ram r \<Longrightarrow> states_back r 0 = cur_state r"
  by (simp add: states_back_def cur_state_def rec_inv_def)

lemma ring_apart: "(i :: nat) < n \<Longrightarrow> j < n \<Longrightarrow> j \<noteq> 0 \<Longrightarrow> (i + n - j) mod n \<noteq> i"
  by (cases "j \<le> i") (auto simp: mod_if)

lemma ring_next: "(i :: nat) < n \<Longrightarrow> Suc j < n \<Longrightarrow> ((i + 1) mod n + n - Suc j) mod n = (i + n - j) mod n"
  by (cases "Suc i = n") (auto simp: mod_if)

lemma back_upd_cur:
  assumes "rec_shape r" "unat (m_stateIdx r) < nat (m_recordFrames r)" "j < nat (m_recordFrames r)"
  shows "states_back (upd_cur_state g r) j = (if j = 0 then g (states_back r 0) else states_back r j)"
proof -
  let ?n = "nat (m_recordFrames r)" and ?i = "unat (m_stateIdx r)"
  have "(?i + ?n - j) mod ?n \<noteq> ?i" if "j \<noteq> 0"
    using ring_apart [OF assms(2,3)] that by simp
  moreover have "(?i + ?n - j) mod ?n < ?n" using assms(2) by (intro mod_less_divisor) simp
  ultimately show ?thesis
    using assms by (auto simp: states_back_def upd_cur_state_def cur_state_def rec_shape_def nth_list_update)
qed

lemma StoreMemoryDiff_inv:
  assumes inv: "rec_inv vs ram r" and log: "logged ram (mem_log m) ram'"
  shows "rec_inv vs ram' (StoreMemoryDiff m r)"
proof -
  have shape: "rec_shape r" and idx: "unat (m_stateIdx r) < nat (m_recordFrames r)"
    and ok: "\<And>j. j < unat (m_stateCurrent r) \<Longrightarrow> frame_ok (vs ! j) (states_back r j) (ram_after ram vs j)"
    and le: "unat (m_stateCurrent r) \<le> nat (m_recordFrames r)" and pos: "0 < unat (m_stateCurrent r)"
    using inv by (auto simp: rec_inv_def rec_shape_def)
  have 0: "frame_ok (vs ! 0) (fold (push_write (mem_dbg m)) [0..<unat (writeLen (mem_dbg m))] (states_back r 0)) ram'"
    using ok [OF pos] push_writes [of "states_back r 0" "mem_dbg m" "[0..<unat (writeLen (mem_dbg m))]"]
      logged_append [OF _ log]
    by (auto simp: frame_ok_def ram_after_def mem_log_def same_registers_def)
  have "frame_ok (vs ! j) (states_back (StoreMemoryDiff m r) j) (ram_after ram' vs j)" if "j < unat (m_stateCurrent r)" for j
    using ok [OF that] 0 that le back_upd_cur [OF shape idx, of j]
    by (auto simp: StoreMemoryDiff_def ram_after_def)
  with inv show ?thesis
    by (auto simp: rec_inv_def StoreMemoryDiff_def upd_cur_state_def rec_shape_def)
qed

lemma StoreState_inv:
  assumes "rec_shape r" "m_lastRecord r" "unat (m_stateIdx r) = length vs mod nat (m_recordFrames r)"
    "unat (m_stateCurrent r) = min (length vs) (nat (m_recordFrames r))"
    and ok: "\<forall>j < unat (m_stateCurrent r). frame_ok (vs ! j) (states_back r j) (ram_after (snap_ram (snapshot_of e)) vs j)"
  shows "rec_inv (snapshot_of e # vs) (snap_ram (snapshot_of e)) (StoreState e r)"
proof -
  obtain mc d where e: "e = (mc, d)" by (cases e)
  let ?n = "nat (m_recordFrames r)" and ?i = "unat (m_stateIdx r)" and ?r = "StoreState e r"
  have n: "0 < ?n" "?n \<le> 3000" "length (m_states r) = ?n"
    using assms(1) by (auto simp: rec_shape_def RECORD_FRAMES_MAX_def FRAMES_PER_SEC_def)
  have i: "?i < ?n" using assms(3) n by simp
  have small: "unat (m_stateIdx r + 1) = ?i + 1" "unat (m_stateCurrent r + 1) = unat (m_stateCurrent r) + 1"
    using i n assms(4) by (auto simp: unat_word_ariths)
  have idx: "unat (m_stateIdx ?r) = (?i + 1) mod ?n"
    by (simp add: StoreState_def e Let_def frame_mod_nat [OF assms(1)] small)
  have cur: "unat (m_stateCurrent ?r) = min (unat (m_stateCurrent r) + 1) ?n"
    using frames_word [OF assms(1)] small
    by (auto simp: StoreState_def e Let_def min_def word_le_nat_alt)
  have frames: "m_recordFrames ?r = m_recordFrames r"
    and states: "m_states ?r = (m_states r)[(?i + 1) mod ?n := captured e]"
    by (simp_all add: StoreState_def e Let_def frame_mod_nat [OF assms(1)] small)
  have new: "states_back ?r 0 = captured e"
    using n by (simp add: states_back_def idx frames states)
  have s: "frame_ok (snapshot_of e) (captured e) (snap_ram (snapshot_of e))"
    by (simp add: captured_def frame_ok_def logs_even_def state_log_def logged_def snapshot_of_def snap_ram_def e)
  have old: "states_back ?r (Suc j) = states_back r j" if "Suc j < ?n" for j
  proof -
    have m: "((?i + 1) mod ?n + ?n - Suc j) mod ?n = (?i + ?n - j) mod ?n"
      using ring_next [OF i that] by simp
    have "(?i + ?n - j) mod ?n \<noteq> (?i + 1) mod ?n"
      using ring_apart [of "(?i + 1) mod ?n" ?n "Suc j"] that n(1) unfolding m by simp
    then show ?thesis unfolding states_back_def states idx frames m by simp
  qed
  have "frame_ok ((snapshot_of e # vs) ! j) (states_back ?r j) (ram_after (snap_ram (snapshot_of e)) (snapshot_of e # vs) j)"
    if j: "j < unat (m_stateCurrent ?r)" for j
  proof (cases j)
    case 0
    with s new show ?thesis by (simp add: ram_after_def)
  next
    case (Suc k)
    then have k: "k < unat (m_stateCurrent r)" "Suc k < ?n" using j cur by auto
    have "ram_after (snap_ram (snapshot_of e)) (snapshot_of e # vs) (Suc k) = ram_after (snap_ram (snapshot_of e)) vs k"
      by (cases k) (simp_all add: ram_after_def)
    with ok k(1) show ?thesis by (simp add: Suc old [OF k(2)])
  qed
  moreover have "unat (m_stateIdx ?r) = length (snapshot_of e # vs) mod ?n"
    by (simp add: idx assms(3) mod_Suc_eq)
  moreover have "unat (m_stateCurrent ?r) = min (length (snapshot_of e # vs)) ?n"
    using cur assms(4) by (simp add: min_def)
  moreover have "m_recordFrames ?r = m_recordFrames r" "m_lastRecord ?r" "m_stateRecorded ?r = m_stateCurrent ?r" "rec_shape ?r"
    using assms(1,2) by (simp_all add: StoreState_def e Let_def rec_shape_def)
  ultimately show ?thesis by (auto simp: rec_inv_def)
qed

text \<open>
  A run under the recorder: \<^verbatim>\<open>Debug\<close> updates it after every instruction. \<open>frame_starts\<close> are
  the states it should keep, newest first.
\<close>

fun frame_starts_from :: "u64 \<Rightarrow> snapshot list \<Rightarrow> rec_env list \<Rightarrow> snapshot list" where
  "frame_starts_from n vs [] = vs"
| "frame_starts_from n vs (e # es) =
    (if frameNum (snd e) \<noteq> n then frame_starts_from (frameNum (snd e)) (snapshot_of e # vs) es
     else frame_starts_from n vs es)"

definition frame_starts :: "rec_env \<Rightarrow> rec_env list \<Rightarrow> snapshot list" where
  "frame_starts e0 es = frame_starts_from (frameNum (snd e0)) [snapshot_of e0] es"

definition record_run :: "rec_env \<Rightarrow> rec_env list \<Rightarrow> recorder \<Rightarrow> recorder" where
  "record_run e0 es r = fold (\<lambda>e r. fst (Recorder_Update (r, e))) es (Recorder_Reset e0 r)"

fun logged_run :: "(global_addr \<Rightarrow> u8) \<Rightarrow> rec_env list \<Rightarrow> bool" where
  "logged_run ram [] = True"
| "logged_run ram (e # es) =
    (let ram' = snap_ram (snapshot_of e) in logged ram (mem_log (mem (fst e))) ram' \<and> logged_run ram' es)"

lemma Update_inv:
  assumes inv: "rec_inv vs ram r" and n: "m_frameNum r = n" and log: "logged ram (mem_log (mem (fst e))) (snap_ram (snapshot_of e))"
  defines "t \<equiv> fst (Recorder_Update (r, e))"
  shows "rec_inv (if frameNum (snd e) \<noteq> n then snapshot_of e # vs else vs) (snap_ram (snapshot_of e)) t \<and>
    m_frameNum t = frameNum (snd e) \<and> snd (Recorder_Update (r, e)) = e"
proof -
  let ?m = "mem (fst e)" and ?ram = "snap_ram (snapshot_of e)"
  define r1 where "r1 = (if writeLen (mem_dbg ?m) \<noteq> 0 then StoreMemoryDiff ?m r else r)"
  have last: "m_lastRecord r" using inv by (simp add: rec_inv_def)
  have "writeLen (mem_dbg ?m) = 0 \<Longrightarrow> ?ram = ram" using log by (simp add: logged_def mem_log_def)
  then have inv1: "rec_inv vs ?ram r1"
    using inv StoreMemoryDiff_inv [OF inv log] by (auto simp: r1_def)
  have n1: "m_frameNum r1 = n" by (simp add: r1_def n StoreMemoryDiff_def upd_cur_state_def)
  have t: "t = (if n \<noteq> frameNum (snd e) then (StoreState e r1)\<lparr>m_frameNum := frameNum (snd e)\<rparr> else r1)"
    "snd (Recorder_Update (r, e)) = e"
    using last n1 by (simp_all add: t_def Recorder_Update_def Let_def r1_def [symmetric])
  have num: "rec_inv us R (x\<lparr>m_frameNum := k\<rparr>) = rec_inv us R x" for us R x k
    by (simp add: rec_inv_def rec_shape_def states_back_def)
  have "rec_inv (snapshot_of e # vs) ?ram (StoreState e r1)"
    by (rule StoreState_inv) (use inv1 in \<open>auto simp: rec_inv_def\<close>)
  with inv1 n1 show ?thesis by (auto simp: t num)
qed

lemma recorded_run_inv:
  "rec_inv vs ram r \<Longrightarrow> m_frameNum r = n \<Longrightarrow> logged_run ram es \<Longrightarrow>
    rec_inv (frame_starts_from n vs es) (snap_ram (last (snapshot_of e0 # map snapshot_of es)))
      (fold (\<lambda>e r. fst (Recorder_Update (r, e))) es r)"
  if "ram = snap_ram (snapshot_of e0)"
  using that
proof (induction es arbitrary: vs ram r n e0)
  case (Cons e es)
  have "logged ram (mem_log (mem (fst e))) (snap_ram (snapshot_of e))" "logged_run (snap_ram (snapshot_of e)) es"
    using Cons.prems by (simp_all add: Let_def)
  with Update_inv [OF Cons.prems(1,2), of e] show ?case
    using Cons.IH [of _ _ _ _ e] Cons.prems by auto
qed simp

lemma Reset_inv: "rec_shape r \<Longrightarrow> rec_inv [snapshot_of e] (snap_ram (snapshot_of e)) (Recorder_Reset e r)"
  unfolding Recorder_Reset_def by (rule StoreState_inv) (simp_all add: rec_shape_def)

lemma record_run_inv:
  assumes "rec_shape r" "logged_run (snap_ram (snapshot_of e0)) es"
  shows "rec_inv (frame_starts e0 es) (snap_ram (snapshot_of (last (e0 # es)))) (record_run e0 es r)"
proof -
  have "m_frameNum (Recorder_Reset e0 r) = frameNum (snd e0)"
    by (simp add: Recorder_Reset_def StoreState_def Let_def split: prod.split)
  from recorded_run_inv [OF refl Reset_inv [OF assms(1)] this assms(2)] show ?thesis
    by (cases "es = []") (simp_all add: frame_starts_def record_run_def last_map)
qed

section \<open>Playing back and forth\<close>

text \<open>
  The position \<open>j\<close> frames before the end of the recording \<open>r0\<close>, as far back as the index has
  not passed zero.
\<close>

definition at_frame :: "recorder \<Rightarrow> snapshot list \<Rightarrow> nat \<Rightarrow> recorder \<times> rec_env \<Rightarrow> bool" where
  "at_frame r0 vs j st \<longleftrightarrow>
    (case st of (r, e) \<Rightarrow> m_states r = m_states r0 \<and> m_recordFrames r = m_recordFrames r0 \<and> \<not> m_lastRecord r \<and>
      unat (m_stateIdx r) + j = unat (m_stateIdx r0) \<and> unat (m_stateCurrent r) + j = unat (m_stateCurrent r0) \<and>
      m_stateRecorded r = m_stateCurrent r0 \<and> snapshot_of e = vs ! j)"

definition reachable_back :: "recorder \<Rightarrow> nat \<Rightarrow> bool" where
  "reachable_back r j \<longleftrightarrow> j < unat (m_stateCurrent r) \<and> j \<le> unat (m_stateIdx r)"

lemma reachable_back_less: "reachable_back r j \<Longrightarrow> i \<le> j \<Longrightarrow> reachable_back r i"
  by (simp add: reachable_back_def)

lemma at_frame_state:
  assumes "rec_inv vs ram r0" "m_states r = m_states r0" "m_recordFrames r = m_recordFrames r0"
    "unat (m_stateIdx r) + j = unat (m_stateIdx r0)"
  shows "cur_state r = states_back r0 j"
proof -
  have "unat (m_stateIdx r0) < nat (m_recordFrames r0)" using assms(1) by (auto simp: rec_inv_def rec_shape_def)
  then have "(unat (m_stateIdx r0) + nat (m_recordFrames r0) - j) mod nat (m_recordFrames r0) = unat (m_stateIdx r)"
    using assms(4) by (auto simp: mod_if)
  then show ?thesis by (simp add: cur_state_def states_back_def assms(2))
qed

lemma rec_invD:
  assumes "rec_inv vs ram r"
  shows "rec_shape r" "unat (m_stateIdx r) < nat (m_recordFrames r)" "0 < unat (m_stateCurrent r)"
    "unat (m_stateCurrent r) \<le> nat (m_recordFrames r)" "nat (m_recordFrames r) \<le> 3000"
    "j < unat (m_stateCurrent r) \<Longrightarrow> frame_ok (vs ! j) (states_back r j) (ram_after ram vs j)"
  using assms by (auto simp: rec_inv_def rec_shape_def RECORD_FRAMES_MAX_def FRAMES_PER_SEC_def)

lemma undo_snapshot:
  "frame_ok v s (snap_ram (snapshot_of e)) \<Longrightarrow> snapshot_of (on_ram (undo_frame s) (put_hw_state s e)) = v"
  by (cases e; cases v)
    (auto simp: frame_ok_def snapshot_of_def on_ram_def put_hw_state_def undo_frame_eq snap_ram_def logged_undo
      put_display_update_def display_update_of_def)

lemma redo_snapshot:
  "frame_ok (snapshot_of e) s (snap_ram v) \<Longrightarrow> frame_ok v s' ram \<Longrightarrow>
    snapshot_of (put_hw_state s' (on_ram (redo_frame s) e)) = v"
  by (cases e; cases v)
    (auto simp: frame_ok_def snapshot_of_def on_ram_def put_hw_state_def redo_frame_eq snap_ram_def logged_def
      put_display_update_def display_update_of_def)

lemma unat_pred: "0 < unat (x :: u64) \<Longrightarrow> unat (x - 1) = unat x - 1"
  by (simp add: unat_sub word_le_nat_alt)

lemma reverse_first:
  assumes inv: "rec_inv vs (snap_ram (snapshot_of e)) r0"
  shows "reverse_frames (Suc n) (r0, e) =
      reverse_frames n (r0\<lparr>m_lastRecord := False\<rparr>, on_ram (undo_frame (cur_state r0)) (put_hw_state (cur_state r0) e))"
    "at_frame r0 vs 0 (r0\<lparr>m_lastRecord := False\<rparr>, on_ram (undo_frame (cur_state r0)) (put_hw_state (cur_state r0) e))"
proof -
  have "frame_ok (vs ! 0) (cur_state r0) (snap_ram (snapshot_of e))"
    using rec_invD(6) [OF inv rec_invD(3) [OF inv]] back_0 [OF inv] by (simp add: ram_after_def)
  with inv show "at_frame r0 vs 0 (r0\<lparr>m_lastRecord := False\<rparr>, on_ram (undo_frame (cur_state r0)) (put_hw_state (cur_state r0) e))"
    by (auto simp: at_frame_def undo_snapshot rec_inv_def)
  show "reverse_frames (Suc n) (r0, e) =
      reverse_frames n (r0\<lparr>m_lastRecord := False\<rparr>, on_ram (undo_frame (cur_state r0)) (put_hw_state (cur_state r0) e))"
    using inv by (simp add: rec_inv_def Let_def cur_state_def)
qed

lemma reverse_one:
  assumes inv: "rec_inv vs ram r0" and at: "at_frame r0 vs j (r, e)" and ok: "reachable_back r0 (Suc j)"
  defines "r1 \<equiv> r\<lparr>m_stateIdx := frame_mod r (m_stateIdx r - 1), m_stateCurrent := m_stateCurrent r - 1\<rparr>"
  shows "at_frame r0 vs (Suc j) (r1, on_ram (undo_frame (cur_state r1)) (put_hw_state (cur_state r1) e))"
    "m_stateCurrent r \<noteq> 1"
proof -
  have shape: "rec_shape r" "unat (m_stateIdx r) < nat (m_recordFrames r)"
    using rec_invD(1,2) [OF inv] at by (auto simp: at_frame_def rec_shape_def)
  have pos: "0 < unat (m_stateIdx r)" "1 < unat (m_stateCurrent r)"
    using at ok by (auto simp: at_frame_def reachable_back_def)
  then show "m_stateCurrent r \<noteq> 1" by auto
  have idx: "unat (m_stateIdx r1) = unat (m_stateIdx r) - 1"
    using shape pos by (simp add: r1_def frame_mod_nat unat_pred)
  have cs: "cur_state r1 = states_back r0 (Suc j)"
    by (rule at_frame_state [OF inv]) (use at pos idx in \<open>auto simp: at_frame_def r1_def\<close>)
  have "frame_ok (vs ! Suc j) (states_back r0 (Suc j)) (ram_after ram vs (Suc j))"
    using inv ok by (simp add: rec_inv_def reachable_back_def)
  then show "at_frame r0 vs (Suc j) (r1, on_ram (undo_frame (cur_state r1)) (put_hw_state (cur_state r1) e))"
    using at pos idx undo_snapshot [of "vs ! Suc j" "cur_state r1" e]
    by (auto simp: at_frame_def r1_def unat_pred cs [unfolded r1_def] ram_after_def)
qed

lemma reverse_many:
  "rec_inv vs ram r0 \<Longrightarrow> at_frame r0 vs j st \<Longrightarrow> reachable_back r0 (j + n) \<Longrightarrow>
    at_frame r0 vs (j + n) (reverse_frames n st)"
proof (induction n arbitrary: j st)
  case (Suc n)
  obtain r e where st: "st = (r, e)" by (cases st)
  have ok: "reachable_back r0 (Suc j)" using Suc.prems(3) by (rule reachable_back_less) simp
  have last: "\<not> m_lastRecord r" using Suc.prems(2) by (simp add: at_frame_def st)
  show ?case
    using Suc.IH [OF Suc.prems(1) reverse_one(1) [OF Suc.prems(1) Suc.prems(2) [unfolded st] ok]] Suc.prems(3)
      reverse_one(2) [OF Suc.prems(1) Suc.prems(2) [unfolded st] ok] last
    by (simp add: st Let_def)
qed simp

text \<open>Past the oldest state it stops there.\<close>

lemma reverse_stops:
  assumes "at_frame r0 vs j (r, e)" "Suc j = unat (m_stateCurrent r0)"
  shows "reverse_frames n (r, e) = (r, e)"
proof (cases n)
  case (Suc m)
  have "m_stateCurrent r = 1" using assms by (auto simp: at_frame_def word_unat_eq_iff)
  with assms(1) show ?thesis by (simp add: Suc at_frame_def)
qed simp

lemma reverse_frames_add: "reverse_frames (m + n) st = reverse_frames n (reverse_frames m st)"
proof (induction m arbitrary: st)
  case (Suc m)
  obtain r e where st: "st = (r, e)" by (cases st)
  have "reverse_frames n (r, e) = (r, e)" if "m_stateCurrent r = 1" "\<not> m_lastRecord r" using that by (cases n) simp_all
  then show ?case by (auto simp: st Let_def Suc)
qed simp

lemma reverse_all:
  assumes inv: "rec_inv vs ram r0" and at: "at_frame r0 vs 0 st" and ok: "reachable_back r0 (min n (unat (m_stateCurrent r0) - 1))"
  shows "at_frame r0 vs (min n (unat (m_stateCurrent r0) - 1)) (reverse_frames n st)"
proof -
  let ?p = "min n (unat (m_stateCurrent r0) - 1)"
  obtain r e where re: "reverse_frames ?p st = (r, e)" by (metis surj_pair)
  have "at_frame r0 vs ?p (reverse_frames ?p st)" using reverse_many [OF inv at, of ?p] ok by simp
  note p = this [unfolded re]
  have "reverse_frames n st = reverse_frames (n - ?p) (r, e)"
    unfolding re [symmetric] reverse_frames_add [symmetric] by simp
  moreover have "reverse_frames (n - ?p) (r, e) = (r, e)"
  proof (cases "?p = n")
    case False
    then have "?p = unat (m_stateCurrent r0) - 1" by linarith
    then show ?thesis using ok by (intro reverse_stops [OF p]) (simp add: reachable_back_def)
  qed simp
  ultimately show ?thesis using p by simp
qed

lemma forward_one:
  assumes inv: "rec_inv vs ram r0" and at: "at_frame r0 vs (Suc j) (r, e)" and ok: "reachable_back r0 (Suc j)"
  defines "r1 \<equiv> r\<lparr>m_stateIdx := frame_mod r (m_stateIdx r + 1), m_stateCurrent := m_stateCurrent r + 1\<rparr>"
  shows "at_frame r0 vs j (r1, put_hw_state (cur_state r1) (on_ram (redo_frame (cur_state r)) e))"
    "m_stateCurrent r \<noteq> m_stateRecorded r"
proof -
  have small: "unat (m_stateIdx r0) < nat (m_recordFrames r0)" "nat (m_recordFrames r0) \<le> 3000"
      "unat (m_stateCurrent r0) \<le> nat (m_recordFrames r0)" "rec_shape r"
    using rec_invD(1,2,4,5) [OF inv] at by (auto simp: at_frame_def rec_shape_def)
  have a: "m_recordFrames r = m_recordFrames r0" "unat (m_stateIdx r) + Suc j = unat (m_stateIdx r0)"
      "unat (m_stateCurrent r) + Suc j = unat (m_stateCurrent r0)" "snapshot_of e = vs ! Suc j"
      "m_stateRecorded r = m_stateCurrent r0" "m_states r = m_states r0"
    using at by (auto simp: at_frame_def)
  show "m_stateCurrent r \<noteq> m_stateRecorded r" using a by auto
  have up: "unat (m_stateIdx r + 1) = unat (m_stateIdx r) + 1" "unat (m_stateCurrent r + 1) = unat (m_stateCurrent r) + 1"
    using small a by (auto simp: unat_word_ariths)
  have idx: "unat (m_stateIdx r1) = unat (m_stateIdx r) + 1"
    using small a by (simp add: r1_def frame_mod_nat up)
  have cs: "cur_state r1 = states_back r0 j" "cur_state r = states_back r0 (Suc j)"
    using a idx at_frame_state [OF inv, of r1 j] at_frame_state [OF inv, of r "Suc j"] by (simp_all add: r1_def)
  have "frame_ok (vs ! j) (states_back r0 j) (ram_after ram vs j)"
    "frame_ok (vs ! Suc j) (states_back r0 (Suc j)) (snap_ram (vs ! j))"
    using inv ok by (auto simp: rec_inv_def reachable_back_def ram_after_def dest: spec [of _ "Suc j"])
  then have "snapshot_of (put_hw_state (cur_state r1) (on_ram (redo_frame (cur_state r)) e)) = vs ! j"
    using redo_snapshot a by (simp add: cs)
  then show "at_frame r0 vs j (r1, put_hw_state (cur_state r1) (on_ram (redo_frame (cur_state r)) e))"
    using at a idx up by (auto simp: at_frame_def r1_def)
qed

lemma forward_many:
  "rec_inv vs ram r0 \<Longrightarrow> at_frame r0 vs j st \<Longrightarrow> reachable_back r0 j \<Longrightarrow> at_frame r0 vs (j - n) (forward_frames n st)"
proof (induction n arbitrary: j st)
  case (Suc n)
  obtain r e where st: "st = (r, e)" by (cases st)
  show ?case
  proof (cases j)
    case 0
    then have "m_stateCurrent r = m_stateRecorded r" "r\<lparr>m_lastRecord := False\<rparr> = r"
      using Suc.prems(2) by (auto simp: st at_frame_def word_unat_eq_iff)
    with 0 show ?thesis using Suc.prems(2) by (simp add: st)
  next
    case (Suc i)
    have ok: "reachable_back r0 (Suc i)" "reachable_back r0 i"
      using Suc.prems(3) by (auto simp: Suc intro: reachable_back_less)
    note one = forward_one [OF Suc.prems(1) Suc.prems(2) [unfolded Suc st] ok(1)]
    show ?thesis using Suc.IH [OF Suc.prems(1) one(1) ok(2)] one(2) by (simp add: Suc st Let_def)
  qed
qed simp

lemma at_frame_redraw: "at_frame r0 vs j (r, e) \<Longrightarrow> at_frame r0 vs j (r, on_screen (BuffUpdate b) e)"
  by (simp add: at_frame_def)

lemma play_back_forth:
  assumes inv: "rec_inv vs (snap_ram (snapshot_of e)) r0" and bck: "0 < bck"
    and ok: "reachable_back r0 (min (nat bck - 1) (unat (m_stateCurrent r0) - 1))"
  shows "at_frame r0 vs (min (nat bck - 1) (unat (m_stateCurrent r0) - 1) - nat fwd) (PlayForward fwd (PlayReverse bck (r0, e)))"
proof -
  have n: "nat bck = Suc (nat bck - 1)" using bck by simp
  obtain r1 e1 where rv: "reverse_frames (nat bck) (r0, e) = (r1, e1)" by (metis surj_pair)
  have "at_frame r0 vs (min (nat bck - 1) (unat (m_stateCurrent r0) - 1)) (r1, e1)"
    using reverse_all [OF inv reverse_first(2) [OF inv] ok] reverse_first(1) [OF inv, of "nat bck - 1"] rv n by simp
  note fw = forward_many [OF inv at_frame_redraw [OF this, of FRAME_BUFFER] ok, of "nat fwd"]
  obtain r2 e2 where f: "forward_frames (nat fwd) (r1, on_screen (BuffUpdate FRAME_BUFFER) e1) = (r2, e2)"
    by (metis surj_pair)
  have eq: "PlayForward fwd (PlayReverse bck (r0, e)) = (r2, on_screen (BuffUpdate FRAME_BUFFER) e2)"
    by (simp add: PlayForward_def PlayReverse_def rv f)
  show ?thesis unfolding eq by (rule at_frame_redraw) (rule fw [unfolded f])
qed

lemma record_run_frames: "m_recordFrames (record_run e0 es r) = m_recordFrames r"
proof -
  have store: "m_recordFrames (StoreState e r) = m_recordFrames r" for e r
    by (simp add: StoreState_def Let_def split: prod.split)
  then have "m_recordFrames (fst (Recorder_Update (r, e))) = m_recordFrames r" for e r
    by (simp add: Recorder_Update_def CleanMemUpdates_def StoreMemoryDiff_def upd_cur_state_def Let_def split: prod.split)
  then have "m_recordFrames (fold (\<lambda>e r. fst (Recorder_Update (r, e))) es r) = m_recordFrames r" for r
    by (induction es arbitrary: r) simp_all
  then show ?thesis by (simp add: record_run_def Recorder_Reset_def store)
qed

text \<open>C37: Time travel. Record any run whose memory logs are right, then play back \<open>bck\<close> frames and
  forward \<open>fwd\<close>: the processor, the mapping, the ports, the beam and the whole RAM are exactly
  those the frame began with, the oldest and the newest frame being the limits. The buffer must
  not have been filled; what happens then is \<open>reverse_past_zero\<close>.
\<close>

theorem recorder_time_travel:
  assumes "rec_shape r" "logged_run (snap_ram (snapshot_of e0)) es"
    "length (frame_starts e0 es) < nat (m_recordFrames r)" "0 < bck"
  shows "snapshot_of (snd (PlayForward fwd (PlayReverse bck (record_run e0 es r, last (e0 # es))))) =
    frame_starts e0 es ! (min (nat bck - 1) (length (frame_starts e0 es) - 1) - nat fwd)"
proof -
  let ?r = "record_run e0 es r" and ?vs = "frame_starts e0 es"
  have inv: "rec_inv ?vs (snap_ram (snapshot_of (last (e0 # es)))) ?r"
    by (rule record_run_inv [OF assms(1,2)])
  have frames: "m_recordFrames ?r = m_recordFrames r" by (rule record_run_frames)
  then have cur: "unat (m_stateCurrent ?r) = length ?vs" "unat (m_stateIdx ?r) = length ?vs"
    using inv assms(3) by (auto simp: rec_inv_def)
  have "?vs \<noteq> []" using inv by (simp add: rec_inv_def)
  then have "reachable_back ?r (min (nat bck - 1) (unat (m_stateCurrent ?r) - 1))"
    by (cases ?vs) (auto simp: reachable_back_def cur)
  from play_back_forth [OF inv assms(4) this, of fwd] show ?thesis
    by (auto simp: at_frame_def cur split: prod.splits)
qed

definition sample_frame :: "u64 \<Rightarrow> u8 \<Rightarrow> rec_env" where
  "sample_frame n v =
    (\<lparr>cpu = \<lparr>r_cc = 0, r_pc = 0, r_sp = 0, r_a = 0, r_f = 2, r_bc = 0, r_de = 0, r_hl = 0, r_ir = 0, r_tmp = 0,
        r_act = 0, r_wz = 0, r_mc = 0, i_inte = False, i_iff = False, i_hlta = False, i_eiPending = False\<rparr>,
      mem = sample_memory\<lparr>m_ram := (\<lambda>g. if g = 0x100 then v else 0),
        mem_dbg := (mem_dbg sample_memory)\<lparr>writeLen := 1, writeGlobalAddr := [0x100, 0], beforeWrite := [v - 1, 0],
          dbg_write := [v, 0]\<rparr>\<rparr>,
      io = sample_io, exit_code = None\<rparr>,
     (sample_display 0)\<lparr>frameNum := n\<rparr>)"

lemma sample_frames:
  "frame_starts (sample_frame 0 1) [sample_frame 1 2, sample_frame 2 3, sample_frame 2 4] =
    [snapshot_of (sample_frame 2 3), snapshot_of (sample_frame 1 2), snapshot_of (sample_frame 0 1)]"
  "logged_run (snap_ram (snapshot_of (sample_frame 0 1))) [sample_frame 1 2, sample_frame 2 3, sample_frame 2 4]"
  "snap_ram (snapshot_of (sample_frame n v)) 0x100 = v"
  "rec_shape (Recorder_new 8 (captured (sample_frame 0 0)))"
  by (simp_all add: frame_starts_def sample_frame_def snap_ram_def snapshot_of_def logged_def mem_log_def fun_eq_iff
      rec_shape_def Recorder_new_def RECORD_FRAMES_MAX_def FRAMES_PER_SEC_def)

theorem recorder_time_travel_witness:
  "snap_ram (snapshot_of (snd (PlayForward 1 (PlayReverse 3
      (record_run (sample_frame 0 1) [sample_frame 1 2, sample_frame 2 3, sample_frame 2 4]
        (Recorder_new 8 (captured (sample_frame 0 0))), sample_frame 2 4))))) 0x100 = 2"
proof -
  have "nat (m_recordFrames (Recorder_new 8 (captured (sample_frame 0 0)))) = 8"
    by (simp add: Recorder_new_def RECORD_FRAMES_MAX_def FRAMES_PER_SEC_def Let_def)
  then show ?thesis
    using recorder_time_travel [OF sample_frames(4) sample_frames(2), of 3 1] by (simp add: sample_frames)
qed

text \<open>
  Once the 3000 states of the buffer have been used, \<^verbatim>\<open>(m_stateIdx - 1) % m_recordFrames\<close> at index
  0 is taken in \<^verbatim>\<open>size_t\<close>: the next state back is number 615, not 2999.
\<close>

theorem reverse_past_zero:
  "m_recordFrames r = RECORD_FRAMES_MAX \<Longrightarrow> m_stateIdx r = 0 \<Longrightarrow> m_stateCurrent r \<noteq> 1 \<Longrightarrow> \<not> m_lastRecord r \<Longrightarrow>
    m_stateIdx (fst (reverse_frames 1 (r, e))) = 615"
proof -
  have "(- 1 :: u64) mod 3000 = 615" by code_simp
  then show "m_recordFrames r = RECORD_FRAMES_MAX \<Longrightarrow> m_stateIdx r = 0 \<Longrightarrow> m_stateCurrent r \<noteq> 1 \<Longrightarrow> \<not> m_lastRecord r \<Longrightarrow>
      m_stateIdx (fst (reverse_frames 1 (r, e))) = 615"
    by (simp add: Let_def frame_mod_def RECORD_FRAMES_MAX_def FRAMES_PER_SEC_def)
qed

text \<open>
  \<^verbatim>\<open>PlayForward\<close> at the end of the recording moves nothing but forgets that the last frame has
  writes to undo: the next step back leaves them in the RAM.
\<close>

theorem forward_at_the_end:
  assumes inv: "rec_inv vs (snap_ram (snapshot_of e)) r" and ok: "reachable_back r 1"
  shows "snap_ram (snapshot_of (snd (PlayReverse 1 (PlayForward 1 (r, e))))) =
    write_block poke (undo_writes (state_log (states_back r 1))) (snap_ram (snapshot_of e))"
proof -
  define e1 where "e1 = on_screen (BuffUpdate FRAME_BUFFER) e"
  define r1 where "r1 = r\<lparr>m_lastRecord := False\<rparr>"
  define r2 where "r2 = r1\<lparr>m_stateIdx := frame_mod r1 (m_stateIdx r1 - 1), m_stateCurrent := m_stateCurrent r1 - 1\<rparr>"
  have fw: "PlayForward 1 (r, e) = (r1, e1)"
    using inv by (simp add: PlayForward_def rec_inv_def r1_def e1_def)
  have ne: "m_stateCurrent r1 \<noteq> 1" "0 < unat (m_stateIdx r)" using ok by (auto simp: reachable_back_def r1_def)
  have "rec_shape r1" using rec_invD(1) [OF inv] by (simp add: r1_def rec_shape_def)
  then have "unat (m_stateIdx r2) + 1 = unat (m_stateIdx r)"
    using rec_invD(2) [OF inv] ne(2) by (simp add: r2_def frame_mod_nat unat_pred) (simp add: r1_def unat_pred)
  then have "cur_state r2 = states_back r 1"
    by (intro at_frame_state [OF inv]) (simp_all add: r2_def r1_def)
  moreover have "PlayReverse 1 (r1, e1) =
      (r2, on_screen (BuffUpdate FRAME_BUFFER) (on_ram (undo_frame (cur_state r2)) (put_hw_state (cur_state r2) e1)))"
    using ne by (simp add: PlayReverse_def r1_def r2_def Let_def)
  moreover have "snap_ram (snapshot_of (on_ram (undo_frame s) (put_hw_state s e1))) =
      write_block poke (undo_writes (state_log s)) (snap_ram (snapshot_of e))" for s
    using BuffUpdate_snapshot [of FRAME_BUFFER e]
    by (cases e1) (auto simp: snapshot_of_def on_ram_def put_hw_state_def undo_frame_eq snap_ram_def e1_def [symmetric] split: prod.splits)
  ultimately show ?thesis by (simp add: fw)
qed

end
