(* ===== verification/Scripts.thy ===== *)
theory Scripts
  imports Utf8 Recorder Hw_Requests Debug_Data
begin

unbundle bit_operations_syntax

text \<open>
  The scripts of the debugger (\<^verbatim>\<open>core/scripts.cpp\<close>, \<^verbatim>\<open>core/script.cpp\<close>): the table of scripts with
  their compilation and their last run, what a script may ask of the machine, the items it draws
  over the picture, and the budget of a run.

  The Lua machine is not part of the repository: it is a record of operations on a state. It loads a
  source and keeps it under a reference, and it runs as a coroutine: each step of \<open>lua_next\<close> goes
  to its next request, a call of a registered function, the count hook after another thousand
  instructions (with the mark whether the time is over), or its end. An error given to it may be
  caught by the script. Files are a record too. A run that never ends is \<^term>\<open>None\<close>.
\<close>

section \<open>The Lua machine and the files\<close>

text \<open>A number is finite, or \<^term>\<open>None\<close> when it is not.\<close>

datatype lua_value = LNil | LBool bool | LNumber "rat option" | LString string | LOther

datatype lua_answer = Go | Values "lua_value list" | Lua_error string

datatype lua_action = Call string "lua_value list" | Hook bool | Return | Failed "string option"

record 'v lua_vm =
  lua_load :: "string \<Rightarrow> string \<Rightarrow> 'v \<Rightarrow> (string option + int) \<times> 'v"
  lua_unref :: "int \<Rightarrow> 'v \<Rightarrow> 'v"
  lua_start :: "int \<Rightarrow> 'v \<Rightarrow> 'v"
  lua_next :: "lua_answer \<Rightarrow> 'v \<Rightarrow> lua_action \<times> 'v"
  lua_checkinteger :: "lua_value \<Rightarrow> string + int"
  lua_checkstring :: "lua_value \<Rightarrow> string + string"
  lua_integer :: "int \<Rightarrow> lua_value"
  to_float :: "rat \<Rightarrow> rat"

definition LUA_NOREF :: int where "LUA_NOREF = -2"
definition LUA_REFNIL :: int where "LUA_REFNIL = -1"

record script_files =
  is_regular_file :: "string \<Rightarrow> bool"
  file_size :: "string \<Rightarrow> nat option"
  opens_file :: "string \<Rightarrow> bool"
  read_file :: "string \<Rightarrow> nat \<Rightarrow> string option"

section \<open>State\<close>

definition SCRIPT_NAME_BYTES :: nat where "SCRIPT_NAME_BYTES = 1024"
definition MAX_PATH_BYTES :: nat where "MAX_PATH_BYTES = 4096"
definition MAX_SOURCE_BYTES :: nat where "MAX_SOURCE_BYTES = 1024 * 1024"
definition SCRIPT_RECORDS_MAX :: nat where "SCRIPT_RECORDS_MAX = 256"
definition MAX_ERROR_BYTES :: nat where "MAX_ERROR_BYTES = 4096"
definition MAX_INSTRUCTIONS_PER_RUN :: int where "MAX_INSTRUCTIONS_PER_RUN = 100000"
definition MAX_EXECUTION_MILLISECONDS :: int where "MAX_EXECUTION_MILLISECONDS = 25"
definition MAX_OVERLAYS_PER_SCRIPT :: nat where "MAX_OVERLAYS_PER_SCRIPT = 256"
definition MAX_OVERLAYS_TOTAL :: nat where "MAX_OVERLAYS_TOTAL = 1024"
definition MAX_OVERLAY_TEXT_BYTES :: nat where "MAX_OVERLAY_TEXT_BYTES = 4096"
definition MAX_OVERLAY_COORDINATE_MAGNITUDE :: int where "MAX_OVERLAY_COORDINATE_MAGNITUDE = 1000000"

datatype compilation_status = COMPILED | COMPILATION_ERROR
datatype runtime_status = NEVER_RUN | SUCCEEDED | RUNTIME_ERROR

record script =
  script_id :: int
  script_name :: string
  script_path :: string
  script_active :: bool
  compilationStatus :: compilation_status
  compilationError :: string
  runtimeStatus :: runtime_status
  runtimeError :: string
  script_ref :: int

definition Script :: "int \<Rightarrow> string \<Rightarrow> string \<Rightarrow> bool \<Rightarrow> script" where
  "Script i nm path act =
    \<lparr>script_id = i, script_name = nm, script_path = path, script_active = act, compilationStatus = COMPILATION_ERROR,
     compilationError = [], runtimeStatus = NEVER_RUN, runtimeError = [], script_ref = LUA_NOREF\<rparr>"

datatype overlay_type = OV_TEXT | OV_RECT

record overlay_item =
  ov_type :: overlay_type
  ov_x :: rat
  ov_y :: rat
  ov_width :: rat
  ov_height :: rat
  ov_text :: string
  ov_color :: u32
  vectorScreenCoords :: bool
  ov_filled :: bool
  ov_updated :: bool

text \<open>The tables are lists in the order in which the hash maps are iterated.\<close>

record 'v scripts =
  m_scripts :: "(int \<times> script) list"
  script_updates :: u32
  m_nextScriptId :: int
  m_idsExhausted :: bool
  lua_state :: 'v
  scripts_enabled :: bool
  script_break :: bool
  m_currentScriptId :: int
  m_breakScriptId :: int
  m_instructionCount :: int
  m_overlays :: "(int \<times> (int \<times> overlay_item) list) list"

text \<open>\<open>ok\<close>: whether \<^verbatim>\<open>luaL_newstate\<close> gave a state.\<close>

definition Scripts_new :: "'v \<Rightarrow> bool \<Rightarrow> 'v scripts" where
  "Scripts_new v ok =
    \<lparr>m_scripts = [], script_updates = 0, m_nextScriptId = 0, m_idsExhausted = False, lua_state = v, scripts_enabled = ok,
     script_break = False, m_currentScriptId = -1, m_breakScriptId = -1, m_instructionCount = 0, m_overlays = []\<rparr>"

datatype script_error =
    ScriptNotFound int | ScriptNotCompiled int | ScriptCapacity | ScriptIdsExhausted | ScriptingUnavailable
  | ScriptInput string

definition put_script :: "script \<Rightarrow> 'v scripts \<Rightarrow> 'v scripts" where
  "put_script sc s = s\<lparr>m_scripts := AList.update (script_id sc) sc (m_scripts s)\<rparr>"

definition count_update :: "'v scripts \<Rightarrow> 'v scripts" where
  "count_update s = s\<lparr>script_updates := script_updates s + 1\<rparr>"

section \<open>Texts and errors\<close>

definition script_utf8 :: "string \<Rightarrow> bool" where
  "script_utf8 t = Scripts_IsValidUtf8 (map of_char t)"

function drop_broken_tail :: "string \<Rightarrow> string" where
  "drop_broken_tail t = (if t \<noteq> [] \<and> \<not> script_utf8 t then drop_broken_tail (butlast t) else t)"
  by auto
termination by (relation "measure length") auto

declare drop_broken_tail.simps [simp del]

definition BoundedError :: "string \<Rightarrow> string" where
  "BoundedError t = (if length t \<le> MAX_ERROR_BYTES then t else drop_broken_tail (take MAX_ERROR_BYTES t))"

definition LuaError :: "string option \<Rightarrow> string" where
  "LuaError t = BoundedError (case t of Some m \<Rightarrow> m | None \<Rightarrow> ''Lua operation failed'')"

section \<open>Overlays\<close>

definition overlays_of :: "int \<Rightarrow> 'v scripts \<Rightarrow> (int \<times> overlay_item) list" where
  "overlays_of i s = (case map_of (m_overlays s) i of Some items \<Rightarrow> items | None \<Rightarrow> [])"

definition overlay_total :: "'v scripts \<Rightarrow> nat" where
  "overlay_total s = sum_list (map (length \<circ> snd) (m_overlays s))"

definition same_item :: "overlay_item \<Rightarrow> overlay_item \<Rightarrow> bool" where
  "same_item a b \<longleftrightarrow>
    ov_type a = ov_type b \<and> ov_x a = ov_x b \<and> ov_y a = ov_y b \<and> ov_width a = ov_width b \<and> ov_height a = ov_height b \<and>
    ov_text a = ov_text b \<and> ov_color a = ov_color b \<and> vectorScreenCoords a = vectorScreenCoords b \<and> ov_filled a = ov_filled b"

text \<open>The error is the one that \<^verbatim>\<open>luaL_error\<close> raises in the script; the entry of the script is there by then.\<close>

definition StoreOverlay :: "int \<Rightarrow> overlay_item \<Rightarrow> 'v scripts \<Rightarrow> string option \<times> 'v scripts" where
  "StoreOverlay itemId item s =
    (if m_currentScriptId s < 0 then (None, s)
     else
      (let cur = m_currentScriptId s; items = overlays_of cur s;
           s1 = s\<lparr>m_overlays := AList.update cur items (m_overlays s)\<rparr>;
           put = (\<lambda>it. s\<lparr>m_overlays := AList.update cur (AList.update itemId it items) (m_overlays s)\<rparr>)
       in case map_of items itemId of
            None \<Rightarrow>
              if MAX_OVERLAYS_PER_SCRIPT \<le> length items then (Some ''Overlay limit per script exceeded'', s1)
              else if MAX_OVERLAYS_TOTAL \<le> overlay_total s1 then (Some ''Overlay total limit exceeded'', s1)
              else (None, put item)
          | Some old \<Rightarrow> if same_item old item then (None, s1) else (None, put (item\<lparr>ov_updated := True\<rparr>))))"

definition RemoveOverlays :: "int \<Rightarrow> 'v scripts \<Rightarrow> 'v scripts" where
  "RemoveOverlays i s = s\<lparr>m_overlays := AList.delete i (m_overlays s)\<rparr>"

definition ClearOverlays :: "'v scripts \<Rightarrow> 'v scripts" where
  "ClearOverlays s = s\<lparr>m_overlays := []\<rparr>"

definition MarkAllOverlaysUpdated :: "'v scripts \<Rightarrow> 'v scripts" where
  "MarkAllOverlaysUpdated s =
    s\<lparr>m_overlays := map (\<lambda>(i, items). (i, map (\<lambda>(k, it). (k, it\<lparr>ov_updated := True\<rparr>)) items)) (m_overlays s)\<rparr>"

text \<open>
  The updates a client asks for, in the order of the identifiers; a coordinate is a float of the
  picture, kept in JSON by the integer it is cut to.
\<close>

definition json_float :: "rat \<Rightarrow> jval" where
  "json_float x = JFloat (Some (if x < 0 then - \<lfloor>- x\<rfloor> else \<lfloor>x\<rfloor>))"

definition overlay_json :: "int \<Rightarrow> int \<times> overlay_item \<Rightarrow> jval" where
  "overlay_json i p =
    (let it = snd p
     in JObj ([jint ''scriptId'' i, jint ''itemId'' (fst p), jbool ''vectorScreenCoords'' (vectorScreenCoords it),
          (''x'', json_float (ov_x it)), (''y'', json_float (ov_y it)), jword ''color'' (ov_color it)] @
        (case ov_type it of
           OV_TEXT \<Rightarrow> [(''type'', JStr ''text''), (''text'', JStr (ov_text it))]
         | OV_RECT \<Rightarrow> [(''type'', JStr ''rect''), (''width'', json_float (ov_width it)),
             (''height'', json_float (ov_height it)), jbool ''filled'' (ov_filled it)])))"

definition updated_items :: "(int \<times> overlay_item) list \<Rightarrow> (int \<times> overlay_item) list" where
  "updated_items items = sort_key fst (filter (\<lambda>(k, it). ov_updated it) items)"

definition GetOverlayUpdatesJson :: "'v scripts \<Rightarrow> jval \<times> 'v scripts" where
  "GetOverlayUpdatesJson s =
    (JObj [(''overlays'', JList (concat (map (\<lambda>(i, items). map (overlay_json i) (updated_items items))
        (sort_key fst (m_overlays s)))))],
     s\<lparr>m_overlays := map (\<lambda>(i, items). (i, map (\<lambda>(k, it). (k, it\<lparr>ov_updated := False\<rparr>)) items)) (m_overlays s)\<rparr>)"

section \<open>What a script may call\<close>

text \<open>
  The machine a script sees and the label table. A \<^verbatim>\<open>uint64_t\<close> is cast to the signed
  \<^verbatim>\<open>lua_Integer\<close>.
\<close>

record 'v host =
  host_vm :: "'v lua_vm"
  host_files :: script_files
  host_cpu :: cpu_state
  host_mem :: memory
  label_of :: "string \<Rightarrow> int"

definition int_getters :: "(string \<times> (cpu_state \<Rightarrow> memory \<Rightarrow> int)) list" where
  "int_getters =
    [(''GetCC'', \<lambda>c m. sint (r_cc c)), (''GetPC'', \<lambda>c m. uint (r_pc c)), (''GetSP'', \<lambda>c m. uint (r_sp c)),
     (''GetPSW'', \<lambda>c m. uint (GetPSW c)), (''GetBC'', \<lambda>c m. uint (r_bc c)), (''GetDE'', \<lambda>c m. uint (r_de c)),
     (''GetHL'', \<lambda>c m. uint (r_hl c)), (''GetA'', \<lambda>c m. uint (get8 A c)), (''GetF'', \<lambda>c m. uint (get8 F c)),
     (''GetB'', \<lambda>c m. uint (get8 B c)), (''GetC'', \<lambda>c m. uint (get8 C c)), (''GetD'', \<lambda>c m. uint (get8 D c)),
     (''GetE'', \<lambda>c m. uint (get8 E c)), (''GetH'', \<lambda>c m. uint (get8 H c)), (''GetL'', \<lambda>c m. uint (get8 L c)),
     (''GetMachineCycles'', \<lambda>c m. uint (r_mc c)), (''GetOpcode'', \<lambda>c m. uint (instr_array (mem_dbg m) ! 0))]"

definition bool_getters :: "(string \<times> (cpu_state \<Rightarrow> bool)) list" where
  "bool_getters =
    [(''GetFlagS'', get_flag FS), (''GetFlagZ'', get_flag FZ), (''GetFlagAC'', get_flag FAC), (''GetFlagP'', get_flag FP),
     (''GetFlagC'', get_flag FC), (''GetINTE'', i_inte), (''GetIFF'', i_iff), (''GetHLTA'', i_hlta)]"

text \<open>
  \<^verbatim>\<open>ramP->at\<close> throws when the address, as a \<^verbatim>\<open>size_t\<close>, is past the end; LuaJIT turns a C++
  exception into an error of its own.
\<close>

definition script_byte :: "'v host \<Rightarrow> lua_value list \<Rightarrow> lua_answer" where
  "script_byte h args =
    (case lua_checkinteger (host_vm h) (case args of [] \<Rightarrow> LNil | v # _ \<Rightarrow> v) of
       Inl e \<Rightarrow> Lua_error e
     | Inr i \<Rightarrow>
        (let a = int32 i
         in if 0 \<le> a \<and> a < int MEMORY_GLOBAL_LEN
            then Values [lua_integer (host_vm h) (uint (GetByteGlobal (host_mem h) (word_of_int a)))]
            else Lua_error ''C++ exception''))"

definition script_label :: "'v host \<Rightarrow> lua_value list \<Rightarrow> lua_answer" where
  "script_label h args =
    (case lua_checkstring (host_vm h) (case args of [] \<Rightarrow> LNil | v # _ \<Rightarrow> v) of
       Inl e \<Rightarrow> Lua_error e
     | Inr l \<Rightarrow> Values [lua_integer (host_vm h) (label_of h (c_str l))])"

text \<open>The checks of an argument: the error message, or the value.\<close>

definition CheckStrictNumber :: "string \<Rightarrow> string \<Rightarrow> lua_value \<Rightarrow> string + rat" where
  "CheckStrictNumber fn param v =
    (case v of
       LNumber (Some x) \<Rightarrow> Inr x
     | LNumber None \<Rightarrow> Inl (fn @ '': '' @ param @ '' must be finite'')
     | _ \<Rightarrow> Inl (fn @ '': '' @ param @ '' must be a number''))"

definition CheckStrictInteger :: "string \<Rightarrow> string \<Rightarrow> int \<Rightarrow> lua_value \<Rightarrow> string + int" where
  "CheckStrictInteger fn param maximum v =
    (case CheckStrictNumber fn param v of
       Inl e \<Rightarrow> Inl e
     | Inr x \<Rightarrow>
        if x < 0 \<or> of_int maximum < x \<or> of_int \<lfloor>x\<rfloor> \<noteq> x
        then Inl (fn @ '': '' @ param @ '' must be an integer in range'') else Inr \<lfloor>x\<rfloor>)"

definition check_boolean :: "string \<Rightarrow> string \<Rightarrow> lua_value \<Rightarrow> string + bool" where
  "check_boolean fn param v =
    (case v of LBool b \<Rightarrow> Inr b | _ \<Rightarrow> Inl (fn @ '': '' @ param @ '' must be boolean''))"

definition optional_arg :: "nat \<Rightarrow> 'a \<Rightarrow> (lua_value \<Rightarrow> string + 'a) \<Rightarrow> lua_value list \<Rightarrow> string + 'a" where
  "optional_arg n d chk args = (if n < length args then chk (args ! n) else Inr d)"

definition too_far :: "rat \<Rightarrow> bool" where
  "too_far x \<longleftrightarrow> of_int MAX_OVERLAY_COORDINATE_MAGNITUDE < \<bar>x\<bar>"

definition check_text :: "lua_value \<Rightarrow> string + string" where
  "check_text v =
    (case v of
       LString t \<Rightarrow>
         if MAX_OVERLAY_TEXT_BYTES < length t then Inl ''DrawText: text exceeds maxTextBytes''
         else if CHR 0x00 \<in> set t \<or> \<not> script_utf8 t
         then Inl ''DrawText: text must be valid UTF-8 without NUL bytes within maxTextBytes'' else Inr t
     | _ \<Rightarrow> Inl ''DrawText: text must be a string'')"

definition text_item :: "(rat \<Rightarrow> rat) \<Rightarrow> lua_value list \<Rightarrow> string + int \<times> overlay_item" where
  "text_item fl args =
    (if length args < 4 \<or> 6 < length args
     then Inl ''DrawText: expected (id, text, x, y, <color=0xFFFFFFFF>, <vectorScreenCoords=true>)''
     else and_then (CheckStrictInteger ''DrawText'' ''id'' ID_MAX (args ! 0)) (\<lambda>i.
       and_then (check_text (args ! 1)) (\<lambda>t.
       and_then (CheckStrictNumber ''DrawText'' ''x'' (args ! 2)) (\<lambda>x.
       and_then (CheckStrictNumber ''DrawText'' ''y'' (args ! 3)) (\<lambda>y.
         if too_far x \<or> too_far y then Inl ''DrawText: coordinates are out of range''
         else and_then (optional_arg 4 0xFFFFFFFF (CheckStrictInteger ''DrawText'' ''color'' (2 ^ 32 - 1)) args) (\<lambda>col.
           and_then (optional_arg 5 True (check_boolean ''DrawText'' ''vectorScreenCoords'') args) (\<lambda>vec.
             Inr (i, \<lparr>ov_type = OV_TEXT, ov_x = fl x, ov_y = fl y, ov_width = 0, ov_height = 0, ov_text = t,
               ov_color = word_of_int col, vectorScreenCoords = vec, ov_filled = False, ov_updated = True\<rparr>))))))))"

definition rect_item :: "(rat \<Rightarrow> rat) \<Rightarrow> lua_value list \<Rightarrow> string + int \<times> overlay_item" where
  "rect_item fl args =
    (if length args < 5 \<or> 8 < length args
     then Inl ''DrawRect: expected (id, x, y, width, height, <filled=false>, <color=0xFFFFFFFF>, <vectorScreenCoords=true>)''
     else and_then (CheckStrictInteger ''DrawRect'' ''id'' ID_MAX (args ! 0)) (\<lambda>i.
       and_then (CheckStrictNumber ''DrawRect'' ''x'' (args ! 1)) (\<lambda>x.
       and_then (CheckStrictNumber ''DrawRect'' ''y'' (args ! 2)) (\<lambda>y.
       and_then (CheckStrictNumber ''DrawRect'' ''width'' (args ! 3)) (\<lambda>w.
       and_then (CheckStrictNumber ''DrawRect'' ''height'' (args ! 4)) (\<lambda>ht.
         if too_far x \<or> too_far y \<or> w < 0 \<or> ht < 0 \<or> too_far w \<or> too_far ht
         then Inl ''DrawRect: coordinates or dimensions are out of range''
         else and_then (optional_arg 5 False (check_boolean ''DrawRect'' ''filled'') args) (\<lambda>fil.
           and_then (optional_arg 6 0xFFFFFFFF (CheckStrictInteger ''DrawRect'' ''color'' (2 ^ 32 - 1)) args) (\<lambda>col.
           and_then (optional_arg 7 True (check_boolean ''DrawRect'' ''vectorScreenCoords'') args) (\<lambda>vec.
             Inr (i, \<lparr>ov_type = OV_RECT, ov_x = fl x, ov_y = fl y, ov_width = fl w, ov_height = fl ht, ov_text = [],
               ov_color = word_of_int col, vectorScreenCoords = vec, ov_filled = fil, ov_updated = True\<rparr>))))))))))"

definition draw :: "string + int \<times> overlay_item \<Rightarrow> 'v scripts \<Rightarrow> lua_answer \<times> 'v scripts" where
  "draw item s =
    (case item of
       Inl e \<Rightarrow> (Lua_error e, s)
     | Inr (i, it) \<Rightarrow>
        (case StoreOverlay i it s of (None, s1) \<Rightarrow> (Values [], s1) | (Some e, s1) \<Rightarrow> (Lua_error e, s1)))"

text \<open>The registered functions; a name that is not registered is the value nil.\<close>

definition host_call :: "'v host \<Rightarrow> string \<Rightarrow> lua_value list \<Rightarrow> 'v scripts \<Rightarrow> lua_answer \<times> 'v scripts" where
  "host_call h fn args s =
    (case map_of int_getters fn of
       Some g \<Rightarrow> (Values [lua_integer (host_vm h) (g (host_cpu h) (host_mem h))], s)
     | None \<Rightarrow>
        (case map_of bool_getters fn of
           Some g \<Rightarrow> (Values [LBool (g (host_cpu h))], s)
         | None \<Rightarrow>
            if fn = ''Break'' then (Values [], s\<lparr>script_break := True\<rparr>)
            else if fn = ''GetByteGlobal'' then (script_byte h args, s)
            else if fn = ''GetLabelAddr'' then (script_label h args, s)
            else if fn = ''DrawText'' then draw (text_item (to_float (host_vm h)) args) s
            else if fn = ''DrawRect'' then draw (rect_item (to_float (host_vm h)) args) s
            else (Lua_error ''attempt to call a nil value'', s)))"

section \<open>Running\<close>

definition InstructionHook :: "bool \<Rightarrow> 'v scripts \<Rightarrow> lua_answer \<times> 'v scripts" where
  "InstructionHook late s =
    (let n = m_instructionCount s + 1000
     in (if MAX_INSTRUCTIONS_PER_RUN < n \<or> late then Lua_error ''Script execution budget exceeded'' else Go,
         s\<lparr>m_instructionCount := n\<rparr>))"

text \<open>\<^verbatim>\<open>lua_pcall\<close>: the error it returns with, if any.\<close>

partial_function (option) script_loop ::
  "'v host \<Rightarrow> lua_answer \<Rightarrow> 'v scripts \<Rightarrow> (string option option \<times> 'v scripts) option" where
  "script_loop h ans s =
    (let (act, v) = lua_next (host_vm h) ans (lua_state s); s1 = s\<lparr>lua_state := v\<rparr>
     in case act of
          Return \<Rightarrow> Some (None, s1)
        | Failed m \<Rightarrow> Some (Some m, s1)
        | Hook late \<Rightarrow> (let (ans1, s2) = InstructionHook late s1 in script_loop h ans1 s2)
        | Call fn args \<Rightarrow> (let (ans1, s2) = host_call h fn args s1 in script_loop h ans1 s2))"

declare script_loop.simps [code]

text \<open>A run result: whether it succeeded and whether it asks to break.\<close>

definition run_begins :: "'v host \<Rightarrow> script \<Rightarrow> 'v scripts \<Rightarrow> 'v scripts" where
  "run_begins h sc s =
    s\<lparr>script_break := False, m_currentScriptId := script_id sc, m_instructionCount := 0,
      lua_state := lua_start (host_vm h) (script_ref sc) (lua_state s)\<rparr>"

definition run_ends :: "script \<Rightarrow> string option option \<Rightarrow> 'v scripts \<Rightarrow> (bool \<times> bool) \<times> 'v scripts" where
  "run_ends sc err s =
    (let sc1 = (case err of
           None \<Rightarrow> sc\<lparr>runtimeStatus := SUCCEEDED, runtimeError := []\<rparr>
         | Some m \<Rightarrow> sc\<lparr>runtimeStatus := RUNTIME_ERROR, runtimeError := LuaError m\<rparr>);
         s1 = put_script sc1 (s\<lparr>m_currentScriptId := -1\<rparr>);
         s2 = (if script_break s1 then s1\<lparr>m_breakScriptId := script_id sc\<rparr> else s1)
     in ((err = None, script_break s2),
         if runtimeStatus sc \<noteq> runtimeStatus sc1 \<or> runtimeError sc \<noteq> runtimeError sc1 then count_update s2 else s2))"

definition RunScript :: "'v host \<Rightarrow> script \<Rightarrow> 'v scripts \<Rightarrow> ((script_error + bool \<times> bool) \<times> 'v scripts) option" where
  "RunScript h sc s =
    (if compilationStatus sc \<noteq> COMPILED \<or> script_ref sc = LUA_NOREF then Some (Inl (ScriptNotCompiled (script_id sc)), s)
     else (case script_loop h Go (run_begins h sc s) of
             None \<Rightarrow> None
           | Some (err, s1) \<Rightarrow> (case run_ends sc err s1 of (r, s2) \<Rightarrow> Some (Inr r, s2))))"

definition FindRequired :: "int \<Rightarrow> 'v scripts \<Rightarrow> script_error + script" where
  "FindRequired i s = (case map_of (m_scripts s) i of None \<Rightarrow> Inl (ScriptNotFound i) | Some sc \<Rightarrow> Inr sc)"

definition RunOnce :: "'v host \<Rightarrow> int \<Rightarrow> 'v scripts \<Rightarrow> ((script_error + bool \<times> bool) \<times> 'v scripts) option" where
  "RunOnce h i s = (case FindRequired i s of Inl e \<Rightarrow> Some (Inl e, s) | Inr sc \<Rightarrow> RunScript h sc s)"

text \<open>The scripts to run after an instruction.\<close>

definition runs_now :: "script \<Rightarrow> bool" where
  "runs_now sc \<longleftrightarrow> script_active sc \<and> compilationStatus sc = COMPILED \<and> runtimeStatus sc \<noteq> RUNTIME_ERROR"

fun check_scripts :: "'v host \<Rightarrow> int list \<Rightarrow> bool \<Rightarrow> 'v scripts \<Rightarrow> ((script_error + bool) \<times> 'v scripts) option" where
  "check_scripts h [] b s = Some (Inr b, s)"
| "check_scripts h (i # is) b s =
    (case map_of (m_scripts s) i of
       None \<Rightarrow> check_scripts h is b s
     | Some sc \<Rightarrow>
        if runs_now sc
        then (case RunScript h sc s of
                None \<Rightarrow> None
              | Some (Inl e, s1) \<Rightarrow> Some (Inl e, s1)
              | Some (Inr (ok, br), s1) \<Rightarrow> check_scripts h is (b \<or> br) s1)
        else check_scripts h is b s)"

definition Scripts_Check :: "'v host \<Rightarrow> 'v scripts \<Rightarrow> ((script_error + bool) \<times> 'v scripts) option" where
  "Scripts_Check h s = (if scripts_enabled s then check_scripts h (map fst (m_scripts s)) False s else Some (Inr False, s))"

section \<open>Compiling and the table\<close>

definition ReleaseReference :: "'v host \<Rightarrow> script \<Rightarrow> 'v \<Rightarrow> script \<times> 'v" where
  "ReleaseReference h sc v =
    (sc\<lparr>script_ref := LUA_NOREF\<rparr>,
     if script_ref sc \<noteq> LUA_NOREF \<and> script_ref sc \<noteq> LUA_REFNIL then lua_unref (host_vm h) (script_ref sc) v else v)"

text \<open>The source of a script, or why there is none.\<close>

definition script_source :: "script_files \<Rightarrow> string \<Rightarrow> string + string" where
  "script_source fs path =
    (if \<not> is_regular_file fs path then Inl ''Script source is missing, unreadable, or not a regular file''
     else case file_size fs path of
       None \<Rightarrow> Inl ''Script source size cannot be read''
     | Some n \<Rightarrow>
        if MAX_SOURCE_BYTES < n then Inl ''Script source exceeds maxSourceBytes''
        else if \<not> opens_file fs path then Inl ''Script source cannot be read''
        else (case read_file fs path n of
                None \<Rightarrow> Inl ''Script source must be valid UTF-8 without NUL bytes''
              | Some src \<Rightarrow>
                 if CHR 0x00 \<in> set src \<or> \<not> script_utf8 src
                 then Inl ''Script source must be valid UTF-8 without NUL bytes'' else Inr src))"

definition CompileScript :: "'v host \<Rightarrow> script \<Rightarrow> 'v scripts \<Rightarrow> script \<times> 'v scripts" where
  "CompileScript h sc s =
    (let (sc1, v) = ReleaseReference h sc (lua_state s);
         sc2 = sc1\<lparr>runtimeStatus := NEVER_RUN, runtimeError := []\<rparr>;
         failed = (\<lambda>e. sc2\<lparr>compilationStatus := COMPILATION_ERROR, compilationError := e\<rparr>);
         (sc3, v1) = (case script_source (host_files h) (script_path sc) of
            Inl e \<Rightarrow> (failed e, v)
          | Inr src \<Rightarrow>
             (case lua_load (host_vm h) (script_path sc) src v of
                (Inl m, v1) \<Rightarrow> (failed (LuaError m), v1)
              | (Inr ref, v1) \<Rightarrow> (sc2\<lparr>script_ref := ref, compilationStatus := COMPILED, compilationError := []\<rparr>, v1)))
     in (sc3, put_script sc3 (s\<lparr>lua_state := v1\<rparr>)))"

text \<open>The data of a request: name, path, active; or the field that is missing or has another type.\<close>

type_synonym script_input = "string \<times> string \<times> bool"

definition read_script_input :: "(string \<times> jval) list \<Rightarrow> string + script_input" where
  "read_script_input d =
    (case map_of d ''name'' of
       Some (JStr nm) \<Rightarrow>
         (case map_of d ''path'' of
            Some (JStr p) \<Rightarrow> (case map_of d ''active'' of Some (JBool b) \<Rightarrow> Inr (nm, p, b) | _ \<Rightarrow> Inl ''active'')
          | _ \<Rightarrow> Inl ''path'')
     | _ \<Rightarrow> Inl ''name'')"

text \<open>\<^verbatim>\<open>emplace\<close> comes after the identifier was taken, and reads the data.\<close>

definition Scripts_Add :: "'v host \<Rightarrow> (string \<times> jval) list \<Rightarrow> 'v scripts \<Rightarrow> (script_error + script) \<times> 'v scripts" where
  "Scripts_Add h d s =
    (if \<not> scripts_enabled s then (Inl ScriptingUnavailable, s)
     else if SCRIPT_RECORDS_MAX \<le> length (m_scripts s) then (Inl ScriptCapacity, s)
     else if m_idsExhausted s then (Inl ScriptIdsExhausted, s)
     else (let i = m_nextScriptId s;
               s1 = (if i = ID_MAX then s\<lparr>m_idsExhausted := True\<rparr> else s\<lparr>m_nextScriptId := i + 1\<rparr>)
           in case read_script_input d of
                Inl f \<Rightarrow> (Inl (ScriptInput f), s1)
              | Inr (nm, p, b) \<Rightarrow> (let (sc, s2) = CompileScript h (Script i nm p b) s1 in (Inr sc, count_update s2))))"

definition Scripts_Edit :: "'v host \<Rightarrow> int \<Rightarrow> (string \<times> jval) list \<Rightarrow> 'v scripts \<Rightarrow> (script_error + script) \<times> 'v scripts" where
  "Scripts_Edit h i d s =
    (case FindRequired i s of
       Inl e \<Rightarrow> (Inl e, s)
     | Inr sc \<Rightarrow>
        (case read_script_input d of
           Inl f \<Rightarrow> (Inl (ScriptInput f), s)
         | Inr (nm, p, b) \<Rightarrow>
            (let quiet = (\<lambda>s. if b then s else RemoveOverlays i s)
             in if script_name sc = nm \<and> script_path sc = p \<and> script_active sc = b then (Inr sc, quiet s)
                else (let sc1 = sc\<lparr>script_name := nm, script_path := p, script_active := b\<rparr>;
                          (sc2, s1) = (if script_path sc \<noteq> p then CompileScript h sc1 s else (sc1, put_script sc1 s))
                      in (Inr sc2, count_update (quiet s1))))))"

definition Scripts_Compile :: "'v host \<Rightarrow> int \<Rightarrow> 'v scripts \<Rightarrow> (script_error + script) \<times> 'v scripts" where
  "Scripts_Compile h i s =
    (case FindRequired i s of
       Inl e \<Rightarrow> (Inl e, s)
     | Inr sc \<Rightarrow> (let (sc1, s1) = CompileScript h sc s in (Inr sc1, count_update s1)))"

definition Scripts_Disable :: "int \<Rightarrow> 'v scripts \<Rightarrow> (script_error + script) \<times> 'v scripts" where
  "Scripts_Disable i s =
    (case FindRequired i s of
       Inl e \<Rightarrow> (Inl e, s)
     | Inr sc \<Rightarrow>
        (let s1 = RemoveOverlays i s; sc1 = sc\<lparr>script_active := False\<rparr>
         in if script_active sc then (Inr sc1, count_update (put_script sc1 s1)) else (Inr sc, s1)))"

definition Scripts_DisableAll :: "'v scripts \<Rightarrow> nat \<times> 'v scripts" where
  "Scripts_DisableAll s =
    (let n = length (filter (\<lambda>(i, sc). script_active sc) (m_scripts s));
         s1 = s\<lparr>m_scripts := map (\<lambda>(i, sc). (i, sc\<lparr>script_active := False\<rparr>)) (m_scripts s),
               m_overlays := filter (\<lambda>(i, items). i \<notin> fst ` set (m_scripts s)) (m_overlays s)\<rparr>
     in (n, if 0 < n then count_update s1 else s1))"

definition Scripts_Del :: "'v host \<Rightarrow> int \<Rightarrow> 'v scripts \<Rightarrow> 'v scripts" where
  "Scripts_Del h i s =
    (case map_of (m_scripts s) i of
       None \<Rightarrow> s
     | Some sc \<Rightarrow>
        count_update (RemoveOverlays i
          (s\<lparr>lua_state := snd (ReleaseReference h sc (lua_state s)), m_scripts := AList.delete i (m_scripts s)\<rparr>)))"

definition Scripts_Clear :: "'v host \<Rightarrow> 'v scripts \<Rightarrow> 'v scripts" where
  "Scripts_Clear h s =
    (if m_scripts s = [] then s
     else count_update (ClearOverlays
       (s\<lparr>lua_state := fold (\<lambda>(i, sc) v. snd (ReleaseReference h sc v)) (m_scripts s) (lua_state s), m_scripts := []\<rparr>)))"

definition Scripts_Get :: "int \<Rightarrow> 'v scripts \<Rightarrow> script_error + script" where
  "Scripts_Get i s = (case map_of (m_scripts s) i of None \<Rightarrow> Inl (ScriptNotFound i) | Some sc \<Rightarrow> Inr sc)"

section \<open>JSON\<close>

definition CompilationToJson :: "script \<Rightarrow> jval" where
  "CompilationToJson sc =
    (case compilationStatus sc of
       COMPILED \<Rightarrow> JObj [(''status'', JStr ''compiled''), (''error'', JNull)]
     | COMPILATION_ERROR \<Rightarrow> JObj [(''status'', JStr ''error''), (''error'', JStr (compilationError sc))])"

definition RuntimeToJson :: "script \<Rightarrow> jval" where
  "RuntimeToJson sc =
    (case runtimeStatus sc of
       NEVER_RUN \<Rightarrow> JObj [(''status'', JStr ''never_run''), (''error'', JNull)]
     | SUCCEEDED \<Rightarrow> JObj [(''status'', JStr ''succeeded''), (''error'', JNull)]
     | RUNTIME_ERROR \<Rightarrow> JObj [(''status'', JStr ''error''), (''error'', JStr (runtimeError sc))])"

definition Script_ToJson :: "script \<Rightarrow> jval" where
  "Script_ToJson sc =
    JObj [jint ''scriptId'' (script_id sc), (''name'', JStr (script_name sc)), (''path'', JStr (script_path sc)),
      jbool ''active'' (script_active sc), (''compilation'', CompilationToJson sc), (''runtime'', RuntimeToJson sc)]"

definition GetAllJson :: "'v scripts \<Rightarrow> jval" where
  "GetAllJson s =
    JObj [jword ''updates'' (script_updates s),
      (''scripts'', JList (map Script_ToJson (sort_key script_id (map snd (m_scripts s)))))]"

end
