(* ===== verification/Trace_Log.thy ===== *)
theory Trace_Log
  imports Disasm
begin

unbundle bit_operations_syntax

text \<open>
  The trace log of \<^verbatim>\<open>core/trace_log.cpp\<close>: a circular buffer of the instructions executed last,
  the search for the caller of a range of addresses, the filter with its patterns and windows,
  and the log file. The log is the list of the instructions with the newest first, cut at its
  size; the matcher returns for every pattern and text and decides the usual meaning of \<^verbatim>\<open>*\<close>.

  The array of 300000 items is a function from indices. The log file is the list of lines written
  to it while it is open; whether a path opens, the default path and the files themselves belong
  to the operating system: the argument \<open>opens\<close> and the argument \<open>default_path\<close>.
\<close>

section \<open>State\<close>

definition TRACE_LOG_SIZE :: nat where "TRACE_LOG_SIZE = 300000"
definition EMPTY_ITEM :: int where "EMPTY_ITEM = - 1"

record trace_item =
  item_addr :: int
  item_instr :: instr_bytes

record query_entry =
  q_address :: u16
  q_bytes :: "u8 list"
  q_instruction :: string

record trace_log =
  m_log :: "nat \<Rightarrow> trace_item"
  m_logIdx :: nat
  m_disasmLines :: "nat \<Rightarrow> disasm_line"
  m_disasmLinesLen :: nat
  m_saveLog :: bool
  m_saveLogInited :: bool
  m_saveLogPath :: string
  m_logFile :: "string list option"
  m_filteredEntries :: "query_entry list"
  m_filterGeneration :: u64
  m_activeFilterId :: u64
  m_historyGeneration :: u64
  m_historyCount :: nat

definition TraceLog_new :: trace_log where
  "TraceLog_new =
    \<lparr>m_log = (\<lambda>_. \<lparr>item_addr = EMPTY_ITEM, item_instr = (0, 0, 0)\<rparr>), m_logIdx = 0,
     m_disasmLines = (\<lambda>_. blank_line 0), m_disasmLinesLen = 0, m_saveLog = False, m_saveLogInited = False,
     m_saveLogPath = [], m_logFile = None, m_filteredEntries = [], m_filterGeneration = 0,
     m_activeFilterId = 0, m_historyGeneration = 1, m_historyCount = 0\<rparr>"

text \<open>A \<^verbatim>\<open>TraceLogQueryError\<close> with its message, or an exception of the disassembler.\<close>

datatype trace_error = Query_error string | Disasm_failed disasm_error

section \<open>Recording\<close>

definition InvalidateFilter :: "trace_log \<Rightarrow> trace_log" where
  "InvalidateFilter t = t\<lparr>m_activeFilterId := 0, m_filteredEntries := [], m_filterGeneration := m_filterGeneration t + 1\<rparr>"

definition InvalidateQuery :: "trace_log \<Rightarrow> trace_log" where "InvalidateQuery t = InvalidateFilter t"

definition item_opcode :: "trace_item \<Rightarrow> u8" where "item_opcode i = fst (item_instr i)"

text \<open>The item of the last instruction: \<^verbatim>\<open>PCHL\<close> keeps the new program counter as its operand.\<close>

definition executed_item :: "cpu_state \<Rightarrow> memory \<Rightarrow> trace_item" where
  "executed_item c m =
    (let is = instr_array (mem_dbg m); op = is ! 0
     in \<lparr>item_addr = int32 (uint (instrGlobalAddr (mem_dbg m))),
         item_instr = (op, if op = OPCODE_PCHL then (lo (r_pc c), hi (r_pc c)) else (is ! 1, is ! 2))\<rparr>)"

definition log_item :: "trace_item \<Rightarrow> trace_log \<Rightarrow> trace_log" where
  "log_item i t =
    (if item_opcode i = OPCODE_HLT \<and> item_opcode (m_log t (m_logIdx t)) = OPCODE_HLT then t
     else (let idx = (m_logIdx t + TRACE_LOG_SIZE - 1) mod TRACE_LOG_SIZE
           in t\<lparr>m_logIdx := idx, m_historyCount := min (m_historyCount t + 1) TRACE_LOG_SIZE,
               m_historyGeneration := m_historyGeneration t + 1, m_log := (m_log t)(idx := i)\<rparr>))"

definition UpdateLogBuffer :: "cpu_state \<Rightarrow> memory \<Rightarrow> trace_log \<Rightarrow> trace_log" where
  "UpdateLogBuffer c m t = log_item (executed_item c m) t"

definition SaveLog ::
  "cmd list \<Rightarrow> cpu_state \<Rightarrow> memory \<Rightarrow> display \<Rightarrow> trace_log \<Rightarrow> print_error + trace_log" where
  "SaveLog cmds c m d t =
    (case m_logFile t of
       Some ls \<Rightarrow>
         if m_saveLog t
         then (case PrintToBuffer cmds False c m d of
                 Inl e \<Rightarrow> Inl e
               | Inr s \<Rightarrow> Inr (t\<lparr>m_logFile := Some (ls @ [c_str s])\<rparr>))
         else Inr t
     | None \<Rightarrow> Inr t)"

definition TraceLog_Update ::
  "cmd list \<Rightarrow> cpu_state \<Rightarrow> memory \<Rightarrow> display \<Rightarrow> trace_log \<Rightarrow> print_error + trace_log" where
  "TraceLog_Update cmds c m d t = SaveLog cmds c m d (UpdateLogBuffer c m (InvalidateFilter t))"

definition SetSaveLog :: "(string \<Rightarrow> bool) \<Rightarrow> string \<Rightarrow> bool \<Rightarrow> string \<Rightarrow> trace_log \<Rightarrow> trace_log" where
  "SetSaveLog opens default_path saveLog path t =
    (if saveLog
     then (if m_saveLogInited t then t
           else (let p = (if path \<noteq> [] then path else if m_saveLogPath t \<noteq> [] then m_saveLogPath t else default_path);
                     t1 = t\<lparr>m_saveLogPath := p\<rparr>
                 in if opens p then t1\<lparr>m_logFile := Some [], m_saveLogInited := True, m_saveLog := True\<rparr>
                    else t1\<lparr>m_saveLog := False\<rparr>))
     else t\<lparr>m_logFile := None, m_saveLogInited := False, m_saveLog := False\<rparr>)"

definition TraceLog_Reset :: "(string \<Rightarrow> bool) \<Rightarrow> string \<Rightarrow> trace_log \<Rightarrow> trace_log" where
  "TraceLog_Reset opens default_path t =
    (let t1 = t\<lparr>m_historyCount := 0, m_historyGeneration := m_historyGeneration t + 1, m_disasmLinesLen := 0,
               m_logIdx := 0, m_log := (m_log t)(0 := (m_log t 0)\<lparr>item_addr := EMPTY_ITEM\<rparr>)\<rparr>;
         t2 = InvalidateFilter t1
     in if m_saveLogInited t2
        then SetSaveLog opens default_path True [] (SetSaveLog opens default_path False [] t2) else t2)"

section \<open>Callers\<close>

text \<open>The item \<open>k\<close> instructions back, and its address in the 64 KB of the processor.\<close>

definition past_item :: "trace_log \<Rightarrow> nat \<Rightarrow> trace_item" where
  "past_item t k = m_log t ((m_logIdx t + k) mod TRACE_LOG_SIZE)"

definition past_pc :: "trace_log \<Rightarrow> nat \<Rightarrow> u16" where
  "past_pc t k = word_of_int (item_addr (past_item t k))"

datatype caller =
    Found (f_generation: u64) (callerPc: u16) (entrancePc: u16) (callerCursor: nat)
  | HistoryEnd u64

text \<open>The loop from \<open>cursor\<close>, \<open>n\<close> items before the end of the history.\<close>

fun find_caller :: "trace_log \<Rightarrow> u32 \<Rightarrow> u32 \<Rightarrow> nat \<Rightarrow> nat \<Rightarrow> u16 \<Rightarrow> caller" where
  "find_caller t start stop 0 cursor dest = HistoryEnd (m_historyGeneration t)"
| "find_caller t start stop (Suc n) cursor dest =
    (let pc = past_pc t cursor
     in if ucast pc < start \<or> stop \<le> ucast pc then Found (m_historyGeneration t) pc dest cursor
        else find_caller t start stop n (Suc cursor) pc)"

text \<open>The request: the range, and the generation and cursor of an earlier answer to go on from.\<close>

definition FindCaller :: "u32 \<Rightarrow> u32 \<Rightarrow> (u64 \<times> nat) option \<Rightarrow> u16 \<Rightarrow> trace_log \<Rightarrow> trace_error + caller" where
  "FindCaller start stop from livePc t =
    (if stop \<le> start \<or> 0x10000 < stop then Inl (Query_error ''invalid history range'')
     else case from of
       None \<Rightarrow> Inr (find_caller t start stop (m_historyCount t) 0 livePc)
     | Some (gen, cursor) \<Rightarrow>
        if gen \<noteq> m_historyGeneration t then Inl (Query_error ''stale history generation'')
        else if m_historyCount t \<le> cursor then Inl (Query_error ''invalid history cursor'')
        else Inr (find_caller t start stop (m_historyCount t - Suc cursor) (Suc cursor) (past_pc t cursor)))"

definition CallerSuccessor :: "u64 \<Rightarrow> nat \<Rightarrow> trace_log \<Rightarrow> trace_error + u16" where
  "CallerSuccessor gen cursor t =
    (if gen \<noteq> m_historyGeneration t then Inl (Query_error ''stale history generation'')
     else if m_historyCount t \<le> cursor then Inl (Query_error ''invalid history cursor'')
     else Inr (past_pc t cursor + of_nat (GetInstrLen (item_opcode (past_item t cursor)))))"

section \<open>Patterns\<close>

text \<open>\<^verbatim>\<open>std::tolower\<close> of a byte, in the C locale.\<close>

definition to_lower :: "char \<Rightarrow> nat" where
  "to_lower c = (let n = of_char c :: nat in if 65 \<le> n \<and> n \<le> 90 then n + 32 else n)"

text \<open>
  The loop of \<^verbatim>\<open>GlobMatches\<close>: the pattern index, the value index and, after a star, its index
  and the value index where its text ends.
\<close>

partial_function (option) glob_loop ::
  "string \<Rightarrow> string \<Rightarrow> nat \<Rightarrow> nat \<Rightarrow> (nat \<times> nat) option \<Rightarrow> bool option" where
  "glob_loop p v pk vk star =
    (if vk < length v
     then (if pk < length p \<and> p ! pk \<noteq> CHR ''*'' \<and> to_lower (p ! pk) = to_lower (v ! vk)
           then glob_loop p v (pk + 1) (vk + 1) star
           else if pk < length p \<and> p ! pk = CHR ''*'' then glob_loop p v (pk + 1) vk (Some (pk, vk))
           else (case star of
                   Some (si, sv) \<Rightarrow> glob_loop p v (si + 1) (sv + 1) (Some (si, sv + 1))
                 | None \<Rightarrow> Some False))
     else Some (pk + length (takeWhile (\<lambda>c. c = CHR ''*'') (drop pk p)) = length p))"

definition GlobMatches :: "string \<Rightarrow> string \<Rightarrow> bool option" where
  "GlobMatches p v = glob_loop p v 0 0 None"

declare glob_loop.simps [code]

section \<open>The filter\<close>

definition MakeQueryEntry ::
  "cmd list \<Rightarrow> ('r, 's) debug_data \<Rightarrow> trace_item \<Rightarrow> trace_error + query_entry" where
  "MakeQueryEntry cmds d i =
    (case InitInstr cmds (word_of_int (item_addr i)) (item_instr i) d False (blank_line 0) of
       Inl e \<Rightarrow> Inl (Disasm_failed e)
     | Inr l \<Rightarrow>
        (case item_instr i of (op, dl, dh) \<Rightarrow>
          (let c = cmds ! unat op; n = GetInstrLen op; im = line_imm l
           in Inr \<lparr>q_address = word_of_int (item_addr i),
                  q_bytes = [op] @ (if 1 < n then [dl] else []) @ (if 2 < n then [dh] else []),
                  q_instruction =
                    cmd_text (if imm_type c \<in> {IT_B0, IT_B1} then Uint8ToStrC0x (ucast im) else Uint16ToStrC0x im) c\<rparr>)))"

text \<open>The items from the newest to the first empty one.\<close>

definition log_items :: "trace_log \<Rightarrow> trace_item list" where
  "log_items t = takeWhile (\<lambda>i. item_addr i \<noteq> EMPTY_ITEM) (map (past_item t) [0..<TRACE_LOG_SIZE])"

text \<open>Does an entry pass? \<^term>\<open>None\<close> would mean that the matcher does not return.\<close>

definition pattern_ok :: "string \<Rightarrow> string \<Rightarrow> bool option" where
  "pattern_ok p s = (if p = [] then Some True else GlobMatches p s)"

definition entry_passes :: "string \<Rightarrow> string \<Rightarrow> query_entry \<Rightarrow> bool option" where
  "entry_passes addr_p instr_p q =
    (case pattern_ok addr_p (Uint16ToStrC0x (q_address q)) of
       None \<Rightarrow> None
     | Some False \<Rightarrow> Some False
     | Some True \<Rightarrow> pattern_ok instr_p (q_instruction q))"

fun filter_items ::
  "cmd list \<Rightarrow> ('r, 's) debug_data \<Rightarrow> string \<Rightarrow> string \<Rightarrow> trace_item list \<Rightarrow> query_entry list \<Rightarrow>
    (trace_error \<times> query_entry list + query_entry list) option" where
  "filter_items cmds d ap ip [] qs = Some (Inr qs)"
| "filter_items cmds d ap ip (i # is) qs =
    (case MakeQueryEntry cmds d i of
       Inl e \<Rightarrow> Some (Inl (e, qs))
     | Inr q \<Rightarrow>
        (case entry_passes ap ip q of
           None \<Rightarrow> None
         | Some b \<Rightarrow> filter_items cmds d ap ip is (if b then qs @ [q] else qs)))"

text \<open>The reply: the new filter's id and the number of matches.\<close>

definition CreateFilter ::
  "cmd list \<Rightarrow> ('r, 's) debug_data \<Rightarrow> string \<Rightarrow> string \<Rightarrow> trace_log \<Rightarrow>
    ((trace_error + u64 \<times> nat) \<times> trace_log) option" where
  "CreateFilter cmds d ap ip t =
    (let t1 = InvalidateFilter t
     in case filter_items cmds d ap ip (log_items t1) [] of
          None \<Rightarrow> None
        | Some (Inl (e, qs)) \<Rightarrow> Some (Inl e, t1\<lparr>m_filteredEntries := qs\<rparr>)
        | Some (Inr qs) \<Rightarrow>
           (let n = m_filterGeneration t1 + 1
            in Some (Inr (n, length qs), t1\<lparr>m_filteredEntries := qs, m_filterGeneration := n, m_activeFilterId := n\<rparr>)))"

text \<open>A window: the entries from \<open>start\<close>; \<open>start + lines\<close> is a sum of two \<^verbatim>\<open>size_t\<close>.\<close>

definition GetFilterWindow :: "u64 \<Rightarrow> u64 \<Rightarrow> u64 \<Rightarrow> trace_log \<Rightarrow> trace_error + u64 \<times> query_entry list" where
  "GetFilterWindow fid start lns t =
    (if fid \<noteq> m_activeFilterId t \<or> m_activeFilterId t = 0
     then Inl (Query_error ''unknown or expired trace-log filterId'')
     else if length (m_filteredEntries t) < unat start
     then Inl (Query_error ''trace-log window start is outside the filtered result'')
     else Inr (start, drop (unat start) (take (min (unat (start + lns)) (length (m_filteredEntries t))) (m_filteredEntries t))))"

text \<open>
  The lines for a display: the first \<open>lns\<close> items whose type is at most the filter. The lines
  are objects that are used again, so \<^verbatim>\<open>InitInstr\<close> leaves in them what it does not set.
\<close>

fun disasm_items ::
  "cmd list \<Rightarrow> ('r, 's) debug_data \<Rightarrow> nat \<Rightarrow> nat \<Rightarrow> trace_item list \<Rightarrow> trace_log \<Rightarrow> disasm_error option \<times> trace_log" where
  "disasm_items cmds d lns f [] t = (None, t)"
| "disasm_items cmds d lns f (i # is) t =
    (if lns \<le> m_disasmLinesLen t then (None, t)
     else if GetInstrType (item_opcode i) \<le> f
     then (let k = m_disasmLinesLen t
           in case InitInstr cmds (word_of_int (item_addr i)) (item_instr i) d False (m_disasmLines t k) of
                Inl e \<Rightarrow> (Some e, t)
              | Inr l \<Rightarrow> disasm_items cmds d lns f is (t\<lparr>m_disasmLines := (m_disasmLines t)(k := l), m_disasmLinesLen := k + 1\<rparr>))
     else disasm_items cmds d lns f is t)"

definition TraceLog_GetDisasm ::
  "cmd list \<Rightarrow> ('r, 's) debug_data \<Rightarrow> nat \<Rightarrow> nat \<Rightarrow> trace_log \<Rightarrow> disasm_error option \<times> trace_log" where
  "TraceLog_GetDisasm cmds d lns f t = disasm_items cmds d lns f (log_items t) (t\<lparr>m_disasmLinesLen := 0\<rparr>)"

section \<open>The matcher decides its patterns\<close>

text \<open>The meaning of a pattern: a star stands for any text, any other character for itself in either case.\<close>

primrec glob :: "string \<Rightarrow> string \<Rightarrow> bool" where
  "glob [] v = (v = [])"
| "glob (c # p) v =
    (if c = CHR ''*'' then list_ex (\<lambda>k. glob p (drop k v)) [0..<Suc (length v)]
     else v \<noteq> [] \<and> to_lower c = to_lower (hd v) \<and> glob p (tl v))"

lemma glob_star: "glob (CHR ''*'' # p) v \<longleftrightarrow> (\<exists>k \<le> length v. glob p (drop k v))"
  by (auto simp: list_ex_iff less_Suc_eq_le simp del: upt_Suc)

declare glob.simps(2) [simp del]

lemma glob_literal: "c \<noteq> CHR ''*'' \<Longrightarrow> glob (c # p) v \<longleftrightarrow> v \<noteq> [] \<and> to_lower c = to_lower (hd v) \<and> glob p (tl v)"
  by (simp add: glob.simps(2))

lemma glob_at_literal:
  assumes "i < length p" "p ! i \<noteq> CHR ''*''"
  shows "glob (drop i p) (drop j v) \<longleftrightarrow>
    j < length v \<and> to_lower (p ! i) = to_lower (v ! j) \<and> glob (drop (Suc i) p) (drop (Suc j) v)"
proof -
  have "drop i p = p ! i # drop (Suc i) p" using assms(1) by (simp add: Cons_nth_drop_Suc)
  then show ?thesis using assms(2) by (auto simp: glob_literal hd_drop_conv_nth drop_Suc tl_drop)
qed

lemma glob_at_star:
  assumes "i < length p" "p ! i = CHR ''*''" "j \<le> length v"
  shows "glob (drop i p) (drop j v) \<longleftrightarrow> (\<exists>k. j \<le> k \<and> k \<le> length v \<and> glob (drop (Suc i) p) (drop k v))"
proof -
  have "drop i p = CHR ''*'' # drop (Suc i) p" using assms by (metis Cons_nth_drop_Suc)
  then have "glob (drop i p) (drop j v) \<longleftrightarrow> (\<exists>k \<le> length v - j. glob (drop (Suc i) p) (drop (k + j) v))"
    by (simp add: glob_star)
  also have "\<dots> \<longleftrightarrow> (\<exists>k. j \<le> k \<and> k \<le> length v \<and> glob (drop (Suc i) p) (drop k v))"
  proof (intro iffI; elim exE conjE)
    fix k
    assume "k \<le> length v - j" "glob (drop (Suc i) p) (drop (k + j) v)"
    then show "\<exists>k. j \<le> k \<and> k \<le> length v \<and> glob (drop (Suc i) p) (drop k v)"
      using assms(3) by (intro exI [of _ "k + j"]) auto
  next
    fix k
    assume "j \<le> k" "k \<le> length v" "glob (drop (Suc i) p) (drop k v)"
    then show "\<exists>k \<le> length v - j. glob (drop (Suc i) p) (drop (k + j) v)" by (intro exI [of _ "k - j"]) auto
  qed
  finally show ?thesis .
qed

lemma glob_literals:
  "a \<le> b \<Longrightarrow> b \<le> length p \<Longrightarrow> \<forall>j. a \<le> j \<and> j < b \<longrightarrow> p ! j \<noteq> CHR ''*'' \<Longrightarrow> k \<le> length v \<Longrightarrow>
    glob (drop a p) (drop k v) \<Longrightarrow> k + (b - a) \<le> length v \<and> glob (drop b p) (drop (k + (b - a)) v)"
proof (induction "b - a" arbitrary: a k)
  case (Suc n)
  then have lt: "a < b" "a < length p" "p ! a \<noteq> CHR ''*''" by auto
  with Suc.prems have "k < length v" "glob (drop (Suc a) p) (drop (Suc k) v)" using glob_at_literal by blast+
  with Suc.hyps(1) [of "Suc a" "Suc k"] Suc.hyps(2) Suc.prems lt show ?case by (auto simp: Suc_diff_Suc)
qed simp

lemma glob_empty: "glob p [] \<longleftrightarrow> (\<forall>c \<in> set p. c = CHR ''*'')"
proof (induction p)
  case (Cons c p)
  then show ?case by (cases "c = CHR ''*''") (simp_all add: glob_star glob_literal)
qed simp

definition glob_inv :: "string \<Rightarrow> string \<Rightarrow> nat \<Rightarrow> nat \<Rightarrow> (nat \<times> nat) option \<Rightarrow> bool" where
  "glob_inv p v i j star \<longleftrightarrow> i \<le> length p \<and> j \<le> length v \<and>
    (case star of
       None \<Rightarrow> True
     | Some (si, sv) \<Rightarrow> si < i \<and> p ! si = CHR ''*'' \<and> sv + (i - Suc si) = j \<and>
         (\<forall>k. Suc si \<le> k \<and> k < i \<longrightarrow> p ! k \<noteq> CHR ''*''))"

text \<open>What is left to decide: the current attempt, or one that gives the last star more text.\<close>

definition glob_left :: "string \<Rightarrow> string \<Rightarrow> nat \<Rightarrow> nat \<Rightarrow> (nat \<times> nat) option \<Rightarrow> bool" where
  "glob_left p v i j star \<longleftrightarrow> glob (drop i p) (drop j v) \<or>
    (case star of
       None \<Rightarrow> False
     | Some (si, sv) \<Rightarrow> \<exists>k. sv < k \<and> k \<le> length v \<and> glob (drop (Suc si) p) (drop k v))"

text \<open>A longer text for an earlier star moves the current position to the right.\<close>

lemma older_star:
  assumes "glob_inv p v i j (Some (si, sv))" "sv < k" "k \<le> length v" "glob (drop (Suc si) p) (drop k v)"
  shows "\<exists>m. j < m \<and> m \<le> length v \<and> glob (drop i p) (drop m v)"
proof -
  have "k + (i - Suc si) \<le> length v" "glob (drop i p) (drop (k + (i - Suc si)) v)"
    using glob_literals [of "Suc si" i p k v] assms by (auto simp: glob_inv_def)
  then show ?thesis using assms(1,2) by (intro exI [of _ "k + (i - Suc si)"]) (auto simp: glob_inv_def)
qed

lemma glob_left_star:
  assumes "glob_inv p v i j star" "i < length p" "p ! i = CHR ''*''"
  shows "glob_left p v (Suc i) j (Some (i, j)) = glob_left p v i j star" "glob_inv p v (Suc i) j (Some (i, j))"
proof -
  have j: "j \<le> length v" using assms(1) by (simp add: glob_inv_def)
  have new: "glob_left p v (Suc i) j (Some (i, j)) \<longleftrightarrow> glob (drop i p) (drop j v)"
    using glob_at_star [OF assms(2,3) j] j by (auto simp: glob_left_def le_less)
  have "glob (drop i p) (drop j v)" if "glob (drop i p) (drop m v)" "j < m" "m \<le> length v" for m
    using that glob_at_star [OF assms(2,3) j] glob_at_star [OF assms(2,3) that(3)] by auto
  note later = this
  show "glob_left p v (Suc i) j (Some (i, j)) = glob_left p v i j star"
  proof (cases star)
    case None
    then show ?thesis unfolding new by (simp add: glob_left_def)
  next
    case (Some s)
    obtain si sv where s: "star = Some (si, sv)" using Some by (cases s) auto
    show ?thesis
      unfolding new using later older_star [OF assms(1) [unfolded s]] by (simp add: glob_left_def s) blast
  qed
  show "glob_inv p v (Suc i) j (Some (i, j))" using assms j by (auto simp: glob_inv_def)
qed

lemma glob_left_literal:
  assumes "glob_inv p v i j star" "i < length p" "p ! i \<noteq> CHR ''*''" "j < length v" "to_lower (p ! i) = to_lower (v ! j)"
  shows "glob_left p v (Suc i) (Suc j) star = glob_left p v i j star" "glob_inv p v (Suc i) (Suc j) star"
  using assms glob_at_literal [OF assms(2,3), of j v]
  by (auto simp: glob_left_def glob_inv_def less_Suc_eq Suc_diff_le split: option.splits)

lemma next_candidate: "sv < n \<Longrightarrow> (\<exists>k. sv < k \<and> k \<le> n \<and> P k) \<longleftrightarrow> P (Suc sv) \<or> (\<exists>k. Suc sv < k \<and> k \<le> n \<and> P k)"
  by (metis Suc_leI Suc_lessD Suc_lessI lessI)

lemma glob_left_retry:
  assumes "glob_inv p v i j (Some (si, sv))" "j < length v" "\<not> glob (drop i p) (drop j v)"
  shows "glob_left p v (Suc si) (Suc sv) (Some (si, Suc sv)) = glob_left p v i j (Some (si, sv))"
    "glob_inv p v (Suc si) (Suc sv) (Some (si, Suc sv))" "sv < length v"
proof -
  show less: "sv < length v" using assms by (auto simp: glob_inv_def)
  show "glob_left p v (Suc si) (Suc sv) (Some (si, Suc sv)) = glob_left p v i j (Some (si, sv))"
    using assms(3) next_candidate [OF less, of "\<lambda>k. glob (drop (Suc si) p) (drop k v)"] by (simp add: glob_left_def)
  show "glob_inv p v (Suc si) (Suc sv) (Some (si, Suc sv))" using assms less by (auto simp: glob_inv_def)
qed

lemma glob_left_end:
  assumes "glob_inv p v i j star" "\<not> j < length v"
  shows "glob_left p v i j star \<longleftrightarrow> i + length (takeWhile (\<lambda>c. c = CHR ''*'') (drop i p)) = length p"
proof -
  have j: "j = length v" and i: "i \<le> length p" using assms by (simp_all add: glob_inv_def)
  have "glob_left p v i j star \<longleftrightarrow> glob (drop i p) []"
  proof (cases star)
    case (Some s)
    obtain si sv where s: "star = Some (si, sv)" using Some by (cases s) auto
    have "\<not> (\<exists>k. sv < k \<and> k \<le> length v \<and> glob (drop (Suc si) p) (drop k v))"
      using older_star [OF assms(1) [unfolded s]] j by (meson not_less)
    then show ?thesis by (auto simp: glob_left_def s j)
  qed (simp add: glob_left_def j)
  also have "\<dots> \<longleftrightarrow> takeWhile (\<lambda>c. c = CHR ''*'') (drop i p) = drop i p"
    by (simp add: glob_empty takeWhile_eq_all_conv)
  also have "\<dots> \<longleftrightarrow> length (takeWhile (\<lambda>c. c = CHR ''*'') (drop i p)) = length (drop i p)"
    by (metis takeWhile_eq_take take_all_iff order_refl)
  finally show ?thesis using i by auto
qed

definition star_pos :: "(nat \<times> nat) option \<Rightarrow> nat" where
  "star_pos star = (case star of None \<Rightarrow> 0 | Some (si, sv) \<Rightarrow> Suc si)"

definition star_text :: "(nat \<times> nat) option \<Rightarrow> nat" where
  "star_text star = (case star of None \<Rightarrow> 0 | Some (si, sv) \<Rightarrow> sv)"

lemma glob_loop_decides:
  "glob_inv p v i j star \<Longrightarrow> glob_loop p v i j star = Some (glob_left p v i j star)"
proof (induction "(i, j, star)" arbitrary: i j star
    rule: wf_induct_rule [OF wf_measures [of "[\<lambda>(i, j, star). length p - star_pos star, \<lambda>(i, j, star). length v - star_text star,
      \<lambda>(i, j, star). length v - j]"]])
  case less: (1 i j star)
  note IH = less.hyps and inv = less.prems
  have i: "i \<le> length p" using inv by (simp add: glob_inv_def)
  consider "\<not> j < length v" | "j < length v" "i < length p" "p ! i \<noteq> CHR ''*''" "to_lower (p ! i) = to_lower (v ! j)"
    | "j < length v" "i < length p" "p ! i = CHR ''*''"
    | "j < length v" "\<not> (i < length p \<and> p ! i \<noteq> CHR ''*'' \<and> to_lower (p ! i) = to_lower (v ! j))"
      "\<not> (i < length p \<and> p ! i = CHR ''*'')" by blast
  then show ?case
  proof cases
    case 1
    then show ?thesis using glob_left_end [OF inv] by (subst glob_loop.simps) simp
  next
    case 2
    have "glob_loop p v (Suc i) (Suc j) star = Some (glob_left p v i j star)"
      using IH [of "Suc i" "Suc j" star] glob_left_literal [OF inv 2(2,3,1,4)] 2(1) by (simp add: measures_less)
    then show ?thesis using 2 by (subst glob_loop.simps) simp
  next
    case 3
    have "star_pos star \<le> i" using inv by (auto simp: star_pos_def glob_inv_def split: option.splits)
    then have "glob_loop p v (Suc i) j (Some (i, j)) = Some (glob_left p v i j star)"
      using IH [of "Suc i" j "Some (i, j)"] glob_left_star [OF inv 3(2,3)] 3(2) by (simp add: star_pos_def diff_less_mono2)
    then show ?thesis using 3 by (subst glob_loop.simps) simp
  next
    case 4
    have fails: "\<not> glob (drop i p) (drop j v)"
    proof (cases "i < length p")
      case True
      then show ?thesis using 4 glob_at_literal [of i p j v] by blast
    next
      case False
      then show ?thesis using i 4(1) by simp
    qed
    show ?thesis
    proof (cases star)
      case None
      then show ?thesis using 4 fails by (subst glob_loop.simps) (auto simp: glob_left_def)
    next
      case (Some s)
      obtain si sv where star: "star = Some (si, sv)" using Some by (cases s) auto
      note retry = glob_left_retry [OF inv [unfolded star] 4(1) fails]
      have "glob_loop p v (Suc si) (Suc sv) (Some (si, Suc sv)) = Some (glob_left p v i j star)"
        using IH [of "Suc si" "Suc sv" "Some (si, Suc sv)"] retry by (simp add: star star_pos_def star_text_def diff_less_mono2)
      then show ?thesis using 4 star by (subst glob_loop.simps) auto
    qed
  qed
qed

text \<open>C39: The matcher of the trace-log patterns returns for every pattern and text, and its answer,
  found by trying again after the last star only, is the meaning of the pattern.
\<close>

theorem GlobMatches_decides: "GlobMatches p v = Some (glob p v)"
  using glob_loop_decides [of p v 0 0 None] by (simp add: GlobMatches_def glob_inv_def glob_left_def)

section \<open>The log is the history\<close>

definition trace_inv :: "trace_item list \<Rightarrow> trace_log \<Rightarrow> bool" where
  "trace_inv h t \<longleftrightarrow> m_logIdx t < TRACE_LOG_SIZE \<and> length h \<le> TRACE_LOG_SIZE \<and> m_historyCount t = length h \<and>
    (\<forall>k < length h. past_item t k = h ! k) \<and> (\<forall>i \<in> set h. item_addr i \<noteq> EMPTY_ITEM) \<and>
    (length h < TRACE_LOG_SIZE \<longrightarrow> item_addr (past_item t (length h)) = EMPTY_ITEM)"

definition newest_opcode :: "trace_log \<Rightarrow> u8" where
  "newest_opcode t = item_opcode (m_log t (m_logIdx t))"

lemma ring_step: "(i :: nat) < n \<Longrightarrow> Suc k < n \<Longrightarrow> ((i + n - 1) mod n + Suc k) mod n = (i + k) mod n"
  by (cases i) (auto simp: mod_if)

lemma ring_new: "(i :: nat) < n \<Longrightarrow> Suc k < n \<Longrightarrow> (i + k) mod n \<noteq> (i + n - 1) mod n"
  by (cases i) (auto simp: mod_if)

lemma past_log_item:
  assumes "m_logIdx t < TRACE_LOG_SIZE" "\<not> (item_opcode i = OPCODE_HLT \<and> newest_opcode t = OPCODE_HLT)"
  shows "past_item (log_item i t) 0 = i" "Suc k < TRACE_LOG_SIZE \<Longrightarrow> past_item (log_item i t) (Suc k) = past_item t k"
    "m_logIdx (log_item i t) < TRACE_LOG_SIZE" "m_historyCount (log_item i t) = min (m_historyCount t + 1) TRACE_LOG_SIZE"
    "newest_opcode (log_item i t) = item_opcode i"
proof -
  have pos: "0 < TRACE_LOG_SIZE" by (simp add: TRACE_LOG_SIZE_def)
  show less: "m_logIdx (log_item i t) < TRACE_LOG_SIZE"
    using assms pos by (auto simp: log_item_def newest_opcode_def Let_def)
  show "past_item (log_item i t) 0 = i" "newest_opcode (log_item i t) = item_opcode i"
    using assms pos by (auto simp: log_item_def newest_opcode_def past_item_def Let_def)
  show "m_historyCount (log_item i t) = min (m_historyCount t + 1) TRACE_LOG_SIZE"
    using assms by (auto simp: log_item_def newest_opcode_def Let_def)
  show "past_item (log_item i t) (Suc k) = past_item t k" if "Suc k < TRACE_LOG_SIZE"
  proof -
    have "m_log (log_item i t) = (m_log t)((m_logIdx t + TRACE_LOG_SIZE - 1) mod TRACE_LOG_SIZE := i)"
      "m_logIdx (log_item i t) = (m_logIdx t + TRACE_LOG_SIZE - 1) mod TRACE_LOG_SIZE"
      using assms(2) by (auto simp: log_item_def newest_opcode_def Let_def)
    then show ?thesis
      unfolding past_item_def using ring_step [OF assms(1) that] ring_new [OF assms(1) that] by (simp only: fun_upd_other simp_thms)
  qed
qed

lemma log_item_inv:
  assumes inv: "trace_inv h t" and i: "item_addr i \<noteq> EMPTY_ITEM"
  shows "trace_inv (if item_opcode i = OPCODE_HLT \<and> newest_opcode t = OPCODE_HLT then h else take TRACE_LOG_SIZE (i # h)) (log_item i t)"
proof (cases "item_opcode i = OPCODE_HLT \<and> newest_opcode t = OPCODE_HLT")
  case True
  then show ?thesis using inv by (simp add: log_item_def newest_opcode_def)
next
  case False
  let ?h = "take TRACE_LOG_SIZE (i # h)" and ?t = "log_item i t"
  have idx: "m_logIdx t < TRACE_LOG_SIZE" and h: "length h \<le> TRACE_LOG_SIZE" "\<forall>k < length h. past_item t k = h ! k"
    "m_historyCount t = length h" "\<forall>i \<in> set h. item_addr i \<noteq> EMPTY_ITEM"
    and empty: "length h < TRACE_LOG_SIZE \<Longrightarrow> item_addr (past_item t (length h)) = EMPTY_ITEM"
    using inv by (auto simp: trace_inv_def)
  note past = past_log_item [OF idx False]
  have "past_item ?t k = ?h ! k" if "k < length ?h" for k
    using that past(1,2) h(2) by (cases k) auto
  moreover have "item_addr (past_item ?t (length ?h)) = EMPTY_ITEM" if "length ?h < TRACE_LOG_SIZE"
  proof -
    have "length ?h = Suc (length h)" "Suc (length h) < TRACE_LOG_SIZE" using that by auto
    then show ?thesis using past(2) empty by simp
  qed
  moreover have "item_addr j \<noteq> EMPTY_ITEM" if "j \<in> set ?h" for j
    using in_set_takeD [OF that] i h(4) by auto
  ultimately have "trace_inv ?h ?t" using past(3,4) h by (auto simp: trace_inv_def)
  then show ?thesis using False by auto
qed

lemma log_items_inv:
  assumes "trace_inv h t"
  shows "log_items t = h"
proof -
  have "map (past_item t) [0..<TRACE_LOG_SIZE] = h @ map (past_item t) [length h..<TRACE_LOG_SIZE]"
    using assms by (auto simp: trace_inv_def intro!: nth_equalityI simp: nth_append)
  moreover have "takeWhile (\<lambda>i. item_addr i \<noteq> EMPTY_ITEM) (map (past_item t) [length h..<TRACE_LOG_SIZE]) = []"
    using assms by (cases "length h < TRACE_LOG_SIZE") (auto simp: trace_inv_def upt_conv_Cons)
  ultimately show ?thesis
    using assms by (simp add: log_items_def takeWhile_append2 trace_inv_def)
qed

text \<open>The instructions in order of execution, with a run of halts kept once.\<close>

fun collapse :: "u8 \<Rightarrow> trace_item list \<Rightarrow> trace_item list" where
  "collapse op [] = []"
| "collapse op (i # is) =
    (if item_opcode i = OPCODE_HLT \<and> op = OPCODE_HLT then collapse op is else i # collapse (item_opcode i) is)"

lemma take_rev_cons: "take n (ys @ take n xs) = take n (ys @ xs)"
  by (simp add: min_def)

lemma trace_run_inv:
  "trace_inv h t \<Longrightarrow> \<forall>i \<in> set is. item_addr i \<noteq> EMPTY_ITEM \<Longrightarrow>
    trace_inv (take TRACE_LOG_SIZE (rev (collapse (newest_opcode t) is) @ h)) (fold log_item is t)"
proof (induction "is" arbitrary: h t)
  case Nil
  then show ?case by (simp add: trace_inv_def)
next
  case (Cons i "is")
  note step = log_item_inv [OF Cons.prems(1), of i]
  show ?case
  proof (cases "item_opcode i = OPCODE_HLT \<and> newest_opcode t = OPCODE_HLT")
    case True
    then have "log_item i t = t" by (simp add: log_item_def newest_opcode_def)
    then show ?thesis using Cons.IH [OF Cons.prems(1)] Cons.prems(2) True by simp
  next
    case False
    have op: "newest_opcode (log_item i t) = item_opcode i"
      using past_log_item(5) [OF _ False] Cons.prems(1) by (simp add: trace_inv_def)
    have "trace_inv (take TRACE_LOG_SIZE (i # h)) (log_item i t)" using step Cons.prems(2) False by simp
    note run = Cons.IH [OF this, unfolded op take_rev_cons]
    have "rev (collapse (newest_opcode t) (i # is)) @ h = rev (collapse (item_opcode i) is) @ i # h"
      using False by auto
    moreover have "\<forall>i \<in> set is. item_addr i \<noteq> EMPTY_ITEM" using Cons.prems(2) by simp
    ultimately show ?thesis using run by (simp only: fold_simps)
  qed
qed

lemma Reset_inv_trace: "trace_inv [] (TraceLog_Reset opens dp t)"
  by (simp add: trace_inv_def TraceLog_Reset_def Let_def InvalidateFilter_def SetSaveLog_def past_item_def TRACE_LOG_SIZE_def)

lemma executed_item_addr:
  assumes "unat (instrGlobalAddr (mem_dbg m)) < MEMORY_GLOBAL_LEN"
  shows "item_addr (executed_item c m) \<noteq> EMPTY_ITEM"
proof -
  have "z < 2 ^ 31" if "nat z < MEMORY_GLOBAL_LEN" for z using that by (simp add: mem_consts)
  then have "uint (instrGlobalAddr (mem_dbg m)) < 2 ^ 31" using assms unfolding unat_eq_nat_uint by blast
  then have "int32 (uint (instrGlobalAddr (mem_dbg m))) = uint (instrGlobalAddr (mem_dbg m))"
    by (intro int32_small) simp_all
  moreover have "uint (instrGlobalAddr (mem_dbg m)) \<noteq> - 1" using uint_ge_0 [of "instrGlobalAddr (mem_dbg m)"] by linarith
  ultimately show ?thesis by (simp add: executed_item_def EMPTY_ITEM_def Let_def)
qed

text \<open>C40: The circular buffer is the history: after a reset, the log read from its newest item to the
  first empty one is the list of the instructions executed since, newest first, with each run of
  halts once and cut at 300000 items. The opcode that was under the index before counts as the
  instruction before.
\<close>

theorem trace_log_history:
  assumes "\<forall>(c, m) \<in> set ps. unat (instrGlobalAddr (mem_dbg m)) < MEMORY_GLOBAL_LEN"
  shows "log_items (fold (\<lambda>(c, m). UpdateLogBuffer c m) ps (TraceLog_Reset opens dp t)) =
    take TRACE_LOG_SIZE (rev (collapse (newest_opcode (TraceLog_Reset opens dp t)) (map (\<lambda>(c, m). executed_item c m) ps)))"
proof -
  have "fold (\<lambda>(c, m). UpdateLogBuffer c m) ps s = fold log_item (map (\<lambda>(c, m). executed_item c m) ps) s" for s
    by (induction ps arbitrary: s) (auto simp: UpdateLogBuffer_def)
  moreover have "\<forall>i \<in> set (map (\<lambda>(c, m). executed_item c m) ps). item_addr i \<noteq> EMPTY_ITEM"
    using assms by (auto intro!: executed_item_addr)
  ultimately show ?thesis
    using log_items_inv [OF trace_run_inv [OF Reset_inv_trace]] by simp
qed

section \<open>The nearest caller\<close>

definition outside_range :: "u32 \<Rightarrow> u32 \<Rightarrow> u16 \<Rightarrow> bool" where
  "outside_range start stop pc \<longleftrightarrow> ucast pc < start \<or> stop \<le> ucast pc"

lemma find_caller_found:
  "find_caller t start stop n cursor dest = Found g pc en k \<longleftrightarrow>
    g = m_historyGeneration t \<and> cursor \<le> k \<and> k < cursor + n \<and> outside_range start stop (past_pc t k) \<and>
    (\<forall>j. cursor \<le> j \<and> j < k \<longrightarrow> \<not> outside_range start stop (past_pc t j)) \<and> pc = past_pc t k \<and>
    en = (if k = cursor then dest else past_pc t (k - 1))"
proof (induction n arbitrary: cursor dest)
  case (Suc n)
  show ?case
  proof (cases "outside_range start stop (past_pc t cursor)")
    case True
    then have "find_caller t start stop (Suc n) cursor dest = Found (m_historyGeneration t) (past_pc t cursor) dest cursor"
      by (simp add: outside_range_def Let_def)
    moreover have "cursor \<le> k \<Longrightarrow> \<forall>j. cursor \<le> j \<and> j < k \<longrightarrow> \<not> outside_range start stop (past_pc t j) \<Longrightarrow> k = cursor"
      using True by (metis le_neq_implies_less order_refl)
    ultimately show ?thesis using True by auto
  next
    case False
    then have "find_caller t start stop (Suc n) cursor dest = find_caller t start stop n (Suc cursor) (past_pc t cursor)"
      by (simp add: outside_range_def Let_def)
    moreover have "cursor \<le> k \<Longrightarrow> outside_range start stop (past_pc t k) \<Longrightarrow> Suc cursor \<le> k"
      using False by (metis le_neq_implies_less Suc_leI)
    moreover have "(\<forall>j. cursor \<le> j \<and> j < k \<longrightarrow> \<not> outside_range start stop (past_pc t j)) \<longleftrightarrow>
        (\<forall>j. Suc cursor \<le> j \<and> j < k \<longrightarrow> \<not> outside_range start stop (past_pc t j))"
      using False by (metis Suc_leD Suc_leI le_neq_implies_less)
    ultimately show ?thesis
      using Suc.IH [of "Suc cursor" "past_pc t cursor"] by auto
  qed
qed auto

text \<open>A caller that is found is the newest instruction of the history outside the range; the
  entrance is the instruction that ran right after it, which is inside, or the live program
  counter when the caller is the newest instruction.
\<close>

theorem FindCaller_nearest:
  "FindCaller start stop None livePc t = Inr (Found g pc en k) \<longleftrightarrow>
    start < stop \<and> stop \<le> 0x10000 \<and> g = m_historyGeneration t \<and> k < m_historyCount t \<and>
    outside_range start stop (past_pc t k) \<and> (\<forall>j < k. \<not> outside_range start stop (past_pc t j)) \<and>
    pc = past_pc t k \<and> en = (if k = 0 then livePc else past_pc t (k - 1))"
  by (auto simp: FindCaller_def find_caller_found)

lemma trace_items_small:
  "TRACE_LOG_SIZE = Suc (Suc (Suc (TRACE_LOG_SIZE - 3)))"
  by (simp add: TRACE_LOG_SIZE_def)

definition sample_cpu :: cpu_state where
  "sample_cpu = \<lparr>r_cc = 0, r_pc = 0x100, r_sp = 0, r_a = 0, r_f = 2, r_bc = 0, r_de = 0, r_hl = 0, r_ir = 0, r_tmp = 0,
    r_act = 0, r_wz = 0, r_mc = 0, i_inte = False, i_iff = False, i_hlta = False, i_eiPending = False\<rparr>"

definition sample_exec :: "u32 \<Rightarrow> u8 \<Rightarrow> cpu_state \<times> memory" where
  "sample_exec a op =
    (sample_cpu, sample_memory\<lparr>mem_dbg := (mem_dbg sample_memory)\<lparr>instrGlobalAddr := a, instr_array := [op, 0, 0]\<rparr>\<rparr>)"

lemma newest_new: "newest_opcode (TraceLog_Reset opens dp TraceLog_new) = 0"
  by (simp add: newest_opcode_def TraceLog_Reset_def TraceLog_new_def InvalidateFilter_def Let_def item_opcode_def)

theorem trace_log_history_witness:
  "map item_addr (log_items (fold (\<lambda>(c, m). UpdateLogBuffer c m)
      [sample_exec 0x100 0x00, sample_exec 0x101 0x76, sample_exec 0x101 0x76] (TraceLog_Reset (\<lambda>_. True) ''log'' TraceLog_new))) =
    [0x101, 0x100]"
proof -
  let ?ps = "[sample_exec 0x100 0x00, sample_exec 0x101 0x76, sample_exec 0x101 0x76]"
  have ok: "\<forall>(c, m) \<in> set ?ps. unat (instrGlobalAddr (mem_dbg m)) < MEMORY_GLOBAL_LEN"
    by (simp add: sample_exec_def mem_consts)
  show ?thesis
    unfolding trace_log_history [OF ok] newest_new
    by (subst trace_items_small)
      (simp add: sample_exec_def executed_item_def item_opcode_def OPCODE_HLT_def OPCODE_PCHL_def Let_def)
qed

definition sample_trace :: trace_log where
  "sample_trace =
    (let i = (\<lambda>a. \<lparr>item_addr = a, item_instr = (0, 0, 0)\<rparr>) in log_item (i 0x200) (log_item (i 0x105) TraceLog_new))"

lemma sample_trace_facts:
  "m_historyCount sample_trace = 2" "past_pc sample_trace 0 = 0x200" "past_pc sample_trace 1 = 0x105"
proof -
  have not_halt: "\<not> (item_opcode \<lparr>item_addr = a, item_instr = (0, 0, 0)\<rparr> = OPCODE_HLT \<and> newest_opcode t = OPCODE_HLT)" for a t
    by (simp add: item_opcode_def OPCODE_HLT_def)
  have idx: "m_logIdx TraceLog_new < TRACE_LOG_SIZE" by (simp add: TraceLog_new_def TRACE_LOG_SIZE_def)
  note p1 = past_log_item [OF idx not_halt]
  note p2 = past_log_item [OF p1(3) not_halt]
  show "m_historyCount sample_trace = 2" "past_pc sample_trace 0 = 0x200" "past_pc sample_trace 1 = 0x105"
    by (simp_all add: sample_trace_def Let_def past_pc_def p2 p1 TraceLog_new_def [THEN arg_cong [of _ _ m_historyCount]])
      (simp_all add: TRACE_LOG_SIZE_def p1 p2)
qed

theorem FindCaller_nearest_witness:
  "FindCaller 0x200 0x300 None 0x203 sample_trace = Inr (Found (m_historyGeneration sample_trace) 0x105 0x200 1)"
  using FindCaller_nearest [of "0x200" "0x300" "0x203" sample_trace "m_historyGeneration sample_trace" "0x105" "0x200" 1]
  by (simp add: sample_trace_facts [unfolded One_nat_def] outside_range_def)

section \<open>The windows of a filter\<close>

definition query_of :: "cmd list \<Rightarrow> trace_item \<Rightarrow> query_entry" where
  "query_of cmds i =
    (case item_instr i of (op, dl, dh) \<Rightarrow>
      (let c = cmds ! unat op; n = GetInstrLen op; im = InstrToImm (op, dl, dh) (imm_type c)
       in \<lparr>q_address = word_of_int (item_addr i),
           q_bytes = take (if 2 < n then 3 else if 1 < n then 2 else 1) [op, dl, dh],
           q_instruction =
             cmd_text (if imm_type c \<in> {IT_B0, IT_B1} then Uint8ToStrC0x (ucast im) else Uint16ToStrC0x im) c\<rparr>))"

definition selected :: "string \<Rightarrow> string \<Rightarrow> query_entry \<Rightarrow> bool" where
  "selected ap ip q \<longleftrightarrow> (ap = [] \<or> glob ap (Uint16ToStrC0x (q_address q))) \<and> (ip = [] \<or> glob ip (q_instruction q))"

lemma InitInstr_line:
  assumes "tables_ok d"
  shows "\<exists>l'. InitInstr cmds a ib d False l = Inr l' \<and> line_imm l' = InstrToImm ib (imm_type (cmds ! unat (fst ib)))"
proof -
  have ne: "first_of ls = Inr (hd ls)" if "ls \<noteq> []" for ls using that by (cases ls) (simp_all add: first_of_def)
  show ?thesis
    using GetLabels_nonempty [OF assms] GetConsts_nonempty [OF assms]
    by (auto simp: InitInstr_def Let_def ne split: option.split)
qed

lemma MakeQueryEntry_eq:
  assumes "tables_ok d"
  shows "MakeQueryEntry cmds d i = Inr (query_of cmds i)"
proof -
  obtain op dl dh where i: "item_instr i = (op, dl, dh)" by (metis prod_cases3)
  obtain l where l: "InitInstr cmds (word_of_int (item_addr i)) (op, dl, dh) d False (blank_line 0) = Inr l"
    "line_imm l = InstrToImm (op, dl, dh) (imm_type (cmds ! unat op))"
    using InitInstr_line [OF assms, of cmds "word_of_int (item_addr i)" "(op, dl, dh)" "blank_line 0"] by auto
  show ?thesis by (simp add: MakeQueryEntry_def query_of_def i l Let_def)
qed

lemma entry_passes_eq: "entry_passes ap ip q = Some (selected ap ip q)"
  by (auto simp: entry_passes_def pattern_ok_def selected_def glob_loop_decides [of _ _ 0 0 None] GlobMatches_def
      glob_inv_def glob_left_def split: bool.split)

lemma filter_items_eq:
  "tables_ok d \<Longrightarrow>
    filter_items cmds d ap ip is qs = Some (Inr (qs @ filter (selected ap ip) (map (query_of cmds) is)))"
  by (induction "is" arbitrary: qs) (simp_all add: MakeQueryEntry_eq entry_passes_eq)

text \<open>A filter keeps exactly the entries of the log that match its two patterns, in the order of
  the log, and a window of it is the part of them from its start; a start past the end and an
  identifier that is not the last filter's are refused.
\<close>

theorem filter_windows:
  fixes cmds :: "cmd list" and d :: "('r, 's) debug_data" and ap ip :: string and t :: trace_log
  assumes "tables_ok d" "m_filterGeneration t + 2 \<noteq> 0"
  defines "qs \<equiv> filter (selected ap ip) (map (query_of cmds) (log_items t))"
  shows "\<exists>t'. CreateFilter cmds d ap ip t = Some (Inr (m_filterGeneration t + 2, length qs), t') \<and>
    GetFilterWindow fid start lns t' =
      (if fid \<noteq> m_filterGeneration t + 2 then Inl (Query_error ''unknown or expired trace-log filterId'')
       else if length qs < unat start then Inl (Query_error ''trace-log window start is outside the filtered result'')
       else Inr (start, drop (unat start) (take (unat (start + lns)) qs)))"
proof -
  have items: "log_items (InvalidateFilter t) = log_items t"
    by (simp add: log_items_def past_item_def [abs_def] InvalidateFilter_def)
  have qs: "filter_items cmds d ap ip (log_items (InvalidateFilter t)) [] = Some (Inr qs)"
    using filter_items_eq [OF assms(1)] by (simp add: items qs_def)
  have gen: "m_filterGeneration (InvalidateFilter t) + 1 = m_filterGeneration t + 2"
    by (simp add: InvalidateFilter_def)
  have "take (min n (length qs)) qs = take n qs" for n by (simp add: min_def)
  then show ?thesis
    unfolding CreateFilter_def Let_def qs gen using assms(2) by (auto simp: GetFilterWindow_def)
qed

theorem filter_windows_witness:
  "\<exists>t'. CreateFilter cmds_z80 (Dd_new () :: (rat, unit) debug_data) ''0x01*'' [] TraceLog_new = Some (Inr (2, 0), t') \<and>
    GetFilterWindow 1 0 10 t' = Inl (Query_error ''unknown or expired trace-log filterId'')"
proof -
  have gen: "m_filterGeneration TraceLog_new = 0" by (simp add: TraceLog_new_def)
  have "log_items TraceLog_new = []"
    using log_items_inv [of "[]" TraceLog_new]
    by (simp add: trace_inv_def TraceLog_new_def past_item_def TRACE_LOG_SIZE_def)
  then show ?thesis
    using filter_windows [OF tables_ok_new [of "()"], of TraceLog_new cmds_z80 "''0x01*''" "[]" 1 0 10] by (simp add: gen)
qed

end
