(* ===== verification/Recording_File.thy ===== *)
theory Recording_File
  imports Recorder "HOL-Library.Monad_Syntax"
begin

unbundle bit_operations_syntax

text \<open>
  The file of a recording, \<^verbatim>\<open>Recorder::Serialize\<close> and \<^verbatim>\<open>Recorder::Deserialize\<close>: a version, the
  RAM, three counters and, state by state, the packed structs and the frame's memory writes. The
  structs are little-endian and packed, with the bit-fields of a byte filled from its low end,
  as the unions over them in the code rely on. The lemmas give what survives a round trip.
\<close>

section \<open>Packed structs\<close>

definition pack :: "(nat \<times> nat) list \<Rightarrow> u8 list" where
  "pack fs = concat (map (\<lambda>(n, v). le_bytes n v) fs)"

fun unpack :: "nat list \<Rightarrow> u8 list \<Rightarrow> nat list" where
  "unpack [] bs = []"
| "unpack (n # ns) bs = le_value (take n bs) # unpack ns (drop n bs)"

lemma length_pack [simp]: "length (pack fs) = sum_list (map fst fs)"
  by (induction fs) (auto simp: pack_def)

lemma unpack_pack: "\<forall>(n, v) \<in> set fs. v < 256 ^ n \<Longrightarrow> unpack (map fst fs) (pack fs) = map snd fs"
  by (induction fs) (auto simp: pack_def le_value_bytes)

definition flag :: "nat \<Rightarrow> nat \<Rightarrow> bool" where
  "flag k b \<longleftrightarrow> odd (b div 2 ^ k)"

definition cpu_fields :: "cpu_state \<Rightarrow> (nat \<times> nat) list" where
  "cpu_fields c =
    [(8, unat (r_cc c)), (2, unat (r_pc c)), (2, unat (r_sp c)), (1, unat (r_f c)), (1, unat (r_a c)),
     (2, unat (r_bc c)), (2, unat (r_de c)), (2, unat (r_hl c)), (1, unat (r_ir c)), (1, unat (r_tmp c)),
     (1, unat (r_act c)), (2, unat (r_wz c)),
     (1, unat (r_mc c) + 16 * of_bool (i_inte c) + 32 * of_bool (i_iff c) + 64 * of_bool (i_hlta c) +
         128 * of_bool (i_eiPending c))]"

definition encode_cpu :: "cpu_state \<Rightarrow> u8 list" where "encode_cpu c = pack (cpu_fields c)"

definition decode_cpu :: "u8 list \<Rightarrow> cpu_state" where
  "decode_cpu bs =
    (let v = unpack [8, 2, 2, 1, 1, 2, 2, 2, 1, 1, 1, 2, 1] bs
     in \<lparr>r_cc = of_nat (v ! 0), r_pc = of_nat (v ! 1), r_sp = of_nat (v ! 2), r_a = of_nat (v ! 4),
         r_f = of_nat (v ! 3), r_bc = of_nat (v ! 5), r_de = of_nat (v ! 6), r_hl = of_nat (v ! 7),
         r_ir = of_nat (v ! 8), r_tmp = of_nat (v ! 9), r_act = of_nat (v ! 10), r_wz = of_nat (v ! 11),
         r_mc = of_nat (v ! 12 mod 16), i_inte = flag 4 (v ! 12), i_iff = flag 5 (v ! 12),
         i_hlta = flag 6 (v ! 12), i_eiPending = flag 7 (v ! 12)\<rparr>)"

definition encode_mem :: "mem_update \<Rightarrow> u8 list" where
  "encode_mem u =
    pack [(1, unat (upd_mapping u)), (1, unat (ramdiskIdx u) + 8 * of_bool (memType u = MT_RAM))]"

definition decode_mem :: "u8 list \<Rightarrow> mem_update" where
  "decode_mem bs =
    (let v = unpack [1, 1] bs
     in \<lparr>upd_mapping = of_nat (v ! 0), ramdiskIdx = of_nat (v ! 1 mod 8),
         memType = (if flag 3 (v ! 1) then MT_RAM else MT_ROM)\<rparr>)"

text \<open>A signed integer of \<open>n\<close> bytes, in two's complement.\<close>

definition sint_bits :: "nat \<Rightarrow> int \<Rightarrow> nat" where
  "sint_bits n z = nat (z mod 256 ^ n)"

definition sint_of :: "nat \<Rightarrow> nat \<Rightarrow> int" where
  "sint_of n v = signed_take_bit (8 * n - 1) (int v)"

definition io_fields :: "io_state \<Rightarrow> (nat \<times> nat) list" where
  "io_fields s =
    [(1, unat (p_CW s)), (1, unat (p_A s)), (1, unat (p_B s)), (1, unat (p_C s)),
     (1, unat (p_CW2 s)), (1, unat (p_A2 s)), (1, unat (p_B2 s)), (1, unat (p_C2 s)),
     (4, unat (ruslatHistory s)), (1, unat (outport s)), (1, unat (outbyte s)),
     (1, sint_bits 1 (outCommitTimer s)), (1, sint_bits 1 (paletteCommitTimer s)), (1, sint_bits 1 (displayModeTimer s)),
     (1, unat (joy0 s)), (1, unat (joy1 s)), (1, unat (hwColor s)),
     (1, of_bool (reqDisplayMode s) + 2 * unat (brdColorIdx s) + 32 * of_bool (displayMode s) + 64 * of_bool (ruslat s))]"

definition encode_io :: "io_state \<Rightarrow> u8 list" where "encode_io s = palette s @ pack (io_fields s)"

definition decode_io :: "u8 list \<Rightarrow> io_state" where
  "decode_io bs =
    (let v = unpack [1, 1, 1, 1, 1, 1, 1, 1, 4, 1, 1, 1, 1, 1, 1, 1, 1, 1] (drop 16 bs)
     in \<lparr>palette = take 16 bs, p_CW = of_nat (v ! 0), p_A = of_nat (v ! 1), p_B = of_nat (v ! 2),
         p_C = of_nat (v ! 3), p_CW2 = of_nat (v ! 4), p_A2 = of_nat (v ! 5), p_B2 = of_nat (v ! 6),
         p_C2 = of_nat (v ! 7), ruslatHistory = of_nat (v ! 8), outport = of_nat (v ! 9),
         outbyte = of_nat (v ! 10), outCommitTimer = sint_of 1 (v ! 11), paletteCommitTimer = sint_of 1 (v ! 12),
         displayModeTimer = sint_of 1 (v ! 13), joy0 = of_nat (v ! 14), joy1 = of_nat (v ! 15),
         hwColor = of_nat (v ! 16), reqDisplayMode = flag 0 (v ! 17), brdColorIdx = of_nat (v ! 17 div 2 mod 16),
         displayMode = flag 5 (v ! 17), ruslat = flag 6 (v ! 17)\<rparr>)"

definition encode_display :: "display_update \<Rightarrow> u8 list" where
  "encode_display u =
    pack [(8, unat (du_frameNum u)), (1, of_bool (du_irq u)), (4, sint_bits 4 (du_framebufferIdx u)),
      (1, unat (du_scrollIdx u))]"

definition decode_display :: "u8 list \<Rightarrow> display_update" where
  "decode_display bs =
    (let v = unpack [8, 1, 4, 1] bs
     in \<lparr>du_frameNum = of_nat (v ! 0), du_irq = (v ! 1 \<noteq> 0), du_framebufferIdx = sint_of 4 (v ! 2),
         du_scrollIdx = of_nat (v ! 3)\<rparr>)"

text \<open>
  What a codec of a struct promises: a fixed size, and the value back for the values the struct
  can hold.
\<close>

locale codec =
  fixes enc :: "'a \<Rightarrow> u8 list" and dec :: "u8 list \<Rightarrow> 'a" and size :: nat and wf :: "'a \<Rightarrow> bool"
  assumes enc_size: "wf x \<Longrightarrow> length (enc x) = size"
    and dec_enc: "wf x \<Longrightarrow> dec (enc x) = x"
begin

lemma chunk_enc: "wf x \<Longrightarrow> chunk 0 size (enc x @ ys) = Some (enc x)"
  by (simp add: chunk_front enc_size)

lemma chunk_enc_at: "length xs = off \<Longrightarrow> wf x \<Longrightarrow> chunk off size (xs @ enc x @ ys) = Some (enc x)"
  by (simp add: chunk_at enc_size)

lemma enc_inject: "wf x \<Longrightarrow> wf y \<Longrightarrow> enc x = enc y \<Longrightarrow> x = y"
  by (metis dec_enc)

end

definition CPU_SIZE :: nat where "CPU_SIZE = 26"
definition MEM_SIZE :: nat where "MEM_SIZE = 2"
definition IO_SIZE :: nat where "IO_SIZE = 37"
definition DISPLAY_SIZE :: nat where "DISPLAY_SIZE = 14"

lemmas struct_sizes = CPU_SIZE_def MEM_SIZE_def IO_SIZE_def DISPLAY_SIZE_def

definition sint_fits :: "nat \<Rightarrow> int \<Rightarrow> bool" where
  "sint_fits n z \<longleftrightarrow> - (2 ^ (8 * n - 1)) \<le> z \<and> z < 2 ^ (8 * n - 1)"

definition io_fits :: "io_state \<Rightarrow> bool" where
  "io_fits s \<longleftrightarrow> length (palette s) = 16 \<and> sint_fits 1 (outCommitTimer s) \<and> sint_fits 1 (paletteCommitTimer s) \<and>
    sint_fits 1 (displayModeTimer s)"

definition display_fits :: "display_update \<Rightarrow> bool" where
  "display_fits u \<longleftrightarrow> sint_fits 4 (du_framebufferIdx u)"

section \<open>The codecs keep their promise\<close>

lemma sint_bits_less: "sint_bits n z < 256 ^ n"
  by (simp add: sint_bits_def nat_less_iff)

lemma sint_of_bits:
  assumes "sint_fits n z" "0 < n"
  shows "sint_of n (sint_bits n z) = z"
proof -
  have p: "(256 :: int) ^ n = 2 ^ (8 * n)" by (simp add: power_mult)
  have "Suc (8 * n - 1) = 8 * n" using assms(2) by simp
  then have "signed_take_bit (8 * n - 1) (z mod 2 ^ (8 * n)) = signed_take_bit (8 * n - 1) z"
    by (metis signed_take_bit_take_bit take_bit_eq_mod order_refl min.idem signed_take_bit_eq_iff_take_bit_eq take_bit_take_bit)
  also have "\<dots> = z" using assms(1) by (simp add: sint_fits_def signed_take_bit_int_eq_self)
  finally show ?thesis by (simp add: sint_of_def sint_bits_def p)
qed

lemma word_field: "unat (w :: 'a::len word) < 256 ^ n" if "LENGTH('a) \<le> 8 * n"
proof -
  have "unat w < 2 ^ LENGTH('a)" by (rule unsigned_less)
  also have "\<dots> \<le> 2 ^ (8 * n)" using that by (intro power_increasing) simp_all
  finally show ?thesis by (simp add: power_mult)
qed

lemma word_fields [simp]:
  "unat (a :: u8) < 256" "unat (b :: u16) < 65536" "unat (c :: u32) < 4294967296" "unat (d :: u64) < 18446744073709551616"
  "unat (e :: 4 word) < 16" "unat (f :: 3 word) < 8"
  using unsigned_less [of a] unsigned_less [of b] unsigned_less [of c] unsigned_less [of d] unsigned_less [of e]
    unsigned_less [of f] by simp_all

text \<open>The flags above a field of \<open>k\<close> bits.\<close>

lemma field_below: "n < 2 ^ k \<Longrightarrow> (n + 2 ^ k * y) mod 2 ^ k = n" "n < 2 ^ k \<Longrightarrow> flag (k + j) (n + 2 ^ k * y) = flag j y"
  by (simp_all add: flag_def power_add div_mult2_eq)

lemma flag_bits:
  "flag 0 (of_bool a + 2 * y) = a" "flag (Suc j) (of_bool a + 2 * y) = flag j y"
  "(of_bool a + 2 * y) div 2 = y"
  by (cases a; simp add: flag_def div_mult2_eq)+

lemma bits_byte:
  assumes "n < 16"
  defines "x \<equiv> \<lambda>a b c d. n + 16 * of_bool a + 32 * of_bool b + 64 * of_bool c + 128 * of_bool d"
  shows "x a b c d mod 16 = n" "flag 4 (x a b c d) = a" "flag 5 (x a b c d) = b" "flag 6 (x a b c d) = c"
    "flag 7 (x a b c d) = d" "x a b c d < 256"
proof -
  have x: "x a b c d = n + 2 ^ 4 * (of_bool a + 2 * (of_bool b + 2 * (of_bool c + 2 * (of_bool d + 2 * 0))))"
    by (simp add: x_def)
  have n: "n < 2 ^ 4" using assms(1) by simp
  have "x a b c d mod 2 ^ 4 = n" unfolding x by (rule field_below(1) [OF n])
  then show "x a b c d mod 16 = n" by simp
  have "flag (4 + 0) (x a b c d) = a" "flag (4 + Suc 0) (x a b c d) = b" "flag (4 + Suc (Suc 0)) (x a b c d) = c"
    "flag (4 + Suc (Suc (Suc 0))) (x a b c d) = d"
    unfolding x by (simp_all only: flag_bits field_below(2) [OF n])
  then show "flag 4 (x a b c d) = a" "flag 5 (x a b c d) = b" "flag 6 (x a b c d) = c" "flag 7 (x a b c d) = d"
    by simp_all
  show "x a b c d < 256" using assms(1) by (simp add: x_def)
qed

lemma unpack_pack_of:
  "\<forall>(n, v) \<in> set fs. v < 256 ^ n \<Longrightarrow> map fst fs = ns \<Longrightarrow> unpack ns (pack fs) = map snd fs"
  using unpack_pack by blast

lemma decode_encode_cpu: "decode_cpu (encode_cpu c) = c"
proof -
  have "unpack [8, 2, 2, 1, 1, 2, 2, 2, 1, 1, 1, 2, 1] (pack (cpu_fields c)) = map snd (cpu_fields c)"
    by (rule unpack_pack_of) (simp_all add: cpu_fields_def bits_byte)
  then show ?thesis
    by (simp add: decode_cpu_def encode_cpu_def Let_def) (simp add: cpu_fields_def bits_byte)
qed

interpretation cpu_codec: codec encode_cpu decode_cpu CPU_SIZE "\<lambda>_. True"
  by unfold_locales (simp_all add: decode_encode_cpu, simp add: encode_cpu_def cpu_fields_def CPU_SIZE_def)

lemma bits_ramdisk:
  assumes "n < 8"
  shows "(n + 8 * of_bool a) mod 8 = n" "flag 3 (n + 8 * of_bool a) = a" "n + 8 * of_bool a < 256"
proof -
  have n: "n < 2 ^ 3" and x: "n + 8 * of_bool a = n + 2 ^ 3 * (of_bool a + 2 * 0)" using assms by simp_all
  have "(n + 8 * of_bool a) mod 2 ^ 3 = n" unfolding x by (rule field_below(1) [OF n])
  then show "(n + 8 * of_bool a) mod 8 = n" by simp
  have "flag (3 + 0) (n + 8 * of_bool a) = a" unfolding x by (simp only: field_below(2) [OF n] flag_bits)
  then show "flag 3 (n + 8 * of_bool a) = a" by simp
  show "n + 8 * of_bool a < 256" using assms by (cases a) simp_all
qed

lemma decode_encode_mem: "decode_mem (encode_mem u) = u"
proof -
  have "unpack [1, 1] (encode_mem u) = [unat (upd_mapping u), unat (ramdiskIdx u) + 8 * of_bool (memType u = MT_RAM)]"
    unfolding encode_mem_def by (subst unpack_pack_of) (simp_all add: bits_ramdisk)
  then have "decode_mem (encode_mem u) =
      \<lparr>upd_mapping = upd_mapping u, ramdiskIdx = ramdiskIdx u, memType = (if memType u = MT_RAM then MT_RAM else MT_ROM)\<rparr>"
    by (simp add: decode_mem_def Let_def bits_ramdisk)
  then show ?thesis by (cases "memType u") simp_all
qed

interpretation mem_codec: codec encode_mem decode_mem MEM_SIZE "\<lambda>_. True"
  by unfold_locales (simp_all add: decode_encode_mem, simp add: encode_mem_def MEM_SIZE_def)

lemma bits_mode:
  assumes "n < 16"
  defines "x \<equiv> \<lambda>a b c. of_bool a + 2 * n + 32 * of_bool b + 64 * of_bool c"
  shows "flag 0 (x a b c) = a" "x a b c div 2 mod 16 = n" "flag 5 (x a b c) = b" "flag 6 (x a b c) = c" "x a b c < 256"
proof -
  have n: "n < 2 ^ 4" using assms(1) by simp
  have x: "x a b c = of_bool a + 2 * (n + 2 ^ 4 * (of_bool b + 2 * (of_bool c + 2 * 0)))" by (simp add: x_def)
  show "flag 0 (x a b c) = a" unfolding x by (rule flag_bits)
  have "x a b c div 2 mod 2 ^ 4 = n" unfolding x flag_bits by (rule field_below(1) [OF n])
  then show "x a b c div 2 mod 16 = n" by simp
  have "flag (Suc (4 + 0)) (x a b c) = b" "flag (Suc (4 + Suc 0)) (x a b c) = c"
    unfolding x by (simp_all only: flag_bits field_below(2) [OF n])
  then show "flag 5 (x a b c) = b" "flag 6 (x a b c) = c" by simp_all
  show "x a b c < 256" using assms(1) by (simp add: x_def)
qed

lemma sint_byte [simp]: "sint_bits (Suc 0) z < 256" using sint_bits_less [of 1 z] by simp

lemma decode_encode_io:
  assumes "io_fits s"
  shows "decode_io (encode_io s) = s"
proof -
  have p: "length (palette s) = 16"
    and t: "sint_of 1 (sint_bits 1 (outCommitTimer s)) = outCommitTimer s"
      "sint_of 1 (sint_bits 1 (paletteCommitTimer s)) = paletteCommitTimer s"
      "sint_of 1 (sint_bits 1 (displayModeTimer s)) = displayModeTimer s"
    using assms by (simp_all only: io_fits_def sint_of_bits zero_less_one)
  have u: "unpack [1, 1, 1, 1, 1, 1, 1, 1, 4, 1, 1, 1, 1, 1, 1, 1, 1, 1] (pack (io_fields s)) = map snd (io_fields s)"
    by (rule unpack_pack_of) (simp_all add: io_fields_def bits_mode)
  have "decode_io (encode_io s) = decode_io (palette s @ pack (io_fields s))" by (simp add: encode_io_def)
  also have "\<dots> = s"
    using u p t by (simp add: decode_io_def Let_def) (simp add: io_fields_def bits_mode)
  finally show ?thesis .
qed

interpretation io_codec: codec encode_io decode_io IO_SIZE io_fits
  by unfold_locales (simp_all add: decode_encode_io, simp add: encode_io_def io_fits_def IO_SIZE_def io_fields_def)

lemma decode_encode_display:
  assumes "display_fits u"
  shows "decode_display (encode_display u) = u"
proof -
  have t: "sint_of 4 (sint_bits 4 (du_framebufferIdx u)) = du_framebufferIdx u"
    using assms by (simp add: display_fits_def sint_of_bits)
  show ?thesis
    unfolding decode_display_def encode_display_def
    using sint_bits_less [of 4 "du_framebufferIdx u"]
    by (subst unpack_pack_of) (simp_all add: t Let_def)
qed

interpretation display_codec: codec encode_display decode_display DISPLAY_SIZE display_fits
  by unfold_locales (simp_all add: decode_encode_display, simp add: encode_display_def DISPLAY_SIZE_def)

section \<open>Saving and loading\<close>

definition encode_addrs :: "global_addr list \<Rightarrow> u8 list" where
  "encode_addrs gs = concat (map (\<lambda>g. le_bytes 4 (unat g)) gs)"

fun decode_addrs :: "nat \<Rightarrow> u8 list \<Rightarrow> global_addr list" where
  "decode_addrs 0 bs = []"
| "decode_addrs (Suc n) bs = of_nat (le_value (take 4 bs)) # decode_addrs n (drop 4 bs)"

definition encode_state :: "hw_state \<Rightarrow> u8 list" where
  "encode_state s =
    encode_cpu (cpuState s) @ encode_mem (memState s) @ encode_io (ioState s) @ encode_display (displayState s) @
    le_bytes 4 (length (memWrites s)) @ memWrites s @ memBeforeWrites s @ encode_addrs (globalAddrs s)"

definition first_saved :: "recorder \<Rightarrow> nat" where
  "first_saved r = unat (frame_mod r (m_stateIdx r - m_stateRecorded r + 1))"

definition Serialize :: "recorder \<Rightarrow> u8 list" where
  "Serialize r =
    (if m_stateRecorded r = 0 then []
     else le_bytes 4 (unat (m_version r)) @
       map (\<lambda>i. rec_ram r (of_nat i)) [0..<MEMORY_GLOBAL_LEN] @
       le_bytes 8 (unat (m_stateRecorded r)) @ le_bytes 8 (unat (m_stateCurrent r)) @ [of_bool (m_lastRecord r)] @
       concat (map (\<lambda>i. encode_state (m_states r ! (i mod nat (m_recordFrames r))))
         [first_saved r..<first_saved r + unat (m_stateRecorded r)]))"

text \<open>
  One state of the file; \<^term>\<open>None\<close> where the code reads past the end of the data. A count of
  zero leaves the three vectors as they were.
\<close>

definition HEAD_SIZE :: nat where "HEAD_SIZE = CPU_SIZE + MEM_SIZE + IO_SIZE + DISPLAY_SIZE + 4"

definition read_state :: "u8 list \<Rightarrow> hw_state \<Rightarrow> (hw_state \<times> u8 list) option" where
  "read_state bs s =
    do {
      c \<leftarrow> chunk 0 CPU_SIZE bs;
      m \<leftarrow> chunk CPU_SIZE MEM_SIZE bs;
      x \<leftarrow> chunk (CPU_SIZE + MEM_SIZE) IO_SIZE bs;
      d \<leftarrow> chunk (CPU_SIZE + MEM_SIZE + IO_SIZE) DISPLAY_SIZE bs;
      k \<leftarrow> chunk (CPU_SIZE + MEM_SIZE + IO_SIZE + DISPLAY_SIZE) 4 bs;
      let s1 = s\<lparr>cpuState := decode_cpu c, memState := decode_mem m, ioState := decode_io x,
                 displayState := decode_display d\<rparr>;
          z = sint_of 4 (le_value k); n = nat z
      in if z = 0 then Some (s1, drop HEAD_SIZE bs)
         else if z < 0 then None
         else do {
           w \<leftarrow> chunk HEAD_SIZE n bs;
           b \<leftarrow> chunk (HEAD_SIZE + n) n bs;
           g \<leftarrow> chunk (HEAD_SIZE + n + n) (n * 4) bs;
           Some (s1\<lparr>memWrites := w, memBeforeWrites := b, globalAddrs := decode_addrs n g\<rparr>,
                 drop (HEAD_SIZE + n + n + n * 4) bs)
         }
    }"

fun read_states :: "nat \<Rightarrow> nat \<Rightarrow> u8 list \<Rightarrow> recorder \<Rightarrow> recorder option" where
  "read_states 0 i bs r = Some r"
| "read_states (Suc n) i bs r =
    (let k = i mod nat (m_recordFrames r)
     in case read_state bs (m_states r ! k) of
          None \<Rightarrow> None
        | Some (s, bs1) \<Rightarrow> read_states n (Suc i) bs1 (r\<lparr>m_states := (m_states r)[k := s]\<rparr>))"

text \<open>
  The version and the flag are read as eight bytes though four and one were written, and the
  copy of the RAM ends four bytes short, at \<^verbatim>\<open>_data.begin() + MEMORY_GLOBAL_LEN\<close>.
\<close>

definition Deserialize :: "u8 list \<Rightarrow> recorder \<times> rec_env \<Rightarrow> (recorder \<times> rec_env) option" where
  "Deserialize bs st =
    do {
      let (r, e) = st;
      ver \<leftarrow> chunk 0 8 bs;
      let r1 = r\<lparr>m_version := of_nat (le_value ver)\<rparr>;
      if m_version r1 AND VERSION_MASK \<noteq> REC_VERSION then Some (r1, e)
      else do {
        ram \<leftarrow> chunk 4 (MEMORY_GLOBAL_LEN - 4) bs;
        let r2 = r1\<lparr>rec_ram := (\<lambda>g. if unat g < MEMORY_GLOBAL_LEN - 4 then ram ! unat g else rec_ram r1 g)\<rparr>;
        let e2 = on_ram (\<lambda>m. m\<lparr>m_ram := rec_ram r2\<rparr>) e;
        n \<leftarrow> chunk (4 + MEMORY_GLOBAL_LEN) 8 bs;
        cur \<leftarrow> chunk (12 + MEMORY_GLOBAL_LEN) 8 bs;
        flg \<leftarrow> chunk (20 + MEMORY_GLOBAL_LEN) 8 bs;
        r4 \<leftarrow> read_states (le_value n) 0 (drop (21 + MEMORY_GLOBAL_LEN) bs)
          (r2\<lparr>m_stateRecorded := of_nat (le_value n), m_stateIdx := of_nat (le_value n) - 1,
             m_stateCurrent := of_nat (le_value cur), m_lastRecord := (le_value flg \<noteq> 0)\<rparr>);
        if unat (m_stateIdx r4) < length (m_states r4)
        then (let (r5, e5) = RestoreState (r4, e2) in Some (r5, on_screen (BuffUpdate FRAME_BUFFER) e5))
        else None
      }
    }"

section \<open>What a saved recording gives back\<close>

definition state_fits :: "hw_state \<Rightarrow> bool" where
  "state_fits s \<longleftrightarrow> logs_even s \<and> length (memWrites s) < 2 ^ 31 \<and> io_fits (ioState s) \<and> display_fits (displayState s)"

lemma decode_encode_addrs: "decode_addrs (length gs) (encode_addrs gs) = gs"
  by (induction gs) (simp_all add: encode_addrs_def le_value_bytes)

lemma length_encode_addrs: "length (encode_addrs gs) = length gs * 4"
  by (induction gs) (simp_all add: encode_addrs_def)

lemma count_field: "n < 2 ^ 31 \<Longrightarrow> sint_of 4 (le_value (le_bytes 4 n)) = int n"
  by (simp add: sint_of_def le_value_bytes signed_take_bit_int_eq_self)

text \<open>
  What reading a saved state \<open>s\<close> leaves in a slot that held \<open>t\<close>: the state, but a state with no
  memory writes does not clear the write logs of the slot (\<^verbatim>\<open>if (memUpdates == 0) continue\<close>).
\<close>

definition reloaded :: "hw_state \<Rightarrow> hw_state \<Rightarrow> hw_state" where
  "reloaded s t =
    (if memWrites s = []
     then s\<lparr>memWrites := memWrites t, memBeforeWrites := memBeforeWrites t, globalAddrs := globalAddrs t\<rparr>
     else s)"

lemma reloaded_sel [simp]:
  "cpuState (reloaded s t) = cpuState s" "memState (reloaded s t) = memState s"
  "ioState (reloaded s t) = ioState s" "displayState (reloaded s t) = displayState s"
  by (simp_all add: reloaded_def)

lemma read_encoded_state:
  assumes fits: "state_fits s"
  shows "read_state (encode_state s @ rest) t = Some (reloaded s t, rest)"
proof -
  let ?c = "encode_cpu (cpuState s)" and ?m = "encode_mem (memState s)" and ?x = "encode_io (ioState s)"
    and ?d = "encode_display (displayState s)" and ?n = "length (memWrites s)"
  have len: "length ?c = CPU_SIZE" "length ?m = MEM_SIZE" "length ?x = IO_SIZE" "length ?d = DISPLAY_SIZE"
    using fits by (simp_all add: state_fits_def cpu_codec.enc_size mem_codec.enc_size io_codec.enc_size display_codec.enc_size)
  have dec: "decode_cpu ?c = cpuState s" "decode_mem ?m = memState s" "decode_io ?x = ioState s"
      "decode_display ?d = displayState s"
    using fits by (simp_all add: state_fits_def decode_encode_cpu decode_encode_mem decode_encode_io decode_encode_display)
  have even: "length (memBeforeWrites s) = ?n" "length (globalAddrs s) = ?n" and n: "?n < 2 ^ 31"
    using fits by (simp_all add: state_fits_def logs_even_def)
  define bs where "bs = encode_state s @ rest"
  have bs: "bs = ?c @ ?m @ ?x @ ?d @ le_bytes 4 ?n @ memWrites s @ memBeforeWrites s @ encode_addrs (globalAddrs s) @ rest"
    by (simp add: bs_def encode_state_def)
  have chunks: "chunk 0 CPU_SIZE bs = Some ?c" "chunk CPU_SIZE MEM_SIZE bs = Some ?m"
      "chunk (CPU_SIZE + MEM_SIZE) IO_SIZE bs = Some ?x"
      "chunk (CPU_SIZE + MEM_SIZE + IO_SIZE) DISPLAY_SIZE bs = Some ?d"
      "chunk (CPU_SIZE + MEM_SIZE + IO_SIZE + DISPLAY_SIZE) 4 bs = Some (le_bytes 4 ?n)"
      "chunk HEAD_SIZE ?n bs = Some (memWrites s)" "chunk (HEAD_SIZE + ?n) ?n bs = Some (memBeforeWrites s)"
      "chunk (HEAD_SIZE + ?n + ?n) (?n * 4) bs = Some (encode_addrs (globalAddrs s))"
    by (simp_all add: bs HEAD_SIZE_def chunk_past chunk_front len even length_encode_addrs add.assoc)
  have drops: "drop HEAD_SIZE bs = memWrites s @ memBeforeWrites s @ encode_addrs (globalAddrs s) @ rest"
      "drop (6 * ?n + HEAD_SIZE) bs = rest"
    by (simp_all add: bs HEAD_SIZE_def len even length_encode_addrs)
  have addrs: "decode_addrs ?n (encode_addrs (globalAddrs s)) = globalAddrs s"
    using decode_encode_addrs [of "globalAddrs s"] by (simp add: even)
  have count: "sint_of 4 (le_value (le_bytes 4 ?n)) = int ?n" by (rule count_field [OF n])
  have "read_state bs t = Some (reloaded s t, rest)"
  proof (cases "?n = 0")
    case True
    then have "memWrites s = []" "memBeforeWrites s = []" "globalAddrs s = []" using even by simp_all
    then have "t\<lparr>cpuState := cpuState s, memState := memState s, ioState := ioState s, displayState := displayState s\<rparr> =
        reloaded s t"
      "drop HEAD_SIZE bs = rest"
      using drops(1) by (simp_all add: encode_addrs_def reloaded_def)
    then show ?thesis using count True unfolding read_state_def chunks bind.bind_lunit Let_def dec by simp
  next
    case False
    have "t\<lparr>cpuState := cpuState s, memState := memState s, ioState := ioState s, displayState := displayState s,
        memWrites := memWrites s, memBeforeWrites := memBeforeWrites s, globalAddrs := globalAddrs s\<rparr> =
        reloaded s t"
      using False by (simp add: reloaded_def)
    then show ?thesis using False drops(2) by (simp add: read_state_def chunks count Let_def dec addrs)
  qed
  then show ?thesis by (simp add: bs_def)
qed

lemma read_encoded_states:
  assumes "i + length ss \<le> nat (m_recordFrames r)" "length (m_states r) = nat (m_recordFrames r)"
    "\<forall>s \<in> set ss. state_fits s"
  shows "read_states (length ss) i (concat (map encode_state ss) @ rest) r =
    Some (r\<lparr>m_states := take i (m_states r) @ map2 reloaded ss (drop i (m_states r)) @
      drop (i + length ss) (m_states r)\<rparr>)"
  using assms
proof (induction ss arbitrary: i r)
  case (Cons s ss)
  have i: "i mod nat (m_recordFrames r) = i" "i < length (m_states r)" using Cons.prems by simp_all
  let ?s = "reloaded s (m_states r ! i)"
  let ?r = "r\<lparr>m_states := (m_states r)[i := ?s]\<rparr>"
  have rd: "read_state (encode_state s @ concat (map encode_state ss) @ rest) (m_states r ! i) =
      Some (?s, concat (map encode_state ss) @ rest)"
    using Cons.prems(3) by (intro read_encoded_state) simp
  have "read_states (length ss) (Suc i) (concat (map encode_state ss) @ rest) ?r =
      Some (?r\<lparr>m_states := take (Suc i) (m_states ?r) @ map2 reloaded ss (drop (Suc i) (m_states ?r)) @
        drop (Suc i + length ss) (m_states ?r)\<rparr>)"
    using Cons.prems by (intro Cons.IH) auto
  with rd i show ?case by (simp add: Let_def take_Suc_conv_app_nth Cons_nth_drop_Suc [symmetric])
qed simp

definition saved_states :: "recorder \<Rightarrow> hw_state list" where
  "saved_states r =
    map (\<lambda>k. m_states r ! (unat (m_stateIdx r) + 1 - unat (m_stateRecorded r) + k)) [0..<unat (m_stateRecorded r)]"

definition savable :: "recorder \<Rightarrow> bool" where
  "savable r \<longleftrightarrow> rec_shape r \<and> m_version r AND VERSION_MASK = REC_VERSION \<and> unat (m_stateIdx r) < nat (m_recordFrames r) \<and>
    0 < unat (m_stateRecorded r) \<and> unat (m_stateRecorded r) \<le> unat (m_stateIdx r) + 1 \<and>
    (\<forall>s \<in> set (saved_states r). state_fits s)"

definition loadable :: "recorder \<Rightarrow> recorder \<Rightarrow> bool" where
  "loadable r r' \<longleftrightarrow> length (m_states r') = nat (m_recordFrames r') \<and>
    unat (m_stateRecorded r) \<le> nat (m_recordFrames r')"

lemma unat_suc_less: "unat (x :: u64) < 3000 \<Longrightarrow> unat (x + 1) = unat x + 1"
  by (simp add: unat_word_ariths)

lemma first_saved_eq:
  assumes "savable r"
  shows "first_saved r = unat (m_stateIdx r) + 1 - unat (m_stateRecorded r)"
proof -
  have idx: "unat (m_stateIdx r) < nat (m_recordFrames r)" "unat (m_stateIdx r) < 3000"
    using assms by (auto simp: savable_def rec_shape_def RECORD_FRAMES_MAX_def FRAMES_PER_SEC_def)
  have eq: "m_stateIdx r - m_stateRecorded r + 1 = (m_stateIdx r + 1) - m_stateRecorded r" by simp
  have "unat (m_stateIdx r - m_stateRecorded r + 1) = unat (m_stateIdx r) + 1 - unat (m_stateRecorded r)"
    unfolding eq using assms unat_suc_less [OF idx(2)] by (subst unat_sub) (auto simp: savable_def word_le_nat_alt)
  moreover have "unat (m_stateIdx r) + 1 - unat (m_stateRecorded r) < nat (m_recordFrames r)"
    using assms by (auto simp: savable_def)
  ultimately show ?thesis
    using assms by (simp add: first_saved_def frame_mod_nat savable_def)
qed

lemma map_upt_shift: "map g [b..<b + n] = map (\<lambda>k. g (b + k)) [0..<n]"
  by (induction n) simp_all

lemma Serialize_eq:
  assumes "savable r"
  shows "Serialize r = le_bytes 4 (unat (m_version r)) @ map (\<lambda>i. rec_ram r (of_nat i)) [0..<MEMORY_GLOBAL_LEN] @
    le_bytes 8 (unat (m_stateRecorded r)) @ le_bytes 8 (unat (m_stateCurrent r)) @ [of_bool (m_lastRecord r)] @
    concat (map encode_state (saved_states r))"
proof -
  let ?b = "unat (m_stateIdx r) + 1 - unat (m_stateRecorded r)" and ?n = "unat (m_stateRecorded r)"
  have "(?b + k) mod nat (m_recordFrames r) = ?b + k" if "k < ?n" for k
    using assms that by (auto simp: savable_def)
  then have "map (\<lambda>i. encode_state (m_states r ! (i mod nat (m_recordFrames r)))) [?b..<?b + ?n] =
      map (\<lambda>k. encode_state (m_states r ! (?b + k))) [0..<?n]"
    unfolding map_upt_shift by simp
  moreover have "m_stateRecorded r \<noteq> 0" using assms by (auto simp: savable_def)
  ultimately show ?thesis
    unfolding Serialize_def first_saved_eq [OF assms] by (simp add: saved_states_def comp_def)
qed

lemma version_read: "word_of_nat (le_value (le_bytes 4 (unat v) @ xs)) = (v :: u32)"
proof -
  have "le_value (le_bytes 4 (unat v) @ xs) = unat v + 2 ^ 32 * le_value xs"
    by (simp add: le_value_append le_value_bytes)
  then show ?thesis by (simp add: word_unat_eq_iff unsigned_of_nat take_bit_eq_mod del: of_nat_add of_nat_mult)
qed

lemma take_le_bytes: "k \<le> n \<Longrightarrow> take k (le_bytes n x) = le_bytes k x"
proof (induction n arbitrary: k x)
  case (Suc n)
  then show ?case by (cases k) simp_all
qed simp

lemma cpu_head: "take 7 (encode_cpu c @ xs) = le_bytes 7 (unat (r_cc c))"
  by (simp add: encode_cpu_def pack_def cpu_fields_def take_le_bytes)

lemma flag_read:
  "le_value ([of_bool b] @ le_bytes 7 n) \<noteq> 0 \<longleftrightarrow> b \<or> n mod 256 ^ 7 \<noteq> 0"
  by (cases b) (simp_all add: le_value_mod)

lemma map2_reloaded:
  assumes "\<forall>t \<in> set ts. memWrites t = [] \<and> memBeforeWrites t = [] \<and> globalAddrs t = []"
    "\<forall>s \<in> set ss. logs_even s" "length ss \<le> length ts"
  shows "map2 reloaded ss ts = ss"
  using assms
proof (induction ss arbitrary: ts)
  case (Cons s ss)
  then show ?case by (cases ts) (auto simp: reloaded_def logs_even_def)
qed simp

text \<open>C38: A recording that was saved at its end, and whose buffer had not wrapped, loads into any
  recorder whose buffer has room for its states, whatever it held: the states return in order, the
  machine is put into the newest of them, and the RAM is the saved one but for its last four bytes,
  which keep what the loading recorder held. The write logs of a state return too, except that a
  state without memory writes keeps the logs its slot held before; into a recorder with empty logs
  the states return as they were saved. The flag \<^verbatim>\<open>m_lastRecord\<close> is read together with seven
  bytes of the first state's cycle counter.\<close>

theorem recording_roundtrip:
  assumes sv: "savable r" and ld: "loadable r r'"
  shows "\<exists>r2 e2. Deserialize (Serialize r) (r', e) = Some (r2, e2) \<and>
    take (unat (m_stateRecorded r)) (m_states r2) = map2 reloaded (saved_states r) (m_states r') \<and>
    drop (unat (m_stateRecorded r)) (m_states r2) = drop (unat (m_stateRecorded r)) (m_states r') \<and>
    ((\<forall>t \<in> set (m_states r'). memWrites t = [] \<and> memBeforeWrites t = [] \<and> globalAddrs t = []) \<longrightarrow>
      map2 reloaded (saved_states r) (m_states r') = saved_states r) \<and>
    m_stateRecorded r2 = m_stateRecorded r \<and> m_stateCurrent r2 = m_stateCurrent r \<and> m_stateIdx r2 = m_stateRecorded r - 1 \<and>
    m_lastRecord r2 = (m_lastRecord r \<or> unat (r_cc (cpuState (hd (saved_states r)))) mod 256 ^ 7 \<noteq> 0) \<and>
    snapshot_of e2 = (cpuState (cur_state r), memState (cur_state r), ioState (cur_state r), displayState (cur_state r),
      \<lambda>g. if unat g < MEMORY_GLOBAL_LEN - 4 then rec_ram r g else rec_ram r' g)"
proof -
  define L where "L = MEMORY_GLOBAL_LEN"
  have L: "4 \<le> L" by (simp add: L_def mem_consts)
  let ?n = "unat (m_stateRecorded r)"
  define ram where "ram = map (\<lambda>i. rec_ram r (of_nat i)) [0..<L]"
  define body where "body = concat (map encode_state (saved_states r))"
  define bs where "bs = Serialize r"
  have bs: "bs = le_bytes 4 (unat (m_version r)) @ ram @ le_bytes 8 ?n @ le_bytes 8 (unat (m_stateCurrent r)) @
      [of_bool (m_lastRecord r)] @ body"
    by (simp add: bs_def Serialize_eq [OF sv] ram_def L_def body_def)
  have len: "length ram = L" by (simp add: ram_def)
  have n: "0 < ?n" "?n \<le> unat (m_stateIdx r) + 1" "unat (m_stateIdx r) < nat (m_recordFrames r)"
    and ver: "m_version r AND VERSION_MASK = REC_VERSION" and fits: "\<forall>s \<in> set (saved_states r). state_fits s"
    using sv by (auto simp: savable_def)
  have ss: "length (saved_states r) = ?n" "saved_states r \<noteq> []" using n(1) by (auto simp: saved_states_def)
  obtain s0 ss' where s0: "saved_states r = s0 # ss'" using ss(2) by (cases "saved_states r") auto
  define tail where "tail = encode_mem (memState s0) @ encode_io (ioState s0) @ encode_display (displayState s0) @
    le_bytes 4 (length (memWrites s0)) @ memWrites s0 @ memBeforeWrites s0 @ encode_addrs (globalAddrs s0) @
    concat (map encode_state ss')"
  have body: "body = encode_cpu (cpuState s0) @ tail" by (simp add: body_def s0 encode_state_def tail_def)
  have cpu: "length (encode_cpu (cpuState s0)) = 26" using cpu_codec.enc_size [of "cpuState s0"] by (simp add: CPU_SIZE_def)
  have c8: "chunk 0 8 bs = Some (le_bytes 4 (unat (m_version r)) @ take 4 ram)"
    using L by (simp add: chunk_def bs len)
  have cram: "chunk 4 (L - 4) bs = Some (take (L - 4) ram)"
    using L by (simp add: chunk_def bs len)
  have cn: "chunk (4 + L) 8 bs = Some (le_bytes 8 ?n)" "chunk (12 + L) 8 bs = Some (le_bytes 8 (unat (m_stateCurrent r)))"
    by (simp_all add: bs chunk_past chunk_front len)
  have cf: "chunk (20 + L) 8 bs = Some ([of_bool (m_lastRecord r)] @ le_bytes 7 (unat (r_cc (cpuState s0))))"
    using cpu_head [of "cpuState s0" tail] cpu
    by (simp add: bs chunk_past len) (simp add: chunk_def body)
  have rest: "drop (21 + L) bs = body" by (simp add: bs len)
  define r1 where "r1 = r'\<lparr>m_version := m_version r\<rparr>"
  define R where "R = (\<lambda>g. if unat g < L - 4 then rec_ram r g else rec_ram r' g)"
  have R: "(\<lambda>g. if unat g < L - 4 then take (L - 4) ram ! unat g else rec_ram r' g) = R"
    by (auto simp: R_def ram_def fun_eq_iff)
  define r3 where "r3 = r1\<lparr>rec_ram := R, m_stateRecorded := m_stateRecorded r, m_stateIdx := m_stateRecorded r - 1,
    m_stateCurrent := m_stateCurrent r,
    m_lastRecord := (m_lastRecord r \<or> unat (r_cc (cpuState s0)) mod 256 ^ 7 \<noteq> 0)\<rparr>"
  define ls where "ls = map2 reloaded (saved_states r) (m_states r')"
  have room: "?n \<le> length (m_states r')" using ld by (simp add: loadable_def)
  then have ls: "length ls = ?n" using ss(1) by (simp add: ls_def)
  define r4 where "r4 = r3\<lparr>m_states := ls @ drop ?n (m_states r3)\<rparr>"
  have rs: "read_states ?n 0 body r3 = Some r4"
    using read_encoded_states [of 0 "saved_states r" r3 "[]"] ld fits n ss
    by (auto simp: body_def r4_def r3_def r1_def ls_def loadable_def)
  have idx: "unat (m_stateIdx r4) = ?n - 1" using n(1) by (simp add: r4_def r3_def unat_pred)
  then have cs: "cur_state r4 = reloaded (cur_state r) (m_states r' ! (?n - 1))"
      "unat (m_stateIdx r4) < length (m_states r4)"
    using n(1,2) ss(1) ls room by (simp_all add: cur_state_def r4_def nth_append ls_def saved_states_def)
  define e2 where "e2 = on_ram (\<lambda>m. m\<lparr>m_ram := R\<rparr>) e"
  obtain r5 e5 where r5: "RestoreState (r4, e2) = (r5, e5)" by (metis surj_pair)
  have e5: "e5 = put_hw_state (reloaded (cur_state r) (m_states r' ! (?n - 1))) e2" and r5': "r5 = r4\<lparr>rec_ram := m_ram (mem (fst e5))\<rparr>"
    using r5 by (auto simp: RestoreState_def cs Let_def)
  have ds: "Deserialize bs (r', e) = Some (r5, on_screen (BuffUpdate FRAME_BUFFER) e5)"
    unfolding Deserialize_def L_def [symmetric]
    using c8 cram cn cf rest version_read [of "m_version r" "take 4 ram"] ver rs R r5 cs(2)
      flag_read [of "m_lastRecord r" "unat (r_cc (cpuState s0))"]
    by (simp add: Let_def r1_def [symmetric] r3_def [simplified, symmetric] e2_def [symmetric] le_value_bytes cong: if_cong)
  have snap: "snapshot_of e5 = (cpuState (cur_state r), memState (cur_state r), ioState (cur_state r),
      displayState (cur_state r), R)"
    by (cases e) (simp add: e5 e2_def put_hw_state_def on_ram_def snapshot_of_def put_display_update_def display_update_of_def)
  show ?thesis
  proof (intro exI conjI)
    show "Deserialize (Serialize r) (r', e) = Some (r5, on_screen (BuffUpdate FRAME_BUFFER) e5)"
      using ds by (simp add: bs_def)
    show "take ?n (m_states r5) = map2 reloaded (saved_states r) (m_states r')"
      "drop ?n (m_states r5) = drop ?n (m_states r')"
      using ls by (simp_all add: r5' r4_def r3_def r1_def ls_def)
    show "(\<forall>t \<in> set (m_states r'). memWrites t = [] \<and> memBeforeWrites t = [] \<and> globalAddrs t = []) \<longrightarrow>
        map2 reloaded (saved_states r) (m_states r') = saved_states r"
      using map2_reloaded [of "m_states r'" "saved_states r"] room ss(1) fits by (auto simp: state_fits_def)
  qed (simp_all add: r5' r4_def r3_def s0 snap R_def L_def)
qed

definition sample_start :: rec_env where
  "sample_start =
    (case sample_frame 7 1 of (mc, d) \<Rightarrow>
      (mc\<lparr>io := (io mc)\<lparr>io_st := (io_st (io mc))\<lparr>palette := replicate 16 0\<rparr>\<rparr>\<rparr>, d))"

definition sample_recorder :: recorder where
  "sample_recorder = Recorder_Reset sample_start (Recorder_new 8 (captured sample_start))"

lemma sample_recorder_facts:
  "m_recordFrames sample_recorder = 8" "m_stateIdx sample_recorder = 1" "m_stateRecorded sample_recorder = 1"
  "m_version sample_recorder = 1" "length (m_states sample_recorder) = 8"
  "m_states sample_recorder ! Suc 0 = captured sample_start"
  "\<forall>s \<in> set (m_states sample_recorder). memWrites s = [] \<and> memBeforeWrites s = [] \<and> globalAddrs s = []"
  "rec_ram sample_recorder 0x100 = 1"
proof -
  have fm: "frame_mod (r\<lparr>m_stateIdx := i, m_stateRecorded := a, m_stateCurrent := b, m_lastRecord := c, m_frameNum := d\<rparr>) 1 = 1"
    if "m_recordFrames r = 8" for r i a b c d using that by (simp add: frame_mod_def)
  have new: "m_recordFrames (Recorder_new 8 s) = 8" "length (m_states (Recorder_new 8 s)) = 8" "m_version (Recorder_new 8 s) = 1"
    "\<forall>s \<in> set (m_states (Recorder_new 8 s)). memWrites s = [] \<and> memBeforeWrites s = [] \<and> globalAddrs s = []" for s
    by (auto simp: Recorder_new_def RECORD_FRAMES_MAX_def FRAMES_PER_SEC_def Let_def REC_VERSION_def)
  obtain mc d where e: "sample_start = (mc, d)" by (metis surj_pair)
  have ram: "m_ram (mem mc) 0x100 = 1"
    using arg_cong [OF e, of "\<lambda>e. m_ram (mem (fst e)) 0x100"] by (simp add: sample_start_def sample_frame_def)
  note defs = sample_recorder_def Recorder_Reset_def StoreState_def Let_def
  show "m_recordFrames sample_recorder = 8" "m_stateIdx sample_recorder = 1" "m_stateRecorded sample_recorder = 1"
    "m_version sample_recorder = 1" "length (m_states sample_recorder) = 8"
    "m_states sample_recorder ! Suc 0 = captured sample_start" "rec_ram sample_recorder 0x100 = 1"
    using ram by (simp_all add: defs e fm new)
  have "set ((m_states (Recorder_new 8 s))[1 := c]) \<subseteq> insert c (set (m_states (Recorder_new 8 s)))" for s c
    by (rule set_update_subset_insert)
  moreover have "m_states sample_recorder = (m_states (Recorder_new 8 (captured sample_start)))[1 := captured sample_start]"
    by (simp add: defs e fm new)
  ultimately show "\<forall>s \<in> set (m_states sample_recorder). memWrites s = [] \<and> memBeforeWrites s = [] \<and> globalAddrs s = []"
    using new(4) by (fastforce simp: captured_def e)
qed

lemma sample_recorder_saves: "savable sample_recorder" "loadable sample_recorder sample_recorder"
proof -
  have "state_fits (captured sample_start)"
    by (simp add: state_fits_def captured_def sample_start_def sample_frame_def logs_even_def io_fits_def sint_fits_def
        display_fits_def display_update_of_def sample_io_def IO_Init_def Let_def upd_io_def)
  then show "savable sample_recorder"
    using sample_recorder_facts
    by (simp add: savable_def saved_states_def rec_shape_def RECORD_FRAMES_MAX_def FRAMES_PER_SEC_def VERSION_MASK_def REC_VERSION_def)
  show "loadable sample_recorder sample_recorder" using sample_recorder_facts by (simp add: loadable_def)
qed

theorem recording_roundtrip_witness:
  "\<exists>r2 e2. Deserialize (Serialize sample_recorder) (sample_recorder, sample_start) = Some (r2, e2) \<and>
    snap_ram (snapshot_of e2) 0x100 = 1"
proof -
  have "(0x100 :: nat) < MEMORY_GLOBAL_LEN - 4" by (simp add: mem_consts)
  then show ?thesis
    using recording_roundtrip [OF sample_recorder_saves, of sample_start] sample_recorder_facts(8)
    by (force simp: snap_ram_def)
qed

end
