(* ===== verification/Req_Codes.thy ===== *)
theory Req_Codes
  imports Main
begin

text \<open>
  The codes of the requests (\<^verbatim>\<open>core/hardware_consts.h\<close>), by which the commands of the wire
  protocol and the calls of \<^verbatim>\<open>Hardware::Request\<close> name them.
\<close>

definition Req_NONE :: int where "Req_NONE = 0"
definition Req_RUN :: int where "Req_RUN = 1"
definition Req_STOP :: int where "Req_STOP = 2"
definition Req_IS_RUNNING :: int where "Req_IS_RUNNING = 3"
definition Req_EXIT :: int where "Req_EXIT = 4"
definition Req_RESET :: int where "Req_RESET = 5"
definition Req_RESTART :: int where "Req_RESTART = 6"
definition Req_EXECUTE_INSTR :: int where "Req_EXECUTE_INSTR = 7"
definition Req_EXECUTE_FRAME :: int where "Req_EXECUTE_FRAME = 8"
definition Req_EXECUTE_FRAME_NO_BREAKS :: int where "Req_EXECUTE_FRAME_NO_BREAKS = 9"
definition Req_GET_CC :: int where "Req_GET_CC = 10"
definition Req_GET_REGS :: int where "Req_GET_REGS = 11"
definition Req_GET_REG_PC :: int where "Req_GET_REG_PC = 12"
definition Req_GET_BYTE_GLOBAL :: int where "Req_GET_BYTE_GLOBAL = 13"
definition Req_GET_BYTE_RAM :: int where "Req_GET_BYTE_RAM = 14"
definition Req_GET_THREE_BYTES_RAM :: int where "Req_GET_THREE_BYTES_RAM = 15"
definition Req_GET_MEM_STRING_GLOBAL :: int where "Req_GET_MEM_STRING_GLOBAL = 16"
definition Req_GET_WORD_STACK :: int where "Req_GET_WORD_STACK = 17"
definition Req_GET_STACK_SAMPLE :: int where "Req_GET_STACK_SAMPLE = 18"
definition Req_GET_DISPLAY_DATA :: int where "Req_GET_DISPLAY_DATA = 19"
definition Req_GET_MEMORY_MAPPING :: int where "Req_GET_MEMORY_MAPPING = 20"
definition Req_GET_MEMORY_MAPPINGS :: int where "Req_GET_MEMORY_MAPPINGS = 21"
definition Req_GET_GLOBAL_ADDR_RAM :: int where "Req_GET_GLOBAL_ADDR_RAM = 22"
definition Req_GET_FDC_INFO :: int where "Req_GET_FDC_INFO = 23"
definition Req_GET_FDD_INFO :: int where "Req_GET_FDD_INFO = 24"
definition Req_GET_FDD_IMAGE :: int where "Req_GET_FDD_IMAGE = 25"
definition Req_GET_RUSLAT_HISTORY :: int where "Req_GET_RUSLAT_HISTORY = 26"
definition Req_GET_SCROLL_VERT :: int where "Req_GET_SCROLL_VERT = 27"
definition Req_GET_STEP_OVER_ADDR :: int where "Req_GET_STEP_OVER_ADDR = 28"
definition Req_GET_IO_PORTS :: int where "Req_GET_IO_PORTS = 29"
definition Req_GET_IO_PORTS_IN_DATA :: int where "Req_GET_IO_PORTS_IN_DATA = 30"
definition Req_GET_IO_PORTS_OUT_DATA :: int where "Req_GET_IO_PORTS_OUT_DATA = 31"
definition Req_GET_IO_DISPLAY_MODE :: int where "Req_GET_IO_DISPLAY_MODE = 32"
definition Req_GET_IO_PALETTE :: int where "Req_GET_IO_PALETTE = 33"
definition Req_GET_IO_PALETTE_COMMIT_TIME :: int where "Req_GET_IO_PALETTE_COMMIT_TIME = 34"
definition Req_SET_IO_PALETTE_COMMIT_TIME :: int where "Req_SET_IO_PALETTE_COMMIT_TIME = 35"
definition Req_GET_DISPLAY_BORDER_LEFT :: int where "Req_GET_DISPLAY_BORDER_LEFT = 36"
definition Req_SET_DISPLAY_BORDER_LEFT :: int where "Req_SET_DISPLAY_BORDER_LEFT = 37"
definition Req_GET_DISPLAY_IRQ_COMMIT_PXL :: int where "Req_GET_DISPLAY_IRQ_COMMIT_PXL = 38"
definition Req_SET_DISPLAY_IRQ_COMMIT_PXL :: int where "Req_SET_DISPLAY_IRQ_COMMIT_PXL = 39"
definition Req_SET_FRAME_MODE :: int where "Req_SET_FRAME_MODE = 40"
definition Req_SET_COLOR_FORMAT :: int where "Req_SET_COLOR_FORMAT = 41"
definition Req_SET_MEM :: int where "Req_SET_MEM = 42"
definition Req_SET_BYTE_GLOBAL :: int where "Req_SET_BYTE_GLOBAL = 43"
definition Req_SET_CPU_SPEED :: int where "Req_SET_CPU_SPEED = 44"
definition Req_GET_HW_MAIN_STATS :: int where "Req_GET_HW_MAIN_STATS = 45"
definition Req_IS_MEMROM_ENABLED :: int where "Req_IS_MEMROM_ENABLED = 46"
definition Req_KEY_HANDLING :: int where "Req_KEY_HANDLING = 47"
definition Req_LOAD_FDD :: int where "Req_LOAD_FDD = 48"
definition Req_RESET_UPDATE_FDD :: int where "Req_RESET_UPDATE_FDD = 49"
definition Req_RUN_HEADLESS :: int where "Req_RUN_HEADLESS = 50"
definition Req_DEBUG_ATTACH :: int where "Req_DEBUG_ATTACH = 51"
definition Req_DEBUG_RESET :: int where "Req_DEBUG_RESET = 52"
definition Req_DEBUG_RECORDER_RESET :: int where "Req_DEBUG_RECORDER_RESET = 53"
definition Req_DEBUG_RECORDER_PLAY_FORWARD :: int where "Req_DEBUG_RECORDER_PLAY_FORWARD = 54"
definition Req_DEBUG_RECORDER_PLAY_REVERSE :: int where "Req_DEBUG_RECORDER_PLAY_REVERSE = 55"
definition Req_DEBUG_RECORDER_GET_STATE_RECORDED :: int where "Req_DEBUG_RECORDER_GET_STATE_RECORDED = 56"
definition Req_DEBUG_RECORDER_GET_STATE_CURRENT :: int where "Req_DEBUG_RECORDER_GET_STATE_CURRENT = 57"
definition Req_DEBUG_RECORDER_SERIALIZE :: int where "Req_DEBUG_RECORDER_SERIALIZE = 58"
definition Req_DEBUG_RECORDER_DESERIALIZE :: int where "Req_DEBUG_RECORDER_DESERIALIZE = 59"
definition Req_DEBUG_BREAKPOINT_ADD :: int where "Req_DEBUG_BREAKPOINT_ADD = 60"
definition Req_DEBUG_BREAKPOINT_DEL :: int where "Req_DEBUG_BREAKPOINT_DEL = 61"
definition Req_DEBUG_BREAKPOINT_DEL_ALL :: int where "Req_DEBUG_BREAKPOINT_DEL_ALL = 62"
definition Req_DEBUG_BREAKPOINT_GET_STATUS :: int where "Req_DEBUG_BREAKPOINT_GET_STATUS = 63"
definition Req_DEBUG_BREAKPOINT_SET_STATUS :: int where "Req_DEBUG_BREAKPOINT_SET_STATUS = 64"
definition Req_DEBUG_BREAKPOINT_ACTIVE :: int where "Req_DEBUG_BREAKPOINT_ACTIVE = 65"
definition Req_DEBUG_BREAKPOINT_DISABLE :: int where "Req_DEBUG_BREAKPOINT_DISABLE = 66"
definition Req_DEBUG_BREAKPOINT_GET_ALL :: int where "Req_DEBUG_BREAKPOINT_GET_ALL = 67"
definition Req_DEBUG_BREAKPOINT_GET_UPDATES :: int where "Req_DEBUG_BREAKPOINT_GET_UPDATES = 68"
definition Req_DEBUG_WATCHPOINT_ADD :: int where "Req_DEBUG_WATCHPOINT_ADD = 69"
definition Req_DEBUG_WATCHPOINT_DEL_ALL :: int where "Req_DEBUG_WATCHPOINT_DEL_ALL = 70"
definition Req_DEBUG_WATCHPOINT_DEL :: int where "Req_DEBUG_WATCHPOINT_DEL = 71"
definition Req_DEBUG_WATCHPOINT_GET_UPDATES :: int where "Req_DEBUG_WATCHPOINT_GET_UPDATES = 72"
definition Req_DEBUG_WATCHPOINT_GET_ALL :: int where "Req_DEBUG_WATCHPOINT_GET_ALL = 73"
definition Req_DEBUG_MEMORY_EDIT_ADD :: int where "Req_DEBUG_MEMORY_EDIT_ADD = 74"
definition Req_DEBUG_MEMORY_EDIT_DEL_ALL :: int where "Req_DEBUG_MEMORY_EDIT_DEL_ALL = 75"
definition Req_DEBUG_MEMORY_EDIT_DEL :: int where "Req_DEBUG_MEMORY_EDIT_DEL = 76"
definition Req_DEBUG_MEMORY_EDIT_GET :: int where "Req_DEBUG_MEMORY_EDIT_GET = 77"
definition Req_DEBUG_MEMORY_EDIT_EXISTS :: int where "Req_DEBUG_MEMORY_EDIT_EXISTS = 78"
definition Req_DEBUG_CODE_PERF_ADD :: int where "Req_DEBUG_CODE_PERF_ADD = 79"
definition Req_DEBUG_CODE_PERF_DEL_ALL :: int where "Req_DEBUG_CODE_PERF_DEL_ALL = 80"
definition Req_DEBUG_CODE_PERF_DEL :: int where "Req_DEBUG_CODE_PERF_DEL = 81"
definition Req_DEBUG_CODE_PERF_GET :: int where "Req_DEBUG_CODE_PERF_GET = 82"
definition Req_DEBUG_CODE_PERF_EXISTS :: int where "Req_DEBUG_CODE_PERF_EXISTS = 83"
definition Req_DEBUG_SCRIPT_ADD :: int where "Req_DEBUG_SCRIPT_ADD = 84"
definition Req_DEBUG_SCRIPT_DEL_ALL :: int where "Req_DEBUG_SCRIPT_DEL_ALL = 85"
definition Req_DEBUG_SCRIPT_DEL :: int where "Req_DEBUG_SCRIPT_DEL = 86"
definition Req_DEBUG_SCRIPT_GET_ALL :: int where "Req_DEBUG_SCRIPT_GET_ALL = 87"
definition Req_DEBUG_SCRIPT_GET_UPDATES :: int where "Req_DEBUG_SCRIPT_GET_UPDATES = 88"
definition Req_DEBUG_TRACE_LOG_SAVE_ENABLE :: int where "Req_DEBUG_TRACE_LOG_SAVE_ENABLE = 89"
definition Req_DEBUG_TRACE_LOG_SAVE_DISABLE :: int where "Req_DEBUG_TRACE_LOG_SAVE_DISABLE = 90"
definition Req_LOAD_ROM :: int where "Req_LOAD_ROM = 91"
definition Req_MOUNT_FDD :: int where "Req_MOUNT_FDD = 92"
definition Req_GET_MEM :: int where "Req_GET_MEM = 93"
definition Req_DEBUG_WATCHPOINT_EDIT :: int where "Req_DEBUG_WATCHPOINT_EDIT = 94"
definition Req_GET_STOP_RECORD :: int where "Req_GET_STOP_RECORD = 95"
definition Req_GET_HARDWARE_STATS :: int where "Req_GET_HARDWARE_STATS = 96"
definition Req_SET_IO_PALETTE_ENTRY :: int where "Req_SET_IO_PALETTE_ENTRY = 97"
definition Req_DISMOUNT_FDD :: int where "Req_DISMOUNT_FDD = 98"
definition Req_DEBUG_MEMORY_EDIT_GET_ALL :: int where "Req_DEBUG_MEMORY_EDIT_GET_ALL = 99"
definition Req_DEBUG_MEMORY_EDIT_RESTORE :: int where "Req_DEBUG_MEMORY_EDIT_RESTORE = 100"
definition Req_DEBUG_CODE_PERF_GET_ALL :: int where "Req_DEBUG_CODE_PERF_GET_ALL = 101"
definition Req_DEBUG_CODE_PERF_EDIT :: int where "Req_DEBUG_CODE_PERF_EDIT = 102"
definition Req_DEBUG_TRACE_LOG_FILTER :: int where "Req_DEBUG_TRACE_LOG_FILTER = 103"
definition Req_DEBUG_TRACE_LOG_WINDOW :: int where "Req_DEBUG_TRACE_LOG_WINDOW = 104"
definition Req_DEBUG_SCRIPT_EDIT :: int where "Req_DEBUG_SCRIPT_EDIT = 105"
definition Req_DEBUG_SCRIPT_COMPILE :: int where "Req_DEBUG_SCRIPT_COMPILE = 106"
definition Req_DEBUG_SCRIPT_RUN_ONCE :: int where "Req_DEBUG_SCRIPT_RUN_ONCE = 107"
definition Req_DEBUG_SCRIPT_DISABLE :: int where "Req_DEBUG_SCRIPT_DISABLE = 108"
definition Req_DEBUG_SCRIPT_DISABLE_ALL :: int where "Req_DEBUG_SCRIPT_DISABLE_ALL = 109"
definition Req_DEBUG_SCRIPT_OVERLAY_GET :: int where "Req_DEBUG_SCRIPT_OVERLAY_GET = 110"
definition Req_DEBUG_HISTORY_CALLER :: int where "Req_DEBUG_HISTORY_CALLER = 111"
definition Req_DEBUG_HISTORY_SUCCESSOR :: int where "Req_DEBUG_HISTORY_SUCCESSOR = 112"
definition Req_INTERNAL_BEGIN_SESSION :: int where "Req_INTERNAL_BEGIN_SESSION = 1001"
definition Req_INTERNAL_REAPPLY_MEMORY_EDITS :: int where "Req_INTERNAL_REAPPLY_MEMORY_EDITS = 1002"
definition Req_INTERNAL_CANCEL_CODE_PERF_SAMPLES :: int where "Req_INTERNAL_CANCEL_CODE_PERF_SAMPLES = 1003"
definition Req_INTERNAL_INVALIDATE_TRACE_LOG_FILTER :: int where "Req_INTERNAL_INVALIDATE_TRACE_LOG_FILTER = 1004"
definition Req_INTERNAL_MARK_SCRIPT_OVERLAYS_UPDATED :: int where "Req_INTERNAL_MARK_SCRIPT_OVERLAYS_UPDATED = 1005"
definition Req_INTERNAL_RESET_TRACE_HISTORY :: int where "Req_INTERNAL_RESET_TRACE_HISTORY = 1006"

lemmas req_codes =
  Req_NONE_def Req_RUN_def Req_STOP_def Req_IS_RUNNING_def Req_EXIT_def Req_RESET_def Req_RESTART_def
  Req_EXECUTE_INSTR_def Req_EXECUTE_FRAME_def Req_EXECUTE_FRAME_NO_BREAKS_def Req_GET_CC_def Req_GET_REGS_def
  Req_GET_REG_PC_def Req_GET_BYTE_GLOBAL_def Req_GET_BYTE_RAM_def Req_GET_THREE_BYTES_RAM_def
  Req_GET_MEM_STRING_GLOBAL_def Req_GET_WORD_STACK_def Req_GET_STACK_SAMPLE_def Req_GET_DISPLAY_DATA_def
  Req_GET_MEMORY_MAPPING_def Req_GET_MEMORY_MAPPINGS_def Req_GET_GLOBAL_ADDR_RAM_def Req_GET_FDC_INFO_def
  Req_GET_FDD_INFO_def Req_GET_FDD_IMAGE_def Req_GET_RUSLAT_HISTORY_def Req_GET_SCROLL_VERT_def
  Req_GET_STEP_OVER_ADDR_def Req_GET_IO_PORTS_def Req_GET_IO_PORTS_IN_DATA_def Req_GET_IO_PORTS_OUT_DATA_def
  Req_GET_IO_DISPLAY_MODE_def Req_GET_IO_PALETTE_def Req_GET_IO_PALETTE_COMMIT_TIME_def
  Req_SET_IO_PALETTE_COMMIT_TIME_def Req_GET_DISPLAY_BORDER_LEFT_def Req_SET_DISPLAY_BORDER_LEFT_def
  Req_GET_DISPLAY_IRQ_COMMIT_PXL_def Req_SET_DISPLAY_IRQ_COMMIT_PXL_def Req_SET_FRAME_MODE_def
  Req_SET_COLOR_FORMAT_def Req_SET_MEM_def Req_SET_BYTE_GLOBAL_def Req_SET_CPU_SPEED_def Req_GET_HW_MAIN_STATS_def
  Req_IS_MEMROM_ENABLED_def Req_KEY_HANDLING_def Req_LOAD_FDD_def Req_RESET_UPDATE_FDD_def Req_RUN_HEADLESS_def
  Req_DEBUG_ATTACH_def Req_DEBUG_RESET_def Req_DEBUG_RECORDER_RESET_def Req_DEBUG_RECORDER_PLAY_FORWARD_def
  Req_DEBUG_RECORDER_PLAY_REVERSE_def Req_DEBUG_RECORDER_GET_STATE_RECORDED_def
  Req_DEBUG_RECORDER_GET_STATE_CURRENT_def Req_DEBUG_RECORDER_SERIALIZE_def Req_DEBUG_RECORDER_DESERIALIZE_def
  Req_DEBUG_BREAKPOINT_ADD_def Req_DEBUG_BREAKPOINT_DEL_def Req_DEBUG_BREAKPOINT_DEL_ALL_def
  Req_DEBUG_BREAKPOINT_GET_STATUS_def Req_DEBUG_BREAKPOINT_SET_STATUS_def Req_DEBUG_BREAKPOINT_ACTIVE_def
  Req_DEBUG_BREAKPOINT_DISABLE_def Req_DEBUG_BREAKPOINT_GET_ALL_def Req_DEBUG_BREAKPOINT_GET_UPDATES_def
  Req_DEBUG_WATCHPOINT_ADD_def Req_DEBUG_WATCHPOINT_DEL_ALL_def Req_DEBUG_WATCHPOINT_DEL_def
  Req_DEBUG_WATCHPOINT_GET_UPDATES_def Req_DEBUG_WATCHPOINT_GET_ALL_def Req_DEBUG_MEMORY_EDIT_ADD_def
  Req_DEBUG_MEMORY_EDIT_DEL_ALL_def Req_DEBUG_MEMORY_EDIT_DEL_def Req_DEBUG_MEMORY_EDIT_GET_def
  Req_DEBUG_MEMORY_EDIT_EXISTS_def Req_DEBUG_CODE_PERF_ADD_def Req_DEBUG_CODE_PERF_DEL_ALL_def
  Req_DEBUG_CODE_PERF_DEL_def Req_DEBUG_CODE_PERF_GET_def Req_DEBUG_CODE_PERF_EXISTS_def Req_DEBUG_SCRIPT_ADD_def
  Req_DEBUG_SCRIPT_DEL_ALL_def Req_DEBUG_SCRIPT_DEL_def Req_DEBUG_SCRIPT_GET_ALL_def
  Req_DEBUG_SCRIPT_GET_UPDATES_def Req_DEBUG_TRACE_LOG_SAVE_ENABLE_def Req_DEBUG_TRACE_LOG_SAVE_DISABLE_def
  Req_LOAD_ROM_def Req_MOUNT_FDD_def Req_GET_MEM_def Req_DEBUG_WATCHPOINT_EDIT_def Req_GET_STOP_RECORD_def
  Req_GET_HARDWARE_STATS_def Req_SET_IO_PALETTE_ENTRY_def Req_DISMOUNT_FDD_def Req_DEBUG_MEMORY_EDIT_GET_ALL_def
  Req_DEBUG_MEMORY_EDIT_RESTORE_def Req_DEBUG_CODE_PERF_GET_ALL_def Req_DEBUG_CODE_PERF_EDIT_def
  Req_DEBUG_TRACE_LOG_FILTER_def Req_DEBUG_TRACE_LOG_WINDOW_def Req_DEBUG_SCRIPT_EDIT_def
  Req_DEBUG_SCRIPT_COMPILE_def Req_DEBUG_SCRIPT_RUN_ONCE_def Req_DEBUG_SCRIPT_DISABLE_def
  Req_DEBUG_SCRIPT_DISABLE_ALL_def Req_DEBUG_SCRIPT_OVERLAY_GET_def Req_DEBUG_HISTORY_CALLER_def
  Req_DEBUG_HISTORY_SUCCESSOR_def Req_INTERNAL_BEGIN_SESSION_def Req_INTERNAL_REAPPLY_MEMORY_EDITS_def
  Req_INTERNAL_CANCEL_CODE_PERF_SAMPLES_def Req_INTERNAL_INVALIDATE_TRACE_LOG_FILTER_def
  Req_INTERNAL_MARK_SCRIPT_OVERLAYS_UPDATED_def Req_INTERNAL_RESET_TRACE_HISTORY_def

end
