(* ===== verification/Debugger.thy ===== *)
theory Debugger
  imports Scripts Trace_Log Recording_File Req_Codes
begin

unbundle bit_operations_syntax

text \<open>
  The debugger (\<^verbatim>\<open>core/debugger.cpp\<close>): what it does after every instruction, the requests it
  handles on the hardware thread, and the map of the latest reads and writes.

  What the code gets from elsewhere is in \<open>debug_env\<close>: the arithmetic of \<^verbatim>\<open>double\<close> and its JSON, the
  active table of mnemonics, the Lua machine, the files, whether a log file opens and its default
  path. The window of the disassembler is not part of the state. A request carries a JSON value; what the
  library throws for a value of another type is one error, and a conversion of a number that C++
  leaves undefined is another. \<^term>\<open>None\<close> is a call that does not return. The addresses of the memory
  accesses come from \<^verbatim>\<open>GetGlobalAddr\<close> and are inside the RAM array.
\<close>

section \<open>State\<close>

definition LAST_RW_MAX :: nat where "LAST_RW_MAX = 32 * 32"
definition LAST_RW_NO_DATA :: u32 where "LAST_RW_NO_DATA = - 1"

record ('r, 'v) debug_env =
  env_dop :: "'r double_ops"
  double_json :: "'r \<Rightarrow> jval"
  env_cmds :: "cmd list"
  env_vm :: "'v lua_vm"
  env_files :: script_files
  log_opens :: "string \<Rightarrow> bool"
  log_path :: string

record ('r, 'v) debugger =
  dbg_data :: "('r, 'v scripts) debug_data"
  dbg_trace :: trace_log
  dbg_recorder :: recorder
  m_lastReadsAddrs :: "u32 list"
  m_lastWritesAddrs :: "u32 list"
  m_lastReadsAddrsOld :: "u32 list"
  m_lastWritesAddrsOld :: "u32 list"
  m_lastReadsIdx :: nat
  m_lastWritesIdx :: nat
  m_memLastRW :: "global_addr \<Rightarrow> u32"

definition Debugger_new :: "'v scripts \<Rightarrow> int \<Rightarrow> hw_state \<Rightarrow> ('r, 'v) debugger" where
  "Debugger_new s recordFrames s0 =
    \<lparr>dbg_data = Dd_new s, dbg_trace = TraceLog_new, dbg_recorder = Recorder_new recordFrames s0,
     m_lastReadsAddrs = replicate LAST_RW_MAX 0, m_lastWritesAddrs = replicate LAST_RW_MAX 0,
     m_lastReadsAddrsOld = replicate LAST_RW_MAX 0, m_lastWritesAddrsOld = replicate LAST_RW_MAX 0,
     m_lastReadsIdx = 0, m_lastWritesIdx = 0, m_memLastRW = (\<lambda>_. 0)\<rparr>"

datatype debug_error =
    Json_error | Undefined_conversion | Past_the_end | Memory_range | Perf_failed dd_error
  | WatchpointNotFound int | MemoryEditNotFound global_addr | Script_failed script_error
  | Trace_failed trace_error | Print_failed print_error

type_synonym ('r, 'v) dbg_state = "('r, 'v) debugger \<times> rec_env"

definition on_data ::
  "(('r, 'v scripts) debug_data \<Rightarrow> ('r, 'v scripts) debug_data) \<Rightarrow> ('r, 'v) debugger \<Rightarrow> ('r, 'v) debugger" where
  "on_data g d = d\<lparr>dbg_data := g (dbg_data d)\<rparr>"

definition on_watchpoints :: "(watchpoints \<Rightarrow> watchpoints) \<Rightarrow> ('r, 'v) debugger \<Rightarrow> ('r, 'v) debugger" where
  "on_watchpoints g = on_data (\<lambda>x. x\<lparr>m_watchpoints := g (m_watchpoints x)\<rparr>)"

definition on_breakpoints :: "(breakpoints \<Rightarrow> breakpoints) \<Rightarrow> ('r, 'v) debugger \<Rightarrow> ('r, 'v) debugger" where
  "on_breakpoints g = on_data (\<lambda>x. x\<lparr>m_breakpoints := g (m_breakpoints x)\<rparr>)"

definition put_scripts :: "'v scripts \<Rightarrow> ('r, 'v) debugger \<Rightarrow> ('r, 'v) debugger" where
  "put_scripts s = on_data (\<lambda>x. x\<lparr>dd_scripts := s\<rparr>)"

definition dbg_scripts :: "('r, 'v) debugger \<Rightarrow> 'v scripts" where
  "dbg_scripts d = dd_scripts (dbg_data d)"

definition on_trace :: "(trace_log \<Rightarrow> trace_log) \<Rightarrow> ('r, 'v) debugger \<Rightarrow> ('r, 'v) debugger" where
  "on_trace g d = d\<lparr>dbg_trace := g (dbg_trace d)\<rparr>"

definition reset_trace :: "('r, 'v) debug_env \<Rightarrow> ('r, 'v) debugger \<Rightarrow> ('r, 'v) debugger" where
  "reset_trace env = on_trace (TraceLog_Reset (log_opens env) (log_path env))"

definition on_recorder :: "(recorder \<times> rec_env \<Rightarrow> recorder \<times> rec_env) \<Rightarrow> ('r, 'v) dbg_state \<Rightarrow> ('r, 'v) dbg_state" where
  "on_recorder g ds =
    (let (r, e) = g (dbg_recorder (fst ds), snd ds) in ((fst ds)\<lparr>dbg_recorder := r\<rparr>, e))"

definition Debugger_Reset :: "('r, 'v) debug_env \<Rightarrow> bool \<Rightarrow> ('r, 'v) dbg_state \<Rightarrow> ('r, 'v) dbg_state" where
  "Debugger_Reset env resetRecorder ds =
    (let (d, e) = ds;
         d1 = (on_data Dd_Reset d)\<lparr>m_lastWritesAddrs := replicate LAST_RW_MAX LAST_RW_NO_DATA,
               m_lastReadsAddrs := replicate LAST_RW_MAX LAST_RW_NO_DATA, m_lastWritesIdx := 0, m_lastReadsIdx := 0,
               m_memLastRW := (\<lambda>_. 0)\<rparr>;
         d2 = reset_trace env d1
     in (if resetRecorder then d2\<lparr>dbg_recorder := Recorder_Reset e (dbg_recorder d2)\<rparr> else d2, e))"

section \<open>After an instruction\<close>

definition check_read :: "mem_debug \<Rightarrow> nat \<Rightarrow> ('r, 'v) debugger \<Rightarrow> ('r, 'v) debugger" where
  "check_read m i d =
    (let g = readGlobalAddr m ! i;
         d1 = on_watchpoints (Wps_Check ACC_R g (dbg_read m ! i) None) (on_data (MemReadsUpdate g) d)
     in d1\<lparr>m_lastReadsAddrs := (m_lastReadsAddrs d1)[m_lastReadsIdx d1 := g],
           m_lastReadsIdx := (m_lastReadsIdx d1 + 1) mod LAST_RW_MAX\<rparr>)"

text \<open>A write to an address with an active read-only edit is taken back.\<close>

definition write_protected :: "('r, 's) debug_data \<Rightarrow> global_addr \<Rightarrow> bool" where
  "write_protected x g \<longleftrightarrow> (case GetMemoryEdit x g of Some e \<Rightarrow> me_active e \<and> readonly e | None \<Rightarrow> False)"

definition take_back :: "nat \<Rightarrow> memory \<Rightarrow> memory" where
  "take_back i m =
    (let b = mem_dbg m
     in SetByteGlobal (writeGlobalAddr b ! i) (beforeWrite b ! i)
          (m\<lparr>mem_dbg := b\<lparr>dbg_write := (dbg_write b)[i := beforeWrite b ! i]\<rparr>\<rparr>))"

definition check_write :: "nat \<Rightarrow> ('r, 'v) debugger \<times> memory \<Rightarrow> ('r, 'v) debugger \<times> memory" where
  "check_write i dm =
    (let (d, m) = dm; b = mem_dbg m; g = writeGlobalAddr b ! i
     in if write_protected (dbg_data d) g then (d, take_back i m)
        else
         (let d1 = on_watchpoints (Wps_Check ACC_W g (dbg_write b ! i) (Some (beforeWrite b ! i))) (on_data (MemWritesUpdate g) d)
          in (d1\<lparr>m_lastWritesAddrs := (m_lastWritesAddrs d1)[m_lastWritesIdx d1 := g],
                 m_lastWritesIdx := (m_lastWritesIdx d1 + 1) mod LAST_RW_MAX\<rparr>, m)))"

definition host_of :: "('r, 'v) debug_env \<Rightarrow> ('r, 'v) debugger \<Rightarrow> io machine \<Rightarrow> 'v host" where
  "host_of env d mc =
    \<lparr>host_vm = env_vm env, host_files = env_files env, host_cpu = cpu mc, host_mem = mem mc,
     label_of = GetLabelAddr (dbg_data d)\<rparr>"

text \<open>Why the program stops: a watchpoint before a breakpoint, a breakpoint before a script.\<close>

definition watchpoint_stop :: "global_addr \<Rightarrow> wp_hit \<Rightarrow> stop" where
  "watchpoint_stop instr hit =
    (let access = (if hit_access hit = ACC_R then ''read'' else ''write'')
     in (''watchpoint'',
         [(''watchpointIds'', JList (map JNum (hit_ids hit))), (''access'', JStr access),
          jword ''accessedGlobalAddress'' (hit_addr hit), jword ''globalInstructionAddress'' instr,
          (''description'', JStr (''Watchpoint matched a '' @ access))] @
         (if hit_access hit = ACC_R then [jword ''observedValue'' (hit_value hit)]
          else jword ''newValue'' (hit_value hit) #
            (case hit_oldValue hit of Some v \<Rightarrow> [jword ''oldValue'' v] | None \<Rightarrow> []))))"

definition breakpoint_stop :: "addr \<Rightarrow> stop" where
  "breakpoint_stop a =
    (''breakpoint'',
     [(''breakpointIds'', JList [JNum (uint a)]), jword ''breakpointAddress'' a,
      (''description'', JStr (''Breakpoint at 0x'' @ hex_text True 4 (unat a)))])"

definition script_stop :: "int \<Rightarrow> stop" where
  "script_stop i =
    (''script'', [jint ''scriptId'' i, (''description'', JStr ''Lua script requested a stop'')])"

definition choose_stop ::
  "addr \<Rightarrow> global_addr \<Rightarrow> bool \<Rightarrow> wp_hit option \<Rightarrow> bool \<Rightarrow> bool \<Rightarrow> int \<Rightarrow> stop option" where
  "choose_stop pc instr wp hit bp script sid =
    (case (wp, hit) of
       (True, Some h) \<Rightarrow> Some (watchpoint_stop instr h)
     | _ \<Rightarrow> if bp then Some (breakpoint_stop pc)
            else if script \<or> wp then Some (script_stop sid) else None)"

text \<open>The accesses of the instruction, before the scripts run.\<close>

definition check_accesses :: "('r, 'v) debug_env \<Rightarrow> ('r, 'v) dbg_state \<Rightarrow> ('r, 'v) dbg_state" where
  "check_accesses env ds =
    (let (d, mc, disp) = ds; b = mem_dbg (mem mc);
         d1 = on_data (MemRunsUpdate (instrGlobalAddr b)) d;
         d2 = fold (check_read b) [0..<unat (readLen b)] d1;
         (d3, m1) = fold check_write [0..<unat (writeLen b)] (d2, mem mc);
         d4 = on_data (CheckCodePerfs (env_dop env) (r_pc (cpu mc)) (r_cc (cpu mc))) d3
     in (d4, mc\<lparr>mem := m1\<rparr>, disp))"

text \<open>
  What follows the scripts: the watchpoints, the breakpoints, the trace log and the recorder. An
  error of the log comes after the stop was recorded.
\<close>

definition finish_debug ::
  "('r, 'v) debug_env \<Rightarrow> bool \<Rightarrow> ('r, 'v) dbg_state \<Rightarrow> (debug_error option \<times> stop option) \<times> ('r, 'v) dbg_state" where
  "finish_debug env script ds =
    (let (d, mc, disp) = ds; c = cpu mc; m = mem mc;
         hit = m_hit (m_watchpoints (dbg_data d));
         (wp, wps) = CheckBreak (m_watchpoints (dbg_data d));
         (bp, bps) = Bp_Check c (mem_upd m) (m_breakpoints (dbg_data d));
         d1 = on_breakpoints (\<lambda>_. bps) (on_watchpoints (\<lambda>_. wps) d);
         stop = choose_stop (r_pc c) (instrGlobalAddr (mem_dbg m)) wp hit bp script (m_breakScriptId (dbg_scripts d))
     in case TraceLog_Update (env_cmds env) c m disp (dbg_trace d1) of
          Inl e \<Rightarrow>
            ((Some (Print_failed e), stop), on_trace (\<lambda>t. UpdateLogBuffer c m (InvalidateFilter t)) d1, mc, disp)
        | Inr t \<Rightarrow> ((None, stop), on_recorder Recorder_Update (on_trace (\<lambda>_. t) d1, mc, disp)))"

definition Debug ::
  "('r, 'v) debug_env \<Rightarrow> ('r, 'v) dbg_state \<Rightarrow> ((debug_error option \<times> stop option) \<times> ('r, 'v) dbg_state) option" where
  "Debug env ds =
    (let (d, mc, disp) = check_accesses env ds
     in case Scripts_Check (host_of env d mc) (dbg_scripts d) of
          None \<Rightarrow> None
        | Some (Inl e, s) \<Rightarrow> Some ((Some (Script_failed e), None), put_scripts s d, mc, disp)
        | Some (Inr script, s) \<Rightarrow> Some (finish_debug env script (put_scripts s d, mc, disp)))"

section \<open>Reading a request\<close>

text \<open>
  \<^verbatim>\<open>operator[]\<close> gives null for a field that is missing, and makes an object of null. The numbers
  of the library's own types do not come from a boolean, the others do.
\<close>

fun subscript :: "string \<Rightarrow> jval \<Rightarrow> debug_error + jval" where
  "subscript k JNull = Inr JNull"
| "subscript k (JObj d) = Inr (case map_of d k of Some v \<Rightarrow> v | None \<Rightarrow> JNull)"
| "subscript k _ = Inl Json_error"

fun at_key :: "string \<Rightarrow> jval \<Rightarrow> debug_error + jval" where
  "at_key k (JObj d) = (case map_of d k of Some v \<Rightarrow> Inr v | None \<Rightarrow> Inl Json_error)"
| "at_key k _ = Inl Json_error"

definition int_fits :: "int \<Rightarrow> int \<Rightarrow> int option \<Rightarrow> debug_error + int" where
  "int_fits low high x =
    (case x of Some i \<Rightarrow> if low \<le> i \<and> i \<le> high then Inr i else Inl Undefined_conversion | None \<Rightarrow> Inl Undefined_conversion)"

fun get_word :: "jval \<Rightarrow> debug_error + 'a::len word" where
  "get_word (JNum i) = Inr (word_of_int i)"
| "get_word (JSigned i) = Inr (word_of_int i)"
| "get_word (JFloat x) = and_then (int_fits 0 (2 ^ LENGTH('a) - 1) x) (\<lambda>i. Inr (word_of_int i))"
| "get_word (JBool b) = Inr (of_bool b)"
| "get_word _ = Inl Json_error"

fun get_u64 :: "jval \<Rightarrow> debug_error + u64" where
  "get_u64 (JBool b) = Inl Json_error"
| "get_u64 v = get_word v"

fun get_int :: "jval \<Rightarrow> debug_error + int" where
  "get_int (JNum i) = Inr (int32 i)"
| "get_int (JSigned i) = Inr (int32 i)"
| "get_int (JFloat x) = int_fits (- (2 ^ 31)) (2 ^ 31 - 1) x"
| "get_int (JBool b) = Inr (of_bool b)"
| "get_int _ = Inl Json_error"

fun get_bool :: "jval \<Rightarrow> debug_error + bool" where
  "get_bool (JBool b) = Inr b"
| "get_bool _ = Inl Json_error"

fun get_string :: "jval \<Rightarrow> debug_error + string" where
  "get_string (JStr s) = Inr s"
| "get_string _ = Inl Json_error"

fun get_binary :: "jval \<Rightarrow> debug_error + u8 list" where
  "get_binary (JBytes bs) = Inr bs"
| "get_binary _ = Inl Json_error"

definition fld :: "string \<Rightarrow> (jval \<Rightarrow> debug_error + 'a) \<Rightarrow> jval \<Rightarrow> debug_error + 'a" where
  "fld k g j = and_then (subscript k j) g"

definition fld_at :: "string \<Rightarrow> (jval \<Rightarrow> debug_error + 'a) \<Rightarrow> jval \<Rightarrow> debug_error + 'a" where
  "fld_at k g j = and_then (at_key k j) g"

text \<open>\<^verbatim>\<open>value\<close>: a default for a field that is missing from an object.\<close>

fun fld_value :: "string \<Rightarrow> (jval \<Rightarrow> debug_error + 'a) \<Rightarrow> 'a \<Rightarrow> jval \<Rightarrow> debug_error + 'a" where
  "fld_value k g x (JObj d) = (case map_of d k of Some v \<Rightarrow> g v | None \<Rightarrow> Inr x)"
| "fld_value k g x _ = Inl Json_error"

text \<open>
  The result of a request: a value or an error, the script it asks to stop for, and the state;
  \<^term>\<open>None\<close> when it does not return.
\<close>

type_synonym ('r, 'v) dbg_reply = "((debug_error + jval) \<times> int option \<times> ('r, 'v) dbg_state) option"
type_synonym ('r, 'v) handler = "('r, 'v) debug_env \<Rightarrow> bool \<Rightarrow> jval \<Rightarrow> ('r, 'v) dbg_state \<Rightarrow> ('r, 'v) dbg_reply"

definition answer :: "jval \<Rightarrow> ('r, 'v) dbg_state \<Rightarrow> ('r, 'v) dbg_reply" where
  "answer j ds = Some (Inr j, None, ds)"

definition failing :: "debug_error \<Rightarrow> ('r, 'v) dbg_state \<Rightarrow> ('r, 'v) dbg_reply" where
  "failing e ds = Some (Inl e, None, ds)"

definition reading :: "debug_error + 'a \<Rightarrow> ('r, 'v) dbg_state \<Rightarrow> ('a \<Rightarrow> ('r, 'v) dbg_reply) \<Rightarrow> ('r, 'v) dbg_reply" where
  "reading x ds k = (case x of Inl e \<Rightarrow> failing e ds | Inr a \<Rightarrow> k a)"

definition on_debugger :: "(('r, 'v) debugger \<Rightarrow> ('r, 'v) debugger) \<Rightarrow> ('r, 'v) dbg_state \<Rightarrow> ('r, 'v) dbg_state" where
  "on_debugger g ds = (g (fst ds), snd ds)"

definition changing :: "(('r, 'v) debugger \<Rightarrow> ('r, 'v) debugger) \<Rightarrow> ('r, 'v) handler" where
  "changing g env run j ds = answer JNull (on_debugger g ds)"

definition put_ram :: "global_addr \<Rightarrow> u8 \<Rightarrow> ('r, 'v) dbg_state \<Rightarrow> ('r, 'v) dbg_state" where
  "put_ram g v ds = (fst ds, on_ram (SetByteGlobal g v) (snd ds))"

definition ram_at :: "global_addr \<Rightarrow> ('r, 'v) dbg_state \<Rightarrow> debug_error + u8" where
  "ram_at g ds =
    (if unat g < MEMORY_GLOBAL_LEN then Inr (GetByteGlobal (mem (fst (snd ds))) g) else Inl Memory_range)"

section \<open>Recorder and reset\<close>

definition req_reset :: "('r, 'v) handler" where
  "req_reset env run j ds = reading (fld ''resetRecorder'' get_bool j) ds (\<lambda>b. answer JNull (Debugger_Reset env b ds))"

definition req_recorder_reset :: "('r, 'v) handler" where
  "req_recorder_reset env run j ds =
    answer JNull (on_debugger (\<lambda>d. d\<lparr>dbg_recorder := Recorder_Reset (snd ds) (dbg_recorder d)\<rparr>) ds)"

definition req_play :: "(int \<Rightarrow> recorder \<times> rec_env \<Rightarrow> recorder \<times> rec_env) \<Rightarrow> ('r, 'v) handler" where
  "req_play play env run j ds =
    (let ds1 = on_debugger (reset_trace env) ds
     in reading (fld ''frames'' get_int j) ds1 (\<lambda>n. answer JNull (on_recorder (play n) ds1)))"

definition req_recorder_count :: "(recorder \<Rightarrow> u64) \<Rightarrow> ('r, 'v) handler" where
  "req_recorder_count get env run j ds = answer (JObj [jword ''states'' (get (dbg_recorder (fst ds)))]) ds"

definition req_serialize :: "('r, 'v) handler" where
  "req_serialize env run j ds = answer (JObj [(''data'', JBytes (Serialize (dbg_recorder (fst ds))))]) ds"

definition req_deserialize :: "('r, 'v) handler" where
  "req_deserialize env run j ds =
    reading (fld ''data'' get_binary j) ds (\<lambda>bs.
      case Deserialize bs (dbg_recorder (fst ds), snd ds) of
        None \<Rightarrow> failing Past_the_end ds
      | Some re \<Rightarrow> answer JNull (on_recorder (\<lambda>_. re) ds))"

definition req_reset_trace :: "('r, 'v) handler" where
  "req_reset_trace env run j ds = answer JNull (on_debugger (reset_trace env) ds)"

section \<open>Breakpoints\<close>

definition opt_name :: "string option \<Rightarrow> debug_error + string" where
  "opt_name x = (case x of Some s \<Rightarrow> Inr s | None \<Rightarrow> Inl Past_the_end)"

definition nth_name :: "string list \<Rightarrow> nat \<Rightarrow> debug_error + string" where
  "nth_name ns i = (if i < length ns then Inr (ns ! i) else Inl Past_the_end)"

definition index_in :: "'a list \<Rightarrow> 'a \<Rightarrow> nat" where
  "index_in xs x = length (takeWhile (\<lambda>y. y \<noteq> x) xs)"

definition Bp_ToProtocolJson :: "breakpoint \<Rightarrow> debug_error + jval" where
  "Bp_ToProtocolJson bp =
    and_then (nth_name bpOperandsS (index_in operands (operand bp))) (\<lambda>op.
    and_then (opt_name (cond_name ConditionNames (bp_cond bp))) (\<lambda>cn.
      Inr (JObj [jword ''addr'' (bp_addr bp), jword ''memPages'' (memPages bp), (''status'', JStr (GetStatusS (bp_status bp))),
        jbool ''autoDelete'' (autoDel bp), (''operand'', JStr op), (''condition'', JStr cn),
        jword ''value'' (bp_value bp), jword ''counter'' (bp_counter bp), (''comment'', JStr (bp_comment bp))])))"

fun collect :: "(debug_error + jval) list \<Rightarrow> debug_error + jval list" where
  "collect [] = Inr []"
| "collect (x # xs) = and_then x (\<lambda>j. and_then (collect xs) (\<lambda>js. Inr (j # js)))"

definition all_breakpoints :: "breakpoints \<Rightarrow> breakpoint list" where
  "all_breakpoints t = List.map_filter (\<lambda>n. m_bps t (of_nat n)) [0..<0x10000]"

definition read_breakpoint :: "jval \<Rightarrow> debug_error + breakpoint" where
  "read_breakpoint j =
    and_then (fld ''addr'' get_word j) (\<lambda>a.
    and_then (fld ''memPages'' get_u64 j) (\<lambda>mp.
    and_then (fld ''status'' get_string j) (\<lambda>stat.
    and_then (fld ''autoDelete'' get_bool j) (\<lambda>ad.
    and_then (fld ''operand'' get_string j) (\<lambda>op.
    and_then (fld ''condition'' get_string j) (\<lambda>cn.
    and_then (fld ''value'' get_u64 j) (\<lambda>v.
    and_then (fld_value ''counter'' get_u64 1 j) (\<lambda>n.
    and_then (fld ''comment'' get_string j) (\<lambda>com.
      Inr \<lparr>memPages = mp, bp_value = v, bp_counter = n, bp_addr = a, operand = GetOperand op,
        bp_cond = ParseConditionName cn, bp_status = Bp_GetStatus stat, autoDel = ad, bp_comment = com\<rparr>)))))))))"

definition req_breakpoint_del :: "('r, 'v) handler" where
  "req_breakpoint_del env run j ds =
    reading (fld ''addr'' get_word j) ds (\<lambda>a. answer JNull (on_debugger (on_breakpoints (Bp_Del a)) ds))"

definition req_breakpoint_add :: "('r, 'v) handler" where
  "req_breakpoint_add env run j ds =
    reading (read_breakpoint j) ds (\<lambda>bp. answer JNull (on_debugger (on_breakpoints (Bp_Add bp)) ds))"

definition req_breakpoint_set_status :: "('r, 'v) handler" where
  "req_breakpoint_set_status env run j ds =
    reading (fld ''addr'' get_word j) ds (\<lambda>a.
    reading (fld ''status'' get_string j) ds (\<lambda>s.
      answer JNull (on_debugger (on_breakpoints (Bp_SetStatus a (Bp_GetStatus s))) ds)))"

definition req_breakpoint_to :: "bp_status \<Rightarrow> ('r, 'v) handler" where
  "req_breakpoint_to s env run j ds =
    reading (fld ''addr'' get_word j) ds (\<lambda>a. answer JNull (on_debugger (on_breakpoints (Bp_SetStatus a s)) ds))"

definition req_breakpoint_get_status :: "('r, 'v) handler" where
  "req_breakpoint_get_status env run j ds =
    reading (fld ''addr'' get_word j) ds (\<lambda>a.
      answer (JObj [(''status'', JStr (GetStatusS (Bps_GetStatus a (m_breakpoints (dbg_data (fst ds))))))]) ds)"

definition updates_json :: "u32 \<Rightarrow> jval" where
  "updates_json n = JObj [jword ''updates'' n]"

definition req_updates :: "(('r, 'v) debugger \<Rightarrow> u32) \<Rightarrow> ('r, 'v) handler" where
  "req_updates get env run j ds = answer (updates_json (get (fst ds))) ds"

definition req_breakpoint_get_all :: "('r, 'v) handler" where
  "req_breakpoint_get_all env run j ds =
    reading (collect (map Bp_ToProtocolJson (all_breakpoints (m_breakpoints (dbg_data (fst ds)))))) ds
      (\<lambda>js. answer (JList js) ds)"

section \<open>Watchpoints\<close>

definition Wp_ToJson :: "watchpoint \<Rightarrow> debug_error + jval" where
  "Wp_ToJson w =
    and_then (nth_name wpAccessS (index_in [ACC_R, ACC_W, ACC_RW] (wp_access w))) (\<lambda>ac.
    and_then (opt_name (cond_name ConditionNames (wp_cond w))) (\<lambda>cn.
    and_then (nth_name wpTypesS (index_in [WP_LEN, WP_WORD] (wp_type w))) (\<lambda>ty.
      Inr (JObj [jint ''id'' (wp_id w), jword ''globalAddr'' (wp_globalAddr w), jword ''len'' (wp_len w),
        jword ''value'' (wp_value w), (''access'', JStr ac), (''condition'', JStr cn), (''type'', JStr ty),
        jbool ''active'' (wp_active w), (''comment'', JStr (wp_comment w))]))))"

definition read_watchpoint :: "int \<Rightarrow> jval \<Rightarrow> debug_error + watchpoint" where
  "read_watchpoint i j =
    and_then (fld ''access'' get_string j) (\<lambda>ac.
    and_then (fld ''globalAddr'' get_word j) (\<lambda>g.
    and_then (fld ''condition'' get_string j) (\<lambda>cn.
    and_then (fld ''value'' get_word j) (\<lambda>v.
    and_then (fld ''type'' get_string j) (\<lambda>ty.
    and_then (fld ''len'' get_word j) (\<lambda>ln.
    and_then (fld ''active'' get_bool j) (\<lambda>act.
    and_then (fld ''comment'' get_string j) (\<lambda>com.
      Inr \<lparr>wp_globalAddr = g, wp_id = i, wp_len = ln, wp_value = v, wp_access = GetAccess ac,
        wp_cond = ParseConditionName cn, wp_type = Wp_GetType ty, wp_active = act, breakL = False, breakH = False,
        wp_comment = com\<rparr>))))))))"

definition req_watchpoint_del :: "('r, 'v) handler" where
  "req_watchpoint_del env run j ds =
    reading (fld ''id'' get_int j) ds (\<lambda>i. answer JNull (on_debugger (on_watchpoints (Wp_Del i)) ds))"

definition req_watchpoint_add :: "('r, 'v) handler" where
  "req_watchpoint_add env run j ds =
    reading (read_watchpoint (-1) j) ds (\<lambda>w. answer JNull (on_debugger (on_watchpoints (\<lambda>t. snd (Wp_AddNew w t))) ds))"

definition req_watchpoint_edit :: "('r, 'v) handler" where
  "req_watchpoint_edit env run j ds =
    reading (and_then (fld ''id'' get_int j) (\<lambda>i. read_watchpoint i j)) ds (\<lambda>w.
      case Wp_Edit w (m_watchpoints (dbg_data (fst ds))) of
        (True, t) \<Rightarrow> answer JNull (on_debugger (on_watchpoints (\<lambda>_. t)) ds)
      | (False, _) \<Rightarrow> failing (WatchpointNotFound (wp_id w)) ds)"

definition req_watchpoint_get_all :: "('r, 'v) handler" where
  "req_watchpoint_get_all env run j ds =
    reading (collect (map Wp_ToJson (sort_key wp_id (map snd (m_wps (m_watchpoints (dbg_data (fst ds)))))))) ds
      (\<lambda>js. answer (JList js) ds)"

section \<open>Memory edits\<close>

definition ToSnapshotJson :: "u8 \<Rightarrow> memory_edit \<Rightarrow> jval" where
  "ToSnapshotJson currentValue e =
    JObj [jword ''globalAddr'' (me_globalAddr e), jword ''enteredValue'' (enteredValue e),
      jword ''originalValue'' (originalValue e), jword ''currentValue'' currentValue, jbool ''readonly'' (readonly e),
      jbool ''active'' (me_active e), (''comment'', JStr (me_comment e))]"

definition req_edit_del :: "('r, 'v) handler" where
  "req_edit_del env run j ds =
    reading (fld ''globalAddr'' get_word j) ds (\<lambda>g. answer JNull (on_debugger (on_data (DelMemoryEdit g)) ds))"

text \<open>The value is written when the edit becomes active or its value changes.\<close>

definition applies :: "memory_edit option \<Rightarrow> u8 \<Rightarrow> bool \<Rightarrow> bool" where
  "applies old v act \<longleftrightarrow>
    act \<and> (case old of None \<Rightarrow> True | Some e \<Rightarrow> \<not> me_active e \<or> enteredValue e \<noteq> v)"

definition req_edit_add :: "('r, 'v) handler" where
  "req_edit_add env run j ds =
    reading (fld ''globalAddr'' get_word j) ds (\<lambda>g.
      let old = GetMemoryEdit (dbg_data (fst ds)) g
      in reading (case old of Some e \<Rightarrow> Inr (originalValue e) | None \<Rightarrow> ram_at g ds) ds (\<lambda>orig.
         reading (fld ''enteredValue'' get_word j) ds (\<lambda>v.
         reading (fld ''active'' get_bool j) ds (\<lambda>act.
         reading (fld ''comment'' get_string j) ds (\<lambda>com.
         reading (fld ''readonly'' get_bool j) ds (\<lambda>ro.
           let ds1 = on_debugger (on_data (SetMemoryEdit
                 \<lparr>me_comment = com, me_globalAddr = g, enteredValue = v, originalValue = orig, readonly = ro, me_active = act\<rparr>)) ds
           in if applies old v act then reading (ram_at g ds1) ds1 (\<lambda>_. answer JNull (put_ram g v ds1))
              else answer JNull ds1))))))"

definition req_edit_get :: "('r, 'v) handler" where
  "req_edit_get env run j ds =
    reading (fld ''globalAddr'' get_word j) ds (\<lambda>g.
      case GetMemoryEdit (dbg_data (fst ds)) g of
        None \<Rightarrow> answer JNull ds
      | Some e \<Rightarrow> reading (ram_at g ds) ds (\<lambda>v. answer (ToSnapshotJson v e) ds))"

definition req_edit_exists :: "('r, 'v) handler" where
  "req_edit_exists env run j ds =
    reading (fld ''globalAddr'' get_word j) ds (\<lambda>g.
      answer (JObj [jbool ''exists'' (GetMemoryEdit (dbg_data (fst ds)) g \<noteq> None)]) ds)"

definition req_edit_get_all :: "('r, 'v) handler" where
  "req_edit_get_all env run j ds =
    reading (collect (map (\<lambda>e. and_then (ram_at (me_globalAddr e) ds) (\<lambda>v. Inr (ToSnapshotJson v e)))
        (sort_key me_globalAddr (map snd (m_memoryEdits (dbg_data (fst ds))))))) ds
      (\<lambda>js. answer (JObj [(''edits'', JList js)]) ds)"

definition req_edit_restore :: "('r, 'v) handler" where
  "req_edit_restore env run j ds =
    reading (fld ''globalAddr'' get_word j) ds (\<lambda>g.
      case GetMemoryEdit (dbg_data (fst ds)) g of
        None \<Rightarrow> failing (MemoryEditNotFound g) ds
      | Some e \<Rightarrow>
         reading (ram_at g ds) ds (\<lambda>_.
           answer (JObj [jword ''globalAddr'' g, jword ''restoredValue'' (originalValue e), jbool ''deleted'' True])
             (on_debugger (on_data (DelMemoryEdit g)) (put_ram g (originalValue e) ds))))"

fun reapply :: "(global_addr \<times> memory_edit) list \<Rightarrow> ('r, 'v) dbg_state \<Rightarrow> ('r, 'v) dbg_reply" where
  "reapply [] ds = answer JNull ds"
| "reapply ((g, e) # es) ds =
    (if me_active e then reading (ram_at g ds) ds (\<lambda>_. reapply es (put_ram g (enteredValue e) ds)) else reapply es ds)"

definition req_edit_reapply :: "('r, 'v) handler" where
  "req_edit_reapply env run j ds = reapply (m_memoryEdits (dbg_data (fst ds))) ds"

section \<open>Code performance records\<close>

definition Cp_ToSnapshotJson :: "('r, 'v) debug_env \<Rightarrow> int \<Rightarrow> 'r code_perf \<Rightarrow> jval" where
  "Cp_ToSnapshotJson env i p =
    JObj [jint ''id'' i, (''name'', JStr (cp_name p)), jword ''addrStart'' (addrStart p), jword ''addrEnd'' (addrEnd p),
      jbool ''active'' (cp_active p), (''averageClockCycles'', double_json env (averageClockCycles p)),
      jint ''testCount'' (testCount p)]"

definition read_code_perf :: "('r, 'v) debug_env \<Rightarrow> jval \<Rightarrow> debug_error + 'r code_perf" where
  "read_code_perf env j =
    and_then (fld ''name'' get_string j) (\<lambda>nm.
    and_then (fld ''addrStart'' get_word j) (\<lambda>a.
    and_then (fld ''addrEnd'' get_word j) (\<lambda>b.
    and_then (fld ''active'' get_bool j) (\<lambda>act. Inr (CodePerf (env_dop env) nm a b act)))))"

definition req_perf_del :: "('r, 'v) handler" where
  "req_perf_del env run j ds =
    reading (fld ''id'' get_int j) ds (\<lambda>i. answer JNull (on_debugger (on_data (DelCodePerf i)) ds))"

definition req_perf_add :: "('r, 'v) handler" where
  "req_perf_add env run j ds =
    reading (read_code_perf env j) ds (\<lambda>p.
      case AddCodePerf p (dbg_data (fst ds)) of
        Inl e \<Rightarrow> failing (Perf_failed e) ds
      | Inr (i, x) \<Rightarrow>
         (case GetCodePerf x i of
            None \<Rightarrow> failing Past_the_end ds
          | Some q \<Rightarrow> answer (Cp_ToSnapshotJson env i q) (on_debugger (on_data (\<lambda>_. x)) ds)))"

definition req_perf_edit :: "('r, 'v) handler" where
  "req_perf_edit env run j ds =
    reading (fld ''id'' get_int j) ds (\<lambda>i.
    reading (read_code_perf env j) ds (\<lambda>p.
      case EditCodePerf (env_dop env) i p (dbg_data (fst ds)) of
        Inl e \<Rightarrow> failing (Perf_failed e) ds
      | Inr (q, x) \<Rightarrow> answer (Cp_ToSnapshotJson env i q) (on_debugger (on_data (\<lambda>_. x)) ds)))"

definition req_perf_get :: "('r, 'v) handler" where
  "req_perf_get env run j ds =
    reading (fld ''id'' get_int j) ds (\<lambda>i.
      answer (case GetCodePerf (dbg_data (fst ds)) i of Some p \<Rightarrow> Cp_ToSnapshotJson env i p | None \<Rightarrow> JNull) ds)"

definition req_perf_get_all :: "('r, 'v) handler" where
  "req_perf_get_all env run j ds =
    answer (JList (map (\<lambda>(i, p). Cp_ToSnapshotJson env i p) (sort_key fst (m_codePerfs (dbg_data (fst ds)))))) ds"

definition req_perf_exists :: "('r, 'v) handler" where
  "req_perf_exists env run j ds =
    reading (fld ''id'' get_int j) ds (\<lambda>i.
      answer (JObj [jbool ''exists'' (GetCodePerf (dbg_data (fst ds)) i \<noteq> None)]) ds)"

section \<open>Scripts\<close>

definition fields_of :: "jval \<Rightarrow> (string \<times> jval) list" where
  "fields_of j = (case j of JObj d \<Rightarrow> d | _ \<Rightarrow> [])"

definition current_host :: "('r, 'v) debug_env \<Rightarrow> ('r, 'v) dbg_state \<Rightarrow> 'v host" where
  "current_host env ds = host_of env (fst ds) (fst (snd ds))"

definition with_scripts :: "'v scripts \<Rightarrow> ('r, 'v) dbg_state \<Rightarrow> ('r, 'v) dbg_state" where
  "with_scripts s ds = on_debugger (put_scripts s) ds"

definition script_answer :: "(script_error + script) \<times> 'v scripts \<Rightarrow> ('r, 'v) dbg_state \<Rightarrow> ('r, 'v) dbg_reply" where
  "script_answer res ds =
    (let ds1 = with_scripts (snd res) ds
     in case fst res of
          Inl e \<Rightarrow> failing (Script_failed e) ds1
        | Inr sc \<Rightarrow> answer (JObj [jword ''updates'' (script_updates (snd res)), (''script'', Script_ToJson sc)]) ds1)"

definition req_script_clear :: "('r, 'v) handler" where
  "req_script_clear env run j ds = answer JNull (with_scripts (Scripts_Clear (current_host env ds) (dbg_scripts (fst ds))) ds)"

definition req_script_del :: "('r, 'v) handler" where
  "req_script_del env run j ds =
    reading (fld ''scriptId'' get_int j) ds (\<lambda>i.
      answer JNull (with_scripts (Scripts_Del (current_host env ds) i (dbg_scripts (fst ds))) ds))"

definition req_script_add :: "('r, 'v) handler" where
  "req_script_add env run j ds =
    script_answer (Scripts_Add (current_host env ds) (fields_of j) (dbg_scripts (fst ds))) ds"

definition req_script_edit :: "('r, 'v) handler" where
  "req_script_edit env run j ds =
    reading (fld ''scriptId'' get_int j) ds (\<lambda>i.
      script_answer (Scripts_Edit (current_host env ds) i (fields_of j) (dbg_scripts (fst ds))) ds)"

definition req_script_compile :: "('r, 'v) handler" where
  "req_script_compile env run j ds =
    reading (fld ''scriptId'' get_int j) ds (\<lambda>i.
      script_answer (Scripts_Compile (current_host env ds) i (dbg_scripts (fst ds))) ds)"

definition req_script_disable :: "('r, 'v) handler" where
  "req_script_disable env run j ds =
    reading (fld ''scriptId'' get_int j) ds (\<lambda>i. script_answer (Scripts_Disable i (dbg_scripts (fst ds))) ds)"

definition run_once_json :: "int \<Rightarrow> bool \<times> bool \<Rightarrow> u32 \<Rightarrow> script \<Rightarrow> jval" where
  "run_once_json i r n sc =
    JObj ([jint ''scriptId'' i, jbool ''succeeded'' (fst r), jbool ''breakRequested'' (snd r), jword ''updates'' n,
        (''runtime'', RuntimeToJson sc)] @
      (if fst r then [] else [(''error'', JStr (runtimeError sc))]))"

definition req_script_run_once :: "('r, 'v) handler" where
  "req_script_run_once env run j ds =
    reading (fld ''scriptId'' get_int j) ds (\<lambda>i.
      case RunOnce (current_host env ds) i (dbg_scripts (fst ds)) of
        None \<Rightarrow> None
      | Some (Inl e, s) \<Rightarrow> failing (Script_failed e) (with_scripts s ds)
      | Some (Inr r, s) \<Rightarrow>
         (case Scripts_Get i s of
            Inl e \<Rightarrow> Some (Inl (Script_failed e), if snd r then Some i else None, with_scripts s ds)
          | Inr sc \<Rightarrow>
             Some (Inr (run_once_json i r (script_updates s) sc), if snd r then Some i else None, with_scripts s ds)))"

definition req_script_disable_all :: "('r, 'v) handler" where
  "req_script_disable_all env run j ds =
    (let (n, s) = Scripts_DisableAll (dbg_scripts (fst ds)) in answer (JObj [jint ''disabled'' (int n)]) (with_scripts s ds))"

definition req_script_get_all :: "('r, 'v) handler" where
  "req_script_get_all env run j ds = answer (GetAllJson (dbg_scripts (fst ds))) ds"

definition req_overlay_get :: "('r, 'v) handler" where
  "req_overlay_get env run j ds =
    (let (out, s) = GetOverlayUpdatesJson (dbg_scripts (fst ds)) in answer out (with_scripts s ds))"

definition req_mark_overlays :: "('r, 'v) handler" where
  "req_mark_overlays env run j ds = answer JNull (with_scripts (MarkAllOverlaysUpdated (dbg_scripts (fst ds))) ds)"

section \<open>Trace log\<close>

definition log_enable :: "('r, 'v) handler" where
  "log_enable env run j ds =
    reading (fld ''path'' get_string j) ds (\<lambda>p.
      answer JNull (on_debugger (on_trace (SetSaveLog (log_opens env) (log_path env) True p)) ds))"

definition log_disable :: "('r, 'v) handler" where
  "log_disable env run j ds =
    answer JNull (on_debugger (on_trace (SetSaveLog (log_opens env) (log_path env) False [])) ds)"

text \<open>The queries want a machine that does not run.\<close>

definition stopped_only :: "('r, 'v) handler \<Rightarrow> ('r, 'v) handler" where
  "stopped_only h env run j ds =
    (if run then failing (Trace_failed (Query_error ''trace-log queries require stopped hardware'')) ds else h env run j ds)"

definition caller_json :: "caller \<Rightarrow> jval" where
  "caller_json c =
    (case c of
       Found gen pc en k \<Rightarrow>
         JObj [(''status'', JStr ''found''), jword ''historyGeneration'' gen, jword ''callerPc'' pc,
           jword ''entrancePc'' en, jint ''callerCursor'' (int k)]
     | HistoryEnd gen \<Rightarrow> JObj [(''status'', JStr ''historyEnd''), jword ''historyGeneration'' gen])"

definition trace_answer :: "(trace_error + 'a) \<Rightarrow> ('a \<Rightarrow> jval) \<Rightarrow> ('r, 'v) dbg_state \<Rightarrow> ('r, 'v) dbg_reply" where
  "trace_answer res g ds = (case res of Inl e \<Rightarrow> failing (Trace_failed e) ds | Inr x \<Rightarrow> answer (g x) ds)"

text \<open>The generation is compared before the cursor is read.\<close>

definition read_cursor :: "jval \<Rightarrow> trace_log \<Rightarrow> debug_error + u64 \<times> nat" where
  "read_cursor j t =
    and_then (fld_at ''historyGeneration'' get_u64 j) (\<lambda>gen.
      if gen \<noteq> m_historyGeneration t then Inr (gen, 0)
      else and_then (fld_at ''callerCursor'' get_u64 j) (\<lambda>k. Inr (gen, unat k)))"

definition req_caller :: "('r, 'v) handler" where
  "req_caller env run j ds =
    (let t = dbg_trace (fst ds); pc = r_pc (cpu (fst (snd ds)))
     in reading (fld_at ''rangeStart'' get_word j) ds (\<lambda>a.
        reading (fld_at ''rangeEnd'' get_word j) ds (\<lambda>b.
          if b \<le> a \<or> 0x10000 < b \<or> map_of (fields_of j) ''callerCursor'' = None
          then trace_answer (FindCaller a b None pc t) caller_json ds
          else reading (read_cursor j t) ds (\<lambda>from. trace_answer (FindCaller a b (Some from) pc t) caller_json ds))))"

definition req_successor :: "('r, 'v) handler" where
  "req_successor env run j ds =
    (let t = dbg_trace (fst ds)
     in reading (read_cursor j t) ds (\<lambda>from.
          trace_answer (CallerSuccessor (fst from) (snd from) t) (\<lambda>a. JObj [jword ''address'' a]) ds))"

definition req_filter :: "('r, 'v) handler" where
  "req_filter env run j ds =
    reading (fld_value ''addressPattern'' get_string [] j) ds (\<lambda>ap.
    reading (fld_value ''instructionPattern'' get_string [] j) ds (\<lambda>ip.
      case CreateFilter (env_cmds env) (dbg_data (fst ds)) ap ip (dbg_trace (fst ds)) of
        None \<Rightarrow> None
      | Some (res, t) \<Rightarrow>
         trace_answer res (\<lambda>(fid, n). JObj [jword ''filterId'' fid, jint ''totalMatches'' (int n)])
           (on_debugger (on_trace (\<lambda>_. t)) ds)))"

definition entry_json :: "query_entry \<Rightarrow> jval" where
  "entry_json q =
    JObj [jword ''address'' (q_address q), (''bytes'', JList (map (\<lambda>b. JNum (uint b)) (q_bytes q))),
      (''instruction'', JStr (q_instruction q))]"

definition req_window :: "('r, 'v) handler" where
  "req_window env run j ds =
    reading (fld ''filterId'' get_u64 j) ds (\<lambda>fid.
    reading (fld ''start'' get_u64 j) ds (\<lambda>a.
    reading (fld ''lines'' get_u64 j) ds (\<lambda>n.
      trace_answer (GetFilterWindow fid a n (dbg_trace (fst ds)))
        (\<lambda>(a, qs). JObj [jword ''start'' a, (''entries'', JList (map entry_json qs))]) ds)))"

section \<open>The dispatch\<close>

definition debug_handlers :: "(int \<times> ('r, 'v) handler) list" where
  "debug_handlers =
    [(Req_DEBUG_RESET, req_reset), (Req_DEBUG_RECORDER_RESET, req_recorder_reset),
     (Req_DEBUG_RECORDER_PLAY_FORWARD, req_play PlayForward), (Req_DEBUG_RECORDER_PLAY_REVERSE, req_play PlayReverse),
     (Req_DEBUG_RECORDER_GET_STATE_RECORDED, req_recorder_count GetStateRecorded),
     (Req_DEBUG_RECORDER_GET_STATE_CURRENT, req_recorder_count GetStateCurrent),
     (Req_DEBUG_RECORDER_SERIALIZE, req_serialize), (Req_DEBUG_RECORDER_DESERIALIZE, req_deserialize),
     (Req_INTERNAL_RESET_TRACE_HISTORY, req_reset_trace),
     (Req_DEBUG_BREAKPOINT_DEL_ALL, changing (on_breakpoints Bp_Clear)), (Req_DEBUG_BREAKPOINT_DEL, req_breakpoint_del),
     (Req_DEBUG_BREAKPOINT_ADD, req_breakpoint_add), (Req_DEBUG_BREAKPOINT_SET_STATUS, req_breakpoint_set_status),
     (Req_DEBUG_BREAKPOINT_ACTIVE, req_breakpoint_to BP_ACTIVE), (Req_DEBUG_BREAKPOINT_DISABLE, req_breakpoint_to BP_DISABLED),
     (Req_DEBUG_BREAKPOINT_GET_STATUS, req_breakpoint_get_status),
     (Req_DEBUG_BREAKPOINT_GET_UPDATES, req_updates (\<lambda>d. bp_updates (m_breakpoints (dbg_data d)))),
     (Req_DEBUG_BREAKPOINT_GET_ALL, req_breakpoint_get_all),
     (Req_DEBUG_WATCHPOINT_DEL_ALL, changing (on_watchpoints Wp_Clear)), (Req_DEBUG_WATCHPOINT_DEL, req_watchpoint_del),
     (Req_DEBUG_WATCHPOINT_ADD, req_watchpoint_add), (Req_DEBUG_WATCHPOINT_EDIT, req_watchpoint_edit),
     (Req_DEBUG_WATCHPOINT_GET_UPDATES, req_updates (\<lambda>d. wp_updates (m_watchpoints (dbg_data d)))),
     (Req_DEBUG_WATCHPOINT_GET_ALL, req_watchpoint_get_all),
     (Req_DEBUG_MEMORY_EDIT_DEL_ALL, changing (on_data DelAllMemoryEdits)), (Req_DEBUG_MEMORY_EDIT_DEL, req_edit_del),
     (Req_DEBUG_MEMORY_EDIT_ADD, req_edit_add), (Req_DEBUG_MEMORY_EDIT_GET, req_edit_get),
     (Req_DEBUG_MEMORY_EDIT_EXISTS, req_edit_exists), (Req_DEBUG_MEMORY_EDIT_GET_ALL, req_edit_get_all),
     (Req_DEBUG_MEMORY_EDIT_RESTORE, req_edit_restore), (Req_INTERNAL_REAPPLY_MEMORY_EDITS, req_edit_reapply),
     (Req_INTERNAL_CANCEL_CODE_PERF_SAMPLES, changing (on_data CancelCodePerfSamples)),
     (Req_INTERNAL_INVALIDATE_TRACE_LOG_FILTER, changing (on_trace InvalidateQuery)),
     (Req_INTERNAL_MARK_SCRIPT_OVERLAYS_UPDATED, req_mark_overlays),
     (Req_DEBUG_CODE_PERF_DEL_ALL, changing (on_data DelAllCodePerfs)), (Req_DEBUG_CODE_PERF_DEL, req_perf_del),
     (Req_DEBUG_CODE_PERF_ADD, req_perf_add), (Req_DEBUG_CODE_PERF_EDIT, req_perf_edit),
     (Req_DEBUG_CODE_PERF_GET, req_perf_get), (Req_DEBUG_CODE_PERF_GET_ALL, req_perf_get_all),
     (Req_DEBUG_CODE_PERF_EXISTS, req_perf_exists),
     (Req_DEBUG_SCRIPT_DEL_ALL, req_script_clear), (Req_DEBUG_SCRIPT_DEL, req_script_del),
     (Req_DEBUG_SCRIPT_ADD, req_script_add), (Req_DEBUG_SCRIPT_EDIT, req_script_edit),
     (Req_DEBUG_SCRIPT_COMPILE, req_script_compile), (Req_DEBUG_SCRIPT_RUN_ONCE, req_script_run_once),
     (Req_DEBUG_SCRIPT_DISABLE, req_script_disable), (Req_DEBUG_SCRIPT_DISABLE_ALL, req_script_disable_all),
     (Req_DEBUG_SCRIPT_GET_UPDATES, req_updates (\<lambda>d. script_updates (dbg_scripts d))),
     (Req_DEBUG_SCRIPT_GET_ALL, req_script_get_all), (Req_DEBUG_SCRIPT_OVERLAY_GET, req_overlay_get),
     (Req_DEBUG_TRACE_LOG_SAVE_ENABLE, log_enable), (Req_DEBUG_TRACE_LOG_SAVE_DISABLE, log_disable),
     (Req_DEBUG_TRACE_LOG_FILTER, stopped_only req_filter), (Req_DEBUG_HISTORY_CALLER, stopped_only req_caller),
     (Req_DEBUG_HISTORY_SUCCESSOR, stopped_only req_successor), (Req_DEBUG_TRACE_LOG_WINDOW, stopped_only req_window)]"

definition DebugReqHandling :: "('r, 'v) debug_env \<Rightarrow> int \<Rightarrow> bool \<Rightarrow> jval \<Rightarrow> ('r, 'v) dbg_state \<Rightarrow> ('r, 'v) dbg_reply" where
  "DebugReqHandling env req run j ds =
    (case map_of debug_handlers req of None \<Rightarrow> answer JNull ds | Some h \<Rightarrow> h env run j ds)"

fun notice_code :: "notice \<Rightarrow> int" where
  "notice_code INTERNAL_REAPPLY_MEMORY_EDITS = Req_INTERNAL_REAPPLY_MEMORY_EDITS"
| "notice_code INTERNAL_CANCEL_CODE_PERF_SAMPLES = Req_INTERNAL_CANCEL_CODE_PERF_SAMPLES"
| "notice_code INTERNAL_INVALIDATE_TRACE_LOG_FILTER = Req_INTERNAL_INVALIDATE_TRACE_LOG_FILTER"
| "notice_code INTERNAL_MARK_SCRIPT_OVERLAYS_UPDATED = Req_INTERNAL_MARK_SCRIPT_OVERLAYS_UPDATED"
| "notice_code INTERNAL_RESET_TRACE_HISTORY = Req_INTERNAL_RESET_TRACE_HISTORY"

section \<open>The latest reads and writes\<close>

text \<open>
  The entries of the last time are cleared, then every address of the rings gets its age, the oldest
  0 and the latest 1023, in the order of the array. A read is in the low half of an entry.
\<close>

definition forget :: "u32 \<Rightarrow> (global_addr \<Rightarrow> u32) \<Rightarrow> global_addr \<Rightarrow> u32" where
  "forget g m = (if g = LAST_RW_NO_DATA then m else m(g := 0))"

definition rank_of :: "nat \<Rightarrow> nat \<Rightarrow> u32" where
  "rank_of idx p = of_nat (nat ((int LAST_RW_MAX - (int idx - int p) mod 2 ^ 16) mod 2 ^ 16) mod LAST_RW_MAX)"

definition stamp_read :: "nat \<Rightarrow> u32 list \<Rightarrow> nat \<Rightarrow> (global_addr \<Rightarrow> u32) \<Rightarrow> global_addr \<Rightarrow> u32" where
  "stamp_read idx ring p m =
    (let g = ring ! p in if g = LAST_RW_NO_DATA then m else m(g := (m g AND 0xFFFF0000) OR rank_of idx p))"

definition stamp_write :: "nat \<Rightarrow> u32 list \<Rightarrow> nat \<Rightarrow> (global_addr \<Rightarrow> u32) \<Rightarrow> global_addr \<Rightarrow> u32" where
  "stamp_write idx ring p m =
    (let g = ring ! p in if g = LAST_RW_NO_DATA then m else m(g := (m g AND 0x0000FFFF) OR push_bit 16 (rank_of idx p)))"

definition UpdateLastRW :: "('r, 'v) debugger \<Rightarrow> ('r, 'v) debugger" where
  "UpdateLastRW d =
    (let m0 = fold (\<lambda>p m. forget (m_lastWritesAddrsOld d ! p) (forget (m_lastReadsAddrsOld d ! p) m)) [0..<LAST_RW_MAX] (m_memLastRW d);
         m1 = fold (stamp_read (m_lastReadsIdx d) (m_lastReadsAddrs d)) [0..<LAST_RW_MAX] m0;
         m2 = fold (stamp_write (m_lastWritesIdx d) (m_lastWritesAddrs d)) [0..<LAST_RW_MAX] m1
     in d\<lparr>m_memLastRW := m2, m_lastReadsAddrsOld := m_lastReadsAddrs d, m_lastWritesAddrsOld := m_lastWritesAddrs d\<rparr>)"

end
