(* ===== verification/Script_Runs.thy ===== *)
theory Script_Runs
  imports Scripts
begin

text \<open>
  What holds of the scripts over all their operations: a run of a script that does not catch
  the error of its budget returns, and whatever requests and runs follow one another, the tables keep
  their limits and a check after an instruction never throws.
\<close>

section \<open>Overlays within their limits\<close>

lemma update_lengths:
  "sum_list (map (length \<circ> snd) (AList.update k v ps)) +
      (case map_of ps k of Some w \<Rightarrow> length w | None \<Rightarrow> 0) = sum_list (map (length \<circ> snd) ps) + length v"
  by (induction ps) auto

definition overlays_ok :: "int set \<Rightarrow> (int \<times> (int \<times> overlay_item) list) list \<Rightarrow> bool" where
  "overlays_ok ids ov \<longleftrightarrow> distinct (map fst ov) \<and> fst ` set ov \<subseteq> ids \<and>
    (\<forall>(i, items) \<in> set ov. distinct (map fst items) \<and> length items \<le> MAX_OVERLAYS_PER_SCRIPT) \<and>
    sum_list (map (length \<circ> snd) ov) \<le> MAX_OVERLAYS_TOTAL"

lemma overlays_ok_new [simp]: "overlays_ok ids []"
  by (simp add: overlays_ok_def)

lemma overlays_ok_of:
  assumes "overlays_ok ids (m_overlays s)"
  shows "distinct (map fst (overlays_of i s))" "length (overlays_of i s) \<le> MAX_OVERLAYS_PER_SCRIPT"
  using assms by (auto simp: overlays_ok_def overlays_of_def dest!: map_of_SomeD split: option.split)

lemma overlays_ok_put:
  assumes "overlays_ok ids (m_overlays s)" "i \<in> ids" "distinct (map fst items)"
    "length items \<le> MAX_OVERLAYS_PER_SCRIPT"
    "overlay_total s + length items \<le> MAX_OVERLAYS_TOTAL + length (overlays_of i s)"
  shows "overlays_ok ids (AList.update i items (m_overlays s))"
proof -
  have l: "(case map_of (m_overlays s) i of Some w \<Rightarrow> length w | None \<Rightarrow> 0) = length (overlays_of i s)"
    by (simp add: overlays_of_def split: option.split)
  have "sum_list (map (length \<circ> snd) (AList.update i items (m_overlays s))) \<le> MAX_OVERLAYS_TOTAL"
    using update_lengths [of i items "m_overlays s"] assms(5) unfolding l overlay_total_def by linarith
  then show ?thesis
    using assms(1-4) set_update_subset [of i items "m_overlays s"]
    by (fastforce simp: overlays_ok_def distinct_update)
qed

lemma overlay_total_ok: "overlays_ok ids (m_overlays s) \<Longrightarrow> overlay_total s \<le> MAX_OVERLAYS_TOTAL"
  by (simp add: overlays_ok_def overlay_total_def)

lemma overlays_ok_same: "overlays_ok ids (m_overlays s) \<Longrightarrow> i \<in> ids \<Longrightarrow>
    overlays_ok ids (AList.update i (overlays_of i s) (m_overlays s))"
  by (intro overlays_ok_put) (simp_all add: overlays_ok_of overlay_total_ok)

text \<open>The fields a script cannot change.\<close>

definition same_tables :: "'v scripts \<Rightarrow> 'v scripts \<Rightarrow> bool" where
  "same_tables s t \<longleftrightarrow> m_scripts t = m_scripts s \<and> script_updates t = script_updates s \<and>
    m_nextScriptId t = m_nextScriptId s \<and> m_idsExhausted t = m_idsExhausted s \<and>
    scripts_enabled t = scripts_enabled s \<and> m_currentScriptId t = m_currentScriptId s \<and>
    m_breakScriptId t = m_breakScriptId s"

lemma StoreOverlay_same: "same_tables s (snd (StoreOverlay k it s))"
  by (simp add: StoreOverlay_def same_tables_def Let_def split: option.split)

text \<open>A call leaves the scripts as they are, sets the break flag or stores an item.\<close>

definition host_step :: "'v scripts \<Rightarrow> lua_answer \<times> 'v scripts \<Rightarrow> bool" where
  "host_step s r \<longleftrightarrow>
    snd r = s \<or> snd r = s\<lparr>script_break := True\<rparr> \<or> (\<exists>k it. snd r = snd (StoreOverlay k it s))"

lemma host_step_if: "host_step s x \<Longrightarrow> host_step s y \<Longrightarrow> host_step s (if b then x else y)"
  by simp

lemma host_step_option:
  "(\<And>a. host_step s (g a)) \<Longrightarrow> host_step s x \<Longrightarrow> host_step s (case m of None \<Rightarrow> x | Some a \<Rightarrow> g a)"
  by (simp split: option.split)

lemma host_step_same: "host_step s (ans, s)" "host_step s (ans, s\<lparr>script_break := True\<rparr>)"
  by (simp_all add: host_step_def)

lemma draw_step: "host_step s (draw item s)"
proof (cases item)
  case (Inr p)
  have "snd (draw item s) = snd (StoreOverlay (fst p) (snd p) s)"
    by (simp add: draw_def Inr split: prod.split option.split)
  then show ?thesis unfolding host_step_def by blast
qed (simp add: draw_def host_step_same)

lemma host_call_step: "host_step s (host_call h fn args s)"
  unfolding host_call_def by (intro host_step_if host_step_option host_step_same draw_step)

lemma host_call_same: "same_tables s (snd (host_call h fn args s))"
  using host_call_step [of s h fn args] StoreOverlay_same [of s]
  unfolding host_step_def by (elim disjE exE) (simp_all add: same_tables_def)

lemma StoreOverlay_count: "m_instructionCount (snd (StoreOverlay k it s)) = m_instructionCount s"
  "lua_state (snd (StoreOverlay k it s)) = lua_state s"
  by (simp_all add: StoreOverlay_def Let_def split: option.split)

lemma host_call_count: "m_instructionCount (snd (host_call h fn args s)) = m_instructionCount s"
  "lua_state (snd (host_call h fn args s)) = lua_state s"
  using host_call_step [of s h fn args] StoreOverlay_count [where s = s]
  unfolding host_step_def by (elim disjE exE; simp)+

lemma StoreOverlay_ok:
  assumes "overlays_ok ids (m_overlays s)" "m_currentScriptId s \<in> ids"
  shows "overlays_ok ids (m_overlays (snd (StoreOverlay k it s)))"
proof -
  define cur where "cur = m_currentScriptId s"
  define items where "items = overlays_of cur s"
  note defs = cur_def [symmetric] items_def [symmetric]
  have ok1: "overlays_ok ids (AList.update cur items (m_overlays s))"
    unfolding items_def cur_def by (rule overlays_ok_same [OF assms])
  have len: "length items \<le> MAX_OVERLAYS_PER_SCRIPT" and d: "distinct (map fst items)"
    unfolding items_def using overlays_ok_of [OF assms(1)] by blast+
  have t1: "overlay_total (s\<lparr>m_overlays := AList.update cur items (m_overlays s)\<rparr>) = overlay_total s"
    using update_lengths [of cur items "m_overlays s"]
    by (simp add: overlay_total_def items_def overlays_of_def split: option.splits)
  show ?thesis
  proof (cases "map_of items k")
    case None
    then have k: "k \<notin> fst ` set items" by (simp add: map_of_eq_None_iff)
    show ?thesis
    proof (cases "MAX_OVERLAYS_PER_SCRIPT \<le> length items \<or> MAX_OVERLAYS_TOTAL \<le> overlay_total s \<or> cur < 0")
      case True
      then show ?thesis using assms(1) ok1 None by (auto simp: StoreOverlay_def Let_def defs t1)
    next
      case False
      have "overlays_ok ids (AList.update cur (AList.update k it items) (m_overlays s))"
        using False len d k assms by (intro overlays_ok_put) (simp_all add: length_update distinct_update defs)
      then show ?thesis using False None by (simp add: StoreOverlay_def Let_def defs t1)
    qed
  next
    case (Some old)
    then have k: "k \<in> fst ` set items" by (metis map_of_eq_None_iff option.distinct(1))
    have "overlays_ok ids (AList.update cur (AList.update k j items) (m_overlays s))" for j
      using len d k assms overlay_total_ok [OF assms(1)]
      by (intro overlays_ok_put) (simp_all add: length_update distinct_update defs)
    then show ?thesis using Some assms(1) ok1 by (simp add: StoreOverlay_def Let_def defs)
  qed
qed

lemma host_call_ok:
  assumes "overlays_ok ids (m_overlays s)" "m_currentScriptId s \<in> ids"
  shows "overlays_ok ids (m_overlays (snd (host_call h fn args s)))"
  using host_call_step [of s h fn args] StoreOverlay_ok [OF assms] assms(1)
  unfolding host_step_def by (elim disjE exE) simp_all

section \<open>A run\<close>

lemma same_tables_trans: "same_tables s t \<Longrightarrow> same_tables t u \<Longrightarrow> same_tables s u"
  by (simp add: same_tables_def)

text \<open>An assertion that every request of a script keeps holds at the end of its run.\<close>

lemma script_loop_keeps:
  assumes "script_loop h ans s = Some (err, t)" "I s"
    and v: "\<And>s v. I s \<Longrightarrow> I (s\<lparr>lua_state := v\<rparr>)"
    and hook: "\<And>s late. I s \<Longrightarrow> I (snd (InstructionHook late s))"
    and call: "\<And>s fn args. I s \<Longrightarrow> I (snd (host_call h fn args s))"
  shows "I t"
proof -
  have "h = h \<longrightarrow> I s \<longrightarrow> I (snd (err, t))"
  proof (rule script_loop.raw_induct [where P = "\<lambda>h' ans s r. h' = h \<longrightarrow> I s \<longrightarrow> I (snd r)", OF _ assms(1)],
      intro impI)
    fix loop :: "'a host \<Rightarrow> lua_answer \<Rightarrow> 'a scripts \<Rightarrow> (string option option \<times> 'a scripts) option"
      and h' ans s r
    assume IH: "\<And>h' ans s r. loop h' ans s = Some r \<Longrightarrow> h' = h \<longrightarrow> I s \<longrightarrow> I (snd r)"
      and body: "(let (act, v) = lua_next (host_vm h') ans (lua_state s); s1 = s\<lparr>lua_state := v\<rparr>
         in case act of
              Call fn args \<Rightarrow> (let (ans1, s2) = host_call h' fn args s1 in loop h' ans1 s2)
            | Hook late \<Rightarrow> (let (ans1, s2) = InstructionHook late s1 in loop h' ans1 s2)
            | Return \<Rightarrow> Some (None, s1)
            | Failed m \<Rightarrow> Some (Some m, s1)) = Some r"
      and h: "h' = h" and I: "I s"
    obtain act w where n: "lua_next (host_vm h) ans (lua_state s) = (act, w)" by fastforce
    have I1: "I (s\<lparr>lua_state := w\<rparr>)" by (rule v [OF I])
    show "I (snd r)"
    proof (cases act)
      case (Call fn args)
      then show ?thesis using body IH call [OF I1, of fn args] by (auto simp: n h Let_def split: prod.splits)
    next
      case (Hook late)
      then show ?thesis using body IH hook [OF I1, of late] by (auto simp: n h Let_def split: prod.splits)
    qed (use body I1 in \<open>auto simp: n h Let_def\<close>)
  qed
  then show ?thesis using assms(2) by simp
qed

lemma InstructionHook_fields:
  "snd (InstructionHook late s) = s\<lparr>m_instructionCount := m_instructionCount s + 1000\<rparr>"
  by (simp add: InstructionHook_def Let_def)

lemma script_loop_same:
  assumes "script_loop h ans s = Some (err, t)"
  shows "same_tables s t"
  by (rule script_loop_keeps [OF assms, where I = "same_tables s"])
    (auto simp: InstructionHook_fields intro: same_tables_trans [OF _ host_call_same], simp_all add: same_tables_def)

lemma script_loop_overlays:
  assumes "script_loop h ans s = Some (err, t)" "overlays_ok ids (m_overlays s)" "m_currentScriptId s \<in> ids"
  shows "overlays_ok ids (m_overlays t)"
proof -
  let ?I = "\<lambda>s. overlays_ok ids (m_overlays s) \<and> m_currentScriptId s \<in> ids"
  have "?I t"
  proof (rule script_loop_keeps [OF assms(1), where I = ?I])
    show "?I (snd (host_call h fn args s))" if "?I s" for s :: "'a scripts" and fn args
      using that host_call_ok [of ids s h fn args] host_call_same [of s h fn args] by (simp add: same_tables_def)
  qed (use assms(2,3) in \<open>simp_all add: InstructionHook_fields\<close>)
  then show ?thesis by blast
qed

text \<open>
  The budget. A script that does not catch errors ends when the hook raises one, and between two
  hooks it makes finitely many calls: so its run returns, within the budget and a thousand more.
\<close>

definition ends_on_error :: "'v lua_vm \<Rightarrow> bool" where
  "ends_on_error vm \<longleftrightarrow> (\<forall>e v. \<exists>m v1. lua_next vm (Lua_error e) v = (Failed m, v1))"

lemma script_loop_returns:
  fixes h :: "'v host" and left :: "'v \<Rightarrow> nat"
  assumes ends: "ends_on_error (host_vm h)"
    and calls: "\<And>ans v fn args v1. lua_next (host_vm h) ans v = (Call fn args, v1) \<Longrightarrow> left v1 < left v"
    and "m_instructionCount s \<le> MAX_INSTRUCTIONS_PER_RUN + 1000"
    and "MAX_INSTRUCTIONS_PER_RUN < m_instructionCount s \<longrightarrow> (\<exists>e. ans = Lua_error e)"
  shows "\<exists>err t. script_loop h ans s = Some (err, t) \<and> m_instructionCount t \<le> MAX_INSTRUCTIONS_PER_RUN + 1000"
  using assms(3,4)
proof (induction "(nat (MAX_INSTRUCTIONS_PER_RUN + 1000 - m_instructionCount s), left (lua_state s))"
    arbitrary: ans s rule: wf_induct_rule [OF wf_lex_prod [OF wf_less_than wf_less_than]])
  case 1
  note IH = 1(1) and n = 1(2) and err = 1(3)
  obtain act w where a: "lua_next (host_vm h) ans (lua_state s) = (act, w)" by fastforce
  let ?s = "s\<lparr>lua_state := w\<rparr>"
  note loop = script_loop.simps [of h ans s] a
  show ?case
  proof (cases act)
    case (Call fn args)
    obtain ans1 s2 where c: "host_call h fn args ?s = (ans1, s2)" by fastforce
    have s2: "m_instructionCount s2 = m_instructionCount s" "lua_state s2 = w"
      using host_call_count [of h fn args ?s] by (simp_all add: c)
    have l: "left w < left (lua_state s)" using calls a Call by blast
    have le: "m_instructionCount s \<le> MAX_INSTRUCTIONS_PER_RUN"
    proof (rule ccontr)
      assume "\<not> ?thesis"
      then obtain e where "ans = Lua_error e" using err by auto
      then show False using ends a Call unfolding ends_on_error_def by (metis lua_action.distinct(5) prod.inject)
    qed
    show ?thesis using IH [of s2 ans1] l le n by (simp add: s2 loop Call c)
  next
    case (Hook late)
    obtain ans1 s2 where c: "InstructionHook late ?s = (ans1, s2)" by fastforce
    have s2: "m_instructionCount s2 = m_instructionCount s + 1000"
      using InstructionHook_fields [of late ?s] by (simp add: c)
    have le: "m_instructionCount s \<le> MAX_INSTRUCTIONS_PER_RUN"
    proof (rule ccontr)
      assume "\<not> ?thesis"
      then obtain e where "ans = Lua_error e" using err by auto
      then show False using ends a Hook unfolding ends_on_error_def by (metis lua_action.distinct(9) prod.inject)
    qed
    moreover have "MAX_INSTRUCTIONS_PER_RUN < m_instructionCount s2 \<longrightarrow> (\<exists>e. ans1 = Lua_error e)"
      using c by (auto simp: InstructionHook_def Let_def)
    ultimately show ?thesis using IH [of s2 ans1] by (simp add: s2 loop Hook c)
  qed (use n in \<open>auto simp: loop\<close>)
qed

text \<open>A machine whose script catches every error keeps the run going for ever.\<close>

lemma caught_budget_never_returns:
  assumes "\<And>ans v. \<exists>late v1. lua_next (host_vm h) ans v = (Hook late, v1)"
  shows "script_loop h ans s = None"
proof (cases "script_loop h ans s")
  case (Some r)
  have "h = h \<longrightarrow> False"
  proof (rule script_loop.raw_induct [where P = "\<lambda>h' ans s r. h' = h \<longrightarrow> False", OF _ Some], intro impI)
    fix loop :: "'a host \<Rightarrow> lua_answer \<Rightarrow> 'a scripts \<Rightarrow> (string option option \<times> 'a scripts) option"
      and h' ans s r
    assume IH: "\<And>h' ans s r. loop h' ans s = Some r \<Longrightarrow> h' = h \<longrightarrow> False"
      and body: "(let (act, v) = lua_next (host_vm h') ans (lua_state s); s1 = s\<lparr>lua_state := v\<rparr>
         in case act of
              Call fn args \<Rightarrow> (let (ans1, s2) = host_call h' fn args s1 in loop h' ans1 s2)
            | Hook late \<Rightarrow> (let (ans1, s2) = InstructionHook late s1 in loop h' ans1 s2)
            | Return \<Rightarrow> Some (None, s1)
            | Failed m \<Rightarrow> Some (Some m, s1)) = Some r"
      and h: "h' = h"
    obtain late w where n: "lua_next (host_vm h) ans (lua_state s) = (Hook late, w)" using assms by blast
    show False using body IH [of h] by (cases r) (force simp: n h Let_def split: prod.splits)
  qed
  then show ?thesis by simp
qed

section \<open>The tables\<close>

definition script_ok :: "'v scripts \<Rightarrow> int \<Rightarrow> script \<Rightarrow> bool" where
  "script_ok s i sc \<longleftrightarrow> script_id sc = i \<and> 0 \<le> i \<and> i \<le> m_nextScriptId s \<and>
    (i = m_nextScriptId s \<longrightarrow> m_idsExhausted s) \<and> (compilationStatus sc = COMPILED \<longrightarrow> script_ref sc \<noteq> LUA_NOREF)"

definition scripts_ok :: "'v scripts \<Rightarrow> bool" where
  "scripts_ok s \<longleftrightarrow> distinct (map fst (m_scripts s)) \<and> (\<forall>(i, sc) \<in> set (m_scripts s). script_ok s i sc) \<and>
    length (m_scripts s) \<le> SCRIPT_RECORDS_MAX \<and> 0 \<le> m_nextScriptId s \<and> m_nextScriptId s \<le> ID_MAX \<and>
    overlays_ok (fst ` set (m_scripts s)) (m_overlays s)"

text \<open>\<^verbatim>\<open>luaL_ref\<close> never gives the reference that stands for none.\<close>

definition refs_ok :: "'v lua_vm \<Rightarrow> bool" where
  "refs_ok vm \<longleftrightarrow> (\<forall>p src v v1. lua_load vm p src v \<noteq> (Inr LUA_NOREF, v1))"

lemma script_ok_cong [simp]:
  "script_ok (s\<lparr>lua_state := a\<rparr>) = script_ok s" "script_ok (s\<lparr>script_updates := b\<rparr>) = script_ok s"
  "script_ok (s\<lparr>m_scripts := c\<rparr>) = script_ok s" "script_ok (s\<lparr>m_overlays := d\<rparr>) = script_ok s"
  "script_ok (s\<lparr>m_currentScriptId := e\<rparr>) = script_ok s" "script_ok (s\<lparr>m_breakScriptId := e\<rparr>) = script_ok s"
  "script_ok (s\<lparr>script_break := f\<rparr>) = script_ok s" "script_ok (s\<lparr>m_instructionCount := e\<rparr>) = script_ok s"
  by (simp_all add: script_ok_def fun_eq_iff)

lemma scripts_ok_cong [simp]:
  "scripts_ok (s\<lparr>lua_state := a\<rparr>) = scripts_ok s" "scripts_ok (count_update s) = scripts_ok s"
  "scripts_ok (s\<lparr>m_currentScriptId := e\<rparr>) = scripts_ok s" "scripts_ok (s\<lparr>m_breakScriptId := e\<rparr>) = scripts_ok s"
  "scripts_ok (s\<lparr>script_break := f\<rparr>) = scripts_ok s" "scripts_ok (s\<lparr>m_instructionCount := e\<rparr>) = scripts_ok s"
  by (simp_all add: scripts_ok_def count_update_def)

lemma scripts_okD: "scripts_ok s \<Longrightarrow> map_of (m_scripts s) i = Some sc \<Longrightarrow> script_ok s i sc"
  by (auto simp: scripts_ok_def dest!: map_of_SomeD)

lemma key_of: "map_of ps k = Some x \<Longrightarrow> k \<in> fst ` set ps"
  by (metis map_of_eq_None_iff option.distinct(1))

lemma put_known:
  assumes "scripts_ok s" "script_id sc \<in> fst ` set (m_scripts s)" "script_ok s (script_id sc) sc"
  shows "scripts_ok (put_script sc s)" "fst ` set (m_scripts (put_script sc s)) = fst ` set (m_scripts s)"
proof -
  show k: "fst ` set (m_scripts (put_script sc s)) = fst ` set (m_scripts s)"
    using assms(2) by (simp add: put_script_def dom_update insert_absorb)
  let ?m = "AList.update (script_id sc) sc (m_scripts s)"
  have "script_ok s i x" if "(i, x) \<in> set ?m" for i x
    using that assms(1,3) set_update_subset [of "script_id sc" sc "m_scripts s"] by (auto simp: scripts_ok_def)
  moreover have "length ?m = length (m_scripts s)" using assms(2) by (simp add: length_update)
  moreover have "distinct (map fst ?m)" using assms(1) by (simp add: scripts_ok_def distinct_update)
  ultimately show "scripts_ok (put_script sc s)"
    using assms(1) k by (simp add: scripts_ok_def put_script_def case_prod_beta)
qed

lemma overlays_ok_delete:
  assumes "overlays_ok ids ov"
  shows "overlays_ok (ids - {i}) (AList.delete i ov)"
proof -
  have sum: "sum_list (map (length \<circ> snd) (AList.delete i ov)) \<le> sum_list (map (length \<circ> snd) ov)"
    by (induction ov) auto
  have sub: "set (AList.delete i ov) \<subseteq> set ov" by (rule set_delete_subset)
  have keys: "fst ` set (AList.delete i ov) = fst ` set ov - {i}" by (auto simp: AList.delete_eq)
  show ?thesis
    unfolding overlays_ok_def keys
  proof (intro conjI)
    show "distinct (map fst (AList.delete i ov))"
      using assms by (intro AList.distinct_delete) (simp add: overlays_ok_def)
    show "fst ` set ov - {i} \<subseteq> ids - {i}" using assms by (auto simp: overlays_ok_def)
    show "\<forall>(j, items) \<in> set (AList.delete i ov). distinct (map fst items) \<and> length items \<le> MAX_OVERLAYS_PER_SCRIPT"
      using assms sub by (auto simp: overlays_ok_def)
    show "sum_list (map (length \<circ> snd) (AList.delete i ov)) \<le> MAX_OVERLAYS_TOTAL"
      using assms sum by (simp add: overlays_ok_def)
  qed
qed

lemma overlays_ok_mono: "overlays_ok ids ov \<Longrightarrow> ids \<subseteq> ids' \<Longrightarrow> overlays_ok ids' ov"
  by (auto simp: overlays_ok_def)

lemma RemoveOverlays_ok: "scripts_ok s \<Longrightarrow> scripts_ok (RemoveOverlays i s)"
  using overlays_ok_mono [OF overlays_ok_delete] by (auto simp: scripts_ok_def RemoveOverlays_def)

lemma new_script_ok: "Scripts_new v ok = s \<Longrightarrow> scripts_ok s"
  by (auto simp: Scripts_new_def scripts_ok_def ID_MAX_def)

lemma CompileScript_fields:
  assumes "refs_ok (host_vm h)" "CompileScript h sc s = (sc1, s1)"
  shows "script_id sc1 = script_id sc" "compilationStatus sc1 = COMPILED \<longrightarrow> script_ref sc1 \<noteq> LUA_NOREF"
    "\<exists>v. s1 = put_script sc1 (s\<lparr>lua_state := v\<rparr>)"
  using assms
  by (auto simp: CompileScript_def ReleaseReference_def refs_ok_def Let_def split: sum.splits prod.splits)

lemma CompileScript_ok:
  assumes "refs_ok (host_vm h)" "scripts_ok s" "script_id sc \<in> fst ` set (m_scripts s)"
    "script_ok s (script_id sc) (sc\<lparr>compilationStatus := COMPILATION_ERROR\<rparr>)" "CompileScript h sc s = (sc1, s1)"
  shows "scripts_ok s1"
proof -
  note c = CompileScript_fields [OF assms(1,5)]
  obtain v where v: "s1 = put_script sc1 (s\<lparr>lua_state := v\<rparr>)" using c(3) by blast
  show ?thesis unfolding v
    by (rule put_known) (use assms c in \<open>simp_all add: script_ok_def\<close>)
qed

lemma update_new: "k \<notin> fst ` set ps \<Longrightarrow> AList.update k v ps = ps @ [(k, v)]"
  by (induction ps) auto

lemma run_ends_shape:
  assumes "run_ends sc err s = (r, t)"
  obtains sc1 u where "script_id sc1 = script_id sc" "compilationStatus sc1 = compilationStatus sc"
    "script_ref sc1 = script_ref sc" "u = put_script sc1 (s\<lparr>m_currentScriptId := -1\<rparr>)"
    "t = u \<or> t = u\<lparr>m_breakScriptId := script_id sc\<rparr> \<or> t = count_update u \<or>
      t = count_update (u\<lparr>m_breakScriptId := script_id sc\<rparr>)"
proof -
  define sc1 where "sc1 = (case err of
      None \<Rightarrow> sc\<lparr>runtimeStatus := SUCCEEDED, runtimeError := []\<rparr>
    | Some m \<Rightarrow> sc\<lparr>runtimeStatus := RUNTIME_ERROR, runtimeError := LuaError m\<rparr>)"
  have f: "script_id sc1 = script_id sc" "compilationStatus sc1 = compilationStatus sc" "script_ref sc1 = script_ref sc"
    by (simp_all add: sc1_def split: option.split)
  from assms show ?thesis
    by (intro that [OF f refl]) (auto simp: run_ends_def Let_def sc1_def [symmetric] split: if_splits)
qed

lemma RunScript_ok:
  assumes "scripts_ok s" "map_of (m_scripts s) i = Some sc" "RunScript h sc s = Some (r, t)"
  shows "scripts_ok t" "fst ` set (m_scripts t) = fst ` set (m_scripts s)"
    "compilationStatus sc = COMPILED \<Longrightarrow> \<exists>x. r = Inr x" "map fst (m_scripts t) = map fst (m_scripts s)"
proof -
  have sc: "script_ok s i sc" "i \<in> fst ` set (m_scripts s)"
    using scripts_okD [OF assms(1,2)] key_of [OF assms(2)] by blast+
  then have id: "script_id sc = i" by (simp add: script_ok_def)
  let ?all = "scripts_ok t \<and> map fst (m_scripts t) = map fst (m_scripts s) \<and> (compilationStatus sc = COMPILED \<longrightarrow> (\<exists>x. r = Inr x))"
  have ?all
  proof (cases "compilationStatus sc \<noteq> COMPILED \<or> script_ref sc = LUA_NOREF")
    case True
    then show ?thesis using assms sc(1) by (auto simp: RunScript_def script_ok_def)
  next
    case False
    then obtain err s1 where l: "script_loop h Go (run_begins h sc s) = Some (err, s1)"
      and r: "run_ends sc err s1 = (projr r, t)" "r = Inr (projr r)"
      using assms(3) by (auto simp: RunScript_def split: option.splits prod.splits)
    have same: "same_tables (run_begins h sc s) s1" by (rule script_loop_same [OF l])
    have ov: "overlays_ok (fst ` set (m_scripts s)) (m_overlays s1)"
      by (rule script_loop_overlays [OF l]) (use assms(1) sc id in \<open>simp_all add: run_begins_def scripts_ok_def\<close>)
    have ok1: "scripts_ok s1"
      using assms(1) same ov by (auto simp: scripts_ok_def same_tables_def run_begins_def script_ok_def)
    obtain sc1 u where sc1: "script_id sc1 = script_id sc" "compilationStatus sc1 = compilationStatus sc"
      "script_ref sc1 = script_ref sc" and u: "u = put_script sc1 (s1\<lparr>m_currentScriptId := -1\<rparr>)"
      and t: "t = u \<or> t = u\<lparr>m_breakScriptId := script_id sc\<rparr> \<or> t = count_update u \<or>
        t = count_update (u\<lparr>m_breakScriptId := script_id sc\<rparr>)"
      by (rule run_ends_shape [OF r(1)])
    have "script_ok s1 i sc1"
      using sc(1) sc1 id same by (simp add: script_ok_def same_tables_def run_begins_def)
    moreover have m: "m_scripts s1 = m_scripts s" using same by (simp add: same_tables_def run_begins_def)
    ultimately have "scripts_ok u"
      unfolding u using ok1 sc1 id sc(2) by (intro put_known) simp_all
    then have "scripts_ok t" using t by (elim disjE; simp)
    moreover have "m_scripts u = AList.update i sc1 (m_scripts s)"
      by (simp add: u put_script_def m sc1(1) id)
    moreover have "m_scripts t = m_scripts u" using t by (elim disjE) (simp_all add: count_update_def)
    moreover have "map fst (AList.update i sc1 (m_scripts s)) = map fst (m_scripts s)"
      using sc(2) by (simp add: update_keys)
    ultimately show ?thesis using r(2) by (metis (no_types))
  qed
  then show "scripts_ok t" and k: "map fst (m_scripts t) = map fst (m_scripts s)"
    and "compilationStatus sc = COMPILED \<Longrightarrow> \<exists>x. r = Inr x" by simp_all
  show "fst ` set (m_scripts t) = fst ` set (m_scripts s)" unfolding set_map [symmetric] k ..
qed

lemma check_scripts_ok:
  "scripts_ok s \<Longrightarrow> check_scripts h is b s = Some (r, t) \<Longrightarrow> scripts_ok t \<and> (\<exists>x. r = Inr x)"
proof (induction h "is" b s rule: check_scripts.induct)
  case (2 h i "is" b s)
  show ?case
  proof (cases "map_of (m_scripts s) i")
    case (Some sc)
    show ?thesis
    proof (cases "runs_now sc")
      case True
      then obtain q s1 where q: "RunScript h sc s = Some (q, s1)"
        using 2(5) Some by (fastforce split: option.splits)
      note ok = RunScript_ok [OF 2(4) Some q]
      obtain c br where "q = Inr (c, br)" using ok(3) True by (auto simp: runs_now_def)
      then show ?thesis using 2 Some True q ok(1) by simp
    qed (use 2 Some in simp)
  qed (use 2 in simp)
qed auto

section \<open>Every operation\<close>

datatype scripts_event =
    ScAdd "(string \<times> jval) list" | ScEdit int "(string \<times> jval) list" | ScCompile int | ScRun int | ScCheck
  | ScDisable int | ScDisableAll | ScDel int | ScClear | ScOverlays | ScMark

fun scripts_step :: "'v host \<Rightarrow> scripts_event \<Rightarrow> 'v scripts \<Rightarrow> 'v scripts option" where
  "scripts_step h (ScAdd d) s = Some (snd (Scripts_Add h d s))"
| "scripts_step h (ScEdit i d) s = Some (snd (Scripts_Edit h i d s))"
| "scripts_step h (ScCompile i) s = Some (snd (Scripts_Compile h i s))"
| "scripts_step h (ScRun i) s = map_option snd (RunOnce h i s)"
| "scripts_step h ScCheck s = map_option snd (Scripts_Check h s)"
| "scripts_step h (ScDisable i) s = Some (snd (Scripts_Disable i s))"
| "scripts_step h ScDisableAll s = Some (snd (Scripts_DisableAll s))"
| "scripts_step h (ScDel i) s = Some (Scripts_Del h i s)"
| "scripts_step h ScClear s = Some (Scripts_Clear h s)"
| "scripts_step h ScOverlays s = Some (snd (GetOverlayUpdatesJson s))"
| "scripts_step h ScMark s = Some (MarkAllOverlaysUpdated s)"

lemma Scripts_Add_ok:
  assumes "refs_ok (host_vm h)" "scripts_ok s"
  shows "scripts_ok (snd (Scripts_Add h d s))"
proof (cases "scripts_enabled s \<and> length (m_scripts s) < SCRIPT_RECORDS_MAX \<and> \<not> m_idsExhausted s")
  case True
  define i where "i = m_nextScriptId s"
  define s1 where "s1 = (if i = ID_MAX then s\<lparr>m_idsExhausted := True\<rparr> else s\<lparr>m_nextScriptId := i + 1\<rparr>)"
  have keys: "\<forall>(j, sc) \<in> set (m_scripts s). j < i"
    using assms(2) True by (fastforce simp: scripts_ok_def script_ok_def i_def)
  have s1: "scripts_ok s1" "m_scripts s1 = m_scripts s" "script_ok s1 i (Script i nm p b)" for nm p b
    using assms(2) keys
    by (auto simp: scripts_ok_def script_ok_def s1_def i_def ID_MAX_def Script_def)
  show ?thesis
  proof (cases "read_script_input d")
    case (Inl f)
    then show ?thesis using True s1(1) by (simp add: Scripts_Add_def Let_def i_def [symmetric] s1_def [symmetric])
  next
    case (Inr x)
    obtain nm p b where x: "x = (nm, p, b)" by (cases x) auto
    obtain sc2 s2 where c: "CompileScript h (Script i nm p b) s1 = (sc2, s2)" by fastforce
    note f = CompileScript_fields [OF assms(1) c]
    obtain v where v: "s2 = put_script sc2 (s1\<lparr>lua_state := v\<rparr>)" using f(3) by blast
    have id: "script_id sc2 = i" using f(1) by (simp add: Script_def)
    have new: "i \<notin> fst ` set (m_scripts s)" using keys by fastforce
    have "m_scripts s2 = m_scripts s @ [(i, sc2)]"
      using new id by (simp add: v put_script_def s1(2) update_new)
    moreover have "script_ok s1 i sc2" using f(2) id s1(3) by (simp add: script_ok_def)
    ultimately have "scripts_ok s2"
      using s1(1) new True
      by (auto simp: scripts_ok_def v put_script_def s1(2) intro: overlays_ok_mono)
    then show ?thesis
      using True Inr x c by (simp add: Scripts_Add_def Let_def i_def [symmetric] s1_def [symmetric])
  qed
qed (use assms(2) in \<open>auto simp: Scripts_Add_def\<close>)

lemma Scripts_Edit_ok:
  assumes "refs_ok (host_vm h)" "scripts_ok s"
  shows "scripts_ok (snd (Scripts_Edit h i d s))"
proof (cases "map_of (m_scripts s) i")
  case (Some sc)
  note sc = scripts_okD [OF assms(2) Some] key_of [OF Some]
  show ?thesis
  proof (cases "read_script_input d")
    case (Inr x)
    obtain nm p b where x: "x = (nm, p, b)" by (cases x) auto
    define sc1 where "sc1 = sc\<lparr>script_name := nm, script_path := p, script_active := b\<rparr>"
    obtain sc2 s1 where e: "(if script_path sc \<noteq> p then CompileScript h sc1 s else (sc1, put_script sc1 s)) = (sc2, s1)"
      by fastforce
    have id: "script_id sc1 = i" using sc(1) by (simp add: sc1_def script_ok_def)
    have "scripts_ok s1"
    proof (cases "script_path sc \<noteq> p")
      case True
      then show ?thesis
        by (intro CompileScript_ok [OF assms, of sc1 sc2]) (use e sc id in \<open>auto simp: script_ok_def sc1_def\<close>)
    next
      case False
      then have "s1 = put_script sc1 s" using e by auto
      then show ?thesis using put_known [OF assms(2), of sc1] sc id by (simp add: script_ok_def sc1_def)
    qed
    then have "scripts_ok (snd (Inr sc2 :: script_error + script, count_update (if b then s1 else RemoveOverlays i s1)))"
      using RemoveOverlays_ok [of s1 i] by simp
    then show ?thesis
      using Some Inr x assms(2) RemoveOverlays_ok [OF assms(2), of i] e
      by (simp add: Scripts_Edit_def FindRequired_def Let_def sc1_def [symmetric])
  qed (use Some assms(2) in \<open>simp add: Scripts_Edit_def FindRequired_def\<close>)
qed (use assms(2) in \<open>simp add: Scripts_Edit_def FindRequired_def\<close>)

lemma Scripts_Compile_ok:
  assumes "refs_ok (host_vm h)" "scripts_ok s"
  shows "scripts_ok (snd (Scripts_Compile h i s))"
proof (cases "map_of (m_scripts s) i")
  case (Some sc)
  note sc = scripts_okD [OF assms(2) Some] key_of [OF Some]
  obtain sc1 s1 where c: "CompileScript h sc s = (sc1, s1)" by fastforce
  have "scripts_ok s1"
    by (rule CompileScript_ok [OF assms _ _ c]) (use sc in \<open>simp_all add: script_ok_def\<close>)
  then show ?thesis using Some c by (simp add: Scripts_Compile_def FindRequired_def)
qed (use assms(2) in \<open>simp add: Scripts_Compile_def FindRequired_def\<close>)

lemma Scripts_Disable_ok:
  assumes "scripts_ok s"
  shows "scripts_ok (snd (Scripts_Disable i s))"
proof (cases "map_of (m_scripts s) i")
  case (Some sc)
  let ?s = "RemoveOverlays i s"
  have ok: "scripts_ok ?s" by (rule RemoveOverlays_ok [OF assms])
  have "m_scripts ?s = m_scripts s" "script_ok ?s = script_ok s" by (simp_all add: RemoveOverlays_def)
  then have "scripts_ok (put_script (sc\<lparr>script_active := False\<rparr>) ?s)"
    using scripts_okD [OF assms Some] key_of [OF Some] by (intro put_known ok) (simp_all add: script_ok_def)
  then show ?thesis using Some ok by (simp add: Scripts_Disable_def FindRequired_def Let_def)
qed (use assms in \<open>simp add: Scripts_Disable_def FindRequired_def\<close>)

lemma overlays_ok_filter:
  assumes "overlays_ok ids ov"
  shows "overlays_ok ids (filter P ov)"
proof -
  have "sum_list (map (length \<circ> snd) (filter P ov)) \<le> sum_list (map (length \<circ> snd) ov)"
    by (induction ov) auto
  then show ?thesis using assms by (auto simp: overlays_ok_def distinct_map_filter)
qed

lemma overlays_ok_map:
  assumes "overlays_ok ids ov"
  shows "overlays_ok ids (map (\<lambda>(i, items). (i, map (\<lambda>(k, it). (k, g it)) items)) ov)"
  using assms unfolding overlays_ok_def
  by (simp add: comp_def case_prod_beta image_image)

lemma scripts_ok_replace:
  assumes "scripts_ok s" and k: "map fst m = map fst (m_scripts s)"
    and "\<forall>(i, sc) \<in> set m. script_ok s i sc" "overlays_ok (fst ` set (m_scripts s)) ov"
  shows "scripts_ok (s\<lparr>m_scripts := m, m_overlays := ov\<rparr>)"
proof -
  have "fst ` set m = fst ` set (m_scripts s)" unfolding set_map [symmetric] k ..
  moreover have "length m = length (m_scripts s)" using k by (metis length_map)
  ultimately show ?thesis using assms by (simp add: scripts_ok_def)
qed

lemma Scripts_DisableAll_ok:
  assumes "scripts_ok s"
  shows "scripts_ok (snd (Scripts_DisableAll s))"
proof -
  let ?m = "map (\<lambda>(i, sc). (i, sc\<lparr>script_active := False\<rparr>)) (m_scripts s)"
  have "scripts_ok (s\<lparr>m_scripts := ?m, m_overlays := filter P (m_overlays s)\<rparr>)" for P
  proof (rule scripts_ok_replace [OF assms])
    show "map fst ?m = map fst (m_scripts s)" by (simp add: case_prod_beta)
    show "\<forall>(i, sc) \<in> set ?m. script_ok s i sc" using assms by (auto simp: scripts_ok_def script_ok_def)
    show "overlays_ok (fst ` set (m_scripts s)) (filter P (m_overlays s))"
      using assms by (simp add: scripts_ok_def overlays_ok_filter)
  qed
  then show ?thesis by (simp add: Scripts_DisableAll_def Let_def)
qed

lemma Scripts_Del_ok:
  assumes "scripts_ok s"
  shows "scripts_ok (Scripts_Del h i s)"
proof (cases "map_of (m_scripts s) i")
  case (Some sc)
  have k: "fst ` set (AList.delete i (m_scripts s)) = fst ` set (m_scripts s) - {i}" by (auto simp: AList.delete_eq)
  have "length (AList.delete i (m_scripts s)) \<le> SCRIPT_RECORDS_MAX"
    using assms length_delete [of i "m_scripts s"] by (simp add: scripts_ok_def)
  moreover have "\<forall>(j, x) \<in> set (AList.delete i (m_scripts s)). script_ok s j x"
    using assms set_delete_subset [of i "m_scripts s"] by (auto simp: scripts_ok_def)
  moreover have "distinct (map fst (AList.delete i (m_scripts s)))"
    using assms by (intro AList.distinct_delete) (simp add: scripts_ok_def)
  ultimately have "scripts_ok (RemoveOverlays i (s\<lparr>lua_state := v, m_scripts := AList.delete i (m_scripts s)\<rparr>))" for v
    using assms k by (simp add: scripts_ok_def RemoveOverlays_def overlays_ok_delete)
  then show ?thesis using Some by (simp add: Scripts_Del_def)
qed (use assms in \<open>simp add: Scripts_Del_def\<close>)

lemma scripts_step_ok:
  assumes "refs_ok (host_vm h)" "scripts_ok s" "scripts_step h e s = Some t"
  shows "scripts_ok t"
proof (cases e)
  case (ScRun i)
  then show ?thesis
    using assms RunScript_ok(1) [OF assms(2)]
    by (cases "map_of (m_scripts s) i") (auto simp: RunOnce_def FindRequired_def)
next
  case ScCheck
  then show ?thesis using assms check_scripts_ok [OF assms(2)] by (auto simp: Scripts_Check_def split: if_splits)
next
  case ScClear
  have "scripts_ok (s\<lparr>lua_state := v, m_scripts := [], m_overlays := []\<rparr>)" for v
    using assms(2) by (simp add: scripts_ok_def)
  then show ?thesis using assms ScClear by (auto simp: Scripts_Clear_def ClearOverlays_def)
next
  case ScOverlays
  then show ?thesis
    using assms overlays_ok_map [of "fst ` set (m_scripts s)" "m_overlays s" "\<lambda>it. it\<lparr>ov_updated := False\<rparr>"]
    by (auto simp: GetOverlayUpdatesJson_def scripts_ok_def)
next
  case ScMark
  then show ?thesis
    using assms overlays_ok_map [of "fst ` set (m_scripts s)" "m_overlays s" "\<lambda>it. it\<lparr>ov_updated := True\<rparr>"]
    by (auto simp: MarkAllOverlaysUpdated_def scripts_ok_def)
qed (use assms Scripts_Add_ok [OF assms(1,2)] Scripts_Edit_ok [OF assms(1,2)] Scripts_Compile_ok [OF assms(1,2)]
  Scripts_Disable_ok [OF assms(2)] Scripts_DisableAll_ok [OF assms(2)] Scripts_Del_ok [OF assms(2), of h] in auto)

text \<open>
  What a sequence of requests and checks can lead to; the processor, the memory, the files and the
  labels may change in between.
\<close>

inductive scripts_reach :: "'v lua_vm \<Rightarrow> 'v scripts \<Rightarrow> bool" for vm where
  start: "scripts_reach vm (Scripts_new v ok)"
| step: "scripts_reach vm s \<Longrightarrow> host_vm h = vm \<Longrightarrow> scripts_step h e s = Some t \<Longrightarrow> scripts_reach vm t"

lemma scripts_reach_ok: "scripts_reach vm s \<Longrightarrow> refs_ok vm \<Longrightarrow> scripts_ok s"
proof (induction rule: scripts_reach.induct)
  case (step s h e t)
  then show ?case using scripts_step_ok by blast
qed (simp add: new_script_ok)

section \<open>Properties\<close>

definition finite_calls :: "('v \<Rightarrow> nat) \<Rightarrow> 'v lua_vm \<Rightarrow> bool" where
  "finite_calls left vm \<longleftrightarrow> (\<forall>ans v fn args v1. lua_next vm ans v = (Call fn args, v1) \<longrightarrow> left v1 < left v)"

text \<open>C9: the budget ends every script that does not catch its error. Whatever a compiled script does,
  if it makes finitely many calls between two hooks and ends when an error reaches it, its run
  returns, at most 1000 instructions beyond the budget of 100000; its status then says whether it
  succeeded, and no script is the current one any more.\<close>

theorem script_run_returns:
  fixes h :: "'v host" and left :: "'v \<Rightarrow> nat"
  assumes "ends_on_error (host_vm h)" "finite_calls left (host_vm h)"
    and "compilationStatus sc = COMPILED" "script_ref sc \<noteq> LUA_NOREF"
  shows "\<exists>ok br t sc1. RunScript h sc s = Some (Inr (ok, br), t) \<and>
    m_instructionCount t \<le> MAX_INSTRUCTIONS_PER_RUN + 1000 \<and> m_currentScriptId t = -1 \<and>
    map_of (m_scripts t) (script_id sc) = Some sc1 \<and>
    runtimeStatus sc1 = (if ok then SUCCEEDED else RUNTIME_ERROR) \<and>
    (br \<longrightarrow> m_breakScriptId t = script_id sc)"
proof -
  have "\<exists>err t. script_loop h Go (run_begins h sc s) = Some (err, t) \<and> m_instructionCount t \<le> MAX_INSTRUCTIONS_PER_RUN + 1000"
    by (rule script_loop_returns [OF assms(1), where left = left])
      (use assms(2) in \<open>auto simp: finite_calls_def run_begins_def MAX_INSTRUCTIONS_PER_RUN_def\<close>)
  then obtain err t where l: "script_loop h Go (run_begins h sc s) = Some (err, t)"
    and n: "m_instructionCount t \<le> MAX_INSTRUCTIONS_PER_RUN + 1000" by blast
  define sc1 where "sc1 = (case err of
      None \<Rightarrow> sc\<lparr>runtimeStatus := SUCCEEDED, runtimeError := []\<rparr>
    | Some m \<Rightarrow> sc\<lparr>runtimeStatus := RUNTIME_ERROR, runtimeError := LuaError m\<rparr>)"
  obtain ok br u where r: "run_ends sc err t = ((ok, br), u)" by (metis surj_pair)
  have f: "script_id sc1 = script_id sc" "ok = (err = None)"
    "runtimeStatus sc1 = (if err = None then SUCCEEDED else RUNTIME_ERROR)"
    using r by (auto simp: sc1_def run_ends_def Let_def split: option.split)
  have "m_instructionCount u = m_instructionCount t \<and> m_currentScriptId u = -1 \<and>
      m_scripts u = AList.update (script_id sc1) sc1 (m_scripts t) \<and> (br \<longrightarrow> m_breakScriptId u = script_id sc)"
    using r by (auto simp: run_ends_def Let_def sc1_def [symmetric] put_script_def count_update_def split: if_splits)
  moreover have "RunScript h sc s = Some (Inr (ok, br), u)" using assms(3,4) l r by (simp add: RunScript_def)
  ultimately show ?thesis using n f by (intro exI [of _ ok] exI [of _ br] exI [of _ u] exI [of _ sc1]) (simp add: update_conv')
qed

text \<open>A script that never ends of its own, and never calls anything.\<close>

definition endless_vm :: "nat lua_vm" where
  "endless_vm =
    \<lparr>lua_load = \<lambda>p src v. (Inr 1, v), lua_unref = \<lambda>r v. v, lua_start = \<lambda>r v. v,
     lua_next = \<lambda>ans v. (case ans of Lua_error e \<Rightarrow> Failed (Some e) | _ \<Rightarrow> Hook False, v),
     lua_checkinteger = \<lambda>v. Inl [], lua_checkstring = \<lambda>v. Inl [], lua_integer = \<lambda>i. LNumber (Some (of_int i)),
     to_float = \<lambda>x. x\<rparr>"

definition sample_files :: script_files where
  "sample_files =
    \<lparr>is_regular_file = \<lambda>p. True, file_size = \<lambda>p. Some 4, opens_file = \<lambda>p. True, read_file = \<lambda>p n. Some ''loop''\<rparr>"

definition sample_host :: "memory \<Rightarrow> cpu_state \<Rightarrow> nat host" where
  "sample_host m c =
    \<lparr>host_vm = endless_vm, host_files = sample_files, host_cpu = c, host_mem = m, label_of = \<lambda>l. -1\<rparr>"

lemma endless_vm_ok: "ends_on_error endless_vm" "finite_calls (\<lambda>v. 0) endless_vm" "refs_ok endless_vm"
  by (auto simp: ends_on_error_def finite_calls_def refs_ok_def endless_vm_def LUA_NOREF_def split: lua_answer.splits)

theorem script_run_returns_witness:
  "\<forall>m c. \<exists>ok br t. RunScript (sample_host m c) ((Script 7 ''s'' ''p'' True)\<lparr>compilationStatus := COMPILED, script_ref := 1\<rparr>)
    (Scripts_new 0 True) = Some (Inr (ok, br), t) \<and> m_instructionCount t \<le> 101000"
proof (intro allI)
  fix m c
  from script_run_returns [of "sample_host m c" "\<lambda>v. 0" "(Script 7 ''s'' ''p'' True)\<lparr>compilationStatus := COMPILED, script_ref := 1\<rparr>"
      "Scripts_new 0 True"]
  show "\<exists>ok br t. RunScript (sample_host m c) ((Script 7 ''s'' ''p'' True)\<lparr>compilationStatus := COMPILED, script_ref := 1\<rparr>)
    (Scripts_new 0 True) = Some (Inr (ok, br), t) \<and> m_instructionCount t \<le> 101000"
    using endless_vm_ok by (auto simp: sample_host_def LUA_NOREF_def MAX_INSTRUCTIONS_PER_RUN_def)
qed

text \<open>C10: whatever requests, runs and checks follow one another, at most 256 scripts exist under
  distinct identifiers, a script holds at most 256 overlay items and all of them at most 1024, only
  existing scripts hold any, and the check after an instruction, when it returns, returns without an
  exception.\<close>

theorem scripts_limits:
  assumes "refs_ok vm" "scripts_reach vm s"
  shows "length (m_scripts s) \<le> 256 \<and> distinct (map fst (m_scripts s)) \<and>
    list_all (\<lambda>(i, items). i \<in> fst ` set (m_scripts s) \<and> length items \<le> 256) (m_overlays s) \<and>
    overlay_total s \<le> 1024 \<and> (\<nexists>h e t. Scripts_Check h s = Some (Inl e, t))"
proof -
  have ok: "scripts_ok s" by (rule scripts_reach_ok [OF assms(2,1)])
  have "Scripts_Check h s \<noteq> Some (Inl e, t)" for h e t
    using check_scripts_ok [OF ok, of h _ _ "Inl e" t] by (auto simp: Scripts_Check_def)
  moreover have "overlay_total s \<le> 1024"
    using ok by (simp add: scripts_ok_def overlays_ok_def overlay_total_def MAX_OVERLAYS_TOTAL_def)
  moreover have "list_all (\<lambda>(i, items). i \<in> fst ` set (m_scripts s) \<and> length items \<le> 256) (m_overlays s)"
  proof -
    have "fst ` set (m_overlays s) \<subseteq> fst ` set (m_scripts s)"
      and "\<forall>(i, items) \<in> set (m_overlays s). distinct (map fst items) \<and> length items \<le> 256"
      using ok by (simp_all add: scripts_ok_def overlays_ok_def MAX_OVERLAYS_PER_SCRIPT_def)
    then show ?thesis unfolding list_all_iff by (metis (no_types, lifting) case_prod_beta imageI subsetD)
  qed
  ultimately show ?thesis using ok by (auto simp: scripts_ok_def SCRIPT_RECORDS_MAX_def)
qed

lemma sample_scripts_reach:
  "scripts_reach endless_vm (snd (Scripts_Add (sample_host m c)
    [(''name'', JStr ''s''), (''path'', JStr ''p''), (''active'', JBool True)] (Scripts_new 0 True)))"
  by (rule scripts_reach.step [OF scripts_reach.start [of endless_vm 0 True], where h = "sample_host m c"
        and e = "ScAdd [(''name'', JStr ''s''), (''path'', JStr ''p''), (''active'', JBool True)]"])
    (simp_all add: sample_host_def)

theorem scripts_limits_witness:
  "\<forall>m c. length (m_scripts (snd (Scripts_Add (sample_host m c)
    [(''name'', JStr ''s''), (''path'', JStr ''p''), (''active'', JBool True)] (Scripts_new 0 True)))) \<le> 256"
  using scripts_limits [OF endless_vm_ok(3) sample_scripts_reach] by blast

end
