(* ===== verification/Debug_Run.thy ===== *)
theory Debug_Run
  imports Debugger Script_Runs
begin

unbundle bit_operations_syntax

text \<open>
  What the debugger does to a program that runs: when it stops and why, that a read-only edit keeps
  its byte, that an edit can be taken back, that the hook the hardware calls is total when the scripts
  are, and what the map of the latest accesses shows.
\<close>

section \<open>The accesses of an instruction\<close>

definition read_access :: "mem_debug \<Rightarrow> nat \<Rightarrow> mem_access" where
  "read_access b i = (ACC_R, readGlobalAddr b ! i, dbg_read b ! i, None)"

definition write_access :: "mem_debug \<Rightarrow> nat \<Rightarrow> mem_access" where
  "write_access b i = (ACC_W, writeGlobalAddr b ! i, dbg_write b ! i, Some (beforeWrite b ! i))"

text \<open>The parts that looking at an access leaves alone.\<close>

definition same_tables_but :: "('r, 'v) debugger \<Rightarrow> ('r, 'v) debugger \<Rightarrow> bool" where
  "same_tables_but d e \<longleftrightarrow>
    m_memoryEdits (dbg_data e) = m_memoryEdits (dbg_data d) \<and> m_breakpoints (dbg_data e) = m_breakpoints (dbg_data d) \<and>
    dbg_scripts e = dbg_scripts d \<and> dd_labels (dbg_data e) = dd_labels (dbg_data d) \<and>
    dbg_trace e = dbg_trace d \<and> dbg_recorder e = dbg_recorder d"

lemma same_tables_but_refl: "same_tables_but d d"
  by (simp add: same_tables_but_def)

lemma same_tables_but_trans: "same_tables_but d e \<Longrightarrow> same_tables_but e f \<Longrightarrow> same_tables_but d f"
  by (simp add: same_tables_but_def)

lemma write_protected_cong: "same_tables_but d e \<Longrightarrow> write_protected (dbg_data e) = write_protected (dbg_data d)"
  by (simp add: same_tables_but_def write_protected_def GetMemoryEdit_def fun_eq_iff)

lemmas data_defs = on_data_def on_watchpoints_def on_breakpoints_def on_trace_def put_scripts_def dbg_scripts_def

lemma check_read_parts:
  "same_tables_but d (check_read b i d)"
  "m_watchpoints (dbg_data (check_read b i d)) = wp_access_step (read_access b i) (m_watchpoints (dbg_data d))"
  by (simp_all add: check_read_def data_defs same_tables_but_def MemReadsUpdate_def read_access_def Let_def)

lemma check_reads:
  "same_tables_but d (fold (check_read b) is d) \<and>
   m_watchpoints (dbg_data (fold (check_read b) is d)) = fold wp_access_step (map (read_access b) is) (m_watchpoints (dbg_data d))"
proof (induction "is" arbitrary: d)
  case (Cons i "is")
  then show ?case
    using check_read_parts [where b = b and i = i and d = d] same_tables_but_trans by (auto simp: check_read_parts(2))
qed (simp add: same_tables_but_refl)

text \<open>One write: taken back, or counted and watched.\<close>

lemma check_write_kept:
  assumes "\<not> write_protected (dbg_data d) (writeGlobalAddr (mem_dbg m) ! i)" "check_write i (d, m) = (d1, m1)"
  shows "m1 = m" "same_tables_but d d1"
    "m_watchpoints (dbg_data d1) = wp_access_step (write_access (mem_dbg m) i) (m_watchpoints (dbg_data d))"
  using assms
  by (auto simp: check_write_def data_defs same_tables_but_def MemWritesUpdate_def write_access_def Let_def)

lemma check_write_back:
  assumes "write_protected (dbg_data d) (writeGlobalAddr (mem_dbg m) ! i)" "check_write i (d, m) = (d1, m1)"
  shows "d1 = d" "m1 = take_back i m"
  using assms by (auto simp: check_write_def Let_def)

text \<open>The memory after the first \<open>n\<close> writes were looked at.\<close>

definition kept_writes :: "('r, 's) debug_data \<Rightarrow> mem_debug \<Rightarrow> nat \<Rightarrow> nat list" where
  "kept_writes x b n = filter (\<lambda>i. \<not> write_protected x (writeGlobalAddr b ! i)) [0..<n]"

definition taken_back :: "('r, 's) debug_data \<Rightarrow> mem_debug \<Rightarrow> nat \<Rightarrow> global_addr \<Rightarrow> nat \<Rightarrow> bool" where
  "taken_back x b n g i \<longleftrightarrow> i < n \<and> writeGlobalAddr b ! i = g \<and> write_protected x g"

definition written_memory :: "('r, 's) debug_data \<Rightarrow> memory \<Rightarrow> nat \<Rightarrow> memory \<Rightarrow> bool" where
  "written_memory x m n m1 \<longleftrightarrow>
    (\<exists>ws. m1 = m\<lparr>m_ram := m_ram m1, mem_dbg := (mem_dbg m)\<lparr>dbg_write := ws\<rparr>\<rparr> \<and>
      (\<forall>j \<ge> n. ws ! j = dbg_write (mem_dbg m) ! j) \<and> length ws = length (dbg_write (mem_dbg m)) \<and>
      (\<forall>j < min n (length ws). ws ! j =
        (if write_protected x (writeGlobalAddr (mem_dbg m) ! j) then beforeWrite (mem_dbg m) ! j else dbg_write (mem_dbg m) ! j))) \<and>
    (\<forall>g. m_ram m1 g = m_ram m g \<and> (\<nexists>i. taken_back x (mem_dbg m) n g i) \<or>
      (\<exists>i. taken_back x (mem_dbg m) n g i \<and> m_ram m1 g = beforeWrite (mem_dbg m) ! i))"

lemma written_memory_debug:
  assumes "written_memory x m n m1"
  shows "writeGlobalAddr (mem_dbg m1) = writeGlobalAddr (mem_dbg m)" "beforeWrite (mem_dbg m1) = beforeWrite (mem_dbg m)"
    "dbg_write (mem_dbg m1) ! n = dbg_write (mem_dbg m) ! n" "mem_upd m1 = mem_upd m"
    "instrGlobalAddr (mem_dbg m1) = instrGlobalAddr (mem_dbg m)"
proof -
  obtain ws where m1: "m1 = m\<lparr>m_ram := m_ram m1, mem_dbg := (mem_dbg m)\<lparr>dbg_write := ws\<rparr>\<rparr>"
    and ws: "\<forall>j \<ge> n. ws ! j = dbg_write (mem_dbg m) ! j"
    using assms unfolding written_memory_def by blast
  have "mem_dbg m1 = (mem_dbg m)\<lparr>dbg_write := ws\<rparr>" "mem_upd m1 = mem_upd m" by (subst m1; simp)+
  with ws show "writeGlobalAddr (mem_dbg m1) = writeGlobalAddr (mem_dbg m)" "beforeWrite (mem_dbg m1) = beforeWrite (mem_dbg m)"
    "dbg_write (mem_dbg m1) ! n = dbg_write (mem_dbg m) ! n" "mem_upd m1 = mem_upd m"
    "instrGlobalAddr (mem_dbg m1) = instrGlobalAddr (mem_dbg m)" by simp_all
qed

lemma written_memory_Suc_kept:
  assumes w: "written_memory x m n m1" and p: "\<not> write_protected x (writeGlobalAddr (mem_dbg m) ! n)"
  shows "written_memory x m (Suc n) m1"
proof -
  let ?b = "mem_dbg m"
  obtain ws where m1: "m1 = m\<lparr>m_ram := m_ram m1, mem_dbg := ?b\<lparr>dbg_write := ws\<rparr>\<rparr>"
    and ws: "\<forall>j \<ge> n. ws ! j = dbg_write ?b ! j" "length ws = length (dbg_write ?b)"
      "\<forall>j < min n (length ws). ws ! j =
        (if write_protected x (writeGlobalAddr ?b ! j) then beforeWrite ?b ! j else dbg_write ?b ! j)"
    using w unfolding written_memory_def by blast
  have "\<forall>j \<ge> Suc n. ws ! j = dbg_write ?b ! j" using ws(1) by simp
  moreover have "\<forall>j < min (Suc n) (length ws). ws ! j =
      (if write_protected x (writeGlobalAddr ?b ! j) then beforeWrite ?b ! j else dbg_write ?b ! j)"
    using ws(1,3) p by (auto simp: less_Suc_eq)
  moreover have t: "taken_back x ?b (Suc n) g i \<longleftrightarrow> taken_back x ?b n g i" for g i
    using p by (auto simp: taken_back_def less_Suc_eq)
  have "m_ram m1 g = m_ram m g \<and> (\<nexists>i. taken_back x ?b (Suc n) g i) \<or>
      (\<exists>i. taken_back x ?b (Suc n) g i \<and> m_ram m1 g = beforeWrite ?b ! i)" for g
    using w unfolding t written_memory_def by blast
  ultimately show ?thesis using m1 ws(2) unfolding written_memory_def by blast
qed

lemma written_memory_Suc_back:
  assumes w: "written_memory x m n m1" and p: "write_protected x (writeGlobalAddr (mem_dbg m) ! n)"
  shows "written_memory x m (Suc n) (take_back n m1)"
proof -
  let ?b = "mem_dbg m" and ?m = "take_back n m1" and ?g = "writeGlobalAddr (mem_dbg m) ! n"
  obtain ws where m1: "m1 = m\<lparr>m_ram := m_ram m1, mem_dbg := ?b\<lparr>dbg_write := ws\<rparr>\<rparr>"
    and ws: "\<forall>j \<ge> n. ws ! j = dbg_write ?b ! j" "length ws = length (dbg_write ?b)"
      "\<forall>j < min n (length ws). ws ! j =
        (if write_protected x (writeGlobalAddr ?b ! j) then beforeWrite ?b ! j else dbg_write ?b ! j)"
    using w unfolding written_memory_def by blast
  have b1: "mem_dbg m1 = ?b\<lparr>dbg_write := ws\<rparr>" by (subst m1) simp
  let ?ws = "ws[n := beforeWrite ?b ! n]"
  have ram: "m_ram ?m = (m_ram m1)(?g := beforeWrite ?b ! n)"
    by (simp add: take_back_def SetByteGlobal_def Let_def b1)
  have "?m = m1\<lparr>m_ram := m_ram ?m, mem_dbg := ?b\<lparr>dbg_write := ?ws\<rparr>\<rparr>"
    by (simp add: take_back_def SetByteGlobal_def Let_def b1)
  then have "?m = m\<lparr>m_ram := m_ram ?m, mem_dbg := ?b\<lparr>dbg_write := ?ws\<rparr>\<rparr>" by (subst (asm) (2) m1) simp
  moreover have "\<forall>j \<ge> Suc n. ?ws ! j = dbg_write ?b ! j" using ws(1) by simp
  moreover have "\<forall>j < min (Suc n) (length ?ws). ?ws ! j =
      (if write_protected x (writeGlobalAddr ?b ! j) then beforeWrite ?b ! j else dbg_write ?b ! j)"
    using ws(2,3) p by (auto simp: nth_list_update less_Suc_eq)
  moreover have "m_ram ?m g = m_ram m g \<and> (\<nexists>i. taken_back x ?b (Suc n) g i) \<or>
      (\<exists>i. taken_back x ?b (Suc n) g i \<and> m_ram ?m g = beforeWrite ?b ! i)" for g
  proof (cases "g = ?g")
    case True
    then have "taken_back x ?b (Suc n) g n \<and> m_ram ?m g = beforeWrite ?b ! n" using p ram by (simp add: taken_back_def)
    then show ?thesis by blast
  next
    case False
    then have "taken_back x ?b (Suc n) g i \<longleftrightarrow> taken_back x ?b n g i" for i
      by (auto simp: taken_back_def less_Suc_eq)
    moreover have "m_ram ?m g = m_ram m1 g" using False ram by simp
    ultimately show ?thesis using w unfolding written_memory_def by simp
  qed
  moreover have "length ?ws = length (dbg_write ?b)" using ws(2) by simp
  ultimately show ?thesis unfolding written_memory_def by blast
qed

lemma check_writes:
  assumes "fold check_write [0..<n] (d, m) = (d1, m1)"
  shows "same_tables_but d d1 \<and> written_memory (dbg_data d) m n m1 \<and>
    m_watchpoints (dbg_data d1) =
      fold wp_access_step (map (write_access (mem_dbg m)) (kept_writes (dbg_data d) (mem_dbg m) n)) (m_watchpoints (dbg_data d))"
  using assms
proof (induction n arbitrary: d1 m1)
  case 0
  have "written_memory (dbg_data d) m 0 m"
    unfolding written_memory_def
    by (intro conjI exI [of _ "dbg_write (mem_dbg m)"]) (simp_all add: taken_back_def)
  then show ?case using 0 by (simp add: same_tables_but_refl kept_writes_def)
next
  case (Suc n)
  obtain d0 m0 where f: "fold check_write [0..<n] (d, m) = (d0, m0)" by fastforce
  note IH = Suc.IH [OF f]
  note w = IH [THEN conjunct2, THEN conjunct1]
  note dbg = written_memory_debug [OF w]
  have s: "check_write n (d0, m0) = (d1, m1)" using Suc.prems f by simp
  have p: "write_protected (dbg_data d0) = write_protected (dbg_data d)" using IH write_protected_cong by blast
  show ?case
  proof (cases "write_protected (dbg_data d) (writeGlobalAddr (mem_dbg m) ! n)")
    case True
    then have "write_protected (dbg_data d0) (writeGlobalAddr (mem_dbg m0) ! n)" using p dbg by simp
    note b = check_write_back [OF this s]
    show ?thesis
      using IH written_memory_Suc_back [OF w True] True by (simp add: b kept_writes_def)
  next
    case False
    then have "\<not> write_protected (dbg_data d0) (writeGlobalAddr (mem_dbg m0) ! n)" using p dbg by simp
    note k = check_write_kept [OF this s]
    have "write_access (mem_dbg m0) n = write_access (mem_dbg m) n" using dbg by (simp add: write_access_def)
    then show ?thesis
      using IH written_memory_Suc_kept [OF w False] False k same_tables_but_trans by (auto simp: kept_writes_def)
  qed
qed

lemma logged_distinct:
  assumes "distinct (map fst ls)"
  shows "logged r0 ls r1 \<longleftrightarrow>
    (\<forall>(g, old, new) \<in> set ls. r0 g = old \<and> r1 g = new) \<and> (\<forall>g. g \<notin> fst ` set ls \<longrightarrow> r1 g = r0 g)"
  using assms
proof (induction ls arbitrary: r0)
  case Nil
  show ?case by (auto simp: logged_def)
next
  case (Cons x ls)
  obtain g old new where x: "x = (g, old, new)" by (cases x)
  have g: "g \<notin> fst ` set ls" and d: "distinct (map fst ls)" using Cons.prems by (simp_all add: x)
  have ne: "h \<noteq> g" if "(h, rest) \<in> set ls" for h rest using g that by force
  have "logged r0 (x # ls) r1 \<longleftrightarrow> r0 g = old \<and> logged (r0(g := new)) ls r1"
    by (auto simp: logged_def x)
  also have "\<dots> \<longleftrightarrow> r0 g = old \<and> (\<forall>(h, old, new) \<in> set ls. r0 h = old \<and> r1 h = new) \<and>
      (\<forall>h. h \<notin> fst ` set ls \<longrightarrow> r1 h = (r0(g := new)) h)"
    unfolding Cons.IH [OF d] using ne by auto
  also have "\<dots> \<longleftrightarrow> (\<forall>(g, old, new) \<in> set (x # ls). r0 g = old \<and> r1 g = new) \<and>
      (\<forall>h. h \<notin> fst ` set (x # ls) \<longrightarrow> r1 h = r0 h)"
    using g by (auto simp: x)
  finally show ?case .
qed

lemma check_accesses_spec:
  assumes "check_accesses env (d, mc, disp) = (d1, mc1, disp1)"
  defines "b \<equiv> mem_dbg (mem mc)" and "n \<equiv> unat (writeLen (mem_dbg (mem mc)))"
  shows "same_tables_but d d1" "written_memory (dbg_data d) (mem mc) n (mem mc1)" "mc1 = mc\<lparr>mem := mem mc1\<rparr>" "disp1 = disp"
    "m_watchpoints (dbg_data d1) = fold wp_access_step
      (map (read_access b) [0..<unat (readLen b)] @ map (write_access b) (kept_writes (dbg_data d) b n)) (m_watchpoints (dbg_data d))"
proof -
  define d0 where "d0 = on_data (MemRunsUpdate (instrGlobalAddr b)) d"
  define d2 where "d2 = fold (check_read b) [0..<unat (readLen b)] d0"
  obtain d3 m1 where w: "fold check_write [0..<n] (d2, mem mc) = (d3, m1)" by fastforce
  have r: "d1 = on_data (CheckCodePerfs (env_dop env) (r_pc (cpu mc)) (r_cc (cpu mc))) d3" "mc1 = mc\<lparr>mem := m1\<rparr>" "disp1 = disp"
    using assms(1) w by (simp_all add: check_accesses_def Let_def b_def n_def d2_def d0_def)
  have t0: "same_tables_but d d0" "m_watchpoints (dbg_data d0) = m_watchpoints (dbg_data d)"
    by (simp_all add: d0_def data_defs same_tables_but_def MemRunsUpdate_def)
  note t2 = check_reads [of d0 b "[0..<unat (readLen b)]", folded d2_def]
  note t3 = check_writes [OF w]
  have t1: "same_tables_but d3 d1" "m_watchpoints (dbg_data d1) = m_watchpoints (dbg_data d3)"
    by (simp_all add: r(1) data_defs same_tables_but_def CheckCodePerfs_def)
  have d2: "same_tables_but d d2" using t0 t2 same_tables_but_trans by blast
  have p: "write_protected (dbg_data d2) = write_protected (dbg_data d)" by (rule write_protected_cong [OF d2])
  have "kept_writes (dbg_data d2) b n = kept_writes (dbg_data d) b n" by (simp add: kept_writes_def p)
  moreover have "written_memory (dbg_data d2) = written_memory (dbg_data d)"
    by (simp add: written_memory_def taken_back_def p fun_eq_iff)
  ultimately show "written_memory (dbg_data d) (mem mc) n (mem mc1)" "mc1 = mc\<lparr>mem := mem mc1\<rparr>"
    "disp1 = disp" "m_watchpoints (dbg_data d1) = fold wp_access_step
      (map (read_access b) [0..<unat (readLen b)] @ map (write_access b) (kept_writes (dbg_data d) b n)) (m_watchpoints (dbg_data d))"
    using r(2,3) t2 t3 by (simp_all add: b_def t1(2) t0(2))
  show "same_tables_but d d1" using d2 t3 t1(1) same_tables_but_trans by blast
qed

text \<open>With the writes of an instruction to different addresses, taking back gives the old bytes.\<close>

lemma written_memory_logged:
  assumes w: "written_memory x m (unat (writeLen (mem_dbg m))) m1" and lg: "logged r0 (mem_log m) (m_ram m)"
    and dis: "distinct (map fst (mem_log m))" and len: "unat (writeLen (mem_dbg m)) \<le> length (dbg_write (mem_dbg m))"
  shows "m_ram m1 g = (if write_protected x g then r0 g else m_ram m g)" "logged r0 (mem_log m1) (m_ram m1)"
proof -
  let ?b = "mem_dbg m" and ?n = "unat (writeLen (mem_dbg m))"
  have keys: "map fst (mem_log m) = map ((!) (writeGlobalAddr ?b)) [0..<?n]" by (simp add: mem_log_def comp_def)
  note l = lg [unfolded logged_distinct [OF dis]]
  have old: "r0 (writeGlobalAddr ?b ! i) = beforeWrite ?b ! i" "m_ram m (writeGlobalAddr ?b ! i) = dbg_write ?b ! i" if "i < ?n" for i
    using l that by (auto simp: mem_log_def)
  have ram: "m_ram m1 g = (if write_protected x g then r0 g else m_ram m g)" for g
  proof (cases "\<exists>i. taken_back x ?b ?n g i")
    case True
    then obtain i where "taken_back x ?b ?n g i" "m_ram m1 g = beforeWrite ?b ! i"
      using w unfolding written_memory_def by blast
    then show ?thesis using old(1) by (auto simp: taken_back_def)
  next
    case False
    then have same: "m_ram m1 g = m_ram m g" using w unfolding written_memory_def by blast
    moreover have "m_ram m g = r0 g" if "write_protected x g"
    proof -
      have "g \<notin> fst ` set (mem_log m)"
        using False that by (auto simp: mem_log_def taken_back_def)
      then show ?thesis using l by blast
    qed
    ultimately show ?thesis by simp
  qed
  show "m_ram m1 g = (if write_protected x g then r0 g else m_ram m g)" by (rule ram)
  obtain ws where m1: "mem_dbg m1 = ?b\<lparr>dbg_write := ws\<rparr>"
    and ws: "\<forall>j < min ?n (length ws). ws ! j =
        (if write_protected x (writeGlobalAddr ?b ! j) then beforeWrite ?b ! j else dbg_write ?b ! j)"
      "length ws = length (dbg_write ?b)"
    using w unfolding written_memory_def by (metis memory.select_convs(5) memory.surjective memory.update_convs(5))
  have log1: "mem_log m1 = map (\<lambda>i. (writeGlobalAddr ?b ! i, beforeWrite ?b ! i, ws ! i)) [0..<?n]" by (simp add: mem_log_def m1)
  then have k: "map fst (mem_log m1) = map fst (mem_log m)" by (simp add: mem_log_def comp_def)
  have "m_ram m1 (writeGlobalAddr ?b ! i) = ws ! i" if "i < ?n" for i
    using ws len that old [OF that] by (simp add: ram)
  then have "\<forall>(g, old, new) \<in> set (mem_log m1). r0 g = old \<and> m_ram m1 g = new"
    unfolding log1 using old(1) by auto
  moreover have "m_ram m1 g = r0 g" if "g \<notin> fst ` set (mem_log m1)" for g
  proof -
    have "g \<notin> fst ` set (mem_log m)" using that unfolding set_map [symmetric] k .
    then show ?thesis using l by (simp add: ram)
  qed
  ultimately show "logged r0 (mem_log m1) (m_ram m1)" using dis unfolding k [symmetric] by (simp add: logged_distinct)
qed

section \<open>The whole call\<close>

lemma on_screen_machine: "fst (on_screen (BuffUpdate b) e) = fst e"
proof -
  obtain mc d where e: "e = (mc, d)" by (cases e)
  have "snd (BuffUpdate b (d, io mc, mem mc)) = (io mc, mem mc)"
    using FrameBuffUpdate_redraws [of "(d, io mc, mem mc)"]
    by (cases b) (auto simp: BuffUpdate_def redraws_def split: prod.split)
  then show ?thesis by (auto simp: e on_screen_def split: prod.split)
qed

lemma Recorder_Update_machine: "fst (snd (Recorder_Update (r, e))) = fst e"
proof -
  have "fst (snd (CleanMemUpdates (r, e))) = fst e"
    by (cases e) (simp add: CleanMemUpdates_def on_screen_machine)
  then show ?thesis by (simp add: Recorder_Update_def Let_def case_prod_beta)
qed

lemma finish_debug_spec:
  assumes "finish_debug env script (d, mc, disp) = (out, d1, mc1, disp1)"
  defines "t \<equiv> m_watchpoints (dbg_data d)"
  shows "mc1 = mc" "m_watchpoints (dbg_data d1) = snd (CheckBreak t)"
    "snd out = choose_stop (r_pc (cpu mc)) (instrGlobalAddr (mem_dbg (mem mc))) (fst (CheckBreak t)) (m_hit t)
      (fst (Bp_Check (cpu mc) (mem_upd (mem mc)) (m_breakpoints (dbg_data d)))) script (m_breakScriptId (dbg_scripts d))"
proof -
  obtain bp bps where bp: "Bp_Check (cpu mc) (mem_upd (mem mc)) (m_breakpoints (dbg_data d)) = (bp, bps)" by fastforce
  obtain wp wps where wp: "CheckBreak t = (wp, wps)" by fastforce
  have m: "fst (snd (Recorder_Update (r, mc, disp))) = mc" for r using Recorder_Update_machine [of r "(mc, disp)"] by simp
  define d2 where "d2 = on_breakpoints (\<lambda>_. bps) (on_watchpoints (\<lambda>_. wps) d)"
  note r = assms(1) [unfolded finish_debug_def, simplified, unfolded bp wp [unfolded t_def] Let_def prod.case d2_def [symmetric]]
  have d2: "m_watchpoints (dbg_data d2) = wps" by (simp add: d2_def data_defs)
  show "mc1 = mc" "m_watchpoints (dbg_data d1) = snd (CheckBreak t)"
    "snd out = choose_stop (r_pc (cpu mc)) (instrGlobalAddr (mem_dbg (mem mc))) (fst (CheckBreak t)) (m_hit t)
      (fst (Bp_Check (cpu mc) (mem_upd (mem mc)) (m_breakpoints (dbg_data d)))) script (m_breakScriptId (dbg_scripts d))"
    using r m [of "dbg_recorder d2"] d2
    by (auto simp: bp wp wp [unfolded t_def] t_def on_recorder_def on_trace_def case_prod_beta split: sum.splits)
qed

lemma Debug_machine:
  assumes "Debug env ds = Some (out, d1, mc1, disp1)" "check_accesses env ds = (d0, mc0, disp0)"
  shows "mc1 = mc0"
proof -
  consider e s where "Scripts_Check (host_of env d0 mc0) (dbg_scripts d0) = Some (Inl e, s)"
    | asks s where "Scripts_Check (host_of env d0 mc0) (dbg_scripts d0) = Some (Inr asks, s)"
    using assms by (auto simp: Debug_def split: option.splits prod.splits sum.splits)
  then show ?thesis
  proof cases
    case (2 asks s)
    then have "finish_debug env asks (put_scripts s d0, mc0, disp0) = (out, d1, mc1, disp1)"
      using assms by (simp add: Debug_def)
    then show ?thesis by (rule finish_debug_spec(1))
  qed (use assms in \<open>simp add: Debug_def\<close>)
qed

text \<open>The access that stops the program: the first that fires a watchpoint.\<close>

definition stopping_access :: "('r, 'v) debugger \<Rightarrow> mem_debug \<Rightarrow> mem_access option" where
  "stopping_access d b =
    List.find (\<lambda>x. \<exists>(i, w) \<in> set (m_wps (m_watchpoints (dbg_data d))). wp_fires x w)
      (map (read_access b) [0..<unat (readLen b)] @ map (write_access b) (kept_writes (dbg_data d) b (unat (writeLen b))))"

definition no_hit :: "watchpoints \<Rightarrow> bool" where
  "no_hit t \<longleftrightarrow> \<not> m_wpBreak t \<and> m_hit t = None"

definition stop_of :: "('r, 'v) debugger \<Rightarrow> io machine \<Rightarrow> bool \<Rightarrow> int \<Rightarrow> stop option" where
  "stop_of d mc asks i =
    (case stopping_access d (mem_dbg (mem mc)) of
       Some x \<Rightarrow> Some (watchpoint_stop (instrGlobalAddr (mem_dbg (mem mc))) (hit_of x (m_watchpoints (dbg_data d))))
     | None \<Rightarrow>
        if fst (Bp_Check (cpu mc) (mem_upd (mem mc)) (m_breakpoints (dbg_data d))) then Some (breakpoint_stop (r_pc (cpu mc)))
        else if asks then Some (script_stop i) else None)"

lemma CheckBreak_quiet: "m_wpBreak t \<longleftrightarrow> m_hit t \<noteq> None \<Longrightarrow> no_hit (snd (CheckBreak t))" "fst (CheckBreak t) = m_wpBreak t"
  by (auto simp: no_hit_def CheckBreak_def)

lemma Debug_spec:
  assumes "Debug env (d, mc, disp) = Some ((err, stop), d1, mc1, disp1)"
    and "bytewise (m_watchpoints (dbg_data d))" "no_hit (m_watchpoints (dbg_data d))"
  obtains mc0 d0 where "check_accesses env (d, mc, disp) = (d0, mc1, disp)" "cpu mc1 = cpu mc" "io mc1 = io mc"
    "(\<exists>e s. Scripts_Check (host_of env d0 mc1) (dbg_scripts d) = Some (Inl e, s) \<and> err = Some (Script_failed e)) \<or>
     (\<exists>asks s. Scripts_Check (host_of env d0 mc1) (dbg_scripts d) = Some (Inr asks, s) \<and>
        stop = stop_of d mc asks (m_breakScriptId s) \<and> no_hit (m_watchpoints (dbg_data d1)))"
proof -
  obtain d0 mc0 disp0 where c: "check_accesses env (d, mc, disp) = (d0, mc0, disp0)" by (metis prod_cases3)
  note a = check_accesses_spec [OF c]
  note w = written_memory_debug [OF a(2)]
  have same: "dbg_scripts d0 = dbg_scripts d" "m_breakpoints (dbg_data d0) = m_breakpoints (dbg_data d)"
    using a(1) by (simp_all add: same_tables_but_def)
  have cpu0: "cpu mc0 = cpu mc" "io mc0 = io mc" using a(3) by (metis machine.select_convs(1,3) machine.surjective machine.update_convs(2))+
  let ?t = "m_watchpoints (dbg_data d)" and ?u = "m_watchpoints (dbg_data d0)"
  have hit: "m_wpBreak ?u \<longleftrightarrow> m_hit ?u \<noteq> None" "m_hit ?u = map_option (\<lambda>x. hit_of x ?t) (stopping_access d (mem_dbg (mem mc)))"
    using access_run [OF assms(2), of "map (read_access (mem_dbg (mem mc))) [0..<unat (readLen (mem_dbg (mem mc)))] @
        map (write_access (mem_dbg (mem mc))) (kept_writes (dbg_data d) (mem_dbg (mem mc)) (unat (writeLen (mem_dbg (mem mc)))))"]
      assms(3)
    by (simp_all add: a(5) no_hit_def stopping_access_def wp_matched_nonempty [symmetric])
  consider e s where "Scripts_Check (host_of env d0 mc0) (dbg_scripts d) = Some (Inl e, s)"
    | asks s where "Scripts_Check (host_of env d0 mc0) (dbg_scripts d) = Some (Inr asks, s)"
    using assms(1) by (auto simp: Debug_def c same split: option.splits prod.splits sum.splits)
  then show ?thesis
  proof cases
    case (1 e s)
    then have "mc1 = mc0" "disp1 = disp0" "err = Some (Script_failed e)" using assms(1) by (simp_all add: Debug_def c same)
    then show ?thesis using 1 that [of d0] c cpu0 a(4) by blast
  next
    case (2 asks s)
    have f: "finish_debug env asks (put_scripts s d0, mc0, disp0) = ((err, stop), d1, mc1, disp1)"
      using assms(1) 2 by (simp add: Debug_def c same)
    note fd = finish_debug_spec [OF f]
    have p: "m_watchpoints (dbg_data (put_scripts s d0)) = ?u" "m_breakpoints (dbg_data (put_scripts s d0)) = m_breakpoints (dbg_data d)"
      "dbg_scripts (put_scripts s d0) = s"
      using same by (simp_all add: data_defs)
    have "stop = stop_of d mc asks (m_breakScriptId s)"
      using fd(3) hit
      by (cases "stopping_access d (mem_dbg (mem mc))")
        (simp_all add: p choose_stop_def stop_of_def CheckBreak_quiet(2) cpu0 w)
    moreover have "no_hit (m_watchpoints (dbg_data d1))" using fd(2) CheckBreak_quiet(1) [OF hit(1)] by (simp add: p)
    ultimately show ?thesis using that [of d0] c cpu0 a(4) fd(1) 2 by blast
  qed
qed

text \<open>
  The trace entry of the instruction can be saved: no log is being written, or the three bytes at
  the program counter, which the line prints, lie in the memory array.
\<close>

definition trace_saved :: "('r, 'v) debugger \<Rightarrow> io machine \<Rightarrow> bool" where
  "trace_saved d mc \<longleftrightarrow> m_logFile (dbg_trace d) = None \<or> \<not> m_saveLog (dbg_trace d) \<or>
    unat (GetGlobalAddr (mem mc) (r_pc (cpu mc)) RAM) + 2 < MEMORY_GLOBAL_LEN"

lemma print_bytes_only: "PrintToBuffer cmds False c m d = PrintToBuffer cmds_z80 False c m d"
  by (simp only: PrintToBuffer_def if_False)

lemma SaveLog_outcome:
  "\<exists>t1. SaveLog cmds c m disp t =
    (if m_logFile t = None \<or> \<not> m_saveLog t \<or> unat (GetGlobalAddr m (r_pc c) RAM) + 2 < MEMORY_GLOBAL_LEN
     then Inr t1 else Inl Address_out_of_range)"
proof (cases "unat (GetGlobalAddr m (r_pc c) RAM) + 2 < MEMORY_GLOBAL_LEN")
  case True
  then obtain buf where "PrintToBuffer cmds False c m disp = Inr buf"
    using print_in_array [of m c cmds_z80 False disp] unfolding print_bytes_only [of cmds] by auto
  with True show ?thesis by (auto simp: SaveLog_def split: option.split)
next
  case False
  then have "PrintToBuffer cmds False c m disp = Inl Address_out_of_range" by (simp add: PrintToBuffer_def)
  with False show ?thesis by (auto simp: SaveLog_def split: option.split)
qed

lemma finish_debug_error:
  "fst (fst (finish_debug env script (d, mc, disp))) =
    (if trace_saved d mc then None else Some (Print_failed Address_out_of_range))"
proof -
  let ?t = "UpdateLogBuffer (cpu mc) (mem mc) (InvalidateFilter (dbg_trace d))"
  have same: "m_logFile ?t = m_logFile (dbg_trace d)" "m_saveLog ?t = m_saveLog (dbg_trace d)"
    by (simp_all add: UpdateLogBuffer_def log_item_def InvalidateFilter_def Let_def)
  have "\<exists>t1. TraceLog_Update (env_cmds env) (cpu mc) (mem mc) disp (dbg_trace d) =
      (if trace_saved d mc then Inr t1 else Inl Address_out_of_range)"
    using SaveLog_outcome [of "env_cmds env" "cpu mc" "mem mc" disp ?t]
    by (simp add: TraceLog_Update_def trace_saved_def same)
  then show ?thesis by (auto simp: finish_debug_def data_defs Let_def case_prod_beta)
qed

lemma RunScript_returns:
  assumes "ends_on_error (host_vm h)" "finite_calls left (host_vm h)"
  shows "\<exists>r. RunScript h sc s = Some r"
proof -
  have "\<exists>err t. script_loop h Go (run_begins h sc s) = Some (err, t) \<and> m_instructionCount t \<le> MAX_INSTRUCTIONS_PER_RUN + 1000"
    by (rule script_loop_returns [OF assms(1), where left = left])
      (use assms(2) in \<open>auto simp: finite_calls_def run_begins_def MAX_INSTRUCTIONS_PER_RUN_def\<close>)
  then show ?thesis by (auto simp: RunScript_def case_prod_beta)
qed

lemma Scripts_Check_returns:
  assumes "ends_on_error (host_vm h)" "finite_calls left (host_vm h)" "scripts_ok s"
  shows "\<exists>asks t. Scripts_Check h s = Some (Inr asks, t)"
proof -
  have "\<exists>r. check_scripts h is b s = Some r" for "is" b s
  proof (induction "is" arbitrary: b s)
    case (Cons i "is")
    show ?case
    proof (cases "map_of (m_scripts s) i")
      case (Some sc)
      obtain r s1 where "RunScript h sc s = Some (r, s1)" using RunScript_returns [OF assms(1,2)] by fastforce
      then show ?thesis using Some Cons.IH by (cases r) (auto split: prod.split)
    qed (use Cons.IH in simp)
  qed simp
  then obtain r t where "check_scripts h (map fst (m_scripts s)) False s = Some (r, t)" by (metis surj_pair)
  then show ?thesis using check_scripts_ok [OF assms(3)] by (auto simp: Scripts_Check_def)
qed

lemma Debug_returns:
  assumes "ends_on_error (env_vm env)" "finite_calls left (env_vm env)" "scripts_ok (dbg_scripts (fst ds))"
  shows "\<exists>err stop d1 mc1 disp1. Debug env ds = Some ((err, stop), d1, mc1, disp1)"
proof -
  obtain d mc disp where ds: "ds = (d, mc, disp)" by (cases ds)
  obtain d0 mc0 disp0 where c: "check_accesses env (d, mc, disp) = (d0, mc0, disp0)" by (metis prod_cases3)
  have same: "dbg_scripts d0 = dbg_scripts d" using check_accesses_spec(1) [OF c] by (simp add: same_tables_but_def)
  have "host_vm (host_of env d0 mc0) = env_vm env" by (simp add: host_of_def)
  then obtain asks s where "Scripts_Check (host_of env d0 mc0) (dbg_scripts d) = Some (Inr asks, s)"
    using Scripts_Check_returns [of "host_of env d0 mc0" left "dbg_scripts d"] assms ds by auto
  moreover obtain err stop d1 mc1 disp1 where
      "finish_debug env asks (put_scripts s d0, mc0, disp0) = ((err, stop), d1, mc1, disp1)" by (metis surj_pair)
  ultimately show ?thesis by (simp add: ds Debug_def c same)
qed

section \<open>The hook of the hardware\<close>

text \<open>
  What \<^verbatim>\<open>AttachDebugFuncs\<close> is given. The text of an exception is \<open>what\<close>. A call that
  does not return has no value; \<^term>\<open>None\<close> is mapped to no stop, and does not occur when the scripts
  return.
\<close>

definition debugger_hooks :: "('r, 'v) debug_env \<Rightarrow> (debug_error \<Rightarrow> string) \<Rightarrow> ('r, 'v) debugger debug_hooks" where
  "debugger_hooks env what =
    \<lparr>hook_debug = (\<lambda>d e.
       case Debug env (d, e) of
         None \<Rightarrow> ((None, None), d, e)
       | Some ((err, stop), d1, e1) \<Rightarrow> ((map_option what err, stop), d1, e1)),
     hook_request = (\<lambda>r run d e.
       let call = (\<lambda>code j. case DebugReqHandling env code run j (d, e) of
             None \<Rightarrow> (Inr JNull, None, d, e)
           | Some (Inl err, script, d1, e1) \<Rightarrow> (Inl (what err), script, d1, e1)
           | Some (Inr j, script, d1, e1) \<Rightarrow> (Inr j, script, d1, e1))
       in case r of
            DEBUG_REQ code j \<Rightarrow> call code j
          | Notice n \<Rightarrow> call (notice_code n) JNull
          | _ \<Rightarrow> (Inr JNull, None, d, e))\<rparr>"

lemma debugger_hook_spec:
  assumes vm: "ends_on_error (env_vm env)" "finite_calls left (env_vm env)"
    and d: "scripts_ok (dbg_scripts d)" "bytewise (m_watchpoints (dbg_data d))" "no_hit (m_watchpoints (dbg_data d))"
  shows "\<exists>hst asks s d1 mc1 disp1.
    Scripts_Check hst (dbg_scripts d) = Some (Inr asks, s) \<and> host_cpu hst = cpu mc \<and>
    hook_debug (debugger_hooks env what) d (mc, disp) =
      ((if trace_saved d mc then None else Some (what (Print_failed Address_out_of_range)),
        stop_of d mc asks (m_breakScriptId s)), d1, mc1, disp1) \<and>
    cpu mc1 = cpu mc \<and> io mc1 = io mc \<and> no_hit (m_watchpoints (dbg_data d1))"
proof -
  obtain err stop d1 mc1 disp1 where D: "Debug env (d, mc, disp) = Some ((err, stop), d1, mc1, disp1)"
    using Debug_returns [OF vm, of "(d, mc, disp)"] d(1) by auto
  obtain d0 where c: "check_accesses env (d, mc, disp) = (d0, mc1, disp)" "cpu mc1 = cpu mc" "io mc1 = io mc"
    and r: "(\<exists>e s. Scripts_Check (host_of env d0 mc1) (dbg_scripts d) = Some (Inl e, s) \<and> err = Some (Script_failed e)) \<or>
     (\<exists>asks s. Scripts_Check (host_of env d0 mc1) (dbg_scripts d) = Some (Inr asks, s) \<and>
        stop = stop_of d mc asks (m_breakScriptId s) \<and> no_hit (m_watchpoints (dbg_data d1)))"
    by (rule Debug_spec [OF D d(2,3)])
  obtain asks s where S: "Scripts_Check (host_of env d0 mc1) (dbg_scripts d) = Some (Inr asks, s)"
    using Scripts_Check_returns [of "host_of env d0 mc1" left "dbg_scripts d"] vm d(1) by (auto simp: host_of_def)
  have same: "dbg_scripts d0 = dbg_scripts d" "dbg_trace d0 = dbg_trace d"
    using check_accesses_spec(1) [OF c(1)] by (simp_all add: same_tables_but_def)
  have "mem_upd (mem mc1) = mem_upd (mem mc)"
    by (rule written_memory_debug(4) [OF check_accesses_spec(2) [OF c(1)]])
  then have "trace_saved (put_scripts s d0) mc1 = trace_saved d mc"
    using same c(2) by (simp add: trace_saved_def data_defs GetGlobalAddr_def)
  then have "err = (if trace_saved d mc then None else Some (Print_failed Address_out_of_range))"
    using D S finish_debug_error [of env asks "put_scripts s d0" mc1 disp] by (simp add: Debug_def c(1) same)
  then have "hook_debug (debugger_hooks env what) d (mc, disp) =
      ((if trace_saved d mc then None else Some (what (Print_failed Address_out_of_range)),
        stop_of d mc asks (m_breakScriptId s)), d1, mc1, disp1)"
    "no_hit (m_watchpoints (dbg_data d1))"
    using D r S by (auto simp: debugger_hooks_def)
  moreover have "host_cpu (host_of env d0 mc1) = cpu mc" using c(2) by (simp add: host_of_def)
  ultimately show ?thesis using S c by blast
qed

section \<open>Properties\<close>


text \<open>C7: a read-only edit keeps its byte. When the log of an instruction tells its writes, each to another
  address, then after the debugger has seen it every address with an active read-only edit holds what
  it held before the instruction, every other what the instruction left there, and the log again
  tells the difference, so that the recorder keeps what really happened.\<close>

theorem readonly_edits_hold:
  assumes "Debug env (d, mc, disp) = Some (out, d1, mc1, disp1)"
    and "logged r0 (mem_log (mem mc)) (m_ram (mem mc))" "distinct (map fst (mem_log (mem mc)))"
    and "unat (writeLen (mem_dbg (mem mc))) \<le> length (dbg_write (mem_dbg (mem mc)))"
  shows "(\<forall>g. m_ram (mem mc1) g = (if write_protected (dbg_data d) g then r0 g else m_ram (mem mc) g)) \<and>
    logged r0 (mem_log (mem mc1)) (m_ram (mem mc1)) \<and> cpu mc1 = cpu mc \<and> io mc1 = io mc"
proof -
  obtain d0 mc0 disp0 where c: "check_accesses env (d, mc, disp) = (d0, mc0, disp0)" by (metis prod_cases3)
  note a = check_accesses_spec [OF c]
  have "mc1 = mc0"
    by (rule Debug_machine [OF assms(1) c])
  moreover have "cpu mc0 = cpu mc" "io mc0 = io mc"
    using a(3) by (metis machine.select_convs(1,3) machine.surjective machine.update_convs(2))+
  ultimately show ?thesis using written_memory_logged [OF a(2) assms(2-4)] by blast
qed

section \<open>Edits can be taken back\<close>

definition edit_json :: "global_addr \<Rightarrow> u8 \<times> bool \<times> bool \<times> string \<Rightarrow> jval" where
  "edit_json g e =
    (case e of (v, ro, act, com) \<Rightarrow>
      JObj [(''active'', JBool act), (''comment'', JStr com), (''enteredValue'', JNum (uint v)),
        (''globalAddr'', JNum (uint g)), (''readonly'', JBool ro)])"

definition addr_json :: "global_addr \<Rightarrow> jval" where
  "addr_json g = JObj [(''globalAddr'', JNum (uint g))]"

definition add_edit :: "('r, 'v) debug_env \<Rightarrow> global_addr \<Rightarrow> u8 \<times> bool \<times> bool \<times> string \<Rightarrow> ('r, 'v) dbg_state \<Rightarrow> ('r, 'v) dbg_state" where
  "add_edit env g e ds =
    (case DebugReqHandling env Req_DEBUG_MEMORY_EDIT_ADD False (edit_json g e) ds of
       Some (_, _, ds1) \<Rightarrow> ds1 | None \<Rightarrow> ds)"

lemma edit_handlers:
  "map_of debug_handlers Req_DEBUG_MEMORY_EDIT_ADD = Some req_edit_add"
  "map_of debug_handlers Req_DEBUG_MEMORY_EDIT_RESTORE = Some req_edit_restore"
  by (simp_all add: debug_handlers_def req_codes)

lemma read_edit:
  "fld ''globalAddr'' get_word (edit_json g (v, ro, act, com)) = Inr g"
  "fld ''enteredValue'' get_word (edit_json g (v, ro, act, com)) = Inr v"
  "fld ''active'' get_bool (edit_json g (v, ro, act, com)) = Inr act"
  "fld ''readonly'' get_bool (edit_json g (v, ro, act, com)) = Inr ro"
  "fld ''comment'' get_string (edit_json g (v, ro, act, com)) = Inr com"
  "fld ''globalAddr'' get_word (addr_json g) = Inr g"
  by (simp_all add: fld_def edit_json_def addr_json_def and_then_def)

definition ram_of :: "('r, 'v) dbg_state \<Rightarrow> global_addr \<Rightarrow> u8" where
  "ram_of ds = m_ram (mem (fst (snd ds)))"

definition edits_of :: "('r, 'v) dbg_state \<Rightarrow> (global_addr \<times> memory_edit) list" where
  "edits_of ds = m_memoryEdits (dbg_data (fst ds))"

lemma ram_at_inside: "unat g < MEMORY_GLOBAL_LEN \<Longrightarrow> ram_at g ds = Inr (ram_of ds g)"
  by (simp add: ram_at_def ram_of_def GetByteGlobal_def)

lemma put_ram_parts: "ram_of (put_ram g v ds) = (ram_of ds)(g := v)" "edits_of (put_ram g v ds) = edits_of ds"
  by (cases ds; cases "snd ds"; simp add: put_ram_def ram_of_def edits_of_def on_ram_def SetByteGlobal_def)+

lemma on_debugger_parts: "ram_of (on_debugger k ds) = ram_of ds"
  by (simp add: on_debugger_def ram_of_def)

text \<open>After an add the edit keeps the first original value, and nothing else has changed.\<close>

lemma add_edit_spec:
  assumes "unat g < MEMORY_GLOBAL_LEN"
  shows "\<exists>e. originalValue e = (case map_of (edits_of ds) g of Some old \<Rightarrow> originalValue old | None \<Rightarrow> ram_of ds g) \<and>
    edits_of (add_edit env g x ds) = AList.update g e (edits_of ds) \<and>
    (\<forall>a. a \<noteq> g \<longrightarrow> ram_of (add_edit env g x ds) a = ram_of ds a)"
proof -
  obtain v ro act com where x: "x = (v, ro, act, com)" by (cases x)
  define old where "old = map_of (edits_of ds) g"
  define orig where "orig = (case old of Some e \<Rightarrow> originalValue e | None \<Rightarrow> ram_of ds g)"
  define e where "e = \<lparr>me_comment = com, me_globalAddr = g, enteredValue = v, originalValue = orig, readonly = ro, me_active = act\<rparr>"
  define ds1 where "ds1 = on_debugger (on_data (SetMemoryEdit e)) ds"
  have o: "GetMemoryEdit (dbg_data (fst ds)) g = old" by (simp add: GetMemoryEdit_def old_def edits_of_def)
  have r: "(case old of Some e \<Rightarrow> Inr (originalValue e) | None \<Rightarrow> ram_at g ds) = Inr orig"
    by (simp add: orig_def ram_at_inside [OF assms] split: option.split)
  have "DebugReqHandling env Req_DEBUG_MEMORY_EDIT_ADD False (edit_json g x) ds =
      answer JNull (if applies old v act then put_ram g v ds1 else ds1)"
    by (simp add: DebugReqHandling_def edit_handlers req_edit_add_def x read_edit reading_def o r Let_def
        ram_at_inside [OF assms] e_def ds1_def)
  then have a: "add_edit env g x ds = (if applies old v act then put_ram g v ds1 else ds1)"
    by (simp add: add_edit_def answer_def)
  have "edits_of ds1 = AList.update g e (edits_of ds)"
    by (simp add: ds1_def on_debugger_def edits_of_def on_data_def SetMemoryEdit_def e_def)
  moreover have "ram_of ds1 = ram_of ds" by (simp add: ds1_def on_debugger_parts)
  ultimately show ?thesis
    by (intro exI [of _ e]) (simp add: a put_ram_parts e_def orig_def old_def)
qed

lemma add_edits_spec:
  assumes "unat g < MEMORY_GLOBAL_LEN" "map_of (edits_of ds) g = None \<or> (\<exists>e. map_of (edits_of ds) g = Some e \<and> originalValue e = b)"
    "map_of (edits_of ds) g = None \<longrightarrow> ram_of ds g = b" "xs \<noteq> [] \<or> map_of (edits_of ds) g \<noteq> None"
  shows "\<exists>e. originalValue e = b \<and> map_of (edits_of (fold (add_edit env g) xs ds)) g = Some e \<and>
    AList.delete g (edits_of (fold (add_edit env g) xs ds)) = AList.delete g (edits_of ds) \<and>
    (\<forall>a. a \<noteq> g \<longrightarrow> ram_of (fold (add_edit env g) xs ds) a = ram_of ds a)"
  using assms(2-4)
proof (induction xs arbitrary: ds)
  case (Cons x xs)
  obtain e where e: "originalValue e = (case map_of (edits_of ds) g of Some old \<Rightarrow> originalValue old | None \<Rightarrow> ram_of ds g)"
    "edits_of (add_edit env g x ds) = AList.update g e (edits_of ds)"
    "\<forall>a. a \<noteq> g \<longrightarrow> ram_of (add_edit env g x ds) a = ram_of ds a"
    using add_edit_spec [OF assms(1)] by blast
  have "originalValue e = b" using e(1) Cons.prems by (auto split: option.splits)
  then have "map_of (edits_of (add_edit env g x ds)) g = Some e \<and> originalValue e = b" by (simp add: e(2) update_conv')
  from Cons.IH [of "add_edit env g x ds"] this show ?case
    using e(3) by (auto simp: e(2) delete_update_same)
qed auto

text \<open>C8: an edit can be taken back: whatever edits a client makes at an address that had none, and
  however often, restoring it puts back the byte from before the first, names it in the reply, and leaves
  the memory and the table of edits as they were.\<close>

theorem edit_restore_roundtrip:
  fixes ds :: "('r, 'v) dbg_state"
  assumes "unat g < MEMORY_GLOBAL_LEN" "GetMemoryEdit (dbg_data (fst ds)) g = None" "xs \<noteq> []"
  shows "\<exists>ds1. DebugReqHandling env Req_DEBUG_MEMORY_EDIT_RESTORE False (addr_json g) (fold (add_edit env g) xs ds) =
      answer (JObj [jword ''globalAddr'' g, jword ''restoredValue'' (ram_of ds g), jbool ''deleted'' True]) ds1 \<and>
    ram_of ds1 = ram_of ds \<and> edits_of ds1 = edits_of ds"
proof -
  let ?ds = "fold (add_edit env g) xs ds"
  have none: "map_of (edits_of ds) g = None" using assms(2) by (simp add: GetMemoryEdit_def edits_of_def)
  obtain e where e: "originalValue e = ram_of ds g" "map_of (edits_of ?ds) g = Some e"
    "AList.delete g (edits_of ?ds) = AList.delete g (edits_of ds)" "\<forall>a. a \<noteq> g \<longrightarrow> ram_of ?ds a = ram_of ds a"
    using add_edits_spec [OF assms(1), of ds "ram_of ds g" xs env] none assms(3) by auto
  define ds1 where "ds1 = on_debugger (on_data (DelMemoryEdit g)) (put_ram g (ram_of ds g) ?ds)"
  have g: "GetMemoryEdit (dbg_data (fst ?ds)) g = Some e" using e(2) by (simp add: GetMemoryEdit_def edits_of_def)
  have "DebugReqHandling env Req_DEBUG_MEMORY_EDIT_RESTORE False (addr_json g) ?ds =
      answer (JObj [jword ''globalAddr'' g, jword ''restoredValue'' (ram_of ds g), jbool ''deleted'' True]) ds1"
    by (simp add: DebugReqHandling_def edit_handlers req_edit_restore_def read_edit reading_def g ram_at_inside [OF assms(1)]
        e(1) ds1_def)
  moreover have "ram_of ds1 = ram_of ds" using e(4) by (auto simp: ds1_def on_debugger_parts put_ram_parts fun_eq_iff)
  moreover have "edits_of ds1 = edits_of ds"
  proof -
    have "edits_of ds1 = AList.delete g (edits_of ?ds)"
      using e(2) put_ram_parts(2) [of g "ram_of ds g" ?ds]
      by (simp add: ds1_def on_debugger_def on_data_def DelMemoryEdit_def edits_of_def)
    also have "\<dots> = edits_of ds" using e(3) none by (simp add: map_of_eq_None_iff)
    finally show ?thesis .
  qed
  ultimately show ?thesis by blast
qed

section \<open>The age of an access\<close>

lemma halves:
  fixes x r :: u32
  shows "take_bit 16 ((x AND 0xFFFF0000) OR r) = take_bit 16 r"
    "take_bit 16 ((x AND 0x0000FFFF) OR push_bit 16 r) = take_bit 16 x"
    "drop_bit 16 ((x AND 0x0000FFFF) OR push_bit 16 r) = take_bit 16 r"
proof -
  have n: "(0xFFFF0000 :: u32) = NOT (mask 16)" "(0x0000FFFF :: u32) = mask 16"
    by (simp_all add: mask_eq_exp_minus_1)
  show "take_bit 16 ((x AND 0xFFFF0000) OR r) = take_bit 16 r"
    "take_bit 16 ((x AND 0x0000FFFF) OR push_bit 16 r) = take_bit 16 x"
    "drop_bit 16 ((x AND 0x0000FFFF) OR push_bit 16 r) = take_bit 16 r"
    unfolding n by (rule bit_word_eqI; auto simp: bit_simps)+
qed

lemma rank_of_less: "unat (rank_of idx p) < 1024"
  by (simp add: rank_of_def LAST_RW_MAX_def unat_of_nat)

lemma take_rank: "take_bit 16 (rank_of idx p) = rank_of idx p"
proof -
  have "unat (take_bit 16 (rank_of idx p)) = unat (rank_of idx p)"
    using rank_of_less [of idx p] unfolding unsigned_take_bit_eq by (intro take_bit_nat_eq_self) simp
  then show ?thesis by (simp only: word_unat_eq_iff)
qed

text \<open>A rank is the number of later steps since the oldest entry of the ring.\<close>

lemma rank_of_age:
  assumes "idx < LAST_RW_MAX" "p < LAST_RW_MAX"
  shows "unat (rank_of idx p) = (p + LAST_RW_MAX - idx) mod LAST_RW_MAX"
proof -
  have m: "(1024 - i mod 65536) mod 65536 mod 1024 = (1024 - i) mod (1024 :: int)" for i
  proof -
    have d: "(1024 :: int) dvd 65536" by (rule dvdI [of _ _ 64]) simp
    have "(1024 - i mod 65536) mod 65536 mod 1024 = (1024 - i mod 65536) mod (1024 :: int)" using d by (rule mod_mod_cancel)
    also have "\<dots> = (1024 - i mod 65536 mod 1024) mod 1024" by (rule mod_diff_right_eq [symmetric])
    also have "\<dots> = (1024 - i mod 1024) mod 1024" unfolding mod_mod_cancel [OF d] ..
    also have "\<dots> = (1024 - i) mod 1024" by (rule mod_diff_right_eq)
    finally show ?thesis .
  qed
  let ?k = "(int LAST_RW_MAX - (int idx - int p) mod 2 ^ 16) mod 2 ^ 16"
  have k: "0 \<le> ?k" by simp
  have "int (nat ?k mod LAST_RW_MAX) = ?k mod 1024" using k by (simp add: LAST_RW_MAX_def zmod_int)
  also have "\<dots> = (1024 - (int idx - int p)) mod 1024" using m [of "int idx - int p"] by (simp add: LAST_RW_MAX_def)
  also have "\<dots> = int ((p + LAST_RW_MAX - idx) mod LAST_RW_MAX)"
    using assms by (simp add: LAST_RW_MAX_def zmod_int algebra_simps)
  finally have "nat ?k mod LAST_RW_MAX = (p + LAST_RW_MAX - idx) mod LAST_RW_MAX" by linarith
  moreover have "(p + LAST_RW_MAX - idx) mod LAST_RW_MAX < 2 ^ 32" by (rule less_trans [OF mod_less_divisor]) (simp_all add: LAST_RW_MAX_def)
  ultimately show ?thesis unfolding rank_of_def by (simp only: unat_of_nat mod_less word_size len_num0 len_bit0 len_num1) simp
qed

lemma stamps_other:
  "\<forall>p \<in> set ps. ring ! p \<noteq> g \<Longrightarrow> fold (stamp_read idx ring) ps m g = m g"
  "\<forall>p \<in> set ps. ring ! p \<noteq> g \<Longrightarrow> fold (stamp_write idx ring) ps m g = m g"
  by (induction ps arbitrary: m) (auto simp: stamp_read_def stamp_write_def Let_def)

lemma stamp_at:
  assumes "ring ! p = g" "g \<noteq> LAST_RW_NO_DATA"
  shows "take_bit 16 (stamp_read idx ring p m g) = rank_of idx p" "drop_bit 16 (stamp_write idx ring p m g) = rank_of idx p"
  using assms unfolding stamp_read_def stamp_write_def Let_def
  by (simp_all only: if_False fun_upd_same halves take_rank)

lemma stamp_write_keeps: "take_bit 16 (stamp_write idx ring p m g) = take_bit 16 (m g)"
proof (cases "ring ! p = g \<and> g \<noteq> LAST_RW_NO_DATA")
  case True
  then show ?thesis unfolding stamp_write_def Let_def by (simp only: if_False fun_upd_same halves)
qed (auto simp: stamp_write_def Let_def)

lemma stamp_write_low: "take_bit 16 (fold (stamp_write idx ring) ps m g) = take_bit 16 (m g)"
proof (induction ps arbitrary: m)
  case (Cons p ps)
  then show ?case by (simp only: fold_simps stamp_write_keeps)
qed simp

lemma upto_at: "p < n \<Longrightarrow> [0..<n] = [0..<p] @ p # [Suc p..<n]"
  by (metis less_or_eq_imp_le upt_add_eq_append upt_conv_Cons le_add_diff_inverse zero_le)

lemma last_stamp:
  assumes "p < n" "ring ! p = g" "g \<noteq> LAST_RW_NO_DATA" "\<forall>q. p < q \<and> q < n \<longrightarrow> ring ! q \<noteq> g"
  shows "take_bit 16 (fold (stamp_read idx ring) [0..<n] m g) = rank_of idx p"
    "drop_bit 16 (fold (stamp_write idx ring) [0..<n] m g) = rank_of idx p"
proof -
  have r: "fold h [0..<n] m g = fold h [Suc p..<n] (h p (fold h [0..<p] m)) g" for h :: "nat \<Rightarrow> (u32 \<Rightarrow> u32) \<Rightarrow> u32 \<Rightarrow> u32"
    by (simp add: upto_at [OF assms(1)])
  have later: "\<forall>q \<in> set [Suc p..<n]. ring ! q \<noteq> g" using assms(4) by simp
  show "take_bit 16 (fold (stamp_read idx ring) [0..<n] m g) = rank_of idx p"
    "drop_bit 16 (fold (stamp_write idx ring) [0..<n] m g) = rank_of idx p"
    unfolding r stamps_other [OF later] by (rule stamp_at [OF assms(2,3)])+
qed

text \<open>The map of the latest accesses: an address that the ring of reads (or of writes) holds
  gets, in the low (or high) half of its entry, the age of its last place in the ring, 0 for the oldest
  access and 1023 for the latest.\<close>

theorem last_access_age:
  assumes "m_lastReadsIdx d < LAST_RW_MAX" "m_lastWritesIdx d < LAST_RW_MAX" "g \<noteq> LAST_RW_NO_DATA"
  shows "(p < LAST_RW_MAX \<and> m_lastReadsAddrs d ! p = g \<and> (\<forall>q. p < q \<and> q < LAST_RW_MAX \<longrightarrow> m_lastReadsAddrs d ! q \<noteq> g) \<longrightarrow>
      unat (take_bit 16 (m_memLastRW (UpdateLastRW d) g)) = (p + LAST_RW_MAX - m_lastReadsIdx d) mod LAST_RW_MAX) \<and>
    (p < LAST_RW_MAX \<and> m_lastWritesAddrs d ! p = g \<and> (\<forall>q. p < q \<and> q < LAST_RW_MAX \<longrightarrow> m_lastWritesAddrs d ! q \<noteq> g) \<longrightarrow>
      unat (drop_bit 16 (m_memLastRW (UpdateLastRW d) g)) = (p + LAST_RW_MAX - m_lastWritesIdx d) mod LAST_RW_MAX)"
  using assms by (auto simp: UpdateLastRW_def Let_def stamp_write_low last_stamp rank_of_age)

text \<open>An address that is twice in the ring shows the age of the later place in the array, though the
  other access can be the latest one.\<close>

lemma older_access_shown:
  assumes "m_lastReadsIdx d = 1" "length (m_lastReadsAddrs d) = LAST_RW_MAX" "m_lastReadsAddrs d ! 0 = g"
    "m_lastReadsAddrs d ! 1 = g" "\<forall>q. 1 < q \<and> q < LAST_RW_MAX \<longrightarrow> m_lastReadsAddrs d ! q \<noteq> g" "g \<noteq> LAST_RW_NO_DATA"
  shows "unat (rank_of (m_lastReadsIdx d) 0) = 1023" "take_bit 16 (m_memLastRW (UpdateLastRW d) g) = 0"
proof -
  show "unat (rank_of (m_lastReadsIdx d) 0) = 1023" using assms(1) by (subst rank_of_age) (simp_all add: LAST_RW_MAX_def)
  have "take_bit 16 (fold (stamp_read 1 (m_lastReadsAddrs d)) [0..<LAST_RW_MAX] m g) = rank_of 1 1" for m
    by (rule last_stamp(1)) (use assms in \<open>simp_all add: LAST_RW_MAX_def\<close>)
  then have "take_bit 16 (m_memLastRW (UpdateLastRW d) g) = rank_of 1 1"
    unfolding UpdateLastRW_def Let_def assms(1) by (simp add: stamp_write_low)
  also have "\<dots> = 0" by (simp add: rank_of_def LAST_RW_MAX_def)
  finally show "take_bit 16 (m_memLastRW (UpdateLastRW d) g) = 0" .
qed

section \<open>A small debugger\<close>

definition sample_env :: "(rat, nat) debug_env" where
  "sample_env =
    \<lparr>env_dop = exact_ops, double_json = \<lambda>x. JNull, env_cmds = [], env_vm = endless_vm, env_files = sample_files,
     log_opens = \<lambda>p. False, log_path = ''log''\<rparr>"

text \<open>It watches the byte at 0x100, which the sample instruction writes, or protects it.\<close>

definition plain_debugger :: "(rat, nat) debugger" where
  "plain_debugger = Debugger_new (Scripts_new 0 True) 8 (captured (sample_frame 0 5))"

definition watching_debugger :: "(rat, nat) debugger" where
  "watching_debugger = on_watchpoints (Wp_Add ((sample_wp WP_LEN C_ANY 0)\<lparr>wp_globalAddr := 0x100\<rparr>)) plain_debugger"

definition protecting_debugger :: "(rat, nat) debugger" where
  "protecting_debugger = on_data (SetMemoryEdit \<lparr>me_comment = [], me_globalAddr = 0x100, enteredValue = 4, originalValue = 4,
    readonly = True, me_active = True\<rparr>) plain_debugger"

definition attached :: "(rat, nat) debugger \<Rightarrow> (int, (rat, nat) debugger) hardware" where
  "attached d =
    \<lparr>hw_machine = fst (sample_frame 0 5), hw_display = snd (sample_frame 0 5), hw_audio = fresh_audio, hw_status = S_RUN,
     hw_debugger = Some d, m_debugAttached = True, nextSessionId = 0, m_sessionId = 0, m_cycleOffset = 0, m_frameOffset = 0,
     m_sessionStartCycles = 0, m_sessionStartFrames = 0, m_runStartCycles = 0, m_lastRunCycles = 0,
     m_stopSequence = 0, m_stopRecord = [], m_execSpeed = 2, actual_speed = JNull,
     hw_mem_string = replicate 1057 0, inbox = [], outbox = []\<rparr>"

lemma sample_vm: "ends_on_error (env_vm sample_env)" "finite_calls (\<lambda>v. 0) (env_vm sample_env)"
  using endless_vm_ok by (simp_all add: sample_env_def)

lemma plain_parts:
  "dbg_scripts plain_debugger = Scripts_new 0 True" "m_logFile (dbg_trace plain_debugger) = None"
  "m_watchpoints (dbg_data plain_debugger) = Wp_new" "m_breakpoints (dbg_data plain_debugger) = Bp_new"
  "m_memoryEdits (dbg_data plain_debugger) = []"
  by (simp_all add: plain_debugger_def Debugger_new_def Dd_new_def dbg_scripts_def TraceLog_new_def)


theorem readonly_edits_hold_witness:
  "\<exists>out d1 mc1 disp1. Debug sample_env (protecting_debugger, sample_frame 0 5) = Some (out, d1, mc1, disp1) \<and>
    m_ram (mem mc1) 0x100 = 4"
proof -
  let ?d = protecting_debugger and ?mc = "fst (sample_frame 0 5)"
  have "scripts_ok (dbg_scripts ?d)"
    using plain_parts(1) new_script_ok [of 0 True] by (simp add: protecting_debugger_def data_defs SetMemoryEdit_def)
  then obtain err stop d1 mc1 disp1 where D: "Debug sample_env (?d, ?mc, snd (sample_frame 0 5)) = Some ((err, stop), d1, mc1, disp1)"
    using Debug_returns [OF sample_vm, of "(?d, ?mc, snd (sample_frame 0 5))"] by auto
  have m: "mem_log (mem ?mc) = [(0x100, 4, 5)]" "m_ram (mem ?mc) = (\<lambda>g. if g = 0x100 then 5 else 0)"
    "unat (writeLen (mem_dbg (mem ?mc))) \<le> length (dbg_write (mem_dbg (mem ?mc)))"
    by (simp_all add: sample_frame_def mem_log_def)
  have l: "logged (\<lambda>g. if g = 0x100 then 4 else 0) (mem_log (mem ?mc)) (m_ram (mem ?mc))"
    by (auto simp: m logged_def fun_eq_iff)
  have p: "write_protected (dbg_data ?d) 0x100"
    using plain_parts(5) by (simp add: protecting_debugger_def on_data_def SetMemoryEdit_def write_protected_def GetMemoryEdit_def)
  have "m_ram (mem mc1) 0x100 = 4"
    using readonly_edits_hold [OF D l] m p by simp
  with D show ?thesis by auto
qed

lemma memory_len: "unat (0x100 :: global_addr) < MEMORY_GLOBAL_LEN"
  by (simp add: mem_consts)

theorem edit_restore_roundtrip_witness:
  "\<exists>ds1. DebugReqHandling sample_env Req_DEBUG_MEMORY_EDIT_RESTORE False (addr_json 0x100)
      (fold (add_edit sample_env 0x100) [(7, False, True, ''a''), (9, True, True, ''b'')] (plain_debugger, sample_frame 0 5)) =
    answer (JObj [jword ''globalAddr'' (0x100 :: global_addr), jword ''restoredValue'' (ram_of (plain_debugger, sample_frame 0 5) 0x100),
      jbool ''deleted'' True]) ds1"
proof -
  have none: "GetMemoryEdit (dbg_data (fst (plain_debugger, sample_frame 0 5))) 0x100 = None"
    using plain_parts(5) by (simp add: GetMemoryEdit_def)
  from edit_restore_roundtrip [OF memory_len none, of "[(7, False, True, ''a''), (9, True, True, ''b'')]" sample_env]
  show ?thesis by blast
qed

theorem last_access_age_witness:
  "unat (take_bit 16 (m_memLastRW (UpdateLastRW (plain_debugger\<lparr>m_lastReadsIdx := 3\<rparr>)) 0)) = 1020"
  using last_access_age [of "plain_debugger\<lparr>m_lastReadsIdx := 3\<rparr>" 0 1023]
  by (simp add: plain_debugger_def Debugger_new_def LAST_RW_MAX_def LAST_RW_NO_DATA_def)

end
