(* ===== verification/Debug_Shape.thy ===== *)
theory Debug_Shape
  imports Hw_Props Debug_Run
begin

text \<open>
  An attached debugger leaves the machine in shape. What it does to the processor and the beam is
  to put back a recorded state, and what is recorded comes from a machine in shape; so the
  execution thread keeps the shape in server mode too, for every request but the one that loads
  a recording, whose contents the code does not check.
\<close>

section \<open>A redraw stays in the frame buffer\<close>

lemma moves_trans: "moves j d d1 \<Longrightarrow> moves k d1 d2 \<Longrightarrow> moves (j + k) d d2"
  by (auto simp: moves_def)

lemma fast_active_moves: "moves (nat n) (fst s) (fst (fast_active n s))"
  by (simp add: fast_active_def fill_moves)

lemma FillBorder_moves: "moves n (fst s) (fst (FillBorder n s))"
  by (cases s) (simp add: FillBorder_def Let_def put_pixels_moves)

lemma update_block_moves: "moves 16 (fst s) (fst (update_block s))"
proof (cases "active_area (fst s)")
  case True
  define n where "n = active_pxls (fst s)"
  have n: "0 \<le> n" "n \<le> 16"
    using True by (simp_all add: n_def active_pxls_def active_area_def raster_consts)
  have "nat n + nat (16 - n) = 16" using n by simp
  moreover have "nat n = 16" if "\<not> n < 16" using n that by simp
  ultimately show ?thesis
    using True fast_active_moves [of n s]
      moves_trans [OF fast_active_moves [of n s] FillBorder_moves [of "nat (16 - n)" "fast_active n s"]]
    by (cases "n < 16") (simp_all add: update_block_def Let_def n_def [symmetric] raster_consts)
next
  case False
  define n where "n = border_pxls (fst s)"
  have n: "0 \<le> n" "n \<le> 16"
    using False by (auto simp: n_def border_pxls_def active_area_def raster_consts)
  have "nat n + nat (16 - n) = 16" using n by simp
  moreover have "nat n = 16" if "\<not> n < 16" using n that by simp
  ultimately show ?thesis
    using False FillBorder_moves [of "nat n" s]
      moves_trans [OF FillBorder_moves [of "nat n" s] fast_active_moves [of "16 - n" "FillBorder (nat n) s"]]
    by (cases "n < 16") (simp_all add: update_block_def Let_def n_def [symmetric] raster_consts)
qed

lemma blocks_moves: "moves (16 * n) (fst s) (fst ((update_block ^^ n) s))"
proof (induction n)
  case (Suc n)
  from moves_trans [OF this update_block_moves] show ?case by (simp add: add.commute)
qed (simp add: moves_refl)

lemma FrameBuffUpdate_fault: "d_fault (fst (FrameBuffUpdate s)) = d_fault (fst s)"
proof -
  obtain d x m where s: "s = (d, x, m)" by (cases s)
  have "16 * nat (FRAME_LEN div 16) = nat FRAME_LEN" "int (nat FRAME_LEN) = FRAME_LEN" by (simp_all add: raster_consts)
  then show ?thesis
    using blocks_moves [of "nat (FRAME_LEN div 16)" "(d\<lparr>framebufferIdx := 0\<rparr>, x, m)"]
    by (auto simp: s FrameBuffUpdate_def moves_def split: prod.split)
qed

lemma machine_fit_parts:
  "machine_fit (mc\<lparr>mem := m\<rparr>, d) = machine_fit (mc, d)" "machine_fit (mc\<lparr>io := x\<rparr>, d) = machine_fit (mc, d)"
  by (simp_all add: machine_fit_def)

lemma on_screen_fit [simp]: "machine_fit (on_screen (BuffUpdate b) e) = machine_fit e"
proof -
  obtain mc d where e: "e = (mc, d)" by (cases e)
  obtain d1 x m where u: "BuffUpdate b (d, io mc, mem mc) = (d1, x, m)" by (cases "BuffUpdate b (d, io mc, mem mc)")
  have "framebufferIdx d1 = framebufferIdx d \<and> d_fault d1 = d_fault d"
    using u FrameBuffUpdate_redraws [of "(d, io mc, mem mc)"] FrameBuffUpdate_fault [of "(d, io mc, mem mc)"]
    by (cases b) (auto simp: BuffUpdate_def)
  then show ?thesis by (simp add: e on_screen_def u machine_fit_def steady_def cpu_inv_def)
qed

lemma on_ram_fit [simp]: "machine_fit (on_ram g e) = machine_fit e"
  by (cases e) (simp add: on_ram_def machine_fit_parts)

section \<open>The recorder keeps states in shape\<close>

definition state_fit :: "hw_state \<Rightarrow> bool" where
  "state_fit s \<longleftrightarrow> f_ok (r_f (cpuState s)) \<and> unat (r_mc (cpuState s)) < M_CYCLES ! unat (r_ir (cpuState s)) \<and>
    0 \<le> du_framebufferIdx (displayState s) \<and> du_framebufferIdx (displayState s) < FRAME_LEN \<and>
    16 dvd du_framebufferIdx (displayState s)"

text \<open>
  The slots that a play can reach hold states in shape: all of them once the buffer is full, before
  that the slots from 1 to the number of recorded states. A play wants that a state is recorded;
  before the first one it reaches a slot that holds none.
\<close>

definition window_fit :: "bool \<Rightarrow> recorder \<Rightarrow> bool" where
  "window_fit plays r \<longleftrightarrow> m_stateIdx r = m_stateCurrent r \<and> unat (m_stateCurrent r) \<le> unat (m_stateRecorded r) \<and>
    unat (m_stateRecorded r) < nat (m_recordFrames r) \<and> (plays \<longrightarrow> 0 < unat (m_stateCurrent r)) \<and>
    (\<forall>i. 0 < i \<and> i \<le> unat (m_stateRecorded r) \<longrightarrow> state_fit (m_states r ! i))"

definition rec_good :: "bool \<Rightarrow> recorder \<Rightarrow> bool" where
  "rec_good plays r \<longleftrightarrow> rec_shape r \<and> unat (m_stateIdx r) < nat (m_recordFrames r) \<and>
    ((\<forall>s \<in> set (m_states r). state_fit s) \<or> window_fit plays r)"

lemma rec_good_mono: "rec_good True r \<Longrightarrow> rec_good plays r" "rec_good plays r \<Longrightarrow> rec_good False r"
  unfolding rec_good_def window_fit_def by blast+

lemma captured_fit: "machine_fit e \<Longrightarrow> state_fit (captured e)"
  by (cases e) (simp add: captured_def machine_fit_def cpu_inv_def state_fit_def steady_def display_update_of_def)

lemma put_hw_state_fit: "machine_fit e \<Longrightarrow> state_fit s \<Longrightarrow> machine_fit (put_hw_state s e)"
  by (cases e)
    (simp add: put_hw_state_def machine_fit_def cpu_inv_def state_fit_def steady_def put_display_update_def)

lemma cur_state_fit:
  assumes "rec_good True r" shows "state_fit (cur_state r)"
  using assms by (auto simp: rec_good_def window_fit_def cur_state_def rec_shape_def)

lemma small_idx:
  assumes "rec_shape r" "unat i < nat (m_recordFrames r)"
  shows "unat (i + 1 :: u64) = unat i + 1"
  using assms by (intro unat_suc_less) (auto simp: rec_shape_def RECORD_FRAMES_MAX_def FRAMES_PER_SEC_def)

lemma StoreState_good:
  assumes "rec_good False r" "machine_fit e"
  shows "rec_good True (StoreState e r)"
proof -
  let ?N = "nat (m_recordFrames r)" and ?i = "frame_mod r (m_stateIdx r + 1)" and ?r = "StoreState e r"
  let ?c = "min (m_stateCurrent r + 1) (word_of_int (m_recordFrames r))"
  have sh: "rec_shape r" "unat (m_stateIdx r) < ?N" using assms(1) by (simp_all add: rec_good_def)
  have r: "m_stateIdx ?r = ?i" "m_stateCurrent ?r = ?c" "m_stateRecorded ?r = ?c"
    "m_states ?r = (m_states r)[unat ?i := captured e]" "m_recordFrames ?r = m_recordFrames r"
    by (cases e; simp add: StoreState_def Let_def)+
  have len: "length (m_states r) = ?N" using sh(1) by (simp add: rec_shape_def)
  have i: "unat ?i < ?N" using idx_less [OF sh(1)] .
  have shape: "rec_shape ?r" using sh(1) by (simp add: rec_shape_def r)
  note fit = captured_fit [OF assms(2)]
  consider (all) "\<forall>s \<in> set (m_states r). state_fit s" | (window) "window_fit False r"
    using assms(1) by (auto simp: rec_good_def)
  then show ?thesis
  proof cases
    case all
    then have "\<forall>s \<in> set (m_states ?r). state_fit s" using fit set_update_subset_insert by (fastforce simp: r)
    then show ?thesis using shape i by (simp add: rec_good_def r)
  next
    case window
    then have w: "m_stateIdx r = m_stateCurrent r" "unat (m_stateIdx r) \<le> unat (m_stateRecorded r)"
      "\<And>k. 0 < k \<Longrightarrow> k \<le> unat (m_stateIdx r) \<Longrightarrow> state_fit (m_states r ! k)"
      by (auto simp: window_fit_def)
    have suc: "unat (m_stateIdx r + 1) = unat (m_stateIdx r) + 1" by (rule small_idx [OF sh])
    show ?thesis
    proof (cases "unat (m_stateIdx r) + 1 < ?N")
      case True
      have "unat ?i = unat (m_stateIdx r) + 1" using True by (simp add: frame_mod_nat [OF sh(1)] suc)
      moreover from this have "?i = m_stateIdx r + 1" using suc by (simp add: word_unat_eq_iff)
      moreover have "?c = m_stateIdx r + 1"
        using True suc frames_word(1) [OF sh(1)] by (simp add: min_def word_le_nat_alt flip: w(1))
      ultimately have "window_fit True ?r"
        using True w(3) suc len fit by (auto simp: window_fit_def r nth_list_update le_Suc_eq)
      then show ?thesis using shape i by (simp add: rec_good_def r)
    next
      case False
      then have n: "unat (m_stateIdx r) + 1 = ?N" using sh(2) by simp
      then have "unat ?i = 0" by (simp add: frame_mod_nat [OF sh(1)] suc)
      then have "state_fit (m_states ?r ! k)" if "k < ?N" for k
        using that n w(3) [of k] fit len by (cases k) (simp_all add: r)
      then have "\<forall>s \<in> set (m_states ?r). state_fit s" using len by (auto simp: in_set_conv_nth r(4))
      then show ?thesis using shape i by (simp add: rec_good_def r)
    qed
  qed
qed

lemma Recorder_Reset_good:
  assumes "rec_good False r" "machine_fit e"
  shows "rec_good True (Recorder_Reset e r)"
proof -
  have "rec_good False (r\<lparr>m_stateIdx := 0, m_stateRecorded := 0, m_stateCurrent := 0, m_lastRecord := True, m_frameNum := n\<rparr>)" for n
    using assms(1) by (simp add: rec_good_def rec_shape_def window_fit_def)
  then show ?thesis unfolding Recorder_Reset_def using assms(2) by (rule StoreState_good)
qed

text \<open>Clearing or extending the log of a state leaves its shape.\<close>

lemma upd_cur_state_good:
  assumes "rec_good plays r" "\<And>s. state_fit (g s) = state_fit s"
  shows "rec_good plays (upd_cur_state g r)"
proof -
  have "state_fit ((m_states r)[i := g (m_states r ! i)] ! k) = state_fit (m_states r ! k)" if "i < length (m_states r)" for i k
    using that assms(2) by (cases "k = i") simp_all
  then show ?thesis
    using assms(1)
    by (auto simp: rec_good_def rec_shape_def window_fit_def upd_cur_state_def cur_state_def all_set_conv_all_nth)
qed

lemma StoreMemoryDiff_good: "rec_good plays r \<Longrightarrow> rec_good plays (StoreMemoryDiff m r)"
proof -
  have "state_fit (fold (push_write d) is s) = state_fit s" for d "is" s
    by (induction "is" arbitrary: s) (simp_all add: push_write_def state_fit_def)
  then show "rec_good plays r \<Longrightarrow> ?thesis" unfolding StoreMemoryDiff_def by (intro upd_cur_state_good)
qed

lemma CleanMemUpdates_good:
  assumes "rec_good plays r"
  shows "rec_good plays (fst (CleanMemUpdates (r, e)))" "machine_fit (snd (CleanMemUpdates (r, e))) = machine_fit e"
proof -
  have "rec_good plays (r\<lparr>m_lastRecord := True, m_stateRecorded := m_stateCurrent r\<rparr>)"
    using assms by (auto simp: rec_good_def rec_shape_def window_fit_def)
  then show "rec_good plays (fst (CleanMemUpdates (r, e)))"
    by (simp add: CleanMemUpdates_def upd_cur_state_good state_fit_def)
qed (simp add: CleanMemUpdates_def)

lemma frame_num_good [simp]: "rec_good plays (r\<lparr>m_frameNum := n\<rparr>) = rec_good plays r"
  "rec_good plays (r\<lparr>m_lastRecord := b\<rparr>) = rec_good plays r" "rec_good plays (r\<lparr>rec_ram := m\<rparr>) = rec_good plays r"
  by (simp_all add: rec_good_def rec_shape_def window_fit_def)

lemma Recorder_Update_good:
  assumes "rec_good plays r" "machine_fit e"
  shows "rec_good plays (fst (Recorder_Update (r, e)))" "machine_fit (snd (Recorder_Update (r, e)))"
proof -
  obtain r0 e0 where c: "(if m_lastRecord r then (r, e) else CleanMemUpdates (r, e)) = (r0, e0)" by (rule prod.exhaust)
  have g: "rec_good plays r0" "machine_fit e0"
    using c CleanMemUpdates_good [OF assms(1), of e] assms by (auto split: if_splits)
  define r1 where "r1 = (if writeLen (mem_dbg (mem (fst e0))) \<noteq> 0 then StoreMemoryDiff (mem (fst e0)) r0 else r0)"
  have r1: "rec_good plays r1" using g(1) StoreMemoryDiff_good by (simp add: r1_def)
  then have "rec_good plays (StoreState e0 r1)" by (rule rec_good_mono(1) [OF StoreState_good [OF rec_good_mono(2) g(2)]])
  moreover have "Recorder_Update (r, e) = (if m_frameNum r1 \<noteq> frameNum (snd e0)
      then (StoreState e0 r1)\<lparr>m_frameNum := frameNum (snd e0)\<rparr> else r1, e0)"
    unfolding Recorder_Update_def fst_conv c Let_def prod.case r1_def by (rule refl)
  ultimately show "rec_good plays (fst (Recorder_Update (r, e)))" "machine_fit (snd (Recorder_Update (r, e)))"
    using r1 g(2) by simp_all
qed

lemma forward_step_good:
  assumes "rec_good True r" "m_stateCurrent r \<noteq> m_stateRecorded r"
  shows "rec_good True (r\<lparr>m_stateIdx := frame_mod r (m_stateIdx r + 1), m_stateCurrent := m_stateCurrent r + 1\<rparr>)"
proof -
  have sh: "rec_shape r" "unat (m_stateIdx r) < nat (m_recordFrames r)" using assms(1) by (simp_all add: rec_good_def)
  show ?thesis
  proof (cases "window_fit True r")
    case True
    have "unat (m_stateCurrent r) \<noteq> unat (m_stateRecorded r)" using assms(2) unfolding word_unat_eq_iff .
    then have w: "m_stateCurrent r = m_stateIdx r" "unat (m_stateIdx r) < unat (m_stateRecorded r)"
      "unat (m_stateRecorded r) < nat (m_recordFrames r)"
      using True by (auto simp: window_fit_def)
    have suc: "unat (m_stateIdx r + 1) = unat (m_stateIdx r) + 1" by (rule small_idx [OF sh])
    then have "unat (frame_mod r (m_stateIdx r + 1)) = unat (m_stateIdx r + 1)" using w by (simp add: frame_mod_nat [OF sh(1)])
    then have "frame_mod r (m_stateIdx r + 1) = m_stateIdx r + 1" by (simp only: word_unat_eq_iff)
    then show ?thesis
      using True sh w suc by (auto simp: rec_good_def window_fit_def rec_shape_def)
  next
    case False
    then show ?thesis using assms(1) idx_less [OF sh(1)] by (auto simp: rec_good_def rec_shape_def)
  qed
qed

lemma reverse_step_good:
  assumes "rec_good True r" "m_stateCurrent r \<noteq> 1"
  shows "rec_good True (r\<lparr>m_stateIdx := frame_mod r (m_stateIdx r - 1), m_stateCurrent := m_stateCurrent r - 1\<rparr>)"
proof -
  have sh: "rec_shape r" "unat (m_stateIdx r) < nat (m_recordFrames r)" using assms(1) by (simp_all add: rec_good_def)
  show ?thesis
  proof (cases "window_fit True r")
    case True
    have "unat (m_stateCurrent r) \<noteq> 1" using assms(2) by (metis unat_1 word_unat_eq_iff)
    then have w: "m_stateCurrent r = m_stateIdx r" "1 < unat (m_stateIdx r)" using True by (auto simp: window_fit_def)
    have pred: "unat (m_stateIdx r - 1) = unat (m_stateIdx r) - 1" using w(2) by (intro unat_pred) simp
    then have "unat (frame_mod r (m_stateIdx r - 1)) = unat (m_stateIdx r - 1)" using sh by (simp add: frame_mod_nat)
    then have "frame_mod r (m_stateIdx r - 1) = m_stateIdx r - 1" by (simp only: word_unat_eq_iff)
    then show ?thesis
      using True sh w pred by (auto simp: rec_good_def window_fit_def rec_shape_def)
  next
    case False
    then show ?thesis using assms(1) idx_less [OF sh(1)] by (auto simp: rec_good_def rec_shape_def)
  qed
qed

lemma forward_frames_good:
  "rec_good True r \<Longrightarrow> machine_fit e \<Longrightarrow> forward_frames n (r, e) = (r1, e1) \<Longrightarrow> rec_good True r1 \<and> machine_fit e1"
proof (induction n arbitrary: r e)
  case (Suc n)
  let ?r = "r\<lparr>m_stateIdx := frame_mod r (m_stateIdx r + 1), m_stateCurrent := m_stateCurrent r + 1\<rparr>"
  show ?case
  proof (cases "m_stateCurrent r = m_stateRecorded r")
    case True
    then show ?thesis using Suc.prems by auto
  next
    case False
    note g = forward_step_good [OF Suc.prems(1) False]
    have "machine_fit (put_hw_state (cur_state ?r) (on_ram (redo_frame (cur_state r)) e))"
      using put_hw_state_fit cur_state_fit [OF g] Suc.prems(2) by simp
    from Suc.IH [OF g this] show ?thesis using Suc.prems(3) False by (simp add: Let_def)
  qed
qed simp

lemma reverse_frames_good:
  "rec_good True r \<Longrightarrow> machine_fit e \<Longrightarrow> reverse_frames n (r, e) = (r1, e1) \<Longrightarrow> rec_good True r1 \<and> machine_fit e1"
proof (induction n arbitrary: r e)
  case (Suc n)
  let ?r = "if m_lastRecord r then r\<lparr>m_lastRecord := False\<rparr>
    else r\<lparr>m_stateIdx := frame_mod r (m_stateIdx r - 1), m_stateCurrent := m_stateCurrent r - 1\<rparr>"
  show ?case
  proof (cases "m_stateCurrent r = 1 \<and> \<not> m_lastRecord r")
    case True
    then show ?thesis using Suc.prems by auto
  next
    case False
    then have g: "rec_good True ?r" using Suc.prems(1) reverse_step_good [OF Suc.prems(1)] by auto
    have "machine_fit (on_ram (undo_frame (cur_state ?r)) (put_hw_state (cur_state ?r) e))"
      using put_hw_state_fit cur_state_fit [OF g] Suc.prems(2) by simp
    from Suc.IH [OF g this] show ?thesis using Suc.prems(3) False by (simp only: reverse_frames.simps Let_def if_False)
  qed
qed simp

lemma Play_good:
  assumes "rec_good True r" "machine_fit e"
  shows "rec_good True (fst (PlayForward n (r, e))) \<and> machine_fit (snd (PlayForward n (r, e)))"
    "rec_good True (fst (PlayReverse n (r, e))) \<and> machine_fit (snd (PlayReverse n (r, e)))"
  using forward_frames_good [OF assms] reverse_frames_good [OF assms]
  by (cases "forward_frames (nat n) (r, e)"; cases "reverse_frames (nat n) (r, e)"; simp add: PlayForward_def PlayReverse_def)+

section \<open>The debugger keeps the machine in shape\<close>

lemma same_recorder [simp]:
  "dbg_recorder (on_data g d) = dbg_recorder d" "dbg_recorder (on_watchpoints k d) = dbg_recorder d"
  "dbg_recorder (on_breakpoints b d) = dbg_recorder d" "dbg_recorder (on_trace t d) = dbg_recorder d"
  "dbg_recorder (put_scripts s d) = dbg_recorder d" "dbg_recorder (reset_trace env d) = dbg_recorder d"
  by (simp_all add: data_defs reset_trace_def)

definition dbg_fit :: "bool \<Rightarrow> ('r, 'v) dbg_state \<Rightarrow> bool" where
  "dbg_fit plays ds \<longleftrightarrow> rec_good plays (dbg_recorder (fst ds)) \<and> machine_fit (snd ds)"

definition reply_fit :: "bool \<Rightarrow> ('r, 'v) dbg_reply \<Rightarrow> bool" where
  "reply_fit plays rep \<longleftrightarrow> (case rep of None \<Rightarrow> True | Some (res, script, ds) \<Rightarrow> dbg_fit plays ds)"

lemma dbg_fit_simps [simp]:
  "dbg_recorder (g (fst ds)) = dbg_recorder (fst ds) \<Longrightarrow> dbg_fit plays (on_debugger g ds) = dbg_fit plays ds"
  "dbg_fit plays (with_scripts s ds) = dbg_fit plays ds" "dbg_fit plays (put_ram a v ds) = dbg_fit plays ds"
  by (simp_all add: dbg_fit_def on_debugger_def with_scripts_def put_ram_def)

lemma reply_fit_simps [simp]:
  "reply_fit plays (answer j ds) = dbg_fit plays ds" "reply_fit plays (failing e ds) = dbg_fit plays ds"
  "reply_fit plays None" "reply_fit plays (Some (res, script, ds)) = dbg_fit plays ds"
  by (simp_all add: reply_fit_def answer_def failing_def)

lemma reading_fit:
  "dbg_fit plays ds \<Longrightarrow> (\<And>a. reply_fit plays (k a)) \<Longrightarrow> reply_fit plays (reading x ds k)"
  by (simp add: reading_def split: sum.split)

lemma changing_fit: "(\<And>d. dbg_recorder (g d) = dbg_recorder d) \<Longrightarrow> dbg_fit plays ds \<Longrightarrow> reply_fit plays (changing g env run j ds)"
  by (simp add: changing_def)

lemma trace_answer_fit [simp]: "reply_fit plays (trace_answer x g ds) = dbg_fit plays ds"
  by (simp add: trace_answer_def split: sum.split)

lemma script_answer_fit [simp]: "reply_fit plays (script_answer x ds) = dbg_fit plays ds"
  by (simp add: script_answer_def Let_def split: sum.split)

lemma reset_fit:
  assumes "dbg_fit plays ds"
  shows "reply_fit plays (req_reset env run j ds)" "reply_fit plays (req_recorder_reset env run j ds)"
proof -
  have r: "rec_good plays (Recorder_Reset (snd ds) (dbg_recorder (fst ds)))"
    using assms
    by (intro rec_good_mono(1) [OF Recorder_Reset_good [OF rec_good_mono(2) [where plays = plays]]]) (simp_all add: dbg_fit_def)
  then have "dbg_fit plays (Debugger_Reset env b ds)" for b
    using assms by (simp add: dbg_fit_def Debugger_Reset_def Let_def case_prod_beta)
  then show "reply_fit plays (req_reset env run j ds)" unfolding req_reset_def by (intro reading_fit assms) simp
  show "reply_fit plays (req_recorder_reset env run j ds)"
    using r assms by (simp add: req_recorder_reset_def dbg_fit_def on_debugger_def)
qed

lemma play_fit:
  assumes "dbg_fit True ds" "play \<in> {PlayForward, PlayReverse}"
  shows "reply_fit True (req_play play env run j ds)"
proof -
  let ?ds = "on_debugger (reset_trace env) ds"
  have d: "dbg_fit True ?ds" using assms(1) by simp
  then have "dbg_fit True (on_recorder (play n) ?ds)" for n
    using Play_good [of "dbg_recorder (fst ?ds)" "snd ?ds" n] assms(2)
    by (auto simp: dbg_fit_def on_recorder_def split: prod.split)
  then show ?thesis unfolding req_play_def Let_def by (intro reading_fit d) simp
qed

lemma reapply_fit: "dbg_fit plays ds \<Longrightarrow> reply_fit plays (reapply es ds)"
  by (induction es ds rule: reapply.induct) (auto intro!: reading_fit)

lemma table_requests_fit:
  assumes "dbg_fit plays ds"
  shows "reply_fit plays (req_breakpoint_del env run j ds)" "reply_fit plays (req_breakpoint_add env run j ds)"
    "reply_fit plays (req_breakpoint_set_status env run j ds)" "reply_fit plays (req_breakpoint_to bs env run j ds)"
    "reply_fit plays (req_breakpoint_get_status env run j ds)" "reply_fit plays (req_breakpoint_get_all env run j ds)"
    "reply_fit plays (req_watchpoint_del env run j ds)" "reply_fit plays (req_watchpoint_add env run j ds)"
    "reply_fit plays (req_watchpoint_edit env run j ds)" "reply_fit plays (req_watchpoint_get_all env run j ds)"
    "reply_fit plays (req_updates get env run j ds)" "reply_fit plays (req_recorder_count cnt env run j ds)"
    "reply_fit plays (req_serialize env run j ds)" "reply_fit plays (req_reset_trace env run j ds)"
  using assms
  unfolding req_breakpoint_del_def req_breakpoint_add_def req_breakpoint_set_status_def req_breakpoint_to_def
    req_breakpoint_get_status_def req_breakpoint_get_all_def req_watchpoint_del_def req_watchpoint_add_def
    req_watchpoint_edit_def req_watchpoint_get_all_def req_updates_def req_recorder_count_def req_serialize_def
    req_reset_trace_def
  by (auto intro!: reading_fit split: prod.split bool.split)

lemma edit_requests_fit:
  assumes "dbg_fit plays ds"
  shows "reply_fit plays (req_edit_del env run j ds)" "reply_fit plays (req_edit_add env run j ds)"
    "reply_fit plays (req_edit_get env run j ds)" "reply_fit plays (req_edit_exists env run j ds)"
    "reply_fit plays (req_edit_get_all env run j ds)" "reply_fit plays (req_edit_restore env run j ds)"
    "reply_fit plays (req_edit_reapply env run j ds)"
  using assms
  unfolding req_edit_del_def req_edit_add_def req_edit_get_def req_edit_exists_def req_edit_get_all_def
    req_edit_restore_def req_edit_reapply_def Let_def
  by (auto intro!: reading_fit reapply_fit split: option.split)

lemma perf_requests_fit:
  assumes "dbg_fit plays ds"
  shows "reply_fit plays (req_perf_del env run j ds)" "reply_fit plays (req_perf_add env run j ds)"
    "reply_fit plays (req_perf_edit env run j ds)" "reply_fit plays (req_perf_get env run j ds)"
    "reply_fit plays (req_perf_get_all env run j ds)" "reply_fit plays (req_perf_exists env run j ds)"
  using assms
  unfolding req_perf_del_def req_perf_add_def req_perf_edit_def req_perf_get_def req_perf_get_all_def req_perf_exists_def
  by (auto intro!: reading_fit split: option.split sum.split prod.split)

lemma script_requests_fit:
  assumes "dbg_fit plays ds"
  shows "reply_fit plays (req_script_clear env run j ds)" "reply_fit plays (req_script_del env run j ds)"
    "reply_fit plays (req_script_add env run j ds)" "reply_fit plays (req_script_edit env run j ds)"
    "reply_fit plays (req_script_compile env run j ds)" "reply_fit plays (req_script_run_once env run j ds)"
    "reply_fit plays (req_script_disable env run j ds)" "reply_fit plays (req_script_disable_all env run j ds)"
    "reply_fit plays (req_script_get_all env run j ds)" "reply_fit plays (req_overlay_get env run j ds)"
    "reply_fit plays (req_mark_overlays env run j ds)"
  using assms
  unfolding req_script_clear_def req_script_del_def req_script_add_def req_script_edit_def req_script_compile_def
    req_script_run_once_def req_script_disable_def req_script_disable_all_def req_script_get_all_def req_overlay_get_def
    req_mark_overlays_def
  by (auto intro!: reading_fit split: option.split sum.split prod.split)

lemma trace_requests_fit:
  assumes "dbg_fit plays ds"
  shows "reply_fit plays (log_enable env run j ds)" "reply_fit plays (log_disable env run j ds)"
    "reply_fit plays (Debugger.stopped_only req_filter env run j ds)" "reply_fit plays (Debugger.stopped_only req_caller env run j ds)"
    "reply_fit plays (Debugger.stopped_only req_successor env run j ds)" "reply_fit plays (Debugger.stopped_only req_window env run j ds)"
  using assms
  unfolding log_enable_def log_disable_def Debugger.stopped_only_def req_filter_def req_caller_def req_successor_def req_window_def
    Let_def
  by (auto intro!: reading_fit split: option.split prod.split)

text \<open>The requests under which the shape is kept.\<close>

definition kept_request :: "bool \<Rightarrow> request \<Rightarrow> bool" where
  "kept_request plays r =
    (case r of
       DEBUG_REQ c j \<Rightarrow> c \<noteq> Req_DEBUG_RECORDER_DESERIALIZE \<and>
         (plays \<or> c \<noteq> Req_DEBUG_RECORDER_PLAY_FORWARD \<and> c \<noteq> Req_DEBUG_RECORDER_PLAY_REVERSE)
     | _ \<Rightarrow> True)"

lemma handlers_fit:
  assumes "dbg_fit plays ds"
  shows "list_all (\<lambda>(c, h). kept_request plays (DEBUG_REQ c j) \<longrightarrow> reply_fit plays (h env run j ds)) debug_handlers"
proof -
  note fits = reset_fit [OF assms] table_requests_fit [OF assms] edit_requests_fit [OF assms] perf_requests_fit [OF assms]
    script_requests_fit [OF assms] trace_requests_fit [OF assms] changing_fit [OF _ assms]
  have "plays \<Longrightarrow> reply_fit plays (req_play PlayForward env run j ds) \<and> reply_fit plays (req_play PlayReverse env run j ds)"
    using assms by (cases plays) (simp_all add: play_fit)
  then show ?thesis by (simp add: debug_handlers_def kept_request_def fits)
qed

lemma DebugReqHandling_fit:
  assumes "dbg_fit plays ds" "kept_request plays (DEBUG_REQ c j)"
  shows "reply_fit plays (DebugReqHandling env c run j ds)"
proof (cases "map_of debug_handlers c :: ('a, 'b) handler option")
  case (Some h)
  then have "(c, h) \<in> set debug_handlers" by (rule map_of_SomeD)
  then show ?thesis
    using handlers_fit [OF assms(1), of j env run] assms(2) Some by (fastforce simp: DebugReqHandling_def list_all_iff)
qed (simp add: DebugReqHandling_def assms)

lemma Debug_fit:
  assumes "rec_good plays (dbg_recorder d)" "machine_fit e" "Debug env (d, e) = Some (out, d1, e1)"
  shows "rec_good plays (dbg_recorder d1) \<and> machine_fit e1"
proof -
  obtain mc disp where e: "e = (mc, disp)" by (cases e)
  obtain d0 mc0 disp0 where c: "check_accesses env (d, mc, disp) = (d0, mc0, disp0)" by (metis prod_cases3)
  note a = check_accesses_spec [OF c]
  have d0: "dbg_recorder d0 = dbg_recorder d" using a(1) by (simp add: same_tables_but_def)
  have m0: "machine_fit (mc0, disp0)" using assms(2) a(3,4) machine_fit_parts(1) e by metis
  consider err s where "Scripts_Check (host_of env d0 mc0) (dbg_scripts d0) = Some (Inl err, s)"
    | asks s where "Scripts_Check (host_of env d0 mc0) (dbg_scripts d0) = Some (Inr asks, s)"
    using assms(3) by (auto simp: Debug_def c e split: option.splits prod.splits sum.splits)
  then show ?thesis
  proof cases
    case (1 err s)
    then show ?thesis using assms(1,3) d0 m0 by (auto simp: Debug_def c e)
  next
    case (2 asks s)
    then have f: "finish_debug env asks (put_scripts s d0, mc0, disp0) = (out, d1, e1)"
      using assms(3) by (simp add: Debug_def c e)
    have r: "rec_good plays (dbg_recorder (put_scripts s d0))" using assms(1) d0 by simp
    show ?thesis
      using f r m0 Recorder_Update_good [OF r m0]
      by (auto simp: finish_debug_def Let_def on_recorder_def case_prod_beta split: sum.splits)
  qed
qed

text \<open>The hooks of the debugger keep the contract of the execution thread.\<close>

interpretation debugged: debug_contract "debugger_hooks env what"
  "\<lambda>d :: ('r, 'v) debugger. rec_good plays (dbg_recorder d)" "kept_request plays" for env what plays
proof
  fix d :: "('r, 'v) debugger" and e out d1 e1
  assume d: "rec_good plays (dbg_recorder d)" "machine_fit e" "hook_debug (debugger_hooks env what) d e = (out, d1, e1)"
  show "rec_good plays (dbg_recorder d1) \<and> machine_fit e1"
    using d Debug_fit [OF d(1,2), of env] by (auto simp: debugger_hooks_def split: option.splits prod.splits)
next
  fix d :: "('r, 'v) debugger" and e r run res script d1 e1
  assume d: "rec_good plays (dbg_recorder d)" "machine_fit e" "kept_request plays r"
    "hook_request (debugger_hooks env what) r run d e = (res, script, d1, e1)"
  have fit: "dbg_fit plays (d, e)" using d by (simp add: dbg_fit_def)
  have call: "reply_fit plays (DebugReqHandling env c run j (d, e))" if "kept_request plays (DEBUG_REQ c j)" for c j
    using that by (rule DebugReqHandling_fit [OF fit])
  have notice: "kept_request plays (DEBUG_REQ (notice_code n) JNull)" for n
    by (cases n) (simp_all add: kept_request_def req_codes)
  have out: "rec_good plays (dbg_recorder d1) \<and> machine_fit e1"
    if "reply_fit plays (DebugReqHandling env c run j (d, e))"
      "(case DebugReqHandling env c run j (d, e) of
          None \<Rightarrow> (Inr JNull, None, d, e)
        | Some (Inl err, script, d1, e1) \<Rightarrow> (Inl (what err), script, d1, e1)
        | Some (Inr j, script, d1, e1) \<Rightarrow> (Inr j, script, d1, e1)) = (res, script, d1, e1)" for c j
    using that d(1,2) by (auto simp: reply_fit_def dbg_fit_def split: option.splits prod.splits sum.splits)
  show "rec_good plays (dbg_recorder d1) \<and> machine_fit e1"
  proof (cases r)
    case (Notice n)
    then show ?thesis using d(4) out [OF call [OF notice]] by (simp add: debugger_hooks_def Let_def)
  next
    case (DEBUG_REQ c j)
    then show ?thesis using d(3,4) out [OF call] by (simp add: debugger_hooks_def Let_def)
  qed (use d in \<open>simp_all add: debugger_hooks_def\<close>)
qed (simp add: kept_request_def)

lemma Recorder_new_good: "0 < n \<Longrightarrow> rec_good False (Recorder_new n s0)"
  by (simp add: rec_good_def rec_shape_def window_fit_def Recorder_new_def Let_def RECORD_FRAMES_MAX_def FRAMES_PER_SEC_def)


definition recorder_reset_by :: "(int, (rat, nat) debugger) hardware \<Rightarrow> (rat, nat) debugger \<Rightarrow> (int, (rat, nat) debugger) hardware" where
  "recorder_reset_by h d =
    h\<lparr>hw_debugger := Some (d\<lparr>dbg_recorder := Recorder_Reset (hw_machine h, hw_display h) (dbg_recorder d)\<rparr>),
      inbox := [], outbox := [Data JNull]\<rparr>"

lemma reset_reach:
  "hw_reach_with (kept_request False) int_ops (debugger_hooks sample_env (\<lambda>e. ''error'')) (attached plain_debugger)
    (recorder_reset_by (attached plain_debugger) plain_debugger)"
proof -
  let ?h = "attached plain_debugger" and ?r = "DEBUG_REQ Req_DEBUG_RECORDER_RESET JNull"
    and ?hk = "debugger_hooks sample_env (\<lambda>e. ''error'')"
  have k: "kept_request False ?r" by (simp add: kept_request_def req_codes)
  have q: "map_of debug_handlers Req_DEBUG_RECORDER_RESET = Some req_recorder_reset"
    by (simp add: debug_handlers_def req_codes)
  have a: "hw_reach_with (kept_request False) int_ops ?hk ?h (?h\<lparr>inbox := inbox ?h @ [Some ?r]\<rparr>)"
    by (rule with_step [OF with_init thread_step.arrive]) (simp add: attached_def k)
  have "req_handling 2 int_ops ?hk (?h\<lparr>inbox := inbox ?h @ [Some ?r]\<rparr>) =
      Some (True, recorder_reset_by ?h plain_debugger)"
    by (simp add: numeral_2_eq_2 req_handling.simps handle_request.simps delegate_def debug_request_def debugger_hooks_def
        DebugReqHandling_def q req_recorder_reset_def answer_def on_debugger_def recorder_reset_by_def attached_def
        case_prod_beta)
  from with_step [OF a thread_step.poll [OF this]] show ?thesis by (simp add: recorder_reset_by_def)
qed


end
