(* ===== verification/Script_Path.thy ===== *)
theory Script_Path
  imports Prelude
begin

text \<open>
  The path of a script as \<^verbatim>\<open>NormalizeScriptPath\<close> of \<^verbatim>\<open>app/ipc_request.cpp\<close> accepts and
  normalises it, on systems other than Windows: absolute, without a backslash, cut at a NUL
  character because it goes through a C string, and in the normal form of
  \<^verbatim>\<open>std::filesystem::path::lexically_normal\<close>, which for an absolute path drops empty and dot
  elements, resolves dot-dot against the element before it and at the root, and keeps a final
  separator where the last element was one of these. Normal paths stay as they are.
\<close>

fun split_slash :: "string \<Rightarrow> string list" where
  "split_slash [] = [[]]"
| "split_slash (c # cs) =
    (if c = CHR ''/'' then [] # split_slash cs
     else (case split_slash cs of [] \<Rightarrow> [[c]] | w # ws \<Rightarrow> (c # w) # ws))"

text \<open>The elements that stay, the last one first.\<close>

fun resolve :: "string list \<Rightarrow> string list \<Rightarrow> string list" where
  "resolve st [] = st"
| "resolve st (w # ws) =
    (if w = [] \<or> w = ''.'' then resolve st ws
     else if w = ''..'' then resolve (tl st) ws
     else resolve (w # st) ws)"

definition join_path :: "string list \<Rightarrow> bool \<Rightarrow> string" where
  "join_path ws slash = concat (map (\<lambda>w. CHR ''/'' # w) ws) @ (if slash \<or> ws = [] then ''/'' else [])"

definition lexically_normal :: "string \<Rightarrow> string" where
  "lexically_normal p =
    (let ws = split_slash (tl p)
     in join_path (rev (resolve [] ws)) (last ws \<in> {[], ''.'', ''..''}))"

definition NormalizeScriptPath :: "string \<Rightarrow> string option" where
  "NormalizeScriptPath wirePath =
    (if wirePath = [] \<or> CHR 0x5C \<in> set wirePath then None
     else if take 1 wirePath \<noteq> ''/'' \<or> take 2 wirePath = ''//'' then None
     else Some (lexically_normal (takeWhile (\<lambda>c. c \<noteq> CHR 0x00) wirePath)))"

section \<open>Normal paths\<close>

definition plain :: "string \<Rightarrow> bool" where
  "plain w \<longleftrightarrow> w \<noteq> [] \<and> w \<noteq> ''.'' \<and> w \<noteq> ''..'' \<and> CHR ''/'' \<notin> set w"

lemma split_slash_not_Nil [simp]: "split_slash p \<noteq> []"
  by (induction p) (auto split: list.splits)

lemma split_slash_word: "CHR ''/'' \<notin> set w \<Longrightarrow> split_slash w = [w]"
  by (induction w) auto

lemma split_slash_append: "CHR ''/'' \<notin> set w \<Longrightarrow> split_slash (w @ CHR ''/'' # p) = w # split_slash p"
  by (induction w) auto

lemma split_slash_elements: "w \<in> set (split_slash p) \<Longrightarrow> CHR ''/'' \<notin> set w \<and> set w \<subseteq> set p"
proof (induction p arbitrary: w)
  case (Cons c p)
  obtain v vs where v: "split_slash p = v # vs" by (cases "split_slash p") auto
  show ?case using Cons.prems Cons.IH [of v] Cons.IH [of w] by (auto simp: v split: if_splits)
qed auto

lemma in_tl: "x \<in> set (tl xs) \<Longrightarrow> x \<in> set xs"
  by (cases xs) auto

lemma resolve_plain:
  "\<forall>w \<in> set ws. CHR ''/'' \<notin> set w \<Longrightarrow> \<forall>w \<in> set st. plain w \<Longrightarrow> \<forall>w \<in> set (resolve st ws). plain w"
proof (induction ws arbitrary: st)
  case (Cons w ws)
  have "\<forall>v \<in> set (tl st). plain v" using Cons.prems(2) by (auto dest: in_tl)
  moreover have "w \<noteq> [] \<Longrightarrow> w \<noteq> ''.'' \<Longrightarrow> w \<noteq> ''..'' \<Longrightarrow> plain w" using Cons.prems(1) by (simp add: plain_def)
  moreover have ws: "\<forall>w \<in> set ws. CHR ''/'' \<notin> set w" using Cons.prems(1) by simp
  ultimately have "\<forall>w \<in> set (resolve (tl st) ws). plain w" "\<forall>w \<in> set (resolve st ws). plain w"
    "w \<noteq> [] \<Longrightarrow> w \<noteq> ''.'' \<Longrightarrow> w \<noteq> ''..'' \<Longrightarrow> \<forall>v \<in> set (resolve (w # st) ws). plain v"
    using Cons.IH [OF ws, of "tl st"] Cons.IH [OF ws, of st] Cons.IH [OF ws, of "w # st"] Cons.prems(2)
    by (blast, blast, metis set_ConsD)
  then show ?case unfolding resolve.simps by presburger
qed simp

lemma resolve_set: "set (resolve st ws) \<subseteq> set st \<union> set ws"
proof (induction st ws rule: resolve.induct)
  case (2 st w ws)
  then show ?case by (auto dest: in_tl)
qed simp

lemma resolve_normal: "\<forall>w \<in> set ws. plain w \<Longrightarrow> resolve st ws = rev ws @ st"
  by (induction ws arbitrary: st) (auto simp: plain_def)

text \<open>The elements of a joined path.\<close>

lemma split_joined:
  "\<forall>w \<in> set ws. plain w \<Longrightarrow>
    split_slash (tl (join_path ws slash)) = (if ws = [] then [[]] else ws @ (if slash then [[]] else []))"
proof (induction ws)
  case (Cons w ws)
  have w: "CHR ''/'' \<notin> set w" using Cons.prems by (simp add: plain_def)
  show ?case
  proof (cases ws)
    case Nil
    then show ?thesis using w by (simp add: join_path_def split_slash_word split_slash_append)
  next
    case (Cons v vs)
    then have "tl (join_path (w # ws) slash) = w @ CHR ''/'' # tl (join_path ws slash)"
      by (simp add: join_path_def)
    then show ?thesis using Cons.IH Cons.prems w Cons by (simp add: split_slash_append)
  qed
qed (simp add: join_path_def)

lemma lexically_normal_parts:
  assumes "p \<noteq> []"
  shows "\<exists>ws slash. lexically_normal p = join_path ws slash \<and> (\<forall>w \<in> set ws. plain w) \<and>
    (\<forall>w \<in> set ws. set w \<subseteq> set p)"
proof -
  let ?es = "split_slash (tl p)"
  have e: "\<forall>w \<in> set ?es. CHR ''/'' \<notin> set w" "\<forall>w \<in> set ?es. set w \<subseteq> set p"
    using split_slash_elements by (fast, fastforce dest: in_tl)
  have "\<forall>w \<in> set (rev (resolve [] ?es)). plain w" using resolve_plain [OF e(1), of "[]"] by simp
  moreover have "\<forall>w \<in> set (rev (resolve [] ?es)). set w \<subseteq> set p" using resolve_set [of "[]" ?es] e(2) by auto
  ultimately show ?thesis unfolding lexically_normal_def Let_def by blast
qed

lemma join_path_normal:
  assumes "\<forall>w \<in> set ws. plain w"
  shows "lexically_normal (join_path ws slash) = join_path ws slash"
proof -
  have ws: "resolve [] ws = rev ws" using resolve_normal [OF assms, of "[]"] by simp
  have res: "resolve [] (ws @ [[]]) = rev ws"
  proof -
    have "resolve st (vs @ [[]]) = resolve st vs" for st vs by (induction st vs rule: resolve.induct) auto
    then show ?thesis using ws by simp
  qed
  have "ws \<noteq> [] \<Longrightarrow> last ws \<notin> {[], ''.'', ''..''}" using assms by (auto simp: plain_def dest!: last_in_set)
  then show ?thesis
    unfolding lexically_normal_def split_joined [OF assms] using ws res by (auto simp: join_path_def)
qed

lemma join_path_set: "c \<in> set (join_path ws slash) \<Longrightarrow> c = CHR ''/'' \<or> (\<exists>w \<in> set ws. c \<in> set w)"
  by (auto simp: join_path_def split: if_splits)

lemma join_path_head:
  assumes "\<forall>w \<in> set ws. plain w"
  shows "join_path ws slash \<noteq> []" "take 1 (join_path ws slash) = ''/''" "take 2 (join_path ws slash) \<noteq> ''//''"
proof -
  show "join_path ws slash \<noteq> []" "take 1 (join_path ws slash) = ''/''"
    by (cases ws; simp add: join_path_def)+
  show "take 2 (join_path ws slash) \<noteq> ''//''"
  proof (cases ws)
    case (Cons w vs)
    then obtain c cs where "w = c # cs" "c \<noteq> CHR ''/''" using assms by (cases w) (auto simp: plain_def)
    then show ?thesis using Cons by (simp add: join_path_def numeral_2_eq_2)
  qed (simp add: join_path_def)
qed

text \<open>A normalised script path is absolute and has no empty, dot or dot-dot element, no
  backslash and no NUL character, and normalising it again returns it unchanged.\<close>

theorem script_path_normal:
  assumes "NormalizeScriptPath p = Some q"
  shows "NormalizeScriptPath q = Some q \<and> CHR 0x00 \<notin> set q \<and>
    (\<exists>ws slash. q = join_path ws slash \<and> (\<forall>w \<in> set ws. plain w \<and> CHR 0x5C \<notin> set w))"
proof -
  let ?p = "takeWhile (\<lambda>c. c \<noteq> CHR 0x00) p"
  have p: "p \<noteq> []" "CHR 0x5C \<notin> set p" "take 1 p = ''/''" "q = lexically_normal ?p"
    using assms by (auto simp: NormalizeScriptPath_def split: if_splits)
  then have "?p \<noteq> []" by (cases p) auto
  then obtain ws slash where ws: "q = join_path ws slash" "\<forall>w \<in> set ws. plain w" "\<forall>w \<in> set ws. set w \<subseteq> set ?p"
    using lexically_normal_parts p(4) by metis
  have clean: "CHR 0x5C \<notin> set w" "CHR 0x00 \<notin> set w" if "w \<in> set ws" for w
    using ws(3) that p(2) by (auto dest!: set_takeWhileD bspec subsetD)
  have nul: "CHR 0x00 \<notin> set q" and bsl: "CHR 0x5C \<notin> set q"
    using join_path_set [of _ ws slash] clean unfolding ws(1) by fastforce+
  have "takeWhile (\<lambda>c. c \<noteq> CHR 0x00) q = q" using nul by (subst takeWhile_eq_all_conv) auto
  moreover have "q \<noteq> []" "take 1 q = ''/''" "take 2 q \<noteq> ''//''" "lexically_normal q = q"
    unfolding ws(1) using join_path_head [OF ws(2), of slash] join_path_normal [OF ws(2), of slash] by auto
  ultimately have "NormalizeScriptPath q = Some q"
    using bsl unfolding NormalizeScriptPath_def by presburger
  then show ?thesis using nul ws clean by auto
qed

theorem script_path_normal_witness:
  "NormalizeScriptPath ''/a//b/./../c/'' = Some ''/a/c/'' \<and> NormalizeScriptPath ''/a/c/'' = Some ''/a/c/''"
proof -
  have "NormalizeScriptPath ''/a//b/./../c/'' = Some ''/a/c/''"
    by (simp add: NormalizeScriptPath_def lexically_normal_def join_path_def)
  then show ?thesis using script_path_normal [of "''/a//b/./../c/''" "''/a/c/''"] by simp
qed

end
