(* ===== verification/Raw_Frame.thy ===== *)
theory Raw_Frame
  imports Wire_Bytes
begin

unbundle bit_operations_syntax

text \<open>
  Messages on the wire: the binary envelope of a frame (\<^verbatim>\<open>ipc/raw_frame.cpp\<close>) and the sending
  and receiving of length-prefixed messages (\<^verbatim>\<open>ipc/transport.cpp\<close>). A byte vector that is written
  or read outside its bounds is \<^term>\<open>None\<close>.

  The operating system's sockets are inputs: what arrives is a list of segments, one of which each
  \<^verbatim>\<open>recv\<close> takes from; what leaves is accepted in portions that a list gives. An empty segment, a
  portion of zero and the end of a list stand for a result that is not positive, an error or the
  other side's end. Messages are shorter than 2 GByte, so that \<^verbatim>\<open>static_cast<int>(remaining)\<close> is
  the length.
\<close>

section \<open>The envelope of a frame\<close>

definition MAGIC :: "u8 list" where "MAGIC = [0x56, 0x36, 0x52, 0x46]"
definition RAW_FRAME_HEADER_SIZE :: nat where "RAW_FRAME_HEADER_SIZE = 16"
definition RAW_FRAME_SCHEMA_VERSION :: u8 where "RAW_FRAME_SCHEMA_VERSION = 1"

datatype raw_frame_kind = FRAME | ERROR_RESPONSE
datatype raw_frame_error = FRAME_UNAVAILABLE | INTERNAL_ERROR

fun kind_byte :: "raw_frame_kind \<Rightarrow> u8" where
  "kind_byte FRAME = 1"
| "kind_byte ERROR_RESPONSE = 2"

fun error_code :: "raw_frame_error \<Rightarrow> u32" where
  "error_code FRAME_UNAVAILABLE = 1"
| "error_code INTERNAL_ERROR = 2"

record raw_frame_header =
  rf_kind :: raw_frame_kind
  rf_value0 :: u32
  rf_value1 :: u32

definition WriteU32 :: "nat \<Rightarrow> u32 \<Rightarrow> u8 list \<Rightarrow> u8 list" where
  "WriteU32 off v bs =
    bs[off := ucast v, off + 1 := ucast (drop_bit 8 v), off + 2 := ucast (drop_bit 16 v), off + 3 := ucast (drop_bit 24 v)]"

definition ReadU32 :: "u8 list \<Rightarrow> nat \<Rightarrow> u32" where
  "ReadU32 bs off =
    ucast (bs ! off) OR push_bit 8 (ucast (bs ! (off + 1))) OR push_bit 16 (ucast (bs ! (off + 2))) OR
    push_bit 24 (ucast (bs ! (off + 3)))"

text \<open>\<^verbatim>\<open>std::vector::resize\<close> and \<^verbatim>\<open>memcpy\<close>.\<close>

definition resize :: "nat \<Rightarrow> u8 list \<Rightarrow> u8 list" where
  "resize n bs = take n bs @ replicate (n - length bs) 0"

definition put_block :: "nat \<Rightarrow> u8 list \<Rightarrow> u8 list \<Rightarrow> u8 list" where
  "put_block off xs bs = take off bs @ xs @ drop (off + length xs) bs"

definition MakeMessage :: "raw_frame_kind \<Rightarrow> u32 \<Rightarrow> u32 \<Rightarrow> u8 list \<Rightarrow> u8 list \<Rightarrow> (bool \<times> u8 list) option" where
  "MakeMessage k v0 v1 body msg =
    (if 2 ^ 32 - 1 - RAW_FRAME_HEADER_SIZE < length body then Some (False, [])
     else
      (let payloadSize = of_nat (RAW_FRAME_HEADER_SIZE + length body) :: u32;
           m0 = resize (unat (4 + payloadSize)) msg
       in if length m0 < 20 + length body then None
          else
           (let m1 = put_block 4 MAGIC (WriteU32 0 payloadSize m0);
                m2 = m1[8 := RAW_FRAME_SCHEMA_VERSION, 9 := kind_byte k, 10 := 0, 11 := 0]
            in Some (True, put_block 20 body (WriteU32 16 v1 (WriteU32 12 v0 m2))))))"

text \<open>The pixels are a pointer, \<^term>\<open>None\<close> when it is null, and the length to copy.\<close>

definition EncodeRawFrame :: "u32 \<Rightarrow> u32 \<Rightarrow> u8 list option \<Rightarrow> nat \<Rightarrow> u8 list \<Rightarrow> (bool \<times> u8 list) option" where
  "EncodeRawFrame width height pixels pixelBytes msg =
    (case pixels of
       None \<Rightarrow> if 0 < pixelBytes then Some (False, []) else MakeMessage FRAME width height [] msg
     | Some px \<Rightarrow> if length px < pixelBytes then None else MakeMessage FRAME width height (take pixelBytes px) msg)"

definition EncodeRawFrameError :: "raw_frame_error \<Rightarrow> u8 list \<Rightarrow> u8 list \<Rightarrow> (bool \<times> u8 list) option" where
  "EncodeRawFrameError code text msg =
    MakeMessage ERROR_RESPONSE (error_code code) (of_nat (length text)) text msg"

definition DecodeRawFrameHeader :: "u8 list \<Rightarrow> raw_frame_header option" where
  "DecodeRawFrameHeader bs =
    (if length bs \<noteq> RAW_FRAME_HEADER_SIZE \<or> take 4 bs \<noteq> MAGIC \<or> bs ! 4 \<noteq> RAW_FRAME_SCHEMA_VERSION \<or>
        bs ! 6 \<noteq> 0 \<or> bs ! 7 \<noteq> 0 then None
     else if bs ! 5 = kind_byte FRAME then Some \<lparr>rf_kind = FRAME, rf_value0 = ReadU32 bs 8, rf_value1 = ReadU32 bs 12\<rparr>
     else if bs ! 5 = kind_byte ERROR_RESPONSE
     then Some \<lparr>rf_kind = ERROR_RESPONSE, rf_value0 = ReadU32 bs 8, rf_value1 = ReadU32 bs 12\<rparr>
     else None)"

section \<open>Sending and receiving\<close>

fun recv :: "nat \<Rightarrow> u8 list list \<Rightarrow> u8 list \<times> u8 list list" where
  "recv n [] = ([], [])"
| "recv n (s # ss) = (take n s, if n < length s then drop n s # ss else ss)"

text \<open>\<^verbatim>\<open>RecvExact\<close>: the bytes, or \<^term>\<open>None\<close> when it returns false, and the segments left.\<close>

function RecvExact :: "nat \<Rightarrow> u8 list list \<Rightarrow> u8 list option \<times> u8 list list" where
  "RecvExact n ss =
    (if n = 0 then (Some [], ss)
     else
      (let (bs, ss1) = recv n ss
       in if bs = [] then (None, ss1)
          else
           (let (rest, ss2) = RecvExact (n - length bs) ss1
            in (map_option (\<lambda>xs. bs @ xs) rest, ss2))))"
  by pat_completeness auto
termination by (relation "measure fst") auto

declare RecvExact.simps [simp del]

definition MAX_MESSAGE :: nat where "MAX_MESSAGE = 64 * 1024 * 1024"

definition Recv :: "u8 list list \<Rightarrow> u8 list \<times> u8 list list" where
  "Recv ss =
    (case RecvExact 4 ss of
       (None, ss1) \<Rightarrow> ([], ss1)
     | (Some prefix, ss1) \<Rightarrow>
        if MAX_MESSAGE < le_value prefix then ([], ss1)
        else (case RecvExact (le_value prefix) ss1 of
                (None, ss2) \<Rightarrow> ([], ss2)
              | (Some payload, ss2) \<Rightarrow> (payload, ss2)))"

text \<open>\<^verbatim>\<open>SendExact\<close>: whether all was sent, what was sent, and the portions left.\<close>

fun SendExact :: "u8 list \<Rightarrow> nat list \<Rightarrow> bool \<times> u8 list \<times> nat list" where
  "SendExact [] ps = (True, [], ps)"
| "SendExact (b # bs) [] = (False, [], [])"
| "SendExact (b # bs) (p # ps) =
    (if p = 0 then (False, [], ps)
     else (let (ok, sent, ps1) = SendExact (drop p (b # bs)) ps in (ok, take p (b # bs) @ sent, ps1)))"

definition Send :: "u8 list \<Rightarrow> nat list \<Rightarrow> bool \<times> u8 list \<times> nat list" where
  "Send bs ps = SendExact bs ps"

section \<open>What a message is\<close>

lemma of_nat_mod_256: "of_nat (x mod 256) = (of_nat x :: u8)"
  by (simp add: word_of_nat_eq_iff take_bit_eq_mod)

lemma le_bytes_four:
  "le_bytes 4 n = [of_nat n, of_nat (n div 256), of_nat (n div 65536), of_nat (n div 16777216)]"
proof -
  have "(4 :: nat) = Suc (Suc (Suc (Suc 0)))" by simp
  then show ?thesis by (simp only: le_bytes.simps of_nat_mod_256 div_mult2_eq [symmetric]) simp
qed

lemma le_bytes_4:
  "le_bytes 4 (unat (v :: u32)) = [ucast v, ucast (drop_bit 8 v), ucast (drop_bit 16 v), ucast (drop_bit 24 v)]"
proof -
  have "ucast (drop_bit n v) = (of_nat (unat v div 2 ^ n) :: u8)" for n
    by (metis drop_bit_eq_div of_nat_unat unat_drop_bit_eq)
  from this [of 0] this [of 8] this [of 16] this [of 24] show ?thesis by (simp add: le_bytes_four)
qed

lemma join_bytes:
  "ucast (ucast v :: u8) OR push_bit 8 (ucast (ucast (drop_bit 8 v) :: u8)) OR
    push_bit 16 (ucast (ucast (drop_bit 16 v) :: u8)) OR push_bit 24 (ucast (ucast (drop_bit 24 v) :: u8)) = (v :: u32)"
proof (rule bit_word_eqI, goal_cases)
  case (1 n)
  then show ?case by (cases "n < 8"; cases "n < 16"; cases "n < 24") (auto simp: bit_simps)
qed

lemma ReadU32_le: "off = length xs \<Longrightarrow> ReadU32 (xs @ le_bytes 4 (unat v) @ ys) off = v"
  using join_bytes [of v] by (simp add: ReadU32_def le_bytes_4 nth_append)

lemma four_bytes: "length ys = 4 \<Longrightarrow> \<exists>a b c d. ys = [a, b, c, d]"
  by (auto simp: length_Suc_conv numeral_eq_Suc)

lemma WriteU32_at:
  "off = length xs \<Longrightarrow> length ys = 4 \<Longrightarrow> WriteU32 off v (xs @ ys @ zs) = xs @ le_bytes 4 (unat v) @ zs"
  using four_bytes [of ys] by (auto simp: WriteU32_def le_bytes_4 list_update_append)

lemma set_bytes:
  "length xs = n \<Longrightarrow> length ys = 4 \<Longrightarrow>
    (xs @ ys @ zs)[n := p, n + 1 := q, n + 2 := u, n + 3 := w] = xs @ [p, q, u, w] @ zs"
  using four_bytes [of ys] by (auto simp: list_update_append)

lemma put_block_at:
  "off = length xs \<Longrightarrow> length ys = length bs \<Longrightarrow> put_block off bs (xs @ ys @ zs) = xs @ bs @ zs"
  by (simp add: put_block_def)

text \<open>The prefix, the magic bytes, version and kind, two values, the body.\<close>

definition header_of :: "raw_frame_kind \<Rightarrow> u32 \<Rightarrow> u32 \<Rightarrow> u8 list" where
  "header_of k v0 v1 =
    MAGIC @ [RAW_FRAME_SCHEMA_VERSION, kind_byte k, 0, 0] @ le_bytes 4 (unat v0) @ le_bytes 4 (unat v1)"

lemma length_header [simp]: "length (header_of k v0 v1) = 16"
  by (simp add: header_of_def MAGIC_def)

lemma length_resize [simp]: "length (resize n bs) = n"
  by (simp add: resize_def)

lemma cut: "n \<le> length m \<Longrightarrow> \<exists>xs zs. m = xs @ zs \<and> length xs = n"
  by (rule exI [of _ "take n m"], rule exI [of _ "drop n m"]) simp

lemma filled:
  assumes "length m = 20 + length body"
  shows "put_block 20 body (WriteU32 16 v1 (WriteU32 12 v0
      ((put_block 4 MAGIC (WriteU32 0 n m))[8 := x, 9 := y, 10 := 0, 11 := 0]))) =
    le_bytes 4 (unat n) @ MAGIC @ [x, y, 0, 0] @ le_bytes 4 (unat v0) @ le_bytes 4 (unat v1) @ body"
proof -
  obtain a m1 where a: "m = a @ m1" "length a = 4" using cut [of 4 m] assms by auto
  obtain b m2 where b: "m1 = b @ m2" "length b = 4" using cut [of 4 m1] assms a by auto
  obtain c m3 where c: "m2 = c @ m3" "length c = 4" using cut [of 4 m2] assms a b by auto
  obtain d m4 where d: "m3 = d @ m4" "length d = 4" using cut [of 4 m3] assms a b c by auto
  obtain e m5 where e: "m4 = e @ m5" "length e = 4" using cut [of 4 m4] assms a b c d by auto
  have f: "length m5 = length body" using assms a b c d e by simp
  let ?n = "le_bytes 4 (unat n)"
  have "WriteU32 0 n m = ?n @ b @ c @ d @ e @ m5"
    using WriteU32_at [of 0 "[]" a n "b @ c @ d @ e @ m5"] a b c d e by simp
  moreover have "put_block 4 MAGIC (?n @ b @ c @ d @ e @ m5) = ?n @ MAGIC @ c @ d @ e @ m5"
    using b by (intro put_block_at) (simp_all add: MAGIC_def)
  moreover have "(?n @ MAGIC @ c @ d @ e @ m5)[8 := x, 9 := y, 10 := 0, 11 := 0] = ?n @ MAGIC @ [x, y, 0, 0] @ d @ e @ m5"
    using set_bytes [of "?n @ MAGIC" 8 c "d @ e @ m5" x y 0 0] c(2) by (simp add: MAGIC_def)
  moreover have "WriteU32 12 v0 (?n @ MAGIC @ [x, y, 0, 0] @ d @ e @ m5) =
    ?n @ MAGIC @ [x, y, 0, 0] @ le_bytes 4 (unat v0) @ e @ m5"
    using WriteU32_at [of 12 "?n @ MAGIC @ [x, y, 0, 0]" d v0 "e @ m5"] d by (simp add: MAGIC_def)
  moreover have "WriteU32 16 v1 (?n @ MAGIC @ [x, y, 0, 0] @ le_bytes 4 (unat v0) @ e @ m5) =
    ?n @ MAGIC @ [x, y, 0, 0] @ le_bytes 4 (unat v0) @ le_bytes 4 (unat v1) @ m5"
    using WriteU32_at [of 16 "?n @ MAGIC @ [x, y, 0, 0] @ le_bytes 4 (unat v0)" e v1 m5] e by (simp add: MAGIC_def)
  ultimately show ?thesis
    using f put_block_at [of 20 "?n @ MAGIC @ [x, y, 0, 0] @ le_bytes 4 (unat v0) @ le_bytes 4 (unat v1)" m5 body "[]"]
    by (simp add: MAGIC_def)
qed

lemma unat_total: "unat (4 + of_nat n :: u32) = (4 + n) mod 2 ^ 32"
  using unat_of_nat [of "4 + n", where ?'a = 32] by simp

lemma MakeMessage_eq:
  assumes "length body + 20 < 2 ^ 32"
  shows "MakeMessage k v0 v1 body msg = Some (True, le_bytes 4 (16 + length body) @ header_of k v0 v1 @ body)"
proof -
  have "unat (of_nat (16 + length body) :: u32) = 16 + length body"
    using assms by (simp add: unat_of_nat del: of_nat_add)
  moreover have "unat (4 + of_nat (16 + length body) :: u32) = 20 + length body"
    using assms unat_total [of "16 + length body"] by (simp del: of_nat_add)
  ultimately show ?thesis
    using assms filled [of "resize (20 + length body) msg" body]
    by (simp add: MakeMessage_def RAW_FRAME_HEADER_SIZE_def Let_def header_of_def del: of_nat_add)
qed

text \<open>
  The size check lets through four lengths too many: the sum of the payload size and the prefix
  wraps, the vector is resized to at most three bytes, and the header is written past its end.
\<close>

lemma raw_frame_size_wraps:
  assumes "2 ^ 32 - 20 \<le> length body" "length body \<le> 2 ^ 32 - 17"
  shows "MakeMessage k v0 v1 body msg = None"
proof -
  obtain i where i: "length body = 2 ^ 32 - 20 + i"
    using assms by (meson le_Suc_ex)
  have "unat (4 + of_nat (16 + length body) :: u32) = (20 + length body) mod 2 ^ 32"
    using unat_total [of "16 + length body"] by (simp del: of_nat_add)
  moreover have "20 + length body = 2 ^ 32 + i" "i < 2 ^ 32" using i assms by simp_all
  ultimately have "unat (4 + of_nat (16 + length body) :: u32) < 20 + length body" by simp
  with assms show ?thesis
    by (simp add: MakeMessage_def RAW_FRAME_HEADER_SIZE_def Let_def del: of_nat_add)
qed

section \<open>Delivery\<close>

lemma recv_take:
  assumes "[] \<notin> set ss" "0 < n" "recv n ss = (bs, ss1)"
  shows "bs @ concat ss1 = concat ss \<and> [] \<notin> set ss1 \<and> length bs \<le> n \<and> (bs = [] \<longleftrightarrow> ss = [])"
  using assms by (cases ss) (auto split: if_splits)

lemma RecvExact_enough:
  assumes "[] \<notin> set ss" "n \<le> length (concat ss)"
  shows "\<exists>ss1. RecvExact n ss = (Some (take n (concat ss)), ss1) \<and> concat ss1 = drop n (concat ss) \<and> [] \<notin> set ss1"
  using assms
proof (induction n ss rule: RecvExact.induct)
  case (1 n ss)
  show ?case
  proof (cases "n = 0")
    case False
    obtain bs s1 where r: "recv n ss = (bs, s1)" by fastforce
    have t: "bs @ concat s1 = concat ss" "[] \<notin> set s1" "length bs \<le> n" "bs = [] \<longleftrightarrow> ss = []"
      using recv_take [OF 1(2) _ r] False by auto
    have ne: "bs \<noteq> []" using t(4) 1(3) False by auto
    have "length bs + length (concat s1) = length (concat ss)" by (metis t(1) length_append)
    then have "n - length bs \<le> length (concat s1)" using 1(3) by linarith
    from 1(1) [OF False r [symmetric] refl ne t(2) this] obtain s2
      where "RecvExact (n - length bs) s1 = (Some (take (n - length bs) (concat s1)), s2)"
        "concat s2 = drop (n - length bs) (concat s1)" "[] \<notin> set s2" by auto
    then show ?thesis
      using False ne t(3) by (subst RecvExact.simps) (auto simp: r Let_def t(1) [symmetric])
  qed (use 1 in \<open>simp add: RecvExact.simps\<close>)
qed

lemma RecvExact_short:
  assumes "[] \<notin> set ss" "length (concat ss) < n"
  shows "fst (RecvExact n ss) = None"
  using assms
proof (induction n ss rule: RecvExact.induct)
  case (1 n ss)
  obtain bs s1 where r: "recv n ss = (bs, s1)" by fastforce
  have t: "bs @ concat s1 = concat ss" "[] \<notin> set s1"
    using recv_take [OF 1(2) _ r] 1(3) by auto
  have "length bs + length (concat s1) = length (concat ss)" by (metis t(1) length_append)
  then have l: "length (concat s1) < n - length bs" using 1(3) by linarith
  have "fst (RecvExact (n - length bs) s1) = None" if "bs \<noteq> []"
    using 1(1) [OF _ r [symmetric] refl that t(2) l] 1(3) by simp
  then show ?case
    using 1(3) by (subst RecvExact.simps) (auto simp: r split: prod.split)
qed

text \<open>Receiving gives the next message whatever the segments are, and leaves the stream behind it.\<close>

lemma Recv_message:
  assumes "[] \<notin> set ss" "concat ss = le_bytes 4 (length p) @ p @ later" "length p \<le> MAX_MESSAGE"
  shows "\<exists>ss1. Recv ss = (p, ss1) \<and> concat ss1 = later \<and> [] \<notin> set ss1"
proof -
  have n: "le_value (le_bytes 4 (length p)) = length p"
    using assms(3) by (intro le_value_bytes) (simp add: MAX_MESSAGE_def)
  obtain s1 where s1: "RecvExact 4 ss = (Some (le_bytes 4 (length p)), s1)" "concat s1 = p @ later" "[] \<notin> set s1"
    using RecvExact_enough [OF assms(1), of 4] by (auto simp: assms(2))
  obtain s2 where s2: "RecvExact (length p) s1 = (Some p, s2)" "concat s2 = later" "[] \<notin> set s2"
    using RecvExact_enough [OF s1(3), of "length p"] by (auto simp: s1(2))
  show ?thesis using s1 s2 assms(3) n by (simp add: Recv_def)
qed

text \<open>A message of no bytes is not told from a client that has gone.\<close>

lemma Recv_empty: "Recv [le_bytes 4 0] = ([], []) \<and> Recv [] = ([], [])"
proof
  obtain ss where "Recv [le_bytes 4 0] = ([], ss)" "concat ss = []" "[] \<notin> set ss"
    using Recv_message [of "[le_bytes 4 0]" "[]" "[]"] by (auto simp: le_bytes_four)
  then show "Recv [le_bytes 4 0] = ([], [])" by (cases ss) auto
qed (simp add: Recv_def RecvExact.simps [of 4 "[]"])

lemma SendExact_sent: "SendExact bs ps = (ok, sent, ps1) \<Longrightarrow> ok \<longleftrightarrow> sent = bs"
proof (induction bs ps arbitrary: sent ps1 rule: SendExact.induct)
  case (3 b bs p ps)
  show ?case
  proof (cases "p = 0")
    case False
    obtain ok' s' ps' where s: "SendExact (drop p (b # bs)) ps = (ok', s', ps')" by (metis prod_cases3)
    with 3 False have "ok' = (s' = drop p (b # bs))" "ok = ok'" "sent = take p (b # bs) @ s'" by auto
    then show ?thesis by (metis append_take_drop_id same_append_eq)
  qed (use 3 in auto)
qed auto

lemma DecodeRawFrameHeader_header:
  "DecodeRawFrameHeader (header_of k v0 v1) = Some \<lparr>rf_kind = k, rf_value0 = v0, rf_value1 = v1\<rparr>"
proof -
  have "ReadU32 (header_of k v0 v1) 8 = v0" unfolding header_of_def
    using ReadU32_le [of 8 "MAGIC @ [RAW_FRAME_SCHEMA_VERSION, kind_byte k, 0, 0]" v0 "le_bytes 4 (unat v1)"]
    by (simp add: MAGIC_def)
  moreover have "ReadU32 (header_of k v0 v1) 12 = v1" unfolding header_of_def
    using ReadU32_le [of 12 "MAGIC @ [RAW_FRAME_SCHEMA_VERSION, kind_byte k, 0, 0] @ le_bytes 4 (unat v0)" v1 "[]"]
    by (simp add: MAGIC_def)
  moreover have "length (header_of k v0 v1) = RAW_FRAME_HEADER_SIZE" by (simp add: RAW_FRAME_HEADER_SIZE_def)
  ultimately show ?thesis
    by (cases k) (auto simp: DecodeRawFrameHeader_def header_of_def MAGIC_def)
qed

text \<open>C12: A frame arrives as it was encoded. Whatever the vector held before, in whatever portions
  the message is sent and in whatever segments it arrives, the receiver gets one payload whose
  header decodes to the kind, the width and the height, whose rest is the pixels, and what follows
  the message in the stream is left for the next one; a send that fails sent less.\<close>

theorem raw_frame_delivery:
  assumes "length px + 16 \<le> MAX_MESSAGE" "EncodeRawFrame width height (Some px) (length px) old = Some (ok, msg)"
    "Send msg portions = (sent_all, sent, portions1)" "[] \<notin> set segments" "concat segments = sent @ later"
  shows "ok \<and> (if sent_all
      then \<exists>payload segments1. Recv segments = (payload, segments1) \<and> concat segments1 = later \<and>
        DecodeRawFrameHeader (take 16 payload) = Some \<lparr>rf_kind = FRAME, rf_value0 = width, rf_value1 = height\<rparr> \<and>
        drop 16 payload = px
      else sent \<noteq> msg)"
proof -
  let ?p = "header_of FRAME width height @ px"
  have small: "length px + 20 < 2 ^ 32" using assms(1) by (simp add: MAX_MESSAGE_def)
  have msg: "ok" "msg = le_bytes 4 (length ?p) @ ?p"
    using assms(2) by (simp_all add: EncodeRawFrame_def MakeMessage_eq [OF small])
  have sent: "sent_all \<longleftrightarrow> sent = msg" using SendExact_sent assms(3) unfolding Send_def by blast
  show ?thesis
  proof (cases sent_all)
    case True
    then have "concat segments = le_bytes 4 (length ?p) @ ?p @ later" using sent assms(5) msg(2) by simp
    moreover have "length ?p \<le> MAX_MESSAGE" using assms(1) by simp
    ultimately obtain s1 where "Recv segments = (?p, s1)" "concat s1 = later"
      using Recv_message [OF assms(4)] by blast
    then show ?thesis using True msg(1) by (auto simp: DecodeRawFrameHeader_header)
  qed (use sent msg in auto)
qed

theorem raw_frame_delivery_witness:
  "\<exists>payload segments1. Recv [[19, 0, 0, 0, 86], [54, 82, 70, 1, 1, 0, 0, 1, 0, 0, 0, 3], [0, 0, 0, 7, 8, 9, 5]] = (payload, segments1) \<and>
    concat segments1 = [5] \<and>
    DecodeRawFrameHeader (take 16 payload) = Some \<lparr>rf_kind = FRAME, rf_value0 = 1, rf_value1 = 3\<rparr> \<and>
    drop 16 payload = [7, 8, 9]"
proof -
  define msg :: "u8 list" where "msg = [19, 0, 0, 0, 86, 54, 82, 70, 1, 1, 0, 0, 1, 0, 0, 0, 3, 0, 0, 0, 7, 8, 9]"
  have "EncodeRawFrame 1 3 (Some [7, 8, 9]) (length [7, 8, 9 :: u8]) [1, 2] = Some (True, msg)"
    by (simp add: EncodeRawFrame_def MakeMessage_eq header_of_def MAGIC_def RAW_FRAME_SCHEMA_VERSION_def
        msg_def le_bytes_four)
  moreover have "Send msg [10, 20] = (True, msg, [])" by (simp add: Send_def msg_def)
  ultimately show ?thesis
    using raw_frame_delivery [of "[7, 8, 9]" 1 3 "[1, 2]" True msg "[10, 20]" True msg "[]"
      "[[19, 0, 0, 0, 86], [54, 82, 70, 1, 1, 0, 0, 1, 0, 0, 0, 3], [0, 0, 0, 7, 8, 9, 5]]" "[5]"]
    by (simp add: MAX_MESSAGE_def msg_def)
qed

end
