(* ===== verification/Ipc_Request.thy ===== *)
theory Ipc_Request
  imports Req_Codes Scripts Script_Path Raw_Frame Trace_Log
begin

unbundle bit_operations_syntax

text \<open>
  The validation of the requests of the wire protocol (\<^verbatim>\<open>app/ipc_request.cpp\<close>) and the
  description the server gives of itself (with the client's check of it, \<^verbatim>\<open>ipc/server_info.cpp\<close>).
  A request is a JSON value, as the library decodes it: an object lists its fields in the order of
  their names, each name once. Validation gives the command with its data, some of them normalised, or
  the first error in the order of the code.

  The values that a validated command carries are in the ranges the handlers rely on; what is
  announced as supported is what is accepted.
\<close>

section \<open>Reading JSON values\<close>

type_synonym jobj = "(string \<times> jval) list"

text \<open>\<open>is_number_integer\<close> holds for signed and unsigned integers.\<close>

fun json_int :: "jval \<Rightarrow> int option" where
  "json_int (JNum i) = Some i"
| "json_int (JSigned i) = Some i"
| "json_int _ = None"

fun is_unsigned :: "jval \<Rightarrow> bool" where
  "is_unsigned (JNum i) = (0 \<le> i)"
| "is_unsigned _ = False"

fun is_boolean :: "jval \<Rightarrow> bool" where
  "is_boolean (JBool b) = True"
| "is_boolean _ = False"

fun json_string :: "jval \<Rightarrow> string option" where
  "json_string (JStr s) = Some s"
| "json_string _ = None"

definition INT_MIN :: int where "INT_MIN = - (2 ^ 31)"
definition INT_MAX :: int where "INT_MAX = 2 ^ 31 - 1"

definition ReadCommand :: "jval \<Rightarrow> int option" where
  "ReadCommand v =
    (case json_int v of
       Some i \<Rightarrow>
         if is_unsigned v then (if INT_MAX < i then None else Some i)
         else if i < INT_MIN \<or> INT_MAX < i then None else Some i
     | None \<Rightarrow> None)"

definition CMD_PING :: int where "CMD_PING = -1"
definition CMD_GET_FRAME :: int where "CMD_GET_FRAME = -3"
definition CMD_GET_FRAME_RAW :: int where "CMD_GET_FRAME_RAW = -4"
definition CMD_GET_SERVER_INFO :: int where "CMD_GET_SERVER_INFO = -5"

definition IsSupportedCommand :: "int \<Rightarrow> bool" where
  "IsSupportedCommand c \<longleftrightarrow>
    c = CMD_PING \<or> c = CMD_GET_FRAME \<or> c = CMD_GET_FRAME_RAW \<or> c = CMD_GET_SERVER_INFO \<or>
    Req_RUN \<le> c \<and> c \<le> Req_DEBUG_HISTORY_SUCCESSOR"

definition IsAddress :: "jval \<Rightarrow> bool" where
  "IsAddress v = (case json_int v of Some i \<Rightarrow> 0 \<le> i \<and> i \<le> 0xFFFF | None \<Rightarrow> False)"

definition ReadUnsigned :: "jval \<Rightarrow> u64 option" where
  "ReadUnsigned v = (case json_int v of Some i \<Rightarrow> if 0 \<le> i then Some (word_of_int i) else None | None \<Rightarrow> None)"

text \<open>A field of the data: whether it is there with the given kind, and its value.\<close>

definition contains :: "jobj \<Rightarrow> string \<Rightarrow> bool" where
  "contains d k \<longleftrightarrow> map_of d k \<noteq> None"

definition has_unsigned :: "jobj \<Rightarrow> string \<Rightarrow> bool" where
  "has_unsigned d k = (case map_of d k of Some v \<Rightarrow> ReadUnsigned v \<noteq> None | None \<Rightarrow> False)"

definition unsigned_field :: "jobj \<Rightarrow> string \<Rightarrow> u64" where
  "unsigned_field d k =
    (case map_of d k of Some v \<Rightarrow> (case ReadUnsigned v of Some n \<Rightarrow> n | None \<Rightarrow> 0) | None \<Rightarrow> 0)"

definition has_address :: "jobj \<Rightarrow> string \<Rightarrow> bool" where
  "has_address d k = (case map_of d k of Some v \<Rightarrow> IsAddress v | None \<Rightarrow> False)"

definition has_boolean :: "jobj \<Rightarrow> string \<Rightarrow> bool" where
  "has_boolean d k = (case map_of d k of Some v \<Rightarrow> is_boolean v | None \<Rightarrow> False)"

definition string_field :: "jobj \<Rightarrow> string \<Rightarrow> string option" where
  "string_field d k = Option.bind (map_of d k) json_string"

definition is_one_of :: "jobj \<Rightarrow> string \<Rightarrow> string list \<Rightarrow> bool" where
  "is_one_of d k options = (case string_field d k of Some s \<Rightarrow> s \<in> set options | None \<Rightarrow> False)"

definition utf8_string :: "string \<Rightarrow> bool" where
  "utf8_string s = Ipc_IsValidUtf8 (map of_char s)"

definition bounded_text :: "jobj \<Rightarrow> string \<Rightarrow> nat \<Rightarrow> bool" where
  "bounded_text d k n = (case string_field d k of Some s \<Rightarrow> length s \<le> n \<and> utf8_string s | None \<Rightarrow> False)"

section \<open>Errors\<close>

record request_error =
  re_code :: string
  re_message :: string
  re_details :: jobj

definition to_string :: "int \<Rightarrow> string" where
  "to_string c = (if c < 0 then ''-'' else []) @ dec_text 1 (nat \<bar>c\<bar>)"

definition invalid :: "int \<Rightarrow> string \<Rightarrow> string \<Rightarrow> request_error" where
  "invalid command field requirement =
    \<lparr>re_code = ''invalid_request'', re_message = ''command '' @ to_string command @ '' field '' @ field @ '' '' @ requirement,
     re_details = [jint ''command'' command, (''field'', JStr field)]\<rparr>"

definition bad_request :: "string \<Rightarrow> jobj \<Rightarrow> request_error" where
  "bad_request message details = \<lparr>re_code = ''invalid_request'', re_message = message, re_details = details\<rparr>"

text \<open>The checks of a function, in order: the first that does not hold gives the error.\<close>

type_synonym check = "bool \<times> request_error"

fun first_failure :: "check list \<Rightarrow> request_error option" where
  "first_failure [] = None"
| "first_failure ((ok, e) # cs) = (if ok then first_failure cs else Some e)"

text \<open>The first field, in the order of the object, that is not one of the given ones.\<close>

definition unknown_field :: "string list \<Rightarrow> jobj \<Rightarrow> string option" where
  "unknown_field known d = map_option fst (List.find (\<lambda>(k, v). k \<notin> set known) d)"

definition known_fields :: "string list \<Rightarrow> (string \<Rightarrow> request_error) \<Rightarrow> jobj \<Rightarrow> check" where
  "known_fields known err d =
    (case unknown_field known d of None \<Rightarrow> (True, err []) | Some k \<Rightarrow> (False, err k))"

lemma first_failure_None: "first_failure cs = None \<longleftrightarrow> (\<forall>(ok, e) \<in> set cs. ok)"
  by (induction cs rule: first_failure.induct) auto

section \<open>The data of the commands\<close>

definition MAX_COMMENT_BYTES :: nat where "MAX_COMMENT_BYTES = 1024"
definition MAX_NAME_BYTES :: nat where "MAX_NAME_BYTES = 1024"
definition MAX_PATTERN_BYTES :: nat where "MAX_PATTERN_BYTES = 64"

definition is_server_id :: "jobj \<Rightarrow> string \<Rightarrow> bool" where
  "is_server_id d k \<longleftrightarrow> has_unsigned d k \<and> unsigned_field d k \<le> word_of_int INT_MAX"

definition set_field :: "string \<Rightarrow> jval \<Rightarrow> jobj \<Rightarrow> jobj" where
  "set_field k v d = map (\<lambda>(k1, w). (k1, if k1 = k then v else w)) d"

definition ValidateScriptInput :: "int \<Rightarrow> bool \<Rightarrow> jobj \<Rightarrow> request_error + jobj" where
  "ValidateScriptInput command requireId d =
    (let known = [''name'', ''path'', ''active''] @ (if requireId then [''scriptId''] else []);
         path = string_field d ''path'';
         normalized = Option.bind path NormalizeScriptPath
     in case first_failure
          [known_fields known (\<lambda>k. invalid command k ''is not supported'') d,
           (\<not> requireId \<or> is_server_id d ''scriptId'', invalid command ''scriptId'' ''must be a non-negative server script ID''),
           (bounded_text d ''name'' SCRIPT_NAME_BYTES \<and> string_field d ''name'' \<noteq> Some [],
            invalid command ''name'' ''must be a non-empty UTF-8 string within maxNameBytes''),
           (case path of Some s \<Rightarrow> utf8_string s | None \<Rightarrow> False, invalid command ''path'' ''must be a UTF-8 absolute path''),
           (case normalized of Some s \<Rightarrow> length s \<le> MAX_PATH_BYTES | None \<Rightarrow> False,
            invalid command ''path'' ''must be an absolute normalized path within maxPathBytes''),
           (has_boolean d ''active'', invalid command ''active'' ''must be boolean'')] of
          Some e \<Rightarrow> Inl e
        | None \<Rightarrow> Inr (set_field ''path'' (JStr (the normalized)) d))"

definition first_key :: "jobj \<Rightarrow> string" where
  "first_key d = (case d of [] \<Rightarrow> [] | (k, v) # _ \<Rightarrow> k)"

definition ValidateScriptId :: "int \<Rightarrow> jobj \<Rightarrow> request_error option" where
  "ValidateScriptId command d =
    first_failure
      [(length d = 1 \<and> contains d ''scriptId'',
        invalid command (if d = [] then ''scriptId'' else first_key d) ''must be the only field''),
       (is_server_id d ''scriptId'', invalid command ''scriptId'' ''must be a non-negative server script ID'')]"

definition ValidateStructuredWatchpoint :: "int \<Rightarrow> bool \<Rightarrow> jobj \<Rightarrow> request_error option" where
  "ValidateStructuredWatchpoint command requireId d =
    (let known = [''globalAddr'', ''len'', ''value'', ''access'', ''condition'', ''type'', ''active'', ''comment''] @
           (if requireId then [''id''] else []);
         address = unsigned_field d ''globalAddr''; len = unsigned_field d ''len''; value = unsigned_field d ''value'';
         word = (string_field d ''type'' = Some ''WORD'')
     in first_failure
      [known_fields known (\<lambda>k. bad_request (''DEBUG_WATCHPOINT_ADD contains unknown field: '' @ k)
          [jint ''command'' command, (''field'', JStr k)]) d,
       (\<not> requireId \<or> is_server_id d ''id'', invalid command ''id'' ''must be a non-negative integer''),
       (has_unsigned d ''globalAddr'', invalid command ''globalAddr'' ''must be an unsigned integer''),
       (has_unsigned d ''len'' \<and> len \<noteq> 0, invalid command ''len'' ''must be a positive integer''),
       (address < of_nat MEMORY_GLOBAL_LEN \<and> len \<le> of_nat MEMORY_GLOBAL_LEN - address,
        invalid command ''len'' ''must define a range inside global memory''),
       (has_unsigned d ''value'', invalid command ''value'' ''must be an unsigned integer''),
       (is_one_of d ''access'' [''R'', ''W'', ''RW''], invalid command ''access'' ''must be R, W, or RW''),
       (is_one_of d ''condition'' [''ANY'', ''EQU'', ''LESS'', ''GREATER'', ''LESS_EQU'', ''GREATER_EQU'', ''NOT_EQU''],
        invalid command ''condition'' ''has an unsupported value''),
       (is_one_of d ''type'' [''LEN'', ''WORD''], invalid command ''type'' ''must be LEN or WORD''),
       (\<not> (word \<and> len \<noteq> 2), invalid command ''len'' ''must be 2 for WORD watchpoints''),
       (value \<le> (if word then 0xFFFF else 0xFF), invalid command ''value'' ''is outside the range for the selected type''),
       (has_boolean d ''active'', invalid command ''active'' ''must be boolean''),
       (bounded_text d ''comment'' MAX_COMMENT_BYTES, invalid command ''comment'' ''must be a UTF-8 string of at most 1024 bytes'')])"

definition is_global_address :: "jobj \<Rightarrow> bool" where
  "is_global_address d \<longleftrightarrow> has_unsigned d ''globalAddr'' \<and> unsigned_field d ''globalAddr'' < of_nat MEMORY_GLOBAL_LEN"

definition ValidateMemoryEditInput :: "int \<Rightarrow> jobj \<Rightarrow> request_error option" where
  "ValidateMemoryEditInput command d =
    first_failure
      [known_fields [''globalAddr'', ''enteredValue'', ''readonly'', ''active'', ''comment'']
         (\<lambda>k. invalid command k ''is not supported'') d,
       (is_global_address d, invalid command ''globalAddr'' ''must be an integer inside global memory''),
       (has_unsigned d ''enteredValue'' \<and> unsigned_field d ''enteredValue'' \<le> 0xFF,
        invalid command ''enteredValue'' ''must be an integer in the range 0..255''),
       (has_boolean d ''readonly'', invalid command ''readonly'' ''must be boolean''),
       (has_boolean d ''active'', invalid command ''active'' ''must be boolean''),
       (bounded_text d ''comment'' MAX_COMMENT_BYTES, invalid command ''comment'' ''must be a UTF-8 string of at most 1024 bytes'')]"

definition ValidateMemoryEditAddress :: "int \<Rightarrow> jobj \<Rightarrow> request_error option" where
  "ValidateMemoryEditAddress command d =
    first_failure
      [known_fields [''globalAddr''] (\<lambda>k. invalid command k ''is not supported'') d,
       (is_global_address d, invalid command ''globalAddr'' ''must be an integer inside global memory'')]"

definition ValidateCodePerfInput :: "int \<Rightarrow> bool \<Rightarrow> jobj \<Rightarrow> request_error option" where
  "ValidateCodePerfInput command requireId d =
    first_failure
      [known_fields ([''name'', ''addrStart'', ''addrEnd'', ''active''] @ (if requireId then [''id''] else []))
         (\<lambda>k. invalid command k ''is not supported'') d,
       (\<not> requireId \<or> is_server_id d ''id'', invalid command ''id'' ''must be a non-negative integer representable by the server''),
       (bounded_text d ''name'' MAX_NAME_BYTES, invalid command ''name'' ''must be a UTF-8 string of at most 1024 bytes''),
       (has_address d ''addrStart'', invalid command ''addrStart'' ''must be an integer in the range 0..65535''),
       (has_address d ''addrEnd'', invalid command ''addrEnd'' ''must be an integer in the range 0..65535''),
       (unsigned_field d ''addrStart'' < unsigned_field d ''addrEnd'', invalid command ''addrEnd'' ''must be greater than addrStart''),
       (has_boolean d ''active'', invalid command ''active'' ''must be boolean'')]"

definition ValidateCodePerfId :: "int \<Rightarrow> jobj \<Rightarrow> request_error option" where
  "ValidateCodePerfId command d =
    first_failure
      [known_fields [''id''] (\<lambda>k. invalid command k ''is not supported'') d,
       (is_server_id d ''id'', invalid command ''id'' ''must be a non-negative integer representable by the server'')]"

definition ValidateBreakpointAddress :: "int \<Rightarrow> bool \<Rightarrow> jobj \<Rightarrow> request_error option" where
  "ValidateBreakpointAddress command allowStatus d =
    first_failure
      [(length d = (if allowStatus then 2 else 1) \<and> has_address d ''addr'',
        invalid command ''addr'' ''must be an integer in the range 0..65535''),
       (\<not> allowStatus \<or> is_one_of d ''status'' [''ACTIVE'', ''DISABLED''],
        invalid command ''status'' ''must be ACTIVE or DISABLED'')]"

text \<open>Fields are kept in the order of their names, so a new one goes to its place.\<close>

fun insert_field :: "string \<Rightarrow> jval \<Rightarrow> jobj \<Rightarrow> jobj" where
  "insert_field k v [] = [(k, v)]"
| "insert_field k v ((k1, w) # d) =
    (if ord_class.lexordp (map of_char k :: nat list) (map of_char k1) then (k, v) # (k1, w) # d
     else (k1, w) # insert_field k v d)"

definition ValidateStructuredBreakpoint :: "int \<Rightarrow> jobj \<Rightarrow> request_error + jobj" where
  "ValidateStructuredBreakpoint command d =
    (let value = unsigned_field d ''value''; operand = string_field d ''operand'';
         byteOperand = (case operand of Some s \<Rightarrow> (if length s = 1 \<and> s \<noteq> ''F'' then True else s = ''F'') | None \<Rightarrow> False)
     in case first_failure
      [known_fields [''addr'', ''memPages'', ''status'', ''autoDelete'', ''operand'', ''condition'', ''value'', ''counter'', ''comment'']
         (\<lambda>k. invalid command k ''is not supported'') d,
       (has_address d ''addr'', invalid command ''addr'' ''must be an integer in the range 0..65535''),
       (has_unsigned d ''memPages'' \<and> unsigned_field d ''memPages'' \<noteq> 0 \<and> unsigned_field d ''memPages'' \<le> MAPPING_PAGES_ALL,
        invalid command ''memPages'' ''must be a non-zero 33-bit mapping mask''),
       (is_one_of d ''status'' [''ACTIVE'', ''DISABLED''], invalid command ''status'' ''must be ACTIVE or DISABLED''),
       (has_boolean d ''autoDelete'', invalid command ''autoDelete'' ''must be boolean''),
       (is_one_of d ''operand'' [''A'', ''F'', ''B'', ''C'', ''D'', ''E'', ''H'', ''L'', ''PSW'', ''BC'', ''DE'', ''HL'', ''CC'', ''SP''],
        invalid command ''operand'' ''has an unsupported value''),
       (case string_field d ''condition'' of Some s \<Rightarrow> ParseConditionName s \<noteq> C_INVALID | None \<Rightarrow> False,
        invalid command ''condition'' ''has an unsupported value''),
       (has_unsigned d ''value'', invalid command ''value'' ''must be an unsigned integer''),
       (\<not> (byteOperand \<and> 0xFF < value), invalid command ''value'' ''must fit the selected 8-bit operand''),
       (\<not> (operand \<noteq> Some ''CC'' \<and> \<not> byteOperand \<and> 0xFFFF < value),
        invalid command ''value'' ''must fit the selected 16-bit operand''),
       (contains d ''counter'' \<longrightarrow> has_unsigned d ''counter'' \<and> unsigned_field d ''counter'' \<noteq> 0,
        invalid command ''counter'' ''must be a positive unsigned integer''),
       (bounded_text d ''comment'' MAX_COMMENT_BYTES, invalid command ''comment'' ''must be a UTF-8 string of at most 1024 bytes'')] of
       Some e \<Rightarrow> Inl e
     | None \<Rightarrow> Inr (if contains d ''counter'' then d else insert_field ''counter'' (JNum 1) d))"

definition ValidateTraceLogFilter :: "int \<Rightarrow> jobj \<Rightarrow> request_error option" where
  "ValidateTraceLogFilter command d =
    first_failure
      (known_fields [''addressPattern'', ''instructionPattern''] (\<lambda>k. invalid command k ''is not supported'') d #
       map (\<lambda>k. (contains d k \<longrightarrow> bounded_text d k MAX_PATTERN_BYTES,
                 invalid command k ''must be a UTF-8 string of at most 64 bytes''))
         [''addressPattern'', ''instructionPattern''])"

definition ValidateTraceLogWindow :: "int \<Rightarrow> jobj \<Rightarrow> request_error option" where
  "ValidateTraceLogWindow command d =
    (let about = (\<lambda>k. [jint ''command'' command, (''field'', JStr k)])
     in first_failure
      [(length d = 3 \<and> contains d ''filterId'' \<and> contains d ''start'' \<and> contains d ''lines'',
        bad_request ''trace-log window requires filterId, start, and lines'' [jint ''command'' command]),
       (has_unsigned d ''filterId'' \<and> unsigned_field d ''filterId'' \<noteq> 0,
        bad_request ''trace-log window filterId must be a positive unsigned integer'' (about ''filterId'')),
       (has_unsigned d ''start'', bad_request ''trace-log window start must be a non-negative integer'' (about ''start'')),
       (has_unsigned d ''lines'' \<and> unsigned_field d ''lines'' \<noteq> 0 \<and> unsigned_field d ''lines'' \<le> 512,
        bad_request ''trace-log window lines must be in the range 1..512'' (about ''lines''))])"

text \<open>The two queries of the history.\<close>

definition is_history_field :: "bool \<Rightarrow> string \<Rightarrow> bool" where
  "is_history_field caller k \<longleftrightarrow>
    k = ''callerCursor'' \<or> k = ''historyGeneration'' \<or> caller \<and> (k = ''rangeStart'' \<or> k = ''rangeEnd'')"

fun history_fields :: "bool \<Rightarrow> jobj \<Rightarrow> request_error option" where
  "history_fields caller [] = None"
| "history_fields caller ((k, v) # d) =
    (if \<not> is_history_field caller k then Some (bad_request ''unsupported history field'' [(''field'', JStr k)])
     else (case ReadUnsigned v of
             None \<Rightarrow> Some (bad_request ''history fields must be non-negative safe integers'' [(''field'', JStr k)])
           | Some n \<Rightarrow>
              if 9007199254740991 < n
              then Some (bad_request ''history fields must be non-negative safe integers'' [(''field'', JStr k)])
              else history_fields caller d))"

definition ValidateHistory :: "bool \<Rightarrow> jobj \<Rightarrow> request_error option" where
  "ValidateHistory caller d =
    (case history_fields caller d of
       Some e \<Rightarrow> Some e
     | None \<Rightarrow> first_failure
        [(contains d ''callerCursor'' = contains d ''historyGeneration'' \<and> (caller \<or> contains d ''callerCursor''),
          bad_request ''history continuation requires cursor and generation'' []),
         (contains d ''callerCursor'' \<longrightarrow> unsigned_field d ''callerCursor'' < of_nat TRACE_LOG_SIZE,
          bad_request ''history cursor exceeds capacity'' []),
         (caller \<longrightarrow> contains d ''rangeStart'' \<and> contains d ''rangeEnd'' \<and>
            unsigned_field d ''rangeStart'' < unsigned_field d ''rangeEnd'' \<and> unsigned_field d ''rangeEnd'' \<le> 65536,
          bad_request ''history query requires a valid half-open range'' [])])"

text \<open>Commands without data, those of one field, and the memory and device commands.\<close>

definition no_data :: "int \<Rightarrow> bool \<Rightarrow> jobj \<Rightarrow> request_error option" where
  "no_data command named d =
    first_failure [(d = [], bad_request (''command '' @ to_string command @ '' does not accept data'')
      (if named then [jint ''command'' command, (''field'', JStr (first_key d))] else []))]"

definition ValidateGetMem :: "jobj \<Rightarrow> request_error option" where
  "ValidateGetMem d =
    (let unsigned = (\<lambda>k. case map_of d k of Some v \<Rightarrow> is_unsigned v | None \<Rightarrow> False);
         addr = unsigned_field d ''addr''; len = unsigned_field d ''len''
     in first_failure
      [(unsigned ''addr'' \<and> unsigned ''len'', bad_request ''GET_MEM requires unsigned addr and len'' []),
       (len \<noteq> 0 \<and> addr < of_nat MEMORY_GLOBAL_LEN \<and> len \<le> of_nat MEMORY_GLOBAL_LEN - addr,
        bad_request ''GET_MEM range must be non-empty and inside global memory'' [])])"

definition ValidatePaletteEntry :: "int \<Rightarrow> jobj \<Rightarrow> request_error option" where
  "ValidatePaletteEntry command d =
    first_failure
      [(length d = 2 \<and> has_unsigned d ''index'' \<and> unsigned_field d ''index'' \<le> 15,
        bad_request ''SET_IO_PALETTE_ENTRY index must be an integer in the range 0..15''
          [jint ''command'' command, (''field'', JStr ''index'')]),
       (has_unsigned d ''hwColor'' \<and> unsigned_field d ''hwColor'' \<le> 255,
        bad_request ''SET_IO_PALETTE_ENTRY hwColor must be an integer in the range 0..255''
          [jint ''command'' command, (''field'', JStr ''hwColor'')])]"

definition ValidateDismount :: "int \<Rightarrow> jobj \<Rightarrow> request_error option" where
  "ValidateDismount command d =
    first_failure
      [(length d = 1 \<and> has_unsigned d ''driveIdx'' \<and> unsigned_field d ''driveIdx'' \<le> 3,
        bad_request ''DISMOUNT_FDD driveIdx must be an integer in the range 0..3''
          [jint ''command'' command, (''field'', JStr ''driveIdx'')])]"

section \<open>A request\<close>

definition keep_data :: "request_error option \<Rightarrow> jobj \<Rightarrow> request_error + jobj" where
  "keep_data r d = (case r of Some e \<Rightarrow> Inl e | None \<Rightarrow> Inr d)"

text \<open>At most one of the conditions of the function holds for a command.\<close>

definition ValidateData :: "int \<Rightarrow> jobj \<Rightarrow> request_error + jobj" where
  "ValidateData c d =
    (if c = Req_DEBUG_HISTORY_CALLER \<or> c = Req_DEBUG_HISTORY_SUCCESSOR
     then keep_data (ValidateHistory (c = Req_DEBUG_HISTORY_CALLER) d) d
     else if c = Req_GET_STACK_SAMPLE
     then keep_data (first_failure [(has_address d ''addr'',
       bad_request ''GET_STACK_SAMPLE requires addr in the range 0..65535'' [])]) d
     else if c = Req_GET_MEM then keep_data (ValidateGetMem d) d
     else if c = Req_DEBUG_WATCHPOINT_ADD then keep_data (ValidateStructuredWatchpoint c False d) d
     else if c = Req_DEBUG_WATCHPOINT_EDIT then keep_data (ValidateStructuredWatchpoint c True d) d
     else if c = Req_DEBUG_WATCHPOINT_GET_ALL then keep_data (no_data c False d) d
     else if c = Req_DEBUG_MEMORY_EDIT_ADD then keep_data (ValidateMemoryEditInput c d) d
     else if c \<in> {Req_DEBUG_MEMORY_EDIT_DEL, Req_DEBUG_MEMORY_EDIT_GET, Req_DEBUG_MEMORY_EDIT_EXISTS, Req_DEBUG_MEMORY_EDIT_RESTORE}
     then keep_data (ValidateMemoryEditAddress c d) d
     else if c \<in> {Req_DEBUG_MEMORY_EDIT_DEL_ALL, Req_DEBUG_MEMORY_EDIT_GET_ALL} then keep_data (no_data c True d) d
     else if c = Req_DEBUG_CODE_PERF_ADD then keep_data (ValidateCodePerfInput c False d) d
     else if c = Req_DEBUG_CODE_PERF_EDIT then keep_data (ValidateCodePerfInput c True d) d
     else if c = Req_DEBUG_SCRIPT_ADD then ValidateScriptInput c False d
     else if c = Req_DEBUG_SCRIPT_EDIT then ValidateScriptInput c True d
     else if c \<in> {Req_DEBUG_SCRIPT_DEL, Req_DEBUG_SCRIPT_COMPILE, Req_DEBUG_SCRIPT_RUN_ONCE, Req_DEBUG_SCRIPT_DISABLE}
     then keep_data (ValidateScriptId c d) d
     else if c \<in> {Req_DEBUG_SCRIPT_DEL_ALL, Req_DEBUG_SCRIPT_GET_ALL, Req_DEBUG_SCRIPT_GET_UPDATES, Req_DEBUG_SCRIPT_DISABLE_ALL,
       Req_DEBUG_SCRIPT_OVERLAY_GET}
     then keep_data (no_data c True d) d
     else if c = Req_DEBUG_TRACE_LOG_FILTER then keep_data (ValidateTraceLogFilter c d) d
     else if c = Req_DEBUG_TRACE_LOG_WINDOW then keep_data (ValidateTraceLogWindow c d) d
     else if c \<in> {Req_DEBUG_CODE_PERF_DEL, Req_DEBUG_CODE_PERF_GET, Req_DEBUG_CODE_PERF_EXISTS}
     then keep_data (ValidateCodePerfId c d) d
     else if c \<in> {Req_DEBUG_CODE_PERF_DEL_ALL, Req_DEBUG_CODE_PERF_GET_ALL} then keep_data (no_data c True d) d
     else if c = Req_DEBUG_BREAKPOINT_ADD then ValidateStructuredBreakpoint c d
     else if c \<in> {Req_DEBUG_BREAKPOINT_DEL, Req_DEBUG_BREAKPOINT_GET_STATUS, Req_DEBUG_BREAKPOINT_ACTIVE, Req_DEBUG_BREAKPOINT_DISABLE}
     then keep_data (ValidateBreakpointAddress c False d) d
     else if c = Req_DEBUG_BREAKPOINT_SET_STATUS then keep_data (ValidateBreakpointAddress c True d) d
     else if c \<in> {Req_DEBUG_BREAKPOINT_DEL_ALL, Req_DEBUG_BREAKPOINT_GET_ALL, Req_DEBUG_BREAKPOINT_GET_UPDATES, Req_GET_STOP_RECORD}
     then keep_data (no_data c False d) d
     else if c = Req_GET_HARDWARE_STATS
     then keep_data (first_failure [(d = [], bad_request ''GET_HARDWARE_STATS does not accept data'' [])]) d
     else if c = Req_SET_IO_PALETTE_ENTRY then keep_data (ValidatePaletteEntry c d) d
     else if c = Req_DISMOUNT_FDD then keep_data (ValidateDismount c d) d
     else Inr d)"

definition ValidateRequest :: "jval \<Rightarrow> request_error + int \<times> jobj" where
  "ValidateRequest request =
    (case request of
       JObj fs \<Rightarrow>
        (case Option.bind (map_of fs ''cmd'') ReadCommand of
           None \<Rightarrow> Inl (bad_request ''cmd must be a 32-bit integer'' [])
         | Some command \<Rightarrow>
            if \<not> IsSupportedCommand command
            then Inl \<lparr>re_code = ''unknown_command'', re_message = ''unsupported command'', re_details = []\<rparr>
            else (case (case map_of fs ''data'' of None \<Rightarrow> Some [] | Some (JObj d) \<Rightarrow> Some d | Some _ \<Rightarrow> None) of
                    None \<Rightarrow> Inl (bad_request ''data must be an object'' [])
                  | Some d \<Rightarrow> (case ValidateData command d of Inl e \<Rightarrow> Inl e | Inr d1 \<Rightarrow> Inr (command, d1))))
     | _ \<Rightarrow> Inl (bad_request ''request must be an object'' []))"

section \<open>Responses and the description of the server\<close>

definition MakeResponse :: "jval \<Rightarrow> jval" where
  "MakeResponse data = JObj [jbool ''ok'' True, (''data'', data)]"

definition MakeErrorResponse :: "string \<Rightarrow> string \<Rightarrow> jobj" where
  "MakeErrorResponse text code = [jbool ''ok'' False, (''code'', JStr code), (''error'', JStr text)]"

definition PROTOCOL_VERSION :: int where "PROTOCOL_VERSION = 2"

definition server_commands :: "jval list" where
  "server_commands =
    map JNum ([CMD_GET_SERVER_INFO, CMD_GET_FRAME_RAW, CMD_GET_FRAME, CMD_PING] @ [Req_RUN..Req_DEBUG_HISTORY_SUCCESSOR])"

definition on :: "string \<Rightarrow> string \<times> jval" where "on k = jbool k True"
definition version_1 :: "string \<Rightarrow> string \<times> jval" where "version_1 k = jint k 1"

definition jnat :: "string \<Rightarrow> nat \<Rightarrow> string \<times> jval" where "jnat k n = jint k (int n)"

definition script_capabilities :: jobj where
  "script_capabilities =
    [version_1 ''scriptSchema'', on ''scriptServerAllocatedIds'', on ''scriptPathSources'', on ''scriptExplicitCompile'',
     on ''scriptRunOnce'', on ''scriptBulkDisable'', on ''scriptMutationsWhileRunning'', on ''scriptRunOnceWhileRunning'',
     version_1 ''scriptOverlaySchema'', on ''scriptOverlayRetained'', on ''scriptOverlayConsumesUpdates'',
     on ''scriptOverlayVectorScreenCoords'', (''scriptOverlayColorFormat'', JStr ''RRGGBBAA''),
     (''scriptOverlayLimits'', JObj
       [jnat ''maxItemsPerScript'' MAX_OVERLAYS_PER_SCRIPT, jnat ''maxItemsTotal'' MAX_OVERLAYS_TOTAL,
        jnat ''maxTextBytes'' MAX_OVERLAY_TEXT_BYTES,
        (''maxCoordinateMagnitude'', JFloat (Some MAX_OVERLAY_COORDINATE_MAGNITUDE))]),
     (''scriptLimits'', JObj
       [jnat ''maxNameBytes'' SCRIPT_NAME_BYTES, jnat ''maxPathBytes'' MAX_PATH_BYTES, jnat ''maxSourceBytes'' MAX_SOURCE_BYTES,
        jnat ''maxRecords'' SCRIPT_RECORDS_MAX, jnat ''maxErrorBytes'' MAX_ERROR_BYTES,
        jint ''maxInstructionsPerRun'' MAX_INSTRUCTIONS_PER_RUN,
        jint ''maxExecutionMilliseconds'' MAX_EXECUTION_MILLISECONDS])]"

definition capabilities :: jobj where
  "capabilities =
    [on ''debugger'', on ''rawFrame'', version_1 ''rawFrameSchema'', version_1 ''stackSampleSchema'', version_1 ''breakpointSchema'',
     version_1 ''watchpointSchema'', version_1 ''memoryEditSchema'', version_1 ''codePerfSchema''] @ script_capabilities @
    [version_1 ''stopRecordSchema'', version_1 ''hardwareStatsSchema'', on ''hardwareStatsWhileRunning'', on ''paletteEntryMutation'',
     on ''fddDismount'', version_1 ''traceLogSchema'', version_1 ''functionHistorySchema'', on ''traceLogFilter'', on ''traceLogWindowQuery'',
     (''traceLogLimits'', JObj [jnat ''capacity'' TRACE_LOG_SIZE, jint ''maxLines'' 512, jnat ''maxPatternBytes'' MAX_PATTERN_BYTES]),
     jbool ''runningHardwareMutations'' False,
     (''breakpointLimits'', JObj [jint ''mappingPageBits'' 33, jnat ''maxCommentBytes'' MAX_COMMENT_BYTES, jint ''defaultCounter'' 1]),
     on ''breakpointCounter'', on ''watchpointServerAllocatedIds'', on ''watchpointEdit'', on ''codePerfServerAllocatedIds'',
     on ''codePerfEdit'', on ''codePerfMutationsWhileRunning'', on ''watchpointMutationsWhileRunning'',
     (''watchpointLimits'', JObj [jnat ''maxRangeLength'' MEMORY_GLOBAL_LEN, jnat ''maxCommentBytes'' MAX_COMMENT_BYTES]),
     (''memoryEditLimits'', JObj [jnat ''globalAddressExclusive'' MEMORY_GLOBAL_LEN, jnat ''maxCommentBytes'' MAX_COMMENT_BYTES]),
     (''codePerfLimits'', JObj [jint ''addressExclusive'' 65536, jnat ''maxNameBytes'' MAX_NAME_BYTES,
       jnat ''maxRecords'' MAX_RECORDS, jint ''maxTestCount'' MAX_TEST_COUNT])]"

definition MakeServerInfo :: "string \<Rightarrow> jval" where
  "MakeServerInfo emulatorVersion =
    JObj [jint ''protocolVersion'' PROTOCOL_VERSION, (''emulatorVersion'', JStr emulatorVersion),
      (''commands'', JList server_commands), (''capabilities'', JObj capabilities)]"

text \<open>
  The client's check. The library's conversion to \<^verbatim>\<open>int\<close> takes any number or truth value and
  throws for the rest, which the check turns into false. Among the commands only integers are
  compared.
\<close>

fun to_int :: "jval \<Rightarrow> int option" where
  "to_int (JNum i) = Some i"
| "to_int (JSigned i) = Some i"
| "to_int (JFloat x) = x"
| "to_int (JBool b) = Some (of_bool b)"
| "to_int _ = None"

definition int_field_is :: "jobj \<Rightarrow> string \<Rightarrow> int \<Rightarrow> bool" where
  "int_field_is d k n = (case map_of d k of None \<Rightarrow> n = 0 | Some v \<Rightarrow> map_option int32 (to_int v) = Some n)"

definition IsRawFrameServerCompatible :: "jval \<Rightarrow> bool" where
  "IsRawFrameServerCompatible response =
    (case response of
       JObj r \<Rightarrow>
        if map_of r ''ok'' \<noteq> Some (JBool True) then False
        else (case map_of r ''data'' of
          Some (JObj d) \<Rightarrow>
            if \<not> int_field_is d ''protocolVersion'' PROTOCOL_VERSION then False
            else (case map_of d ''capabilities'' of
              Some (JObj cs) \<Rightarrow>
                if \<not> int_field_is cs ''rawFrameSchema'' (uint RAW_FRAME_SCHEMA_VERSION) then False
                else (case map_of d ''commands'' of
                        Some (JList xs) \<Rightarrow> Some CMD_GET_FRAME_RAW \<in> json_int ` set xs
                      | _ \<Rightarrow> False)
            | _ \<Rightarrow> False)
        | _ \<Rightarrow> False)
     | _ \<Rightarrow> False)"

lemmas command_codes = CMD_PING_def CMD_GET_FRAME_def CMD_GET_FRAME_RAW_def CMD_GET_SERVER_INFO_def
  Req_RUN_def Req_DEBUG_HISTORY_SUCCESSOR_def

text \<open>The commands the server announces are exactly those that validation accepts, and the client's
  check accepts the server's announcement of the raw frames.\<close>

theorem announced_commands:
  "(\<exists>info cs. MakeServerInfo v = JObj info \<and> map_of info ''commands'' = Some (JList cs) \<and>
      (\<forall>c. JNum c \<in> set cs \<longleftrightarrow> IsSupportedCommand c)) \<and>
    IsRawFrameServerCompatible (MakeResponse (MakeServerInfo v))"
proof
  have "JNum c \<in> set server_commands \<longleftrightarrow> IsSupportedCommand c" for c
    by (auto simp: server_commands_def IsSupportedCommand_def command_codes)
  then show "\<exists>info cs. MakeServerInfo v = JObj info \<and> map_of info ''commands'' = Some (JList cs) \<and>
      (\<forall>c. JNum c \<in> set cs \<longleftrightarrow> IsSupportedCommand c)"
    by (simp add: MakeServerInfo_def jint_def)
  have "Some CMD_GET_FRAME_RAW \<in> json_int ` set server_commands" by (simp add: server_commands_def)
  moreover have "int_field_is capabilities ''rawFrameSchema'' (uint RAW_FRAME_SCHEMA_VERSION)"
    by (simp add: int_field_is_def capabilities_def on_def version_1_def jbool_def jint_def RAW_FRAME_SCHEMA_VERSION_def int32_def)
  ultimately show "IsRawFrameServerCompatible (MakeResponse (MakeServerInfo v))"
    by (simp add: IsRawFrameServerCompatible_def MakeResponse_def MakeServerInfo_def jbool_def jint_def
        int_field_is_def [of "_ # _"] PROTOCOL_VERSION_def int32_def)
qed

end
