(* ===== verification/Request_Json.thy ===== *)
theory Request_Json
  imports Debugger Ipc_Request
begin

text \<open>
  How \<^verbatim>\<open>Hardware::ReqHandling\<close> reads the JSON data of a request (\<^verbatim>\<open>core/hardware.cpp\<close>): from a
  command and its data to the typed request that the model of the hardware handles, and which
  requests the validation of the server makes safe to read.

  The data is constant there, so \<^verbatim>\<open>operator[]\<close> with a field that is missing dereferences the end of
  the object; this is the error \<^term>\<open>Past_the_end\<close>.
\<close>

section \<open>Reading\<close>

definition fld_const :: "string \<Rightarrow> (jval \<Rightarrow> debug_error + 'a) \<Rightarrow> jval \<Rightarrow> debug_error + 'a" where
  "fld_const k g j =
    (case j of JObj d \<Rightarrow> (case map_of d k of Some v \<Rightarrow> g v | None \<Rightarrow> Inl Past_the_end) | _ \<Rightarrow> Inl Json_error)"

fun get_all :: "(jval \<Rightarrow> debug_error + 'a) \<Rightarrow> jval list \<Rightarrow> debug_error + 'a list" where
  "get_all g [] = Inr []"
| "get_all g (v # vs) = and_then (g v) (\<lambda>x. and_then (get_all g vs) (\<lambda>xs. Inr (x # xs)))"

text \<open>\<^verbatim>\<open>std::vector<uint8_t>\<close> comes from an array of numbers, not from a binary value.\<close>

fun get_bytes :: "jval \<Rightarrow> debug_error + u8 list" where
  "get_bytes (JList vs) = get_all get_word vs"
| "get_bytes _ = Inl Json_error"

text \<open>A mode without a region lets \<^verbatim>\<open>GetFrame\<close> index past its table; the error is placed here.\<close>

definition frame_mode_of :: "int \<Rightarrow> debug_error + frame_mode" where
  "frame_mode_of i =
    (if i = 0 then Inr FULL else if i = 1 then Inr BORDERED else if i = 2 then Inr BORDERLESS else Inl Past_the_end)"

definition color_format_of :: "int \<Rightarrow> color_format" where
  "color_format_of i = (if (word_of_int i :: u8) = 1 then ARGB else ABGR)"

definition reads :: "(jval \<Rightarrow> debug_error + 'a) \<Rightarrow> ('a \<Rightarrow> request) \<Rightarrow> jval \<Rightarrow> debug_error + request" where
  "reads g f j = and_then (g j) (\<lambda>x. Inr (f x))"

definition reads2 ::
  "(jval \<Rightarrow> debug_error + 'a) \<Rightarrow> (jval \<Rightarrow> debug_error + 'b) \<Rightarrow> ('a \<Rightarrow> 'b \<Rightarrow> request) \<Rightarrow> jval \<Rightarrow> debug_error + request" where
  "reads2 g h f j = and_then (g j) (\<lambda>x. and_then (h j) (\<lambda>y. Inr (f x y)))"

definition takes :: "request \<Rightarrow> jval \<Rightarrow> debug_error + request" where
  "takes r j = Inr r"

section \<open>The requests of the hardware\<close>

text \<open>\<open>now\<close>: the milliseconds since the session began.\<close>

definition query_readers :: "u64 \<Rightarrow> (int \<times> (jval \<Rightarrow> debug_error + request)) list" where
  "query_readers now =
    [(Req_IS_RUNNING, takes (Query IS_RUNNING)), (Req_GET_CC, takes (Query GET_CC)),
     (Req_GET_STOP_RECORD, takes (Query GET_STOP_RECORD)), (Req_GET_REGS, takes (Query GET_REGS)),
     (Req_GET_REG_PC, takes (Query GET_REG_PC)), (Req_GET_RUSLAT_HISTORY, takes (Query GET_RUSLAT_HISTORY)),
     (Req_GET_IO_PALETTE, takes (Query GET_IO_PALETTE)), (Req_GET_IO_PORTS, takes (Query GET_IO_PORTS)),
     (Req_GET_IO_PALETTE_COMMIT_TIME, takes (Query GET_IO_PALETTE_COMMIT_TIME)),
     (Req_GET_DISPLAY_BORDER_LEFT, takes (Query GET_DISPLAY_BORDER_LEFT)),
     (Req_GET_DISPLAY_IRQ_COMMIT_PXL, takes (Query GET_DISPLAY_IRQ_COMMIT_PXL)),
     (Req_GET_IO_DISPLAY_MODE, takes (Query GET_IO_DISPLAY_MODE)),
     (Req_GET_BYTE_GLOBAL, reads (fld_const ''globalAddr'' get_word) (\<lambda>a. Query (GET_BYTE_GLOBAL a))),
     (Req_GET_MEM, reads2 (fld_const ''addr'' get_u64) (fld_const ''len'' get_u64) (\<lambda>a n. Query (GET_MEM a n))),
     (Req_GET_BYTE_RAM, reads (fld_const ''addr'' get_word) (\<lambda>a. Query (GET_BYTE_RAM a))),
     (Req_GET_THREE_BYTES_RAM, reads (fld_const ''addr'' get_word) (\<lambda>a. Query (GET_THREE_BYTES_RAM a))),
     (Req_GET_WORD_STACK, reads (fld_const ''addr'' get_word) (\<lambda>a. Query (GET_WORD_STACK a))),
     (Req_GET_STACK_SAMPLE, reads (fld_const ''addr'' get_word) (\<lambda>a. Query (GET_STACK_SAMPLE a))),
     (Req_GET_DISPLAY_DATA, takes (Query GET_DISPLAY_DATA)), (Req_GET_MEMORY_MAPPING, takes (Query GET_MEMORY_MAPPING)),
     (Req_GET_MEMORY_MAPPINGS, takes (Query GET_MEMORY_MAPPINGS)),
     (Req_GET_GLOBAL_ADDR_RAM, reads (fld_const ''addr'' get_word) (\<lambda>a. Query (GET_GLOBAL_ADDR_RAM a))),
     (Req_GET_FDC_INFO, takes (Query GET_FDC_INFO)), (Req_GET_STEP_OVER_ADDR, takes (Query GET_STEP_OVER_ADDR)),
     (Req_GET_IO_PORTS_IN_DATA, takes (Query GET_IO_PORTS_IN_DATA)),
     (Req_GET_IO_PORTS_OUT_DATA, takes (Query GET_IO_PORTS_OUT_DATA)),
     (Req_GET_HW_MAIN_STATS, takes (Query GET_HW_MAIN_STATS)),
     (Req_GET_HARDWARE_STATS, takes (Query (GET_HARDWARE_STATS now))),
     (Req_IS_MEMROM_ENABLED, takes (Query IS_MEMROM_ENABLED)), (Req_GET_SCROLL_VERT, takes (Query GET_SCROLL_VERT))]"

definition read_mount :: "jval \<Rightarrow> debug_error + request" where
  "read_mount j =
    and_then (fld_const ''driveIdx'' get_int j) (\<lambda>i.
    and_then (fld_const ''data'' get_bytes j) (\<lambda>bs.
    and_then (fld_const ''path'' get_string j) (\<lambda>p. Inr (Setting (LOAD_FDD i bs p)))))"

definition setting_readers :: "(int \<times> (jval \<Rightarrow> debug_error + request)) list" where
  "setting_readers =
    [(Req_RUN, takes (Setting RUN)), (Req_EXIT, takes (Setting EXIT)),
     (Req_SET_IO_PALETTE_COMMIT_TIME, reads (fld_const ''paletteCommitTime'' get_int) (\<lambda>t. Setting (SET_IO_PALETTE_COMMIT_TIME t))),
     (Req_SET_DISPLAY_BORDER_LEFT, reads (fld_const ''borderLeft'' get_int) (\<lambda>b. Setting (SET_DISPLAY_BORDER_LEFT b))),
     (Req_SET_DISPLAY_IRQ_COMMIT_PXL, reads (fld_const ''irqCommitPxl'' get_int) (\<lambda>p. Setting (SET_DISPLAY_IRQ_COMMIT_PXL p))),
     (Req_SET_FRAME_MODE,
        reads (\<lambda>j. and_then (fld_const ''frameMode'' get_int j) frame_mode_of) (\<lambda>m. Setting (SET_FRAME_MODE m))),
     (Req_SET_COLOR_FORMAT, reads (fld_const ''colorFormat'' get_int) (\<lambda>i. Setting (SET_COLOR_FORMAT (color_format_of i)))),
     (Req_GET_MEM_STRING_GLOBAL,
        reads2 (fld_const ''addr'' get_word) (fld_const ''len'' get_word) (\<lambda>a n. Setting (GET_MEM_STRING_GLOBAL a n))),
     (Req_GET_FDD_INFO, reads (fld_const ''driveIdx'' get_int) (\<lambda>i. Setting (GET_FDD_INFO i))),
     (Req_GET_FDD_IMAGE, reads (fld_const ''driveIdx'' get_int) (\<lambda>i. Setting (GET_FDD_IMAGE i))),
     (Req_SET_MEM, reads2 (fld_const ''addr'' get_word) (fld_const ''data'' get_bytes) (\<lambda>a bs. Setting (SET_MEM a bs))),
     (Req_SET_BYTE_GLOBAL,
        reads2 (fld_const ''addr'' get_word) (fld_const ''data'' get_word) (\<lambda>a v. Setting (SET_BYTE_GLOBAL a v))),
     (Req_SET_CPU_SPEED, reads (fld_const ''speed'' get_int) (\<lambda>s. Setting (SET_CPU_SPEED s))),
     (Req_LOAD_FDD, read_mount),
     (Req_RESET_UPDATE_FDD, reads (fld_const ''driveIdx'' get_int) (\<lambda>i. Setting (RESET_UPDATE_FDD i))),
     (Req_DEBUG_ATTACH, reads (fld_const ''data'' get_bool) (\<lambda>b. Setting (DEBUG_ATTACH b)))]"

definition read_load_rom :: "jval \<Rightarrow> debug_error + request" where
  "read_load_rom j =
    and_then (fld_const ''data'' get_bytes j) (\<lambda>bs.
    and_then (fld_value ''addr'' get_int 0 j) (\<lambda>a.
    and_then (fld_value ''autorun'' get_bool False j) (\<lambda>r. Inr (Control (LOAD_ROM bs (word_of_int a) r)))))"

definition read_mount_fdd :: "jval \<Rightarrow> debug_error + request" where
  "read_mount_fdd j =
    and_then (fld_const ''data'' get_bytes j) (\<lambda>bs.
    and_then (fld_value ''driveIdx'' get_int 0 j) (\<lambda>i.
    and_then (fld_value ''path'' get_string [] j) (\<lambda>p.
    and_then (fld_value ''autoBoot'' get_bool False j) (\<lambda>b. Inr (Control (MOUNT_FDD bs i p b))))))"

definition read_headless :: "jval \<Rightarrow> debug_error + request" where
  "read_headless j =
    and_then (fld_value ''haltExit'' get_bool False j) (\<lambda>b.
    and_then (fld_value ''maxFrames'' get_u64 0 j) (\<lambda>f.
    and_then (fld_value ''maxCycles'' get_u64 0 j) (\<lambda>c. Inr (RUN_HEADLESS b f c))))"

definition control_readers :: "(int \<times> (jval \<Rightarrow> debug_error + request)) list" where
  "control_readers =
    [(Req_INTERNAL_BEGIN_SESSION, takes (Control INTERNAL_BEGIN_SESSION)), (Req_STOP, takes (Control STOP)),
     (Req_RESET, takes (Control RESET)), (Req_RESTART, takes (Control RESTART)),
     (Req_SET_IO_PALETTE_ENTRY,
        reads2 (fld_const ''index'' get_word) (fld_const ''hwColor'' get_word) (\<lambda>i c. Control (SET_IO_PALETTE_ENTRY i c))),
     (Req_DISMOUNT_FDD, reads (fld_const ''driveIdx'' get_int) (\<lambda>i. Control (DISMOUNT_FDD i))),
     (Req_KEY_HANDLING,
        reads2 (fld_const ''scancode'' get_int) (fld_const ''action'' get_int) (\<lambda>s a. Control (KEY_HANDLING s a))),
     (Req_LOAD_ROM, read_load_rom), (Req_MOUNT_FDD, read_mount_fdd),
     (Req_EXECUTE_INSTR, takes EXECUTE_INSTR), (Req_EXECUTE_FRAME, takes EXECUTE_FRAME),
     (Req_EXECUTE_FRAME_NO_BREAKS, takes EXECUTE_FRAME_NO_BREAKS), (Req_RUN_HEADLESS, read_headless)]"

text \<open>What the hardware does not handle goes to the debugger.\<close>

definition request_of :: "u64 \<Rightarrow> int \<Rightarrow> jval \<Rightarrow> debug_error + request" where
  "request_of now command j =
    (case map_of (query_readers now @ setting_readers @ control_readers) command of
       Some g \<Rightarrow> g j | None \<Rightarrow> Inr (DEBUG_REQ command j))"

section \<open>Fields that were validated are read\<close>

definition succeeds :: "'e + 'a \<Rightarrow> bool" where
  "succeeds x \<longleftrightarrow> (\<exists>a. x = Inr a)"

lemma succeeds_simps [simp]: "succeeds (Inr a)" "\<not> succeeds (Inl e)"
  by (simp_all add: succeeds_def)

lemma succeeds_and_then:
  assumes "succeeds x" "\<And>a. x = Inr a \<Longrightarrow> succeeds (g a)"
  shows "succeeds (and_then x g)"
  using assms by (auto simp: succeeds_def and_then_def)

lemma integer_field:
  assumes "has_unsigned d k"
  obtains v i where "map_of d k = Some v" "v = JNum i \<or> v = JSigned i" "0 \<le> i" "unsigned_field d k = word_of_int i"
proof -
  obtain v n where v: "map_of d k = Some v" "ReadUnsigned v = Some n"
    using assms unfolding has_unsigned_def by (auto split: option.splits)
  then have "n = unsigned_field d k" by (simp add: unsigned_field_def)
  with v that show ?thesis by (cases v) (auto simp: ReadUnsigned_def split: if_splits)
qed

lemma read_unsigned:
  assumes "has_unsigned d k"
  shows "succeeds (fld k (get_word :: jval \<Rightarrow> debug_error + 'a::len word) (JObj d))" "succeeds (fld k get_u64 (JObj d))"
    "succeeds (fld k get_int (JObj d))" "succeeds (fld_value k get_u64 n (JObj d))" "succeeds (fld_at k get_u64 (JObj d))"
    "succeeds (fld_at k (get_word :: jval \<Rightarrow> debug_error + 'a word) (JObj d))"
    "succeeds (fld_const k (get_word :: jval \<Rightarrow> debug_error + 'a word) (JObj d))" "succeeds (fld_const k get_u64 (JObj d))"
    "succeeds (fld_const k get_int (JObj d))"
  by (rule integer_field [OF assms], auto simp: fld_def fld_at_def fld_const_def and_then_def)+

lemma read_missing: "\<not> contains d k \<Longrightarrow> succeeds (fld_value k g x (JObj d))"
  by (simp add: contains_def)

lemma address_unsigned: "has_address d k \<Longrightarrow> has_unsigned d k"
  by (auto simp: has_address_def has_unsigned_def IsAddress_def ReadUnsigned_def split: option.splits)

lemma read_boolean:
  assumes "has_boolean d k"
  shows "succeeds (fld k get_bool (JObj d))"
proof -
  obtain v where "map_of d k = Some v" "is_boolean v"
    using assms unfolding has_boolean_def by (auto split: option.splits)
  then show ?thesis by (cases v) (auto simp: fld_def and_then_def)
qed

lemma read_string:
  assumes "string_field d k = Some s"
  shows "fld k get_string (JObj d) = Inr s" "fld_value k get_string t (JObj d) = Inr s"
proof -
  have "map_of d k = Some (JStr s)"
    using assms unfolding string_field_def by (cases "map_of d k") (auto elim: json_string.elims)
  then show "fld k get_string (JObj d) = Inr s" "fld_value k get_string t (JObj d) = Inr s"
    by (simp_all add: fld_def and_then_def)
qed

lemma text_fields:
  "is_one_of d k ss \<Longrightarrow> string_field d k \<noteq> None" "bounded_text d k n \<Longrightarrow> string_field d k \<noteq> None"
  by (auto simp: is_one_of_def bounded_text_def split: option.splits)

lemma read_text:
  assumes "string_field d k \<noteq> None"
  shows "succeeds (fld k get_string (JObj d))" "succeeds (fld_value k get_string t (JObj d))"
proof -
  obtain s where "string_field d k = Some s" using assms by blast
  then show "succeeds (fld k get_string (JObj d))" "succeeds (fld_value k get_string t (JObj d))"
    using read_string by (metis succeeds_simps(1))+
qed

lemma checks_passed:
  assumes "first_failure cs = None" "(ok, e) \<in> set cs"
  shows "ok"
  using assms first_failure_None by fastforce

section \<open>Handlers that only meet data they can read\<close>

text \<open>The errors of a request whose data the code cannot read, or reads past the end of something.\<close>

definition reading_error :: "debug_error \<Rightarrow> bool" where
  "reading_error e \<longleftrightarrow>
    e \<in> {Json_error, Undefined_conversion, Past_the_end, Memory_range} \<or> (\<exists>f. e = Script_failed (ScriptInput f))"

definition well_read :: "('r, 'v) dbg_reply \<Rightarrow> bool" where
  "well_read r \<longleftrightarrow> (\<forall>e s ds. r = Some (Inl e, s, ds) \<longrightarrow> \<not> reading_error e)"

lemma well_read_simps [simp]:
  "well_read None" "well_read (answer j ds)" "well_read (failing e ds) \<longleftrightarrow> \<not> reading_error e"
  "well_read (Some (Inr j, s, ds))" "well_read (Some (Inl e, s, ds)) \<longleftrightarrow> \<not> reading_error e"
  by (cases ds; auto simp: well_read_def answer_def failing_def)+

lemma not_reading_error [simp]:
  "\<not> reading_error (WatchpointNotFound i)" "\<not> reading_error (MemoryEditNotFound g)" "\<not> reading_error (Perf_failed pe)"
  "\<not> reading_error (Trace_failed te)" "reading_error (Script_failed se) \<longleftrightarrow> (\<exists>f. se = ScriptInput f)"
  by (auto simp: reading_error_def)

lemma well_read_reading:
  assumes "succeeds x" "\<And>a. x = Inr a \<Longrightarrow> well_read (f a)"
  shows "well_read (reading x ds f)"
  using assms by (auto simp: succeeds_def reading_def)

lemma well_read_trace: "well_read (trace_answer res g ds)"
  by (simp add: trace_answer_def split: sum.split)

lemmas field_reads = read_unsigned read_boolean read_text address_unsigned succeeds_simps(1) well_read_simps(2)
lemmas read_steps = well_read_reading succeeds_and_then

lemma well_read_breakpoints:
  assumes "has_address d ''addr''"
  shows "well_read (req_breakpoint_del env run (JObj d) ds)" "well_read (req_breakpoint_to stat env run (JObj d) ds)"
    "well_read (req_breakpoint_get_status env run (JObj d) ds)"
    "is_one_of d ''status'' ss \<Longrightarrow> well_read (req_breakpoint_set_status env run (JObj d) ds)"
  unfolding req_breakpoint_del_def req_breakpoint_to_def req_breakpoint_get_status_def req_breakpoint_set_status_def
  by (intro read_steps; use assms in \<open>blast intro: field_reads dest: text_fields\<close>)+

lemma passed_iff: "first_failure cs = None \<longleftrightarrow> list_all fst cs"
  by (induction cs rule: first_failure.induct) auto

lemma passed_result: "(case r of Some e \<Rightarrow> Inl e | None \<Rightarrow> Inr x) = Inr y \<longleftrightarrow> r = None \<and> x = y"
  by (cases r) auto

lemma some_case: "(case x of Some s \<Rightarrow> P s | None \<Rightarrow> False) \<Longrightarrow> x \<noteq> None"
  by (cases x) auto

lemmas passed_unfold = passed_iff passed_result list.pred_inject fst_conv simp_thms

lemma map_of_insert_field:
  "map_of (insert_field k v d) k1 = (if k1 = k \<and> map_of d k = None then Some v else map_of d k1)"
    if "map_of d k = None"
  using that by (induction k v d rule: insert_field.induct) auto

lemma same_field:
  assumes "map_of d1 k = map_of d k"
  shows "has_address d1 k = has_address d k" "has_unsigned d1 k = has_unsigned d k" "has_boolean d1 k = has_boolean d k"
    "string_field d1 k = string_field d k"
  using assms by (simp_all add: has_address_def has_unsigned_def has_boolean_def string_field_def)

lemma validated_breakpoint:
  assumes "ValidateStructuredBreakpoint c d = Inr d1"
  shows "well_read (req_breakpoint_add env run (JObj d1) ds)"
proof -
  note a = assms [unfolded ValidateStructuredBreakpoint_def Let_def passed_unfold]
  have checks: "has_address d ''addr''" "has_unsigned d ''memPages''" "has_boolean d ''autoDelete''" "has_unsigned d ''value''"
    "contains d ''counter'' \<longrightarrow> has_unsigned d ''counter''" "string_field d ''status'' \<noteq> None"
    "string_field d ''operand'' \<noteq> None" "string_field d ''comment'' \<noteq> None"
    and d1: "(if contains d ''counter'' then d else insert_field ''counter'' (JNum 1) d) = d1"
    using a text_fields by blast+
  have cond: "string_field d ''condition'' \<noteq> None" using a some_case by blast
  have same: "map_of d1 k = map_of d k" if "k \<noteq> ''counter''" for k
    using d1 map_of_insert_field [of d "''counter''"] that by (auto simp: contains_def split: if_splits)
  have counter: "has_unsigned d1 ''counter''"
    using checks(5) d1 map_of_insert_field [of d "''counter''" "JNum 1" "''counter''"]
    by (auto simp: contains_def has_unsigned_def ReadUnsigned_def split: if_splits)
  have "has_address d1 ''addr''" "has_unsigned d1 ''memPages''" "has_boolean d1 ''autoDelete''" "has_unsigned d1 ''value''"
    "string_field d1 ''status'' \<noteq> None" "string_field d1 ''operand'' \<noteq> None" "string_field d1 ''comment'' \<noteq> None"
    "string_field d1 ''condition'' \<noteq> None"
    using checks(1-4,6-8) cond same_field [OF same] by simp_all
  then show ?thesis
    unfolding req_breakpoint_add_def read_breakpoint_def by (intro read_steps; use counter in \<open>blast intro: field_reads\<close>)
qed

lemma validated_watchpoint:
  assumes "ValidateStructuredWatchpoint c wants_id d = None"
  shows "well_read (req_watchpoint_add env run (JObj d) ds)" "wants_id \<Longrightarrow> well_read (req_watchpoint_edit env run (JObj d) ds)"
proof -
  note a = assms [unfolded ValidateStructuredWatchpoint_def Let_def passed_unfold]
  have checks: "has_unsigned d ''globalAddr''" "has_unsigned d ''len''" "has_unsigned d ''value''"
    "string_field d ''access'' \<noteq> None" "string_field d ''condition'' \<noteq> None" "string_field d ''type'' \<noteq> None"
    "has_boolean d ''active''" "string_field d ''comment'' \<noteq> None"
    using a text_fields by blast+
  have r: "succeeds (read_watchpoint i (JObj d))" for i
    unfolding read_watchpoint_def by (intro read_steps; use checks in \<open>blast intro: field_reads\<close>)
  show "well_read (req_watchpoint_add env run (JObj d) ds)"
    unfolding req_watchpoint_add_def by (simp add: well_read_reading r)
  assume wants_id
  then have "has_unsigned d ''id''" using a unfolding is_server_id_def by blast
  then show "well_read (req_watchpoint_edit env run (JObj d) ds)"
    unfolding req_watchpoint_edit_def
    by (intro read_steps) (auto simp: r read_unsigned split: prod.split bool.split)
qed

lemma validated_address:
  assumes "is_global_address d" "fld ''globalAddr'' get_word (JObj d) = Inr (g :: global_addr)"
  shows "unat g < MEMORY_GLOBAL_LEN"
proof -
  obtain v i where v: "map_of d ''globalAddr'' = Some v" "v = JNum i \<or> v = JSigned i"
    "unsigned_field d ''globalAddr'' = word_of_int i"
    using assms(1) integer_field unfolding is_global_address_def by metis
  then have g: "g = word_of_int i" using assms(2) by (auto simp: fld_def and_then_def)
  have "unat (word_of_int i :: u64) < MEMORY_GLOBAL_LEN"
    using assms(1) v(3) unfolding is_global_address_def by (simp add: word_less_nat_alt mem_consts)
  moreover have "g = ucast (word_of_int i :: u64)"
    unfolding g by (intro bit_word_eqI) (simp add: bit_unsigned_iff bit_of_int_iff)
  ultimately show ?thesis
    by (simp add: unsigned_ucast_eq le_less_trans [OF take_bit_nat_less_eq_self])
qed

lemma request_ram_inside: "unat g < MEMORY_GLOBAL_LEN \<Longrightarrow> succeeds (ram_at g ds)"
  by (simp add: ram_at_def)

lemma well_read_edits:
  assumes "is_global_address d"
  shows "well_read (req_edit_del env run (JObj d) ds)" "well_read (req_edit_get env run (JObj d) ds)"
    "well_read (req_edit_exists env run (JObj d) ds)" "well_read (req_edit_restore env run (JObj d) ds)"
proof -
  have r: "succeeds (fld ''globalAddr'' (get_word :: jval \<Rightarrow> debug_error + global_addr) (JObj d))"
    using assms field_reads unfolding is_global_address_def by blast
  note a = validated_address [OF assms]
  show "well_read (req_edit_del env run (JObj d) ds)" "well_read (req_edit_exists env run (JObj d) ds)"
    unfolding req_edit_del_def req_edit_exists_def by (intro read_steps; use r in simp)+
  show "well_read (req_edit_get env run (JObj d) ds)"
    unfolding req_edit_get_def by (rule well_read_reading [OF r]) (auto intro!: well_read_reading request_ram_inside a split: option.split)
  show "well_read (req_edit_restore env run (JObj d) ds)"
    unfolding req_edit_restore_def by (rule well_read_reading [OF r]) (auto intro!: well_read_reading request_ram_inside a split: option.split)
qed

lemma validated_edit:
  assumes "ValidateMemoryEditInput c d = None"
  shows "well_read (req_edit_add env run (JObj d) ds)"
proof -
  note a = assms [unfolded ValidateMemoryEditInput_def passed_unfold]
  have checks: "is_global_address d" "has_unsigned d ''enteredValue''" "has_boolean d ''readonly''" "has_boolean d ''active''"
    "string_field d ''comment'' \<noteq> None"
    using a text_fields by blast+
  have r: "succeeds (fld ''globalAddr'' (get_word :: jval \<Rightarrow> debug_error + global_addr) (JObj d))"
    using checks field_reads unfolding is_global_address_def by blast
  show ?thesis
    unfolding req_edit_add_def Let_def
  proof (rule well_read_reading [OF r], intro read_steps)
    fix g :: global_addr
    assume g: "fld ''globalAddr'' get_word (JObj d) = Inr g"
    show "succeeds (case GetMemoryEdit (dbg_data (fst ds)) g of Some e \<Rightarrow> Inr (originalValue e) | None \<Rightarrow> ram_at g ds)"
      using request_ram_inside [OF validated_address [OF checks(1) g], of ds] by (auto split: option.split)
  qed (use checks validated_address [OF checks(1)] in \<open>auto intro!: field_reads well_read_reading request_ram_inside\<close>)
qed

lemma added_perf_there: "AddCodePerf p x = Inr (i, y) \<Longrightarrow> GetCodePerf y i \<noteq> None"
  by (auto simp: AddCodePerf_def GetCodePerf_def Let_def update_conv' map_of_eq_None_iff dom_update split: if_splits)

lemma validated_perf:
  assumes "ValidateCodePerfInput c wants_id d = None"
  shows "well_read (req_perf_add env run (JObj d) ds)" "wants_id \<Longrightarrow> well_read (req_perf_edit env run (JObj d) ds)"
proof -
  note a = assms [unfolded ValidateCodePerfInput_def passed_unfold]
  have checks: "has_address d ''addrStart''" "has_address d ''addrEnd''" "has_boolean d ''active''" "string_field d ''name'' \<noteq> None"
    using a text_fields by blast+
  have r: "succeeds (read_code_perf env (JObj d))"
    unfolding read_code_perf_def by (intro read_steps; use checks in \<open>blast intro: field_reads\<close>)
  show "well_read (req_perf_add env run (JObj d) ds)"
    unfolding req_perf_add_def
    by (rule well_read_reading [OF r]) (auto split: sum.split option.split dest: added_perf_there)
  assume wants_id
  then have "has_unsigned d ''id''" using a unfolding is_server_id_def by blast
  then show "well_read (req_perf_edit env run (JObj d) ds)"
    unfolding req_perf_edit_def by (intro read_steps) (auto simp: r read_unsigned split: sum.split)
qed

lemma well_read_perf_id:
  assumes "has_unsigned d ''id''"
  shows "well_read (req_perf_del env run (JObj d) ds)" "well_read (req_perf_get env run (JObj d) ds)"
    "well_read (req_perf_exists env run (JObj d) ds)"
  unfolding req_perf_del_def req_perf_get_def req_perf_exists_def
  by (intro read_steps; use assms in \<open>blast intro: field_reads\<close>)+

text \<open>The path is replaced by the normalised one, and stays a string.\<close>

lemma map_of_set_field: "map_of (set_field k v d) k1 = (if k1 = k then map_option (\<lambda>_. v) (map_of d k) else map_of d k1)"
  by (induction d) (auto simp: set_field_def)

lemma validated_script_input:
  assumes "ValidateScriptInput c wants_id d = Inr d1"
  shows "succeeds (read_script_input d1)" "wants_id \<Longrightarrow> has_unsigned d1 ''scriptId''"
proof -
  note a = assms [unfolded ValidateScriptInput_def Let_def passed_unfold]
  have checks: "bounded_text d ''name'' SCRIPT_NAME_BYTES" "has_boolean d ''active''" using a by blast+
  obtain q where d1: "d1 = set_field ''path'' (JStr q) d" using a by blast
  obtain nm where nm: "map_of d ''name'' = Some (JStr nm)"
    using checks(1) by (auto simp: bounded_text_def string_field_def bind_eq_Some_conv elim!: json_string.elims split: option.splits)
  obtain b where b: "map_of d ''active'' = Some (JBool b)"
    using checks(2) by (auto simp: has_boolean_def elim!: is_boolean.elims split: option.splits)
  have "string_field d ''path'' \<noteq> None" using a some_case by blast
  then have "map_of d ''path'' \<noteq> None" by (cases "map_of d ''path''") (auto simp: string_field_def)
  then have "map_of d1 ''path'' = Some (JStr q)" "map_of d1 ''name'' = Some (JStr nm)" "map_of d1 ''active'' = Some (JBool b)"
    using nm b unfolding d1 map_of_set_field by auto
  then show "succeeds (read_script_input d1)" by (simp add: read_script_input_def)
  assume wants_id
  then have "has_unsigned d ''scriptId''" using a unfolding is_server_id_def by blast
  then show "has_unsigned d1 ''scriptId''"
    using same_field(2) [of d1 "''scriptId''" d] unfolding d1 map_of_set_field by simp
qed

lemma validated_script:
  assumes "ValidateScriptInput c wants_id d = Inr d1"
  shows "well_read (req_script_add env run (JObj d1) ds)" "wants_id \<Longrightarrow> well_read (req_script_edit env run (JObj d1) ds)"
proof -
  have r: "\<exists>x. read_script_input d1 = Inr x" using validated_script_input(1) [OF assms] by (simp add: succeeds_def)
  show "well_read (req_script_add env run (JObj d1) ds)"
    using r unfolding req_script_add_def script_answer_def
    by (auto simp: fields_of_def Scripts_Add_def Let_def split: prod.split sum.split)
  assume wants_id
  note u = validated_script_input(2) [OF assms this]
  show "well_read (req_script_edit env run (JObj d1) ds)"
    unfolding req_script_edit_def
  proof (rule well_read_reading)
    show "succeeds (fld ''scriptId'' get_int (JObj d1))" using u by (rule read_unsigned)
    fix i
    show "well_read (script_answer (Scripts_Edit (current_host env ds) i (fields_of (JObj d1)) (dbg_scripts (fst ds))) ds)"
      using r unfolding script_answer_def
      by (auto simp: fields_of_def Scripts_Edit_def FindRequired_def Let_def split: prod.split sum.split option.split)
  qed
qed

lemma well_read_script_id:
  assumes "has_unsigned d ''scriptId''"
  shows "well_read (req_script_del env run (JObj d) ds)" "well_read (req_script_compile env run (JObj d) ds)"
    "well_read (req_script_disable env run (JObj d) ds)" "well_read (req_script_run_once env run (JObj d) ds)"
proof -
  have r: "succeeds (fld ''scriptId'' get_int (JObj d))" using assms by (rule read_unsigned)
  show "well_read (req_script_del env run (JObj d) ds)"
    unfolding req_script_del_def by (rule well_read_reading [OF r]) simp
  show "well_read (req_script_compile env run (JObj d) ds)" "well_read (req_script_disable env run (JObj d) ds)"
    unfolding req_script_compile_def req_script_disable_def script_answer_def Scripts_Compile_def Scripts_Disable_def FindRequired_def
    by (rule well_read_reading [OF r], auto simp: Let_def split: option.split prod.split)+
  show "well_read (req_script_run_once env run (JObj d) ds)"
    unfolding req_script_run_once_def RunOnce_def FindRequired_def RunScript_def Scripts_Get_def
    by (rule well_read_reading [OF r]) (auto split: option.split prod.split sum.split)
qed

lemma validated_filter:
  assumes "ValidateTraceLogFilter c d = None"
  shows "well_read (req_filter env run (JObj d) ds)"
proof -
  note a = assms [unfolded ValidateTraceLogFilter_def passed_unfold list.map]
  have r: "succeeds (fld_value k get_string [] (JObj d))" if "k = ''addressPattern'' \<or> k = ''instructionPattern''" for k
  proof (cases "contains d k")
    case True
    then have "string_field d k \<noteq> None" using a that text_fields(2) by blast
    then show ?thesis by (rule read_text)
  qed (rule read_missing)
  show ?thesis
    unfolding req_filter_def by (intro read_steps r) (auto simp: well_read_trace split: option.split)
qed

lemma validated_window:
  assumes "ValidateTraceLogWindow c d = None"
  shows "well_read (req_window env run (JObj d) ds)"
proof -
  note a = assms [unfolded ValidateTraceLogWindow_def Let_def passed_unfold]
  have "has_unsigned d ''filterId''" "has_unsigned d ''start''" "has_unsigned d ''lines''" using a by blast+
  then show ?thesis
    unfolding req_window_def by (intro read_steps) (auto simp: well_read_trace read_unsigned)
qed

lemma history_fields_unsigned:
  assumes "history_fields caller d = None" "contains d k"
  shows "has_unsigned d k"
  using assms by (induction caller d rule: history_fields.induct) (auto simp: contains_def has_unsigned_def split: if_splits option.splits)

lemma validated_history:
  assumes "ValidateHistory caller d = None"
  shows "caller \<Longrightarrow> well_read (req_caller env run (JObj d) ds)" "\<not> caller \<Longrightarrow> well_read (req_successor env run (JObj d) ds)"
proof -
  have f: "history_fields caller d = None" using assms by (simp add: ValidateHistory_def split: option.splits)
  note a = assms [unfolded ValidateHistory_def f option.case passed_unfold]
  note u = history_fields_unsigned [OF f]
  have cursor: "succeeds (read_cursor (JObj d) t)" if "contains d ''callerCursor''" for t
  proof -
    have "contains d ''historyGeneration''" using a that by blast
    then show ?thesis
      using u [OF that] u [of "''historyGeneration''"] unfolding read_cursor_def
      by (intro succeeds_and_then) (auto intro: read_unsigned succeeds_and_then)
  qed
  show "well_read (req_caller env run (JObj d) ds)" if caller
  proof -
    have "contains d ''rangeStart''" "contains d ''rangeEnd''" using a that by blast+
    then show ?thesis
      unfolding req_caller_def Let_def
      by (intro well_read_reading) (auto simp: well_read_trace fields_of_def contains_def intro!: read_unsigned u well_read_reading cursor)
  qed
  show "well_read (req_successor env run (JObj d) ds)" if "\<not> caller"
    unfolding req_successor_def Let_def using a that cursor well_read_trace by (intro well_read_reading) blast+
qed

section \<open>Commands whose data is validated\<close>

definition checked_debug_commands :: "int list" where
  "checked_debug_commands =
    [Req_DEBUG_BREAKPOINT_DEL, Req_DEBUG_BREAKPOINT_GET_STATUS, Req_DEBUG_BREAKPOINT_ACTIVE, Req_DEBUG_BREAKPOINT_DISABLE,
     Req_DEBUG_BREAKPOINT_SET_STATUS, Req_DEBUG_BREAKPOINT_ADD, Req_DEBUG_WATCHPOINT_ADD, Req_DEBUG_WATCHPOINT_EDIT,
     Req_DEBUG_MEMORY_EDIT_ADD, Req_DEBUG_MEMORY_EDIT_DEL, Req_DEBUG_MEMORY_EDIT_GET, Req_DEBUG_MEMORY_EDIT_EXISTS,
     Req_DEBUG_MEMORY_EDIT_RESTORE, Req_DEBUG_CODE_PERF_ADD, Req_DEBUG_CODE_PERF_EDIT, Req_DEBUG_CODE_PERF_DEL,
     Req_DEBUG_CODE_PERF_GET, Req_DEBUG_CODE_PERF_EXISTS, Req_DEBUG_SCRIPT_ADD, Req_DEBUG_SCRIPT_EDIT, Req_DEBUG_SCRIPT_DEL,
     Req_DEBUG_SCRIPT_COMPILE, Req_DEBUG_SCRIPT_RUN_ONCE, Req_DEBUG_SCRIPT_DISABLE, Req_DEBUG_TRACE_LOG_FILTER,
     Req_DEBUG_TRACE_LOG_WINDOW, Req_DEBUG_HISTORY_CALLER, Req_DEBUG_HISTORY_SUCCESSOR]"

lemma debug_handler:
  "DebugReqHandling env Req_DEBUG_BREAKPOINT_DEL run j ds = req_breakpoint_del env run j ds"
  "DebugReqHandling env Req_DEBUG_BREAKPOINT_GET_STATUS run j ds = req_breakpoint_get_status env run j ds"
  "DebugReqHandling env Req_DEBUG_BREAKPOINT_ACTIVE run j ds = (req_breakpoint_to BP_ACTIVE) env run j ds"
  "DebugReqHandling env Req_DEBUG_BREAKPOINT_DISABLE run j ds = (req_breakpoint_to BP_DISABLED) env run j ds"
  "DebugReqHandling env Req_DEBUG_BREAKPOINT_SET_STATUS run j ds = req_breakpoint_set_status env run j ds"
  "DebugReqHandling env Req_DEBUG_BREAKPOINT_ADD run j ds = req_breakpoint_add env run j ds"
  "DebugReqHandling env Req_DEBUG_WATCHPOINT_ADD run j ds = req_watchpoint_add env run j ds"
  "DebugReqHandling env Req_DEBUG_WATCHPOINT_EDIT run j ds = req_watchpoint_edit env run j ds"
  "DebugReqHandling env Req_DEBUG_MEMORY_EDIT_ADD run j ds = req_edit_add env run j ds"
  "DebugReqHandling env Req_DEBUG_MEMORY_EDIT_DEL run j ds = req_edit_del env run j ds"
  "DebugReqHandling env Req_DEBUG_MEMORY_EDIT_GET run j ds = req_edit_get env run j ds"
  "DebugReqHandling env Req_DEBUG_MEMORY_EDIT_EXISTS run j ds = req_edit_exists env run j ds"
  "DebugReqHandling env Req_DEBUG_MEMORY_EDIT_RESTORE run j ds = req_edit_restore env run j ds"
  "DebugReqHandling env Req_DEBUG_CODE_PERF_ADD run j ds = req_perf_add env run j ds"
  "DebugReqHandling env Req_DEBUG_CODE_PERF_EDIT run j ds = req_perf_edit env run j ds"
  "DebugReqHandling env Req_DEBUG_CODE_PERF_DEL run j ds = req_perf_del env run j ds"
  "DebugReqHandling env Req_DEBUG_CODE_PERF_GET run j ds = req_perf_get env run j ds"
  "DebugReqHandling env Req_DEBUG_CODE_PERF_EXISTS run j ds = req_perf_exists env run j ds"
  "DebugReqHandling env Req_DEBUG_SCRIPT_ADD run j ds = req_script_add env run j ds"
  "DebugReqHandling env Req_DEBUG_SCRIPT_EDIT run j ds = req_script_edit env run j ds"
  "DebugReqHandling env Req_DEBUG_SCRIPT_DEL run j ds = req_script_del env run j ds"
  "DebugReqHandling env Req_DEBUG_SCRIPT_COMPILE run j ds = req_script_compile env run j ds"
  "DebugReqHandling env Req_DEBUG_SCRIPT_RUN_ONCE run j ds = req_script_run_once env run j ds"
  "DebugReqHandling env Req_DEBUG_SCRIPT_DISABLE run j ds = req_script_disable env run j ds"
  "DebugReqHandling env Req_DEBUG_TRACE_LOG_FILTER run j ds = (stopped_only req_filter) env run j ds"
  "DebugReqHandling env Req_DEBUG_TRACE_LOG_WINDOW run j ds = (stopped_only req_window) env run j ds"
  "DebugReqHandling env Req_DEBUG_HISTORY_CALLER run j ds = (stopped_only req_caller) env run j ds"
  "DebugReqHandling env Req_DEBUG_HISTORY_SUCCESSOR run j ds = (stopped_only req_successor) env run j ds"
  unfolding DebugReqHandling_def by (simp_all add: debug_handlers_def req_codes)

lemma validation:
  "ValidateData Req_DEBUG_BREAKPOINT_DEL d = keep_data (ValidateBreakpointAddress Req_DEBUG_BREAKPOINT_DEL False d) d"
  "ValidateData Req_DEBUG_BREAKPOINT_GET_STATUS d = keep_data (ValidateBreakpointAddress Req_DEBUG_BREAKPOINT_GET_STATUS False d) d"
  "ValidateData Req_DEBUG_BREAKPOINT_ACTIVE d = keep_data (ValidateBreakpointAddress Req_DEBUG_BREAKPOINT_ACTIVE False d) d"
  "ValidateData Req_DEBUG_BREAKPOINT_DISABLE d = keep_data (ValidateBreakpointAddress Req_DEBUG_BREAKPOINT_DISABLE False d) d"
  "ValidateData Req_DEBUG_BREAKPOINT_SET_STATUS d = keep_data (ValidateBreakpointAddress Req_DEBUG_BREAKPOINT_SET_STATUS True d) d"
  "ValidateData Req_DEBUG_BREAKPOINT_ADD d = ValidateStructuredBreakpoint Req_DEBUG_BREAKPOINT_ADD d"
  "ValidateData Req_DEBUG_WATCHPOINT_ADD d = keep_data (ValidateStructuredWatchpoint Req_DEBUG_WATCHPOINT_ADD False d) d"
  "ValidateData Req_DEBUG_WATCHPOINT_EDIT d = keep_data (ValidateStructuredWatchpoint Req_DEBUG_WATCHPOINT_EDIT True d) d"
  "ValidateData Req_DEBUG_MEMORY_EDIT_ADD d = keep_data (ValidateMemoryEditInput Req_DEBUG_MEMORY_EDIT_ADD d) d"
  "ValidateData Req_DEBUG_MEMORY_EDIT_DEL d = keep_data (ValidateMemoryEditAddress Req_DEBUG_MEMORY_EDIT_DEL d) d"
  "ValidateData Req_DEBUG_MEMORY_EDIT_GET d = keep_data (ValidateMemoryEditAddress Req_DEBUG_MEMORY_EDIT_GET d) d"
  "ValidateData Req_DEBUG_MEMORY_EDIT_EXISTS d = keep_data (ValidateMemoryEditAddress Req_DEBUG_MEMORY_EDIT_EXISTS d) d"
  "ValidateData Req_DEBUG_MEMORY_EDIT_RESTORE d = keep_data (ValidateMemoryEditAddress Req_DEBUG_MEMORY_EDIT_RESTORE d) d"
  "ValidateData Req_DEBUG_CODE_PERF_ADD d = keep_data (ValidateCodePerfInput Req_DEBUG_CODE_PERF_ADD False d) d"
  "ValidateData Req_DEBUG_CODE_PERF_EDIT d = keep_data (ValidateCodePerfInput Req_DEBUG_CODE_PERF_EDIT True d) d"
  "ValidateData Req_DEBUG_CODE_PERF_DEL d = keep_data (ValidateCodePerfId Req_DEBUG_CODE_PERF_DEL d) d"
  "ValidateData Req_DEBUG_CODE_PERF_GET d = keep_data (ValidateCodePerfId Req_DEBUG_CODE_PERF_GET d) d"
  "ValidateData Req_DEBUG_CODE_PERF_EXISTS d = keep_data (ValidateCodePerfId Req_DEBUG_CODE_PERF_EXISTS d) d"
  "ValidateData Req_DEBUG_SCRIPT_ADD d = ValidateScriptInput Req_DEBUG_SCRIPT_ADD False d"
  "ValidateData Req_DEBUG_SCRIPT_EDIT d = ValidateScriptInput Req_DEBUG_SCRIPT_EDIT True d"
  "ValidateData Req_DEBUG_SCRIPT_DEL d = keep_data (ValidateScriptId Req_DEBUG_SCRIPT_DEL d) d"
  "ValidateData Req_DEBUG_SCRIPT_COMPILE d = keep_data (ValidateScriptId Req_DEBUG_SCRIPT_COMPILE d) d"
  "ValidateData Req_DEBUG_SCRIPT_RUN_ONCE d = keep_data (ValidateScriptId Req_DEBUG_SCRIPT_RUN_ONCE d) d"
  "ValidateData Req_DEBUG_SCRIPT_DISABLE d = keep_data (ValidateScriptId Req_DEBUG_SCRIPT_DISABLE d) d"
  "ValidateData Req_DEBUG_TRACE_LOG_FILTER d = keep_data (ValidateTraceLogFilter Req_DEBUG_TRACE_LOG_FILTER d) d"
  "ValidateData Req_DEBUG_TRACE_LOG_WINDOW d = keep_data (ValidateTraceLogWindow Req_DEBUG_TRACE_LOG_WINDOW d) d"
  "ValidateData Req_DEBUG_HISTORY_CALLER d = keep_data (ValidateHistory True d) d"
  "ValidateData Req_DEBUG_HISTORY_SUCCESSOR d = keep_data (ValidateHistory False d) d"
  unfolding ValidateData_def by (simp_all add: req_codes)

lemma kept_data: "keep_data r d = Inr d1 \<longleftrightarrow> r = None \<and> d1 = d"
  by (auto simp: keep_data_def split: option.splits)

lemma well_read_stopped: "well_read (h env run j ds) \<Longrightarrow> well_read (stopped_only h env run j ds)"
  by (cases run) (simp_all add: stopped_only_def)

lemma validated_breakpoint_address:
  assumes "ValidateBreakpointAddress c with_status d = None"
  shows "has_address d ''addr''" "with_status \<Longrightarrow> is_one_of d ''status'' [''ACTIVE'', ''DISABLED'']"
  using assms [unfolded ValidateBreakpointAddress_def passed_unfold] by blast+

lemma validated_ids:
  "ValidateScriptId c d = None \<Longrightarrow> has_unsigned d ''scriptId''" "ValidateCodePerfId c d = None \<Longrightarrow> has_unsigned d ''id''"
  "ValidateMemoryEditAddress c d = None \<Longrightarrow> is_global_address d"
  unfolding ValidateScriptId_def ValidateCodePerfId_def ValidateMemoryEditAddress_def passed_unfold is_server_id_def by blast+

lemma checked_debug:
  assumes "ValidateData c d = Inr d1" "c \<in> set checked_debug_commands"
  shows "well_read (DebugReqHandling env c run (JObj d1) ds)"
proof -
  note v = assms(1)
  have break: ?thesis if "c \<in> {Req_DEBUG_BREAKPOINT_DEL, Req_DEBUG_BREAKPOINT_GET_STATUS, Req_DEBUG_BREAKPOINT_ACTIVE,
      Req_DEBUG_BREAKPOINT_DISABLE, Req_DEBUG_BREAKPOINT_SET_STATUS, Req_DEBUG_BREAKPOINT_ADD}"
    using that v by (auto simp: validation debug_handler kept_data
        intro!: well_read_breakpoints dest: validated_breakpoint_address validated_breakpoint)
  have watch: ?thesis if "c \<in> {Req_DEBUG_WATCHPOINT_ADD, Req_DEBUG_WATCHPOINT_EDIT}"
    using that v by (auto simp: validation debug_handler kept_data intro: validated_watchpoint)
  have edit: ?thesis if "c \<in> {Req_DEBUG_MEMORY_EDIT_ADD, Req_DEBUG_MEMORY_EDIT_DEL, Req_DEBUG_MEMORY_EDIT_GET,
      Req_DEBUG_MEMORY_EDIT_EXISTS, Req_DEBUG_MEMORY_EDIT_RESTORE}"
    using that v by (auto simp: validation debug_handler kept_data well_read_edits intro: validated_edit dest!: validated_ids)
  have perf: ?thesis if "c \<in> {Req_DEBUG_CODE_PERF_ADD, Req_DEBUG_CODE_PERF_EDIT, Req_DEBUG_CODE_PERF_DEL,
      Req_DEBUG_CODE_PERF_GET, Req_DEBUG_CODE_PERF_EXISTS}"
    using that v by (auto simp: validation debug_handler kept_data well_read_perf_id intro: validated_perf dest!: validated_ids)
  have script: ?thesis if "c \<in> {Req_DEBUG_SCRIPT_ADD, Req_DEBUG_SCRIPT_EDIT, Req_DEBUG_SCRIPT_DEL, Req_DEBUG_SCRIPT_COMPILE,
      Req_DEBUG_SCRIPT_RUN_ONCE, Req_DEBUG_SCRIPT_DISABLE}"
    using that v by (auto simp: validation debug_handler kept_data well_read_script_id intro: validated_script dest!: validated_ids)
  have trace: ?thesis if "c \<in> {Req_DEBUG_TRACE_LOG_FILTER, Req_DEBUG_TRACE_LOG_WINDOW, Req_DEBUG_HISTORY_CALLER,
      Req_DEBUG_HISTORY_SUCCESSOR}"
    using that v by (auto simp: validation debug_handler kept_data
        intro!: well_read_stopped validated_filter validated_window validated_history)
  show ?thesis
    using assms(2) break watch edit perf script trace unfolding checked_debug_commands_def by fastforce
qed

definition checked_hw_commands :: "int list" where
  "checked_hw_commands = [Req_GET_MEM, Req_GET_STACK_SAMPLE, Req_SET_IO_PALETTE_ENTRY, Req_DISMOUNT_FDD]"

definition in_range :: "request \<Rightarrow> bool" where
  "in_range r \<longleftrightarrow>
    (case r of
       Query (GET_MEM a n) \<Rightarrow> 0 < n \<and> unat a + unat n \<le> MEMORY_GLOBAL_LEN
     | Control (SET_IO_PALETTE_ENTRY i k) \<Rightarrow> i < 16
     | Control (DISMOUNT_FDD i) \<Rightarrow> 0 \<le> i \<and> i < 4
     | _ \<Rightarrow> True)"

lemma hw_readers:
  "request_of now Req_GET_MEM = reads2 (fld_const ''addr'' get_u64) (fld_const ''len'' get_u64) (\<lambda>a n. Query (GET_MEM a n))"
  "request_of now Req_GET_STACK_SAMPLE = reads (fld_const ''addr'' get_word) (\<lambda>a. Query (GET_STACK_SAMPLE a))"
  "request_of now Req_SET_IO_PALETTE_ENTRY =
    reads2 (fld_const ''index'' get_word) (fld_const ''hwColor'' get_word) (\<lambda>i c. Control (SET_IO_PALETTE_ENTRY i c))"
  "request_of now Req_DISMOUNT_FDD = reads (fld_const ''driveIdx'' get_int) (\<lambda>i. Control (DISMOUNT_FDD i))"
  "request_of now Req_GET_BYTE_RAM = reads (fld_const ''addr'' get_word) (\<lambda>a. Query (GET_BYTE_RAM a))"
  unfolding request_of_def by (intro ext; simp add: query_readers_def setting_readers_def control_readers_def req_codes)+

lemma validation_hw:
  "ValidateData Req_GET_MEM d = keep_data (ValidateGetMem d) d"
  "ValidateData Req_GET_STACK_SAMPLE d = keep_data (first_failure [(has_address d ''addr'',
     bad_request ''GET_STACK_SAMPLE requires addr in the range 0..65535'' [])]) d"
  "ValidateData Req_SET_IO_PALETTE_ENTRY d = keep_data (ValidatePaletteEntry Req_SET_IO_PALETTE_ENTRY d) d"
  "ValidateData Req_DISMOUNT_FDD d = keep_data (ValidateDismount Req_DISMOUNT_FDD d) d"
  "ValidateData Req_GET_BYTE_RAM d = Inr d"
  unfolding ValidateData_def by (simp_all add: req_codes)

text \<open>What is read for a field that was validated as an unsigned integer.\<close>

lemma const_field:
  assumes "has_unsigned d k"
  shows "fld_const k get_u64 (JObj d) = Inr (unsigned_field d k)"
    "fld_const k (get_word :: jval \<Rightarrow> debug_error + u8) (JObj d) = Inr (ucast (unsigned_field d k))"
    "fld_const k get_int (JObj d) = Inr (sint (ucast (unsigned_field d k) :: 32 word))"
proof -
  obtain v i where v: "map_of d k = Some v" "v = JNum i \<or> v = JSigned i" "unsigned_field d k = word_of_int i"
    using integer_field [OF assms] by metis
  have "ucast (word_of_int i :: u64) = (word_of_int i :: u8)" "ucast (word_of_int i :: u64) = (word_of_int i :: 32 word)"
    by (rule bit_word_eqI, simp add: bit_unsigned_iff bit_of_int_iff)+
  then show "fld_const k get_u64 (JObj d) = Inr (unsigned_field d k)"
    "fld_const k (get_word :: jval \<Rightarrow> debug_error + u8) (JObj d) = Inr (ucast (unsigned_field d k))"
    "fld_const k get_int (JObj d) = Inr (sint (ucast (unsigned_field d k) :: 32 word))"
    using v by (auto simp: fld_const_def int32_def)
qed

lemma checked_hw:
  assumes "ValidateData c d = Inr d1" "c \<in> set checked_hw_commands"
  shows "\<exists>r. request_of now c (JObj d1) = Inr r \<and> in_range r"
proof -
  note v = assms(1)
  have mem: ?thesis if c: "c = Req_GET_MEM"
  proof -
    have a: "ValidateGetMem d = None" "d1 = d" using v by (simp_all add: c validation_hw kept_data)
    have u: "has_unsigned d k" if "case map_of d k of Some x \<Rightarrow> is_unsigned x | None \<Rightarrow> False" for k
      using that by (auto simp: has_unsigned_def ReadUnsigned_def elim!: is_unsigned.elims split: option.splits)
    have b: "has_unsigned d ''addr''" "has_unsigned d ''len''" "unsigned_field d ''len'' \<noteq> 0"
      "unsigned_field d ''addr'' < of_nat MEMORY_GLOBAL_LEN"
      "unsigned_field d ''len'' \<le> of_nat MEMORY_GLOBAL_LEN - unsigned_field d ''addr''"
      using a(1) [unfolded ValidateGetMem_def Let_def passed_unfold] u by blast+
    have "unat (unsigned_field d ''addr'') + unat (unsigned_field d ''len'') \<le> MEMORY_GLOBAL_LEN"
      using b(4,5) by (simp add: word_le_nat_alt word_less_nat_alt unat_sub mem_consts)
    then show ?thesis
      using b(3) unfolding a(2) c hw_readers reads2_def const_field [OF b(1)] const_field [OF b(2)]
      by (simp add: and_then_def in_range_def word_greater_zero_iff)
  qed
  have sample: ?thesis if c: "c = Req_GET_STACK_SAMPLE"
  proof -
    have "has_unsigned d ''addr''" "d1 = d"
      using v address_unsigned by (auto simp: c validation_hw kept_data split: if_splits)
    moreover from this obtain a :: addr where "fld_const ''addr'' get_word (JObj d) = Inr a"
      using read_unsigned(7) unfolding succeeds_def by blast
    ultimately show ?thesis
      unfolding c hw_readers reads_def by (simp add: and_then_def in_range_def)
  qed
  have palette: ?thesis if c: "c = Req_SET_IO_PALETTE_ENTRY"
  proof -
    have a: "ValidatePaletteEntry Req_SET_IO_PALETTE_ENTRY d = None" "d1 = d"
      using v by (simp_all add: c validation_hw kept_data)
    have b: "has_unsigned d ''index''" "has_unsigned d ''hwColor''" "unsigned_field d ''index'' \<le> 15"
      using a(1) [unfolded ValidatePaletteEntry_def passed_unfold] by blast+
    have "(ucast (unsigned_field d ''index'') :: u8) < 16"
      using b(3) by (simp add: word_less_nat_alt word_le_nat_alt unsigned_ucast_eq take_bit_nat_eq_self)
    then show ?thesis
      unfolding a(2) c hw_readers reads2_def const_field [OF b(1)] const_field [OF b(2)]
      by (simp add: and_then_def in_range_def)
  qed
  have dismount: ?thesis if c: "c = Req_DISMOUNT_FDD"
  proof -
    have a: "ValidateDismount Req_DISMOUNT_FDD d = None" "d1 = d"
      using v by (simp_all add: c validation_hw kept_data)
    have b: "has_unsigned d ''driveIdx''" "unsigned_field d ''driveIdx'' \<le> 3"
      using a(1) [unfolded ValidateDismount_def passed_unfold] by blast+
    have "unsigned_field d ''driveIdx'' \<in> {0, 1, 2, 3}"
    proof -
      have "unat (unsigned_field d ''driveIdx'') \<in> {0, 1, 2, 3}" using b(2) by (auto simp: word_le_nat_alt)
      then show ?thesis by (auto simp: unsigned_eq_0_iff dest: arg_cong [of _ _ "\<lambda>n. of_nat n :: u64"])
    qed
    then show ?thesis
      unfolding a(2) c hw_readers reads_def const_field [OF b(1)]
      by (auto simp: and_then_def in_range_def)
  qed
  show ?thesis using assms(2) mem sample palette dismount unfolding checked_hw_commands_def by auto
qed

lemma validated_data:
  assumes "ValidateRequest request = Inr (c, d1)"
  obtains d where "ValidateData c d = Inr d1"
  using assms by (auto simp: ValidateRequest_def split: jval.splits option.splits if_splits sum.splits)

section \<open>Properties\<close>

text \<open>C5: Validated requests are read safely. Once the server has accepted a request of the debugger
  commands whose data it validates, or of the four such commands of the hardware, the code that
  handles it, written elsewhere and without checks of its own, finds every field it reads, of the
  type it converts to; no conversion is undefined, no RAM access is outside the memory, a memory range
  lies inside it, a palette index is below 16 and a drive index below 4.\<close>

theorem validated_requests_read:
  assumes "ValidateRequest request = Inr (c, d)"
  shows "(c \<in> set checked_debug_commands \<longrightarrow> well_read (DebugReqHandling env c run (JObj d) ds)) \<and>
    (c \<in> set checked_hw_commands \<longrightarrow> (\<exists>r. request_of now c (JObj d) = Inr r \<and> in_range r))"
proof -
  obtain d0 where "ValidateData c d0 = Inr d" using validated_data [OF assms] by blast
  then show ?thesis using checked_debug checked_hw by blast
qed

text \<open>A request of the other kinds is accepted without its fields and read past the end of its data.\<close>

lemma unchecked_fields:
  "ValidateRequest (JObj [(''cmd'', JNum Req_GET_BYTE_RAM)]) = Inr (Req_GET_BYTE_RAM, [])"
  "request_of now Req_GET_BYTE_RAM (JObj []) = Inl Past_the_end"
proof -
  have "ReadCommand (JNum Req_GET_BYTE_RAM) = Some Req_GET_BYTE_RAM" "IsSupportedCommand Req_GET_BYTE_RAM"
    by (simp_all add: ReadCommand_def INT_MAX_def INT_MIN_def IsSupportedCommand_def req_codes)
  then show "ValidateRequest (JObj [(''cmd'', JNum Req_GET_BYTE_RAM)]) = Inr (Req_GET_BYTE_RAM, [])"
    by (simp add: ValidateRequest_def validation_hw)
  show "request_of now Req_GET_BYTE_RAM (JObj []) = Inl Past_the_end"
    by (simp add: hw_readers reads_def fld_const_def and_then_def)
qed

definition sample_restore :: jval where
  "sample_restore = JObj [(''cmd'', JNum 100), (''data'', JObj [(''globalAddr'', JNum 7)])]"

lemma validated_requests_read_witness:
  "ValidateRequest sample_restore = Inr (100, [(''globalAddr'', JNum 7)]) \<and>
    (\<forall>(env :: (rat, nat) debug_env) ds. well_read (DebugReqHandling env 100 False (JObj [(''globalAddr'', JNum 7)]) ds))"
proof -
  have "ReadCommand (JNum 100) = Some 100" "IsSupportedCommand 100"
    by (simp_all add: ReadCommand_def INT_MAX_def INT_MIN_def IsSupportedCommand_def req_codes)
  moreover have "ValidateMemoryEditAddress 100 [(''globalAddr'', JNum 7)] = None"
    by (simp add: ValidateMemoryEditAddress_def passed_iff known_fields_def unknown_field_def is_global_address_def
        has_unsigned_def unsigned_field_def ReadUnsigned_def mem_consts)
  ultimately have v: "ValidateRequest sample_restore = Inr (100, [(''globalAddr'', JNum 7)])"
    by (simp add: sample_restore_def ValidateRequest_def ValidateData_def req_codes keep_data_def)
  have "100 \<in> set checked_debug_commands" by (simp add: checked_debug_commands_def req_codes)
  with validated_requests_read [OF v] v show ?thesis by blast
qed

end
