(* ===== verification/Server.thy ===== *)
theory Server
  imports Debug_Run Request_Json
begin

text \<open>
  The server of \<^verbatim>\<open>app/server_mode.cpp\<close>: one message in, one message out, none for an empty message,
  on top of the validation, the hardware and the debugger; and the loop that accepts clients.

  MessagePack is a parameter, two functions of the JSON library; \<open>library_text\<close> is the text of the
  library's own exceptions. \<^verbatim>\<open>GetFrame\<close> always returns the address of a buffer, so that the answers
  for a frame that is missing do not occur. The hardware thread takes a request at some later
  moment; the state \<open>h\<close> of a call is the one it is taken in.
\<close>

section \<open>Messages\<close>

record ('f, 'r, 'v) server_env =
  sv_debug :: "('r, 'v) debug_env"
  sv_float :: "'f float_ops"
  to_msgpack :: "jval \<Rightarrow> u8 list"
  from_msgpack :: "u8 list \<Rightarrow> string + jval"
  library_text :: "debug_error \<Rightarrow> string"
  sv_version :: string

type_synonym ('f, 'r, 'v) machine_state = "('f, ('r, 'v) debugger) hardware"

text \<open>The length is a \<^verbatim>\<open>uint32_t\<close>, four bytes, little-endian.\<close>

definition Encode :: "('f, 'r, 'v) server_env \<Rightarrow> jval \<Rightarrow> u8 list" where
  "Encode env j = (let bs = to_msgpack env j in le_bytes 4 (length bs) @ bs)"

section \<open>Requests of the server\<close>

text \<open>The texts of the exceptions; of the library's own as the library has them.\<close>

fun what_text :: "(debug_error \<Rightarrow> string) \<Rightarrow> debug_error \<Rightarrow> string" where
  "what_text lib (WatchpointNotFound i) = ''watchpoint id not found''"
| "what_text lib (MemoryEditNotFound g) = ''memory edit at global address '' @ to_string (uint g) @ '' does not exist''"
| "what_text lib (Perf_failed (CodePerfNotFound i)) = ''code performance record id not found''"
| "what_text lib (Perf_failed (CodePerfAddError e)) = ''code performance record cannot be added''"
| "what_text lib (Script_failed (ScriptNotFound i)) = ''script id not found''"
| "what_text lib (Script_failed (ScriptNotCompiled i)) = ''script is not compiled''"
| "what_text lib (Script_failed ScriptCapacity) = ''script cannot be added''"
| "what_text lib (Script_failed ScriptIdsExhausted) = ''script cannot be added''"
| "what_text lib (Script_failed ScriptingUnavailable) = ''Lua scripting is unavailable''"
| "what_text lib (Trace_failed (Query_error s)) = s"
| "what_text lib e = lib e"

text \<open>
  The result of \<^verbatim>\<open>Hardware::Request\<close>. The model of the hardware keeps the text of an exception;
  its type matters here, so the call of the debugger that threw it is looked at again.
\<close>

datatype thrown = By_debugger debug_error | By_hardware string
datatype req_result = Returned jval | Not_handled | Threw thrown

definition undefined_error :: "debug_error \<Rightarrow> bool" where
  "undefined_error e \<longleftrightarrow> e = Past_the_end \<or> e = Undefined_conversion"

definition sv_hooks :: "('f, 'r, 'v) server_env \<Rightarrow> ('r, 'v) debugger debug_hooks" where
  "sv_hooks env = debugger_hooks (sv_debug env) (what_text (library_text env))"

definition debugger_call ::
  "('f, 'r, 'v) server_env \<Rightarrow> request \<Rightarrow> ('f, 'r, 'v) machine_state \<Rightarrow> ('r, 'v) dbg_reply option" where
  "debugger_call env r h =
    (case (r, hw_debugger h) of
       (DEBUG_REQ c j, Some d) \<Rightarrow>
         Some (DebugReqHandling (sv_debug env) c (hw_status h = S_RUN) j (d, hw_machine h, hw_display h))
     | _ \<Rightarrow> None)"

definition result_of :: "('r, 'v) dbg_reply option \<Rightarrow> reply \<Rightarrow> req_result option" where
  "result_of call rep =
    (case call of
       Some None \<Rightarrow> None
     | _ \<Rightarrow>
        (case rep of
           Data j \<Rightarrow> Some (Returned j)
         | Unhandled \<Rightarrow> Some Not_handled
         | Raised t \<Rightarrow>
            (case call of
               Some (Some (Inl e, _)) \<Rightarrow> if undefined_error e then None else Some (Threw (By_debugger e))
             | _ \<Rightarrow> Some (Threw (By_hardware t)))))"

text \<open>
  \<open>n\<close> is the fuel of the hardware model, \<open>now\<close> the time of the session. \<^term>\<open>None\<close>: the call does not
  return, or C++ leaves open what it does. Two handlers look whether the machine runs before they
  read their data.
\<close>

definition Hw_Request ::
  "('f, 'r, 'v) server_env \<Rightarrow> nat \<Rightarrow> u64 \<Rightarrow> int \<Rightarrow> jval \<Rightarrow> ('f, 'r, 'v) machine_state \<Rightarrow>
    (req_result \<times> ('f, 'r, 'v) machine_state) option" where
  "Hw_Request env n now c j h =
    (case request_of now c j of
       Inl e \<Rightarrow>
         if hw_status h = S_RUN \<and> c = Req_SET_IO_PALETTE_ENTRY
         then Some (Threw (By_hardware ''palette mutation requires stopped hardware''), h)
         else if hw_status h = S_RUN \<and> c = Req_DISMOUNT_FDD
         then Some (Threw (By_hardware ''FDD mutation requires stopped hardware''), h)
         else if undefined_error e then None else Some (Threw (By_debugger e), h)
     | Inr r \<Rightarrow>
         Option.bind (handle_request n (sv_float env) (sv_hooks env) r h) (\<lambda>(rep, h1).
         Option.bind (result_of (debugger_call env r h) rep) (\<lambda>res. Some (res, h1))))"

section \<open>Answers\<close>

definition rejected :: "request_error \<Rightarrow> jval" where
  "rejected e =
    JObj (MakeErrorResponse (re_message e) (re_code e) @
      (if re_details e = [] then [] else [(''details'', JObj (re_details e))]))"

definition with_details :: "string \<Rightarrow> jobj \<Rightarrow> jval" where
  "with_details text ds = JObj (MakeErrorResponse text ''invalid_request'' @ [(''details'', JObj ds)])"

definition add_failure :: "bool \<Rightarrow> string" where
  "add_failure capacity = (if capacity then ''capacity'' else ''id_exhausted'')"

text \<open>The exceptions the server tells apart; the rest are dispatch errors.\<close>

fun error_reply :: "(debug_error \<Rightarrow> string) \<Rightarrow> int \<Rightarrow> thrown \<Rightarrow> jval" where
  "error_reply lib c (By_debugger (MemoryEditNotFound g)) =
    with_details (what_text lib (MemoryEditNotFound g))
      [jint ''command'' Req_DEBUG_MEMORY_EDIT_RESTORE, (''field'', JStr ''globalAddr''), jword ''globalAddr'' g]"
| "error_reply lib c (By_debugger (WatchpointNotFound i)) =
    with_details (what_text lib (WatchpointNotFound i))
      [jint ''command'' Req_DEBUG_WATCHPOINT_EDIT, (''field'', JStr ''id''), jint ''id'' i]"
| "error_reply lib c (By_debugger (Perf_failed (CodePerfNotFound i))) =
    with_details (what_text lib (Perf_failed (CodePerfNotFound i)))
      [jint ''command'' Req_DEBUG_CODE_PERF_EDIT, (''field'', JStr ''id''), jint ''id'' i]"
| "error_reply lib c (By_debugger (Perf_failed (CodePerfAddError e))) =
    with_details (what_text lib (Perf_failed (CodePerfAddError e)))
      [jint ''command'' Req_DEBUG_CODE_PERF_ADD, (''field'', JStr ''collection''), (''reason'', JStr (add_failure (e = CAPACITY)))]"
| "error_reply lib c (By_debugger (Script_failed (ScriptNotFound i))) =
    with_details (what_text lib (Script_failed (ScriptNotFound i)))
      [jint ''command'' c, (''field'', JStr ''scriptId''), jint ''scriptId'' i]"
| "error_reply lib c (By_debugger (Script_failed (ScriptNotCompiled i))) =
    with_details (what_text lib (Script_failed (ScriptNotCompiled i)))
      [jint ''command'' c, (''field'', JStr ''scriptId''), jint ''scriptId'' i, (''reason'', JStr ''not_compiled'')]"
| "error_reply lib c (By_debugger (Script_failed ScriptCapacity)) =
    with_details (what_text lib (Script_failed ScriptCapacity))
      [jint ''command'' c, (''field'', JStr ''collection''), (''reason'', JStr (add_failure True))]"
| "error_reply lib c (By_debugger (Script_failed ScriptIdsExhausted)) =
    with_details (what_text lib (Script_failed ScriptIdsExhausted))
      [jint ''command'' c, (''field'', JStr ''collection''), (''reason'', JStr (add_failure False))]"
| "error_reply lib c (By_debugger (Trace_failed (Query_error s))) =
    with_details (what_text lib (Trace_failed (Query_error s))) [jint ''command'' c]"
| "error_reply lib c (By_debugger e) = JObj (MakeErrorResponse (''dispatch error: '' @ what_text lib e) ''dispatch_error'')"
| "error_reply lib c (By_hardware t) = JObj (MakeErrorResponse (''dispatch error: '' @ t) ''dispatch_error'')"

definition result_reply :: "('f, 'r, 'v) server_env \<Rightarrow> int \<Rightarrow> req_result \<Rightarrow> jval" where
  "result_reply env c res =
    (case res of
       Returned j \<Rightarrow> MakeResponse j
     | Not_handled \<Rightarrow> JObj (MakeErrorResponse ''request failed'' ''internal_error'')
     | Threw e \<Rightarrow> error_reply (library_text env) c e)"

section \<open>Frames\<close>

text \<open>The bytes of the pixels of a region, in memory order.\<close>

definition pixel_bytes :: "(int \<Rightarrow> u32) \<times> region \<Rightarrow> u8 list" where
  "pixel_bytes f = concat (map (\<lambda>i. le_bytes 4 (unat (fst f (int i)))) [0..<nat (r_width (snd f) * r_height (snd f))])"

definition take_frame :: "bool \<Rightarrow> ('f, 'r, 'v) machine_state \<Rightarrow> ((int \<Rightarrow> u32) \<times> region) \<times> ('f, 'r, 'v) machine_state" where
  "take_frame vsync h = (let (f, d) = GetFrame vsync (hw_display h) in (f, h\<lparr>hw_display := d\<rparr>))"

definition frame_reply :: "('f, 'r, 'v) server_env \<Rightarrow> (int \<Rightarrow> u32) \<times> region \<Rightarrow> u8 list" where
  "frame_reply env f =
    Encode env (MakeResponse (JObj [jint ''width'' (r_width (snd f)), jint ''height'' (r_height (snd f)),
      (''pixels'', JBytes (pixel_bytes f))]))"

text \<open>The vector is kept between calls; every byte of it is written again.\<close>

definition raw_frame_reply :: "(int \<Rightarrow> u32) \<times> region \<Rightarrow> u8 list option" where
  "raw_frame_reply f =
    Option.bind (EncodeRawFrame (word_of_int (r_width (snd f))) (word_of_int (r_height (snd f))) (Some (pixel_bytes f))
        (nat (GetByteLen (snd f))) []) (\<lambda>(ok, msg).
      if ok then Some msg
      else map_option snd (EncodeRawFrameError INTERNAL_ERROR (map of_char ''frame encoding failed'') msg))"

section \<open>One message\<close>

text \<open>The answer, and whether the loop ends after it.\<close>

definition dispatch ::
  "('f, 'r, 'v) server_env \<Rightarrow> nat \<Rightarrow> u64 \<Rightarrow> int \<Rightarrow> jobj \<Rightarrow> ('f, 'r, 'v) machine_state \<Rightarrow>
    ((u8 list \<times> bool) \<times> ('f, 'r, 'v) machine_state) option" where
  "dispatch env n now c d h =
    (if c = CMD_PING then Some ((Encode env (MakeResponse (JObj [jbool ''pong'' True])), False), h)
     else if c = CMD_GET_SERVER_INFO then Some ((Encode env (MakeResponse (MakeServerInfo (sv_version env))), False), h)
     else if c = CMD_GET_FRAME then (let (f, h1) = take_frame True h in Some ((frame_reply env f, False), h1))
     else if c = CMD_GET_FRAME_RAW
     then (let (f, h1) = take_frame False h in map_option (\<lambda>msg. ((msg, False), h1)) (raw_frame_reply f))
     else if c = Req_EXIT
     then map_option (\<lambda>(res, h1). ((Encode env (MakeResponse (JObj [jbool ''exiting'' True])), True), h1))
       (Hw_Request env n now Req_EXIT (JObj []) h)
     else map_option (\<lambda>(res, h1). ((Encode env (result_reply env c res), False), h1)) (Hw_Request env n now c (JObj d) h))"

text \<open>
  What the loop does with a received message. An empty one is the end of the connection
  (\<^verbatim>\<open>Recv\<close> gives nothing when the client is gone, and for a message of length 0): the server
  closes it and sends nothing. Otherwise it sends one message, and the loop may end after it.
\<close>

datatype served = Hung_up | Replied "u8 list" bool

definition serve ::
  "('f, 'r, 'v) server_env \<Rightarrow> nat \<Rightarrow> u64 \<Rightarrow> u8 list \<Rightarrow> ('f, 'r, 'v) machine_state \<Rightarrow>
    (served \<times> ('f, 'r, 'v) machine_state) option" where
  "serve env n now payload h =
    (if payload = [] then Some (Hung_up, h)
     else
      (case from_msgpack env payload of
         Inl e \<Rightarrow> Some (Replied (Encode env (JObj (MakeErrorResponse (''decode error: '' @ e) ''decode_error''))) False, h)
       | Inr j \<Rightarrow>
          (case ValidateRequest j of
             Inl e \<Rightarrow> Some (Replied (Encode env (rejected e)) False, h)
           | Inr (c, d) \<Rightarrow> map_option (\<lambda>((msg, over), h1). (Replied msg over, h1)) (dispatch env n now c d h))))"

section \<open>The loop\<close>

text \<open>
  One step of the loop of \<^verbatim>\<open>RunServerMode\<close>, whatever the network does; the hardware thread runs
  on between two messages. \<open>ss_result\<close> is the value returned when the loop has ended, \<open>ss_got\<close> and
  \<open>ss_sent\<close> the messages received and handed to the transport. A reply that cannot be sent, other
  than that of a hardware request, is only noticed by the next \<^verbatim>\<open>Recv\<close>, which gives nothing.
\<close>

record ('f, 'r, 'v) session =
  ss_hw :: "('f, 'r, 'v) machine_state"
  ss_connected :: bool
  ss_result :: "int option"
  ss_got :: "u8 list list"
  ss_sent :: "u8 list list"

inductive session_step :: "('f, 'r, 'v) server_env \<Rightarrow> ('f, 'r, 'v) session \<Rightarrow> ('f, 'r, 'v) session \<Rightarrow> bool" for env where
  hardware: "thread_step (sv_float env) (sv_hooks env) (ss_hw s) h \<Longrightarrow> session_step env s (s\<lparr>ss_hw := h\<rparr>)"
| accept:
    "ss_result s = None \<Longrightarrow> \<not> ss_connected s \<Longrightarrow> Hw_Request env n now Req_INTERNAL_BEGIN_SESSION JNull (ss_hw s) = Some (res, h) \<Longrightarrow>
      session_step env s (s\<lparr>ss_hw := h, ss_connected := True\<rparr>)"
| message:
    "ss_result s = None \<Longrightarrow> ss_connected s \<Longrightarrow> serve env n now payload (ss_hw s) = Some (Replied msg over, h) \<Longrightarrow>
      session_step env s (s\<lparr>ss_hw := h, ss_got := ss_got s @ [payload], ss_sent := ss_sent s @ [msg],
        ss_result := (if over then Some 0 else None), ss_connected := \<not> over\<rparr>)"
| disconnect:
    "ss_result s = None \<Longrightarrow> ss_connected s \<Longrightarrow> serve env n now payload (ss_hw s) = Some (Hung_up, h) \<Longrightarrow>
      session_step env s (s\<lparr>ss_hw := h, ss_connected := False\<rparr>)"
| no_port: "ss_result s = None \<Longrightarrow> \<not> ss_connected s \<Longrightarrow> session_step env s (s\<lparr>ss_result := Some 1\<rparr>)"
| signal:
    "ss_result s = None \<Longrightarrow> Hw_Request env n now Req_EXIT (JObj []) (ss_hw s) = Some (res, h) \<Longrightarrow>
      session_step env s (s\<lparr>ss_hw := h, ss_connected := False, ss_result := Some 0\<rparr>)"

inductive_cases session_stepE: "session_step env s t"

section \<open>Calls of the debugger return\<close>

definition returns :: "'a option \<Rightarrow> bool" where
  "returns r \<longleftrightarrow> r \<noteq> None"

lemma answers_return [simp]:
  "returns (answer j ds)" "returns (failing e ds)" "returns (Some x)" "returns (script_answer r ds)" "returns (trace_answer r2 g ds)"
proof -
  show a: "returns (answer j ds)" "returns (failing e ds)" "returns (Some x)" for j e ds x
    by (simp_all add: returns_def answer_def failing_def del: not_None_eq)
  show "returns (script_answer r ds)" "returns (trace_answer r2 g ds)"
    by (simp_all add: script_answer_def trace_answer_def Let_def a split: sum.split)
qed

lemma reading_returns [simp]: "(\<And>a. returns (f a)) \<Longrightarrow> returns (reading x ds f)"
  by (simp add: reading_def split: sum.split)

lemma filter_items_return: "filter_items cmds d ap ip is qs \<noteq> None"
  by (induction "is" arbitrary: qs) (simp_all add: entry_passes_eq split: sum.split)

lemma CreateFilter_returns: "\<exists>r. CreateFilter cmds d ap ip t = Some r"
  using filter_items_return by (auto simp: CreateFilter_def Let_def split: option.splits sum.splits)

lemma simple_handlers_return:
  "returns (req_breakpoint_del env run j ds)" "returns (req_breakpoint_to stat env run j ds)"
  "returns (req_breakpoint_get_status env run j ds)" "returns (req_breakpoint_set_status env run j ds)"
  "returns (req_breakpoint_add env run j ds)" "returns (req_watchpoint_add env run j ds)"
  "returns (req_edit_del env run j ds)" "returns (req_edit_exists env run j ds)"
  "returns (req_perf_del env run j ds)" "returns (req_perf_get env run j ds)" "returns (req_perf_exists env run j ds)"
  "returns (req_script_add env run j ds)" "returns (req_script_edit env run j ds)" "returns (req_script_del env run j ds)"
  "returns (req_script_compile env run j ds)" "returns (req_script_disable env run j ds)"
  "returns (req_window env run j ds)" "returns (req_successor env run j ds)"
  unfolding req_breakpoint_del_def req_breakpoint_to_def req_breakpoint_get_status_def req_breakpoint_set_status_def
    req_breakpoint_add_def req_watchpoint_add_def req_edit_del_def req_edit_exists_def req_perf_del_def req_perf_get_def
    req_perf_exists_def req_script_add_def req_script_edit_def req_script_del_def req_script_compile_def req_script_disable_def
    req_window_def req_successor_def Let_def
  by simp_all

lemma other_handlers_return:
  "returns (req_watchpoint_edit env run j ds)" "returns (req_edit_add env run j ds)" "returns (req_edit_get env run j ds)"
  "returns (req_edit_restore env run j ds)" "returns (req_perf_add env run j ds)" "returns (req_perf_edit env run j ds)"
  "returns (req_caller env run j ds)"
  unfolding req_watchpoint_edit_def req_edit_add_def req_edit_get_def req_edit_restore_def req_perf_add_def req_perf_edit_def
    req_caller_def Let_def
  by (simp_all split: prod.split bool.split option.split sum.split)

lemma filter_returns: "returns (req_filter env run j ds)"
proof -
  have "returns (case CreateFilter (env_cmds env) (dbg_data (fst ds)) ap ip (dbg_trace (fst ds)) of
      None \<Rightarrow> None
    | Some (res, t) \<Rightarrow> trace_answer res (\<lambda>(fid, n). JObj [jword ''filterId'' fid, jint ''totalMatches'' (int n)])
        (on_debugger (on_trace (\<lambda>_. t)) ds))" for ap ip
    using CreateFilter_returns [of "env_cmds env" "dbg_data (fst ds)" ap ip "dbg_trace (fst ds)"] by auto
  then show ?thesis unfolding req_filter_def by (intro reading_returns)
qed

lemma run_once_returns:
  assumes "ends_on_error (env_vm env)" "finite_calls left (env_vm env)"
  shows "returns (req_script_run_once env run j ds)"
proof -
  have r: "\<exists>x. RunOnce (current_host env ds) i s = Some x" for i s
    using RunScript_returns [of "current_host env ds"] assms
    by (fastforce simp: RunOnce_def current_host_def host_of_def split: sum.split)
  have "returns (case RunOnce (current_host env ds) i s of
      None \<Rightarrow> None
    | Some (Inl e, s) \<Rightarrow> failing (Script_failed e) (with_scripts s ds)
    | Some (Inr r, s) \<Rightarrow>
       (case Scripts_Get i s of
          Inl e \<Rightarrow> Some (Inl (Script_failed e), if snd r then Some i else None, with_scripts s ds)
        | Inr sc \<Rightarrow> Some (Inr (run_once_json i r (script_updates s) sc), if snd r then Some i else None, with_scripts s ds)))" for i s
    using r [of i s] by (auto split: sum.split)
  then show ?thesis unfolding req_script_run_once_def by (intro reading_returns)
qed

lemma checked_debug_returns:
  assumes "ends_on_error (env_vm env)" "finite_calls left (env_vm env)" "c \<in> set checked_debug_commands"
  shows "returns (DebugReqHandling env c run j ds)"
  using assms(3) run_once_returns [OF assms(1,2), of run j ds] unfolding checked_debug_commands_def
  by (auto simp: debug_handler simple_handlers_return other_handlers_return filter_returns stopped_only_def)

section \<open>Commands whose data is not read\<close>

definition plain_hw_commands :: "int list" where
  "plain_hw_commands =
    [Req_IS_RUNNING, Req_GET_CC, Req_GET_STOP_RECORD, Req_GET_REGS, Req_GET_REG_PC, Req_GET_RUSLAT_HISTORY, Req_GET_IO_PALETTE,
     Req_GET_IO_PORTS, Req_GET_IO_PALETTE_COMMIT_TIME, Req_GET_DISPLAY_BORDER_LEFT, Req_GET_DISPLAY_IRQ_COMMIT_PXL,
     Req_GET_IO_DISPLAY_MODE, Req_GET_DISPLAY_DATA, Req_GET_MEMORY_MAPPING, Req_GET_MEMORY_MAPPINGS, Req_GET_FDC_INFO,
     Req_GET_STEP_OVER_ADDR, Req_GET_IO_PORTS_IN_DATA, Req_GET_IO_PORTS_OUT_DATA, Req_GET_HW_MAIN_STATS,
     Req_GET_HARDWARE_STATS, Req_IS_MEMROM_ENABLED, Req_GET_SCROLL_VERT, Req_RUN, Req_STOP, Req_RESET, Req_RESTART]"

text \<open>The debugger's, with two that read one field and throw a plain exception when it is wrong.\<close>

definition plain_debug_commands :: "int list" where
  "plain_debug_commands =
    [Req_DEBUG_BREAKPOINT_DEL_ALL, Req_DEBUG_BREAKPOINT_GET_UPDATES, Req_DEBUG_BREAKPOINT_GET_ALL,
     Req_DEBUG_WATCHPOINT_DEL_ALL, Req_DEBUG_WATCHPOINT_GET_UPDATES, Req_DEBUG_WATCHPOINT_GET_ALL,
     Req_DEBUG_MEMORY_EDIT_DEL_ALL, Req_DEBUG_MEMORY_EDIT_GET_ALL, Req_DEBUG_CODE_PERF_DEL_ALL, Req_DEBUG_CODE_PERF_GET_ALL,
     Req_DEBUG_SCRIPT_DEL_ALL, Req_DEBUG_SCRIPT_GET_ALL, Req_DEBUG_SCRIPT_GET_UPDATES, Req_DEBUG_SCRIPT_DISABLE_ALL,
     Req_DEBUG_SCRIPT_OVERLAY_GET, Req_DEBUG_RECORDER_RESET, Req_DEBUG_RECORDER_GET_STATE_RECORDED,
     Req_DEBUG_RECORDER_GET_STATE_CURRENT, Req_DEBUG_RECORDER_SERIALIZE, Req_DEBUG_RESET,
     Req_DEBUG_TRACE_LOG_SAVE_ENABLE, Req_DEBUG_TRACE_LOG_SAVE_DISABLE]"

text \<open>
  Listing a breakpoint or a watchpoint indexes the name tables with its fields; the values past
  the ends of the tables stand for names that were not recognised.
\<close>

definition named_tables :: "('r, 'v) debugger \<Rightarrow> bool" where
  "named_tables d \<longleftrightarrow>
    (\<forall>bp \<in> set (all_breakpoints (m_breakpoints (dbg_data d))). bp_cond bp \<notin> {C_INVALID, C_COUNT} \<and> operand bp \<noteq> OP_COUNT) \<and>
    (\<forall>(i, w) \<in> set (m_wps (m_watchpoints (dbg_data d))).
      wp_cond w \<notin> {C_INVALID, C_COUNT} \<and> wp_access w \<noteq> ACC_COUNT \<and> wp_type w \<noteq> WP_TYPE_COUNT)"

text \<open>A call of the debugger that returns, with no error that stands for undefined behaviour.\<close>

definition defined_reply :: "('r, 'v) dbg_reply \<Rightarrow> bool" where
  "defined_reply r \<longleftrightarrow> (case r of None \<Rightarrow> False | Some (Inl e, _) \<Rightarrow> \<not> undefined_error e | Some (Inr _, _) \<Rightarrow> True)"

lemma defined_reply_simps [simp]:
  "defined_reply (answer j ds)" "defined_reply (failing e ds) = (\<not> undefined_error e)"
  "defined_reply (changing g env run j ds)"
  by (simp_all add: defined_reply_def answer_def failing_def changing_def)

lemma reading_defined:
  "(\<And>e. x = Inl e \<Longrightarrow> \<not> undefined_error e) \<Longrightarrow> (\<And>a. defined_reply (k a)) \<Longrightarrow> defined_reply (reading x ds k)"
  by (simp add: reading_def split: sum.split)

lemma collect_error: "collect xs = Inl e \<Longrightarrow> Inl e \<in> set xs"
  by (induction xs) (auto simp: and_then_def split: sum.splits)

lemma named_condition: "c \<notin> {C_INVALID, C_COUNT} \<Longrightarrow> \<exists>s. opt_name (cond_name ConditionNames c) = Inr s"
  by (cases c) (simp_all add: opt_name_def cond_name_def cond_index_def conditions_def ConditionNames_def)

lemma named_operand: "x \<noteq> OP_COUNT \<Longrightarrow> \<exists>s. nth_name bpOperandsS (index_in operands x) = Inr s"
  by (cases x) (simp_all add: nth_name_def index_in_def operands_def bpOperandsS_def)

lemma named_access: "x \<noteq> ACC_COUNT \<Longrightarrow> \<exists>s. nth_name wpAccessS (index_in [ACC_R, ACC_W, ACC_RW] x) = Inr s"
  by (cases x) (simp_all add: nth_name_def index_in_def wpAccessS_def)

lemma named_type: "x \<noteq> WP_TYPE_COUNT \<Longrightarrow> \<exists>s. nth_name wpTypesS (index_in [WP_LEN, WP_WORD] x) = Inr s"
  by (cases x) (simp_all add: nth_name_def index_in_def wpTypesS_def)

lemma breakpoint_listed:
  "bp_cond bp \<notin> {C_INVALID, C_COUNT} \<Longrightarrow> operand bp \<noteq> OP_COUNT \<Longrightarrow> Bp_ToProtocolJson bp \<noteq> Inl e"
  using named_condition [of "bp_cond bp"] named_operand [of "operand bp"] by (auto simp: Bp_ToProtocolJson_def and_then_def)

lemma watchpoint_listed:
  "wp_cond w \<notin> {C_INVALID, C_COUNT} \<Longrightarrow> wp_access w \<noteq> ACC_COUNT \<Longrightarrow> wp_type w \<noteq> WP_TYPE_COUNT \<Longrightarrow> Wp_ToJson w \<noteq> Inl e"
  using named_condition [of "wp_cond w"] named_access [of "wp_access w"] named_type [of "wp_type w"]
  by (auto simp: Wp_ToJson_def and_then_def)

lemma lists_defined:
  assumes "named_tables (fst ds)"
  shows "defined_reply (req_breakpoint_get_all env run j ds)" "defined_reply (req_watchpoint_get_all env run j ds)"
    "defined_reply (req_edit_get_all env run j ds)"
proof -
  show "defined_reply (req_breakpoint_get_all env run j ds)"
    unfolding req_breakpoint_get_all_def
  proof (rule reading_defined)
    fix e assume "collect (map Bp_ToProtocolJson (all_breakpoints (m_breakpoints (dbg_data (fst ds))))) = Inl e"
    then obtain bp where "bp \<in> set (all_breakpoints (m_breakpoints (dbg_data (fst ds))))" "Bp_ToProtocolJson bp = Inl e"
      by (auto dest!: collect_error)
    then show "\<not> undefined_error e" using assms breakpoint_listed unfolding named_tables_def by blast
  qed simp
  show "defined_reply (req_watchpoint_get_all env run j ds)"
    unfolding req_watchpoint_get_all_def
  proof (rule reading_defined)
    let ?ws = "m_wps (m_watchpoints (dbg_data (fst ds)))"
    fix e assume "collect (map Wp_ToJson (sort_key wp_id (map snd ?ws))) = Inl e"
    then obtain i w where "(i, w) \<in> set ?ws" "Wp_ToJson w = Inl e"
      by (auto dest!: collect_error)
    then show "\<not> undefined_error e" using assms watchpoint_listed unfolding named_tables_def by blast
  qed simp
  show "defined_reply (req_edit_get_all env run j ds)"
    unfolding req_edit_get_all_def
    by (rule reading_defined)
      (auto dest!: collect_error simp: ram_at_def and_then_def undefined_error_def split: if_splits)
qed

lemma fields_defined:
  "fld k get_bool j = Inl e \<Longrightarrow> \<not> undefined_error e" "fld k get_string j = Inl e \<Longrightarrow> \<not> undefined_error e"
  by (auto simp: fld_def and_then_def undefined_error_def elim: subscript.elims get_bool.elims get_string.elims split: sum.splits)

lemma plain_debug_defined:
  assumes "c \<in> set plain_debug_commands" "named_tables (fst ds)"
  shows "defined_reply (DebugReqHandling env c run j ds)"
proof -
  have fields: "defined_reply (req_reset env run j ds)" "defined_reply (log_enable env run j ds)"
    unfolding req_reset_def log_enable_def by (rule reading_defined; simp add: fields_defined)+
  have rest: "defined_reply (req_updates g env run j ds)" "defined_reply (req_perf_get_all env run j ds)"
    "defined_reply (req_script_clear env run j ds)" "defined_reply (req_script_get_all env run j ds)"
    "defined_reply (req_script_disable_all env run j ds)" "defined_reply (req_overlay_get env run j ds)"
    "defined_reply (req_recorder_reset env run j ds)" "defined_reply (req_recorder_count n env run j ds)"
    "defined_reply (req_serialize env run j ds)" "defined_reply (log_disable env run j ds)" for g n
    by (simp_all add: req_updates_def req_perf_get_all_def req_script_clear_def req_script_get_all_def
        req_script_disable_all_def req_overlay_get_def req_recorder_reset_def req_recorder_count_def req_serialize_def
        log_disable_def case_prod_beta Let_def)
  have "list_all (\<lambda>c. case map_of debug_handlers c of None \<Rightarrow> False | Some h \<Rightarrow> defined_reply (h env run j ds)) plain_debug_commands"
    unfolding plain_debug_commands_def debug_handlers_def req_codes by (simp add: fields rest lists_defined [OF assms(2)])
  then show ?thesis using assms(1) by (auto simp: list_all_iff DebugReqHandling_def split: option.splits)
qed

section \<open>Every message is answered\<close>

lemma debug_codes_unread:
  "\<forall>c \<in> set (checked_debug_commands @ plain_debug_commands).
    c \<notin> set (map fst (query_readers now @ setting_readers @ control_readers))"
proof -
  have "map fst (query_readers now) = map fst (query_readers 0)" by (simp add: query_readers_def)
  moreover have "\<forall>c \<in> set checked_debug_commands. c \<notin> set (map fst (query_readers 0))"
    "\<forall>c \<in> set checked_debug_commands. c \<notin> set (map fst setting_readers)"
    "\<forall>c \<in> set checked_debug_commands. c \<notin> set (map fst control_readers)"
    "\<forall>c \<in> set plain_debug_commands. c \<notin> set (map fst (query_readers 0))"
    "\<forall>c \<in> set plain_debug_commands. c \<notin> set (map fst setting_readers)"
    "\<forall>c \<in> set plain_debug_commands. c \<notin> set (map fst control_readers)"
    unfolding checked_debug_commands_def plain_debug_commands_def query_readers_def setting_readers_def control_readers_def
      req_codes by simp_all
  ultimately show ?thesis by auto
qed

lemma request_of_debug:
  assumes "c \<in> set (checked_debug_commands @ plain_debug_commands)"
  shows "request_of now c j = Inr (DEBUG_REQ c j)"
proof -
  have "c \<notin> set (map fst (query_readers now @ setting_readers @ control_readers))"
    using debug_codes_unread assms by blast
  then have "map_of (query_readers now @ setting_readers @ control_readers) c = None"
    by (simp only: map_of_eq_None_iff set_map not_False_eq_True)
  then show ?thesis by (simp only: request_of_def option.case)
qed

lemma request_of_plain:
  assumes "c \<in> set plain_hw_commands"
  shows "\<exists>r. request_of now c j = Inr r \<and> ((\<exists>q. r = Query q) \<or> (\<exists>k. r = Control k) \<or> (\<exists>s. r = Setting s))"
proof -
  have "list_all (\<lambda>c. \<exists>r. request_of now c j = Inr r \<and>
      ((\<exists>q. r = Query q) \<or> (\<exists>k. r = Control k) \<or> (\<exists>s. r = Setting s))) plain_hw_commands"
    unfolding plain_hw_commands_def request_of_def query_readers_def setting_readers_def control_readers_def req_codes
    by (simp add: takes_def)
  then show ?thesis using assms by (simp only: list_all_iff)
qed

lemma request_of_exit: "request_of now Req_EXIT j = Inr (Setting EXIT)"
  by (simp add: request_of_def query_readers_def setting_readers_def control_readers_def req_codes takes_def)

lemma request_of_hw:
  "c \<in> set checked_hw_commands \<Longrightarrow> request_of now c j = Inr r \<Longrightarrow> (\<exists>q. r = Query q) \<or> (\<exists>k. r = Control k)"
  unfolding checked_hw_commands_def
  by (auto simp: hw_readers reads_def reads2_def and_then_def split: sum.splits)

lemma length_pixel_bytes: "length (pixel_bytes f) = nat (r_width (snd f) * r_height (snd f)) * 4"
  by (simp add: pixel_bytes_def length_concat o_def sum_list_triv)

lemma region_size: "r_width (frame_mode_regions m) * r_height (frame_mode_regions m) \<in> {0..<1000000}"
  by (cases m) (simp_all add: raster_consts BORDER_VISIBLE_def)

lemma raw_frame_encodes:
  assumes "take_frame vsync h = (f, h1)"
  shows "\<exists>msg. raw_frame_reply f = Some msg"
proof -
  have "snd f = frame_mode_regions (m_frameMode (hw_display h))"
    using assms by (auto simp: take_frame_def GetFrame_def Let_def)
  then have b: "r_width (snd f) * r_height (snd f) \<in> {0..<1000000}" using region_size by simp
  then have n: "nat (GetByteLen (snd f)) = length (pixel_bytes f)"
    unfolding GetByteLen_def length_pixel_bytes by (simp add: nat_mult_distrib)
  have "length (pixel_bytes f) < 4000000" using b unfolding length_pixel_bytes by auto
  then have "length (pixel_bytes f) + 20 < 2 ^ 32" by simp
  from MakeMessage_eq [OF this] show ?thesis
    unfolding raw_frame_reply_def n EncodeRawFrame_def by simp
qed

lemma well_read_defined: "well_read (Some (Inl e, s, ds)) \<Longrightarrow> \<not> undefined_error e"
  by (auto simp: undefined_error_def reading_error_def)

lemma well_read_calm: "returns r \<Longrightarrow> well_read r \<Longrightarrow> defined_reply r"
  using well_read_defined by (auto simp: defined_reply_def returns_def split: option.split sum.split)

lemma result_of_defined:
  assumes "defined_reply call"
  shows "\<exists>res. result_of (Some call) rep = Some res"
  using assms by (auto simp: defined_reply_def result_of_def split: option.splits sum.splits reply.split)

lemma debug_command_returns:
  assumes c: "c \<in> set (checked_debug_commands @ plain_debug_commands)"
    and d: "\<And>dbg. hw_debugger h = Some dbg \<Longrightarrow>
      defined_reply (DebugReqHandling (sv_debug env) c (hw_status h = S_RUN) j (dbg, hw_machine h, hw_display h))"
  shows "\<exists>res h1. Hw_Request env (Suc n) now c j h = Some (res, h1)"
proof -
  let ?r = "DEBUG_REQ c j"
  obtain rep h1 where h: "handle_request (Suc n) (sv_float env) (sv_hooks env) ?r h = Some (rep, h1)"
    by (cases "delegate (sv_hooks env) ?r h") auto
  have "\<exists>res. result_of (debugger_call env ?r h) rep = Some res"
  proof (cases "hw_debugger h")
    case None
    then show ?thesis by (simp add: debugger_call_def result_of_def split: reply.split)
  next
    case (Some dbg)
    then show ?thesis using result_of_defined [OF d [OF Some]] by (simp add: debugger_call_def)
  qed
  then obtain res where "result_of (debugger_call env ?r h) rep = Some res" by blast
  then have "Hw_Request env (Suc n) now c j h = Some (res, h1)"
    unfolding Hw_Request_def request_of_debug [OF c] sum.case h by simp
  then show ?thesis by blast
qed

text \<open>The commands covered, besides those of the server itself.\<close>

definition answered_commands :: "int list" where
  "answered_commands = checked_debug_commands @ checked_hw_commands @ plain_hw_commands @ plain_debug_commands"

lemma Hw_Request_returns:
  assumes vm: "ends_on_error (env_vm (sv_debug env))" "finite_calls left (env_vm (sv_debug env))"
    and v: "ValidateData c d0 = Inr d" and c: "c \<in> set answered_commands"
    and t: "\<And>dbg. hw_debugger h = Some dbg \<Longrightarrow> named_tables dbg"
  shows "\<exists>res h1. Hw_Request env (Suc n) now c (JObj d) h = Some (res, h1)"
proof -
  consider (hw) r where "request_of now c (JObj d) = Inr r" "(\<exists>q. r = Query q) \<or> (\<exists>k. r = Control k) \<or> (\<exists>s. r = Setting s)"
    | (checked) "c \<in> set checked_debug_commands" | (plain) "c \<in> set plain_debug_commands"
    using c checked_hw [OF v] request_of_hw request_of_plain [of c now "JObj d"]
    unfolding answered_commands_def by (metis Un_iff set_append)
  then show ?thesis
  proof cases
    case hw
    then have q: "debugger_call env r h = None" "\<exists>x. handle_request (Suc n) (sv_float env) (sv_hooks env) r h = Some x"
      by (auto simp: debugger_call_def)
    then show ?thesis
      by (auto simp: Hw_Request_def hw(1) result_of_def split: reply.split)
  next
    case checked
    then show ?thesis
      using checked_debug_returns [OF vm] checked_debug [OF v] by (intro debug_command_returns well_read_calm) auto
  next
    case plain
    then show ?thesis using t by (intro debug_command_returns plain_debug_defined) auto
  qed
qed

definition accepted :: "('f, 'r, 'v) server_env \<Rightarrow> u8 list \<Rightarrow> (int \<times> jobj) option" where
  "accepted env payload =
    (case from_msgpack env payload of Inl e \<Rightarrow> None
     | Inr j \<Rightarrow> (case ValidateRequest j of Inl e \<Rightarrow> None | Inr cd \<Rightarrow> Some cd))"

definition pseudo_commands :: "int list" where
  "pseudo_commands = [CMD_PING, CMD_GET_SERVER_INFO, CMD_GET_FRAME, CMD_GET_FRAME_RAW]"

lemma answers_accepted:
  assumes "ends_on_error (env_vm (sv_debug env))" "finite_calls left (env_vm (sv_debug env))"
    and "ValidateData c d0 = Inr d" "c \<in> set (Req_EXIT # pseudo_commands @ answered_commands)"
    and "\<And>dbg. hw_debugger h = Some dbg \<Longrightarrow> named_tables dbg"
  shows "\<exists>msg over h1. dispatch env (Suc n) now c d h = Some ((msg, over), h1) \<and>
    (over \<longleftrightarrow> c = Req_EXIT) \<and> (over \<longrightarrow> hw_status h1 = S_EXIT)"
proof (cases "c \<in> set pseudo_commands")
  case True
  have codes: "c \<noteq> Req_EXIT" using True by (auto simp: pseudo_commands_def CMD_PING_def CMD_GET_SERVER_INFO_def
        CMD_GET_FRAME_def CMD_GET_FRAME_RAW_def Req_EXIT_def)
  obtain f h1 where f: "take_frame False h = (f, h1)" by (metis surj_pair)
  obtain msg where "raw_frame_reply f = Some msg" using raw_frame_encodes [OF f] by blast
  then show ?thesis
    using True codes f unfolding dispatch_def pseudo_commands_def by (auto split: prod.split)
next
  case False
  then have np: "c \<noteq> CMD_PING" "c \<noteq> CMD_GET_SERVER_INFO" "c \<noteq> CMD_GET_FRAME" "c \<noteq> CMD_GET_FRAME_RAW"
    by (auto simp: pseudo_commands_def)
  show ?thesis
  proof (cases "c = Req_EXIT")
    case True
    have "Hw_Request env (Suc n) now Req_EXIT (JObj []) h = Some (Returned JNull, h\<lparr>hw_status := S_EXIT\<rparr>)"
      by (simp add: Hw_Request_def request_of_exit setting_reply_def set_request_def debugger_call_def result_of_def)
    then show ?thesis using True np by (auto simp: dispatch_def)
  next
    case False
    then have "c \<in> set answered_commands" using assms(4) np by (auto simp: pseudo_commands_def)
    then obtain res h1 where "Hw_Request env (Suc n) now c (JObj d) h = Some (res, h1)"
      using Hw_Request_returns [OF assms(1-3) _ assms(5)] by blast
    then show ?thesis using False np by (auto simp: dispatch_def)
  qed
qed

text \<open>What the server has been sent and what it has sent correspond, message by message.\<close>

definition answers_to :: "('f, 'r, 'v) server_env \<Rightarrow> u8 list \<Rightarrow> u8 list \<Rightarrow> bool" where
  "answers_to env payload msg \<longleftrightarrow> (\<exists>n now h over h1. serve env n now payload h = Some (Replied msg over, h1))"

lemma answers_toI: "serve env n now payload h = Some (Replied msg over, h1) \<Longrightarrow> answers_to env payload msg"
  unfolding answers_to_def by blast

lemma session_answers:
  assumes "session_step env s t" "list_all2 (answers_to env) (ss_got s) (ss_sent s)" "ss_result s \<noteq> None \<longrightarrow> \<not> ss_connected s"
  shows "list_all2 (answers_to env) (ss_got t) (ss_sent t)" "ss_result t \<noteq> None \<longrightarrow> \<not> ss_connected t"
    "ss_result s = Some i \<longrightarrow> ss_result t = Some i \<and> ss_sent t = ss_sent s"
  using assms by (auto elim!: session_stepE intro!: list_all2_appendI intro: answers_toI)

lemma session_run_answers:
  assumes "(session_step env)\<^sup>*\<^sup>* s t" "ss_got s = []" "ss_sent s = []" "ss_result s = None"
  shows "list_all2 (answers_to env) (ss_got t) (ss_sent t)" "ss_result t \<noteq> None \<longrightarrow> \<not> ss_connected t"
  using assms by (induction rule: rtranclp_induct) (auto dest: session_answers)

section \<open>Properties\<close>

text \<open>C3: The server always answers. Whatever bytes arrive, in whatever state the machine is: an empty
  message ends the connection, without a reply and without a change; any other message, undecodable and
  invalid ones included, gets exactly one reply. Among the accepted commands this covers those of the
  server itself, all whose data is validated and all that read none: no call into the hardware or the
  debugger hangs or runs into behaviour that C++ leaves open, if the scripts end on an error and do not
  call functions for ever, and if the stored breakpoints and watchpoints have named conditions,
  operands, accesses and types. Left out are the commands that execute (EXECUTE_INSTR, the frames,
  RUN_HEADLESS), those that play or load a recording, and those hardware commands whose fields are
  read without having been validated. The server stops only for a valid EXIT, which stops the machine
  too, and a message that is not accepted changes nothing.\<close>

theorem every_message_answered:
  assumes "ends_on_error (env_vm (sv_debug env))" "finite_calls left (env_vm (sv_debug env))"
    and "\<forall>c d. accepted env payload = Some (c, d) \<longrightarrow> c \<in> set (Req_EXIT # pseudo_commands @ answered_commands)"
    and "\<forall>d. hw_debugger h = Some d \<longrightarrow> named_tables d"
  shows "if payload = [] then serve env (Suc n) now payload h = Some (Hung_up, h)
    else \<exists>msg over h1. serve env (Suc n) now payload h = Some (Replied msg over, h1) \<and>
      (over \<longleftrightarrow> (\<exists>d. accepted env payload = Some (Req_EXIT, d))) \<and> (over \<longrightarrow> hw_status h1 = S_EXIT) \<and>
      (accepted env payload = None \<longrightarrow> h1 = h)"
proof (cases "accepted env payload")
  case None
  then show ?thesis by (auto simp: serve_def accepted_def split: sum.splits)
next
  case (Some cd)
  obtain c d where cd: "cd = (c, d)" by fastforce
  with Some obtain j where j: "from_msgpack env payload = Inr j" "ValidateRequest j = Inr (c, d)"
    by (auto simp: accepted_def split: sum.splits)
  then obtain d0 where d0: "ValidateData c d0 = Inr d" using validated_data by blast
  have "c \<in> set (Req_EXIT # pseudo_commands @ answered_commands)"
    using assms(3) Some cd by blast
  from answers_accepted [OF assms(1,2) d0 this, of h n now] assms(4) obtain msg over h1 where
    "dispatch env (Suc n) now c d h = Some ((msg, over), h1)" "over \<longleftrightarrow> c = Req_EXIT" "over \<longrightarrow> hw_status h1 = S_EXIT"
    by blast
  then show ?thesis using Some cd by (auto simp: serve_def j)
qed

definition sample_server :: "(int, rat, nat) server_env" where
  "sample_server =
    \<lparr>sv_debug = sample_env, sv_float = int_ops, to_msgpack = \<lambda>j. [0xc0],
     from_msgpack = \<lambda>bs. (if bs = [0x81] then Inr (JObj [(''cmd'', JNum Req_EXIT)]) else Inl ''parse error''),
     library_text = \<lambda>e. ''json'', sv_version = ''1.0''\<rparr>"

lemma plain_tables: "named_tables plain_debugger"
  by (simp add: named_tables_def plain_parts Bp_new_def Wp_new_def all_breakpoints_def map_filter_def)

theorem every_message_answered_witness:
  "(\<exists>msg h1. serve sample_server 1 0 [0x81] (attached plain_debugger) = Some (Replied msg True, h1) \<and> hw_status h1 = S_EXIT) \<and>
    (\<exists>msg. serve sample_server 1 0 [0x82] (attached plain_debugger) = Some (Replied msg False, attached plain_debugger)) \<and>
    serve sample_server 1 0 [] (attached plain_debugger) = Some (Hung_up, attached plain_debugger)"
proof -
  have vm: "ends_on_error (env_vm (sv_debug sample_server))" "finite_calls (\<lambda>v. 0) (env_vm (sv_debug sample_server))"
    using sample_vm by (simp_all add: sample_server_def)
  have t: "\<forall>d. hw_debugger (attached plain_debugger) = Some d \<longrightarrow> named_tables d"
    by (simp add: attached_def plain_tables)
  have "ReadCommand (JNum Req_EXIT) = Some Req_EXIT" "IsSupportedCommand Req_EXIT"
    by (simp_all add: ReadCommand_def INT_MAX_def INT_MIN_def IsSupportedCommand_def req_codes)
  moreover have "ValidateData Req_EXIT [] = Inr []" unfolding ValidateData_def by (simp add: req_codes)
  ultimately have e: "accepted sample_server [0x81] = Some (Req_EXIT, [])" "accepted sample_server [0x82] = None"
    "accepted sample_server [] = None"
    by (simp_all add: accepted_def sample_server_def ValidateRequest_def)
  show ?thesis
    using every_message_answered [OF vm _ t, of "[0x81]" 0 0] every_message_answered [OF vm _ t, of "[0x82]" 0 0]
      every_message_answered [OF vm _ t, of "[]" 0 0] e by auto
qed

end
