(* ===== verification/Command_Line.thy ===== *)
theory Command_Line
  imports Ipc_Request
begin

text \<open>
  The command line (\<^verbatim>\<open>utils/args_parser.cpp\<close>): options with one or two dashes, each with the next
  argument as its value unless that starts with a dash; the typed reads with their help text; the
  check for options nobody asked about. What is printed is a list of console lines.

  An option written out is read back, decimal and hexadecimal numbers included. A number that
  starts with a zero is octal.
\<close>

section \<open>Numbers\<close>

text \<open>\<^verbatim>\<open>strtol\<close> in base 0, as C17 has it: the prefix of the number tells its base; 64 bits, clamped.\<close>

definition in_base :: "nat \<Rightarrow> char \<Rightarrow> bool" where
  "in_base b c = (case digit_value c of Some d \<Rightarrow> d < b | None \<Rightarrow> False)"

definition base_value :: "nat \<Rightarrow> string \<Rightarrow> nat" where
  "base_value b s = foldl (\<lambda>n c. b * n + the (digit_value c)) 0 s"

definition strtol0 :: "string \<Rightarrow> int" where
  "strtol0 s =
    (let (neg, s1) = read_sign (dropWhile is_space s);
         (b, s2) = (if skip_0x s1 \<noteq> s1 then (16, skip_0x s1) else if take 1 s1 = ''0'' then (8, s1) else (10, s1));
         n = int (base_value b (takeWhile (in_base b) s2))
     in max (- (2 ^ 63)) (min (2 ^ 63 - 1) (if neg then - n else n)))"

section \<open>The parser\<close>

datatype console_line = Out string | Err string

text \<open>\<open>m_args\<close> is a \<^verbatim>\<open>std::map\<close>, in the order of its keys; \<open>printed\<close> is what went to the console.\<close>

record args_parser =
  m_args :: "(string \<times> string) list"
  m_knownArgs :: "string list"
  m_positional :: "string list"
  m_help :: string
  m_requirementSatisfied :: bool
  printed :: "console_line list"

datatype arg_type = ARG_INT | ARG_DOUBLE | ARG_STRING

fun ArgTypeStr :: "arg_type \<Rightarrow> string" where
  "ArgTypeStr ARG_INT = ''int''"
| "ArgTypeStr ARG_DOUBLE = ''double''"
| "ArgTypeStr ARG_STRING = ''string''"

abbreviation newline :: string where "newline \<equiv> [CHR 0x0A]"
abbreviation tab :: string where "tab \<equiv> [CHR 0x09]"
abbreviation quote :: string where "quote \<equiv> [CHR 0x22]"

definition AddDescriptionToHelp :: "string \<Rightarrow> args_parser \<Rightarrow> args_parser" where
  "AddDescriptionToHelp description p =
    p\<lparr>m_help := m_help p @ ''Help:'' @ newline @ ''Description:'' @ newline @ description @ newline @ newline @
      ''format: -paramName <value> or -h, -help to show this guide.'' @ newline @ ''Parameters:'' @ newline\<rparr>"

lemma AddDescriptionToHelp_sel [simp]:
  "m_args (AddDescriptionToHelp t p) = m_args p" "m_positional (AddDescriptionToHelp t p) = m_positional p"
  by (simp_all add: AddDescriptionToHelp_def)

text \<open>\<^verbatim>\<open>std::map::emplace\<close> keeps a value that is there.\<close>

fun emplace :: "string \<Rightarrow> string \<Rightarrow> (string \<times> string) list \<Rightarrow> (string \<times> string) list" where
  "emplace k v [] = [(k, v)]"
| "emplace k v ((k1, v1) # m) =
    (if k = k1 then (k1, v1) # m else if k < k1 then (k, v) # (k1, v1) # m else (k1, v1) # emplace k v m)"

definition param_name :: "string \<Rightarrow> string" where
  "param_name a = (let s = tl a in if take 1 s = ''-'' then tl s else s)"

definition add_arg :: "string \<Rightarrow> string \<Rightarrow> args_parser \<Rightarrow> args_parser" where
  "add_arg k v p = p\<lparr>m_args := emplace k v (m_args p)\<rparr>"

fun parse_args :: "string list \<Rightarrow> args_parser \<Rightarrow> args_parser" where
  "parse_args [] p = p"
| "parse_args [a] p =
    (if take 1 a = ''-'' then add_arg (param_name a) [] p else p\<lparr>m_positional := m_positional p @ [a]\<rparr>)"
| "parse_args (a # b # rest) p =
    (if take 1 a = ''-''
     then if take 1 b \<noteq> ''-'' then parse_args rest (add_arg (param_name a) b p)
          else parse_args (b # rest) (add_arg (param_name a) [] p)
     else parse_args (b # rest) (p\<lparr>m_positional := m_positional p @ [a]\<rparr>))"

definition ArgsParser :: "string list \<Rightarrow> string \<Rightarrow> args_parser" where
  "ArgsParser argv description =
    parse_args (tl argv) (AddDescriptionToHelp description
      \<lparr>m_args = [], m_knownArgs = [], m_positional = [], m_help = [], m_requirementSatisfied = True, printed = []\<rparr>)"

section \<open>Reading options\<close>

definition RequirementMsg :: "string \<Rightarrow> args_parser \<Rightarrow> args_parser" where
  "RequirementMsg arg p =
    p\<lparr>printed := printed p @ [Out (''Required parameter '' @ quote @ arg @ quote @ '' or its value was not provided.'' @ newline)],
      m_requirementSatisfied := False\<rparr>"

definition AddParamToHelp :: "string \<Rightarrow> arg_type \<Rightarrow> bool \<Rightarrow> string \<Rightarrow> string \<Rightarrow> args_parser \<Rightarrow> args_parser" where
  "AddParamToHelp arg ty required defaultStr help p =
    p\<lparr>m_help := m_help p @ ''-'' @ arg @ '' '' @ newline @ tab @ ''type: '' @ ArgTypeStr ty @ '', required: '' @
      (if required then ''true'' else ''false'') @ '', default: '' @ (if required then ''no default'' else defaultStr) @
      newline @ tab @ help @ newline @ newline\<rparr>"

definition know :: "string \<Rightarrow> args_parser \<Rightarrow> args_parser" where
  "know arg p = p\<lparr>m_knownArgs := List.insert arg (m_knownArgs p)\<rparr>"

text \<open>The value of an option; an empty one counts as missing.\<close>

definition given :: "string \<Rightarrow> bool \<Rightarrow> args_parser \<Rightarrow> string option \<times> args_parser" where
  "given arg required p =
    (case map_of (m_args p) arg of
       Some (c # cs) \<Rightarrow> (Some (c # cs), p)
     | _ \<Rightarrow> (None, if required then RequirementMsg arg p else p))"

definition GetString :: "string \<Rightarrow> string \<Rightarrow> bool \<Rightarrow> string \<Rightarrow> args_parser \<Rightarrow> string \<times> args_parser" where
  "GetString arg help required defaultV p =
    (let (v, p1) = given arg required (AddParamToHelp arg ARG_STRING required defaultV help (know arg p))
     in (case v of Some s \<Rightarrow> s | None \<Rightarrow> defaultV, p1))"

text \<open>\<^verbatim>\<open>strtod\<close> and the text of a \<^verbatim>\<open>double\<close> are arguments.\<close>

definition GetDouble ::
  "(string \<Rightarrow> 'd) \<Rightarrow> ('d \<Rightarrow> string) \<Rightarrow> string \<Rightarrow> string \<Rightarrow> bool \<Rightarrow> 'd \<Rightarrow> args_parser \<Rightarrow> 'd \<times> args_parser" where
  "GetDouble strtod text_of arg help required defaultV p =
    (let (v, p1) = given arg required (AddParamToHelp arg ARG_DOUBLE required (text_of defaultV) help (know arg p))
     in (case v of Some s \<Rightarrow> strtod s | None \<Rightarrow> defaultV, p1))"

definition GetInt :: "string \<Rightarrow> string \<Rightarrow> bool \<Rightarrow> int \<Rightarrow> args_parser \<Rightarrow> int \<times> args_parser" where
  "GetInt arg help required defaultV p =
    (let (v, p1) = given arg required (AddParamToHelp arg ARG_INT required (to_string defaultV) help (know arg p))
     in (case v of Some s \<Rightarrow> int32 (strtol0 s) | None \<Rightarrow> defaultV, p1))"

definition HasFlag :: "string \<Rightarrow> string \<Rightarrow> args_parser \<Rightarrow> bool \<times> args_parser" where
  "HasFlag arg help p =
    (let p1 = know arg p;
         p2 = (if help = [] then p1
               else p1\<lparr>m_help := m_help p1 @ ''--'' @ arg @ '' '' @ newline @ tab @ ''type: flag'' @ newline @ tab @ help @
                 newline @ newline\<rparr>)
     in (map_of (m_args p2) arg \<noteq> None, p2))"

definition show_help :: "args_parser \<Rightarrow> args_parser" where
  "show_help p = p\<lparr>printed := printed p @ [Out (newline @ m_help p @ newline)]\<rparr>"

definition PrintHelp :: "args_parser \<Rightarrow> args_parser" where
  "PrintHelp p =
    (if map_of (m_args p) ''help'' = None \<and> map_of (m_args p) ''h'' = None \<and> m_args p \<noteq> [] \<and> m_requirementSatisfied p
     then p else show_help p)"

definition IsRequirementSatisfied :: "args_parser \<Rightarrow> bool \<times> args_parser" where
  "IsRequirementSatisfied p = (m_requirementSatisfied p, PrintHelp p)"

definition unknown_args :: "args_parser \<Rightarrow> string list" where
  "unknown_args p = filter (\<lambda>k. k \<noteq> ''h'' \<and> k \<noteq> ''help'' \<and> k \<notin> set (m_knownArgs p)) (map fst (m_args p))"

definition CheckUnknownArgs :: "args_parser \<Rightarrow> bool \<times> args_parser" where
  "CheckUnknownArgs p =
    (let p1 = p\<lparr>printed := printed p @ map (\<lambda>k. Err (''Error: unknown argument: --'' @ k @ newline)) (unknown_args p) @
           map (\<lambda>a. Err (''Error: unsupported argument: '' @ a @ newline)) (m_positional p)\<rparr>;
         allKnown = (unknown_args p = [] \<and> m_positional p = [])
     in (allKnown, if allKnown then p1 else show_help p1))"

section \<open>Reading back what was written\<close>

text \<open>A command line written out: every option with two dashes and its value, if it has one.\<close>

fun written :: "(string \<times> string option) list \<Rightarrow> string list" where
  "written [] = []"
| "written ((k, None) # os) = (''--'' @ k) # written os"
| "written ((k, Some v) # os) = (''--'' @ k) # v # written os"

definition writable :: "(string \<times> string option) list \<Rightarrow> bool" where
  "writable os \<longleftrightarrow> distinct (map fst os) \<and> (\<forall>(k, v) \<in> set os. \<forall>s. v = Some s \<longrightarrow> s \<noteq> [] \<and> hd s \<noteq> CHR ''-'')"

definition value_text :: "string option \<Rightarrow> string" where
  "value_text v = (case v of Some s \<Rightarrow> s | None \<Rightarrow> [])"

lemma map_of_emplace: "map_of (emplace k v m) x = (if x = k \<and> map_of m k = None then Some v else map_of m x)"
  if "sorted (map fst m)"
  using that
proof (induction k v m rule: emplace.induct)
  case (2 k v k1 v1 m)
  have "map_of m k = None" if "k < k1"
    using 2(2) that by (force simp: map_of_eq_None_iff)
  then show ?case using 2 by auto
qed auto

lemma emplace_keys: "fst ` set (emplace k v m) \<subseteq> insert k (fst ` set m)"
  by (induction k v m rule: emplace.induct) auto

lemma emplace_sorted: "sorted (map fst m) \<Longrightarrow> sorted (map fst (emplace k v m))"
proof (induction k v m rule: emplace.induct)
  case (2 k v k1 v1 m)
  have "k1 \<le> x" if "x \<in> fst ` set (emplace k v m)" "k1 < k" for x
    using 2(2) that emplace_keys [of k v m] by (auto dest!: subsetD)
  then show ?case using 2 by (auto simp: not_less)
qed simp

lemma param_name_dashes [simp]: "param_name (CHR ''-'' # CHR ''-'' # k) = k"
  by (simp add: param_name_def)

lemma parse_written:
  assumes "writable os" "sorted (map fst (m_args p))" "\<forall>k \<in> fst ` set os. map_of (m_args p) k = None"
  shows "(\<forall>k. map_of (m_args (parse_args (written os) p)) k =
      (case map_of os k of Some v \<Rightarrow> Some (value_text v) | None \<Rightarrow> map_of (m_args p) k)) \<and>
    m_positional (parse_args (written os) p) = m_positional p"
  using assms
proof (induction os arbitrary: p)
  case (Cons kv os)
  obtain k v where kv: "kv = (k, v)" by force
  let ?q = "add_arg k (value_text v) p"
  have n: "map_of (m_args p) k = None" "k \<notin> fst ` set os"
    using Cons.prems by (auto simp: kv writable_def)
  have q: "sorted (map fst (m_args ?q))" "map_of (m_args ?q) x = (if x = k then Some (value_text v) else map_of (m_args p) x)"
    "m_positional ?q = m_positional p" for x
    using Cons.prems(2) n by (auto simp: add_arg_def emplace_sorted map_of_emplace split del: if_split)
  have "writable os" "\<forall>k \<in> fst ` set os. map_of (m_args ?q) k = None"
    using Cons.prems n q(2) by (auto simp: kv writable_def)
  note IH = Cons.IH [OF this(1) q(1) this(2)]
  have "parse_args (written (kv # os)) p = parse_args (written os) ?q"
  proof (cases v)
    case None
    show ?thesis
    proof (cases os)
      case (Cons kv1 os1)
      then obtain b rest where "written os = (''--'' @ b) # rest" by (cases kv1; cases "snd kv1") auto
      then show ?thesis by (simp add: kv None value_text_def)
    qed (simp add: kv None value_text_def)
  next
    case (Some s)
    then have "take 1 s \<noteq> ''-''" using Cons.prems(1) by (cases s) (auto simp: kv writable_def)
    then show ?thesis by (simp add: kv Some value_text_def)
  qed
  moreover have "map_of os k = None" using n(2) by (simp add: map_of_eq_None_iff image_iff)
  ultimately show ?case using IH by (auto simp: kv q(2,3) split: option.split)
qed simp

text \<open>Numbers.\<close>

lemma base_value_append: "base_value b (s @ [c]) = b * base_value b s + the (digit_value c)"
  by (simp add: base_value_def)

lemma base_value_dec: "base_value 10 (map (digit_char True) (dec_digits n)) = n"
proof (induction n rule: dec_digits.induct)
  case (1 n)
  then show ?case
    by (subst dec_digits.simps) (auto simp: base_value_append, simp add: base_value_def)
qed

lemma dec_digits_start: "0 < n \<Longrightarrow> dec_digits n \<noteq> [] \<and> hd (dec_digits n) \<noteq> 0"
proof (induction n rule: dec_digits.induct)
  case (1 n)
  then show ?case by (cases "n < 10") (subst (1 2) dec_digits.simps, simp)+
qed

lemma digit_char_zero: "digit_char up 0 = CHR ''0''"
  by (simp add: digit_char_def char_of_def bit_0)

lemma in_base_dec: "d < 10 \<Longrightarrow> in_base 10 (digit_char True d)"
  by (simp add: in_base_def)

lemma digit_char_plain:
  assumes "d < 16"
  shows "\<not> is_space (digit_char up d)" "digit_char up d \<noteq> CHR ''-''" "digit_char up d \<noteq> CHR ''+''"
    "digit_char up d = CHR ''0'' \<longleftrightarrow> d = 0" "digit_char up d \<noteq> CHR ''x''" "digit_char up d \<noteq> CHR ''X''"
proof -
  have v: "digit_value (digit_char up d) = Some d" using assms by simp
  have "digit_value c = None" if "is_space c \<or> c \<in> {CHR ''-'', CHR ''+'', CHR ''x'', CHR ''X''}" for c
    using that by (auto simp: is_space_def digit_value_def Let_def)
  with v show "\<not> is_space (digit_char up d)" "digit_char up d \<noteq> CHR ''-''" "digit_char up d \<noteq> CHR ''+''"
    "digit_char up d \<noteq> CHR ''x''" "digit_char up d \<noteq> CHR ''X''"
    by (metis insertCI option.distinct(1))+
  show "digit_char up d = CHR ''0'' \<longleftrightarrow> d = 0"
    using v digit_char_zero by (metis digit_value_zero option.inject)
qed

lemma strtol0_dec:
  assumes "n < 2 ^ 63"
  shows "strtol0 (dec_text 1 n) = int n"
proof (cases "n = 0")
  case True
  have "dec_text 1 0 = ''0''"
    by (subst dec_text_def, subst dec_digits.simps) (simp add: pad_left_def digit_char_zero)
  moreover have "\<not> is_space (CHR ''0'')" using digit_char_plain(1) [of 0] by (simp add: digit_char_zero)
  ultimately show ?thesis by (simp add: True strtol0_def read_sign_def skip_0x_def in_base_def base_value_def)
next
  case False
  obtain d ds where ds: "dec_digits n = d # ds" "d \<noteq> 0" using dec_digits_start [of n] False by (cases "dec_digits n") auto
  have b: "d < 10" "\<forall>x \<in> set ds. x < 10" using dec_digits_bound [of _ n] ds by auto
  have t: "dec_text 1 n = digit_char True d # map (digit_char True) ds" by (simp add: dec_text_def pad_left_def ds)
  have w: "takeWhile (in_base 10) (dec_text 1 n) = dec_text 1 n"
    using b unfolding t takeWhile_eq_all_conv by (auto simp: in_base_dec)
  have v: "base_value 10 (dec_text 1 n) = n" using base_value_dec [of n] unfolding t by (simp add: ds)
  have "read_sign (dropWhile is_space (dec_text 1 n)) = (False, dec_text 1 n)" "skip_0x (dec_text 1 n) = dec_text 1 n"
    "take 1 (dec_text 1 n) \<noteq> ''0''"
    using b ds(2) digit_char_plain [of d True] unfolding t by (simp_all add: read_sign_def skip_0x_def)
  then show ?thesis using assms by (simp add: strtol0_def w v del: One_nat_def)
qed

lemma strtol0_hex:
  assumes "n < 2 ^ 63"
  shows "strtol0 (''0x'' @ hex_text up w n) = int n"
proof -
  let ?s = "hex_text up w n"
  have d: "\<forall>c \<in> set ?s. digit_value c \<noteq> None" using hex_text_digits by blast
  have ne: "?s \<noteq> []" by (simp add: hex_text_def pad_left_def)
  have "in_base 16 c" if "digit_value c \<noteq> None" for c
    using that by (auto simp: in_base_def digit_value_def Let_def split: if_splits)
  then have w: "takeWhile (in_base 16) ?s = ?s" using d by (simp only: takeWhile_eq_all_conv) blast
  have v: "base_value 16 ?s = n" using digits_value_hex [of up w n] by (simp add: base_value_def digits_value_def)
  have z: "\<not> is_space (CHR ''0'')" using digit_char_plain(1) [of 0] by (simp add: digit_char_zero)
  have "skip_0x (CHR ''0'' # CHR ''x'' # ?s) = ?s" using d ne by (cases ?s) (auto simp: skip_0x_def)
  then show ?thesis
    using assms by (simp add: strtol0_def read_sign_def z w v)
qed

section \<open>Properties\<close>

text \<open>C13: a command line is read as it was written. Whatever options are written out with two
  dashes, each at most once and with values that neither are empty nor start with a dash, the parser
  finds exactly them and no positional argument; a text comes back as it is, a number of 32 bits
  written in decimal or with the prefix 0x comes back as that number; and the check for unknown
  options passes just when every option was asked for.\<close>

theorem command_line_read:
  fixes program description :: string
  assumes "writable os"
  defines "p \<equiv> ArgsParser (program # written os) description"
  shows "(\<forall>k. fst (HasFlag k info p) \<longleftrightarrow> k \<in> fst ` set os) \<and>
    (\<forall>k s. map_of os k = Some (Some s) \<longrightarrow> fst (GetString k info r d p) = s) \<and>
    (\<forall>k n. map_of os k = Some (Some (to_string (int n))) \<and> n < 2 ^ 31 \<longrightarrow> fst (GetInt k info r i p) = int n) \<and>
    (\<forall>k n. map_of os k = Some (Some (''0x'' @ hex_text up w n)) \<and> n < 2 ^ 31 \<longrightarrow> fst (GetInt k info r i p) = int n) \<and>
    (\<forall>k. k \<notin> fst ` set os \<longrightarrow> fst (GetInt k info r i p) = i) \<and>
    (\<forall>known. fst (CheckUnknownArgs (p\<lparr>m_knownArgs := known\<rparr>)) \<longleftrightarrow>
      fst ` set os \<subseteq> set known \<union> {''h'', ''help''})"
proof -
  have m: "map_of (m_args p) k = (case map_of os k of Some v \<Rightarrow> Some (value_text v) | None \<Rightarrow> None)"
    and pos: "m_positional p = []" for k
    using parse_written [OF assms(1), of "AddDescriptionToHelp description
      \<lparr>m_args = [], m_knownArgs = [], m_positional = [], m_help = [], m_requirementSatisfied = True, printed = []\<rparr>"]
    by (auto simp: p_def ArgsParser_def split: option.split)
  have ne: "s \<noteq> []" if "map_of os k = Some (Some s)" for k s
    using assms(1) map_of_SomeD [OF that] by (auto simp: writable_def)
  have g: "fst (given k r q) = Option.bind (map_of os k) id" if "m_args q = m_args p" for k q
    using ne [of k] by (auto simp: given_def that m value_text_def split: option.split list.split)
  have keys: "fst ` set (m_args p) = fst ` set os"
    using m by (metis (no_types, lifting) map_of_eq_None_iff option.case_eq_if option.distinct(1) subsetI subset_antisym)
  have int: "fst (GetInt k info r i p) = (case Option.bind (map_of os k) id of Some s \<Rightarrow> int32 (strtol0 s) | None \<Rightarrow> i)" for k
    using g [of "AddParamToHelp k ARG_INT r (to_string i) info (know k p)" k]
    by (auto simp: GetInt_def AddParamToHelp_def know_def split: prod.split)
  have flags: "fst (HasFlag k info p) \<longleftrightarrow> k \<in> fst ` set os" for k
    by (simp add: HasFlag_def know_def Let_def map_of_eq_None_iff keys del: not_None_eq)
  have texts: "fst (GetString k info r d p) = s" if "map_of os k = Some (Some s)" for k s
    using g [of "AddParamToHelp k ARG_STRING r d info (know k p)" k] that
    by (auto simp: GetString_def AddParamToHelp_def know_def split: prod.split)
  have known: "fst (CheckUnknownArgs (p\<lparr>m_knownArgs := known\<rparr>)) \<longleftrightarrow> fst ` set os \<subseteq> set known \<union> {''h'', ''help''}" for known
    using keys by (auto simp: CheckUnknownArgs_def unknown_args_def pos Let_def filter_empty_conv)
  have ints: "fst (GetInt k info r i p) = int n" if "map_of os k = Some (Some s)" "s = to_string (int n) \<or> s = ''0x'' @ hex_text up w n"
      "n < 2 ^ 31" for k s n
  proof -
    have "strtol0 s = int n" using that(2,3) strtol0_dec [of n] strtol0_hex [of n up w] by (auto simp: to_string_def)
    then show ?thesis using that(1,3) by (simp add: int)
  qed
  have missing: "fst (GetInt k info r i p) = i" if "k \<notin> fst ` set os" for k
    using that map_of_eq_None_iff [of os k] by (simp add: int)
  show ?thesis
    by (intro conjI allI impI; (rule flags | rule texts | rule known | rule missing | (elim conjE, rule ints, assumption, simp, assumption))?; assumption?)
qed

theorem command_line_read_witness:
  "fst (GetInt ''load-addr'' [] False 256 (ArgsParser [''v6emul'', ''--rom'', ''a.rom'', ''--load-addr'', ''0x8000'', ''--serve''] [])) = 32768"
proof -
  let ?os = "[(''rom'', Some ''a.rom''), (''load-addr'', Some ''0x8000''), (''serve'', None)]"
  have "writable ?os" by (simp add: writable_def)
  note r = command_line_read [OF this, where program = "''v6emul''" and description = "[]" and info = "[]" and r = False
      and i = 256 and up = True and w = 4, THEN conjunct2, THEN conjunct2, THEN conjunct2, THEN conjunct1]
  have "hex_text True 4 0x8000 = ''8000''"
    by (simp add: hex_text_def hex_digits.simps pad_left_def digit_char_def char_of_def bit_0)
  then show ?thesis using r [rule_format, of "''load-addr''" "0x8000"] by simp
qed

text \<open>What the info text of the option calls hexadecimal is read by the rules of C.\<close>

lemma load_addr_by_prefix: "strtol0 ''0100'' = 64" "strtol0 ''100'' = 100" "strtol0 ''0x100'' = 256"
  by (simp_all add: strtol0_def is_space_def read_sign_def skip_0x_def in_base_def base_value_def digit_value_def Let_def)

end
