(* ===== verification/Screenshot.thy ===== *)
theory Screenshot
  imports Display Str_Utils
begin

unbundle bit_operations_syntax

text \<open>
  Screenshots (\<^verbatim>\<open>app/screenshot.cpp\<close>): the format by the extension of the path, the active area of
  the frame buffer as RGB bytes, the errors of saving. Writing the image is the work of a library;
  \<open>picture_files\<close> has its two functions, which say whether they wrote, and the test for a directory.
  A screenshot is what a client gets as the borderless frame, every second column of it in the mode of
  256 pixels.
\<close>

section \<open>Paths\<close>

text \<open>The parts of a POSIX path that \<^verbatim>\<open>std::filesystem::path\<close> gives.\<close>

definition path_filename :: "string \<Rightarrow> string" where
  "path_filename p = rev (takeWhile (\<lambda>c. c \<noteq> CHR ''/'') (rev p))"

definition path_extension :: "string \<Rightarrow> string" where
  "path_extension p =
    (let f = path_filename p; e = rev (takeWhile (\<lambda>c. c \<noteq> CHR ''.'') (rev f))
     in if f = ''.'' \<or> f = ''..'' \<or> length f \<le> length e + 1 then [] else CHR ''.'' # e)"

definition path_parent :: "string \<Rightarrow> string" where
  "path_parent p =
    (let d = rev (dropWhile (\<lambda>c. c \<noteq> CHR ''/'') (rev p)); s = rev (dropWhile (\<lambda>c. c = CHR ''/'') (rev d))
     in if s = [] \<and> d \<noteq> [] then ''/'' else s)"

definition to_lower :: "char \<Rightarrow> char" where
  "to_lower c = (let n = of_char c :: nat in if 65 \<le> n \<and> n \<le> 90 then char_of (n + 32) else c)"

definition ToLower :: "string \<Rightarrow> string" where
  "ToLower s = map to_lower s"

section \<open>Taking and saving\<close>

datatype screenshot_format = BMP | JPG

definition DetectScreenshotFormat :: "string \<Rightarrow> screenshot_format option" where
  "DetectScreenshotFormat path =
    (let e = ToLower (path_extension path)
     in if e = ''.bmp'' then Some BMP else if e = ''.jpg'' then Some JPG else None)"

record screenshot_frame =
  shot_width :: int
  shot_height :: int
  shot_rgb :: "u8 list"

definition rgb_bytes :: "u32 \<Rightarrow> u8 list" where
  "rgb_bytes color = [ucast color, ucast (drop_bit 8 color), ucast (drop_bit 16 color)]"

definition CaptureScreenshot :: "(int \<Rightarrow> u32) \<Rightarrow> bool \<Rightarrow> screenshot_frame" where
  "CaptureScreenshot pixels displayMode512 =
    (let width = (if displayMode512 then ACTIVE_AREA_W else ACTIVE_AREA_W div 2); height = ACTIVE_AREA_H;
         pixelStep = (if displayMode512 then 1 else 2); sourceX = BORDER_LEFT; sourceY = SCAN_ACTIVE_AREA_TOP
     in \<lparr>shot_width = width, shot_height = height,
          shot_rgb = concat (map (\<lambda>y. let row = (sourceY + int y) * FRAME_W
            in concat (map (\<lambda>x. rgb_bytes (pixels (row + sourceX + int x * pixelStep))) [0..<nat width])) [0..<nat height])\<rparr>)"

definition JPEG_QUALITY :: int where "JPEG_QUALITY = 90"

record picture_files =
  is_directory :: "string \<Rightarrow> bool"
  write_bmp :: "string \<Rightarrow> int \<Rightarrow> int \<Rightarrow> int \<Rightarrow> u8 list \<Rightarrow> int"
  write_jpg :: "string \<Rightarrow> int \<Rightarrow> int \<Rightarrow> int \<Rightarrow> u8 list \<Rightarrow> int \<Rightarrow> int"

text \<open>The error, if there is one.\<close>

definition SaveScreenshot :: "picture_files \<Rightarrow> string \<Rightarrow> (int \<Rightarrow> u32) \<Rightarrow> bool \<Rightarrow> string option" where
  "SaveScreenshot fs path pixels displayMode512 =
    (case DetectScreenshotFormat path of
       None \<Rightarrow> Some (''unsupported screenshot extension for '' @ [CHR 0x27] @ path @ [CHR 0x27] @ '' (supported: .bmp, .jpg)'')
     | Some format \<Rightarrow>
        if path_parent path \<noteq> [] \<and> \<not> is_directory fs (path_parent path)
        then Some (''screenshot directory does not exist: '' @ path_parent path)
        else
          (let image = CaptureScreenshot pixels displayMode512;
               written = (case format of
                 BMP \<Rightarrow> write_bmp fs path (shot_width image) (shot_height image) 3 (shot_rgb image)
               | JPG \<Rightarrow> write_jpg fs path (shot_width image) (shot_height image) 3 (shot_rgb image) JPEG_QUALITY)
           in if written = 0 then Some (''failed to write screenshot: '' @ path) else None))"

section \<open>What is in a screenshot\<close>

lemma shot_chunk:
  assumes "\<And>j. j < m \<Longrightarrow> length (f j) = n" "i < m"
  shows "take n (drop (i * n) (concat (map f [0..<m]))) = f i"
  using drop_chunks [of "[0..<m]" f n i] assms by simp

lemma length_chunks:
  assumes "\<And>j. j < m \<Longrightarrow> length (f j) = n"
  shows "length (concat (map f [0..<m])) = m * n"
  using assms by (induction m) simp_all

lemma shot_size:
  "shot_width (CaptureScreenshot pixels b) = (if b then 512 else 256)" "shot_height (CaptureScreenshot pixels b) = 256"
  by (simp_all add: CaptureScreenshot_def ACTIVE_AREA_W_def ACTIVE_AREA_H_def)

lemma take_inner: "k \<le> n - j \<Longrightarrow> take k (drop j (take n xs)) = take k (drop j xs)"
  by (simp add: drop_take min_def)

lemma shot_pixel:
  assumes "x < nat (shot_width (CaptureScreenshot pixels b))" "y < 256"
  shows "take 3 (drop ((y * nat (shot_width (CaptureScreenshot pixels b)) + x) * 3) (shot_rgb (CaptureScreenshot pixels b))) =
      rgb_bytes (pixels ((int y + 40) * 768 + 128 + int x * (if b then 1 else 2)))"
    "length (shot_rgb (CaptureScreenshot pixels b)) = 256 * (nat (shot_width (CaptureScreenshot pixels b)) * 3)"
proof -
  define w where "w = nat (shot_width (CaptureScreenshot pixels b))"
  define f where "f y x = rgb_bytes (pixels ((int y + 40) * 768 + 128 + int x * (if b then 1 else 2)))" for y x :: nat
  define row where "row y = concat (map (f y) [0..<w])" for y
  have rgb: "shot_rgb (CaptureScreenshot pixels b) = concat (map row [0..<256])"
    by (simp add: CaptureScreenshot_def row_def f_def w_def Let_def add.commute BORDER_LEFT_def raster_consts ACTIVE_AREA_H_def
        cong: map_cong)
  have l: "length (f y x) = 3" "length (row y) = w * 3" for y x
    by (simp_all add: row_def f_def rgb_bytes_def length_chunks)
  then show "length (shot_rgb (CaptureScreenshot pixels b)) = 256 * (nat (shot_width (CaptureScreenshot pixels b)) * 3)"
    by (simp add: rgb length_chunks w_def)
  have "take (w * 3) (drop (y * (w * 3)) (concat (map row [0..<256]))) = row y"
    using shot_chunk [of 256 row "w * 3" y] l assms(2) by simp
  moreover have "take 3 (drop (x * 3) (row y)) = f y x"
    using shot_chunk [of w "f y" 3 x] l assms(1) by (simp add: row_def w_def)
  moreover have "3 \<le> w * 3 - x * 3" using assms(1) by (simp add: w_def)
  ultimately have "take 3 (drop (x * 3 + y * (w * 3)) (concat (map row [0..<256]))) = f y x"
    using take_inner [of 3 "w * 3" "x * 3" "drop (y * (w * 3)) (concat (map row [0..<256]))"] by simp
  then show "take 3 (drop ((y * nat (shot_width (CaptureScreenshot pixels b)) + x) * 3) (shot_rgb (CaptureScreenshot pixels b))) =
      rgb_bytes (pixels ((int y + 40) * 768 + 128 + int x * (if b then 1 else 2)))"
    unfolding rgb f_def w_def by (simp add: algebra_simps)
qed

text \<open>A screenshot is the borderless frame. It has 256 rows of 512 pixels or, in the mode of 256
  pixels, of 256, with three bytes each, top down; pixel \<open>(x, y)\<close> is red, green and blue of the pixel a
  client gets in the borderless mode without colour conversion at the same place, or at column \<open>2x\<close>.
  Every pixel it reads is inside the frame buffer.\<close>

theorem screenshot_is_borderless_frame:
  fixes d :: display and mode512 :: bool and x y :: nat
  defines "s \<equiv> CaptureScreenshot (m_frameBuffer d) mode512" and "k \<equiv> if mode512 then 1 else 2 :: int"
  assumes "int x < shot_width s" "int y < shot_height s"
  shows "shot_width s * k = r_width (frame_mode_regions BORDERLESS) \<and> shot_height s = r_height (frame_mode_regions BORDERLESS) \<and>
    length (shot_rgb s) = nat (shot_width s * shot_height s * 3) \<and>
    take 3 (drop ((y * nat (shot_width s) + x) * 3) (shot_rgb s)) =
      rgb_bytes (fst (fst (GetFrame False (d\<lparr>m_frameMode := BORDERLESS, m_colorFormat := ABGR\<rparr>)))
        (int y * r_width (frame_mode_regions BORDERLESS) + int x * k)) \<and>
    (int y + SCAN_ACTIVE_AREA_TOP) * FRAME_W + BORDER_LEFT + int x * k < FRAME_LEN"
proof -
  let ?d = "d\<lparr>m_frameMode := BORDERLESS, m_colorFormat := ABGR\<rparr>" and ?r = "frame_mode_regions BORDERLESS"
  have w: "shot_width s = (if mode512 then 512 else 256)" "shot_height s = 256" by (simp_all add: s_def shot_size)
  have xy: "x < nat (shot_width s)" "y < 256" "int x * k < 512" using assms(3,4) w by (auto simp: k_def)
  have "fst (fst (GetFrame False ?d)) (int y * r_width ?r + int x * k) = m_frameBuffer d ((int y + 40) * 768 + 128 + int x * k)"
    using GetFrame_pixel [of "int x * k" ?r "int y" ?d False] xy
    by (simp add: raster_consts BORDER_LEFT_def BORDER_TOP_def k_def ACTIVE_AREA_H_def algebra_simps)
  moreover have "(int y + SCAN_ACTIVE_AREA_TOP) * FRAME_W + BORDER_LEFT + int x * k < FRAME_LEN"
    using xy by (simp add: raster_consts BORDER_LEFT_def)
  ultimately show ?thesis
    using shot_pixel [of x "m_frameBuffer d" mode512 y] xy(1,2) w
    by (simp add: s_def [symmetric] k_def raster_consts ACTIVE_AREA_H_def)
qed

theorem screenshot_is_borderless_frame_witness:
  "take 3 (drop ((200 * 256 + 100) * 3) (shot_rgb (CaptureScreenshot (m_frameBuffer (sample_display 0)) False))) = [0, 0, 0]"
  using screenshot_is_borderless_frame [of 100 "sample_display 0" False 200]
    GetFrame_pixel [of 200 "frame_mode_regions BORDERLESS" 200 "(sample_display 0)\<lparr>m_frameMode := BORDERLESS, m_colorFormat := ABGR\<rparr>" False]
  by (simp add: shot_size raster_consts ACTIVE_AREA_H_def rgb_bytes_def sample_display_def Display_new_def Display_Reset_def)

lemma screenshot_formats:
  "DetectScreenshotFormat ''out/a.b/frame.BMP'' = Some BMP" "DetectScreenshotFormat ''frame.Jpg'' = Some JPG"
  "DetectScreenshotFormat ''frame.jpeg'' = None" "DetectScreenshotFormat ''dir.bmp/.bmp'' = None"
  by (simp_all add: DetectScreenshotFormat_def path_extension_def path_filename_def ToLower_def to_lower_def char_of_def bit_0)

end
