(* ===== verification/Machine_New.thy ===== *)
theory Machine_New
  imports Hw_Props
begin

unbundle bit_operations_syntax

text \<open>
  The constructors of the machine and its devices (\<^verbatim>\<open>Hardware::Hardware\<close> and those it calls). What
  they leave uninitialised is an argument, the record \<open>garbage\<close>; the contents of the two files are
  what \<^verbatim>\<open>LoadFile\<close> gave, \<^term>\<open>None\<close> when it failed or the path is empty.

  A new machine is in the shape that all runs keep, whatever was in its memory before; a reset brings
  every part that a reset concerns back to it.
\<close>

section \<open>Devices\<close>

record garbage =
  g_cpu :: cpu_state
  g_debug :: mem_debug
  g_io :: io_state
  g_counter :: counter_unit
  g_pixels :: "int \<Rightarrow> u32"

definition Counter_new :: "garbage \<Rightarrow> counter_unit" where
  "Counter_new g = Counter_Reset (g_counter g)"

definition Timer_new :: "garbage \<Rightarrow> timer" where
  "Timer_new g = \<lparr>timer.counters = replicate 3 (Counter_new g), controlWord = 0\<rparr>"

definition AYWrapper_new :: ay_wrapper where
  "AYWrapper_new = \<lparr>chip = AY_Init, last_sample = (0, 1), ayAccu = 0\<rparr>"

definition Audio_new :: "'f float_ops \<Rightarrow> 'f audio" where
  "Audio_new fo =
    Audio_Init fo \<lparr>m_muteMul = f_of_int fo 1, m_buffer = [], m_readBuffIdx = 0, m_writeBuffIdx = 0, m_inited = False,
      m_downsampleRate = DOWNSAMPLE_RATE, sampleCounter = 0, accumulator = f_of_int fo 0\<rparr>"

definition IO_new :: "garbage \<Rightarrow> io" where
  "IO_new g =
    IO_Init \<lparr>io_st = g_io g, m_portsInData = replicate 256 0, m_portsOutData = replicate 256 0,
      m_outCommitTime = OUT_COMMIT_TIME, m_paletteCommitTime = PALETTE_COMMIT_TIME,
      m_displayModeTime = DISPLAY_MODE_COMMIT_TIME, io_keyboard = Keyboard_new, io_timer = Timer_new g,
      io_ay = AYWrapper_new, io_fdc = Fdc_new, io_fault = False, debug_hooked = False, debug_out = []\<rparr>"

definition Cpu_new :: "garbage \<Rightarrow> cpu_state" where
  "Cpu_new g = Cpu_Init (g_cpu g)"

text \<open>\<^verbatim>\<open>ramDiskData.resize(...)\<close> cuts or fills with zeros; it is copied behind the main memory.\<close>

definition Memory_new :: "u8 list option \<Rightarrow> u8 list option \<Rightarrow> bool \<Rightarrow> garbage \<Rightarrow> memory" where
  "Memory_new boot ramDisk clearAfterRestart g =
    \<lparr>m_ram = (case ramDisk of
        None \<Rightarrow> (\<lambda>_. 0)
      | Some bytes \<Rightarrow> (\<lambda>a. let i = unat a - MEMORY_MAIN_LEN
          in if MEMORY_MAIN_LEN \<le> unat a \<and> i < length bytes \<and> i < MEMORY_RAMDISK_LEN * RAM_DISK_MAX then bytes ! i else 0)),
     m_rom = (case boot of None \<Rightarrow> [] | Some bytes \<Rightarrow> bytes),
     m_mappings = replicate RAM_DISK_MAX 0, mem_upd = \<lparr>upd_mapping = 0, ramdiskIdx = 0, memType = MT_RAM\<rparr>,
     mem_dbg = (g_debug g)\<lparr>instr_array := [0, 0, 0], instrLen := 0, readLen := 0, writeLen := 0\<rparr>,
     m_mappingsEnabled = 0, m_ramDiskClearAfterRestart = clearAfterRestart\<rparr>"

section \<open>The machine\<close>

text \<open>
  \<open>sessions\<close> counts the sessions of the process so far; the static buffer of \<^verbatim>\<open>GetMemString\<close> is
  zero in a new process. The speed starts as \<^verbatim>\<open>NORMAL\<close>, the fourth, at 100 percent.
\<close>

definition Hardware_new ::
  "'f float_ops \<Rightarrow> u64 \<Rightarrow> u8 list option \<Rightarrow> u8 list option \<Rightarrow> bool \<Rightarrow> garbage \<Rightarrow> ('f, 'd) hardware" where
  "Hardware_new fo sessions boot ramDisk clearAfterRestart g =
    (let h = Hw_Init
          \<lparr>hw_machine = \<lparr>cpu = Cpu_new g, mem = Memory_new boot ramDisk clearAfterRestart g, io = IO_new g, exit_code = None\<rparr>,
           hw_display = Display_new (g_pixels g), hw_audio = Audio_new fo, hw_status = S_STOP, hw_debugger = None,
           m_debugAttached = False, nextSessionId = sessions + 1, m_sessionId = sessions + 1, m_cycleOffset = 0,
           m_frameOffset = 0, m_sessionStartCycles = 0, m_sessionStartFrames = 0, m_runStartCycles = 0,
           m_lastRunCycles = 0, m_stopSequence = 0, m_stopRecord = [], m_execSpeed = 3, actual_speed = JFloat (Some 100),
           hw_mem_string = replicate (LINES_MAX * LINE_LEN_MAX + 1) 0, inbox = [], outbox = []\<rparr>
     in h\<lparr>m_sessionStartCycles := GetTotalCycles h, m_sessionStartFrames := GetTotalFrames h,
          m_runStartCycles := GetTotalCycles h,
          m_stopRecord := [(''sequence'', JNum 0), (''reason'', JStr ''unknown''), (''pc'', JNum (uint (r_pc (hw_cpu h)))),
            (''globalInstructionAddress'', JNum (uint (GetGlobalAddr (hw_mem h) (r_pc (hw_cpu h)) RAM)))]\<rparr>)"

section \<open>What a new machine is\<close>

lemma Cpu_new_reset: "Cpu_new g = (Cpu_Reset c)\<lparr>r_cc := 0\<rparr>"
  by (simp add: Cpu_new_def Cpu_Init_def Cpu_Reset_def)

lemma Hardware_new_views:
  "hw_cpu (Hardware_new fo n boot rd cl g) = Cpu_new g" "hw_io (Hardware_new fo n boot rd cl g) = IO_Init (IO_new g)"
  "hw_mem (Hardware_new fo n boot rd cl g) = Memory_Init (Memory_new boot rd cl g)"
  "hw_display (Hardware_new fo n boot rd cl g) = Display_Reset (Display_new (g_pixels g))"
  "exit_code (hw_machine (Hardware_new fo n boot rd cl g)) = None" "hw_debugger (Hardware_new fo n boot rd cl g) = None"
  by (simp_all add: Hardware_new_def Let_def Hw_Init_def hw_views)

lemma Hardware_new_ok: "hw_alone (Hardware_new fo n boot rd cl g)"
proof -
  let ?h = "Hardware_new fo n boot rd cl g"
  have "M_CYCLES ! 0 > 0" by (simp add: M_CYCLES_def)
  moreover have c: "cpu (hw_machine ?h) = Cpu_new g" using Hardware_new_views(1) by (simp add: hw_cpu_def)
  ultimately have "cpu_inv (hw_machine ?h)"
    unfolding cpu_inv_def c Hardware_new_views(5)
    by (simp add: Cpu_new_def Cpu_Init_def Cpu_Reset_def PSW_INIT_def f_ok_def lo_def bit_numeral_rec)
  moreover have "steady (hw_display ?h)" "16 dvd framebufferIdx (hw_display ?h)" "\<not> d_fault (hw_display ?h)"
    by (simp_all add: Hardware_new_views Display_new_def Display_Reset_def steady_def raster_consts)
  ultimately show ?thesis by (simp add: hw_alone_def hw_inv_def Hardware_new_views)
qed

section \<open>Properties\<close>

text \<open>C14: power on and reset. A machine as it is constructed is in shape, whatever its memory held and
  whatever the two files are: the processor's invariant holds, the beam is inside the frame, nothing
  has been stored outside; so every run of it without a debugger keeps that shape. It starts at address 0 with the boot
  ROM in view and the RAM cleared. A reset of any machine without a debugger restores the processor,
  the memory with its mapping, the ports, the sound chip and the picture to what they are in a new
  machine with the same ROM; what it leaves is the display mode requested last, the log of the last
  instruction and, when the RAM disks survive a restart, these.\<close>

theorem reset_is_power_on:
  fixes h n m :: "('f, 'd) hardware" and sessions :: u64 and ramDisk :: "u8 list option" and g :: garbage and fo :: "'f float_ops"
  assumes "hw_debugger h = None" "Hw_Reset fo hk h = Inr h1"
    and "boot = (if m_rom (hw_mem h) = [] then None else Some (m_rom (hw_mem h)))"
  defines "n \<equiv> Hardware_new fo sessions boot ramDisk (m_ramDiskClearAfterRestart (hw_mem h)) g"
  shows "hw_alone n \<and> (hw_reach fo hk n m \<longrightarrow> hw_alone m) \<and> r_pc (hw_cpu n) = 0 \<and>
    (0 < length (m_rom (hw_mem h)) \<longrightarrow> GetByte (hw_mem n) 0 RAM = m_rom (hw_mem h) ! 0) \<and>
    hw_cpu h1 = hw_cpu n \<and>
    (m_ramDiskClearAfterRestart (hw_mem h) \<longrightarrow> hw_mem h1 = (hw_mem n)\<lparr>mem_dbg := mem_dbg (hw_mem h)\<rparr>) \<and>
    io_st (hw_io h1) = (io_st (hw_io n))\<lparr>reqDisplayMode := reqDisplayMode (io_st (hw_io h))\<rparr> \<and>
    chip (io_ay (hw_io h1)) = chip (io_ay (hw_io n)) \<and>
    m_frameBuffer (hw_display h1) = m_frameBuffer (hw_display n) \<and>
    framebufferIdx (hw_display h1) = framebufferIdx (hw_display n) \<and> frameNum (hw_display h1) = frameNum (hw_display n) \<and>
    scrollIdx (hw_display h1) = scrollIdx (hw_display n)"
proof -
  let ?clear = "m_ramDiskClearAfterRestart (hw_mem h)"
  have n: "hw_cpu n = Cpu_new g" "hw_io n = IO_Init (IO_new g)" "hw_mem n = Memory_Init (Memory_new boot ramDisk ?clear g)"
    "hw_display n = Display_Reset (Display_new (g_pixels g))"
    by (simp_all add: n_def Hardware_new_views)
  have ok: "hw_alone n" unfolding n_def by (rule Hardware_new_ok)
  have reach: "hw_alone m" if "hw_reach fo hk n m"
    using that ok by (induction rule: hw_reach.induct) (auto intro: thread_step_ok)
  have h1: "h1 = audio_reset fo (upd_display Display_Reset (upd_cpu Cpu_Reset (Hw_Init (add_offsets h))))"
    using reset_states(1) [OF assms(1)] assms(2) by simp
  have io: "io_st (hw_io (audio_reset fo k)) = io_st (hw_io k)" "chip (io_ay (hw_io (audio_reset fo k))) = AY_Init" for k
    by (simp_all add: audio_reset_def Audio_Reset_def hw_views Let_def case_prod_beta)
  have v: "hw_cpu h1 = Cpu_Reset (hw_cpu h)" "hw_mem h1 = Memory_Init (hw_mem h)" "io_st (hw_io h1) = io_st (IO_Init (hw_io h))"
    "chip (io_ay (hw_io h1)) = AY_Init" "hw_display h1 = Display_Reset (Display_Reset (hw_display h))"
    by (simp_all add: h1 io audio_reset_views Hw_Init_def init_keeps) (simp add: hw_views add_offsets_def)
  have cpu: "hw_cpu h1 = hw_cpu n" by (rule cpu_state.equality) (simp_all add: v n Cpu_new_def Cpu_Init_def Cpu_Reset_def)
  have mem: "hw_mem h1 = (hw_mem n)\<lparr>mem_dbg := mem_dbg (hw_mem h)\<rparr>" if "m_ramDiskClearAfterRestart (hw_mem h)"
    using that assms(3)
    by (simp add: v n Memory_Init_def Memory_new_def InitRamDiskMapping_def SetMemType_def Let_def)
  have first: "GetByte (hw_mem n) 0 RAM = m_rom (hw_mem h) ! 0" if "0 < length (m_rom (hw_mem h))"
    using that assms(3)
    by (simp add: n GetByte_def GetGlobalAddr_def map_addr_def fetch_global_def Memory_Init_def Memory_new_def InitRamDiskMapping_def
        SetMemType_def Let_def)
  have ports: "io_st (hw_io h1) = (io_st (hw_io n))\<lparr>reqDisplayMode := reqDisplayMode (io_st (hw_io h))\<rparr>"
    "chip (io_ay (hw_io n)) = AY_Init"
    by (simp_all add: v n IO_Init_def upd_io_def IO_new_def AYWrapper_new_def)
  have "r_pc (hw_cpu n) = 0" by (simp add: n Cpu_new_def Cpu_Init_def Cpu_Reset_def)
  with ok reach cpu mem first ports show ?thesis
    by (auto simp: v(4,5) n(4) Display_Reset_def)
qed

theorem reset_is_power_on_witness:
  "\<forall>g. hw_cpu (projr (Hw_Reset int_ops no_hooks (sample_hardware [0x3C, 0x76] 768))) =
    hw_cpu (Hardware_new int_ops 0 None None True g :: (int, unit) hardware)"
proof
  fix g
  let ?h = "sample_hardware [0x3C, 0x76] 768"
  have r: "m_rom (hw_mem ?h) = []" "m_ramDiskClearAfterRestart (hw_mem ?h) = True"
    by (simp_all add: SetRam_def blank_mem_def)
  obtain h1 where h1: "Hw_Reset int_ops no_hooks ?h = Inr h1" using reset_states(1) [of ?h] by simp
  show "hw_cpu (projr (Hw_Reset int_ops no_hooks ?h)) = hw_cpu (Hardware_new int_ops 0 None None True g :: (int, unit) hardware)"
    using reset_is_power_on [OF _ h1, where boot = None and sessions = 0 and ramDisk = None and g = g and m = ?h] r
    by (simp add: h1)
qed

end
