(* ===== verification/Test_Port.thy ===== *)
theory Test_Port
  imports Hw_Props
begin

text \<open>
  The test port: what a program can make the machine print. \<open>prints\<close> relates two states of the
  devices when the later one has printed, after what was printed before, the lines of some bytes
  sent to port 0xED, for each the call of the callback where one is set and the line of the log. A
  pixel, a machine cycle and a headless run are shown to print nothing else.
\<close>

section \<open>The lines of the bytes sent\<close>

definition sent_to_port :: "bool \<Rightarrow> u8 list \<Rightarrow> test_print list" where
  "sent_to_port hooked vs = concat (map (\<lambda>v. (if hooked then [Debug_callback 0xED v] else []) @ [Debug_log v]) vs)"

definition prints :: "io \<Rightarrow> io \<Rightarrow> bool" where
  "prints x y \<longleftrightarrow> debug_hooked y = debug_hooked x \<and> (\<exists>vs. debug_out y = debug_out x @ sent_to_port (debug_hooked x) vs)"

lemma sent_to_port_append: "sent_to_port b (vs @ ws) = sent_to_port b vs @ sent_to_port b ws"
  by (simp add: sent_to_port_def)

lemma prints_silent: "debug_hooked y = debug_hooked x \<Longrightarrow> debug_out y = debug_out x \<Longrightarrow> prints x y"
  unfolding prints_def by (rule conjI, assumption, rule exI [of _ "[]"]) (simp add: sent_to_port_def)

lemma prints_refl [simp]: "prints x x"
  by (rule prints_silent) simp_all

lemma prints_trans [trans]: "prints x y \<Longrightarrow> prints y z \<Longrightarrow> prints x z"
  by (auto simp: prints_def simp flip: sent_to_port_append)

lemma prints_then_silent: "prints x y \<Longrightarrow> debug_hooked z = debug_hooked y \<Longrightarrow> debug_out z = debug_out y \<Longrightarrow> prints x z"
  by (rule prints_trans [OF _ prints_silent])

lemma prints_funpow: "(\<And>s. prints (view s) (view (g s))) \<Longrightarrow> prints (view s) (view ((g ^^ n) s))"
  by (induction n) (auto intro: prints_trans)

lemma prints_fold: "(\<And>i s. prints (view s) (view (g i s))) \<Longrightarrow> prints (view s) (view (fold g is s))"
  by (induction "is" arbitrary: s) (auto intro: prints_trans)

section \<open>Ports\<close>

lemma upd_io_silent [simp]: "debug_hooked (upd_io g x) = debug_hooked x" "debug_out (upd_io g x) = debug_out x"
  by (simp_all add: upd_io_def)

lemma PortIn_silent: "prints x (snd (PortIn p x))"
  by (rule prints_silent; simp add: PortIn_def PortInHandling_def timer_in_def fdc_in_def case_prod_beta Let_def split: sum.split)

lemma PortOut_silent: "prints x (PortOut p v x)"
  by (rule prints_silent; simp add: PortOut_def Let_def)

lemma port_silent:
  "debug_hooked (out_control v x) = debug_hooked x" "debug_out (out_control v x) = debug_out x"
  "debug_hooked (out_a v x) = debug_hooked x" "debug_out (out_a v x) = debug_out x"
  "debug_hooked (out_b v x) = debug_hooked x" "debug_out (out_b v x) = debug_out x"
  "debug_hooked (out_c v x) = debug_hooked x" "debug_out (out_c v x) = debug_out x"
  "debug_hooked (fdc_out p v x) = debug_hooked x" "debug_out (fdc_out p v x) = debug_out x"
  by (simp_all add: out_control_def out_a_def out_b_def out_c_def fdc_out_def Let_def split: sum.split)

lemma prints_if: "(b \<Longrightarrow> prints x y) \<Longrightarrow> prints x z \<Longrightarrow> prints x (if b then y else z)"
  by simp

lemma test_port_prints:
  "prints x (x\<lparr>debug_out := debug_out x @ (if debug_hooked x then [Debug_callback 0xED v] else []) @ [Debug_log v]\<rparr>)"
  unfolding prints_def by (rule conjI, simp, rule exI [of _ "[v]"]) (simp add: sent_to_port_def)

lemma PortOutHandling_prints: "prints x (fst (PortOutHandling p v (x, m)))"
proof (cases "ramdisk_port p")
  case None
  have "prints x (out_control v x)" "prints x (out_c v x)" "prints x (out_b v x)" "prints x (out_a v x)" "prints x (fdc_out q v x)"
    "prints x (upd_io g x)" "prints x (x\<lparr>io_timer := t\<rparr>)" "prints x (x\<lparr>io_ay := a\<rparr>)" for q g t a
    by (rule prints_silent; simp add: port_silent)+
  note silent = this
  show ?thesis
    unfolding PortOutHandling_def Let_def prod.case None option.case fst_conv
    by (intro prints_if prints_refl silent) (simp only: test_port_prints)
qed (simp add: PortOutHandling_def)

lemma commit_out_prints: "prints x (fst (commit_out (x, m)))"
proof -
  have "prints x (fst (PortOutCommit (upd_io g x, m)))" "prints x (upd_io g x)" for g
    using PortOutHandling_prints [of "upd_io g x"] by (simp_all add: PortOutCommit_def prints_silent) (simp add: prints_def)
  then show ?thesis unfolding commit_out_def Let_def prod.case by (simp del: upd_io_sel)
qed

lemma TryToCommit_prints: "prints (fst xm) (fst (TryToCommit c xm))"
proof -
  have "prints y (commit_mode (commit_palette c y))" for y
    by (rule prints_silent; simp add: commit_mode_def commit_palette_def SetColor_def Let_def)
  from prints_trans [OF commit_out_prints [of "fst xm" "snd xm"] this] show ?thesis
    by (simp add: TryToCommit_def case_prod_beta)
qed

section \<open>The beam\<close>

abbreviation screen_io :: "screen \<Rightarrow> io" where "screen_io s \<equiv> fst (snd s)"

lemma border_pixel_prints: "prints (screen_io s) (screen_io (border_pixel s))"
  using TryToCommit_prints [of "snd s"] by (simp add: border_pixel_def case_prod_beta Let_def)

lemma pixels_print:
  "prints (screen_io (snd (snd t))) (screen_io (snd (snd (pixel256 l i t))))"
  "prints (screen_io (snd (snd t))) (screen_io (snd (snd (pixel512 l i t))))"
  "prints (screen_io (snd (snd t))) (screen_io (snd (snd (pixel256_ports r l i t))))"
  "prints (screen_io (snd (snd t))) (screen_io (snd (snd (pixel512_ports r l i t))))"
  using TryToCommit_prints [of "snd (commit_scroll r (snd (snd t)))"]
  by (simp_all add: pixel256_def pixel512_def pixel256_ports_def pixel512_ports_def commit_scroll_def case_prod_beta Let_def)

lemma active_prints: "prints (screen_io s) (screen_io (RasterizeActiveArea n s))"
  using prints_fold [of "\<lambda>t. screen_io (snd (snd t))", OF pixels_print(1)] prints_fold [of "\<lambda>t. screen_io (snd (snd t))", OF pixels_print(2)]
    prints_fold [of "\<lambda>t. screen_io (snd (snd t))", OF pixels_print(3)] prints_fold [of "\<lambda>t. screen_io (snd (snd t))", OF pixels_print(4)]
  by (cases s) (fastforce simp: RasterizeActiveArea_def FillActiveArea256_def FillActiveArea512_def FillActiveArea256PortHandling_def
      FillActiveArea512PortHandling_def Let_def)

lemma border_prints: "prints (screen_io s) (screen_io (RasterizeBorder n s))"
  using prints_funpow [of screen_io, OF border_pixel_prints]
  by (simp add: RasterizeBorder_def FillBorderPortHandling_def FillBorder_def case_prod_beta Let_def)

lemma Rasterize_prints: "prints (screen_io s) (screen_io (Rasterize s))"
proof -
  define t where "t = (case s of (d, x, m) \<Rightarrow> (d\<lparr>d_irq := False\<rparr>, x, m))"
  have "prints (screen_io t) (screen_io (Rasterize s))"
    unfolding Rasterize_def t_def [symmetric]
    by (auto simp: Let_def intro: active_prints border_prints prints_trans)
  then show ?thesis by (simp add: t_def case_prod_beta)
qed

section \<open>The processor\<close>

lemma load_op_io: "io (load_op n f m) = io m" "io (load_mem a k n f m) = io m" "io (WriteByte a v k n m) = io m"
  by (simp_all add: load_op_def load_mem_def WriteByte_def ReadByte_def ReadInstrMovePC_def case_prod_beta Let_def)

lemma exec_io:
  assumes "\<And>p x. R x (snd (bus_input bus p x))" "\<And>p v x. R x (bus_output bus p v x)" "\<And>x. R x x"
  shows "R (io m) (io (exec_instr bus i m))"
proof (cases i)
  case (Move j)
  then show ?thesis by (cases j) (simp_all add: move_defs Let_def load_op_io assms(3))
next
  case (Arith j)
  then show ?thesis by (cases j) (simp_all add: arith_defs load_op_io assms(3))
next
  case (Logic j)
  then show ?thesis by (cases j) (simp_all add: logic_defs alu_mem_def alu_imm_def load_op_io assms(3))
next
  case (Ctrl j)
  then show ?thesis
    using assms by (cases j) (simp_all add: ctrl_defs Let_def case_prod_beta load_op_io)
qed

lemma begin_cycle_io: "io (begin_cycle irq m) = io m"
  by (simp add: begin_cycle_def Let_def fetch_opcode_def accept_interrupt_def load_op_io)

lemma cycle_prints: "prints (io m) (io (ExecuteMachineCycle io_bus irq m))"
proof -
  let ?b = "begin_cycle irq m"
  obtain i where "lookup_case (r_ir (cpu ?b)) = Some i" by (rule lookup_case_total)
  then have "io (ExecuteMachineCycle io_bus irq m) = io (exec_instr io_bus i ?b)" by (simp add: ExecuteMachineCycle_def Decode_def)
  moreover have "prints (io ?b) (io (exec_instr io_bus i ?b))"
    by (rule exec_io) (simp_all add: io_bus_def PortIn_silent PortOut_silent)
  ultimately show ?thesis by (simp add: begin_cycle_io)
qed

section \<open>The machine\<close>

lemma hw_cycle_prints: "prints (hw_io h) (hw_io (hw_cycle fo h))"
proof -
  let ?r = "hw_rasterize h"
  have "prints (hw_io h) (hw_io ?r)"
    using Rasterize_prints [of "(hw_display h, hw_io h, hw_mem h)"] by (simp add: hw_rasterize_def hw_io_def case_prod_beta Let_def)
  moreover have "prints (hw_io ?r) (hw_io (hw_execute ?r))"
    using cycle_prints by (simp add: hw_execute_def hw_io_def)
  moreover have "prints x (hw_io (hw_sound fo g))" if "prints x (hw_io g)" for x g
    by (rule prints_then_silent [OF that]) (simp_all add: hw_sound_def hw_views Let_def case_prod_beta)
  ultimately show ?thesis unfolding hw_cycle_def by (blast intro: prints_trans)
qed

lemma upd_mem_io [simp]: "hw_io (upd_mem g h) = hw_io h"
  by (simp add: hw_views)

lemma instruction_prints:
  assumes "instruction_cycles fo h = Some g"
  shows "prints (hw_io h) (hw_io g)"
proof (rule instruction_cycles.raw_induct [where P = "\<lambda>fo h g. prints (hw_io h) (hw_io g)", OF _ assms])
  fix rec and fo :: "'a float_ops" and h g :: "('a, 'b) hardware"
  assume hyp: "\<And>fo h g. rec fo h = Some g \<Longrightarrow> prints (hw_io h) (hw_io g)"
    and step: "(let h1 = hw_cycle fo h in if IsInstructionExecuted (hw_cpu h1) then Some h1 else rec fo h1) = Some g"
  show "prints (hw_io h) (hw_io g)"
    using step hyp [of fo "hw_cycle fo h" g] hw_cycle_prints [of h fo] by (auto simp: Let_def intro: prints_trans split: if_splits)
qed

lemma headless_prints:
  assumes "headless_loop fo stop h = Some g"
  shows "prints (hw_io h) (hw_io g)"
proof (rule headless_loop.raw_induct [where P = "\<lambda>fo stop h g. prints (hw_io h) (hw_io g)", OF _ assms])
  fix rec and fo :: "'a float_ops" and stop and h g :: "('a, 'b) hardware"
  assume hyp: "\<And>fo stop h g. rec fo stop h = Some g \<Longrightarrow> prints (hw_io h) (hw_io g)"
    and step: "Option.bind (instruction_cycles fo (upd_mem DebugInit h)) (\<lambda>h1. if stop h1 then Some h1 else rec fo stop h1) = Some g"
  from step obtain g1 where g1: "instruction_cycles fo (upd_mem DebugInit h) = Some g1"
    "(if stop g1 then Some g1 else rec fo stop g1) = Some g" by (auto simp: bind_eq_Some_conv)
  show "prints (hw_io h) (hw_io g)"
    using instruction_prints [OF g1(1)] g1(2) hyp [of fo stop g1 g] by (auto intro: prints_trans split: if_splits)
qed

lemma RunHeadless_prints: "RunHeadless fo b f n h = Some (j, g) \<Longrightarrow> prints (hw_io h) (hw_io g)"
  by (auto simp: RunHeadless_def Let_def bind_eq_Some_conv dest: headless_prints)

lemma restart_silent:
  assumes "hw_debugger h = None" "Hw_Restart fo hk h = Inr g"
  shows "debug_out (hw_io g) = debug_out (hw_io h)" "debug_hooked (hw_io g) = debug_hooked (hw_io h)"
proof -
  have g: "g = upd_mem Memory_Restart (audio_reset fo (upd_display Display_Reset (upd_cpu Cpu_Reset (add_offsets h))))"
    using assms by (simp add: reset_states)
  show "debug_out (hw_io g) = debug_out (hw_io h)" "debug_hooked (hw_io g) = debug_hooked (hw_io h)"
    by (simp_all add: g audio_reset_def add_offsets_def hw_views Let_def case_prod_beta)
qed

end
