(* ===== verification/App_Main.thy ===== *)
theory App_Main
  imports Server Command_Line Screenshot Machine_New Test_Port
begin

text \<open>
  The program (\<^verbatim>\<open>app/main.cpp\<close>) and its test mode (\<^verbatim>\<open>app/test_mode.cpp\<close>), with the loading of files
  (\<^verbatim>\<open>utils/utils.cpp\<close>): from the arguments to the exit code and the lines on the console, or to the
  machine that the server starts with.

  Files and the path of the executable are a record of functions. The hardware thread is stopped while
  the main thread sends its requests, so each is handled at once. An exception that leaves \<^verbatim>\<open>main\<close>
  ends the program, \<open>Terminated\<close>; the clock is a function of the number of lines the run has printed; a run that does not end is \<^term>\<open>None\<close>. Copying a file into the RAM
  beyond its end, which the code does not check, is outside the model.
\<close>

section \<open>Files\<close>

record app_files =
  regular_file :: "string \<Rightarrow> bool"
  can_open :: "string \<Rightarrow> bool"
  contents :: "string \<Rightarrow> u8 list"
  executable_path :: string
  pictures :: picture_files

definition IsFileExist :: "app_files \<Rightarrow> string \<Rightarrow> bool" where
  "IsFileExist fs path \<longleftrightarrow> path \<noteq> [] \<and> regular_file fs path"

definition GetExecutableDir :: "app_files \<Rightarrow> string" where
  "GetExecutableDir fs = path_parent (executable_path fs) @ ''/''"

definition ResolvePath :: "app_files \<Rightarrow> string \<Rightarrow> string" where
  "ResolvePath fs path =
    (if path = [] then []
     else if IsFileExist fs path then path
     else (let p = GetExecutableDir fs @ path in if IsFileExist fs p then p else []))"

definition LoadFile :: "app_files \<Rightarrow> string \<Rightarrow> u8 list option \<times> console_line list" where
  "LoadFile fs path =
    (let p = ResolvePath fs path
     in if p = [] then (None, [])
        else if \<not> can_open fs p then (None, [Err (''Failed to open file: '' @ p @ newline)])
        else (Some (contents fs p), []))"

section \<open>The environment and the end\<close>

record ('f, 'r, 'v) app_env =
  app_server :: "('f, 'r, 'v) server_env"
  app_files :: app_files
  app_garbage :: garbage
  app_lua :: 'v
  app_lua_ok :: bool
  app_recorder :: hw_state
  app_clock :: "nat \<Rightarrow> string"

datatype 'h app_end =
    Exited int "console_line list"
  | Terminated "console_line list"
  | Serves u16 color_format 'h "console_line list"

type_synonym ('f, 'r, 'v) ending = "('f, 'r, 'v) machine_state app_end"

text \<open>A request of the main thread: it goes on with the result, or ends with the exception.\<close>

definition ask ::
  "('f, 'r, 'v) app_env \<Rightarrow> int \<Rightarrow> jval \<Rightarrow> console_line list \<Rightarrow> ('f, 'r, 'v) machine_state \<Rightarrow>
    (jval option \<Rightarrow> ('f, 'r, 'v) machine_state \<Rightarrow> ('f, 'r, 'v) ending option) \<Rightarrow> ('f, 'r, 'v) ending option" where
  "ask env c j out h k =
    Option.bind (Hw_Request (app_server env) 1 0 c j h) (\<lambda>(res, h1).
      case res of
        Returned x \<Rightarrow> k (Some x) h1
      | Not_handled \<Rightarrow> k None h1
      | Threw e \<Rightarrow> Some (Terminated out))"

definition jbytes :: "u8 list \<Rightarrow> jval" where
  "jbytes bs = JList (map (\<lambda>b. JNum (uint b)) bs)"

definition hex_signed :: "nat \<Rightarrow> int \<Rightarrow> string" where
  "hex_signed w i = (if i < 0 then CHR ''-'' # hex_text True (w - 1) (nat (- i)) else hex_text True w (nat i))"

definition hex4 :: "16 word \<Rightarrow> string" where "hex4 w = hex_text True 4 (unat w)"
definition hex2 :: "8 word \<Rightarrow> string" where "hex2 w = hex_text True 2 (unat w)"

section \<open>Test mode\<close>

text \<open>
  What the test port prints: the line of the callback, \<^verbatim>\<open>TEST_OUT\<close>, and the line of \<^verbatim>\<open>dev::Log\<close>,
  which begins with the local time.
\<close>

fun print_line :: "string \<Rightarrow> test_print \<Rightarrow> console_line" where
  "print_line now (Debug_callback port v) = Out (''TEST_OUT port=0x'' @ hex2 port @ '' value=0x'' @ hex2 v @ newline)"
| "print_line now (Debug_log v) =
    Out (''Local time '' @ now @ ''  '' @ ''Debug Port (0xED) out: '' @ dec_text 1 (unat v) @ newline)"

definition printed_lines :: "(nat \<Rightarrow> string) \<Rightarrow> test_print list \<Rightarrow> console_line list" where
  "printed_lines clock ps = map (\<lambda>(i, q). print_line (clock i) q) (enumerate 0 ps)"

record run_result =
  res_pc :: u16
  res_cc :: u64
  res_frames :: u64
  res_halted :: bool

definition read_result :: "jval \<Rightarrow> debug_error + run_result" where
  "read_result j =
    and_then (fld ''pc'' get_word j) (\<lambda>pc.
    and_then (fld ''cc'' get_u64 j) (\<lambda>cc.
    and_then (fld ''frames'' get_u64 j) (\<lambda>frames.
    and_then (fld ''halted'' get_bool j) (\<lambda>halted.
      Inr \<lparr>res_pc = pc, res_cc = cc, res_frames = frames, res_halted = halted\<rparr>))))"

definition exit_line :: "run_result \<Rightarrow> console_line" where
  "exit_line r =
    Out ((if res_halted r then ''HALT'' else ''EXIT'') @ '' at PC=0x'' @ hex4 (res_pc r) @ '' after '' @ dec_text 1 (unat (res_cc r)) @
      '' cpu_cycles '' @ dec_text 1 (unat (res_frames r)) @ '' frames'' @ newline)"

definition dump_cpu :: "run_result \<Rightarrow> jval \<Rightarrow> debug_error + console_line list" where
  "dump_cpu r j =
    and_then (fld ''af'' get_word j) (\<lambda>af :: u16.
    and_then (fld ''bc'' get_word j) (\<lambda>bc :: u16.
    and_then (fld ''de'' get_word j) (\<lambda>de :: u16.
    and_then (fld ''hl'' get_word j) (\<lambda>hl :: u16.
    and_then (fld ''sp'' get_word j) (\<lambda>sp :: u16.
      Inr [Out (''CPU: A='' @ hex2 (hi af) @ '' F='' @ hex2 (lo af) @ '' B='' @ hex2 (hi bc) @ '' C='' @ hex2 (lo bc) @
             '' D='' @ hex2 (hi de) @ '' E='' @ hex2 (lo de) @ '' H='' @ hex2 (hi hl) @ '' L='' @ hex2 (lo hl) @ newline),
           Out (''     PC='' @ hex4 (res_pc r) @ '' SP='' @ hex4 sp @ '' CC='' @ dec_text 1 (unat (res_cc r)) @ newline)])))))"

definition dump_line :: "nat \<Rightarrow> memory \<Rightarrow> nat \<Rightarrow> nat \<Rightarrow> console_line" where
  "dump_line width m base offset =
    Out (hex_text True width offset @ '':'' @
      concat (map (\<lambda>j. '' '' @ hex2 (m_ram m (of_nat (base + offset + j)))) [0..<16]) @ newline)"

definition dump_memory :: "memory \<Rightarrow> console_line list" where
  "dump_memory m = Out (''MEMORY:'' @ newline) # map (\<lambda>i. dump_line 4 m 0 (16 * i)) [0..<0x10000 div 16]"

definition dump_ramdisk :: "int \<Rightarrow> memory \<Rightarrow> console_line list" where
  "dump_ramdisk n m =
    (if 0 \<le> n \<and> n < int RAM_DISK_MAX
     then Out (''RAMDISK '' @ to_string n @ '':'' @ newline) #
       map (\<lambda>i. dump_line 6 m (MEMORY_MAIN_LEN + nat n * MEMORY_RAMDISK_LEN) (16 * i)) [0..<MEMORY_RAMDISK_LEN div 16]
     else [])"

text \<open>After the run: the lines, and the screenshot that may fail.\<close>

definition report ::
  "app_files \<Rightarrow> bool \<Rightarrow> bool \<Rightarrow> int \<Rightarrow> string \<Rightarrow> jval \<Rightarrow> ('f, 'd) hardware \<Rightarrow> debug_error + int \<times> console_line list" where
  "report fs dumpCpu dumpMemory dumpRamdisk screenshotPath j h =
    and_then (read_result j) (\<lambda>r.
    and_then (if dumpCpu then dump_cpu r j else Inr []) (\<lambda>cpu_lines.
      let lines = exit_line r # cpu_lines @ (if dumpMemory then dump_memory (hw_mem h) else []) @ dump_ramdisk dumpRamdisk (hw_mem h);
          shot = (if screenshotPath = [] then None
            else SaveScreenshot (pictures fs) screenshotPath (m_frameBuffer (hw_display h)) (displayMode (io_st (hw_io h))))
      in Inr (case shot of None \<Rightarrow> (0, lines) | Some e \<Rightarrow> (1, lines @ [Err (''Error: '' @ e @ newline)]))))"

definition run_and_report ::
  "('f, 'r, 'v) app_env \<Rightarrow> bool \<Rightarrow> int \<Rightarrow> int \<Rightarrow> bool \<Rightarrow> bool \<Rightarrow> int \<Rightarrow> string \<Rightarrow> console_line list \<Rightarrow>
    ('f, 'r, 'v) machine_state \<Rightarrow> ('f, 'r, 'v) ending option" where
  "run_and_report env haltExit runFrames runCycles dumpCpu dumpMemory dumpRamdisk screenshotPath out h =
    ask env Req_RUN_HEADLESS (JObj [jbool ''haltExit'' haltExit, jword ''maxFrames'' (word_of_int runFrames :: u64),
        jword ''maxCycles'' (word_of_int runCycles :: u64)]) out h (\<lambda>res h1.
      let out1 = out @ printed_lines (app_clock env) (drop (length (debug_out (hw_io h))) (debug_out (hw_io h1)))
      in case res of
           None \<Rightarrow> Some (Exited 1 (out1 @ [Err (''Error: headless run failed'' @ newline)]))
         | Some j \<Rightarrow>
            (case report (app_files env) dumpCpu dumpMemory dumpRamdisk screenshotPath j h1 of
               Inl e \<Rightarrow> Some (Terminated out1)
             | Inr (code, lines) \<Rightarrow> Some (Exited code (out1 @ lines))))"

definition SetDebugPortOutCallback :: "('f, 'd) hardware \<Rightarrow> ('f, 'd) hardware" where
  "SetDebugPortOutCallback h = upd_hw_io (\<lambda>x. x\<lparr>debug_hooked := True\<rparr>) h"

definition RunTestMode ::
  "('f, 'r, 'v) app_env \<Rightarrow> string \<Rightarrow> int \<Rightarrow> bool \<Rightarrow> int \<Rightarrow> int \<Rightarrow> bool \<Rightarrow> bool \<Rightarrow> int \<Rightarrow> string \<Rightarrow> console_line list \<Rightarrow>
    ('f, 'r, 'v) machine_state \<Rightarrow> ('f, 'r, 'v) ending option" where
  "RunTestMode env romPath loadAddr haltExit runFrames runCycles dumpCpu dumpMemory dumpRamdisk screenshotPath out h =
    (let (rom, lines) = (if romPath = [] then (Some [], []) else LoadFile (app_files env) romPath); out1 = out @ lines
     in case rom of
          None \<Rightarrow> Some (Exited 1 (out1 @ [Err (''Error: failed to load ROM file: '' @ romPath @ newline)]))
        | Some romData \<Rightarrow>
           (let run = run_and_report env haltExit runFrames runCycles dumpCpu dumpMemory dumpRamdisk screenshotPath out1;
                h1 = SetDebugPortOutCallback h
            in if romData = [] then run h1
               else ask env Req_SET_MEM (JObj [jint ''addr'' loadAddr, (''data'', jbytes romData)]) out1 h1 (\<lambda>_ h2.
                 ask env Req_RESTART JNull out1 h2 (\<lambda>_ h3. run h3))))"

section \<open>The options\<close>

record app_options =
  o_romPath :: string
  o_bootRomPath :: string
  o_loadAddr :: int
  o_fddPath :: string
  o_fddDrive :: int
  o_fddAutoboot :: bool
  o_runFrames :: int
  o_runCycles :: int
  o_haltExit :: bool
  o_dumpCpu :: bool
  o_dumpMemory :: bool
  o_dumpRamdisk :: int
  o_serve :: bool
  o_tcpPort :: int
  o_speed :: string
  o_colorFormat :: string
  o_frameMode :: string
  o_screenshotPath :: string
  o_screenshotRequested :: bool

definition ResolveBootRomPath :: "string \<Rightarrow> string" where
  "ResolveBootRomPath path =
    (if path = ''default1'' then ''res/boot/boots.bin'' else if path = ''default2'' then ''res/boot/boot.bin'' else path)"

text \<open>The reads of \<^verbatim>\<open>main\<close>, in their order.\<close>

definition read_options :: "args_parser \<Rightarrow> app_options \<times> args_parser" where
  "read_options p =
    (let (rom, p) = GetString ''rom'' ''Path to a ROM file to load'' False [] p;
         (boot, p) = GetString ''boot-rom'' ''Boot ROM to map at address 0 on startup/reset: a file path, or preset default1 (res/boot/boots.bin) / default2 (res/boot/boot.bin)'' False [] p;
         (loadAddr, p) = GetInt ''load-addr'' ''ROM load address in hex (default: 0x100)'' False 0x100 p;
         (fdd, p) = GetString ''fdd'' ''Path to a floppy disk image to mount'' False [] p;
         (fddDrive, p) = GetInt ''fdd-drive'' ''FDD drive index (0-3, default: 0)'' False 0 p;
         (fddAutoboot, p) = HasFlag ''fdd-autoboot'' ''Reset and boot from the mounted floppy disk'' p;
         (runFrames, p) = GetInt ''run-frames'' ''Run for N frames then exit'' False 0 p;
         (runCycles, p) = GetInt ''run-cycles'' ''Run for N CPU cycles then exit'' False 0 p;
         (haltExit, p) = HasFlag ''halt-exit'' ''Stop execution when CPU executes HLT'' p;
         (dumpCpu, p) = HasFlag ''dump-cpu'' ''Print CPU registers on exit'' p;
         (dumpMemory, p) = HasFlag ''dump-memory'' ''Print full 64KB RAM dump on exit'' p;
         (dumpRamdisk, p) = GetInt ''dump-ramdisk'' ''Print RAM-disk N (0-7) contents on exit'' False (-1) p;
         (serve, p) = HasFlag ''serve'' ''Start the IPC server mode'' p;
         (tcpPort, p) = GetInt ''tcp-port'' ''TCP port for IPC server (default: 9876)'' False 9876 p;
         (speed, p) = GetString ''speed'' ''Execution speed: 1%, 20%, 50%, 100%, 200%, max'' False [] p;
         (colorFormat, p) = GetString ''color-format'' ''Pixel format for GET_FRAME_RAW: abgr (default), argb'' False ''abgr'' p;
         (frameMode, p) = GetString ''frame-mode'' ''Frame region returned by IPC: full, bordered (default), borderless'' False ''bordered'' p;
         (logLevel, p) = GetString ''log-level'' ''Log verbosity: error, warn, info, debug, trace'' False ''info'' p;
         (screenshot, p) = GetString ''screenshot'' ''Store a screenshot in a file on exit; format is selected by the extension (.bmp or .jpg)'' False [] p;
         (screenshotRequested, p) = HasFlag ''screenshot'' [] p;
         p = (if screenshotRequested \<and> screenshot = [] then RequirementMsg ''screenshot'' p else p)
     in (\<lparr>o_romPath = rom, o_bootRomPath = ResolveBootRomPath boot, o_loadAddr = loadAddr, o_fddPath = fdd,
          o_fddDrive = fddDrive, o_fddAutoboot = fddAutoboot, o_runFrames = runFrames, o_runCycles = runCycles,
          o_haltExit = haltExit, o_dumpCpu = dumpCpu, o_dumpMemory = dumpMemory, o_dumpRamdisk = dumpRamdisk,
          o_serve = serve, o_tcpPort = tcpPort, o_speed = speed, o_colorFormat = colorFormat, o_frameMode = frameMode,
          o_screenshotPath = screenshot, o_screenshotRequested = screenshotRequested\<rparr>, p))"

definition test_mode :: "app_options \<Rightarrow> bool" where
  "test_mode q \<longleftrightarrow> o_haltExit q \<or> 0 < o_runFrames q \<or> 0 < o_runCycles q"

fun color_format_option :: "string \<Rightarrow> color_format option" where
  "color_format_option s = (if s = ''argb'' then Some ARGB else if s = ''abgr'' then Some ABGR else None)"

fun frame_mode_option :: "string \<Rightarrow> int option" where
  "frame_mode_option s =
    (if s = ''full'' then Some 0 else if s = ''bordered'' then Some 1 else if s = ''borderless'' then Some 2 else None)"

definition speed_index :: "string \<Rightarrow> int" where
  "speed_index s =
    (if s = ''1%'' then 0 else if s = ''20%'' then 1 else if s = ''50%'' then 2 else if s = ''100%'' then 3
     else if s = ''200%'' then 4 else if s = ''max'' then 5 else -1)"

abbreviation apostrophe :: string where "apostrophe \<equiv> [CHR 0x27]"

text \<open>The checks before the machine is built: the exit code and the last line, or the two formats.\<close>

definition check_options :: "app_files \<Rightarrow> app_options \<Rightarrow> (int \<times> console_line) + (color_format \<times> int)" where
  "check_options fs q =
    (if o_screenshotRequested q \<and> \<not> test_mode q
     then Inl (1, Err (''Error: --screenshot requires --halt-exit, --run-frames, or --run-cycles'' @ newline))
     else if o_screenshotRequested q \<and> DetectScreenshotFormat (o_screenshotPath q) = None
     then Inl (1, Err (''Error: unsupported screenshot extension for '' @ apostrophe @ o_screenshotPath q @ apostrophe @
       '' (supported: .bmp, .jpg)'' @ newline))
     else if \<not> test_mode q \<and> \<not> o_serve q
     then Inl (0, Out (''v6emul - Vector-06C Emulator'' @ newline @ ''Use --serve to start the IPC server, or'' @ newline @
       ''    --rom <file> with --halt-exit, --run-frames, or --run-cycles for test mode.'' @ newline @ newline))
     else if o_bootRomPath q \<noteq> [] \<and> \<not> IsFileExist fs (ResolvePath fs (o_bootRomPath q))
     then Inl (1, Err (''Error: boot ROM file does not exist: '' @ o_bootRomPath q @ '', '' @ ResolvePath fs (o_bootRomPath q) @ newline))
     else if o_fddDrive q < 0 \<or> 3 < o_fddDrive q
     then Inl (1, Err (''Error: --fdd-drive must be 0-3, got '' @ to_string (o_fddDrive q) @ newline))
     else (case color_format_option (o_colorFormat q) of
       None \<Rightarrow> Inl (1, Err (''Error: --color-format must be '' @ apostrophe @ ''abgr'' @ apostrophe @ '' or '' @ apostrophe @ ''argb'' @
         apostrophe @ '', got '' @ apostrophe @ o_colorFormat q @ apostrophe @ newline))
     | Some colorFormat \<Rightarrow> (case frame_mode_option (o_frameMode q) of
         None \<Rightarrow> Inl (1, Err (''Error: --frame-mode must be '' @ apostrophe @ ''full'' @ apostrophe @ '', '' @ apostrophe @ ''bordered'' @
           apostrophe @ '', or '' @ apostrophe @ ''borderless'' @ apostrophe @ '', got '' @ apostrophe @ o_frameMode q @ apostrophe @ newline))
       | Some frameMode \<Rightarrow> Inr (colorFormat, frameMode))))"

section \<open>The program\<close>

definition new_machine :: "('f, 'r, 'v) app_env \<Rightarrow> u8 list option \<Rightarrow> ('f, 'r, 'v) machine_state" where
  "new_machine env boot = Hardware_new (sv_float (app_server env)) 0 boot None True (app_garbage env)"

definition attach_debugger :: "('f, 'r, 'v) app_env \<Rightarrow> ('f, 'r, 'v) machine_state \<Rightarrow> ('f, 'r, 'v) machine_state" where
  "attach_debugger env h =
    h\<lparr>hw_debugger := Some (Debugger_new (Scripts_new (app_lua env) (app_lua_ok env)) RECORD_FRAMES_MAX (app_recorder env))\<rparr>"

definition set_speed ::
  "('f, 'r, 'v) app_env \<Rightarrow> app_options \<Rightarrow> console_line list \<Rightarrow> ('f, 'r, 'v) machine_state \<Rightarrow>
    (('f, 'r, 'v) machine_state \<Rightarrow> ('f, 'r, 'v) ending option) \<Rightarrow> ('f, 'r, 'v) ending option" where
  "set_speed env q out h k =
    (if o_speed q = [] \<or> speed_index (o_speed q) < 0 then k h
     else ask env Req_SET_CPU_SPEED (JObj [jint ''speed'' (speed_index (o_speed q))]) out h (\<lambda>_ h1. k h1))"

definition mount_disk ::
  "('f, 'r, 'v) app_env \<Rightarrow> app_options \<Rightarrow> console_line list \<Rightarrow> ('f, 'r, 'v) machine_state \<Rightarrow>
    (console_line list \<Rightarrow> ('f, 'r, 'v) machine_state \<Rightarrow> ('f, 'r, 'v) ending option) \<Rightarrow> ('f, 'r, 'v) ending option" where
  "mount_disk env q out h k =
    (if o_fddPath q = [] then k out h
     else
       (let (fddData, lines) = LoadFile (app_files env) (o_fddPath q); out1 = out @ lines
        in case fddData of
             None \<Rightarrow> Some (Exited 1 (out1 @ [Err (''Error: failed to load FDD image: '' @ o_fddPath q @ newline)]))
           | Some bytes \<Rightarrow>
              (let out2 = out1 @ [Out (''Mounting FDD: '' @ o_fddPath q @ '' ('' @ dec_text 1 (length bytes) @ '' bytes) on drive '' @
                     to_string (o_fddDrive q) @ newline)]
               in ask env Req_LOAD_FDD (JObj [jint ''driveIdx'' (o_fddDrive q), (''data'', jbytes (fdd_bytes bytes)),
                      (''path'', JStr (o_fddPath q))]) out2 h (\<lambda>_ h1.
                    if o_fddAutoboot q then ask env Req_RESET JNull out2 h1 (\<lambda>_ h2. k out2 h2) else k out2 h1))))"

definition server_mode ::
  "('f, 'r, 'v) app_env \<Rightarrow> app_options \<Rightarrow> color_format \<Rightarrow> console_line list \<Rightarrow> ('f, 'r, 'v) machine_state \<Rightarrow>
    ('f, 'r, 'v) ending option" where
  "server_mode env q colorFormat out h =
    (let serve = (\<lambda>out h. Some (Serves (word_of_int (o_tcpPort q)) colorFormat h out))
     in if o_romPath q = [] then serve out h
        else
          (let (rom, lines) = LoadFile (app_files env) (o_romPath q); out1 = out @ lines
           in case rom of
                None \<Rightarrow> Some (Exited 1 (out1 @ [Err (''Error: failed to load ROM file: '' @ o_romPath q @ newline)]))
              | Some bytes \<Rightarrow>
                 (let out2 = out1 @ [Out (''Loading ROM: '' @ o_romPath q @ '' ('' @ dec_text 1 (length bytes) @ '' bytes) at 0x'' @
                        hex_signed 4 (o_loadAddr q) @ newline)]
                  in ask env Req_SET_MEM (JObj [jint ''addr'' (o_loadAddr q), (''data'', jbytes bytes)]) out2 h (\<lambda>_ h1.
                       ask env Req_RESTART JNull out2 h1 (\<lambda>_ h2. serve out2 h2)))))"

definition run_program ::
  "('f, 'r, 'v) app_env \<Rightarrow> app_options \<Rightarrow> color_format \<Rightarrow> int \<Rightarrow> console_line list \<Rightarrow> ('f, 'r, 'v) ending option" where
  "run_program env q colorFormat frameMode out =
    (let (boot, lines) = LoadFile (app_files env) (o_bootRomPath q); h = new_machine env boot; out1 = out @ lines;
         h1 = (if test_mode q then h else attach_debugger env h)
     in ask env Req_SET_FRAME_MODE (JObj [jint ''frameMode'' frameMode]) out1 h1 (\<lambda>_ h2.
        set_speed env q out1 h2 (\<lambda>h3.
        mount_disk env q out1 h3 (\<lambda>out2 h4.
          if test_mode q
          then RunTestMode env (o_romPath q) (o_loadAddr q) (o_haltExit q) (o_runFrames q) (o_runCycles q) (o_dumpCpu q)
                 (o_dumpMemory q) (o_dumpRamdisk q) (o_screenshotPath q) out2 h4
          else server_mode env q colorFormat out2 h4))))"

definition app_header :: "string \<Rightarrow> string" where
  "app_header version =
    ''Command-line emulator for the Vector-06C Soviet PC, version '' @ version @ newline @
      ''(c) Aleksandr Fedotovskikh <mailforfriend@gmail.com>''"

definition app_main :: "('f, 'r, 'v) app_env \<Rightarrow> string list \<Rightarrow> ('f, 'r, 'v) ending option" where
  "app_main env argv =
    (let version = sv_version (app_server env);
         p = ArgsParser argv (app_header version);
         (long, p) = HasFlag ''version'' ''Print version and exit'' p;
         (short, p) = (if long then (True, p) else HasFlag ''V'' [] p)
     in if long \<or> short then Some (Exited 0 (printed p @ [Out (version @ newline @ newline)]))
        else
          (let (q, p) = read_options p;
               (satisfied, p) = IsRequirementSatisfied p
           in if \<not> satisfied then Some (Exited 1 (printed p))
              else
                (let (known, p) = CheckUnknownArgs p
                 in if \<not> known then Some (Exited 1 (printed p))
                    else if fst (HasFlag ''help'' [] p) \<or> fst (HasFlag ''h'' [] p) then Some (Exited 0 (printed p))
                    else (case check_options (app_files env) q of
                        Inl (code, line) \<Rightarrow> Some (Exited code (printed p @ [line]))
                      | Inr (colorFormat, frameMode) \<Rightarrow> run_program env q colorFormat frameMode (printed p)))))"

section \<open>What the options are\<close>

definition option_text :: "string \<Rightarrow> string \<Rightarrow> (string \<times> string) list \<Rightarrow> string" where
  "option_text k d m = (case map_of m k of Some (c # cs) \<Rightarrow> c # cs | _ \<Rightarrow> d)"

definition option_int :: "string \<Rightarrow> int \<Rightarrow> (string \<times> string) list \<Rightarrow> int" where
  "option_int k d m = (case map_of m k of Some (c # cs) \<Rightarrow> int32 (strtol0 (c # cs)) | _ \<Rightarrow> d)"

text \<open>A read leaves everything but the help text and the known names.\<close>

definition asked :: "string \<Rightarrow> args_parser \<Rightarrow> args_parser \<Rightarrow> bool" where
  "asked k p q \<longleftrightarrow> m_args q = m_args p \<and> m_positional q = m_positional p \<and> printed q = printed p \<and>
    m_requirementSatisfied q = m_requirementSatisfied p \<and> set (m_knownArgs q) = insert k (set (m_knownArgs p))"

lemma reads_of_options:
  "fst (GetString k info False d p) = option_text k d (m_args p)" "asked k p (snd (GetString k info False d p))"
  "fst (GetInt k info False i p) = option_int k i (m_args p)" "asked k p (snd (GetInt k info False i p))"
  "fst (HasFlag k info p) \<longleftrightarrow> map_of (m_args p) k \<noteq> None" "asked k p (snd (HasFlag k info p))"
  by (simp_all add: GetString_def GetInt_def HasFlag_def given_def AddParamToHelp_def know_def option_text_def option_int_def
      asked_def Let_def split: option.split list.split)

lemma asked_sel:
  assumes "asked k p q"
  shows "m_args q = m_args p" "m_positional q = m_positional p" "printed q = printed p"
    "m_requirementSatisfied q = m_requirementSatisfied p" "set (m_knownArgs q) = insert k (set (m_knownArgs p))"
  using assms by (simp_all add: asked_def)

lemmas read_sel [simp] = reads_of_options(1,3,5) reads_of_options(2,4,6) [THEN asked_sel(1)] reads_of_options(2,4,6) [THEN asked_sel(2)]
  reads_of_options(2,4,6) [THEN asked_sel(3)] reads_of_options(2,4,6) [THEN asked_sel(4)] reads_of_options(2,4,6) [THEN asked_sel(5)]

lemma read_options_eq:
  assumes "map_of (m_args p) ''screenshot'' = None"
  shows "fst (read_options p) =
      \<lparr>o_romPath = option_text ''rom'' [] (m_args p), o_bootRomPath = ResolveBootRomPath (option_text ''boot-rom'' [] (m_args p)),
       o_loadAddr = option_int ''load-addr'' 0x100 (m_args p), o_fddPath = option_text ''fdd'' [] (m_args p),
       o_fddDrive = option_int ''fdd-drive'' 0 (m_args p), o_fddAutoboot = (map_of (m_args p) ''fdd-autoboot'' \<noteq> None),
       o_runFrames = option_int ''run-frames'' 0 (m_args p), o_runCycles = option_int ''run-cycles'' 0 (m_args p),
       o_haltExit = (map_of (m_args p) ''halt-exit'' \<noteq> None), o_dumpCpu = (map_of (m_args p) ''dump-cpu'' \<noteq> None),
       o_dumpMemory = (map_of (m_args p) ''dump-memory'' \<noteq> None), o_dumpRamdisk = option_int ''dump-ramdisk'' (-1) (m_args p),
       o_serve = (map_of (m_args p) ''serve'' \<noteq> None), o_tcpPort = option_int ''tcp-port'' 9876 (m_args p),
       o_speed = option_text ''speed'' [] (m_args p), o_colorFormat = option_text ''color-format'' ''abgr'' (m_args p),
       o_frameMode = option_text ''frame-mode'' ''bordered'' (m_args p), o_screenshotPath = option_text ''screenshot'' [] (m_args p),
       o_screenshotRequested = False\<rparr>"
    "m_args (snd (read_options p)) = m_args p" "m_positional (snd (read_options p)) = m_positional p"
    "printed (snd (read_options p)) = printed p" "m_requirementSatisfied (snd (read_options p)) = m_requirementSatisfied p"
    "set (m_knownArgs (snd (read_options p))) = set (m_knownArgs p) \<union>
      {''rom'', ''boot-rom'', ''load-addr'', ''fdd'', ''fdd-drive'', ''fdd-autoboot'', ''run-frames'', ''run-cycles'', ''halt-exit'',
       ''dump-cpu'', ''dump-memory'', ''dump-ramdisk'', ''serve'', ''tcp-port'', ''speed'', ''color-format'', ''frame-mode'',
       ''log-level'', ''screenshot''}"
  using assms by (simp_all add: read_options_def case_prod_beta Let_def) auto

section \<open>Requests of the main thread\<close>

lemma ask_eq:
  assumes "request_of 0 c j = Inr r" "\<nexists>k x. r = DEBUG_REQ k x"
    "handle_request 1 (sv_float (app_server env)) (sv_hooks (app_server env)) r h = Some (Data x, h1)"
  shows "ask env c j out h k = k (Some x) h1"
  using assms by (cases r) (simp_all add: ask_def Hw_Request_def debugger_call_def result_of_def)

lemma ask_requests:
  "request_of 0 Req_SET_FRAME_MODE (JObj [jint ''frameMode'' 1]) = Inr (Setting (SET_FRAME_MODE BORDERED))"
  "request_of 0 Req_RESTART JNull = Inr (Control RESTART)"
  "request_of 0 Req_RUN_HEADLESS (JObj [jbool ''haltExit'' b, jword ''maxFrames'' f, jword ''maxCycles'' c]) = Inr (RUN_HEADLESS b f c)"
  by (simp_all add: request_of_def query_readers_def setting_readers_def control_readers_def req_codes takes_def reads_def
      fld_const_def jint_def jbool_def jword_def and_then_def frame_mode_of_def read_headless_def)

lemma get_bytes_jbytes: "get_bytes (jbytes bs) = Inr bs"
proof -
  have "get_all (get_word :: jval \<Rightarrow> debug_error + u8) (map (\<lambda>b. JNum (uint b)) bs) = Inr bs"
    by (induction bs) (simp_all add: and_then_def)
  then show ?thesis by (simp add: jbytes_def)
qed

lemma set_mem_request:
  "request_of 0 Req_SET_MEM (JObj [jint ''addr'' a, (''data'', jbytes bs)]) = Inr (Setting (SET_MEM (word_of_int a) bs))"
  by (simp add: request_of_def query_readers_def setting_readers_def control_readers_def req_codes reads2_def fld_const_def jint_def
      and_then_def get_bytes_jbytes)

lemma ask_set_mem:
  "ask env Req_SET_MEM (JObj [jint ''addr'' a, (''data'', jbytes bs)]) out h k =
    k (Some JNull) (upd_mem (SetRam (word_of_int a) bs) h)"
  by (rule ask_eq [OF set_mem_request]) (simp_all add: setting_reply_def set_request_def)

lemma ask_frame_mode:
  "ask env Req_SET_FRAME_MODE (JObj [jint ''frameMode'' 1]) out h k =
    k (Some JNull) (upd_display (\<lambda>d. d\<lparr>m_frameMode := BORDERED\<rparr>) h)"
  by (rule ask_eq [OF ask_requests(1)]) (simp_all add: setting_reply_def set_request_def)

lemma ask_restart:
  assumes "hw_alone h"
  shows "\<exists>g. hw_alone g \<and> debug_hooked (hw_io g) = debug_hooked (hw_io h) \<and>
    (\<forall>k. ask env Req_RESTART JNull out h k = k (Some JNull) g)"
proof -
  let ?fo = "sv_float (app_server env)" and ?hk = "sv_hooks (app_server env)"
  obtain g where g: "Hw_Restart ?fo ?hk h = Inr g" "hw_alone g"
    using Hw_Reset_ok(2) [OF assms, of ?fo ?hk] hw_alone_reset(2) [OF assms, of ?fo] by metis
  have "ask env Req_RESTART JNull out h k = k (Some JNull) g" for k
    by (rule ask_eq [OF ask_requests(2)]) (simp_all add: control_request_def quietly_def and_then_def reply_of_def g(1))
  with g(2) restart_silent(2) [OF hw_alone_none [OF assms] g(1)] show ?thesis by blast
qed

text \<open>A run with a bound on its cycles ends and is reported.\<close>

lemma headless_result:
  assumes "hw_inv h" "0 < n" "unat n + 24 < 2 ^ 64"
  shows "\<exists>j g r cs. RunHeadless fo b f n h = Some (j, g) \<and> read_result j = Inr r \<and> dump_cpu r j = Inr cs \<and>
    unat (res_cc r) < unat n + 24 \<and> (\<not> b \<and> f = 0 \<longrightarrow> n \<le> res_cc r)"
proof -
  let ?cc = "r_cc (hw_cpu h)" and ?stop = "headless_done b f n (r_cc (hw_cpu h)) (frameNum (hw_display h))"
  have "unat (elapsed ?cc h) < unat n" using assms(2) by (simp add: elapsed_def word_less_nat_alt)
  moreover have "\<And>g. n \<le> elapsed ?cc g \<Longrightarrow> ?stop g" using assms(2) by (simp add: headless_done_def elapsed_def)
  ultimately obtain g where g: "headless_loop fo ?stop h = Some g" "?stop g" "unat (elapsed ?cc g) < unat n + 24"
    using headless_loop_ends [OF assms(1) _ assms(3), of ?cc ?stop fo] by auto
  then show ?thesis
    by (auto simp: RunHeadless_def Let_def read_result_def dump_cpu_def fld_def and_then_def jword_def jbool_def elapsed_def
        headless_done_def)
qed

lemma run_and_report_ends:
  assumes "hw_alone h" "debug_hooked (hw_io h)" "0 < n" "n < 2 ^ 31"
  shows "\<exists>vs r rest. run_and_report env b f n dc dm dr [] out h =
      Some (Exited 0 (out @ printed_lines (app_clock env) (sent_to_port True vs) @ exit_line r # rest)) \<and>
    unat (res_cc r) < nat n + 24 \<and> (\<not> b \<and> f = 0 \<longrightarrow> nat n \<le> unat (res_cc r)) \<and> (\<not> dc \<and> \<not> dm \<and> dr < 0 \<longrightarrow> rest = [])"
proof -
  have n: "0 < (word_of_int n :: u64)" "unat (word_of_int n :: u64) = nat n"
    using assms(3,4) by (simp_all add: word_less_nat_alt unat_eq_nat_uint uint_word_of_int)
  have "hw_inv h" using assms(1) by (simp add: hw_alone_def)
  moreover have "nat n + 24 < 2 ^ 64" using assms(4) by simp
  ultimately have "\<exists>j g r cs. RunHeadless (sv_float (app_server env)) b (word_of_int f) (word_of_int n) h = Some (j, g) \<and>
      read_result j = Inr r \<and> dump_cpu r j = Inr cs \<and> unat (res_cc r) < nat n + 24 \<and>
      (\<not> b \<and> word_of_int f = (0 :: u64) \<longrightarrow> (word_of_int n :: u64) \<le> res_cc r)"
    using headless_result [of h "word_of_int n" "sv_float (app_server env)" b "word_of_int f"] n by simp
  then obtain j g r cs where r: "RunHeadless (sv_float (app_server env)) b (word_of_int f) (word_of_int n) h = Some (j, g)"
    "read_result j = Inr r" "dump_cpu r j = Inr cs" "unat (res_cc r) < nat n + 24"
    "\<not> b \<and> word_of_int f = (0 :: u64) \<longrightarrow> (word_of_int n :: u64) \<le> res_cc r" by blast
  from RunHeadless_prints [OF r(1)] obtain vs where vs: "debug_out (hw_io g) = debug_out (hw_io h) @ sent_to_port True vs"
    using assms(2) by (auto simp: prints_def)
  have a: "ask env Req_RUN_HEADLESS (JObj [jbool ''haltExit'' b, jword ''maxFrames'' (word_of_int f :: u64),
      jword ''maxCycles'' (word_of_int n :: u64)]) out h k = k (Some j) g" for k
    by (rule ask_eq [OF ask_requests(3)]) (simp_all add: r(1))
  show ?thesis
    unfolding run_and_report_def a
    using r(2-5) n(2)
    by (auto simp: report_def and_then_def Let_def dump_ramdisk_def word_le_nat_alt vs intro!: exI [of _ vs] exI [of _ r])
qed

lemma test_mode_ends:
  assumes "hw_alone h" "0 < n" "n < 2 ^ 31" "LoadFile (app_files env) path = (Some bytes, lines)" "path \<noteq> []"
  shows "\<exists>vs r rest. RunTestMode env path a b f n dc dm dr [] out h =
      Some (Exited 0 (out @ lines @ printed_lines (app_clock env) (sent_to_port True vs) @ exit_line r # rest)) \<and>
    unat (res_cc r) < nat n + 24 \<and> (\<not> b \<and> f = 0 \<longrightarrow> nat n \<le> unat (res_cc r)) \<and> (\<not> dc \<and> \<not> dm \<and> dr < 0 \<longrightarrow> rest = [])"
proof -
  let ?h = "SetDebugPortOutCallback h"
  have ok: "hw_alone ?h" "debug_hooked (hw_io ?h)"
    using assms(1) by (simp_all add: SetDebugPortOutCallback_def) (simp add: hw_views)
  show ?thesis
  proof (cases "bytes = []")
    case True
    then show ?thesis
      using run_and_report_ends [OF ok assms(2,3), of env b f dc dm dr "out @ lines"] assms(4,5) by (simp add: RunTestMode_def)
  next
    case False
    let ?h1 = "upd_mem (SetRam (word_of_int a) bytes) ?h"
    have "hw_alone ?h1" using ok(1) by simp
    from ask_restart [OF this, of env "out @ lines"] ok(2) obtain g where g: "hw_alone g" "debug_hooked (hw_io g)"
      "\<And>k. ask env Req_RESTART JNull (out @ lines) ?h1 k = k (Some JNull) g" by auto
    show ?thesis
      using run_and_report_ends [OF g(1,2) assms(2,3), of env b f dc dm dr "out @ lines"] assms(4,5) False
      by (simp add: RunTestMode_def ask_set_mem g(3))
  qed
qed

section \<open>Properties\<close>

definition run_cycles_args :: "string \<Rightarrow> int \<Rightarrow> (string \<times> string option) list" where
  "run_cycles_args path n = [(''rom'', Some path), (''run-cycles'', Some (to_string n))]"

lemma to_string_plain:
  assumes "0 < n"
  shows "to_string n \<noteq> []" "hd (to_string n) \<noteq> CHR ''-''"
proof -
  obtain d ds where d: "dec_digits (nat n) = d # ds" "d < 10"
    using dec_digits_start [of "nat n"] dec_digits_bound [of _ "nat n"] assms by (cases "dec_digits (nat n)") auto
  have t: "to_string n = digit_char True d # map (digit_char True) ds"
    using assms by (simp add: to_string_def dec_text_def pad_left_def d(1))
  show "to_string n \<noteq> []" "hd (to_string n) \<noteq> CHR ''-''"
    using digit_char_plain(2) [of d True] d(2) by (simp_all add: t)
qed

text \<open>The options of such a run: the ROM, the number of cycles, and defaults.\<close>

lemma parsed_run:
  fixes prog description :: string
  assumes "path \<noteq> []" "hd path \<noteq> CHR ''-''" "0 < n" "n < 2 ^ 31"
  defines "p \<equiv> ArgsParser (prog # written (run_cycles_args path n)) description"
  shows "map_of (m_args p) = map_of [(''rom'', path), (''run-cycles'', to_string n)]" "m_positional p = []" "printed p = []"
    "m_requirementSatisfied p" "option_int ''run-cycles'' 0 (m_args p) = n" "option_text ''rom'' [] (m_args p) = path"
proof -
  have w: "writable (run_cycles_args path n)"
    using assms(1,2) to_string_plain [OF assms(3)] by (simp add: writable_def run_cycles_args_def)
  let ?start = "AddDescriptionToHelp description
      \<lparr>m_args = [], m_knownArgs = [], m_positional = [], m_help = [], m_requirementSatisfied = True, printed = []\<rparr>"
  have p: "p = parse_args (written (run_cycles_args path n)) ?start" by (simp add: p_def ArgsParser_def)
  have w1: "\<forall>k. map_of (m_args p) k = (case map_of (run_cycles_args path n) k of Some v \<Rightarrow> Some (value_text v) | None \<Rightarrow> None)"
    and pos: "m_positional p = []"
    using parse_written [OF w, of ?start] by (simp_all add: p cong: option.case_cong)
  have m: "map_of (m_args p) = map_of [(''rom'', path), (''run-cycles'', to_string n)]"
  proof
    fix k
    show "map_of (m_args p) k = map_of [(''rom'', path), (''run-cycles'', to_string n)] k"
      using w1 [rule_format, of k] by (simp add: run_cycles_args_def value_text_def split: if_splits)
  qed
  have kept: "printed (parse_args as q) = printed q \<and> m_requirementSatisfied (parse_args as q) = m_requirementSatisfied q" for as q
    by (induction as q rule: parse_args.induct) (simp_all add: add_arg_def)
  show "map_of (m_args p) = map_of [(''rom'', path), (''run-cycles'', to_string n)]" "m_positional p = []" by (fact m pos)+
  show "printed p = []" "m_requirementSatisfied p"
    using kept by (simp_all add: p_def ArgsParser_def AddDescriptionToHelp_def)
  obtain c cs where c: "path = c # cs" using assms(1) by (cases path) auto
  obtain d ds where d: "to_string n = d # ds" using to_string_plain [OF assms(3)] by (cases "to_string n") auto
  have "strtol0 (to_string n) = n" using strtol0_dec [of "nat n"] assms(3,4) by (simp add: to_string_def)
  then show "option_int ''run-cycles'' 0 (m_args p) = n"
    using assms(3,4) by (simp add: option_int_def m d)
  show "option_text ''rom'' [] (m_args p) = path" by (simp add: option_text_def m c)
qed


text \<open>A disk with one file, a jump to itself.\<close>

definition sample_files :: app_files where
  "sample_files = \<lparr>regular_file = (\<lambda>p. p = ''a.rom''), can_open = (\<lambda>_. True), contents = (\<lambda>_. [0xC3, 0x00, 0x01]),
    executable_path = ''/bin/v6emul'', pictures = \<lparr>is_directory = (\<lambda>_. True), write_bmp = (\<lambda>_ _ _ _ _. 1), write_jpg = (\<lambda>_ _ _ _ _ _. 1)\<rparr>\<rparr>"

definition sample_app :: "garbage \<Rightarrow> hw_state \<Rightarrow> (int, rat, nat) app_env" where
  "sample_app g r = \<lparr>app_server = sample_server, app_files = sample_files, app_garbage = g, app_lua = 0, app_lua_ok = True,
    app_recorder = r, app_clock = (\<lambda>_. ''2024-01-01 00:00:00'')\<rparr>"


end
