(* ===== verification/Spec2Isabelle.thy ===== *)
theory Spec2Isabelle
  imports Cpu_Props Keyboard Timer_I8253 Sound_AY8910 TQueue Audio Fdc_WD1793 IO_Ports Display
    Step_Over Disasm Debug_Shape App_Main
begin

text \<open>
  A verification development for v6emul, an emulator of the Vector-06C home computer with a
  debugger, Lua scripts and a server that other programs drive it through. Paths are relative to
  \<^verbatim>\<open>src/libs/v6core\<close> unless they start with \<^verbatim>\<open>app\<close>, \<^verbatim>\<open>utils\<close> (\<^verbatim>\<open>libs/v6utils\<close>) or \<^verbatim>\<open>ipc\<close>
  (\<^verbatim>\<open>libs/v6ipc\<close>).

  \<^bold>\<open>How it runs.\<close> One thread, the hardware thread, owns the machine. It runs the processor one
  machine cycle at a time; after each cycle the rasteriser draws 16 pixels and the sound is clocked,
  and the ports commit what was written to them some pixels later. After every instruction it calls
  the debugger's hook, which may write to the memory and may stop the machine, and polls the queue of
  requests; a request that the hardware does not know goes to the debugger. The server reads
  length-prefixed MessagePack messages, validates each completely, hands it to the hardware thread
  and sends one answer; an empty message ends the connection. Frames go out in a binary envelope of
  their own.

  \<^bold>\<open>Shared theories.\<close>
  \<^item> \<open>Prelude\<close>: integer types, register pairs, single-bit views, the rule collections, and the
    locales \<open>stepping\<close> (a transition function with an invariant; interpreted by the processor, the
    sound chip, the label tables, the watchpoints and the debug data), \<open>byte_store\<close> (read over
    write; by the memory seen by the processor, by its global view, by a disk image, by the
    reference machine and by the recorder's view) and \<open>bounded_fifo\<close> (by the queue between threads
    and by the audio ring).
  \<^item> \<open>Tables\<close>: the conditions of \<^verbatim>\<open>utils/types.h\<close> and the locale \<open>change_counter\<close>, the contract of
    the counters that clients poll (by breakpoints, watchpoints, labels, comments, edits and
    performance records).
  \<^item> \<open>Str_Utils\<close>: \<^verbatim>\<open>utils/str_utils.cpp\<close>. \<open>Wire_Bytes\<close>: integers as bytes. \<open>Req_Codes\<close>: the codes
    of \<^verbatim>\<open>hardware_consts.h\<close>. \<open>Utf8\<close>: the two UTF-8 validators, both equivalent to RFC 3629.

  \<^bold>\<open>The processor\<close> (\<^verbatim>\<open>cpu_i8080.cpp\<close>).
  \<^item> \<open>Cpu_State\<close>: \<open>cpu_state\<close> is the struct of the registers and latches, with one function for each
    arithmetic helper. \<open>Cpu_Alu\<close>: what these compute, stated on numbers.
  \<^item> \<open>Cpu_Exec\<close>: one function for each handler, one branch for each machine cycle of its switch.
    \<open>Cpu_Decode\<close>: the switch over the opcodes, the three tables, interrupts, \<open>ExecuteMachineCycle\<close>.
  \<^item> \<open>Cpu_Isa\<close>: the instruction set written from its documentation. \<open>Cpu_Refine\<close> and \<open>Cpu_Props\<close>: a
    simulation between the two for every instruction, and for runs of any length, in which
    \<open>code_step\<close> is the reference step but for MOV M,L, which the code cuts short, and leaves a halted
    processor as it is; the invariant of the flag byte and of the cycle index, interrupts, timing.

  \<^bold>\<open>Memory and devices.\<close>
  \<^item> \<open>Memory\<close> (\<^verbatim>\<open>memory.cpp\<close>): the array, the mapping of the RAM disks, the boot ROM; the translation of
    addresses is bounded and injective.
  \<^item> \<open>Keyboard\<close>, \<open>Timer_I8253\<close>, \<open>Sound_AY8910\<close>, \<open>Fdc_WD1793\<close>: the four devices, each operation of
    each register; pointers into disk images are values and an access outside is an error.
  \<^item> \<open>IO_Ports\<close> (\<^verbatim>\<open>io.cpp\<close>): IN and OUT, the commit timers, what the test port 0xED prints.
    \<open>Display\<close> (\<^verbatim>\<open>display.cpp\<close>): the rasteriser, its fast and careful paths, the frame buffers.
    \<open>Audio\<close>: the mixer and its ring. \<open>TQueue\<close> (\<^verbatim>\<open>utils/tqueue.h\<close>): the queue of requests.

  \<^bold>\<open>The hardware thread\<close> (\<^verbatim>\<open>hardware.cpp\<close>).
  \<^item> \<open>Hardware\<close>: the record \<open>hardware\<close> holds all of the above and the session's counters; a cycle, an
    instruction, reset, restart, run, stop. \<open>Hw_Requests\<close>: every request, and the mutual recursion of
    executing and polling. \<open>Hw_Sample\<close>: concrete machines. \<open>Hw_Props\<close>: the invariant of machine and
    beam (\<open>hw_fit\<close>; \<open>hw_alone\<close> without a debugger) under any program and any requests, by rule induction
    on \<open>thread_step\<close> inside the locale \<open>debug_contract\<close>, which says what an attached debugger must keep;
    and that executions return. \<open>Test_Port\<close>: a run prints nothing but the lines of the bytes that the
    program sends to the test port. \<open>Step_Over\<close>: the address of a step over against the instruction set.
  \<^item> \<open>Request_Json\<close>: how the JSON data of a request is read, field by field, with the errors of the
    library and the reads C++ leaves undefined.

  \<^bold>\<open>The debugger.\<close>
  \<^item> \<open>Breakpoints\<close>, \<open>Watchpoints\<close>, \<open>Code_Perf\<close>, \<open>Debug_Data\<close>: its tables, with every operation.
  \<^item> \<open>Disasm_Cmds\<close>, \<open>Disasm_I8080\<close>, \<open>Disasm_Z80\<close>: the constants of the two command tables, in their
    order; \<open>Disasm_Text\<close> compares them with the instruction set, opcode by opcode. \<open>Disasm_Print\<close>
    and \<open>Disasm\<close>: printing a line within its buffer, the window, walking back, links.
  \<^item> \<open>Trace_Log\<close>: the log of executed instructions, a refinement of a list; callers, patterns,
    filters. \<open>Recorder\<close> and \<open>Recording_File\<close>: playing the execution back and forth, the file (the
    locale \<open>codec\<close>, interpreted by each packed struct).
  \<^item> \<open>Scripts\<close> and \<open>Script_Runs\<close>: the Lua scripts, what they may do, their budget and their limits.
  \<^item> \<open>Debugger\<close> (\<^verbatim>\<open>debugger.cpp\<close>): the check after an instruction, every request, the map of the latest
    accesses; it supplies the hooks of \<open>Hardware\<close>. \<open>Debug_Run\<close>: when it stops a program, read-only
    edits, taking an edit back, and that the hooks are total. \<open>Debug_Shape\<close>: the debugger satisfies
    \<open>debug_contract\<close>, so the machine keeps its shape with a debugger attached too, for all requests
    but loading a recording, and playing one back before anything was recorded.

  \<^bold>\<open>The server.\<close>
  \<^item> \<open>Raw_Frame\<close> (\<^verbatim>\<open>ipc/raw_frame.cpp\<close>, \<^verbatim>\<open>transport.cpp\<close>): the envelope and the transfer in portions.
  \<^item> \<open>Script_Path\<close> and \<open>Ipc_Request\<close> (\<^verbatim>\<open>app/ipc_request.cpp\<close>, \<^verbatim>\<open>ipc/server_info.cpp\<close>): the validation
    of every command with its errors, the announced capabilities and the client's check of them.
  \<^item> \<open>Server\<close> (\<^verbatim>\<open>app/server_mode.cpp\<close>): one message in, one answer out (none for an empty message),
    and the loop over clients. Its main theorem composes validation, reading, hardware, debugger and scripts.

  \<^bold>\<open>The program.\<close>
  \<^item> \<open>Command_Line\<close> (\<^verbatim>\<open>utils/args_parser.cpp\<close>): parsing the arguments and the typed reads; options
    written out are read back. \<open>Machine_New\<close>: the constructors of the machine, with uninitialised
    memory as an argument; a new machine is in the shape that all runs keep, and a reset is a power-on.
  \<^item> \<open>Screenshot\<close> (\<^verbatim>\<open>app/screenshot.cpp\<close>): the borderless frame as an image, and the errors of saving it.
  \<^item> \<open>App_Main\<close> (\<^verbatim>\<open>app/main.cpp\<close>, \<^verbatim>\<open>test_mode.cpp\<close>, \<^verbatim>\<open>utils/utils.cpp\<close>): from the arguments to the
    exit code and the console, or to the machine the server starts with; a test run with a limit ends,
    and its console output is known line by line, the time in the lines of the log being a parameter.

  \<^bold>\<open>How the code's constructs are modelled.\<close> A struct is a record, an enum a datatype, a machine
  integer a word of its width where it can wrap and an \<open>int\<close> where its range is proved. An exception, a
  wrong JSON type or an access that C++ leaves undefined is a value of a sum type or a fault mark
  that the invariants exclude. Hash tables are association lists in their order of iteration.
  Threads appear as steps: what another thread pushes or sends is an input. Wall-clock time, what
  the operating system delivers, files, the Lua machine, MessagePack, and the arithmetic of \<^verbatim>\<open>float\<close>
  and \<^verbatim>\<open>double\<close> are parameters; what a theorem needs of one is a hypothesis with a name
  (\<open>ends_on_error\<close>, \<open>finite_calls\<close>, \<open>refs_ok\<close>), and its witness has a concrete one.

  \<^bold>\<open>Recursion and fuel.\<close> The loops over machine cycles, a headless run, the pattern matcher, the
  counting of substrings and the run of a script are partial functions, so that not returning is
  \<open>None\<close>; \<open>execution_returns\<close>, \<open>GlobMatches_decides\<close> and \<open>script_run_returns\<close> show that they return,
  the last with at most 101000 counted instructions. The recursion of executing, polling and
  handling takes fuel; \<open>execution_returns\<close> gives a fuel for the frame step, and
  \<open>every_message_answered\<close> needs one unit, because the commands it speaks of do not execute.

  \<^bold>\<open>Not modelled.\<close>
  \<^item> Saving the RAM disk when the machine is destroyed, and what the image library writes: input and
    output without a state of their own. A ROM file larger than the RAM behind its load address, which
    the code copies without a check.
  \<^item> \<^verbatim>\<open>json_utils.cpp\<close> and \<^verbatim>\<open>result.h\<close>: accessors of the JSON library and a carrier of results; the
    helpers of \<^verbatim>\<open>utils/utils.cpp\<close> for clock, console and directories.
  \<^item> What \<^verbatim>\<open>dev::Log\<close> writes, except for the test port: the other messages come from the thread that
    runs freely and from the debugger, not from a test run.
  \<^item> Opening, accepting and closing sockets; MessagePack itself; the pacing to wall-clock time.
  \<^item> \<^verbatim>\<open>Recorder::GetStatesSize\<close>, which nothing calls; the floating-point parser and the wide-string
    copies of \<^verbatim>\<open>str_utils.cpp\<close>; printing of breakpoints and watchpoints to the log.
  \<^item> Third-party code, tools and tests.
\<close>

end
